(* ===== verification/Prelude.thy ===== *)
theory Prelude
  imports Main "HOL-Library.Word"
begin

text \<open>
  Shared vocabulary of the development: names for Rust's machine integers, the clock
  readings and durations of \<open>std::time\<close>, a value of a computation that may panic, and
  generic facts on words and lists that several components use.

  Integers keep their width. Arithmetic that the source writes with \<open>+\<close>, \<open>-\<close>,
  \<open>*\<close> wraps, as it does in the release profile of the workspace's \<open>Cargo.toml\<close>
  (no \<open>overflow-checks\<close>); the places where a debug build would panic instead are
  named where they occur.
\<close>

named_theorems wf_intros \<open>preservation lemmas of the component invariants\<close>

type_synonym u8 = "8 word"
type_synonym u32 = "32 word"
type_synonym u64 = "64 word"
type_synonym usize = "64 word"
type_synonym u128 = "128 word"

subsection \<open>Clock readings\<close>

text \<open>
  An \<open>Instant\<close> is a number of nanoseconds on a monotonic clock and a \<open>Duration\<close> a
  number of nanoseconds. \<open>Instant::elapsed\<close> and \<open>duration_since\<close> saturate at zero,
  as subtraction on \<^typ>\<open>nat\<close> does. Every call of \<open>Instant::now\<close> is an argument of
  the model, so that two readings in one function are two arguments.
\<close>

type_synonym instant = nat
type_synonym duration = nat

definition secs :: "nat \<Rightarrow> duration" where
  "secs n = n * 1000000000"

definition millis :: "nat \<Rightarrow> duration" where
  "millis n = n * 1000000"

definition elapsed :: "instant \<Rightarrow> instant \<Rightarrow> duration" where
  "elapsed now since = now - since"

lemma elapsed_self [simp]: "elapsed t t = 0"
  by (simp add: elapsed_def)

lemma elapsed_mono: "now \<le> now' \<Longrightarrow> elapsed now t \<le> elapsed now' t"
  by (simp add: elapsed_def)

lemma secs_le_iff [simp]: "secs m \<le> secs n \<longleftrightarrow> m \<le> n"
  by (simp add: secs_def)

lemma secs_pos_iff [simp]: "0 < secs n \<longleftrightarrow> 0 < n"
  by (simp add: secs_def)

lemma secs_0 [simp]: "secs 0 = 0"
  by (simp add: secs_def)

subsection \<open>Computations that may panic\<close>

text \<open>
  \<open>unwrap\<close> on \<open>None\<close>, an index out of range and a string slice off a character
  boundary panic, in every profile. A function that contains such a point returns \<open>Panic\<close>
  there.
\<close>

datatype 'a run = Ret 'a | Panic

fun run_bind :: "'a run \<Rightarrow> ('a \<Rightarrow> 'b run) \<Rightarrow> 'b run" where
  "run_bind (Ret x) f = f x"
| "run_bind Panic f = Panic"

lemma run_bind_Ret_iff: "run_bind m f = Ret y \<longleftrightarrow> (\<exists>x. m = Ret x \<and> f x = Ret y)"
  by (cases m) auto

lemma run_bind_Panic_iff: "run_bind m f = Panic \<longleftrightarrow> m = Panic \<or> (\<exists>x. m = Ret x \<and> f x = Panic)"
  by (cases m) auto

subsection \<open>Results\<close>

text \<open>A \<open>Result<T, E>\<close> is a sum, \<open>Inl\<close> the error; \<open>res_bind\<close> is the operator \<open>?\<close>.\<close>

fun res_bind :: "'e + 'a \<Rightarrow> ('a \<Rightarrow> 'e + 'b) \<Rightarrow> 'e + 'b" where
  "res_bind (Inl e) f = Inl e"
| "res_bind (Inr x) f = f x"

definition ok_or :: "'e \<Rightarrow> 'a option \<Rightarrow> 'e + 'a" where
  "ok_or e m = (case m of None \<Rightarrow> Inl e | Some x \<Rightarrow> Inr x)"

lemma res_bind_Inr_iff [simp]: "res_bind m f = Inr y \<longleftrightarrow> (\<exists>x. m = Inr x \<and> f x = Inr y)"
  by (cases m) auto

lemma res_bind_Inl_iff: "res_bind m f = Inl e \<longleftrightarrow> m = Inl e \<or> (\<exists>x. m = Inr x \<and> f x = Inl e)"
  by (cases m) auto

lemma ok_or_Inr_iff [simp]: "ok_or e m = Inr x \<longleftrightarrow> m = Some x"
  by (cases m) (auto simp: ok_or_def)

lemma ok_or_Some [simp]: "ok_or e (Some x) = Inr x"
  by (simp add: ok_or_def)

text \<open>
  A function that keeps a state, may panic and returns a \<open>Result\<close>: \<open>ok_bind\<close> runs the rest of the
  body on the value and the state; an error ends the function with the state reached so far.
\<close>

fun ok_bind :: "('s \<times> ('e + 'a)) run \<Rightarrow> ('s \<Rightarrow> 'a \<Rightarrow> ('s \<times> ('e + 'b)) run) \<Rightarrow> ('s \<times> ('e + 'b)) run" where
  "ok_bind Panic f = Panic"
| "ok_bind (Ret (s, Inl e)) f = Ret (s, Inl e)"
| "ok_bind (Ret (s, Inr x)) f = f s x"

lemma run_result_cases [case_names panic error ok]:
  obtains "m = Panic" | s e where "m = Ret (s, Inl e)" | s x where "m = Ret (s, Inr x)"
proof (cases m)
  case (Ret p)
  then show ?thesis
    by (cases p; cases "snd p") (auto intro: that)
qed (rule that(1))

lemma ok_bind_ok_iff: "ok_bind m f = Ret (s, Inr y) \<longleftrightarrow> (\<exists>s' x. m = Ret (s', Inr x) \<and> f s' x = Ret (s, Inr y))"
  by (cases "(m, f)" rule: ok_bind.cases) auto

lemma ok_bind_err_iff:
  "ok_bind m f = Ret (s, Inl e) \<longleftrightarrow> m = Ret (s, Inl e) \<or> (\<exists>s' x. m = Ret (s', Inr x) \<and> f s' x = Ret (s, Inl e))"
  by (cases "(m, f)" rule: ok_bind.cases) auto

subsection \<open>Ethereum values\<close>

text \<open>The 256-bit integers, hashes and addresses of the \<open>ethers\<close> crate.\<close>

type_synonym u256 = "256 word"
type_synonym h256 = "256 word"
type_synonym address = "160 word"

text \<open>\<open>U256::as_u64\<close>, \<open>as_u128\<close> and \<open>U256 * U256\<close> panic when the value does not fit.\<close>

definition as_u64 :: "u256 \<Rightarrow> u64 run" where
  "as_u64 x = (if unat x < 2 ^ 64 then Ret (ucast x) else Panic)"

definition as_u128 :: "u256 \<Rightarrow> u128 run" where
  "as_u128 x = (if unat x < 2 ^ 128 then Ret (ucast x) else Panic)"

definition u256_mul :: "u256 \<Rightarrow> u256 \<Rightarrow> u256 run" where
  "u256_mul a b = (if unat a * unat b < 2 ^ 256 then Ret (a * b) else Panic)"

subsection \<open>Words\<close>

lemma unat_plus_one: "w \<noteq> - 1 \<Longrightarrow> unat (w + 1) = Suc (unat w)" for w :: "'a::len word"
proof -
  assume "w \<noteq> - 1"
  then have "1 + w \<noteq> 0"
    by (metis add.commute add_eq_0_iff)
  then have "unat (1 + w) = Suc (unat w)"
    by (rule unatSuc)
  then show ?thesis
    by (simp add: add.commute)
qed

lemma unat_plus_one_lt:
  "unat w < 2 ^ LENGTH('a) - 1 \<Longrightarrow> unat (w + 1) = Suc (unat w)" for w :: "'a::len word"
  by (rule unat_plus_one) (auto simp: unsigned_minus_1_eq_mask mask_eq_exp_minus_1)

lemma word_less_imp_not_max: "w < v \<Longrightarrow> w \<noteq> - 1" for w v :: "'a::len word"
  using word_n1_ge [of v] by auto

lemma unat_plus_one_less: "w < v \<Longrightarrow> unat (w + 1) = Suc (unat w)" for w v :: "'a::len word"
  by (rule unat_plus_one) (rule word_less_imp_not_max)

lemma unat_two_power: "k < LENGTH('a) \<Longrightarrow> unat (2 ^ k :: 'a::len word) = 2 ^ k"
proof -
  assume "k < LENGTH('a)"
  then have "(2 :: nat) ^ k < 2 ^ LENGTH('a)"
    by (rule power_strict_increasing) simp
  then show ?thesis
    using unat_of_nat [of "2 ^ k", where 'a = 'a] by simp
qed

lemma two_power_overflow: "LENGTH('a) \<le> k \<Longrightarrow> (2 :: 'a::len word) ^ k = 0"
  by (metis le_add_diff_inverse mult_zero_left power_add word_exp_length_eq_0)

lemma unat_word_of_nat: "n < 2 ^ LENGTH('a) \<Longrightarrow> unat (word_of_nat n :: 'a::len word) = n"
  by (simp add: unat_of_nat)

lemma unat_diff_le: "v \<le> w \<Longrightarrow> unat (w - v) = unat w - unat v" for w v :: "'a::len word"
  by (simp add: unat_sub)

lemma unat_pred: "0 < w \<Longrightarrow> unat (w - 1) = unat w - 1" for w :: "'a::len word"
proof -
  assume "0 < w"
  then have "1 \<le> w"
    by (simp add: word_le_nat_alt word_less_nat_alt Suc_le_eq)
  then show ?thesis
    by (simp add: unat_diff_le)
qed

subsection \<open>Lists\<close>

lemma filter_conj_le: "length (filter P xs) + length (filter Q xs) \<le> length xs"
  if "\<And>x. P x \<Longrightarrow> \<not> Q x"
  by (induction xs) (auto dest: that)

lemma length_filter_add_not: "length (filter P xs) + length (filter (\<lambda>x. \<not> P x) xs) = length xs"
  by (induction xs) auto

lemma distinct_count_list: "distinct xs \<Longrightarrow> count_list xs x \<le> 1"
  by (induction xs) (auto simp: count_list_0_iff)

end
