(* ===== verification/Rust_Std.thy ===== *)
theory Rust_Std
  imports Prelude "HOL-Library.Sublist"
begin

text \<open>
  The functions of Rust's standard library on strings and numbers that the program uses. A string is
  the list of its UTF-8 bytes. \<open>from_str_radix\<close>, \<open>parse\<close> and \<open>trim_start_matches\<close> follow their
  documentation: an optional sign, at least one digit, an error on overflow; every occurrence of the
  pattern at the start is removed.
\<close>

subsection \<open>Numbers from text\<close>

definition to_digit :: "nat \<Rightarrow> char \<Rightarrow> nat option" where
  "to_digit radix c =
     (let n = of_char c :: nat;
          d = (if 48 \<le> n \<and> n \<le> 57 then Some (n - 48)
               else if 97 \<le> n \<and> n \<le> 122 then Some (n - 87)
               else if 65 \<le> n \<and> n \<le> 90 then Some (n - 55)
               else None)
      in case d of Some v \<Rightarrow> if v < radix then Some v else None | None \<Rightarrow> None)"

fun parse_digits :: "nat \<Rightarrow> nat \<Rightarrow> string \<Rightarrow> nat option" where
  "parse_digits radix acc [] = Some acc"
| "parse_digits radix acc (c # cs) =
     (case to_digit radix c of
        Some d \<Rightarrow> parse_digits radix (acc * radix + d) cs
      | None \<Rightarrow> None)"

text \<open>An unsigned type with values below \<open>limit\<close>: \<open>u64::from_str_radix\<close>, \<open>str::parse::<u128>\<close>.\<close>

definition parse_unsigned :: "nat \<Rightarrow> nat \<Rightarrow> string \<Rightarrow> nat option" where
  "parse_unsigned limit radix s =
     (let digits = (case s of c # cs \<Rightarrow> if c = CHR ''+'' then cs else s | [] \<Rightarrow> [])
      in if digits = [] then None
         else case parse_digits radix 0 digits of
                Some n \<Rightarrow> if n < limit then Some n else None
              | None \<Rightarrow> None)"

text \<open>A signed type with values from \<open>- limit\<close> to \<open>limit - 1\<close>: \<open>str::parse::<i64>\<close>.\<close>

definition parse_signed :: "int \<Rightarrow> nat \<Rightarrow> string \<Rightarrow> int option" where
  "parse_signed limit radix s =
     (case s of
        [] \<Rightarrow> None
      | c # cs \<Rightarrow>
          (let negative = (c = CHR ''-'');
               digits = (if negative \<or> c = CHR ''+'' then cs else s)
           in if digits = [] then None
              else case parse_digits radix 0 digits of
                     Some n \<Rightarrow>
                       (let v = (if negative then - int n else int n)
                        in if - limit \<le> v \<and> v < limit then Some v else None)
                   | None \<Rightarrow> None))"

definition parse_u64 :: "nat \<Rightarrow> string \<Rightarrow> u64 option" where
  "parse_u64 radix s = map_option of_nat (parse_unsigned (2 ^ 64) radix s)"

definition parse_u128 :: "nat \<Rightarrow> string \<Rightarrow> u128 option" where
  "parse_u128 radix s = map_option of_nat (parse_unsigned (2 ^ 128) radix s)"

definition parse_i64 :: "string \<Rightarrow> int option" where
  "parse_i64 s = parse_signed (2 ^ 63) 10 s"

subsection \<open>Text from numbers\<close>

definition digit_char :: "nat \<Rightarrow> char" where
  "digit_char d = (if d < 10 then char_of (48 + d) else char_of (87 + d))"

fun hex_digits :: "nat \<Rightarrow> string" where
  "hex_digits n = (if n < 16 then [digit_char n] else hex_digits (n div 16) @ [digit_char (n mod 16)])"

declare hex_digits.simps [simp del]

fun dec_digits :: "nat \<Rightarrow> string" where
  "dec_digits n = (if n < 10 then [digit_char n] else dec_digits (n div 10) @ [digit_char (n mod 10)])"

declare dec_digits.simps [simp del]

text \<open>\<open>to_string\<close> of a \<open>u64\<close> and, for a signed value, of an \<open>i64\<close>.\<close>

definition u64_to_string :: "u64 \<Rightarrow> string" where
  "u64_to_string n = dec_digits (unat n)"

definition i64_to_string :: "u64 \<Rightarrow> string" where
  "i64_to_string n =
     (if sint n < 0 then CHR ''-'' # dec_digits (nat (- sint n)) else dec_digits (nat (sint n)))"

text \<open>\<open>format!("0x{:x}", n)\<close>\<close>

definition format_hex :: "u64 \<Rightarrow> string" where
  "format_hex n = ''0x'' @ hex_digits (unat n)"

subsection \<open>Strings\<close>

function trim_start_matches :: "string \<Rightarrow> string \<Rightarrow> string" where
  "trim_start_matches p s =
     (if p \<noteq> [] \<and> take (length p) s = p then trim_start_matches p (drop (length p) s) else s)"
  by pat_completeness auto
termination
proof (relation "measure (length \<circ> snd)")
  fix p s :: string
  assume "p \<noteq> [] \<and> take (length p) s = p"
  then have "0 < length p" and "0 < length s"
    by auto
  then show "((p, drop (length p) s), (p, s)) \<in> measure (length \<circ> snd)"
    by simp
qed simp

declare trim_start_matches.simps [simp del]

definition starts_with :: "string \<Rightarrow> string \<Rightarrow> bool" where
  "starts_with s p \<longleftrightarrow> take (length p) s = p"

definition is_ascii_hexdigit :: "char \<Rightarrow> bool" where
  "is_ascii_hexdigit c =
     (let n = of_char c :: nat in
      (48 \<le> n \<and> n \<le> 57) \<or> (65 \<le> n \<and> n \<le> 70) \<or> (97 \<le> n \<and> n \<le> 102))"

text \<open>\<open>to_lowercase\<close> on ASCII text; the strings the program lowers are hexadecimal.\<close>

definition to_lower_char :: "char \<Rightarrow> char" where
  "to_lower_char c =
     (let n = of_char c :: nat in if 65 \<le> n \<and> n \<le> 90 then char_of (n + 32) else c)"

definition to_lowercase :: "string \<Rightarrow> string" where
  "to_lowercase s = map to_lower_char s"

subsection \<open>Facts\<close>

lemma starts_with_iff: "starts_with s p \<longleftrightarrow> (\<exists>r. s = p @ r)"
  unfolding starts_with_def by (metis append_eq_conv_conj append_take_drop_id)

lemma to_digit_digit_char:
  assumes "d < 16"
  shows "to_digit 16 (digit_char d) = Some d"
proof -
  have "of_char (char_of (48 + d) :: char) = 48 + d" "of_char (char_of (87 + d) :: char) = 87 + d"
    using assms by simp_all
  with assms show ?thesis
    by (auto simp: to_digit_def digit_char_def Let_def)
qed

lemma parse_digits_append:
  "parse_digits r a (xs @ ys) =
     (case parse_digits r a xs of Some b \<Rightarrow> parse_digits r b ys | None \<Rightarrow> None)"
  by (induction xs arbitrary: a) (auto split: option.split)

lemma parse_hex_digits: "parse_digits 16 0 (hex_digits n) = Some n"
proof (induction n rule: hex_digits.induct)
  case (1 n)
  show ?case
  proof (cases "n < 16")
    case True
    then show ?thesis
      by (subst hex_digits.simps) (simp add: to_digit_digit_char)
  next
    case False
    with 1 show ?thesis
      by (subst hex_digits.simps) (simp add: parse_digits_append to_digit_digit_char)
  qed
qed

lemma digit_char_not_sign:
  assumes "d < 16"
  shows "digit_char d \<noteq> CHR ''+''" and "digit_char d \<noteq> CHR ''x''"
proof -
  have "to_digit 16 (CHR ''+'') = None" "to_digit 16 (CHR ''x'') = None"
    by code_simp+
  with to_digit_digit_char [OF assms] show "digit_char d \<noteq> CHR ''+''" "digit_char d \<noteq> CHR ''x''"
    by auto
qed

lemma set_hex_digits: "set (hex_digits n) \<subseteq> digit_char ` {..<16}"
proof (induction n rule: hex_digits.induct)
  case (1 n)
  then show ?case
    by (subst hex_digits.simps) auto
qed

lemma hex_digits_not_Nil [simp]: "hex_digits n \<noteq> []"
  by (subst hex_digits.simps) simp

lemma parse_unsigned_hex_digits: "parse_unsigned limit 16 (hex_digits n) = (if n < limit then Some n else None)"
proof -
  obtain c cs where c: "hex_digits n = c # cs"
    by (cases "hex_digits n") auto
  with set_hex_digits [of n] have "c \<noteq> CHR ''+''"
    using digit_char_not_sign(1) by auto
  with c parse_hex_digits [of n] show ?thesis
    by (simp add: parse_unsigned_def Let_def del: parse_digits.simps)
qed

text \<open>Reading back a formatted number: the form in which block numbers travel.\<close>

lemma trim_hex_prefix: "trim_start_matches ''0x'' (''0x'' @ hex_digits n) = hex_digits n"
proof -
  obtain c cs where c: "hex_digits n = c # cs"
    by (cases "hex_digits n") auto
  have "CHR ''x'' \<notin> digit_char ` {..<16}"
    using digit_char_not_sign(2) by (simp add: image_iff not_sym)
  then have "CHR ''x'' \<notin> set (hex_digits n)"
    using set_hex_digits [of n] by (rule contra_subsetD [rotated])
  with c have "take 2 (hex_digits n) \<noteq> ''0x''"
    by (cases cs) auto
  then have "trim_start_matches ''0x'' (hex_digits n) = hex_digits n"
    by (subst trim_start_matches.simps) (simp add: numeral_2_eq_2)
  then show ?thesis
    by (subst trim_start_matches.simps) simp
qed

lemma parse_format_hex: "parse_u64 16 (trim_start_matches ''0x'' (format_hex n)) = Some n"
  unfolding format_hex_def trim_hex_prefix parse_u64_def parse_unsigned_hex_digits
  using unsigned_less [of n] by simp

lemma dec_digits_not_Nil [simp]: "dec_digits n \<noteq> []"
  by (subst dec_digits.simps) simp

subsection \<open>Slices\<close>

text \<open>
  \<open>&s[a..b]\<close> panics when an end is past the text or inside a character: the byte there is a UTF-8
  continuation byte.
\<close>

definition is_char_boundary :: "string \<Rightarrow> nat \<Rightarrow> bool" where
  "is_char_boundary s i \<longleftrightarrow>
     i = 0 \<or> i = length s \<or> (i < length s \<and> (let n = of_char (s ! i) :: nat in n < 128 \<or> 192 \<le> n))"

definition slice :: "string \<Rightarrow> nat \<Rightarrow> nat \<Rightarrow> string run" where
  "slice s a b =
     (if a \<le> b \<and> is_char_boundary s a \<and> is_char_boundary s b then Ret (take (b - a) (drop a s)) else Panic)"

definition is_ascii :: "string \<Rightarrow> bool" where
  "is_ascii s = list_all (\<lambda>c. (of_char c :: nat) < 128) s"

text \<open>\<open>str::contains\<close>\<close>

fun contains_str :: "string \<Rightarrow> string \<Rightarrow> bool" where
  "contains_str [] p \<longleftrightarrow> p = []"
| "contains_str (c # cs) p \<longleftrightarrow> take (length p) (c # cs) = p \<or> contains_str cs p"

lemma is_ascii_boundary: "is_ascii s \<Longrightarrow> i \<le> length s \<Longrightarrow> is_char_boundary s i"
  by (auto simp: is_ascii_def is_char_boundary_def list_all_length Let_def)

lemma slice_ascii: "is_ascii s \<Longrightarrow> a \<le> b \<Longrightarrow> b \<le> length s \<Longrightarrow> slice s a b = Ret (take (b - a) (drop a s))"
  by (simp add: slice_def is_ascii_boundary)

lemma take_eq_prefix: "take (length p) s = p \<longleftrightarrow> prefix p s"
  by (metis append_eq_conv_conj prefix_def take_is_prefix)

lemma contains_str_iff: "contains_str s p \<longleftrightarrow> sublist p s"
  by (induction s) (simp_all add: sublist_Cons_right take_eq_prefix)

text \<open>The text of a hexadecimal number is not a decimal number.\<close>

lemma parse_u128_hex: "starts_with s ''0x'' \<Longrightarrow> parse_u128 10 s = None"
proof -
  assume "starts_with s ''0x''"
  then obtain r where s: "s = ''0x'' @ r"
    unfolding starts_with_iff by blast
  have "to_digit 10 (CHR ''0'') = Some 0" "to_digit 10 (CHR ''x'') = None"
    by code_simp+
  then show ?thesis
    by (simp add: s parse_u128_def parse_unsigned_def)
qed

lemma parse_u64_hex: "starts_with s ''0x'' \<Longrightarrow> parse_u64 10 s = None"
proof -
  assume "starts_with s ''0x''"
  then obtain r where s: "s = ''0x'' @ r"
    unfolding starts_with_iff by blast
  have "to_digit 10 (CHR ''0'') = Some 0" "to_digit 10 (CHR ''x'') = None"
    by code_simp+
  then show ?thesis
    by (simp add: s parse_u64_def parse_unsigned_def)
qed

subsection \<open>Decimal text\<close>

lemma to_digit_decimal:
  assumes "d < 10"
  shows "to_digit 10 (digit_char d) = Some d"
proof -
  have "of_char (char_of (48 + d) :: char) = 48 + d"
    using assms by simp
  with assms show ?thesis
    by (auto simp: to_digit_def digit_char_def Let_def)
qed

lemma parse_dec_digits: "parse_digits 10 0 (dec_digits n) = Some n"
proof (induction n rule: dec_digits.induct)
  case (1 n)
  show ?case
  proof (cases "n < 10")
    case True
    then show ?thesis
      by (subst dec_digits.simps) (simp add: to_digit_decimal)
  next
    case False
    with 1 show ?thesis
      by (subst dec_digits.simps) (simp add: parse_digits_append to_digit_decimal)
  qed
qed

lemma dec_digits_hd: "\<exists>d < 10. hd (dec_digits n) = digit_char d"
proof (induction n rule: dec_digits.induct)
  case (1 n)
  then show ?case
    by (subst dec_digits.simps) (auto simp: hd_append)
qed

lemma parse_unsigned_dec_digits: "parse_unsigned limit 10 (dec_digits n) = (if n < limit then Some n else None)"
proof -
  obtain d cs where ds: "dec_digits n = digit_char d # cs" and "d < 10"
    using dec_digits_hd [of n] by (cases "dec_digits n") auto
  then have "digit_char d \<noteq> CHR ''+''"
    using digit_char_not_sign [of d] by simp
  with ds parse_dec_digits [of n] show ?thesis
    by (simp add: parse_unsigned_def)
qed

lemma u64_roundtrip: "parse_u64 10 (u64_to_string n) = Some n"
  by (simp add: parse_u64_def u64_to_string_def parse_unsigned_dec_digits unsigned_less [of n, simplified])

end
