(* ===== verification/Hash_Map.thy ===== *)
theory Hash_Map
  imports Prelude "HOL-Library.AList"
begin

text \<open>
  The part of \<open>std::collections::HashMap\<close> the program uses. A map is an association list
  with distinct keys; the position of an entry stands for the (unspecified) iteration order, so
  a property stated for every list holds for every order. The locale \<open>key_store\<close> is the
  interface the components rely on; it is interpreted on these operations below.
\<close>

type_synonym ('k, 'v) hash_map = "('k \<times> 'v) list"

definition hm_empty :: "('k, 'v) hash_map" where
  "hm_empty = []"

definition hm_get :: "('k, 'v) hash_map \<Rightarrow> 'k \<Rightarrow> 'v option" where
  "hm_get m k = map_of m k"

definition hm_insert :: "'k \<Rightarrow> 'v \<Rightarrow> ('k, 'v) hash_map \<Rightarrow> ('k, 'v) hash_map" where
  "hm_insert k v m = AList.update k v m"

definition hm_remove :: "'k \<Rightarrow> ('k, 'v) hash_map \<Rightarrow> ('k, 'v) hash_map" where
  "hm_remove k m = filter (\<lambda>e. fst e \<noteq> k) m"

definition hm_retain :: "('k \<Rightarrow> 'v \<Rightarrow> bool) \<Rightarrow> ('k, 'v) hash_map \<Rightarrow> ('k, 'v) hash_map" where
  "hm_retain P m = filter (\<lambda>e. P (fst e) (snd e)) m"

text \<open>\<open>if let Some(v) = m.get_mut(k) { *v = f(v) }\<close>\<close>

definition hm_modify :: "'k \<Rightarrow> ('v \<Rightarrow> 'v) \<Rightarrow> ('k, 'v) hash_map \<Rightarrow> ('k, 'v) hash_map" where
  "hm_modify k f m = map (\<lambda>e. (fst e, if fst e = k then f (snd e) else snd e)) m"

definition hm_keys :: "('k, 'v) hash_map \<Rightarrow> 'k list" where
  "hm_keys m = map fst m"

definition hm_values :: "('k, 'v) hash_map \<Rightarrow> 'v list" where
  "hm_values m = map snd m"

definition hm_len :: "('k, 'v) hash_map \<Rightarrow> nat" where
  "hm_len m = length m"

definition hm_wf :: "('k, 'v) hash_map \<Rightarrow> bool" where
  "hm_wf m \<longleftrightarrow> distinct (map fst m)"

lemma hm_get_empty [simp]: "hm_get hm_empty k = None"
  by (simp add: hm_get_def hm_empty_def)

lemma hm_get_insert [simp]: "hm_get (hm_insert k v m) k' = (if k' = k then Some v else hm_get m k')"
  by (simp add: hm_get_def hm_insert_def update_conv')

lemma hm_insert_new: "k \<notin> fst ` set m \<Longrightarrow> hm_insert k v m = m @ [(k, v)]"
  unfolding hm_insert_def by (induction m) auto

lemma map_of_filter_key:
  "map_of (filter (\<lambda>e. fst e \<noteq> k) m) k' = (if k' = k then None else map_of m k')"
  by (induction m) auto

lemma hm_get_remove [simp]: "hm_get (hm_remove k m) k' = (if k' = k then None else hm_get m k')"
  by (simp add: hm_get_def hm_remove_def map_of_filter_key)

lemma hm_get_modify [simp]:
  "hm_get (hm_modify k f m) k' = (if k' = k then map_option f (hm_get m k') else hm_get m k')"
  unfolding hm_get_def hm_modify_def by (induction m) auto

lemma hm_get_retain:
  "hm_wf m \<Longrightarrow> hm_get (hm_retain P m) k =
     (case hm_get m k of Some v \<Rightarrow> if P k v then Some v else None | None \<Rightarrow> None)"
  unfolding hm_get_def hm_retain_def hm_wf_def
  by (induction m) (auto split: option.splits simp: map_of_eq_None_iff rev_image_eqI)

lemma hm_wf_empty [simp, wf_intros]: "hm_wf hm_empty"
  by (simp add: hm_wf_def hm_empty_def)

lemma hm_wf_insert [simp, wf_intros]: "hm_wf m \<Longrightarrow> hm_wf (hm_insert k v m)"
  unfolding hm_wf_def hm_insert_def by (rule distinct_update)

lemma hm_wf_filter: "hm_wf m \<Longrightarrow> hm_wf (filter P m)"
  unfolding hm_wf_def by (rule distinct_map_filter)

lemma hm_wf_remove [simp, wf_intros]: "hm_wf m \<Longrightarrow> hm_wf (hm_remove k m)"
  by (simp add: hm_remove_def hm_wf_filter)

lemma hm_wf_retain [simp, wf_intros]: "hm_wf m \<Longrightarrow> hm_wf (hm_retain P m)"
  by (simp add: hm_retain_def hm_wf_filter)

lemma hm_keys_modify [simp]: "hm_keys (hm_modify k f m) = hm_keys m"
  by (simp add: hm_keys_def hm_modify_def comp_def)

lemma hm_wf_modify [simp, wf_intros]: "hm_wf m \<Longrightarrow> hm_wf (hm_modify k f m)"
  using hm_keys_modify [of k f m] by (simp add: hm_wf_def hm_keys_def)

lemma hm_keys_insert: "set (hm_keys (hm_insert k v m)) = insert k (set (hm_keys m))"
  by (simp add: hm_keys_def hm_insert_def dom_update)

lemma hm_get_None_iff: "hm_get m k = None \<longleftrightarrow> k \<notin> set (hm_keys m)"
  by (simp add: hm_get_def hm_keys_def map_of_eq_None_iff)

lemma hm_get_Some_keys: "hm_get m k = Some v \<Longrightarrow> k \<in> set (hm_keys m)"
  using hm_get_None_iff [of m k] by auto

lemma hm_get_Some_iff: "hm_wf m \<Longrightarrow> hm_get m k = Some v \<longleftrightarrow> (k, v) \<in> set m"
  by (simp add: hm_wf_def hm_get_def)

lemma hm_len_empty [simp]: "hm_len hm_empty = 0"
  by (simp add: hm_len_def hm_empty_def)

lemma hm_len_modify [simp]: "hm_len (hm_modify k f m) = hm_len m"
  by (simp add: hm_len_def hm_modify_def)

lemma hm_len_retain: "hm_len (hm_retain P m) \<le> hm_len m"
  by (simp add: hm_len_def hm_retain_def)

lemma hm_len_insert_new: "hm_get m k = None \<Longrightarrow> hm_len (hm_insert k v m) = Suc (hm_len m)"
  unfolding hm_get_def hm_insert_def hm_len_def by (induction m) (auto split: if_splits)

lemma hm_len_insert_old: "hm_get m k \<noteq> None \<Longrightarrow> hm_len (hm_insert k v m) = hm_len m"
  unfolding hm_get_def hm_insert_def hm_len_def by (induction m) (auto split: if_splits)

lemma hm_modify_id: "hm_get m k = None \<Longrightarrow> hm_modify k f m = m"
  unfolding hm_get_def hm_modify_def
  by (induction m) (auto split: if_splits)

lemma in_hm_values: "hm_wf m \<Longrightarrow> v \<in> set (hm_values m) \<longleftrightarrow> (\<exists>k. hm_get m k = Some v)"
  by (force simp: hm_values_def hm_get_Some_iff)

lemma hm_get_value: "hm_get m k = Some v \<Longrightarrow> v \<in> set (hm_values m)"
  by (force simp: hm_values_def hm_get_def dest: map_of_SomeD)

lemma hm_values_insert: "set (hm_values (hm_insert k v m)) \<subseteq> insert v (set (hm_values m))"
  unfolding hm_values_def hm_insert_def by (induction m) auto

subsection \<open>The interface\<close>

text \<open>
  What a client relies on: a store of entries by key, where a lookup sees the last entry put,
  and every operation keeps the store well formed.
\<close>

locale key_store =
  fixes empty :: "'m"
    and get :: "'m \<Rightarrow> 'k \<Rightarrow> 'v option"
    and put :: "'k \<Rightarrow> 'v \<Rightarrow> 'm \<Rightarrow> 'm"
    and upd :: "'k \<Rightarrow> ('v \<Rightarrow> 'v) \<Rightarrow> 'm \<Rightarrow> 'm"
    and keep :: "('k \<Rightarrow> 'v \<Rightarrow> bool) \<Rightarrow> 'm \<Rightarrow> 'm"
    and wf :: "'m \<Rightarrow> bool"
  assumes get_empty: "get empty k = None"
    and get_put: "get (put k v m) k' = (if k' = k then Some v else get m k')"
    and get_upd: "get (upd k f m) k' = (if k' = k then map_option f (get m k') else get m k')"
    and get_keep: "wf m \<Longrightarrow> get (keep P m) k =
          (case get m k of Some v \<Rightarrow> if P k v then Some v else None | None \<Rightarrow> None)"
    and wf_empty: "wf empty"
    and wf_put: "wf m \<Longrightarrow> wf (put k v m)"
    and wf_upd: "wf m \<Longrightarrow> wf (upd k f m)"
    and wf_keep: "wf m \<Longrightarrow> wf (keep P m)"
begin

text \<open>A property of every entry is kept by each operation that establishes it for its entry.\<close>

definition all_entries :: "('k \<Rightarrow> 'v \<Rightarrow> bool) \<Rightarrow> 'm \<Rightarrow> bool" where
  "all_entries Q m \<longleftrightarrow> (\<forall>k v. get m k = Some v \<longrightarrow> Q k v)"

lemma all_entries_empty: "all_entries Q empty"
  by (simp add: all_entries_def get_empty)

lemma all_entries_put: "all_entries Q m \<Longrightarrow> Q k v \<Longrightarrow> all_entries Q (put k v m)"
  by (simp add: all_entries_def get_put)

lemma all_entries_overwrite:
  "all_entries Q m \<Longrightarrow> Q k v \<Longrightarrow> all_entries Q (put k v (put k u m))"
  by (simp add: all_entries_def get_put)

lemma all_entries_upd:
  "all_entries Q m \<Longrightarrow> (\<And>v. get m k = Some v \<Longrightarrow> Q k v \<Longrightarrow> Q k (f v)) \<Longrightarrow> all_entries Q (upd k f m)"
  by (auto simp: all_entries_def get_upd)

lemma all_entries_keep: "wf m \<Longrightarrow> all_entries Q m \<Longrightarrow> all_entries Q (keep P m)"
  by (auto simp: all_entries_def get_keep split: option.splits if_splits)

lemma keep_all_entries: "wf m \<Longrightarrow> all_entries P (keep P m)"
  by (auto simp: all_entries_def get_keep split: option.splits if_splits)

lemma keep_Some_iff: "wf m \<Longrightarrow> get (keep P m) k = Some v \<longleftrightarrow> get m k = Some v \<and> P k v"
  by (auto simp: get_keep split: option.splits)

lemma put_upd: "get (upd k f (put k v m)) k' = get (put k (f v) m) k'"
  by (simp add: get_put get_upd)

end

interpretation hm: key_store hm_empty hm_get hm_insert hm_modify hm_retain hm_wf
  by unfold_locales (simp_all add: hm_get_retain)

end
