(* ===== verification/Bundle_Types.thy ===== *)
theory Bundle_Types
  imports Rust_Std Hash_Map
begin

text \<open>
  The bundles of \<open>crates/mev-core/src/bundle/types.rs\<close> and the results of \<open>bundle/mod.rs\<close>. Sums of
  \<open>U256\<close> values panic on overflow, as \<open>ethers\<close> documents. The lower-case hexadecimal text of a hash
  or an address (\<open>LowerHex\<close> of \<open>ethers\<close>) is an argument \<open>lower_hex\<close>.
\<close>

record SignedTransaction =
  st_hash :: h256
  st_from :: address
  st_to :: "address option"
  st_value :: u256
  st_gas_limit :: u256
  st_max_fee_per_gas :: u256
  st_max_priority_fee_per_gas :: u256
  st_nonce :: u256
  st_data :: "u8 list"
  st_chain_id :: u64
  st_raw_transaction :: "u8 list"
  st_transaction_type :: u8

record Bundle =
  bu_id :: string
  bu_pre_transactions :: "SignedTransaction list"
  bu_target_transaction :: SignedTransaction
  bu_post_transactions :: "SignedTransaction list"
  bu_target_block :: u64
  bu_max_gas_price :: u256
  bu_estimated_profit :: u256
  bu_created_at :: int
  bu_metadata :: "(string, string) hash_map"

datatype ExecutionStatus =
    Pending
  | Included u64 "string list"
  | Failed string
  | Expired

record SubmissionResult =
  su_bundle_id :: string
  su_submission_hash :: string
  su_submitted_at :: int
  su_gas_price :: u256
  su_estimated_inclusion_block :: u64

definition all_transactions :: "Bundle \<Rightarrow> SignedTransaction list" where
  "all_transactions b = bu_pre_transactions b @ [bu_target_transaction b] @ bu_post_transactions b"

definition u256_add :: "u256 \<Rightarrow> u256 \<Rightarrow> u256 run" where
  "u256_add a b = (if unat a + unat b < 2 ^ 256 then Ret (a + b) else Panic)"

fun u256_sum :: "u256 \<Rightarrow> u256 list \<Rightarrow> u256 run" where
  "u256_sum acc [] = Ret acc"
| "u256_sum acc (x # xs) = run_bind (u256_add acc x) (\<lambda>acc. u256_sum acc xs)"

definition total_gas_limit :: "Bundle \<Rightarrow> u256 run" where
  "total_gas_limit b = u256_sum 0 (map st_gas_limit (all_transactions b))"

definition total_value :: "Bundle \<Rightarrow> u256 run" where
  "total_value b = u256_sum 0 (map st_value (all_transactions b))"

text \<open>\<open>num_seconds\<close> truncates towards zero.\<close>

definition num_seconds :: "int \<Rightarrow> int" where
  "num_seconds ns = (if ns < 0 then - ((- ns) div 1000000000) else ns div 1000000000)"

definition bundle_is_expired :: "int \<Rightarrow> Bundle \<Rightarrow> bool" where
  "bundle_is_expired now b =
     (let expiry_seconds =
        (case Option.bind (hm_get (bu_metadata b) ''expiry_seconds'') parse_i64 of
           Some n \<Rightarrow> n
         | None \<Rightarrow> 30)
      in expiry_seconds < num_seconds (now - bu_created_at b))"

definition hash_hex :: "(h256 \<Rightarrow> string) \<Rightarrow> SignedTransaction \<Rightarrow> string" where
  "hash_hex lower_hex tx = ''0x'' @ lower_hex (st_hash tx)"

definition from_hex :: "(address \<Rightarrow> string) \<Rightarrow> SignedTransaction \<Rightarrow> string" where
  "from_hex lower_hex tx = ''0x'' @ lower_hex (st_from tx)"

definition to_hex :: "(address \<Rightarrow> string) \<Rightarrow> SignedTransaction \<Rightarrow> string option" where
  "to_hex lower_hex tx = map_option (\<lambda>a. ''0x'' @ lower_hex a) (st_to tx)"

subsection \<open>Totals\<close>

lemma u256_sum_eq:
  "u256_sum acc xs =
     (if unat acc + sum_list (map unat xs) < 2 ^ 256 then Ret (acc + sum_list xs) else Panic)"
proof (induction xs arbitrary: acc)
  case Nil
  then show ?case
    using unsigned_less [of acc] by simp
next
  case (Cons x xs)
  show ?case
  proof (cases "unat acc + unat x < 2 ^ 256")
    case True
    then have "unat (acc + x) = unat acc + unat x"
      by (subst unat_add_lem [symmetric]) simp
    with True Cons show ?thesis
      by (simp add: u256_add_def add.assoc)
  next
    case False
    then show ?thesis
      by (simp add: u256_add_def)
  qed
qed

text \<open>the total gas limit of a bundle is the exact sum over its transactions in execution order,
  and computing it panics exactly when that sum does not fit 256 bits.\<close>

theorem total_gas_limit_exact:
  "case total_gas_limit b of
     Ret g \<Rightarrow> unat g = (\<Sum>tx \<leftarrow> all_transactions b. unat (st_gas_limit tx))
   | Panic \<Rightarrow> 2 ^ 256 \<le> (\<Sum>tx \<leftarrow> all_transactions b. unat (st_gas_limit tx))"
proof -
  have "unat (sum_list ws) = sum_list (map unat ws)" if "sum_list (map unat ws) < 2 ^ 256"
    for ws :: "u256 list"
    using that
  proof (induction ws)
    case (Cons w ws)
    then have "unat w + unat (sum_list ws) < 2 ^ 256"
      by simp
    then have "unat (w + sum_list ws) = unat w + unat (sum_list ws)"
      by (subst unat_add_lem [symmetric]) simp
    with Cons show ?case by simp
  qed simp
  from this [of "map st_gas_limit (all_transactions b)"] show ?thesis
    by (simp add: total_gas_limit_def u256_sum_eq comp_def not_less)
qed

end
