(* ===== verification/Hex_Text.thy ===== *)
theory Hex_Text
  imports Rust_Std
begin

text \<open>
  Bytes as text: the pairs of lower-case hexadecimal digits that the crates \<open>hex\<close> and \<open>ethers\<close> document for
  their output, which their laws and the instances of the witnesses refer to, and the big-endian numbers of
  calldata.
\<close>

subsection \<open>Hexadecimal text\<close>

definition bytes_hex :: "u8 list \<Rightarrow> string" where
  "bytes_hex bs = concat (map (\<lambda>b. [digit_char (unat b div 16), digit_char (unat b mod 16)]) bs)"

fun hex_bytes :: "string \<Rightarrow> u8 list option" where
  "hex_bytes [] = Some []"
| "hex_bytes [c] = None"
| "hex_bytes (c # d # cs) =
     (case (to_digit 16 c, to_digit 16 d, hex_bytes cs) of
        (Some x, Some y, Some bs) \<Rightarrow> Some (word_of_nat (16 * x + y) # bs)
      | _ \<Rightarrow> None)"

lemma byte_digits:
  fixes b :: u8
  shows "unat b div 16 < 16" and "unat b mod 16 < 16"
proof -
  have "unat b < 2 ^ LENGTH(8)"
    by (rule unsigned_less)
  then show "unat b div 16 < 16"
    by (simp add: less_mult_imp_div_less)
qed simp

lemma hex_bytes_hex: "hex_bytes (bytes_hex bs) = Some bs"
proof (induction bs)
  case (Cons b bs)
  then show ?case
    using byte_digits [of b] by (simp add: bytes_hex_def to_digit_digit_char)
qed (simp add: bytes_hex_def)

lemma bytes_hex_append: "bytes_hex (as @ bs) = bytes_hex as @ bytes_hex bs"
  by (simp add: bytes_hex_def)

lemma length_bytes_hex [simp]: "length (bytes_hex bs) = 2 * length bs"
  by (induction bs) (simp_all add: bytes_hex_def)

lemma take_bytes_hex: "take (2 * n) (bytes_hex bs) = bytes_hex (take n bs)"
proof (induction bs arbitrary: n)
  case (Cons b bs)
  then show ?case
    by (cases n) (simp_all add: bytes_hex_def)
qed (simp add: bytes_hex_def)

lemma drop_bytes_hex: "drop (2 * n) (bytes_hex bs) = bytes_hex (drop n bs)"
proof (induction bs arbitrary: n)
  case (Cons b bs)
  then show ?case
    by (cases n) (simp_all add: bytes_hex_def)
qed (simp add: bytes_hex_def)

lemma digit_char_ascii: "d < 16 \<Longrightarrow> (of_char (digit_char d) :: nat) < 128"
  by (simp add: digit_char_def)

lemma is_ascii_bytes_hex: "is_ascii (bytes_hex bs)"
  by (induction bs) (simp_all add: bytes_hex_def is_ascii_def digit_char_ascii byte_digits)

subsection \<open>Big-endian numbers\<close>

definition be_value :: "u8 list \<Rightarrow> nat" where
  "be_value bs = foldl (\<lambda>n b. 256 * n + unat b) 0 bs"

text \<open>The \<open>n\<close> bytes of a number.\<close>

fun be_bytes :: "nat \<Rightarrow> nat \<Rightarrow> u8 list" where
  "be_bytes 0 v = []"
| "be_bytes (Suc n) v = be_bytes n (v div 256) @ [word_of_nat (v mod 256)]"

lemma length_be_bytes [simp]: "length (be_bytes n v) = n"
  by (induction n arbitrary: v) simp_all

lemma be_bytes_append: "be_bytes (k + n) v = be_bytes k (v div 256 ^ n) @ be_bytes n v"
proof (induction n arbitrary: v)
  case (Suc n)
  have "v div 256 div 256 ^ n = v div 256 ^ Suc n"
    by (simp add: div_mult2_eq)
  with Suc [of "v div 256"] show ?case
    by simp
qed simp

lemma be_value_bytes: "v < 256 ^ n \<Longrightarrow> be_value (be_bytes n v) = v"
proof (induction n arbitrary: v)
  case (Suc n)
  then have "v div 256 < 256 ^ n"
    by (simp add: less_mult_imp_div_less mult.commute)
  with Suc.IH [of "v div 256"] show ?case
    by (simp add: be_value_def unat_word_of_nat)
qed (simp add: be_value_def)

text \<open>\<open>U256::from_big_endian\<close> and \<open>U256::to_string\<close>\<close>

definition from_big_endian :: "u8 list \<Rightarrow> u256" where
  "from_big_endian bs = word_of_nat (be_value bs)"

definition u256_to_string :: "u256 \<Rightarrow> string" where
  "u256_to_string n = dec_digits (unat n)"

lemma from_big_endian_bytes: "from_big_endian (be_bytes 32 (unat n)) = n"
proof -
  have "unat n < 2 ^ LENGTH(256)"
    by (rule unsigned_less)
  then have "unat n < 256 ^ 32"
    by simp
  then show ?thesis
    by (simp add: from_big_endian_def be_value_bytes)
qed

end
