(* ===== verification/Key_Manager.thy ===== *)
theory Key_Manager
  imports Rust_Std Hash_Map Hex_Text
begin

text \<open>
  The key manager of \<open>crates/mev-core/src/bundle/key_manager.rs\<close>: the loaded wallets, the default
  wallet and the encrypted key files. Wallets (\<open>LocalWallet\<close> of \<open>ethers\<close>), the ciphers, the \<open>hex\<close> and
  \<open>serde_json\<close> crates and the file system are outside the program: they are the fields of the record
  \<open>key_env\<close>, an argument of the definitions. Random bytes are arguments of the function that draws
  them.
\<close>

record KdfParams =
  kp_salt :: string
  kp_iterations :: u32
  kp_key_length :: u32

record EncryptedKeyFile =
  ek_encrypted_key :: string
  ek_kdf_params :: KdfParams
  ek_cipher :: string
  ek_version :: u32

record ('w, 'f) key_env =
  parse_wallet :: "string \<Rightarrow> 'w option"
  wallet_address :: "'w \<Rightarrow> address"
  signer_hex :: "'w \<Rightarrow> string"
  pbkdf2 :: "u8 list \<Rightarrow> u8 list \<Rightarrow> u32 \<Rightarrow> u8 list"
  aes_encrypt :: "u8 list \<Rightarrow> u8 list \<Rightarrow> u8 list \<Rightarrow> u8 list option"
  aes_decrypt :: "u8 list \<Rightarrow> u8 list \<Rightarrow> u8 list \<Rightarrow> u8 list option"
  hex_encode :: "u8 list \<Rightarrow> string"
  hex_decode :: "string \<Rightarrow> u8 list option"
  key_file_from_json :: "string \<Rightarrow> EncryptedKeyFile option"
  key_file_to_json :: "EncryptedKeyFile \<Rightarrow> string option"
  read_to_string :: "string \<Rightarrow> 'f \<Rightarrow> string option"
  write_file :: "string \<Rightarrow> string \<Rightarrow> 'f \<Rightarrow> 'f \<times> bool"

record 'w KeyManager =
  km_wallets :: "(address, 'w) hash_map"
  km_default_wallet :: "'w option"
  km_key_dir :: "string option"

datatype key_error =
    WalletNotFound address
  | NoDefaultWallet
  | InvalidPrivateKey
  | FileError
  | InvalidKeyFile
  | UnsupportedCipher string
  | InvalidHex
  | InvalidDataLength
  | EncryptionFailed
  | DecryptionFailed
  | InvalidUtf8

subsection \<open>Wallets\<close>

definition KeyManager_new :: "'w KeyManager" where
  "KeyManager_new = \<lparr>km_wallets = hm_empty, km_default_wallet = None, km_key_dir = None\<rparr>"

definition with_key_dir :: "string \<Rightarrow> 'w KeyManager" where
  "with_key_dir dir = \<lparr>km_wallets = hm_empty, km_default_wallet = None, km_key_dir = Some dir\<rparr>"

text \<open>What every loading function does with the wallet; the first one becomes the default.\<close>

definition store_wallet :: "('w, 'f) key_env \<Rightarrow> 'w \<Rightarrow> 'w KeyManager \<Rightarrow> 'w KeyManager" where
  "store_wallet E w km =
     km\<lparr>km_wallets := hm_insert (wallet_address E w) w (km_wallets km),
        km_default_wallet := (case km_default_wallet km of None \<Rightarrow> Some w | Some d \<Rightarrow> Some d)\<rparr>"

definition load_private_key ::
    "('w, 'f) key_env \<Rightarrow> string \<Rightarrow> 'w KeyManager \<Rightarrow> 'w KeyManager \<times> (key_error + address)" where
  "load_private_key E private_key km =
     (case parse_wallet E private_key of
        None \<Rightarrow> (km, Inl InvalidPrivateKey)
      | Some w \<Rightarrow> (store_wallet E w km, Inr (wallet_address E w)))"

definition get_wallet :: "address \<Rightarrow> 'w KeyManager \<Rightarrow> key_error + 'w" where
  "get_wallet a km = ok_or (WalletNotFound a) (hm_get (km_wallets km) a)"

definition get_default_wallet :: "'w KeyManager \<Rightarrow> key_error + 'w" where
  "get_default_wallet km = ok_or NoDefaultWallet (km_default_wallet km)"

definition set_default_wallet :: "address \<Rightarrow> 'w KeyManager \<Rightarrow> 'w KeyManager \<times> (key_error + unit)" where
  "set_default_wallet a km =
     (case hm_get (km_wallets km) a of
        None \<Rightarrow> (km, Inl (WalletNotFound a))
      | Some w \<Rightarrow> (km\<lparr>km_default_wallet := Some w\<rparr>, Inr ()))"

definition list_addresses :: "'w KeyManager \<Rightarrow> address list" where
  "list_addresses km = hm_keys (km_wallets km)"

subsection \<open>Encrypted key files\<close>

definition as_bytes :: "string \<Rightarrow> u8 list" where
  "as_bytes s = map (\<lambda>c. word_of_nat (of_char c)) s"

text \<open>\<open>String::from_utf8\<close>: no overlong form, no surrogate, nothing above \<open>U+10FFFF\<close>.\<close>

definition is_continuation :: "nat \<Rightarrow> bool" where
  "is_continuation b \<longleftrightarrow> 128 \<le> b \<and> b < 192"

fun valid_utf8 :: "nat list \<Rightarrow> bool" where
  "valid_utf8 [] = True"
| "valid_utf8 (b # bs) =
     (if b < 128 then valid_utf8 bs
      else case bs of
        [] \<Rightarrow> False
      | c # bs' \<Rightarrow>
          if 194 \<le> b \<and> b < 224 then is_continuation c \<and> valid_utf8 bs'
          else case bs' of
            [] \<Rightarrow> False
          | d # bs'' \<Rightarrow>
              if 224 \<le> b \<and> b < 240 then
                is_continuation c \<and> (b = 224 \<longrightarrow> 160 \<le> c) \<and> (b = 237 \<longrightarrow> c < 160)
                \<and> is_continuation d \<and> valid_utf8 bs''
              else case bs'' of
                [] \<Rightarrow> False
              | e # bs''' \<Rightarrow>
                  240 \<le> b \<and> b < 245 \<and> is_continuation c \<and> (b = 240 \<longrightarrow> 144 \<le> c) \<and> (b = 244 \<longrightarrow> c < 144)
                  \<and> is_continuation d \<and> is_continuation e \<and> valid_utf8 bs''')"

definition from_utf8 :: "u8 list \<Rightarrow> string option" where
  "from_utf8 bs =
     (if valid_utf8 (map unat bs) then Some (map (\<lambda>b. char_of (unat b)) bs) else None)"

definition encrypt_key ::
    "('w, 'f) key_env \<Rightarrow> u8 list \<Rightarrow> u8 list \<Rightarrow> string \<Rightarrow> string \<Rightarrow> key_error + EncryptedKeyFile" where
  "encrypt_key E salt nonce private_key password =
     (let iterations = 100000;
          derived_key = pbkdf2 E (as_bytes password) salt iterations
      in case aes_encrypt E derived_key nonce (as_bytes private_key) of
           None \<Rightarrow> Inl EncryptionFailed
         | Some ciphertext \<Rightarrow>
             Inr \<lparr>ek_encrypted_key = hex_encode E (nonce @ ciphertext),
                  ek_kdf_params =
                    \<lparr>kp_salt = hex_encode E salt, kp_iterations = iterations, kp_key_length = 32\<rparr>,
                  ek_cipher = ''aes-256-gcm'',
                  ek_version = 1\<rparr>)"

definition decrypt_key :: "('w, 'f) key_env \<Rightarrow> EncryptedKeyFile \<Rightarrow> string \<Rightarrow> key_error + string" where
  "decrypt_key E encrypted_key password =
     (if ek_cipher encrypted_key \<noteq> ''aes-256-gcm'' then Inl (UnsupportedCipher (ek_cipher encrypted_key))
      else res_bind (ok_or InvalidHex (hex_decode E (kp_salt (ek_kdf_params encrypted_key)))) (\<lambda>salt.
        res_bind (ok_or InvalidHex (hex_decode E (ek_encrypted_key encrypted_key))) (\<lambda>encrypted_data.
          if length encrypted_data < 12 then Inl InvalidDataLength
          else
            let derived_key =
                  pbkdf2 E (as_bytes password) salt (kp_iterations (ek_kdf_params encrypted_key))
            in res_bind
                 (ok_or DecryptionFailed
                   (aes_decrypt E derived_key (take 12 encrypted_data) (drop 12 encrypted_data)))
                 (\<lambda>plaintext. ok_or InvalidUtf8 (from_utf8 plaintext)))))"

definition load_encrypted_key ::
    "('w, 'f) key_env \<Rightarrow> 'f \<Rightarrow> string \<Rightarrow> string \<Rightarrow> 'w KeyManager \<Rightarrow>
     'w KeyManager \<times> (key_error + address)" where
  "load_encrypted_key E fs key_file password km =
     (case res_bind (ok_or FileError (read_to_string E key_file fs)) (\<lambda>key_content.
             res_bind (ok_or InvalidKeyFile (key_file_from_json E key_content)) (\<lambda>encrypted_key.
               res_bind (decrypt_key E encrypted_key password) (\<lambda>private_key.
                 ok_or InvalidPrivateKey (parse_wallet E private_key)))) of
        Inl e \<Rightarrow> (km, Inl e)
      | Inr w \<Rightarrow> (store_wallet E w km, Inr (wallet_address E w)))"

text \<open>\<open>wallet\<close>, \<open>salt\<close> and \<open>nonce\<close> are what the random number generator gives.\<close>

definition create_encrypted_key ::
    "('w, 'f) key_env \<Rightarrow> 'w \<Rightarrow> u8 list \<Rightarrow> u8 list \<Rightarrow> string \<Rightarrow> string \<Rightarrow> 'w KeyManager \<times> 'f \<Rightarrow>
     ('w KeyManager \<times> 'f) \<times> (key_error + address)" where
  "create_encrypted_key E wallet salt nonce key_file password s =
     (case s of (km, fs) \<Rightarrow>
        (case res_bind (encrypt_key E salt nonce (signer_hex E wallet) password)
                (\<lambda>encrypted_key. ok_or InvalidKeyFile (key_file_to_json E encrypted_key)) of
           Inl e \<Rightarrow> ((km, fs), Inl e)
         | Inr key_content \<Rightarrow>
             (case write_file E key_file key_content fs of
                (fs, written) \<Rightarrow>
                  if written then ((store_wallet E wallet km, fs), Inr (wallet_address E wallet))
                  else ((km, fs), Inl FileError))))"


subsection \<open>Invariant\<close>

definition key_manager_ok :: "('w, 'f) key_env \<Rightarrow> 'w KeyManager \<Rightarrow> bool" where
  "key_manager_ok E km \<longleftrightarrow>
     hm_wf (km_wallets km)
     \<and> list_all (\<lambda>(a, w). wallet_address E w = a) (km_wallets km)
     \<and> (case km_default_wallet km of
          None \<Rightarrow> km_wallets km = []
        | Some d \<Rightarrow> hm_get (km_wallets km) (wallet_address E d) \<noteq> None)"

lemma key_manager_ok_new: "key_manager_ok E KeyManager_new" "key_manager_ok E (with_key_dir dir)"
  by (simp_all add: key_manager_ok_def KeyManager_new_def with_key_dir_def hm_empty_def hm_wf_def)

lemma hm_insert_entries: "set (hm_insert k v m) \<subseteq> insert (k, v) (set m)"
  unfolding hm_insert_def by (induction m) (auto split: if_splits)

lemma hm_get_in: "hm_get m k = Some v \<Longrightarrow> (k, v) \<in> set m"
  unfolding hm_get_def by (rule map_of_SomeD)

lemma get_wallet_address:
  "key_manager_ok E km \<Longrightarrow> hm_get (km_wallets km) a = Some w \<Longrightarrow> wallet_address E w = a"
  by (fastforce simp: key_manager_ok_def list_all_iff dest: hm_get_in)

lemma store_wallet_ok:
  assumes "key_manager_ok E km"
  shows "key_manager_ok E (store_wallet E w km)"
proof -
  note ok = assms [unfolded key_manager_ok_def list_all_iff]
  have "\<forall>(a, v) \<in> set (hm_insert (wallet_address E w) w (km_wallets km)). wallet_address E v = a"
    using ok hm_insert_entries [of "wallet_address E w" w "km_wallets km"] by blast
  moreover have "hm_wf (hm_insert (wallet_address E w) w (km_wallets km))"
    using ok by simp
  ultimately show ?thesis
    using ok by (cases "km_default_wallet km") (auto simp: key_manager_ok_def store_wallet_def list_all_iff hm_wf_def)
qed

lemma set_default_wallet_ok:
  assumes "key_manager_ok E km"
  shows "key_manager_ok E (fst (set_default_wallet a km))"
proof (cases "hm_get (km_wallets km) a")
  case None
  with assms show ?thesis
    by (simp add: set_default_wallet_def)
next
  case (Some w)
  with assms get_wallet_address [OF assms Some] show ?thesis
    by (simp add: set_default_wallet_def key_manager_ok_def)
qed

inductive key_reachable :: "('w, 'f) key_env \<Rightarrow> 'w KeyManager \<Rightarrow> bool" for E where
  kr_new: "key_reachable E KeyManager_new"
| kr_key_dir: "key_reachable E (with_key_dir dir)"
| kr_private: "key_reachable E km \<Longrightarrow> key_reachable E (fst (load_private_key E k km))"
| kr_file: "key_reachable E km \<Longrightarrow> key_reachable E (fst (load_encrypted_key E fs f p km))"
| kr_create: "key_reachable E km \<Longrightarrow> key_reachable E (fst (fst (create_encrypted_key E w salt n f p (km, fs))))"
| kr_default: "key_reachable E km \<Longrightarrow> key_reachable E (fst (set_default_wallet a km))"

lemma key_reachable_ok: "key_reachable E km \<Longrightarrow> key_manager_ok E km"
proof (induction rule: key_reachable.induct)
  case (kr_private km k)
  then show ?case
    by (auto simp: load_private_key_def store_wallet_ok split: option.split)
next
  case (kr_file km fs f p)
  then show ?case
    by (auto simp: load_encrypted_key_def store_wallet_ok split: sum.split)
next
  case (kr_create km w salt n f p fs)
  then show ?case
    by (auto simp: create_encrypted_key_def store_wallet_ok split: sum.split prod.split)
qed (simp_all add: key_manager_ok_new set_default_wallet_ok)

text \<open>A failing operation changes nothing, and once a wallet is loaded there is a default to sign with.\<close>

lemma default_wallet_available:
  assumes "key_reachable E km"
  shows "(\<exists>w. get_default_wallet km = Inr w) \<longleftrightarrow> list_addresses km \<noteq> []"
  using key_reachable_ok [OF assms]
  by (cases "km_default_wallet km")
     (auto simp: key_manager_ok_def get_default_wallet_def list_addresses_def ok_or_def hm_keys_def hm_get_def)

subsection \<open>Key files read back\<close>

text \<open>
  What the program relies on: \<open>hex\<close>, \<open>aes-gcm\<close>, \<open>serde_json\<close>, the file system and the private key of a
  wallet give back what they were given.
\<close>

definition hex_laws :: "('w, 'f) key_env \<Rightarrow> bool" where
  "hex_laws E \<longleftrightarrow> (\<forall>b. hex_decode E (hex_encode E b) = Some b)"

definition cipher_laws :: "('w, 'f) key_env \<Rightarrow> bool" where
  "cipher_laws E \<longleftrightarrow> (\<forall>k n p c. aes_encrypt E k n p = Some c \<longrightarrow> aes_decrypt E k n c = Some p)"

definition json_laws :: "('w, 'f) key_env \<Rightarrow> bool" where
  "json_laws E \<longleftrightarrow> (\<forall>k j. key_file_to_json E k = Some j \<longrightarrow> key_file_from_json E j = Some k)"

definition file_laws :: "('w, 'f) key_env \<Rightarrow> bool" where
  "file_laws E \<longleftrightarrow> (\<forall>p t fs fs'. write_file E p t fs = (fs', True) \<longrightarrow> read_to_string E p fs' = Some t)"

definition wallet_laws :: "('w, 'f) key_env \<Rightarrow> bool" where
  "wallet_laws E \<longleftrightarrow> (\<forall>w. parse_wallet E (signer_hex E w) = Some w \<and> is_ascii (signer_hex E w))"

definition key_env_laws :: "('w, 'f) key_env \<Rightarrow> bool" where
  "key_env_laws E \<longleftrightarrow> hex_laws E \<and> cipher_laws E \<and> json_laws E \<and> file_laws E \<and> wallet_laws E"

lemma unat_byte: "unat (word_of_nat (of_char c) :: u8) = of_char c"
  by (rule unat_word_of_nat) (simp add: of_char_def)

lemma from_utf8_as_bytes:
  assumes "is_ascii s"
  shows "from_utf8 (as_bytes s) = Some s"
proof -
  have "valid_utf8 (map unat (as_bytes s))"
    using assms by (induction s) (simp_all add: as_bytes_def unat_byte is_ascii_def)
  then show ?thesis
    by (simp add: from_utf8_def as_bytes_def comp_def unat_byte)
qed

lemma decrypt_encrypt_key:
  assumes laws: "key_env_laws E" and k: "is_ascii k" and n: "length nonce = 12"
    and f: "encrypt_key E salt nonce k password = Inr f"
  shows "decrypt_key E f password = Inr k"
proof -
  let ?key = "pbkdf2 E (as_bytes password) salt 100000"
  obtain c where c: "aes_encrypt E ?key nonce (as_bytes k) = Some c"
    using f by (auto simp: encrypt_key_def Let_def split: option.splits)
  then have "aes_decrypt E ?key nonce c = Some (as_bytes k)"
    using laws by (simp add: key_env_laws_def cipher_laws_def)
  moreover have "hex_decode E (hex_encode E b) = Some b" for b
    using laws by (simp add: key_env_laws_def hex_laws_def)
  ultimately show ?thesis
    using f c n
    by (auto simp: encrypt_key_def decrypt_key_def Let_def from_utf8_as_bytes [OF k] simp del: res_bind_Inr_iff)
qed

text \<open>C12: the key file of a new wallet, created with a password and 12 random nonce bytes, is read by
  every key manager with that password, whatever it has loaded before: it gets the same wallet under
  the same address, as the default when it had none.\<close>

theorem key_file_roundtrip:
  assumes "key_env_laws E" and "length nonce = 12"
    and "create_encrypted_key E wallet salt nonce file password (km, fs) = ((km', fs'), Inr a)"
  shows "load_encrypted_key E fs' file password km2 = (store_wallet E wallet km2, Inr a)
    \<and> get_wallet a (store_wallet E wallet km2) = Inr wallet"
proof -
  have hex: "is_ascii (signer_hex E wallet)" "parse_wallet E (signer_hex E wallet) = Some wallet"
    using assms(1) by (simp_all add: key_env_laws_def wallet_laws_def)
  obtain f t where f: "encrypt_key E salt nonce (signer_hex E wallet) password = Inr f"
      "key_file_to_json E f = Some t" "write_file E file t fs = (fs', True)" and a: "a = wallet_address E wallet"
    using assms(3) by (auto simp: create_encrypted_key_def split: sum.splits prod.splits if_splits)
  have "decrypt_key E f password = Inr (signer_hex E wallet)"
    using decrypt_encrypt_key [OF assms(1) hex(1) assms(2) f(1)] .
  moreover have "key_file_from_json E t = Some f" "read_to_string E file fs' = Some t"
    using assms(1) f by (simp_all add: key_env_laws_def json_laws_def file_laws_def)
  ultimately show ?thesis
    using hex by (simp add: load_encrypted_key_def get_wallet_def store_wallet_def a)
qed

text \<open>An environment with these laws: 64-bit private keys, hexadecimal text and a map of files.\<close>

definition demo_key_file :: "string \<Rightarrow> EncryptedKeyFile" where
  "demo_key_file t =
     \<lparr>ek_encrypted_key = t, ek_kdf_params = \<lparr>kp_salt = ''0a0b'', kp_iterations = 100000, kp_key_length = 32\<rparr>,
      ek_cipher = ''aes-256-gcm'', ek_version = 1\<rparr>"

definition demo_key_env :: "(u64, (string, string) hash_map) key_env" where
  "demo_key_env =
     \<lparr>parse_wallet = parse_u64 16,
      wallet_address = ucast,
      signer_hex = (\<lambda>w. hex_digits (unat w)),
      pbkdf2 = (\<lambda>p s i. replicate 32 7),
      aes_encrypt = (\<lambda>k n p. Some (rev p)),
      aes_decrypt = (\<lambda>k n c. Some (rev c)),
      hex_encode = bytes_hex,
      hex_decode = hex_bytes,
      key_file_from_json = (\<lambda>t. Some (demo_key_file t)),
      key_file_to_json =
        (\<lambda>f. if f = demo_key_file (ek_encrypted_key f) then Some (ek_encrypted_key f) else None),
      read_to_string = (\<lambda>p fs. hm_get fs p),
      write_file = (\<lambda>p t fs. (hm_insert p t fs, True))\<rparr>"

lemma is_ascii_hex_digits: "is_ascii (hex_digits n)"
proof -
  have "(of_char (digit_char d) :: nat) < 128" if "d < 16" for d
    using that by (simp add: digit_char_def)
  then show ?thesis
    using set_hex_digits [of n] by (fastforce simp: is_ascii_def list_all_iff)
qed

lemma demo_key_env_laws: "key_env_laws demo_key_env"
proof -
  have "unat (w :: u64) < 18446744073709551616" for w
    using unsigned_less [of w] by simp
  then have "parse_u64 16 (hex_digits (unat w)) = Some w" for w
    by (simp add: parse_u64_def parse_unsigned_hex_digits)
  then show ?thesis
    by (simp add: key_env_laws_def hex_laws_def cipher_laws_def json_laws_def file_laws_def wallet_laws_def
        demo_key_env_def hex_bytes_hex is_ascii_hex_digits split: if_splits)
qed

theorem key_file_roundtrip_witness:
  "load_encrypted_key demo_key_env
     (snd (fst (create_encrypted_key demo_key_env 255 [10, 11] (replicate 12 1) ''k'' ''pw'' (KeyManager_new, []))))
     ''k'' ''pw'' KeyManager_new
   = (store_wallet demo_key_env 255 KeyManager_new, Inr 255)"
proof -
  have "char_of (48 :: nat) = CHR ''0''" "char_of (97 :: nat) = CHR ''a''" "char_of (98 :: nat) = CHR ''b''"
    by code_simp+
  then have f: "encrypt_key demo_key_env [10, 11] (replicate 12 1) (signer_hex demo_key_env 255) ''pw''
      = Inr (demo_key_file (bytes_hex (replicate 12 1 @ rev (as_bytes (hex_digits 255)))))"
    by (simp add: encrypt_key_def demo_key_env_def demo_key_file_def bytes_hex_def digit_char_def)
  have c: "create_encrypted_key demo_key_env 255 [10, 11] (replicate 12 1) ''k'' ''pw'' (KeyManager_new, [])
      = ((store_wallet demo_key_env 255 KeyManager_new,
          snd (fst (create_encrypted_key demo_key_env 255 [10, 11] (replicate 12 1) ''k'' ''pw'' (KeyManager_new, [])))),
         Inr 255)"
    unfolding create_encrypted_key_def f by (simp add: demo_key_env_def demo_key_file_def)
  show ?thesis
    using key_file_roundtrip [OF demo_key_env_laws _ c, of KeyManager_new] by simp
qed

end
