(* ===== verification/F64.thy ===== *)
theory F64
  imports Complex_Main Rust_Std
begin

text \<open>
  The type \<open>f64\<close> of Rust: IEEE 754 binary64 with rounding to the nearest value, ties to even. A finite
  value is its sign and its magnitude, an exact rational, so that the two zeros are different values
  that compare equal. An operation rounds the exact result (\<open>f64_round\<close>), as IEEE 754 states it; a
  number read from text is rounded the same way. The payloads of NaN are not modelled.
\<close>

subsection \<open>Values and rounding\<close>

datatype f64 = NaN | Infinity bool | Finite bool rat

definition pow2 :: "int \<Rightarrow> rat" where
  "pow2 e = 2 powi e"

fun bit_length :: "nat \<Rightarrow> nat" where
  "bit_length n = (if n = 0 then 0 else Suc (bit_length (n div 2)))"

declare bit_length.simps [simp del]

text \<open>The integer part of the binary logarithm of a positive rational.\<close>

definition floor_log2 :: "rat \<Rightarrow> int" where
  "floor_log2 q =
     (let (n, d) = quotient_of q;
          k = int (bit_length (nat n)) - int (bit_length (nat d))
      in if pow2 k \<le> q then k else k - 1)"

definition round_half_even :: "rat \<Rightarrow> int" where
  "round_half_even q =
     (let f = \<lfloor>q\<rfloor>; r = q - of_int f
      in if r < 1 / 2 then f else if 1 / 2 < r then f + 1 else if even f then f else f + 1)"

text \<open>The weight of the last bit of the significand of a value near \<open>q\<close>; subnormal below \<open>2 ^ -1022\<close>.\<close>

definition ulp_exponent :: "rat \<Rightarrow> int" where
  "ulp_exponent q = max (floor_log2 q - 52) (- 1074)"

definition f64_round :: "bool \<Rightarrow> rat \<Rightarrow> f64" where
  "f64_round neg q =
     (if q = 0 then Finite neg 0
      else let e = ulp_exponent q;
               r = of_int (round_half_even (q / pow2 e)) * pow2 e
           in if 2 ^ 1024 \<le> r then Infinity neg else Finite neg r)"

subsection \<open>Arithmetic\<close>

definition signed :: "bool \<Rightarrow> rat \<Rightarrow> rat" where
  "signed neg q = (if neg then - q else q)"

fun f64_neg :: "f64 \<Rightarrow> f64" where
  "f64_neg NaN = NaN"
| "f64_neg (Infinity s) = Infinity (\<not> s)"
| "f64_neg (Finite s q) = Finite (\<not> s) q"

fun f64_abs :: "f64 \<Rightarrow> f64" where
  "f64_abs NaN = NaN"
| "f64_abs (Infinity s) = Infinity False"
| "f64_abs (Finite s q) = Finite False q"

text \<open>A sum that is exactly zero is negative only when both operands are.\<close>

fun f64_add :: "f64 \<Rightarrow> f64 \<Rightarrow> f64" where
  "f64_add NaN y = NaN"
| "f64_add (Infinity s) NaN = NaN"
| "f64_add (Infinity s) (Infinity t) = (if s = t then Infinity s else NaN)"
| "f64_add (Infinity s) (Finite t q) = Infinity s"
| "f64_add (Finite s p) NaN = NaN"
| "f64_add (Finite s p) (Infinity t) = Infinity t"
| "f64_add (Finite s p) (Finite t q) =
     (let v = signed s p + signed t q
      in if v = 0 then Finite (s \<and> t) 0 else f64_round (v < 0) \<bar>v\<bar>)"

definition f64_sub :: "f64 \<Rightarrow> f64 \<Rightarrow> f64" where
  "f64_sub x y = f64_add x (f64_neg y)"

fun f64_mul :: "f64 \<Rightarrow> f64 \<Rightarrow> f64" where
  "f64_mul NaN y = NaN"
| "f64_mul (Infinity s) NaN = NaN"
| "f64_mul (Infinity s) (Infinity t) = Infinity (s \<noteq> t)"
| "f64_mul (Infinity s) (Finite t q) = (if q = 0 then NaN else Infinity (s \<noteq> t))"
| "f64_mul (Finite s p) NaN = NaN"
| "f64_mul (Finite s p) (Infinity t) = (if p = 0 then NaN else Infinity (s \<noteq> t))"
| "f64_mul (Finite s p) (Finite t q) = f64_round (s \<noteq> t) (p * q)"

fun f64_div :: "f64 \<Rightarrow> f64 \<Rightarrow> f64" where
  "f64_div NaN y = NaN"
| "f64_div (Infinity s) NaN = NaN"
| "f64_div (Infinity s) (Infinity t) = NaN"
| "f64_div (Infinity s) (Finite t q) = Infinity (s \<noteq> t)"
| "f64_div (Finite s p) NaN = NaN"
| "f64_div (Finite s p) (Infinity t) = Finite (s \<noteq> t) 0"
| "f64_div (Finite s p) (Finite t q) =
     (if q = 0 then (if p = 0 then NaN else Infinity (s \<noteq> t)) else f64_round (s \<noteq> t) (p / q))"

subsection \<open>Comparison\<close>

text \<open>Every comparison with NaN is false.\<close>

fun f64_lt :: "f64 \<Rightarrow> f64 \<Rightarrow> bool" where
  "f64_lt (Infinity s) (Infinity t) = (s \<and> \<not> t)"
| "f64_lt (Infinity s) (Finite t q) = s"
| "f64_lt (Finite s p) (Infinity t) = (\<not> t)"
| "f64_lt (Finite s p) (Finite t q) = (signed s p < signed t q)"
| "f64_lt x y = False"

fun f64_eq :: "f64 \<Rightarrow> f64 \<Rightarrow> bool" where
  "f64_eq (Infinity s) (Infinity t) = (s = t)"
| "f64_eq (Finite s p) (Finite t q) = (signed s p = signed t q)"
| "f64_eq x y = False"

definition f64_le :: "f64 \<Rightarrow> f64 \<Rightarrow> bool" where
  "f64_le x y \<longleftrightarrow> f64_lt x y \<or> f64_eq x y"

subsection \<open>Conversions\<close>

text \<open>\<open>as u64\<close> and \<open>as u128\<close> saturate and take NaN to zero.\<close>

fun f64_to_unsigned :: "nat \<Rightarrow> f64 \<Rightarrow> nat" where
  "f64_to_unsigned limit NaN = 0"
| "f64_to_unsigned limit (Infinity s) = (if s then 0 else limit - 1)"
| "f64_to_unsigned limit (Finite s q) = (if s then 0 else min (nat \<lfloor>q\<rfloor>) (limit - 1))"

definition f64_to_u64 :: "f64 \<Rightarrow> u64" where
  "f64_to_u64 x = word_of_nat (f64_to_unsigned (2 ^ 64) x)"

definition f64_to_u128 :: "f64 \<Rightarrow> u128" where
  "f64_to_u128 x = word_of_nat (f64_to_unsigned (2 ^ 128) x)"

definition f64_of_nat :: "nat \<Rightarrow> f64" where
  "f64_of_nat n = f64_round False (of_nat n)"

text \<open>\<open>U256::from((x.as_u128() as f64 * multiplier) as u128)\<close>\<close>

definition scale_gas_price :: "u256 \<Rightarrow> f64 \<Rightarrow> u256 run" where
  "scale_gas_price x multiplier =
     run_bind (as_u128 x) (\<lambda>v. Ret (ucast (f64_to_u128 (f64_mul (f64_of_nat (unat v)) multiplier))))"

text \<open>\<open>sum::<f64>()\<close> adds from the left.\<close>

definition f64_sum :: "f64 list \<Rightarrow> f64" where
  "f64_sum xs = foldl f64_add (Finite False 0) xs"

subsection \<open>Reading a number\<close>

text \<open>
  \<open>str::parse::<f64>\<close>: an optional sign, then \<open>inf\<close>, \<open>infinity\<close> or \<open>nan\<close> in any case, or a decimal
  number with at least one digit before or after the point and an optional exponent.
\<close>

definition is_digit :: "char \<Rightarrow> bool" where
  "is_digit c \<longleftrightarrow> to_digit 10 c \<noteq> None"

definition digits_value :: "string \<Rightarrow> nat" where
  "digits_value s = (case parse_digits 10 0 s of Some n \<Rightarrow> n | None \<Rightarrow> 0)"

definition parse_exponent :: "string \<Rightarrow> int option" where
  "parse_exponent s =
     (case s of
        [] \<Rightarrow> Some 0
      | c # cs \<Rightarrow>
          (if c \<noteq> CHR ''e'' \<and> c \<noteq> CHR ''E'' then None
           else let neg = (cs \<noteq> [] \<and> hd cs = CHR ''-'');
                    ds = (if cs \<noteq> [] \<and> (hd cs = CHR ''-'' \<or> hd cs = CHR ''+'') then tl cs else cs)
                in if ds = [] \<or> \<not> list_all is_digit ds then None
                   else Some (if neg then - int (digits_value ds) else int (digits_value ds))))"

definition parse_decimal :: "bool \<Rightarrow> string \<Rightarrow> f64 option" where
  "parse_decimal neg s =
     (let ip = takeWhile is_digit s;
          rest = dropWhile is_digit s;
          dot = (rest \<noteq> [] \<and> hd rest = CHR ''.'');
          fp = (if dot then takeWhile is_digit (tl rest) else []);
          rest = (if dot then dropWhile is_digit (tl rest) else rest)
      in if ip = [] \<and> fp = [] then None
         else case parse_exponent rest of
                None \<Rightarrow> None
              | Some x \<Rightarrow>
                  (let k = x - int (length fp);
                       m = rat_of_nat (digits_value (ip @ fp))
                   in Some (f64_round neg (if 0 \<le> k then m * 10 ^ nat k else m / 10 ^ nat (- k)))))"

definition parse_f64 :: "string \<Rightarrow> f64 option" where
  "parse_f64 s =
     (let neg = (s \<noteq> [] \<and> hd s = CHR ''-'');
          body = (if s \<noteq> [] \<and> (hd s = CHR ''-'' \<or> hd s = CHR ''+'') then tl s else s);
          word = to_lowercase body
      in if word = ''inf'' \<or> word = ''infinity'' then Some (Infinity neg)
         else if word = ''nan'' then Some NaN
         else parse_decimal neg body)"

subsection \<open>Facts on rounding\<close>

lemma pow2_pos [simp]: "0 < pow2 e"
  by (simp add: pow2_def)

lemma pow2_nonzero [simp]: "pow2 e \<noteq> 0"
  using pow2_pos [of e] by linarith

lemma pow2_add: "pow2 (d + e) = pow2 d * pow2 e"
  by (simp add: pow2_def power_int_add)

lemma pow2_diff: "pow2 (d - e) = pow2 d / pow2 e"
  by (simp add: pow2_def power_int_diff)

lemma pow2_mono_iff: "pow2 d \<le> pow2 e \<longleftrightarrow> d \<le> e"
proof
  assume "pow2 d \<le> pow2 e"
  then have "\<not> pow2 e < pow2 d"
    by simp
  then show "d \<le> e"
    using power_int_strict_increasing [of e d "2 :: rat"] by (force simp: pow2_def)
qed (simp add: pow2_def power_int_increasing)

lemma pow2_strict_iff: "pow2 d < pow2 e \<longleftrightarrow> d < e"
  using pow2_mono_iff [of e d] by (simp add: not_le [symmetric])

lemma pow2_int: "pow2 (int n) = 2 ^ n"
  by (simp add: pow2_def)

lemma pow2_nat: "0 \<le> e \<Longrightarrow> pow2 e = of_int (2 ^ nat e)"
  using pow2_int [of "nat e"] by simp

lemma bit_length_bounds: "0 < n \<Longrightarrow> 2 ^ (bit_length n - 1) \<le> n \<and> n < 2 ^ bit_length n \<and> 0 < bit_length n"
proof (induction n rule: bit_length.induct)
  case (1 n)
  show ?case
  proof (cases "n = 1")
    case True
    have "bit_length 0 = 0"
      by (subst bit_length.simps) simp
    with True show ?thesis
      by (subst (1 2 3) bit_length.simps) simp
  next
    case False
    with "1.prems" have half: "0 < n div 2"
      by (simp add: div_greater_zero_iff)
    let ?k = "bit_length (n div 2)"
    from "1.IH" "1.prems" half have ih: "2 ^ (?k - 1) \<le> n div 2" "n div 2 < 2 ^ ?k" "0 < ?k"
      by auto
    have k: "bit_length n = Suc ?k"
      using "1.prems" by (subst bit_length.simps) simp
    have "2 * 2 ^ (?k - 1) \<le> n"
      using ih(1) by linarith
    moreover have "2 * 2 ^ (?k - 1) = (2 :: nat) ^ ?k"
      using ih(3) by (cases ?k) simp_all
    moreover have "n < 2 * 2 ^ ?k"
      using ih(2) by linarith
    ultimately show ?thesis
      by (simp add: k)
  qed
qed

lemma floor_log2_bounds:
  assumes "0 < q"
  shows "pow2 (floor_log2 q) \<le> q" and "q < pow2 (floor_log2 q + 1)"
proof -
  obtain n d where nd: "quotient_of q = (n, d)"
    by (cases "quotient_of q")
  then have d: "0 < d" and q: "q = of_int n / of_int d"
    by (auto dest: quotient_of_denom_pos quotient_of_div)
  with assms have n: "0 < n"
    by (simp add: zero_less_divide_iff)
  let ?a = "bit_length (nat n)" and ?b = "bit_length (nat d)"
  let ?k = "int ?a - int ?b"
  have bound: "pow2 (int (bit_length (nat z)) - 1) \<le> of_int z \<and> of_int z < pow2 (int (bit_length (nat z)))"
    if "0 < z" for z :: int
  proof -
    let ?l = "bit_length (nat z)"
    from bit_length_bounds [of "nat z"] that
    have b: "2 ^ (?l - 1) \<le> nat z" "nat z < 2 ^ ?l" "0 < ?l"
      by auto
    from b(1) that have "(2 :: int) ^ (?l - 1) \<le> z"
      by (metis le_nat_iff nat_int of_nat_numeral of_nat_power order_less_imp_le)
    moreover from b(2) that have "z < 2 ^ ?l"
      by (metis nat_less_numeral_power_cancel_iff)
    ultimately have "of_int (2 ^ (?l - 1)) \<le> (of_int z :: rat)" "(of_int z :: rat) < of_int (2 ^ ?l)"
      by (simp_all only: of_int_le_iff of_int_less_iff)
    then have "pow2 (int (?l - 1)) \<le> of_int z" "of_int z < pow2 (int ?l)"
      unfolding pow2_int by (simp_all only: of_int_power of_int_numeral)
    moreover have "int ?l - 1 = int (?l - 1)"
      using b(3) by linarith
    ultimately show ?thesis
      by (simp only:)
  qed
  note bn = bound [OF n] and bd = bound [OF d]
  have upper: "q < pow2 (?k + 1)"
  proof -
    have "of_int n < pow2 (int ?a)" "pow2 (int ?b - 1) \<le> of_int d"
      using bn bd by auto
    then have "of_int n / of_int d < pow2 (int ?a) / pow2 (int ?b - 1)"
      using d n by (intro frac_less) auto
    also have "\<dots> = pow2 (?k + 1)"
      by (simp add: pow2_diff pow2_add)
    finally show ?thesis
      by (simp add: q)
  qed
  have lower: "pow2 (?k - 1) \<le> q"
  proof -
    have "pow2 (int ?a - 1) / pow2 (int ?b) \<le> of_int n / of_int d"
      using bn bd d n by (intro frac_le) auto
    moreover have "pow2 (?k - 1) = pow2 (int ?a - 1) / pow2 (int ?b)"
      by (simp add: pow2_diff)
    ultimately show ?thesis
      by (simp add: q)
  qed
  show "pow2 (floor_log2 q) \<le> q" "q < pow2 (floor_log2 q + 1)"
    using upper lower by (auto simp: floor_log2_def nd Let_def)
qed

lemma round_half_even_of_int [simp]: "round_half_even (of_int z) = z"
  by (simp add: round_half_even_def)

text \<open>A value with at most 53 significant bits in range is not changed by rounding.\<close>

lemma f64_round_exact:
  assumes q: "q = of_nat m * pow2 e" and m: "m < 2 ^ 53" and e: "- 1074 \<le> e" and range: "q < 2 ^ 1024"
  shows "f64_round neg q = Finite neg q"
proof (cases "m = 0")
  case True
  with q show ?thesis
    by (simp add: f64_round_def)
next
  case False
  with q have pos: "0 < q"
    by simp
  let ?u = "ulp_exponent q"
  have "of_nat m < pow2 53"
  proof -
    have "of_nat m < (of_nat (2 ^ 53) :: rat)"
      using m by (simp only: of_nat_less_iff)
    then show ?thesis
      using pow2_int [of 53] by simp
  qed
  then have "q < pow2 53 * pow2 e"
    unfolding q by (rule mult_strict_right_mono) simp
  then have "q < pow2 (53 + e)"
    by (simp add: pow2_add)
  with floor_log2_bounds(1) [OF pos] have "pow2 (floor_log2 q) < pow2 (53 + e)"
    by linarith
  then have "floor_log2 q < 53 + e"
    by (simp add: pow2_strict_iff)
  with e have u: "?u \<le> e"
    by (simp add: ulp_exponent_def)
  have "q / pow2 ?u = of_nat m * pow2 (e - ?u)"
    by (simp add: q pow2_diff)
  also have "\<dots> = of_int (int m * 2 ^ nat (e - ?u))"
    using u by (simp add: pow2_nat)
  finally have "of_int (round_half_even (q / pow2 ?u)) * pow2 ?u = q"
    by (metis nonzero_eq_divide_eq pow2_nonzero round_half_even_of_int)
  with pos range show ?thesis
    by (simp add: f64_round_def Let_def)
qed

lemma f64_of_nat_exact: "n < 2 ^ 53 \<Longrightarrow> f64_of_nat n = Finite False (of_nat n)"
  unfolding f64_of_nat_def
proof (rule f64_round_exact [of _ n 0])
  assume "n < 2 ^ 53"
  then have "of_nat n < (of_nat (2 ^ 53) :: rat)"
    by (simp only: of_nat_less_iff)
  then have "of_nat n < (2 ^ 53 :: rat)"
    by simp
  then show "of_nat n < (2 ^ 1024 :: rat)"
    by (rule less_trans) simp
qed (simp_all add: pow2_def)

lemma f64_sub_self: "f64_sub x x = NaN \<or> f64_sub x x = Finite False 0"
  by (cases x) (auto simp: f64_sub_def signed_def)

lemma f64_eq_refl_iff: "f64_eq x x \<longleftrightarrow> x \<noteq> NaN"
  by (cases x) auto

lemma f64_round_cases: "f64_round neg q = Infinity neg \<or> (\<exists>r. f64_round neg q = Finite neg r)"
  by (auto simp: f64_round_def Let_def)

lemma floor_log2_unique:
  assumes "pow2 k \<le> q" and "q < pow2 (k + 1)"
  shows "floor_log2 q = k"
proof -
  have "0 < q"
    using assms(1) pow2_pos [of k] by linarith
  note b = floor_log2_bounds [OF this]
  have "pow2 k < pow2 (floor_log2 q + 1)" "pow2 (floor_log2 q) < pow2 (k + 1)"
    using assms b by linarith+
  then show ?thesis
    by (simp add: pow2_strict_iff)
qed

lemma round_half_even_error: "\<bar>of_int (round_half_even q) - q\<bar> \<le> 1 / 2"
proof -
  have "of_int \<lfloor>q\<rfloor> \<le> q" "q < of_int \<lfloor>q\<rfloor> + 1"
    by linarith+
  then show ?thesis
    by (auto simp: round_half_even_def Let_def)
qed

text \<open>In the normal range rounding is wrong by at most one part in \<open>2 ^ 53\<close>.\<close>

lemma f64_round_error:
  assumes "pow2 (- 1022) \<le> q" and "q < pow2 1023"
  shows "\<exists>r. f64_round neg q = Finite neg r \<and> \<bar>r - q\<bar> \<le> q * pow2 (- 53)"
proof -
  have pos: "0 < q"
    using assms(1) pow2_pos [of "- 1022"] by linarith
  note log = floor_log2_bounds [OF pos]
  have "pow2 (- 1022) < pow2 (floor_log2 q + 1)"
    using assms(1) log(2) by linarith
  then have e: "ulp_exponent q = floor_log2 q - 52"
    by (simp add: pow2_strict_iff ulp_exponent_def)
  let ?u = "pow2 (ulp_exponent q)"
  let ?r = "of_int (round_half_even (q / ?u)) * ?u"
  have "?r - q = (of_int (round_half_even (q / ?u)) - q / ?u) * ?u"
    by (simp only: left_diff_distrib nonzero_eq_divide_eq [OF pow2_nonzero] times_divide_eq_left
        nonzero_mult_div_cancel_right [OF pow2_nonzero])
  then have "\<bar>?r - q\<bar> = \<bar>of_int (round_half_even (q / ?u)) - q / ?u\<bar> * ?u"
    by (simp only: abs_mult abs_of_pos [OF pow2_pos])
  also have "\<dots> \<le> 1 / 2 * ?u"
    using round_half_even_error order_less_imp_le [OF pow2_pos] by (rule mult_right_mono)
  also have "\<dots> = pow2 (- 53) * pow2 (floor_log2 q)"
  proof -
    have "pow2 (- 1) * ?u = pow2 (- 53) * pow2 (floor_log2 q)"
      unfolding pow2_add [symmetric] e by simp
    then show ?thesis
      by (simp add: pow2_def)
  qed
  also have "\<dots> \<le> pow2 (- 53) * q"
    using log(1) by (rule mult_left_mono) (simp add: order_less_imp_le)
  finally have error: "\<bar>?r - q\<bar> \<le> q * pow2 (- 53)"
    by (simp add: mult.commute)
  also have "\<dots> \<le> q * 1"
    using pos by (intro mult_left_mono) (simp_all add: pow2_def)
  finally have "?r \<le> 2 * q"
    by linarith
  moreover have "2 * q < 2 ^ 1024"
    using assms(2) by (simp add: pow2_def)
  ultimately have "\<not> 2 ^ 1024 \<le> ?r"
    by linarith
  with error pos show ?thesis
    by (simp add: f64_round_def Let_def)
qed

text \<open>From one upwards it is off by less than a factor of two.\<close>

lemma f64_round_half:
  assumes "1 \<le> q" and "q < pow2 1023"
  shows "\<exists>r. f64_round neg q = Finite neg r \<and> q / 2 \<le> r \<and> r \<le> 2 * q"
proof -
  have "pow2 (- 1022) \<le> 1"
    using pow2_mono_iff [of "- 1022" 0] by (simp add: pow2_def)
  with assms(1) have "pow2 (- 1022) \<le> q"
    by linarith
  from f64_round_error [OF this assms(2)] obtain r where
      r: "f64_round neg q = Finite neg r" "\<bar>r - q\<bar> \<le> q * pow2 (- 53)"
    by blast
  have "q * pow2 (- 53) \<le> q * (1 / 2)"
    using assms(1) by (intro mult_left_mono) (simp_all add: pow2_def)
  with r(2) have "r - q \<le> q * (1 / 2)" "q - r \<le> q * (1 / 2)"
    by (simp_all add: abs_le_iff)
  then have "q / 2 \<le> r" "r \<le> 2 * q"
    using assms(1) by simp_all
  with r(1) show ?thesis
    by blast
qed

lemma f64_of_nat_half:
  assumes "0 < n" and "n < 2 ^ 1023"
  shows "\<exists>r. f64_of_nat n = Finite False r \<and> of_nat n / 2 \<le> r \<and> r \<le> 2 * of_nat n"
proof -
  have "of_nat n < (of_nat (2 ^ 1023) :: rat)"
    using assms(2) by (simp only: of_nat_less_iff)
  then have "of_nat n < pow2 1023"
    using pow2_int [of 1023] by (simp only: of_nat_power of_nat_numeral)
  moreover have "(1 :: rat) \<le> of_nat n"
    using assms(1) by simp
  ultimately show ?thesis
    unfolding f64_of_nat_def by (intro f64_round_half)
qed

lemma round_half_even_near:
  assumes "\<bar>q - of_int z\<bar> < 1 / 2"
  shows "round_half_even q = z"
proof -
  have "\<bar>of_int (round_half_even q) - of_int z\<bar> < (1 :: rat)"
    using assms round_half_even_error [of q] by linarith
  then have "\<bar>of_int (round_half_even q - z)\<bar> < (1 :: rat)"
    by simp
  then show ?thesis
    by linarith
qed

text \<open>Rounding a concrete value, given its binary exponent and its rounded significand.\<close>

lemma f64_round_value:
  assumes "pow2 k \<le> q" and "q < pow2 (k + 1)" and "- 1022 \<le> k" and "k \<le> 1022"
    and "\<bar>q / pow2 (k - 52) - of_int z\<bar> < 1 / 2"
  shows "f64_round neg q = Finite neg (of_int z * pow2 (k - 52))"
proof -
  have pos: "0 < q"
    using assms(1) pow2_pos [of k] by linarith
  have "pow2 (- 1022) \<le> q" "q < pow2 1023"
    using assms(1-4) pow2_mono_iff [of "- 1022" k] pow2_mono_iff [of "k + 1" 1023] by linarith+
  then obtain r where "f64_round neg q = Finite neg r"
    using f64_round_error by blast
  with pos assms(3,5) show ?thesis
    using floor_log2_unique [OF assms(1,2)] round_half_even_near [OF assms(5)]
    by (simp add: f64_round_def ulp_exponent_def Let_def split: if_splits)
qed

lemma f64_to_unsigned_less: "0 < limit \<Longrightarrow> f64_to_unsigned limit x < limit"
  by (cases x) (auto simp: min_def)

end
