(* ===== verification/F64_Text.thy ===== *)
theory F64_Text
  imports F64
begin

text \<open>
  The text of an \<open>f64\<close>: \<open>to_string\<close> and the format \<open>{:?}\<close>. Rust prints the shortest decimal number that
  reads back as the same value and, of those, the one closest to it. \<open>to_string\<close> never uses an
  exponent; \<open>{:?}\<close> uses one from \<open>1e16\<close> on and below \<open>1e-4\<close> and otherwise keeps one digit after the
  point.
\<close>

text \<open>A literal of the source.\<close>

definition f64_lit :: "string \<Rightarrow> f64" where
  "f64_lit s = (case parse_f64 s of Some x \<Rightarrow> x | None \<Rightarrow> NaN)"

definition pow10 :: "int \<Rightarrow> rat" where
  "pow10 e = (if 0 \<le> e then 10 ^ nat e else 1 / 10 ^ nat (- e))"

text \<open>For a positive value, the exponent \<open>k\<close> with \<open>10 ^ (k - 1) \<le> q < 10 ^ k\<close>.\<close>

definition decimal_exponent :: "rat \<Rightarrow> int" where
  "decimal_exponent q =
     (if 1 \<le> q then int (length (dec_digits (nat \<lfloor>q\<rfloor>)))
      else 1 - int (length (dec_digits (nat (\<lceil>1 / q\<rceil> - 1)))))"

text \<open>A decimal number \<open>c * 10 ^ e\<close> with \<open>n\<close> digits that reads back as \<open>q\<close>.\<close>

definition decimal_candidate :: "rat \<Rightarrow> int \<Rightarrow> nat \<Rightarrow> (nat \<times> int) option" where
  "decimal_candidate q k n =
     (let e = k - int n;
          unit = pow10 e;
          lo = nat \<lfloor>q / unit\<rfloor>;
          down = (f64_round False (of_nat lo * unit) = Finite False q);
          up = (f64_round False (of_nat (lo + 1) * unit) = Finite False q);
          c = (if up \<and> (\<not> down \<or> unit \<le> 2 * (q - of_nat lo * unit)) then lo + 1 else lo)
      in if \<not> down \<and> \<not> up then None
         else if c = 10 ^ n then Some (1, k)
         else Some (c, e))"

fun shortest_from :: "nat \<Rightarrow> rat \<Rightarrow> int \<Rightarrow> nat \<Rightarrow> nat \<times> int" where
  "shortest_from 0 q k n = (nat \<lfloor>q / pow10 (k - int n)\<rfloor>, k - int n)"
| "shortest_from (Suc left) q k n =
     (case decimal_candidate q k n of
        Some d \<Rightarrow> d
      | None \<Rightarrow> shortest_from left q k (n + 1))"

text \<open>Seventeen digits always suffice.\<close>

definition shortest_decimal :: "rat \<Rightarrow> nat \<times> int" where
  "shortest_decimal q = shortest_from 17 q (decimal_exponent q) 1"

definition sign_text :: "bool \<Rightarrow> string" where
  "sign_text neg = (if neg then ''-'' else '''')"

text \<open>The positional form of \<open>c * 10 ^ e\<close>; \<open>whole\<close> is appended to a number without a fraction.\<close>

definition positional :: "string \<Rightarrow> nat \<Rightarrow> int \<Rightarrow> string" where
  "positional whole c e =
     (let ds = dec_digits c; point = int (length ds) + e
      in if 0 \<le> e then ds @ replicate (nat e) (CHR ''0'') @ whole
         else if 0 < point then take (nat point) ds @ ''.'' @ drop (nat point) ds
         else ''0.'' @ replicate (nat (- point)) (CHR ''0'') @ ds)"

definition int_text :: "int \<Rightarrow> string" where
  "int_text i = sign_text (i < 0) @ dec_digits (nat \<bar>i\<bar>)"

definition scientific :: "nat \<Rightarrow> int \<Rightarrow> string" where
  "scientific c e =
     (let ds = dec_digits c
      in take 1 ds @ (if length ds = 1 then '''' else ''.'' @ drop 1 ds)
           @ ''e'' @ int_text (e + int (length ds) - 1))"

fun f64_display :: "f64 \<Rightarrow> string" where
  "f64_display NaN = ''NaN''"
| "f64_display (Infinity s) = sign_text s @ ''inf''"
| "f64_display (Finite s q) =
     sign_text s @ (if q = 0 then ''0'' else (case shortest_decimal q of (c, e) \<Rightarrow> positional '''' c e))"

fun f64_debug :: "f64 \<Rightarrow> string" where
  "f64_debug NaN = ''NaN''"
| "f64_debug (Infinity s) = sign_text s @ ''inf''"
| "f64_debug (Finite s q) =
     sign_text s @
       (if q = 0 then ''0.0''
        else case shortest_decimal q of
               (c, e) \<Rightarrow> if 10 ^ 16 \<le> q \<or> q < 1 / 10 ^ 4 then scientific c e else positional ''.0'' c e)"

text \<open>What reading a literal comes to: rounding its exact value.\<close>

lemmas f64_lit_simps =
  f64_lit_def parse_f64_def parse_decimal_def parse_exponent_def digits_value_def is_digit_def to_digit_def
  to_lowercase_def to_lower_char_def Let_def

lemma f64_lit_1e18: "f64_lit ''1e18'' = Finite False (10 ^ 18)"
proof -
  have "f64_lit ''1e18'' = f64_round False (10 ^ 18)"
    by (simp add: f64_lit_simps)
  also have "\<dots> = Finite False (10 ^ 18)"
    by (rule f64_round_exact [where m = 3814697265625 and e = 18]) (simp_all add: pow2_def)
  finally show ?thesis .
qed

subsection \<open>Durations\<close>

text \<open>\<open>as_secs_f64()\<close>, and the milliseconds \<open>as_secs_f64() * 1000.0\<close>.\<close>

definition as_secs_f64 :: "duration \<Rightarrow> f64" where
  "as_secs_f64 d = f64_add (f64_of_nat (d div 1000000000)) (f64_div (f64_of_nat (d mod 1000000000)) (f64_lit ''1e9''))"

definition elapsed_ms :: "duration \<Rightarrow> f64" where
  "elapsed_ms d = f64_mul (as_secs_f64 d) (Finite False 1000)"

end
