(* ===== verification/Tx_Signer.thy ===== *)
theory Tx_Signer
  imports Bundle_Types Key_Manager F64_Text
begin

text \<open>
  The signer of \<open>crates/mev-core/src/bundle/signer.rs\<close>, with the templates and nonce strategies of
  \<open>bundle/types.rs\<close>. Signing a typed transaction, its hash and its encoding are \<open>ethers\<close>: the fields of
  \<open>sign_env\<close>. \<open>U256\<close> additions panic on overflow. The clock readings are arguments.
\<close>

record TransactionTemplate =
  tt_to :: "address option"
  tt_value :: u256
  tt_gas_limit :: u256
  tt_data :: "u8 list"
  tt_transaction_type :: u8

datatype NonceStrategy = Network | Fixed u64 | Sequential

text \<open>The fields the signer sets on an \<open>Eip1559TransactionRequest\<close>.\<close>

record Eip1559TransactionRequest =
  er_to :: "address option"
  er_value :: u256
  er_gas :: u256
  er_max_fee_per_gas :: u256
  er_max_priority_fee_per_gas :: u256
  er_nonce :: u256
  er_data :: "u8 list"
  er_chain_id :: u64

record ('w, 'sig) sign_env =
  signer_address :: "'w \<Rightarrow> address"
  sign_typed :: "'w \<Rightarrow> Eip1559TransactionRequest \<Rightarrow> string + 'sig"
  typed_hash :: "Eip1559TransactionRequest \<Rightarrow> 'sig \<Rightarrow> h256"
  rlp_signed :: "Eip1559TransactionRequest \<Rightarrow> 'sig \<Rightarrow> u8 list"
  encode_hex :: "u8 list \<Rightarrow> string"

record SignedTransactionTemplate =
  sm_template :: TransactionTemplate
  sm_signer :: address
  sm_base_gas_price :: u256
  sm_created_at :: int

record 'w TransactionSigner =
  sg_key_manager :: "'w KeyManager"
  sg_nonce_tracker :: "(address, u256) hash_map"
  sg_chain_id :: u64
  sg_template_cache :: "(string, SignedTransactionTemplate) hash_map"

datatype sign_error = KeyError key_error | SigningFailed string | TemplateNotFound string

type_synonym ('w, 'a) signing = "('w TransactionSigner \<times> (sign_error + 'a)) run"

definition TransactionSigner_new :: "'w KeyManager \<Rightarrow> u64 \<Rightarrow> 'w TransactionSigner" where
  "TransactionSigner_new km chain_id =
     \<lparr>sg_key_manager = km, sg_nonce_tracker = hm_empty, sg_chain_id = chain_id,
      sg_template_cache = hm_empty\<rparr>"

subsection \<open>Nonces\<close>

definition get_tracked_nonce :: "address \<Rightarrow> 'w TransactionSigner \<Rightarrow> u256 option" where
  "get_tracked_nonce a s = hm_get (sg_nonce_tracker s) a"

definition update_nonce :: "address \<Rightarrow> u256 \<Rightarrow> 'w TransactionSigner \<Rightarrow> 'w TransactionSigner" where
  "update_nonce a n s = s\<lparr>sg_nonce_tracker := hm_insert a n (sg_nonce_tracker s)\<rparr>"

definition reset_nonce :: "address \<Rightarrow> u256 \<Rightarrow> 'w TransactionSigner \<Rightarrow> 'w TransactionSigner" where
  "reset_nonce a n s = update_nonce a n s"

definition next_tracked :: "address \<Rightarrow> 'w TransactionSigner \<Rightarrow> u256" where
  "next_tracked a s = (case get_tracked_nonce a s of Some n \<Rightarrow> n | None \<Rightarrow> 0)"

definition get_nonce :: "address \<Rightarrow> NonceStrategy \<Rightarrow> 'w TransactionSigner \<Rightarrow> ('w TransactionSigner \<times> u256) run" where
  "get_nonce a strategy s =
     (case strategy of
        Fixed n \<Rightarrow> Ret (s, ucast n)
      | Sequential \<Rightarrow>
          (let current = next_tracked a s
           in run_bind (u256_add current 1) (\<lambda>next. Ret (update_nonce a next s, current)))
      | Network \<Rightarrow>
          (let current = next_tracked a s
           in run_bind (u256_add current 1) (\<lambda>next. Ret (update_nonce a next s, current))))"

subsection \<open>Signing\<close>

text \<open>\<open>unwrap_or_default\<close> turns a missing receiver into the zero address.\<close>

definition eip1559_request ::
    "u64 \<Rightarrow> TransactionTemplate \<Rightarrow> u256 \<Rightarrow> u256 \<Rightarrow> u256 \<Rightarrow> Eip1559TransactionRequest" where
  "eip1559_request chain_id t max_fee priority_fee nonce =
     (let tx =
        \<lparr>er_to = Some (case tt_to t of Some a \<Rightarrow> a | None \<Rightarrow> 0),
         er_value = tt_value t,
         er_gas = tt_gas_limit t,
         er_max_fee_per_gas = max_fee,
         er_max_priority_fee_per_gas = priority_fee,
         er_nonce = nonce,
         er_data = tt_data t,
         er_chain_id = chain_id\<rparr>
      in if tt_to t = None then tx\<lparr>er_to := Some 0\<rparr> else tx)"

definition signed_transaction ::
    "('w, 'sig) sign_env \<Rightarrow> address \<Rightarrow> TransactionTemplate \<Rightarrow> Eip1559TransactionRequest \<Rightarrow> 'sig \<Rightarrow> SignedTransaction" where
  "signed_transaction E from t tx sig =
     \<lparr>st_hash = typed_hash E tx sig,
      st_from = from,
      st_to = tt_to t,
      st_value = tt_value t,
      st_gas_limit = tt_gas_limit t,
      st_max_fee_per_gas = er_max_fee_per_gas tx,
      st_max_priority_fee_per_gas = er_max_priority_fee_per_gas tx,
      st_nonce = er_nonce tx,
      st_data = tt_data t,
      st_chain_id = er_chain_id tx,
      st_raw_transaction = rlp_signed E tx sig,
      st_transaction_type = 2\<rparr>"

definition sign_transaction_with_wallet ::
    "('w, 'sig) sign_env \<Rightarrow> 'w \<Rightarrow> TransactionTemplate \<Rightarrow> NonceStrategy \<Rightarrow> u256 \<Rightarrow> u256 \<Rightarrow>
     'w TransactionSigner \<Rightarrow> ('w, SignedTransaction) signing" where
  "sign_transaction_with_wallet E wallet t strategy max_fee priority_fee s =
     (let from = signer_address E wallet
      in run_bind (get_nonce from strategy s) (\<lambda>(s, nonce).
           let tx = eip1559_request (sg_chain_id s) t max_fee priority_fee nonce
           in case sign_typed E wallet tx of
                Inl e \<Rightarrow> Ret (s, Inl (SigningFailed e))
              | Inr sig \<Rightarrow>
                  run_bind (u256_add nonce 1) (\<lambda>next.
                    Ret (update_nonce from next s, Inr (signed_transaction E from t tx sig)))))"

definition sign_transaction ::
    "('w, 'sig) sign_env \<Rightarrow> TransactionTemplate \<Rightarrow> NonceStrategy \<Rightarrow> u256 \<Rightarrow> u256 \<Rightarrow>
     'w TransactionSigner \<Rightarrow> ('w, SignedTransaction) signing" where
  "sign_transaction E t strategy max_fee priority_fee s =
     (case get_default_wallet (sg_key_manager s) of
        Inl e \<Rightarrow> Ret (s, Inl (KeyError e))
      | Inr wallet \<Rightarrow> sign_transaction_with_wallet E wallet t strategy max_fee priority_fee s)"

definition sign_transaction_with_address ::
    "('w, 'sig) sign_env \<Rightarrow> address \<Rightarrow> TransactionTemplate \<Rightarrow> NonceStrategy \<Rightarrow> u256 \<Rightarrow> u256 \<Rightarrow>
     'w TransactionSigner \<Rightarrow> ('w, SignedTransaction) signing" where
  "sign_transaction_with_address E a t strategy max_fee priority_fee s =
     (case get_wallet a (sg_key_manager s) of
        Inl e \<Rightarrow> Ret (s, Inl (KeyError e))
      | Inr wallet \<Rightarrow> sign_transaction_with_wallet E wallet t strategy max_fee priority_fee s)"

subsection \<open>Cached templates\<close>

text \<open>\<open>timestamp_nanos_opt().unwrap_or(0)\<close>: zero outside the range of \<open>i64\<close>.\<close>

definition timestamp_nanos :: "int \<Rightarrow> int" where
  "timestamp_nanos t = (if - (2 ^ 63) \<le> t \<and> t < 2 ^ 63 then t else 0)"

definition create_template ::
    "('w, 'sig) sign_env \<Rightarrow> int \<Rightarrow> int \<Rightarrow> TransactionTemplate \<Rightarrow> u256 \<Rightarrow>
     'w TransactionSigner \<Rightarrow> 'w TransactionSigner \<times> (sign_error + string)" where
  "create_template E now now' t base_gas_price s =
     (case get_default_wallet (sg_key_manager s) of
        Inl e \<Rightarrow> (s, Inl (KeyError e))
      | Inr wallet \<Rightarrow>
          (let template_id = encode_hex E (tt_data t) @ ''_'' @ int_text (timestamp_nanos now);
               entry = \<lparr>sm_template = t, sm_signer = signer_address E wallet,
                        sm_base_gas_price = base_gas_price, sm_created_at = now'\<rparr>
           in (s\<lparr>sg_template_cache := hm_insert template_id entry (sg_template_cache s)\<rparr>, Inr template_id)))"

definition sign_from_template ::
    "('w, 'sig) sign_env \<Rightarrow> string \<Rightarrow> NonceStrategy \<Rightarrow> f64 \<Rightarrow>
     'w TransactionSigner \<Rightarrow> ('w, SignedTransaction) signing" where
  "sign_from_template E template_id strategy gas_multiplier s =
     (case hm_get (sg_template_cache s) template_id of
        None \<Rightarrow> Ret (s, Inl (TemplateNotFound template_id))
      | Some template \<Rightarrow>
          run_bind (scale_gas_price (sm_base_gas_price template) gas_multiplier) (\<lambda>max_fee.
            let priority_fee = 2000000000
            in case get_wallet (sm_signer template) (sg_key_manager s) of
                 Inl e \<Rightarrow> Ret (s, Inl (KeyError e))
               | Inr wallet \<Rightarrow>
                   sign_transaction_with_wallet E wallet (sm_template template) strategy max_fee priority_fee s))"

definition cleanup_templates :: "int \<Rightarrow> int \<Rightarrow> 'w TransactionSigner \<Rightarrow> 'w TransactionSigner" where
  "cleanup_templates now max_age_seconds s =
     s\<lparr>sg_template_cache :=
         hm_retain (\<lambda>_ template. num_seconds (now - sm_created_at template) < max_age_seconds)
           (sg_template_cache s)\<rparr>"

text \<open>The clock is read once per cached template.\<close>

definition get_template_stats :: "(string \<Rightarrow> int) \<Rightarrow> 'w TransactionSigner \<Rightarrow> nat \<times> nat" where
  "get_template_stats now s =
     (hm_len (sg_template_cache s),
      length (filter (\<lambda>(k, template). 300 < num_seconds (now k - sm_created_at template)) (sg_template_cache s)))"

subsection \<open>Common templates\<close>

definition create_eth_transfer_template :: "address \<Rightarrow> u256 \<Rightarrow> u256 option \<Rightarrow> TransactionTemplate" where
  "create_eth_transfer_template to value gas_limit =
     \<lparr>tt_to = Some to, tt_value = value,
      tt_gas_limit = (case gas_limit of Some g \<Rightarrow> g | None \<Rightarrow> 21000),
      tt_data = [], tt_transaction_type = 2\<rparr>"

definition create_contract_call_template ::
    "address \<Rightarrow> u8 list \<Rightarrow> u256 option \<Rightarrow> u256 option \<Rightarrow> TransactionTemplate" where
  "create_contract_call_template to data value gas_limit =
     \<lparr>tt_to = Some to, tt_value = (case value of Some v \<Rightarrow> v | None \<Rightarrow> 0),
      tt_gas_limit = (case gas_limit of Some g \<Rightarrow> g | None \<Rightarrow> 200000),
      tt_data = data, tt_transaction_type = 2\<rparr>"

definition create_contract_deployment_template ::
    "u8 list \<Rightarrow> u256 option \<Rightarrow> u256 option \<Rightarrow> TransactionTemplate" where
  "create_contract_deployment_template bytecode value gas_limit =
     \<lparr>tt_to = None, tt_value = (case value of Some v \<Rightarrow> v | None \<Rightarrow> 0),
      tt_gas_limit = (case gas_limit of Some g \<Rightarrow> g | None \<Rightarrow> 1000000),
      tt_data = bytecode, tt_transaction_type = 2\<rparr>"

end
