(* ===== verification/Tx_Types.thy ===== *)
theory Tx_Types
  imports Rust_Std
begin

text \<open>
  The transactions that the mempool, the strategies and the core share
  (\<open>crates/mev-core/src/types.rs\<close>). Numbers stay the strings the node sent. A time of
  \<open>chrono\<close> is an \<^typ>\<open>int\<close> of nanoseconds.
\<close>

record Transaction =
  tx_hash :: string
  tx_from :: string
  tx_to :: "string option"
  tx_value :: string
  tx_gas_price :: string
  tx_gas_limit :: string
  tx_nonce :: u64
  tx_input :: string
  tx_timestamp :: int

record DecodedParameter =
  dp_name :: string
  dp_param_type :: string
  dp_value :: string

record DecodedInput =
  di_function_name :: string
  di_function_signature :: string
  di_parameters :: "DecodedParameter list"

datatype TargetType =
  UniswapV2 | UniswapV3 | SushiSwap | Curve | Balancer | OrderBook | Unknown

record ParsedTransaction =
  px_transaction :: Transaction
  px_decoded_input :: "DecodedInput option"
  px_target_type :: TargetType
  px_processing_time_ms :: u64

record Block =
  bk_number :: u64
  bk_hash :: string
  bk_timestamp :: u64
  bk_transactions :: "Transaction list"

text \<open>The derived \<open>Debug\<close> text of a target type is its name.\<close>

definition debug_target_type :: "TargetType \<Rightarrow> string" where
  "debug_target_type t =
     (case t of
        UniswapV2 \<Rightarrow> ''UniswapV2'' | UniswapV3 \<Rightarrow> ''UniswapV3'' | SushiSwap \<Rightarrow> ''SushiSwap''
      | Curve \<Rightarrow> ''Curve'' | Balancer \<Rightarrow> ''Balancer'' | OrderBook \<Rightarrow> ''OrderBook''
      | Unknown \<Rightarrow> ''Unknown'')"

end
