(* ===== verification/Strategy_Types.thy ===== *)
theory Strategy_Types
  imports Tx_Types Hash_Map F64_Text
begin

text \<open>
  The opportunities of \<open>crates/mev-core/src/strategy_types.rs\<close>, the minimal strategy engine of the
  decision path and its two mock strategies. Random numbers, identifiers and the clock (in seconds) are
  arguments; the additions to the time wrap.
\<close>

datatype OpportunityType =
    Arbitrage (oa_token_in: string) (oa_token_out: string) (oa_amount_in: u128)
      (oa_expected_profit: u128) (oa_dex_path: "string list")
  | Backrun (ob_target_tx_hash: string) (ob_affected_token: string) (ob_price_impact: f64)
      (ob_follow_up_action: string)
  | Sandwich (os_victim_tx_hash: string) (os_token_pair: "string \<times> string") (os_front_run_amount: u128)
      (os_back_run_amount: u128) (os_expected_profit: u128)
  | Liquidation (ol_protocol: string) (ol_position_owner: string) (ol_collateral_token: string)
      (ol_debt_token: string) (ol_liquidation_amount: u128) (ol_liquidation_bonus: f64)

record Opportunity =
  so_id :: string
  so_strategy_name :: string
  so_target_transaction :: ParsedTransaction
  so_opportunity_type :: OpportunityType
  so_estimated_profit_wei :: u128
  so_estimated_gas_cost_wei :: u128
  so_confidence_score :: f64
  so_priority :: u8
  so_expiry_timestamp :: u64
  so_metadata :: "(string, string) hash_map"

datatype StrategyResult = OpportunityFound Opportunity | NoOpportunity | StrategyError string

text \<open>The trait \<open>Strategy\<close>: the operations of one trait object.\<close>

record Strategy =
  sy_name :: string
  sy_is_enabled :: bool
  sy_evaluate_transaction :: "ParsedTransaction \<Rightarrow> string + StrategyResult"

type_synonym MockStrategyEngine = "Strategy list"

definition MockStrategyEngine_new :: MockStrategyEngine where
  "MockStrategyEngine_new = []"

definition register_strategy :: "Strategy \<Rightarrow> MockStrategyEngine \<Rightarrow> MockStrategyEngine" where
  "register_strategy strategy e = e @ [strategy]"

fun evaluate_transaction :: "MockStrategyEngine \<Rightarrow> ParsedTransaction \<Rightarrow> Opportunity list" where
  "evaluate_transaction [] tx = []"
| "evaluate_transaction (strategy # rest) tx =
     (if \<not> sy_is_enabled strategy then evaluate_transaction rest tx
      else case sy_evaluate_transaction strategy tx of
             Inr (OpportunityFound opp) \<Rightarrow> opp # evaluate_transaction rest tx
           | Inr NoOpportunity \<Rightarrow> evaluate_transaction rest tx
           | Inr (StrategyError e) \<Rightarrow> evaluate_transaction rest tx
           | Inl e \<Rightarrow> evaluate_transaction rest tx)"

definition mock_arbitrage_evaluate ::
    "f64 \<Rightarrow> string \<Rightarrow> u64 \<Rightarrow> string \<Rightarrow> ParsedTransaction \<Rightarrow> StrategyResult" where
  "mock_arbitrage_evaluate random uuid now name tx =
     (if px_target_type tx = UniswapV2 \<or> px_target_type tx = UniswapV3 then
        if f64_lt random (f64_lit ''0.2'') then
          OpportunityFound
            \<lparr>so_id = ''arb_'' @ uuid,
             so_strategy_name = name,
             so_target_transaction = tx,
             so_opportunity_type =
               Arbitrage ''WETH'' ''USDC'' 1000000000000000000 50000000000000000 [''UniswapV2'', ''SushiSwap''],
             so_estimated_profit_wei = 50000000000000000,
             so_estimated_gas_cost_wei = 5000000000000000,
             so_confidence_score = f64_lit ''0.75'',
             so_priority = 150,
             so_expiry_timestamp = now + 30,
             so_metadata = hm_empty\<rparr>
        else NoOpportunity
      else NoOpportunity)"

definition mock_backrun_evaluate :: "string \<Rightarrow> u64 \<Rightarrow> string \<Rightarrow> ParsedTransaction \<Rightarrow> StrategyResult" where
  "mock_backrun_evaluate uuid now name tx =
     (if px_target_type tx = UniswapV2 \<or> px_target_type tx = SushiSwap \<or> px_target_type tx = Curve then
        (case parse_u128 10 (tx_value (px_transaction tx)) of
           Some v \<Rightarrow>
             if 5000000000000000000 < v then
               OpportunityFound
                 \<lparr>so_id = ''backrun_'' @ uuid,
                  so_strategy_name = name,
                  so_target_transaction = tx,
                  so_opportunity_type =
                    Backrun (tx_hash (px_transaction tx)) ''WETH'' (f64_lit ''0.02'') ''arbitrage'',
                  so_estimated_profit_wei = 25000000000000000,
                  so_estimated_gas_cost_wei = 3000000000000000,
                  so_confidence_score = f64_lit ''0.85'',
                  so_priority = 180,
                  so_expiry_timestamp = now + 15,
                  so_metadata = hm_empty\<rparr>
             else NoOpportunity
         | None \<Rightarrow> NoOpportunity)
      else NoOpportunity)"

subsection \<open>Debug text\<close>

text \<open>
  The derived \<open>{:?}\<close> text of an opportunity type. The escaped text of a string needs the Unicode tables of
  the standard library and is an argument \<open>debug_str\<close>.
\<close>

definition u128_to_string :: "u128 \<Rightarrow> string" where
  "u128_to_string n = dec_digits (unat n)"

fun comma_separated :: "string list \<Rightarrow> string" where
  "comma_separated [] = ''''"
| "comma_separated [s] = s"
| "comma_separated (s # ss) = s @ '', '' @ comma_separated ss"

definition debug_struct :: "string \<Rightarrow> (string \<times> string) list \<Rightarrow> string" where
  "debug_struct name fs =
     name @ '' { '' @ comma_separated (map (\<lambda>(k, v). k @ '': '' @ v) fs) @ '' }''"

fun debug_opportunity_type :: "(string \<Rightarrow> string) \<Rightarrow> OpportunityType \<Rightarrow> string" where
  "debug_opportunity_type d (Arbitrage token_in token_out amount_in expected_profit dex_path) =
     debug_struct ''Arbitrage''
       [(''token_in'', d token_in), (''token_out'', d token_out), (''amount_in'', u128_to_string amount_in),
        (''expected_profit'', u128_to_string expected_profit),
        (''dex_path'', ''['' @ comma_separated (map d dex_path) @ '']'')]"
| "debug_opportunity_type d (Backrun target_tx_hash affected_token price_impact follow_up_action) =
     debug_struct ''Backrun''
       [(''target_tx_hash'', d target_tx_hash), (''affected_token'', d affected_token),
        (''price_impact'', f64_debug price_impact), (''follow_up_action'', d follow_up_action)]"
| "debug_opportunity_type d (Sandwich victim_tx_hash token_pair front back expected_profit) =
     debug_struct ''Sandwich''
       [(''victim_tx_hash'', d victim_tx_hash),
        (''token_pair'', ''('' @ d (fst token_pair) @ '', '' @ d (snd token_pair) @ '')''),
        (''front_run_amount'', u128_to_string front), (''back_run_amount'', u128_to_string back),
        (''expected_profit'', u128_to_string expected_profit)]"
| "debug_opportunity_type d (Liquidation protocol owner collateral debt amount bonus) =
     debug_struct ''Liquidation''
       [(''protocol'', d protocol), (''position_owner'', d owner), (''collateral_token'', d collateral),
        (''debt_token'', d debt), (''liquidation_amount'', u128_to_string amount),
        (''liquidation_bonus'', f64_debug bonus)]"

end
