(* ===== verification/Bundle_Builder.thy ===== *)
theory Bundle_Builder
  imports Tx_Signer Strategy_Types
begin

text \<open>
  The bundle builder of \<open>crates/mev-core/src/bundle/builder.rs\<close> and its three strategy builders, with the
  parameters of \<open>bundle/types.rs\<close>. The readers of addresses, numbers and hashes (\<open>FromStr\<close> of \<open>ethers\<close>) and
  of hexadecimal bytes are the fields of \<open>read_env\<close>; the identifier of a bundle and the clock are
  arguments.
\<close>

record BundleParams =
  pa_strategy_name :: string
  pa_target_block :: u64
  pa_max_gas_price :: u256
  pa_max_priority_fee :: u256
  pa_gas_multiplier :: f64
  pa_min_profit_wei :: u256
  pa_expiry_seconds :: u64

definition BundleParams_default :: BundleParams where
  "BundleParams_default =
     \<lparr>pa_strategy_name = ''unknown'',
      pa_target_block = 0,
      pa_max_gas_price = 200000000000,
      pa_max_priority_fee = 2000000000,
      pa_gas_multiplier = f64_lit ''1.1'',
      pa_min_profit_wei = 1000000000000000,
      pa_expiry_seconds = 30\<rparr>"

record BundleValidation =
  bv_is_valid :: bool
  bv_errors :: "string list"
  bv_warnings :: "string list"
  bv_estimated_gas_cost :: u256
  bv_estimated_profit :: u256

record read_env =
  read_address :: "string \<Rightarrow> address option"
  read_u256 :: "string \<Rightarrow> u256 option"
  read_h256 :: "string \<Rightarrow> h256 option"
  read_hex :: "string \<Rightarrow> u8 list option"

datatype StrategyBundleBuilder = ArbitrageBundleBuilder | BackrunBundleBuilder | SandwichBundleBuilder

record 'w BundleBuilder =
  bb_signer :: "'w TransactionSigner"
  bb_default_params :: BundleParams
  bb_strategy_builders :: "(string, StrategyBundleBuilder) hash_map"

datatype build_error =
    NoBuilderRegistered string
  | InvalidOpportunityType string
  | InvalidField string
  | SigningError sign_error
  | ValidationFailed "string list"

type_synonym ('w, 'a) building = "('w TransactionSigner \<times> (build_error + 'a)) run"

definition BundleBuilder_new :: "'w TransactionSigner \<Rightarrow> 'w BundleBuilder" where
  "BundleBuilder_new signer =
     \<lparr>bb_signer = signer, bb_default_params = BundleParams_default, bb_strategy_builders = hm_empty\<rparr>"

definition with_params :: "'w TransactionSigner \<Rightarrow> BundleParams \<Rightarrow> 'w BundleBuilder" where
  "with_params signer params =
     \<lparr>bb_signer = signer, bb_default_params = params, bb_strategy_builders = hm_empty\<rparr>"

definition register_strategy_builder ::
    "string \<Rightarrow> StrategyBundleBuilder \<Rightarrow> 'w BundleBuilder \<Rightarrow> 'w BundleBuilder" where
  "register_strategy_builder name builder b =
     b\<lparr>bb_strategy_builders := hm_insert name builder (bb_strategy_builders b)\<rparr>"

subsection \<open>Strategy builders\<close>

definition execution_template :: "nat \<Rightarrow> u8 list \<Rightarrow> TransactionTemplate" where
  "execution_template gas_limit data =
     \<lparr>tt_to = Some 0, tt_value = 0, tt_gas_limit = word_of_nat gas_limit, tt_data = data,
      tt_transaction_type = 2\<rparr>"

definition arbitrage_transactions ::
    "Opportunity \<Rightarrow> build_error + TransactionTemplate list \<times> TransactionTemplate list" where
  "arbitrage_transactions opp =
     (case so_opportunity_type opp of
        Arbitrage _ _ _ _ _ \<Rightarrow> Inr ([], [execution_template 300000 [0xde, 0xad, 0xbe, 0xef]])
      | _ \<Rightarrow> Inl (InvalidOpportunityType ''Invalid opportunity type for arbitrage builder''))"

definition backrun_transactions ::
    "Opportunity \<Rightarrow> build_error + TransactionTemplate list \<times> TransactionTemplate list" where
  "backrun_transactions opp =
     (case so_opportunity_type opp of
        Backrun _ _ _ _ \<Rightarrow> Inr ([], [execution_template 250000 [0xca, 0xfe, 0xba, 0xbe]])
      | _ \<Rightarrow> Inl (InvalidOpportunityType ''Invalid opportunity type for backrun builder''))"

definition sandwich_transactions ::
    "Opportunity \<Rightarrow> build_error + TransactionTemplate list \<times> TransactionTemplate list" where
  "sandwich_transactions opp =
     (case so_opportunity_type opp of
        Sandwich _ _ _ _ _ \<Rightarrow>
          Inr ([execution_template 200000 [0xf0, 0x0d, 0xfa, 0xce]],
               [execution_template 200000 [0xde, 0xad, 0xc0, 0xde]])
      | _ \<Rightarrow> Inl (InvalidOpportunityType ''Invalid opportunity type for sandwich builder''))"

definition build_bundle_transactions ::
    "StrategyBundleBuilder \<Rightarrow> Opportunity \<Rightarrow>
     build_error + TransactionTemplate list \<times> TransactionTemplate list" where
  "build_bundle_transactions builder opp =
     (case builder of
        ArbitrageBundleBuilder \<Rightarrow> arbitrage_transactions opp
      | BackrunBundleBuilder \<Rightarrow> backrun_transactions opp
      | SandwichBundleBuilder \<Rightarrow> sandwich_transactions opp)"

definition gas_cost :: "Bundle \<Rightarrow> u256 run" where
  "gas_cost b = run_bind (total_gas_limit b) (\<lambda>g. u256_mul g (bu_max_gas_price b))"

definition validate_arbitrage :: "Bundle \<Rightarrow> BundleValidation run" where
  "validate_arbitrage b =
     (let errors = (if bu_post_transactions b = [] then [''Arbitrage bundle must have post-transactions''] else []);
          warnings = (if bu_estimated_profit b < 1000000000000000 then [''Low profit margin for arbitrage''] else [])
      in run_bind (gas_cost b) (\<lambda>cost.
           Ret \<lparr>bv_is_valid = (errors = []), bv_errors = errors, bv_warnings = warnings,
                bv_estimated_gas_cost = cost, bv_estimated_profit = bu_estimated_profit b\<rparr>))"

definition validate_backrun :: "Bundle \<Rightarrow> BundleValidation run" where
  "validate_backrun b =
     (let errors = (if bu_post_transactions b = [] then [''Backrun bundle must have post-transactions''] else []);
          warnings = (if bu_pre_transactions b \<noteq> [] then [''Backrun typically doesn'' @ [char_of (39 :: nat)] @ ''t need pre-transactions''] else [])
      in run_bind (gas_cost b) (\<lambda>cost.
           Ret \<lparr>bv_is_valid = (errors = []), bv_errors = errors, bv_warnings = warnings,
                bv_estimated_gas_cost = cost, bv_estimated_profit = bu_estimated_profit b\<rparr>))"

definition validate_sandwich :: "Bundle \<Rightarrow> BundleValidation run" where
  "validate_sandwich b =
     (let errors =
            (if bu_pre_transactions b = [] then [''Sandwich bundle must have pre-transactions (front-run)''] else [])
            @ (if bu_post_transactions b = [] then [''Sandwich bundle must have post-transactions (back-run)''] else []);
          warnings =
            (if length (bu_pre_transactions b) \<noteq> length (bu_post_transactions b)
             then [''Unbalanced sandwich transactions''] else [])
      in run_bind (gas_cost b) (\<lambda>cost.
           Ret \<lparr>bv_is_valid = (errors = []), bv_errors = errors, bv_warnings = warnings,
                bv_estimated_gas_cost = cost, bv_estimated_profit = bu_estimated_profit b\<rparr>))"

definition validate_bundle :: "StrategyBundleBuilder \<Rightarrow> Bundle \<Rightarrow> BundleValidation run" where
  "validate_bundle builder b =
     (case builder of
        ArbitrageBundleBuilder \<Rightarrow> validate_arbitrage b
      | BackrunBundleBuilder \<Rightarrow> validate_backrun b
      | SandwichBundleBuilder \<Rightarrow> validate_sandwich b)"

subsection \<open>The target transaction\<close>

definition read_optional_address :: "read_env \<Rightarrow> string option \<Rightarrow> build_error + address option" where
  "read_optional_address R to =
     (case to of
        None \<Rightarrow> Inr None
      | Some s \<Rightarrow> res_bind (ok_or (InvalidField ''Invalid to address'') (read_address R s)) (\<lambda>a. Inr (Some a)))"

definition read_input :: "read_env \<Rightarrow> string \<Rightarrow> build_error + u8 list" where
  "read_input R s = ok_or (InvalidField ''Invalid input data'') (read_hex R (trim_start_matches ''0x'' s))"

definition create_target_template :: "read_env \<Rightarrow> Opportunity \<Rightarrow> build_error + TransactionTemplate" where
  "create_target_template R opp =
     (let tx = px_transaction (so_target_transaction opp)
      in res_bind (read_optional_address R (tx_to tx)) (\<lambda>to.
         res_bind (ok_or (InvalidField ''Invalid value'') (read_u256 R (tx_value tx))) (\<lambda>value.
         res_bind (ok_or (InvalidField ''Invalid gas limit'') (read_u256 R (tx_gas_limit tx))) (\<lambda>gas_limit.
         res_bind (read_input R (tx_input tx)) (\<lambda>data.
           Inr \<lparr>tt_to = to, tt_value = value, tt_gas_limit = gas_limit, tt_data = data,
                tt_transaction_type = 2\<rparr>)))))"

definition create_target_signed_transaction :: "read_env \<Rightarrow> Opportunity \<Rightarrow> build_error + SignedTransaction" where
  "create_target_signed_transaction R opp =
     (let tx = px_transaction (so_target_transaction opp)
      in res_bind (ok_or (InvalidField ''Invalid hash'') (read_h256 R (tx_hash tx))) (\<lambda>hash.
         res_bind (ok_or (InvalidField ''Invalid from address'') (read_address R (tx_from tx))) (\<lambda>from.
         res_bind (read_optional_address R (tx_to tx)) (\<lambda>to.
         res_bind (ok_or (InvalidField ''Invalid value'') (read_u256 R (tx_value tx))) (\<lambda>value.
         res_bind (ok_or (InvalidField ''Invalid gas limit'') (read_u256 R (tx_gas_limit tx))) (\<lambda>gas_limit.
         res_bind (ok_or (InvalidField ''Invalid gas price'') (read_u256 R (tx_gas_price tx))) (\<lambda>gas_price.
         res_bind (read_input R (tx_input tx)) (\<lambda>data.
           Inr \<lparr>st_hash = hash, st_from = from, st_to = to, st_value = value, st_gas_limit = gas_limit,
                st_max_fee_per_gas = gas_price, st_max_priority_fee_per_gas = 2000000000,
                st_nonce = ucast (tx_nonce tx), st_data = data, st_chain_id = 998,
                st_raw_transaction = [], st_transaction_type = 2\<rparr>))))))))"

subsection \<open>Building\<close>

definition calculate_gas_prices :: "BundleParams \<Rightarrow> (u256 \<times> u256) run" where
  "calculate_gas_prices params =
     (let base_fee = pa_max_gas_price params; priority_fee = pa_max_priority_fee params
      in run_bind (scale_gas_price base_fee (pa_gas_multiplier params)) (\<lambda>scaled.
         run_bind (u256_add base_fee priority_fee) (\<lambda>floor.
           Ret (max scaled floor, priority_fee))))"

definition get_starting_nonce ::
    "('w, 'sig) sign_env \<Rightarrow> 'w TransactionSigner \<Rightarrow> build_error + u256" where
  "get_starting_nonce E s =
     (case get_default_wallet (sg_key_manager s) of
        Inl e \<Rightarrow> Inl (SigningError (KeyError e))
      | Inr wallet \<Rightarrow> Inr (next_tracked (signer_address E wallet) s))"

text \<open>\<open>to_string\<close> of a \<open>u8\<close>.\<close>

definition u8_to_string :: "u8 \<Rightarrow> string" where
  "u8_to_string n = dec_digits (unat n)"

definition create_bundle_metadata ::
    "(string \<Rightarrow> string) \<Rightarrow> Opportunity \<Rightarrow> BundleParams \<Rightarrow> (string, string) hash_map" where
  "create_bundle_metadata debug_str opp params =
     fold (\<lambda>(key, v). hm_insert (''opp_'' @ key) v) (so_metadata opp)
       (hm_insert ''gas_multiplier'' (f64_display (pa_gas_multiplier params))
       (hm_insert ''expiry_seconds'' (u64_to_string (pa_expiry_seconds params))
       (hm_insert ''priority'' (u8_to_string (so_priority opp))
       (hm_insert ''confidence_score'' (f64_display (so_confidence_score opp))
       (hm_insert ''opportunity_type'' (debug_opportunity_type debug_str (so_opportunity_type opp))
       (hm_insert ''opportunity_id'' (so_id opp)
       (hm_insert ''strategy'' (so_strategy_name opp) hm_empty)))))))"

text \<open>The loops that sign the templates in order, each with the next nonce.\<close>

fun sign_templates ::
    "('w, 'sig) sign_env \<Rightarrow> u256 \<Rightarrow> u256 \<Rightarrow> TransactionTemplate list \<Rightarrow> u256 \<Rightarrow>
     'w TransactionSigner \<Rightarrow> ('w, SignedTransaction list \<times> u256) building" where
  "sign_templates E max_fee priority_fee [] nonce s = Ret (s, Inr ([], nonce))"
| "sign_templates E max_fee priority_fee (template # rest) nonce s =
     run_bind (as_u64 nonce) (\<lambda>n.
       run_bind (sign_transaction E template (Fixed n) max_fee priority_fee s) (\<lambda>(s, signed).
         case signed of
           Inl e \<Rightarrow> Ret (s, Inl (SigningError e))
         | Inr tx \<Rightarrow>
             run_bind (u256_add nonce 1) (\<lambda>next.
               ok_bind (sign_templates E max_fee priority_fee rest next s) (\<lambda>s (txs, last).
                 Ret (s, Inr (tx # txs, last))))))"

definition build_bundle_with_params ::
    "('w, 'sig) sign_env \<Rightarrow> read_env \<Rightarrow> (string \<Rightarrow> string) \<Rightarrow> string \<Rightarrow> int \<Rightarrow>
     (string, StrategyBundleBuilder) hash_map \<Rightarrow> Opportunity \<Rightarrow> BundleParams \<Rightarrow>
     'w TransactionSigner \<Rightarrow> ('w, Bundle) building" where
  "build_bundle_with_params E R debug_str uuid now builders opp params s =
     (case hm_get builders (so_strategy_name opp) of
        None \<Rightarrow> Ret (s, Inl (NoBuilderRegistered (so_strategy_name opp)))
      | Some builder \<Rightarrow>
          ok_bind (Ret (s, build_bundle_transactions builder opp)) (\<lambda>s (pre_templates, post_templates).
          ok_bind (Ret (s, create_target_template R opp)) (\<lambda>s _.
          run_bind (calculate_gas_prices params) (\<lambda>(max_fee, priority_fee).
          ok_bind (Ret (s, get_starting_nonce E s)) (\<lambda>s nonce.
          ok_bind (sign_templates E max_fee priority_fee pre_templates nonce s) (\<lambda>s (pre, nonce).
          ok_bind (Ret (s, create_target_signed_transaction R opp)) (\<lambda>s target.
          ok_bind (sign_templates E max_fee priority_fee post_templates nonce s) (\<lambda>s (post, nonce).
            let bundle =
              \<lparr>bu_id = ''bundle_'' @ uuid,
               bu_pre_transactions = pre,
               bu_target_transaction = target,
               bu_post_transactions = post,
               bu_target_block = pa_target_block params,
               bu_max_gas_price = pa_max_gas_price params,
               bu_estimated_profit = ucast (so_estimated_profit_wei opp),
               bu_created_at = now,
               bu_metadata = create_bundle_metadata debug_str opp params\<rparr>
            in run_bind (validate_bundle builder bundle) (\<lambda>validation.
                 if \<not> bv_is_valid validation then Ret (s, Inl (ValidationFailed (bv_errors validation)))
                 else Ret (s, Inr bundle))))))))))"

text \<open>The signer is shared with the builder, so the builder keeps the signer that building leaves.\<close>

definition build_bundle ::
    "('w, 'sig) sign_env \<Rightarrow> read_env \<Rightarrow> (string \<Rightarrow> string) \<Rightarrow> string \<Rightarrow> int \<Rightarrow> Opportunity \<Rightarrow>
     'w BundleBuilder \<Rightarrow> ('w BundleBuilder \<times> (build_error + Bundle)) run" where
  "build_bundle E R debug_str uuid now opp b =
     run_bind
       (build_bundle_with_params E R debug_str uuid now (bb_strategy_builders b) opp (bb_default_params b) (bb_signer b))
       (\<lambda>(s, r). Ret (b\<lparr>bb_signer := s\<rparr>, r))"

end
