(* ===== verification/Bundle_Facts.thy ===== *)
theory Bundle_Facts
  imports Bundle_Builder
begin

text \<open>
  What the signer and the bundle builder guarantee: the nonces of signed transactions and of a built
  bundle, what a failure leaves behind, which errors can occur and what is signed.
\<close>

subsection \<open>Signing\<close>

lemma next_tracked_update [simp]:
  "next_tracked a (update_nonce b n s) = (if a = b then n else next_tracked a s)"
  by (simp add: next_tracked_def get_tracked_nonce_def update_nonce_def)

lemma update_nonce_fields [simp]:
  "sg_key_manager (update_nonce a n s) = sg_key_manager s"
  "sg_chain_id (update_nonce a n s) = sg_chain_id s"
  "sg_template_cache (update_nonce a n s) = sg_template_cache s"
  by (simp_all add: update_nonce_def)

lemma u256_add_Ret_iff: "u256_add a b = Ret c \<longleftrightarrow> unat a + unat b < 2 ^ 256 \<and> c = a + b"
  by (auto simp: u256_add_def)

lemma unat_u256_add: "u256_add a b = Ret c \<Longrightarrow> unat c = unat a + unat b"
  by (auto simp: u256_add_Ret_iff) (subst unat_add_lem [symmetric], simp)

lemma unat_u64_less: "unat (n :: u64) < 18446744073709551616"
  using unsigned_less [of n] by simp

lemma unat_ucast_u256: "unat (ucast (n :: u64) :: u256) = unat n"
  using unat_u64_less [of n] by (simp add: unsigned_ucast_eq take_bit_nat_eq_self)

lemma u256_add_fixed: "u256_add (ucast (n :: u64)) 1 = Ret (ucast n + 1)"
  using unat_u64_less [of n] by (simp add: u256_add_def unat_ucast_u256)

text \<open>With a fixed nonce nothing panics; the tracker moves only when the wallet signs.\<close>

lemma sign_fixed:
  "sign_transaction_with_wallet E w t (Fixed n) f p s =
     (let tx = eip1559_request (sg_chain_id s) t f p (ucast n)
      in case sign_typed E w tx of
           Inl e \<Rightarrow> Ret (s, Inl (SigningFailed e))
         | Inr sig \<Rightarrow> Ret (update_nonce (signer_address E w) (ucast n + 1) s,
                          Inr (signed_transaction E (signer_address E w) t tx sig)))"
  by (simp add: sign_transaction_with_wallet_def get_nonce_def Let_def u256_add_fixed split: sum.split)

lemma signed_transaction_fields [simp]:
  "st_nonce (signed_transaction E a t tx sig) = er_nonce tx"
  "st_from (signed_transaction E a t tx sig) = a"
  "st_to (signed_transaction E a t tx sig) = tt_to t"
  "st_max_fee_per_gas (signed_transaction E a t tx sig) = er_max_fee_per_gas tx"
  "st_chain_id (signed_transaction E a t tx sig) = er_chain_id tx"
  "st_gas_limit (signed_transaction E a t tx sig) = tt_gas_limit t"
  "st_raw_transaction (signed_transaction E a t tx sig) = rlp_signed E tx sig"
  by (simp_all add: signed_transaction_def)

lemma eip1559_request_fields [simp]:
  "er_nonce (eip1559_request c t f p n) = n"
  "er_max_fee_per_gas (eip1559_request c t f p n) = f"
  "er_chain_id (eip1559_request c t f p n) = c"
  "er_to (eip1559_request c t f p n) = Some (case tt_to t of Some a \<Rightarrow> a | None \<Rightarrow> 0)"
  by (simp_all add: eip1559_request_def Let_def)

text \<open>Sequential signing: the nonce used, and the tracker afterwards, whether or not the wallet signs.\<close>

lemma sign_sequential:
  assumes "strategy = Sequential \<or> strategy = Network"
    and "unat (next_tracked (signer_address E w) s) + 1 < 2 ^ 256"
  shows "sign_transaction_with_wallet E w t strategy f p s =
     (let a = signer_address E w; n = next_tracked a s;
          tx = eip1559_request (sg_chain_id s) t f p n
      in case sign_typed E w tx of
           Inl e \<Rightarrow> Ret (update_nonce a (n + 1) s, Inl (SigningFailed e))
         | Inr sig \<Rightarrow> Ret (update_nonce a (n + 1) (update_nonce a (n + 1) s), Inr (signed_transaction E a t tx sig)))"
  using assms
  by (auto simp: sign_transaction_with_wallet_def get_nonce_def Let_def u256_add_def split: sum.split)

text \<open>when the wallet fails to sign under the sequential or the network strategy, its nonce is used
  up all the same: the next transaction that is signed carries the following nonce, and the skipped
  one is never signed, so the node cannot execute what follows.\<close>

theorem failed_signing_leaves_gap:
  assumes "strategy = Sequential \<or> strategy = Network" and "strategy' = Sequential \<or> strategy' = Network"
    and "get_default_wallet (sg_key_manager s) = Inr w"
    and "unat (next_tracked (signer_address E w) s) + 2 < 2 ^ 256"
    and "sign_transaction E t strategy f p s = Ret (s1, Inl (SigningFailed e))"
    and "sign_transaction E t' strategy' f' p' s1 = Ret (s2, Inr tx)"
  shows "unat (st_nonce tx) = unat (next_tracked (signer_address E w) s) + 1
    \<and> unat (next_tracked (signer_address E w) s2) = unat (next_tracked (signer_address E w) s) + 2"
proof -
  let ?a = "signer_address E w"
  let ?n = "next_tracked ?a s"
  have less: "unat ?n < 2 ^ 256 - 1" "unat ?n < 2 ^ 256 - 2"
    using assms(4) by simp_all
  have suc: "unat (?n + 1) = Suc (unat ?n)"
    by (rule unat_plus_one_lt) (use less in simp)
  then have suc2: "unat (?n + 1 + 1) = Suc (Suc (unat ?n))"
    using less by (subst unat_plus_one_lt) simp_all
  have s1: "s1 = update_nonce ?a (?n + 1) s"
    using assms(5) less unfolding sign_transaction_def assms(3)
    by (simp add: sign_sequential [OF assms(1)] Let_def split: sum.splits)
  then have "st_nonce tx = ?n + 1" "next_tracked ?a s2 = ?n + 1 + 1"
    using assms(6) less suc assms(3) unfolding sign_transaction_def
    by (auto simp: sign_sequential [OF assms(2)] Let_def split: sum.splits)
  with suc suc2 show ?thesis
    by simp
qed

subsection \<open>Signing a list of templates\<close>

lemma as_u64_Ret: "as_u64 x = Ret n \<Longrightarrow> ucast n = x \<and> unat x < 2 ^ 64"
proof -
  assume "as_u64 x = Ret n"
  then have *: "unat x < 2 ^ 64" "n = ucast x"
    by (auto simp: as_u64_def split: if_splits)
  have "unat (ucast (ucast x :: u64) :: u256) = unat x"
    using *(1) by (simp add: unat_ucast_u256) (simp add: unsigned_ucast_eq take_bit_nat_eq_self)
  then have "(ucast (ucast x :: u64) :: u256) = x"
    by (simp only: word_unat_eq_iff)
  with * show ?thesis
    by simp
qed

declare sign_templates.simps(2) [simp del]

text \<open>One round of the loop: the nonce fits 64 bits and the wallet is asked once.\<close>

lemma sign_templates_Cons:
  assumes "get_default_wallet (sg_key_manager s) = Inr w"
  shows "sign_templates E f p (t # ts) nonce s =
    (let a = signer_address E w; tx = eip1559_request (sg_chain_id s) t f p nonce
     in if 2 ^ 64 \<le> unat nonce then Panic
        else case sign_typed E w tx of
               Inl e \<Rightarrow> Ret (s, Inl (SigningError (SigningFailed e)))
             | Inr sig \<Rightarrow>
                 ok_bind (sign_templates E f p ts (nonce + 1) (update_nonce a (nonce + 1) s))
                   (\<lambda>s (txs, fin). Ret (s, Inr (signed_transaction E a t tx sig # txs, fin))))"
proof (cases "as_u64 nonce")
  case Panic
  then show ?thesis
    by (simp add: as_u64_def sign_templates.simps(2) split: if_splits)
next
  case (Ret n)
  note n = as_u64_Ret [OF this]
  then have "u256_add nonce 1 = Ret (nonce + 1)"
    by (simp add: u256_add_def)
  with Ret n assms show ?thesis
    by (simp add: sign_templates.simps(2) sign_transaction_def sign_fixed Let_def split: sum.split)
qed

lemma sign_templates_ok:
  assumes "get_default_wallet (sg_key_manager s) = Inr w"
    and "sign_templates E f p ts nonce s = Ret (s', Inr (txs, fin))"
  shows "map (unat \<circ> st_nonce) txs = [unat nonce ..< unat nonce + length ts]
    \<and> map st_to txs = map tt_to ts
    \<and> list_all (\<lambda>tx. st_from tx = signer_address E w \<and> st_max_fee_per_gas tx = f) txs
    \<and> unat fin = unat nonce + length ts
    \<and> sg_key_manager s' = sg_key_manager s
    \<and> next_tracked (signer_address E w) s' = (if ts = [] then next_tracked (signer_address E w) s else fin)"
  using assms
proof (induction ts arbitrary: nonce s txs)
  case Nil
  then show ?case by simp
next
  case (Cons t ts)
  let ?a = "signer_address E w"
  let ?tx = "eip1559_request (sg_chain_id s) t f p nonce"
  have less: "unat nonce < 2 ^ 64"
    using Cons.prems by (auto simp: sign_templates_Cons Let_def split: if_splits)
  obtain sig txs' where rest: "txs = signed_transaction E ?a t ?tx sig # txs'"
      "sign_templates E f p ts (nonce + 1) (update_nonce ?a (nonce + 1) s) = Ret (s', Inr (txs', fin))"
    using Cons.prems
    by (auto simp: sign_templates_Cons Let_def ok_bind_ok_iff split: if_splits sum.splits prod.splits)
  have suc: "unat (nonce + 1) = Suc (unat nonce)"
    by (rule unat_plus_one_lt) (use less in simp)
  have "ts = [] \<Longrightarrow> fin = nonce + 1"
    using rest(2) by simp
  with Cons.IH [OF _ rest(2)] Cons.prems(1) suc show ?case
    by (auto simp: rest(1) upt_conv_Cons)
qed

text \<open>
  \<open>signed_until E w f p ts k nonce s s'\<close>: the wallet has signed the first \<open>k\<close> templates under the nonces from
  \<open>nonce\<close> on, and the only change of the signer is the tracked nonce after the last of them.
\<close>

definition template_request ::
  "'w TransactionSigner \<Rightarrow> u256 \<Rightarrow> u256 \<Rightarrow> TransactionTemplate list \<Rightarrow> u256 \<Rightarrow> nat \<Rightarrow> Eip1559TransactionRequest" where
  "template_request s f p ts nonce k = eip1559_request (sg_chain_id s) (ts ! k) f p (nonce + of_nat k)"

definition signed_until ::
  "('w, 'sig) sign_env \<Rightarrow> 'w \<Rightarrow> u256 \<Rightarrow> u256 \<Rightarrow> TransactionTemplate list \<Rightarrow> nat \<Rightarrow> u256 \<Rightarrow>
   'w TransactionSigner \<Rightarrow> 'w TransactionSigner \<Rightarrow> bool" where
  "signed_until E w f p ts k nonce s s' \<longleftrightarrow> k \<le> length ts \<and>
     (\<forall>j < k. \<exists>sig. sign_typed E w (template_request s f p ts nonce j) = Inr sig) \<and>
     s' = (if k = 0 then s else update_nonce (signer_address E w) (nonce + of_nat k) s)"

lemma update_nonce_twice [simp]: "update_nonce a n (update_nonce a n' s) = update_nonce a n s"
  by (simp add: update_nonce_def hm_insert_def)

lemma signed_until_Cons:
  assumes "sign_typed E w (eip1559_request (sg_chain_id s) t f p nonce) = Inr sig"
    and "signed_until E w f p ts k (nonce + 1) (update_nonce (signer_address E w) (nonce + 1) s) s'"
  shows "signed_until E w f p (t # ts) (Suc k) nonce s s'"
  using assms by (auto simp: signed_until_def template_request_def less_Suc_eq_0_disj add.assoc)

text \<open>How far the loop over the templates comes, and the signer it leaves.\<close>

lemma sign_templates_progress:
  assumes "get_default_wallet (sg_key_manager s) = Inr w"
    and "sign_templates E f p ts nonce s = Ret (s', r)"
  shows "\<exists>k. signed_until E w f p ts k nonce s s' \<and>
    (case r of
       Inl e \<Rightarrow> k < length ts \<and> (\<exists>m. sign_typed E w (template_request s f p ts nonce k) = Inl m \<and> e = SigningError (SigningFailed m))
     | Inr (txs, fin) \<Rightarrow> k = length ts \<and> fin = nonce + of_nat k)"
  using assms
proof (induction ts arbitrary: nonce s r)
  case Nil
  then show ?case
    by (auto simp: signed_until_def)
next
  case (Cons t ts)
  let ?a = "signer_address E w"
  let ?s = "update_nonce ?a (nonce + 1) s"
  show ?case
  proof (cases "sign_typed E w (eip1559_request (sg_chain_id s) t f p nonce)")
    case (Inl m)
    with Cons.prems show ?thesis
      by (intro exI [of _ 0])
        (auto simp: sign_templates_Cons Let_def signed_until_def template_request_def split: if_splits)
  next
    case (Inr sig)
    then obtain r' where rest: "sign_templates E f p ts (nonce + 1) ?s = Ret (s', r')"
      and r: "r = (case r' of Inl e \<Rightarrow> Inl e | Inr (txs, fin) \<Rightarrow>
          Inr (signed_transaction E ?a t (eip1559_request (sg_chain_id s) t f p nonce) sig # txs, fin))"
      using Cons.prems
      by (cases "sign_templates E f p ts (nonce + 1) ?s" rule: run_result_cases)
        (auto simp: sign_templates_Cons Let_def split: if_splits)
    have "get_default_wallet (sg_key_manager ?s) = Inr w"
      using Cons.prems(1) by simp
    from Cons.IH [OF this rest] obtain k where k: "signed_until E w f p ts k (nonce + 1) ?s s'"
      "case r' of Inl e \<Rightarrow> k < length ts \<and> (\<exists>m. sign_typed E w (template_request ?s f p ts (nonce + 1) k) = Inl m \<and> e = SigningError (SigningFailed m))
       | Inr (txs, fin) \<Rightarrow> k = length ts \<and> fin = nonce + 1 + of_nat k"
      by blast
    show ?thesis
      using signed_until_Cons [OF Inr k(1)] k(2) r
      by (intro exI [of _ "Suc k"]) (auto simp: template_request_def add.assoc split: sum.splits)
  qed
qed

text \<open>The two runs of a bundle, before and after the target, as one.\<close>

lemma signed_until_append:
  assumes "signed_until E w f p ts (length ts) nonce s s1"
    and "signed_until E w f p us k (nonce + of_nat (length ts)) s1 s2"
  shows "signed_until E w f p (ts @ us) (length ts + k) nonce s s2"
proof -
  have "\<exists>sig. sign_typed E w (template_request s f p (ts @ us) nonce j) = Inr sig" if "j < length ts + k" for j
  proof (cases "j < length ts")
    case True
    with assms(1) show ?thesis
      by (auto simp: signed_until_def template_request_def nth_append)
  next
    case False
    with that have "j - length ts < k"
      by simp
    with assms(2) have "\<exists>sig. sign_typed E w (template_request s1 f p us (nonce + of_nat (length ts)) (j - length ts)) = Inr sig"
      by (auto simp: signed_until_def)
    moreover have "sg_chain_id s1 = sg_chain_id s"
      using assms(1) by (auto simp: signed_until_def)
    ultimately show ?thesis
      using False by (simp add: template_request_def nth_append add.assoc flip: of_nat_add)
  qed
  with assms show ?thesis
    by (auto simp: signed_until_def add.assoc)
qed

subsection \<open>Building a bundle\<close>

lemma calculate_gas_prices_Ret:
  assumes "calculate_gas_prices params = Ret (f, p)"
  shows "p = pa_max_priority_fee params"
    and "unat (pa_max_gas_price params) + unat (pa_max_priority_fee params) \<le> unat f"
  using assms unat_u256_add [of "pa_max_gas_price params" "pa_max_priority_fee params"]
  by (auto simp: calculate_gas_prices_def Let_def run_bind_Ret_iff word_le_nat_alt max_def)

lemma get_starting_nonce_Inr:
  "get_starting_nonce E s = Inr n \<longleftrightarrow>
     (\<exists>w. get_default_wallet (sg_key_manager s) = Inr w \<and> n = next_tracked (signer_address E w) s)"
  by (auto simp: get_starting_nonce_def split: sum.split)

text \<open>The stages of a successful build.\<close>

lemma build_bundle_stages:
  assumes "build_bundle_with_params E R d uuid now builders opp params s = Ret (s', Inr b)"
  obtains builder pre_t post_t f p w s1 pre n1 target post n2 where
    "hm_get builders (so_strategy_name opp) = Some builder"
    "build_bundle_transactions builder opp = Inr (pre_t, post_t)"
    "calculate_gas_prices params = Ret (f, p)"
    "get_default_wallet (sg_key_manager s) = Inr w"
    "sign_templates E f p pre_t (next_tracked (signer_address E w) s) s = Ret (s1, Inr (pre, n1))"
    "create_target_signed_transaction R opp = Inr target"
    "sign_templates E f p post_t n1 s1 = Ret (s', Inr (post, n2))"
    "bu_pre_transactions b = pre" "bu_target_transaction b = target" "bu_post_transactions b = post"
    "bu_max_gas_price b = pa_max_gas_price params" "bu_target_block b = pa_target_block params"
    "bu_metadata b = create_bundle_metadata d opp params"
  using assms
  by (auto simp: build_bundle_with_params_def ok_bind_ok_iff run_bind_Ret_iff get_starting_nonce_Inr Let_def
      split: option.splits prod.splits if_splits)

text \<open>What each strategy builder asks for.\<close>

lemma build_bundle_transactions_cases:
  assumes "build_bundle_transactions builder opp = Inr (pre_t, post_t)"
  shows "length post_t = 1 \<and> length pre_t = (if builder = SandwichBundleBuilder then 1 else 0)
    \<and> (case so_opportunity_type opp of
         Arbitrage _ _ _ _ _ \<Rightarrow> builder = ArbitrageBundleBuilder
       | Backrun _ _ _ _ \<Rightarrow> builder = BackrunBundleBuilder
       | Sandwich _ _ _ _ _ \<Rightarrow> builder = SandwichBundleBuilder
       | Liquidation _ _ _ _ _ _ \<Rightarrow> False)"
  using assms
  by (auto simp: build_bundle_transactions_def arbitrage_transactions_def backrun_transactions_def
      sandwich_transactions_def split: StrategyBundleBuilder.splits OpportunityType.splits)

text \<open>C5: the transactions of a built bundle that the bot itself sends, those before the target and then
  those after it, are all signed by the default wallet under consecutive nonces, starting with the
  tracked nonce of its address; afterwards the tracker holds the nonce that follows the last one.\<close>

theorem bundle_nonces_consecutive:
  assumes "build_bundle_with_params E R d uuid now builders opp params s = Ret (s', Inr b)"
    and "get_default_wallet (sg_key_manager s) = Inr w"
  defines "own \<equiv> bu_pre_transactions b @ bu_post_transactions b"
    and "first \<equiv> unat (next_tracked (signer_address E w) s)"
  shows "map (unat \<circ> st_nonce) own = [first ..< first + length own]
    \<and> unat (next_tracked (signer_address E w) s') = first + length own
    \<and> list_all (\<lambda>tx. st_from tx = signer_address E w) own"
  using assms(1)
proof (rule build_bundle_stages)
  fix builder pre_t post_t f p w' s1 pre n1 target post n2
  let ?n = "next_tracked (signer_address E w) s"
  assume builder: "build_bundle_transactions builder opp = Inr (pre_t, post_t)"
    and w': "get_default_wallet (sg_key_manager s) = Inr w'"
    and pre: "sign_templates E f p pre_t (next_tracked (signer_address E w') s) s = Ret (s1, Inr (pre, n1))"
    and post: "sign_templates E f p post_t n1 s1 = Ret (s', Inr (post, n2))"
    and b: "bu_pre_transactions b = pre" "bu_post_transactions b = post"
  have [simp]: "w' = w"
    using assms(2) w' by simp
  note 1 = sign_templates_ok [OF assms(2) pre [unfolded \<open>w' = w\<close>]]
  then have "get_default_wallet (sg_key_manager s1) = Inr w"
    using assms(2) by simp
  note 2 = sign_templates_ok [OF this post]
  have len: "length pre = length pre_t" "length post = length post_t"
    using 1 2 by (metis length_map)+
  have "post_t \<noteq> []"
    using build_bundle_transactions_cases [OF builder] by auto
  then have tracked: "unat (next_tracked (signer_address E w) s') = first + length own"
    using 1 2 len by (simp add: own_def first_def b)
  have "[first ..< first + (length pre + length post)]
      = [first ..< first + length pre] @ [first + length pre ..< first + length pre + length post]"
    using upt_add_eq_append [of first "first + length pre" "length post"] by (simp add: add.assoc)
  then have nonces: "map (unat \<circ> st_nonce) own = [first ..< first + length own]"
    using 1 2 len by (simp add: own_def first_def b)
  have "list_all (\<lambda>tx. st_from tx = signer_address E w) own"
    using 1 2 by (auto simp: own_def b list_all_iff)
  with nonces tracked show ?thesis
    by simp
qed

text \<open>the maximum gas price of the parameters is not a maximum: every transaction the bot signs for a
  bundle offers at least that price plus the whole priority fee.\<close>

theorem bundle_fee_above_cap:
  assumes "build_bundle_with_params E R d uuid now builders opp params s = Ret (s', Inr b)"
  shows "list_all (\<lambda>tx. unat (bu_max_gas_price b) + unat (pa_max_priority_fee params) \<le> unat (st_max_fee_per_gas tx))
    (bu_pre_transactions b @ bu_post_transactions b)"
  using assms
proof (rule build_bundle_stages)
  fix builder pre_t post_t f p w s1 pre n1 target post n2
  assume fees: "calculate_gas_prices params = Ret (f, p)"
    and w: "get_default_wallet (sg_key_manager s) = Inr w"
    and pre: "sign_templates E f p pre_t (next_tracked (signer_address E w) s) s = Ret (s1, Inr (pre, n1))"
    and post: "sign_templates E f p post_t n1 s1 = Ret (s', Inr (post, n2))"
    and b: "bu_pre_transactions b = pre" "bu_post_transactions b = post"
      "bu_max_gas_price b = pa_max_gas_price params"
  note 1 = sign_templates_ok [OF w pre]
  then have "get_default_wallet (sg_key_manager s1) = Inr w"
    using w by simp
  from 1 sign_templates_ok [OF this post] calculate_gas_prices_Ret(2) [OF fees] show ?thesis
    by (auto simp: b list_all_iff)
qed

lemma validate_bundle_valid:
  assumes "validate_bundle builder b = Ret v" and "bu_post_transactions b \<noteq> []"
    and "builder = SandwichBundleBuilder \<Longrightarrow> bu_pre_transactions b \<noteq> []"
  shows "bv_is_valid v"
  using assms
  by (cases builder)
     (auto simp: validate_bundle_def validate_arbitrage_def validate_backrun_def validate_sandwich_def
        run_bind_Ret_iff)

lemma target_errors:
  "create_target_template R opp = Inl e \<Longrightarrow> \<exists>m. e = InvalidField m"
  "create_target_signed_transaction R opp = Inl e \<Longrightarrow> \<exists>m. e = InvalidField m"
  by (auto simp: create_target_template_def create_target_signed_transaction_def read_optional_address_def
      read_input_def Let_def res_bind_Inl_iff ok_or_def split: option.splits)

text \<open>
  The ways in which a build that has reached the signing can stop: an unreadable field of the target after the templates
  before it have been signed, and a template the wallet refuses.
\<close>

definition target_unreadable ::
  "('w, 'sig) sign_env \<Rightarrow> read_env \<Rightarrow> Opportunity \<Rightarrow> 'w \<Rightarrow> u256 \<Rightarrow> u256 \<Rightarrow> TransactionTemplate list \<Rightarrow>
   'w TransactionSigner \<Rightarrow> 'w TransactionSigner \<Rightarrow> build_error \<Rightarrow> bool" where
  "target_unreadable E R opp w f p pre_t s s' e \<longleftrightarrow>
     create_target_signed_transaction R opp = Inl e \<and>
     signed_until E w f p pre_t (length pre_t) (next_tracked (signer_address E w) s) s s'"

definition template_refused ::
  "('w, 'sig) sign_env \<Rightarrow> read_env \<Rightarrow> Opportunity \<Rightarrow> 'w \<Rightarrow> u256 \<Rightarrow> u256 \<Rightarrow> TransactionTemplate list \<Rightarrow> TransactionTemplate list \<Rightarrow>
   'w TransactionSigner \<Rightarrow> 'w TransactionSigner \<Rightarrow> string \<Rightarrow> bool" where
  "template_refused E R opp w f p pre_t post_t s s' m \<longleftrightarrow>
     (let n = next_tracked (signer_address E w) s; ts = pre_t @ post_t
      in \<exists>k < length ts. sign_typed E w (template_request s f p ts n k) = Inl m \<and>
           signed_until E w f p ts k n s s' \<and>
           (length pre_t \<le> k \<longrightarrow> (\<exists>target. create_target_signed_transaction R opp = Inr target)))"

lemma build_bundle_signing_stops:
  assumes "build_bundle_with_params E R d uuid now builders opp params s = Ret (s', Inl e)"
    and "hm_get builders (so_strategy_name opp) = Some builder"
    and "build_bundle_transactions builder opp = Inr (pre_t, post_t)"
    and "create_target_template R opp = Inr t" and "calculate_gas_prices params = Ret (f, p)"
    and w: "get_default_wallet (sg_key_manager s) = Inr w"
  shows "(\<exists>m. e = SigningError (SigningFailed m) \<and> template_refused E R opp w f p pre_t post_t s s' m)
    \<or> target_unreadable E R opp w f p pre_t s s' e
    \<or> (\<exists>v b. validate_bundle builder b = Ret v \<and> \<not> bv_is_valid v
         \<and> length (bu_pre_transactions b) = length pre_t \<and> length (bu_post_transactions b) = length post_t)"
proof (cases "sign_templates E f p pre_t (next_tracked (signer_address E w) s) s" rule: run_result_cases)
  case panic
  with assms show ?thesis
    by (simp add: build_bundle_with_params_def get_starting_nonce_def)
next
  case (error s1 e1)
  with assms have s1: "e = e1" "s' = s1"
    by (simp_all add: build_bundle_with_params_def get_starting_nonce_def)
  from sign_templates_progress [OF w error] obtain k m where
    "signed_until E w f p pre_t k (next_tracked (signer_address E w) s) s s1" "k < length pre_t"
    "sign_typed E w (template_request s f p pre_t (next_tracked (signer_address E w) s) k) = Inl m"
    "e1 = SigningError (SigningFailed m)"
    by auto
  then have "template_refused E R opp w f p pre_t post_t s s1 m"
    unfolding template_refused_def Let_def
    by (intro exI [of _ k]) (auto simp: signed_until_def template_request_def nth_append)
  with s1 \<open>e1 = _\<close> show ?thesis
    by blast
next
  case (ok s1 x)
  let ?n = "next_tracked (signer_address E w) s"
  obtain pre n1 where pre: "sign_templates E f p pre_t ?n s = Ret (s1, Inr (pre, n1))"
    using ok by (cases x) simp
  note 1 = sign_templates_ok [OF w pre]
  then have w1: "get_default_wallet (sg_key_manager s1) = Inr w"
    using w by simp
  from sign_templates_progress [OF w pre] have done1: "signed_until E w f p pre_t (length pre_t) ?n s s1"
      "n1 = ?n + of_nat (length pre_t)"
    by auto
  then have chain: "sg_chain_id s1 = sg_chain_id s"
    by (auto simp: signed_until_def)
  show ?thesis
  proof (cases "create_target_signed_transaction R opp")
    case (Inl e')
    with assms pre have "e = e'" "s' = s1"
      by (simp_all add: build_bundle_with_params_def get_starting_nonce_def)
    with Inl done1 show ?thesis
      by (simp add: target_unreadable_def)
  next
    case target: (Inr target)
    show ?thesis
    proof (cases "sign_templates E f p post_t n1 s1" rule: run_result_cases)
      case panic
      with assms pre target show ?thesis
        by (simp add: build_bundle_with_params_def get_starting_nonce_def)
    next
      case (error s2 e2)
      with assms pre target have s2: "e = e2" "s' = s2"
        by (simp_all add: build_bundle_with_params_def get_starting_nonce_def)
      from sign_templates_progress [OF w1 error] obtain k m where
        k: "signed_until E w f p post_t k n1 s1 s2" "k < length post_t" "e2 = SigningError (SigningFailed m)"
        "sign_typed E w (template_request s1 f p post_t n1 k) = Inl m"
        by auto
      have "template_request s1 f p post_t n1 k = template_request s f p (pre_t @ post_t) ?n (length pre_t + k)"
        by (simp add: template_request_def chain done1(2) nth_append add.assoc)
      then have "template_refused E R opp w f p pre_t post_t s s2 m"
        using signed_until_append [OF done1(1), of post_t k s2] k target done1(2)
        unfolding template_refused_def Let_def by (intro exI [of _ "length pre_t + k"]) simp
      with s2 k(3) show ?thesis
        by blast
    next
      case (ok s2 y)
      then obtain post n2 where post: "sign_templates E f p post_t n1 s1 = Ret (s2, Inr (post, n2))"
        by (cases y) simp
      obtain b v where "validate_bundle builder b = Ret v" "\<not> bv_is_valid v"
          "bu_pre_transactions b = pre" "bu_post_transactions b = post"
        using assms pre target post
        by (auto simp: build_bundle_with_params_def get_starting_nonce_def run_bind_Ret_iff Let_def split: if_splits)
      moreover have "length pre = length pre_t" "length post = length post_t"
        using 1 sign_templates_ok [OF w1 post] by (metis length_map)+
      ultimately show ?thesis
        by blast
    qed
  qed
qed

text \<open>The stages after the templates, from a failed build.\<close>

lemma build_bundle_stops:
  assumes "build_bundle_with_params E R d uuid now builders opp params s = Ret (s', Inl e)"
    and "hm_get builders (so_strategy_name opp) = Some builder"
    and "build_bundle_transactions builder opp = Inr (pre_t, post_t)"
  obtains (target) "create_target_template R opp = Inl e" "s' = s"
    | (wallet) k where "get_default_wallet (sg_key_manager s) = Inl k" "e = SigningError (KeyError k)" "s' = s"
    | (signing) w f p m where "get_default_wallet (sg_key_manager s) = Inr w" "calculate_gas_prices params = Ret (f, p)"
        "e = SigningError (SigningFailed m)" "template_refused E R opp w f p pre_t post_t s s' m"
    | (signed) w f p where "get_default_wallet (sg_key_manager s) = Inr w" "calculate_gas_prices params = Ret (f, p)"
        "target_unreadable E R opp w f p pre_t s s' e"
    | (validation) v b where "validate_bundle builder b = Ret v" "\<not> bv_is_valid v"
        "length (bu_pre_transactions b) = length pre_t" "length (bu_post_transactions b) = length post_t"
proof (cases "create_target_template R opp")
  case (Inl e')
  with assms show ?thesis
    by (intro target) (simp_all add: build_bundle_with_params_def)
next
  case template: (Inr t)
  obtain f p where fees: "calculate_gas_prices params = Ret (f, p)"
    using assms template by (cases "calculate_gas_prices params") (auto simp: build_bundle_with_params_def)
  show ?thesis
  proof (cases "get_default_wallet (sg_key_manager s)")
    case (Inl k)
    with assms template fees show ?thesis
      by (intro wallet [of k]) (simp_all add: build_bundle_with_params_def get_starting_nonce_def)
  next
    case (Inr w)
    from build_bundle_signing_stops [OF assms template fees this] Inr fees signing signed validation show ?thesis
      by blast
  qed
qed

lemma no_default_wallet: "get_default_wallet km = Inl k \<Longrightarrow> k = NoDefaultWallet"
  by (auto simp: get_default_wallet_def ok_or_def split: option.splits)

lemma build_bundle_transactions_error:
  "build_bundle_transactions builder opp = Inl e \<Longrightarrow> \<exists>m. e = InvalidOpportunityType m"
  by (auto simp: build_bundle_transactions_def arbitrage_transactions_def backrun_transactions_def
      sandwich_transactions_def split: StrategyBundleBuilder.splits OpportunityType.splits)

text \<open>C13: every way in which building can fail, with its cause and the signer it leaves. Without a builder for the
  strategy, for an opportunity of another type, with a field of the target that the template needs unreadable and without a
  default wallet nothing has happened. A field of the target that only its transaction needs is found
  unreadable after the templates before the target have been signed, and the wallet can refuse any template
  after signing the ones before it: the tracked nonce of its address has then moved past exactly the
  transactions signed, and nothing else of the signer has changed. The validation at the end never rejects
  a bundle, and no error concerns the profit: the minimum of the parameters is not looked at.\<close>

theorem build_bundle_errors:
  assumes "build_bundle_with_params E R d uuid now builders opp params s = Ret (s', Inl e)"
  shows "case e of
      NoBuilderRegistered n \<Rightarrow> n = so_strategy_name opp \<and> hm_get builders n = None \<and> s' = s
    | InvalidOpportunityType m \<Rightarrow>
        (\<exists>builder. hm_get builders (so_strategy_name opp) = Some builder
           \<and> build_bundle_transactions builder opp = Inl (InvalidOpportunityType m)) \<and> s' = s
    | InvalidField m \<Rightarrow>
        create_target_template R opp = Inl e \<and> s' = s \<or>
        (\<exists>builder pre_t post_t w f p. hm_get builders (so_strategy_name opp) = Some builder
           \<and> build_bundle_transactions builder opp = Inr (pre_t, post_t)
           \<and> get_default_wallet (sg_key_manager s) = Inr w \<and> calculate_gas_prices params = Ret (f, p)
           \<and> target_unreadable E R opp w f p pre_t s s' e)
    | SigningError r \<Rightarrow> (case r of
          KeyError k \<Rightarrow> k = NoDefaultWallet \<and> get_default_wallet (sg_key_manager s) = Inl NoDefaultWallet \<and> s' = s
        | SigningFailed m \<Rightarrow>
            (\<exists>builder pre_t post_t w f p. hm_get builders (so_strategy_name opp) = Some builder
               \<and> build_bundle_transactions builder opp = Inr (pre_t, post_t)
               \<and> get_default_wallet (sg_key_manager s) = Inr w \<and> calculate_gas_prices params = Ret (f, p)
               \<and> template_refused E R opp w f p pre_t post_t s s' m)
        | TemplateNotFound _ \<Rightarrow> False)
    | ValidationFailed _ \<Rightarrow> False"
proof (cases "hm_get builders (so_strategy_name opp)")
  case None
  with assms show ?thesis
    by (auto simp: build_bundle_with_params_def)
next
  case builder: (Some builder)
  show ?thesis
  proof (cases "build_bundle_transactions builder opp")
    case (Inl e')
    then have "e = e'" "s' = s"
      using assms builder by (auto simp: build_bundle_with_params_def)
    with builder Inl build_bundle_transactions_error [OF Inl] show ?thesis
      by auto
  next
    case (Inr ts)
    then obtain pre_t post_t where templates: "build_bundle_transactions builder opp = Inr (pre_t, post_t)"
      by (cases ts) simp
    note shape = build_bundle_transactions_cases [OF templates]
    from assms builder templates show ?thesis
    proof (cases rule: build_bundle_stops)
      case target
      then show ?thesis
        using target_errors(1) by fastforce
    next
      case wallet
      then show ?thesis
        using no_default_wallet by simp
    next
      case signing
      with builder templates show ?thesis
        by auto
    next
      case signed
      then obtain m where "e = InvalidField m"
        using target_errors(2) [of R opp e] by (auto simp: target_unreadable_def)
      with signed builder templates show ?thesis
        by auto
    next
      case validation
      then show ?thesis
        using validate_bundle_valid shape by fastforce
    qed
  qed
qed

subsection \<open>What a failed build leaves behind\<close>

text \<open>a sandwich whose target cannot be read after all, in its hash, sender or gas price, has already
  signed its front-run: the build fails, no bundle exists, and the tracked nonce of the wallet has moved
  past a transaction that nobody will send.\<close>

theorem unreadable_target_burns_nonce:
  assumes "hm_get builders (so_strategy_name opp) = Some SandwichBundleBuilder"
    and "so_opportunity_type opp = Sandwich victim pair front back profit"
    and "create_target_template R opp = Inr template" and "calculate_gas_prices params = Ret (f, p)"
    and "get_default_wallet (sg_key_manager s) = Inr w"
    and "unat (next_tracked (signer_address E w) s) < 2 ^ 64"
    and "sign_typed E w (eip1559_request (sg_chain_id s) (execution_template 200000 [0xf0, 0x0d, 0xfa, 0xce])
           f p (next_tracked (signer_address E w) s)) = Inr sig"
    and "create_target_signed_transaction R opp = Inl e"
  shows "\<exists>s'. build_bundle_with_params E R d uuid now builders opp params s = Ret (s', Inl e)
    \<and> unat (next_tracked (signer_address E w) s') = unat (next_tracked (signer_address E w) s) + 1"
proof -
  let ?n = "next_tracked (signer_address E w) s"
  let ?t = "execution_template 200000 [0xf0, 0x0d, 0xfa, 0xce]"
  have "\<exists>x. sign_templates E f p [?t] ?n s = Ret (update_nonce (signer_address E w) (?n + 1) s, Inr x)"
    using assms(6,7) by (simp add: sign_templates_Cons [OF assms(5)] Let_def)
  moreover have "unat (?n + 1) = unat ?n + 1"
    using assms(6) by (simp add: unat_plus_one_lt)
  ultimately show ?thesis
    using assms(1-5,8)
    by (auto simp: build_bundle_with_params_def build_bundle_transactions_def sandwich_transactions_def
        get_starting_nonce_def)
qed

subsection \<open>Contract creation\<close>

text \<open>the signer never asks a wallet to sign a contract creation: the request always has a receiver, and
  for a deployment that is the zero address, while the transaction it returns says that there is none.\<close>

theorem deployment_signed_as_call:
  assumes "sign_transaction_with_wallet E w (create_contract_deployment_template code value gas) (Fixed n) f p s
    = Ret (s', Inr tx)"
  shows "st_to tx = None
    \<and> (\<exists>request sig. er_to request = Some 0 \<and> er_data request = code
         \<and> sign_typed E w request = Inr sig \<and> st_raw_transaction tx = rlp_signed E request sig)"
proof -
  let ?t = "create_contract_deployment_template code value gas"
  let ?request = "eip1559_request (sg_chain_id s) ?t f p (ucast n)"
  have "er_to ?request = Some 0" "er_data ?request = code"
    by (simp_all add: eip1559_request_def create_contract_deployment_template_def Let_def)
  moreover obtain sig where sig: "sign_typed E w ?request = Inr sig"
      and tx: "tx = signed_transaction E (signer_address E w) ?t ?request sig"
    using assms by (auto simp: sign_fixed Let_def split: sum.splits)
  moreover have "st_to tx = None" "st_raw_transaction tx = rlp_signed E ?request sig"
    by (simp_all add: tx) (simp add: create_contract_deployment_template_def)
  ultimately show ?thesis
    by blast
qed

subsection \<open>Concrete runs\<close>

text \<open>A wallet that refuses to sign calls with 666 gas, and texts that read as numbers unless they are bad.\<close>

definition demo_sign_env :: "(u64, u256) sign_env" where
  "demo_sign_env =
     \<lparr>signer_address = ucast,
      sign_typed = (\<lambda>w tx. if er_gas tx = 666 then Inl ''refused'' else Inr (er_nonce tx)),
      typed_hash = (\<lambda>tx sig. sig),
      rlp_signed = (\<lambda>tx sig. [ucast sig]),
      encode_hex = bytes_hex\<rparr>"

definition demo_read_env :: read_env where
  "demo_read_env =
     \<lparr>read_address = (\<lambda>s. if s = ''bad'' then None else Some 7),
      read_u256 = (\<lambda>s. if s = ''bad'' then None else Some 9),
      read_h256 = (\<lambda>s. if s = ''bad'' then None else Some 11),
      read_hex = hex_bytes\<rparr>"

definition demo_signer :: "u64 TransactionSigner" where
  "demo_signer = TransactionSigner_new (store_wallet demo_key_env 5 KeyManager_new) 998"

definition demo_target :: "string \<Rightarrow> ParsedTransaction" where
  "demo_target hash =
     \<lparr>px_transaction =
        \<lparr>tx_hash = hash, tx_from = ''f'', tx_to = Some ''t'', tx_value = ''1'', tx_gas_price = ''2'',
         tx_gas_limit = ''3'', tx_nonce = 4, tx_input = ''0xab'', tx_timestamp = 0\<rparr>,
      px_decoded_input = None, px_target_type = UniswapV2, px_processing_time_ms = 0\<rparr>"

definition demo_opportunity :: "string \<Rightarrow> OpportunityType \<Rightarrow> string \<Rightarrow> Opportunity" where
  "demo_opportunity name kind hash =
     \<lparr>so_id = ''o'', so_strategy_name = name, so_target_transaction = demo_target hash,
      so_opportunity_type = kind, so_estimated_profit_wei = 0, so_estimated_gas_cost_wei = 0,
      so_confidence_score = NaN, so_priority = 1, so_expiry_timestamp = 0, so_metadata = []\<rparr>"

definition demo_params :: BundleParams where
  "demo_params = BundleParams_default\<lparr>pa_max_gas_price := 100, pa_max_priority_fee := 2, pa_gas_multiplier := NaN\<rparr>"

definition demo_builders :: "(string, StrategyBundleBuilder) hash_map" where
  "demo_builders = [(''sandwich'', SandwichBundleBuilder)]"

abbreviation demo_build :: "OpportunityType \<Rightarrow> string \<Rightarrow> (u64, Bundle) building" where
  "demo_build kind hash \<equiv>
     build_bundle_with_params demo_sign_env demo_read_env id ''u'' 0 demo_builders
       (demo_opportunity ''sandwich'' kind hash) demo_params demo_signer"

lemma demo_prices: "calculate_gas_prices demo_params = Ret (102, 2)"
  by (simp add: calculate_gas_prices_def scale_gas_price_def demo_params_def as_u128_def f64_to_u128_def
      u256_add_def BundleParams_default_def Let_def f64_of_nat_exact)

lemma demo_default_wallet: "get_default_wallet (sg_key_manager demo_signer) = Inr 5"
  by (simp add: demo_signer_def TransactionSigner_new_def store_wallet_def KeyManager_new_def
      get_default_wallet_def)

lemma demo_next: "next_tracked a demo_signer = 0"
  by (simp add: demo_signer_def TransactionSigner_new_def next_tracked_def get_tracked_nonce_def)

lemma demo_wallet_signs: "er_gas tx \<noteq> 666 \<Longrightarrow> sign_typed demo_sign_env w tx = Inr (er_nonce tx)"
  "signer_address demo_sign_env w = ucast w"
  by (simp_all add: demo_sign_env_def)

lemma er_gas_request: "er_gas (eip1559_request c t f p n) = tt_gas_limit t"
  by (simp add: eip1559_request_def Let_def)

lemma demo_input: "read_hex demo_read_env (trim_start_matches ''0x'' ''0xab'') = Some [171]"
proof -
  have "trim_start_matches ''0x'' ''0xab'' = ''ab''" "hex_bytes ''ab'' = Some [171]"
    by code_simp+
  then show ?thesis
    by (simp add: demo_read_env_def)
qed

lemma demo_template:
  "\<exists>t. create_target_template demo_read_env (demo_opportunity name kind h) = Inr t"
  using demo_input
  by (simp add: create_target_template_def demo_opportunity_def demo_target_def read_optional_address_def
      read_input_def demo_read_env_def Let_def)

lemma demo_target_signed:
  "\<exists>tx. create_target_signed_transaction demo_read_env (demo_opportunity name kind ''h'') = Inr tx \<and> st_gas_limit tx = 9"
  "create_target_signed_transaction demo_read_env (demo_opportunity name kind ''bad'')
     = Inl (InvalidField ''Invalid hash'')"
  using demo_input
  by (simp_all add: create_target_signed_transaction_def demo_opportunity_def demo_target_def
      read_optional_address_def read_input_def demo_read_env_def Let_def ok_or_def)

lemma demo_fields [simp]:
  "so_strategy_name (demo_opportunity name kind h) = name"
  "so_opportunity_type (demo_opportunity name kind h) = kind"
  "pa_max_gas_price demo_params = 100" "pa_max_priority_fee demo_params = 2"
  by (simp_all add: demo_opportunity_def demo_params_def)


lemma demo_build_sandwich:
  "\<exists>s b. demo_build (Sandwich v pair x y z) ''h'' = Ret (s, Inr b)
     \<and> length (bu_pre_transactions b) = 1 \<and> length (bu_post_transactions b) = 1 \<and> bu_max_gas_price b = 100"
proof -
  let ?opp = "demo_opportunity ''sandwich'' (Sandwich v pair x y z) ''h''"
  obtain t where t: "create_target_template demo_read_env ?opp = Inr t"
    using demo_template by blast
  obtain target where target: "create_target_signed_transaction demo_read_env ?opp = Inr target"
      and gas: "st_gas_limit target = 9"
    using demo_target_signed(1) by blast
  show ?thesis
    by (simp add: build_bundle_with_params_def demo_builders_def hm_get_def t target demo_prices
        build_bundle_transactions_def sandwich_transactions_def get_starting_nonce_def demo_default_wallet
        demo_next sign_templates_Cons Let_def demo_wallet_signs er_gas_request execution_template_def
        validate_bundle_def validate_sandwich_def gas_cost_def total_gas_limit_def all_transactions_def gas
        u256_add_def u256_mul_def)
qed


abbreviation demo_sandwich :: OpportunityType where
  "demo_sandwich \<equiv> Sandwich ''v'' (''a'', ''b'') 1 2 3"

theorem bundle_nonces_consecutive_witness:
  "\<exists>s b. demo_build demo_sandwich ''h'' = Ret (s, Inr b)
     \<and> map (unat \<circ> st_nonce) (bu_pre_transactions b @ bu_post_transactions b) = [0, 1]
     \<and> unat (next_tracked 5 s) = 2"
proof -
  obtain s b where b: "demo_build demo_sandwich ''h'' = Ret (s, Inr b)"
      "length (bu_pre_transactions b) = 1" "length (bu_post_transactions b) = 1"
    using demo_build_sandwich by blast
  have "[0 ..< 2] = [0, 1 :: nat]"
    by code_simp
  with bundle_nonces_consecutive [OF b(1) demo_default_wallet] b show ?thesis
    by (intro exI [of _ s] exI [of _ b]) (simp add: demo_next demo_wallet_signs(2))
qed

theorem bundle_fee_above_cap_witness:
  "\<exists>s b tx. demo_build demo_sandwich ''h'' = Ret (s, Inr b) \<and> bu_max_gas_price b = 100
     \<and> tx \<in> set (bu_post_transactions b) \<and> 102 \<le> unat (st_max_fee_per_gas tx)"
proof -
  obtain s b where b: "demo_build demo_sandwich ''h'' = Ret (s, Inr b)"
      "length (bu_post_transactions b) = 1" "bu_max_gas_price b = 100"
    using demo_build_sandwich by blast
  then obtain tx where "bu_post_transactions b = [tx]"
    by (auto simp: length_Suc_conv)
  with bundle_fee_above_cap [OF b(1)] b show ?thesis
    by (intro exI [of _ s] exI [of _ b] exI [of _ tx]) simp
qed

text \<open>A wallet that signs the front-run and refuses the back-run.\<close>

definition refusing_env :: "(u64, u256) sign_env" where
  "refusing_env = demo_sign_env\<lparr>sign_typed := (\<lambda>w tx. if er_nonce tx = 1 then Inl ''refused'' else Inr (er_nonce tx))\<rparr>"

theorem build_bundle_errors_witness:
  "\<exists>s w f p pre_t post_t. build_bundle_with_params refusing_env demo_read_env (\<lambda>s. s) ''u'' 0 demo_builders
       (demo_opportunity ''sandwich'' demo_sandwich ''h'') demo_params demo_signer =
       Ret (s, Inl (SigningError (SigningFailed ''refused''))) \<and>
     template_refused refusing_env demo_read_env (demo_opportunity ''sandwich'' demo_sandwich ''h'') w f p pre_t post_t
       demo_signer s ''refused'' \<and> next_tracked 5 s = 1"
proof -
  let ?opp = "demo_opportunity ''sandwich'' demo_sandwich ''h''"
  obtain t where t: "create_target_template demo_read_env ?opp = Inr t"
    using demo_template by blast
  obtain target where target: "create_target_signed_transaction demo_read_env ?opp = Inr target"
    using demo_target_signed(1) by blast
  have env: "sign_typed refusing_env w tx = (if er_nonce tx = 1 then Inl ''refused'' else Inr (er_nonce tx))"
    "signer_address refusing_env w = ucast w" for w tx
    by (simp_all add: refusing_env_def demo_sign_env_def)
  have b: "build_bundle_with_params refusing_env demo_read_env (\<lambda>s. s) ''u'' 0 demo_builders ?opp demo_params demo_signer =
      Ret (update_nonce 5 1 demo_signer, Inl (SigningError (SigningFailed ''refused'')))"
    by (simp add: build_bundle_with_params_def demo_builders_def hm_get_def t target demo_prices
        build_bundle_transactions_def sandwich_transactions_def get_starting_nonce_def demo_default_wallet
        demo_next sign_templates_Cons Let_def env)
  from build_bundle_errors [OF b] obtain w f p pre_t post_t where
    "template_refused refusing_env demo_read_env ?opp w f p pre_t post_t demo_signer (update_nonce 5 1 demo_signer) ''refused''"
    by auto
  with b show ?thesis
    by (intro exI [of _ "update_nonce 5 1 demo_signer"] exI [of _ w] exI [of _ f] exI [of _ p] exI [of _ pre_t]
        exI [of _ post_t]) simp
qed

theorem unreadable_target_burns_nonce_witness:
  "\<exists>s. demo_build demo_sandwich ''bad'' = Ret (s, Inl (InvalidField ''Invalid hash''))
     \<and> unat (next_tracked 5 s) = 1"
proof -
  obtain t where t: "create_target_template demo_read_env (demo_opportunity ''sandwich'' demo_sandwich ''bad'') = Inr t"
    using demo_template by blast
  have "sign_typed demo_sign_env 5 (eip1559_request (sg_chain_id demo_signer)
      (execution_template 200000 [0xf0, 0x0d, 0xfa, 0xce]) 102 2 (next_tracked (signer_address demo_sign_env 5) demo_signer))
      = Inr 0"
    by (simp add: demo_wallet_signs er_gas_request execution_template_def demo_next)
  from unreadable_target_burns_nonce [OF _ _ t demo_prices demo_default_wallet _ this demo_target_signed(2)]
  show ?thesis
    by (simp add: demo_builders_def hm_get_def demo_next demo_wallet_signs(2))
qed

theorem failed_signing_leaves_gap_witness:
  "\<exists>s1 s2 tx. sign_transaction demo_sign_env (execution_template 666 []) Sequential 1 1 demo_signer
       = Ret (s1, Inl (SigningFailed ''refused''))
     \<and> sign_transaction demo_sign_env (execution_template 21000 []) Network 1 1 s1 = Ret (s2, Inr tx)
     \<and> unat (st_nonce tx) = 1"
proof -
  let ?s1 = "update_nonce 5 1 demo_signer"
  have 1: "sign_transaction demo_sign_env (execution_template 666 []) Sequential 1 1 demo_signer
      = Ret (?s1, Inl (SigningFailed ''refused''))"
    by (simp add: sign_transaction_def demo_default_wallet sign_sequential demo_wallet_signs(2) demo_next Let_def)
       (simp add: demo_sign_env_def er_gas_request execution_template_def)
  obtain s2 tx where 2: "sign_transaction demo_sign_env (execution_template 21000 []) Network 1 1 ?s1 = Ret (s2, Inr tx)"
    by (simp add: sign_transaction_def demo_default_wallet sign_sequential demo_wallet_signs demo_next Let_def
        er_gas_request execution_template_def)
  from failed_signing_leaves_gap [OF _ _ demo_default_wallet _ 1 2] have "unat (st_nonce tx) = 1"
    by (simp add: demo_next)
  with 1 2 show ?thesis
    by blast
qed

theorem deployment_signed_as_call_witness:
  "\<exists>s tx. sign_transaction_with_wallet demo_sign_env 5 (create_contract_deployment_template [1] None None) (Fixed 3) 1 1
       demo_signer = Ret (s, Inr tx)
     \<and> st_to tx = None"
proof -
  obtain s tx where tx: "sign_transaction_with_wallet demo_sign_env 5
      (create_contract_deployment_template [1] None None) (Fixed 3) 1 1 demo_signer = Ret (s, Inr tx)"
    by (simp add: sign_fixed Let_def demo_wallet_signs er_gas_request create_contract_deployment_template_def)
  from deployment_signed_as_call [OF this] tx show ?thesis
    by blast
qed

end
