(* ===== verification/Interfaces.thy ===== *)
theory Interfaces
  imports F64
begin

text \<open>
  The contract of a failure counter that trips: the RPC circuit breaker opens after a number of
  consecutive failures, the WebSocket service enters its degraded state after another. Both count
  in a machine integer, so the laws hold below its largest value \<open>cap\<close>. What a client relies on,
  how many failures in a row trip the counter and that fewer do not, is proved here once. Below follow the
  contract of a bounded queue, and the accessors of JSON values.
\<close>

locale trip_counter =
  fixes fail :: "'t \<Rightarrow> 's \<Rightarrow> 's"
    and count :: "'s \<Rightarrow> nat"
    and tripped :: "'s \<Rightarrow> bool"
    and limit :: nat
    and cap :: nat
    and ok :: "'s \<Rightarrow> bool"
  assumes ok_fail: "ok s \<Longrightarrow> ok (fail t s)"
    and count_fail: "ok s \<Longrightarrow> count s < cap \<Longrightarrow> count (fail t s) = Suc (count s)"
    and tripped_fail:
      "ok s \<Longrightarrow> count s < cap \<Longrightarrow> tripped (fail t s) \<longleftrightarrow> tripped s \<or> limit \<le> Suc (count s)"
begin

lemma ok_run: "ok s \<Longrightarrow> ok (fold fail ts s)"
  by (induction ts arbitrary: s) (simp_all add: ok_fail)

lemma count_run: "ok s \<Longrightarrow> count s + length ts \<le> cap \<Longrightarrow> count (fold fail ts s) = count s + length ts"
  by (induction ts arbitrary: s) (simp_all add: ok_fail count_fail)

lemma tripped_run:
  "ok s \<Longrightarrow> count s + length ts \<le> cap \<Longrightarrow>
     tripped (fold fail ts s) \<longleftrightarrow> tripped s \<or> (ts \<noteq> [] \<and> limit \<le> count s + length ts)"
proof (induction ts arbitrary: s)
  case Nil
  then show ?case by simp
next
  case (Cons t ts)
  have step: "ok (fail t s)" "count (fail t s) = Suc (count s)"
    "tripped (fail t s) \<longleftrightarrow> tripped s \<or> limit \<le> Suc (count s)"
    using Cons.prems by (simp_all add: ok_fail count_fail tripped_fail)
  have "tripped (fold fail ts (fail t s)) \<longleftrightarrow>
      tripped (fail t s) \<or> (ts \<noteq> [] \<and> limit \<le> count (fail t s) + length ts)"
    using Cons.prems step by (intro Cons.IH) simp_all
  with step show ?case
    by (cases ts) auto
qed

lemma below_limit_not_tripped:
  "ok s \<Longrightarrow> \<not> tripped s \<Longrightarrow> count s + length ts \<le> cap \<Longrightarrow> count s + length ts < limit \<Longrightarrow>
     \<not> tripped (fold fail ts s)"
  by (simp add: tripped_run)

lemma at_limit_tripped:
  "ok s \<Longrightarrow> count s + length ts \<le> cap \<Longrightarrow> limit \<le> count s + length ts \<Longrightarrow> ts \<noteq> [] \<Longrightarrow>
     tripped (fold fail ts s)"
  by (simp add: tripped_run)

text \<open>A counter that starts at or above its limit trips on the very next failure.\<close>

lemma saturated_trips_at_once: "ok s \<Longrightarrow> count s < cap \<Longrightarrow> limit \<le> count s \<Longrightarrow> tripped (fail t s)"
  by (simp add: tripped_fail)

end

text \<open>
  The contract of a bounded first-in first-out buffer that makes room by dropping its oldest
  element. What a client relies on, that after any number of pushes the buffer holds the newest
  elements in the order they arrived, and how many were lost, is proved here once.
\<close>

definition last_n :: "nat \<Rightarrow> 'a list \<Rightarrow> 'a list" where
  "last_n n xs = drop (length xs - n) xs"

lemma length_last_n: "length (last_n n xs) = min n (length xs)"
  by (simp add: last_n_def)

lemma last_n_all: "length xs \<le> n \<Longrightarrow> last_n n xs = xs"
  by (simp add: last_n_def)

lemma last_n_append_last_n: "last_n n (last_n n xs @ ys) = last_n n (xs @ ys)"
  by (cases "length xs \<le> n") (simp_all add: last_n_def add.commute)

locale bounded_fifo =
  fixes push :: "'a \<Rightarrow> 'q \<Rightarrow> 'q"
    and pop :: "'q \<Rightarrow> 'q \<times> 'a option"
    and contents :: "'q \<Rightarrow> 'a list"
    and lost :: "'q \<Rightarrow> nat"
    and bound :: "'q \<Rightarrow> nat"
    and max_lost :: nat
    and ok :: "'q \<Rightarrow> bool"
  assumes bound_pos: "ok q \<Longrightarrow> 0 < bound q"
    and within: "ok q \<Longrightarrow> length (contents q) \<le> bound q"
    and ok_push: "ok q \<Longrightarrow> ok (push x q)"
    and ok_pop: "ok q \<Longrightarrow> ok (fst (pop q))"
    and bound_push: "bound (push x q) = bound q"
    and contents_push: "ok q \<Longrightarrow> contents (push x q) = last_n (bound q) (contents q @ [x])"
    and lost_push: "ok q \<Longrightarrow> lost q < max_lost \<Longrightarrow>
          lost (push x q) = (if length (contents q) = bound q then Suc (lost q) else lost q)"
    and pop_Nil: "contents q = [] \<Longrightarrow> snd (pop q) = None \<and> contents (fst (pop q)) = []"
    and pop_Cons: "contents q = x # xs \<Longrightarrow> snd (pop q) = Some x \<and> contents (fst (pop q)) = xs"
begin

lemma ok_pushes: "ok q \<Longrightarrow> ok (fold push xs q)"
  by (induction xs arbitrary: q) (simp_all add: ok_push)

lemma bound_pushes: "bound (fold push xs q) = bound q"
  by (induction xs arbitrary: q) (simp_all add: bound_push)

lemma contents_pushes: "ok q \<Longrightarrow> contents (fold push xs q) = last_n (bound q) (contents q @ xs)"
proof (induction xs arbitrary: q)
  case Nil
  then show ?case by (simp add: last_n_all within)
next
  case (Cons x xs)
  have "contents (fold push xs (push x q)) = last_n (bound q) (contents (push x q) @ xs)"
    using Cons.IH [OF ok_push [OF Cons.prems]] by (simp add: bound_push)
  also have "\<dots> = last_n (bound q) (contents q @ x # xs)"
    using last_n_append_last_n [of "bound q" "contents q @ [x]" xs] Cons.prems
    by (simp add: contents_push)
  finally show ?case by simp
qed

text \<open>Every element pushed is either held or counted as lost.\<close>

lemma conservation_step:
  "ok q \<Longrightarrow> lost q < max_lost \<Longrightarrow>
     lost (push x q) + length (contents (push x q)) = Suc (lost q + length (contents q))"
  using within [of q] bound_pos [of q]
  by (auto simp: lost_push contents_push length_last_n)

lemma lost_push_le: "ok q \<Longrightarrow> lost q < max_lost \<Longrightarrow> lost (push x q) \<le> Suc (lost q)"
  by (simp add: lost_push)

lemma conservation:
  "ok q \<Longrightarrow> lost q + length xs \<le> max_lost \<Longrightarrow>
     lost (fold push xs q) + length (contents (fold push xs q)) = lost q + length (contents q) + length xs"
proof (induction xs arbitrary: q)
  case Nil
  then show ?case by simp
next
  case (Cons x xs)
  then have lt: "lost q < max_lost" by simp
  from Cons.prems lt lost_push_le [of q x] have "lost (push x q) + length xs \<le> max_lost"
    by simp
  from Cons.IH [OF ok_push [OF Cons.prems(1)] this] conservation_step [OF Cons.prems(1) lt, of x]
  show ?case by simp
qed

lemma pop_oldest:
  "contents (fst (pop q)) = tl (contents q) \<and>
   snd (pop q) = (case contents q of [] \<Rightarrow> None | x # _ \<Rightarrow> Some x)"
  by (cases "contents q") (simp_all add: pop_Nil pop_Cons)

end

subsection \<open>JSON values\<close>

text \<open>
  The accessors of \<open>serde_json::Value\<close> the program uses, as a record that the definitions take: the
  value type is a parameter \<open>'v\<close>. \<open>demo_json\<close> is the instance the witnesses use.
\<close>

text \<open>
  \<open>js_f64\<close> is the value of a number as an \<open>f64\<close> and \<open>None\<close> for every other value; \<open>js_index\<close> is
  \<open>get\<close> with an array index.
\<close>

record 'v json_ops =
  js_from_str :: "string \<Rightarrow> 'v option"
  js_get :: "string \<Rightarrow> 'v \<Rightarrow> 'v option"
  js_str :: "'v \<Rightarrow> string option"
  js_array :: "'v \<Rightarrow> 'v list option"
  js_is_null :: "'v \<Rightarrow> bool"
  js_index :: "nat \<Rightarrow> 'v \<Rightarrow> 'v option"
  js_bool :: "'v \<Rightarrow> bool option"
  js_u64 :: "'v \<Rightarrow> u64 option"
  js_i64 :: "'v \<Rightarrow> u64 option"
  js_f64 :: "'v \<Rightarrow> f64 option"

text \<open>\<open>v[k]\<close> is \<open>Null\<close> when the key is missing, so reading on from there gives \<open>None\<close>.\<close>

definition js_field_str :: "'v json_ops \<Rightarrow> string \<Rightarrow> 'v \<Rightarrow> string option" where
  "js_field_str J k v = Option.bind (js_get J k v) (js_str J)"

definition js_str_or :: "'v json_ops \<Rightarrow> string \<Rightarrow> 'v \<Rightarrow> string \<Rightarrow> string" where
  "js_str_or J k v d = (case js_field_str J k v of Some s \<Rightarrow> s | None \<Rightarrow> d)"

text \<open>The instance: integer numbers only, and a text is read as itself, a JSON string.\<close>

datatype demo_json = DNull | DBool bool | DInt int | DStr string | DArr "demo_json list" | DObj "(string \<times> demo_json) list"

definition demo_json_ops :: "demo_json json_ops" where
  "demo_json_ops =
     \<lparr>js_from_str = (\<lambda>s. Some (DStr s)),
      js_get = (\<lambda>k v. case v of DObj fs \<Rightarrow> map_of fs k | _ \<Rightarrow> None),
      js_str = (\<lambda>v. case v of DStr s \<Rightarrow> Some s | _ \<Rightarrow> None),
      js_array = (\<lambda>v. case v of DArr vs \<Rightarrow> Some vs | _ \<Rightarrow> None),
      js_is_null = (\<lambda>v. v = DNull),
      js_index = (\<lambda>i v. case v of DArr vs \<Rightarrow> if i < length vs then Some (vs ! i) else None | _ \<Rightarrow> None),
      js_bool = (\<lambda>v. case v of DBool b \<Rightarrow> Some b | _ \<Rightarrow> None),
      js_u64 = (\<lambda>v. case v of DInt i \<Rightarrow> if 0 \<le> i \<and> i < 2 ^ 64 then Some (word_of_int i) else None | _ \<Rightarrow> None),
      js_i64 = (\<lambda>v. case v of DInt i \<Rightarrow> if - (2 ^ 63) \<le> i \<and> i < 2 ^ 63 then Some (word_of_int i) else None | _ \<Rightarrow> None),
      js_f64 = (\<lambda>v. case v of DInt i \<Rightarrow> Some (f64_round (i < 0) (of_int \<bar>i\<bar>)) | _ \<Rightarrow> None)\<rparr>"

end
