(* ===== verification/Bundle_Submitter.thy ===== *)
theory Bundle_Submitter
  imports Bundle_Types Interfaces F64_Text
begin

text \<open>
  The submitter of \<open>crates/mev-core/src/bundle/submitter.rs\<close>. The endpoints and the clocks are a world
  of type \<open>'w\<close>: \<open>se_send\<close> lets a request leave, \<open>se_reply\<close> waits for its response, parsed as JSON.
  A request that has left stays sent, whatever becomes of the function that sent it.
\<close>

record SubmissionConfig =
  sc_rpc_endpoint :: string
  sc_bundle_rpc_endpoint :: "string option"
  sc_max_resubmissions :: u32
  sc_gas_bump_multiplier :: f64
  sc_submission_timeout :: duration
  sc_resubmission_interval :: duration

definition SubmissionConfig_default :: SubmissionConfig where
  "SubmissionConfig_default =
     \<lparr>sc_rpc_endpoint = ''http://localhost:8545'',
      sc_bundle_rpc_endpoint = None,
      sc_max_resubmissions = 3,
      sc_gas_bump_multiplier = f64_lit ''1.1'',
      sc_submission_timeout = secs 30,
      sc_resubmission_interval = secs 5\<rparr>"

record SubmissionTracker =
  sr_bundle_id :: string
  sr_submission_attempts :: u32
  sr_last_submission_time :: instant
  sr_current_gas_price :: u256
  sr_original_bundle :: Bundle
  sr_submission_hashes :: "string list"

datatype SubmissionPath = Direct | BundleRpc | Race

record SubmissionStats =
  ss_total_submissions :: u64
  ss_successful_submissions :: u64
  ss_failed_submissions :: u64
  ss_average_inclusion_time :: duration
  ss_gas_bump_count :: u64

text \<open>The JSON bodies the submitter posts.\<close>

record BundleData =
  bd_txs :: "string list"
  bd_block_number :: string
  bd_min_timestamp :: int
  bd_max_timestamp :: int

datatype request =
    SendRawTransaction string
  | SendBundle BundleData

record ('w, 'v) submit_env =
  se_json :: "'v json_ops"
  se_hex :: "u8 list \<Rightarrow> string"
  se_send :: "string \<Rightarrow> request \<Rightarrow> 'w \<Rightarrow> 'w"
  se_reply :: "string \<Rightarrow> request \<Rightarrow> 'w \<Rightarrow> 'w \<times> (string + 'v)"
  se_instant :: "'w \<Rightarrow> instant"
  se_utc :: "'w \<Rightarrow> int"
  se_uuid :: "'w \<Rightarrow> 'w \<times> string"
  se_sleep :: "duration \<Rightarrow> 'w \<Rightarrow> 'w"

datatype submit_error =
    HttpError string
  | RpcError
  | InvalidRpcResponse
  | EndpointNotConfigured
  | SubmissionNotFound string
  | MaximumAttemptsReached

record 'w BundleSubmitter =
  bs_world :: 'w
  bs_config :: SubmissionConfig
  bs_active_submissions :: "(string, SubmissionTracker) hash_map"

definition BundleSubmitter_new :: "'w \<Rightarrow> SubmissionConfig \<Rightarrow> 'w BundleSubmitter" where
  "BundleSubmitter_new w config = \<lparr>bs_world = w, bs_config = config, bs_active_submissions = hm_empty\<rparr>"

subsection \<open>Responses\<close>

text \<open>An \<open>error\<close> member, even \<open>null\<close>, is an error; otherwise \<open>result\<close> must be a string.\<close>

definition rpc_result :: "'v json_ops \<Rightarrow> string + 'v \<Rightarrow> submit_error + string" where
  "rpc_result J reply =
     (case reply of
        Inl e \<Rightarrow> Inl (HttpError e)
      | Inr v \<Rightarrow>
          if js_get J ''error'' v \<noteq> None then Inl RpcError
          else ok_or InvalidRpcResponse (js_field_str J ''result'' v))"

definition raw_request :: "('w, 'v) submit_env \<Rightarrow> u8 list \<Rightarrow> request" where
  "raw_request E raw = SendRawTransaction (''0x'' @ se_hex E raw)"

definition send_raw_transaction ::
    "('w, 'v) submit_env \<Rightarrow> u8 list \<Rightarrow> 'w BundleSubmitter \<Rightarrow> 'w BundleSubmitter \<times> (submit_error + string)" where
  "send_raw_transaction E raw s =
     (let ep = sc_rpc_endpoint (bs_config s); rq = raw_request E raw
      in case se_reply E ep rq (se_send E ep rq (bs_world s)) of
           (w, reply) \<Rightarrow> (s\<lparr>bs_world := w\<rparr>, rpc_result (se_json E) reply))"

definition prepare_bundle_data :: "('w, 'v) submit_env \<Rightarrow> Bundle \<Rightarrow> BundleData" where
  "prepare_bundle_data E b =
     \<lparr>bd_txs = map (\<lambda>tx. ''0x'' @ se_hex E (st_raw_transaction tx)) (all_transactions b),
      bd_block_number = format_hex (bu_target_block b),
      bd_min_timestamp = 0,
      bd_max_timestamp = bu_created_at b div 1000000000 + 30\<rparr>"

subsection \<open>The direct path\<close>

fun send_all ::
    "('w, 'v) submit_env \<Rightarrow> u8 list list \<Rightarrow> string list \<Rightarrow> 'w BundleSubmitter \<Rightarrow>
     'w BundleSubmitter \<times> (submit_error + string list)" where
  "send_all E [] hashes s = (s, Inr hashes)"
| "send_all E (raw # rest) hashes s =
     (case send_raw_transaction E raw s of
        (s, Inl e) \<Rightarrow> (s, Inl e)
      | (s, Inr h) \<Rightarrow> send_all E rest (hashes @ [h]) s)"

fun join_comma :: "string list \<Rightarrow> string" where
  "join_comma [] = ''''"
| "join_comma [h] = h"
| "join_comma (h # hs) = h @ '','' @ join_comma hs"

text \<open>The end of every path: the submission is tracked as a first attempt.\<close>

definition track_submission ::
    "('w, 'v) submit_env \<Rightarrow> Bundle \<Rightarrow> string \<Rightarrow> string list \<Rightarrow> 'w BundleSubmitter \<Rightarrow>
     'w BundleSubmitter \<times> SubmissionResult" where
  "track_submission E b submission_id hashes s =
     (let tracker =
        \<lparr>sr_bundle_id = bu_id b,
         sr_submission_attempts = 1,
         sr_last_submission_time = se_instant E (bs_world s),
         sr_current_gas_price = bu_max_gas_price b,
         sr_original_bundle = b,
         sr_submission_hashes = hashes\<rparr>
      in (s\<lparr>bs_active_submissions := hm_insert submission_id tracker (bs_active_submissions s)\<rparr>,
          \<lparr>su_bundle_id = bu_id b,
           su_submission_hash = join_comma hashes,
           su_submitted_at = se_utc E (bs_world s),
           su_gas_price = bu_max_gas_price b,
           su_estimated_inclusion_block = bu_target_block b\<rparr>))"

definition submit_direct ::
    "('w, 'v) submit_env \<Rightarrow> Bundle \<Rightarrow> string \<Rightarrow> 'w BundleSubmitter \<Rightarrow>
     'w BundleSubmitter \<times> (submit_error + SubmissionResult)" where
  "submit_direct E b submission_id s =
     (case send_all E (map st_raw_transaction (all_transactions b)) [] s of
        (s, Inl e) \<Rightarrow> (s, Inl e)
      | (s, Inr hashes) \<Rightarrow>
          (case track_submission E b submission_id hashes s of (s, r) \<Rightarrow> (s, Inr r)))"

subsection \<open>The bundle path\<close>

definition submit_bundle_rpc ::
    "('w, 'v) submit_env \<Rightarrow> Bundle \<Rightarrow> string \<Rightarrow> 'w BundleSubmitter \<Rightarrow>
     'w BundleSubmitter \<times> (submit_error + SubmissionResult)" where
  "submit_bundle_rpc E b submission_id s =
     (case sc_bundle_rpc_endpoint (bs_config s) of
        None \<Rightarrow> (s, Inl EndpointNotConfigured)
      | Some ep \<Rightarrow>
          (let rq = SendBundle (prepare_bundle_data E b)
           in case se_reply E ep rq (se_send E ep rq (bs_world s)) of
                (w, reply) \<Rightarrow>
                  (let s = s\<lparr>bs_world := w\<rparr>
                   in case rpc_result (se_json E) reply of
                        Inl e \<Rightarrow> (s, Inl e)
                      | Inr bundle_hash \<Rightarrow>
                          (case track_submission E b submission_id [bundle_hash] s of (s, r) \<Rightarrow> (s, Inr r)))))"

subsection \<open>The race\<close>

text \<open>
  \<open>tokio::select!\<close> polls the two submissions, \<open>direct_first\<close> tells in which order, and then waits for
  responses; \<open>schedule\<close> lists whose response comes next (\<open>True\<close>: the direct one's). The first
  submission that ends, well or not, decides, and the other one is dropped where it stands. \<open>left\<close> are
  the raw transactions the direct submission has not got an answer for, the first of them sent.
  \<open>None\<close>: the schedule is too short.
\<close>

fun race_loop ::
    "('w, 'v) submit_env \<Rightarrow> Bundle \<Rightarrow> string \<Rightarrow> string \<Rightarrow> string \<Rightarrow> bool list \<Rightarrow> string list \<Rightarrow> u8 list list \<Rightarrow>
     'w BundleSubmitter \<Rightarrow> ('w BundleSubmitter \<times> (submit_error + SubmissionResult)) option" where
  "race_loop E b ep direct_id bundle_id [] hashes left s = None"
| "race_loop E b ep direct_id bundle_id (False # schedule) hashes left s =
     (case se_reply E ep (SendBundle (prepare_bundle_data E b)) (bs_world s) of
        (w, reply) \<Rightarrow>
          (let s = s\<lparr>bs_world := w\<rparr>
           in case rpc_result (se_json E) reply of
                Inl e \<Rightarrow> Some (s, Inl e)
              | Inr bundle_hash \<Rightarrow>
                  (case track_submission E b bundle_id [bundle_hash] s of (s, r) \<Rightarrow> Some (s, Inr r))))"
| "race_loop E b ep direct_id bundle_id (True # schedule) hashes [] s = None"
| "race_loop E b ep direct_id bundle_id (True # schedule) hashes (raw # left) s =
     (let rpc = sc_rpc_endpoint (bs_config s)
      in case se_reply E rpc (raw_request E raw) (bs_world s) of
           (w, reply) \<Rightarrow>
             (let s = s\<lparr>bs_world := w\<rparr>
              in case rpc_result (se_json E) reply of
                   Inl e \<Rightarrow> Some (s, Inl e)
                 | Inr h \<Rightarrow>
                     (case left of
                        [] \<Rightarrow>
                          (case track_submission E b direct_id (hashes @ [h]) s of (s, r) \<Rightarrow> Some (s, Inr r))
                      | next # _ \<Rightarrow>
                          race_loop E b ep direct_id bundle_id schedule (hashes @ [h]) left
                            (s\<lparr>bs_world := se_send E rpc (raw_request E next) w\<rparr>))))"

definition poll_direct :: "('w, 'v) submit_env \<Rightarrow> Bundle \<Rightarrow> 'w BundleSubmitter \<Rightarrow> 'w BundleSubmitter" where
  "poll_direct E b s =
     s\<lparr>bs_world := se_send E (sc_rpc_endpoint (bs_config s))
         (raw_request E (hd (map st_raw_transaction (all_transactions b)))) (bs_world s)\<rparr>"

definition poll_bundle :: "('w, 'v) submit_env \<Rightarrow> Bundle \<Rightarrow> string \<Rightarrow> 'w BundleSubmitter \<Rightarrow> 'w BundleSubmitter" where
  "poll_bundle E b ep s = s\<lparr>bs_world := se_send E ep (SendBundle (prepare_bundle_data E b)) (bs_world s)\<rparr>"

definition submit_race ::
    "('w, 'v) submit_env \<Rightarrow> bool \<Rightarrow> bool list \<Rightarrow> Bundle \<Rightarrow> string \<Rightarrow> 'w BundleSubmitter \<Rightarrow>
     ('w BundleSubmitter \<times> (submit_error + SubmissionResult)) option" where
  "submit_race E direct_first schedule b submission_id s =
     (let direct_id = submission_id @ ''_direct'';
          bundle_id = submission_id @ ''_bundle'';
          left = map st_raw_transaction (all_transactions b)
      in case sc_bundle_rpc_endpoint (bs_config s) of
           None \<Rightarrow> Some (if direct_first then poll_direct E b s else s, Inl EndpointNotConfigured)
         | Some ep \<Rightarrow>
             race_loop E b ep direct_id bundle_id schedule [] left
               (if direct_first then poll_bundle E b ep (poll_direct E b s)
                else poll_direct E b (poll_bundle E b ep s)))"

definition submit_bundle ::
    "('w, 'v) submit_env \<Rightarrow> bool \<Rightarrow> bool list \<Rightarrow> Bundle \<Rightarrow> SubmissionPath \<Rightarrow> 'w BundleSubmitter \<Rightarrow>
     ('w BundleSubmitter \<times> (submit_error + SubmissionResult)) option" where
  "submit_bundle E direct_first schedule b path s =
     (case se_uuid E (bs_world s) of
        (w, uuid) \<Rightarrow>
          (let submission_id = ''sub_'' @ uuid; s = s\<lparr>bs_world := w\<rparr>
           in case path of
                Direct \<Rightarrow> Some (submit_direct E b submission_id s)
              | BundleRpc \<Rightarrow> Some (submit_bundle_rpc E b submission_id s)
              | Race \<Rightarrow> submit_race E direct_first schedule b submission_id s))"

subsection \<open>Resubmission\<close>

definition bump_transaction :: "u256 \<Rightarrow> SignedTransaction \<Rightarrow> SignedTransaction" where
  "bump_transaction price tx = tx\<lparr>st_max_fee_per_gas := price\<rparr>"

definition bump_bundle :: "u256 \<Rightarrow> Bundle \<Rightarrow> Bundle" where
  "bump_bundle price b =
     b\<lparr>bu_max_gas_price := price,
       bu_pre_transactions := map (bump_transaction price) (bu_pre_transactions b),
       bu_target_transaction := bump_transaction price (bu_target_transaction b),
       bu_post_transactions := map (bump_transaction price) (bu_post_transactions b)\<rparr>"

definition resubmit_with_gas_bump ::
    "('w, 'v) submit_env \<Rightarrow> string \<Rightarrow> 'w BundleSubmitter \<Rightarrow>
     ('w BundleSubmitter \<times> (submit_error + SubmissionResult)) run" where
  "resubmit_with_gas_bump E submission_id s =
     (case hm_get (bs_active_submissions s) submission_id of
        None \<Rightarrow> Ret (s, Inl (SubmissionNotFound submission_id))
      | Some tracker \<Rightarrow>
          if sc_max_resubmissions (bs_config s) \<le> sr_submission_attempts tracker then
            Ret (s, Inl MaximumAttemptsReached)
          else
            run_bind (scale_gas_price (sr_current_gas_price tracker) (sc_gas_bump_multiplier (bs_config s)))
              (\<lambda>new_gas_price.
                let new_bundle = bump_bundle new_gas_price (sr_original_bundle tracker);
                    tracker = tracker\<lparr>sr_submission_attempts := sr_submission_attempts tracker + 1,
                                      sr_last_submission_time := se_instant E (bs_world s),
                                      sr_current_gas_price := new_gas_price\<rparr>;
                    s = s\<lparr>bs_active_submissions := hm_insert submission_id tracker (bs_active_submissions s)\<rparr>
                in Ret (submit_direct E new_bundle submission_id s)))"

definition get_active_submission_count :: "'w BundleSubmitter \<Rightarrow> nat" where
  "get_active_submission_count s = hm_len (bs_active_submissions s)"

text \<open>The sum of the attempts wraps.\<close>

definition get_stats :: "'w BundleSubmitter \<Rightarrow> SubmissionStats" where
  "get_stats s =
     \<lparr>ss_total_submissions = word_of_nat (hm_len (bs_active_submissions s)),
      ss_successful_submissions = 0,
      ss_failed_submissions = 0,
      ss_average_inclusion_time = secs 12,
      ss_gas_bump_count =
        sum_list (map (\<lambda>t. ucast (if sr_submission_attempts t = 0 then 0 else sr_submission_attempts t - 1))
          (hm_values (bs_active_submissions s)))\<rparr>"

definition cleanup_old_submissions :: "instant \<Rightarrow> duration \<Rightarrow> 'w BundleSubmitter \<Rightarrow> 'w BundleSubmitter" where
  "cleanup_old_submissions now max_age s =
     s\<lparr>bs_active_submissions :=
         hm_retain (\<lambda>_ tracker. elapsed now (sr_last_submission_time tracker) < max_age)
           (bs_active_submissions s)\<rparr>"

record FastResubmitter =
  fr_resubmission_interval :: duration
  fr_max_gas_price :: u256

definition FastResubmitter_new :: "u256 \<Rightarrow> FastResubmitter" where
  "FastResubmitter_new max_gas_price =
     \<lparr>fr_resubmission_interval = secs 3, fr_max_gas_price = max_gas_price\<rparr>"

text \<open>The spawned loop with the number of attempts that are left.\<close>

fun resubmission_loop ::
    "('w, 'v) submit_env \<Rightarrow> FastResubmitter \<Rightarrow> string \<Rightarrow> nat \<Rightarrow> 'w BundleSubmitter \<Rightarrow> 'w BundleSubmitter run" where
  "resubmission_loop E f submission_id 0 s = Ret s"
| "resubmission_loop E f submission_id (Suc left) s =
     (let s = s\<lparr>bs_world := se_sleep E (fr_resubmission_interval f) (bs_world s)\<rparr>
      in if get_active_submission_count s = 0 then Ret s
         else run_bind (resubmit_with_gas_bump E submission_id s) (\<lambda>(s, r).
                case r of
                  Inl e \<Rightarrow> Ret s
                | Inr result \<Rightarrow>
                    if fr_max_gas_price f < su_gas_price result then Ret s
                    else resubmission_loop E f submission_id left s))"

definition start_resubmission ::
    "('w, 'v) submit_env \<Rightarrow> FastResubmitter \<Rightarrow> string \<Rightarrow> 'w BundleSubmitter \<Rightarrow> 'w BundleSubmitter run" where
  "start_resubmission E f submission_id s = resubmission_loop E f submission_id 10 s"

end
