(* ===== verification/Submission_Facts.thy ===== *)
theory Submission_Facts
  imports Bundle_Facts Bundle_Submitter
begin

text \<open>
  What the submission paths guarantee: what has been sent when a submission fails, what a
  resubmission sends, when the race ends, and what becomes of a bundle of the builder.
\<close>

subsection \<open>Sending transactions in order\<close>

lemma send_raw_transaction_keeps:
  "send_raw_transaction E raw s = (s', r) \<Longrightarrow>
     bs_active_submissions s' = bs_active_submissions s \<and> bs_config s' = bs_config s"
  by (auto simp: send_raw_transaction_def Let_def split: prod.splits)

lemma send_all_keeps:
  "send_all E raws hashes s = (s', r) \<Longrightarrow>
     bs_active_submissions s' = bs_active_submissions s \<and> bs_config s' = bs_config s"
proof (induction E raws hashes s rule: send_all.induct)
  case (2 E raw rest hashes s)
  obtain s1 r1 where 1: "send_raw_transaction E raw s = (s1, r1)"
    by (cases "send_raw_transaction E raw s")
  with 2 send_raw_transaction_keeps [OF 1] show ?case
    by (cases r1) auto
qed simp

text \<open>Sending reads the tracked submissions nowhere.\<close>

lemma send_raw_transaction_active:
  "send_raw_transaction E raw (s\<lparr>bs_active_submissions := a\<rparr>) =
     (case send_raw_transaction E raw s of (s', r) \<Rightarrow> (s'\<lparr>bs_active_submissions := a\<rparr>, r))"
  by (simp add: send_raw_transaction_def Let_def split: prod.split)

lemma send_all_active:
  "send_all E raws hashes (s\<lparr>bs_active_submissions := a\<rparr>) =
     (case send_all E raws hashes s of (s', r) \<Rightarrow> (s'\<lparr>bs_active_submissions := a\<rparr>, r))"
proof (induction raws arbitrary: hashes s)
  case (Cons raw raws)
  then show ?case
    by (simp add: send_raw_transaction_active split: prod.split sum.split)
qed simp

lemma send_all_append:
  "send_all E (xs @ ys) hashes s =
     (case send_all E xs hashes s of
        (s', Inl e) \<Rightarrow> (s', Inl e)
      | (s', Inr hashes') \<Rightarrow> send_all E ys hashes' s')"
  by (induction E xs hashes s rule: send_all.induct) (simp_all split: prod.split sum.split)

lemma send_all_error:
  assumes "send_all E raws hashes s = (s', Inl e)"
  shows "\<exists>k s1 hs. k < length raws \<and> send_all E (take k raws) hashes s = (s1, Inr hs)
    \<and> send_raw_transaction E (raws ! k) s1 = (s', Inl e)"
  using assms
proof (induction raws arbitrary: hashes s)
  case (Cons raw raws)
  obtain s1 r where 1: "send_raw_transaction E raw s = (s1, r)"
    by (cases "send_raw_transaction E raw s")
  show ?case
  proof (cases r)
    case (Inl e')
    with 1 Cons.prems show ?thesis
      by (intro exI [of _ 0]) simp
  next
    case (Inr h)
    with 1 Cons.prems have "send_all E raws (hashes @ [h]) s1 = (s', Inl e)"
      by simp
    from Cons.IH [OF this] obtain k s2 hs where "k < length raws"
        "send_all E (take k raws) (hashes @ [h]) s1 = (s2, Inr hs)"
        "send_raw_transaction E (raws ! k) s2 = (s', Inl e)"
      by blast
    with 1 Inr show ?thesis
      by (intro exI [of _ "Suc k"] exI [of _ s2] exI [of _ hs]) simp
  qed
qed simp

text \<open>a direct submission that fails has sent the transactions before the failing one and they were
  accepted, but the submission is not tracked: nothing can resubmit or clean up what is out there.\<close>

theorem partial_submission_untracked:
  assumes "submit_direct E b submission_id s = (s', Inl e)"
  shows "bs_active_submissions s' = bs_active_submissions s
    \<and> (\<exists>k s1 hs. k < length (all_transactions b)
         \<and> send_all E (take k (map st_raw_transaction (all_transactions b))) [] s = (s1, Inr hs)
         \<and> send_raw_transaction E (st_raw_transaction (all_transactions b ! k)) s1 = (s', Inl e))"
proof -
  have *: "send_all E (map st_raw_transaction (all_transactions b)) [] s = (s', Inl e)"
    using assms by (auto simp: submit_direct_def split: prod.splits sum.splits)
  from send_all_error [OF this] obtain k s1 hs where "k < length (all_transactions b)"
      "send_all E (take k (map st_raw_transaction (all_transactions b))) [] s = (s1, Inr hs)"
      "send_raw_transaction E (map st_raw_transaction (all_transactions b) ! k) s1 = (s', Inl e)"
    by auto
  with send_all_keeps [OF *] show ?thesis
    by auto
qed

subsection \<open>Resubmission\<close>

lemma bump_bundle_raw [simp]:
  "map st_raw_transaction (all_transactions (bump_bundle p b)) = map st_raw_transaction (all_transactions b)"
  by (simp add: all_transactions_def bump_bundle_def bump_transaction_def)

lemma submit_direct_eq:
  "submit_direct E b submission_id s =
     (case send_all E (map st_raw_transaction (all_transactions b)) [] s of
        (s', Inl e) \<Rightarrow> (s', Inl e)
      | (s', Inr hashes) \<Rightarrow>
          (fst (track_submission E b submission_id hashes s'),
           Inr (snd (track_submission E b submission_id hashes s'))))"
  by (simp add: submit_direct_def split: prod.split sum.split)

text \<open>A resubmission that is not refused, for the price the tracker arrives at.\<close>

definition bumped_tracker :: "('w, 'v) submit_env \<Rightarrow> 'w \<Rightarrow> u256 \<Rightarrow> SubmissionTracker \<Rightarrow> SubmissionTracker" where
  "bumped_tracker E w price t =
     t\<lparr>sr_submission_attempts := sr_submission_attempts t + 1,
       sr_last_submission_time := se_instant E w,
       sr_current_gas_price := price\<rparr>"

lemma resubmit_eq:
  assumes "hm_get (bs_active_submissions s) submission_id = Some t"
    and "sr_submission_attempts t < sc_max_resubmissions (bs_config s)"
  shows "resubmit_with_gas_bump E submission_id s =
     run_bind (scale_gas_price (sr_current_gas_price t) (sc_gas_bump_multiplier (bs_config s))) (\<lambda>p.
       let b = bump_bundle p (sr_original_bundle t);
           a = hm_insert submission_id (bumped_tracker E (bs_world s) p t) (bs_active_submissions s)
       in case send_all E (map st_raw_transaction (all_transactions (sr_original_bundle t))) [] s of
            (s0, Inl e) \<Rightarrow> Ret (s0\<lparr>bs_active_submissions := a\<rparr>, Inl e)
          | (s0, Inr hashes) \<Rightarrow>
              (case track_submission E b submission_id hashes (s0\<lparr>bs_active_submissions := a\<rparr>) of
                 (s1, result) \<Rightarrow> Ret (s1, Inr result)))"
proof -
  have "\<not> sc_max_resubmissions (bs_config s) \<le> sr_submission_attempts t"
    using assms(2) by simp
  with assms(1) show ?thesis
    by (cases "scale_gas_price (sr_current_gas_price t) (sc_gas_bump_multiplier (bs_config s))")
       (simp_all add: resubmit_with_gas_bump_def Let_def submit_direct_eq send_all_active bumped_tracker_def
          split: prod.split sum.split)
qed

text \<open>C6: a resubmission with a gas bump sends the very bytes of the first submission: the bumped price
  is written into the bundle and reported, but nothing is signed again, so the node sees the same
  transactions at the same price.\<close>

theorem resubmission_sends_same_bytes:
  assumes "hm_get (bs_active_submissions s) submission_id = Some t"
    and "sr_submission_attempts t < sc_max_resubmissions (bs_config s)"
    and "resubmit_with_gas_bump E submission_id s = Ret (s', r)"
  shows "case send_all E (map st_raw_transaction (all_transactions (sr_original_bundle t))) [] s of
      (s0, Inl e) \<Rightarrow> bs_world s' = bs_world s0 \<and> r = Inl e
    | (s0, Inr hashes) \<Rightarrow> bs_world s' = bs_world s0
        \<and> (\<exists>result. r = Inr result \<and> su_submission_hash result = join_comma hashes
             \<and> scale_gas_price (sr_current_gas_price t) (sc_gas_bump_multiplier (bs_config s))
                 = Ret (su_gas_price result))"
proof -
  obtain s0 out where sent:
      "send_all E (map st_raw_transaction (all_transactions (sr_original_bundle t))) [] s = (s0, out)"
    by fastforce
  then show ?thesis
    using assms(3)
    by (cases out)
       (auto simp: resubmit_eq [OF assms(1,2)] run_bind_Ret_iff Let_def track_submission_def bump_bundle_def)
qed

text \<open>a resubmission that succeeds is tracked as a first attempt again: however often it is repeated,
  the maximum of attempts never stops it (unless it is one), and the statistics forget the bump.\<close>

theorem successful_resubmission_resets_attempts:
  assumes "1 < sc_max_resubmissions (bs_config s)"
    and "resubmit_with_gas_bump E submission_id s = Ret (s', Inr result)"
  shows "\<exists>t. hm_get (bs_active_submissions s') submission_id = Some t
    \<and> sr_submission_attempts t = 1 \<and> sr_current_gas_price t = su_gas_price result
    \<and> (\<forall>s''. resubmit_with_gas_bump E submission_id s' \<noteq> Ret (s'', Inl MaximumAttemptsReached))"
proof -
  obtain t where t: "hm_get (bs_active_submissions s) submission_id = Some t"
    using assms(2) by (auto simp: resubmit_with_gas_bump_def split: option.splits)
  have attempts: "sr_submission_attempts t < sc_max_resubmissions (bs_config s)"
    using assms(2) t by (auto simp: resubmit_with_gas_bump_def not_le [symmetric])
  obtain s0 hashes where sent:
      "send_all E (map st_raw_transaction (all_transactions (sr_original_bundle t))) [] s = (s0, Inr hashes)"
  proof (cases "send_all E (map st_raw_transaction (all_transactions (sr_original_bundle t))) [] s")
    case (Pair s0 out)
    with assms(2) that show ?thesis
      by (cases out) (auto simp: resubmit_eq [OF t attempts] run_bind_Ret_iff Let_def)
  qed
  obtain t' where t': "hm_get (bs_active_submissions s') submission_id = Some t'"
      "sr_submission_attempts t' = 1" "sr_current_gas_price t' = su_gas_price result"
    and config: "bs_config s' = bs_config s"
    using assms(2) send_all_keeps [OF sent]
    by (auto simp: resubmit_eq [OF t attempts] run_bind_Ret_iff Let_def sent track_submission_def)
  have no_max: "rpc_result J reply \<noteq> Inl MaximumAttemptsReached" for J reply
    by (auto simp: rpc_result_def ok_or_def split: sum.split option.split)
  have "send_raw_transaction E raw u \<noteq> (v, Inl MaximumAttemptsReached)" for raw u v
    using no_max by (auto simp: send_raw_transaction_def Let_def split: prod.split)
  then have "send_all E raws hs u \<noteq> (v, Inl MaximumAttemptsReached)" for raws hs u v
    using send_all_error by blast
  then have "resubmit_with_gas_bump E submission_id s' \<noteq> Ret (s'', Inl MaximumAttemptsReached)" for s''
    using t' config assms(1)
    by (auto simp: resubmit_eq [OF t'(1)] run_bind_Ret_iff Let_def split: prod.splits sum.splits)
  with t' show ?thesis
    by blast
qed

subsection \<open>The race\<close>

text \<open>
  \<open>answered E ep rq s' q\<close>: the last thing awaited was the response of \<open>ep\<close> to \<open>rq\<close>, which reads as \<open>q\<close>.
  \<open>tracked_as E b sub hashes s s' result\<close>: the only new entry is \<open>sub\<close>, with these hashes, and
  the result names the same ones.
\<close>

definition answered ::
    "('w, 'v) submit_env \<Rightarrow> string \<Rightarrow> request \<Rightarrow> 'w BundleSubmitter \<Rightarrow> submit_error + string \<Rightarrow> bool" where
  "answered E ep rq s' q \<longleftrightarrow>
     (\<exists>w reply. se_reply E ep rq w = (bs_world s', reply) \<and> rpc_result (se_json E) reply = q)"

definition tracked_as ::
    "('w, 'v) submit_env \<Rightarrow> Bundle \<Rightarrow> string \<Rightarrow> string list \<Rightarrow> 'w BundleSubmitter \<Rightarrow> 'w BundleSubmitter \<Rightarrow>
     SubmissionResult \<Rightarrow> bool" where
  "tracked_as E b sub hashes s s' result \<longleftrightarrow>
     bs_active_submissions s' = hm_insert sub
       \<lparr>sr_bundle_id = bu_id b, sr_submission_attempts = 1, sr_last_submission_time = se_instant E (bs_world s'),
        sr_current_gas_price = bu_max_gas_price b, sr_original_bundle = b, sr_submission_hashes = hashes\<rparr>
       (bs_active_submissions s) \<and>
     su_bundle_id result = bu_id b \<and> su_submission_hash result = join_comma hashes"

text \<open>
  The three ways a race can be decided, with the transactions \<open>raws\<close> still to be answered and the \<open>hashes\<close>
  of those before: the bundle endpoint answers while transactions are left, one of these is
  refused, or all of them are accepted.
\<close>

definition bundle_decides ::
    "('w, 'v) submit_env \<Rightarrow> Bundle \<Rightarrow> string \<Rightarrow> string \<Rightarrow> bool list \<Rightarrow> u8 list list \<Rightarrow> 'w BundleSubmitter \<Rightarrow>
     'w BundleSubmitter \<Rightarrow> submit_error + SubmissionResult \<Rightarrow> bool" where
  "bundle_decides E b ep bundle_id schedule raws s s' r \<longleftrightarrow>
     (\<exists>j q. j < length raws \<and> j < length schedule \<and> (\<forall>i < j. schedule ! i) \<and> \<not> schedule ! j \<and>
        answered E ep (SendBundle (prepare_bundle_data E b)) s' q \<and>
        (case q of
           Inl e \<Rightarrow> r = Inl e \<and> bs_active_submissions s' = bs_active_submissions s
         | Inr h \<Rightarrow> \<exists>result. r = Inr result \<and> tracked_as E b bundle_id [h] s s' result))"

definition transaction_refused ::
    "('w, 'v) submit_env \<Rightarrow> bool list \<Rightarrow> u8 list list \<Rightarrow> 'w BundleSubmitter \<Rightarrow>
     'w BundleSubmitter \<Rightarrow> submit_error + SubmissionResult \<Rightarrow> bool" where
  "transaction_refused E schedule raws s s' r \<longleftrightarrow>
     (\<exists>j e. j < length raws \<and> j < length schedule \<and> (\<forall>i \<le> j. schedule ! i) \<and>
        answered E (sc_rpc_endpoint (bs_config s)) (raw_request E (raws ! j)) s' (Inl e) \<and>
        r = Inl e \<and> bs_active_submissions s' = bs_active_submissions s)"

definition direct_wins ::
    "('w, 'v) submit_env \<Rightarrow> Bundle \<Rightarrow> string \<Rightarrow> bool list \<Rightarrow> string list \<Rightarrow> u8 list list \<Rightarrow> 'w BundleSubmitter \<Rightarrow>
     'w BundleSubmitter \<Rightarrow> submit_error + SubmissionResult \<Rightarrow> bool" where
  "direct_wins E b direct_id schedule hashes raws s s' r \<longleftrightarrow>
     (\<exists>hs h result. Suc (length hs) = length raws \<and> length raws \<le> length schedule \<and>
        (\<forall>i < length raws. schedule ! i) \<and>
        answered E (sc_rpc_endpoint (bs_config s)) (raw_request E (last raws)) s' (Inr h) \<and>
        r = Inr result \<and> tracked_as E b direct_id (hashes @ hs @ [h]) s s' result)"

definition race_outcome ::
    "('w, 'v) submit_env \<Rightarrow> Bundle \<Rightarrow> string \<Rightarrow> string \<Rightarrow> string \<Rightarrow> bool list \<Rightarrow> string list \<Rightarrow> u8 list list \<Rightarrow>
     'w BundleSubmitter \<Rightarrow> 'w BundleSubmitter \<Rightarrow> submit_error + SubmissionResult \<Rightarrow> bool" where
  "race_outcome E b ep direct_id bundle_id schedule hashes raws s s' r \<longleftrightarrow>
     bundle_decides E b ep bundle_id schedule raws s s' r \<or>
     transaction_refused E schedule raws s s' r \<or>
     direct_wins E b direct_id schedule hashes raws s s' r"

lemma track_submission_tracked:
  "track_submission E b sub hashes s = (s', result) \<Longrightarrow>
     tracked_as E b sub hashes s s' result \<and> bs_world s' = bs_world s"
  by (auto simp: track_submission_def tracked_as_def Let_def)

text \<open>One more accepted transaction before the rest of the race.\<close>

lemma race_outcome_next:
  assumes "race_outcome E b ep direct_id bundle_id schedule (hashes @ [h]) left s1 s' r" and "left \<noteq> []"
    and "bs_active_submissions s1 = bs_active_submissions s" and "bs_config s1 = bs_config s"
  shows "race_outcome E b ep direct_id bundle_id (True # schedule) hashes (raw # left) s s' r"
  using assms(1) unfolding race_outcome_def
proof (elim disjE)
  assume "bundle_decides E b ep bundle_id schedule left s1 s' r"
  then obtain j q where "j < length left" "j < length schedule" "\<forall>i < j. schedule ! i" "\<not> schedule ! j"
    "answered E ep (SendBundle (prepare_bundle_data E b)) s' q"
    "case q of Inl e \<Rightarrow> r = Inl e \<and> bs_active_submissions s' = bs_active_submissions s1
      | Inr h \<Rightarrow> \<exists>result. r = Inr result \<and> tracked_as E b bundle_id [h] s1 s' result"
    by (auto simp: bundle_decides_def)
  then have "bundle_decides E b ep bundle_id (True # schedule) (raw # left) s s' r"
    using assms(3) unfolding bundle_decides_def tracked_as_def
    by (intro exI [of _ "Suc j"] exI [of _ q]) (auto simp: nth_Cons split: nat.split sum.splits)
  then show "bundle_decides E b ep bundle_id (True # schedule) (raw # left) s s' r \<or>
      transaction_refused E (True # schedule) (raw # left) s s' r \<or>
      direct_wins E b direct_id (True # schedule) hashes (raw # left) s s' r" ..
next
  assume "transaction_refused E schedule left s1 s' r"
  then obtain j e where "j < length left" "j < length schedule" "\<forall>i \<le> j. schedule ! i"
    "answered E (sc_rpc_endpoint (bs_config s)) (raw_request E (left ! j)) s' (Inl e)" "r = Inl e"
    "bs_active_submissions s' = bs_active_submissions s"
    using assms(3,4) by (auto simp: transaction_refused_def)
  then have "transaction_refused E (True # schedule) (raw # left) s s' r"
    unfolding transaction_refused_def
    by (intro exI [of _ "Suc j"] exI [of _ e]) (auto simp: nth_Cons split: nat.split)
  then show "bundle_decides E b ep bundle_id (True # schedule) (raw # left) s s' r \<or>
      transaction_refused E (True # schedule) (raw # left) s s' r \<or>
      direct_wins E b direct_id (True # schedule) hashes (raw # left) s s' r" by simp
next
  assume "direct_wins E b direct_id schedule (hashes @ [h]) left s1 s' r"
  then obtain hs h' result where "Suc (length hs) = length left" "length left \<le> length schedule"
    "\<forall>i < length left. schedule ! i"
    "answered E (sc_rpc_endpoint (bs_config s)) (raw_request E (last left)) s' (Inr h')" "r = Inr result"
    "tracked_as E b direct_id ((hashes @ [h]) @ hs @ [h']) s s' result"
    using assms(3,4) by (auto simp: direct_wins_def tracked_as_def)
  then have "direct_wins E b direct_id (True # schedule) hashes (raw # left) s s' r"
    using assms(2) unfolding direct_wins_def
    by (intro exI [of _ "h # hs"] exI [of _ h'] exI [of _ result]) (auto simp: nth_Cons split: nat.split)
  then show "bundle_decides E b ep bundle_id (True # schedule) (raw # left) s s' r \<or>
      transaction_refused E (True # schedule) (raw # left) s s' r \<or>
      direct_wins E b direct_id (True # schedule) hashes (raw # left) s s' r" by simp
qed

lemma race_outcome_same:
  "bs_active_submissions u = bs_active_submissions s \<Longrightarrow> bs_config u = bs_config s \<Longrightarrow>
     race_outcome E b ep i j schedule hashes raws u s' r = race_outcome E b ep i j schedule hashes raws s s' r"
  unfolding race_outcome_def bundle_decides_def transaction_refused_def direct_wins_def tracked_as_def
  by (simp only:)

lemma race_loop_decided:
  assumes "left \<noteq> []" and "length left \<le> length schedule"
  shows "\<exists>s' r. race_loop E b ep direct_id bundle_id schedule hashes left s = Some (s', r)
    \<and> race_outcome E b ep direct_id bundle_id schedule hashes left s s' r"
  using assms
proof (induction E b ep direct_id bundle_id schedule hashes left s rule: race_loop.induct)
  case (2 E b ep direct_id bundle_id schedule hashes left s)
  obtain w reply where reply: "se_reply E ep (SendBundle (prepare_bundle_data E b)) (bs_world s) = (w, reply)"
    by fastforce
  let ?s = "s\<lparr>bs_world := w\<rparr>"
  have answer: "bs_world s' = w \<Longrightarrow>
      answered E ep (SendBundle (prepare_bundle_data E b)) s' (rpc_result (se_json E) reply)" for s'
    using reply by (auto simp: answered_def)
  show ?case
  proof (cases "rpc_result (se_json E) reply")
    case (Inl e)
    with 2 answer [of ?s] have "bundle_decides E b ep bundle_id (False # schedule) left s ?s (Inl e)"
      unfolding bundle_decides_def by (intro exI [of _ 0] exI [of _ "Inl e"]) auto
    with reply Inl show ?thesis
      by (auto simp: race_outcome_def)
  next
    case (Inr h)
    obtain s1 result where track: "track_submission E b bundle_id [h] ?s = (s1, result)"
      by fastforce
    note tracked = track_submission_tracked [OF track]
    with 2 answer [of s1] Inr have "bundle_decides E b ep bundle_id (False # schedule) left s s1 (Inr result)"
      unfolding bundle_decides_def
      by (intro exI [of _ 0] exI [of _ "Inr h"]) (auto simp: tracked_as_def)
    with reply Inr track show ?thesis
      by (auto simp: race_outcome_def)
  qed
next
  case (4 E b ep direct_id bundle_id schedule hashes raw left s)
  let ?rpc = "sc_rpc_endpoint (bs_config s)"
  obtain w reply where reply: "se_reply E ?rpc (raw_request E raw) (bs_world s) = (w, reply)"
    by fastforce
  let ?s = "s\<lparr>bs_world := w\<rparr>"
  have answer: "bs_world s' = w \<Longrightarrow> answered E ?rpc (raw_request E raw) s' (rpc_result (se_json E) reply)" for s'
    using reply by (auto simp: answered_def)
  show ?case
  proof (cases "rpc_result (se_json E) reply")
    case (Inl e)
    with answer [of ?s] have "transaction_refused E (True # schedule) (raw # left) s ?s (Inl e)"
      unfolding transaction_refused_def by (intro exI [of _ 0] exI [of _ e]) auto
    with reply Inl show ?thesis
      by (auto simp: race_outcome_def Let_def)
  next
    case h: (Inr h)
    show ?thesis
    proof (cases left)
      case Nil
      obtain s1 result where track: "track_submission E b direct_id (hashes @ [h]) ?s = (s1, result)"
        by fastforce
      note tracked = track_submission_tracked [OF track]
      with answer [of s1] h Nil have "direct_wins E b direct_id (True # schedule) hashes (raw # left) s s1 (Inr result)"
        unfolding direct_wins_def
        by (intro exI [of _ "[]"] exI [of _ h] exI [of _ result]) (auto simp: tracked_as_def)
      with reply h Nil track show ?thesis
        by (auto simp: race_outcome_def Let_def)
    next
      case (Cons "next" rest)
      let ?next = "s\<lparr>bs_world := se_send E ?rpc (raw_request E next) w\<rparr>"
      have "\<exists>s' r. race_loop E b ep direct_id bundle_id schedule (hashes @ [h]) left ?next = Some (s', r)
        \<and> race_outcome E b ep direct_id bundle_id schedule (hashes @ [h]) left ?next s' r"
        using "4.IH" [OF refl reply [symmetric] refl h Cons] 4(3) Cons by simp
      then obtain s' r where rest: "race_loop E b ep direct_id bundle_id schedule (hashes @ [h]) left ?next = Some (s', r)"
        "race_outcome E b ep direct_id bundle_id schedule (hashes @ [h]) left ?next s' r"
        by blast
      from race_outcome_next [OF rest(2), of s raw] rest(1) reply h Cons show ?thesis
        by (simp add: Let_def)
    qed
  qed
qed simp_all

text \<open>C14: once as many responses have come as the bundle has transactions, the race is decided by the last
  response awaited. The direct submission wins only when all its transactions are accepted before the bundle endpoint answers,
  and then the one new entry is the direct one, with the hashes of the transactions; the bundle
  submission wins only when its endpoint answers with a hash while transactions are left, and then the one
  new entry is the bundle one, with that hash. A response with an error, of either, decides the race too: its error is
  returned and nothing is tracked, although transactions may have been sent. Without a bundle endpoint,
  the default, every race fails.\<close>

theorem race_decided:
  assumes "length (all_transactions b) \<le> length schedule"
  shows "\<exists>s' r. submit_race E direct_first schedule b submission_id s = Some (s', r)
    \<and> (case sc_bundle_rpc_endpoint (bs_config s) of
         None \<Rightarrow> r = Inl EndpointNotConfigured \<and> bs_active_submissions s' = bs_active_submissions s
       | Some ep \<Rightarrow>
           race_outcome E b ep (submission_id @ ''_direct'') (submission_id @ ''_bundle'') schedule []
             (map st_raw_transaction (all_transactions b)) s s' r)"
proof (cases "sc_bundle_rpc_endpoint (bs_config s)")
  case None
  then show ?thesis
    by (simp add: submit_race_def poll_direct_def Let_def)
next
  case (Some ep)
  let ?left = "map st_raw_transaction (all_transactions b)"
  let ?s = "if direct_first then poll_bundle E b ep (poll_direct E b s) else poll_direct E b (poll_bundle E b ep s)"
  have "?left \<noteq> []" "length ?left \<le> length schedule"
    using assms by (simp_all add: all_transactions_def)
  from race_loop_decided [OF this] obtain s' r where
      "race_loop E b ep (submission_id @ ''_direct'') (submission_id @ ''_bundle'') schedule [] ?left ?s = Some (s', r)"
      "race_outcome E b ep (submission_id @ ''_direct'') (submission_id @ ''_bundle'') schedule [] ?left ?s s' r"
    by blast
  moreover have "bs_active_submissions ?s = bs_active_submissions s" "bs_config ?s = bs_config s"
    by (simp_all add: poll_bundle_def poll_direct_def)
  note same = race_outcome_same [OF this]
  ultimately show ?thesis
    using Some by (simp add: submit_race_def Let_def same)
qed

subsection \<open>A bundle of the builder\<close>

lemma target_raw: "create_target_signed_transaction R opp = Inr t \<Longrightarrow> st_raw_transaction t = []"
  by (auto simp: create_target_signed_transaction_def Let_def)

text \<open>C11: a bundle of the builder cannot be submitted directly: its target has no raw bytes, so a node that
  rejects an empty transaction ends the submission there, with the transactions before the target sent
  and those after it, the back-run included, never sent.\<close>

theorem built_bundle_never_completes:
  assumes "build_bundle_with_params B R d uuid now builders opp params signer = Ret (signer', Inr b)"
    and "\<And>w. \<exists>e. rpc_result (se_json E) (snd (se_reply E (sc_rpc_endpoint (bs_config s)) (raw_request E []) w)) = Inl e"
  shows "\<exists>e. submit_direct E b submission_id s
    = (fst (send_all E (map st_raw_transaction (bu_pre_transactions b) @ [[]]) [] s), Inl e)"
proof -
  have "st_raw_transaction (bu_target_transaction b) = []"
    using assms(1)
    by (rule build_bundle_stages) (simp add: target_raw)
  then have raws: "map st_raw_transaction (all_transactions b)
      = (map st_raw_transaction (bu_pre_transactions b) @ [[]]) @ map st_raw_transaction (bu_post_transactions b)"
    by (simp add: all_transactions_def)
  obtain s1 r1 where pre: "send_all E (map st_raw_transaction (bu_pre_transactions b)) [] s = (s1, r1)"
    by fastforce
  have "\<exists>s2 e. send_all E (map st_raw_transaction (bu_pre_transactions b) @ [[]]) [] s = (s2, Inl e)"
  proof (cases r1)
    case (Inl e)
    with pre show ?thesis
      by (simp add: send_all_append)
  next
    case (Inr hashes)
    have config: "bs_config s1 = bs_config s"
      using send_all_keeps [OF pre] by simp
    obtain w reply where reply: "se_reply E (sc_rpc_endpoint (bs_config s)) (raw_request E [])
        (se_send E (sc_rpc_endpoint (bs_config s)) (raw_request E []) (bs_world s1)) = (w, reply)"
      by fastforce
    then obtain e where "rpc_result (se_json E) reply = Inl e"
      using assms(2) by (metis snd_conv)
    with reply config have "send_raw_transaction E [] s1 = (s1\<lparr>bs_world := w\<rparr>, Inl e)"
      by (simp add: send_raw_transaction_def Let_def)
    with pre Inr show ?thesis
      by (simp add: send_all_append)
  qed
  then show ?thesis
    unfolding submit_direct_def raws send_all_append
    by (auto split: prod.splits sum.splits)
qed

subsection \<open>Concrete runs\<close>

text \<open>A node that accepts everything but an empty transaction; the world is the list of posted requests.\<close>

definition demo_submit_env :: "((string \<times> request) list, demo_json) submit_env" where
  "demo_submit_env =
     \<lparr>se_json = demo_json_ops,
      se_hex = bytes_hex,
      se_send = (\<lambda>ep rq w. (ep, rq) # w),
      se_reply = (\<lambda>ep rq w. (w, Inr (if rq = SendRawTransaction ''0x'' then DObj [(''error'', DStr ''empty'')]
                                     else DObj [(''result'', DStr ''hash'')]))),
      se_instant = (\<lambda>w. length w),
      se_utc = (\<lambda>w. 0),
      se_uuid = (\<lambda>w. (w, ''1'')),
      se_sleep = (\<lambda>d w. w)\<rparr>"

definition demo_signed :: "u8 list \<Rightarrow> SignedTransaction" where
  "demo_signed raw =
     \<lparr>st_hash = 1, st_from = 2, st_to = Some 3, st_value = 0, st_gas_limit = 21000, st_max_fee_per_gas = 100,
      st_max_priority_fee_per_gas = 2, st_nonce = 0, st_data = [], st_chain_id = 998,
      st_raw_transaction = raw, st_transaction_type = 2\<rparr>"

definition demo_bundle :: "u8 list \<Rightarrow> Bundle" where
  "demo_bundle raw =
     \<lparr>bu_id = ''b'', bu_pre_transactions = [demo_signed [1]], bu_target_transaction = demo_signed raw,
      bu_post_transactions = [demo_signed [3]], bu_target_block = 7, bu_max_gas_price = 100,
      bu_estimated_profit = 0, bu_created_at = 0, bu_metadata = hm_empty\<rparr>"

definition demo_submit_config :: SubmissionConfig where
  "demo_submit_config =
     \<lparr>sc_rpc_endpoint = ''rpc'', sc_bundle_rpc_endpoint = None, sc_max_resubmissions = 3,
      sc_gas_bump_multiplier = Finite False 2, sc_submission_timeout = secs 30,
      sc_resubmission_interval = secs 5\<rparr>"

definition demo_submitter :: "(string \<times> request) list BundleSubmitter" where
  "demo_submitter =
     \<lparr>bs_world = [], bs_config = demo_submit_config,
      bs_active_submissions =
        [(''s'', \<lparr>sr_bundle_id = ''b'', sr_submission_attempts = 1, sr_last_submission_time = 0,
                 sr_current_gas_price = 100, sr_original_bundle = demo_bundle [2], sr_submission_hashes = []\<rparr>)]\<rparr>"

lemma demo_send:
  "send_raw_transaction demo_submit_env raw s =
     (s\<lparr>bs_world := (sc_rpc_endpoint (bs_config s), raw_request demo_submit_env raw) # bs_world s\<rparr>,
      if raw = [] then Inl RpcError else Inr ''hash'')"
proof -
  have "bytes_hex raw = [] \<longleftrightarrow> raw = []"
    by (cases raw) (simp_all add: bytes_hex_def)
  then show ?thesis
    by (simp add: send_raw_transaction_def demo_submit_env_def raw_request_def rpc_result_def demo_json_ops_def
        js_field_str_def Let_def)
qed

lemma demo_raws: "map st_raw_transaction (all_transactions (demo_bundle raw)) = [[1], raw, [3]]"
  by (simp add: all_transactions_def demo_bundle_def demo_signed_def)

lemma demo_price: "scale_gas_price 100 (Finite False 2) = Ret 200"
  using f64_of_nat_exact [of 200] f64_of_nat_exact [of 100]
  by (simp add: scale_gas_price_def as_u128_def f64_of_nat_exact f64_to_u128_def f64_of_nat_def)

theorem partial_submission_untracked_witness:
  "\<exists>s k. submit_direct demo_submit_env (demo_bundle []) ''t'' demo_submitter = (s, Inl RpcError)
     \<and> bs_active_submissions s = bs_active_submissions demo_submitter \<and> k < length (all_transactions (demo_bundle []))"
proof -
  obtain s where s: "submit_direct demo_submit_env (demo_bundle []) ''t'' demo_submitter = (s, Inl RpcError)"
    by (simp add: submit_direct_def demo_raws demo_send)
  with partial_submission_untracked [OF s] show ?thesis
    by blast
qed

theorem resubmission_sends_same_bytes_witness:
  "\<exists>s result. resubmit_with_gas_bump demo_submit_env ''s'' demo_submitter = Ret (s, Inr result)
     \<and> bs_world s = map (\<lambda>raw. (''rpc'', raw_request demo_submit_env raw)) [[3], [2], [1]]
     \<and> su_gas_price result = 200"
proof -
  obtain t where t: "hm_get (bs_active_submissions demo_submitter) ''s'' = Some t" "sr_submission_attempts t = 1"
      "sr_original_bundle t = demo_bundle [2]" "sr_current_gas_price t = 100"
    by (simp add: demo_submitter_def hm_get_def)
  have config: "sc_max_resubmissions (bs_config demo_submitter) = 3"
      "sc_gas_bump_multiplier (bs_config demo_submitter) = Finite False 2"
      "sc_rpc_endpoint (bs_config demo_submitter) = ''rpc''" "bs_world demo_submitter = []"
    by (simp_all add: demo_submitter_def demo_submit_config_def)
  have less: "sr_submission_attempts t < sc_max_resubmissions (bs_config demo_submitter)"
    by (simp add: t config)
  obtain s result where run: "resubmit_with_gas_bump demo_submit_env ''s'' demo_submitter = Ret (s, Inr result)"
    by (simp add: resubmit_eq [OF t(1) less] t config demo_price demo_raws demo_send track_submission_def Let_def)
  from resubmission_sends_same_bytes [OF t(1) less run] run show ?thesis
    by (simp add: t config demo_price demo_raws demo_send)
qed

theorem successful_resubmission_resets_attempts_witness:
  "\<exists>s result t. resubmit_with_gas_bump demo_submit_env ''s'' demo_submitter = Ret (s, Inr result)
     \<and> hm_get (bs_active_submissions s) ''s'' = Some t \<and> sr_submission_attempts t = 1"
proof -
  obtain t where t: "hm_get (bs_active_submissions demo_submitter) ''s'' = Some t" "sr_submission_attempts t = 1"
      "sr_original_bundle t = demo_bundle [2]" "sr_current_gas_price t = 100"
    by (simp add: demo_submitter_def hm_get_def)
  have config: "sc_max_resubmissions (bs_config demo_submitter) = 3"
      "sc_gas_bump_multiplier (bs_config demo_submitter) = Finite False 2"
    by (simp_all add: demo_submitter_def demo_submit_config_def)
  have less: "sr_submission_attempts t < sc_max_resubmissions (bs_config demo_submitter)"
    by (simp add: t config)
  obtain s result where run: "resubmit_with_gas_bump demo_submit_env ''s'' demo_submitter = Ret (s, Inr result)"
    by (simp add: resubmit_eq [OF t(1) less] t config demo_price demo_raws demo_send track_submission_def Let_def)
  from successful_resubmission_resets_attempts [OF _ run] run config show ?thesis
    by auto
qed

text \<open>The first transaction is answered, then the bundle.\<close>

definition racing_submitter :: "(string \<times> request) list BundleSubmitter" where
  "racing_submitter = BundleSubmitter_new [] (demo_submit_config\<lparr>sc_bundle_rpc_endpoint := Some ''relay''\<rparr>)"

theorem race_decided_witness:
  "\<exists>s result. submit_race demo_submit_env True [True, False, True] (demo_bundle [2]) ''t'' racing_submitter = Some (s, Inr result)
     \<and> bundle_decides demo_submit_env (demo_bundle [2]) ''relay'' ''t_bundle'' [True, False, True] [[1], [2], [3]]
         racing_submitter s (Inr result)
     \<and> map fst (bs_active_submissions s) = [''t_bundle'']"
proof -
  have raws: "map st_raw_transaction (all_transactions (demo_bundle [2])) = [[1], [2], [3]]"
    by (rule demo_raws)
  have enough: "length (all_transactions (demo_bundle [2])) \<le> length [True, False, True]"
    by (simp add: all_transactions_def demo_bundle_def)
  have config: "sc_bundle_rpc_endpoint (bs_config racing_submitter) = Some ''relay''"
    "sc_rpc_endpoint (bs_config racing_submitter) = ''rpc''" "bs_active_submissions racing_submitter = []"
    by (simp_all add: racing_submitter_def BundleSubmitter_new_def demo_submit_config_def hm_empty_def)
  have reply: "rpc_result (se_json demo_submit_env) (snd (se_reply demo_submit_env ep rq w)) = Inr ''hash''"
    if "rq \<noteq> SendRawTransaction ''0x''" for ep rq w
    using that by (simp add: demo_submit_env_def rpc_result_def demo_json_ops_def js_field_str_def)
  have requests: "raw_request demo_submit_env [1] \<noteq> SendRawTransaction ''0x''"
    by (simp add: raw_request_def demo_submit_env_def bytes_hex_def)
  obtain s result where run: "submit_race demo_submit_env True [True, False, True] (demo_bundle [2]) ''t'' racing_submitter
      = Some (s, Inr result)" "map fst (bs_active_submissions s) = [''t_bundle'']"
    using reply [OF requests] reply [of "SendBundle x" for x]
    by (simp add: submit_race_def config raws Let_def split_beta track_submission_def poll_bundle_def poll_direct_def hm_insert_def)
  from race_decided [OF enough, of demo_submit_env True "''t''" racing_submitter] run
  have outcome: "race_outcome demo_submit_env (demo_bundle [2]) ''relay'' ''t_direct'' ''t_bundle'' [True, False, True] []
      [[1], [2], [3]] racing_submitter s (Inr result)"
    by (simp add: config raws)
  then have "bundle_decides demo_submit_env (demo_bundle [2]) ''relay'' ''t_bundle'' [True, False, True] [[1], [2], [3]]
      racing_submitter s (Inr result)"
    unfolding race_outcome_def transaction_refused_def direct_wins_def
    by (auto dest: spec [of _ 1])
  with run show ?thesis
    by (intro exI [of _ s] exI [of _ result]) simp
qed

theorem built_bundle_never_completes_witness:
  "\<exists>s b. demo_build demo_sandwich ''h'' = Ret (s, Inr b)
     \<and> (\<exists>s' e. submit_direct demo_submit_env b ''t'' demo_submitter = (s', Inl e))"
proof -
  obtain s b where b: "demo_build demo_sandwich ''h'' = Ret (s, Inr b)"
    using demo_build_sandwich by blast
  have "\<exists>e. rpc_result (se_json demo_submit_env)
      (snd (se_reply demo_submit_env (sc_rpc_endpoint (bs_config demo_submitter)) (raw_request demo_submit_env []) w)) = Inl e" for w
    by (simp add: demo_submit_env_def raw_request_def bytes_hex_def rpc_result_def demo_json_ops_def)
  from built_bundle_never_completes [OF b this] b show ?thesis
    by blast
qed

end
