(* ===== verification/Circuit_Breaker.thy ===== *)
theory Circuit_Breaker
  imports Interfaces
begin

text \<open>
  The circuit breaker of \<open>crates/mev-hyperliquid/src/rpc_service.rs\<close>: three atomics and the
  methods that read and write them. A method is one step of the model; the system clock a method
  reads is an argument, in seconds since the epoch. The second half states what the breaker
  promises, an abstract three-state machine, and proves that the methods implement it.
\<close>

subsection \<open>The code\<close>

definition CIRCUIT_BREAKER_THRESHOLD :: u64 where
  "CIRCUIT_BREAKER_THRESHOLD = 5"

definition CIRCUIT_BREAKER_COOLDOWN_SECS :: u64 where
  "CIRCUIT_BREAKER_COOLDOWN_SECS = 30"

datatype CircuitBreakerState = Closed | Open | HalfOpen

record CircuitBreaker =
  cb_state :: u64
  cb_consecutive_failures :: u64
  cb_opened_at :: u64

definition cb_new :: CircuitBreaker where
  "cb_new = \<lparr>cb_state = 0, cb_consecutive_failures = 0, cb_opened_at = 0\<rparr>"

definition get_state :: "CircuitBreaker \<Rightarrow> CircuitBreakerState" where
  "get_state cb =
     (if cb_state cb = 0 then Closed
      else if cb_state cb = 1 then Open
      else if cb_state cb = 2 then HalfOpen
      else Closed)"

fun state_code :: "CircuitBreakerState \<Rightarrow> u64" where
  "state_code Closed = 0"
| "state_code Open = 1"
| "state_code HalfOpen = 2"

definition set_state :: "CircuitBreakerState \<Rightarrow> CircuitBreaker \<Rightarrow> CircuitBreaker" where
  "set_state s cb = cb\<lparr>cb_state := state_code s\<rparr>"

definition should_allow_request :: "u64 \<Rightarrow> CircuitBreaker \<Rightarrow> CircuitBreaker \<times> bool" where
  "should_allow_request now cb =
     (case get_state cb of
        Closed \<Rightarrow> (cb, True)
      | Open \<Rightarrow>
          if CIRCUIT_BREAKER_COOLDOWN_SECS \<le> now - cb_opened_at cb
          then (set_state HalfOpen cb, True)
          else (cb, False)
      | HalfOpen \<Rightarrow> (cb, True))"

definition record_success :: "CircuitBreaker \<Rightarrow> CircuitBreaker" where
  "record_success cb =
     (case get_state cb of
        Closed \<Rightarrow> cb\<lparr>cb_consecutive_failures := 0\<rparr>
      | HalfOpen \<Rightarrow> (set_state Closed cb)\<lparr>cb_consecutive_failures := 0\<rparr>
      | Open \<Rightarrow> (set_state Closed cb)\<lparr>cb_consecutive_failures := 0\<rparr>)"

definition record_failure :: "u64 \<Rightarrow> CircuitBreaker \<Rightarrow> CircuitBreaker" where
  "record_failure now cb =
     (let state = get_state cb;
          failures = cb_consecutive_failures cb + 1;
          cb = cb\<lparr>cb_consecutive_failures := failures\<rparr>
      in case state of
           Closed \<Rightarrow>
             if CIRCUIT_BREAKER_THRESHOLD \<le> failures
             then (set_state Open cb)\<lparr>cb_opened_at := now\<rparr>
             else cb
         | HalfOpen \<Rightarrow> (set_state Open cb)\<lparr>cb_opened_at := now\<rparr>
         | Open \<Rightarrow> cb)"

definition get_consecutive_failures :: "CircuitBreaker \<Rightarrow> u64" where
  "get_consecutive_failures cb = cb_consecutive_failures cb"

text \<open>\<open>get_circuit_breaker_status\<close> of the service reads the breaker for monitoring.\<close>

definition get_circuit_breaker_status :: "CircuitBreaker \<Rightarrow> string \<times> u64" where
  "get_circuit_breaker_status cb =
     ((case get_state cb of Closed \<Rightarrow> ''closed'' | Open \<Rightarrow> ''open'' | HalfOpen \<Rightarrow> ''half-open''),
      get_consecutive_failures cb)"

lemmas breaker_defs =
  get_state_def set_state_def should_allow_request_def record_success_def record_failure_def
  CIRCUIT_BREAKER_THRESHOLD_def CIRCUIT_BREAKER_COOLDOWN_SECS_def

subsection \<open>Well-formed breakers\<close>

text \<open>
  Between calls the state code is one of the three written by \<open>set_state\<close>, and a closed breaker
  has counted fewer failures than the threshold.
\<close>

definition cb_wf :: "CircuitBreaker \<Rightarrow> bool" where
  "cb_wf cb \<longleftrightarrow>
     cb_state cb \<in> {0, 1, 2} \<and>
     (cb_state cb = 0 \<longrightarrow> cb_consecutive_failures cb < CIRCUIT_BREAKER_THRESHOLD)"

lemma get_state_set_state [simp]: "get_state (set_state s cb) = s"
  by (cases s) (simp_all add: get_state_def set_state_def)

lemma get_state_update_failures [simp]:
  "get_state (cb\<lparr>cb_consecutive_failures := n\<rparr>) = get_state cb"
  "get_state (cb\<lparr>cb_opened_at := t\<rparr>) = get_state cb"
  by (simp_all add: get_state_def)

lemma cb_wf_new [wf_intros]: "cb_wf cb_new"
  by (simp add: cb_wf_def cb_new_def CIRCUIT_BREAKER_THRESHOLD_def)

lemma cb_wf_should_allow_request [wf_intros]: "cb_wf cb \<Longrightarrow> cb_wf (fst (should_allow_request now cb))"
  by (auto simp: cb_wf_def breaker_defs)

lemma cb_wf_record_success [wf_intros]: "cb_wf cb \<Longrightarrow> cb_wf (record_success cb)"
  by (auto simp: cb_wf_def breaker_defs split: CircuitBreakerState.split)

lemma cb_wf_record_failure [wf_intros]: "cb_wf cb \<Longrightarrow> cb_wf (record_failure now cb)"
  by (auto simp: cb_wf_def breaker_defs Let_def not_le split: CircuitBreakerState.split)

lemma cb_wf_Closed: "cb_wf cb \<Longrightarrow> get_state cb = Closed \<Longrightarrow> unat (cb_consecutive_failures cb) < 5"
  by (auto simp: cb_wf_def get_state_def CIRCUIT_BREAKER_THRESHOLD_def word_less_nat_alt
      split: if_splits)

subsection \<open>What the breaker promises\<close>

text \<open>
  The abstract machine: closed with a number of failures in a row, open since a time, or testing.
\<close>

datatype breaker_spec = SpecClosed nat | SpecOpen u64 | SpecTesting

fun spec_allow :: "u64 \<Rightarrow> breaker_spec \<Rightarrow> breaker_spec \<times> bool" where
  "spec_allow now (SpecClosed n) = (SpecClosed n, True)"
| "spec_allow now (SpecOpen t) = (if 30 \<le> now - t then (SpecTesting, True) else (SpecOpen t, False))"
| "spec_allow now SpecTesting = (SpecTesting, True)"

fun spec_success :: "breaker_spec \<Rightarrow> breaker_spec" where
  "spec_success s = SpecClosed 0"

fun spec_failure :: "u64 \<Rightarrow> breaker_spec \<Rightarrow> breaker_spec" where
  "spec_failure now (SpecClosed n) = (if Suc n < 5 then SpecClosed (Suc n) else SpecOpen now)"
| "spec_failure now (SpecOpen t) = SpecOpen t"
| "spec_failure now SpecTesting = SpecOpen now"

definition abs_breaker :: "CircuitBreaker \<Rightarrow> breaker_spec" where
  "abs_breaker cb =
     (case get_state cb of
        Closed \<Rightarrow> SpecClosed (unat (cb_consecutive_failures cb))
      | Open \<Rightarrow> SpecOpen (cb_opened_at cb)
      | HalfOpen \<Rightarrow> SpecTesting)"

lemma abs_should_allow_request:
  "map_prod abs_breaker id (should_allow_request now cb) = spec_allow now (abs_breaker cb)"
  by (cases "get_state cb")
    (simp_all add: should_allow_request_def abs_breaker_def CIRCUIT_BREAKER_COOLDOWN_SECS_def)

lemma abs_record_success: "abs_breaker (record_success cb) = spec_success (abs_breaker cb)"
  by (cases "get_state cb") (simp_all add: record_success_def abs_breaker_def)

lemma unat_failures_plus_one:
  "cb_wf cb \<Longrightarrow> get_state cb = Closed \<Longrightarrow>
     unat (cb_consecutive_failures cb + 1) = Suc (unat (cb_consecutive_failures cb))"
  by (rule unat_plus_one_lt, drule (1) cb_wf_Closed) simp

lemma abs_record_failure:
  "cb_wf cb \<Longrightarrow> abs_breaker (record_failure now cb) = spec_failure now (abs_breaker cb)"
  by (cases "get_state cb")
    (auto simp: record_failure_def abs_breaker_def Let_def CIRCUIT_BREAKER_THRESHOLD_def
      word_le_nat_alt unat_failures_plus_one)

text \<open>
  The tasks of the service (polling, submission) call the methods in any order; a run is the list of
  calls in the order they take effect.
\<close>

datatype breaker_event = Ask u64 | Succeed | Fail u64

fun breaker_step :: "breaker_event \<Rightarrow> CircuitBreaker \<Rightarrow> CircuitBreaker" where
  "breaker_step (Ask now) cb = fst (should_allow_request now cb)"
| "breaker_step Succeed cb = record_success cb"
| "breaker_step (Fail now) cb = record_failure now cb"

fun spec_step :: "breaker_event \<Rightarrow> breaker_spec \<Rightarrow> breaker_spec" where
  "spec_step (Ask now) s = fst (spec_allow now s)"
| "spec_step Succeed s = spec_success s"
| "spec_step (Fail now) s = spec_failure now s"

lemma cb_wf_step [wf_intros]: "cb_wf cb \<Longrightarrow> cb_wf (breaker_step e cb)"
  by (cases e) (simp_all add: wf_intros)

lemma cb_wf_run [wf_intros]: "cb_wf cb \<Longrightarrow> cb_wf (fold breaker_step es cb)"
  by (induction es arbitrary: cb) (simp_all add: cb_wf_step)

lemma abs_breaker_step: "cb_wf cb \<Longrightarrow> abs_breaker (breaker_step e cb) = spec_step e (abs_breaker cb)"
proof (cases e)
  case (Ask now)
  then show ?thesis
    using arg_cong [OF abs_should_allow_request [of now cb], of fst] by simp
qed (simp_all add: abs_record_success abs_record_failure)

lemma abs_breaker_run:
  "cb_wf cb \<Longrightarrow> abs_breaker (fold breaker_step es cb) = fold spec_step es (abs_breaker cb)"
  by (induction es arbitrary: cb) (simp_all add: cb_wf_step abs_breaker_step)

lemma abs_breaker_new: "abs_breaker cb_new = SpecClosed 0"
  by (simp add: abs_breaker_def get_state_def cb_new_def)

text \<open>The breaker is a counter that trips, as long as it is closed or open.\<close>

definition cb_counting :: "CircuitBreaker \<Rightarrow> bool" where
  "cb_counting cb \<longleftrightarrow> cb_wf cb \<and> get_state cb \<noteq> HalfOpen"

interpretation cb: trip_counter record_failure "\<lambda>cb. unat (cb_consecutive_failures cb)"
  "\<lambda>cb. get_state cb = Open" 5 "2 ^ 64 - 1" cb_counting
proof unfold_locales
  fix cb :: CircuitBreaker and now :: u64
  assume ok: "cb_counting cb"
  have "get_state (record_failure now cb) \<noteq> HalfOpen"
    using ok by (cases "get_state cb") (auto simp: cb_counting_def record_failure_def Let_def)
  with ok show "cb_counting (record_failure now cb)"
    by (simp add: cb_counting_def cb_wf_record_failure)
  assume "unat (cb_consecutive_failures cb) < 2 ^ 64 - 1"
  then have suc: "unat (cb_consecutive_failures cb + 1) = Suc (unat (cb_consecutive_failures cb))"
    by (intro unat_plus_one_lt) simp
  then show "unat (cb_consecutive_failures (record_failure now cb)) = Suc (unat (cb_consecutive_failures cb))"
    by (auto simp: record_failure_def Let_def set_state_def split: CircuitBreakerState.split)
  show "get_state (record_failure now cb) = Open \<longleftrightarrow>
      get_state cb = Open \<or> 5 \<le> Suc (unat (cb_consecutive_failures cb))"
    using ok suc
    by (cases "get_state cb")
      (auto simp: cb_counting_def record_failure_def Let_def CIRCUIT_BREAKER_THRESHOLD_def
        word_le_nat_alt)
qed

subsection \<open>Properties\<close>

text \<open>C1: every sequence of method calls on a fresh breaker is a run of the abstract machine, and the
  answer to a request is the abstract machine's answer.\<close>

theorem breaker_refines_spec:
  "abs_breaker (fold breaker_step es cb_new) = fold spec_step es (SpecClosed 0) \<and>
   snd (should_allow_request now (fold breaker_step es cb_new)) =
     snd (spec_allow now (fold spec_step es (SpecClosed 0)))"
proof -
  let ?cb = "fold breaker_step es cb_new"
  have run: "abs_breaker ?cb = fold spec_step es (SpecClosed 0)"
    using abs_breaker_run [OF cb_wf_new] by (simp add: abs_breaker_new)
  then show ?thesis
    using arg_cong [OF abs_should_allow_request [of now ?cb], of snd] by simp
qed

text \<open>a fresh breaker that sees only failures opens at the fifth one and not before.\<close>

theorem breaker_opens_at_threshold:
  "length ts < 2 ^ 64 \<Longrightarrow> get_state (fold record_failure ts cb_new) = Open \<longleftrightarrow> 5 \<le> length ts"
proof -
  assume "length ts < 2 ^ 64"
  moreover have "cb_counting cb_new"
    by (simp add: cb_counting_def cb_wf_new) (simp add: cb_new_def get_state_def)
  ultimately show ?thesis
    using cb.tripped_run [of cb_new ts]
    by (auto simp: cb_new_def get_state_def)
qed

theorem breaker_opens_at_threshold_witness:
  "length [10, 11, 12, 13, 14 :: u64] < 2 ^ 64 \<and>
   get_state (fold record_failure [10, 11, 12, 13, 14] cb_new) = Open"
  using breaker_opens_at_threshold [of "[10, 11, 12, 13, 14]"] by simp

text \<open>while the clock does not step back behind the time the breaker opened, an open breaker
  lets a request through exactly when the cooldown of thirty seconds is over, and that request
  is the one that moves it to half-open; a refused request changes nothing.\<close>

theorem open_breaker_cooldown:
  assumes "get_state cb = Open" and "cb_opened_at cb \<le> now"
  shows "should_allow_request now cb =
     (if unat (cb_opened_at cb) + 30 \<le> unat now then (set_state HalfOpen cb, True) else (cb, False))"
proof -
  have "30 \<le> now - cb_opened_at cb \<longleftrightarrow> unat (cb_opened_at cb) + 30 \<le> unat now"
    using assms(2) by (auto simp: word_le_nat_alt unat_diff_le)
  with assms(1) show ?thesis
    by (simp add: should_allow_request_def CIRCUIT_BREAKER_COOLDOWN_SECS_def)
qed

theorem open_breaker_cooldown_witness:
  "should_allow_request 130 \<lparr>cb_state = 1, cb_consecutive_failures = 5, cb_opened_at = 100\<rparr> =
     (\<lparr>cb_state = 2, cb_consecutive_failures = 5, cb_opened_at = 100\<rparr>, True)"
  using open_breaker_cooldown
    [of "\<lparr>cb_state = 1, cb_consecutive_failures = 5, cb_opened_at = 100\<rparr>" 130]
  by (simp add: get_state_def set_state_def)

end
