(* ===== verification/Hl_Types.thy ===== *)
theory Hl_Types
  imports F64 Hash_Map
begin

text \<open>
  The data of \<open>crates/mev-hyperliquid/src/types.rs\<close>: messages of the exchange, the blockchain state, the
  events that travel through the channels, and opportunities. The reason of a \<open>TransactionFailed\<close> event,
  a formatted text in the source, is the datatype \<open>failure_reason\<close>.
\<close>

subsection \<open>Messages of the exchange\<close>

datatype TradeSide = Buy | Sell

record TradeData =
  td_coin :: string
  td_side :: TradeSide
  td_price :: f64
  td_size :: f64
  td_timestamp :: u64
  td_trade_id :: string

record OrderBookLevel =
  lv_price :: f64
  lv_size :: f64

record OrderBookData =
  ob_coin :: string
  ob_bids :: "OrderBookLevel list"
  ob_asks :: "OrderBookLevel list"
  ob_timestamp :: u64

record SubscriptionResponse =
  sr_subscription_type :: string
  sr_coin :: string
  sr_success :: bool
  sr_error :: "string option"

record ErrorData =
  er_code :: "32 word option"
  er_message :: string

datatype MessageData =
    SubscriptionResponseData SubscriptionResponse
  | Trade TradeData
  | OrderBook OrderBookData
  | Error ErrorData

record HyperLiquidMessage =
  msg_channel :: string
  msg_data :: MessageData

definition from_hyperliquid :: "string \<Rightarrow> TradeSide option" where
  "from_hyperliquid s = (if s = ''B'' then Some Buy else if s = ''A'' then Some Sell else None)"

definition is_trade :: "HyperLiquidMessage \<Rightarrow> bool" where
  "is_trade m = (case msg_data m of Trade _ \<Rightarrow> True | _ \<Rightarrow> False)"

definition is_orderbook :: "HyperLiquidMessage \<Rightarrow> bool" where
  "is_orderbook m = (case msg_data m of OrderBook _ \<Rightarrow> True | _ \<Rightarrow> False)"

definition is_error :: "HyperLiquidMessage \<Rightarrow> bool" where
  "is_error m = (case msg_data m of Error _ \<Rightarrow> True | _ \<Rightarrow> False)"

definition is_subscription_response :: "HyperLiquidMessage \<Rightarrow> bool" where
  "is_subscription_response m = (case msg_data m of SubscriptionResponseData _ \<Rightarrow> True | _ \<Rightarrow> False)"

subsection \<open>Order books\<close>

definition best_bid :: "OrderBookData \<Rightarrow> f64 option" where
  "best_bid b = (case ob_bids b of [] \<Rightarrow> None | level # _ \<Rightarrow> Some (lv_price level))"

definition best_ask :: "OrderBookData \<Rightarrow> f64 option" where
  "best_ask b = (case ob_asks b of [] \<Rightarrow> None | level # _ \<Rightarrow> Some (lv_price level))"

definition spread :: "OrderBookData \<Rightarrow> f64 option" where
  "spread b =
     (case (best_bid b, best_ask b) of
        (Some bid, Some ask) \<Rightarrow> Some (f64_sub ask bid)
      | _ \<Rightarrow> None)"

definition spread_percentage :: "OrderBookData \<Rightarrow> f64 option" where
  "spread_percentage b =
     (case (best_bid b, best_ask b) of
        (Some bid, Some ask) \<Rightarrow>
          (let mid = f64_div (f64_add bid ask) (Finite False 2)
           in if f64_lt (Finite False 0) mid
              then Some (f64_mul (f64_div (f64_sub ask bid) mid) (Finite False 100))
              else None)
      | _ \<Rightarrow> None)"

subsection \<open>Blockchain state\<close>

record BlockchainState =
  block_number :: u64
  timestamp :: u64
  token_prices :: "(address, u256) hash_map"
  contract_states :: "(address, u8 list) hash_map"

definition BlockchainState_new :: "u64 \<Rightarrow> u64 \<Rightarrow> BlockchainState" where
  "BlockchainState_new n t =
     \<lparr>block_number = n, timestamp = t, token_prices = hm_empty, contract_states = hm_empty\<rparr>"

datatype failure_reason = ConfirmationTimeout u64 | RevertedOnChain

datatype StateUpdateEvent =
    BlockNumber u64
  | TokenPrice address u256
  | ContractState address "u8 list"
  | Balance address u256
  | StateSnapshot BlockchainState
  | TransactionConfirmed h256 u64 u256 bool
  | TransactionFailed h256 failure_reason

subsection \<open>Market data and opportunities\<close>

datatype MarketDataEvent = TradeEvent TradeData | OrderBookEvent OrderBookData

fun event_coin :: "MarketDataEvent \<Rightarrow> string" where
  "event_coin (TradeEvent t) = td_coin t"
| "event_coin (OrderBookEvent b) = ob_coin b"

fun event_timestamp :: "MarketDataEvent \<Rightarrow> u64" where
  "event_timestamp (TradeEvent t) = td_timestamp t"
| "event_timestamp (OrderBookEvent b) = ob_timestamp b"

datatype OpportunityType =
    Arbitrage (op_buy_venue: string) (op_sell_venue: string) (op_token: address) (op_spread_bps: u64)
  | Liquidation address address address u256
  | FrontRun h256 address u64

record Opportunity =
  opportunity_type :: OpportunityType
  expected_profit :: u256
  market_data :: MarketDataEvent
  blockchain_state :: BlockchainState
  verified :: bool
  detected_at :: u64
  expires_at :: "u64 option"

definition Opportunity_new ::
  "u64 \<Rightarrow> OpportunityType \<Rightarrow> u256 \<Rightarrow> MarketDataEvent \<Rightarrow> BlockchainState \<Rightarrow> Opportunity"
where
  "Opportunity_new now ty profit md state =
     \<lparr>opportunity_type = ty, expected_profit = profit, market_data = md, blockchain_state = state,
      verified = False, detected_at = now, expires_at = None\<rparr>"

definition mark_verified :: "Opportunity \<Rightarrow> Opportunity" where
  "mark_verified o' = o'\<lparr>verified := True\<rparr>"

definition set_expiration :: "u64 \<Rightarrow> Opportunity \<Rightarrow> Opportunity" where
  "set_expiration t o' = o'\<lparr>expires_at := Some t\<rparr>"

definition is_expired :: "u64 \<Rightarrow> Opportunity \<Rightarrow> bool" where
  "is_expired now o' = (case expires_at o' of Some t \<Rightarrow> t \<le> now | None \<Rightarrow> False)"

end
