(* ===== verification/Rpc_Service.thy ===== *)
theory Rpc_Service
  imports Circuit_Breaker Hl_Types
begin

text \<open>
  The RPC service of \<open>crates/mev-hyperliquid/src/rpc_service.rs\<close>: the retry loop around the
  circuit breaker, the operations it runs and the polling and confirmation loops.

  The node and the clocks are outside the program. They are a world of type \<open>'w\<close> that every
  awaited call takes and returns, and the calls are the fields of the record \<open>provider\<close>, an
  argument of every definition. A call made under \<open>time::timeout\<close> ends in one of three ways:
  a value, an error, or the deadline of the enclosing timeout, which drops the rest of the
  operation while what the node has already done stays done.
\<close>

subsection \<open>Types of the node interface\<close>

datatype 'a reply = Reply 'a | Failed string | Deadline

record 'p TransactionRequest =
  tr_nonce :: "u256 option"
  tr_gas :: "u256 option"
  tr_gas_price :: "u256 option"
  tr_payload :: 'p

record TransactionReceipt =
  rc_block_number :: "u64 option"
  rc_gas_used :: "u256 option"
  rc_status :: "u64 option"

record ('w, 'p, 'raw) provider =
  sys_secs :: "'w \<Rightarrow> u64"
  mono_now :: "'w \<Rightarrow> instant"
  sleep_for :: "duration \<Rightarrow> 'w \<Rightarrow> 'w"
  arm_timeout :: "duration \<Rightarrow> 'w \<Rightarrow> 'w"
  interval_tick :: "'w \<Rightarrow> 'w"
  get_chainid :: "'w \<Rightarrow> 'w \<times> u256 reply"
  get_block_number :: "'w \<Rightarrow> 'w \<times> u64 reply"
  get_block_timestamp :: "u64 \<Rightarrow> 'w \<Rightarrow> 'w \<times> u256 option reply"
  get_transaction_count :: "'w \<Rightarrow> 'w \<times> u256 reply"
  estimate_gas :: "'p TransactionRequest \<Rightarrow> 'w \<Rightarrow> 'w \<times> u256 reply"
  get_gas_price :: "'w \<Rightarrow> 'w \<times> u256 reply"
  sign_transaction :: "u64 \<Rightarrow> 'p TransactionRequest \<Rightarrow> string + 'raw"
  send_raw_transaction :: "'raw \<Rightarrow> 'w \<Rightarrow> 'w \<times> h256 reply"
  get_transaction_receipt :: "h256 \<Rightarrow> 'w \<Rightarrow> 'w \<times> (string + TransactionReceipt option)"

text \<open>The service itself: whether a wallet and an event channel were configured.\<close>

record 'w HyperLiquidRpcService =
  timeout_secs :: u64
  connected :: bool
  state_tx :: "(StateUpdateEvent \<Rightarrow> 'w \<Rightarrow> 'w) option"
  has_wallet :: bool
  circuit_breaker :: CircuitBreaker

datatype rpc_error =
    CircuitOpen
  | OperationFailed string
  | OperationTimedOut u64
  | AttemptsExhausted
  | NoPrivateKey
  | NotConnected
  | ConnectFailed string
  | ConfirmTimedOut u64
  | ReceiptMissingBlockNumber
  | ReceiptMissingGasUsed
  | TransactionReverted h256 u256

definition send_event ::
  "'w HyperLiquidRpcService \<Rightarrow> StateUpdateEvent \<Rightarrow> 'w \<Rightarrow> 'w" where
  "send_event svc ev w = (case state_tx svc of None \<Rightarrow> w | Some tx \<Rightarrow> tx ev w)"

text \<open>\<open>.await?\<close> inside an operation: an error or the deadline ends the operation.\<close>

fun await_then :: "'w \<times> 'a reply \<Rightarrow> ('a \<Rightarrow> 'w \<Rightarrow> ('w \<times> 'b reply) run) \<Rightarrow> ('w \<times> 'b reply) run" where
  "await_then (w, Reply x) f = f x w"
| "await_then (w, Failed e) f = Ret (w, Failed e)"
| "await_then (w, Deadline) f = Ret (w, Deadline)"

subsection \<open>Retry with backoff\<close>

definition MAX_RETRY_ATTEMPTS :: nat where "MAX_RETRY_ATTEMPTS = 3"
definition INITIAL_BACKOFF_MS :: u64 where "INITIAL_BACKOFF_MS = 100"
definition MAX_BACKOFF_MS :: u64 where "MAX_BACKOFF_MS = 10000"

text \<open>
  The loop \<open>for attempt in 1..=MAX_RETRY_ATTEMPTS\<close> with \<open>k\<close> attempts left; it ends with the
  breaker told of the outcome.
\<close>

fun retry_loop ::
  "('w, 'p, 'raw) provider \<Rightarrow> u64 \<Rightarrow> ('w \<Rightarrow> ('w \<times> 'a reply) run) \<Rightarrow> nat \<Rightarrow> u64 \<Rightarrow>
   rpc_error option \<Rightarrow> CircuitBreaker \<Rightarrow> 'w \<Rightarrow> ('w \<times> CircuitBreaker \<times> (rpc_error + 'a)) run"
where
  "retry_loop P timeout operation 0 backoff_ms last_error cb w =
     Ret (w, record_failure (sys_secs P w) cb,
          Inl (case last_error of Some e \<Rightarrow> e | None \<Rightarrow> AttemptsExhausted))"
| "retry_loop P timeout operation (Suc k) backoff_ms last_error cb w =
     run_bind (operation (arm_timeout P (secs (unat timeout)) w)) (\<lambda>(w, r).
       case r of
         Reply v \<Rightarrow> Ret (w, record_success cb, Inr v)
       | Failed e \<Rightarrow>
           (if k = 0 then retry_loop P timeout operation k backoff_ms (Some (OperationFailed e)) cb w
            else retry_loop P timeout operation k (min (backoff_ms * 2) MAX_BACKOFF_MS)
                   (Some (OperationFailed e)) cb (sleep_for P (millis (unat backoff_ms)) w))
       | Deadline \<Rightarrow>
           (if k = 0 then retry_loop P timeout operation k backoff_ms (Some (OperationTimedOut timeout)) cb w
            else retry_loop P timeout operation k (min (backoff_ms * 2) MAX_BACKOFF_MS)
                   (Some (OperationTimedOut timeout)) cb (sleep_for P (millis (unat backoff_ms)) w)))"

definition execute_with_retry ::
  "('w, 'p, 'raw) provider \<Rightarrow> u64 \<Rightarrow> ('w \<Rightarrow> ('w \<times> 'a reply) run) \<Rightarrow>
   CircuitBreaker \<Rightarrow> 'w \<Rightarrow> ('w \<times> CircuitBreaker \<times> (rpc_error + 'a)) run"
where
  "execute_with_retry P timeout operation cb w =
     (let (cb, allowed) = should_allow_request (sys_secs P w) cb in
      if \<not> allowed then Ret (w, cb, Inl CircuitOpen)
      else retry_loop P timeout operation MAX_RETRY_ATTEMPTS INITIAL_BACKOFF_MS None cb w)"

subsection \<open>Operations\<close>

text \<open>\<open>connect\<close> runs under no timeout; a \<open>Deadline\<close> reply, which the node then cannot give,
  is read as a failed connection.\<close>

definition connect ::
  "('w, 'p, 'raw) provider \<Rightarrow> 'w HyperLiquidRpcService \<Rightarrow> 'w \<Rightarrow>
   ('w \<times> 'w HyperLiquidRpcService \<times> (rpc_error + unit)) run"
where
  "connect P svc w =
     run_bind
       (await_then (get_chainid P w) (\<lambda>chain_id w.
          run_bind (as_u64 chain_id) (\<lambda>_.
            await_then (get_block_number P w) (\<lambda>n w. Ret (w, Reply ())))))
       (\<lambda>(w, r). case r of
          Reply _ \<Rightarrow> Ret (w, svc\<lparr>connected := True\<rparr>, Inr ())
        | Failed e \<Rightarrow> Ret (w, svc, Inl (ConnectFailed e))
        | Deadline \<Rightarrow> Ret (w, svc, Inl (ConnectFailed [])))"

text \<open>The closure of \<open>poll_blockchain_state\<close>.\<close>

definition poll_operation ::
  "('w, 'p, 'raw) provider \<Rightarrow> 'w HyperLiquidRpcService \<Rightarrow> 'w \<Rightarrow> ('w \<times> BlockchainState reply) run"
where
  "poll_operation P svc w =
     await_then (get_block_number P w) (\<lambda>n w.
     await_then (get_block_timestamp P n w) (\<lambda>block w.
       case block of
         None \<Rightarrow> Ret (w, Failed ''Block not found'')
       | Some ts \<Rightarrow>
           run_bind (as_u64 ts) (\<lambda>ts.
             let state = BlockchainState_new n ts;
                 w = send_event svc (BlockNumber n) w;
                 w = send_event svc (StateSnapshot state) w
             in Ret (w, Reply state))))"

definition poll_blockchain_state ::
  "('w, 'p, 'raw) provider \<Rightarrow> 'w HyperLiquidRpcService \<Rightarrow> 'w \<Rightarrow>
   ('w \<times> 'w HyperLiquidRpcService \<times> (rpc_error + BlockchainState)) run"
where
  "poll_blockchain_state P svc w =
     run_bind (execute_with_retry P (timeout_secs svc) (poll_operation P svc) (circuit_breaker svc) w)
       (\<lambda>(w, cb, r). Ret (w, svc\<lparr>circuit_breaker := cb\<rparr>, r))"

text \<open>The steps of the closure of \<open>submit_transaction\<close>: each fills a field the caller left open.\<close>

definition fill_nonce ::
  "('w, 'p, 'raw) provider \<Rightarrow> 'p TransactionRequest \<Rightarrow> 'w \<Rightarrow> 'w \<times> 'p TransactionRequest reply"
where
  "fill_nonce P tx w =
     (case tr_nonce tx of
        Some _ \<Rightarrow> (w, Reply tx)
      | None \<Rightarrow>
          (case get_transaction_count P w of
             (w, Reply nonce) \<Rightarrow> (w, Reply (tx\<lparr>tr_nonce := Some nonce\<rparr>))
           | (w, Failed e) \<Rightarrow> (w, Failed e)
           | (w, Deadline) \<Rightarrow> (w, Deadline)))"

definition fill_gas ::
  "('w, 'p, 'raw) provider \<Rightarrow> 'p TransactionRequest \<Rightarrow> 'w \<Rightarrow> ('w \<times> 'p TransactionRequest reply) run"
where
  "fill_gas P tx w =
     (case tr_gas tx of
        Some _ \<Rightarrow> Ret (w, Reply tx)
      | None \<Rightarrow>
          (case estimate_gas P tx w of
             (w, Reply est) \<Rightarrow>
               run_bind (u256_mul est 120) (\<lambda>g. Ret (w, Reply (tx\<lparr>tr_gas := Some (g div 100)\<rparr>)))
           | (w, Failed e) \<Rightarrow> Ret (w, Reply (tx\<lparr>tr_gas := Some 300000\<rparr>))
           | (w, Deadline) \<Rightarrow> Ret (w, Deadline)))"

definition fill_gas_price ::
  "('w, 'p, 'raw) provider \<Rightarrow> 'p TransactionRequest \<Rightarrow> 'w \<Rightarrow> 'w \<times> 'p TransactionRequest reply"
where
  "fill_gas_price P tx w =
     (case tr_gas_price tx of
        Some _ \<Rightarrow> (w, Reply tx)
      | None \<Rightarrow>
          (case get_gas_price P w of
             (w, Reply price) \<Rightarrow> (w, Reply (tx\<lparr>tr_gas_price := Some price\<rparr>))
           | (w, Failed e) \<Rightarrow> (w, Reply tx)
           | (w, Deadline) \<Rightarrow> (w, Deadline)))"

definition submit_operation ::
  "('w, 'p, 'raw) provider \<Rightarrow> 'p TransactionRequest \<Rightarrow> 'w \<Rightarrow> ('w \<times> h256 reply) run"
where
  "submit_operation P tx w =
     await_then (get_chainid P w) (\<lambda>chain_id w.
     run_bind (as_u64 chain_id) (\<lambda>chain_id.
     await_then (fill_nonce P tx w) (\<lambda>tx w.
     run_bind (fill_gas P tx w) (\<lambda>filled.
     await_then filled (\<lambda>tx w.
     await_then (fill_gas_price P tx w) (\<lambda>tx w.
       case sign_transaction P chain_id tx of
         Inl e \<Rightarrow> Ret (w, Failed e)
       | Inr signed_tx \<Rightarrow> Ret (send_raw_transaction P signed_tx w)))))))"

definition submit_transaction ::
  "('w, 'p, 'raw) provider \<Rightarrow> 'w HyperLiquidRpcService \<Rightarrow> 'p TransactionRequest \<Rightarrow> 'w \<Rightarrow>
   ('w \<times> 'w HyperLiquidRpcService \<times> (rpc_error + h256)) run"
where
  "submit_transaction P svc tx w =
     (if \<not> has_wallet svc then Ret (w, svc, Inl NoPrivateKey)
      else run_bind
        (execute_with_retry P (timeout_secs svc) (submit_operation P tx) (circuit_breaker svc) w)
        (\<lambda>(w, cb, r). Ret (w, svc\<lparr>circuit_breaker := cb\<rparr>, r)))"

subsection \<open>Waiting for a confirmation\<close>

text \<open>
  The polling loop of \<open>wait_for_confirmation\<close>. One unit of fuel is one round; \<open>None\<close> is a loop
  that has not returned yet.
\<close>

definition classify_receipt ::
  "'w HyperLiquidRpcService \<Rightarrow> h256 \<Rightarrow> TransactionReceipt \<Rightarrow> 'w \<Rightarrow>
   'w \<times> (rpc_error + TransactionReceipt)"
where
  "classify_receipt svc tx_hash receipt w =
     (case rc_block_number receipt of
        None \<Rightarrow> (w, Inl ReceiptMissingBlockNumber)
      | Some n \<Rightarrow>
          (case rc_gas_used receipt of
             None \<Rightarrow> (w, Inl ReceiptMissingGasUsed)
           | Some gas \<Rightarrow>
               (let status = (case rc_status receipt of Some s \<Rightarrow> s = 1 | None \<Rightarrow> False) in
                if status
                then (send_event svc (TransactionConfirmed tx_hash n gas status) w, Inr receipt)
                else (send_event svc (TransactionFailed tx_hash RevertedOnChain) w,
                      Inl (TransactionReverted tx_hash gas)))))"

fun confirm_loop ::
  "('w, 'p, 'raw) provider \<Rightarrow> 'w HyperLiquidRpcService \<Rightarrow> h256 \<Rightarrow> u64 \<Rightarrow> instant \<Rightarrow> nat \<Rightarrow> 'w \<Rightarrow>
   ('w \<times> (rpc_error + TransactionReceipt)) option"
where
  "confirm_loop P svc tx_hash timeout start 0 w = None"
| "confirm_loop P svc tx_hash timeout start (Suc fuel) w =
     (if secs (unat timeout) \<le> elapsed (mono_now P w) start
      then Some (send_event svc (TransactionFailed tx_hash (ConfirmationTimeout timeout)) w,
                 Inl (ConfirmTimedOut timeout))
      else
        (case get_transaction_receipt P tx_hash (interval_tick P w) of
           (w, Inr (Some receipt)) \<Rightarrow> Some (classify_receipt svc tx_hash receipt w)
         | (w, Inr None) \<Rightarrow> confirm_loop P svc tx_hash timeout start fuel w
         | (w, Inl e) \<Rightarrow> confirm_loop P svc tx_hash timeout start fuel w))"

definition wait_for_confirmation ::
  "('w, 'p, 'raw) provider \<Rightarrow> 'w HyperLiquidRpcService \<Rightarrow> h256 \<Rightarrow> u64 option \<Rightarrow> nat \<Rightarrow> 'w \<Rightarrow>
   ('w \<times> (rpc_error + TransactionReceipt)) option"
where
  "wait_for_confirmation P svc tx_hash timeout_opt fuel w =
     confirm_loop P svc tx_hash (case timeout_opt of Some t \<Rightarrow> t | None \<Rightarrow> 60) (mono_now P w) fuel w"

subsection \<open>Continuous polling\<close>

text \<open>
  \<open>start_polling\<close> never returns once it runs; \<open>polling_rounds\<close> is the state after a number of
  rounds of its loop.
\<close>

definition polling_round ::
  "('w, 'p, 'raw) provider \<Rightarrow> 'w HyperLiquidRpcService \<Rightarrow> 'w \<Rightarrow>
   ('w \<times> 'w HyperLiquidRpcService) run"
where
  "polling_round P svc w =
     (let w = interval_tick P w;
          (cb_state, cb_failures) = get_circuit_breaker_status (circuit_breaker svc) in
      if cb_state = ''open'' then Ret (w, svc)
      else run_bind (poll_blockchain_state P svc w) (\<lambda>(w, svc, _). Ret (w, svc)))"

fun polling_rounds ::
  "('w, 'p, 'raw) provider \<Rightarrow> nat \<Rightarrow> 'w HyperLiquidRpcService \<Rightarrow> 'w \<Rightarrow>
   ('w \<times> 'w HyperLiquidRpcService) run"
where
  "polling_rounds P 0 svc w = Ret (w, svc)"
| "polling_rounds P (Suc n) svc w =
     run_bind (polling_round P svc w) (\<lambda>(w, svc). polling_rounds P n svc w)"

definition start_polling ::
  "('w, 'p, 'raw) provider \<Rightarrow> nat \<Rightarrow> 'w HyperLiquidRpcService \<Rightarrow> 'w \<Rightarrow>
   rpc_error + ('w \<times> 'w HyperLiquidRpcService) run"
where
  "start_polling P n svc w =
     (if \<not> connected svc then Inl NotConnected else Inr (polling_rounds P n svc w))"

end
