(* ===== verification/Rpc_Facts.thy ===== *)
theory Rpc_Facts
  imports Rpc_Service
begin

text \<open>
  Properties of the RPC service: how often an operation is attempted and what the breaker is told,
  what a submission sends, that the confirmation loop returns, and what the polling loop does while
  the breaker is open.
\<close>

subsection \<open>The retry loop\<close>

lemma run_case_reply_Ret:
  "(case r of Reply v \<Rightarrow> A v | Failed e \<Rightarrow> B e | Deadline \<Rightarrow> C) = Ret x \<longleftrightarrow>
     (\<exists>v. r = Reply v \<and> A v = Ret x) \<or> (\<exists>e. r = Failed e \<and> B e = Ret x) \<or> (r = Deadline \<and> C = Ret x)"
  by (cases r) auto

text \<open>A quantity that each attempt raises by at most one grows by at most the attempts left.\<close>

lemma retry_loop_attempts:
  assumes op: "\<And>w w' r. operation w = Ret (w', r) \<Longrightarrow> m w' \<le> Suc (m w)"
    and arm: "\<And>d w. m (arm_timeout P d w) = m w"
    and sleep: "\<And>d w. m (sleep_for P d w) = m w"
  shows "retry_loop P timeout operation k backoff prior cb w = Ret (w', cb', r) \<Longrightarrow> m w' \<le> m w + k"
proof (induction k arbitrary: backoff prior w)
  case 0
  then show ?case by simp
next
  case (Suc k)
  from Suc.prems obtain w1 r1 where
    one: "operation (arm_timeout P (secs (unat timeout)) w) = Ret (w1, r1)"
    by (auto simp: run_bind_Ret_iff)
  then have w1: "m w1 \<le> Suc (m w)"
    using op [of "arm_timeout P (secs (unat timeout)) w"] arm by simp
  from Suc.prems one w1 show ?case
    by (cases r1) (fastforce dest!: Suc.IH simp: sleep split: if_splits)+
qed

lemma execute_with_retry_cases:
  "execute_with_retry P timeout operation cb w =
     (if snd (should_allow_request (sys_secs P w) cb)
      then retry_loop P timeout operation 3 100 None (fst (should_allow_request (sys_secs P w) cb)) w
      else Ret (w, cb, Inl CircuitOpen))"
  by (auto simp: execute_with_retry_def MAX_RETRY_ATTEMPTS_def INITIAL_BACKOFF_MS_def
      should_allow_request_def split: CircuitBreakerState.splits prod.splits if_splits)

text \<open>one call of \<open>execute_with_retry\<close> runs the operation at most three times: a quantity
  that one run of the operation raises by at most one, and that sleeping and arming the timeout leave
  alone, grows by at most three.\<close>

theorem execute_with_retry_at_most_three_attempts:
  assumes "\<And>w w' r. operation w = Ret (w', r) \<Longrightarrow> m w' \<le> Suc (m w)"
    and "\<And>d w. m (arm_timeout P d w) = m w"
    and "\<And>d w. m (sleep_for P d w) = m w"
    and "execute_with_retry P timeout operation cb w = Ret (w', cb', r)"
  shows "m w' \<le> m w + 3"
proof (cases "snd (should_allow_request (sys_secs P w) cb)")
  case True
  with assms(4) have
    "retry_loop P timeout operation 3 100 None (fst (should_allow_request (sys_secs P w) cb)) w
       = Ret (w', cb', r)"
    by (simp add: execute_with_retry_cases)
  with assms(1-3) show ?thesis
    by (rule retry_loop_attempts)
next
  case False
  with assms(4) show ?thesis
    by (simp add: execute_with_retry_cases)
qed

text \<open>
  One attempt arms the timeout and runs the operation. It succeeds with a value, or fails with the
  operation's own error or with the timeout.
\<close>

definition succeeds ::
  "('w, 'p, 'raw) provider \<Rightarrow> u64 \<Rightarrow> ('w \<Rightarrow> ('w \<times> 'a reply) run) \<Rightarrow> 'w \<Rightarrow> 'w \<Rightarrow> 'a \<Rightarrow> bool" where
  "succeeds P timeout operation w w' v \<longleftrightarrow>
     operation (arm_timeout P (secs (unat timeout)) w) = Ret (w', Reply v)"

definition fails ::
  "('w, 'p, 'raw) provider \<Rightarrow> u64 \<Rightarrow> ('w \<Rightarrow> ('w \<times> 'a reply) run) \<Rightarrow> 'w \<Rightarrow> 'w \<Rightarrow> rpc_error \<Rightarrow> bool" where
  "fails P timeout operation w w' e \<longleftrightarrow>
     (\<exists>s. operation (arm_timeout P (secs (unat timeout)) w) = Ret (w', Failed s) \<and> e = OperationFailed s) \<or>
     (operation (arm_timeout P (secs (unat timeout)) w) = Ret (w', Deadline) \<and> e = OperationTimedOut timeout)"

text \<open>One round of the loop, after which either the call is over or one attempt fewer is left.\<close>

lemma retry_loop_last:
  assumes "retry_loop P timeout operation (Suc 0) backoff prior cb w = Ret (w', cb', r)"
  shows "(\<exists>v. succeeds P timeout operation w w' v \<and> r = Inr v \<and> cb' = record_success cb) \<or>
    (\<exists>e. fails P timeout operation w w' e \<and> r = Inl e \<and> cb' = record_failure (sys_secs P w') cb)"
  using assms by (auto simp: succeeds_def fails_def run_bind_Ret_iff run_case_reply_Ret)

lemma retry_loop_more:
  assumes "retry_loop P timeout operation (Suc (Suc k)) backoff prior cb w = Ret (w', cb', r)"
  shows "(\<exists>v. succeeds P timeout operation w w' v \<and> r = Inr v \<and> cb' = record_success cb) \<or>
    (\<exists>w1 e. fails P timeout operation w w1 e \<and>
       retry_loop P timeout operation (Suc k) (min (backoff * 2) MAX_BACKOFF_MS) (Some e) cb
         (sleep_for P (millis (unat backoff)) w1) = Ret (w', cb', r))"
  using assms
  by (subst (asm) retry_loop.simps(2))
    (fastforce simp: succeeds_def fails_def run_bind_Ret_iff run_case_reply_Ret simp del: retry_loop.simps)

text \<open>C3: a call that the breaker refuses returns the circuit-open error with the world and the
  breaker untouched. Any other call that returns makes one, two or three attempts, each only after the one before
  has failed, with a sleep of 100 ms before the second and of 200 ms before the third: it returns
  the value of the first attempt that succeeds and records one success, or, when all three have
  failed, the error of the third and records one failure at the time it ended.\<close>

theorem execute_with_retry_outcome:
  assumes "execute_with_retry P timeout operation cb w = Ret (w', cb', r)"
  shows "let (cb1, allowed) = should_allow_request (sys_secs P w) cb;
             ok = succeeds P timeout operation; err = fails P timeout operation;
             pause = (\<lambda>ms. sleep_for P (millis ms)) in
     (\<not> allowed \<and> r = Inl CircuitOpen \<and> w' = w \<and> cb' = cb) \<or>
     (allowed \<and> (\<exists>v. r = Inr v \<and> cb' = record_success cb1 \<and>
        (ok w w' v \<or>
         (\<exists>w1 e1. err w w1 e1 \<and> ok (pause 100 w1) w' v) \<or>
         (\<exists>w1 e1 w2 e2. err w w1 e1 \<and> err (pause 100 w1) w2 e2 \<and> ok (pause 200 w2) w' v)))) \<or>
     (allowed \<and> (\<exists>e. r = Inl e \<and> cb' = record_failure (sys_secs P w') cb1 \<and>
        (\<exists>w1 e1 w2 e2. err w w1 e1 \<and> err (pause 100 w1) w2 e2 \<and> err (pause 200 w2) w' e)))"
proof (cases "should_allow_request (sys_secs P w) cb")
  case (Pair cb1 allowed)
  show ?thesis
  proof (cases allowed)
    case True
    with assms Pair have "retry_loop P timeout operation (Suc (Suc (Suc 0))) 100 None cb1 w = Ret (w', cb', r)"
      by (simp add: execute_with_retry_cases numeral_3_eq_3)
    from retry_loop_more [OF this] Pair True show ?thesis
      by (auto simp: Let_def MAX_BACKOFF_MS_def simp del: retry_loop.simps
          dest!: retry_loop_more retry_loop_last) blast+
  next
    case False
    with assms Pair show ?thesis
      by (simp add: execute_with_retry_cases)
  qed
qed

text \<open>when the operation fails every time, its three runs are separated by sleeps of 100 and 200
  milliseconds and the last error is returned after one failure is recorded.\<close>

theorem execute_with_retry_backoff:
  assumes "\<And>w. operation w = Ret (f w, Failed e)"
    and "snd (should_allow_request (sys_secs P w) cb)"
  shows "execute_with_retry P timeout operation cb w =
     (let attempt = (\<lambda>w. f (arm_timeout P (secs (unat timeout)) w));
          w' = attempt (sleep_for P (millis 200) (attempt (sleep_for P (millis 100) (attempt w))))
      in Ret (w', record_failure (sys_secs P w') (fst (should_allow_request (sys_secs P w) cb)),
              Inl (OperationFailed e)))"
  using assms by (simp add: execute_with_retry_cases numeral_3_eq_3 MAX_BACKOFF_MS_def Let_def)

subsection \<open>The polling loop and an open breaker\<close>

lemma polling_round_open:
  "get_state (circuit_breaker svc) = Open \<Longrightarrow> polling_round P svc w = Ret (interval_tick P w, svc)"
  by (simp add: polling_round_def get_circuit_breaker_status_def)

lemma polling_rounds_open:
  "get_state (circuit_breaker svc) = Open \<Longrightarrow>
     polling_rounds P n svc w = Ret ((interval_tick P ^^ n) w, svc)"
  by (induction n arbitrary: w) (simp_all add: polling_round_open funpow_swap1)

text \<open>C18: once the breaker is open the polling loop never asks it again: after any number of
  rounds, however much time has passed, nothing has been sent to the node and the breaker is still
  open, because the round skips the poll before \<open>should_allow_request\<close>, the only way to half-open.\<close>

theorem polling_never_leaves_open_breaker:
  assumes "connected svc" and "get_state (circuit_breaker svc) = Open"
  shows "start_polling P n svc w = Inr (Ret ((interval_tick P ^^ n) w, svc))"
  using assms by (simp add: start_polling_def polling_rounds_open)

text \<open>A poll that does go through publishes the block number and then the snapshot.\<close>

lemma await_then_Reply:
  "await_then x f = Ret (w', Reply v) \<longleftrightarrow> (\<exists>w a. x = (w, Reply a) \<and> f a w = Ret (w', Reply v))"
  by (cases x; cases "snd x") auto

lemma poll_operation_Reply:
  assumes "poll_operation P svc w = Ret (w', Reply state)"
  shows "\<exists>w1 n w2 ts. get_block_number P w = (w1, Reply n) \<and>
     get_block_timestamp P n w1 = (w2, Reply (Some ts)) \<and> as_u64 ts = Ret (timestamp state) \<and>
     state = BlockchainState_new n (timestamp state) \<and>
     w' = send_event svc (StateSnapshot state) (send_event svc (BlockNumber n) w2)"
  using assms
  by (auto simp: poll_operation_def await_then_Reply run_bind_Ret_iff Let_def BlockchainState_new_def
      split: option.splits)

subsection \<open>Submission\<close>

text \<open>\<open>stays Q m\<close>: whatever the computation \<open>m\<close> returns, its world satisfies \<open>Q\<close>.\<close>

definition stays :: "('w \<Rightarrow> bool) \<Rightarrow> ('w \<times> 'a) run \<Rightarrow> bool" where
  "stays Q m \<longleftrightarrow> (\<forall>w r. m = Ret (w, r) \<longrightarrow> Q w)"

lemma staysD: "stays Q m \<Longrightarrow> m = Ret (w, r) \<Longrightarrow> Q w"
  by (simp add: stays_def)

lemma stays_Ret: "Q (fst x) \<Longrightarrow> stays Q (Ret x)"
  by (auto simp: stays_def)

lemma stays_bind: "(\<And>x. m = Ret x \<Longrightarrow> stays Q (f x)) \<Longrightarrow> stays Q (run_bind m f)"
  by (auto simp: stays_def run_bind_Ret_iff)

lemma stays_await:
  "Q (fst x) \<Longrightarrow> (\<And>w a. x = (w, Reply a) \<Longrightarrow> Q w \<Longrightarrow> stays Q (f a w)) \<Longrightarrow> stays Q (await_then x f)"
  by (cases x; cases "snd x") (auto simp: stays_def)

text \<open>An invariant that the operation, arming and sleeping keep is kept by the retry loop.\<close>

lemma stays_retry_loop:
  assumes op: "\<And>w. Q w \<Longrightarrow> stays Q (operation w)"
    and arm: "\<And>d w. Q w \<Longrightarrow> Q (arm_timeout P d w)"
    and sleep: "\<And>d w. Q w \<Longrightarrow> Q (sleep_for P d w)"
  shows "Q w \<Longrightarrow> stays Q (retry_loop P timeout operation k backoff prior cb w)"
proof (induction k arbitrary: backoff prior w)
  case 0
  then show ?case by (simp add: stays_Ret)
next
  case (Suc k)
  have "Q w1" if "operation (arm_timeout P (secs (unat timeout)) w) = Ret (w1, r)" for w1 r
    using op [OF arm [OF Suc.prems]] that by (rule staysD)
  then show ?case
    by (auto intro!: stays_bind stays_Ret Suc.IH sleep split: reply.split)
qed

lemma stays_execute_with_retry:
  assumes "\<And>w. Q w \<Longrightarrow> stays Q (operation w)"
    and "\<And>d w. Q w \<Longrightarrow> Q (arm_timeout P d w)"
    and "\<And>d w. Q w \<Longrightarrow> Q (sleep_for P d w)"
    and "Q w"
  shows "stays Q (execute_with_retry P timeout operation cb w)"
  unfolding execute_with_retry_cases
  using assms by (simp add: stays_retry_loop stays_Ret)

text \<open>
  \<open>keeps_nonce P n Q\<close>: the calls other than sending keep \<open>Q\<close>, and so does sending a transaction
  that was signed for a request with nonce \<open>n\<close>.
\<close>

definition keeps_nonce :: "('w, 'p, 'raw) provider \<Rightarrow> u256 \<Rightarrow> ('w \<Rightarrow> bool) \<Rightarrow> bool" where
  "keeps_nonce P n Q \<longleftrightarrow>
     (\<forall>w. Q w \<longrightarrow>
        (\<forall>d. Q (arm_timeout P d w) \<and> Q (sleep_for P d w)) \<and>
        Q (fst (get_chainid P w)) \<and> Q (fst (get_gas_price P w)) \<and>
        (\<forall>tx. Q (fst (estimate_gas P tx w))) \<and>
        (\<forall>c tx raw. tr_nonce tx = Some n \<longrightarrow> sign_transaction P c tx = Inr raw \<longrightarrow>
           Q (fst (send_raw_transaction P raw w))))"

lemma fill_nonce_given: "tr_nonce tx = Some n \<Longrightarrow> fill_nonce P tx w = (w, Reply tx)"
  by (simp add: fill_nonce_def)

lemma fill_gas_world:
  "fill_gas P tx w = Ret (w', r) \<Longrightarrow> w' = w \<or> w' = fst (estimate_gas P tx w)"
  by (auto simp: fill_gas_def run_bind_Ret_iff split: option.splits prod.splits reply.splits)

lemma fill_gas_nonce: "fill_gas P tx w = Ret (w', Reply tx') \<Longrightarrow> tr_nonce tx' = tr_nonce tx"
  by (auto simp: fill_gas_def run_bind_Ret_iff split: option.splits prod.splits reply.splits)

lemma fill_gas_price_world:
  "fst (fill_gas_price P tx w) = w \<or> fst (fill_gas_price P tx w) = fst (get_gas_price P w)"
  by (auto simp: fill_gas_price_def split: option.splits prod.splits reply.splits)

lemma fill_gas_price_nonce: "fill_gas_price P tx w = (w', Reply tx') \<Longrightarrow> tr_nonce tx' = tr_nonce tx"
  by (auto simp: fill_gas_price_def split: option.splits prod.splits reply.splits)

lemma stays_submit_operation:
  assumes Q: "keeps_nonce P n Q" and n: "tr_nonce tx = Some n" and w: "Q w"
  shows "stays Q (submit_operation P tx w)"
proof -
  have gas: "Q w2" if "fill_gas P tx w1 = Ret (w2, r)" "Q w1" for w1 w2 r
    using fill_gas_world [OF that(1)] that(2) Q by (auto simp: keeps_nonce_def)
  have price: "Q (fst (fill_gas_price P tx' w1))" if "Q w1" for tx' w1
    using fill_gas_price_world [of P tx' w1] that Q by (auto simp: keeps_nonce_def)
  have chainid: "Q (fst (get_chainid P w))"
    using Q w by (simp add: keeps_nonce_def)
  have send: "Q (fst (send_raw_transaction P raw w3))"
    if "Q w3" "fill_gas P tx w1 = Ret (w2, Reply tx2)" "fill_gas_price P tx2 w2 = (w3, Reply tx3)"
      "sign_transaction P c tx3 = Inr raw" for w1 w2 w3 tx2 tx3 c raw
    using that Q n fill_gas_nonce [OF that(2)] fill_gas_price_nonce [OF that(3)]
    by (auto simp: keeps_nonce_def)
  show ?thesis
    unfolding submit_operation_def fill_nonce_given [OF n]
    by (auto intro!: stays_await stays_bind stays_Ret chainid
        intro: gas price send split: sum.split)
qed

text \<open>a request whose nonce the caller fixed is only ever sent under that nonce, however many
  attempts the submission takes: whatever is kept by every call except sending, and by sending a
  transaction signed for that nonce, holds after the submission.\<close>

theorem submit_transaction_pinned_nonce:
  assumes "keeps_nonce P n Q" and "tr_nonce tx = Some n" and "Q w"
    and "submit_transaction P svc tx w = Ret (w', svc', r)"
  shows "Q w'"
proof (cases "has_wallet svc")
  case True
  have "stays Q (execute_with_retry P (timeout_secs svc) (submit_operation P tx) (circuit_breaker svc) w)"
    using assms(1-3) by (intro stays_execute_with_retry stays_submit_operation) (auto simp: keeps_nonce_def)
  with assms(4) True show ?thesis
    by (auto simp: submit_transaction_def run_bind_Ret_iff stays_def)
next
  case False
  with assms(3,4) show ?thesis
    by (simp add: submit_transaction_def)
qed

subsection \<open>Waiting for a confirmation\<close>

lemma confirm_loop_returns:
  assumes d: "0 < d"
    and adv: "\<And>w. mono_now P w + d \<le> mono_now P (fst (get_transaction_receipt P h (interval_tick P w)))"
  shows "start \<le> mono_now P w \<Longrightarrow> start + secs (unat timeout) \<le> mono_now P w + (fuel - 1) * d \<Longrightarrow>
     0 < fuel \<Longrightarrow> \<exists>res. confirm_loop P svc h timeout start fuel w = Some res"
proof (induction fuel arbitrary: w)
  case 0
  then show ?case by simp
next
  case (Suc fuel)
  show ?case
  proof (cases "secs (unat timeout) \<le> elapsed (mono_now P w) start")
    case True
    then show ?thesis by simp
  next
    case False
    with Suc.prems have fuel: "0 < fuel"
      by (cases fuel) (auto simp: elapsed_def)
    obtain w1 r where step: "get_transaction_receipt P h (interval_tick P w) = (w1, r)"
      by fastforce
    have "fuel * d = (fuel - 1) * d + d"
      using fuel by (cases fuel) simp_all
    with adv [of w] step Suc.prems have "start \<le> mono_now P w1"
      "start + secs (unat timeout) \<le> mono_now P w1 + (fuel - 1) * d"
      by simp_all
    from Suc.IH [OF this fuel] False step show ?thesis
      by (auto split: sum.split option.split)
  qed
qed

text \<open>the confirmation loop returns: if a round (a tick and a receipt query) takes at least \<open>d\<close>
  nanoseconds, then \<open>timeout / d + 2\<close> rounds are enough, whatever the node answers.\<close>

theorem wait_for_confirmation_returns:
  assumes "0 < d"
    and "\<And>w. mono_now P w + d \<le> mono_now P (fst (get_transaction_receipt P h (interval_tick P w)))"
  shows "\<exists>res. wait_for_confirmation P svc h (Some timeout) (secs (unat timeout) div d + 2) w = Some res"
proof -
  have "secs (unat timeout) \<le> (secs (unat timeout) div d + 1) * d"
    using assms(1) by (metis add.commute div_mult_mod_eq distrib_right mod_le_divisor mult_1 nat_add_left_cancel_le)
  then have "mono_now P w + secs (unat timeout) \<le>
      mono_now P w + (secs (unat timeout) div d + 2 - 1) * d"
    by simp
  with assms show ?thesis
    unfolding wait_for_confirmation_def option.case
    by (rule confirm_loop_returns [OF _ _ order_refl]) simp
qed

lemma confirm_loop_Some:
  "confirm_loop P svc h timeout start fuel w = Some (w', r) \<Longrightarrow>
     (\<exists>w1. w' = send_event svc (TransactionFailed h (ConfirmationTimeout timeout)) w1 \<and>
        r = Inl (ConfirmTimedOut timeout)) \<or>
     (\<exists>rc w1. (w', r) = classify_receipt svc h rc w1)"
proof (induction fuel arbitrary: w)
  case 0
  then show ?case by simp
next
  case (Suc fuel)
  obtain w1 q where "get_transaction_receipt P h (interval_tick P w) = (w1, q)"
    by fastforce
  with Suc.prems Suc.IH [of w1] show ?case
    by (auto split: if_splits sum.splits option.splits dest: sym)
qed

text \<open>a confirmation that succeeds returns a receipt with status 1 after publishing its block and
  gas; one that times out or finds a reverted transaction publishes the failure. A receipt without
  block number or gas used ends the wait with an error and publishes nothing.\<close>

theorem wait_for_confirmation_reports:
  assumes "wait_for_confirmation P svc h t fuel w = Some (w', r)"
  shows "\<exists>w1. case r of
      Inr rc \<Rightarrow> rc_status rc = Some 1 \<and> (\<exists>n g. rc_block_number rc = Some n \<and> rc_gas_used rc = Some g \<and>
        w' = send_event svc (TransactionConfirmed h n g True) w1)
    | Inl e \<Rightarrow>
        (\<exists>s. e = ConfirmTimedOut s \<and> w' = send_event svc (TransactionFailed h (ConfirmationTimeout s)) w1) \<or>
        (\<exists>g. e = TransactionReverted h g \<and> w' = send_event svc (TransactionFailed h RevertedOnChain) w1) \<or>
        (e \<in> {ReceiptMissingBlockNumber, ReceiptMissingGasUsed} \<and> w' = w1)"
  using confirm_loop_Some [OF assms [unfolded wait_for_confirmation_def]]
proof (elim disjE exE)
  fix rc w1
  assume "(w', r) = classify_receipt svc h rc w1"
  then show ?thesis
    by (intro exI [of _ w1]) (auto simp: classify_receipt_def Let_def split: option.splits if_splits)
qed auto

subsection \<open>Concrete nodes\<close>

text \<open>
  A node for the witnesses: a clock in nanoseconds, the account's nonce, the raw transactions it has
  accepted (a raw transaction is the nonce it was signed for) and the events published.
  \<open>lossy_node\<close> accepts every transaction and loses the response.
\<close>

record demo_world =
  dw_clock :: nat
  dw_nonce :: u256
  dw_sent :: "u256 list"
  dw_events :: "StateUpdateEvent list"

definition demo_start :: demo_world where
  "demo_start = \<lparr>dw_clock = 0, dw_nonce = 0, dw_sent = [], dw_events = []\<rparr>"

definition lossy_node :: "(demo_world, unit, u256) provider" where
  "lossy_node = \<lparr>
     sys_secs = (\<lambda>w. word_of_nat (dw_clock w div 1000000000)),
     mono_now = dw_clock,
     sleep_for = (\<lambda>d w. w\<lparr>dw_clock := dw_clock w + d\<rparr>),
     arm_timeout = (\<lambda>d w. w),
     interval_tick = (\<lambda>w. w\<lparr>dw_clock := dw_clock w + secs 1\<rparr>),
     get_chainid = (\<lambda>w. (w, Reply 998)),
     get_block_number = (\<lambda>w. (w, Reply 7)),
     get_block_timestamp = (\<lambda>n w. (w, Reply (Some 1700000000))),
     get_transaction_count = (\<lambda>w. (w, Reply (dw_nonce w))),
     estimate_gas = (\<lambda>tx w. (w, Reply 21000)),
     get_gas_price = (\<lambda>w. (w, Reply 5)),
     sign_transaction = (\<lambda>c tx. case tr_nonce tx of None \<Rightarrow> Inl ''no nonce'' | Some n \<Rightarrow> Inr n),
     send_raw_transaction = (\<lambda>raw w.
       (w\<lparr>dw_nonce := raw + 1, dw_sent := dw_sent w @ [raw]\<rparr>, Failed ''connection reset'')),
     get_transaction_receipt = (\<lambda>h w. (w, Inr None))\<rparr>"

definition demo_service :: "demo_world HyperLiquidRpcService" where
  "demo_service = \<lparr>timeout_secs = 10, connected = True,
     state_tx = Some (\<lambda>ev w. w\<lparr>dw_events := dw_events w @ [ev]\<rparr>), has_wallet = True,
     circuit_breaker = cb_new\<rparr>"

definition demo_request :: "u256 option \<Rightarrow> unit TransactionRequest" where
  "demo_request nonce = \<lparr>tr_nonce = nonce, tr_gas = None, tr_gas_price = None, tr_payload = ()\<rparr>"

lemmas demo_defs =
  demo_start_def lossy_node_def demo_service_def demo_request_def

lemma execute_closed:
  "get_state cb = Closed \<Longrightarrow>
     execute_with_retry P timeout operation cb w = retry_loop P timeout operation 3 100 None cb w"
  by (simp add: execute_with_retry_cases should_allow_request_def)

lemma demo_submit_operation:
  "submit_operation lossy_node (demo_request nonce) w =
     (let n = (case nonce of None \<Rightarrow> dw_nonce w | Some n \<Rightarrow> n) in
      Ret (w\<lparr>dw_nonce := n + 1, dw_sent := dw_sent w @ [n]\<rparr>, Failed ''connection reset''))"
  by (cases nonce)
    (simp_all add: submit_operation_def lossy_node_def demo_request_def fill_nonce_def fill_gas_def
      fill_gas_price_def as_u64_def u256_mul_def Let_def)

lemma demo_closed: "get_state cb_new = Closed"
  by (simp add: cb_new_def get_state_def)

lemma demo_node [simp]:
  "arm_timeout lossy_node d w = w"
  "sys_secs lossy_node w = word_of_nat (dw_clock w div 1000000000)"
  "sleep_for lossy_node d w = w\<lparr>dw_clock := dw_clock w + d\<rparr>"
  "interval_tick lossy_node w = w\<lparr>dw_clock := dw_clock w + secs 1\<rparr>"
  "mono_now lossy_node w = dw_clock w"
  "get_transaction_receipt lossy_node h w = (w, Inr None)"
  by (simp_all add: lossy_node_def)

lemma demo_execute:
  "execute_with_retry lossy_node 10 (submit_operation lossy_node (demo_request nonce)) cb_new demo_start =
     Ret (\<lparr>dw_clock = 300000000,
           dw_nonce = (case nonce of None \<Rightarrow> 3 | Some n \<Rightarrow> n + 1),
           dw_sent = (case nonce of None \<Rightarrow> [0, 1, 2] | Some n \<Rightarrow> [n, n, n]), dw_events = []\<rparr>,
          record_failure 0 cb_new, Inl (OperationFailed ''connection reset''))"
  by (cases nonce)
    (simp_all add: execute_closed demo_closed demo_submit_operation numeral_3_eq_3 demo_start_def
      MAX_BACKOFF_MS_def millis_def)

lemma demo_submit:
  "submit_transaction lossy_node demo_service (demo_request nonce) demo_start =
     Ret (\<lparr>dw_clock = 300000000,
           dw_nonce = (case nonce of None \<Rightarrow> 3 | Some n \<Rightarrow> n + 1),
           dw_sent = (case nonce of None \<Rightarrow> [0, 1, 2] | Some n \<Rightarrow> [n, n, n]), dw_events = []\<rparr>,
          demo_service\<lparr>circuit_breaker := record_failure 0 cb_new\<rparr>,
          Inl (OperationFailed ''connection reset''))"
  using demo_execute [of nonce] by (simp add: submit_transaction_def demo_service_def)

subsection \<open>Submission to a node whose responses are lost\<close>

text \<open>
  \<open>accepts_silently P sent nonce_of base\<close>: \<open>sent\<close> lists the transactions of the account that the
  node has put on the chain. The node answers the queries, the transaction count is \<open>base\<close> and one
  more for each transaction on the chain, a signed transaction carries the nonce of its request, and
  every transaction handed over goes on the chain before the next query although its sender sees an
  error or the deadline.
\<close>

definition accepts_silently ::
  "('w, 'p, 'raw) provider \<Rightarrow> ('w \<Rightarrow> 'raw list) \<Rightarrow> ('raw \<Rightarrow> u256) \<Rightarrow> u256 \<Rightarrow> bool" where
  "accepts_silently P sent nonce_of base \<longleftrightarrow>
     (\<forall>w d. sent (arm_timeout P d w) = sent w \<and> sent (sleep_for P d w) = sent w) \<and>
     (\<forall>w. \<exists>w' c. get_chainid P w = (w', Reply c) \<and> unat c < 2 ^ 64 \<and> sent w' = sent w) \<and>
     (\<forall>w. \<exists>w'. get_transaction_count P w = (w', Reply (base + of_nat (length (sent w)))) \<and> sent w' = sent w) \<and>
     (\<forall>tx w. \<exists>w' q. estimate_gas P tx w = (w', q) \<and> q \<noteq> Deadline \<and>
        (\<forall>g. q = Reply g \<longrightarrow> unat g * 120 < 2 ^ 256) \<and> sent w' = sent w) \<and>
     (\<forall>w. \<exists>w' q. get_gas_price P w = (w', q) \<and> q \<noteq> Deadline \<and> sent w' = sent w) \<and>
     (\<forall>c tx n. tr_nonce tx = Some n \<longrightarrow> (\<exists>raw. sign_transaction P c tx = Inr raw \<and> nonce_of raw = n)) \<and>
     (\<forall>raw w. \<exists>w' q. send_raw_transaction P raw w = (w', q) \<and> (\<forall>h. q \<noteq> Reply h) \<and> sent w' = sent w @ [raw])"

lemma silent_fill_gas:
  assumes node: "accepts_silently P sent nonce_of base"
  obtains w' g where "fill_gas P tx w = Ret (w', Reply (tx\<lparr>tr_gas := g\<rparr>))" "sent w' = sent w"
proof (cases "tr_gas tx")
  case None
  from node obtain w' q where "estimate_gas P tx w = (w', q)" "q \<noteq> Deadline"
    "\<forall>g. q = Reply g \<longrightarrow> unat g * 120 < 2 ^ 256" "sent w' = sent w"
    unfolding accepts_silently_def by blast
  then show ?thesis
    using None that by (cases q) (auto simp: fill_gas_def u256_mul_def)
next
  case (Some g)
  then show ?thesis
    using that [of w "Some g"] by (simp add: fill_gas_def)
qed

lemma silent_fill_gas_price:
  assumes node: "accepts_silently P sent nonce_of base"
  obtains w' p where "fill_gas_price P tx w = (w', Reply (tx\<lparr>tr_gas_price := p\<rparr>))" "sent w' = sent w"
proof (cases "tr_gas_price tx")
  case None
  from node obtain w' q where "get_gas_price P w = (w', q)" "q \<noteq> Deadline" "sent w' = sent w"
    unfolding accepts_silently_def by blast
  then show ?thesis
    using None that [of w' None] that by (cases q) (auto simp: fill_gas_price_def)
next
  case (Some p)
  then show ?thesis
    using that [of w "Some p"] by (simp add: fill_gas_price_def)
qed

lemma silent_fill_nonce:
  assumes "accepts_silently P sent nonce_of base" and "tr_nonce tx = None"
  obtains w' where "sent w' = sent w"
    "fill_nonce P tx w = (w', Reply (tx\<lparr>tr_nonce := Some (base + of_nat (length (sent w)))\<rparr>))"
proof -
  from assms(1) obtain w' where
    "get_transaction_count P w = (w', Reply (base + of_nat (length (sent w))))" "sent w' = sent w"
    unfolding accepts_silently_def by blast
  with assms(2) show ?thesis
    by (intro that [of w']) (simp_all add: fill_nonce_def)
qed

text \<open>One attempt puts one more transaction on the chain, under the account's next nonce, and fails.\<close>

lemma silent_attempt:
  assumes node: "accepts_silently P sent nonce_of base" and open_nonce: "tr_nonce tx = None"
  obtains w' e raw where "fails P timeout (submit_operation P tx) w w' e"
    "sent w' = sent w @ [raw]" "nonce_of raw = base + of_nat (length (sent w))"
proof -
  let ?w0 = "arm_timeout P (secs (unat timeout)) w"
  let ?n = "base + of_nat (length (sent w))"
  have w0: "sent ?w0 = sent w"
    using node by (simp add: accepts_silently_def)
  from node obtain w1 c where w1: "get_chainid P ?w0 = (w1, Reply c)" "unat c < 2 ^ 64" "sent w1 = sent w"
    unfolding accepts_silently_def using w0 by metis
  from silent_fill_nonce [OF node open_nonce, of w1] w1(3) obtain w2 where
    w2: "fill_nonce P tx w1 = (w2, Reply (tx\<lparr>tr_nonce := Some ?n\<rparr>))" "sent w2 = sent w" by metis
  from silent_fill_gas [OF node] w2(2) obtain w3 g where
    w3: "fill_gas P (tx\<lparr>tr_nonce := Some ?n\<rparr>) w2 = Ret (w3, Reply (tx\<lparr>tr_nonce := Some ?n, tr_gas := g\<rparr>))"
      "sent w3 = sent w" by metis
  from silent_fill_gas_price [OF node] w3(2) obtain w4 p where
    w4: "fill_gas_price P (tx\<lparr>tr_nonce := Some ?n, tr_gas := g\<rparr>) w3 =
        (w4, Reply (tx\<lparr>tr_nonce := Some ?n, tr_gas := g, tr_gas_price := p\<rparr>))" "sent w4 = sent w" by metis
  from node obtain raw where
    raw: "sign_transaction P (ucast c) (tx\<lparr>tr_nonce := Some ?n, tr_gas := g, tr_gas_price := p\<rparr>) = Inr raw"
      "nonce_of raw = ?n"
    unfolding accepts_silently_def by (metis (no_types, lifting) TransactionRequest.select_convs(1)
        TransactionRequest.surjective TransactionRequest.update_convs(1,2,3))
  from node obtain w5 q where w5: "send_raw_transaction P raw w4 = (w5, q)" "\<forall>h. q \<noteq> Reply h"
      "sent w5 = sent w @ [raw]"
    unfolding accepts_silently_def using w4(2) by metis
  have "submit_operation P tx ?w0 = Ret (w5, q)"
    using w1 w2 w3 w4 w5(1) raw(1) by (simp add: submit_operation_def as_u64_def)
  then obtain e where "fails P timeout (submit_operation P tx) w w5 e"
    using w5(2) by (cases q) (auto simp: fails_def)
  from this w5(3) raw(2) show ?thesis by (rule that)
qed

text \<open>Three failing attempts make the call.\<close>

lemma three_failures:
  assumes "fails P timeout operation w w1 e1" and "fails P timeout operation (sleep_for P (millis 100) w1) w2 e2"
    and "fails P timeout operation (sleep_for P (millis 200) w2) w3 e3"
    and "snd (should_allow_request (sys_secs P w) cb)"
  shows "execute_with_retry P timeout operation cb w =
    Ret (w3, record_failure (sys_secs P w3) (fst (should_allow_request (sys_secs P w) cb)), Inl e3)"
  using assms
  by (auto simp: execute_with_retry_cases fails_def numeral_3_eq_3 MAX_BACKOFF_MS_def)

text \<open>C19: a request without a nonce is submitted three times when the responses of the node are
  lost: if the node puts every transaction it is handed on the chain before the next query but the sender sees an error
  or the deadline, one call of \<open>submit_transaction\<close> that the breaker allows returns an error and
  leaves three new transactions on the chain, under the account's next three nonces, since every attempt
  asks for the nonce again.\<close>

theorem submit_transaction_duplicates:
  assumes "accepts_silently P sent nonce_of base" and "tr_nonce tx = None" and "has_wallet svc"
    and "snd (should_allow_request (sys_secs P w) (circuit_breaker svc))"
  shows "\<exists>w' svc' e raws. submit_transaction P svc tx w = Ret (w', svc', Inl e) \<and>
     sent w' = sent w @ raws \<and>
     map nonce_of raws = (let n = base + of_nat (length (sent w)) in [n, n + 1, n + 2])"
proof -
  note attempt = silent_attempt [OF assms(1,2)]
  have pause: "sent (sleep_for P d v) = sent v" for d v
    using assms(1) by (simp add: accepts_silently_def)
  obtain w1 e1 r1 where 1: "fails P (timeout_secs svc) (submit_operation P tx) w w1 e1"
    "sent w1 = sent w @ [r1]" "nonce_of r1 = base + of_nat (length (sent w))"
    by (rule attempt)
  obtain w2 e2 r2 where 2: "fails P (timeout_secs svc) (submit_operation P tx) (sleep_for P (millis 100) w1) w2 e2"
    "sent w2 = sent w1 @ [r2]" "nonce_of r2 = base + of_nat (length (sent w1))"
    by (rule attempt [of "timeout_secs svc" "sleep_for P (millis 100) w1"]) (auto simp: pause)
  obtain w3 e3 r3 where 3: "fails P (timeout_secs svc) (submit_operation P tx) (sleep_for P (millis 200) w2) w3 e3"
    "sent w3 = sent w2 @ [r3]" "nonce_of r3 = base + of_nat (length (sent w2))"
    by (rule attempt [of "timeout_secs svc" "sleep_for P (millis 200) w2"]) (auto simp: pause)
  from three_failures [OF 1(1) 2(1) 3(1) assms(4)] assms(3)
  have "\<exists>svc'. submit_transaction P svc tx w = Ret (w3, svc', Inl e3)"
    by (simp add: submit_transaction_def)
  with 1 2 3 show ?thesis
    by (intro exI [of _ w3]) (auto simp: Let_def intro!: exI [of _ "[r1, r2, r3]"])
qed

subsection \<open>Witnesses\<close>

theorem execute_with_retry_at_most_three_attempts_witness:
  "\<exists>w'. execute_with_retry lossy_node 10 (submit_operation lossy_node (demo_request None)) cb_new demo_start =
      Ret (w', record_failure 0 cb_new, Inl (OperationFailed ''connection reset'')) \<and>
    length (dw_sent w') \<le> length (dw_sent demo_start) + 3"
  using execute_with_retry_at_most_three_attempts
    [of "submit_operation lossy_node (demo_request None)" "\<lambda>w. length (dw_sent w)" lossy_node,
      OF _ _ _ demo_execute]
  by (simp add: demo_submit_operation Let_def demo_execute)

theorem execute_with_retry_outcome_witness:
  "\<exists>w1 e1 w2 e2 w'. let op = submit_operation lossy_node (demo_request None);
       err = fails lossy_node 10 op in
     err demo_start w1 e1 \<and> err (w1\<lparr>dw_clock := dw_clock w1 + millis 100\<rparr>) w2 e2 \<and>
     err (w2\<lparr>dw_clock := dw_clock w2 + millis 200\<rparr>) w' (OperationFailed ''connection reset'') \<and>
     dw_sent w' = [0, 1, 2] \<and> dw_clock w' = millis 300"
  using execute_with_retry_outcome [OF demo_execute [of None]]
  by (auto simp: Let_def should_allow_request_def demo_closed demo_start_def millis_def)
    (intro exI conjI, assumption, assumption, assumption, simp_all)

text \<open>The node for which every transaction on the chain counts towards the next nonce.\<close>

definition mining_node :: "(demo_world, unit, u256) provider" where
  "mining_node = lossy_node\<lparr>get_transaction_count := (\<lambda>w. (w, Reply (of_nat (length (dw_sent w)))))\<rparr>"

lemma mining_node_accepts_silently: "accepts_silently mining_node dw_sent (\<lambda>raw. raw) 0"
  unfolding accepts_silently_def mining_node_def lossy_node_def by (auto split: option.splits)

theorem submit_transaction_duplicates_witness:
  "\<exists>w' svc' e. submit_transaction mining_node demo_service (demo_request None) demo_start =
       Ret (w', svc', Inl e) \<and> dw_sent w' = [0, 1, 2]"
  using submit_transaction_duplicates [OF mining_node_accepts_silently, of "demo_request None" demo_service demo_start]
  by (auto simp: demo_request_def demo_service_def should_allow_request_def demo_closed demo_start_def)

theorem execute_with_retry_backoff_witness:
  "\<exists>w'. execute_with_retry lossy_node 10 (\<lambda>w. Ret (w, Failed ''down'')) cb_new demo_start =
      Ret (w', record_failure 0 cb_new, Inl (OperationFailed ''down'')) \<and> dw_clock w' = 300000000"
  using execute_with_retry_backoff
    [of "\<lambda>w. Ret (w, Failed ''down'')" "\<lambda>w. w" "''down''" lossy_node demo_start cb_new 10]
  by (intro exI [of _ "demo_start\<lparr>dw_clock := 300000000\<rparr>"])
    (simp add: should_allow_request_def demo_closed demo_start_def millis_def)

theorem polling_never_leaves_open_breaker_witness:
  "start_polling lossy_node 100 (demo_service\<lparr>circuit_breaker := set_state Open cb_new\<rparr>) demo_start =
     Inr (Ret ((interval_tick lossy_node ^^ 100) demo_start,
               demo_service\<lparr>circuit_breaker := set_state Open cb_new\<rparr>))"
  using polling_never_leaves_open_breaker
    [of "demo_service\<lparr>circuit_breaker := set_state Open cb_new\<rparr>" lossy_node 100 demo_start]
  by (simp add: demo_service_def)

theorem submit_transaction_pinned_nonce_witness:
  "\<exists>w' svc' r. submit_transaction lossy_node demo_service (demo_request (Some 42)) demo_start = Ret (w', svc', r) \<and>
     length (dw_sent w') = 3 \<and> list_all (\<lambda>n. n = 42) (dw_sent w')"
proof -
  have "keeps_nonce lossy_node 42 (\<lambda>w. list_all (\<lambda>n. n = 42) (dw_sent w))"
    by (auto simp: keeps_nonce_def lossy_node_def)
  from submit_transaction_pinned_nonce [OF this _ _ demo_submit [of "Some 42"]] demo_submit [of "Some 42"]
  show ?thesis by (simp add: demo_request_def demo_start_def)
qed

theorem wait_for_confirmation_returns_witness:
  "\<exists>res. wait_for_confirmation lossy_node demo_service 1 (Some 5) (secs 5 div secs 1 + 2) demo_start = Some res"
  using wait_for_confirmation_returns [of "secs 1" lossy_node 1 demo_service 5 demo_start] by simp

theorem wait_for_confirmation_reports_witness:
  "\<exists>w'. wait_for_confirmation lossy_node demo_service 1 (Some 1) 2 demo_start =
       Some (w', Inl (ConfirmTimedOut 1)) \<and>
     (\<exists>w1. w' = send_event demo_service (TransactionFailed 1 (ConfirmationTimeout 1)) w1)"
proof -
  have run: "wait_for_confirmation lossy_node demo_service 1 (Some 1) 2 demo_start =
      Some (send_event demo_service (TransactionFailed 1 (ConfirmationTimeout 1))
        (demo_start\<lparr>dw_clock := secs 1\<rparr>), Inl (ConfirmTimedOut 1))"
    by (simp add: wait_for_confirmation_def numeral_2_eq_2 demo_start_def elapsed_def)
  from wait_for_confirmation_reports [OF this] run show ?thesis by auto
qed

end
