(* ===== verification/Ws_State.thy ===== *)
theory Ws_State
  imports Interfaces
begin

text \<open>
  The state the WebSocket service of \<open>crates/mev-hyperliquid\<close> keeps: subscriptions per trading
  pair, the reconnection state with its backoff, and the message queue (all in
  \<open>src/websocket.rs\<close>), with the configuration types of \<open>src/types.rs\<close> they use.
\<close>

subsection \<open>Configuration types\<close>

record ReconnectConfig =
  min_backoff_secs :: u64
  max_backoff_secs :: u64
  max_consecutive_failures :: u32

definition calculate_backoff :: "ReconnectConfig \<Rightarrow> u32 \<Rightarrow> u64" where
  "calculate_backoff c attempt =
     (let backoff = min_backoff_secs c * 2 ^ (unat attempt - 1) in min backoff (max_backoff_secs c))"

record TradingPair =
  coin :: string
  subscribe_trades :: bool
  subscribe_orderbook :: bool

definition trades_only :: "string \<Rightarrow> TradingPair" where
  "trades_only c = \<lparr>coin = c, subscribe_trades = True, subscribe_orderbook = False\<rparr>"

definition with_orderbook :: "string \<Rightarrow> TradingPair" where
  "with_orderbook c = \<lparr>coin = c, subscribe_trades = True, subscribe_orderbook = True\<rparr>"

subsection \<open>Subscriptions\<close>

record SubscriptionState =
  pair :: TradingPair
  trades_attempts :: u32
  orderbook_attempts :: u32
  trades_confirmed :: bool
  orderbook_confirmed :: bool
  last_attempt :: "instant option"

definition SubscriptionState_new :: "TradingPair \<Rightarrow> SubscriptionState" where
  "SubscriptionState_new p =
     \<lparr>pair = p, trades_attempts = 0, orderbook_attempts = 0, trades_confirmed = False,
      orderbook_confirmed = False, last_attempt = None\<rparr>"

definition is_fully_subscribed :: "SubscriptionState \<Rightarrow> bool" where
  "is_fully_subscribed s =
     (let trades_ok = \<not> subscribe_trades (pair s) \<or> trades_confirmed s;
          orderbook_ok = \<not> subscribe_orderbook (pair s) \<or> orderbook_confirmed s
      in trades_ok \<and> orderbook_ok)"

definition attempts_of :: "SubscriptionState \<Rightarrow> string \<Rightarrow> u32 option" where
  "attempts_of s ty =
     (if ty = ''trades'' then Some (trades_attempts s)
      else if ty = ''l2Book'' then Some (orderbook_attempts s)
      else None)"

definition should_retry :: "instant \<Rightarrow> SubscriptionState \<Rightarrow> string \<Rightarrow> bool" where
  "should_retry now s ty =
     (case attempts_of s ty of
        None \<Rightarrow> False
      | Some attempts \<Rightarrow>
          if 3 \<le> attempts then False
          else (case last_attempt s of Some prev \<Rightarrow> secs 5 \<le> elapsed now prev | None \<Rightarrow> True))"

definition record_attempt :: "instant \<Rightarrow> string \<Rightarrow> SubscriptionState \<Rightarrow> SubscriptionState" where
  "record_attempt now ty s =
     (let s = (if ty = ''trades'' then s\<lparr>trades_attempts := trades_attempts s + 1\<rparr>
               else if ty = ''l2Book'' then s\<lparr>orderbook_attempts := orderbook_attempts s + 1\<rparr>
               else s)
      in s\<lparr>last_attempt := Some now\<rparr>)"

definition record_confirmation :: "string \<Rightarrow> SubscriptionState \<Rightarrow> SubscriptionState" where
  "record_confirmation ty s =
     (if ty = ''trades'' then s\<lparr>trades_confirmed := True\<rparr>
      else if ty = ''l2Book'' then s\<lparr>orderbook_confirmed := True\<rparr>
      else s)"

definition sub_reset :: "SubscriptionState \<Rightarrow> SubscriptionState" where
  "sub_reset s =
     s\<lparr>trades_attempts := 0, orderbook_attempts := 0, trades_confirmed := False,
       orderbook_confirmed := False, last_attempt := None\<rparr>"

subsection \<open>Reconnection\<close>

record ReconnectionState =
  rs_consecutive_failures :: u32
  rs_last_success :: instant
  rs_degraded :: bool
  rs_last_degraded_warning :: "instant option"

definition ReconnectionState_new :: "instant \<Rightarrow> ReconnectionState" where
  "ReconnectionState_new now =
     \<lparr>rs_consecutive_failures = 0, rs_last_success = now, rs_degraded = False,
      rs_last_degraded_warning = None\<rparr>"

text \<open>
  \<open>record_success\<close> reads the clock twice: for the new \<open>last_success\<close> (\<open>t1\<close>) and, right after,
  in \<open>last_success.elapsed()\<close> (\<open>t2\<close>).
\<close>

definition rs_record_success :: "instant \<Rightarrow> instant \<Rightarrow> ReconnectionState \<Rightarrow> ReconnectionState" where
  "rs_record_success t1 t2 s =
     (let s = s\<lparr>rs_last_success := t1\<rparr>;
          s = (if secs 300 \<le> elapsed t2 (rs_last_success s) then s\<lparr>rs_consecutive_failures := 0\<rparr> else s)
      in if rs_degraded s then s\<lparr>rs_degraded := False, rs_last_degraded_warning := None\<rparr> else s)"

definition rs_record_failure :: "instant \<Rightarrow> u32 \<Rightarrow> ReconnectionState \<Rightarrow> ReconnectionState" where
  "rs_record_failure now max_failures s =
     (let s = s\<lparr>rs_consecutive_failures := rs_consecutive_failures s + 1\<rparr>
      in if max_failures \<le> rs_consecutive_failures s \<and> \<not> rs_degraded s
         then s\<lparr>rs_degraded := True, rs_last_degraded_warning := Some now\<rparr>
         else s)"

definition should_log_degraded_warning ::
  "instant \<Rightarrow> instant \<Rightarrow> ReconnectionState \<Rightarrow> ReconnectionState \<times> bool"
where
  "should_log_degraded_warning t1 t2 s =
     (if \<not> rs_degraded s then (s, False)
      else (case rs_last_degraded_warning s of
              None \<Rightarrow> (s\<lparr>rs_last_degraded_warning := Some t1\<rparr>, True)
            | Some prev \<Rightarrow>
                if secs 1800 \<le> elapsed t1 prev
                then (s\<lparr>rs_last_degraded_warning := Some t2\<rparr>, True)
                else (s, False)))"

definition get_backoff :: "ReconnectionState \<Rightarrow> ReconnectConfig \<Rightarrow> duration" where
  "get_backoff s config =
     (if rs_degraded s then secs 300
      else let backoff_secs =
             (if rs_consecutive_failures s = 0 then min_backoff_secs config
              else let backoff = min_backoff_secs config * 2 ^ unat (rs_consecutive_failures s)
                   in min backoff (max_backoff_secs config))
           in secs (unat backoff_secs))"

subsection \<open>Message queue\<close>

record 'm MessageQueue =
  mq_queue :: "'m list"
  mq_max_size :: usize
  mq_dropped_count :: u64

definition MessageQueue_new :: "usize \<Rightarrow> 'm MessageQueue" where
  "MessageQueue_new n = \<lparr>mq_queue = [], mq_max_size = n, mq_dropped_count = 0\<rparr>"

definition mq_push :: "'m \<Rightarrow> 'm MessageQueue \<Rightarrow> 'm MessageQueue" where
  "mq_push message q =
     (let q = (if unat (mq_max_size q) \<le> length (mq_queue q)
               then q\<lparr>mq_queue := tl (mq_queue q), mq_dropped_count := mq_dropped_count q + 1\<rparr>
               else q)
      in q\<lparr>mq_queue := mq_queue q @ [message]\<rparr>)"

definition mq_pop :: "'m MessageQueue \<Rightarrow> 'm MessageQueue \<times> 'm option" where
  "mq_pop q =
     (case mq_queue q of
        [] \<Rightarrow> (q, None)
      | message # rest \<Rightarrow> (q\<lparr>mq_queue := rest\<rparr>, Some message))"

definition mq_len :: "'m MessageQueue \<Rightarrow> nat" where
  "mq_len q = length (mq_queue q)"

subsection \<open>The queue keeps the newest messages\<close>

definition mq_ok :: "'m MessageQueue \<Rightarrow> bool" where
  "mq_ok q \<longleftrightarrow> 0 < unat (mq_max_size q) \<and> length (mq_queue q) \<le> unat (mq_max_size q)"

lemma mq_ok_new: "0 < n \<Longrightarrow> mq_ok (MessageQueue_new n)"
  by (simp add: mq_ok_def MessageQueue_new_def unat_gt_0)

lemma mq_push_contents: "mq_ok q \<Longrightarrow> mq_queue (mq_push x q) = last_n (unat (mq_max_size q)) (mq_queue q @ [x])"
  by (auto simp: mq_ok_def mq_push_def Let_def last_n_def drop_Suc)

lemma mq_push_max_size: "mq_max_size (mq_push x q) = mq_max_size q"
  by (simp add: mq_push_def Let_def)

interpretation mq: bounded_fifo mq_push mq_pop mq_queue "\<lambda>q. unat (mq_dropped_count q)"
  "\<lambda>q. unat (mq_max_size q)" "2 ^ 64 - 1" mq_ok
proof unfold_locales
  fix q :: "'m MessageQueue" and x :: 'm
  assume ok: "mq_ok q"
  then show "0 < unat (mq_max_size q)" "length (mq_queue q) \<le> unat (mq_max_size q)"
    by (simp_all add: mq_ok_def)
  from ok show "mq_ok (fst (mq_pop q))"
    by (auto simp: mq_ok_def mq_pop_def split: list.split)
  show contents: "mq_queue (mq_push x q) = last_n (unat (mq_max_size q)) (mq_queue q @ [x])"
    using ok by (rule mq_push_contents)
  from ok show "mq_ok (mq_push x q)"
    by (simp add: mq_ok_def contents mq_push_max_size length_last_n)
  assume "unat (mq_dropped_count q) < 2 ^ 64 - 1"
  then have "unat (mq_dropped_count q + 1) = Suc (unat (mq_dropped_count q))"
    by (intro unat_plus_one_lt) simp
  with ok show "unat (mq_dropped_count (mq_push x q)) =
      (if length (mq_queue q) = unat (mq_max_size q) then Suc (unat (mq_dropped_count q))
       else unat (mq_dropped_count q))"
    by (auto simp: mq_push_def mq_ok_def Let_def)
qed (simp_all add: mq_push_max_size mq_pop_def)

text \<open>after any number of pushes a queue with room for at least one message holds the newest
  messages in the order they arrived, and the ones it lost are exactly those counted as dropped.\<close>

theorem message_queue_keeps_newest:
  assumes "0 < n" and "length xs < 2 ^ 64"
  shows "mq_queue (fold mq_push xs (MessageQueue_new n)) = last_n (unat n) xs \<and>
    unat (mq_dropped_count (fold mq_push xs (MessageQueue_new n))) = length xs - unat n"
proof -
  let ?q = "MessageQueue_new n :: 'a MessageQueue"
  have q: "mq_queue ?q = []" "mq_max_size ?q = n" "mq_dropped_count ?q = 0"
    by (simp_all add: MessageQueue_new_def)
  have contents: "mq_queue (fold mq_push xs ?q) = last_n (unat n) xs"
    using mq.contents_pushes [OF mq_ok_new [OF assms(1)], of xs] by (simp add: q)
  have "unat (mq_dropped_count (fold mq_push xs ?q)) + length (last_n (unat n) xs) = length xs"
    using mq.conservation [OF mq_ok_new [OF assms(1)], of xs] assms(2) by (simp add: q contents)
  with contents show ?thesis
    by (simp add: length_last_n)
qed

theorem message_queue_keeps_newest_witness:
  "mq_queue (fold mq_push ''abcde'' (MessageQueue_new 3)) = ''cde'' \<and>
   unat (mq_dropped_count (fold mq_push ''abcde'' (MessageQueue_new 3))) = 2"
  using message_queue_keeps_newest [of 3 "''abcde''"] by (simp add: last_n_def)

subsection \<open>The failure count never goes back\<close>

datatype reconnection_event = ConnectionOk instant instant | ConnectionFailed instant

fun reconnection_step :: "u32 \<Rightarrow> reconnection_event \<Rightarrow> ReconnectionState \<Rightarrow> ReconnectionState" where
  "reconnection_step max_failures (ConnectionOk t1 t2) s = rs_record_success t1 t2 s"
| "reconnection_step max_failures (ConnectionFailed t) s = rs_record_failure t max_failures s"

text \<open>The two clock readings of \<open>record_success\<close> are less than five minutes apart.\<close>

fun prompt :: "reconnection_event \<Rightarrow> bool" where
  "prompt (ConnectionOk t1 t2) = (elapsed t2 t1 < secs 300)"
| "prompt (ConnectionFailed t) = True"

definition failures_in :: "reconnection_event list \<Rightarrow> nat" where
  "failures_in es = length (filter (\<lambda>e. case e of ConnectionFailed _ \<Rightarrow> True | _ \<Rightarrow> False) es)"

lemma rs_failures_success:
  "elapsed t2 t1 < secs 300 \<Longrightarrow>
     rs_consecutive_failures (rs_record_success t1 t2 s) = rs_consecutive_failures s"
  by (simp add: rs_record_success_def Let_def)

lemma rs_degraded_success [simp]: "\<not> rs_degraded (rs_record_success t1 t2 s)"
  by (simp add: rs_record_success_def Let_def)

lemma rs_failures_failure:
  "rs_consecutive_failures (rs_record_failure t m s) = rs_consecutive_failures s + 1"
  by (simp add: rs_record_failure_def Let_def)

lemma rs_degraded_failure:
  "rs_degraded (rs_record_failure t m s) \<longleftrightarrow> rs_degraded s \<or> m \<le> rs_consecutive_failures s + 1"
  by (auto simp: rs_record_failure_def Let_def)

lemma rs_failures_run:
  "list_all prompt es \<Longrightarrow>
     rs_consecutive_failures (fold (reconnection_step m) es s) =
       rs_consecutive_failures s + word_of_nat (failures_in es)"
proof (induction es arbitrary: s)
  case Nil
  then show ?case by (simp add: failures_in_def)
next
  case (Cons e es)
  then show ?case
    by (cases e) (simp_all add: failures_in_def rs_failures_success rs_failures_failure)
qed

interpretation rs: trip_counter "\<lambda>t. rs_record_failure t m" "\<lambda>s. unat (rs_consecutive_failures s)"
  rs_degraded "unat m" "2 ^ 32 - 1" "\<lambda>s. True" for m :: u32
proof unfold_locales
  fix s :: ReconnectionState and t :: instant
  assume "unat (rs_consecutive_failures s) < 2 ^ 32 - 1"
  then have "unat (rs_consecutive_failures s + 1) = Suc (unat (rs_consecutive_failures s))"
    by (intro unat_plus_one_lt) simp
  then show "unat (rs_consecutive_failures (rs_record_failure t m s)) = Suc (unat (rs_consecutive_failures s))"
    "rs_degraded (rs_record_failure t m s) \<longleftrightarrow> rs_degraded s \<or> unat m \<le> Suc (unat (rs_consecutive_failures s))"
    by (simp_all add: rs_failures_failure rs_degraded_failure word_le_nat_alt)
qed simp

text \<open>the WebSocket service enters its degraded state at the \<open>max_consecutive_failures\<close>-th failure
  in a row and not before.\<close>

theorem degraded_at_max_failures:
  assumes "length ts < 2 ^ 32"
  shows "rs_degraded (fold (\<lambda>t. rs_record_failure t m) ts (ReconnectionState_new t0)) \<longleftrightarrow>
    ts \<noteq> [] \<and> unat m \<le> length ts"
  using rs.tripped_run [of "ReconnectionState_new t0" ts m] assms
  by (simp add: ReconnectionState_new_def)

theorem degraded_at_max_failures_witness:
  "rs_degraded (fold (\<lambda>t. rs_record_failure t 3) [10, 20, 30] (ReconnectionState_new 0))"
  using degraded_at_max_failures [of "[10, 20, 30]" 3 0] by simp

text \<open>the count called \<open>consecutive_failures\<close> is never reset by a success: over any history in
  which \<open>record_success\<close> takes less than five minutes between its two clock readings, it is the total
  number of failures since start (in 32 bits). Hence after a recovery with the total at or past
  the maximum, a single failure degrades the service again.\<close>

theorem failures_never_reset:
  assumes "list_all prompt es"
  shows "rs_consecutive_failures (fold (reconnection_step m) es (ReconnectionState_new t0)) =
      word_of_nat (failures_in es) \<and>
    (failures_in es < 2 ^ 32 - 1 \<longrightarrow> unat m \<le> Suc (failures_in es) \<longrightarrow>
      rs_degraded (fold (reconnection_step m) (es @ [ConnectionOk t1 t1, ConnectionFailed t2])
        (ReconnectionState_new t0)))"
proof -
  have count: "rs_consecutive_failures (fold (reconnection_step m) es (ReconnectionState_new t0)) =
      word_of_nat (failures_in es)"
    using rs_failures_run [OF assms, of m "ReconnectionState_new t0"]
    by (simp add: ReconnectionState_new_def)
  have "m \<le> word_of_nat (failures_in es) + 1"
    if "failures_in es < 2 ^ 32 - 1" "unat m \<le> Suc (failures_in es)"
  proof -
    from that(1) have "unat (word_of_nat (failures_in es) :: u32) = failures_in es"
      by (intro unat_word_of_nat) simp
    with that show ?thesis
      by (simp add: word_le_nat_alt unat_plus_one_lt)
  qed
  then show ?thesis
    by (simp add: count rs_degraded_failure rs_failures_success)
qed

theorem failures_never_reset_witness:
  "rs_degraded (fold (reconnection_step 3)
     ([ConnectionFailed 1, ConnectionOk 2 2, ConnectionFailed 3, ConnectionOk 4 4] @
      [ConnectionOk 5 5, ConnectionFailed 6]) (ReconnectionState_new 0))"
  using failures_never_reset
    [of "[ConnectionFailed 1, ConnectionOk 2 2, ConnectionFailed 3, ConnectionOk 4 4]" 3 0 5 6]
  by (simp add: failures_in_def)

subsection \<open>Backoff\<close>

lemma unat_shifted:
  "unat b * 2 ^ k < 2 ^ 64 \<Longrightarrow> unat (b * 2 ^ k) = unat b * 2 ^ k" for b :: u64
proof (cases "b = 0")
  case False
  assume le: "unat b * 2 ^ k < 2 ^ 64"
  from False have "1 \<le> unat b"
    by (simp add: Suc_le_eq unat_gt_0)
  then have "(2::nat) ^ k \<le> unat b * 2 ^ k"
    by simp
  with le have "(2::nat) ^ k < 2 ^ 64"
    by linarith
  then have "k < 64"
    by (rule power_less_imp_less_exp [rotated]) simp
  then have "unat (2 ^ k :: u64) = 2 ^ k"
    by (simp add: unat_two_power)
  with le show ?thesis
    by (simp add: unat_word_ariths)
qed simp

text \<open>as long as the doubled backoff fits in 64 bits, the wait before a reconnection is the
  minimum doubled once per failure counted, capped at the maximum, hence between the two; in the
  degraded state it is five minutes.\<close>

theorem backoff_doubles_up_to_cap:
  assumes "min_backoff_secs c \<le> max_backoff_secs c"
    and "unat (min_backoff_secs c) * 2 ^ unat (rs_consecutive_failures s) < 2 ^ 64"
  shows "get_backoff s c =
      (if rs_degraded s then secs 300
       else secs (min (unat (min_backoff_secs c) * 2 ^ unat (rs_consecutive_failures s))
                      (unat (max_backoff_secs c)))) \<and>
    (\<not> rs_degraded s \<longrightarrow> secs (unat (min_backoff_secs c)) \<le> get_backoff s c \<and>
                       get_backoff s c \<le> secs (unat (max_backoff_secs c)))"
  using assms
  by (auto simp: get_backoff_def Let_def min_def word_le_nat_alt unat_shifted)

theorem backoff_doubles_up_to_cap_witness:
  "get_backoff \<lparr>rs_consecutive_failures = 4, rs_last_success = 0, rs_degraded = False,
       rs_last_degraded_warning = None\<rparr>
     \<lparr>min_backoff_secs = 1, max_backoff_secs = 60, max_consecutive_failures = 10\<rparr> = secs 16"
  using backoff_doubles_up_to_cap
    [of "\<lparr>min_backoff_secs = 1, max_backoff_secs = 60, max_consecutive_failures = 10\<rparr>"
      "\<lparr>rs_consecutive_failures = 4, rs_last_success = 0, rs_degraded = False,
        rs_last_degraded_warning = None\<rparr>"]
  by simp

text \<open>with 64 or more failures counted and the service not degraded, the power of two wraps to
  zero in a release build and the wait before the next reconnection is no wait at all.\<close>

theorem backoff_wraps_to_zero:
  assumes "64 \<le> unat (rs_consecutive_failures s)" and "\<not> rs_degraded s"
  shows "get_backoff s c = 0"
proof -
  have "min (min_backoff_secs c * 2 ^ unat (rs_consecutive_failures s)) (max_backoff_secs c) = 0"
    using two_power_overflow [where 'a = 64, of "unat (rs_consecutive_failures s)"] assms(1)
    by (simp only: mult_zero_right min_def word_zero_le len_num1 len_bit0 if_True)
  moreover have "rs_consecutive_failures s \<noteq> 0"
    using assms(1) by auto
  ultimately show ?thesis
    using assms(2) by (simp add: get_backoff_def Let_def)
qed

theorem backoff_wraps_to_zero_witness:
  "get_backoff \<lparr>rs_consecutive_failures = 64, rs_last_success = 0, rs_degraded = False,
       rs_last_degraded_warning = None\<rparr>
     \<lparr>min_backoff_secs = 1, max_backoff_secs = 60, max_consecutive_failures = 10\<rparr> = 0"
  using backoff_wraps_to_zero
    [of "\<lparr>rs_consecutive_failures = 64, rs_last_success = 0, rs_degraded = False,
        rs_last_degraded_warning = None\<rparr>"]
  by simp

end
