(* ===== verification/Hl_Parser.thy ===== *)
theory Hl_Parser
  imports Hl_Types Interfaces
begin

text \<open>
  The message parser of \<open>crates/mev-hyperliquid/src/parser.rs\<close>. \<open>serde_json\<close> is the record of accessors
  of \<open>Interfaces\<close>. The texts of \<open>ValidationFailed\<close> that contain formatted numbers are the datatype
  \<open>validation_error\<close>.
\<close>

datatype validation_error =
    EmptyCoin
  | InvalidPrice f64
  | InvalidSize f64
  | ZeroTimestamp
  | EmptyTradeId
  | InvalidBidLevel OrderBookLevel
  | InvalidAskLevel OrderBookLevel
  | EmptySubscriptionType
  | EmptyErrorMessage

datatype ParseError =
    InvalidJson
  | MissingField string
  | InvalidValue string
  | UnknownMessageType string
  | ValidationFailed validation_error

subsection \<open>Fields\<close>

definition value_to_f64 :: "'v json_ops \<Rightarrow> 'v \<Rightarrow> f64 option" where
  "value_to_f64 J v =
     (case js_f64 J v of
        Some x \<Rightarrow> Some x
      | None \<Rightarrow> (case js_str J v of Some s \<Rightarrow> parse_f64 s | None \<Rightarrow> None))"

definition parse_f64_field :: "'v json_ops \<Rightarrow> 'v \<Rightarrow> string \<Rightarrow> ParseError + f64" where
  "parse_f64_field J data field =
     ok_or (MissingField field) (Option.bind (js_get J field data) (value_to_f64 J))"

definition str_field :: "'v json_ops \<Rightarrow> string \<Rightarrow> 'v \<Rightarrow> ParseError + string" where
  "str_field J field data = ok_or (MissingField field) (js_field_str J field data)"

definition u64_field :: "'v json_ops \<Rightarrow> string \<Rightarrow> 'v \<Rightarrow> ParseError + u64" where
  "u64_field J field data =
     ok_or (MissingField field) (Option.bind (js_get J field data) (js_u64 J))"

definition array_field :: "'v json_ops \<Rightarrow> string \<Rightarrow> 'v \<Rightarrow> ParseError + 'v list" where
  "array_field J field data =
     ok_or (MissingField field) (Option.bind (js_get J field data) (js_array J))"

definition trade_id_of :: "'v json_ops \<Rightarrow> 'v \<Rightarrow> string" where
  "trade_id_of J v =
     (case js_str J v of
        Some s \<Rightarrow> s
      | None \<Rightarrow>
          (case js_u64 J v of
             Some n \<Rightarrow> u64_to_string n
           | None \<Rightarrow> (case js_i64 J v of Some n \<Rightarrow> i64_to_string n | None \<Rightarrow> ''unknown'')))"

subsection \<open>Data objects\<close>

definition parse_trade :: "'v json_ops \<Rightarrow> 'v \<Rightarrow> ParseError + TradeData" where
  "parse_trade J data =
     res_bind (str_field J ''coin'' data) (\<lambda>c.
     res_bind (str_field J ''side'' data) (\<lambda>side_str.
     res_bind (ok_or (InvalidValue (''Invalid trade side: '' @ side_str)) (from_hyperliquid side_str)) (\<lambda>side.
     res_bind (parse_f64_field J data ''px'') (\<lambda>price.
     res_bind (parse_f64_field J data ''sz'') (\<lambda>sz.
     res_bind (u64_field J ''time'' data) (\<lambda>ts.
     res_bind (ok_or (MissingField ''tid'') (map_option (trade_id_of J) (js_get J ''tid'' data))) (\<lambda>tid.
       Inr \<lparr>td_coin = c, td_side = side, td_price = price, td_size = sz, td_timestamp = ts,
            td_trade_id = tid\<rparr>)))))))"

text \<open>\<open>level.get("px").or_else(|| level.get(0))\<close>: a field of an object or an element of an array.\<close>

definition level_value :: "'v json_ops \<Rightarrow> string \<Rightarrow> nat \<Rightarrow> 'v \<Rightarrow> f64 option" where
  "level_value J field i level =
     Option.bind (case js_get J field level of Some v \<Rightarrow> Some v | None \<Rightarrow> js_index J i level) (value_to_f64 J)"

fun parse_orderbook_levels :: "'v json_ops \<Rightarrow> 'v list \<Rightarrow> ParseError + OrderBookLevel list" where
  "parse_orderbook_levels J [] = Inr []"
| "parse_orderbook_levels J (level # levels) =
     res_bind (ok_or (MissingField ''price in level'') (level_value J ''px'' 0 level)) (\<lambda>price.
     res_bind (ok_or (MissingField ''size in level'') (level_value J ''sz'' 1 level)) (\<lambda>sz.
     res_bind (parse_orderbook_levels J levels) (\<lambda>rest.
       Inr (\<lparr>lv_price = price, lv_size = sz\<rparr> # rest))))"

definition parse_orderbook :: "'v json_ops \<Rightarrow> 'v \<Rightarrow> ParseError + OrderBookData" where
  "parse_orderbook J data =
     res_bind (str_field J ''coin'' data) (\<lambda>c.
     res_bind (array_field J ''bids'' data) (\<lambda>bids_array.
     res_bind (array_field J ''asks'' data) (\<lambda>asks_array.
     res_bind (parse_orderbook_levels J bids_array) (\<lambda>bids.
     res_bind (parse_orderbook_levels J asks_array) (\<lambda>asks.
     res_bind (u64_field J ''time'' data) (\<lambda>ts.
       Inr \<lparr>ob_coin = c, ob_bids = bids, ob_asks = asks, ob_timestamp = ts\<rparr>))))))"

definition parse_subscription_response :: "'v json_ops \<Rightarrow> 'v \<Rightarrow> ParseError + SubscriptionResponse" where
  "parse_subscription_response J data =
     res_bind (str_field J ''type'' data) (\<lambda>ty.
     res_bind (str_field J ''coin'' data) (\<lambda>c.
       Inr \<lparr>sr_subscription_type = ty, sr_coin = c,
            sr_success = (case Option.bind (js_get J ''success'' data) (js_bool J) of
                            Some b \<Rightarrow> b | None \<Rightarrow> True),
            sr_error = js_field_str J ''error'' data\<rparr>))"

definition parse_error :: "'v json_ops \<Rightarrow> 'v \<Rightarrow> ParseError + ErrorData" where
  "parse_error J data =
     (let code = map_option ucast (Option.bind (js_get J ''code'' data) (js_i64 J))
      in res_bind (str_field J ''message'' data) (\<lambda>m. Inr \<lparr>er_code = code, er_message = m\<rparr>))"

subsection \<open>Validation\<close>

definition non_positive :: "f64 \<Rightarrow> bool" where
  "non_positive x \<longleftrightarrow> f64_le x (Finite False 0)"

definition bad_level :: "OrderBookLevel \<Rightarrow> bool" where
  "bad_level l \<longleftrightarrow> non_positive (lv_price l) \<or> non_positive (lv_size l)"

definition validate_message :: "HyperLiquidMessage \<Rightarrow> ParseError + unit" where
  "validate_message msg =
     (case msg_data msg of
        Trade t \<Rightarrow>
          (if td_coin t = [] then Inl (ValidationFailed EmptyCoin)
           else if non_positive (td_price t) then Inl (ValidationFailed (InvalidPrice (td_price t)))
           else if non_positive (td_size t) then Inl (ValidationFailed (InvalidSize (td_size t)))
           else if td_timestamp t = 0 then Inl (ValidationFailed ZeroTimestamp)
           else if td_trade_id t = [] then Inl (ValidationFailed EmptyTradeId)
           else Inr ())
      | OrderBook b \<Rightarrow>
          (if ob_coin b = [] then Inl (ValidationFailed EmptyCoin)
           else if ob_timestamp b = 0 then Inl (ValidationFailed ZeroTimestamp)
           else case find bad_level (ob_bids b) of
                  Some bid \<Rightarrow> Inl (ValidationFailed (InvalidBidLevel bid))
                | None \<Rightarrow>
                    (case find bad_level (ob_asks b) of
                       Some ask \<Rightarrow> Inl (ValidationFailed (InvalidAskLevel ask))
                     | None \<Rightarrow> Inr ()))
      | SubscriptionResponseData r \<Rightarrow>
          (if sr_subscription_type r = [] then Inl (ValidationFailed EmptySubscriptionType)
           else if sr_coin r = [] then Inl (ValidationFailed EmptyCoin)
           else Inr ())
      | Error e \<Rightarrow>
          (if er_message e = [] then Inl (ValidationFailed EmptyErrorMessage) else Inr ()))"

subsection \<open>Messages\<close>

definition parse_trades_channel :: "'v json_ops \<Rightarrow> 'v \<Rightarrow> ParseError + MessageData" where
  "parse_trades_channel J data =
     (case js_array J data of
        Some (first # _) \<Rightarrow> res_bind (parse_trade J first) (\<lambda>t. Inr (Trade t))
      | Some [] \<Rightarrow> Inl (MissingField ''empty trades array'')
      | None \<Rightarrow> res_bind (parse_trade J data) (\<lambda>t. Inr (Trade t)))"

definition parse_subscription_channel :: "'v json_ops \<Rightarrow> 'v \<Rightarrow> ParseError + MessageData" where
  "parse_subscription_channel J data =
     (if js_field_str J ''method'' data = Some ''subscribe''
      then case js_get J ''subscription'' data of
             Some s \<Rightarrow>
               Inr (SubscriptionResponseData
                 \<lparr>sr_subscription_type = js_str_or J ''type'' s ''unknown'',
                  sr_coin = js_str_or J ''coin'' s ''unknown'', sr_success = True, sr_error = None\<rparr>)
           | None \<Rightarrow> Inl (MissingField ''subscription'')
      else res_bind (parse_subscription_response J data) (\<lambda>r. Inr (SubscriptionResponseData r)))"

text \<open>
  \<open>parse_message\<close>. The fallback of the error channel returns before the validation.
\<close>

definition parse_message :: "'v json_ops \<Rightarrow> string \<Rightarrow> ParseError + HyperLiquidMessage" where
  "parse_message J raw =
     res_bind (ok_or InvalidJson (js_from_str J raw)) (\<lambda>value.
     res_bind (str_field J ''channel'' value) (\<lambda>channel.
     res_bind (ok_or (MissingField ''data'') (js_get J ''data'' value)) (\<lambda>data_value.
       let finish = (\<lambda>data.
             let message = \<lparr>msg_channel = channel, msg_data = data\<rparr>
             in res_bind (validate_message message) (\<lambda>_. Inr message))
       in if channel = ''trades'' then res_bind (parse_trades_channel J data_value) finish
          else if channel = ''l2Book''
          then res_bind (parse_orderbook J data_value) (\<lambda>b. finish (OrderBook b))
          else if channel = ''subscriptionResponse''
          then res_bind (parse_subscription_channel J data_value) finish
          else if channel = ''error''
          then case js_str J data_value of
                 Some s \<Rightarrow> finish (Error \<lparr>er_code = None, er_message = s\<rparr>)
               | None \<Rightarrow>
                   res_bind (parse_error J data_value) (\<lambda>e.
                     Inr \<lparr>msg_channel = channel, msg_data = Error e\<rparr>)
          else Inl (UnknownMessageType channel))))"

text \<open>
  Properties of the message parser: what a parsed message satisfies, how messages written by the exchange
  are read, and what the validation lets through.
\<close>

subsection \<open>What a parsed message satisfies\<close>

lemma non_positive_iff:
  "non_positive x \<longleftrightarrow> x = Infinity True \<or> (\<exists>s q. x = Finite s q \<and> signed s q \<le> 0)"
  by (cases x) (auto simp: non_positive_def f64_le_def signed_def)

text \<open>The validation lets a number through when it is greater than zero or NaN.\<close>

lemma not_non_positive_iff: "\<not> non_positive x \<longleftrightarrow> x = NaN \<or> f64_lt (Finite False 0) x"
  by (cases x) (auto simp: non_positive_def f64_le_def signed_def)

fun valid_data :: "MessageData \<Rightarrow> bool" where
  "valid_data (Trade t) \<longleftrightarrow>
     td_coin t \<noteq> [] \<and> \<not> non_positive (td_price t) \<and> \<not> non_positive (td_size t) \<and>
     td_timestamp t \<noteq> 0 \<and> td_trade_id t \<noteq> []"
| "valid_data (OrderBook b) \<longleftrightarrow>
     ob_coin b \<noteq> [] \<and> ob_timestamp b \<noteq> 0 \<and> list_all (\<lambda>l. \<not> bad_level l) (ob_bids b @ ob_asks b)"
| "valid_data (SubscriptionResponseData r) \<longleftrightarrow> sr_subscription_type r \<noteq> [] \<and> sr_coin r \<noteq> []"
| "valid_data (Error e) \<longleftrightarrow> er_message e \<noteq> []"

lemma find_None_list_all: "find P xs = None \<longleftrightarrow> list_all (\<lambda>x. \<not> P x) xs"
  by (induction xs) auto

lemma validate_message_iff: "validate_message msg = Inr () \<longleftrightarrow> valid_data (msg_data msg)"
  by (auto simp: validate_message_def find_None_list_all split: MessageData.split option.split)
    (auto simp flip: find_None_list_all)

fun channel_of :: "MessageData \<Rightarrow> string" where
  "channel_of (Trade t) = ''trades''"
| "channel_of (OrderBook b) = ''l2Book''"
| "channel_of (SubscriptionResponseData r) = ''subscriptionResponse''"
| "channel_of (Error e) = ''error''"

lemma parse_trades_channel_Inr: "parse_trades_channel J v = Inr d \<Longrightarrow> \<exists>t. d = Trade t"
  by (auto simp: parse_trades_channel_def split: option.splits list.splits)

lemma parse_subscription_channel_Inr:
  "parse_subscription_channel J v = Inr d \<Longrightarrow> \<exists>r. d = SubscriptionResponseData r"
  by (auto simp: parse_subscription_channel_def split: option.splits if_splits)

lemma parse_message_cases:
  assumes "parse_message J raw = Inr m"
  shows "msg_channel m = channel_of (msg_data m) \<and>
    (valid_data (msg_data m) \<or> (\<exists>e. msg_data m = Error e))"
  using assms
  by (auto simp: parse_message_def Let_def validate_message_iff dest: parse_trades_channel_Inr
      parse_subscription_channel_Inr split: if_splits option.splits)

text \<open>a parsed message carries the data of its channel, and a trade or an order book among the parsed
  messages has a coin, a timestamp, an identifier, and no price or size that is zero or negative.\<close>

theorem parsed_message_valid:
  assumes "parse_message J raw = Inr m"
  shows "msg_channel m = channel_of (msg_data m) \<and>
    (valid_data (msg_data m) \<or> is_error m)"
  using parse_message_cases [OF assms] by (auto simp: is_error_def)

subsection \<open>A reader for the witnesses\<close>

text \<open>\<open>reader v\<close> reads every text as the value \<open>v\<close>.\<close>

definition reader :: "demo_json \<Rightarrow> demo_json json_ops" where
  "reader v = demo_json_ops\<lparr>js_from_str := \<lambda>s. Some v\<rparr>"

definition json_trade :: "string \<Rightarrow> string \<Rightarrow> demo_json" where
  "json_trade px sz =
     DObj [(''coin'', DStr ''BTC''), (''side'', DStr ''B''), (''px'', DStr px), (''sz'', DStr sz),
       (''time'', DInt 1696348800000), (''tid'', DInt 7)]"

definition json_message :: "string \<Rightarrow> demo_json \<Rightarrow> demo_json" where
  "json_message channel d = DObj [(''channel'', DStr channel), (''data'', d)]"

lemmas reader_defs = reader_def demo_json_ops_def json_message_def json_trade_def

lemma reader_trade:
  assumes "parse_f64 px = Some p" and "parse_f64 sz = Some s"
  shows "parse_trade (reader v) (json_trade px sz) =
    Inr \<lparr>td_coin = ''BTC'', td_side = Buy, td_price = p, td_size = s, td_timestamp = 1696348800000,
         td_trade_id = ''7''\<rparr>"
proof -
  have "char_of (55 :: nat) = CHR ''7''"
    by code_simp
  then have seven: "dec_digits 7 = ''7''"
    by (subst dec_digits.simps) (simp add: digit_char_def)
  show ?thesis
    using assms seven
    by (simp add: parse_trade_def str_field_def js_field_str_def u64_field_def parse_f64_field_def
        value_to_f64_def from_hyperliquid_def trade_id_of_def u64_to_string_def reader_defs)
qed

lemma reader_trades_message:
  assumes "parse_f64 px = Some p" and "parse_f64 sz = Some s"
    and "\<not> non_positive p" and "\<not> non_positive s"
  shows "parse_message (reader (json_message ''trades'' (DArr (json_trade px sz # vs)))) raw =
    Inr \<lparr>msg_channel = ''trades'', msg_data = Trade
      \<lparr>td_coin = ''BTC'', td_side = Buy, td_price = p, td_size = s, td_timestamp = 1696348800000,
       td_trade_id = ''7''\<rparr>\<rparr>"
proof -
  let ?J = "reader (json_message ''trades'' (DArr (json_trade px sz # vs)))"
  have "js_from_str ?J raw = Some (json_message ''trades'' (DArr (json_trade px sz # vs)))"
    "js_get ?J = js_get demo_json_ops" "js_str ?J = js_str demo_json_ops"
    "js_array ?J = js_array demo_json_ops"
    by (simp_all add: reader_def)
  then show ?thesis
    using assms reader_trade [OF assms(1,2), of "json_message ''trades'' (DArr (json_trade px sz # vs))"]
    by (simp add: parse_message_def str_field_def js_field_str_def parse_trades_channel_def Let_def
        validate_message_def json_message_def demo_json_ops_def)
qed

lemma parse_special:
  "parse_f64 ''NaN'' = Some NaN" "parse_f64 ''inf'' = Some (Infinity False)"
proof -
  have "char_of (110 :: nat) = CHR ''n''"
    by code_simp
  then show "parse_f64 ''NaN'' = Some NaN" "parse_f64 ''inf'' = Some (Infinity False)"
    by (simp_all add: parse_f64_def to_lowercase_def to_lower_char_def Let_def)
qed

lemma special_positive: "\<not> non_positive NaN" "\<not> non_positive (Infinity False)"
  by (simp_all add: non_positive_def f64_le_def)

text \<open>a price that is not a number and an infinite size pass the validation.\<close>

theorem parser_accepts_nan_and_infinity:
  "\<exists>t. parse_message (reader (json_message ''trades'' (DArr [json_trade ''NaN'' ''inf'']))) raw =
       Inr \<lparr>msg_channel = ''trades'', msg_data = Trade t\<rparr> \<and>
     td_price t = NaN \<and> td_size t = Infinity False"
  by (simp add: reader_trades_message parse_special special_positive)

theorem parsed_message_valid_witness:
  "\<exists>m. parse_message (reader (json_message ''trades'' (DArr [json_trade ''inf'' ''inf'']))) [] = Inr m \<and>
     is_trade m \<and> msg_channel m = channel_of (msg_data m) \<and> (valid_data (msg_data m) \<or> is_error m)"
  using parsed_message_valid [OF reader_trades_message [OF parse_special(2) parse_special(2)
      special_positive(2) special_positive(2), of "[]" "[]"]]
    reader_trades_message [OF parse_special(2) parse_special(2)
      special_positive(2) special_positive(2), of "[]" "[]"]
  by (simp add: is_trade_def)

subsection \<open>Several trades in one message\<close>

text \<open>of a message with several trades only the first is read: two messages on the trades channel
  whose arrays start with the same trade give the same result, whatever follows.\<close>

theorem later_trades_ignored:
  assumes "js_from_str J raw1 = Some v1" and "js_from_str J raw2 = Some v2"
    and "js_field_str J ''channel'' v1 = Some ''trades''" and "js_field_str J ''channel'' v2 = Some ''trades''"
    and "js_get J ''data'' v1 = Some d1" and "js_get J ''data'' v2 = Some d2"
    and "js_array J d1 = Some (t # ts1)" and "js_array J d2 = Some (t # ts2)"
  shows "parse_message J raw1 = parse_message J raw2"
  using assms by (simp add: parse_message_def str_field_def parse_trades_channel_def)

definition two_texts :: "demo_json \<Rightarrow> demo_json \<Rightarrow> demo_json json_ops" where
  "two_texts v1 v2 = demo_json_ops\<lparr>js_from_str := \<lambda>s. Some (if s = [] then v1 else v2)\<rparr>"

theorem later_trades_ignored_witness:
  "let J = two_texts (json_message ''trades'' (DArr [json_trade ''1'' ''2'']))
         (json_message ''trades'' (DArr [json_trade ''1'' ''2'', json_trade ''3'' ''4'']))
   in parse_message J [] = parse_message J ''b''"
  using later_trades_ignored [of
      "two_texts (json_message ''trades'' (DArr [json_trade ''1'' ''2'']))
         (json_message ''trades'' (DArr [json_trade ''1'' ''2'', json_trade ''3'' ''4'']))"
      "[]" "json_message ''trades'' (DArr [json_trade ''1'' ''2''])" "''b''"
      "json_message ''trades'' (DArr [json_trade ''1'' ''2'', json_trade ''3'' ''4''])"
      "DArr [json_trade ''1'' ''2'']" "DArr [json_trade ''1'' ''2'', json_trade ''3'' ''4'']"
      "json_trade ''1'' ''2''" "[]" "[json_trade ''3'' ''4'']"]
  by (simp add: two_texts_def json_message_def demo_json_ops_def js_field_str_def)

subsection \<open>Levels\<close>

text \<open>Levels given as objects and as pairs are read alike, and in order.\<close>

lemma parse_levels_map:
  assumes "\<And>l. l \<in> set ls \<Longrightarrow> level_value J ''px'' 0 (enc l) = Some (lv_price l) \<and>
      level_value J ''sz'' 1 (enc l) = Some (lv_size l)"
  shows "parse_orderbook_levels J (map enc ls) = Inr ls"
  using assms by (induction ls) auto

text \<open>One level that cannot be read rejects the whole book.\<close>

lemma parse_levels_length: "parse_orderbook_levels J vs = Inr ls \<Longrightarrow> length ls = length vs"
  by (induction vs arbitrary: ls) auto

end
