(* ===== verification/Ws_Service.thy ===== *)
theory Ws_Service
  imports Ws_State Hl_Parser Hash_Map
begin

text \<open>
  The WebSocket service of \<open>crates/mev-hyperliquid/src/websocket.rs\<close>: subscriptions, message
  handling and the connection loop, with the message types of \<open>src/types.rs\<close>. Prices and sizes
  are carried and never computed with here, so their type is a parameter \<open>'f\<close>.

  The socket, the outgoing channel, the clock, the timers and the shutdown flag that other tasks set
  are a world of type \<open>'w\<close>; the calls on them are the fields of \<open>ws_env\<close>. \<open>next_event\<close> is the
  branch of \<open>tokio::select!\<close> that becomes ready. The counters of \<open>metrics\<close> and the log are not
  part of the model.
\<close>

subsection \<open>The socket and the channel\<close>

datatype ws_frame =
    Text string | Binary "u8 list" | Ping "u8 list" | Pong "u8 list" | CloseFrame | RawFrame

datatype loop_event =
    Incoming ws_frame
  | StreamError string
  | StreamEnd
  | PingTick
  | RetryTick
  | ShutdownTick

datatype ws_error =
    ConnectError | StreamFailed string | PingFailed | ClosedByServer | SendFailed

record ('w, 'v) ws_env =
  channel_send :: "HyperLiquidMessage \<Rightarrow> 'w \<Rightarrow> 'w option"
  socket_connect :: "'w \<Rightarrow> 'w \<times> bool"
  socket_subscribe :: "string \<Rightarrow> string \<Rightarrow> 'w \<Rightarrow> 'w \<times> bool"
  socket_ping :: "'w \<Rightarrow> 'w \<times> bool"
  socket_close :: "'w \<Rightarrow> 'w"
  next_event :: "'w \<Rightarrow> 'w \<times> loop_event"
  read_clock :: "'w \<Rightarrow> 'w \<times> instant"
  wait :: "duration \<Rightarrow> 'w \<Rightarrow> 'w"
  shutdown_requested :: "'w \<Rightarrow> bool"
  ws_json :: "'v json_ops"

record HyperLiquidWsService =
  ws_subscriptions :: "TradingPair list"
  ws_reconnect_config :: ReconnectConfig
  ws_reconnection :: ReconnectionState
  ws_subscription_states :: "(string, SubscriptionState) hash_map"
  ws_total_reconnection_attempts :: u32
  ws_message_queue :: "HyperLiquidMessage MessageQueue"
  ws_messages_received :: u64
  ws_messages_processed :: u64
  ws_parse_errors :: u64

subsection \<open>Subscribing\<close>

type_synonym sub_states = "(string, SubscriptionState) hash_map"

definition send_subscription ::
  "('w, 'v) ws_env \<Rightarrow> string \<Rightarrow> string \<Rightarrow> sub_states \<times> 'w \<Rightarrow> (sub_states \<times> 'w) \<times> bool"
where
  "send_subscription E c ty = (\<lambda>(states, w).
     let (w, now) = read_clock E w;
         states = hm_modify c (record_attempt now ty) states;
         (w, sent) = socket_subscribe E ty c w
     in ((states, w), sent))"

text \<open>The first failed send skips the second subscription of the pair (\<open>?\<close> in the source).\<close>

definition subscribe_with_retry ::
  "('w, 'v) ws_env \<Rightarrow> TradingPair \<Rightarrow> sub_states \<times> 'w \<Rightarrow> (sub_states \<times> 'w) \<times> bool"
where
  "subscribe_with_retry E p sw =
     (let (sw, ok) = (if subscribe_trades p then send_subscription E (coin p) ''trades'' sw else (sw, True))
      in if \<not> ok then (sw, False)
         else if subscribe_orderbook p then send_subscription E (coin p) ''l2Book'' sw
         else (sw, True))"

fun subscribe_all :: "('w, 'v) ws_env \<Rightarrow> TradingPair list \<Rightarrow> sub_states \<times> 'w \<Rightarrow> sub_states \<times> 'w" where
  "subscribe_all E [] sw = sw"
| "subscribe_all E (p # ps) sw = subscribe_all E ps (fst (subscribe_with_retry E p sw))"

text \<open>One test of \<open>retry_failed_subscriptions\<close>: wanted, not confirmed, and due.\<close>

definition due ::
  "('w, 'v) ws_env \<Rightarrow> bool \<Rightarrow> string \<Rightarrow> SubscriptionState \<Rightarrow> string \<Rightarrow> 'w \<Rightarrow> 'w \<times> (string \<times> string) list"
where
  "due E open_sub c s ty w =
     (if open_sub
      then let (w, now) = read_clock E w in (w, if should_retry now s ty then [(c, ty)] else [])
      else (w, []))"

fun collect_retries ::
  "('w, 'v) ws_env \<Rightarrow> sub_states \<Rightarrow> 'w \<Rightarrow> 'w \<times> (string \<times> string) list"
where
  "collect_retries E [] w = (w, [])"
| "collect_retries E ((c, s) # rest) w =
     (let (w, r1) = due E (subscribe_trades (pair s) \<and> \<not> trades_confirmed s) c s ''trades'' w;
          (w, r2) = due E (subscribe_orderbook (pair s) \<and> \<not> orderbook_confirmed s) c s ''l2Book'' w;
          (w, r3) = collect_retries E rest w
      in (w, r1 @ r2 @ r3))"

fun send_all ::
  "('w, 'v) ws_env \<Rightarrow> (string \<times> string) list \<Rightarrow> sub_states \<times> 'w \<Rightarrow> sub_states \<times> 'w"
where
  "send_all E [] sw = sw"
| "send_all E ((c, ty) # rest) sw = send_all E rest (fst (send_subscription E c ty sw))"

definition retry_failed_subscriptions ::
  "('w, 'v) ws_env \<Rightarrow> sub_states \<times> 'w \<Rightarrow> sub_states \<times> 'w"
where
  "retry_failed_subscriptions E = (\<lambda>(states, w).
     let (w, to_retry) = collect_retries E states w in send_all E to_retry (states, w))"

definition handle_subscription_response ::
  "SubscriptionResponse \<Rightarrow> HyperLiquidWsService \<Rightarrow> HyperLiquidWsService"
where
  "handle_subscription_response r svc =
     (if sr_success r
      then svc\<lparr>ws_subscription_states :=
             hm_modify (sr_coin r) (record_confirmation (sr_subscription_type r))
               (ws_subscription_states svc)\<rparr>
      else svc)"

definition active_subscriptions :: "HyperLiquidWsService \<Rightarrow> nat" where
  "active_subscriptions svc =
     length (filter is_fully_subscribed (hm_values (ws_subscription_states svc)))"

subsection \<open>Messages\<close>

text \<open>
  \<open>process_message_queue\<close>: pop and send until the queue is empty or the channel is closed. The
  message whose send fails has been popped and is gone.
\<close>

function process_message_queue ::
  "('w, 'v) ws_env \<Rightarrow> HyperLiquidMessage MessageQueue \<Rightarrow> u64 \<Rightarrow> 'w \<Rightarrow>
   HyperLiquidMessage MessageQueue \<times> u64 \<times> 'w"
where
  "process_message_queue E q processed w =
     (case mq_pop q of
        (q', None) \<Rightarrow> (q', processed, w)
      | (q', Some message) \<Rightarrow>
          (case channel_send E message w of
             Some w' \<Rightarrow> process_message_queue E q' (processed + 1) w'
           | None \<Rightarrow> (q', processed, w)))"
  by pat_completeness auto
termination
  by (relation "measure (\<lambda>(E, q, processed, w). length (mq_queue q))")
    (auto simp: mq_pop_def split: list.splits)

declare process_message_queue.simps [simp del]

definition enqueue_and_process ::
  "('w, 'v) ws_env \<Rightarrow> HyperLiquidMessage \<Rightarrow> HyperLiquidWsService \<Rightarrow> 'w \<Rightarrow>
   HyperLiquidWsService \<times> 'w"
where
  "enqueue_and_process E message svc w =
     (let (q, processed, w) =
        process_message_queue E (mq_push message (ws_message_queue svc)) (ws_messages_processed svc) w
      in (svc\<lparr>ws_message_queue := q, ws_messages_processed := processed\<rparr>, w))"

definition handle_message ::
  "('w, 'v) ws_env \<Rightarrow> ws_frame \<Rightarrow> HyperLiquidWsService \<Rightarrow> 'w \<Rightarrow>
   HyperLiquidWsService \<times> 'w \<times> (ws_error + unit)"
where
  "handle_message E frame svc w =
     (case frame of
        Text text \<Rightarrow>
          (let svc = svc\<lparr>ws_messages_received := ws_messages_received svc + 1\<rparr> in
           case parse_message (ws_json E) text of
             Inr message \<Rightarrow>
               (case msg_data message of
                  SubscriptionResponseData r \<Rightarrow> (handle_subscription_response r svc, w, Inr ())
                | Error e \<Rightarrow> (svc, w, Inr ())
                | Trade t \<Rightarrow> (let (svc, w) = enqueue_and_process E message svc w in (svc, w, Inr ()))
                | OrderBook b \<Rightarrow> (let (svc, w) = enqueue_and_process E message svc w in (svc, w, Inr ())))
           | Inl e \<Rightarrow> (svc\<lparr>ws_parse_errors := ws_parse_errors svc + 1\<rparr>, w, Inr ()))
      | Binary d \<Rightarrow> (svc, w, Inr ())
      | Ping d \<Rightarrow> (svc, w, Inr ())
      | Pong d \<Rightarrow> (svc, w, Inr ())
      | CloseFrame \<Rightarrow> (svc, w, Inl ClosedByServer)
      | RawFrame \<Rightarrow> (svc, w, Inr ()))"

subsection \<open>The connection loop\<close>

text \<open>
  The \<open>select!\<close> loop of \<open>run_message_loop\<close>: one unit of fuel is one event; \<open>None\<close> is a loop that
  is still running. A message that cannot be handled is logged and the loop goes on.
\<close>

fun message_loop ::
  "('w, 'v) ws_env \<Rightarrow> nat \<Rightarrow> HyperLiquidWsService \<Rightarrow> 'w \<Rightarrow>
   HyperLiquidWsService \<times> 'w \<times> (ws_error + unit) option"
where
  "message_loop E 0 svc w = (svc, w, None)"
| "message_loop E (Suc fuel) svc w =
     (case next_event E w of (w, ev) \<Rightarrow>
        (case ev of
           Incoming frame \<Rightarrow>
             (let (svc, w, handled) = handle_message E frame svc w in message_loop E fuel svc w)
         | StreamError e \<Rightarrow> (svc, w, Some (Inl (StreamFailed e)))
         | StreamEnd \<Rightarrow> (svc, w, Some (Inr ()))
         | PingTick \<Rightarrow>
             (let (w, sent) = socket_ping E w
              in if sent then message_loop E fuel svc w else (svc, w, Some (Inl PingFailed)))
         | RetryTick \<Rightarrow>
             (let (states, w) = retry_failed_subscriptions E (ws_subscription_states svc, w)
              in message_loop E fuel (svc\<lparr>ws_subscription_states := states\<rparr>) w)
         | ShutdownTick \<Rightarrow>
             (if shutdown_requested E w then (svc, socket_close E w, Some (Inr ()))
              else message_loop E fuel svc w)))"

definition run_message_loop ::
  "('w, 'v) ws_env \<Rightarrow> nat \<Rightarrow> HyperLiquidWsService \<Rightarrow> 'w \<Rightarrow>
   HyperLiquidWsService \<times> 'w \<times> (ws_error + unit) option"
where
  "run_message_loop E fuel svc w =
     (let states = map (\<lambda>e. (fst e, sub_reset (snd e))) (ws_subscription_states svc);
          (states, w) = subscribe_all E (ws_subscriptions svc) (states, w)
      in message_loop E fuel (svc\<lparr>ws_subscription_states := states\<rparr>) w)"

definition connect_and_run ::
  "('w, 'v) ws_env \<Rightarrow> nat \<Rightarrow> HyperLiquidWsService \<Rightarrow> 'w \<Rightarrow>
   HyperLiquidWsService \<times> 'w \<times> (ws_error + unit) option"
where
  "connect_and_run E fuel svc w =
     (let (w, connected) = socket_connect E w
      in if connected then run_message_loop E fuel svc w else (svc, w, Some (Inl ConnectError)))"

text \<open>The backoff is slept in slices of at most a second, with a look at the flag before each.\<close>

function backoff_wait :: "('w, 'v) ws_env \<Rightarrow> duration \<Rightarrow> 'w \<Rightarrow> 'w" where
  "backoff_wait E remaining w =
     (if 0 < remaining \<and> \<not> shutdown_requested E w
      then let sleep_duration = min remaining (secs 1)
           in backoff_wait E (remaining - sleep_duration) (wait E sleep_duration w)
      else w)"
  by pat_completeness auto
termination
  by (relation "measure (\<lambda>(E, remaining, w). remaining)") (auto simp: secs_def)

declare backoff_wait.simps [simp del]

text \<open>What \<open>start\<close> and \<open>reconnect\<close> do with the result of a connection.\<close>

definition record_outcome ::
  "('w, 'v) ws_env \<Rightarrow> ws_error + unit \<Rightarrow> HyperLiquidWsService \<Rightarrow> 'w \<Rightarrow>
   HyperLiquidWsService \<times> 'w"
where
  "record_outcome E outcome svc w =
     (case outcome of
        Inr _ \<Rightarrow>
          (let (w, t1) = read_clock E w; (w, t2) = read_clock E w
           in (svc\<lparr>ws_reconnection := rs_record_success t1 t2 (ws_reconnection svc)\<rparr>, w))
      | Inl e \<Rightarrow>
          (let (w, t) = read_clock E w
           in (svc\<lparr>ws_reconnection :=
                 rs_record_failure t (max_consecutive_failures (ws_reconnect_config svc))
                   (ws_reconnection svc)\<rparr>, w)))"

text \<open>
  \<open>start\<close> with at most \<open>n\<close> rounds of the reconnection loop, each with \<open>fuel\<close> events; \<open>True\<close> when
  it has returned.
\<close>

fun ws_start ::
  "('w, 'v) ws_env \<Rightarrow> nat \<Rightarrow> nat \<Rightarrow> HyperLiquidWsService \<Rightarrow> 'w \<Rightarrow>
   HyperLiquidWsService \<times> 'w \<times> bool"
where
  "ws_start E fuel 0 svc w = (svc, w, shutdown_requested E w)"
| "ws_start E fuel (Suc n) svc w =
     (if shutdown_requested E w then (svc, w, True)
      else
        let (w, t1) = read_clock E w;
            (w, t2) = read_clock E w;
            (rs, logged) = should_log_degraded_warning t1 t2 (ws_reconnection svc);
            (svc, w, result) = connect_and_run E fuel (svc\<lparr>ws_reconnection := rs\<rparr>) w
        in case result of
             None \<Rightarrow> (svc, w, False)
           | Some outcome \<Rightarrow>
               (let (svc, w) = record_outcome E outcome svc w
                in if shutdown_requested E w then (svc, w, True)
                   else
                     let backoff = get_backoff (ws_reconnection svc) (ws_reconnect_config svc);
                         svc = svc\<lparr>ws_total_reconnection_attempts := ws_total_reconnection_attempts svc + 1\<rparr>
                     in ws_start E fuel n svc (backoff_wait E backoff w)))"

definition reconnect ::
  "('w, 'v) ws_env \<Rightarrow> nat \<Rightarrow> HyperLiquidWsService \<Rightarrow> 'w \<Rightarrow>
   HyperLiquidWsService \<times> 'w \<times> (ws_error + unit) option"
where
  "reconnect E fuel svc w =
     (let svc = svc\<lparr>ws_total_reconnection_attempts := ws_total_reconnection_attempts svc + 1\<rparr>;
          (svc, w, result) = connect_and_run E fuel svc w
      in case result of
           None \<Rightarrow> (svc, w, None)
         | Some outcome \<Rightarrow> (let (svc, w) = record_outcome E outcome svc w in (svc, w, Some outcome)))"

end
