(* ===== verification/Ws_Facts.thy ===== *)
theory Ws_Facts
  imports Ws_Service Hl_Parser
begin

text \<open>
  Properties of the WebSocket service: the number of subscription attempts on one connection, the
  delivery of messages to the outgoing channel and what they satisfy, the end of the loops and the length of a backoff.
\<close>

subsection \<open>Subscription attempts\<close>

lemma send_subscription_eq:
  "fst (send_subscription E c ty (states, w)) =
     (hm_modify c (record_attempt (snd (read_clock E w)) ty) states,
      fst (socket_subscribe E ty c (fst (read_clock E w))))"
  by (simp add: send_subscription_def split: prod.split)

lemma record_attempt_attempts:
  "trades_attempts (record_attempt now ty s) =
     (if ty = ''trades'' then trades_attempts s + 1 else trades_attempts s)"
  "orderbook_attempts (record_attempt now ty s) =
     (if ty = ''l2Book'' then orderbook_attempts s + 1 else orderbook_attempts s)"
  by (simp_all add: record_attempt_def Let_def)

lemma unat_plus_one_le: "unat (w + 1) \<le> Suc (unat w)" for w :: "'a::len word"
  by (cases "w = - 1") (simp_all add: unat_plus_one)

definition attempts_within :: "nat \<Rightarrow> nat \<Rightarrow> SubscriptionState \<Rightarrow> bool" where
  "attempts_within m n s \<longleftrightarrow> unat (trades_attempts s) \<le> m \<and> unat (orderbook_attempts s) \<le> n"

text \<open>
  Sending a list of subscriptions adds to an entry at most as many attempts as the list has for it,
  and keeps the well-formedness of the map.
\<close>

lemma hm_wf_send_all: "hm_wf states \<Longrightarrow> hm_wf (fst (send_all E l (states, w)))"
proof (induction l arbitrary: states w)
  case (Cons x l)
  obtain c ty where [simp]: "x = (c, ty)" by fastforce
  from Cons show ?case
    by (simp add: send_subscription_eq)
qed simp

lemma send_all_attempts:
  "hm_get states c = Some s \<Longrightarrow> attempts_within m n s \<Longrightarrow>
     \<exists>s'. hm_get (fst (send_all E l (states, w))) c = Some s' \<and>
       attempts_within (m + count_list l (c, ''trades'')) (n + count_list l (c, ''l2Book'')) s'"
proof (induction l arbitrary: states w s m n)
  case Nil
  then show ?case by simp
next
  case (Cons x l)
  obtain d ty where x: "x = (d, ty)" by fastforce
  let ?now = "snd (read_clock E w)"
  let ?s = "if d = c then record_attempt ?now ty s else s"
  let ?m = "if (d, ty) = (c, ''trades'') then Suc m else m"
  let ?n = "if (d, ty) = (c, ''l2Book'') then Suc n else n"
  have "hm_get (hm_modify d (record_attempt ?now ty) states) c = Some ?s"
    using Cons.prems by (cases "c = d") simp_all
  moreover have "attempts_within ?m ?n ?s"
    using Cons.prems(2) unat_plus_one_le [of "trades_attempts s"] unat_plus_one_le [of "orderbook_attempts s"]
    by (auto simp: attempts_within_def record_attempt_attempts)
  ultimately show ?case
    using Cons.IH [of "hm_modify d (record_attempt ?now ty) states" ?s ?m ?n]
    by (auto simp: x send_subscription_eq)
qed

lemma send_all_None: "hm_get states c = None \<Longrightarrow> hm_get (fst (send_all E l (states, w))) c = None"
proof (induction l arbitrary: states w)
  case (Cons x l)
  obtain d ty where [simp]: "x = (d, ty)" by fastforce
  from Cons show ?case
    by (cases "c = d") (simp_all add: send_subscription_eq)
qed simp

text \<open>The retry list names each subscription at most once, and only one that has attempts left.\<close>

definition quota :: "SubscriptionState \<Rightarrow> string \<Rightarrow> nat" where
  "quota s ty = (case attempts_of s ty of Some n \<Rightarrow> if n < 3 then 1 else 0 | None \<Rightarrow> 0)"

lemma due_count:
  "count_list (snd (due E b c s ty w)) (d, ty') \<le> (if c = d \<and> ty = ty' then quota s ty else 0)"
  by (auto simp: due_def should_retry_def quota_def split: prod.splits option.splits if_splits)

lemma collect_Cons:
  "\<exists>w2 w3. snd (collect_retries E ((c, s) # rest) w) =
     snd (due E (subscribe_trades (pair s) \<and> \<not> trades_confirmed s) c s ''trades'' w) @
     snd (due E (subscribe_orderbook (pair s) \<and> \<not> orderbook_confirmed s) c s ''l2Book'' w2) @
     snd (collect_retries E rest w3)"
  by (simp add: Let_def split: prod.split) (metis snd_conv)

lemma collect_retries_count:
  "count_list (snd (collect_retries E states w)) (d, ty) \<le>
     sum_list (map (\<lambda>e. if fst e = d then quota (snd e) ty else 0) states)"
proof (induction states arbitrary: w)
  case Nil
  then show ?case by simp
next
  case (Cons x states)
  obtain c s where x: "x = (c, s)" by fastforce
  obtain w2 w3 where eq: "snd (collect_retries E ((c, s) # states) w) =
     snd (due E (subscribe_trades (pair s) \<and> \<not> trades_confirmed s) c s ''trades'' w) @
     snd (due E (subscribe_orderbook (pair s) \<and> \<not> orderbook_confirmed s) c s ''l2Book'' w2) @
     snd (collect_retries E states w3)"
    using collect_Cons [of E c s states w] by blast
  show ?case
    unfolding x eq
    using Cons.IH [of w3]
      due_count [of E "subscribe_trades (pair s) \<and> \<not> trades_confirmed s" c s "''trades''" w d ty]
      due_count [of E "subscribe_orderbook (pair s) \<and> \<not> orderbook_confirmed s" c s "''l2Book''" w2 d ty]
    by (auto split: if_splits)
qed

lemma quota_sum: "hm_wf states \<Longrightarrow> hm_get states d = Some s \<Longrightarrow>
    sum_list (map (\<lambda>e. if fst e = d then quota (snd e) ty else 0) states) = quota s ty"
proof (induction states)
  case Nil
  then show ?case by (simp add: hm_get_def)
next
  case (Cons e states)
  have absent: "sum_list (map (\<lambda>e. if fst e = d then quota (snd e) ty else 0) states) = 0"
    if "d \<notin> set (map fst states)"
    using that by (induction states) auto
  show ?case
  proof (cases "fst e = d")
    case True
    then show ?thesis
      using Cons.prems absent by (auto simp: hm_wf_def hm_get_def)
  next
    case False
    then show ?thesis
      using Cons by (cases e) (auto simp: hm_wf_def hm_get_def)
  qed
qed

lemma quota_within:
  "attempts_within 3 3 s \<Longrightarrow>
     attempts_within (3 - quota s ''trades'') (3 - quota s ''l2Book'') s"
  by (auto simp: attempts_within_def quota_def attempts_of_def word_less_nat_alt)

definition few_attempts :: "sub_states \<Rightarrow> bool" where
  "few_attempts states \<longleftrightarrow> hm_wf states \<and> hm.all_entries (\<lambda>_. attempts_within 3 3) states"

lemma attempts_within_mono: "attempts_within m n s \<Longrightarrow> m \<le> m' \<Longrightarrow> n \<le> n' \<Longrightarrow> attempts_within m' n' s"
  by (auto simp: attempts_within_def)

lemma few_attempts_retry:
  assumes few: "few_attempts states"
  shows "few_attempts (fst (retry_failed_subscriptions E (states, w)))"
proof -
  obtain w1 l where l: "collect_retries E states w = (w1, l)" by fastforce
  have "attempts_within 3 3 s'" if s': "hm_get (fst (send_all E l (states, w1))) c = Some s'" for c s'
  proof -
    from s' obtain s where s: "hm_get states c = Some s"
      using send_all_None [of states c E l w1] by (cases "hm_get states c") auto
    with few have "attempts_within 3 3 s"
      by (auto simp: few_attempts_def hm.all_entries_def)
    from send_all_attempts [OF s quota_within [OF this], of E l w1] s'
    have "attempts_within (3 - quota s ''trades'' + count_list l (c, ''trades''))
        (3 - quota s ''l2Book'' + count_list l (c, ''l2Book'')) s'"
      by auto
    moreover have "3 - quota s ty + count_list l (c, ty) \<le> 3" for ty
      using collect_retries_count [of E states w c ty] quota_sum [OF _ s, of ty] few
      by (auto simp: l few_attempts_def quota_def split: option.splits if_splits)
    ultimately show ?thesis
      using attempts_within_mono by blast
  qed
  with few show ?thesis
    by (simp add: retry_failed_subscriptions_def l few_attempts_def hm.all_entries_def hm_wf_send_all)
qed

text \<open>The initial subscriptions of a pair are a list of at most one attempt per type.\<close>

lemma subscribe_with_retry_send_all:
  "\<exists>l. fst (subscribe_with_retry E p sw) = send_all E l sw \<and>
     (\<forall>c ty. count_list l (c, ty) \<le> (if c = coin p then 1 else 0))"
proof -
  let ?t = "(coin p, ''trades'')" and ?b = "(coin p, ''l2Book'')"
  have "fst (subscribe_with_retry E p sw) \<in> (\<lambda>l. send_all E l sw) ` {[], [?t], [?b], [?t, ?b]}"
    by (cases sw) (auto simp: subscribe_with_retry_def split: prod.splits)
  then show ?thesis
    by (auto intro: exI [of _ "[]"] exI [of _ "[?t]"] exI [of _ "[?b]"] exI [of _ "[?t, ?b]"])
qed

lemma subscribe_all_attempts:
  "hm_wf states \<Longrightarrow>
     hm_wf (fst (subscribe_all E ps (states, w))) \<and>
     (\<forall>c. hm_get states c = None \<longrightarrow> hm_get (fst (subscribe_all E ps (states, w))) c = None) \<and>
     (\<forall>c s m n. hm_get states c = Some s \<longrightarrow> attempts_within m n s \<longrightarrow>
        (\<exists>s'. hm_get (fst (subscribe_all E ps (states, w))) c = Some s' \<and>
           attempts_within (m + count_list (map coin ps) c) (n + count_list (map coin ps) c) s'))"
proof (induction ps arbitrary: states w)
  case Nil
  then show ?case by simp
next
  case (Cons p ps)
  obtain l where l: "fst (subscribe_with_retry E p (states, w)) = send_all E l (states, w)"
    and count: "\<And>c ty. count_list l (c, ty) \<le> (if c = coin p then 1 else 0)"
    using subscribe_with_retry_send_all [of E p "(states, w)"] by blast
  obtain states1 w1 where one: "send_all E l (states, w) = (states1, w1)" by fastforce
  have wf: "hm_wf states1"
    using hm_wf_send_all [OF Cons.prems, of E l w] one by simp
  have none: "hm_get states1 c = None" if "hm_get states c = None" for c
    using send_all_None [OF that, of E l w] one by simp
  have step: "\<exists>s1. hm_get states1 c = Some s1 \<and>
      attempts_within (m + (if c = coin p then 1 else 0)) (n + (if c = coin p then 1 else 0)) s1"
    if "hm_get states c = Some s" "attempts_within m n s" for c s m n
  proof -
    from send_all_attempts [OF that, of E l w] one obtain s1
      where s1: "hm_get states1 c = Some s1"
        and within: "attempts_within (m + count_list l (c, ''trades'')) (n + count_list l (c, ''l2Book'')) s1"
      by auto
    from within have "attempts_within (m + (if c = coin p then 1 else 0)) (n + (if c = coin p then 1 else 0)) s1"
      by (rule attempts_within_mono) (rule add_left_mono, rule count)+
    with s1 show ?thesis
      by blast
  qed
  have sub: "subscribe_all E (p # ps) (states, w) = subscribe_all E ps (states1, w1)"
    using l one by simp
  show ?case
    unfolding sub
    using Cons.IH [OF wf, of w1] none step by (fastforce simp: add.assoc)
qed

lemma few_attempts_reset_subscribe:
  assumes wf: "hm_wf states" and dist: "distinct (map coin ps)"
  shows "few_attempts (fst (subscribe_all E ps (map (\<lambda>e. (fst e, sub_reset (snd e))) states, w)))"
proof -
  let ?reset = "map (\<lambda>e. (fst e, sub_reset (snd e))) states"
  have wf': "hm_wf ?reset"
    using wf by (simp add: hm_wf_def comp_def)
  have zero: "attempts_within 0 0 s" if "hm_get ?reset c = Some s" for c s
  proof -
    from that wf' have "(c, s) \<in> set ?reset"
      by (simp add: hm_get_Some_iff)
    then show ?thesis
      by (auto simp: attempts_within_def sub_reset_def)
  qed
  have once: "count_list (map coin ps) c \<le> 1" for c
    using dist by (rule distinct_count_list)
  note sub = subscribe_all_attempts [OF wf', of E ps w]
  have "attempts_within 3 3 s'" if "hm_get (fst (subscribe_all E ps (?reset, w))) c = Some s'" for c s'
  proof -
    from that sub obtain s where "hm_get ?reset c = Some s"
      by (cases "hm_get ?reset c") auto
    with sub zero that have "attempts_within (count_list (map coin ps) c) (count_list (map coin ps) c) s'"
      by fastforce
    then show ?thesis
      using once [of c] by (auto elim!: attempts_within_mono)
  qed
  with sub show ?thesis
    by (simp add: few_attempts_def hm.all_entries_def)
qed

lemma few_attempts_confirm:
  "few_attempts (ws_subscription_states svc) \<Longrightarrow>
     few_attempts (ws_subscription_states (handle_subscription_response r svc))"
  unfolding few_attempts_def handle_subscription_response_def
  by (auto intro!: hm.all_entries_upd
      simp: attempts_within_def record_confirmation_def)

lemma enqueue_states [simp]:
  "ws_subscription_states (fst (enqueue_and_process E m svc w)) = ws_subscription_states svc"
  by (simp add: enqueue_and_process_def split: prod.split)

lemma few_attempts_handle_message:
  "few_attempts (ws_subscription_states svc) \<Longrightarrow>
     few_attempts (ws_subscription_states (fst (handle_message E frame svc w)))"
  by (auto simp: handle_message_def Let_def few_attempts_confirm
      split: ws_frame.split sum.split MessageData.split prod.split)
    (metis enqueue_states fst_conv select_convs surjective update_convs)+

lemma few_attempts_message_loop:
  "few_attempts (ws_subscription_states svc) \<Longrightarrow>
     few_attempts (ws_subscription_states (fst (message_loop E fuel svc w)))"
proof (induction fuel arbitrary: svc w)
  case (Suc fuel)
  obtain w1 ev where ev: "next_event E w = (w1, ev)" by fastforce
  show ?case
  proof (cases ev)
    case (Incoming frame)
    obtain svc1 w2 r where "handle_message E frame svc w1 = (svc1, w2, r)"
      by (cases "handle_message E frame svc w1")
    with Incoming Suc few_attempts_handle_message [of svc E frame w1] show ?thesis
      by (simp add: ev)
  next
    case RetryTick
    with Suc few_attempts_retry [of "ws_subscription_states svc" E w1] show ?thesis
      by (auto simp: ev split: prod.split)
  qed (use Suc in \<open>auto simp: ev split: prod.split\<close>)
qed simp

text \<open>
  A connection to run the loop on: the world is the list of events to come, the messages the channel
  has taken, the subscriptions sent and the time. The channel takes every message of the first
  \<open>room\<close>; a shutdown is requested once \<open>stop\<close> is reached. Every reading of the clock is five seconds after the one before.
\<close>

record demo_world =
  dw_events :: "loop_event list"
  dw_sent :: "HyperLiquidMessage list"
  dw_subscribed :: "(string \<times> string) list"
  dw_time :: nat

definition demo_env :: "nat \<Rightarrow> nat \<Rightarrow> (demo_world, demo_json) ws_env" where
  "demo_env room stop =
     \<lparr>channel_send = (\<lambda>m w. if length (dw_sent w) < room then Some (w\<lparr>dw_sent := dw_sent w @ [m]\<rparr>) else None),
      socket_connect = (\<lambda>w. (w, True)),
      socket_subscribe = (\<lambda>ty c w. (w\<lparr>dw_subscribed := dw_subscribed w @ [(ty, c)]\<rparr>, True)),
      socket_ping = (\<lambda>w. (w, True)),
      socket_close = (\<lambda>w. w),
      next_event = (\<lambda>w. case dw_events w of [] \<Rightarrow> (w, StreamEnd) | e # es \<Rightarrow> (w\<lparr>dw_events := es\<rparr>, e)),
      read_clock = (\<lambda>w. (w\<lparr>dw_time := dw_time w + secs 5\<rparr>, dw_time w)),
      wait = (\<lambda>d w. w\<lparr>dw_time := dw_time w + d\<rparr>),
      shutdown_requested = (\<lambda>w. stop \<le> dw_time w),
      ws_json = demo_json_ops\<rparr>"

definition demo_begin :: demo_world where
  "demo_begin = \<lparr>dw_events = [], dw_sent = [], dw_subscribed = [], dw_time = 0\<rparr>"

definition demo_pair :: TradingPair where
  "demo_pair = \<lparr>coin = ''BTC'', subscribe_trades = True, subscribe_orderbook = False\<rparr>"

definition demo_ws :: "HyperLiquidWsService" where
  "demo_ws =
     \<lparr>ws_subscriptions = [demo_pair], ws_reconnect_config =
        \<lparr>min_backoff_secs = 1, max_backoff_secs = 60, max_consecutive_failures = 3\<rparr>,
      ws_reconnection = ReconnectionState_new 0,
      ws_subscription_states = [(''BTC'', SubscriptionState_new demo_pair)],
      ws_total_reconnection_attempts = 0, ws_message_queue = MessageQueue_new 10,
      ws_messages_received = 0, ws_messages_processed = 0, ws_parse_errors = 0\<rparr>"

text \<open>on one connection, whatever the server sends and however long it lasts, no subscription is
  attempted more than three times, when the configured pairs name distinct coins.\<close>

theorem connection_limits_attempts:
  assumes "hm_wf (ws_subscription_states svc)" and "distinct (map coin (ws_subscriptions svc))"
    and "hm_get (ws_subscription_states (fst (run_message_loop E fuel svc w))) c = Some s"
  shows "trades_attempts s \<le> 3 \<and> orderbook_attempts s \<le> 3"
proof -
  let ?reset = "map (\<lambda>e. (fst e, sub_reset (snd e))) (ws_subscription_states svc)"
  have "few_attempts (fst (subscribe_all E (ws_subscriptions svc) (?reset, w)))"
    using assms(1,2) by (rule few_attempts_reset_subscribe)
  then have "few_attempts (ws_subscription_states (fst (run_message_loop E fuel svc w)))"
    by (auto simp: run_message_loop_def Let_def few_attempts_message_loop split: prod.split)
  with assms(3) show ?thesis
    by (auto simp: few_attempts_def hm.all_entries_def attempts_within_def word_le_nat_alt)
qed

theorem connection_limits_attempts_witness:
  "let w = demo_begin\<lparr>dw_events := [RetryTick, RetryTick, RetryTick]\<rparr>;
       states = ws_subscription_states (fst (run_message_loop (demo_env 5 (secs 1000)) 4 demo_ws w))
   in \<exists>s. hm_get states ''BTC'' = Some s \<and> trades_attempts s = 3 \<and> orderbook_attempts s \<le> 3"
proof -
  let ?w = "demo_begin\<lparr>dw_events := [RetryTick, RetryTick, RetryTick]\<rparr>"
  let ?s = "\<lparr>pair = demo_pair, trades_attempts = 3, orderbook_attempts = 0, trades_confirmed = False,
     orderbook_confirmed = False, last_attempt = Some (secs 20)\<rparr>"
  let ?states = "ws_subscription_states (fst (run_message_loop (demo_env 5 (secs 1000)) 4 demo_ws ?w))"
  have fuel: "message_loop E 4 = message_loop E (Suc (Suc (Suc (Suc 0))))" for E :: "(demo_world, demo_json) ws_env"
    by (simp add: numeral_eq_Suc)
  have le: "\<not> (3 :: u32) \<le> 1"
    by (simp add: word_le_nat_alt)
  have run: "hm_get ?states ''BTC'' = Some ?s"
    by (simp add: run_message_loop_def demo_ws_def demo_env_def demo_begin_def demo_pair_def
        SubscriptionState_new_def sub_reset_def subscribe_with_retry_def send_subscription_def
        hm_modify_def record_attempt_def hm_get_def fuel le secs_def elapsed_def
        retry_failed_subscriptions_def due_def should_retry_def attempts_of_def)
  have "hm_wf (ws_subscription_states demo_ws)" "distinct (map coin (ws_subscriptions demo_ws))"
    by code_simp+
  from connection_limits_attempts [OF this run] run show ?thesis
    by (auto simp: Let_def)
qed

subsection \<open>Delivery\<close>

text \<open>while the outgoing channel takes messages, handling one leaves the queue empty, and the
  messages reach the channel in the order they were queued, each exactly once and each counted.\<close>

theorem queue_delivers_in_order:
  assumes "\<And>m w. channel_send E m w = Some (push m w)"
  shows "process_message_queue E q n w =
    (q\<lparr>mq_queue := []\<rparr>, n + of_nat (length (mq_queue q)), fold push (mq_queue q) w)"
proof (induction "mq_queue q" arbitrary: q n w)
  case Nil
  then show ?case
    by (subst process_message_queue.simps) (simp add: mq_pop_def)
next
  case (Cons m ms)
  from Cons(1) [of "q\<lparr>mq_queue := ms\<rparr>" "n + 1" "push m w"] Cons(2) [symmetric] show ?case
    by (subst process_message_queue.simps) (simp add: mq_pop_def assms)
qed

definition demo_message :: "HyperLiquidMessage" where
  "demo_message = \<lparr>msg_channel = ''error'', msg_data = Error \<lparr>er_code = None, er_message = ''e''\<rparr>\<rparr>"

definition open_channel :: "(demo_world, demo_json) ws_env" where
  "open_channel = demo_env 0 0\<lparr>channel_send := \<lambda>m w. Some (w\<lparr>dw_sent := dw_sent w @ [m]\<rparr>)\<rparr>"

theorem queue_delivers_in_order_witness:
  "let (q, n, w) = process_message_queue open_channel
       (mq_push demo_message (mq_push demo_message (MessageQueue_new 4))) 7 demo_begin
   in mq_queue q = [] \<and> n = 9 \<and> dw_sent w = [demo_message, demo_message]"
  using queue_delivers_in_order [of open_channel "\<lambda>m w. w\<lparr>dw_sent := dw_sent w @ [m]\<rparr>"
      "mq_push demo_message (mq_push demo_message (MessageQueue_new 4))" 7 demo_begin]
  by (simp add: mq_push_def MessageQueue_new_def open_channel_def demo_begin_def)

text \<open>When the channel is closed, the message taken from the queue is gone: it is neither sent, nor
  put back, nor counted as dropped.\<close>

lemma closed_channel_loses_message:
  assumes "\<And>m w. channel_send E m w = None" and "mq_queue q = m # ms"
  shows "process_message_queue E q n w = (q\<lparr>mq_queue := ms\<rparr>, n, w)"
  by (subst process_message_queue.simps) (simp add: mq_pop_def assms)

subsection \<open>What reaches the channel\<close>

definition market_message :: "HyperLiquidMessage \<Rightarrow> bool" where
  "market_message m \<longleftrightarrow> (is_trade m \<or> is_orderbook m) \<and> valid_data (msg_data m) \<and>
     msg_channel m = channel_of (msg_data m)"

text \<open>
  \<open>only_sends E A Q\<close>: every call of the loop other than sending keeps \<open>Q\<close>, and so does sending a
  message with \<open>A\<close>.
\<close>

definition only_sends :: "('w, 'v) ws_env \<Rightarrow> (HyperLiquidMessage \<Rightarrow> bool) \<Rightarrow> ('w \<Rightarrow> bool) \<Rightarrow> bool" where
  "only_sends E A Q \<longleftrightarrow>
     (\<forall>w. Q w \<longrightarrow>
        Q (fst (next_event E w)) \<and> Q (fst (read_clock E w)) \<and> Q (fst (socket_ping E w)) \<and>
        Q (socket_close E w) \<and> (\<forall>ty c. Q (fst (socket_subscribe E ty c w))) \<and>
        (\<forall>m w'. A m \<longrightarrow> channel_send E m w = Some w' \<longrightarrow> Q w'))"

lemma only_sends_send_subscription:
  "only_sends E A Q \<Longrightarrow> Q w \<Longrightarrow> Q (snd (fst (send_subscription E c ty (states, w))))"
  by (simp add: send_subscription_eq only_sends_def)

lemma only_sends_send_all: "only_sends E A Q \<Longrightarrow> Q w \<Longrightarrow> Q (snd (send_all E l (states, w)))"
proof (induction l arbitrary: states w)
  case (Cons x l)
  obtain c ty where x: "x = (c, ty)" by fastforce
  obtain states1 w1 where "fst (send_subscription E c ty (states, w)) = (states1, w1)" by fastforce
  with Cons only_sends_send_subscription [OF Cons.prems, of c ty states] show ?case
    by (simp add: x)
qed simp

lemma only_sends_collect: "only_sends E A Q \<Longrightarrow> Q w \<Longrightarrow> Q (fst (collect_retries E states w))"
proof (induction states arbitrary: w)
  case (Cons x states)
  obtain c s where x: "x = (c, s)" by fastforce
  have due: "Q (fst (due E b c s ty w))" if "Q w" for b ty w
    using that Cons.prems(1) by (auto simp: due_def only_sends_def split: prod.split)
  let ?b1 = "subscribe_trades (pair s) \<and> \<not> trades_confirmed s"
  let ?b2 = "subscribe_orderbook (pair s) \<and> \<not> orderbook_confirmed s"
  obtain w1 r1 where one: "due E ?b1 c s ''trades'' w = (w1, r1)" by fastforce
  obtain w2 r2 where two: "due E ?b2 c s ''l2Book'' w1 = (w2, r2)" by fastforce
  have "Q w1"
    using due [OF Cons.prems(2), of ?b1 "''trades''"] one by simp
  then have "Q w2"
    using due [of w1 ?b2 "''l2Book''"] two by simp
  then have "Q (fst (collect_retries E states w2))"
    using Cons by blast
  then show ?case
    by (cases "collect_retries E states w2") (simp add: x one two)
qed simp

lemma only_sends_retry:
  assumes E: "only_sends E A Q" and w: "Q w"
  shows "Q (snd (retry_failed_subscriptions E (states, w)))"
proof -
  obtain w1 l where l: "collect_retries E states w = (w1, l)" by fastforce
  with only_sends_collect [OF E w, of states] have "Q w1"
    by simp
  with only_sends_send_all [OF E, of w1 l states] show ?thesis
    by (simp add: retry_failed_subscriptions_def l)
qed

lemma only_sends_subscribe_all: "only_sends E A Q \<Longrightarrow> Q w \<Longrightarrow> Q (snd (subscribe_all E ps (states, w)))"
proof (induction ps arbitrary: states w)
  case (Cons p ps)
  obtain l where l: "fst (subscribe_with_retry E p (states, w)) = send_all E l (states, w)"
    using subscribe_with_retry_send_all [of E p "(states, w)"] by blast
  obtain states1 w1 where one: "send_all E l (states, w) = (states1, w1)" by fastforce
  with only_sends_send_all [OF Cons.prems, of l states] have "Q w1"
    by simp
  with Cons one show ?case
    by (simp add: l)
qed simp

lemma process_queue_Nil: "mq_queue q = [] \<Longrightarrow> process_message_queue E q n w = (q, n, w)"
  by (subst process_message_queue.simps) (simp add: mq_pop_def)

lemma process_queue_Cons:
  "mq_queue q = m # ms \<Longrightarrow> process_message_queue E q n w =
     (case channel_send E m w of
        Some w' \<Rightarrow> process_message_queue E (q\<lparr>mq_queue := ms\<rparr>) (n + 1) w'
      | None \<Rightarrow> (q\<lparr>mq_queue := ms\<rparr>, n, w))"
  by (subst process_message_queue.simps) (simp add: mq_pop_def)

lemma process_queue_keeps:
  assumes E: "only_sends E A Q"
  shows "list_all A (mq_queue q) \<Longrightarrow> Q w \<Longrightarrow>
    (case process_message_queue E q n w of (q', n', w') \<Rightarrow> list_all A (mq_queue q') \<and> Q w')"
proof (induction "mq_queue q" arbitrary: q n w)
  case Nil
  then show ?case
    by (simp add: process_queue_Nil)
next
  case (Cons m ms)
  note q = process_queue_Cons [OF Cons(2) [symmetric], of E n w]
  from Cons(2) [symmetric] Cons(3) have A: "A m" "list_all A ms"
    by simp_all
  show ?case
  proof (cases "channel_send E m w")
    case (Some w1)
    with E A(1) Cons(4) have "Q w1"
      by (auto simp: only_sends_def)
    with Some Cons(1) [of "q\<lparr>mq_queue := ms\<rparr>" w1 "n + 1"] A(2) show ?thesis
      by (simp add: q)
  qed (use A(2) Cons(4) in \<open>simp add: q\<close>)
qed

lemma list_all_mq_push: "A m \<Longrightarrow> list_all A (mq_queue q) \<Longrightarrow> list_all A (mq_queue (mq_push m q))"
  by (cases "mq_queue q") (auto simp: mq_push_def Let_def)

lemma enqueue_keeps:
  assumes "only_sends E A Q" and "A m" and "list_all A (mq_queue (ws_message_queue svc))" and "Q w"
    and "enqueue_and_process E m svc w = (svc', w')"
  shows "list_all A (mq_queue (ws_message_queue svc')) \<and> Q w'"
  using process_queue_keeps [OF assms(1) list_all_mq_push [OF assms(2,3)] assms(4), of "ws_messages_processed svc"]
    assms(5)
  by (auto simp: enqueue_and_process_def split: prod.splits)

lemma handle_message_keeps:
  assumes E: "only_sends E A Q" and A: "\<And>m. market_message m \<Longrightarrow> A m"
    and svc: "list_all A (mq_queue (ws_message_queue svc))"
    and w: "Q w" and run: "handle_message E frame svc w = (svc', w', r)"
  shows "list_all A (mq_queue (ws_message_queue svc')) \<and> Q w'"
proof -
  have market: "A m"
    if "parse_message (ws_json E) raw = Inr m" "msg_data m = Trade t \<or> msg_data m = OrderBook b" for raw m t b
    using parse_message_cases [OF that(1)] that(2)
    by (intro A) (auto simp: market_message_def is_trade_def is_orderbook_def)
  have other: "ws_message_queue (handle_subscription_response r svc') = ws_message_queue svc'" for r svc'
    by (simp add: handle_subscription_response_def)
  note enqueue = enqueue_keeps [OF E _ _ w, rotated 2]
  from run svc w show ?thesis
    by (auto simp: handle_message_def Let_def other split: ws_frame.splits sum.splits MessageData.splits prod.splits
        dest: enqueue intro: market)
qed

lemma message_loop_keeps:
  assumes E: "only_sends E A Q" and A: "\<And>m. market_message m \<Longrightarrow> A m"
  shows "list_all A (mq_queue (ws_message_queue svc)) \<Longrightarrow> Q w \<Longrightarrow>
    message_loop E fuel svc w = (svc', w', r) \<Longrightarrow>
    list_all A (mq_queue (ws_message_queue svc')) \<and> Q w'"
proof (induction fuel arbitrary: svc w)
  case (Suc fuel)
  obtain w1 ev where ev: "next_event E w = (w1, ev)" by fastforce
  with E Suc.prems(2) have w1: "Q w1"
    by (auto simp: only_sends_def dest: spec [of _ w])
  have calls: "Q (fst (socket_ping E w1))" "Q (socket_close E w1)"
    "Q (snd (retry_failed_subscriptions E (ws_subscription_states svc, w1)))"
    using E w1 only_sends_retry [OF E w1] by (auto simp: only_sends_def)
  show ?case
  proof (cases ev)
    case (Incoming frame)
    obtain svc1 w2 h where handled: "handle_message E frame svc w1 = (svc1, w2, h)"
      by (cases "handle_message E frame svc w1")
    from Suc.IH [of svc1 w2] handle_message_keeps [OF E A Suc.prems(1) w1 handled] Suc.prems(3) show ?thesis
      by (simp add: ev Incoming handled)
  next
    case RetryTick
    obtain states w2 where retried: "retry_failed_subscriptions E (ws_subscription_states svc, w1) = (states, w2)"
      by fastforce
    from Suc.IH [of "svc\<lparr>ws_subscription_states := states\<rparr>" w2] Suc.prems calls(3) show ?thesis
      by (simp add: ev RetryTick retried)
  next
    case PingTick
    obtain w2 sent where ping: "socket_ping E w1 = (w2, sent)" by fastforce
    from Suc.IH [of svc w2] Suc.prems calls(1) show ?thesis
      by (auto simp: ev PingTick ping split: if_splits)
  qed (use calls w1 Suc.prems Suc.IH [of svc w1] in \<open>auto simp: ev split: if_splits\<close>)
qed auto

lemma run_message_loop_keeps:
  assumes "only_sends E A Q" and "\<And>m. market_message m \<Longrightarrow> A m" and "Q w"
    and "list_all A (mq_queue (ws_message_queue svc))"
    and "run_message_loop E fuel svc w = (svc', w', r)"
  shows "list_all A (mq_queue (ws_message_queue svc')) \<and> Q w'"
proof -
  let ?reset = "map (\<lambda>e. (fst e, sub_reset (snd e))) (ws_subscription_states svc)"
  obtain states w1 where sub: "subscribe_all E (ws_subscriptions svc) (?reset, w) = (states, w1)" by fastforce
  with only_sends_subscribe_all [OF assms(1,3), of "ws_subscriptions svc" ?reset] have "Q w1"
    by simp
  with message_loop_keeps [OF assms(1,2), of "svc\<lparr>ws_subscription_states := states\<rparr>" w1 fuel svc' w' r] assms(4,5)
  show ?thesis
    by (simp add: run_message_loop_def sub)
qed

text \<open>C15: whatever text the server sends, only trades and order books that pass the validation reach the
  outgoing channel during a connection, and only such messages stay in the queue: what is kept by every other call
  and by sending such a message holds when the loop ends or is interrupted.\<close>

theorem channel_gets_valid_market_data:
  assumes "only_sends E market_message Q" and "Q w"
    and "list_all market_message (mq_queue (ws_message_queue svc))"
    and "run_message_loop E fuel svc w = (svc', w', r)"
  shows "Q w' \<and> list_all market_message (mq_queue (ws_message_queue svc'))"
  using run_message_loop_keeps [OF assms(1) _ assms(2-4)] by blast

text \<open>A connection on which one trade at an infinite price arrives.\<close>

definition trading_env :: "(demo_world, demo_json) ws_env" where
  "trading_env = (demo_env 5 (secs 1000))
     \<lparr>ws_json := reader (json_message ''trades'' (DArr [json_trade ''inf'' ''inf'']))\<rparr>"

theorem channel_gets_valid_market_data_witness:
  "\<exists>m. dw_sent (fst (snd (run_message_loop trading_env 2 demo_ws (demo_begin\<lparr>dw_events := [Incoming (Text [])]\<rparr>)))) = [m] \<and>
     market_message m"
proof -
  let ?w = "demo_begin\<lparr>dw_events := [Incoming (Text [])]\<rparr>"
  obtain svc' w' r where run: "run_message_loop trading_env 2 demo_ws ?w = (svc', w', r)"
    by (cases "run_message_loop trading_env 2 demo_ws ?w")
  have Q: "only_sends trading_env market_message (\<lambda>w. list_all market_message (dw_sent w))"
    by (auto simp: only_sends_def trading_env_def demo_env_def split: list.split if_splits)
  obtain m where m: "parse_message (ws_json trading_env) [] = Inr m" "\<exists>t. msg_data m = Trade t"
    using reader_trades_message [OF parse_special(2) parse_special(2)
        special_positive(2) special_positive(2), of "[]" "[]"]
    by (simp add: trading_env_def)
  then obtain t where t: "msg_data m = Trade t"
    by blast
  have fuel: "message_loop E 2 = message_loop E (Suc (Suc 0))" for E :: "(demo_world, demo_json) ws_env"
    by (simp add: numeral_eq_Suc)
  have sent: "\<exists>svc1. handle_message trading_env (Text []) svc w = (svc1, w\<lparr>dw_sent := [m]\<rparr>, Inr ())"
    if "ws_message_queue svc = MessageQueue_new 10" "dw_sent w = []" for svc w
  proof -
    let ?q = "mq_push m (MessageQueue_new 10)"
    have "mq_queue ?q = [m]"
      by (simp add: mq_push_def MessageQueue_new_def)
    then have "process_message_queue trading_env ?q n w = (?q\<lparr>mq_queue := []\<rparr>, n + 1, w\<lparr>dw_sent := [m]\<rparr>)" for n
      using that(2)
      by (simp add: process_queue_Cons process_queue_Nil trading_env_def demo_env_def)
    with m(1) t that(1) show ?thesis
      by (simp add: handle_message_def enqueue_and_process_def)
  qed
  obtain states w1 where sub: "subscribe_all trading_env (ws_subscriptions demo_ws)
      (map (\<lambda>e. (fst e, sub_reset (snd e))) (ws_subscription_states demo_ws), ?w) = (states, w1)"
    by fastforce
  then have w1: "dw_events w1 = [Incoming (Text [])]" "dw_sent w1 = []"
    by (auto simp: demo_ws_def demo_pair_def subscribe_with_retry_def send_subscription_def trading_env_def
        demo_env_def demo_begin_def)
  obtain svc1 where "handle_message trading_env (Text []) (demo_ws\<lparr>ws_subscription_states := states\<rparr>)
      (w1\<lparr>dw_events := []\<rparr>) = (svc1, w1\<lparr>dw_events := [], dw_sent := [m]\<rparr>, Inr ())"
    using sent [of "demo_ws\<lparr>ws_subscription_states := states\<rparr>" "w1\<lparr>dw_events := []\<rparr>"] w1
    by (auto simp: demo_ws_def)
  moreover have "next_event trading_env w =
      (case dw_events w of [] \<Rightarrow> (w, StreamEnd) | e # es \<Rightarrow> (w\<lparr>dw_events := es\<rparr>, e))" for w
    by (simp add: trading_env_def demo_env_def)
  ultimately have "dw_sent w' = [m]"
    using run w1 by (simp add: run_message_loop_def sub fuel) (elim conjE, hypsubst, simp)
  with channel_gets_valid_market_data [OF Q _ _ run] run show ?thesis
    by (simp add: demo_begin_def demo_ws_def MessageQueue_new_def)
qed

subsection \<open>Backoff and the reconnection loop\<close>

lemma backoff_wait_step:
  "backoff_wait E d w = (if 0 < d \<and> \<not> shutdown_requested E w
     then backoff_wait E (d - min d (secs 1)) (wait E (min d (secs 1)) w) else w)"
  by (subst backoff_wait.simps) (simp add: Let_def)

text \<open>the wait before a reconnection sleeps exactly the backoff, in slices, unless a shutdown is
  requested, and never longer than the backoff; it ends early only when the shutdown flag is set.\<close>

theorem backoff_wait_sleeps_backoff:
  assumes slept: "\<And>d w. slept (wait E d w) = slept w + (d :: nat)"
  shows "slept (backoff_wait E d w) \<le> slept w + d \<and>
    (slept (backoff_wait E d w) = slept w + d \<or> shutdown_requested E (backoff_wait E d w))"
proof (induction d arbitrary: w rule: less_induct)
  case (less d)
  show ?case
  proof (cases "0 < d \<and> \<not> shutdown_requested E w")
    case True
    then have "d - min d (secs 1) < d"
      by (simp add: secs_def)
    from less.IH [OF this, of "wait E (min d (secs 1)) w"] True show ?thesis
      by (simp add: backoff_wait_step [of E d w] slept)
  next
    case False
    then show ?thesis
      by (auto simp: backoff_wait_step [of E d w])
  qed
qed

theorem backoff_wait_sleeps_backoff_witness:
  "dw_time (backoff_wait (demo_env 0 (secs 2)) (secs 5) demo_begin) \<le> secs 5 \<and>
   (dw_time (backoff_wait (demo_env 0 (secs 2)) (secs 5) demo_begin) = secs 5 \<or>
    shutdown_requested (demo_env 0 (secs 2)) (backoff_wait (demo_env 0 (secs 2)) (secs 5) demo_begin))"
  using backoff_wait_sleeps_backoff [of dw_time "demo_env 0 (secs 2)" "secs 5" demo_begin]
  by (simp add: demo_env_def demo_begin_def)

lemma ws_start_returns: "ws_start E fuel n svc w = (svc', w', True) \<Longrightarrow> shutdown_requested E w'"
proof (induction n arbitrary: svc w)
  case (Suc n)
  show ?case
  proof (cases "shutdown_requested E w")
    case True
    with Suc.prems show ?thesis
      by simp
  next
    case False
    with Suc show ?thesis
      by (fastforce simp: Let_def split: prod.splits option.splits if_splits)
  qed
qed simp

text \<open>the reconnection loop of \<open>start\<close> gives up for no error: however its connections end, it
  returns only in a state where a shutdown has been requested.\<close>

theorem start_returns_only_on_shutdown:
  assumes "ws_start E fuel n svc w = (svc', w', True)"
  shows "shutdown_requested E w'"
  using assms by (rule ws_start_returns)

text \<open>What every call of the service keeps holds after any number of rounds.\<close>

definition quiet_ws :: "('w, 'v) ws_env \<Rightarrow> ('w \<Rightarrow> bool) \<Rightarrow> bool" where
  "quiet_ws E Q \<longleftrightarrow> only_sends E (\<lambda>_. True) Q \<and>
     (\<forall>w. Q w \<longrightarrow> Q (fst (socket_connect E w)) \<and> (\<forall>d. Q (wait E d w)))"

lemma backoff_wait_quiet: "quiet_ws E Q \<Longrightarrow> Q w \<Longrightarrow> Q (backoff_wait E d w)"
proof (induction d arbitrary: w rule: less_induct)
  case (less d)
  show ?case
  proof (cases "0 < d \<and> \<not> shutdown_requested E w")
    case True
    then have "d - min d (secs 1) < d"
      by (simp add: secs_def)
    with less True show ?thesis
      by (simp add: backoff_wait_step [of E d w] quiet_ws_def)
  qed (use less.prems in \<open>auto simp: backoff_wait_step [of E d w]\<close>)
qed

lemma connect_quiet:
  assumes E: "quiet_ws E Q" and w: "Q w" and run: "connect_and_run E fuel svc w = (svc', w', r)"
  shows "Q w'"
proof -
  obtain w1 connected where one: "socket_connect E w = (w1, connected)" by fastforce
  with E w have w1: "Q w1"
    by (auto simp: quiet_ws_def dest: spec [of _ w])
  have "list_all (\<lambda>_. True) (mq_queue (ws_message_queue svc))"
    by (simp add: list_all_iff)
  with run one w1 E show ?thesis
    using run_message_loop_keeps [of E "\<lambda>_. True" Q w1 svc fuel svc' w' r]
    by (auto simp: connect_and_run_def quiet_ws_def split: if_splits)
qed

lemma record_outcome_quiet:
  assumes "quiet_ws E Q" and "Q w" and "record_outcome E outcome svc w = (svc', w')"
  shows "Q w'"
  using assms
  by (auto simp: record_outcome_def quiet_ws_def only_sends_def split: sum.splits prod.splits) (metis fst_conv)+

lemma ws_start_quiet:
  assumes E: "quiet_ws E Q"
  shows "Q w \<Longrightarrow> ws_start E fuel n svc w = (svc', w', returned) \<Longrightarrow> Q w'"
proof (induction n arbitrary: svc w)
  case (Suc n)
  show ?case
  proof (cases "shutdown_requested E w")
    case True
    with Suc.prems show ?thesis
      by simp
  next
    case False
    obtain w1 t1 where c1: "read_clock E w = (w1, t1)" by fastforce
    obtain w2 t2 where c2: "read_clock E w1 = (w2, t2)" by fastforce
    have "Q (fst (read_clock E v))" if "Q v" for v
      using E that by (auto simp: quiet_ws_def only_sends_def)
    from this [of w] this [of w1] Suc.prems(1) c1 c2 have w2: "Q w2"
      by simp
    obtain rs logged where rs: "should_log_degraded_warning t1 t2 (ws_reconnection svc) = (rs, logged)" by fastforce
    obtain svc3 w3 result where run: "connect_and_run E fuel (svc\<lparr>ws_reconnection := rs\<rparr>) w2 = (svc3, w3, result)"
      by (cases "connect_and_run E fuel (svc\<lparr>ws_reconnection := rs\<rparr>) w2")
    from connect_quiet [OF E w2 run] have w3: "Q w3" .
    show ?thesis
    proof (cases result)
      case None
      with Suc.prems(2) False w3 show ?thesis
        by (simp add: c1 c2 rs run)
    next
      case (Some outcome)
      obtain svc4 w4 where out: "record_outcome E outcome svc3 w3 = (svc4, w4)" by fastforce
      from record_outcome_quiet [OF E w3 out] have w4: "Q w4" .
      with Suc.prems(2) Suc.IH backoff_wait_quiet [OF E w4] False Some show ?thesis
        by (auto simp: c1 c2 rs run out Let_def split: if_splits)
    qed
  qed
qed simp

theorem start_returns_only_on_shutdown_witness:
  "shutdown_requested (demo_env 0 0) (fst (snd (ws_start (demo_env 0 0) 3 2 demo_ws demo_begin)))"
  by (rule start_returns_only_on_shutdown [of _ 3 2 demo_ws demo_begin demo_ws])
    (simp add: numeral_eq_Suc demo_env_def)

end
