(* ===== verification/Ws_Config.thy ===== *)
theory Ws_Config
  imports Ws_Service Rust_Std
begin

text \<open>
  The configuration of the HyperLiquid integration (\<open>crates/mev-hyperliquid/src/config.rs\<close>), its
  validation, and the WebSocket service made from it (\<open>HyperLiquidWsService::new\<close> in
  \<open>src/websocket.rs\<close>). A string is its list of UTF-8 bytes, so that \<open>length\<close> is \<open>str::len\<close>.
\<close>

record HyperLiquidConfig =
  enabled :: bool
  ws_url :: string
  rpc_url :: "string option"
  polling_interval_ms :: "u64 option"
  private_key :: "string option"
  trading_pairs :: "string list"
  subscribe_orderbook_too :: bool
  reconnect_min_backoff_secs :: u64
  reconnect_max_backoff_secs :: u64
  config_max_failures :: u32
  token_mapping :: "(string, string) hash_map"

definition HyperLiquidConfig_default :: HyperLiquidConfig where
  "HyperLiquidConfig_default =
     \<lparr>enabled = False, ws_url = ''wss://api.hyperliquid.xyz/ws'', rpc_url = None,
      polling_interval_ms = Some 1000, private_key = None, trading_pairs = [''BTC'', ''ETH''],
      subscribe_orderbook_too = False, reconnect_min_backoff_secs = 1,
      reconnect_max_backoff_secs = 60, config_max_failures = 10, token_mapping = hm_empty\<rparr>"

datatype config_error =
    EmptyWsUrl | BadWsScheme | EmptyRpcUrl | BadRpcScheme | ZeroPolling | PollingTooLow
  | NoTradingPairs | EmptyPair | PairTooLong string | ZeroMinBackoff | MaxBelowMinBackoff
  | ZeroMaxFailures | EmptyCoin | EmptyAddress string | BadAddress string | NotHexAddress string

definition validate_rpc_url :: "string option \<Rightarrow> config_error option" where
  "validate_rpc_url u =
     (case u of
        None \<Rightarrow> None
      | Some url \<Rightarrow>
          if url = [] then Some EmptyRpcUrl
          else if \<not> starts_with url ''http://'' \<and> \<not> starts_with url ''https://''
          then Some BadRpcScheme else None)"

definition validate_polling :: "u64 option \<Rightarrow> config_error option" where
  "validate_polling p =
     (case p of
        None \<Rightarrow> None
      | Some interval \<Rightarrow>
          if interval = 0 then Some ZeroPolling
          else if interval < 100 then Some PollingTooLow else None)"

fun validate_pairs :: "string list \<Rightarrow> config_error option" where
  "validate_pairs [] = None"
| "validate_pairs (p # ps) =
     (if p = [] then Some EmptyPair
      else if 10 < length p then Some (PairTooLong p)
      else validate_pairs ps)"

fun validate_tokens :: "(string, string) hash_map \<Rightarrow> config_error option" where
  "validate_tokens [] = None"
| "validate_tokens ((c, address) # rest) =
     (if c = [] then Some EmptyCoin
      else if address = [] then Some (EmptyAddress c)
      else if \<not> starts_with address ''0x'' \<or> length address \<noteq> 42 then Some (BadAddress c)
      else if \<not> list_all is_ascii_hexdigit (drop 2 address) then Some (NotHexAddress c)
      else validate_tokens rest)"

fun or_else :: "'e option \<Rightarrow> 'e option \<Rightarrow> 'e option" where
  "or_else (Some e) _ = Some e"
| "or_else None r = r"

text \<open>The checks in the order of the source; the first that fails is the result.\<close>

definition validate :: "HyperLiquidConfig \<Rightarrow> config_error + unit" where
  "validate c =
     (case
        (if ws_url c = [] then Some EmptyWsUrl
         else if \<not> starts_with (ws_url c) ''ws://'' \<and> \<not> starts_with (ws_url c) ''wss://''
         then Some BadWsScheme
         else or_else (validate_rpc_url (rpc_url c))
           (or_else (validate_polling (polling_interval_ms c))
              (if enabled c \<and> trading_pairs c = [] then Some NoTradingPairs
               else or_else (validate_pairs (trading_pairs c))
                 (if reconnect_min_backoff_secs c = 0 then Some ZeroMinBackoff
                  else if reconnect_max_backoff_secs c < reconnect_min_backoff_secs c
                  then Some MaxBelowMinBackoff
                  else if config_max_failures c = 0 then Some ZeroMaxFailures
                  else validate_tokens (token_mapping c)))))
      of Some e \<Rightarrow> Inl e | None \<Rightarrow> Inr ())"

definition configured_pairs :: "HyperLiquidConfig \<Rightarrow> TradingPair list" where
  "configured_pairs c =
     map (\<lambda>coin. if subscribe_orderbook_too c then with_orderbook coin else trades_only coin)
       (trading_pairs c)"

definition HyperLiquidWsService_new ::
  "instant \<Rightarrow> HyperLiquidConfig \<Rightarrow> config_error + HyperLiquidWsService"
where
  "HyperLiquidWsService_new now c =
     (case validate c of
        Inl e \<Rightarrow> Inl e
      | Inr _ \<Rightarrow>
          (let subscriptions = configured_pairs c;
               states = fold (\<lambda>p. hm_insert (coin p) (SubscriptionState_new p)) subscriptions hm_empty
           in Inr \<lparr>ws_subscriptions = subscriptions,
                ws_reconnect_config = \<lparr>min_backoff_secs = reconnect_min_backoff_secs c,
                  max_backoff_secs = reconnect_max_backoff_secs c,
                  max_consecutive_failures = config_max_failures c\<rparr>,
                ws_reconnection = ReconnectionState_new now,
                ws_subscription_states = states,
                ws_total_reconnection_attempts = 0,
                ws_message_queue = MessageQueue_new 1000,
                ws_messages_received = 0, ws_messages_processed = 0, ws_parse_errors = 0\<rparr>))"

subsection \<open>What validation and construction establish\<close>

lemma or_else_None: "or_else a b = None \<longleftrightarrow> a = None \<and> b = None"
  by (cases a) auto

lemma check_None: "(if bad then Some e else r) = None \<longleftrightarrow> \<not> bad \<and> r = None"
  by simp

lemma accepted_iff: "(case r of Some e \<Rightarrow> Inl e | None \<Rightarrow> Inr ()) = Inr () \<longleftrightarrow> r = None"
  by (cases r) simp_all

lemma coins_configured: "set (trading_pairs c) = coin ` set (configured_pairs c)"
  by (simp add: configured_pairs_def image_image with_orderbook_def trades_only_def)

definition pair_ok :: "string \<Rightarrow> bool" where
  "pair_ok p \<longleftrightarrow> p \<noteq> [] \<and> length p \<le> 10"

definition address_ok :: "string \<Rightarrow> bool" where
  "address_ok a \<longleftrightarrow> starts_with a ''0x'' \<and> length a = 42 \<and> list_all is_ascii_hexdigit (drop 2 a)"

lemma validate_pairs_None: "validate_pairs ps = None \<longleftrightarrow> list_all pair_ok ps"
  by (induction ps) (auto simp: pair_ok_def)

lemma validate_tokens_None:
  "validate_tokens m = None \<longleftrightarrow> list_all (\<lambda>(c, a). c \<noteq> [] \<and> address_ok a) m"
  by (induction m rule: validate_tokens.induct) (auto simp: address_ok_def starts_with_def)

lemma no_scheme_empty [simp]:
  "\<not> starts_with [] ''ws://''" "\<not> starts_with [] ''wss://''" "\<not> starts_with [] ''http://''"
  "\<not> starts_with [] ''https://''"
  by (simp_all add: starts_with_def)

text \<open>\<open>validate\<close> accepts exactly the configurations whose URLs have their schemes, whose polling
  interval, if any, is at least 100 ms, whose trading pairs and token addresses are well formed (at
  least one pair when enabled), and whose backoff bounds and failure limit are positive and ordered.\<close>

theorem validate_accepts_iff:
  "validate c = Inr () \<longleftrightarrow>
     (starts_with (ws_url c) ''ws://'' \<or> starts_with (ws_url c) ''wss://'') \<and>
     pred_option (\<lambda>u. starts_with u ''http://'' \<or> starts_with u ''https://'') (rpc_url c) \<and>
     pred_option (\<lambda>i. 100 \<le> i) (polling_interval_ms c) \<and>
     \<not> (enabled c \<and> trading_pairs c = []) \<and> list_all pair_ok (trading_pairs c) \<and>
     reconnect_min_backoff_secs c \<noteq> 0 \<and>
     reconnect_min_backoff_secs c \<le> reconnect_max_backoff_secs c \<and>
     config_max_failures c \<noteq> 0 \<and>
     list_all (\<lambda>(k, a). k \<noteq> [] \<and> address_ok a) (token_mapping c)"
proof -
  have polling: "validate_polling p = None \<longleftrightarrow> pred_option (\<lambda>i. 100 \<le> i) p" for p
    by (auto simp: validate_polling_def not_less split: option.split)
  have rpc: "validate_rpc_url u = None \<longleftrightarrow>
      pred_option (\<lambda>u. starts_with u ''http://'' \<or> starts_with u ''https://'') u" for u
    by (auto simp: validate_rpc_url_def split: option.split)
  show ?thesis
    unfolding validate_def accepted_iff check_None or_else_None polling rpc validate_pairs_None
      validate_tokens_None by (auto simp: not_less)
qed

lemma new_states:
  "hm_get (fold (\<lambda>p. hm_insert (coin p) (SubscriptionState_new p)) ps m) k =
     (case filter (\<lambda>p. coin p = k) (rev ps) of
        [] \<Rightarrow> hm_get m k
      | p # _ \<Rightarrow> Some (SubscriptionState_new p))"
  by (induction ps rule: rev_induct) (simp_all add: fold_append)

lemma new_states_wf:
  "hm_wf m \<Longrightarrow> hm_wf (fold (\<lambda>p. hm_insert (coin p) (SubscriptionState_new p)) ps m)"
  by (induction ps arbitrary: m) simp_all

lemma filter_pairs: "set (filter (\<lambda>p. coin p = k) (rev (configured_pairs c))) \<subseteq>
    {if subscribe_orderbook_too c then with_orderbook k else trades_only k}"
  by (auto simp: configured_pairs_def with_orderbook_def trades_only_def)

text \<open>a service is built only from an accepted configuration; it knows one fresh subscription
  for each configured coin and none else, its backoff bounds are positive and ordered, and it starts
  with no failures, no backoff state and an empty queue.\<close>

theorem new_service_state:
  assumes "HyperLiquidWsService_new now c = Inr svc"
  shows "validate c = Inr () \<and> hm_wf (ws_subscription_states svc) \<and>
    (\<forall>k. hm_get (ws_subscription_states svc) k =
       (if k \<in> set (trading_pairs c)
        then Some (SubscriptionState_new
          (if subscribe_orderbook_too c then with_orderbook k else trades_only k))
        else None)) \<and>
    min_backoff_secs (ws_reconnect_config svc) \<noteq> 0 \<and>
    min_backoff_secs (ws_reconnect_config svc) \<le> max_backoff_secs (ws_reconnect_config svc) \<and>
    rs_consecutive_failures (ws_reconnection svc) = 0 \<and> mq_queue (ws_message_queue svc) = []"
proof -
  from assms have valid: "validate c = Inr ()"
    by (auto simp: HyperLiquidWsService_new_def split: sum.splits)
  then have bounds: "reconnect_min_backoff_secs c \<noteq> 0"
    "reconnect_min_backoff_secs c \<le> reconnect_max_backoff_secs c"
    unfolding validate_def accepted_iff check_None or_else_None by (auto simp: not_less)
  have get: "hm_get (ws_subscription_states svc) k =
       (if k \<in> set (trading_pairs c)
        then Some (SubscriptionState_new
          (if subscribe_orderbook_too c then with_orderbook k else trades_only k))
        else None)" for k
  proof (cases "filter (\<lambda>p. coin p = k) (rev (configured_pairs c))")
    case Nil
    then have "k \<notin> set (trading_pairs c)"
      by (auto simp: filter_empty_conv coins_configured)
    with Nil assms valid show ?thesis
      by (auto simp: HyperLiquidWsService_new_def Let_def new_states)
  next
    case (Cons p ps)
    then have "p \<in> set (filter (\<lambda>p. coin p = k) (rev (configured_pairs c)))"
      by simp
    then have "p \<in> set (configured_pairs c)" "coin p = k"
      by auto
    then have "k \<in> set (trading_pairs c)"
      by (auto simp: coins_configured)
    with Cons filter_pairs [of k c] assms valid show ?thesis
      by (auto simp: HyperLiquidWsService_new_def Let_def new_states)
  qed
  from assms valid have "hm_wf (ws_subscription_states svc)"
    by (auto simp: HyperLiquidWsService_new_def Let_def new_states_wf)
  with assms valid bounds get show ?thesis
    by (auto simp: HyperLiquidWsService_new_def Let_def ReconnectionState_new_def MessageQueue_new_def)
qed

theorem new_service_state_witness:
  "\<exists>svc :: HyperLiquidWsService. HyperLiquidWsService_new 0 HyperLiquidConfig_default = Inr svc \<and>
     hm_get (ws_subscription_states svc) ''ETH'' = Some (SubscriptionState_new (trades_only ''ETH'')) \<and>
     hm_get (ws_subscription_states svc) ''SOL'' = None"
proof -
  have "validate HyperLiquidConfig_default = Inr ()"
    by code_simp
  then obtain svc :: "HyperLiquidWsService"
    where svc: "HyperLiquidWsService_new 0 HyperLiquidConfig_default = Inr svc"
    by (simp add: HyperLiquidWsService_new_def Let_def)
  from new_service_state [OF svc] svc show ?thesis
    by (auto simp: HyperLiquidConfig_default_def)
qed

end
