(* ===== verification/Failure_Handler.thy ===== *)
theory Failure_Handler
  imports Hash_Map
begin

text \<open>
  \<open>crates/mev-core/src/bundle/failure_handler.rs\<close>: what the bundle engine does when a bundle
  fails, with its kill switch, its records and its statistics, and the security checklist.

  An identifier made with \<open>Uuid::new_v4\<close>, a reading of \<open>Utc::now\<close> (\<^typ>\<open>int\<close>, in nanoseconds) and a
  reading of \<open>Instant::now\<close> are fields of \<open>call_context\<close>, the context of one call. A handler returns
  the new state, its result and the time it slept.

  \<open>handle_failure\<close> takes and releases the locks of the handler one after the other, so calls interleave
  between them. Each section under a lock is a definition and one step of \<open>handler_step\<close>, where any number of
  calls in progress take turns with each other and with the other operations; \<open>handle_failure\<close>
  is the run of one call that nothing interrupts. A call that sleeps holds the lock on the records it changes
  (\<open>handle_retry\<close>, \<open>execute_rollback\<close>), so no other call sees them in between. Calls are not dropped before they return.
\<close>

subsection \<open>Data\<close>

datatype FailureType =
    NonceCollision u64 u64
  | GasUnderpricing u64 u64
  | Reorg u64 u64
  | MempoolEviction string
  | ExecutionFailure string
  | NetworkError string
  | InsufficientFunds u64 u64
  | ContractRevert string

record FailureConfig =
  max_retries :: "(FailureType, u32) hash_map"
  retry_delays :: "(FailureType, duration) hash_map"
  auto_rollback :: bool
  max_rollback_attempts :: u32
  persist_failures :: bool

definition FailureConfig_default :: FailureConfig where
  "FailureConfig_default =
     \<lparr>max_retries =
        hm_insert (NetworkError []) 5 (hm_insert (MempoolEviction []) 1
          (hm_insert (GasUnderpricing 0 0) 2 (hm_insert (NonceCollision 0 0) 3 hm_empty))),
      retry_delays =
        hm_insert (NetworkError []) (secs 1) (hm_insert (MempoolEviction []) (secs 10)
          (hm_insert (GasUnderpricing 0 0) (secs 5) (hm_insert (NonceCollision 0 0) (secs 2) hm_empty))),
      auto_rollback = True,
      max_rollback_attempts = 3,
      persist_failures = True\<rparr>"

record FailureRecord =
  fr_id :: string
  fr_bundle_id :: string
  fr_failure_type :: FailureType
  fr_timestamp :: int
  fr_retry_count :: u32
  fr_resolved :: bool
  fr_resolution_method :: "string option"
  fr_gas_cost :: u64
  fr_metadata :: "(string, string) hash_map"

datatype RollbackStatus =
  RollbackPending | RollbackInProgress | RollbackCompleted | RollbackFailed string

record RollbackOperation =
  ro_id :: string
  ro_bundle_id :: string
  ro_transactions :: "string list"
  ro_created_at :: instant
  ro_status :: RollbackStatus

record KillSwitch =
  ks_activated :: bool
  ks_reason :: "string option"
  ks_activated_at :: "instant option"
  ks_activated_by :: "string option"

record FailureStats =
  total_failures :: u64
  failures_by_type :: "(string, u64) hash_map"
  successful_recoveries :: u64
  failed_recoveries :: u64
  rollbacks_executed :: u64
  kill_switch_activations :: u64

record FailureHandler =
  fh_config :: FailureConfig
  fh_failures :: "(string, FailureRecord) hash_map"
  fh_rollbacks :: "(string, RollbackOperation) hash_map"
  fh_kill_switch :: KillSwitch
  fh_stats :: FailureStats

datatype FailureResolution =
  Retry duration u32 | Rollback | Abort | KillSwitch | KillSwitchActivated | ManualIntervention

datatype handler_error =
  FailureNotFound string | RollbackNotFound string | KillSwitchNotActivated

record call_context =
  cc_failure_uuid :: string
  cc_rollback_uuid :: string
  cc_utc_now :: int
  cc_now :: instant

subsection \<open>Operations\<close>

definition FailureHandler_new :: "FailureConfig \<Rightarrow> FailureHandler" where
  "FailureHandler_new config =
     \<lparr>fh_config = config, fh_failures = hm_empty, fh_rollbacks = hm_empty,
      fh_kill_switch = \<lparr>ks_activated = False, ks_reason = None, ks_activated_at = None,
        ks_activated_by = None\<rparr>,
      fh_stats = \<lparr>total_failures = 0, failures_by_type = hm_empty, successful_recoveries = 0,
        failed_recoveries = 0, rollbacks_executed = 0, kill_switch_activations = 0\<rparr>\<rparr>"

definition is_kill_switch_activated :: "FailureHandler \<Rightarrow> bool" where
  "is_kill_switch_activated h = ks_activated (fh_kill_switch h)"

definition determine_resolution_strategy :: "FailureType \<Rightarrow> FailureResolution" where
  "determine_resolution_strategy ft =
     (case ft of
        NonceCollision _ _ \<Rightarrow> Retry (secs 2) 3
      | GasUnderpricing _ _ \<Rightarrow> Retry (secs 5) 2
      | Reorg _ _ \<Rightarrow> Rollback
      | MempoolEviction _ \<Rightarrow> Retry (secs 10) 1
      | ExecutionFailure _ \<Rightarrow> Rollback
      | NetworkError _ \<Rightarrow> Retry (secs 1) 5
      | InsufficientFunds _ _ \<Rightarrow> Abort
      | ContractRevert _ \<Rightarrow> Rollback)"

text \<open>
  \<open>format!("{:?}", failure_type).split(' ').next()\<close>: the derived \<open>Debug\<close> text of a struct variant is
  the variant's name, a space and its fields, so the first word is the name.
\<close>

definition type_key :: "FailureType \<Rightarrow> string" where
  "type_key ft =
     (case ft of
        NonceCollision _ _ \<Rightarrow> ''NonceCollision''
      | GasUnderpricing _ _ \<Rightarrow> ''GasUnderpricing''
      | Reorg _ _ \<Rightarrow> ''Reorg''
      | MempoolEviction _ \<Rightarrow> ''MempoolEviction''
      | ExecutionFailure _ \<Rightarrow> ''ExecutionFailure''
      | NetworkError _ \<Rightarrow> ''NetworkError''
      | InsufficientFunds _ _ \<Rightarrow> ''InsufficientFunds''
      | ContractRevert _ \<Rightarrow> ''ContractRevert'')"

definition update_failure_stats :: "FailureType \<Rightarrow> FailureHandler \<Rightarrow> FailureHandler" where
  "update_failure_stats ft h =
     (let stats = fh_stats h;
          n = (case hm_get (failures_by_type stats) (type_key ft) of Some n \<Rightarrow> n | None \<Rightarrow> 0)
      in h\<lparr>fh_stats := stats\<lparr>total_failures := total_failures stats + 1,
             failures_by_type := hm_insert (type_key ft) (n + 1) (failures_by_type stats)\<rparr>\<rparr>)"

definition handle_retry ::
  "string \<Rightarrow> duration \<Rightarrow> u32 \<Rightarrow> FailureHandler \<Rightarrow>
   FailureHandler \<times> (handler_error + FailureResolution) \<times> duration"
where
  "handle_retry failure_id delay max_attempts h =
     (case hm_get (fh_failures h) failure_id of
        None \<Rightarrow> (h, Inl (FailureNotFound failure_id), 0)
      | Some failure \<Rightarrow>
          (let failure = failure\<lparr>fr_retry_count := fr_retry_count failure + 1\<rparr>
           in if max_attempts \<le> fr_retry_count failure
              then (h\<lparr>fh_failures := hm_insert failure_id
                        (failure\<lparr>fr_resolved := True, fr_resolution_method := Some ''max_retries_exceeded''\<rparr>)
                        (fh_failures h)\<rparr>,
                    Inr Rollback, 0)
              else (h\<lparr>fh_failures := hm_insert failure_id failure (fh_failures h)\<rparr>,
                    Inr (Retry delay max_attempts), delay)))"

text \<open>The rollback itself is simulated by the source: a sleep between two writes of the status.\<close>

definition execute_rollback ::
  "string \<Rightarrow> FailureHandler \<Rightarrow> FailureHandler \<times> (handler_error + unit) \<times> duration"
where
  "execute_rollback rollback_id h =
     (case hm_get (fh_rollbacks h) rollback_id of
        None \<Rightarrow> (h, Inl (RollbackNotFound rollback_id), 0)
      | Some r \<Rightarrow>
          (let r = r\<lparr>ro_status := RollbackInProgress\<rparr>;
               r = r\<lparr>ro_status := RollbackCompleted\<rparr>
           in (h\<lparr>fh_rollbacks := hm_insert rollback_id r (fh_rollbacks h)\<rparr>, Inr (), millis 500)))"

text \<open>
  The two other sections of \<open>initiate_rollback\<close> under a lock: the pending record before the rollback
  is executed, the count after it.
\<close>

definition record_rollback :: "call_context \<Rightarrow> string \<Rightarrow> FailureHandler \<Rightarrow> FailureHandler" where
  "record_rollback cc bundle_id h =
     (let rollback_id = ''rollback_'' @ cc_rollback_uuid cc;
          rollback_op = \<lparr>ro_id = rollback_id, ro_bundle_id = bundle_id, ro_transactions = [],
            ro_created_at = cc_now cc, ro_status = RollbackPending\<rparr>
      in h\<lparr>fh_rollbacks := hm_insert rollback_id rollback_op (fh_rollbacks h)\<rparr>)"

definition count_rollback :: "FailureHandler \<Rightarrow> FailureHandler" where
  "count_rollback h =
     h\<lparr>fh_stats := (fh_stats h)\<lparr>rollbacks_executed := rollbacks_executed (fh_stats h) + 1\<rparr>\<rparr>"

definition initiate_rollback ::
  "call_context \<Rightarrow> string \<Rightarrow> FailureHandler \<Rightarrow>
   FailureHandler \<times> (handler_error + FailureResolution) \<times> duration"
where
  "initiate_rollback cc bundle_id h =
     (if \<not> auto_rollback (fh_config h) then (h, Inr ManualIntervention, 0)
      else
        case execute_rollback (''rollback_'' @ cc_rollback_uuid cc) (record_rollback cc bundle_id h) of
          (h, Inl e, slept) \<Rightarrow> (h, Inl e, slept)
        | (h, Inr _, slept) \<Rightarrow> (count_rollback h, Inr Rollback, slept))"

definition abort_operation ::
  "string \<Rightarrow> FailureHandler \<Rightarrow> FailureHandler \<times> (handler_error + FailureResolution)"
where
  "abort_operation failure_id h =
     (case hm_get (fh_failures h) failure_id of
        None \<Rightarrow> (h, Inl (FailureNotFound failure_id))
      | Some failure \<Rightarrow>
          (h\<lparr>fh_failures := hm_insert failure_id
               (failure\<lparr>fr_resolved := True, fr_resolution_method := Some ''aborted''\<rparr>) (fh_failures h)\<rparr>,
           Inr Abort))"

definition activate_kill_switch ::
  "instant \<Rightarrow> string \<Rightarrow> string option \<Rightarrow> FailureHandler \<Rightarrow> FailureHandler \<times> FailureResolution"
where
  "activate_kill_switch now reason activated_by h =
     (if ks_activated (fh_kill_switch h) then (h, KillSwitchActivated)
      else
        (h\<lparr>fh_kill_switch := \<lparr>ks_activated = True, ks_reason = Some reason, ks_activated_at = Some now,
             ks_activated_by = activated_by\<rparr>,
           fh_stats := (fh_stats h)\<lparr>kill_switch_activations := kill_switch_activations (fh_stats h) + 1\<rparr>\<rparr>,
         KillSwitchActivated))"

definition deactivate_kill_switch ::
  "string \<Rightarrow> FailureHandler \<Rightarrow> FailureHandler \<times> (handler_error + unit)"
where
  "deactivate_kill_switch deactivated_by h =
     (if \<not> ks_activated (fh_kill_switch h) then (h, Inl KillSwitchNotActivated)
      else (h\<lparr>fh_kill_switch := \<lparr>ks_activated = False, ks_reason = None, ks_activated_at = None,
              ks_activated_by = Some deactivated_by\<rparr>\<rparr>, Inr ()))"

text \<open>The first two sections of \<open>handle_failure\<close> after the check of the kill switch.\<close>

definition new_failure_record ::
  "call_context \<Rightarrow> string \<Rightarrow> FailureType \<Rightarrow> (string, string) hash_map \<Rightarrow> FailureRecord" where
  "new_failure_record cc bundle_id ft metadata =
     \<lparr>fr_id = ''failure_'' @ cc_failure_uuid cc, fr_bundle_id = bundle_id, fr_failure_type = ft,
      fr_timestamp = cc_utc_now cc, fr_retry_count = 0, fr_resolved = False,
      fr_resolution_method = None, fr_gas_cost = 0, fr_metadata = metadata\<rparr>"

definition store_failure :: "FailureRecord \<Rightarrow> FailureHandler \<Rightarrow> FailureHandler" where
  "store_failure failure_record h =
     h\<lparr>fh_failures := hm_insert (fr_id failure_record) failure_record (fh_failures h)\<rparr>"

definition handle_failure ::
  "call_context \<Rightarrow> string \<Rightarrow> FailureType \<Rightarrow> (string, string) hash_map \<Rightarrow> FailureHandler \<Rightarrow>
   FailureHandler \<times> (handler_error + FailureResolution) \<times> duration"
where
  "handle_failure cc bundle_id ft metadata h =
     (if is_kill_switch_activated h then (h, Inr KillSwitchActivated, 0)
      else
        let failure_record = new_failure_record cc bundle_id ft metadata;
            failure_id = fr_id failure_record;
            h = store_failure failure_record h;
            h = update_failure_stats ft h;
            resolution = determine_resolution_strategy ft
        in case resolution of
             Retry delay max_attempts \<Rightarrow> handle_retry failure_id delay max_attempts h
           | Rollback \<Rightarrow> initiate_rollback cc bundle_id h
           | Abort \<Rightarrow> (let (h, r) = abort_operation failure_id h in (h, r, 0))
           | KillSwitch \<Rightarrow>
               (let (h, r) = activate_kill_switch (cc_now cc)
                    ''Automatic activation due to critical failure'' None h
                in (h, Inr r, 0))
           | _ \<Rightarrow> (h, Inr resolution, 0))"

definition get_failure_stats :: "FailureHandler \<Rightarrow> FailureStats" where
  "get_failure_stats h = fh_stats h"

definition get_active_failures :: "FailureHandler \<Rightarrow> FailureRecord list" where
  "get_active_failures h = filter (\<lambda>f. \<not> fr_resolved f) (hm_values (fh_failures h))"

definition get_rollback_operations :: "FailureHandler \<Rightarrow> RollbackOperation list" where
  "get_rollback_operations h = hm_values (fh_rollbacks h)"

text \<open>\<open>utc_now\<close> is read once; \<open>Instant::elapsed\<close> is read for every rollback, here at one \<open>now\<close>;
  \<open>max_age\<close> is in chrono's range, where \<open>from_std(..).unwrap()\<close> does not panic.\<close>

definition cleanup_old_records :: "int \<Rightarrow> instant \<Rightarrow> duration \<Rightarrow> FailureHandler \<Rightarrow> FailureHandler" where
  "cleanup_old_records utc_now now max_age h =
     (let cutoff = utc_now - int max_age
      in h\<lparr>fh_failures := hm_retain (\<lambda>_ f. cutoff < fr_timestamp f) (fh_failures h),
           fh_rollbacks := hm_retain (\<lambda>_ r. elapsed now (ro_created_at r) < max_age) (fh_rollbacks h)\<rparr>)"

subsection \<open>Concurrent calls\<close>

text \<open>
  A call of \<open>handle_failure\<close> in progress stands before one of its sections under a lock, or has
  returned; \<open>AtRollback k\<close> is the call of \<open>execute_rollback\<close> on the record \<open>k\<close>.
\<close>

datatype call_phase =
    AtCheck | AtRecord | AtStats | AtResolution | AtRollback string | AtRollbackCount
  | Returned "handler_error + FailureResolution"

record FailureCall =
  fc_context :: call_context
  fc_bundle :: string
  fc_type :: FailureType
  fc_metadata :: "(string, string) hash_map"
  fc_phase :: call_phase

definition fc_failure_id :: "FailureCall \<Rightarrow> string" where
  "fc_failure_id c = ''failure_'' @ cc_failure_uuid (fc_context c)"

text \<open>The section before which a call stands, and the phase after it.\<close>

definition resolve_failure :: "FailureCall \<Rightarrow> FailureHandler \<Rightarrow> FailureHandler \<times> call_phase" where
  "resolve_failure c h =
     (case determine_resolution_strategy (fc_type c) of
        Retry delay max_attempts \<Rightarrow>
          (let (h, r, _) = handle_retry (fc_failure_id c) delay max_attempts h in (h, Returned r))
      | Rollback \<Rightarrow>
          (if \<not> auto_rollback (fh_config h) then (h, Returned (Inr ManualIntervention))
           else (record_rollback (fc_context c) (fc_bundle c) h,
                 AtRollback (''rollback_'' @ cc_rollback_uuid (fc_context c))))
      | Abort \<Rightarrow> (let (h, r) = abort_operation (fc_failure_id c) h in (h, Returned r))
      | KillSwitch \<Rightarrow>
          (let (h, r) = activate_kill_switch (cc_now (fc_context c))
               ''Automatic activation due to critical failure'' None h
           in (h, Returned (Inr r)))
      | resolution \<Rightarrow> (h, Returned (Inr resolution)))"

definition call_section :: "FailureCall \<Rightarrow> FailureHandler \<Rightarrow> FailureHandler \<times> call_phase" where
  "call_section c h =
     (case fc_phase c of
        AtCheck \<Rightarrow> (h, if is_kill_switch_activated h then Returned (Inr KillSwitchActivated) else AtRecord)
      | AtRecord \<Rightarrow>
          (store_failure (new_failure_record (fc_context c) (fc_bundle c) (fc_type c) (fc_metadata c)) h, AtStats)
      | AtStats \<Rightarrow> (update_failure_stats (fc_type c) h, AtResolution)
      | AtResolution \<Rightarrow> resolve_failure c h
      | AtRollback rollback_id \<Rightarrow>
          (let (h, r, _) = execute_rollback rollback_id h
           in (h, case r of Inl e \<Rightarrow> Returned (Inl e) | Inr _ \<Rightarrow> AtRollbackCount))
      | AtRollbackCount \<Rightarrow> (count_rollback h, Returned (Inr Rollback))
      | Returned r \<Rightarrow> (h, Returned r))"

text \<open>
  The handler and every call made so far. A step begins a call, under identifiers no earlier call drew
  (\<open>Uuid::new_v4\<close> does not repeat), runs one section of a call, or is one of the other operations.
\<close>

record HandlerSystem =
  hs_handler :: FailureHandler
  hs_calls :: "FailureCall list"

definition run_call :: "nat \<Rightarrow> HandlerSystem \<Rightarrow> HandlerSystem" where
  "run_call i s =
     (let c = hs_calls s ! i; (h, phase) = call_section c (hs_handler s)
      in \<lparr>hs_handler = h, hs_calls = (hs_calls s)[i := c\<lparr>fc_phase := phase\<rparr>]\<rparr>)"

definition begin_call ::
  "call_context \<Rightarrow> string \<Rightarrow> FailureType \<Rightarrow> (string, string) hash_map \<Rightarrow> HandlerSystem \<Rightarrow> HandlerSystem" where
  "begin_call cc b ft md s = s\<lparr>hs_calls := hs_calls s @
     [\<lparr>fc_context = cc, fc_bundle = b, fc_type = ft, fc_metadata = md, fc_phase = AtCheck\<rparr>]\<rparr>"

inductive handler_step :: "HandlerSystem \<Rightarrow> HandlerSystem \<Rightarrow> bool" where
  begins: "\<forall>c \<in> set (hs_calls s). cc_failure_uuid (fc_context c) \<noteq> cc_failure_uuid cc \<Longrightarrow>
     handler_step s (begin_call cc b ft md s)"
| runs: "i < length (hs_calls s) \<Longrightarrow> handler_step s (run_call i s)"
| activates: "handler_step s (s\<lparr>hs_handler := fst (activate_kill_switch now reason by_whom (hs_handler s))\<rparr>)"
| deactivates: "handler_step s (s\<lparr>hs_handler := fst (deactivate_kill_switch deactivated_by (hs_handler s))\<rparr>)"
| cleans: "handler_step s (s\<lparr>hs_handler := cleanup_old_records utc_now now max_age (hs_handler s)\<rparr>)"

definition system_new :: "FailureConfig \<Rightarrow> HandlerSystem" where
  "system_new config = \<lparr>hs_handler = FailureHandler_new config, hs_calls = []\<rparr>"

subsection \<open>The security checklist\<close>

datatype SecurityCategory =
  KeyManagement | NetworkSecurity | TransactionSafety | FundProtection | OperationalSecurity

datatype SecuritySeverity = Critical | High | Medium | Low

record SecurityCheckItem =
  sc_id :: string
  sc_description :: string
  sc_category :: SecurityCategory
  sc_severity :: SecuritySeverity
  sc_checked :: bool
  sc_notes :: "string option"

type_synonym SecurityChecklist = "SecurityCheckItem list"

definition default_checklist :: SecurityChecklist where
  "default_checklist =
     [\<lparr>sc_id = ''key_encryption'',
       sc_description = ''Private keys are encrypted and stored securely'',
       sc_category = KeyManagement, sc_severity = Critical, sc_checked = False, sc_notes = None\<rparr>,
      \<lparr>sc_id = ''network_tls'',
       sc_description = ''All network connections use TLS encryption'',
       sc_category = NetworkSecurity, sc_severity = High, sc_checked = False, sc_notes = None\<rparr>,
      \<lparr>sc_id = ''gas_limits'',
       sc_description = ''Gas limits are set to prevent excessive costs'',
       sc_category = TransactionSafety, sc_severity = High, sc_checked = False, sc_notes = None\<rparr>,
      \<lparr>sc_id = ''fund_limits'',
       sc_description = ''Maximum fund exposure limits are configured'',
       sc_category = FundProtection, sc_severity = Critical, sc_checked = False, sc_notes = None\<rparr>,
      \<lparr>sc_id = ''kill_switch'',
       sc_description = ''Kill switch is functional and tested'',
       sc_category = OperationalSecurity, sc_severity = Critical, sc_checked = False, sc_notes = None\<rparr>]"

definition all_critical_checked :: "SecurityChecklist \<Rightarrow> bool" where
  "all_critical_checked items = list_all sc_checked (filter (\<lambda>i. sc_severity i = Critical) items)"

definition get_unchecked_items :: "SecurityChecklist \<Rightarrow> SecurityCheckItem list" where
  "get_unchecked_items items = filter (\<lambda>i. \<not> sc_checked i) items"

subsection \<open>The outcome of handling a failure\<close>

definition expected_resolution :: "bool \<Rightarrow> FailureType \<Rightarrow> FailureResolution" where
  "expected_resolution rollback_enabled ft =
     (case ft of
        NonceCollision _ _ \<Rightarrow> Retry (secs 2) 3
      | GasUnderpricing _ _ \<Rightarrow> Retry (secs 5) 2
      | NetworkError _ \<Rightarrow> Retry (secs 1) 5
      | MempoolEviction _ \<Rightarrow> Rollback
      | InsufficientFunds _ _ \<Rightarrow> Abort
      | _ \<Rightarrow> if rollback_enabled then Rollback else ManualIntervention)"

definition handled_record :: "call_context \<Rightarrow> string \<Rightarrow> FailureType \<Rightarrow> (string, string) hash_map \<Rightarrow> FailureRecord" where
  "handled_record cc b ft md =
     \<lparr>fr_id = ''failure_'' @ cc_failure_uuid cc, fr_bundle_id = b, fr_failure_type = ft,
      fr_timestamp = cc_utc_now cc,
      fr_retry_count = (case determine_resolution_strategy ft of Retry _ _ \<Rightarrow> 1 | _ \<Rightarrow> 0),
      fr_resolved = (case ft of MempoolEviction _ \<Rightarrow> True | InsufficientFunds _ _ \<Rightarrow> True | _ \<Rightarrow> False),
      fr_resolution_method =
        (case ft of MempoolEviction _ \<Rightarrow> Some ''max_retries_exceeded''
         | InsufficientFunds _ _ \<Rightarrow> Some ''aborted'' | _ \<Rightarrow> None),
      fr_gas_cost = 0, fr_metadata = md\<rparr>"

lemmas handler_defs =
  is_kill_switch_activated_def determine_resolution_strategy_def update_failure_stats_def
  handle_retry_def execute_rollback_def initiate_rollback_def abort_operation_def
  count_rollback_def record_rollback_def store_failure_def new_failure_record_def

lemma one_attempt_below [simp]: "\<not> (2 :: u32) \<le> 1" "\<not> (3 :: u32) \<le> 1" "\<not> (5 :: u32) \<le> 1"
  by (simp_all add: word_le_nat_alt)

text \<open>a call that no other call interrupts: with the kill switch on, a failure changes nothing and is answered with
  \<open>KillSwitchActivated\<close>; otherwise it never fails, its resolution is the one of its type (a mempool
  eviction is never retried: its single attempt counts as exceeded at once), and the record it leaves
  is marked resolved only for an eviction and an abort, so a completed rollback leaves an active failure.\<close>

theorem handle_failure_outcome:
  "let (h', r, slept) = handle_failure cc b ft md h in
     if is_kill_switch_activated h then h' = h \<and> r = Inr KillSwitchActivated \<and> slept = 0
     else r = Inr (expected_resolution (auto_rollback (fh_config h)) ft) \<and>
       hm_get (fh_failures h') (''failure_'' @ cc_failure_uuid cc) = Some (handled_record cc b ft md) \<and>
       slept = (case expected_resolution (auto_rollback (fh_config h)) ft of
                  Retry d _ \<Rightarrow> d
                | Rollback \<Rightarrow> (case ft of MempoolEviction _ \<Rightarrow> 0 | _ \<Rightarrow> millis 500)
                | _ \<Rightarrow> 0)"
  by (cases ft) (simp_all add: handle_failure_def handler_defs handled_record_def
      expected_resolution_def Let_def)

text \<open>the configured retry limits and delays have no effect on the handling of a failure: only
  \<open>auto_rollback\<close> of the configuration is looked at.\<close>

theorem retry_configuration_ignored:
  "handle_failure cc b ft md (h\<lparr>fh_config := c\<rparr>) =
     (let (h', r, slept) = handle_failure cc b ft md
            (h\<lparr>fh_config := FailureConfig_default\<lparr>auto_rollback := auto_rollback c\<rparr>\<rparr>)
      in (h'\<lparr>fh_config := c\<rparr>, r, slept))"
  by (cases ft) (simp_all add: handle_failure_def handler_defs Let_def)

text \<open>\<open>handle_failure\<close> is what a call comes to when it runs its sections without interruption.\<close>

fun call_sections :: "nat \<Rightarrow> FailureCall \<Rightarrow> FailureHandler \<Rightarrow> FailureHandler \<times> FailureCall" where
  "call_sections 0 c h = (h, c)"
| "call_sections (Suc n) c h =
     (let (h, phase) = call_section c h in call_sections n (c\<lparr>fc_phase := phase\<rparr>) h)"

lemma run_call_powers:
  "i < length calls \<Longrightarrow> (run_call i ^^ n) \<lparr>hs_handler = h, hs_calls = calls[i := c]\<rparr> =
     (let (h', c') = call_sections n c h in \<lparr>hs_handler = h', hs_calls = calls[i := c']\<rparr>)"
  by (induction n arbitrary: h c) (simp_all add: funpow_Suc_right run_call_def split_beta Let_def del: funpow.simps(2))

lemma call_sections_returned: "fc_phase c = Returned r \<Longrightarrow> call_sections n c h = (h, c)"
proof (induction n)
  case (Suc n)
  have same: "c\<lparr>fc_phase := Returned r\<rparr> = c"
    using Suc.prems by (cases c) simp
  show ?case
    by (simp add: call_section_def Suc same)
qed simp

lemma call_sections_resolution:
  assumes "fc_phase c = AtResolution" and "hm_get (fh_failures h) (fc_failure_id c) \<noteq> None"
  shows "call_sections 3 c h =
    (let (h', r, slept) = (case determine_resolution_strategy (fc_type c) of
             Retry delay max_attempts \<Rightarrow> handle_retry (fc_failure_id c) delay max_attempts h
           | Rollback \<Rightarrow> initiate_rollback (fc_context c) (fc_bundle c) h
           | Abort \<Rightarrow> (let (h, r) = abort_operation (fc_failure_id c) h in (h, r, 0))
           | KillSwitch \<Rightarrow>
               (let (h, r) = activate_kill_switch (cc_now (fc_context c))
                    ''Automatic activation due to critical failure'' None h
                in (h, Inr r, 0))
           | resolution \<Rightarrow> (h, Inr resolution, 0))
     in (h', c\<lparr>fc_phase := Returned r\<rparr>))"
  using assms
  by (cases "fc_type c") (simp_all add: numeral_3_eq_3 call_section_def resolve_failure_def
      determine_resolution_strategy_def initiate_rollback_def execute_rollback_def record_rollback_def
      split_beta Let_def)

theorem handle_failure_uninterrupted:
  assumes "i < length (hs_calls s)" and "hs_calls s ! i = c" and "fc_phase c = AtCheck"
  shows "let (h', r, slept) = handle_failure (fc_context c) (fc_bundle c) (fc_type c) (fc_metadata c) (hs_handler s)
     in (run_call i ^^ 6) s = \<lparr>hs_handler = h', hs_calls = (hs_calls s)[i := c\<lparr>fc_phase := Returned r\<rparr>]\<rparr>"
proof -
  let ?failure = "new_failure_record (fc_context c) (fc_bundle c) (fc_type c) (fc_metadata c)"
  let ?h = "update_failure_stats (fc_type c) (store_failure ?failure (hs_handler s))"
  have get: "hm_get (fh_failures ?h) (fc_failure_id (c\<lparr>fc_phase := AtResolution\<rparr>)) \<noteq> None"
    by (simp add: update_failure_stats_def store_failure_def new_failure_record_def fc_failure_id_def Let_def)
  have run: "(run_call i ^^ 6) s =
      (let (h', c') = call_sections 6 c (hs_handler s) in \<lparr>hs_handler = h', hs_calls = (hs_calls s)[i := c']\<rparr>)"
    using run_call_powers [OF assms(1), of 6 "hs_handler s" c] assms(2) by (cases s) auto
  show ?thesis
  proof (cases "is_kill_switch_activated (hs_handler s)")
    case True
    have "call_sections (Suc 5) c (hs_handler s) = (hs_handler s, c\<lparr>fc_phase := Returned (Inr KillSwitchActivated)\<rparr>)"
      using assms(3) True by (subst call_sections.simps(2)) (simp add: call_section_def call_sections_returned)
    with run True show ?thesis
      by (simp add: handle_failure_def)
  next
    case False
    have "call_sections (Suc (Suc (Suc 3))) c (hs_handler s) = call_sections 3 (c\<lparr>fc_phase := AtResolution\<rparr>) ?h"
      using assms(3) False by (simp only: call_sections.simps(2)) (simp add: call_section_def)
    with run False show ?thesis
      using call_sections_resolution [OF _ get]
      by (cases "fc_type c") (simp_all add: handle_failure_def determine_resolution_strategy_def
          Let_def split_beta fc_failure_id_def new_failure_record_def)
  qed
qed

subsection \<open>The invariant\<close>

definition record_ok :: "string \<Rightarrow> FailureRecord \<Rightarrow> bool" where
  "record_ok k f \<longleftrightarrow> fr_id f = k \<and> fr_retry_count f \<le> 1 \<and>
     fr_resolved f = (fr_resolution_method f \<noteq> None)"

text \<open>A rollback on record is completed, or pending while a call is about to execute it.\<close>

definition rollback_ok :: "FailureCall list \<Rightarrow> string \<Rightarrow> RollbackOperation \<Rightarrow> bool" where
  "rollback_ok calls k r \<longleftrightarrow> ro_id r = k \<and>
     (ro_status r = RollbackCompleted \<or>
      ro_status r = RollbackPending \<and> (\<exists>c \<in> set calls. fc_phase c = AtRollback k))"

definition switch_ok :: "KillSwitch \<Rightarrow> bool" where
  "switch_ok ks \<longleftrightarrow> ks_activated ks = (ks_reason ks \<noteq> None) \<and>
     ks_activated ks = (ks_activated_at ks \<noteq> None)"

text \<open>The calls that have counted their failure, and those that have counted their rollback.\<close>

definition counted :: "FailureCall \<Rightarrow> bool" where
  "counted c = (case fc_phase c of
      AtCheck \<Rightarrow> False | AtRecord \<Rightarrow> False | AtStats \<Rightarrow> False
    | Returned r \<Rightarrow> r \<noteq> Inr KillSwitchActivated | _ \<Rightarrow> True)"

definition rolled_back :: "FailureCall \<Rightarrow> bool" where
  "rolled_back c \<longleftrightarrow> fc_phase c = Returned (Inr Rollback) \<and> determine_resolution_strategy (fc_type c) = Rollback"

definition count_of :: "('a \<Rightarrow> bool) \<Rightarrow> 'a list \<Rightarrow> u64" where
  "count_of P xs = of_nat (length (filter P xs))"

text \<open>What holds of the handler alone, and of a call in progress.\<close>

definition fh_ok :: "FailureHandler \<Rightarrow> bool" where
  "fh_ok h \<longleftrightarrow>
     hm_wf (fh_failures h) \<and> hm.all_entries record_ok (fh_failures h) \<and> hm_wf (fh_rollbacks h) \<and>
     total_failures (fh_stats h) = sum_list (hm_values (failures_by_type (fh_stats h))) \<and>
     switch_ok (fh_kill_switch h) \<and>
     successful_recoveries (fh_stats h) = 0 \<and> failed_recoveries (fh_stats h) = 0"

definition fresh_record :: "FailureHandler \<Rightarrow> FailureCall \<Rightarrow> bool" where
  "fresh_record h c \<longleftrightarrow> fc_phase c \<in> {AtStats, AtResolution} \<longrightarrow>
     (\<forall>f. hm_get (fh_failures h) (fc_failure_id c) = Some f \<longrightarrow> fr_retry_count f = 0 \<and> \<not> fr_resolved f)"

definition rolling :: "FailureCall \<Rightarrow> bool" where
  "rolling c \<longleftrightarrow> ((\<exists>k. fc_phase c = AtRollback k) \<or> fc_phase c = AtRollbackCount) \<longrightarrow>
     determine_resolution_strategy (fc_type c) = Rollback"

definition hs_ok :: "HandlerSystem \<Rightarrow> bool" where
  "hs_ok s \<longleftrightarrow>
     fh_ok (hs_handler s) \<and> hm.all_entries (rollback_ok (hs_calls s)) (fh_rollbacks (hs_handler s)) \<and>
     distinct (map fc_failure_id (hs_calls s)) \<and> list_all (fresh_record (hs_handler s)) (hs_calls s) \<and>
     list_all rolling (hs_calls s) \<and>
     total_failures (fh_stats (hs_handler s)) = count_of counted (hs_calls s) \<and>
     rollbacks_executed (fh_stats (hs_handler s)) = count_of rolled_back (hs_calls s)"

lemma sum_hm_insert:
  "sum_list (hm_values (hm_insert k (v + x) m)) = sum_list (hm_values m) + x"
  if "(case hm_get m k of Some n \<Rightarrow> n | None \<Rightarrow> 0) = v" for v x :: "'a::ab_group_add"
  using that unfolding hm_values_def hm_insert_def hm_get_def
  by (induction m) (auto simp: algebra_simps split: if_splits)

lemma fh_ok_new: "fh_ok (FailureHandler_new c)"
  by (simp add: fh_ok_def FailureHandler_new_def hm.all_entries_empty hm_values_def hm_empty_def
      hm_wf_def hm.all_entries_def hm_get_def switch_ok_def)

lemma fh_ok_update_stats: "fh_ok h \<Longrightarrow> fh_ok (update_failure_stats ft h)"
  by (simp add: fh_ok_def update_failure_stats_def Let_def sum_hm_insert)

lemma fh_ok_store_failure: "fh_ok h \<Longrightarrow> fh_ok (store_failure (new_failure_record cc b ft md) h)"
  by (simp add: fh_ok_def store_failure_def new_failure_record_def record_ok_def hm.all_entries_put)

lemma fh_ok_record_rollback: "fh_ok h \<Longrightarrow> fh_ok (record_rollback cc b h)"
  by (simp add: fh_ok_def record_rollback_def Let_def)

lemma fh_ok_execute_rollback: "fh_ok h \<Longrightarrow> fh_ok (fst (execute_rollback k h))"
  by (simp add: fh_ok_def execute_rollback_def Let_def split: option.split)

lemma fh_ok_count_rollback: "fh_ok h \<Longrightarrow> fh_ok (count_rollback h)"
  by (simp add: fh_ok_def count_rollback_def)

lemma fh_ok_retry:
  "fh_ok h \<Longrightarrow> (\<And>f. hm_get (fh_failures h) k = Some f \<Longrightarrow> fr_retry_count f = 0 \<and> \<not> fr_resolved f) \<Longrightarrow>
     fh_ok (fst (handle_retry k d n h))"
  by (auto simp: handle_retry_def Let_def fh_ok_def hm.all_entries_def record_ok_def split: option.split)

lemma fh_ok_abort: "fh_ok h \<Longrightarrow> fh_ok (fst (abort_operation k h))"
  by (auto simp: abort_operation_def fh_ok_def hm.all_entries_def record_ok_def split: option.split)

lemma fh_ok_activate: "fh_ok h \<Longrightarrow> fh_ok (fst (activate_kill_switch now reason by_whom h))"
  by (auto simp: activate_kill_switch_def fh_ok_def switch_ok_def)

lemma fh_ok_deactivate: "fh_ok h \<Longrightarrow> fh_ok (fst (deactivate_kill_switch by_whom h))"
  by (auto simp: deactivate_kill_switch_def fh_ok_def switch_ok_def)

lemma fh_ok_cleanup: "fh_ok h \<Longrightarrow> fh_ok (cleanup_old_records utc_now now max_age h)"
  by (simp add: cleanup_old_records_def Let_def fh_ok_def hm.all_entries_keep)

lemmas fh_ok_intros = fh_ok_update_stats fh_ok_store_failure fh_ok_record_rollback fh_ok_execute_rollback
  fh_ok_count_rollback fh_ok_abort fh_ok_activate fh_ok_deactivate fh_ok_cleanup

text \<open>Advancing one call.\<close>

lemma count_of_update:
  "i < length xs \<Longrightarrow> count_of P (xs[i := x]) =
     count_of P xs + (if P x then 1 else 0) - (if P (xs ! i) then 1 else 0)"
  by (induction xs arbitrary: i) (auto simp: count_of_def nth_Cons split: nat.split)

lemma rollback_ok_update:
  assumes "rollback_ok calls k r" and "i < length calls"
    and "fc_phase (calls ! i) = AtRollback k \<Longrightarrow> fc_phase c = AtRollback k"
  shows "rollback_ok (calls[i := c]) k r"
proof -
  have "\<exists>d \<in> set (calls[i := c]). fc_phase d = AtRollback k"
    if d: "d \<in> set calls" "fc_phase d = AtRollback k" for d
  proof -
    from d obtain j where j: "j < length calls" "calls ! j = d"
      by (auto simp: in_set_conv_nth)
    show ?thesis
    proof (cases "j = i")
      case True
      with j d assms(2,3) show ?thesis
        by (auto intro!: bexI [of _ c] simp: set_update_memI)
    next
      case False
      with j d show ?thesis
        by (intro bexI [of _ d]) (auto simp: in_set_conv_nth intro!: exI [of _ j])
    qed
  qed
  with assms(1) show ?thesis
    by (auto simp: rollback_ok_def)
qed

lemma hs_ok_advance:
  assumes ok: "hs_ok s" and i: "i < length (hs_calls s)" "hs_calls s ! i = c"
    and h: "fh_ok h" "fresh_record h (c\<lparr>fc_phase := p\<rparr>)" "rolling (c\<lparr>fc_phase := p\<rparr>)"
    and rb: "\<And>k r. hm_get (fh_rollbacks h) k = Some r \<Longrightarrow>
        rollback_ok ((hs_calls s)[i := c\<lparr>fc_phase := p\<rparr>]) k r"
    and others: "\<And>k. k \<noteq> fc_failure_id c \<Longrightarrow> hm_get (fh_failures h) k = hm_get (fh_failures (hs_handler s)) k"
    and total: "total_failures (fh_stats h) = total_failures (fh_stats (hs_handler s)) +
        (if counted (c\<lparr>fc_phase := p\<rparr>) then 1 else 0) - (if counted c then 1 else 0)"
    and rolled: "rollbacks_executed (fh_stats h) = rollbacks_executed (fh_stats (hs_handler s)) +
        (if rolled_back (c\<lparr>fc_phase := p\<rparr>) then 1 else 0) - (if rolled_back c then 1 else 0)"
  shows "hs_ok \<lparr>hs_handler = h, hs_calls = (hs_calls s)[i := c\<lparr>fc_phase := p\<rparr>]\<rparr>"
proof -
  let ?calls = "(hs_calls s)[i := c\<lparr>fc_phase := p\<rparr>]"
  have ids: "map fc_failure_id ?calls = map fc_failure_id (hs_calls s)"
    using i by (auto simp: map_update fc_failure_id_def list_update_same_conv)
  have "fresh_record h d" if d: "d \<in> set ?calls" for d
  proof -
    from d obtain j where j: "j < length (hs_calls s)" "d = ?calls ! j"
      by (auto simp: in_set_conv_nth)
    show ?thesis
    proof (cases "j = i")
      case False
      then have "fc_failure_id (hs_calls s ! j) \<noteq> fc_failure_id c"
        using ok i j by (auto simp: hs_ok_def distinct_conv_nth)
      then show ?thesis
        using ok False j others [of "fc_failure_id d"] by (simp add: hs_ok_def list_all_length fresh_record_def)
    qed (use j h(2) in simp)
  qed
  moreover have "rolling d" if "d \<in> set ?calls" for d
    using that ok h(3) by (auto simp: hs_ok_def list_all_iff dest!: subsetD [OF set_update_subset_insert])
  ultimately show ?thesis
    using ok h(1) rb ids total rolled i
    by (simp add: hs_ok_def hm.all_entries_def list_all_iff count_of_update)
qed

text \<open>A section that leaves the rollbacks and their count alone.\<close>

lemma hs_ok_advance_failures:
  assumes ok: "hs_ok s" and i: "i < length (hs_calls s)" "hs_calls s ! i = c"
    and "fh_ok h" "fresh_record h (c\<lparr>fc_phase := p\<rparr>)"
    and "\<And>k. k \<noteq> fc_failure_id c \<Longrightarrow> hm_get (fh_failures h) k = hm_get (fh_failures (hs_handler s)) k"
    and "total_failures (fh_stats h) = total_failures (fh_stats (hs_handler s)) +
        (if counted (c\<lparr>fc_phase := p\<rparr>) then 1 else 0) - (if counted c then 1 else 0)"
    and same: "fh_rollbacks h = fh_rollbacks (hs_handler s)"
      "rollbacks_executed (fh_stats h) = rollbacks_executed (fh_stats (hs_handler s))"
    and phase: "\<And>k. fc_phase c \<noteq> AtRollback k" "\<And>k. p \<noteq> AtRollback k" "p \<noteq> AtRollbackCount"
      "\<not> rolled_back (c\<lparr>fc_phase := p\<rparr>)" "\<not> rolled_back c"
  shows "hs_ok \<lparr>hs_handler = h, hs_calls = (hs_calls s)[i := c\<lparr>fc_phase := p\<rparr>]\<rparr>"
proof (rule hs_ok_advance [OF ok i assms(4,5) _ _ assms(6,7)])
  show "rolling (c\<lparr>fc_phase := p\<rparr>)"
    using phase by (simp add: rolling_def)
next
  fix k r
  assume "hm_get (fh_rollbacks h) k = Some r"
  with ok same(1) have "rollback_ok (hs_calls s) k r"
    by (simp add: hs_ok_def hm.all_entries_def)
  then show "rollback_ok ((hs_calls s)[i := c\<lparr>fc_phase := p\<rparr>]) k r"
    using i phase by (intro rollback_ok_update) auto
qed (use same phase in auto)

lemma hs_ok_fresh:
  "hs_ok s \<Longrightarrow> i < length (hs_calls s) \<Longrightarrow> fc_phase (hs_calls s ! i) \<in> {AtStats, AtResolution} \<Longrightarrow>
     hm_get (fh_failures (hs_handler s)) (fc_failure_id (hs_calls s ! i)) = Some f \<Longrightarrow>
     fr_retry_count f = 0 \<and> \<not> fr_resolved f"
  by (auto simp: hs_ok_def list_all_length fresh_record_def)

lemma hs_ok_resolve:
  assumes ok: "hs_ok s" and i: "i < length (hs_calls s)" "hs_calls s ! i = c" "fc_phase c = AtResolution"
  shows "hs_ok (run_call i s)"
proof -
  let ?h = "hs_handler s"
  have fh: "fh_ok ?h"
    using ok by (simp add: hs_ok_def)
  have fresh: "fr_retry_count f = 0 \<and> \<not> fr_resolved f" if "hm_get (fh_failures ?h) (fc_failure_id c) = Some f" for f
    using hs_ok_fresh [OF ok i(1)] i that by simp
  have run: "run_call i s = (let (h, p) = resolve_failure c ?h in
      \<lparr>hs_handler = h, hs_calls = (hs_calls s)[i := c\<lparr>fc_phase := p\<rparr>]\<rparr>)"
    using i by (simp add: run_call_def call_section_def)
  note step = hs_ok_advance_failures [OF ok i(1,2)]
  show ?thesis
  proof (cases "determine_resolution_strategy (fc_type c)")
    case (Retry d n)
    have "hs_ok \<lparr>hs_handler = fst (handle_retry (fc_failure_id c) d n ?h),
        hs_calls = (hs_calls s)[i := c\<lparr>fc_phase := Returned (fst (snd (handle_retry (fc_failure_id c) d n ?h)))\<rparr>]\<rparr>"
      by (rule step, rule fh_ok_retry [OF fh fresh])
        (use i(3) Retry in \<open>auto simp: fresh_record_def counted_def rolled_back_def handle_retry_def Let_def
           split: option.split\<close>)
    with run Retry show ?thesis
      by (simp add: resolve_failure_def split_beta Let_def)
  next
    case Abort
    have "hs_ok \<lparr>hs_handler = fst (abort_operation (fc_failure_id c) ?h),
        hs_calls = (hs_calls s)[i := c\<lparr>fc_phase := Returned (snd (abort_operation (fc_failure_id c) ?h))\<rparr>]\<rparr>"
      by (rule step, rule fh_ok_abort [OF fh])
        (use i(3) Abort in \<open>auto simp: fresh_record_def counted_def rolled_back_def abort_operation_def
           split: option.split\<close>)
    with run Abort show ?thesis
      by (simp add: resolve_failure_def split_beta Let_def)
  next
    case Rollback
    show ?thesis
    proof (cases "auto_rollback (fh_config ?h)")
      case False
      have "hs_ok \<lparr>hs_handler = ?h, hs_calls = (hs_calls s)[i := c\<lparr>fc_phase := Returned (Inr ManualIntervention)\<rparr>]\<rparr>"
        by (rule step) (use i(3) fh in \<open>auto simp: fresh_record_def counted_def rolled_back_def\<close>)
      with run Rollback False show ?thesis
        by (simp add: resolve_failure_def)
    next
      case True
      let ?k = "''rollback_'' @ cc_rollback_uuid (fc_context c)"
      let ?h' = "record_rollback (fc_context c) (fc_bundle c) ?h"
      have "hs_ok \<lparr>hs_handler = ?h', hs_calls = (hs_calls s)[i := c\<lparr>fc_phase := AtRollback ?k\<rparr>]\<rparr>"
      proof (rule hs_ok_advance [OF ok i(1,2)])
        fix k r
        assume k: "hm_get (fh_rollbacks ?h') k = Some r"
        show "rollback_ok ((hs_calls s)[i := c\<lparr>fc_phase := AtRollback ?k\<rparr>]) k r"
        proof (cases "k = ?k")
          case True
          then show ?thesis
            using k i(1) by (auto simp: record_rollback_def Let_def rollback_ok_def
                intro!: bexI [OF _ set_update_memI [OF i(1)]])
        next
          case False
          with k ok have "rollback_ok (hs_calls s) k r"
            by (simp add: record_rollback_def Let_def hs_ok_def hm.all_entries_def)
          then show ?thesis
            using i by (rule_tac rollback_ok_update) auto
        qed
      qed (use i(3) fh Rollback in \<open>auto simp: fresh_record_def counted_def rolled_back_def rolling_def record_rollback_def
             fh_ok_def Let_def\<close>)
      with run Rollback True show ?thesis
        by (simp add: resolve_failure_def)
    qed
  qed (auto simp: determine_resolution_strategy_def split: FailureType.splits)
qed

lemma hs_ok_rollback:
  assumes ok: "hs_ok s" and i: "i < length (hs_calls s)" "hs_calls s ! i = c" "fc_phase c = AtRollback k"
  shows "hs_ok (run_call i s)"
proof -
  let ?h = "fst (execute_rollback k (hs_handler s))"
  let ?r = "fst (snd (execute_rollback k (hs_handler s)))"
  let ?p = "case ?r of Inl e \<Rightarrow> Returned (Inl e) | Inr _ \<Rightarrow> AtRollbackCount"
  have strategy: "determine_resolution_strategy (fc_type c) = Rollback"
    using ok i by (auto simp: hs_ok_def list_all_length rolling_def)
  have "hs_ok \<lparr>hs_handler = ?h, hs_calls = (hs_calls s)[i := c\<lparr>fc_phase := ?p\<rparr>]\<rparr>"
  proof (rule hs_ok_advance [OF ok i(1,2)])
    fix k' r
    assume k': "hm_get (fh_rollbacks ?h) k' = Some r"
    show "rollback_ok ((hs_calls s)[i := c\<lparr>fc_phase := ?p\<rparr>]) k' r"
    proof (cases "k' = k")
      case True
      with k' ok show ?thesis
        by (auto simp: execute_rollback_def Let_def hs_ok_def hm.all_entries_def rollback_ok_def split: option.splits)
    next
      case False
      with k' ok have "rollback_ok (hs_calls s) k' r"
        by (auto simp: execute_rollback_def Let_def hs_ok_def hm.all_entries_def split: option.splits)
      then show ?thesis
        using i False by (rule_tac rollback_ok_update) auto
    qed
  next
    show "fh_ok ?h"
      using ok by (simp add: hs_ok_def fh_ok_execute_rollback)
  qed (use i(3) strategy in \<open>auto simp: fresh_record_def counted_def rolled_back_def rolling_def
         execute_rollback_def Let_def split: option.split sum.split\<close>)
  then show ?thesis
    using i by (simp add: run_call_def call_section_def split_beta Let_def)
qed

lemma hs_ok_run:
  assumes ok: "hs_ok s" and i: "i < length (hs_calls s)"
  shows "hs_ok (run_call i s)"
proof -
  define c where "c = hs_calls s ! i"
  note step = hs_ok_advance_failures [OF ok i c_def [symmetric]]
  have fh: "fh_ok (hs_handler s)"
    using ok by (simp add: hs_ok_def)
  have run: "run_call i s = (let (h, p) = call_section c (hs_handler s) in
      \<lparr>hs_handler = h, hs_calls = (hs_calls s)[i := c\<lparr>fc_phase := p\<rparr>]\<rparr>)"
    by (simp add: run_call_def c_def Let_def)
  show ?thesis
  proof (cases "fc_phase c")
    case AtCheck
    let ?p = "if is_kill_switch_activated (hs_handler s) then Returned (Inr KillSwitchActivated) else AtRecord"
    have "hs_ok \<lparr>hs_handler = hs_handler s, hs_calls = (hs_calls s)[i := c\<lparr>fc_phase := ?p\<rparr>]\<rparr>"
      by (rule step) (use AtCheck fh in \<open>auto simp: fresh_record_def counted_def rolled_back_def\<close>)
    with run AtCheck show ?thesis
      by (simp add: call_section_def)
  next
    case AtRecord
    let ?h = "store_failure (new_failure_record (fc_context c) (fc_bundle c) (fc_type c) (fc_metadata c)) (hs_handler s)"
    have "hs_ok \<lparr>hs_handler = ?h, hs_calls = (hs_calls s)[i := c\<lparr>fc_phase := AtStats\<rparr>]\<rparr>"
      by (rule step, rule fh_ok_store_failure [OF fh])
        (use AtRecord in \<open>auto simp: fresh_record_def counted_def rolled_back_def store_failure_def
           new_failure_record_def fc_failure_id_def\<close>)
    with run AtRecord show ?thesis
      by (simp add: call_section_def)
  next
    case AtStats
    let ?h = "update_failure_stats (fc_type c) (hs_handler s)"
    have "hs_ok \<lparr>hs_handler = ?h, hs_calls = (hs_calls s)[i := c\<lparr>fc_phase := AtResolution\<rparr>]\<rparr>"
      by (rule step, rule fh_ok_update_stats [OF fh])
        (use AtStats hs_ok_fresh [OF ok i] in \<open>auto simp: c_def [symmetric] fresh_record_def counted_def
           fc_failure_id_def rolled_back_def update_failure_stats_def Let_def\<close>)
    with run AtStats show ?thesis
      by (simp add: call_section_def)
  next
    case AtRollbackCount
    have "hs_ok \<lparr>hs_handler = count_rollback (hs_handler s),
        hs_calls = (hs_calls s)[i := c\<lparr>fc_phase := Returned (Inr Rollback)\<rparr>]\<rparr>"
    proof (rule hs_ok_advance [OF ok i c_def [symmetric]])
      fix k r
      assume "hm_get (fh_rollbacks (count_rollback (hs_handler s))) k = Some r"
      then show "rollback_ok ((hs_calls s)[i := c\<lparr>fc_phase := Returned (Inr Rollback)\<rparr>]) k r"
        using ok i AtRollbackCount
        by (intro rollback_ok_update) (auto simp: count_rollback_def hs_ok_def hm.all_entries_def c_def)
    next
      have "determine_resolution_strategy (fc_type c) = Rollback"
        using ok i AtRollbackCount by (auto simp: hs_ok_def list_all_length rolling_def c_def)
      then show "rollbacks_executed (fh_stats (count_rollback (hs_handler s))) =
          rollbacks_executed (fh_stats (hs_handler s)) +
          (if rolled_back (c\<lparr>fc_phase := Returned (Inr Rollback)\<rparr>) then 1 else 0) - (if rolled_back c then 1 else 0)"
        using AtRollbackCount by (simp add: count_rollback_def rolled_back_def)
    qed (use AtRollbackCount fh in \<open>auto simp: fresh_record_def counted_def rolling_def count_rollback_def fh_ok_def\<close>)
    with run AtRollbackCount show ?thesis
      by (simp add: call_section_def)
  next
    case (Returned r)
    have same: "c\<lparr>fc_phase := Returned r\<rparr> = c"
      using Returned by (cases c) simp
    have "run_call i s = s"
      unfolding run using Returned by (simp add: call_section_def same) (simp add: c_def)
    with ok show ?thesis by simp
  qed (use hs_ok_resolve [OF ok i] hs_ok_rollback [OF ok i] in \<open>simp_all add: c_def\<close>)
qed

lemma hs_ok_handler:
  assumes "hs_ok s" and "fh_ok h" and "fh_failures h = fh_failures (hs_handler s)"
    and "fh_rollbacks h = fh_rollbacks (hs_handler s)"
    and "total_failures (fh_stats h) = total_failures (fh_stats (hs_handler s))"
    and "rollbacks_executed (fh_stats h) = rollbacks_executed (fh_stats (hs_handler s))"
  shows "hs_ok (s\<lparr>hs_handler := h\<rparr>)"
  using assms by (auto simp: hs_ok_def fresh_record_def list_all_iff)

lemma hs_ok_begin:
  assumes ok: "hs_ok s"
    and fresh: "\<forall>c \<in> set (hs_calls s). cc_failure_uuid (fc_context c) \<noteq> cc_failure_uuid cc"
  shows "hs_ok (begin_call cc b ft md s)"
proof -
  have "hm.all_entries (rollback_ok (hs_calls (begin_call cc b ft md s))) (fh_rollbacks (hs_handler s))"
    using ok by (fastforce simp: hs_ok_def hm.all_entries_def rollback_ok_def begin_call_def)
  with ok fresh show ?thesis
    by (auto simp: hs_ok_def begin_call_def fc_failure_id_def fresh_record_def rolling_def count_of_def
        counted_def rolled_back_def)
qed

lemma hs_ok_cleanup:
  assumes ok: "hs_ok s"
  shows "hs_ok (s\<lparr>hs_handler := cleanup_old_records utc_now now max_age (hs_handler s)\<rparr>)"
proof -
  have wf: "hm_wf (fh_failures (hs_handler s))" "hm_wf (fh_rollbacks (hs_handler s))"
    using ok by (simp_all add: hs_ok_def fh_ok_def)
  have "fresh_record (cleanup_old_records utc_now now max_age (hs_handler s)) c"
    if "fresh_record (hs_handler s) c" for c
    using that wf(1) by (auto simp: fresh_record_def cleanup_old_records_def Let_def hm.keep_Some_iff)
  with ok have "list_all (fresh_record (cleanup_old_records utc_now now max_age (hs_handler s))) (hs_calls s)"
    by (auto simp: hs_ok_def list_all_iff)
  moreover have "fh_ok (cleanup_old_records utc_now now max_age (hs_handler s))"
    using ok by (simp add: hs_ok_def fh_ok_cleanup)
  ultimately show ?thesis
    using ok wf(2) by (auto simp: hs_ok_def cleanup_old_records_def Let_def hm.all_entries_keep)
qed

lemma hs_ok_step: "handler_step s s' \<Longrightarrow> hs_ok s \<Longrightarrow> hs_ok s'"
proof (induction rule: handler_step.induct)
  case (activates s now reason by_whom)
  then show ?case
    by (intro hs_ok_handler fh_ok_activate) (auto simp: hs_ok_def activate_kill_switch_def)
next
  case (deactivates s deactivated_by)
  then show ?case
    by (intro hs_ok_handler fh_ok_deactivate) (auto simp: hs_ok_def deactivate_kill_switch_def)
qed (simp_all add: hs_ok_begin hs_ok_run hs_ok_cleanup)

lemma hs_ok_new: "hs_ok (system_new config)"
  using fh_ok_new [of config]
  by (simp add: hs_ok_def system_new_def count_of_def)
    (simp add: FailureHandler_new_def hm.all_entries_empty)

lemma reachable_hs_ok: "handler_step\<^sup>*\<^sup>* (system_new config) s \<Longrightarrow> hs_ok s"
  by (induction rule: rtranclp_induct) (auto intro: hs_ok_new hs_ok_step)

text \<open>C7: in every state that calls of the handler reach by taking turns between their locks,
  together with activations, deactivations and clean-ups, the failures counted by type add up to the total, which is
  the number of calls that have counted their failure, and the rollback count is the number of calls that have
  finished a rollback; every rollback a reader sees is completed, or pending while a call
  is about to execute it, and completed once all calls have returned; the kill switch has a reason and a
  time exactly when it is on; and no failure has been retried more than once, so no limit
  above one is ever met. Identifiers are distinct and calls are not dropped before they return.\<close>

theorem reachable_handler_ok:
  assumes "handler_step\<^sup>*\<^sup>* (system_new config) s"
  shows "let h = hs_handler s; stats = get_failure_stats h; ks = fh_kill_switch h in
     total_failures stats = sum_list (hm_values (failures_by_type stats)) \<and>
     total_failures stats = count_of counted (hs_calls s) \<and>
     rollbacks_executed stats = count_of rolled_back (hs_calls s) \<and>
     (\<forall>r \<in> set (get_rollback_operations h). ro_status r = RollbackCompleted \<or>
        ro_status r = RollbackPending \<and> (\<exists>c \<in> set (hs_calls s). fc_phase c = AtRollback (ro_id r))) \<and>
     ((\<forall>c \<in> set (hs_calls s). \<exists>r. fc_phase c = Returned r) \<longrightarrow>
        (\<forall>r \<in> set (get_rollback_operations h). ro_status r = RollbackCompleted)) \<and>
     ks_activated ks = (ks_reason ks \<noteq> None) \<and> ks_activated ks = (ks_activated_at ks \<noteq> None) \<and>
     (\<forall>f \<in> set (hm_values (fh_failures h)). fr_retry_count f \<le> 1 \<and>
        fr_resolved f = (fr_resolution_method f \<noteq> None))"
proof -
  from reachable_hs_ok [OF assms] have ok: "hs_ok s" .
  have rollbacks: "rollback_ok (hs_calls s) (ro_id r) r"
    if r: "r \<in> set (get_rollback_operations (hs_handler s))" for r
  proof -
    from r obtain k where "(k, r) \<in> set (fh_rollbacks (hs_handler s))"
      by (auto simp: get_rollback_operations_def hm_values_def)
    with ok have "rollback_ok (hs_calls s) k r"
      by (simp add: hs_ok_def fh_ok_def hm.all_entries_def hm_get_Some_iff)
    then show ?thesis
      by (simp add: rollback_ok_def)
  qed
  have records: "\<exists>k. record_ok k f" if f: "f \<in> set (hm_values (fh_failures (hs_handler s)))" for f
  proof -
    from f obtain k where "(k, f) \<in> set (fh_failures (hs_handler s))"
      by (auto simp: hm_values_def)
    with ok have "record_ok k f"
      by (simp add: hs_ok_def fh_ok_def hm.all_entries_def hm_get_Some_iff)
    then show ?thesis ..
  qed
  show ?thesis
    using ok records rollbacks
    by (fastforce simp: Let_def get_failure_stats_def hs_ok_def fh_ok_def switch_ok_def rollback_ok_def record_ok_def)
qed

definition demo_call :: call_context where
  "demo_call = \<lparr>cc_failure_uuid = ''1'', cc_rollback_uuid = ''2'', cc_utc_now = 10, cc_now = 10\<rparr>"

text \<open>A call that has recorded its rollback and not yet executed it.\<close>

definition demo_pending :: HandlerSystem where
  "demo_pending = (run_call 0 ^^ 4) (begin_call demo_call ''b'' (Reorg 5 6) [] (system_new FailureConfig_default))"

lemma run_call_reachable:
  "0 < length (hs_calls s) \<Longrightarrow> handler_step\<^sup>*\<^sup>* s ((run_call 0 ^^ n) s)"
proof (induction n)
  case (Suc n)
  have "length (hs_calls ((run_call 0 ^^ n) s)) = length (hs_calls s)"
    by (induction n) (simp_all add: run_call_def split_beta Let_def)
  with Suc have "handler_step ((run_call 0 ^^ n) s) (run_call 0 ((run_call 0 ^^ n) s))"
    by (intro handler_step.runs) simp
  with Suc show ?case
    by (simp add: rtranclp.rtrancl_into_rtrancl)
qed simp

lemma demo_pending_reachable: "handler_step\<^sup>*\<^sup>* (system_new FailureConfig_default) demo_pending"
  unfolding demo_pending_def
  by (rule converse_rtranclp_into_rtranclp, rule handler_step.begins [of _ demo_call], simp add: system_new_def)
    (rule run_call_reachable, simp add: begin_call_def)

theorem reachable_handler_ok_witness:
  "map ro_status (get_rollback_operations (hs_handler demo_pending)) = [RollbackPending] \<and>
   (\<exists>c \<in> set (hs_calls demo_pending). fc_phase c = AtRollback ''rollback_2'')"
proof -
  have pending: "get_rollback_operations (hs_handler demo_pending) =
      [\<lparr>ro_id = ''rollback_2'', ro_bundle_id = ''b'', ro_transactions = [], ro_created_at = 10,
        ro_status = RollbackPending\<rparr>]"
    by (simp add: demo_pending_def begin_call_def system_new_def demo_call_def FailureHandler_new_def
        FailureConfig_default_def run_call_def call_section_def resolve_failure_def handler_defs
        get_rollback_operations_def hm_values_def hm_insert_def hm_empty_def numeral_eq_Suc Let_def)
  with reachable_handler_ok [OF demo_pending_reachable] show ?thesis
    by (simp add: Let_def)
qed

subsection \<open>The kill switch\<close>

text \<open>Everything but a deactivation: what may happen while the kill switch is on.\<close>

inductive blocked_step :: "HandlerSystem \<Rightarrow> HandlerSystem \<Rightarrow> bool" where
  "blocked_step s (begin_call cc b ft md s)"
| "i < length (hs_calls s) \<Longrightarrow> blocked_step s (run_call i s)"
| "blocked_step s (s\<lparr>hs_handler := fst (activate_kill_switch now reason by_whom (hs_handler s))\<rparr>)"
| "blocked_step s (s\<lparr>hs_handler := cleanup_old_records utc_now now max_age (hs_handler s)\<rparr>)"

text \<open>No call is past the check of the kill switch.\<close>

definition none_admitted :: "HandlerSystem \<Rightarrow> bool" where
  "none_admitted s \<longleftrightarrow> (\<forall>c \<in> set (hs_calls s). fc_phase c = AtCheck \<or> (\<exists>r. fc_phase c = Returned r))"

lemma blocked_call:
  assumes "none_admitted s" and "is_kill_switch_activated (hs_handler s)" and "i < length (hs_calls s)"
  shows "hs_handler (run_call i s) = hs_handler s \<and> none_admitted (run_call i s)"
proof -
  have "fc_phase (hs_calls s ! i) = AtCheck \<or> (\<exists>r. fc_phase (hs_calls s ! i) = Returned r)"
    using assms(1,3) by (simp add: none_admitted_def)
  then obtain r where "call_section (hs_calls s ! i) (hs_handler s) = (hs_handler s, Returned r)"
    using assms(2) by (auto simp: call_section_def)
  with assms show ?thesis
    by (auto simp: run_call_def none_admitted_def Let_def dest!: subsetD [OF set_update_subset_insert])
qed

text \<open>once the kill switch is on and the calls it admitted have returned, no sequence of calls, further
  activations and clean-ups changes the statistics or the switch, starts a rollback or records a failure;
  only a deactivation resumes the handling.\<close>

theorem kill_switch_blocks_failures:
  assumes "blocked_step\<^sup>*\<^sup>* s s'" and on: "is_kill_switch_activated (hs_handler s)" and "none_admitted s"
  shows "let h = hs_handler s; h' = hs_handler s' in
    fh_stats h' = fh_stats h \<and> fh_kill_switch h' = fh_kill_switch h \<and>
    set (fh_failures h') \<subseteq> set (fh_failures h) \<and> set (fh_rollbacks h') \<subseteq> set (fh_rollbacks h)"
proof -
  have "none_admitted s' \<and> fh_stats (hs_handler s') = fh_stats (hs_handler s) \<and>
    fh_kill_switch (hs_handler s') = fh_kill_switch (hs_handler s) \<and>
    set (fh_failures (hs_handler s')) \<subseteq> set (fh_failures (hs_handler s)) \<and>
    set (fh_rollbacks (hs_handler s')) \<subseteq> set (fh_rollbacks (hs_handler s))"
    using assms(1)
  proof (induction rule: rtranclp_induct)
    case base
    with assms(3) show ?case by simp
  next
    case (step s1 s2)
    from step.IH on have on1: "is_kill_switch_activated (hs_handler s1)"
      by (simp add: is_kill_switch_activated_def)
    from step.hyps(2) show ?case
    proof cases
      case (2 i)
      with blocked_call [of s1 i] step.IH on1 show ?thesis
        by simp
    qed (use step.IH on1 in \<open>auto simp: begin_call_def none_admitted_def activate_kill_switch_def
           is_kill_switch_activated_def cleanup_old_records_def Let_def hm_retain_def\<close>)
  qed
  then show ?thesis by (simp add: Let_def)
qed

theorem kill_switch_blocks_failures_witness:
  "let s = (system_new FailureConfig_default)\<lparr>hs_handler := fst (activate_kill_switch 20 ''stop'' None
         (FailureHandler_new FailureConfig_default))\<rparr>;
       h' = hs_handler (begin_call demo_call ''b'' (Reorg 5 6) [] s)
   in total_failures (fh_stats h') = 0 \<and> ks_activated (fh_kill_switch h') \<and> fh_rollbacks h' = []"
proof -
  let ?s = "(system_new FailureConfig_default)\<lparr>hs_handler := fst (activate_kill_switch 20 ''stop'' None
      (FailureHandler_new FailureConfig_default))\<rparr>"
  have "blocked_step\<^sup>*\<^sup>* ?s (begin_call demo_call ''b'' (Reorg 5 6) [] ?s)"
    by (rule r_into_rtranclp) (rule blocked_step.intros(1))
  from kill_switch_blocks_failures [OF this]
  show ?thesis
    by (simp add: activate_kill_switch_def FailureHandler_new_def is_kill_switch_activated_def hm_empty_def
        system_new_def none_admitted_def Let_def)
qed

end
