(* ===== verification/State_Manager.thy ===== *)
theory State_Manager
  imports Hash_Map Interfaces
begin

text \<open>
  \<open>crates/mev-core/src/state_manager.rs\<close>: the chain of block headers with the detection of
  reorganizations, the pending transactions with their expiry, and the highest nonce of each sender.

  A reading of \<open>Utc::now\<close> is an \<^typ>\<open>int\<close> of nanoseconds, a reading of \<open>Instant::now\<close> an
  \<^typ>\<open>nat\<close>; both are arguments. Each lock is taken and released inside one operation, so an
  operation is one step. Saving and loading are placeholders in the source (they only log) and have no
  effect here. Times stay in chrono's range.
\<close>

subsection \<open>Data\<close>

record BlockHeader =
  bh_number :: u64
  bh_hash :: string
  bh_parent_hash :: string
  bh_timestamp :: u64
  bh_gas_limit :: u64
  bh_gas_used :: u64
  bh_difficulty :: string
  bh_nonce :: string

definition BlockHeader_new :: "int \<Rightarrow> u64 \<Rightarrow> string \<Rightarrow> string \<Rightarrow> BlockHeader" where
  "BlockHeader_new utc_secs number hash parent_hash =
     \<lparr>bh_number = number, bh_hash = hash, bh_parent_hash = parent_hash,
      bh_timestamp = word_of_int utc_secs, bh_gas_limit = 30000000, bh_gas_used = 0,
      bh_difficulty = ''0x0'', bh_nonce = ''0x0''\<rparr>"

datatype TransactionStatus = Pending | Included | Dropped | Replaced

record PendingTransactionState =
  pt_hash :: string
  pt_from :: string
  pt_to :: "string option"
  pt_nonce :: u64
  pt_gas_price :: u64
  pt_gas_limit :: u64
  pt_value :: string
  pt_data :: string
  pt_first_seen :: int
  pt_last_seen :: int
  pt_seen_count :: u32
  pt_block_number :: "u64 option"
  pt_block_hash :: "string option"
  pt_status :: TransactionStatus

record ReorgEvent =
  re_old_chain :: "BlockHeader list"
  re_new_chain :: "BlockHeader list"
  re_common_ancestor :: BlockHeader
  re_depth :: u64
  re_detected_at :: int
  re_affected_transactions :: "string list"

record StateManagerConfig =
  max_pending_transactions :: usize
  max_block_history :: usize
  transaction_ttl_seconds :: u64
  reorg_detection_depth :: u64
  checkpoint_interval_seconds :: u64
  enable_persistence :: bool
  database_path :: string

definition StateManagerConfig_default :: StateManagerConfig where
  "StateManagerConfig_default =
     \<lparr>max_pending_transactions = 100000, max_block_history = 1000, transaction_ttl_seconds = 300,
      reorg_detection_depth = 64, checkpoint_interval_seconds = 60, enable_persistence = True,
      database_path = ''mev_state.db''\<rparr>"

record StateManager =
  sm_config :: StateManagerConfig
  sm_block_headers :: "BlockHeader list"
  sm_current_head :: "BlockHeader option"
  sm_pending :: "(string, PendingTransactionState) hash_map"
  sm_nonce_tracker :: "(string, u64) hash_map"
  sm_reorg_events :: "ReorgEvent list"
  sm_last_checkpoint :: instant

definition StateManager_new :: "instant \<Rightarrow> StateManagerConfig \<Rightarrow> StateManager" where
  "StateManager_new now config =
     \<lparr>sm_config = config, sm_block_headers = [], sm_current_head = None, sm_pending = hm_empty,
      sm_nonce_tracker = hm_empty, sm_reorg_events = [], sm_last_checkpoint = now\<rparr>"

subsection \<open>Block headers\<close>

definition initialize :: "BlockHeader \<Rightarrow> StateManager \<Rightarrow> StateManager" where
  "initialize current_block s =
     s\<lparr>sm_current_head := Some current_block,
       sm_block_headers := sm_block_headers s @ [current_block]\<rparr>"

definition get_affected_transactions :: "BlockHeader \<Rightarrow> BlockHeader \<Rightarrow> string list" where
  "get_affected_transactions old_block new_block = []"

fun mark_transactions_as_dropped :: "string list \<Rightarrow> StateManager \<Rightarrow> StateManager" where
  "mark_transactions_as_dropped [] s = s"
| "mark_transactions_as_dropped (h # hs) s =
     mark_transactions_as_dropped hs
       (s\<lparr>sm_pending := hm_modify h (\<lambda>tx. tx\<lparr>pt_status := Dropped\<rparr>) (sm_pending s)\<rparr>)"

definition detect_reorg ::
  "int \<Rightarrow> BlockHeader \<Rightarrow> BlockHeader \<Rightarrow> StateManager \<Rightarrow> StateManager \<times> ReorgEvent option"
where
  "detect_reorg utc_now current new_header s =
     (let reorg_event = \<lparr>re_old_chain = [current], re_new_chain = [new_header],
            re_common_ancestor = current, re_depth = 1, re_detected_at = utc_now,
            re_affected_transactions = get_affected_transactions current new_header\<rparr>
      in (s\<lparr>sm_reorg_events := sm_reorg_events s @ [reorg_event]\<rparr>, Some reorg_event))"

definition handle_reorg ::
  "int \<Rightarrow> BlockHeader \<Rightarrow> BlockHeader \<Rightarrow> StateManager \<Rightarrow> StateManager \<times> ReorgEvent option"
where
  "handle_reorg utc_now current new_header s =
     (let affected_txs = get_affected_transactions current new_header;
          s = mark_transactions_as_dropped affected_txs s;
          reorg_event = \<lparr>re_old_chain = [current], re_new_chain = [new_header],
            re_common_ancestor = current, re_depth = 1, re_detected_at = utc_now,
            re_affected_transactions = affected_txs\<rparr>
      in (s\<lparr>sm_reorg_events := sm_reorg_events s @ [reorg_event]\<rparr>, Some reorg_event))"

text \<open>\<open>while headers.len() > max { headers.pop_front(); }\<close>\<close>

fun trim_history :: "nat \<Rightarrow> BlockHeader list \<Rightarrow> BlockHeader list" where
  "trim_history n [] = []"
| "trim_history n (h # hs) = (if n < length (h # hs) then trim_history n hs else h # hs)"

text \<open>\<open>update_transaction_states\<close> does nothing in the source.\<close>

definition update_transaction_states :: "BlockHeader \<Rightarrow> StateManager \<Rightarrow> StateManager" where
  "update_transaction_states block s = s"

definition update_block_header ::
  "int \<Rightarrow> BlockHeader \<Rightarrow> StateManager \<Rightarrow> StateManager \<times> ReorgEvent option"
where
  "update_block_header utc_now new_header s =
     (let (s, reorg_event) =
            (case sm_current_head s of
               Some current \<Rightarrow>
                 if bh_number new_header \<le> bh_number current then detect_reorg utc_now current new_header s
                 else if bh_parent_hash new_header \<noteq> bh_hash current
                 then handle_reorg utc_now current new_header s
                 else (s, None)
             | None \<Rightarrow> (s, None));
          s = s\<lparr>sm_current_head := Some new_header\<rparr>;
          s = s\<lparr>sm_block_headers := trim_history (unat (max_block_history (sm_config s)))
                  (sm_block_headers s @ [new_header])\<rparr>;
          s = update_transaction_states new_header s
      in (s, reorg_event))"

subsection \<open>Pending transactions\<close>

text \<open>The time to live is cast with \<open>as i64\<close>, which reads the word as signed.\<close>

definition expiry_cutoff :: "int \<Rightarrow> StateManagerConfig \<Rightarrow> int" where
  "expiry_cutoff utc_now c = utc_now - sint (transaction_ttl_seconds c) * 1000000000"

definition cleanup_old_transactions ::
  "int \<Rightarrow> StateManagerConfig \<Rightarrow> (string, PendingTransactionState) hash_map \<Rightarrow>
   (string, PendingTransactionState) hash_map"
where
  "cleanup_old_transactions utc_now c pending =
     (let cutoff = expiry_cutoff utc_now c;
          old_txs = map fst (filter (\<lambda>(_, tx). pt_first_seen tx < cutoff) pending)
      in fold hm_remove old_txs pending)"

definition cleanup_expired_transactions :: "int \<Rightarrow> StateManager \<Rightarrow> StateManager" where
  "cleanup_expired_transactions utc_now s =
     s\<lparr>sm_pending := cleanup_old_transactions utc_now (sm_config s) (sm_pending s)\<rparr>"

text \<open>\<open>pending.get(&tx_hash).unwrap()\<close> panics when the clean-up has removed the new entry.\<close>

definition update_pending_transaction ::
  "int \<Rightarrow> string \<Rightarrow> PendingTransactionState \<Rightarrow> StateManager \<Rightarrow> StateManager run"
where
  "update_pending_transaction utc_now tx_hash tx_data s =
     (let pending =
        (case hm_get (sm_pending s) tx_hash of
           Some existing \<Rightarrow>
             hm_insert tx_hash
               (existing\<lparr>pt_last_seen := utc_now, pt_seen_count := pt_seen_count existing + 1\<rparr>) (sm_pending s)
         | None \<Rightarrow>
             (let pending = hm_insert tx_hash tx_data (sm_pending s)
              in if unat (max_pending_transactions (sm_config s)) < hm_len pending
                 then cleanup_old_transactions utc_now (sm_config s) pending
                 else pending))
      in case hm_get pending tx_hash of
           None \<Rightarrow> Panic
         | Some tx \<Rightarrow>
             (let current_nonce = (case hm_get (sm_nonce_tracker s) (pt_from tx) of Some n \<Rightarrow> n | None \<Rightarrow> 0)
              in Ret (s\<lparr>sm_pending := pending,
                   sm_nonce_tracker :=
                     (if current_nonce < pt_nonce tx then hm_insert (pt_from tx) (pt_nonce tx) (sm_nonce_tracker s)
                      else sm_nonce_tracker s)\<rparr>)))"

definition get_pending_transactions :: "string \<Rightarrow> StateManager \<Rightarrow> PendingTransactionState list" where
  "get_pending_transactions address s =
     filter (\<lambda>tx. pt_from tx = address \<or> pt_to tx = Some address) (hm_values (sm_pending s))"

definition get_current_nonce :: "string \<Rightarrow> StateManager \<Rightarrow> u64" where
  "get_current_nonce address s =
     (case hm_get (sm_nonce_tracker s) address of Some n \<Rightarrow> n | None \<Rightarrow> 0)"

definition get_reorg_events :: "usize \<Rightarrow> StateManager \<Rightarrow> ReorgEvent list" where
  "get_reorg_events limit s = take (unat limit) (rev (sm_reorg_events s))"

subsection \<open>Maintenance and statistics\<close>

definition checkpoint_if_needed :: "instant \<Rightarrow> instant \<Rightarrow> StateManager \<Rightarrow> StateManager" where
  "checkpoint_if_needed now now' s =
     (let should_checkpoint =
        secs (unat (checkpoint_interval_seconds (sm_config s))) < elapsed now (sm_last_checkpoint s)
      in if should_checkpoint \<and> enable_persistence (sm_config s)
         then s\<lparr>sm_last_checkpoint := now'\<rparr> else s)"

text \<open>One tick of the maintenance task.\<close>

definition maintenance_tick :: "int \<Rightarrow> instant \<Rightarrow> instant \<Rightarrow> StateManager \<Rightarrow> StateManager" where
  "maintenance_tick utc_now now now' s = checkpoint_if_needed now now' (cleanup_expired_transactions utc_now s)"

record StateStats =
  ss_pending_transactions :: nat
  ss_block_headers :: nat
  ss_reorg_events :: nat
  ss_tracked_addresses :: nat
  ss_current_block_number :: "u64 option"
  ss_current_block_hash :: "string option"
  ss_oldest_pending_transaction :: "int option"

definition get_stats :: "StateManager \<Rightarrow> StateStats" where
  "get_stats s =
     \<lparr>ss_pending_transactions = hm_len (sm_pending s),
      ss_block_headers = length (sm_block_headers s),
      ss_reorg_events = length (sm_reorg_events s),
      ss_tracked_addresses = hm_len (sm_nonce_tracker s),
      ss_current_block_number = map_option bh_number (sm_current_head s),
      ss_current_block_hash = map_option bh_hash (sm_current_head s),
      ss_oldest_pending_transaction =
        (case map pt_first_seen (hm_values (sm_pending s)) of
           [] \<Rightarrow> None
         | t # ts \<Rightarrow> Some (fold min ts t))\<rparr>"

subsection \<open>The chain of headers\<close>

lemma trim_history_last_n: "trim_history n hs = last_n n hs"
  by (induction hs) (auto simp: last_n_def Suc_diff_le)

lemma mark_dropped_none [simp]: "mark_transactions_as_dropped (get_affected_transactions a b) s = s"
  by (simp add: get_affected_transactions_def)

text \<open>A header extends another when it comes after it and names it as its parent.\<close>

definition extends :: "BlockHeader \<Rightarrow> BlockHeader \<Rightarrow> bool" where
  "extends current h \<longleftrightarrow> bh_number current < bh_number h \<and> bh_parent_hash h = bh_hash current"

definition reorg_of :: "int \<Rightarrow> BlockHeader \<Rightarrow> BlockHeader \<Rightarrow> ReorgEvent" where
  "reorg_of t current h =
     \<lparr>re_old_chain = [current], re_new_chain = [h], re_common_ancestor = current, re_depth = 1,
      re_detected_at = t, re_affected_transactions = []\<rparr>"

lemma update_block_header_eq:
  "update_block_header t h s =
     (let event = (case sm_current_head s of
            Some current \<Rightarrow> if extends current h then None else Some (reorg_of t current h)
          | None \<Rightarrow> None)
      in (s\<lparr>sm_current_head := Some h,
            sm_block_headers := last_n (unat (max_block_history (sm_config s))) (sm_block_headers s @ [h]),
            sm_reorg_events := sm_reorg_events s @ (case event of Some e \<Rightarrow> [e] | None \<Rightarrow> [])\<rparr>, event))"
  by (auto simp: update_block_header_def detect_reorg_def handle_reorg_def Let_def extends_def
      reorg_of_def update_transaction_states_def get_affected_transactions_def
      trim_history_last_n split: option.split)

text \<open>The breaks of a sequence of headers: the consecutive pairs that do not extend each other.\<close>

fun breaks :: "BlockHeader \<Rightarrow> BlockHeader list \<Rightarrow> (BlockHeader \<times> BlockHeader) list" where
  "breaks h [] = []"
| "breaks h (h' # hs) = (if extends h h' then [] else [(h, h')]) @ breaks h' hs"

definition update_headers :: "int \<Rightarrow> BlockHeader list \<Rightarrow> StateManager \<Rightarrow> StateManager" where
  "update_headers t hs s = fold (\<lambda>h s. fst (update_block_header t h s)) hs s"

lemma update_headers_step:
  "sm_current_head s = Some h0 \<Longrightarrow> length (sm_block_headers s) \<le> unat (max_block_history (sm_config s)) \<Longrightarrow>
     sm_block_headers (update_headers t hs s) =
       last_n (unat (max_block_history (sm_config s))) (sm_block_headers s @ hs) \<and>
     sm_current_head (update_headers t hs s) = Some (List.last (h0 # hs)) \<and>
     sm_reorg_events (update_headers t hs s) =
       sm_reorg_events s @ map (\<lambda>(a, b). reorg_of t a b) (breaks h0 hs) \<and>
     sm_pending (update_headers t hs s) = sm_pending s \<and>
     sm_nonce_tracker (update_headers t hs s) = sm_nonce_tracker s"
proof (induction hs arbitrary: s h0)
  case Nil
  then show ?case by (simp add: update_headers_def last_n_all)
next
  case (Cons h hs)
  let ?s = "fst (update_block_header t h s)"
  have s: "sm_current_head ?s = Some h" "sm_config ?s = sm_config s"
    "sm_block_headers ?s = last_n (unat (max_block_history (sm_config s))) (sm_block_headers s @ [h])"
    "sm_reorg_events ?s = sm_reorg_events s @ (if extends h0 h then [] else [reorg_of t h0 h])"
    "sm_pending ?s = sm_pending s" "sm_nonce_tracker ?s = sm_nonce_tracker s"
    using Cons.prems by (simp_all add: update_block_header_eq Let_def)
  have fold: "update_headers t (h # hs) s = update_headers t hs ?s"
    by (simp add: update_headers_def)
  show ?case
    using Cons.IH [of ?s h] unfolding fold
    by (simp add: s length_last_n last_n_append_last_n)
qed

text \<open>C8: after a state manager has been initialized with a header and has been given any sequence of
  headers, its history holds the newest ones in order, its head is the newest, and it has reported a
  reorganization for exactly the consecutive pairs in which the later header does not extend the
  earlier one, in order. No pending transaction changes, so none is ever marked dropped.\<close>

theorem headers_and_reorgs:
  assumes "max_block_history c \<noteq> 0"
  shows "let s = update_headers t hs (initialize h0 (StateManager_new now c)) in
     sm_block_headers s = last_n (unat (max_block_history c)) (h0 # hs) \<and>
     sm_current_head s = Some (List.last (h0 # hs)) \<and>
     sm_reorg_events s = map (\<lambda>(a, b). reorg_of t a b) (breaks h0 hs) \<and>
     sm_pending s = hm_empty"
proof -
  let ?s = "initialize h0 (StateManager_new now c)"
  have "0 < unat (max_block_history c)"
    using assms by (simp add: unat_gt_0)
  then have "length (sm_block_headers ?s) \<le> unat (max_block_history (sm_config ?s))"
    by (simp add: initialize_def StateManager_new_def)
  from update_headers_step [OF _ this, of h0 t hs] show ?thesis
    by (simp add: initialize_def StateManager_new_def Let_def)
qed

definition demo_header :: "u64 \<Rightarrow> string \<Rightarrow> string \<Rightarrow> BlockHeader" where
  "demo_header n h p = BlockHeader_new 0 n h p"

text \<open>A node that announces its head twice is reported as a reorganization.\<close>

theorem headers_and_reorgs_witness:
  "let a = demo_header 1 ''a'' ''''; b = demo_header 2 ''b'' ''a'';
       s = update_headers 5 [b, b] (initialize a (StateManager_new 0 StateManagerConfig_default))
   in sm_block_headers s = [a, b, b] \<and> sm_reorg_events s = [reorg_of 5 b b]"
  using headers_and_reorgs [of StateManagerConfig_default 5
      "[demo_header 2 ''b'' ''a'', demo_header 2 ''b'' ''a'']" "demo_header 1 ''a'' ''''" 0]
  by (simp add: StateManagerConfig_default_def Let_def last_n_def extends_def demo_header_def
      BlockHeader_new_def)

subsection \<open>Expiry\<close>

lemma hm_get_fold_remove: "hm_get (fold hm_remove ks m) k = (if k \<in> set ks then None else hm_get m k)"
  by (induction ks arbitrary: m) auto

lemma hm_wf_fold_remove: "hm_wf m \<Longrightarrow> hm_wf (fold hm_remove ks m)"
  by (induction ks arbitrary: m) auto

lemma cleanup_get:
  assumes wf: "hm_wf pending"
  shows "hm_get (cleanup_old_transactions t c pending) k =
     (case hm_get pending k of
        Some tx \<Rightarrow> if pt_first_seen tx < expiry_cutoff t c then None else Some tx
      | None \<Rightarrow> None)"
proof (cases "hm_get pending k")
  case None
  then show ?thesis
    by (simp add: cleanup_old_transactions_def Let_def hm_get_fold_remove)
next
  case (Some tx)
  have "k \<in> set (map fst (filter (\<lambda>(_, tx). pt_first_seen tx < expiry_cutoff t c) pending)) \<longleftrightarrow>
      pt_first_seen tx < expiry_cutoff t c"
    using Some wf by (force simp: hm_get_Some_iff hm_wf_def dest: eq_key_imp_eq_value)
  with Some show ?thesis
    by (simp add: cleanup_old_transactions_def Let_def hm_get_fold_remove)
qed

lemma hm_wf_cleanup [simp]: "hm_wf pending \<Longrightarrow> hm_wf (cleanup_old_transactions t c pending)"
  by (simp add: cleanup_old_transactions_def Let_def hm_wf_fold_remove)

lemma cleanup_nothing_expired:
  "\<forall>(k, tx) \<in> set pending. expiry_cutoff t c \<le> pt_first_seen tx \<Longrightarrow>
     cleanup_old_transactions t c pending = pending"
  by (subgoal_tac "filter (\<lambda>(_, tx). pt_first_seen tx < expiry_cutoff t c) pending = []")
    (auto simp: cleanup_old_transactions_def filter_empty_conv)

subsection \<open>Pending transactions\<close>

definition over_capacity :: "StateManager \<Rightarrow> bool" where
  "over_capacity s \<longleftrightarrow> unat (max_pending_transactions (sm_config s)) \<le> hm_len (sm_pending s)"

definition expired :: "int \<Rightarrow> StateManager \<Rightarrow> PendingTransactionState \<Rightarrow> bool" where
  "expired t s tx \<longleftrightarrow> pt_first_seen tx < expiry_cutoff t (sm_config s)"

text \<open>recording a pending transaction panics exactly when the transaction is new, the pool is
  full, and the transaction's own first sighting is already past the time to live: the clean-up then
  removes the entry just inserted and the lookup that follows unwraps nothing.\<close>

theorem update_pending_panics_iff:
  assumes "hm_wf (sm_pending s)"
  shows "update_pending_transaction t h tx s = Panic \<longleftrightarrow>
    hm_get (sm_pending s) h = None \<and> over_capacity s \<and> expired t s tx"
proof (cases "hm_get (sm_pending s) h")
  case None
  then show ?thesis
    using assms by (auto simp: update_pending_transaction_def Let_def cleanup_get hm_len_insert_new
        over_capacity_def expired_def)
next
  case (Some tx')
  then show ?thesis
    by (simp add: update_pending_transaction_def Let_def)
qed

definition demo_tx :: "string \<Rightarrow> u64 \<Rightarrow> int \<Rightarrow> PendingTransactionState" where
  "demo_tx sender nonce seen =
     \<lparr>pt_hash = ''h'', pt_from = sender, pt_to = None, pt_nonce = nonce, pt_gas_price = 1,
      pt_gas_limit = 21000, pt_value = ''0'', pt_data = '''', pt_first_seen = seen,
      pt_last_seen = seen, pt_seen_count = 1, pt_block_number = None, pt_block_hash = None,
      pt_status = Pending\<rparr>"

definition demo_manager :: StateManager where
  "demo_manager = StateManager_new 0 (StateManagerConfig_default\<lparr>max_pending_transactions := 0\<rparr>)"

theorem update_pending_panics_iff_witness:
  "update_pending_transaction 400000000000 ''h'' (demo_tx ''a'' 1 5) demo_manager = Panic \<and>
   update_pending_transaction 200000000000 ''h'' (demo_tx ''a'' 1 5) demo_manager \<noteq> Panic"
  using update_pending_panics_iff [of demo_manager 400000000000 "''h''" "demo_tx ''a'' 1 5"]
    update_pending_panics_iff [of demo_manager 200000000000 "''h''" "demo_tx ''a'' 1 5"]
  by (simp add: demo_manager_def StateManager_new_def over_capacity_def expired_def expiry_cutoff_def
      StateManagerConfig_default_def demo_tx_def)

text \<open>the limit on pending transactions is not a bound on the pool: while no entry has outlived
  its time to live, every new transaction is kept and the pool grows past any configured limit.\<close>

theorem pending_limit_not_enforced:
  assumes wf: "hm_wf (sm_pending s)" and new: "hm_get (sm_pending s) h = None"
    and fresh: "\<not> expired t s tx" "\<forall>k v. hm_get (sm_pending s) k = Some v \<longrightarrow> \<not> expired t s v"
  shows "\<exists>s'. update_pending_transaction t h tx s = Ret s' \<and>
    hm_len (sm_pending s') = Suc (hm_len (sm_pending s)) \<and> hm_get (sm_pending s') h = Some tx"
proof -
  let ?p = "hm_insert h tx (sm_pending s)"
  have "expiry_cutoff t (sm_config s) \<le> pt_first_seen v" if "(k, v) \<in> set ?p" for k v
  proof -
    from that hm_wf_insert [OF wf] have "hm_get ?p k = Some v"
      by (subst hm_get_Some_iff)
    with fresh show ?thesis
      by (auto simp: expired_def not_less split: if_splits)
  qed
  then have "cleanup_old_transactions t (sm_config s) ?p = ?p"
    by (intro cleanup_nothing_expired) auto
  with new show ?thesis
    by (simp add: update_pending_transaction_def Let_def hm_len_insert_new)
qed

theorem pending_limit_not_enforced_witness:
  "\<exists>s'. update_pending_transaction 200000000000 ''h'' (demo_tx ''a'' 1 5) demo_manager = Ret s' \<and>
     hm_len (sm_pending s') = 1 \<and> max_pending_transactions (sm_config demo_manager) = 0"
  using pending_limit_not_enforced [of demo_manager "''h''" 200000000000 "demo_tx ''a'' 1 5"]
  by (auto simp: demo_manager_def StateManager_new_def expired_def expiry_cutoff_def
      StateManagerConfig_default_def demo_tx_def)

subsection \<open>The invariant\<close>

definition sm_ok :: "StateManager \<Rightarrow> bool" where
  "sm_ok s \<longleftrightarrow>
     hm_wf (sm_pending s) \<and> hm_wf (sm_nonce_tracker s) \<and>
     hm.all_entries (\<lambda>_ tx. pt_nonce tx \<le> get_current_nonce (pt_from tx) s) (sm_pending s)"

lemma update_pending_RetE:
  assumes wf: "hm_wf (sm_pending s)" and run: "update_pending_transaction t h tx s = Ret s'"
  obtains p tx' where "hm_get p h = Some tx'" and "hm_wf p" and "sm_pending s' = p"
    and "\<And>k v. k \<noteq> h \<Longrightarrow> hm_get p k = Some v \<Longrightarrow> hm_get (sm_pending s) k = Some v"
    and "sm_nonce_tracker s' =
      (if get_current_nonce (pt_from tx') s < pt_nonce tx'
       then hm_insert (pt_from tx') (pt_nonce tx') (sm_nonce_tracker s) else sm_nonce_tracker s)"
proof -
  define p where "p =
    (case hm_get (sm_pending s) h of
       Some existing \<Rightarrow>
         hm_insert h (existing\<lparr>pt_last_seen := t, pt_seen_count := pt_seen_count existing + 1\<rparr>) (sm_pending s)
     | None \<Rightarrow>
         (let pending = hm_insert h tx (sm_pending s)
          in if unat (max_pending_transactions (sm_config s)) < hm_len pending
             then cleanup_old_transactions t (sm_config s) pending else pending))"
  have "hm_wf p"
    using wf by (simp add: p_def Let_def split: option.split)
  moreover have "hm_get (sm_pending s) k = Some v" if "k \<noteq> h" "hm_get p k = Some v" for k v
    using that wf by (auto simp: p_def Let_def cleanup_get split: option.splits if_splits)
  moreover from run obtain tx' where "hm_get p h = Some tx'"
    by (cases "hm_get p h") (auto simp: update_pending_transaction_def Let_def p_def)
  moreover from this run have "sm_pending s' = p" "sm_nonce_tracker s' =
      (if get_current_nonce (pt_from tx') s < pt_nonce tx'
       then hm_insert (pt_from tx') (pt_nonce tx') (sm_nonce_tracker s) else sm_nonce_tracker s)"
    unfolding update_pending_transaction_def Let_def p_def [unfolded Let_def, symmetric]
      get_current_nonce_def by auto
  ultimately show thesis
    using that by blast
qed

lemma sm_ok_update_pending:
  assumes ok: "sm_ok s" and run: "update_pending_transaction t h tx s = Ret s'"
  shows "sm_ok s'" and "get_current_nonce a s \<le> get_current_nonce a s'"
proof -
  from ok have "hm_wf (sm_pending s)"
    by (simp add: sm_ok_def)
  then obtain p tx' where p: "hm_get p h = Some tx'" "hm_wf p" "sm_pending s' = p"
    and old: "\<And>k v. k \<noteq> h \<Longrightarrow> hm_get p k = Some v \<Longrightarrow> hm_get (sm_pending s) k = Some v"
    and tracker: "sm_nonce_tracker s' =
      (if get_current_nonce (pt_from tx') s < pt_nonce tx'
       then hm_insert (pt_from tx') (pt_nonce tx') (sm_nonce_tracker s) else sm_nonce_tracker s)"
    using run by (rule update_pending_RetE) (rule that)
  have mono: "get_current_nonce b s \<le> get_current_nonce b s'" for b
    using tracker by (auto simp: get_current_nonce_def less_imp_le split: option.split)
  then show "get_current_nonce a s \<le> get_current_nonce a s'" .
  have "pt_nonce tx' \<le> get_current_nonce (pt_from tx') s'"
    using tracker by (auto simp: get_current_nonce_def word_gt_0 split: option.split)
  moreover have "pt_nonce v \<le> get_current_nonce (pt_from v) s'" if "hm_get p k = Some v" "k \<noteq> h" for k v
    using ok old [OF that(2,1)] mono [of "pt_from v"]
    by (auto simp: sm_ok_def hm.all_entries_def intro: order_trans)
  moreover have "hm_wf (sm_nonce_tracker s')"
    using ok tracker by (simp add: sm_ok_def)
  ultimately show "sm_ok s'"
    using p unfolding sm_ok_def hm.all_entries_def by (metis option.inject)
qed

inductive manager_step :: "StateManager \<Rightarrow> StateManager \<Rightarrow> bool" where
  init: "manager_step s (initialize h s)"
| header: "manager_step s (fst (update_block_header t h s))"
| pending: "update_pending_transaction t h tx s = Ret s' \<Longrightarrow> manager_step s s'"
| maintain: "manager_step s (maintenance_tick t now now' s)"

lemma manager_step_ok:
  "manager_step s s' \<Longrightarrow> sm_ok s \<Longrightarrow> sm_ok s' \<and> get_current_nonce a s \<le> get_current_nonce a s'"
proof (induction rule: manager_step.induct)
  case (pending t h tx s s')
  then show ?case by (blast intro: sm_ok_update_pending)
next
  case (maintain s t now now')
  then show ?case
    by (auto simp: maintenance_tick_def checkpoint_if_needed_def cleanup_expired_transactions_def Let_def
        sm_ok_def get_current_nonce_def hm.all_entries_def cleanup_get split: option.splits if_splits)
qed (auto simp: initialize_def update_block_header_eq Let_def sm_ok_def get_current_nonce_def)

text \<open>C4: in every state the manager can reach, the nonce it reports for a sender is at least the
  nonce of each of the sender's pending transactions, and from then on it never decreases.\<close>

theorem nonce_tracker_covers_pending:
  assumes "manager_step\<^sup>*\<^sup>* (StateManager_new now c) s" and "manager_step\<^sup>*\<^sup>* s s'"
  shows "hm.all_entries (\<lambda>_ tx. pt_nonce tx \<le> get_current_nonce (pt_from tx) s) (sm_pending s) \<and>
    get_current_nonce a s \<le> get_current_nonce a s'"
proof -
  have "sm_ok (StateManager_new now c)"
    by (simp add: sm_ok_def StateManager_new_def hm.all_entries_empty)
  with assms(1) have ok: "sm_ok s"
    by (induction rule: rtranclp_induct) (use manager_step_ok in blast)+
  from assms(2) have "sm_ok s' \<and> get_current_nonce a s \<le> get_current_nonce a s'"
    by (induction rule: rtranclp_induct) (use ok manager_step_ok order_trans in blast)+
  with ok show ?thesis
    by (simp add: sm_ok_def)
qed

theorem nonce_tracker_covers_pending_witness:
  "\<exists>s'. update_pending_transaction 7 ''h'' (demo_tx ''a'' 3 5)
       (StateManager_new 0 StateManagerConfig_default) = Ret s' \<and>
     hm.all_entries (\<lambda>_ tx. pt_nonce tx \<le> get_current_nonce (pt_from tx) s') (sm_pending s') \<and>
     get_current_nonce ''a'' s' \<le> get_current_nonce ''a'' (initialize (demo_header 1 ''a'' ''b'') s')"
proof -
  let ?s = "StateManager_new 0 StateManagerConfig_default"
  obtain s' where run: "update_pending_transaction 7 ''h'' (demo_tx ''a'' 3 5) ?s = Ret s'"
    by (simp add: update_pending_transaction_def StateManager_new_def Let_def hm_len_insert_new
        StateManagerConfig_default_def)
  have "manager_step\<^sup>*\<^sup>* ?s s'"
    using manager_step.pending [OF run] by (rule r_into_rtranclp)
  moreover have "manager_step\<^sup>*\<^sup>* s' (initialize (demo_header 1 ''a'' ''b'') s')"
    by (rule r_into_rtranclp) (rule manager_step.init)
  ultimately show ?thesis
    using run nonce_tracker_covers_pending by blast
qed

end
