(* ===== verification/Execution_Tracker.thy ===== *)
theory Execution_Tracker
  imports Bundle_Types Interfaces
begin

text \<open>
  \<open>crates/mev-core/src/bundle/execution_tracker.rs\<close>: following submitted bundles until they are
  included or expire. The JSON-RPC endpoint and the clock are a world \<open>'w\<close>; \<open>te_post\<close> is one POST
  with its decoding, \<open>None\<close> when either fails. A tick holds the write lock of the map while it
  queries the endpoint, so a tick is one step.
\<close>

subsection \<open>Data\<close>

record TrackerConfig =
  tc_rpc_endpoint :: string
  tc_confirmation_blocks :: u64
  tc_max_tracking_duration :: duration
  tc_polling_interval :: duration
  tc_detailed_analysis :: bool

definition TrackerConfig_default :: TrackerConfig where
  "TrackerConfig_default =
     \<lparr>tc_rpc_endpoint = ''http://localhost:8545'', tc_confirmation_blocks = 3,
      tc_max_tracking_duration = secs 300, tc_polling_interval = secs 2, tc_detailed_analysis = True\<rparr>"

record LogEntry =
  lg_address :: string
  lg_topics :: "string list"
  lg_data :: string

record TransactionReceipt =
  tr_transaction_hash :: string
  tr_block_number :: u64
  tr_block_hash :: string
  tr_transaction_index :: u64
  tr_gas_used :: u64
  tr_status :: bool
  tr_logs :: "LogEntry list"

record TrackedBundle =
  tb_bundle :: Bundle
  tb_submission_result :: SubmissionResult
  tb_tracking_start :: instant
  tb_status :: ExecutionStatus
  tb_inclusion_attempts :: u32
  tb_last_check_block :: u64
  tb_transaction_receipts :: "(string, TransactionReceipt) hash_map"

record TransactionInfo =
  ti_hash :: string
  ti_from :: string
  ti_to :: "string option"
  ti_gas_price :: string

record BlockInfo =
  bi_number :: u64
  bi_hash :: string
  bi_timestamp :: string
  bi_transactions :: "TransactionInfo list"

record InclusionMetrics =
  im_bundle_id :: string
  im_submission_to_inclusion_latency :: duration
  im_target_block :: u64
  im_actual_block :: u64
  im_block_position :: "u64 list"
  im_gas_used :: u64
  im_gas_price_paid :: u64
  im_mev_extracted :: "u64 option"

record OrderingVerification =
  ov_is_correct_order :: bool
  ov_expected_order :: "string list"
  ov_actual_order :: "string list"
  ov_position_differences :: "32 word list"

record TrackingStats =
  total_tracked :: nat
  pending :: nat
  included :: nat
  failed :: nat
  expired :: nat

record ExecutionTracker =
  et_config :: TrackerConfig
  et_tracked_bundles :: "(string, TrackedBundle) hash_map"
  et_latest_block :: u64

datatype tracker_error =
    RpcError | InvalidBlockNumber | BlockNotFound u64 | ReceiptNotFound string | BadHex
  | BundleNotFound string

record ('w, 'v) tracker_env =
  te_post :: "string \<Rightarrow> string list \<Rightarrow> 'w \<Rightarrow> 'w \<times> 'v option"
  te_json :: "'v json_ops"
  te_now :: "'w \<Rightarrow> 'w \<times> instant"
  te_lower_hex :: "h256 \<Rightarrow> string"

subsection \<open>Queries\<close>

text \<open>A POST whose answer carries an \<open>error\<close> field is an error.\<close>

definition rpc_call ::
  "('w, 'v) tracker_env \<Rightarrow> string \<Rightarrow> string list \<Rightarrow> 'w \<Rightarrow> 'w \<times> (tracker_error + 'v)"
where
  "rpc_call E meth params w =
     (case te_post E meth params w of
        (w, None) \<Rightarrow> (w, Inl RpcError)
      | (w, Some answer) \<Rightarrow>
          (case js_get (te_json E) ''error'' answer of
             Some _ \<Rightarrow> (w, Inl RpcError)
           | None \<Rightarrow> (w, Inr answer)))"

definition get_latest_block_number ::
  "('w, 'v) tracker_env \<Rightarrow> 'w \<Rightarrow> 'w \<times> (tracker_error + u64)"
where
  "get_latest_block_number E w =
     (case rpc_call E ''eth_blockNumber'' [] w of
        (w, Inl e) \<Rightarrow> (w, Inl e)
      | (w, Inr answer) \<Rightarrow>
          (case js_field_str (te_json E) ''result'' answer of
             None \<Rightarrow> (w, Inl InvalidBlockNumber)
           | Some block_hex \<Rightarrow>
               (case parse_u64 16 (trim_start_matches ''0x'' block_hex) of
                  None \<Rightarrow> (w, Inl BadHex)
                | Some n \<Rightarrow> (w, Inr n))))"

definition transaction_info :: "'v json_ops \<Rightarrow> 'v \<Rightarrow> TransactionInfo" where
  "transaction_info J tx =
     \<lparr>ti_hash = js_str_or J ''hash'' tx [], ti_from = js_str_or J ''from'' tx [],
      ti_to = js_field_str J ''to'' tx, ti_gas_price = js_str_or J ''gasPrice'' tx ''0x0''\<rparr>"

definition present :: "'v json_ops \<Rightarrow> 'v option \<Rightarrow> 'v option" where
  "present J v = (case v of Some x \<Rightarrow> if js_is_null J x then None else Some x | None \<Rightarrow> None)"

definition get_block_by_number ::
  "('w, 'v) tracker_env \<Rightarrow> u64 \<Rightarrow> 'w \<Rightarrow> 'w \<times> (tracker_error + BlockInfo)"
where
  "get_block_by_number E block_number w =
     (case rpc_call E ''eth_getBlockByNumber'' [format_hex block_number] w of
        (w, Inl e) \<Rightarrow> (w, Inl e)
      | (w, Inr answer) \<Rightarrow>
          (case present (te_json E) (js_get (te_json E) ''result'' answer) of
             None \<Rightarrow> (w, Inl (BlockNotFound block_number))
           | Some block_data \<Rightarrow>
               (let txs = (case Option.bind (js_get (te_json E) ''transactions'' block_data) (js_array (te_json E)) of
                             Some l \<Rightarrow> l | None \<Rightarrow> [])
                in (w, Inr \<lparr>bi_number = block_number, bi_hash = js_str_or (te_json E) ''hash'' block_data [],
                     bi_timestamp = js_str_or (te_json E) ''timestamp'' block_data ''0x0'',
                     bi_transactions = map (transaction_info (te_json E)) txs\<rparr>))))"

definition hex_field :: "'v json_ops \<Rightarrow> string \<Rightarrow> 'v \<Rightarrow> u64 option" where
  "hex_field J k v = parse_u64 16 (trim_start_matches ''0x'' (js_str_or J k v ''0x0''))"

definition get_transaction_receipt ::
  "('w, 'v) tracker_env \<Rightarrow> string \<Rightarrow> 'w \<Rightarrow> 'w \<times> (tracker_error + TransactionReceipt)"
where
  "get_transaction_receipt E tx_hash w =
     (case rpc_call E ''eth_getTransactionReceipt'' [tx_hash] w of
        (w, Inl e) \<Rightarrow> (w, Inl e)
      | (w, Inr answer) \<Rightarrow>
          (case present (te_json E) (js_get (te_json E) ''result'' answer) of
             None \<Rightarrow> (w, Inl (ReceiptNotFound tx_hash))
           | Some r \<Rightarrow>
               (case (hex_field (te_json E) ''blockNumber'' r, hex_field (te_json E) ''transactionIndex'' r,
                      hex_field (te_json E) ''gasUsed'' r) of
                  (Some b, Some i, Some g) \<Rightarrow>
                    (w, Inr \<lparr>tr_transaction_hash = tx_hash, tr_block_number = b,
                       tr_block_hash = js_str_or (te_json E) ''blockHash'' r [],
                       tr_transaction_index = i, tr_gas_used = g,
                       tr_status = (js_str_or (te_json E) ''status'' r ''0x0'' = ''0x1''), tr_logs = []\<rparr>)
                | _ \<Rightarrow> (w, Inl BadHex))))"

subsection \<open>Inclusion\<close>

fun find_position :: "('a \<Rightarrow> bool) \<Rightarrow> 'a list \<Rightarrow> nat option" where
  "find_position P [] = None"
| "find_position P (x # xs) = (if P x then Some 0 else map_option Suc (find_position P xs))"

fun ascending :: "nat list \<Rightarrow> bool" where
  "ascending (x # y # zs) \<longleftrightarrow> x < y \<and> ascending (y # zs)"
| "ascending _ \<longleftrightarrow> True"

definition verify_transaction_ordering :: "BlockInfo \<Rightarrow> string list \<Rightarrow> OrderingVerification" where
  "verify_transaction_ordering block expected =
     (let found = List.map_filter (\<lambda>h. map_option (\<lambda>p. (p, h))
            (find_position (\<lambda>tx. ti_hash tx = h) (bi_transactions block))) expected;
          actual_positions = map fst found;
          actual_order = map snd found
      in \<lparr>ov_is_correct_order = ascending actual_positions,
          ov_expected_order = expected,
          ov_actual_order = actual_order,
          ov_position_differences = map (\<lambda>(i, p). of_nat p - of_nat i) (enumerate 0 actual_positions)\<rparr>)"

definition bundle_tx_hashes :: "('w, 'v) tracker_env \<Rightarrow> Bundle \<Rightarrow> string list" where
  "bundle_tx_hashes E b = map (hash_hex (te_lower_hex E)) (all_transactions b)"

text \<open>The ordering is only reported in the log; it does not change the answer.\<close>

definition check_block_for_bundle ::
  "('w, 'v) tracker_env \<Rightarrow> u64 \<Rightarrow> TrackedBundle \<Rightarrow> 'w \<Rightarrow>
   'w \<times> (tracker_error + (u64 \<times> string list) option)"
where
  "check_block_for_bundle E block_number tracked w =
     (case get_block_by_number E block_number w of
        (w, Inl e) \<Rightarrow> (w, Inl e)
      | (w, Inr block) \<Rightarrow>
          (let hashes = bundle_tx_hashes E (tb_bundle tracked);
               found = filter (\<lambda>h. list_ex (\<lambda>tx. ti_hash tx = h) (bi_transactions block)) hashes
           in if length found = length hashes then (w, Inr (Some (block_number, found)))
              else (w, Inr None)))"

fun collect_receipts ::
  "('w, 'v) tracker_env \<Rightarrow> string list \<Rightarrow> u64 \<Rightarrow> u64 list \<Rightarrow> 'w \<Rightarrow> 'w \<times> u64 \<times> u64 list"
where
  "collect_receipts E [] gas positions w = (w, gas, positions)"
| "collect_receipts E (h # hs) gas positions w =
     (case get_transaction_receipt E h w of
        (w, Inr r) \<Rightarrow> collect_receipts E hs (gas + tr_gas_used r) (positions @ [tr_transaction_index r]) w
      | (w, Inl e) \<Rightarrow> collect_receipts E hs gas positions w)"

definition generate_inclusion_metrics ::
  "('w, 'v) tracker_env \<Rightarrow> TrackedBundle \<Rightarrow> 'w \<Rightarrow> ('w \<times> InclusionMetrics) run"
where
  "generate_inclusion_metrics E tracked w =
     (let (w, now) = te_now E w;
          (w, total_gas_used, block_positions) =
            collect_receipts E (bundle_tx_hashes E (tb_bundle tracked)) 0 [] w;
          actual_block = (case tb_status tracked of Included n _ \<Rightarrow> n | _ \<Rightarrow> 0)
      in run_bind (as_u64 (bu_max_gas_price (tb_bundle tracked))) (\<lambda>gas_price_paid.
           Ret (w, \<lparr>im_bundle_id = bu_id (tb_bundle tracked),
             im_submission_to_inclusion_latency = elapsed now (tb_tracking_start tracked),
             im_target_block = bu_target_block (tb_bundle tracked), im_actual_block = actual_block,
             im_block_position = block_positions, im_gas_used = total_gas_used,
             im_gas_price_paid = gas_price_paid, im_mev_extracted = None\<rparr>)))"

text \<open>The loop over \<open>start_block..=end_block\<close>; a block whose query fails is passed over.\<close>

fun scan_blocks ::
  "('w, 'v) tracker_env \<Rightarrow> TrackedBundle \<Rightarrow> u64 list \<Rightarrow> 'w \<Rightarrow> 'w \<times> (u64 \<times> string list) option"
where
  "scan_blocks E tracked [] w = (w, None)"
| "scan_blocks E tracked (n # ns) w =
     (case check_block_for_bundle E n tracked w of
        (w, Inr (Some hit)) \<Rightarrow> (w, Some hit)
      | (w, _) \<Rightarrow> scan_blocks E tracked ns w)"

definition block_range :: "u64 \<Rightarrow> u64 \<Rightarrow> u64 list" where
  "block_range a b = map of_nat [unat a ..< Suc (unat b)]"

definition check_tracked ::
  "('w, 'v) tracker_env \<Rightarrow> TrackerConfig \<Rightarrow> u64 \<Rightarrow> TrackedBundle \<Rightarrow> 'w \<Rightarrow> (TrackedBundle \<times> 'w) run"
where
  "check_tracked E config latest_block tracked w =
     (if tb_status tracked \<noteq> Pending then Ret (tracked, w)
      else
        let (w, now) = te_now E w
        in if tc_max_tracking_duration config < elapsed now (tb_tracking_start tracked)
           then Ret (tracked\<lparr>tb_status := Expired\<rparr>, w)
           else
             let start_block = max (tb_last_check_block tracked) (bu_target_block (tb_bundle tracked))
             in case scan_blocks E tracked (block_range start_block latest_block) w of
                  (w, Some (n, hashes)) \<Rightarrow>
                    (let tracked = tracked\<lparr>tb_status := Included n hashes\<rparr>
                     in run_bind (generate_inclusion_metrics E tracked w) (\<lambda>(w, metrics). Ret (tracked, w)))
                | (w, None) \<Rightarrow>
                    Ret (tracked\<lparr>tb_last_check_block := latest_block,
                           tb_inclusion_attempts := tb_inclusion_attempts tracked + 1\<rparr>, w))"

definition check_bundle_inclusion ::
  "('w, 'v) tracker_env \<Rightarrow> string \<Rightarrow> ExecutionTracker \<Rightarrow> 'w \<Rightarrow>
   (ExecutionTracker \<times> 'w \<times> (tracker_error + unit)) run"
where
  "check_bundle_inclusion E bundle_id t w =
     (case hm_get (et_tracked_bundles t) bundle_id of
        None \<Rightarrow> Ret (t, w, Inl (BundleNotFound bundle_id))
      | Some tracked \<Rightarrow>
          run_bind (check_tracked E (et_config t) (et_latest_block t) tracked w) (\<lambda>(tracked, w).
            Ret (t\<lparr>et_tracked_bundles := hm_insert bundle_id tracked (et_tracked_bundles t)\<rparr>, w, Inr ())))"

subsection \<open>The tracker\<close>

definition ExecutionTracker_new :: "TrackerConfig \<Rightarrow> ExecutionTracker" where
  "ExecutionTracker_new config =
     \<lparr>et_config = config, et_tracked_bundles = hm_empty, et_latest_block = 0\<rparr>"

definition track_bundle ::
  "instant \<Rightarrow> Bundle \<Rightarrow> SubmissionResult \<Rightarrow> ExecutionTracker \<Rightarrow> ExecutionTracker"
where
  "track_bundle now bundle submission_result t =
     (let tracked = \<lparr>tb_bundle = bundle, tb_submission_result = submission_result,
            tb_tracking_start = now, tb_status = Pending, tb_inclusion_attempts = 0,
            tb_last_check_block = 0, tb_transaction_receipts = hm_empty\<rparr>
      in t\<lparr>et_tracked_bundles := hm_insert (bu_id bundle) tracked (et_tracked_bundles t)\<rparr>)"

definition get_execution_status :: "string \<Rightarrow> ExecutionTracker \<Rightarrow> tracker_error + ExecutionStatus" where
  "get_execution_status bundle_id t =
     (case hm_get (et_tracked_bundles t) bundle_id of
        None \<Rightarrow> Inl (BundleNotFound bundle_id)
      | Some tracked \<Rightarrow> Inr (tb_status tracked))"

text \<open>An error of one check is logged and the loop goes on.\<close>

fun check_each ::
  "('w, 'v) tracker_env \<Rightarrow> string list \<Rightarrow> ExecutionTracker \<Rightarrow> 'w \<Rightarrow> (ExecutionTracker \<times> 'w) run"
where
  "check_each E [] t w = Ret (t, w)"
| "check_each E (i # ids) t w =
     run_bind (check_bundle_inclusion E i t w) (\<lambda>(t, w, r). check_each E ids t w)"

definition check_all_bundles ::
  "('w, 'v) tracker_env \<Rightarrow> ExecutionTracker \<Rightarrow> 'w \<Rightarrow> (ExecutionTracker \<times> 'w) run"
where
  "check_all_bundles E t w = check_each E (hm_keys (et_tracked_bundles t)) t w"

definition cleanup_expired_bundles :: "instant \<Rightarrow> ExecutionTracker \<Rightarrow> ExecutionTracker" where
  "cleanup_expired_bundles now t =
     t\<lparr>et_tracked_bundles := hm_retain (\<lambda>_ tracked.
         case tb_status tracked of
           Pending \<Rightarrow> elapsed now (tb_tracking_start tracked) < tc_max_tracking_duration (et_config t)
         | _ \<Rightarrow> False) (et_tracked_bundles t)\<rparr>"

text \<open>One round of \<open>start_monitoring\<close>, which repeats it for ever at the polling interval.\<close>

definition monitoring_round ::
  "('w, 'v) tracker_env \<Rightarrow> ExecutionTracker \<Rightarrow> 'w \<Rightarrow> (ExecutionTracker \<times> 'w) run"
where
  "monitoring_round E t w =
     (let (w, latest) = get_latest_block_number E w;
          t = (case latest of Inr n \<Rightarrow> t\<lparr>et_latest_block := n\<rparr> | Inl _ \<Rightarrow> t)
      in run_bind (check_all_bundles E t w) (\<lambda>(t, w).
           let (w, now) = te_now E w in Ret (cleanup_expired_bundles now t, w)))"

fun monitoring_rounds ::
  "('w, 'v) tracker_env \<Rightarrow> nat \<Rightarrow> ExecutionTracker \<Rightarrow> 'w \<Rightarrow> (ExecutionTracker \<times> 'w) run"
where
  "monitoring_rounds E 0 t w = Ret (t, w)"
| "monitoring_rounds E (Suc n) t w =
     run_bind (monitoring_round E t w) (\<lambda>(t, w). monitoring_rounds E n t w)"

definition get_tracking_stats :: "ExecutionTracker \<Rightarrow> TrackingStats" where
  "get_tracking_stats t =
     (let sts = map tb_status (hm_values (et_tracked_bundles t))
      in \<lparr>total_tracked = hm_len (et_tracked_bundles t),
          pending = length (filter (\<lambda>s. case s of Pending \<Rightarrow> True | _ \<Rightarrow> False) sts),
          included = length (filter (\<lambda>s. case s of Included _ _ \<Rightarrow> True | _ \<Rightarrow> False) sts),
          failed = length (filter (\<lambda>s. case s of Failed _ \<Rightarrow> True | _ \<Rightarrow> False) sts),
          expired = length (filter (\<lambda>s. case s of Expired \<Rightarrow> True | _ \<Rightarrow> False) sts)\<rparr>)"

end
