(* ===== verification/Tracker_Facts.thy ===== *)
theory Tracker_Facts
  imports Execution_Tracker
begin

text \<open>
  Properties of the execution tracker: what an inclusion means, which blocks are looked at, what a
  client can observe of a bundle that was included, and the test of the transaction order.
\<close>

subsection \<open>What an inclusion means\<close>

lemma list_ex_hash: "list_ex (\<lambda>tx. ti_hash tx = h) txs \<longleftrightarrow> h \<in> ti_hash ` set txs"
  by (auto simp: list_ex_iff)

lemma filter_complete: "length (filter P xs) = length xs \<longleftrightarrow> (\<forall>x \<in> set xs. P x)"
  by (metis filter_True length_filter_less less_irrefl)

lemma check_block_Some:
  "check_block_for_bundle E m tracked w = (w', Inr (Some (n, hs))) \<longleftrightarrow>
     n = m \<and> hs = bundle_tx_hashes E (tb_bundle tracked) \<and>
     (\<exists>block. get_block_by_number E m w = (w', Inr block) \<and> set hs \<subseteq> ti_hash ` set (bi_transactions block))"
proof (cases "get_block_by_number E m w")
  case (Pair w1 r)
  show ?thesis
  proof (cases r)
    case (Inr block)
    have "set xs \<subseteq> ti_hash ` set (bi_transactions block) \<longleftrightarrow>
        length (filter (\<lambda>h. h \<in> ti_hash ` set (bi_transactions block)) xs) = length xs" for xs
      by (auto simp: filter_complete)
    moreover have "filter (\<lambda>h. h \<in> ti_hash ` set (bi_transactions block)) xs = xs"
      if "length (filter (\<lambda>h. h \<in> ti_hash ` set (bi_transactions block)) xs) = length xs" for xs
      using that by (simp add: filter_complete)
    ultimately show ?thesis
      using Pair Inr by (auto simp: check_block_for_bundle_def Let_def list_ex_hash)
  qed (use Pair in \<open>auto simp: check_block_for_bundle_def\<close>)
qed

text \<open>At some moment the node answered for block \<open>n\<close> with a block that holds these transactions.\<close>

definition node_showed :: "('w, 'v) tracker_env \<Rightarrow> u64 \<Rightarrow> string list \<Rightarrow> bool" where
  "node_showed E n hashes \<longleftrightarrow>
     (\<exists>w0 w1 block. get_block_by_number E n w0 = (w1, Inr block) \<and>
        set hashes \<subseteq> ti_hash ` set (bi_transactions block))"

lemma scan_blocks_Some:
  "scan_blocks E tracked ns w = (w', Some (n, hs)) \<Longrightarrow>
     n \<in> set ns \<and> hs = bundle_tx_hashes E (tb_bundle tracked) \<and> node_showed E n hs"
proof (induction ns arbitrary: w)
  case (Cons m ns)
  obtain w1 r where check: "check_block_for_bundle E m tracked w = (w1, r)"
    by fastforce
  show ?case
  proof (cases "\<exists>hit. r = Inr (Some hit)")
    case True
    with Cons.prems check have "r = Inr (Some (n, hs))"
      by auto
    with check check_block_Some [of E m tracked w w1 n hs] show ?thesis
      by (auto simp: node_showed_def)
  next
    case False
    with Cons check show ?thesis
      by (auto split: sum.splits option.splits)
  qed
qed simp

lemma set_block_range: "n \<in> set (block_range a b) \<longleftrightarrow> a \<le> n \<and> n \<le> b"
proof -
  have "n \<in> set (block_range a b) \<longleftrightarrow> (\<exists>k. unat a \<le> k \<and> k \<le> unat b \<and> n = word_of_nat k)"
    by (auto simp: block_range_def)
  also have "\<dots> \<longleftrightarrow> unat a \<le> unat n \<and> unat n \<le> unat b"
  proof
    assume "\<exists>k. unat a \<le> k \<and> k \<le> unat b \<and> n = word_of_nat k"
    then obtain k where k: "unat a \<le> k" "k \<le> unat b" "n = word_of_nat k"
      by blast
    moreover have "k < 2 ^ LENGTH(64)"
      using k(2) unsigned_less by (rule order_le_less_trans)
    ultimately show "unat a \<le> unat n \<and> unat n \<le> unat b"
      by (simp add: unat_word_of_nat)
  next
    assume "unat a \<le> unat n \<and> unat n \<le> unat b"
    then show "\<exists>k. unat a \<le> k \<and> k \<le> unat b \<and> n = word_of_nat k"
      by (intro exI [of _ "unat n"]) simp
  qed
  finally show ?thesis
    by (simp add: word_le_nat_alt)
qed

lemma check_tracked_Included:
  assumes "check_tracked E config latest tracked w = Ret (tracked', w')"
    and "tb_status tracked = Pending" and "tb_status tracked' = Included n hs"
  shows "bu_target_block (tb_bundle tracked) \<le> n \<and> n \<le> latest \<and>
    hs = bundle_tx_hashes E (tb_bundle tracked) \<and> node_showed E n hs"
  using assms
  by (auto simp: check_tracked_def Let_def run_bind_Ret_iff set_block_range dest!: scan_blocks_Some
      split: prod.splits option.splits if_splits)

text \<open>C2: when a check turns a pending bundle into an included one, the node has answered for the
  reported block with a block that holds every transaction of the bundle, the reported hashes are all
  of them in execution order, and the block lies between the target block and the latest one.\<close>

theorem included_means_seen:
  assumes "check_bundle_inclusion E i t w = Ret (t', w', r)"
    and "hm_get (et_tracked_bundles t) i = Some tracked" and "tb_status tracked = Pending"
    and "get_execution_status i t' = Inr (Included n hs)"
  shows "hs = map (hash_hex (te_lower_hex E)) (all_transactions (tb_bundle tracked)) \<and>
    bu_target_block (tb_bundle tracked) \<le> n \<and> n \<le> et_latest_block t \<and> node_showed E n hs"
proof -
  from assms obtain tracked' where check:
    "check_tracked E (et_config t) (et_latest_block t) tracked w = Ret (tracked', w')"
    and "tb_status tracked' = Included n hs"
    by (auto simp: check_bundle_inclusion_def get_execution_status_def run_bind_Ret_iff)
  from check_tracked_Included [OF check assms(3) this(2)] show ?thesis
    by (auto simp: bundle_tx_hashes_def)
qed

text \<open>
  A node for the witnesses: block 7 holds one transaction, whose hash is the text of the bundle's, and
  there are no receipts. The world is the time.
\<close>

definition demo_post :: "string \<Rightarrow> string list \<Rightarrow> nat \<Rightarrow> nat \<times> demo_json option" where
  "demo_post meth params w =
     (w, if meth = ''eth_blockNumber'' then Some (DObj [(''result'', DStr ''0x7'')])
         else if meth = ''eth_getBlockByNumber'' \<and> params = [''0x7'']
         then Some (DObj [(''result'', DObj [(''transactions'', DArr [DObj [(''hash'', DStr ''0xab'')]])])])
         else None)"

definition demo_tracker_env :: "(nat, demo_json) tracker_env" where
  "demo_tracker_env =
     \<lparr>te_post = demo_post, te_json = demo_json_ops, te_now = (\<lambda>w. (w, w)), te_lower_hex = (\<lambda>_. ''ab'')\<rparr>"

definition demo_transaction :: SignedTransaction where
  "demo_transaction =
     \<lparr>st_hash = 171, st_from = 1, st_to = None, st_value = 0, st_gas_limit = 21000,
      st_max_fee_per_gas = 1, st_max_priority_fee_per_gas = 1, st_nonce = 0, st_data = [],
      st_chain_id = 998, st_raw_transaction = [], st_transaction_type = 2\<rparr>"

definition demo_bundle :: Bundle where
  "demo_bundle =
     \<lparr>bu_id = ''b'', bu_pre_transactions = [], bu_target_transaction = demo_transaction,
      bu_post_transactions = [], bu_target_block = 7, bu_max_gas_price = 100,
      bu_estimated_profit = 0, bu_created_at = 0, bu_metadata = []\<rparr>"

definition demo_result :: SubmissionResult where
  "demo_result =
     \<lparr>su_bundle_id = ''b'', su_submission_hash = [], su_submitted_at = 0, su_gas_price = 1,
      su_estimated_inclusion_block = 7\<rparr>"

definition demo_tracker :: ExecutionTracker where
  "demo_tracker =
     (track_bundle 0 demo_bundle demo_result (ExecutionTracker_new TrackerConfig_default))
       \<lparr>et_latest_block := 7\<rparr>"

definition demo_tracked :: TrackedBundle where
  "demo_tracked = \<lparr>tb_bundle = demo_bundle, tb_submission_result = demo_result, tb_tracking_start = 0,
     tb_status = Pending, tb_inclusion_attempts = 0, tb_last_check_block = 0,
     tb_transaction_receipts = hm_empty\<rparr>"

lemma demo_range: "block_range 7 7 = [7]"
  by (simp add: block_range_def)

lemma demo_hex: "hex_digits 7 = ''7''"
  by code_simp

lemmas demo_tracker_defs =
  demo_tracker_def demo_tracker_env_def demo_post_def demo_bundle_def demo_transaction_def
  demo_tracked_def track_bundle_def ExecutionTracker_new_def TrackerConfig_default_def

lemma demo_check:
  "check_tracked demo_tracker_env TrackerConfig_default 7 demo_tracked 5 =
     Ret (demo_tracked\<lparr>tb_status := Included 7 [''0xab'']\<rparr>, 5)"
  by (simp add: check_tracked_def demo_tracker_defs demo_range check_block_for_bundle_def
      get_block_by_number_def rpc_call_def format_hex_def demo_hex demo_json_ops_def present_def
      transaction_info_def js_str_or_def js_field_str_def bundle_tx_hashes_def hash_hex_def
      all_transactions_def generate_inclusion_metrics_def get_transaction_receipt_def as_u64_def
      elapsed_def secs_def)

lemma demo_inclusion:
  "check_bundle_inclusion demo_tracker_env ''b'' demo_tracker 5 =
     Ret (demo_tracker\<lparr>et_tracked_bundles := hm_insert ''b'' (demo_tracked\<lparr>tb_status := Included 7 [''0xab'']\<rparr>)
            (et_tracked_bundles demo_tracker)\<rparr>, 5, Inr ())"
proof -
  have "hm_get (et_tracked_bundles demo_tracker) ''b'' = Some demo_tracked"
    by (simp add: demo_tracker_defs)
  moreover have "et_config demo_tracker = TrackerConfig_default" "et_latest_block demo_tracker = 7"
    by (simp_all add: demo_tracker_defs)
  ultimately show ?thesis
    by (simp add: check_bundle_inclusion_def demo_check)
qed

theorem included_means_seen_witness:
  "[''0xab''] = map (hash_hex (\<lambda>_. ''ab'')) (all_transactions demo_bundle) \<and>
   node_showed demo_tracker_env 7 [''0xab'']"
proof -
  have "hm_get (et_tracked_bundles demo_tracker) ''b'' = Some demo_tracked" "tb_status demo_tracked = Pending"
    by (simp_all add: demo_tracker_defs)
  from included_means_seen [OF demo_inclusion this, of 7 "[''0xab'']"] show ?thesis
    by (auto simp: get_execution_status_def demo_tracked_def demo_tracker_env_def)
qed

subsection \<open>What a client can observe\<close>

lemma check_bundle_wf:
  "check_bundle_inclusion E i t w = Ret (t', w', r) \<Longrightarrow> hm_wf (et_tracked_bundles t) \<Longrightarrow>
     hm_wf (et_tracked_bundles t')"
  by (auto simp: check_bundle_inclusion_def run_bind_Ret_iff split: option.splits prod.splits)

lemma check_each_wf:
  "check_each E ids t w = Ret (t', w') \<Longrightarrow> hm_wf (et_tracked_bundles t) \<Longrightarrow> hm_wf (et_tracked_bundles t')"
  by (induction ids arbitrary: t w) (auto simp: run_bind_Ret_iff dest: check_bundle_wf)

text \<open>C9: a client never learns that a bundle was included: the round of the monitor that finds the
  inclusion also removes the bundle, and after any round the status of every bundle is either pending
  or unknown.\<close>

theorem monitoring_hides_outcomes:
  assumes "monitoring_round E t w = Ret (t', w')" and "hm_wf (et_tracked_bundles t)"
  shows "get_execution_status i t' = Inr Pending \<or> get_execution_status i t' = Inl (BundleNotFound i)"
proof -
  obtain w1 latest where l: "get_latest_block_number E w = (w1, latest)" by fastforce
  define t0 where "t0 = (case latest of Inr n \<Rightarrow> t\<lparr>et_latest_block := n\<rparr> | Inl _ \<Rightarrow> t)"
  from assms(1) l obtain t1 w2 where check: "check_all_bundles E t0 w1 = Ret (t1, w2)"
    and rest: "(let (w, now) = te_now E w2 in Ret (cleanup_expired_bundles now t1, w)) = Ret (t', w')"
    by (auto simp: monitoring_round_def run_bind_Ret_iff t0_def)
  from rest obtain now where t': "t' = cleanup_expired_bundles now t1"
    by (auto split: prod.splits)
  have "hm_wf (et_tracked_bundles t0)"
    using assms(2) by (simp add: t0_def split: sum.split)
  with check have wf: "hm_wf (et_tracked_bundles t1)"
    by (auto simp: check_all_bundles_def dest: check_each_wf)
  show ?thesis
  proof (cases "hm_get (et_tracked_bundles t') i")
    case (Some tracked)
    then have "tb_status tracked = Pending"
      using hm.keep_Some_iff [OF wf] by (auto simp: t' cleanup_expired_bundles_def split: ExecutionStatus.splits)
    with Some show ?thesis
      by (simp add: get_execution_status_def)
  qed (simp add: get_execution_status_def)
qed

theorem monitoring_hides_outcomes_witness:
  "\<exists>t' w'. monitoring_round demo_tracker_env demo_tracker 5 = Ret (t', w') \<and>
     (get_execution_status ''b'' t' = Inr Pending \<or>
      get_execution_status ''b'' t' = Inl (BundleNotFound ''b''))"
proof -
  have wf: "hm_wf (et_tracked_bundles demo_tracker)"
    by (simp add: demo_tracker_defs)
  have keys: "hm_keys (et_tracked_bundles demo_tracker) = [''b'']"
    by (simp add: demo_tracker_defs hm_keys_def hm_insert_def hm_empty_def)
  have "parse_u64 16 (trim_start_matches ''0x'' ''0x7'') = Some 7"
    using parse_format_hex [of 7] by (simp add: format_hex_def demo_hex)
  then have "get_latest_block_number demo_tracker_env 5 = (5, Inr 7)"
    by (simp add: get_latest_block_number_def rpc_call_def demo_tracker_defs demo_json_ops_def js_field_str_def)
  moreover have "demo_tracker\<lparr>et_latest_block := 7\<rparr> = demo_tracker"
    by (simp add: demo_tracker_def)
  moreover have "te_now demo_tracker_env w = (w, w)" for w
    by (simp add: demo_tracker_env_def)
  ultimately obtain t' w' where round: "monitoring_round demo_tracker_env demo_tracker 5 = Ret (t', w')"
    by (simp add: monitoring_round_def check_all_bundles_def keys demo_inclusion)
  with monitoring_hides_outcomes [OF round wf] show ?thesis
    by blast
qed

lemma scan_blocks_none_available:
  assumes "\<And>n w. \<exists>w' e. get_block_by_number E n w = (w', Inl e)"
  shows "\<exists>w'. scan_blocks E tracked ns w = (w', None)"
proof (induction ns arbitrary: w)
  case (Cons n ns)
  obtain w' e where "get_block_by_number E n w = (w', Inl e)"
    using assms by blast
  with Cons show ?case
    by (simp add: check_block_for_bundle_def)
qed simp

text \<open>blocks whose query fails are not looked at again. A check during which no block can be read
  still moves the bundle's mark to the latest block, and from then on every block before it is outside
  the range the tracker scans, so an inclusion in one of them is never found.\<close>

theorem failed_queries_skip_blocks:
  assumes fail: "\<And>n w. \<exists>w' e. get_block_by_number E n w = (w', Inl e)"
    and pending: "tb_status tracked = Pending"
    and in_time: "\<And>w. elapsed (snd (te_now E w)) (tb_tracking_start tracked) \<le> tc_max_tracking_duration config"
    and earlier: "n < latest"
  shows "\<exists>tracked' w'. check_tracked E config latest tracked w = Ret (tracked', w') \<and>
    tb_status tracked' = Pending \<and> tb_last_check_block tracked' = latest \<and>
    n \<notin> set (block_range (max (tb_last_check_block tracked') (bu_target_block (tb_bundle tracked'))) later)"
proof -
  obtain w1 now where now: "te_now E w = (w1, now)" by fastforce
  obtain w2 where "scan_blocks E tracked
      (block_range (max (tb_last_check_block tracked) (bu_target_block (tb_bundle tracked))) latest) w1 = (w2, None)"
    using scan_blocks_none_available [OF fail] by blast
  with now pending in_time [of w] earlier show ?thesis
    by (auto simp: check_tracked_def Let_def not_less set_block_range dest: leD)
qed

theorem failed_queries_skip_blocks_witness:
  "\<exists>tracked' w'. check_tracked (demo_tracker_env\<lparr>te_post := \<lambda>m p w. (w, None), te_now := \<lambda>w. (w, 0)\<rparr>)
      TrackerConfig_default 9 demo_tracked 5 = Ret (tracked', w') \<and>
     7 \<notin> set (block_range (max (tb_last_check_block tracked') (bu_target_block (tb_bundle tracked'))) 12)"
  using failed_queries_skip_blocks [of "demo_tracker_env\<lparr>te_post := \<lambda>m p w. (w, None), te_now := \<lambda>w. (w, 0)\<rparr>"
      demo_tracked TrackerConfig_default 7 9 5 12]
  by (auto simp: get_block_by_number_def rpc_call_def demo_tracked_def)

subsection \<open>The order of the transactions\<close>

lemma find_position_Some:
  "find_position P xs = Some p \<Longrightarrow> p < length xs \<and> P (xs ! p)"
  by (induction xs arbitrary: p) (auto split: if_splits)

lemma find_position_None: "find_position P xs = None \<longleftrightarrow> (\<forall>x \<in> set xs. \<not> P x)"
  by (induction xs) auto

lemma ascending_sorted: "ascending ps \<longleftrightarrow> sorted_wrt (<) ps"
  by (induction ps rule: ascending.induct) (auto intro: less_trans)

lemma sorted_positions_subseq:
  "sorted_wrt (<) ps \<Longrightarrow> \<forall>p \<in> set ps. p < length B \<Longrightarrow> subseq (map ((!) B) ps) B"
proof (induction B arbitrary: ps)
  case Nil
  then show ?case by (cases ps) auto
next
  case (Cons b B)
  have shift: "subseq (map ((!) (b # B)) qs) B"
    if "sorted_wrt (<) qs" "\<forall>q \<in> set qs. 0 < q \<and> q < length (b # B)" for qs
  proof -
    have "subseq (map ((!) B) (map (\<lambda>q. q - 1) qs)) B"
    proof (rule Cons.IH)
      from that show "sorted_wrt (<) (map (\<lambda>q. q - 1) qs)"
        unfolding sorted_wrt_map by (elim sorted_wrt_mono_rel [rotated]) (auto intro: diff_less_mono)
    qed (use that in auto)
    moreover have "map ((!) B) (map (\<lambda>q. q - 1) qs) = map ((!) (b # B)) qs"
      using that(2) by (auto simp: nth_Cons')
    ultimately show ?thesis
      by (simp only:)
  qed
  show ?case
  proof (cases ps)
    case (Cons p qs)
    show ?thesis
    proof (cases p)
      case 0
      with Cons Cons.prems shift [of qs] show ?thesis
        by simp
    next
      case (Suc k)
      with Cons Cons.prems have "\<forall>q \<in> set ps. 0 < q"
        by auto
      with Cons.prems shift [of ps] show ?thesis
        by auto
    qed
  qed simp
qed

lemma subseq_positions:
  "subseq xs B \<Longrightarrow> \<exists>ps. sorted_wrt (<) ps \<and> (\<forall>p \<in> set ps. p < length B) \<and> map ((!) B) ps = xs"
proof (induction xs B rule: list_emb.induct)
  case (list_emb_Nil ys)
  then show ?case by (intro exI [of _ "[]"]) simp
next
  case (list_emb_Cons xs ys y)
  then obtain ps where "sorted_wrt (<) ps" "\<forall>p \<in> set ps. p < length ys" "map ((!) ys) ps = xs"
    by blast
  then show ?case
    by (intro exI [of _ "map Suc ps"]) (auto simp: sorted_wrt_map comp_def)
next
  case (list_emb_Cons2 x y xs ys)
  then obtain ps where "sorted_wrt (<) ps" "\<forall>p \<in> set ps. p < length ys" "map ((!) ys) ps = xs"
    by blast
  with list_emb_Cons2 show ?case
    by (intro exI [of _ "0 # map Suc ps"]) (auto simp: sorted_wrt_map comp_def)
qed

lemma nth_positions_unique:
  assumes "distinct B" and "\<forall>p \<in> set ps. p < length B" and "\<forall>q \<in> set qs. q < length B"
    and "map ((!) B) ps = map ((!) B) qs"
  shows "ps = qs"
proof -
  have "inj_on ((!) B) (set ps \<union> set qs)"
    using assms by (auto intro!: inj_on_nth)
  with assms(4) show ?thesis
    by (simp add: inj_on_map_eq_map)
qed

definition positions :: "TransactionInfo list \<Rightarrow> string list \<Rightarrow> (nat \<times> string) list" where
  "positions txs expected =
     List.map_filter (\<lambda>h. map_option (\<lambda>p. (p, h)) (find_position (\<lambda>tx. ti_hash tx = h) txs)) expected"

lemma positions_Cons:
  "positions txs (h # hs) =
     (case find_position (\<lambda>tx. ti_hash tx = h) txs of
        Some p \<Rightarrow> (p, h) # positions txs hs
      | None \<Rightarrow> positions txs hs)"
  by (simp add: positions_def map_filter_def split: option.split)

lemma positions_hashes:
  "map snd (positions txs expected) = filter (\<lambda>h. h \<in> set (map ti_hash txs)) expected \<and>
   (\<forall>x \<in> set (positions txs expected). fst x < length txs \<and> ti_hash (txs ! fst x) = snd x)"
proof (induction expected)
  case Nil
  then show ?case by (simp add: positions_def map_filter_def)
next
  case (Cons h hs)
  show ?case
  proof (cases "find_position (\<lambda>tx. ti_hash tx = h) txs")
    case None
    then have "h \<notin> set (map ti_hash txs)"
      by (auto simp: find_position_None)
    with None Cons show ?thesis
      by (simp add: positions_Cons)
  next
    case (Some p)
    from find_position_Some [OF this] Some Cons show ?thesis
      by (auto simp: positions_Cons)
  qed
qed

text \<open>for a block with distinct transaction hashes, the order is judged correct exactly when the
  bundle's transactions that are in the block occur in it, as a subsequence, in the bundle's order; and
  the reported actual order lists those transactions.\<close>

theorem ordering_correct_iff_subsequence:
  assumes "distinct (map ti_hash (bi_transactions block))"
  shows "ov_actual_order (verify_transaction_ordering block expected) =
      filter (\<lambda>h. h \<in> set (map ti_hash (bi_transactions block))) expected \<and>
    (ov_is_correct_order (verify_transaction_ordering block expected) \<longleftrightarrow>
      subseq (filter (\<lambda>h. h \<in> set (map ti_hash (bi_transactions block))) expected)
        (map ti_hash (bi_transactions block)))"
proof -
  let ?B = "map ti_hash (bi_transactions block)"
  let ?ps = "map fst (positions (bi_transactions block) expected)"
  let ?found = "filter (\<lambda>h. h \<in> set ?B) expected"
  note pos = positions_hashes [of "bi_transactions block" expected]
  have order: "ov_actual_order (verify_transaction_ordering block expected) = ?found"
    and correct: "ov_is_correct_order (verify_transaction_ordering block expected) = sorted_wrt (<) ?ps"
    using pos by (simp_all add: verify_transaction_ordering_def positions_def ascending_sorted Let_def)
  from pos have bound: "\<forall>p \<in> set ?ps. p < length ?B"
    by simp
  from pos have "map ((!) ?B) ?ps = map snd (positions (bi_transactions block) expected)"
    unfolding map_map by (intro map_cong) auto
  with pos have at: "map ((!) ?B) ?ps = ?found"
    by (elim conjE) (simp only:)
  have "sorted_wrt (<) ?ps \<longleftrightarrow> subseq ?found ?B"
  proof
    assume "sorted_wrt (<) ?ps"
    from sorted_positions_subseq [OF this bound] at show "subseq ?found ?B"
      by simp
  next
    assume "subseq ?found ?B"
    then obtain qs where qs: "sorted_wrt (<) qs" "\<forall>q \<in> set qs. q < length ?B" "map ((!) ?B) qs = ?found"
      using subseq_positions by blast
    from nth_positions_unique [OF assms bound qs(2)] at qs(3) have "?ps = qs"
      by metis
    with qs(1) show "sorted_wrt (<) ?ps"
      by metis
  qed
  with order correct show ?thesis
    by simp
qed

definition demo_block :: "string list \<Rightarrow> BlockInfo" where
  "demo_block hs = \<lparr>bi_number = 1, bi_hash = [], bi_timestamp = [],
     bi_transactions = map (\<lambda>h. \<lparr>ti_hash = h, ti_from = [], ti_to = None, ti_gas_price = []\<rparr>) hs\<rparr>"

theorem ordering_correct_iff_subsequence_witness:
  "ov_actual_order (verify_transaction_ordering (demo_block [''p'', ''x'', ''q'']) [''q'', ''p'', ''z'']) =
     [''q'', ''p''] \<and>
   (ov_is_correct_order (verify_transaction_ordering (demo_block [''p'', ''x'', ''q'']) [''q'', ''p'', ''z'']) \<longleftrightarrow>
     subseq [''q'', ''p''] [''p'', ''x'', ''q''])"
  using ordering_correct_iff_subsequence [of "demo_block [''p'', ''x'', ''q'']" "[''q'', ''p'', ''z'']"]
  by (simp add: demo_block_def comp_def)

end
