(* ===== verification/Sim_Types.thy ===== *)
theory Sim_Types
  imports Bundle_Types Tx_Types F64_Text
begin

text \<open>
  The bundles and the results of a simulation (\<open>crates/mev-core/src/simulation.rs\<close>). \<open>Bytes\<close> of \<open>ethers\<close>
  is a list of bytes; reading an address, a number or bytes from text is \<open>ethers\<close> as well, the fields of
  \<open>sim_read_env\<close>.
\<close>

record StateOverride =
  sv_balance :: "u256 option"
  sv_nonce :: "u256 option"
  sv_code :: "u8 list option"
  sv_state :: "(h256, h256) hash_map option"
  sv_state_diff :: "(h256, h256) hash_map option"

record SimulationTransaction =
  sx_from :: address
  sx_to :: "address option"
  sx_value :: u256
  sx_gas_limit :: u256
  sx_gas_price :: u256
  sx_data :: "u8 list"
  sx_nonce :: "u256 option"

record SimulationBundle =
  sb_id :: string
  sb_transactions :: "SimulationTransaction list"
  sb_block_number :: "u64 option"
  sb_timestamp :: "u64 option"
  sb_base_fee :: "u256 option"
  sb_state_overrides :: "(address, StateOverride) hash_map option"

record SimulationLog =
  slg_address :: address
  slg_topics :: "h256 list"
  slg_data :: "u8 list"

record TransactionResult =
  trs_success :: bool
  trs_gas_used :: u256
  trs_gas_estimate :: u256
  trs_return_data :: "u8 list option"
  trs_logs :: "SimulationLog list"
  trs_error :: "string option"
  trs_revert_reason :: "string option"
  trs_effective_gas_price :: u256

record ProfitEstimate =
  pe_gross_profit_wei :: u256
  pe_gas_cost_wei :: u256
  pe_net_profit_wei :: u256
  pe_profit_margin :: f64
  pe_confidence :: f64

record SimulationResult =
  sr_bundle_id :: string
  sr_success :: bool
  sr_gas_used :: u256
  sr_gas_cost :: u256
  sr_profit_estimate :: ProfitEstimate
  sr_transaction_results :: "TransactionResult list"
  sr_simulation_time_ms :: f64
  sr_error_message :: "string option"
  sr_block_number :: u64
  sr_effective_gas_price :: u256
  sr_revert_reason :: "string option"

definition ProfitEstimate_default :: ProfitEstimate where
  "ProfitEstimate_default =
     \<lparr>pe_gross_profit_wei = 0, pe_gas_cost_wei = 0, pe_net_profit_wei = 0,
      pe_profit_margin = Finite False 0, pe_confidence = Finite False 0\<rparr>"

record sim_read_env =
  se_read_address :: "string \<Rightarrow> address option"
  se_read_dec :: "string \<Rightarrow> u256 option"
  se_read_bytes :: "string \<Rightarrow> u8 list option"

definition unwrap_or :: "'a \<Rightarrow> 'a option \<Rightarrow> 'a" where
  "unwrap_or d m = (case m of Some x \<Rightarrow> x | None \<Rightarrow> d)"

definition SimulationTransaction_from :: "sim_read_env \<Rightarrow> ParsedTransaction \<Rightarrow> SimulationTransaction" where
  "SimulationTransaction_from R p =
     (let tx = px_transaction p
      in \<lparr>sx_from = unwrap_or 0 (se_read_address R (tx_from tx)),
          sx_to = Option.bind (tx_to tx) (se_read_address R),
          sx_value = unwrap_or 0 (se_read_dec R (tx_value tx)),
          sx_gas_limit = unwrap_or 0 (se_read_dec R (tx_gas_limit tx)),
          sx_gas_price = unwrap_or 0 (se_read_dec R (tx_gas_price tx)),
          sx_data = unwrap_or [] (se_read_bytes R (tx_input tx)),
          sx_nonce = Some (ucast (tx_nonce tx))\<rparr>)"

end
