(* ===== verification/Mev_Strategy.thy ===== *)
theory Mev_Strategy
  imports Sim_Types Interfaces
begin

text \<open>
  \<open>crates/mev-strategies/src/strategy_types.rs\<close>: opportunities, bundle plans, the configuration of a
  strategy, the trait, the statistics and the helper functions. The parameters of a configuration are
  JSON values of type \<open>'v\<close>. The clock readings are arguments: seconds as \<open>u64\<close>, milliseconds as a number.
\<close>

datatype OpportunityType =
    Arbitrage (oa_token_in: string) (oa_token_out: string) (oa_amount_in: u128)
      (oa_expected_profit: u128) (oa_dex_path: "string list")
  | Backrun (ob_target_tx_hash: string) (ob_affected_token: string) (ob_price_impact: f64)
      (ob_follow_up_action: string)
  | Sandwich (os_victim_tx_hash: string) (os_token_pair: "string \<times> string") (os_front_run_amount: u128)
      (os_back_run_amount: u128) (os_expected_profit: u128)
  | Liquidation (ol_protocol: string) (ol_position_owner: string) (ol_collateral_token: string)
      (ol_debt_token: string) (ol_liquidation_amount: u128) (ol_liquidation_bonus: f64)

record Opportunity =
  op_id :: string
  op_strategy_name :: string
  op_target_transaction :: ParsedTransaction
  op_opportunity_type :: OpportunityType
  op_estimated_profit_wei :: u128
  op_estimated_gas_cost_wei :: u128
  op_confidence_score :: f64
  op_priority :: u8
  op_expiry_timestamp :: u64
  op_metadata :: "(string, string) hash_map"

datatype TransactionType = FrontRun | Target | BackRun | ArbitrageTrade | LiquidationCall

record PlannedTransaction =
  pt_transaction_type :: TransactionType
  pt_to :: string
  pt_value :: u128
  pt_gas_limit :: u128
  pt_gas_price :: u128
  pt_data :: string
  pt_description :: string

record BundlePlan =
  bn_id :: string
  bn_strategy_name :: string
  bn_opportunity_id :: string
  bn_transactions :: "PlannedTransaction list"
  bn_estimated_gas_total :: u128
  bn_estimated_profit_wei :: u128
  bn_risk_score :: f64
  bn_execution_deadline :: u64

datatype StrategyResult = Found Opportunity | Planned BundlePlan | NoOpportunity | StrategyError string

record 'v StrategyConfig =
  sc_name :: string
  sc_enabled :: bool
  sc_priority :: u8
  sc_min_profit_wei :: u128
  sc_max_gas_price_gwei :: u64
  sc_risk_tolerance :: f64
  sc_parameters :: "(string, 'v) hash_map"

definition StrategyConfig_default :: "'v StrategyConfig" where
  "StrategyConfig_default =
     \<lparr>sc_name = ''default'', sc_enabled = True, sc_priority = 128, sc_min_profit_wei = 1000000000000000,
      sc_max_gas_price_gwei = 100, sc_risk_tolerance = f64_lit ''0.5'', sc_parameters = hm_empty\<rparr>"

subsection \<open>Statistics\<close>

record StrategyStats =
  ss_opportunities_detected :: u64
  ss_bundles_created :: u64
  ss_bundles_executed :: u64
  ss_successful_executions :: u64
  ss_total_profit_wei :: u128
  ss_total_gas_spent_wei :: u128
  ss_average_profit_per_execution :: f64
  ss_success_rate :: f64
  ss_average_confidence_score :: f64

definition StrategyStats_default :: StrategyStats where
  "StrategyStats_default =
     \<lparr>ss_opportunities_detected = 0, ss_bundles_created = 0, ss_bundles_executed = 0,
      ss_successful_executions = 0, ss_total_profit_wei = 0, ss_total_gas_spent_wei = 0,
      ss_average_profit_per_execution = Finite False 0, ss_success_rate = Finite False 0,
      ss_average_confidence_score = Finite False 0\<rparr>"

definition update_success_rate :: "StrategyStats \<Rightarrow> StrategyStats" where
  "update_success_rate s =
     (if 0 < ss_bundles_executed s then
        s\<lparr>ss_success_rate := f64_div (f64_of_nat (unat (ss_successful_executions s)))
                                     (f64_of_nat (unat (ss_bundles_executed s)))\<rparr>
      else s)"

definition update_average_profit :: "StrategyStats \<Rightarrow> StrategyStats" where
  "update_average_profit s =
     (if 0 < ss_successful_executions s then
        s\<lparr>ss_average_profit_per_execution := f64_div (f64_of_nat (unat (ss_total_profit_wei s)))
                                                     (f64_of_nat (unat (ss_successful_executions s)))\<rparr>
      else s)"

definition update_average_confidence :: "f64 \<Rightarrow> StrategyStats \<Rightarrow> StrategyStats" where
  "update_average_confidence new_confidence s =
     (if ss_opportunities_detected s = 1 then s\<lparr>ss_average_confidence_score := new_confidence\<rparr>
      else
        let total = f64_mul (ss_average_confidence_score s) (f64_of_nat (unat (ss_opportunities_detected s - 1)))
        in s\<lparr>ss_average_confidence_score :=
               f64_div (f64_add total new_confidence) (f64_of_nat (unat (ss_opportunities_detected s)))\<rparr>)"

definition record_opportunity :: "f64 \<Rightarrow> StrategyStats \<Rightarrow> StrategyStats" where
  "record_opportunity confidence s =
     update_average_confidence confidence (s\<lparr>ss_opportunities_detected := ss_opportunities_detected s + 1\<rparr>)"

definition record_bundle_creation :: "StrategyStats \<Rightarrow> StrategyStats" where
  "record_bundle_creation s = s\<lparr>ss_bundles_created := ss_bundles_created s + 1\<rparr>"

definition record_execution :: "bool \<Rightarrow> u128 \<Rightarrow> u128 \<Rightarrow> StrategyStats \<Rightarrow> StrategyStats" where
  "record_execution success profit_wei gas_cost_wei s =
     (let s = s\<lparr>ss_bundles_executed := ss_bundles_executed s + 1\<rparr>;
          s = (if success then
                 s\<lparr>ss_successful_executions := ss_successful_executions s + 1,
                   ss_total_profit_wei := ss_total_profit_wei s + profit_wei\<rparr>
               else s);
          s = s\<lparr>ss_total_gas_spent_wei := ss_total_gas_spent_wei s + gas_cost_wei\<rparr>
      in update_average_profit (update_success_rate s))"

subsection \<open>The trait\<close>

datatype strategy_error =
    UnsupportedDex string
  | WrongOpportunityType
  | UnsupportedTarget
  | NotImplemented
  | OtherFailure string

text \<open>The two readings of the clock of one evaluation.\<close>

record strategy_clock =
  sk_millis :: int
  sk_secs :: u64

record ('s, 'v) strategy_ops =
  so_name :: "'s \<Rightarrow> string"
  so_config :: "'s \<Rightarrow> 'v StrategyConfig"
  so_update_config :: "'v StrategyConfig \<Rightarrow> 's \<Rightarrow> 's \<times> (strategy_error + unit)"
  so_evaluate_transaction :: "strategy_clock \<Rightarrow> ParsedTransaction \<Rightarrow> 's \<Rightarrow> (strategy_error + StrategyResult) run"
  so_create_bundle_plan :: "Opportunity \<Rightarrow> 's \<Rightarrow> (strategy_error + BundlePlan) run"
  so_validate_bundle :: "SimulationBundle \<Rightarrow> 's \<Rightarrow> strategy_error + bool"
  so_analyze_execution :: "BundlePlan \<Rightarrow> SimulationResult \<Rightarrow> 's \<Rightarrow> (strategy_error + unit) run"
  so_get_stats :: "'s \<Rightarrow> StrategyStats"
  so_reset_stats :: "'s \<Rightarrow> 's"

subsection \<open>The registry\<close>

definition registry_register ::
    "('s, 'v) strategy_ops \<Rightarrow> 's \<Rightarrow> (string, 's) hash_map \<Rightarrow> (string, 's) hash_map" where
  "registry_register V strategy strategies = hm_insert (so_name V strategy) strategy strategies"

definition registry_get :: "string \<Rightarrow> (string, 's) hash_map \<Rightarrow> 's option" where
  "registry_get name strategies = None"

definition registry_list :: "(string, 's) hash_map \<Rightarrow> string list" where
  "registry_list strategies = hm_keys strategies"

definition registry_enabled :: "('s, 'v) strategy_ops \<Rightarrow> (string, 's) hash_map \<Rightarrow> string list" where
  "registry_enabled V strategies =
     map (so_name V) (filter (\<lambda>s. sc_enabled (so_config V s)) (hm_values strategies))"

subsection \<open>Helper functions\<close>

text \<open>\<open>f64::min\<close> and \<open>f64::max\<close> give the other operand when one is NaN.\<close>

definition f64_min :: "f64 \<Rightarrow> f64 \<Rightarrow> f64" where
  "f64_min x y = (if x = NaN then y else if y = NaN then x else if f64_lt y x then y else x)"

definition f64_max :: "f64 \<Rightarrow> f64 \<Rightarrow> f64" where
  "f64_max x y = (if x = NaN then y else if y = NaN then x else if f64_lt x y then y else x)"

definition f64_to_u8 :: "f64 \<Rightarrow> u8" where
  "f64_to_u8 x = word_of_nat (f64_to_unsigned (2 ^ 8) x)"

definition saturating_sub :: "u128 \<Rightarrow> u128 \<Rightarrow> u128" where
  "saturating_sub a b = (if b \<le> a then a - b else 0)"

text \<open>The result is an \<open>i128\<close>.\<close>

definition calculate_net_profit :: "u128 \<Rightarrow> u128 \<Rightarrow> u128" where
  "calculate_net_profit gross_profit_wei gas_cost_wei = gross_profit_wei - gas_cost_wei"

definition estimate_gas_cost :: "u128 \<Rightarrow> u64 \<Rightarrow> u128" where
  "estimate_gas_cost gas_limit gas_price_gwei = gas_limit * (ucast gas_price_gwei * 1000000000)"

definition clamp_unit :: "f64 \<Rightarrow> f64" where
  "clamp_unit x = f64_max (f64_min x (Finite False 1)) (Finite False 0)"

definition calculate_confidence_score :: "f64 \<Rightarrow> f64 \<Rightarrow> f64 \<Rightarrow> f64" where
  "calculate_confidence_score profit_margin gas_price_stability market_volatility =
     (let base_confidence = clamp_unit profit_margin;
          gas_factor = clamp_unit gas_price_stability;
          volatility_factor = clamp_unit (f64_sub (Finite False 1) market_volatility)
      in clamp_unit
           (f64_add (f64_add (f64_mul base_confidence (f64_lit ''0.5'')) (f64_mul gas_factor (f64_lit ''0.3'')))
                    (f64_mul volatility_factor (f64_lit ''0.2''))))"

definition generate_opportunity_id :: "string \<Rightarrow> string \<Rightarrow> int \<Rightarrow> string run" where
  "generate_opportunity_id strategy_name hash now_millis =
     run_bind (slice hash 2 10) (\<lambda>short.
       Ret (strategy_name @ ''_'' @ short @ ''_'' @ int_text now_millis))"

definition is_opportunity_valid :: "u64 \<Rightarrow> Opportunity \<Rightarrow> bool" where
  "is_opportunity_valid current_time opportunity \<longleftrightarrow> current_time < op_expiry_timestamp opportunity"

definition calculate_priority_score :: "u128 \<Rightarrow> f64 \<Rightarrow> u8 \<Rightarrow> u8" where
  "calculate_priority_score profit_wei confidence base_priority =
     (let profit_factor =
            f64_min (f64_div (f64_of_nat (unat profit_wei)) (f64_lit ''1000000000000000000.0'')) (Finite False 2);
          priority_boost = f64_to_u8 (f64_mul (f64_mul profit_factor confidence) (Finite False 50))
      in ucast (min ((ucast base_priority :: 16 word) + ucast priority_boost) 255))"

end
