(* ===== verification/Strategy_Engine.thy ===== *)
theory Strategy_Engine
  imports Mev_Strategy
begin

text \<open>
  The engine of \<open>crates/mev-strategies/src/strategy_engine.rs\<close> over strategies of type \<open>'s\<close> with the
  methods \<open>strategy_ops\<close>. The clock in seconds is an argument; \<open>eval_env\<close> tells, for the calls of one
  evaluation in order, the clock readings and whether the time limit ends the call. The order in which a
  \<open>HashMap\<close> is walked when the cache is cut is an argument. A body that waits for ever is \<open>None\<close>.
\<close>

record StrategyEngineConfig =
  ec_max_concurrent_evaluations :: usize
  ec_evaluation_timeout_ms :: u64
  ec_opportunity_cache_size :: usize
  ec_bundle_cache_ttl_seconds :: u64
  ec_enable_parallel_evaluation :: bool

definition StrategyEngineConfig_default :: StrategyEngineConfig where
  "StrategyEngineConfig_default =
     \<lparr>ec_max_concurrent_evaluations = 10, ec_evaluation_timeout_ms = 50, ec_opportunity_cache_size = 1000,
      ec_bundle_cache_ttl_seconds = 30, ec_enable_parallel_evaluation = True\<rparr>"

record StrategyEngineStats =
  es_transactions_evaluated :: u64
  es_opportunities_found :: u64
  es_bundles_created :: u64
  es_total_evaluation_time_ms :: f64
  es_average_evaluation_time_ms :: f64
  es_strategy_performance :: "(string, StrategyStats) hash_map"

definition StrategyEngineStats_default :: StrategyEngineStats where
  "StrategyEngineStats_default =
     \<lparr>es_transactions_evaluated = 0, es_opportunities_found = 0, es_bundles_created = 0,
      es_total_evaluation_time_ms = Finite False 0, es_average_evaluation_time_ms = Finite False 0,
      es_strategy_performance = hm_empty\<rparr>"

record 's StrategyEngine =
  en_config :: StrategyEngineConfig
  en_strategies :: "(string, 's) hash_map"
  en_opportunities :: "(string, Opportunity) hash_map"
  en_bundle_plans :: "(string, BundlePlan) hash_map"
  en_stats :: StrategyEngineStats

datatype engine_error = StrategyNotFound string | PlanFailed strategy_error

definition StrategyEngine_new :: "StrategyEngineConfig \<Rightarrow> 's StrategyEngine" where
  "StrategyEngine_new config =
     \<lparr>en_config = config, en_strategies = hm_empty, en_opportunities = hm_empty, en_bundle_plans = hm_empty,
      en_stats = StrategyEngineStats_default\<rparr>"

definition engine_register :: "('s, 'v) strategy_ops \<Rightarrow> 's \<Rightarrow> 's StrategyEngine \<Rightarrow> 's StrategyEngine" where
  "engine_register V strategy e =
     e\<lparr>en_strategies := hm_insert (so_name V strategy) strategy (en_strategies e)\<rparr>"

definition engine_unregister :: "string \<Rightarrow> 's StrategyEngine \<Rightarrow> 's StrategyEngine \<times> (engine_error + unit)" where
  "engine_unregister name e =
     (if hm_get (en_strategies e) name \<noteq> None then (e\<lparr>en_strategies := hm_remove name (en_strategies e)\<rparr>, Inr ())
      else (e, Inl (StrategyNotFound name)))"

subsection \<open>Evaluation\<close>

record eval_env =
  ev_clock :: "nat \<Rightarrow> strategy_clock"
  ev_timeout :: "nat \<Rightarrow> bool"

text \<open>The tasks never call a strategy; each returns no opportunity.\<close>

definition evaluate_strategies_parallel :: "StrategyEngineConfig \<Rightarrow> 's list \<Rightarrow> Opportunity list option" where
  "evaluate_strategies_parallel config strategies =
     (if strategies \<noteq> [] \<and> ec_max_concurrent_evaluations config = 0 then None else Some [])"

fun evaluate_strategies_sequential ::
    "('s, 'v) strategy_ops \<Rightarrow> eval_env \<Rightarrow> ParsedTransaction \<Rightarrow> nat \<Rightarrow> 's list \<Rightarrow> Opportunity list run" where
  "evaluate_strategies_sequential V env tx i [] = Ret []"
| "evaluate_strategies_sequential V env tx i (strategy # rest) =
     (if ev_timeout env i then evaluate_strategies_sequential V env tx (i + 1) rest
      else
        run_bind (so_evaluate_transaction V (ev_clock env i) tx strategy) (\<lambda>r.
          run_bind (evaluate_strategies_sequential V env tx (i + 1) rest) (\<lambda>opportunities.
            Ret (case r of Inr (Found opp) \<Rightarrow> opp # opportunities | _ \<Rightarrow> opportunities))))"

definition insert_opportunities ::
    "Opportunity list \<Rightarrow> (string, Opportunity) hash_map \<Rightarrow> (string, Opportunity) hash_map" where
  "insert_opportunities os cache = fold (\<lambda>opp. hm_insert (op_id opp) opp) os cache"

definition limit_cache ::
    "(string list \<Rightarrow> string list) \<Rightarrow> usize \<Rightarrow> (string, Opportunity) hash_map \<Rightarrow> (string, Opportunity) hash_map" where
  "limit_cache order limit cache =
     (if unat limit < hm_len cache then
        let keys_to_remove = take (hm_len cache - unat limit) (order (hm_keys cache))
        in fold hm_remove keys_to_remove cache
      else cache)"

definition cache_opportunities ::
    "(string list \<Rightarrow> string list) \<Rightarrow> u64 \<Rightarrow> Opportunity list \<Rightarrow> 's StrategyEngine \<Rightarrow> 's StrategyEngine" where
  "cache_opportunities order current_time os e =
     e\<lparr>en_opportunities :=
         limit_cache order (ec_opportunity_cache_size (en_config e))
           (hm_retain (\<lambda>_ opp. current_time < op_expiry_timestamp opp)
             (insert_opportunities os (en_opportunities e)))\<rparr>"

definition count_evaluation :: "'s StrategyEngine \<Rightarrow> 's StrategyEngine" where
  "count_evaluation e =
     e\<lparr>en_stats := (en_stats e)\<lparr>es_transactions_evaluated := es_transactions_evaluated (en_stats e) + 1\<rparr>\<rparr>"

definition count_found :: "nat \<Rightarrow> duration \<Rightarrow> 's StrategyEngine \<Rightarrow> 's StrategyEngine" where
  "count_found n time e =
     (let stats = en_stats e;
          evaluation_time = elapsed_ms time;
          total = f64_add (es_total_evaluation_time_ms stats) evaluation_time
      in e\<lparr>en_stats := stats\<lparr>
           es_opportunities_found := es_opportunities_found stats + word_of_nat n,
           es_total_evaluation_time_ms := total,
           es_average_evaluation_time_ms := f64_div total (f64_of_nat (unat (es_transactions_evaluated stats)))\<rparr>\<rparr>)"

definition engine_evaluate ::
    "('s, 'v) strategy_ops \<Rightarrow> eval_env \<Rightarrow> (string list \<Rightarrow> string list) \<Rightarrow> u64 \<Rightarrow> duration \<Rightarrow> ParsedTransaction \<Rightarrow>
     's StrategyEngine \<Rightarrow> ('s StrategyEngine \<times> Opportunity list) run option" where
  "engine_evaluate V env order current_time time tx e =
     (let e = count_evaluation e;
          enabled_strategies = filter (\<lambda>s. sc_enabled (so_config V s)) (hm_values (en_strategies e));
          finish = (\<lambda>os. Ret (count_found (length os) time (cache_opportunities order current_time os e), os))
      in if enabled_strategies = [] then Some (Ret (e, []))
         else if ec_enable_parallel_evaluation (en_config e) then
           (case evaluate_strategies_parallel (en_config e) enabled_strategies of
              None \<Rightarrow> None
            | Some os \<Rightarrow> Some (finish os))
         else Some (run_bind (evaluate_strategies_sequential V env tx 0 enabled_strategies) finish))"

subsection \<open>Bundle plans\<close>

definition engine_plan ::
    "('s, 'v) strategy_ops \<Rightarrow> u64 \<Rightarrow> string \<Rightarrow> 's StrategyEngine \<Rightarrow>
     ('s StrategyEngine \<times> (engine_error + BundlePlan option)) run" where
  "engine_plan V current_time opportunity_id e =
     (case hm_get (en_opportunities e) opportunity_id of
        None \<Rightarrow> Ret (e, Inr None)
      | Some opportunity \<Rightarrow>
          if \<not> is_opportunity_valid current_time opportunity then Ret (e, Inr None)
          else
            (case hm_get (en_strategies e) (op_strategy_name opportunity) of
               None \<Rightarrow> Ret (e, Inr None)
             | Some strategy \<Rightarrow>
                 run_bind (so_create_bundle_plan V opportunity strategy) (\<lambda>r.
                   case r of
                     Inr plan \<Rightarrow>
                       Ret (e\<lparr>en_bundle_plans := hm_insert (bn_id plan) plan (en_bundle_plans e),
                              en_stats := (en_stats e)\<lparr>es_bundles_created := es_bundles_created (en_stats e) + 1\<rparr>\<rparr>,
                            Inr (Some plan))
                   | Inl err \<Rightarrow> Ret (e, Inl (PlanFailed err)))))"

subsection \<open>Queries and maintenance\<close>

definition get_active_opportunities :: "u64 \<Rightarrow> 's StrategyEngine \<Rightarrow> Opportunity list" where
  "get_active_opportunities current_time e =
     filter (\<lambda>opp. current_time < op_expiry_timestamp opp) (hm_values (en_opportunities e))"

definition get_opportunities_by_strategy :: "u64 \<Rightarrow> string \<Rightarrow> 's StrategyEngine \<Rightarrow> Opportunity list" where
  "get_opportunities_by_strategy current_time strategy_name e =
     filter (is_opportunity_valid current_time)
       (filter (\<lambda>opp. op_strategy_name opp = strategy_name) (hm_values (en_opportunities e)))"

definition get_bundle_plan :: "string \<Rightarrow> 's StrategyEngine \<Rightarrow> BundlePlan option" where
  "get_bundle_plan bundle_id e = hm_get (en_bundle_plans e) bundle_id"

definition get_strategy_stats :: "('s, 'v) strategy_ops \<Rightarrow> string \<Rightarrow> 's StrategyEngine \<Rightarrow> StrategyStats option" where
  "get_strategy_stats V strategy_name e = map_option (so_get_stats V) (hm_get (en_strategies e) strategy_name)"

definition engine_reset_stats :: "('s, 'v) strategy_ops \<Rightarrow> 's StrategyEngine \<Rightarrow> 's StrategyEngine" where
  "engine_reset_stats V e =
     e\<lparr>en_stats := StrategyEngineStats_default,
       en_strategies := map (\<lambda>(k, s). (k, so_reset_stats V s)) (en_strategies e)\<rparr>"

definition cleanup_expired :: "u64 \<Rightarrow> 's StrategyEngine \<Rightarrow> 's StrategyEngine" where
  "cleanup_expired current_time e =
     e\<lparr>en_opportunities := hm_retain (\<lambda>_ opp. current_time < op_expiry_timestamp opp) (en_opportunities e),
       en_bundle_plans := hm_retain (\<lambda>_ plan. current_time < bn_execution_deadline plan) (en_bundle_plans e)\<rparr>"

end
