(* ===== verification/Swap_Strategies.thy ===== *)
theory Swap_Strategies
  imports Mev_Strategy
begin

text \<open>
  The four strategies of \<open>crates/mev-strategies/src\<close>: \<open>arbitrage.rs\<close>, \<open>backrun.rs\<close>, \<open>sandwich.rs\<close> and
  \<open>liquidation.rs\<close>. Each struct holds its configuration and its statistics. The JSON values that the
  constructors write come from \<open>json_lits\<close>. \<open>SwapStrategy\<close> is the sum of the implementations and
  \<open>swap_ops\<close> the methods of the trait object.
\<close>

record 'v json_lits =
  jl_float :: "f64 \<Rightarrow> 'v"
  jl_strings :: "string list \<Rightarrow> 'v"

record 'v StrategySelf =
  se_config :: "'v StrategyConfig"
  se_stats :: StrategyStats

text \<open>\<open>as f64 / 1e18\<close>\<close>

definition in_eth :: "u128 \<Rightarrow> f64" where
  "in_eth wei = f64_div (f64_of_nat (unat wei)) (f64_lit ''1e18'')"

definition wei_of :: "ParsedTransaction \<Rightarrow> u128 option" where
  "wei_of tx = parse_u128 10 (tx_value (px_transaction tx))"

definition float_parameter :: "'v json_ops \<Rightarrow> 'v StrategySelf \<Rightarrow> string \<Rightarrow> f64 \<Rightarrow> f64" where
  "float_parameter J s name d =
     unwrap_or d (Option.bind (hm_get (sc_parameters (se_config s)) name) (js_f64 J))"

section \<open>Arbitrage\<close>

definition ArbitrageStrategy_new :: "'v json_lits \<Rightarrow> 'v StrategySelf" where
  "ArbitrageStrategy_new L =
     \<lparr>se_config =
        \<lparr>sc_name = ''arbitrage'', sc_enabled = True, sc_priority = 200, sc_min_profit_wei = 10000000000000000,
         sc_max_gas_price_gwei = 200, sc_risk_tolerance = f64_lit ''0.8'',
         sc_parameters =
           hm_insert ''supported_tokens'' (jl_strings L [''WETH'', ''USDC'', ''USDT'', ''DAI'', ''WBTC''])
             (hm_insert ''max_trade_size_eth'' (jl_float L (Finite False 10))
               (hm_insert ''min_price_difference_percent'' (jl_float L (f64_lit ''0.5'')) hm_empty))\<rparr>,
      se_stats = StrategyStats_default\<rparr>"

record ArbitrageOpportunity =
  ao_token_in :: string
  ao_token_out :: string
  ao_amount_in :: u128
  ao_dex_path :: "string list"
  ao_expected_profit :: u128
  ao_price_difference_percent :: f64

definition is_arbitrage_candidate :: "ParsedTransaction \<Rightarrow> bool" where
  "is_arbitrage_candidate tx =
     (if px_target_type tx = UniswapV2 \<or> px_target_type tx = UniswapV3 \<or> px_target_type tx = SushiSwap then
        (case wei_of tx of
           Some value_wei \<Rightarrow> f64_le (Finite False 1) (in_eth value_wei)
         | None \<Rightarrow> False)
      else False)"

definition find_arbitrage_opportunities :: "ParsedTransaction \<Rightarrow> ArbitrageOpportunity list" where
  "find_arbitrage_opportunities tx =
     (if px_target_type tx = UniswapV2 then
        [\<lparr>ao_token_in = ''WETH'', ao_token_out = ''USDC'', ao_amount_in = 1000000000000000000,
          ao_dex_path = [''UniswapV2'', ''SushiSwap''], ao_expected_profit = 50000000000000000,
          ao_price_difference_percent = f64_lit ''2.5''\<rparr>]
      else [])"

definition calculate_arbitrage_profit :: "ArbitrageOpportunity \<Rightarrow> u128" where
  "calculate_arbitrage_profit opportunity =
     saturating_sub (ao_expected_profit opportunity) (estimate_gas_cost 400000 80)"

definition get_dex_router :: "string \<Rightarrow> strategy_error + string" where
  "get_dex_router dex_name =
     (if dex_name = ''UniswapV2'' then Inr ''0x7a250d5630B4cF539739dF2C5dAcb4c659F2488D''
      else if dex_name = ''UniswapV3'' then Inr ''0xE592427A0AEce92De3Edee1F18E0157C05861564''
      else if dex_name = ''SushiSwap'' then Inr ''0xd9e1cE17f2641f24aE83637ab66a2cca9C378B9F''
      else Inl (UnsupportedDex dex_name))"

definition max_gas_price_wei :: "'v StrategySelf \<Rightarrow> u128" where
  "max_gas_price_wei s = ucast (sc_max_gas_price_gwei (se_config s)) * 1000000000"

definition calculate_competitive_gas_price :: "'v StrategySelf \<Rightarrow> u128" where
  "calculate_competitive_gas_price s = min 60000000000 (max_gas_price_wei s)"

text \<open>\<open>dex_path[0]\<close> and \<open>dex_path[1]\<close> panic on a shorter path.\<close>

definition create_arbitrage_transactions ::
    "'v StrategySelf \<Rightarrow> ArbitrageOpportunity \<Rightarrow> (strategy_error + PlannedTransaction list) run" where
  "create_arbitrage_transactions s opportunity =
     (case ao_dex_path opportunity of
        [] \<Rightarrow> Panic
      | buy_dex # rest \<Rightarrow>
          (case get_dex_router buy_dex of
             Inl e \<Rightarrow> Ret (Inl e)
           | Inr buy_router \<Rightarrow>
               (let buy_tx =
                      \<lparr>pt_transaction_type = ArbitrageTrade, pt_to = buy_router,
                       pt_value = ao_amount_in opportunity, pt_gas_limit = 200000,
                       pt_gas_price = calculate_competitive_gas_price s, pt_data = ''0x38ed1739'',
                       pt_description = ''Buy '' @ ao_token_out opportunity @ '' on '' @ buy_dex\<rparr>
                in case rest of
                     [] \<Rightarrow> Panic
                   | sell_dex # _ \<Rightarrow>
                       Ret (res_bind (get_dex_router sell_dex) (\<lambda>sell_router.
                         Inr [buy_tx,
                              \<lparr>pt_transaction_type = ArbitrageTrade, pt_to = sell_router, pt_value = 0,
                               pt_gas_limit = 200000, pt_gas_price = calculate_competitive_gas_price s,
                               pt_data = ''0x38ed1739'',
                               pt_description = ''Sell '' @ ao_token_out opportunity @ '' on '' @ sell_dex\<rparr>])))))"

text \<open>\<open>max_by_key\<close> gives the last of several maxima.\<close>

fun max_by_profit :: "ArbitrageOpportunity \<Rightarrow> ArbitrageOpportunity list \<Rightarrow> ArbitrageOpportunity" where
  "max_by_profit best [] = best"
| "max_by_profit best (p # ps) = max_by_profit (if ao_expected_profit best \<le> ao_expected_profit p then p else best) ps"

fun join_path :: "string list \<Rightarrow> string" where
  "join_path [] = ''''"
| "join_path [d] = d"
| "join_path (d # ds) = d @ '' -> '' @ join_path ds"

definition arbitrage_evaluate ::
    "strategy_clock \<Rightarrow> ParsedTransaction \<Rightarrow> 'v StrategySelf \<Rightarrow> (strategy_error + StrategyResult) run" where
  "arbitrage_evaluate clock tx s =
     (if \<not> sc_enabled (se_config s) then Ret (Inr NoOpportunity)
      else if \<not> is_arbitrage_candidate tx then Ret (Inr NoOpportunity)
      else case find_arbitrage_opportunities tx of
        [] \<Rightarrow> Ret (Inr NoOpportunity)
      | p # ps \<Rightarrow>
          (let best = max_by_profit p ps;
               net_profit = calculate_arbitrage_profit best
           in if net_profit < sc_min_profit_wei (se_config s) then Ret (Inr NoOpportunity)
              else
                let confidence =
                      calculate_confidence_score
                        (f64_div (ao_price_difference_percent best) (Finite False 100))
                        (f64_lit ''0.9'') (f64_lit ''0.2'')
                in run_bind (generate_opportunity_id (sc_name (se_config s)) (tx_hash (px_transaction tx)) (sk_millis clock))
                     (\<lambda>i. Ret (Inr (Found
                       \<lparr>op_id = i, op_strategy_name = sc_name (se_config s), op_target_transaction = tx,
                        op_opportunity_type =
                          Arbitrage (ao_token_in best) (ao_token_out best) (ao_amount_in best) net_profit
                            (ao_dex_path best),
                        op_estimated_profit_wei = net_profit,
                        op_estimated_gas_cost_wei = estimate_gas_cost 400000 80,
                        op_confidence_score = confidence,
                        op_priority = calculate_priority_score net_profit confidence (sc_priority (se_config s)),
                        op_expiry_timestamp = sk_secs clock + 15,
                        op_metadata =
                          hm_insert ''dex_path'' (join_path (ao_dex_path best))
                            (hm_insert ''price_difference_percent'' (f64_display (ao_price_difference_percent best))
                              hm_empty)\<rparr>)))))"

definition bundle_plan ::
    "string \<Rightarrow> Opportunity \<Rightarrow> 'v StrategySelf \<Rightarrow> u128 \<Rightarrow> PlannedTransaction list \<Rightarrow> BundlePlan" where
  "bundle_plan pre opportunity s gas_total transactions =
     \<lparr>bn_id = pre @ op_id opportunity, bn_strategy_name = sc_name (se_config s),
      bn_opportunity_id = op_id opportunity, bn_transactions = transactions,
      bn_estimated_gas_total = gas_total, bn_estimated_profit_wei = op_estimated_profit_wei opportunity,
      bn_risk_score = f64_sub (Finite False 1) (op_confidence_score opportunity),
      bn_execution_deadline = op_expiry_timestamp opportunity\<rparr>"

definition arbitrage_plan :: "Opportunity \<Rightarrow> 'v StrategySelf \<Rightarrow> (strategy_error + BundlePlan) run" where
  "arbitrage_plan opportunity s =
     (case op_opportunity_type opportunity of
        Arbitrage token_in token_out amount_in expected_profit dex_path \<Rightarrow>
          run_bind (create_arbitrage_transactions s
                     \<lparr>ao_token_in = token_in, ao_token_out = token_out, ao_amount_in = amount_in,
                      ao_dex_path = dex_path, ao_expected_profit = op_estimated_profit_wei opportunity,
                      ao_price_difference_percent = Finite False 0\<rparr>)
            (\<lambda>r. Ret (res_bind r (\<lambda>transactions.
               Inr (bundle_plan ''bundle_'' opportunity s 400000 transactions))))
      | _ \<Rightarrow> Ret (Inl WrongOpportunityType))"

text \<open>
  \<open>analyze_execution\<close> of the three strategies only logs, but reads the profit and the gas cost with
  \<open>as_u128\<close>, which panics on a larger value.
\<close>

definition analyze_execution :: "BundlePlan \<Rightarrow> SimulationResult \<Rightarrow> 'v StrategySelf \<Rightarrow> (strategy_error + unit) run" where
  "analyze_execution plan result s =
     run_bind (as_u128 (pe_net_profit_wei (sr_profit_estimate result))) (\<lambda>actual_profit.
       run_bind (as_u128 (sr_gas_cost result)) (\<lambda>gas_cost. Ret (Inr ())))"

section \<open>Backrun\<close>

definition BackrunStrategy_new :: "'v json_lits \<Rightarrow> 'v StrategySelf" where
  "BackrunStrategy_new L =
     \<lparr>se_config =
        \<lparr>sc_name = ''backrun'', sc_enabled = True, sc_priority = 150, sc_min_profit_wei = 5000000000000000,
         sc_max_gas_price_gwei = 150, sc_risk_tolerance = f64_lit ''0.7'',
         sc_parameters =
           hm_insert ''target_protocols'' (jl_strings L [''UniswapV2'', ''UniswapV3'', ''SushiSwap''])
             (hm_insert ''max_slippage_percent'' (jl_float L (Finite False 2))
               (hm_insert ''min_target_value_eth'' (jl_float L (f64_lit ''0.5'')) hm_empty))\<rparr>,
      se_stats = StrategyStats_default\<rparr>"

definition is_backrun_candidate :: "'v json_ops \<Rightarrow> 'v StrategySelf \<Rightarrow> ParsedTransaction \<Rightarrow> bool" where
  "is_backrun_candidate J s tx =
     (if px_target_type tx \<in> {UniswapV2, UniswapV3, SushiSwap, Curve} then
        (case wei_of tx of
           Some value_wei \<Rightarrow>
             (let min_value_eth = float_parameter J s ''min_target_value_eth'' (f64_lit ''0.5'')
              in f64_to_u128 (f64_mul min_value_eth (f64_lit ''1e18'')) \<le> value_wei)
         | None \<Rightarrow> False)
      else False)"

definition analyze_price_impact :: "ParsedTransaction \<Rightarrow> f64" where
  "analyze_price_impact tx =
     (let value_eth = in_eth (unwrap_or 0 (wei_of tx))
      in case px_target_type tx of
           UniswapV2 \<Rightarrow> f64_min (f64_mul value_eth (f64_lit ''0.003'')) (f64_lit ''0.05'')
         | SushiSwap \<Rightarrow> f64_min (f64_mul value_eth (f64_lit ''0.003'')) (f64_lit ''0.05'')
         | UniswapV3 \<Rightarrow> f64_min (f64_mul value_eth (f64_lit ''0.002'')) (f64_lit ''0.03'')
         | Curve \<Rightarrow> f64_min (f64_mul value_eth (f64_lit ''0.001'')) (f64_lit ''0.01'')
         | _ \<Rightarrow> Finite False 0)"

definition calculate_backrun_profit :: "ParsedTransaction \<Rightarrow> f64 \<Rightarrow> u128" where
  "calculate_backrun_profit tx price_impact =
     (let value_wei = unwrap_or 0 (wei_of tx);
          profit_rate =
            (case px_target_type tx of
               UniswapV2 \<Rightarrow> f64_mul price_impact (f64_lit ''0.3'')
             | SushiSwap \<Rightarrow> f64_mul price_impact (f64_lit ''0.3'')
             | UniswapV3 \<Rightarrow> f64_mul price_impact (f64_lit ''0.4'')
             | Curve \<Rightarrow> f64_mul price_impact (f64_lit ''0.5'')
             | _ \<Rightarrow> Finite False 0);
          estimated_profit_wei = f64_to_u128 (f64_mul (f64_of_nat (unat value_wei)) profit_rate)
      in saturating_sub estimated_profit_wei (estimate_gas_cost 150000 50))"

definition get_router_address :: "TargetType \<Rightarrow> strategy_error + string" where
  "get_router_address target_type =
     (case target_type of
        UniswapV2 \<Rightarrow> Inr ''0x7a250d5630B4cF539739dF2C5dAcb4c659F2488D''
      | UniswapV3 \<Rightarrow> Inr ''0xE592427A0AEce92De3Edee1F18E0157C05861564''
      | SushiSwap \<Rightarrow> Inr ''0xd9e1cE17f2641f24aE83637ab66a2cca9C378B9F''
      | _ \<Rightarrow> Inl UnsupportedTarget)"

definition calculate_optimal_gas_price :: "'v StrategySelf \<Rightarrow> ParsedTransaction \<Rightarrow> u128" where
  "calculate_optimal_gas_price s target_tx =
     (let target_gas_price = unwrap_or 20000000000 (parse_u128 10 (tx_gas_price (px_transaction target_tx)));
          premium = target_gas_price div 20;
          our_gas_price = target_gas_price + premium
      in min our_gas_price (max_gas_price_wei s))"

definition create_backrun_transaction :: "'v StrategySelf \<Rightarrow> Opportunity \<Rightarrow> strategy_error + PlannedTransaction" where
  "create_backrun_transaction s opportunity =
     (case op_opportunity_type opportunity of
        Backrun target affected_token price_impact follow_up_action \<Rightarrow>
          res_bind (get_router_address (px_target_type (op_target_transaction opportunity))) (\<lambda>router.
            Inr \<lparr>pt_transaction_type = BackRun, pt_to = router, pt_value = 0, pt_gas_limit = 200000,
                 pt_gas_price = calculate_optimal_gas_price s (op_target_transaction opportunity),
                 pt_data = ''0x38ed1739'',
                 pt_description = ''Backrun '' @ follow_up_action @ '' transaction''\<rparr>)
      | _ \<Rightarrow> Inl WrongOpportunityType)"

definition backrun_evaluate ::
    "'v json_ops \<Rightarrow> strategy_clock \<Rightarrow> ParsedTransaction \<Rightarrow> 'v StrategySelf \<Rightarrow> (strategy_error + StrategyResult) run" where
  "backrun_evaluate J clock tx s =
     (if \<not> sc_enabled (se_config s) then Ret (Inr NoOpportunity)
      else if \<not> is_backrun_candidate J s tx then Ret (Inr NoOpportunity)
      else
        let price_impact = analyze_price_impact tx
        in if f64_lt price_impact (f64_lit ''0.001'') then Ret (Inr NoOpportunity)
           else
             let estimated_profit = calculate_backrun_profit tx price_impact
             in if estimated_profit < sc_min_profit_wei (se_config s) then Ret (Inr NoOpportunity)
                else
                  let confidence =
                        calculate_confidence_score
                          (f64_div (f64_of_nat (unat estimated_profit)) (f64_of_nat (unat (unwrap_or 1 (wei_of tx)))))
                          (f64_lit ''0.8'') price_impact
                  in run_bind (generate_opportunity_id (sc_name (se_config s)) (tx_hash (px_transaction tx)) (sk_millis clock))
                       (\<lambda>i. Ret (Inr (Found
                         \<lparr>op_id = i, op_strategy_name = sc_name (se_config s), op_target_transaction = tx,
                          op_opportunity_type =
                            Backrun (tx_hash (px_transaction tx)) ''UNKNOWN'' price_impact ''arbitrage_swap'',
                          op_estimated_profit_wei = estimated_profit,
                          op_estimated_gas_cost_wei = estimate_gas_cost 200000 50,
                          op_confidence_score = confidence,
                          op_priority = calculate_priority_score estimated_profit confidence (sc_priority (se_config s)),
                          op_expiry_timestamp = sk_secs clock + 30,
                          op_metadata =
                            hm_insert ''target_protocol'' (debug_target_type (px_target_type tx))
                              (hm_insert ''price_impact'' (f64_display price_impact) hm_empty)\<rparr>))))"

definition backrun_plan :: "Opportunity \<Rightarrow> 'v StrategySelf \<Rightarrow> (strategy_error + BundlePlan) run" where
  "backrun_plan opportunity s =
     Ret (res_bind (create_backrun_transaction s opportunity) (\<lambda>backrun_tx.
       Inr (bundle_plan ''bundle_'' opportunity s 200000 [backrun_tx])))"

section \<open>Sandwich\<close>

definition SandwichStrategy_new :: "'v json_lits \<Rightarrow> 'v StrategySelf" where
  "SandwichStrategy_new L =
     \<lparr>se_config =
        \<lparr>sc_name = ''sandwich'', sc_enabled = True, sc_priority = 200, sc_min_profit_wei = 10000000000000000,
         sc_max_gas_price_gwei = 200, sc_risk_tolerance = f64_lit ''0.5'',
         sc_parameters =
           hm_insert ''gas_price_premium_percent'' (jl_float L (Finite False 10))
             (hm_insert ''max_front_run_multiple'' (jl_float L (Finite False 3))
               (hm_insert ''min_victim_value_eth'' (jl_float L (Finite False 1))
                 (hm_insert ''max_slippage_tolerance'' (jl_float L (Finite False 5)) hm_empty)))\<rparr>,
      se_stats = StrategyStats_default\<rparr>"

definition slippage_tolerance :: "u128 \<Rightarrow> u128 \<Rightarrow> f64" where
  "slippage_tolerance amount_out_min value_wei =
     (if 0 < value_wei then
        f64_sub (Finite False 1) (f64_div (f64_of_nat (unat amount_out_min)) (f64_of_nat (unat value_wei)))
      else Finite False 1)"

text \<open>The loop over the decoded parameters; the first that decides ends it.\<close>

fun poor_slippage :: "f64 \<Rightarrow> u128 option \<Rightarrow> DecodedParameter list \<Rightarrow> bool" where
  "poor_slippage max_slippage value [] = True"
| "poor_slippage max_slippage value (param # params) =
     (if dp_name param = ''amountOutMin'' then
        (case parse_u128 10 (dp_value param) of
           Some amount_out_min \<Rightarrow>
             (case value of
                Some value_wei \<Rightarrow> f64_le max_slippage (slippage_tolerance amount_out_min value_wei)
              | None \<Rightarrow> poor_slippage max_slippage value params)
         | None \<Rightarrow> poor_slippage max_slippage value params)
      else poor_slippage max_slippage value params)"

definition has_poor_slippage_protection :: "'v json_ops \<Rightarrow> 'v StrategySelf \<Rightarrow> ParsedTransaction \<Rightarrow> bool" where
  "has_poor_slippage_protection J s tx =
     (case px_decoded_input tx of
        Some decoded \<Rightarrow>
          poor_slippage (f64_div (float_parameter J s ''max_slippage_tolerance'' (Finite False 5)) (Finite False 100))
            (wei_of tx) (di_parameters decoded)
      | None \<Rightarrow> True)"

definition is_sandwich_victim :: "'v json_ops \<Rightarrow> 'v StrategySelf \<Rightarrow> ParsedTransaction \<Rightarrow> bool" where
  "is_sandwich_victim J s tx =
     (if px_target_type tx \<in> {UniswapV2, UniswapV3, SushiSwap} then
        (case wei_of tx of
           Some value_wei \<Rightarrow>
             (let min_value_eth = float_parameter J s ''min_victim_value_eth'' (Finite False 1)
              in f64_to_u128 (f64_mul min_value_eth (f64_lit ''1e18'')) \<le> value_wei
                 \<and> has_poor_slippage_protection J s tx)
         | None \<Rightarrow> False)
      else False)"

definition estimate_price_impact :: "u128 \<Rightarrow> TargetType \<Rightarrow> f64" where
  "estimate_price_impact trade_size_wei target_type =
     (let trade_size_eth = in_eth trade_size_wei
      in case target_type of
           UniswapV2 \<Rightarrow> f64_min (f64_mul trade_size_eth (f64_lit ''0.005'')) (f64_lit ''0.15'')
         | SushiSwap \<Rightarrow> f64_min (f64_mul trade_size_eth (f64_lit ''0.005'')) (f64_lit ''0.15'')
         | UniswapV3 \<Rightarrow> f64_min (f64_mul trade_size_eth (f64_lit ''0.003'')) (f64_lit ''0.10'')
         | _ \<Rightarrow> f64_min (f64_mul trade_size_eth (f64_lit ''0.002'')) (f64_lit ''0.05''))"

text \<open>The size of the front-run, the gross and the net profit. The sum of the two sizes wraps.\<close>

definition calculate_sandwich_profit ::
    "'v json_ops \<Rightarrow> 'v StrategySelf \<Rightarrow> ParsedTransaction \<Rightarrow> u128 \<times> u128 \<times> u128" where
  "calculate_sandwich_profit J s tx =
     (let victim_value_wei = unwrap_or 0 (wei_of tx);
          max_multiple = float_parameter J s ''max_front_run_multiple'' (Finite False 3);
          front_run_size =
            f64_to_u128 (f64_mul (f64_mul (f64_of_nat (unat victim_value_wei)) max_multiple) (f64_lit ''0.5''));
          price_impact = estimate_price_impact (victim_value_wei + front_run_size) (px_target_type tx);
          efficiency =
            (case px_target_type tx of
               UniswapV2 \<Rightarrow> f64_lit ''0.4'' | SushiSwap \<Rightarrow> f64_lit ''0.4''
             | UniswapV3 \<Rightarrow> f64_lit ''0.5'' | _ \<Rightarrow> f64_lit ''0.3'');
          gross_profit = f64_to_u128 (f64_mul (f64_mul (f64_of_nat (unat front_run_size)) price_impact) efficiency)
      in (front_run_size, gross_profit, saturating_sub gross_profit (estimate_gas_cost 400000 100)))"

definition sandwich_gas_price :: "'v json_ops \<Rightarrow> 'v StrategySelf \<Rightarrow> ParsedTransaction \<Rightarrow> u128" where
  "sandwich_gas_price J s victim =
     (let victim_gas_price = unwrap_or 20000000000 (parse_u128 10 (tx_gas_price (px_transaction victim)));
          gas_premium_percent =
            f64_div (float_parameter J s ''gas_price_premium_percent'' (Finite False 10)) (Finite False 100)
      in f64_to_u128 (f64_mul (f64_of_nat (unat victim_gas_price)) (f64_add (Finite False 1) gas_premium_percent)))"

definition create_sandwich_transactions ::
    "'v json_ops \<Rightarrow> 'v StrategySelf \<Rightarrow> Opportunity \<Rightarrow> strategy_error + PlannedTransaction list" where
  "create_sandwich_transactions J s opportunity =
     (case op_opportunity_type opportunity of
        Sandwich victim token_pair front_run_size back_run_size expected_profit \<Rightarrow>
          (let our_gas_price = sandwich_gas_price J s (op_target_transaction opportunity)
           in res_bind (get_router_address (px_target_type (op_target_transaction opportunity))) (\<lambda>router_address.
                Inr [\<lparr>pt_transaction_type = FrontRun, pt_to = router_address, pt_value = front_run_size,
                      pt_gas_limit = 200000, pt_gas_price = our_gas_price + 1000000000, pt_data = ''0x38ed1739'',
                      pt_description = ''Sandwich front-run transaction''\<rparr>,
                     \<lparr>pt_transaction_type = BackRun, pt_to = router_address, pt_value = 0,
                      pt_gas_limit = 200000, pt_gas_price = our_gas_price, pt_data = ''0x38ed1739'',
                      pt_description = ''Sandwich back-run transaction''\<rparr>]))
      | _ \<Rightarrow> Inl WrongOpportunityType)"

definition validate_sandwich_opportunity :: "'v json_ops \<Rightarrow> 'v StrategySelf \<Rightarrow> Opportunity \<Rightarrow> bool" where
  "validate_sandwich_opportunity J s opportunity =
     (if op_estimated_profit_wei opportunity < sc_min_profit_wei (se_config s) then False
      else if f64_lt (op_confidence_score opportunity) (sc_risk_tolerance (se_config s)) then False
      else case op_opportunity_type opportunity of
             Sandwich victim token_pair front_run_amount back_run_amount expected_profit \<Rightarrow>
               (let victim_value = unwrap_or 0 (wei_of (op_target_transaction opportunity));
                    max_multiple = float_parameter J s ''max_front_run_multiple'' (Finite False 3)
                in \<not> f64_to_u128 (f64_mul (f64_of_nat (unat victim_value)) max_multiple) < front_run_amount)
           | _ \<Rightarrow> False)"

definition sandwich_evaluate ::
    "'v json_ops \<Rightarrow> strategy_clock \<Rightarrow> ParsedTransaction \<Rightarrow> 'v StrategySelf \<Rightarrow> (strategy_error + StrategyResult) run" where
  "sandwich_evaluate J clock tx s =
     (if \<not> sc_enabled (se_config s) then Ret (Inr NoOpportunity)
      else if \<not> is_sandwich_victim J s tx then Ret (Inr NoOpportunity)
      else case calculate_sandwich_profit J s tx of
        (front_run_size, gross_profit, net_profit) \<Rightarrow>
          (if net_profit < sc_min_profit_wei (se_config s) then Ret (Inr NoOpportunity)
           else
             let confidence =
                   calculate_confidence_score
                     (f64_div (f64_of_nat (unat net_profit)) (f64_of_nat (unat gross_profit)))
                     (f64_lit ''0.7'') (f64_lit ''0.3'')
             in run_bind (generate_opportunity_id (sc_name (se_config s)) (tx_hash (px_transaction tx)) (sk_millis clock))
                  (\<lambda>i. let opportunity =
                          \<lparr>op_id = i, op_strategy_name = sc_name (se_config s), op_target_transaction = tx,
                           op_opportunity_type =
                             Sandwich (tx_hash (px_transaction tx)) (''ETH'', ''TOKEN'') front_run_size front_run_size
                               net_profit,
                           op_estimated_profit_wei = net_profit,
                           op_estimated_gas_cost_wei = estimate_gas_cost 400000 100,
                           op_confidence_score = confidence,
                           op_priority = calculate_priority_score net_profit confidence (sc_priority (se_config s)),
                           op_expiry_timestamp = sk_secs clock + 15,
                           op_metadata =
                             hm_insert ''target_protocol'' (debug_target_type (px_target_type tx))
                               (hm_insert ''victim_value_eth'' (f64_display (in_eth (unwrap_or 0 (wei_of tx))))
                                 (hm_insert ''front_run_size_eth'' (f64_display (in_eth front_run_size)) hm_empty))\<rparr>
                       in Ret (Inr (if validate_sandwich_opportunity J s opportunity then Found opportunity
                                    else NoOpportunity)))))"

definition sandwich_plan :: "'v json_ops \<Rightarrow> Opportunity \<Rightarrow> 'v StrategySelf \<Rightarrow> (strategy_error + BundlePlan) run" where
  "sandwich_plan J opportunity s =
     Ret (res_bind (create_sandwich_transactions J s opportunity) (\<lambda>transactions.
       Inr (bundle_plan ''sandwich_'' opportunity s 400000 transactions)))"

section \<open>Liquidation\<close>

definition LiquidationStrategy_new :: "'v StrategySelf" where
  "LiquidationStrategy_new =
     \<lparr>se_config =
        \<lparr>sc_name = ''liquidation'', sc_enabled = True, sc_priority = 180, sc_min_profit_wei = 2000000000000000,
         sc_max_gas_price_gwei = 120, sc_risk_tolerance = f64_lit ''0.6'', sc_parameters = hm_empty\<rparr>,
      se_stats = StrategyStats_default\<rparr>"

definition liquidation_evaluate ::
    "strategy_clock \<Rightarrow> ParsedTransaction \<Rightarrow> 'v StrategySelf \<Rightarrow> (strategy_error + StrategyResult) run" where
  "liquidation_evaluate clock tx s =
     (if \<not> sc_enabled (se_config s) then Ret (Inr NoOpportunity) else Ret (Inr NoOpportunity))"

definition liquidation_plan :: "Opportunity \<Rightarrow> 'v StrategySelf \<Rightarrow> (strategy_error + BundlePlan) run" where
  "liquidation_plan opportunity s = Ret (Inl NotImplemented)"

section \<open>The trait object\<close>

datatype 'v SwapStrategy =
    ArbitrageStrategy (strategy_self: "'v StrategySelf")
  | BackrunStrategy (strategy_self: "'v StrategySelf")
  | SandwichStrategy (strategy_self: "'v StrategySelf")
  | LiquidationStrategy (strategy_self: "'v StrategySelf")

definition update_self :: "('v StrategySelf \<Rightarrow> 'v StrategySelf) \<Rightarrow> 'v SwapStrategy \<Rightarrow> 'v SwapStrategy" where
  "update_self f s =
     (case s of
        ArbitrageStrategy x \<Rightarrow> ArbitrageStrategy (f x)
      | BackrunStrategy x \<Rightarrow> BackrunStrategy (f x)
      | SandwichStrategy x \<Rightarrow> SandwichStrategy (f x)
      | LiquidationStrategy x \<Rightarrow> LiquidationStrategy (f x))"

definition swap_evaluate ::
    "'v json_ops \<Rightarrow> strategy_clock \<Rightarrow> ParsedTransaction \<Rightarrow> 'v SwapStrategy \<Rightarrow> (strategy_error + StrategyResult) run" where
  "swap_evaluate J clock tx s =
     (case s of
        ArbitrageStrategy x \<Rightarrow> arbitrage_evaluate clock tx x
      | BackrunStrategy x \<Rightarrow> backrun_evaluate J clock tx x
      | SandwichStrategy x \<Rightarrow> sandwich_evaluate J clock tx x
      | LiquidationStrategy x \<Rightarrow> liquidation_evaluate clock tx x)"

definition swap_plan :: "'v json_ops \<Rightarrow> Opportunity \<Rightarrow> 'v SwapStrategy \<Rightarrow> (strategy_error + BundlePlan) run" where
  "swap_plan J opportunity s =
     (case s of
        ArbitrageStrategy x \<Rightarrow> arbitrage_plan opportunity x
      | BackrunStrategy x \<Rightarrow> backrun_plan opportunity x
      | SandwichStrategy x \<Rightarrow> sandwich_plan J opportunity x
      | LiquidationStrategy x \<Rightarrow> liquidation_plan opportunity x)"

definition swap_ops :: "'v json_ops \<Rightarrow> ('v SwapStrategy, 'v) strategy_ops" where
  "swap_ops J =
     \<lparr>so_name = (\<lambda>s. sc_name (se_config (strategy_self s))),
      so_config = (\<lambda>s. se_config (strategy_self s)),
      so_update_config = (\<lambda>c s. (update_self (\<lambda>x. x\<lparr>se_config := c\<rparr>) s, Inr ())),
      so_evaluate_transaction = swap_evaluate J,
      so_create_bundle_plan = swap_plan J,
      so_validate_bundle = (\<lambda>bundle s. Inr True),
      so_analyze_execution =
        (\<lambda>plan result s.
           case s of LiquidationStrategy x \<Rightarrow> Ret (Inr ()) | _ \<Rightarrow> analyze_execution plan result (strategy_self s)),
      so_get_stats = (\<lambda>s. se_stats (strategy_self s)),
      so_reset_stats = update_self (\<lambda>x. x\<lparr>se_stats := StrategyStats_default\<rparr>)\<rparr>"

end
