(* ===== verification/Tx_Parser.thy ===== *)
theory Tx_Parser
  imports Tx_Types Hash_Map Interfaces
begin

text \<open>
  \<open>crates/mev-mempool/src/parser.rs\<close>: from the JSON of a pending transaction to a parsed one. The
  clock readings are arguments: \<open>utc_now\<close> of the extraction, \<open>start\<close> and \<open>stop\<close> of the measurement.
\<close>

subsection \<open>The ABI decoder\<close>

text \<open>
  The selector table and the simplified argument decoding of
  \<open>crates/mev-mempool/src/abi_decoder.rs\<close>. The input is cut at fixed byte positions, which panics
  when a position is inside a character.
\<close>

type_synonym AbiDecoder = "(string, string \<times> TargetType) hash_map"

definition add_function_signature :: "string \<Rightarrow> string \<Rightarrow> TargetType \<Rightarrow> AbiDecoder \<Rightarrow> AbiDecoder" where
  "add_function_signature signature name target_type d = hm_insert signature (name, target_type) d"

definition load_precompiled_abis :: "AbiDecoder \<Rightarrow> AbiDecoder" where
  "load_precompiled_abis d =
     (let d = add_function_signature ''0xa9059cbb'' ''transfer'' UniswapV2 d;
          d = add_function_signature ''0x7ff36ab5'' ''swapExactETHForTokens'' UniswapV2 d;
          d = add_function_signature ''0x38ed1739'' ''swapExactTokensForTokens'' UniswapV2 d;
          d = add_function_signature ''0x18cbafe5'' ''swapExactTokensForETH'' UniswapV2 d;
          d = add_function_signature ''0x414bf389'' ''exactInputSingle'' UniswapV3 d;
          d = add_function_signature ''0xc04b8d59'' ''exactInput'' UniswapV3 d;
          d = add_function_signature ''0x38ed1739'' ''swapExactTokensForTokens'' SushiSwap d;
          d = add_function_signature ''0x3df02124'' ''exchange'' Curve d;
          d = add_function_signature ''0xa6417ed6'' ''exchange_underlying'' Curve d;
          d = add_function_signature ''0x52bbbe29'' ''swap'' Balancer d
      in d)"

definition AbiDecoder_new :: AbiDecoder where
  "AbiDecoder_new = load_precompiled_abis hm_empty"

definition data_parameter :: "string \<Rightarrow> DecodedParameter" where
  "data_parameter rest = \<lparr>dp_name = ''data'', dp_param_type = ''bytes'', dp_value = rest\<rparr>"

definition decode_parameters :: "string \<Rightarrow> string \<Rightarrow> DecodedParameter list run" where
  "decode_parameters input function_signature =
     (if function_signature = ''0xa9059cbb''
      then
        (if 74 \<le> length input
         then
           run_bind (slice input 34 74) (\<lambda>recipient.
             run_bind (slice input 74 (length input)) (\<lambda>amount_hex.
               Ret [\<lparr>dp_name = ''to'', dp_param_type = ''address'', dp_value = ''0x'' @ recipient\<rparr>,
                    \<lparr>dp_name = ''amount'', dp_param_type = ''uint256'', dp_value = ''0x'' @ amount_hex\<rparr>]))
         else Ret [])
      else if function_signature = ''0x38ed1739''
      then Ret [\<lparr>dp_name = ''amountIn'', dp_param_type = ''uint256'', dp_value = ''decoded_amount_in''\<rparr>,
                \<lparr>dp_name = ''amountOutMin'', dp_param_type = ''uint256'', dp_value = ''decoded_amount_out_min''\<rparr>]
      else run_bind (slice input 10 (length input)) (\<lambda>rest. Ret [data_parameter rest]))"

definition decode_generic_function :: "string \<Rightarrow> DecodedInput run" where
  "decode_generic_function input =
     run_bind (slice input 0 10) (\<lambda>function_signature.
       run_bind (slice input 10 (length input)) (\<lambda>rest.
         Ret \<lparr>di_function_name = ''unknown'', di_function_signature = function_signature,
              di_parameters = [data_parameter rest]\<rparr>))"

definition decode_input :: "AbiDecoder \<Rightarrow> string \<Rightarrow> DecodedInput option run" where
  "decode_input d input =
     (if length input < 10 then Ret None
      else
        run_bind (slice input 0 10) (\<lambda>function_signature.
          case hm_get d function_signature of
            Some (function_name, _) \<Rightarrow>
              run_bind (decode_parameters input function_signature) (\<lambda>parameters.
                Ret (Some \<lparr>di_function_name = function_name, di_function_signature = function_signature,
                  di_parameters = parameters\<rparr>))
          | None \<Rightarrow> run_bind (decode_generic_function input) (\<lambda>decoded. Ret (Some decoded))))"

definition determine_target_type :: "AbiDecoder \<Rightarrow> string option \<Rightarrow> string \<Rightarrow> TargetType" where
  "determine_target_type d to_address function_signature =
     (case hm_get d function_signature of
        Some (_, target_type) \<Rightarrow> target_type
      | None \<Rightarrow>
          (case to_address of
             Some address \<Rightarrow>
               (let a = to_lowercase address in
                if a = ''0x7a250d5630b4cf539739df2c5dacb4c659f2488d'' then UniswapV2
                else if a = ''0xe592427a0aece92de3edee1f18e0157c05861564'' then UniswapV3
                else if a = ''0xd9e1ce17f2641f24ae83637ab66a2cca9c378b9f'' then SushiSwap
                else Unknown)
           | None \<Rightarrow> Unknown))"

lemma decoder_lookup:
  "hm_get AbiDecoder_new s =
     (if s = ''0x52bbbe29'' then Some (''swap'', Balancer)
      else if s = ''0xa6417ed6'' then Some (''exchange_underlying'', Curve)
      else if s = ''0x3df02124'' then Some (''exchange'', Curve)
      else if s = ''0x38ed1739'' then Some (''swapExactTokensForTokens'', SushiSwap)
      else if s = ''0xc04b8d59'' then Some (''exactInput'', UniswapV3)
      else if s = ''0x414bf389'' then Some (''exactInputSingle'', UniswapV3)
      else if s = ''0x18cbafe5'' then Some (''swapExactTokensForETH'', UniswapV2)
      else if s = ''0x7ff36ab5'' then Some (''swapExactETHForTokens'', UniswapV2)
      else if s = ''0xa9059cbb'' then Some (''transfer'', UniswapV2)
      else None)"
  by (simp add: AbiDecoder_new_def load_precompiled_abis_def add_function_signature_def Let_def
      del: char_of_char list.inject)

text \<open>ASCII input never panics, and an input with a selector is always decoded with its selector.\<close>

lemma decode_input_ascii:
  assumes "is_ascii input"
  shows "\<exists>r. decode_input d input = Ret r \<and> (r = None \<longleftrightarrow> length input < 10) \<and>
    pred_option (\<lambda>i. di_function_signature i = take 10 input) r"
proof (cases "length input < 10")
  case False
  have "slice input 0 10 = Ret (take 10 input)" "slice input 10 (length input) = Ret (drop 10 input)"
    using assms False by (simp_all add: slice_ascii)
  moreover have "74 \<le> length input \<Longrightarrow> slice input 34 74 = Ret (take 40 (drop 34 input)) \<and>
      slice input 74 (length input) = Ret (drop 74 input)"
    using assms by (simp add: slice_ascii)
  ultimately show ?thesis
    using False by (auto simp: decode_input_def decode_parameters_def decode_generic_function_def
        split: option.split)
qed (simp add: decode_input_def)

subsection \<open>The parser\<close>

datatype parse_error = MissingHash | MissingFrom | BadGasPrice | BadValue

definition extract_transaction_fields ::
  "'v json_ops \<Rightarrow> int \<Rightarrow> 'v \<Rightarrow> parse_error + Transaction"
where
  "extract_transaction_fields J utc_now raw_tx =
     (case js_field_str J ''hash'' raw_tx of
        None \<Rightarrow> Inl MissingHash
      | Some hash \<Rightarrow>
          (case js_field_str J ''from'' raw_tx of
             None \<Rightarrow> Inl MissingFrom
           | Some sender \<Rightarrow>
               Inr \<lparr>tx_hash = hash, tx_from = sender, tx_to = js_field_str J ''to'' raw_tx,
                 tx_value = js_str_or J ''value'' raw_tx ''0x0'',
                 tx_gas_price = js_str_or J ''gasPrice'' raw_tx ''0x0'',
                 tx_gas_limit = js_str_or J ''gas'' raw_tx ''0x0'',
                 tx_nonce =
                   (case Option.bind (js_field_str J ''nonce'' raw_tx)
                           (\<lambda>s. parse_u64 16 (trim_start_matches ''0x'' s)) of
                      Some n \<Rightarrow> n | None \<Rightarrow> 0),
                 tx_input = js_str_or J ''input'' raw_tx ''0x'',
                 tx_timestamp = utc_now\<rparr>))"

record parse_clock =
  pc_start :: instant
  pc_utc :: int
  pc_stop :: instant

definition parse_transaction ::
  "'v json_ops \<Rightarrow> AbiDecoder \<Rightarrow> parse_clock \<Rightarrow> 'v \<Rightarrow> (parse_error + ParsedTransaction) run"
where
  "parse_transaction J d clock raw_tx =
     (case extract_transaction_fields J (pc_utc clock) raw_tx of
        Inl e \<Rightarrow> Ret (Inl e)
      | Inr tx \<Rightarrow>
          run_bind
            (if tx_input tx \<noteq> [] \<and> tx_input tx \<noteq> ''0x'' then decode_input d (tx_input tx) else Ret None)
            (\<lambda>decoded_input.
               let target_type =
                     (case decoded_input of
                        Some decoded \<Rightarrow> determine_target_type d (tx_to tx) (di_function_signature decoded)
                      | None \<Rightarrow> determine_target_type d (tx_to tx) []);
                   processing_time = of_nat (elapsed (pc_stop clock) (pc_start clock) div 1000000)
               in Ret (Inr \<lparr>px_transaction = tx, px_decoded_input = decoded_input,
                    px_target_type = target_type, px_processing_time_ms = processing_time\<rparr>)))"

fun parse_batch ::
  "'v json_ops \<Rightarrow> AbiDecoder \<Rightarrow> (parse_clock \<times> 'v) list \<Rightarrow> ParsedTransaction list run"
where
  "parse_batch J d [] = Ret []"
| "parse_batch J d ((clock, raw_tx) # rest) =
     run_bind (parse_transaction J d clock raw_tx) (\<lambda>r.
       run_bind (parse_batch J d rest) (\<lambda>ps.
         Ret (case r of Inr parsed_tx \<Rightarrow> parsed_tx # ps | Inl e \<Rightarrow> ps)))"

definition is_interesting_transaction :: "ParsedTransaction \<Rightarrow> bool" where
  "is_interesting_transaction p =
     (if tx_to (px_transaction p) = None then False
      else if tx_input (px_transaction p) = [] \<or> tx_input (px_transaction p) = ''0x'' then False
      else (case px_target_type p of
              UniswapV2 \<Rightarrow> True | UniswapV3 \<Rightarrow> True | SushiSwap \<Rightarrow> True
            | Curve \<Rightarrow> True | Balancer \<Rightarrow> True
            | _ \<Rightarrow> False))"

definition extract_gas_price_wei :: "string \<Rightarrow> parse_error + u64" where
  "extract_gas_price_wei gas_price_hex =
     (case parse_u64 16 (trim_start_matches ''0x'' gas_price_hex) of
        Some n \<Rightarrow> Inr n | None \<Rightarrow> Inl BadGasPrice)"

definition extract_value_wei :: "string \<Rightarrow> parse_error + u128" where
  "extract_value_wei value_hex =
     (let cleaned = trim_start_matches ''0x'' value_hex
      in if cleaned = [] then Inr 0
         else (case parse_u128 16 cleaned of Some n \<Rightarrow> Inr n | None \<Rightarrow> Inl BadValue))"

subsection \<open>The fields of a parsed transaction\<close>

lemma extracted_fields:
  "extract_transaction_fields J t raw = Inr tx \<Longrightarrow>
     tx_value tx = js_str_or J ''value'' raw ''0x0'' \<and>
     tx_gas_price tx = js_str_or J ''gasPrice'' raw ''0x0''"
  by (auto simp: extract_transaction_fields_def split: option.splits)

lemma parsed_fields:
  assumes "parse_transaction J d clock raw = Ret (Inr p)"
  shows "tx_value (px_transaction p) = js_str_or J ''value'' raw ''0x0'' \<and>
    tx_gas_price (px_transaction p) = js_str_or J ''gasPrice'' raw ''0x0''"
proof -
  from assms obtain tx where "extract_transaction_fields J (pc_utc clock) raw = Inr tx" "px_transaction p = tx"
    by (auto simp: parse_transaction_def run_bind_Ret_iff Let_def split: sum.splits)
  with extracted_fields [of J "pc_utc clock" raw tx] show ?thesis
    by simp
qed

end
