(* ===== verification/F64_Order.thy ===== *)
theory F64_Order
  imports F64
begin

text \<open>
  Rounding keeps the order of the values it rounds. The quotients the statistics of the program take, of a
  count by a count that is at least as large, are therefore between zero and one.
\<close>

subsection \<open>Rounding is monotone\<close>

definition rounded :: "rat \<Rightarrow> rat" where
  "rounded q = of_int (round_half_even (q / pow2 (ulp_exponent q))) * pow2 (ulp_exponent q)"

lemma f64_round_rounded:
  "q \<noteq> 0 \<Longrightarrow> f64_round neg q = (if 2 ^ 1024 \<le> rounded q then Infinity neg else Finite neg (rounded q))"
  by (simp add: f64_round_def rounded_def Let_def)

lemma round_half_even_floor: "\<lfloor>q\<rfloor> \<le> round_half_even q" "round_half_even q \<le> \<lfloor>q\<rfloor> + 1"
  by (auto simp: round_half_even_def Let_def)

lemma round_half_even_mono:
  assumes "p \<le> q"
  shows "round_half_even p \<le> round_half_even q"
proof (cases "\<lfloor>p\<rfloor> = \<lfloor>q\<rfloor>")
  case True
  then have "p - of_int \<lfloor>p\<rfloor> \<le> q - of_int \<lfloor>q\<rfloor>"
    using assms by simp
  with True show ?thesis
    by (auto simp: round_half_even_def Let_def)
next
  case False
  with floor_mono [OF assms] have "\<lfloor>p\<rfloor> + 1 \<le> \<lfloor>q\<rfloor>"
    by simp
  with round_half_even_floor(2) [of p] round_half_even_floor(1) [of q] show ?thesis
    by linarith
qed

lemma floor_log2_mono:
  assumes "0 < p" and "p \<le> q"
  shows "floor_log2 p \<le> floor_log2 q"
proof -
  have "0 < q"
    using assms by linarith
  with assms floor_log2_bounds(1) [of p] floor_log2_bounds(2) [of q]
  have "pow2 (floor_log2 p) < pow2 (floor_log2 q + 1)"
    by linarith
  then show ?thesis
    by (simp add: pow2_strict_iff)
qed

text \<open>A value rounds to at most \<open>2 ^ 53\<close> units of its last bit, and to at least \<open>2 ^ 52\<close> when it is normal.\<close>

lemma rounded_upper:
  assumes "0 < q"
  shows "rounded q \<le> pow2 (ulp_exponent q + 53)"
proof -
  let ?u = "pow2 (ulp_exponent q)"
  have "pow2 (floor_log2 q + 1) \<le> pow2 (ulp_exponent q + 53)"
    by (simp add: pow2_mono_iff ulp_exponent_def)
  then have "q \<le> pow2 53 * ?u"
    using floor_log2_bounds(2) [OF assms] by (simp add: pow2_add mult.commute)
  then have "q / ?u \<le> pow2 53"
    by (simp add: pos_divide_le_eq)
  then have "q / ?u \<le> of_int (2 ^ 53)"
    by (simp add: pow2_nat)
  then have "round_half_even (q / ?u) \<le> round_half_even (of_int (2 ^ 53))"
    by (rule round_half_even_mono)
  then have "of_int (round_half_even (q / ?u)) \<le> (of_int (2 ^ 53) :: rat)"
    by (simp only: round_half_even_of_int of_int_le_iff)
  then have "of_int (round_half_even (q / ?u)) \<le> pow2 53"
    by (simp add: pow2_nat)
  then have "rounded q \<le> pow2 53 * ?u"
    unfolding rounded_def by (rule mult_right_mono) (simp add: order_less_imp_le)
  then show ?thesis
    by (simp add: pow2_add mult.commute)
qed

lemma rounded_lower:
  assumes "0 < q" and normal: "ulp_exponent q = floor_log2 q - 52"
  shows "pow2 (ulp_exponent q + 52) \<le> rounded q"
proof -
  let ?u = "pow2 (ulp_exponent q)"
  have "pow2 52 * ?u \<le> q"
    using floor_log2_bounds(1) [OF assms(1)] by (simp add: normal flip: pow2_add)
  then have "pow2 52 \<le> q / ?u"
    by (simp add: pos_le_divide_eq)
  then have "of_int (2 ^ 52) \<le> q / ?u"
    by (simp add: pow2_nat)
  then have "round_half_even (of_int (2 ^ 52)) \<le> round_half_even (q / ?u)"
    by (rule round_half_even_mono)
  then have "(of_int (2 ^ 52) :: rat) \<le> of_int (round_half_even (q / ?u))"
    by (simp only: round_half_even_of_int of_int_le_iff)
  then have "pow2 52 \<le> of_int (round_half_even (q / ?u))"
    by (simp add: pow2_nat)
  then have "pow2 52 * ?u \<le> rounded q"
    unfolding rounded_def by (rule mult_right_mono) (simp add: order_less_imp_le)
  then show ?thesis
    by (simp add: pow2_add mult.commute)
qed

lemma rounded_mono:
  assumes "0 < p" and "p \<le> q"
  shows "rounded p \<le> rounded q"
proof (cases "ulp_exponent p = ulp_exponent q")
  case True
  have "p / pow2 (ulp_exponent q) \<le> q / pow2 (ulp_exponent q)"
    using assms(2) by (intro divide_right_mono) (simp_all add: order_less_imp_le)
  then show ?thesis
    unfolding rounded_def True
    by (intro mult_right_mono) (simp_all add: round_half_even_mono order_less_imp_le)
next
  case False
  have q: "0 < q"
    using assms by linarith
  from False floor_log2_mono [OF assms] have "ulp_exponent p < ulp_exponent q"
      and normal: "ulp_exponent q = floor_log2 q - 52"
    by (auto simp: ulp_exponent_def)
  then have "pow2 (ulp_exponent p + 53) \<le> pow2 (ulp_exponent q + 52)"
    by (simp add: pow2_mono_iff)
  with rounded_upper [OF assms(1)] rounded_lower [OF q normal] show ?thesis
    by linarith
qed

lemma rounded_nonneg: "0 < q \<Longrightarrow> 0 \<le> rounded q"
  using round_half_even_mono [of 0 "q / pow2 (ulp_exponent q)"] round_half_even_of_int [of 0]
  by (simp add: rounded_def order_less_imp_le)

lemma f64_round_mono:
  assumes "0 \<le> p" and "p \<le> q"
  shows "f64_le (f64_round False p) (f64_round False q)"
proof (cases "p = 0")
  case True
  then show ?thesis
    using rounded_nonneg [of q] assms
    by (cases "q = 0") (auto simp: f64_round_rounded f64_round_def [of _ 0] f64_le_def signed_def)
next
  case False
  with assms have pos: "0 < p" "0 < q"
    by linarith+
  with rounded_mono [OF pos(1) assms(2)] show ?thesis
    by (auto simp: f64_round_rounded f64_le_def signed_def)
qed

subsection \<open>Ratios of counts\<close>

definition in_unit :: "f64 \<Rightarrow> bool" where
  "in_unit x \<longleftrightarrow> f64_le (Finite False 0) x \<and> f64_le x (Finite False 1)"

lemma in_unit_iff: "in_unit x \<longleftrightarrow> (\<exists>neg q. x = Finite neg q \<and> 0 \<le> signed neg q \<and> signed neg q \<le> 1)"
  by (cases x) (auto simp: in_unit_def f64_le_def signed_def)

lemma f64_of_nat_mono: "m \<le> n \<Longrightarrow> f64_le (f64_of_nat m) (f64_of_nat n)"
  unfolding f64_of_nat_def by (rule f64_round_mono) simp_all

lemma f64_round_zero_one: "f64_round False 0 = Finite False 0" "f64_round False 1 = Finite False 1"
  using f64_of_nat_exact [of 0] f64_of_nat_exact [of 1] by (simp_all add: f64_of_nat_def)

text \<open>The larger count is below \<open>2 ^ 1023\<close>, so that it does not round to infinity.\<close>

lemma ratio_in_unit:
  assumes "m \<le> n" and "0 < n" and "n < 2 ^ 1023"
  shows "in_unit (f64_div (f64_of_nat m) (f64_of_nat n))"
proof -
  obtain b where b: "f64_of_nat n = Finite False b" "of_nat n / 2 \<le> b"
    using f64_of_nat_half [OF assms(2,3)] by blast
  have pos: "0 < b"
    using b(2) assms(2) by (simp add: less_le_trans)
  obtain a where a: "f64_of_nat m = Finite False a" "0 \<le> a" "a \<le> b"
    using f64_of_nat_mono [of 0 m] f64_of_nat_mono [OF assms(1)] f64_of_nat_exact [of 0] b(1)
    by (cases "f64_of_nat m") (auto simp: f64_le_def signed_def f64_of_nat_def f64_round_def Let_def split: if_splits)
  have q: "0 \<le> a / b" "a / b \<le> 1"
    using pos a by (simp_all add: pos_divide_le_eq)
  from f64_round_mono [OF order_refl q(1)] f64_round_mono [OF q] show ?thesis
    using pos by (simp add: in_unit_def a(1) b(1) f64_round_zero_one)
qed

lemma word_ratio_in_unit:
  fixes m n :: u64
  assumes "m \<le> n" and "0 < n"
  shows "in_unit (f64_div (f64_of_nat (unat m)) (f64_of_nat (unat n)))"
proof (rule ratio_in_unit)
  show "unat m \<le> unat n" "0 < unat n"
    using assms by (simp_all add: word_le_nat_alt word_less_nat_alt)
  have "unat n < 2 ^ LENGTH(64)"
    by (rule unsigned_less)
  also have "\<dots> \<le> (2 :: nat) ^ 1023"
    by (rule power_increasing) simp_all
  finally show "unat n < 2 ^ 1023" .
qed

end
