(* ===== verification/Swap_Facts.thy ===== *)
theory Swap_Facts
  imports Swap_Strategies Tx_Parser F64_Order
begin

text \<open>
  What the strategies report, for every configuration and transaction, what becomes of it as a bundle
  plan, and the gas prices of the plans.
\<close>

subsection \<open>Scores\<close>

lemma clamp_unit_in_unit: "in_unit (clamp_unit x)"
  by (cases x) (auto simp: in_unit_def clamp_unit_def f64_max_def f64_min_def f64_le_def signed_def)

lemma confidence_in_unit: "in_unit (calculate_confidence_score a b c)"
  by (simp add: calculate_confidence_score_def Let_def clamp_unit_in_unit)

lemma priority_at_least_base: "base \<le> calculate_priority_score profit confidence base"
proof -
  let ?boost = "f64_to_u8 (f64_mul (f64_mul (f64_min (f64_div (f64_of_nat (unat profit))
    (f64_lit ''1000000000000000000.0'')) (Finite False 2)) confidence) (Finite False 50))"
  let ?sum = "(ucast base :: 16 word) + ucast ?boost"
  have "unat base < 256" "unat ?boost < 256"
    by (rule order_less_le_trans [OF unsigned_less], simp)+
  moreover from this have sum: "unat ?sum = unat base + unat ?boost"
    by (subst unat_plus_if') (simp_all add: unsigned_ucast_eq take_bit_nat_eq_self)
  ultimately have "unat (min ?sum 255) \<le> 255" "unat base \<le> unat (min ?sum 255)"
    by (auto simp: min_def word_le_nat_alt)
  then have "unat base \<le> unat (ucast (min ?sum 255) :: u8)"
    by (simp add: unsigned_ucast_eq take_bit_nat_eq_self)
  then show ?thesis
    by (simp only: calculate_priority_score_def Let_def word_le_nat_alt)
qed

subsection \<open>What is reported\<close>

definition opportunity_ok :: "'v SwapStrategy \<Rightarrow> ParsedTransaction \<Rightarrow> Opportunity \<Rightarrow> bool" where
  "opportunity_ok s tx opp \<longleftrightarrow>
     op_target_transaction opp = tx
     \<and> op_strategy_name opp = sc_name (se_config (strategy_self s))
     \<and> sc_min_profit_wei (se_config (strategy_self s)) \<le> op_estimated_profit_wei opp
     \<and> sc_priority (se_config (strategy_self s)) \<le> op_priority opp
     \<and> in_unit (op_confidence_score opp)
     \<and> px_target_type tx \<in> {UniswapV2, UniswapV3, SushiSwap, Curve}
     \<and> wei_of tx \<noteq> None
     \<and> (case (s, op_opportunity_type opp) of
          (ArbitrageStrategy _, Arbitrage a b n profit path) \<Rightarrow>
            profit = op_estimated_profit_wei opp \<and> path = [''UniswapV2'', ''SushiSwap'']
        | (BackrunStrategy _, Backrun target t impact f) \<Rightarrow> target = tx_hash (px_transaction tx)
        | (SandwichStrategy x, Sandwich victim p front back profit) \<Rightarrow>
            victim = tx_hash (px_transaction tx) \<and> profit = op_estimated_profit_wei opp \<and> back = front
            \<and> px_target_type tx \<noteq> Curve
            \<and> \<not> f64_lt (op_confidence_score opp) (sc_risk_tolerance (se_config x))
        | _ \<Rightarrow> False)"

lemmas evaluate_simps = opportunity_ok_def confidence_in_unit priority_at_least_base not_less

text \<open>What any evaluation may give: it panics for the hash only.\<close>

definition outcome_ok ::
    "'v SwapStrategy \<Rightarrow> ParsedTransaction \<Rightarrow> (strategy_error + StrategyResult) run \<Rightarrow> bool" where
  "outcome_ok s tx m \<longleftrightarrow>
     (case m of
        Panic \<Rightarrow> slice (tx_hash (px_transaction tx)) 2 10 = Panic
      | Ret r \<Rightarrow> r = Inr NoOpportunity
          \<or> (\<exists>opp. r = Inr (Found opp) \<and> sc_enabled (se_config (strategy_self s)) \<and> opportunity_ok s tx opp))"

lemma outcome_ok_none [simp]: "outcome_ok s tx (Ret (Inr NoOpportunity))"
  by (simp add: outcome_ok_def)

lemma outcome_ok_identified:
  assumes "\<And>i. outcome_ok s tx (f i)"
  shows "outcome_ok s tx (run_bind (generate_opportunity_id name (tx_hash (px_transaction tx)) t) f)"
proof (cases "slice (tx_hash (px_transaction tx)) 2 10")
  case Panic
  then show ?thesis
    by (simp add: generate_opportunity_id_def outcome_ok_def)
qed (simp add: generate_opportunity_id_def assms)

lemma outcome_ok_found:
  "sc_enabled (se_config (strategy_self s)) \<Longrightarrow> opportunity_ok s tx opp \<Longrightarrow> outcome_ok s tx (Ret (Inr (Found opp)))"
  by (simp add: outcome_ok_def)

lemma arbitrage_outcome: "outcome_ok (ArbitrageStrategy x) tx (arbitrage_evaluate clock tx x)"
  by (auto simp: arbitrage_evaluate_def find_arbitrage_opportunities_def is_arbitrage_candidate_def Let_def
      evaluate_simps split: option.splits intro!: outcome_ok_identified outcome_ok_found)

lemma backrun_outcome: "outcome_ok (BackrunStrategy x) tx (backrun_evaluate J clock tx x)"
  by (auto simp: backrun_evaluate_def is_backrun_candidate_def Let_def evaluate_simps
      split: option.splits if_splits intro!: outcome_ok_identified outcome_ok_found)

lemma sandwich_outcome: "outcome_ok (SandwichStrategy x) tx (sandwich_evaluate J clock tx x)"
  by (auto simp: sandwich_evaluate_def is_sandwich_victim_def Let_def evaluate_simps
      validate_sandwich_opportunity_def
      split: option.splits if_splits prod.splits intro!: outcome_ok_identified outcome_ok_found)

lemma swap_outcome: "outcome_ok s tx (swap_evaluate J clock tx s)"
  by (cases s) (simp_all add: swap_evaluate_def arbitrage_outcome backrun_outcome sandwich_outcome
      liquidation_evaluate_def)

lemma reported_ok:
  "swap_evaluate J clock tx s = Ret (Inr (Found opp)) \<Longrightarrow> opportunity_ok s tx opp"
  using swap_outcome [of s tx J clock] by (simp add: outcome_ok_def)

text \<open>C26: whatever its configuration, a strategy reports an opportunity only when enabled, for a swap on a
  supported exchange whose value is a decimal number, with at least the configured profit and priority and
  a confidence between 0 and 1; it never fails, and it panics only for a hash too short to be cut.\<close>

theorem swap_evaluate_outcome:
  "case swap_evaluate J clock tx s of
     Panic \<Rightarrow> slice (tx_hash (px_transaction tx)) 2 10 = Panic
   | Ret (Inl e) \<Rightarrow> False
   | Ret (Inr NoOpportunity) \<Rightarrow> True
   | Ret (Inr (Found opp)) \<Rightarrow> sc_enabled (se_config (strategy_self s)) \<and> opportunity_ok s tx opp
   | Ret (Inr other) \<Rightarrow> False"
  using swap_outcome [of s tx J clock]
  by (cases "swap_evaluate J clock tx s") (auto simp: outcome_ok_def)

subsection \<open>Transactions of a node\<close>

text \<open>A node writes quantities in hexadecimal; the strategies read them as decimal numbers.\<close>

lemma undecodable_value_ignored: "wei_of tx = None \<Longrightarrow> swap_evaluate J clock tx s = Ret (Inr NoOpportunity)"
  by (cases s) (simp_all add: swap_evaluate_def arbitrage_evaluate_def is_arbitrage_candidate_def
      backrun_evaluate_def is_backrun_candidate_def sandwich_evaluate_def is_sandwich_victim_def
      liquidation_evaluate_def)

text \<open>no strategy, however configured, reports anything for a transaction that the mempool's parser has
  made from the JSON of a node that writes the value in hexadecimal, or does not write it.\<close>

theorem parsed_transactions_never_reported:
  assumes "parse_transaction J d clock raw_tx = Ret (Inr tx)"
    and "js_field_str J ''value'' raw_tx = None \<or> (\<exists>r. js_field_str J ''value'' raw_tx = Some (''0x'' @ r))"
  shows "swap_evaluate K clock' tx s = Ret (Inr NoOpportunity)"
proof -
  have "starts_with (tx_value (px_transaction tx)) ''0x''"
    using parsed_fields [OF assms(1)] assms(2) by (auto simp: js_str_or_def starts_with_def)
  then have "wei_of tx = None"
    by (simp add: wei_of_def parse_u128_hex)
  then show ?thesis
    by (rule undecodable_value_ignored)
qed

subsection \<open>Plans\<close>

definition planned_gas :: "BundlePlan \<Rightarrow> u128" where
  "planned_gas plan = sum_list (map pt_gas_limit (bn_transactions plan))"

lemmas plan_simps =
  swap_plan_def arbitrage_plan_def backrun_plan_def sandwich_plan_def bundle_plan_def planned_gas_def
  create_arbitrage_transactions_def get_dex_router_def create_backrun_transaction_def get_router_address_def
  create_sandwich_transactions_def

text \<open>Every reported opportunity can be turned into a bundle plan by its strategy, which carries its
  profit, expiry and risk and whose gas is the sum of its transactions, with one exception: a backrun of
  a Curve transaction is reported and can never be planned.\<close>

lemma reported_opportunity_plan:
  assumes "swap_evaluate J clock tx s = Ret (Inr (Found opp))"
  shows "case swap_plan J opp s of
      Ret (Inr plan) \<Rightarrow>
        px_target_type tx \<noteq> Curve
        \<and> bn_opportunity_id plan = op_id opp \<and> bn_strategy_name plan = op_strategy_name opp
        \<and> bn_execution_deadline plan = op_expiry_timestamp opp
        \<and> bn_estimated_profit_wei plan = op_estimated_profit_wei opp
        \<and> bn_risk_score plan = f64_sub (Finite False 1) (op_confidence_score opp)
        \<and> bn_transactions plan \<noteq> [] \<and> bn_estimated_gas_total plan = planned_gas plan
    | Ret (Inl e) \<Rightarrow> e = UnsupportedTarget \<and> px_target_type tx = Curve \<and> (\<exists>x. s = BackrunStrategy x)
    | Panic \<Rightarrow> False"
proof -
  have ok: "opportunity_ok s tx opp"
    using assms by (rule reported_ok)
  have curve: "px_target_type tx \<noteq> Curve" if "s = ArbitrageStrategy x" for x
    using assms that by (auto simp: swap_evaluate_def arbitrage_evaluate_def is_arbitrage_candidate_def split: if_splits)
  show ?thesis
  proof (cases s)
    case (ArbitrageStrategy x)
    with ok curve show ?thesis
      by (cases "op_opportunity_type opp") (auto simp: opportunity_ok_def plan_simps)
  next
    case (BackrunStrategy x)
    with ok show ?thesis
      by (cases "op_opportunity_type opp") (auto simp: opportunity_ok_def plan_simps)
  next
    case (SandwichStrategy x)
    with ok show ?thesis
      by (cases "op_opportunity_type opp") (auto simp: opportunity_ok_def plan_simps Let_def)
  next
    case (LiquidationStrategy x)
    with ok show ?thesis
      by (simp add: opportunity_ok_def)
  qed
qed

subsection \<open>Gas prices\<close>

text \<open>The limit of the configuration holds for the plans of the arbitrage and the backrun strategy.\<close>

lemma planned_gas_price_capped:
  assumes "swap_plan J opp s = Ret (Inr plan)" and "t \<in> set (bn_transactions plan)"
    and "\<And>x. s \<noteq> SandwichStrategy x"
  shows "pt_gas_price t \<le> max_gas_price_wei (strategy_self s)"
  using assms
  by (cases s; cases "op_opportunity_type opp")
    (auto simp: swap_plan_def arbitrage_plan_def backrun_plan_def liquidation_plan_def bundle_plan_def
      create_arbitrage_transactions_def create_backrun_transaction_def run_bind_Ret_iff
      calculate_competitive_gas_price_def calculate_optimal_gas_price_def Let_def
      split: list.splits sum.splits)

text \<open>The default premium of the sandwich strategy multiplies the price of the victim by the value nearest to
  1.1, so that it grows by more than one from 20 on.\<close>

lemma premium_factor:
  "f64_add (Finite False 1) (f64_div (Finite False 10) (Finite False 100)) = Finite False (2476979795053773 / 2251799813685248)"
proof -
  have "f64_div (Finite False 10) (Finite False 100) = Finite False (3602879701896397 / 36028797018963968)"
    by (simp, subst f64_round_value [where k = "- 4" and z = 7205759403792794]) (simp_all add: pow2_def)
  then show ?thesis
    by (simp add: signed_def Let_def, subst f64_round_value [where k = 0 and z = 4953959590107546])
      (simp_all add: pow2_def)
qed

lemma premium_grows:
  assumes "20 \<le> n" and "n < 2 ^ 53"
  shows "n < f64_to_unsigned (2 ^ 128) (f64_mul (f64_of_nat n) (Finite False (2476979795053773 / 2251799813685248)))"
proof -
  let ?m = "2476979795053773 / 2251799813685248 :: rat"
  let ?q = "of_nat n * ?m"
  have n: "20 \<le> (of_nat n :: rat)" "(of_nat n :: rat) \<le> 9007199254740992"
    using assms by simp_all
  have low: "pow2 (- 1022) \<le> 1"
    using pow2_mono_iff [of "- 1022" 0] by (simp add: pow2_def)
  have q: "pow2 (- 1022) \<le> ?q"
    using n(1) low by linarith
  have "?q < pow2 54"
    using n(2) by (simp add: pow2_def)
  also have "\<dots> \<le> pow2 1023"
    by (simp add: pow2_mono_iff)
  finally obtain r where r: "f64_round False ?q = Finite False r" "\<bar>r - ?q\<bar> \<le> ?q * pow2 (- 53)"
    using f64_round_error [OF q] by blast
  have "pow2 (- 53) \<le> 1 / 1000"
    by (simp add: pow2_def)
  then have "?q * pow2 (- 53) \<le> ?q * (1 / 1000)"
    using n(1) by (intro mult_left_mono) simp_all
  with r(2) have "\<bar>r - ?q\<bar> \<le> ?q * (1 / 1000)"
    by linarith
  then have bounds: "of_nat n + 1 \<le> r" "r \<le> 36028797018963968"
    using n by linarith+
  from bounds(1) have "int n + 1 \<le> \<lfloor>r\<rfloor>"
    by (simp add: le_floor_iff)
  moreover from bounds(2) have "\<lfloor>r\<rfloor> < 2 ^ 56"
    by (simp add: floor_less_iff)
  ultimately have "n < min (nat \<lfloor>r\<rfloor>) (2 ^ 128 - 1)"
    using assms(2) by simp
  then show ?thesis
    using r(1) f64_of_nat_exact [OF assms(2)] by simp
qed

lemma sandwich_price_above_victim:
  assumes "parse_u128 10 (tx_gas_price (px_transaction victim)) = Some v" and "20 \<le> v" and "v < 2 ^ 53"
    and "float_parameter J x ''gas_price_premium_percent'' (Finite False 10) = Finite False 10"
  shows "v < sandwich_gas_price J x victim"
proof -
  let ?f = "f64_mul (f64_of_nat (unat v)) (Finite False (2476979795053773 / 2251799813685248))"
  have "20 \<le> unat v" "unat v < 2 ^ 53"
    using assms(2,3) by (simp_all add: word_le_nat_alt word_less_nat_alt)
  then have "unat v < f64_to_unsigned (2 ^ 128) ?f"
    by (rule premium_grows)
  moreover have "f64_to_unsigned (2 ^ 128) ?f < 2 ^ 128"
    by (rule f64_to_unsigned_less) simp
  ultimately have "v < f64_to_u128 ?f"
    by (simp add: f64_to_u128_def word_less_nat_alt unat_of_nat)
  then show ?thesis
    using assms(1,4) by (simp add: sandwich_gas_price_def unwrap_or_def premium_factor Let_def
        del: f64_add.simps f64_div.simps)
qed

lemma backrun_price_above_target:
  assumes "parse_u128 10 (tx_gas_price (px_transaction target)) = Some v" and "20 \<le> v" and "v < 2 ^ 53"
    and "v < max_gas_price_wei x"
  shows "v < calculate_optimal_gas_price x target"
proof -
  have v: "20 \<le> unat v" "unat v < 2 ^ 53"
    using assms(2,3) by (simp_all add: word_le_nat_alt word_less_nat_alt)
  then have "unat (v + v div 20) = unat v + unat v div 20"
    by (subst unat_plus_if') (simp_all add: unat_div)
  moreover have "0 < unat v div 20"
    using v(1) by (simp add: div_greater_zero_iff)
  ultimately have "v < v + v div 20"
    by (simp add: word_less_nat_alt)
  with assms(1,4) show ?thesis
    by (simp add: calculate_optimal_gas_price_def unwrap_or_def Let_def)
qed

text \<open>a back-run has to come after its target, but both strategies that plan one offer more for it than the
  target pays, so a block that is filled by gas price has it first: the backrun strategy up to its
  limit, the sandwich strategy, with the default premium, without any limit.\<close>

theorem back_run_priced_above_target:
  assumes "swap_plan J opp s = Ret (Inr plan)"
    and "parse_u128 10 (tx_gas_price (px_transaction (op_target_transaction opp))) = Some v"
    and "20 \<le> v" and "v < 2 ^ 53"
    and "case s of
           BackrunStrategy x \<Rightarrow> v < max_gas_price_wei x
         | SandwichStrategy x \<Rightarrow> float_parameter J x ''gas_price_premium_percent'' (Finite False 10) = Finite False 10
         | _ \<Rightarrow> False"
  shows "\<exists>t \<in> set (bn_transactions plan). pt_transaction_type t = BackRun \<and> v < pt_gas_price t"
proof (cases s)
  case (BackrunStrategy x)
  with assms(1) have "\<exists>t. bn_transactions plan = [t] \<and> pt_transaction_type t = BackRun
      \<and> pt_gas_price t = calculate_optimal_gas_price x (op_target_transaction opp)"
    by (cases "op_opportunity_type opp")
      (auto simp: swap_plan_def backrun_plan_def create_backrun_transaction_def bundle_plan_def)
  with backrun_price_above_target [OF assms(2-4), of x] assms(5) BackrunStrategy show ?thesis
    by auto
next
  case (SandwichStrategy x)
  with assms(1) have "\<exists>f t. bn_transactions plan = [f, t] \<and> pt_transaction_type t = BackRun
      \<and> pt_gas_price t = sandwich_gas_price J x (op_target_transaction opp)"
    by (cases "op_opportunity_type opp")
      (auto simp: swap_plan_def sandwich_plan_def create_sandwich_transactions_def bundle_plan_def Let_def)
  with sandwich_price_above_victim [OF assms(2-4), of J x] assms(5) SandwichStrategy show ?thesis
    by auto
qed (use assms(5) in simp_all)

subsection \<open>Instances\<close>

text \<open>Parameters that are numbers.\<close>

definition float_json :: "f64 json_ops" where
  "float_json =
     \<lparr>js_from_str = (\<lambda>s. parse_f64 s), js_get = (\<lambda>k v. None), js_str = (\<lambda>v. None), js_array = (\<lambda>v. None),
      js_is_null = (\<lambda>v. False), js_index = (\<lambda>i v. None), js_bool = (\<lambda>v. None), js_u64 = (\<lambda>v. None),
      js_i64 = (\<lambda>v. None), js_f64 = Some\<rparr>"

definition float_lits :: "f64 json_lits" where
  "float_lits = \<lparr>jl_float = (\<lambda>x. x), jl_strings = (\<lambda>_. NaN)\<rparr>"

definition demo_swap :: ParsedTransaction where
  "demo_swap =
     \<lparr>px_transaction =
        \<lparr>tx_hash = ''0x0123456789'', tx_from = ''0x2'', tx_to = Some ''0x3'', tx_value = ''2000000000000000000'',
         tx_gas_price = ''50000000000'', tx_gas_limit = ''200000'', tx_nonce = 1, tx_input = ''0x38ed1739'',
         tx_timestamp = 0\<rparr>,
      px_decoded_input = None, px_target_type = UniswapV2, px_processing_time_ms = 0\<rparr>"

definition demo_clock :: strategy_clock where
  "demo_clock = \<lparr>sk_millis = 0, sk_secs = 0\<rparr>"

lemma demo_swap_value: "wei_of demo_swap = Some 2000000000000000000"
  by (simp add: wei_of_def demo_swap_def parse_u128_def parse_unsigned_def to_digit_def)

lemma demo_swap_eth: "in_eth 2000000000000000000 = Finite False 2"
proof -
  have "f64_of_nat 2000000000000000000 = Finite False 2000000000000000000"
    unfolding f64_of_nat_def of_nat_numeral
    by (rule f64_round_exact [where m = 3814697265625 and e = 19]) (simp_all add: pow2_def)
  then show ?thesis
    using f64_round_exact [where q = 2 and m = 1 and e = 1 and neg = False]
    by (simp add: in_eth_def f64_lit_1e18 pow2_def)
qed

lemma demo_id: "\<exists>i. generate_opportunity_id name (tx_hash (px_transaction demo_swap)) t = Ret i"
  by (simp add: generate_opportunity_id_def demo_swap_def slice_def is_char_boundary_def)

lemma demo_found:
  "\<exists>opp. swap_evaluate J demo_clock demo_swap (ArbitrageStrategy (ArbitrageStrategy_new L)) = Ret (Inr (Found opp))
    \<and> op_expiry_timestamp opp = 15"
proof -
  have "is_arbitrage_candidate demo_swap"
    by (simp add: is_arbitrage_candidate_def demo_swap_value demo_swap_eth f64_le_def signed_def)
      (simp add: demo_swap_def)
  moreover obtain i where "generate_opportunity_id ''arbitrage'' (tx_hash (px_transaction demo_swap)) 0 = Ret i"
    using demo_id by blast
  moreover have "px_target_type demo_swap = UniswapV2"
    by (simp add: demo_swap_def)
  ultimately show ?thesis
    by (simp add: swap_evaluate_def arbitrage_evaluate_def ArbitrageStrategy_new_def find_arbitrage_opportunities_def
        calculate_arbitrage_profit_def saturating_sub_def estimate_gas_cost_def demo_clock_def Let_def)
qed

theorem parsed_transactions_never_reported_witness:
  "\<exists>tx. parse_transaction demo_json_ops AbiDecoder_new \<lparr>pc_start = 0, pc_utc = 0, pc_stop = 0\<rparr>
       (DObj [(''hash'', DStr ''0x1''), (''from'', DStr ''0x2''), (''value'', DStr ''0xff'')]) = Ret (Inr tx)
     \<and> swap_evaluate float_json demo_clock tx (ArbitrageStrategy (ArbitrageStrategy_new float_lits))
         = Ret (Inr NoOpportunity)"
proof -
  let ?raw = "DObj [(''hash'', DStr ''0x1''), (''from'', DStr ''0x2''), (''value'', DStr ''0xff'')]"
  obtain tx where run: "parse_transaction demo_json_ops AbiDecoder_new \<lparr>pc_start = 0, pc_utc = 0, pc_stop = 0\<rparr> ?raw
      = Ret (Inr tx)"
    by (simp add: parse_transaction_def extract_transaction_fields_def js_str_or_def js_field_str_def
        demo_json_ops_def Let_def)
  have "js_field_str demo_json_ops ''value'' ?raw = Some (''0x'' @ ''ff'')"
    by (simp add: js_field_str_def demo_json_ops_def)
  with run parsed_transactions_never_reported [OF run, of float_json demo_clock] show ?thesis
    by blast
qed

theorem back_run_priced_above_target_witness:
  "\<exists>plan t. swap_plan float_json
       \<lparr>op_id = ''o'', op_strategy_name = ''sandwich'', op_target_transaction = demo_swap,
        op_opportunity_type = Sandwich ''0x1'' (''ETH'', ''TOKEN'') 1 1 1, op_estimated_profit_wei = 1,
        op_estimated_gas_cost_wei = 1, op_confidence_score = NaN, op_priority = 1, op_expiry_timestamp = 1,
        op_metadata = []\<rparr>
       (SandwichStrategy (SandwichStrategy_new float_lits)) = Ret (Inr plan)
     \<and> t \<in> set (bn_transactions plan) \<and> pt_transaction_type t = BackRun \<and> 50000000000 < pt_gas_price t"
proof -
  let ?opp = "\<lparr>op_id = ''o'', op_strategy_name = ''sandwich'', op_target_transaction = demo_swap,
        op_opportunity_type = Sandwich ''0x1'' (''ETH'', ''TOKEN'') 1 1 1, op_estimated_profit_wei = 1,
        op_estimated_gas_cost_wei = 1, op_confidence_score = NaN, op_priority = 1, op_expiry_timestamp = 1,
        op_metadata = []\<rparr>"
  have price: "parse_u128 10 (tx_gas_price (px_transaction demo_swap)) = Some 50000000000"
    by (simp add: demo_swap_def parse_u128_def parse_unsigned_def to_digit_def)
  have type: "px_target_type demo_swap = UniswapV2"
    by (simp add: demo_swap_def)
  obtain plan where plan: "swap_plan float_json ?opp (SandwichStrategy (SandwichStrategy_new float_lits)) = Ret (Inr plan)"
    by (simp add: swap_plan_def sandwich_plan_def create_sandwich_transactions_def get_router_address_def type Let_def)
  have premium: "float_parameter float_json (SandwichStrategy_new float_lits) ''gas_price_premium_percent'' (Finite False 10)
      = Finite False 10"
    by (simp add: float_parameter_def SandwichStrategy_new_def float_lits_def float_json_def unwrap_or_def)
  have "\<exists>t \<in> set (bn_transactions plan). pt_transaction_type t = BackRun \<and> 50000000000 < pt_gas_price t"
    by (rule back_run_priced_above_target [OF plan]) (simp_all add: price premium)
  with plan show ?thesis
    by blast
qed

end
