(* ===== verification/Engine_Facts.thy ===== *)
theory Engine_Facts
  imports Strategy_Engine Swap_Facts
begin

text \<open>
  The strategy engine over all sequences of its operations: with the default configuration it never acts;
  evaluating in sequence, it keeps its caches in order and can plan what it has found.
\<close>

subsection \<open>Reachable engines\<close>

inductive engine_reach ::
    "('s, 'v) strategy_ops \<Rightarrow> (string list \<Rightarrow> string list) \<Rightarrow> StrategyEngineConfig \<Rightarrow> 's StrategyEngine \<Rightarrow> bool"
  for V order config where
  er_new: "engine_reach V order config (StrategyEngine_new config)"
| er_register: "engine_reach V order config e \<Longrightarrow> engine_reach V order config (engine_register V s e)"
| er_unregister: "engine_reach V order config e \<Longrightarrow> engine_unregister name e = (e', r) \<Longrightarrow> engine_reach V order config e'"
| er_evaluate: "engine_reach V order config e \<Longrightarrow>
    engine_evaluate V env order now time tx e = Some (Ret (e', os)) \<Longrightarrow> engine_reach V order config e'"
| er_plan: "engine_reach V order config e \<Longrightarrow> engine_plan V now i e = Ret (e', r) \<Longrightarrow> engine_reach V order config e'"
| er_reset: "engine_reach V order config e \<Longrightarrow> engine_reach V order config (engine_reset_stats V e)"
| er_cleanup: "engine_reach V order config e \<Longrightarrow> engine_reach V order config (cleanup_expired now e)"

lemmas engine_op_defs =
  engine_register_def engine_unregister_def engine_reset_stats_def cleanup_expired_def
  count_evaluation_def count_found_def cache_opportunities_def

subsection \<open>The caches\<close>

lemma fold_remove_get:
  "hm_get (fold hm_remove ks m) k = (if k \<in> set ks then None else hm_get m k)"
  by (induction ks arbitrary: m) auto

lemma fold_remove_wf: "hm_wf m \<Longrightarrow> hm_wf (fold hm_remove ks m)"
  by (induction ks arbitrary: m) simp_all

lemma fold_remove_filter: "fold hm_remove ks m = filter (\<lambda>x. fst x \<notin> set ks) m"
  by (induction ks arbitrary: m) (auto simp: hm_remove_def intro!: filter_cong)

text \<open>Walking the keys lists each once.\<close>

definition walks :: "(string list \<Rightarrow> string list) \<Rightarrow> bool" where
  "walks order \<longleftrightarrow> (\<forall>ks. distinct ks \<longrightarrow> distinct (order ks) \<and> set (order ks) = set ks)"

lemma limit_cache_len:
  assumes "walks order" and "hm_wf m"
  shows "hm_len (limit_cache order limit m) \<le> unat limit"
proof (cases "unat limit < hm_len m")
  case True
  let ?ks = "map fst m"
  let ?out = "take (length m - unat limit) (order ?ks)"
  have order: "distinct (order ?ks)" "set (order ?ks) = set ?ks"
    using assms by (simp_all add: walks_def hm_wf_def)
  then have "length (order ?ks) = length m"
    using assms(2) by (metis distinct_card hm_wf_def length_map)
  then have out: "card (set ?out) = length m - unat limit" "set ?out \<subseteq> set ?ks"
    using order set_take_subset [of "length m - unat limit" "order ?ks"] by (simp_all add: distinct_card)
  have "card (set ?ks) = length m"
    using assms(2) distinct_card [of ?ks] by (simp add: hm_wf_def)
  then have "card (set ?ks - set ?out) = unat limit"
    using out True by (simp add: card_Diff_subset hm_len_def)
  moreover have "set (map fst (filter (\<lambda>x. fst x \<notin> set ?out) m)) = set ?ks - set ?out"
    by auto
  moreover have "distinct (map fst (filter (\<lambda>x. fst x \<notin> set ?out) m))"
    using assms(2) by (simp add: hm_wf_def distinct_map_filter)
  ultimately have "length (filter (\<lambda>x. fst x \<notin> set ?out) m) = unat limit"
    by (metis distinct_card length_map)
  with True show ?thesis
    by (simp add: limit_cache_def fold_remove_filter hm_len_def hm_keys_def)
qed (simp add: limit_cache_def)

lemma limit_cache_wf: "hm_wf m \<Longrightarrow> hm_wf (limit_cache order limit m)"
  by (simp add: limit_cache_def Let_def fold_remove_wf)

lemma limit_cache_get: "hm_get (limit_cache order limit m) k = Some v \<Longrightarrow> hm_get m k = Some v"
  by (auto simp: limit_cache_def Let_def fold_remove_get split: if_splits)

lemma insert_opportunities_wf: "hm_wf m \<Longrightarrow> hm_wf (insert_opportunities os m)"
  by (induction os arbitrary: m) (simp_all add: insert_opportunities_def)

lemma insert_opportunities_get:
  "hm_get (insert_opportunities os m) k = Some opp \<Longrightarrow>
     hm_get m k = Some opp \<or> (opp \<in> set os \<and> k = op_id opp)"
  unfolding insert_opportunities_def
proof (induction os arbitrary: m)
  case (Cons a os)
  from Cons.IH [of "hm_insert (op_id a) a m"] Cons.prems show ?case
    by (auto split: if_splits)
qed simp

subsection \<open>The invariant\<close>

text \<open>Maps are well formed, everything is stored under its own name, the cache is within its limit.\<close>

definition engine_ok :: "('s, 'v) strategy_ops \<Rightarrow> StrategyEngineConfig \<Rightarrow> 's StrategyEngine \<Rightarrow> bool" where
  "engine_ok V config e \<longleftrightarrow>
     en_config e = config
     \<and> hm_wf (en_strategies e) \<and> hm_wf (en_opportunities e) \<and> hm_wf (en_bundle_plans e)
     \<and> (\<forall>k s. hm_get (en_strategies e) k = Some s \<longrightarrow> so_name V s = k)
     \<and> (\<forall>k opp. hm_get (en_opportunities e) k = Some opp \<longrightarrow> op_id opp = k)
     \<and> (\<forall>k plan. hm_get (en_bundle_plans e) k = Some plan \<longrightarrow> bn_id plan = k)
     \<and> hm_len (en_opportunities e) \<le> unat (ec_opportunity_cache_size config)"

lemma evaluate_cases:
  assumes "engine_evaluate V env order now time tx e = Some (Ret (e', os))"
  obtains (none) "e' = count_evaluation e" "os = []"
  | (some) "e' = count_found (length os) time (cache_opportunities order now os (count_evaluation e))"
      "ec_enable_parallel_evaluation (en_config e) \<Longrightarrow> os = []"
      "\<not> ec_enable_parallel_evaluation (en_config e) \<Longrightarrow>
         evaluate_strategies_sequential V env tx 0
           (filter (\<lambda>s. sc_enabled (so_config V s)) (hm_values (en_strategies e))) = Ret os"
  using assms
  by (auto simp: engine_evaluate_def Let_def evaluate_strategies_parallel_def run_bind_Ret_iff
      count_evaluation_def split: if_splits)

lemma count_evaluation_ok: "engine_ok V config e \<Longrightarrow> engine_ok V config (count_evaluation e)"
  by (simp add: engine_ok_def count_evaluation_def)

lemma count_found_ok: "engine_ok V config e \<Longrightarrow> engine_ok V config (count_found n time e)"
  by (simp add: engine_ok_def count_found_def Let_def)

lemma cache_opportunities_ok:
  assumes "walks order" and ok: "engine_ok V config e"
  shows "engine_ok V config (cache_opportunities order now os e)"
proof -
  let ?m = "insert_opportunities os (en_opportunities e)"
  let ?kept = "hm_retain (\<lambda>_ opp. now < op_expiry_timestamp opp) ?m"
  have wf: "hm_wf ?m" "hm_wf ?kept"
    using ok by (simp_all add: engine_ok_def insert_opportunities_wf)
  have "op_id opp = k" if "hm_get (limit_cache order limit ?kept) k = Some opp" for limit k opp
  proof -
    have "hm_get ?m k = Some opp"
      using limit_cache_get [OF that] wf(1) by (auto simp: hm_get_retain split: option.splits if_splits)
    then show ?thesis
      using insert_opportunities_get [of os "en_opportunities e" k opp] ok by (auto simp: engine_ok_def)
  qed
  with ok wf limit_cache_len [OF assms(1) wf(2)] show ?thesis
    by (simp add: engine_ok_def cache_opportunities_def limit_cache_wf)
qed

lemma reset_strategies_get: "hm_get (map (\<lambda>(k, s). (k, f s)) m) k = map_option f (hm_get m k)"
  unfolding hm_get_def by (induction m) auto

lemma reset_strategies_wf: "hm_wf m \<Longrightarrow> hm_wf (map (\<lambda>(k, s). (k, f s)) m)"
proof -
  have "map fst (map (\<lambda>(k, s). (k, f s)) m) = map fst m"
    by (induction m) auto
  then show "hm_wf m \<Longrightarrow> ?thesis"
    by (simp only: hm_wf_def)
qed

lemma reset_ok:
  assumes "\<And>s. so_name V (so_reset_stats V s) = so_name V s" and "engine_ok V config e"
  shows "engine_ok V config (engine_reset_stats V e)"
  using assms by (auto simp: engine_ok_def engine_reset_stats_def reset_strategies_get reset_strategies_wf)

lemma plan_keeps:
  assumes "engine_plan V now i e = Ret (e', r)"
  shows "e' = e \<or> (\<exists>plan opportunity. r = Inr (Some plan) \<and> hm_get (en_opportunities e) i = Some opportunity
    \<and> e' = e\<lparr>en_bundle_plans := hm_insert (bn_id plan) plan (en_bundle_plans e),
             en_stats := (en_stats e)\<lparr>es_bundles_created := es_bundles_created (en_stats e) + 1\<rparr>\<rparr>)"
proof (cases "hm_get (en_opportunities e) i")
  case (Some opportunity)
  show ?thesis
  proof (cases "is_opportunity_valid now opportunity")
    case True
    show ?thesis
    proof (cases "hm_get (en_strategies e) (op_strategy_name opportunity)")
      case (Some strategy)
      with assms True \<open>hm_get (en_opportunities e) i = Some opportunity\<close> obtain x where
          x: "so_create_bundle_plan V opportunity strategy = Ret x"
        by (auto simp: engine_plan_def run_bind_Ret_iff)
      with assms True Some \<open>hm_get (en_opportunities e) i = Some opportunity\<close> show ?thesis
        by (cases x) (auto simp: engine_plan_def)
    qed (use assms True Some in \<open>simp add: engine_plan_def\<close>)
  qed (use assms Some in \<open>simp add: engine_plan_def\<close>)
qed (use assms in \<open>simp add: engine_plan_def\<close>)

lemma cleanup_ok: "engine_ok V config e \<Longrightarrow> engine_ok V config (cleanup_expired now e)"
proof -
  assume ok: "engine_ok V config e"
  then have "hm_len (hm_retain (\<lambda>_ opp. now < op_expiry_timestamp opp) (en_opportunities e))
      \<le> unat (ec_opportunity_cache_size config)"
    using hm_len_retain [of "\<lambda>_ opp. now < op_expiry_timestamp opp" "en_opportunities e"]
    by (simp add: engine_ok_def)
  with ok show ?thesis
    by (auto simp: engine_ok_def cleanup_expired_def hm_get_retain split: option.splits if_splits)
qed

text \<open>Over every sequence of operations the engine keeps its limit on cached opportunities, and finds
  strategies, opportunities and plans under their own names, provided that resetting the statistics of a
  strategy does not rename it.\<close>

lemma engine_reach_ok:
  assumes "engine_reach V order config e" and "walks order"
    and "\<And>s. so_name V (so_reset_stats V s) = so_name V s"
  shows "engine_ok V config e"
  using assms(1)
proof induction
  case er_new
  then show ?case
    by (simp add: engine_ok_def StrategyEngine_new_def)
next
  case (er_register e s)
  then show ?case
    by (auto simp: engine_ok_def engine_register_def)
next
  case (er_unregister e name e' r)
  then show ?case
    by (auto simp: engine_ok_def engine_unregister_def split: if_splits)
next
  case (er_evaluate e env now time tx e' os)
  from er_evaluate(2) show ?case
    by (cases rule: evaluate_cases)
      (use er_evaluate(3) assms(2) in \<open>simp_all add: count_evaluation_ok count_found_ok cache_opportunities_ok\<close>)
next
  case (er_plan e now i e' r)
  with plan_keeps [OF er_plan(2)] show ?case
    by (auto simp: engine_ok_def split: if_splits)
next
  case (er_reset e)
  then show ?case
    using reset_ok assms(3) by blast
next
  case (er_cleanup e now)
  then show ?case
    by (simp add: cleanup_ok)
qed

subsection \<open>The default configuration\<close>

text \<open>C25: an engine that evaluates in parallel, as by default, never finds an opportunity, whatever strategies
  it has and whatever they would say: its caches stay empty, so it never plans a bundle either.\<close>

theorem parallel_engine_never_acts:
  assumes "engine_reach V order config e" and "ec_enable_parallel_evaluation config"
  shows "en_opportunities e = [] \<and> en_bundle_plans e = []
    \<and> es_opportunities_found (en_stats e) = 0 \<and> es_bundles_created (en_stats e) = 0
    \<and> (\<forall>now i. engine_plan V now i e = Ret (e, Inr None))
    \<and> (\<forall>env order now time tx. case engine_evaluate V env order now time tx e of
         Some (Ret (e', os)) \<Rightarrow> os = [] | Some Panic \<Rightarrow> False | None \<Rightarrow> ec_max_concurrent_evaluations config = 0)"
proof -
  have "en_config e = config \<and> en_opportunities e = [] \<and> en_bundle_plans e = []
      \<and> es_opportunities_found (en_stats e) = 0 \<and> es_bundles_created (en_stats e) = 0"
    using assms(1)
  proof induction
    case er_new
    then show ?case
      by (simp add: StrategyEngine_new_def StrategyEngineStats_default_def hm_empty_def)
  next
    case (er_unregister e name e' r)
    then show ?case
      by (auto simp: engine_unregister_def split: if_splits)
  next
    case (er_evaluate e env now time tx e' os)
    from er_evaluate(2) show ?case
      by (cases rule: evaluate_cases)
        (use er_evaluate(3) assms(2) in \<open>simp_all add: engine_op_defs Let_def insert_opportunities_def hm_retain_def
          limit_cache_def hm_len_def\<close>)
  next
    case (er_plan e now i e' r)
    then show ?case
      by (simp add: engine_plan_def hm_get_def)
  qed (simp_all add: engine_op_defs StrategyEngineStats_default_def hm_retain_def)
  then show ?thesis
    using assms(2)
    by (simp add: engine_plan_def hm_get_def engine_evaluate_def evaluate_strategies_parallel_def Let_def
        count_evaluation_def)
qed

subsection \<open>Evaluating in sequence\<close>

lemma sequential_found:
  assumes "evaluate_strategies_sequential V env tx i ss = Ret os" and "opp \<in> set os"
  shows "\<exists>j. \<exists>s \<in> set ss. so_evaluate_transaction V (ev_clock env j) tx s = Ret (Inr (Found opp))"
  using assms
proof (induction V env tx i ss arbitrary: os rule: evaluate_strategies_sequential.induct)
  case (2 V env tx i s ss)
  show ?case
  proof (cases "ev_timeout env i")
    case True
    with 2 show ?thesis
      by auto
  next
    case False
    with "2.prems"(1) obtain r rest where r: "so_evaluate_transaction V (ev_clock env i) tx s = Ret r"
        and rest: "evaluate_strategies_sequential V env tx (i + 1) ss = Ret rest"
        and os: "os = (case r of Inr (Found opp) \<Rightarrow> opp # rest | _ \<Rightarrow> rest)"
      by (auto simp: run_bind_Ret_iff)
    show ?thesis
    proof (cases "opp \<in> set rest")
      case True
      with "2.IH"(2) [OF False rest] show ?thesis
        by auto
    next
      case False
      with os "2.prems"(2) have "r = Inr (Found opp)"
        by (auto split: sum.splits StrategyResult.splits)
      with r show ?thesis
        by auto
    qed
  qed
qed simp

lemma insert_opportunities_last:
  "distinct (map op_id os) \<Longrightarrow> opp \<in> set os \<Longrightarrow> hm_get (insert_opportunities os m) (op_id opp) = Some opp"
  unfolding insert_opportunities_def
proof (induction os arbitrary: m)
  case (Cons a os)
  have other: "hm_get (fold (\<lambda>opp. hm_insert (op_id opp) opp) os m) k = hm_get m k" if "k \<notin> op_id ` set os" for k m
    using that by (induction os arbitrary: m) auto
  show ?case
  proof (cases "opp = a")
    case True
    with Cons.prems other [of "op_id a"] show ?thesis
      by simp
  next
    case False
    with Cons show ?thesis
      by simp
  qed
qed simp

lemma insert_opportunities_len: "hm_len (insert_opportunities os m) \<le> hm_len m + length os"
  unfolding insert_opportunities_def
proof (induction os arbitrary: m)
  case (Cons a os)
  have "hm_len (hm_insert (op_id a) a m) \<le> Suc (hm_len m)"
    by (cases "hm_get m (op_id a)") (simp_all add: hm_len_insert_new hm_len_insert_old)
  with Cons [of "hm_insert (op_id a) a m"] show ?case
    by simp
qed simp

text \<open>What is found, not yet expired and within the limit of the cache is in the cache.\<close>

lemma found_is_cached:
  assumes "hm_wf (en_opportunities e)" and "distinct (map op_id os)" and "opp \<in> set os"
    and "now < op_expiry_timestamp opp"
    and "hm_len (en_opportunities e) + length os \<le> unat (ec_opportunity_cache_size (en_config e))"
  shows "hm_get (en_opportunities (cache_opportunities order now os e)) (op_id opp) = Some opp"
proof -
  let ?kept = "hm_retain (\<lambda>_ opp. now < op_expiry_timestamp opp) (insert_opportunities os (en_opportunities e))"
  have "hm_len ?kept \<le> hm_len (insert_opportunities os (en_opportunities e))"
    by (rule hm_len_retain)
  also have "\<dots> \<le> hm_len (en_opportunities e) + length os"
    by (rule insert_opportunities_len)
  finally have "\<not> unat (ec_opportunity_cache_size (en_config e)) < hm_len ?kept"
    using assms(5) by linarith
  moreover have "hm_get ?kept (op_id opp) = Some opp"
    using assms by (simp add: hm_get_retain insert_opportunities_wf insert_opportunities_last)
  ultimately show ?thesis
    by (simp add: cache_opportunities_def limit_cache_def)
qed

lemma swap_names:
  "so_name (swap_ops J) s = sc_name (se_config (strategy_self s))"
  "so_name (swap_ops J) (so_reset_stats (swap_ops J) s) = so_name (swap_ops J) s"
  by (cases s; simp add: swap_ops_def update_self_def)+

lemma hm_values_get: "s \<in> set (hm_values m) \<Longrightarrow> hm_wf m \<Longrightarrow> \<exists>k. hm_get m k = Some s"
  by (auto simp: hm_values_def hm_get_Some_iff)

lemma found_by_registered:
  assumes "engine_ok (swap_ops J) config e" and "\<not> ec_enable_parallel_evaluation config"
    and "engine_evaluate (swap_ops J) env order now time tx e = Some (Ret (e', os))" and "opp \<in> set os"
  shows "\<exists>clock s. hm_get (en_strategies e) (op_strategy_name opp) = Some s
    \<and> swap_evaluate J clock tx s = Ret (Inr (Found opp))
    \<and> e' = count_found (length os) time (cache_opportunities order now os (count_evaluation e))"
  using assms(3)
proof (cases rule: evaluate_cases)
  case some
  have "\<not> ec_enable_parallel_evaluation (en_config e)"
    using assms(1,2) by (simp add: engine_ok_def)
  from sequential_found [OF some(3) [OF this] assms(4)] obtain j s where
      s: "s \<in> set (hm_values (en_strategies e))"
      and found: "swap_evaluate J (ev_clock env j) tx s = Ret (Inr (Found opp))"
    by (auto simp: swap_ops_def)
  obtain k where k: "hm_get (en_strategies e) k = Some s"
    using hm_values_get [OF s] assms(1) by (auto simp: engine_ok_def)
  then have "k = sc_name (se_config (strategy_self s))"
    using assms(1) swap_names(1) [of J s] by (auto simp: engine_ok_def)
  moreover have "op_strategy_name opp = sc_name (se_config (strategy_self s))"
    using reported_ok [OF found] by (simp add: opportunity_ok_def)
  ultimately show ?thesis
    using k found some(1) by auto
qed (use assms(4) in simp)

text \<open>an engine that evaluates in sequence can plan every opportunity it has just found, until it expires and
  as long as the cache has room, and keeps the plan under its identifier; only a backrun of a Curve
  transaction is found and refused.\<close>

theorem engine_plans_what_it_found:
  assumes "engine_reach (swap_ops J) order config e" and "walks order"
    and "\<not> ec_enable_parallel_evaluation config"
    and "engine_evaluate (swap_ops J) env order now time tx e = Some (Ret (e', os))"
    and "opp \<in> set os" and "distinct (map op_id os)"
    and "hm_len (en_opportunities e) + length os \<le> unat (ec_opportunity_cache_size config)"
    and "now < op_expiry_timestamp opp" and "later < op_expiry_timestamp opp"
  shows "case engine_plan (swap_ops J) later (op_id opp) e' of
      Ret (e'', Inr (Some plan)) \<Rightarrow>
        px_target_type tx \<noteq> Curve \<and> get_bundle_plan (bn_id plan) e'' = Some plan
        \<and> bn_opportunity_id plan = op_id opp \<and> bn_execution_deadline plan = op_expiry_timestamp opp
        \<and> bn_estimated_gas_total plan = planned_gas plan
    | Ret (e'', Inr None) \<Rightarrow> False
    | Ret (e'', Inl err) \<Rightarrow> e'' = e' \<and> err = PlanFailed UnsupportedTarget \<and> px_target_type tx = Curve
    | Panic \<Rightarrow> False"
proof -
  have ok: "engine_ok (swap_ops J) config e"
    by (rule engine_reach_ok [OF assms(1,2) swap_names(2)])
  obtain clock s where s: "hm_get (en_strategies e) (op_strategy_name opp) = Some s"
      and found: "swap_evaluate J clock tx s = Ret (Inr (Found opp))"
      and e': "e' = count_found (length os) time (cache_opportunities order now os (count_evaluation e))"
    using found_by_registered [OF ok assms(3,4,5)] by blast
  have "hm_get (en_opportunities (cache_opportunities order now os (count_evaluation e))) (op_id opp) = Some opp"
    by (rule found_is_cached) (use ok assms(5-8) in \<open>simp_all add: engine_ok_def count_evaluation_def\<close>)
  then have cached: "hm_get (en_opportunities e') (op_id opp) = Some opp"
    by (simp add: e' count_found_def Let_def)
  have s': "hm_get (en_strategies e') (op_strategy_name opp) = Some s"
    using s by (simp add: e' engine_op_defs Let_def)
  have plan: "engine_plan (swap_ops J) later (op_id opp) e' =
      run_bind (swap_plan J opp s) (\<lambda>r. case r of
        Inr plan \<Rightarrow>
          Ret (e'\<lparr>en_bundle_plans := hm_insert (bn_id plan) plan (en_bundle_plans e'),
                 en_stats := (en_stats e')\<lparr>es_bundles_created := es_bundles_created (en_stats e') + 1\<rparr>\<rparr>,
               Inr (Some plan))
      | Inl err \<Rightarrow> Ret (e', Inl (PlanFailed err)))"
    using cached s' assms(9) by (simp add: engine_plan_def is_opportunity_valid_def swap_ops_def)
  show ?thesis
  proof (cases "swap_plan J opp s")
    case Panic
    with reported_opportunity_plan [OF found] show ?thesis
      by simp
  next
    case (Ret r)
    with reported_opportunity_plan [OF found] show ?thesis
      by (cases r) (simp_all add: plan get_bundle_plan_def)
  qed
qed

subsection \<open>Instances\<close>

definition demo_engine :: "StrategyEngineConfig \<Rightarrow> f64 SwapStrategy StrategyEngine" where
  "demo_engine config =
     engine_register (swap_ops float_json) (ArbitrageStrategy (ArbitrageStrategy_new float_lits)) (StrategyEngine_new config)"

lemma demo_engine_reach: "engine_reach (swap_ops float_json) order config (demo_engine config)"
  unfolding demo_engine_def by (rule er_register [OF er_new])

theorem parallel_engine_never_acts_witness:
  "engine_plan (swap_ops float_json) 0 ''x'' (demo_engine StrategyEngineConfig_default)
     = Ret (demo_engine StrategyEngineConfig_default, Inr None)"
proof -
  have "ec_enable_parallel_evaluation StrategyEngineConfig_default"
    by (simp add: StrategyEngineConfig_default_def)
  from parallel_engine_never_acts [OF demo_engine_reach [where order = "\<lambda>ks. ks"] this] show ?thesis
    by blast
qed

definition sequential_config :: StrategyEngineConfig where
  "sequential_config = StrategyEngineConfig_default\<lparr>ec_enable_parallel_evaluation := False\<rparr>"

definition demo_env :: eval_env where
  "demo_env = \<lparr>ev_clock = (\<lambda>i. demo_clock), ev_timeout = (\<lambda>i. False)\<rparr>"

lemma demo_engine_enabled:
  "filter (\<lambda>s. sc_enabled (so_config (swap_ops J) s)) (hm_values (en_strategies (demo_engine config)))
     = [ArbitrageStrategy (ArbitrageStrategy_new float_lits)]"
  by (simp add: demo_engine_def engine_register_def StrategyEngine_new_def hm_insert_def hm_empty_def hm_values_def
      swap_ops_def ArbitrageStrategy_new_def)

theorem engine_plans_what_it_found_witness:
  "\<exists>e opp e' plan. engine_evaluate (swap_ops float_json) demo_env (\<lambda>ks. ks) 0 0 demo_swap (demo_engine sequential_config)
       = Some (Ret (e, [opp]))
     \<and> engine_plan (swap_ops float_json) 1 (op_id opp) e = Ret (e', Inr (Some plan))
     \<and> bn_opportunity_id plan = op_id opp"
proof -
  let ?e = "demo_engine sequential_config"
  obtain opp where found: "swap_evaluate float_json demo_clock demo_swap (ArbitrageStrategy (ArbitrageStrategy_new float_lits))
      = Ret (Inr (Found opp))" and expiry: "op_expiry_timestamp opp = 15"
    using demo_found by blast
  have config: "en_config ?e = sequential_config" "en_opportunities ?e = []"
    by (simp_all add: demo_engine_def engine_register_def StrategyEngine_new_def hm_empty_def)
  have seq: "\<not> ec_enable_parallel_evaluation sequential_config" "unat (ec_opportunity_cache_size sequential_config) = 1000"
    by (simp_all add: sequential_config_def StrategyEngineConfig_default_def)
  have "evaluate_strategies_sequential (swap_ops float_json) demo_env demo_swap 0
      [ArbitrageStrategy (ArbitrageStrategy_new float_lits)] = Ret [opp]"
    using found by (simp add: demo_env_def) (simp add: swap_ops_def)
  then obtain e where e: "engine_evaluate (swap_ops float_json) demo_env (\<lambda>ks. ks) 0 0 demo_swap ?e = Some (Ret (e, [opp]))"
    using config seq(1) by (simp add: engine_evaluate_def count_evaluation_def demo_engine_enabled Let_def)
  have swap: "px_target_type demo_swap = UniswapV2"
    by (simp add: demo_swap_def)
  have "case engine_plan (swap_ops float_json) 1 (op_id opp) e of
      Ret (e'', Inr (Some plan)) \<Rightarrow>
        px_target_type demo_swap \<noteq> Curve \<and> get_bundle_plan (bn_id plan) e'' = Some plan
        \<and> bn_opportunity_id plan = op_id opp \<and> bn_execution_deadline plan = op_expiry_timestamp opp
        \<and> bn_estimated_gas_total plan = planned_gas plan
    | Ret (e'', Inr None) \<Rightarrow> False
    | Ret (e'', Inl err) \<Rightarrow> e'' = e \<and> err = PlanFailed UnsupportedTarget \<and> px_target_type demo_swap = Curve
    | Panic \<Rightarrow> False"
    by (rule engine_plans_what_it_found [OF demo_engine_reach _ seq(1) e])
      (simp_all add: walks_def expiry config seq(2) hm_len_def)
  then show ?thesis
    using e swap by (auto split: run.splits prod.splits sum.splits option.splits)
qed

end
