(* ===== verification/Strategy_Config.thy ===== *)
theory Strategy_Config
  imports Mev_Strategy Swap_Strategies
begin

text \<open>
  \<open>crates/mev-strategies/src/config_manager.rs\<close>. The file system is a world of type \<open>'w\<close>; reading and
  writing it and the YAML and JSON codecs are the fields of \<open>config_env\<close>. The version is not used by the
  code.
\<close>

record GlobalConfig =
  gc_enabled :: bool
  gc_max_concurrent_strategies :: usize
  gc_evaluation_timeout_ms :: u64
  gc_default_min_profit_wei :: u128
  gc_default_max_gas_price_gwei :: u64
  gc_default_risk_tolerance :: f64

record 'v StrategyConfigFile =
  cf_version :: string
  cf_global :: GlobalConfig
  cf_strategies :: "'v StrategyConfig list"

record 'v ConfigManager =
  cm_config_file :: "'v StrategyConfigFile"
  cm_config_path :: string

datatype config_error = IoError string | YamlError string | JsonError string | StrategyUnknown string

record ('w, 'v) config_env =
  ce_exists :: "string \<Rightarrow> 'w \<Rightarrow> bool"
  ce_modified :: "string \<Rightarrow> 'w \<Rightarrow> string + nat"
  ce_read :: "string \<Rightarrow> 'w \<Rightarrow> string + string"
  ce_write :: "string \<Rightarrow> string \<Rightarrow> 'w \<Rightarrow> 'w \<times> (string + unit)"
  ce_to_yaml :: "'v StrategyConfigFile \<Rightarrow> string + string"
  ce_from_yaml :: "string \<Rightarrow> string + 'v StrategyConfigFile"
  ce_to_json :: "'v StrategyConfigFile \<Rightarrow> string + string"
  ce_from_json :: "string \<Rightarrow> string + 'v StrategyConfigFile"

definition map_err :: "('e \<Rightarrow> 'f) \<Rightarrow> 'e + 'a \<Rightarrow> 'f + 'a" where
  "map_err f r = (case r of Inl e \<Rightarrow> Inl (f e) | Inr x \<Rightarrow> Inr x)"

definition GlobalConfig_default :: GlobalConfig where
  "GlobalConfig_default =
     \<lparr>gc_enabled = True, gc_max_concurrent_strategies = 5, gc_evaluation_timeout_ms = 50,
      gc_default_min_profit_wei = 1000000000000000, gc_default_max_gas_price_gwei = 100,
      gc_default_risk_tolerance = f64_lit ''0.5''\<rparr>"

definition StrategyConfigFile_default :: "'v json_lits \<Rightarrow> 'v StrategyConfigFile" where
  "StrategyConfigFile_default L =
     \<lparr>cf_version = ''1.0'', cf_global = GlobalConfig_default,
      cf_strategies =
        [\<lparr>sc_name = ''backrun'', sc_enabled = True, sc_priority = 150, sc_min_profit_wei = 5000000000000000,
          sc_max_gas_price_gwei = 150, sc_risk_tolerance = f64_lit ''0.7'',
          sc_parameters =
            hm_insert ''target_protocols'' (jl_strings L [''UniswapV2'', ''UniswapV3'', ''SushiSwap''])
              (hm_insert ''max_slippage_percent'' (jl_float L (Finite False 2))
                (hm_insert ''min_target_value_eth'' (jl_float L (f64_lit ''0.5'')) hm_empty))\<rparr>,
         \<lparr>sc_name = ''sandwich'', sc_enabled = False, sc_priority = 200, sc_min_profit_wei = 10000000000000000,
          sc_max_gas_price_gwei = 200, sc_risk_tolerance = f64_lit ''0.5'',
          sc_parameters =
            hm_insert ''gas_price_premium_percent'' (jl_float L (Finite False 10))
              (hm_insert ''max_front_run_multiple'' (jl_float L (Finite False 3))
                (hm_insert ''min_victim_value_eth'' (jl_float L (Finite False 1))
                  (hm_insert ''max_slippage_tolerance'' (jl_float L (Finite False 5)) hm_empty)))\<rparr>,
         \<lparr>sc_name = ''arbitrage'', sc_enabled = True, sc_priority = 100, sc_min_profit_wei = 2000000000000000,
          sc_max_gas_price_gwei = 120, sc_risk_tolerance = f64_lit ''0.8'',
          sc_parameters =
            hm_insert ''min_liquidity_usd'' (jl_float L (Finite False 10000))
              (hm_insert ''supported_dexes'' (jl_strings L [''UniswapV2'', ''SushiSwap'', ''Curve''])
                (hm_insert ''max_price_difference_percent'' (jl_float L (Finite False 1)) hm_empty))\<rparr>]\<rparr>"

definition ConfigManager_new :: "'v json_lits \<Rightarrow> string \<Rightarrow> 'v ConfigManager" where
  "ConfigManager_new L path = \<lparr>cm_config_file = StrategyConfigFile_default L, cm_config_path = path\<rparr>"

definition save_to_file ::
    "('w, 'v) config_env \<Rightarrow> 'v ConfigManager \<Rightarrow> 'w \<Rightarrow> 'w \<times> (config_error + unit)" where
  "save_to_file E m w =
     (case ce_to_yaml E (cm_config_file m) of
        Inl e \<Rightarrow> (w, Inl (YamlError e))
      | Inr yaml_content \<Rightarrow>
          (case ce_write E (cm_config_path m) yaml_content w of (w, r) \<Rightarrow> (w, map_err IoError r)))"

definition create_default_config ::
    "('w, 'v) config_env \<Rightarrow> 'v json_lits \<Rightarrow> 'v ConfigManager \<Rightarrow> 'w \<Rightarrow> 'v ConfigManager \<times> 'w \<times> (config_error + unit)" where
  "create_default_config E L m w =
     (let m = m\<lparr>cm_config_file := StrategyConfigFile_default L\<rparr> in (m, save_to_file E m w))"

definition load_from_file ::
    "('w, 'v) config_env \<Rightarrow> 'v json_lits \<Rightarrow> 'v ConfigManager \<Rightarrow> 'w \<Rightarrow> 'v ConfigManager \<times> 'w \<times> (config_error + unit)" where
  "load_from_file E L m w =
     (if \<not> ce_exists E (cm_config_path m) w then create_default_config E L m w
      else
        case ce_read E (cm_config_path m) w of
          Inl e \<Rightarrow> (m, w, Inl (IoError e))
        | Inr yaml_content \<Rightarrow>
            (case ce_from_yaml E yaml_content of
               Inl e \<Rightarrow> (m, w, Inl (YamlError e))
             | Inr config_file \<Rightarrow> (m\<lparr>cm_config_file := config_file\<rparr>, w, Inr ())))"

definition get_strategy_config :: "string \<Rightarrow> 'v ConfigManager \<Rightarrow> 'v StrategyConfig option" where
  "get_strategy_config name m = find (\<lambda>c. sc_name c = name) (cf_strategies (cm_config_file m))"

text \<open>\<open>iter_mut().find(..)\<close> and an assignment: the first entry with the name, if there is one.\<close>

fun update_first ::
    "string \<Rightarrow> ('v StrategyConfig \<Rightarrow> 'v StrategyConfig) \<Rightarrow> 'v StrategyConfig list \<Rightarrow> 'v StrategyConfig list option" where
  "update_first name f [] = None"
| "update_first name f (c # cs) =
     (if sc_name c = name then Some (f c # cs) else map_option ((#) c) (update_first name f cs))"

definition put_strategies :: "'v StrategyConfig list \<Rightarrow> 'v ConfigManager \<Rightarrow> 'v ConfigManager" where
  "put_strategies cs m = m\<lparr>cm_config_file := (cm_config_file m)\<lparr>cf_strategies := cs\<rparr>\<rparr>"

definition update_strategy_config :: "'v StrategyConfig \<Rightarrow> 'v ConfigManager \<Rightarrow> 'v ConfigManager" where
  "update_strategy_config config m =
     (let cs = cf_strategies (cm_config_file m)
      in case update_first (sc_name config) (\<lambda>_. config) cs of
           Some cs' \<Rightarrow> put_strategies cs' m
         | None \<Rightarrow> put_strategies (cs @ [config]) m)"

definition set_strategy_enabled :: "string \<Rightarrow> bool \<Rightarrow> 'v ConfigManager \<Rightarrow> 'v ConfigManager \<times> (config_error + unit)" where
  "set_strategy_enabled name enabled m =
     (case update_first name (\<lambda>c. c\<lparr>sc_enabled := enabled\<rparr>) (cf_strategies (cm_config_file m)) of
        Some cs \<Rightarrow> (put_strategies cs m, Inr ())
      | None \<Rightarrow> (m, Inl (StrategyUnknown name)))"

definition get_enabled_strategies :: "'v ConfigManager \<Rightarrow> 'v StrategyConfig list" where
  "get_enabled_strategies m =
     filter (\<lambda>c. sc_enabled c \<and> gc_enabled (cf_global (cm_config_file m))) (cf_strategies (cm_config_file m))"

definition update_global_config :: "GlobalConfig \<Rightarrow> 'v ConfigManager \<Rightarrow> 'v ConfigManager" where
  "update_global_config g m = m\<lparr>cm_config_file := (cm_config_file m)\<lparr>cf_global := g\<rparr>\<rparr>"

subsection \<open>Warnings\<close>

datatype config_warning =
    NoConcurrency
  | ShortTimeout
  | ZeroMinProfit string
  | HighGasPrice string u64
  | BadRiskTolerance string f64
  | DuplicateName string u8 u8

definition global_warnings :: "GlobalConfig \<Rightarrow> config_warning list" where
  "global_warnings g =
     (if gc_max_concurrent_strategies g = 0 then [NoConcurrency] else [])
     @ (if gc_evaluation_timeout_ms g < 10 then [ShortTimeout] else [])"

definition strategy_warnings :: "'v StrategyConfig \<Rightarrow> config_warning list" where
  "strategy_warnings c =
     (if sc_min_profit_wei c = 0 then [ZeroMinProfit (sc_name c)] else [])
     @ (if 1000 < sc_max_gas_price_gwei c then [HighGasPrice (sc_name c) (sc_max_gas_price_gwei c)] else [])
     @ (if f64_lt (Finite False 1) (sc_risk_tolerance c) \<or> f64_lt (sc_risk_tolerance c) (Finite False 0)
        then [BadRiskTolerance (sc_name c) (sc_risk_tolerance c)] else [])"

fun duplicate_warnings :: "(string, u8) hash_map \<Rightarrow> 'v StrategyConfig list \<Rightarrow> config_warning list" where
  "duplicate_warnings names [] = []"
| "duplicate_warnings names (c # cs) =
     (case hm_get names (sc_name c) of
        Some existing_priority \<Rightarrow> [DuplicateName (sc_name c) existing_priority (sc_priority c)]
      | None \<Rightarrow> [])
     @ duplicate_warnings (hm_insert (sc_name c) (sc_priority c) names) cs"

definition config_warnings :: "'v ConfigManager \<Rightarrow> config_warning list" where
  "config_warnings m =
     global_warnings (cf_global (cm_config_file m))
     @ concat (map strategy_warnings (cf_strategies (cm_config_file m)))
     @ duplicate_warnings hm_empty (cf_strategies (cm_config_file m))"

subsection \<open>Reloading, JSON\<close>

definition configs_equal :: "('w, 'v) config_env \<Rightarrow> 'v StrategyConfigFile \<Rightarrow> 'v StrategyConfigFile \<Rightarrow> bool" where
  "configs_equal E a b \<longleftrightarrow>
     (case ce_to_yaml E a of Inr t \<Rightarrow> t | Inl _ \<Rightarrow> '''') = (case ce_to_yaml E b of Inr t \<Rightarrow> t | Inl _ \<Rightarrow> '''')"

text \<open>The time of the last modification is read, with its errors, and not used.\<close>

definition hot_reload ::
    "('w, 'v) config_env \<Rightarrow> 'v json_lits \<Rightarrow> 'v ConfigManager \<Rightarrow> 'w \<Rightarrow> 'v ConfigManager \<times> 'w \<times> (config_error + bool)" where
  "hot_reload E L m w =
     (case ce_modified E (cm_config_path m) w of
        Inl e \<Rightarrow> (m, w, Inl (IoError e))
      | Inr current_modified \<Rightarrow>
          (case load_from_file E L m w of
             (m', w', Inl e) \<Rightarrow> (m', w', Inl e)
           | (m', w', Inr _) \<Rightarrow> (m', w', Inr (\<not> configs_equal E (cm_config_file m) (cm_config_file m')))))"

definition export_as_json :: "('w, 'v) config_env \<Rightarrow> 'v ConfigManager \<Rightarrow> config_error + string" where
  "export_as_json E m = map_err JsonError (ce_to_json E (cm_config_file m))"

definition import_from_json ::
    "('w, 'v) config_env \<Rightarrow> string \<Rightarrow> 'v ConfigManager \<Rightarrow> 'v ConfigManager \<times> (config_error + unit)" where
  "import_from_json E json_str m =
     (case ce_from_json E json_str of
        Inl e \<Rightarrow> (m, Inl (JsonError e))
      | Inr config_file \<Rightarrow> (m\<lparr>cm_config_file := config_file\<rparr>, Inr ()))"

text \<open>One round of \<open>start_watching\<close>; the listener is called when it returns a configuration.\<close>

definition watch_round ::
    "('w, 'v) config_env \<Rightarrow> 'v json_lits \<Rightarrow> 'v ConfigManager \<Rightarrow> 'w \<Rightarrow>
     'v ConfigManager \<times> 'w \<times> 'v StrategyConfigFile option" where
  "watch_round E L m w =
     (case hot_reload E L m w of
        (m, w, r) \<Rightarrow> (m, w, if r = Inr True then Some (cm_config_file m) else None))"

section \<open>Facts\<close>

lemma find_append: "find P (xs @ ys) = (case find P xs of None \<Rightarrow> find P ys | Some x \<Rightarrow> Some x)"
  by (induction xs) auto

lemma update_first_None: "update_first name f cs = None \<longleftrightarrow> name \<notin> sc_name ` set cs"
  by (induction cs) (auto split: option.splits)

lemma update_first_find:
  assumes "update_first name f cs = Some cs'" and "\<And>c. sc_name (f c) = sc_name c \<or> sc_name (f c) = name"
  shows "find (\<lambda>c. sc_name c = other) cs' =
      (if other = name then map_option f (find (\<lambda>c. sc_name c = name) cs) else find (\<lambda>c. sc_name c = other) cs)
    \<and> map sc_name cs' = map sc_name cs"
  using assms(1)
proof (induction cs arbitrary: cs')
  case (Cons c cs)
  show ?case
  proof (cases "sc_name c = name")
    case True
    with Cons.prems assms(2) [of c] show ?thesis
      by auto
  next
    case False
    with Cons.prems obtain rest where "update_first name f cs = Some rest" "cs' = c # rest"
      by auto
    with Cons.IH [of rest] False show ?thesis
      by auto
  qed
qed simp

definition strategy_names :: "'v ConfigManager \<Rightarrow> string list" where
  "strategy_names m = map sc_name (cf_strategies (cm_config_file m))"

lemma get_None_iff: "get_strategy_config name m = None \<longleftrightarrow> name \<notin> set (strategy_names m)"
  by (auto simp: get_strategy_config_def strategy_names_def find_None_iff)

text \<open>an updated configuration is the one that is read back, those of the other strategies do not change,
  and strategies keep their places, a new one coming last; switching a strategy on or off changes that
  flag of its configuration and nothing else, and fails exactly for an unknown one.\<close>

theorem edited_configs_read_back:
  "get_strategy_config name (update_strategy_config config m) =
      (if name = sc_name config then Some config else get_strategy_config name m)
   \<and> strategy_names (update_strategy_config config m) =
      strategy_names m @ (if sc_name config \<in> set (strategy_names m) then [] else [sc_name config])
   \<and> (case set_strategy_enabled other enabled m of
        (m', Inl e) \<Rightarrow> m' = m \<and> e = StrategyUnknown other \<and> other \<notin> set (strategy_names m)
      | (m', Inr _) \<Rightarrow> other \<in> set (strategy_names m) \<and> strategy_names m' = strategy_names m
          \<and> get_strategy_config name m' =
              (if name = other then map_option (\<lambda>c. c\<lparr>sc_enabled := enabled\<rparr>) (get_strategy_config name m)
               else get_strategy_config name m))"
proof -
  let ?cs = "cf_strategies (cm_config_file m)"
  have update: "get_strategy_config name (update_strategy_config config m) =
      (if name = sc_name config then Some config else get_strategy_config name m)
   \<and> strategy_names (update_strategy_config config m) =
      strategy_names m @ (if sc_name config \<in> set (strategy_names m) then [] else [sc_name config])"
  proof (cases "update_first (sc_name config) (\<lambda>_. config) ?cs")
    case None
    moreover from this have new: "sc_name config \<notin> sc_name ` set ?cs"
      by (simp add: update_first_None)
    moreover from new have "find (\<lambda>c. sc_name c = sc_name config) ?cs = None"
      unfolding find_None_iff by (metis imageI)
    ultimately show ?thesis
      by (auto simp: update_strategy_config_def put_strategies_def get_strategy_config_def strategy_names_def
          find_append split: option.split)
  next
    case (Some cs')
    then have old: "sc_name config \<in> sc_name ` set ?cs"
      using update_first_None [of "sc_name config" "\<lambda>_. config" ?cs] by simp
    then have "find (\<lambda>c. sc_name c = sc_name config) ?cs \<noteq> None"
      by (auto simp: find_None_iff)
    with update_first_find [OF Some, of name] old Some show ?thesis
      by (auto simp: update_strategy_config_def put_strategies_def get_strategy_config_def strategy_names_def)
  qed
  have switch: "case set_strategy_enabled other enabled m of
        (m', Inl e) \<Rightarrow> m' = m \<and> e = StrategyUnknown other \<and> other \<notin> set (strategy_names m)
      | (m', Inr _) \<Rightarrow> other \<in> set (strategy_names m) \<and> strategy_names m' = strategy_names m
          \<and> get_strategy_config name m' =
              (if name = other then map_option (\<lambda>c. c\<lparr>sc_enabled := enabled\<rparr>) (get_strategy_config name m)
               else get_strategy_config name m)"
  proof (cases "update_first other (\<lambda>c. c\<lparr>sc_enabled := enabled\<rparr>) ?cs")
    case None
    moreover from this have "other \<notin> sc_name ` set ?cs"
      by (simp add: update_first_None)
    ultimately show ?thesis
      by (simp add: set_strategy_enabled_def strategy_names_def)
  next
    case (Some cs')
    then have "other \<in> sc_name ` set ?cs"
      using update_first_None [of other "\<lambda>c. c\<lparr>sc_enabled := enabled\<rparr>" ?cs] by simp
    with update_first_find [OF Some, of name] Some show ?thesis
      by (auto simp: set_strategy_enabled_def put_strategies_def get_strategy_config_def strategy_names_def)
  qed
  from update switch show ?thesis
    by blast
qed

subsection \<open>Warnings\<close>

lemma duplicate_warnings_Nil:
  "duplicate_warnings names cs = [] \<longleftrightarrow>
     distinct (map sc_name cs) \<and> set (map sc_name cs) \<inter> set (hm_keys names) = {}"
proof (induction names cs rule: duplicate_warnings.induct)
  case (2 names c cs)
  then show ?case
    using hm_get_None_iff [of names "sc_name c"] by (auto simp: hm_keys_insert split: option.split)
qed simp

text \<open>no warning is given exactly when both global limits are sensible, every strategy has a positive
  minimum profit, a gas price of at most 1000 gwei and a risk tolerance that is in range or not a number,
  and the names are distinct.\<close>

theorem config_warnings_empty_iff:
  "config_warnings m = [] \<longleftrightarrow>
     0 < gc_max_concurrent_strategies (cf_global (cm_config_file m))
     \<and> 10 \<le> gc_evaluation_timeout_ms (cf_global (cm_config_file m))
     \<and> (\<forall>c \<in> set (cf_strategies (cm_config_file m)).
          sc_min_profit_wei c \<noteq> 0 \<and> sc_max_gas_price_gwei c \<le> 1000
          \<and> (sc_risk_tolerance c = NaN
             \<or> f64_le (Finite False 0) (sc_risk_tolerance c) \<and> f64_le (sc_risk_tolerance c) (Finite False 1)))
     \<and> distinct (strategy_names m)"
proof -
  have range: "\<not> f64_lt (Finite False 1) x \<and> \<not> f64_lt x (Finite False 0) \<longleftrightarrow>
      x = NaN \<or> f64_le (Finite False 0) x \<and> f64_le x (Finite False 1)" for x
    by (cases x) (auto simp: f64_le_def signed_def not_less)
  have strategy: "strategy_warnings c = [] \<longleftrightarrow>
      sc_min_profit_wei c \<noteq> 0 \<and> sc_max_gas_price_gwei c \<le> 1000
      \<and> (sc_risk_tolerance c = NaN
         \<or> f64_le (Finite False 0) (sc_risk_tolerance c) \<and> f64_le (sc_risk_tolerance c) (Finite False 1))" for c :: "'a StrategyConfig"
    using range [of "sc_risk_tolerance c"] by (auto simp: strategy_warnings_def not_less)
  show ?thesis
    by (auto simp: config_warnings_def global_warnings_def duplicate_warnings_Nil strategy strategy_names_def
        not_less word_gt_0 hm_keys_def hm_empty_def)
qed

subsection \<open>Files\<close>

text \<open>Two configurations are the same but for the order in which the parameters are walked.\<close>

definition same_strategy :: "'v StrategyConfig \<Rightarrow> 'v StrategyConfig \<Rightarrow> bool" where
  "same_strategy c d \<longleftrightarrow>
     c\<lparr>sc_parameters := []\<rparr> = d\<lparr>sc_parameters := []\<rparr>
     \<and> (\<forall>k. hm_get (sc_parameters c) k = hm_get (sc_parameters d) k)"

definition same_config :: "'v StrategyConfigFile \<Rightarrow> 'v StrategyConfigFile \<Rightarrow> bool" where
  "same_config a b \<longleftrightarrow>
     cf_version a = cf_version b \<and> cf_global a = cf_global b
     \<and> list_all2 same_strategy (cf_strategies a) (cf_strategies b)"

text \<open>Reading what was written gives the same configuration; a file that was written is there.\<close>

definition yaml_law :: "('w, 'v) config_env \<Rightarrow> bool" where
  "yaml_law E \<longleftrightarrow>
     (\<forall>c t. ce_to_yaml E c = Inr t \<longrightarrow> (\<exists>c'. ce_from_yaml E t = Inr c' \<and> same_config c c'))"

definition file_law :: "('w, 'v) config_env \<Rightarrow> bool" where
  "file_law E \<longleftrightarrow>
     (\<forall>p t w w'. ce_write E p t w = (w', Inr ()) \<longrightarrow>
        ce_exists E p w' \<and> ce_read E p w' = Inr t \<and> (\<exists>time. ce_modified E p w' = Inr time))"

definition yaml_text :: "('w, 'v) config_env \<Rightarrow> 'v StrategyConfigFile \<Rightarrow> string" where
  "yaml_text E c = (case ce_to_yaml E c of Inr t \<Rightarrow> t | Inl _ \<Rightarrow> '''')"

text \<open>a configuration that was saved is loaded again by every manager of the file; and reloading it in the
  manager that saved it reports a change, although nothing has changed, exactly when the parameters it
  has read are walked in an order that gives another text.\<close>

theorem saved_config_reloads:
  assumes "save_to_file E m w = (w', Inr ())" and "yaml_law E" and "file_law E"
  shows "\<exists>c. same_config (cm_config_file m) c
    \<and> (\<forall>m2. cm_config_path m2 = cm_config_path m \<longrightarrow>
         load_from_file E L m2 w' = (m2\<lparr>cm_config_file := c\<rparr>, w', Inr ()))
    \<and> hot_reload E L m w' =
        (m\<lparr>cm_config_file := c\<rparr>, w', Inr (yaml_text E (cm_config_file m) \<noteq> yaml_text E c))"
proof -
  obtain t where t: "ce_to_yaml E (cm_config_file m) = Inr t"
      and written: "ce_write E (cm_config_path m) t w = (w', Inr ())"
    using assms(1) by (auto simp: save_to_file_def map_err_def split: sum.splits prod.splits)
  obtain c where c: "ce_from_yaml E t = Inr c" "same_config (cm_config_file m) c"
    using assms(2) t unfolding yaml_law_def by blast
  have stored: "ce_exists E (cm_config_path m) w'" "ce_read E (cm_config_path m) w' = Inr t"
      "\<exists>time. ce_modified E (cm_config_path m) w' = Inr time"
    using assms(3) written unfolding file_law_def by blast+
  have load: "load_from_file E L m2 w' = (m2\<lparr>cm_config_file := c\<rparr>, w', Inr ())"
    if "cm_config_path m2 = cm_config_path m" for m2
    using that stored c(1) by (simp add: load_from_file_def)
  moreover have "hot_reload E L m w' =
      (m\<lparr>cm_config_file := c\<rparr>, w', Inr (yaml_text E (cm_config_file m) \<noteq> yaml_text E c))"
    using stored(3) load [of m] by (auto simp: hot_reload_def configs_equal_def yaml_text_def)
  ultimately show ?thesis
    using c(2) by blast
qed

text \<open>A codec for two texts of one configuration that differ in the order of two parameters.\<close>

definition ordered_config :: "bool \<Rightarrow> f64 StrategyConfigFile" where
  "ordered_config b =
     \<lparr>cf_version = ''1.0'', cf_global = GlobalConfig_default,
      cf_strategies = [StrategyConfig_default\<lparr>sc_parameters :=
        (if b then [(''a'', NaN), (''b'', NaN)] else [(''b'', NaN), (''a'', NaN)])\<rparr>]\<rparr>"

definition demo_config_env :: "(string, f64) config_env" where
  "demo_config_env =
     \<lparr>ce_exists = (\<lambda>p w. True), ce_modified = (\<lambda>p w. Inr 0), ce_read = (\<lambda>p w. Inr w),
      ce_write = (\<lambda>p t w. (t, Inr ())),
      ce_to_yaml = (\<lambda>c. if c = ordered_config True then Inr ''ab'' else if c = ordered_config False then Inr ''ba''
                        else Inl ''unknown''),
      ce_from_yaml = (\<lambda>t. Inr (ordered_config False)),
      ce_to_json = (\<lambda>c. Inl ''unknown''), ce_from_json = (\<lambda>t. Inl ''unknown'')\<rparr>"

definition number_lits :: "f64 json_lits" where
  "number_lits = \<lparr>jl_float = (\<lambda>x. x), jl_strings = (\<lambda>_. NaN)\<rparr>"

lemma ordered_configs: "ordered_config True \<noteq> ordered_config False" "same_config (ordered_config b) (ordered_config False)"
  by (auto simp: ordered_config_def same_config_def same_strategy_def hm_get_def StrategyConfig_default_def)

theorem saved_config_reloads_witness:
  "hot_reload demo_config_env number_lits \<lparr>cm_config_file = ordered_config True, cm_config_path = ''p''\<rparr> ''ab''
     = (\<lparr>cm_config_file = ordered_config False, cm_config_path = ''p''\<rparr>, ''ab'', Inr True)"
proof -
  let ?m = "\<lparr>cm_config_file = ordered_config True, cm_config_path = ''p''\<rparr>"
  have "save_to_file demo_config_env ?m ''old'' = (''ab'', Inr ())"
    by (simp add: save_to_file_def demo_config_env_def map_err_def)
  moreover have "yaml_law demo_config_env"
    using ordered_configs(2) by (simp add: yaml_law_def demo_config_env_def)
  moreover have "file_law demo_config_env"
    by (simp add: file_law_def demo_config_env_def)
  ultimately obtain c where c:
      "load_from_file demo_config_env number_lits ?m ''ab'' = (?m\<lparr>cm_config_file := c\<rparr>, ''ab'', Inr ())"
      "hot_reload demo_config_env number_lits ?m ''ab'' =
        (?m\<lparr>cm_config_file := c\<rparr>, ''ab'', Inr (yaml_text demo_config_env (ordered_config True) \<noteq> yaml_text demo_config_env c))"
    using saved_config_reloads [of demo_config_env ?m "''old''" "''ab''" number_lits] by auto
  have "c = ordered_config False"
    using c(1) by (simp add: load_from_file_def demo_config_env_def)
  with c(2) ordered_configs(1) show ?thesis
    by (auto simp: demo_config_env_def yaml_text_def)
qed

theorem config_warnings_empty_iff_witness:
  "config_warnings \<lparr>cm_config_file = \<lparr>cf_version = ''1.0'', cf_global = GlobalConfig_default,
      cf_strategies = [(StrategyConfig_default :: f64 StrategyConfig)\<lparr>sc_risk_tolerance := NaN\<rparr>]\<rparr>,
    cm_config_path = ''p''\<rparr> = []"
  by (subst config_warnings_empty_iff)
    (simp add: GlobalConfig_default_def StrategyConfig_default_def strategy_names_def)

end
