(* ===== verification/Simulator.thy ===== *)
theory Simulator
  imports Sim_Types
begin

text \<open>
  The simulation engine of \<open>crates/mev-core/src/simulation.rs\<close>. The node is a record of operations over a
  world of type \<open>'w\<close>: \<open>nd_base_fee\<close> reads the latest block, \<open>nd_deadline\<close> tells whether the time limit ends
  the simulation that starts in a world, and in which world. \<open>U256\<close> sums and products panic on overflow.
  The simulations of a batch take one permit each and are run one after another here. The HTTP routes and
  the generator of test bundles are left out.
\<close>

record SimulationConfig =
  mc_rpc_url :: string
  mc_timeout_ms :: u64
  mc_max_concurrent_simulations :: usize
  mc_enable_state_override :: bool
  mc_gas_limit_multiplier :: f64
  mc_base_fee_multiplier :: f64
  mc_http_api_port :: "16 word"
  mc_enable_deterministic_testing :: bool

definition SimulationConfig_default :: SimulationConfig where
  "SimulationConfig_default =
     \<lparr>mc_rpc_url = ''http://localhost:8545'', mc_timeout_ms = 100, mc_max_concurrent_simulations = 50,
      mc_enable_state_override = True, mc_gas_limit_multiplier = f64_lit ''1.2'',
      mc_base_fee_multiplier = f64_lit ''1.1'', mc_http_api_port = 8080, mc_enable_deterministic_testing = False\<rparr>"

record call_request =
  cr_from :: address
  cr_to :: "address option"
  cr_gas :: u256
  cr_gas_price :: u256
  cr_value :: u256
  cr_data :: "u8 list"

record 'w node =
  nd_block_number :: "'w \<Rightarrow> 'w \<times> (string + u64)"
  nd_base_fee :: "'w \<Rightarrow> 'w \<times> (string + u256 option)"
  nd_estimate_gas :: "call_request \<Rightarrow> u64 \<Rightarrow> 'w \<Rightarrow> 'w \<times> (string + u256)"
  nd_call :: "call_request \<Rightarrow> u64 \<Rightarrow> 'w \<Rightarrow> 'w \<times> (string + u8 list)"
  nd_deadline :: "'w \<Rightarrow> 'w option"

subsection \<open>Text\<close>

text \<open>\<open>trim\<close> removes characters of the Unicode property \<open>White_Space\<close>; these are their UTF-8 bytes.\<close>

definition utf8 :: "nat list \<Rightarrow> string" where
  "utf8 bs = map char_of bs"

definition white_space :: "string list" where
  "white_space =
     map (\<lambda>b. utf8 [b]) [9, 10, 11, 12, 13, 32]
     @ [utf8 [194, 133], utf8 [194, 160], utf8 [225, 154, 128]]
     @ map (\<lambda>b. utf8 [226, 128, b]) ([128..<139] @ [168, 169, 175])
     @ [utf8 [226, 129, 159], utf8 [227, 128, 128]]"

fun trim_start_n :: "nat \<Rightarrow> string list \<Rightarrow> string \<Rightarrow> string" where
  "trim_start_n 0 ws s = s"
| "trim_start_n (Suc n) ws s =
     (case find (\<lambda>w. take (length w) s = w) ws of
        Some w \<Rightarrow> trim_start_n n ws (drop (length w) s)
      | None \<Rightarrow> s)"

definition trim :: "string \<Rightarrow> string" where
  "trim s =
     (let t = trim_start_n (length s) white_space s
      in rev (trim_start_n (length t) (map rev white_space) (rev t)))"

text \<open>\<open>s.split(p).nth(1)\<close>: what stands between the first and the second occurrence of the pattern.\<close>

fun before_pattern :: "string \<Rightarrow> string \<Rightarrow> string" where
  "before_pattern p [] = []"
| "before_pattern p (c # cs) = (if take (length p) (c # cs) = p then [] else c # before_pattern p cs)"

definition second_piece :: "string \<Rightarrow> string \<Rightarrow> string option" where
  "second_piece p s =
     (if contains_str s p then Some (before_pattern p (drop (length (before_pattern p s) + length p) s)) else None)"

definition extract_revert_reason :: "string \<Rightarrow> string option" where
  "extract_revert_reason error_msg =
     (if contains_str error_msg ''execution reverted:'' then
        map_option trim (second_piece ''execution reverted:'' error_msg)
      else if contains_str error_msg ''revert'' then Some error_msg
      else None)"

subsection \<open>One transaction\<close>

definition call_request_of :: "SimulationTransaction \<Rightarrow> call_request" where
  "call_request_of tx =
     \<lparr>cr_from = sx_from tx, cr_to = sx_to tx, cr_gas = sx_gas_limit tx, cr_gas_price = sx_gas_price tx,
      cr_value = sx_value tx, cr_data = sx_data tx\<rparr>"

text \<open>The overrides of the sender are looked up, logged and not used.\<close>

definition call_with_state_overrides_rpc ::
    "'w node \<Rightarrow> call_request \<Rightarrow> u64 \<Rightarrow> (address, StateOverride) hash_map \<Rightarrow> 'w \<Rightarrow> 'w \<times> (string + u8 list)" where
  "call_with_state_overrides_rpc N call block_number state_overrides w = nd_call N call block_number w"

definition simulate_with_state_overrides ::
    "'w node \<Rightarrow> call_request \<Rightarrow> u64 \<Rightarrow> (address, StateOverride) hash_map \<Rightarrow> 'w \<Rightarrow> 'w \<times> (string + u8 list)" where
  "simulate_with_state_overrides N call block_number state_overrides w =
     (case call_with_state_overrides_rpc N call block_number state_overrides w of
        (w, Inr result) \<Rightarrow> (w, Inr result)
      | (w, Inl e) \<Rightarrow> nd_call N call block_number w)"

definition simulate_transaction_with_overrides ::
    "'w node \<Rightarrow> SimulationConfig \<Rightarrow> SimulationTransaction \<Rightarrow> u64 \<Rightarrow> (address, StateOverride) hash_map option \<Rightarrow> 'w \<Rightarrow>
     ('w \<times> TransactionResult) run" where
  "simulate_transaction_with_overrides N config tx block_number state_overrides w =
     (let call = call_request_of tx
      in case nd_estimate_gas N call block_number w of
        (w, estimate) \<Rightarrow>
          (let gas_estimate = (case estimate of Inr g \<Rightarrow> g | Inl e \<Rightarrow> sx_gas_limit tx)
           in run_bind (as_u128 gas_estimate) (\<lambda>g.
                let adjusted_gas_limit =
                      ucast (f64_to_u128 (f64_mul (f64_of_nat (unat g)) (mc_gas_limit_multiplier config)))
                in case (if mc_enable_state_override config
                         then case state_overrides of
                                Some os \<Rightarrow> simulate_with_state_overrides N call block_number os w
                              | None \<Rightarrow> nd_call N call block_number w
                         else nd_call N call block_number w) of
                     (w, Inr return_data) \<Rightarrow>
                       Ret (w, \<lparr>trs_success = True, trs_gas_used = gas_estimate, trs_gas_estimate = adjusted_gas_limit,
                                trs_return_data = Some return_data, trs_logs = [], trs_error = None,
                                trs_revert_reason = None, trs_effective_gas_price = sx_gas_price tx\<rparr>)
                   | (w, Inl error_msg) \<Rightarrow>
                       Ret (w, \<lparr>trs_success = False, trs_gas_used = 0, trs_gas_estimate = gas_estimate,
                                trs_return_data = None, trs_logs = [], trs_error = Some error_msg,
                                trs_revert_reason = extract_revert_reason error_msg,
                                trs_effective_gas_price = sx_gas_price tx\<rparr>))))"

subsection \<open>A bundle\<close>

definition calculate_profit_estimate :: "TransactionResult list \<Rightarrow> u256 \<Rightarrow> ProfitEstimate run" where
  "calculate_profit_estimate results total_gas_cost =
     (let successful_txs = length (filter trs_success results);
          total_txs = length results
      in run_bind (if 0 < successful_txs then u256_mul (word_of_nat successful_txs) 1000000000000000 else Ret 0)
           (\<lambda>gross_profit_wei.
             let net_profit_wei = (if total_gas_cost < gross_profit_wei then gross_profit_wei - total_gas_cost else 0)
             in run_bind
                  (if 0 < gross_profit_wei then
                     run_bind (as_u128 net_profit_wei) (\<lambda>n.
                       run_bind (as_u128 gross_profit_wei) (\<lambda>g.
                         Ret (f64_div (f64_of_nat (unat n)) (f64_of_nat (unat g)))))
                   else Ret (Finite False 0))
                  (\<lambda>profit_margin.
                    Ret \<lparr>pe_gross_profit_wei = gross_profit_wei, pe_gas_cost_wei = total_gas_cost,
                         pe_net_profit_wei = net_profit_wei, pe_profit_margin = profit_margin,
                         pe_confidence = f64_div (f64_of_nat successful_txs) (f64_of_nat total_txs)\<rparr>)))"

text \<open>The loop over the transactions: the world, the gas used, its cost and the results so far.\<close>

fun simulate_each ::
    "'w node \<Rightarrow> SimulationConfig \<Rightarrow> u64 \<Rightarrow> (address, StateOverride) hash_map option \<Rightarrow> SimulationTransaction list \<Rightarrow>
     'w \<Rightarrow> u256 \<Rightarrow> u256 \<Rightarrow> TransactionResult list \<Rightarrow> ('w \<times> u256 \<times> u256 \<times> TransactionResult list) run" where
  "simulate_each N config block_number os [] w gas_used gas_cost results = Ret (w, gas_used, gas_cost, results)"
| "simulate_each N config block_number os (tx # txs) w gas_used gas_cost results =
     run_bind (simulate_transaction_with_overrides N config tx block_number os w) (\<lambda>(w, r).
       run_bind (u256_add gas_used (trs_gas_used r)) (\<lambda>gas_used.
         run_bind (u256_mul (trs_effective_gas_price r) (trs_gas_used r)) (\<lambda>cost.
           run_bind (u256_add gas_cost cost) (\<lambda>gas_cost.
             simulate_each N config block_number os txs w gas_used gas_cost (results @ [r])))))"

definition simulate_bundle_internal ::
    "'w node \<Rightarrow> SimulationConfig \<Rightarrow> SimulationBundle \<Rightarrow> 'w \<Rightarrow> ('w \<times> (string + SimulationResult)) run" where
  "simulate_bundle_internal N config bundle w =
     (case (case sb_block_number bundle of Some b \<Rightarrow> (w, Inr b) | None \<Rightarrow> nd_block_number N w) of
        (w, Inl e) \<Rightarrow> Ret (w, Inl e)
      | (w, Inr block_number) \<Rightarrow>
          (case nd_base_fee N w of
             (w, Inl e) \<Rightarrow> Ret (w, Inl e)
           | (w, Inr fee) \<Rightarrow>
               run_bind (simulate_each N config block_number (sb_state_overrides bundle) (sb_transactions bundle) w 0 0 [])
                 (\<lambda>(w, total_gas_used, total_gas_cost, results).
                   run_bind (calculate_profit_estimate results total_gas_cost) (\<lambda>profit_estimate.
                     let bundle_success = list_all trs_success results
                     in Ret (w, Inr
                          \<lparr>sr_bundle_id = sb_id bundle, sr_success = bundle_success, sr_gas_used = total_gas_used,
                           sr_gas_cost = total_gas_cost, sr_profit_estimate = profit_estimate,
                           sr_transaction_results = results, sr_simulation_time_ms = Finite False 0,
                           sr_error_message = None, sr_block_number = block_number,
                           sr_effective_gas_price = unwrap_or 20000000000 fee,
                           sr_revert_reason =
                             (if \<not> bundle_success
                              then Option.bind (find (\<lambda>r. \<not> trs_success r) results) trs_revert_reason
                              else None)\<rparr>)))))"

definition failed_simulation :: "string \<Rightarrow> f64 \<Rightarrow> string \<Rightarrow> SimulationResult" where
  "failed_simulation bundle_id time_ms error_message =
     \<lparr>sr_bundle_id = bundle_id, sr_success = False, sr_gas_used = 0, sr_gas_cost = 0,
      sr_profit_estimate = ProfitEstimate_default, sr_transaction_results = [], sr_simulation_time_ms = time_ms,
      sr_error_message = Some error_message, sr_block_number = 0, sr_effective_gas_price = 0,
      sr_revert_reason = None\<rparr>"

text \<open>Without permits the first line waits for ever.\<close>

definition simulate_bundle ::
    "'w node \<Rightarrow> SimulationConfig \<Rightarrow> duration \<Rightarrow> SimulationBundle \<Rightarrow> 'w \<Rightarrow> ('w \<times> SimulationResult) run option" where
  "simulate_bundle N config time bundle w =
     (if mc_max_concurrent_simulations config = 0 then None
      else Some
        (case nd_deadline N w of
           Some w' \<Rightarrow>
             Ret (w', failed_simulation (sb_id bundle) (f64_of_nat (unat (mc_timeout_ms config))) ''Simulation timeout'')
         | None \<Rightarrow>
             run_bind (simulate_bundle_internal N config bundle w) (\<lambda>(w, r).
               Ret (w, case r of
                         Inr result \<Rightarrow> result\<lparr>sr_simulation_time_ms := elapsed_ms time\<rparr>
                       | Inl e \<Rightarrow> failed_simulation (sb_id bundle) (elapsed_ms time) e))))"

fun simulate_bundles_batch ::
    "'w node \<Rightarrow> SimulationConfig \<Rightarrow> (duration \<times> SimulationBundle) list \<Rightarrow> 'w \<Rightarrow>
     ('w \<times> SimulationResult list) run option" where
  "simulate_bundles_batch N config [] w = Some (Ret (w, []))"
| "simulate_bundles_batch N config ((time, bundle) # rest) w =
     (case simulate_bundle N config time bundle w of
        None \<Rightarrow> None
      | Some Panic \<Rightarrow> Some Panic
      | Some (Ret (w, result)) \<Rightarrow>
          map_option (\<lambda>m. run_bind m (\<lambda>(w, results). Ret (w, result # results)))
            (simulate_bundles_batch N config rest w))"

record SimulationStats =
  mt_active_simulations :: usize
  mt_max_concurrent :: usize
  mt_timeout_ms :: u64
  mt_rpc_url :: string

definition simulator_get_stats :: "SimulationConfig \<Rightarrow> usize \<Rightarrow> SimulationStats" where
  "simulator_get_stats config available_permits =
     \<lparr>mt_active_simulations = mc_max_concurrent_simulations config - available_permits,
      mt_max_concurrent = mc_max_concurrent_simulations config, mt_timeout_ms = mc_timeout_ms config,
      mt_rpc_url = mc_rpc_url config\<rparr>"

subsection \<open>Building a bundle\<close>

record SimBundleBuilder =
  bb_bundle_id :: string
  bb_transactions :: "SimulationTransaction list"
  bb_block_number :: "u64 option"

definition SimBundleBuilder_new :: "string \<Rightarrow> SimBundleBuilder" where
  "SimBundleBuilder_new bundle_id = \<lparr>bb_bundle_id = bundle_id, bb_transactions = [], bb_block_number = None\<rparr>"

definition add_transaction :: "SimulationTransaction \<Rightarrow> SimBundleBuilder \<Rightarrow> SimBundleBuilder" where
  "add_transaction tx b = b\<lparr>bb_transactions := bb_transactions b @ [tx]\<rparr>"

definition add_parsed_transaction :: "sim_read_env \<Rightarrow> ParsedTransaction \<Rightarrow> SimBundleBuilder \<Rightarrow> SimBundleBuilder" where
  "add_parsed_transaction R parsed_tx b =
     b\<lparr>bb_transactions := bb_transactions b @ [SimulationTransaction_from R parsed_tx]\<rparr>"

definition set_block_number :: "u64 \<Rightarrow> SimBundleBuilder \<Rightarrow> SimBundleBuilder" where
  "set_block_number n b = b\<lparr>bb_block_number := Some n\<rparr>"

definition sim_build :: "u64 \<Rightarrow> SimBundleBuilder \<Rightarrow> SimulationBundle" where
  "sim_build now b =
     \<lparr>sb_id = bb_bundle_id b, sb_transactions = bb_transactions b, sb_block_number = bb_block_number b,
      sb_timestamp = Some now, sb_base_fee = None, sb_state_overrides = None\<rparr>"

definition with_state_overrides ::
    "u64 \<Rightarrow> (address, StateOverride) hash_map \<Rightarrow> SimBundleBuilder \<Rightarrow> SimBundleBuilder" where
  "with_state_overrides now overrides b =
     (let bundle = (sim_build now b)\<lparr>sb_state_overrides := Some overrides\<rparr>
      in \<lparr>bb_bundle_id = sb_id bundle, bb_transactions = sb_transactions bundle,
          bb_block_number = sb_block_number bundle\<rparr>)"

end
