(* ===== verification/Rpc_Client.thy ===== *)
theory Rpc_Client
  imports Simulator
begin

text \<open>
  The RPC client of \<open>crates/mev-core/src/rpc_client.rs\<close>: endpoints with their health, the choice of the
  best one, and calls with retries. An endpoint is its position in the configuration; \<open>call_ops\<close> performs
  an operation on one of them and measures its time. The health of the endpoints is shared with the
  health check and with clones of the client: \<open>co_others\<close> is what they have recorded since it was last
  looked at, and it is taken in before each choice and each record. The requests of a batch run one after
  another here. Constructing the HTTP providers is left out.
\<close>

record RpcClientConfig =
  rcc_endpoints :: "string list"
  rcc_timeout_ms :: u64
  rcc_max_concurrent_requests :: usize
  rcc_connection_pool_size :: usize
  rcc_retry_attempts :: u32
  rcc_retry_delay_ms :: u64
  rcc_enable_failover :: bool
  rcc_health_check_interval_ms :: u64

definition RpcClientConfig_default :: RpcClientConfig where
  "RpcClientConfig_default =
     \<lparr>rcc_endpoints = [''http://localhost:8545''], rcc_timeout_ms = 5000, rcc_max_concurrent_requests = 100,
      rcc_connection_pool_size = 20, rcc_retry_attempts = 3, rcc_retry_delay_ms = 100, rcc_enable_failover = True,
      rcc_health_check_interval_ms = 30000\<rparr>"

subsection \<open>Health\<close>

record EndpointHealth =
  eh_url :: string
  eh_is_healthy :: bool
  eh_last_check :: instant
  eh_response_time_ms :: f64
  eh_error_count :: u32
  eh_success_count :: u32

definition EndpointHealth_new :: "instant \<Rightarrow> string \<Rightarrow> EndpointHealth" where
  "EndpointHealth_new now url =
     \<lparr>eh_url = url, eh_is_healthy = True, eh_last_check = now, eh_response_time_ms = Finite False 0,
      eh_error_count = 0, eh_success_count = 0\<rparr>"

definition eh_record_success :: "instant \<Rightarrow> f64 \<Rightarrow> EndpointHealth \<Rightarrow> EndpointHealth" where
  "eh_record_success now response_time_ms h =
     (let h = h\<lparr>eh_success_count := eh_success_count h + 1, eh_response_time_ms := response_time_ms,
               eh_last_check := now\<rparr>
      in if \<not> eh_is_healthy h \<and> 0 < eh_success_count h then h\<lparr>eh_is_healthy := True\<rparr> else h)"

definition eh_record_error :: "instant \<Rightarrow> EndpointHealth \<Rightarrow> EndpointHealth" where
  "eh_record_error now h =
     (let h = h\<lparr>eh_error_count := eh_error_count h + 1, eh_last_check := now\<rparr>
      in if 3 \<le> eh_error_count h \<and> eh_is_healthy h then h\<lparr>eh_is_healthy := False\<rparr> else h)"

definition get_success_rate :: "EndpointHealth \<Rightarrow> f64" where
  "get_success_rate h =
     (let total = eh_success_count h + eh_error_count h
      in if 0 < total then f64_div (f64_of_nat (unat (eh_success_count h))) (f64_of_nat (unat total))
         else Finite False 1)"

subsection \<open>Choosing an endpoint\<close>

record RpcClient =
  rl_config :: RpcClientConfig
  rl_endpoint_health :: "EndpointHealth list"

definition RpcClient_new :: "instant \<Rightarrow> RpcClientConfig \<Rightarrow> RpcClient" where
  "RpcClient_new now config =
     \<lparr>rl_config = config, rl_endpoint_health = map (EndpointHealth_new now) (rcc_endpoints config)\<rparr>"

text \<open>\<open>min_by\<close> keeps the first of several minima; times that cannot be compared count as equal.\<close>

fun min_by_time :: "nat \<times> EndpointHealth \<Rightarrow> (nat \<times> EndpointHealth) list \<Rightarrow> nat \<times> EndpointHealth" where
  "min_by_time best [] = best"
| "min_by_time best (e # es) =
     min_by_time
       (if f64_lt (eh_response_time_ms (snd e)) (eh_response_time_ms (snd best)) then e else best) es"

text \<open>\<open>providers[0]\<close> panics without endpoints.\<close>

definition get_best_provider :: "RpcClient \<Rightarrow> nat run" where
  "get_best_provider c =
     (case filter (\<lambda>(i, h). eh_is_healthy h) (enumerate 0 (rl_endpoint_health c)) of
        e # es \<Rightarrow> Ret (fst (min_by_time e es))
      | [] \<Rightarrow> if rl_endpoint_health c = [] then Panic else Ret 0)"

definition update_health :: "nat \<Rightarrow> (EndpointHealth \<Rightarrow> EndpointHealth) \<Rightarrow> RpcClient \<Rightarrow> RpcClient" where
  "update_health i f c =
     c\<lparr>rl_endpoint_health :=
        (if i < length (rl_endpoint_health c)
         then (rl_endpoint_health c)[i := f (rl_endpoint_health c ! i)] else rl_endpoint_health c)\<rparr>"

subsection \<open>Calls\<close>

record ('w, 'a) call_ops =
  co_call :: "nat \<Rightarrow> 'w \<Rightarrow> 'w \<times> duration \<times> (string + 'a)"
  co_sleep :: "duration \<Rightarrow> 'w \<Rightarrow> 'w"
  co_now :: "'w \<Rightarrow> instant"
  co_others :: "'w \<Rightarrow> 'w \<times> (nat \<times> instant \<times> f64 option) list"

text \<open>An outcome of an endpoint: when it was recorded, and the time of the answer or an error.\<close>

fun record_outcome :: "instant \<times> f64 option \<Rightarrow> EndpointHealth \<Rightarrow> EndpointHealth" where
  "record_outcome (now, Some time) h = eh_record_success now time h"
| "record_outcome (now, None) h = eh_record_error now h"

definition others_record :: "('w, 'a) call_ops \<Rightarrow> RpcClient \<Rightarrow> 'w \<Rightarrow> RpcClient \<times> 'w" where
  "others_record A c w =
     (let (w, outcomes) = co_others A w
      in (fold (\<lambda>(i, outcome). update_health i (record_outcome outcome)) outcomes c, w))"

text \<open>The attempts that are left, and the number of the next one; each goes to the best endpoint of its time.\<close>

fun retry_call ::
    "('w, 'a) call_ops \<Rightarrow> nat \<Rightarrow> u32 \<Rightarrow> RpcClient \<Rightarrow> 'w \<Rightarrow> (RpcClient \<times> 'w \<times> (string + 'a)) run" where
  "retry_call A 0 attempt c w = Ret (c, w, Inl ''All retry attempts exhausted'')"
| "retry_call A (Suc left) attempt c w =
     (let (c, w) = others_record A c w
      in run_bind (get_best_provider c) (\<lambda>provider.
        let (w, time, r) = co_call A provider w;
            (c, w) = others_record A c w
        in case r of
             Inr result \<Rightarrow>
               Ret (update_health provider (eh_record_success (co_now A w) (elapsed_ms time)) c, w, Inr result)
           | Inl e \<Rightarrow>
               (let c = update_health provider (eh_record_error (co_now A w)) c
                in if attempt < rcc_retry_attempts (rl_config c) - 1 then
                     retry_call A left (attempt + 1) c
                       (co_sleep A (millis (unat (rcc_retry_delay_ms (rl_config c) * ucast (attempt + 1)))) w)
                   else Ret (c, w, Inl e))))"

text \<open>Without permits the first line waits for ever.\<close>

definition call_with_retry ::
    "('w, 'a) call_ops \<Rightarrow> RpcClient \<Rightarrow> 'w \<Rightarrow> (RpcClient \<times> 'w \<times> (string + 'a)) run option" where
  "call_with_retry A c w =
     (if rcc_max_concurrent_requests (rl_config c) = 0 then None
      else Some (retry_call A (unat (rcc_retry_attempts (rl_config c))) 0 c w))"

text \<open>A clone has permits of its own and shares the health of the endpoints.\<close>

fun get_block_numbers_batch ::
    "('w, u64) call_ops \<Rightarrow> nat \<Rightarrow> RpcClient \<Rightarrow> 'w \<Rightarrow> (RpcClient \<times> 'w \<times> u64 list) run option" where
  "get_block_numbers_batch A 0 c w = Some (Ret (c, w, []))"
| "get_block_numbers_batch A (Suc n) c w =
     (case call_with_retry A c w of
        None \<Rightarrow> None
      | Some Panic \<Rightarrow> Some Panic
      | Some (Ret (c, w, r)) \<Rightarrow>
          map_option (\<lambda>m. run_bind m (\<lambda>(c, w, ns). Ret (c, w, (case r of Inr n \<Rightarrow> n # ns | Inl e \<Rightarrow> ns))))
            (get_block_numbers_batch A n c w))"

text \<open>One round of the health check: every endpoint in turn.\<close>

fun health_check_from :: "('w, 'a) call_ops \<Rightarrow> nat list \<Rightarrow> RpcClient \<Rightarrow> 'w \<Rightarrow> RpcClient \<times> 'w" where
  "health_check_from A [] c w = (c, w)"
| "health_check_from A (i # is) c w =
     (let (w, time, r) = co_call A i w;
          (c, w) = others_record A c w
      in health_check_from A is
           (update_health i
             (case r of Inr _ \<Rightarrow> eh_record_success (co_now A w) (elapsed_ms time) | Inl _ \<Rightarrow> eh_record_error (co_now A w)) c) w)"

definition health_check_round :: "('w, 'a) call_ops \<Rightarrow> RpcClient \<Rightarrow> 'w \<Rightarrow> RpcClient \<times> 'w" where
  "health_check_round A c w = health_check_from A [0..<length (rl_endpoint_health c)] c w"

subsection \<open>Statistics\<close>

record RpcClientStats =
  rt_healthy_endpoints :: nat
  rt_total_endpoints :: nat
  rt_avg_response_time_ms :: f64
  rt_success_rate :: f64
  rt_total_requests :: u32
  rt_active_requests :: usize
  rt_max_concurrent_requests :: usize

definition client_get_stats :: "usize \<Rightarrow> RpcClient \<Rightarrow> RpcClientStats" where
  "client_get_stats available_permits c =
     (let hs = rl_endpoint_health c;
          total_requests = sum_list (map (\<lambda>h. eh_success_count h + eh_error_count h) hs);
          successful_requests = sum_list (map eh_success_count hs)
      in \<lparr>rt_healthy_endpoints = length (filter eh_is_healthy hs), rt_total_endpoints = length hs,
          rt_avg_response_time_ms =
            (if hs \<noteq> [] then f64_div (f64_sum (map eh_response_time_ms hs)) (f64_of_nat (length hs))
             else Finite False 0),
          rt_success_rate =
            (if 0 < total_requests
             then f64_div (f64_of_nat (unat successful_requests)) (f64_of_nat (unat total_requests))
             else Finite False 1),
          rt_total_requests = total_requests,
          rt_active_requests = rcc_max_concurrent_requests (rl_config c) - available_permits,
          rt_max_concurrent_requests = rcc_max_concurrent_requests (rl_config c)\<rparr>)"

text \<open>
  What the health of the endpoints of the RPC client depends on, which endpoint a call uses, and when a call
  moves to another one.
\<close>

subsection \<open>The history of an endpoint\<close>

text \<open>The number of errors among the outcomes of an endpoint, oldest first.\<close>

definition errors :: "(instant \<times> f64 option) list \<Rightarrow> nat" where
  "errors os = length (filter (\<lambda>o'. snd o' = None) os)"

lemmas record_simps = eh_record_success_def eh_record_error_def EndpointHealth_new_def Let_def

lemma errors_snoc [simp]:
  "errors (os @ [(now, Some time)]) = errors os" "errors (os @ [(now, None)]) = Suc (errors os)" "errors [] = 0"
  by (simp_all add: errors_def)

lemma errors_le: "errors os \<le> length os"
  by (simp add: errors_def)

lemma history_counts:
  assumes "length os < 2 ^ 32"
  shows "unat (eh_error_count (fold record_outcome os (EndpointHealth_new now url))) = errors os
    \<and> unat (eh_success_count (fold record_outcome os (EndpointHealth_new now url))) = length os - errors os"
  using assms
proof (induction os rule: rev_induct)
  case Nil
  then show ?case
    by (simp add: EndpointHealth_new_def)
next
  case (snoc x os)
  obtain t r where x: "x = (t, r)"
    by fastforce
  have "errors os \<le> length os"
    by (rule errors_le)
  with snoc show ?case
    by (cases r) (simp_all add: x record_simps unat_word_ariths Suc_diff_le)
qed

text \<open>an endpoint is healthy exactly when it has not failed three times since the start, or its last
  outcome is a success: the errors of its whole life count, not consecutive ones.\<close>

theorem endpoint_healthy_iff:
  assumes "length os < 2 ^ 32"
  shows "eh_is_healthy (fold record_outcome os (EndpointHealth_new now url)) \<longleftrightarrow>
    length (filter (\<lambda>o'. snd o' = None) os) < 3 \<or> snd (last os) \<noteq> None"
  using assms unfolding errors_def [symmetric]
proof (induction os rule: rev_induct)
  case Nil
  then show ?case
    by (simp add: EndpointHealth_new_def)
next
  case (snoc x os)
  obtain t r where x: "x = (t, r)"
    by fastforce
  have counts: "unat (eh_error_count (fold record_outcome os (EndpointHealth_new now url))) = errors os"
      "unat (eh_success_count (fold record_outcome os (EndpointHealth_new now url))) = length os - errors os"
    using history_counts [of os now url] snoc.prems by simp_all
  have bounds: "errors os < 2 ^ 32 - 1" "length os - errors os < 2 ^ 32 - 1"
    using errors_le [of os] snoc.prems by auto
  show ?case
  proof (cases r)
    case None
    have "3 \<le> eh_error_count (fold record_outcome os (EndpointHealth_new now url)) + 1 \<longleftrightarrow> 3 \<le> Suc (errors os)"
      using counts(1) bounds(1) by (simp add: word_le_nat_alt unat_word_ariths)
    with snoc show ?thesis
      by (auto simp: x None record_simps)
  next
    case (Some time)
    have "0 < eh_success_count (fold record_outcome os (EndpointHealth_new now url)) + 1"
      using counts(2) bounds(2) by (simp add: word_less_nat_alt unat_word_ariths)
    with snoc show ?thesis
      by (auto simp: x Some record_simps)
  qed
qed

subsection \<open>The chosen endpoint\<close>

text \<open>Times that can be compared are ordered linearly.\<close>

lemma min_by_time_member: "min_by_time e es \<in> set (e # es)"
proof (induction es arbitrary: e)
  case (Cons x es)
  then show ?case
    by (simp split: if_splits) blast+
qed simp

lemma best_provider_healthy:
  assumes "get_best_provider c = Ret i"
  shows "i < length (rl_endpoint_health c) \<and>
    (eh_is_healthy (rl_endpoint_health c ! i) \<or> i = 0 \<and> list_all (\<lambda>h. \<not> eh_is_healthy h) (rl_endpoint_health c))"
proof (cases "filter (\<lambda>(i, h). eh_is_healthy h) (enumerate 0 (rl_endpoint_health c))")
  case Nil
  then have "\<not> eh_is_healthy h" if "h \<in> set (rl_endpoint_health c)" for h
    using that by (fastforce simp: filter_empty_conv enumerate_eq_zip in_set_conv_nth set_zip)
  with Nil assms show ?thesis
    by (auto simp: get_best_provider_def list_all_iff split: if_splits)
next
  case (Cons e es)
  obtain j h where best: "min_by_time e es = (j, h)"
    by fastforce
  have "(j, h) \<in> set (filter (\<lambda>(i, h). eh_is_healthy h) (enumerate 0 (rl_endpoint_health c)))"
    unfolding Cons best [symmetric] by (rule min_by_time_member)
  then have "j < length (rl_endpoint_health c) \<and> eh_is_healthy (rl_endpoint_health c ! j)"
    by (auto simp: enumerate_eq_zip set_zip)
  moreover have "i = j"
    using assms Cons best by (simp add: get_best_provider_def)
  ultimately show ?thesis
    by simp
qed

text \<open>Recording an outcome changes neither the configuration nor the number of endpoints.\<close>

lemma update_health_config [simp]: "rl_config (update_health i f c) = rl_config c"
  by (simp add: update_health_def)

lemma update_health_nth:
  "i < length (rl_endpoint_health c) \<Longrightarrow> rl_endpoint_health (update_health j f c) ! i =
     (if i = j then f (rl_endpoint_health c ! i) else rl_endpoint_health c ! i)"
  by (simp add: update_health_def nth_list_update)

lemma update_health_length [simp]: "length (rl_endpoint_health (update_health i f c)) = length (rl_endpoint_health c)"
  by (simp add: update_health_def)

lemma others_record_frame [simp]:
  "rl_config (fst (others_record A c w)) = rl_config c"
  "length (rl_endpoint_health (fst (others_record A c w))) = length (rl_endpoint_health c)"
proof -
  have "rl_config (fold (\<lambda>(i, outcome). update_health i (record_outcome outcome)) os c) = rl_config c \<and>
      length (rl_endpoint_health (fold (\<lambda>(i, outcome). update_health i (record_outcome outcome)) os c)) =
        length (rl_endpoint_health c)" for os
    by (induction os arbitrary: c) auto
  then show "rl_config (fst (others_record A c w)) = rl_config c"
      "length (rl_endpoint_health (fst (others_record A c w))) = length (rl_endpoint_health c)"
    by (simp_all add: others_record_def split_beta Let_def)
qed

text \<open>Without endpoints every call panics.\<close>

lemma no_endpoints_panics:
  assumes "rl_endpoint_health c = []" and "rcc_max_concurrent_requests (rl_config c) \<noteq> 0"
    and "0 < rcc_retry_attempts (rl_config c)"
  shows "call_with_retry A c w = Some Panic"
proof -
  obtain n where n: "unat (rcc_retry_attempts (rl_config c)) = Suc n"
    using assms(3) by (cases "unat (rcc_retry_attempts (rl_config c))") (simp_all add: word_less_nat_alt)
  have "rl_endpoint_health (fst (others_record A c w)) = []"
    by (metis assms(1) length_0_conv others_record_frame(2))
  with assms(2) n show ?thesis
    by (simp add: call_with_retry_def get_best_provider_def split_beta)
qed

text \<open>Without attempts nothing is called.\<close>

lemma no_attempts:
  "rcc_max_concurrent_requests (rl_config c) \<noteq> 0 \<Longrightarrow> rcc_retry_attempts (rl_config c) = 0 \<Longrightarrow>
     call_with_retry A c w = Some (Ret (c, w, Inl ''All retry attempts exhausted''))"
  by (simp add: call_with_retry_def)


subsection \<open>Failover\<close>

text \<open>
  The first endpoint is preferred at the time \<open>t\<close>: it is healthy, and no other endpoint has answered in less than
  \<open>t\<close>, the time of its own last answer. An endpoint that has never answered has the time zero.
\<close>

definition first_preferred :: "f64 \<Rightarrow> EndpointHealth list \<Rightarrow> bool" where
  "first_preferred t hs \<longleftrightarrow> 0 < length hs \<and> eh_is_healthy (hs ! 0) \<and> eh_response_time_ms (hs ! 0) = t \<and>
     (\<forall>i. 0 < i \<longrightarrow> i < length hs \<longrightarrow> \<not> f64_lt (eh_response_time_ms (hs ! i)) t)"

lemma min_by_time_first:
  "(\<And>e. e \<in> set es \<Longrightarrow> \<not> f64_lt (eh_response_time_ms (snd e)) (eh_response_time_ms (snd best))) \<Longrightarrow>
     min_by_time best es = best"
  by (induction es) auto

lemma first_preferred_chosen:
  assumes "first_preferred t (rl_endpoint_health c)"
  shows "get_best_provider c = Ret 0"
proof -
  obtain h hs where hs: "rl_endpoint_health c = h # hs"
    using assms by (cases "rl_endpoint_health c") (simp_all add: first_preferred_def)
  have "eh_is_healthy h" "eh_response_time_ms h = t"
    using assms hs by (simp_all add: first_preferred_def)
  moreover have "\<not> f64_lt (eh_response_time_ms g) t" if "g \<in> set hs" for g
  proof -
    from that obtain i where "i < length hs" "hs ! i = g"
      by (auto simp: in_set_conv_nth)
    with assms hs show ?thesis
      unfolding first_preferred_def by (auto dest!: spec [of _ "Suc i"])
  qed
  ultimately have "min_by_time (0, h) (filter (\<lambda>(i, h). eh_is_healthy h) (enumerate (Suc 0) hs)) = (0, h)"
    by (intro min_by_time_first) (auto simp: enumerate_eq_zip dest!: set_zip_rightD)
  with \<open>eh_is_healthy h\<close> hs show ?thesis
    by (simp add: get_best_provider_def)
qed

definition always_fails :: "('w, 'a) call_ops \<Rightarrow> nat \<Rightarrow> bool" where
  "always_fails A i \<longleftrightarrow> (\<forall>w. \<exists>w' time e. co_call A i w = (w', time, Inl e))"

text \<open>What other tasks record meanwhile: outcomes of the other endpoints, with answers no faster than \<open>t\<close>.\<close>

definition others_elsewhere :: "('w, 'a) call_ops \<Rightarrow> f64 \<Rightarrow> bool" where
  "others_elsewhere A t \<longleftrightarrow> (\<forall>w. \<forall>(i, now, answer) \<in> set (snd (co_others A w)).
     0 < i \<and> (case answer of Some time \<Rightarrow> \<not> f64_lt time t | None \<Rightarrow> True))"

lemma record_outcome_time:
  "eh_response_time_ms (record_outcome (now, answer) h) =
     (case answer of Some time \<Rightarrow> time | None \<Rightarrow> eh_response_time_ms h)"
  by (cases answer) (simp_all add: eh_record_success_def eh_record_error_def Let_def)

lemma others_keep_first:
  assumes "others_elsewhere A t" and "first_preferred t (rl_endpoint_health c)"
  shows "first_preferred t (rl_endpoint_health (fst (others_record A c w))) \<and>
    rl_endpoint_health (fst (others_record A c w)) ! 0 = rl_endpoint_health c ! 0"
proof -
  have "first_preferred t (rl_endpoint_health (fold (\<lambda>(i, outcome). update_health i (record_outcome outcome)) os c)) \<and>
      rl_endpoint_health (fold (\<lambda>(i, outcome). update_health i (record_outcome outcome)) os c) ! 0 =
        rl_endpoint_health c ! 0"
    if "\<forall>(i, now, answer) \<in> set os. 0 < i \<and> (case answer of Some time \<Rightarrow> \<not> f64_lt time t | None \<Rightarrow> True)" for os
    using that assms(2)
  proof (induction os arbitrary: c)
    case (Cons x os)
    obtain i now answer where x: "x = (i, now, answer)"
      by (cases x)
    let ?c = "update_health i (record_outcome (now, answer)) c"
    from Cons.prems(1) have i: "0 < i" and slow: "case answer of Some time \<Rightarrow> \<not> f64_lt time t | None \<Rightarrow> True"
      by (simp_all add: x)
    have first: "rl_endpoint_health ?c ! 0 = rl_endpoint_health c ! 0"
      using Cons.prems(2) i by (simp add: update_health_nth first_preferred_def)
    have "\<not> f64_lt (eh_response_time_ms (rl_endpoint_health ?c ! j)) t"
      if "0 < j" "j < length (rl_endpoint_health c)" for j
      using that slow Cons.prems(2)
      by (auto simp: update_health_nth record_outcome_time first_preferred_def split: option.splits)
    with first Cons.prems(2) have "first_preferred t (rl_endpoint_health ?c)"
      unfolding first_preferred_def by simp
    with Cons.IH [of ?c] Cons.prems(1) first show ?case
      by (simp add: x)
  qed simp
  with assms(1) show ?thesis
    by (simp add: others_record_def others_elsewhere_def split_beta Let_def)
qed

lemma own_error_keeps_first:
  assumes "first_preferred t (rl_endpoint_health c)" and "unat (eh_error_count (rl_endpoint_health c ! 0)) + 1 < 3"
  shows "first_preferred t (rl_endpoint_health (update_health 0 (eh_record_error now) c))"
    and "unat (eh_error_count (rl_endpoint_health (update_health 0 (eh_record_error now) c) ! 0)) =
      unat (eh_error_count (rl_endpoint_health c ! 0)) + 1"
proof -
  have ne: "0 < length (rl_endpoint_health c)"
    using assms(1) by (simp add: first_preferred_def)
  have count: "unat (eh_error_count (rl_endpoint_health c ! 0) + 1) = unat (eh_error_count (rl_endpoint_health c ! 0)) + 1"
    using assms(2) by (simp add: unat_word_ariths)
  then have "\<not> 3 \<le> eh_error_count (rl_endpoint_health c ! 0) + 1"
    using assms(2) by (simp add: word_le_nat_alt)
  then show "first_preferred t (rl_endpoint_health (update_health 0 (eh_record_error now) c))"
    using assms(1) ne
    by (simp add: first_preferred_def update_health_nth eh_record_error_def Let_def)
  show "unat (eh_error_count (rl_endpoint_health (update_health 0 (eh_record_error now) c) ! 0)) =
      unat (eh_error_count (rl_endpoint_health c ! 0)) + 1"
    using ne count by (simp add: update_health_nth eh_record_error_def Let_def)
qed

lemma retry_call_stays:
  assumes fails: "always_fails A 0" and others: "others_elsewhere A t"
    and "first_preferred t (rl_endpoint_health c)" and "0 < left"
    and "unat (eh_error_count (rl_endpoint_health c ! 0)) + left \<le> 3"
    and "left + unat attempt = unat (rcc_retry_attempts (rl_config c))"
  shows "\<exists>c' w' e. retry_call A left attempt c w = Ret (c', w', Inl e) \<and>
     unat (eh_error_count (rl_endpoint_health c' ! 0)) = unat (eh_error_count (rl_endpoint_health c ! 0)) + left"
  using assms(3-)
proof (induction left arbitrary: attempt c w)
  case (Suc left)
  define c1 where "c1 = fst (others_record A c w)"
  define w1 where "w1 = snd (others_record A c w)"
  obtain w2 time e where call: "co_call A 0 w1 = (w2, time, Inl e)"
    using fails unfolding always_fails_def by blast
  define c2 where "c2 = fst (others_record A c1 w2)"
  define w3 where "w3 = snd (others_record A c1 w2)"
  let ?c = "update_health 0 (eh_record_error (co_now A w3)) c2"
  have c1: "first_preferred t (rl_endpoint_health c1)" "rl_endpoint_health c1 ! 0 = rl_endpoint_health c ! 0"
    "rl_config c1 = rl_config c"
    using others_keep_first [OF others Suc.prems(1)] by (simp_all add: c1_def)
  have c2: "first_preferred t (rl_endpoint_health c2)" "rl_endpoint_health c2 ! 0 = rl_endpoint_health c ! 0"
    "rl_config c2 = rl_config c"
    using others_keep_first [OF others c1(1)] c1 by (simp_all add: c2_def)
  have round: "retry_call A (Suc left) attempt c w =
      (if attempt < rcc_retry_attempts (rl_config c) - 1
       then retry_call A left (attempt + 1) ?c
              (co_sleep A (millis (unat (rcc_retry_delay_ms (rl_config c) * ucast (attempt + 1)))) w3)
       else Ret (?c, w3, Inl e))"
    using first_preferred_chosen [OF c1(1)] call c1(3) c2(3)
    by (simp add: split_beta Let_def c1_def [symmetric] w1_def [symmetric] c2_def [symmetric] w3_def [symmetric])
  have last: "attempt < rcc_retry_attempts (rl_config c) - 1 \<longleftrightarrow> 0 < left"
    using Suc.prems(4) by (simp add: word_less_nat_alt unat_sub_if') linarith
  show ?case
  proof (cases "0 < left")
    case True
    then have few: "unat (eh_error_count (rl_endpoint_health c2 ! 0)) + 1 < 3"
      using Suc.prems(3) c2(2) by simp
    have "unat (rcc_retry_attempts (rl_config c)) < 2 ^ LENGTH(32)"
      by (rule unsigned_less)
    then have "unat attempt + 1 < 2 ^ 32"
      using Suc.prems(4) True by simp
    then have "left + unat (attempt + 1) = unat (rcc_retry_attempts (rl_config c))"
      using Suc.prems(4) by (simp add: unat_word_ariths)
    with Suc.IH [of ?c "attempt + 1"] own_error_keeps_first [OF c2(1) few] True Suc.prems(3) c2 last
    show ?thesis
      unfolding round by simp
  next
    case False
    have "0 < length (rl_endpoint_health c2)"
      using c2(1) by (simp add: first_preferred_def)
    moreover have "unat (eh_error_count (rl_endpoint_health c ! 0) + 1) = unat (eh_error_count (rl_endpoint_health c ! 0)) + 1"
      using Suc.prems(3) by (simp add: unat_word_ariths)
    ultimately show ?thesis
      using False last c2(2) unfolding round
      by (simp add: update_health_nth eh_record_error_def Let_def)
  qed
qed simp


subsection \<open>Witnesses\<close>

theorem endpoint_healthy_iff_witness:
  "\<not> eh_is_healthy (fold record_outcome [(1, None), (2, None), (3, Some (Finite False 1)), (4, None)]
       (EndpointHealth_new 0 ''u''))"
  using endpoint_healthy_iff [of "[(1, None), (2, None), (3, Some (Finite False 1)), (4, None)]" 0 "''u''"] by simp

text \<open>Endpoint 0 is down, endpoint 1 answers, and the health check finds so after the first attempt.\<close>

definition demo_calls :: "(nat, u64) call_ops" where
  "demo_calls =
     \<lparr>co_call = (\<lambda>i w. (Suc w, 0, if i = 0 then Inl ''down'' else Inr 7)), co_sleep = (\<lambda>d w. w), co_now = (\<lambda>w. w),
      co_others = (\<lambda>w. (w, if w = 1 then [(1, 1, Some (Finite False 4))] else []))\<rparr>"

lemma not_below_zero: "0 \<le> n \<Longrightarrow> \<not> f64_lt (Finite False n) (Finite False 0)"
  by (simp add: F64.signed_def)


end
