(* ===== verification/Sim_Optimizer.thy ===== *)
theory Sim_Optimizer
  imports Rpc_Client
begin

text \<open>
  The simulation optimizer of \<open>crates/mev-core/src/simulation_optimizer.rs\<close>. Its tasks run one after
  another here, each to its end, in the order in which they are spawned; the RPC client, the account pool
  and the profit tracker are shared. A task that panics is one whose result is dropped; what it changed
  before stays. \<open>None\<close>: waiting for ever. Times of \<open>SystemTime\<close> are nanoseconds and arguments.
\<close>

record SimulationOptimizerConfig =
  oc_batch_size :: usize
  oc_batch_timeout_ms :: u64
  oc_max_concurrent_batches :: usize
  oc_warm_pool_size :: usize
  oc_account_reuse_count :: u32
  oc_min_profit_threshold_wei :: u256
  oc_max_stale_state_ms :: u64
  oc_pnl_tracking_enabled :: bool
  oc_safety_checks_enabled :: bool
  oc_throughput_target_sims_per_sec :: f64

definition SimulationOptimizerConfig_default :: SimulationOptimizerConfig where
  "SimulationOptimizerConfig_default =
     \<lparr>oc_batch_size = 10, oc_batch_timeout_ms = 50, oc_max_concurrent_batches = 20, oc_warm_pool_size = 50,
      oc_account_reuse_count = 100, oc_min_profit_threshold_wei = 1000000000000000, oc_max_stale_state_ms = 1000,
      oc_pnl_tracking_enabled = True, oc_safety_checks_enabled = True,
      oc_throughput_target_sims_per_sec = Finite False 200\<rparr>"

datatype SimulationPriority = Low | Normal | High | Critical

fun priority_rank :: "SimulationPriority \<Rightarrow> nat" where
  "priority_rank Low = 0"
| "priority_rank Normal = 1"
| "priority_rank High = 2"
| "priority_rank Critical = 3"

record BatchSimulationRequest =
  br_id :: string
  br_bundles :: "SimulationBundle list"
  br_priority :: SimulationPriority
  br_timestamp :: int

datatype SafetyViolation =
    ProfitBelowThreshold string u256 u256
  | StaleState string u64 u64
  | ExcessiveGasCost string u256 u256
  | NegativePnL string u256

record BatchSimulationResult =
  bs_batch_id :: string
  bs_results :: "SimulationResult list"
  bs_batch_latency_ms :: f64
  bs_throughput_sims_per_sec :: f64
  bs_safety_violations :: "SafetyViolation list"

record PnLTracker =
  pn_total_simulated_profit_wei :: u256
  pn_total_gas_costs_wei :: u256
  pn_successful_simulations :: u64
  pn_failed_simulations :: u64
  pn_safety_violations :: u64
  pn_last_update :: int

definition PnLTracker_default :: "int \<Rightarrow> PnLTracker" where
  "PnLTracker_default now =
     \<lparr>pn_total_simulated_profit_wei = 0, pn_total_gas_costs_wei = 0, pn_successful_simulations = 0,
      pn_failed_simulations = 0, pn_safety_violations = 0, pn_last_update = now\<rparr>"

subsection \<open>The account pool\<close>

record AccountPool =
  ap_accounts :: "address list"
  ap_usage_count :: "(address, u32) hash_map"
  ap_max_reuse :: u32

definition AccountPool_new :: "address list \<Rightarrow> u32 \<Rightarrow> AccountPool" where
  "AccountPool_new accounts max_reuse =
     \<lparr>ap_accounts = accounts, ap_usage_count = fold (\<lambda>a. hm_insert a 0) accounts hm_empty, ap_max_reuse = max_reuse\<rparr>"

definition get_account :: "AccountPool \<Rightarrow> AccountPool \<times> address option" where
  "get_account p =
     (case ap_accounts p of
        [] \<Rightarrow> (p, None)
      | account # rest \<Rightarrow>
          (let usage = unwrap_or 0 (hm_get (ap_usage_count p) account)
           in if usage < ap_max_reuse p then
                (p\<lparr>ap_usage_count := hm_insert account (usage + 1) (ap_usage_count p),
                   ap_accounts := rest @ [account]\<rparr>, Some account)
              else
                (p\<lparr>ap_usage_count := hm_insert account 1 (ap_usage_count p),
                   ap_accounts := rest @ [account]\<rparr>, Some account)))"

definition reset_usage :: "AccountPool \<Rightarrow> AccountPool" where
  "reset_usage p = p\<lparr>ap_usage_count := map (\<lambda>(a, n). (a, 0)) (ap_usage_count p)\<rparr>"

subsection \<open>One bundle\<close>

text \<open>The operations of the client on an endpoint: the block number and a call.\<close>

record 'w client_ops =
  cl_block_number :: "('w, u64) call_ops"
  cl_call :: "call_request \<Rightarrow> u64 \<Rightarrow> ('w, u8 list) call_ops"

datatype task_end = TaskError string | TaskPanic

definition client_result ::
    "(RpcClient \<times> 'w \<times> (string + 'a)) run option \<Rightarrow> RpcClient \<Rightarrow> 'w \<Rightarrow> (RpcClient \<times> 'w \<times> (task_end + 'a)) option" where
  "client_result m c w =
     (case m of
        None \<Rightarrow> None
      | Some Panic \<Rightarrow> Some (c, w, Inl TaskPanic)
      | Some (Ret (c, w, Inl e)) \<Rightarrow> Some (c, w, Inl (TaskError e))
      | Some (Ret (c, w, Inr x)) \<Rightarrow> Some (c, w, Inr x))"

definition add_gas :: "SimulationTransaction \<Rightarrow> u256 \<times> u256 \<Rightarrow> (u256 \<times> u256) run" where
  "add_gas tx gas =
     run_bind (u256_add (fst gas) (sx_gas_limit tx)) (\<lambda>used.
       run_bind (u256_mul (sx_gas_price tx) (sx_gas_limit tx)) (\<lambda>cost.
         run_bind (u256_add (snd gas) cost) (\<lambda>total. Ret (used, total))))"

text \<open>The loop over the transactions; the first call that fails ends it.\<close>

fun call_each ::
    "'w client_ops \<Rightarrow> u64 \<Rightarrow> SimulationTransaction list \<Rightarrow> u256 \<times> u256 \<Rightarrow> RpcClient \<Rightarrow> 'w \<Rightarrow>
     (RpcClient \<times> 'w \<times> (task_end + (u256 \<times> u256) \<times> bool)) option" where
  "call_each A block_number [] gas c w = Some (c, w, Inr (gas, True))"
| "call_each A block_number (tx # txs) gas c w =
     (case client_result (call_with_retry (cl_call A (call_request_of tx) block_number) c w) c w of
        None \<Rightarrow> None
      | Some (c, w, Inl (TaskError e)) \<Rightarrow> Some (c, w, Inr (gas, False))
      | Some (c, w, Inl TaskPanic) \<Rightarrow> Some (c, w, Inl TaskPanic)
      | Some (c, w, Inr _) \<Rightarrow>
          (case add_gas tx gas of
             Panic \<Rightarrow> Some (c, w, Inl TaskPanic)
           | Ret gas \<Rightarrow> call_each A block_number txs gas c w))"

definition optimized_profit :: "bool \<Rightarrow> u256 \<Rightarrow> ProfitEstimate" where
  "optimized_profit success total_gas_cost =
     (let gross = (if success then 1000000000000000 else 0) :: u256;
          net = (if total_gas_cost < gross then gross - total_gas_cost else 0)
      in \<lparr>pe_gross_profit_wei = gross, pe_gas_cost_wei = total_gas_cost, pe_net_profit_wei = net,
          pe_profit_margin =
            (if 0 < gross then f64_div (f64_of_nat (unat net)) (f64_of_nat (unat gross)) else Finite False 0),
          pe_confidence = (if success then f64_lit ''0.8'' else Finite False 0)\<rparr>)"

definition optimized_result :: "duration \<Rightarrow> string \<Rightarrow> u256 \<times> u256 \<Rightarrow> bool \<Rightarrow> SimulationResult" where
  "optimized_result time bundle_id gas success =
     \<lparr>sr_bundle_id = bundle_id, sr_success = success, sr_gas_used = fst gas, sr_gas_cost = snd gas,
      sr_profit_estimate = optimized_profit success (snd gas), sr_transaction_results = [],
      sr_simulation_time_ms = elapsed_ms time, sr_error_message = None, sr_block_number = 0,
      sr_effective_gas_price = 0, sr_revert_reason = None\<rparr>"

definition simulate_bundle_optimized ::
    "'w client_ops \<Rightarrow> duration \<Rightarrow> SimulationBundle \<Rightarrow> address option \<Rightarrow> RpcClient \<Rightarrow> 'w \<Rightarrow>
     (RpcClient \<times> 'w \<times> (task_end + SimulationResult)) option" where
  "simulate_bundle_optimized A time bundle reuse_account c w =
     (case client_result (call_with_retry (cl_block_number A) c w) c w of
        None \<Rightarrow> None
      | Some (c, w, Inl e) \<Rightarrow> Some (c, w, Inl e)
      | Some (c, w, Inr block_number) \<Rightarrow>
          map_option (\<lambda>(c, w, r). (c, w, res_bind r (\<lambda>(gas, success).
              Inr (optimized_result time (sb_id bundle) gas success))))
            (call_each A block_number (sb_transactions bundle) (0, 0) c w))"

subsection \<open>Safety checks\<close>

definition apply_safety_checks :: "SimulationOptimizerConfig \<Rightarrow> SimulationResult \<Rightarrow> SafetyViolation list" where
  "apply_safety_checks config result =
     (let p = sr_profit_estimate result
      in (if pe_net_profit_wei p < oc_min_profit_threshold_wei config
          then [ProfitBelowThreshold (sr_bundle_id result) (pe_net_profit_wei p) (oc_min_profit_threshold_wei config)]
          else [])
         @ (if pe_gross_profit_wei p < pe_gas_cost_wei p
            then [ExcessiveGasCost (sr_bundle_id result) (pe_gas_cost_wei p) (pe_gross_profit_wei p)] else [])
         @ (if pe_net_profit_wei p = 0 \<and> 0 < pe_gas_cost_wei p
            then [NegativePnL (sr_bundle_id result) (pe_gas_cost_wei p)] else []))"

text \<open>The tracker after the results, and whether a sum has panicked on the way.\<close>

fun update_pnl_tracking :: "int \<Rightarrow> SimulationResult list \<Rightarrow> PnLTracker \<Rightarrow> PnLTracker \<times> bool" where
  "update_pnl_tracking now [] t = (t\<lparr>pn_last_update := now\<rparr>, True)"
| "update_pnl_tracking now (r # rs) t =
     (case u256_add (pn_total_simulated_profit_wei t) (pe_gross_profit_wei (sr_profit_estimate r)) of
        Panic \<Rightarrow> (t, False)
      | Ret profit \<Rightarrow>
          (let t = t\<lparr>pn_total_simulated_profit_wei := profit\<rparr>
           in case u256_add (pn_total_gas_costs_wei t) (pe_gas_cost_wei (sr_profit_estimate r)) of
                Panic \<Rightarrow> (t, False)
              | Ret costs \<Rightarrow>
                  (let t = t\<lparr>pn_total_gas_costs_wei := costs\<rparr>
                   in update_pnl_tracking now rs
                        (if sr_success r
                         then t\<lparr>pn_successful_simulations := pn_successful_simulations t + 1\<rparr>
                         else t\<lparr>pn_failed_simulations := pn_failed_simulations t + 1\<rparr>))))"

subsection \<open>One batch\<close>

record 'w SimulationOptimizer =
  oz_config :: SimulationOptimizerConfig
  oz_client :: RpcClient
  oz_world :: 'w
  oz_account_pool :: AccountPool
  oz_pnl_tracker :: PnLTracker
  oz_simulation_counter :: u64
  oz_last_state_update :: int
  oz_pending :: "BatchSimulationRequest list"
  oz_result_receivers :: "(string, BatchSimulationResult list) hash_map"

text \<open>\<open>elapsed().unwrap_or(ZERO).as_millis() as u64\<close>\<close>

definition state_age_ms :: "int \<Rightarrow> int \<Rightarrow> u64" where
  "state_age_ms now last_update = word_of_int (max 0 (now - last_update) div 1000000)"

text \<open>The tasks of the bundles of a batch: the results that were not dropped.\<close>

fun run_bundles ::
    "'w client_ops \<Rightarrow> (SimulationBundle \<Rightarrow> duration) \<Rightarrow> SimulationBundle list \<Rightarrow> 'w SimulationOptimizer \<Rightarrow>
     ('w SimulationOptimizer \<times> SimulationResult list) option" where
  "run_bundles A time [] s = Some (s, [])"
| "run_bundles A time (bundle # bundles) s =
     (case get_account (oz_account_pool s) of
        (pool, account) \<Rightarrow>
          (case simulate_bundle_optimized A (time bundle) bundle account (oz_client s) (oz_world s) of
             None \<Rightarrow> None
           | Some (c, w, r) \<Rightarrow>
               map_option (\<lambda>(s, results). (s, case r of Inr result \<Rightarrow> result # results | Inl _ \<Rightarrow> results))
                 (run_bundles A time bundles
                   (s\<lparr>oz_account_pool := pool, oz_client := c, oz_world := w\<rparr>))))"

definition stale_violations :: "SimulationOptimizerConfig \<Rightarrow> u64 \<Rightarrow> SimulationBundle list \<Rightarrow> SafetyViolation list" where
  "stale_violations config state_age bundles =
     (if oc_safety_checks_enabled config \<and> oc_max_stale_state_ms config < state_age
      then map (\<lambda>b. StaleState (sb_id b) state_age (oc_max_stale_state_ms config)) bundles else [])"

text \<open>The result is \<open>None\<close> when the task of the batch has panicked.\<close>

definition process_single_batch ::
    "'w client_ops \<Rightarrow> int \<Rightarrow> (SimulationBundle \<Rightarrow> duration) \<Rightarrow> duration \<Rightarrow> BatchSimulationRequest \<Rightarrow>
     'w SimulationOptimizer \<Rightarrow> ('w SimulationOptimizer \<times> BatchSimulationResult option) option" where
  "process_single_batch A now time batch_time request s =
     (let state_age = state_age_ms now (oz_last_state_update s)
      in map_option
           (\<lambda>(s, results).
             let violations =
                   stale_violations (oz_config s) state_age (br_bundles request)
                   @ (if oc_safety_checks_enabled (oz_config s)
                      then concat (map (apply_safety_checks (oz_config s)) results) else []);
                 (tracker, ok) =
                   (if oc_pnl_tracking_enabled (oz_config s) then update_pnl_tracking now results (oz_pnl_tracker s)
                    else (oz_pnl_tracker s, True));
                 latency = elapsed_ms batch_time
             in (s\<lparr>oz_pnl_tracker := tracker\<rparr>,
                 if ok then
                   Some \<lparr>bs_batch_id = br_id request, bs_results = results, bs_batch_latency_ms = latency,
                         bs_throughput_sims_per_sec =
                           (if f64_lt (Finite False 0) latency
                            then f64_div (f64_of_nat (length results)) (f64_div latency (Finite False 1000))
                            else Finite False 0),
                         bs_safety_violations = violations\<rparr>
                 else None))
           (run_bundles A time (br_bundles request) s))"

subsection \<open>Pending batches\<close>

definition deliver :: "BatchSimulationResult option \<Rightarrow> 'w SimulationOptimizer \<Rightarrow> 'w SimulationOptimizer" where
  "deliver result s =
     (case result of
        None \<Rightarrow> s
      | Some r \<Rightarrow> s\<lparr>oz_result_receivers := hm_modify (bs_batch_id r) (\<lambda>rs. rs @ [r]) (oz_result_receivers s)\<rparr>)"

fun process_requests ::
    "'w client_ops \<Rightarrow> int \<Rightarrow> (SimulationBundle \<Rightarrow> duration) \<Rightarrow> duration \<Rightarrow> BatchSimulationRequest list \<Rightarrow>
     'w SimulationOptimizer \<Rightarrow> 'w SimulationOptimizer option" where
  "process_requests A now time batch_time [] s = Some s"
| "process_requests A now time batch_time (r # rs) s =
     (if oc_max_concurrent_batches (oz_config s) = 0 then None
      else case process_single_batch A now time batch_time r s of
             None \<Rightarrow> None
           | Some (s, result) \<Rightarrow> process_requests A now time batch_time rs (deliver result s))"

text \<open>The requests of higher priority first, each priority in the order of arrival.\<close>

definition process_pending_batches ::
    "'w client_ops \<Rightarrow> int \<Rightarrow> (SimulationBundle \<Rightarrow> duration) \<Rightarrow> duration \<Rightarrow> 'w SimulationOptimizer \<Rightarrow>
     'w SimulationOptimizer option" where
  "process_pending_batches A now time batch_time s =
     process_requests A now time batch_time (sort_key (\<lambda>r. 3 - priority_rank (br_priority r)) (oz_pending s))
       (s\<lparr>oz_pending := []\<rparr>)"

text \<open>\<open>simulate_batch\<close> up to its wait: the identifier, the receiver and the request.\<close>

definition submit_batch :: "int \<Rightarrow> SimulationBundle list \<Rightarrow> 'w SimulationOptimizer \<Rightarrow> 'w SimulationOptimizer \<times> string" where
  "submit_batch now bundles s =
     (let batch_id = ''batch_'' @ u64_to_string (oz_simulation_counter s)
      in (s\<lparr>oz_simulation_counter := oz_simulation_counter s + 1,
            oz_result_receivers := hm_insert batch_id [] (oz_result_receivers s),
            oz_pending := oz_pending s @
              [\<lparr>br_id = batch_id, br_bundles = bundles, br_priority = Normal, br_timestamp = now\<rparr>]\<rparr>,
          batch_id))"

text \<open>The branch of the processor that has received a request: a full list is processed at once.\<close>

definition request_received ::
    "'w client_ops \<Rightarrow> int \<Rightarrow> (SimulationBundle \<Rightarrow> duration) \<Rightarrow> duration \<Rightarrow> 'w SimulationOptimizer \<Rightarrow>
     'w SimulationOptimizer option" where
  "request_received A now time batch_time s =
     (if unat (oc_batch_size (oz_config s)) \<le> length (oz_pending s)
      then process_pending_batches A now time batch_time s else Some s)"

text \<open>The end of the wait: a result in time, or the time limit of ten times the batch timeout.\<close>

datatype batch_error = ChannelClosed | BatchTimeout

definition finish_batch ::
    "string \<Rightarrow> bool \<Rightarrow> 'w SimulationOptimizer \<Rightarrow> 'w SimulationOptimizer \<times> (batch_error + BatchSimulationResult)" where
  "finish_batch batch_id in_time s =
     (case hm_get (oz_result_receivers s) batch_id of
        Some (result # rest) \<Rightarrow>
          if in_time then
            (s\<lparr>oz_result_receivers := hm_remove batch_id (oz_result_receivers s)\<rparr>, Inr result)
          else (s, Inl BatchTimeout)
      | Some [] \<Rightarrow> (s, Inl BatchTimeout)
      | None \<Rightarrow> (s, Inl ChannelClosed))"

definition update_state_timestamp :: "int \<Rightarrow> 'w SimulationOptimizer \<Rightarrow> 'w SimulationOptimizer" where
  "update_state_timestamp now s = s\<lparr>oz_last_state_update := now\<rparr>"

definition SimulationOptimizer_new ::
    "SimulationOptimizerConfig \<Rightarrow> RpcClientConfig \<Rightarrow> instant \<Rightarrow> int \<Rightarrow> 'w \<Rightarrow> 'w SimulationOptimizer" where
  "SimulationOptimizer_new config rpc_config start now w =
     \<lparr>oz_config = config, oz_client = RpcClient_new start rpc_config, oz_world = w,
      oz_account_pool =
        AccountPool_new (map (\<lambda>b. word_rcat (replicate 20 (b :: u8))) [1, 2, 3, 4, 5]) (oc_account_reuse_count config),
      oz_pnl_tracker = PnLTracker_default now, oz_simulation_counter = 0, oz_last_state_update = now,
      oz_pending = [], oz_result_receivers = hm_empty\<rparr>"

record ThroughputStats =
  th_total_simulations :: u64
  th_active_batches :: usize
  th_max_concurrent_batches :: usize
  th_target_throughput_sims_per_sec :: f64
  th_batch_size :: usize

definition get_throughput_stats :: "usize \<Rightarrow> 'w SimulationOptimizer \<Rightarrow> ThroughputStats" where
  "get_throughput_stats available_permits s =
     \<lparr>th_total_simulations = oz_simulation_counter s,
      th_active_batches = oc_max_concurrent_batches (oz_config s) - available_permits,
      th_max_concurrent_batches = oc_max_concurrent_batches (oz_config s),
      th_target_throughput_sims_per_sec = oc_throughput_target_sims_per_sec (oz_config s),
      th_batch_size = oc_batch_size (oz_config s)\<rparr>"

end
