(* ===== verification/Simulator_Facts.thy ===== *)
theory Simulator_Facts
  imports Simulator Tx_Parser
begin

text \<open>
  What a simulation says about a bundle: its sums, what it ignores (state overrides, the transactions
  before), and what it makes of the transactions of the mempool.
\<close>

subsection \<open>Overrides\<close>

lemma override_content_transaction:
  "simulate_transaction_with_overrides N config tx n (Some os) w =
   simulate_transaction_with_overrides N config tx n (Some os') w"
  unfolding simulate_transaction_with_overrides_def simulate_with_state_overrides_def
    call_with_state_overrides_rpc_def option.case
  by (rule refl)

lemma override_content_each:
  "simulate_each N config n (Some os) txs w used cost rs = simulate_each N config n (Some os') txs w used cost rs"
proof (induction txs arbitrary: w used cost rs)
  case (Cons tx txs)
  then show ?case
    by (simp add: override_content_transaction [of N config tx n os w os'])
qed simp

text \<open>The content of the state overrides of a bundle has no influence on its simulation.\<close>

lemma override_content_ignored:
  "simulate_bundle N config time (bundle\<lparr>sb_state_overrides := Some os\<rparr>) w =
   simulate_bundle N config time (bundle\<lparr>sb_state_overrides := Some os'\<rparr>) w"
proof -
  have fields: "sb_id (bundle\<lparr>sb_state_overrides := x\<rparr>) = sb_id bundle"
      "sb_block_number (bundle\<lparr>sb_state_overrides := x\<rparr>) = sb_block_number bundle"
      "sb_transactions (bundle\<lparr>sb_state_overrides := x\<rparr>) = sb_transactions bundle"
      "sb_state_overrides (bundle\<lparr>sb_state_overrides := x\<rparr>) = x" for x
    by simp_all
  have each: "simulate_each N config n (Some os) = simulate_each N config n (Some os')" for n
    by (intro ext override_content_each)
  show ?thesis
    unfolding simulate_bundle_def simulate_bundle_internal_def fields each by (rule refl)
qed

text \<open>The overrides given to the builder never reach the bundle.\<close>

lemma builder_loses_overrides:
  "sim_build now (with_state_overrides now' os b) = sim_build now b"
  by (simp add: sim_build_def with_state_overrides_def)

subsection \<open>Sums\<close>

lemma u256_add_Ret: "u256_add a b = Ret c \<longleftrightarrow> unat a + unat b < 2 ^ 256 \<and> c = a + b"
  by (auto simp: u256_add_def)

lemma u256_mul_Ret: "u256_mul a b = Ret c \<longleftrightarrow> unat a * unat b < 2 ^ 256 \<and> c = a * b"
  by (auto simp: u256_mul_def)

lemma u256_add_unat: "u256_add a b = Ret c \<Longrightarrow> unat c = unat a + unat b"
  by (simp add: u256_add_Ret unat_plus_if')

lemma u256_mul_unat: "u256_mul a b = Ret c \<Longrightarrow> unat c = unat a * unat b"
  by (auto simp: u256_mul_Ret unat_word_ariths)

definition result_cost :: "TransactionResult \<Rightarrow> nat" where
  "result_cost r = unat (trs_effective_gas_price r) * unat (trs_gas_used r)"

lemma simulate_each_sums:
  assumes "simulate_each N config n os txs w used cost rs = Ret (w', used', cost', rs')"
  shows "\<exists>new. rs' = rs @ new \<and> length new = length txs
    \<and> unat used' = unat used + sum_list (map (unat \<circ> trs_gas_used) new)
    \<and> unat cost' = unat cost + sum_list (map result_cost new)"
  using assms
proof (induction txs arbitrary: w used cost rs)
  case (Cons tx txs)
  then obtain w1 r used1 c cost1 where step:
      "u256_add used (trs_gas_used r) = Ret used1" "u256_mul (trs_effective_gas_price r) (trs_gas_used r) = Ret c"
      "u256_add cost c = Ret cost1"
      "simulate_each N config n os txs w1 used1 cost1 (rs @ [r]) = Ret (w', used', cost', rs')"
    by (auto simp: run_bind_Ret_iff)
  from Cons.IH [OF step(4)] obtain new where "rs' = rs @ [r] @ new" "length new = length txs"
      "unat used' = unat used1 + sum_list (map (unat \<circ> trs_gas_used) new)"
      "unat cost' = unat cost1 + sum_list (map result_cost new)"
    by (auto simp: comp_def)
  with u256_add_unat [OF step(1)] u256_mul_unat [OF step(2)] u256_add_unat [OF step(3)] show ?case
    by (intro exI [of _ "r # new"]) (simp add: result_cost_def [abs_def] comp_def)
qed simp

lemma profit_estimate_values:
  assumes "calculate_profit_estimate rs cost = Ret p" and "length rs < 2 ^ 64"
  shows "unat (pe_gross_profit_wei p) = length (filter trs_success rs) * 1000000000000000
    \<and> pe_gas_cost_wei p = cost
    \<and> unat (pe_net_profit_wei p) = unat (pe_gross_profit_wei p) - unat cost
    \<and> (pe_confidence p = NaN \<longleftrightarrow> rs = [])"
proof -
  let ?n = "length (filter trs_success rs)"
  have n: "?n < 2 ^ 64"
    using assms(2) length_filter_le [of trs_success rs] by linarith
  then have word: "unat (word_of_nat ?n :: u256) = ?n"
    by (simp add: unat_word_of_nat)
  obtain gross where gross: "unat gross = ?n * 1000000000000000"
      "pe_gross_profit_wei p = gross" "pe_gas_cost_wei p = cost"
      "pe_net_profit_wei p = (if cost < gross then gross - cost else 0)"
      "pe_confidence p = f64_div (f64_of_nat ?n) (f64_of_nat (length rs))"
  proof (cases "?n = 0")
    case True
    then have "(0 < ?n) = False"
      by simp
    with assms(1) that [of 0] True show ?thesis
      by (auto simp: calculate_profit_estimate_def Let_def)
  next
    case False
    then have "(0 < ?n) = True"
      by simp
    with assms(1) False obtain g where g: "u256_mul (word_of_nat ?n) 1000000000000000 = Ret g"
        "pe_gross_profit_wei p = g" "pe_gas_cost_wei p = cost"
        "pe_net_profit_wei p = (if cost < g then g - cost else 0)"
        "pe_confidence p = f64_div (f64_of_nat ?n) (f64_of_nat (length rs))"
      by (auto simp: calculate_profit_estimate_def Let_def run_bind_Ret_iff)
    with u256_mul_unat [OF g(1)] word show ?thesis
      by (intro that [of g]) simp_all
  qed
  have "f64_div (f64_of_nat ?n) (f64_of_nat (length rs)) = NaN \<longleftrightarrow> rs = []"
  proof (cases "rs = []")
    case True
    then show ?thesis
      by (simp add: f64_of_nat_def f64_round_def)
  next
    case False
    have "(2 :: nat) ^ 64 \<le> 2 ^ 1023"
      by (rule power_increasing) simp_all
    then have "length rs < 2 ^ 1023"
      using assms(2) by linarith
    then obtain r where r: "f64_of_nat (length rs) = Finite False r" "of_nat (length rs) / 2 \<le> r"
      using f64_of_nat_half [of "length rs"] False by blast
    moreover have "(0 :: rat) < of_nat (length rs) / 2"
      using False by simp
    then have "0 < r"
      using r(2) by (rule order_less_le_trans)
    moreover obtain s q where "f64_of_nat ?n = Infinity s \<or> f64_of_nat ?n = Finite s q"
      using f64_round_cases [of False "of_nat ?n"] by (auto simp: f64_of_nat_def)
    ultimately show ?thesis
      using False f64_round_cases [of s "q / r"] by auto
  qed
  with gross show ?thesis
    by (auto simp: unat_diff_le word_less_nat_alt word_le_nat_alt)
qed


subsection \<open>A simulated bundle\<close>

lemma internal_Ret:
  assumes "simulate_bundle_internal N config bundle w = Ret (w', Inr res)"
  obtains w1 n w2 fee used cost p where
    "simulate_each N config n (sb_state_overrides bundle) (sb_transactions bundle) w2 0 0 [] =
       Ret (w', used, cost, sr_transaction_results res)"
    "calculate_profit_estimate (sr_transaction_results res) cost = Ret p"
    "sr_block_number res = n" "sr_gas_used res = used" "sr_gas_cost res = cost" "sr_profit_estimate res = p"
    "sr_success res = list_all trs_success (sr_transaction_results res)"
    "nd_base_fee N w1 = (w2, Inr fee)"
    "(w1, Inr n) = (case sb_block_number bundle of Some b \<Rightarrow> (w, Inr b) | None \<Rightarrow> nd_block_number N w)"
proof -
  obtain w1 n where number: "(case sb_block_number bundle of Some b \<Rightarrow> (w, Inr b) | None \<Rightarrow> nd_block_number N w) = (w1, Inr n)"
    using assms by (auto simp: simulate_bundle_internal_def split: prod.splits sum.splits)
  obtain w2 fee where fee: "nd_base_fee N w1 = (w2, Inr fee)"
    using assms number by (auto simp: simulate_bundle_internal_def split: prod.splits sum.splits)
  show thesis
    using assms number fee that [of n w2 _ _ _ w1 fee]
    by (auto simp: simulate_bundle_internal_def run_bind_Ret_iff Let_def)
qed

text \<open>C28: the account of a simulated bundle: one result for each transaction; the gas used and its cost are the
  exact sums over the results (or the simulation panics), the gross profit is a constant for each successful
  transaction, the net profit what the costs leave of it, and the confidence is no number exactly for an
  empty bundle, which succeeds.\<close>

theorem bundle_result_accounts:
  assumes "simulate_bundle_internal N config bundle w = Ret (w', Inr res)"
    and "length (sb_transactions bundle) < 2 ^ 64"
  shows "length (sr_transaction_results res) = length (sb_transactions bundle)
    \<and> unat (sr_gas_used res) = (\<Sum>r\<leftarrow>sr_transaction_results res. unat (trs_gas_used r))
    \<and> unat (sr_gas_cost res) =
        (\<Sum>r\<leftarrow>sr_transaction_results res. unat (trs_effective_gas_price r) * unat (trs_gas_used r))
    \<and> unat (pe_gross_profit_wei (sr_profit_estimate res)) =
        length (filter trs_success (sr_transaction_results res)) * 1000000000000000
    \<and> unat (pe_net_profit_wei (sr_profit_estimate res)) =
        unat (pe_gross_profit_wei (sr_profit_estimate res)) - unat (sr_gas_cost res)
    \<and> (pe_confidence (sr_profit_estimate res) = NaN \<longleftrightarrow> sb_transactions bundle = [])
    \<and> sr_success res = list_all trs_success (sr_transaction_results res)"
proof -
  obtain n w2 where each: "simulate_each N config n (sb_state_overrides bundle) (sb_transactions bundle) w2 0 0 [] =
       Ret (w', sr_gas_used res, sr_gas_cost res, sr_transaction_results res)"
    and profit: "calculate_profit_estimate (sr_transaction_results res) (sr_gas_cost res) =
       Ret (sr_profit_estimate res)"
    and success: "sr_success res = list_all trs_success (sr_transaction_results res)"
    using assms(1) by (elim internal_Ret) blast
  from simulate_each_sums [OF each] have sums: "length (sr_transaction_results res) = length (sb_transactions bundle)"
      "unat (sr_gas_used res) = (\<Sum>r\<leftarrow>sr_transaction_results res. unat (trs_gas_used r))"
      "unat (sr_gas_cost res) = (\<Sum>r\<leftarrow>sr_transaction_results res. unat (trs_effective_gas_price r) * unat (trs_gas_used r))"
    by (auto simp: comp_def result_cost_def [abs_def])
  with profit_estimate_values [OF profit] assms(2) success show ?thesis
    by (simp flip: length_0_conv)
qed

subsection \<open>Isolation\<close>

text \<open>A call of the node or an estimate leaves its state alone, as \<open>eth_call\<close> and \<open>eth_estimateGas\<close> are
  documented to do; the world of the node is then the state the block gives.\<close>

definition calls_keep_world :: "'w node \<Rightarrow> bool" where
  "calls_keep_world N \<longleftrightarrow> (\<forall>c n w. fst (nd_call N c n w) = w \<and> fst (nd_estimate_gas N c n w) = w)"

lemma keep_world_simps:
  assumes "calls_keep_world N"
  shows "nd_call N c n w = (w', r) \<Longrightarrow> w' = w" "nd_estimate_gas N c n w = (w', g) \<Longrightarrow> w' = w"
  using assms by (metis calls_keep_world_def fst_conv)+

text \<open>How a transaction is run: an estimate, and a call, repeated when it fails with overrides.\<close>

definition run_call :: "'w node \<Rightarrow> SimulationConfig \<Rightarrow> call_request \<Rightarrow> u64 \<Rightarrow> (address, StateOverride) hash_map option \<Rightarrow>
    'w \<Rightarrow> 'w \<times> (string + u8 list)" where
  "run_call N config call n os w =
     (if mc_enable_state_override config
      then case os of Some os \<Rightarrow> simulate_with_state_overrides N call n os w | None \<Rightarrow> nd_call N call n w
      else nd_call N call n w)"

lemma transaction_Ret:
  assumes "simulate_transaction_with_overrides N config tx n os w = Ret (w', r)"
  obtains w1 estimate reply where "nd_estimate_gas N (call_request_of tx) n w = (w1, estimate)"
    "run_call N config (call_request_of tx) n os w1 = (w', reply)"
    "trs_success r \<longleftrightarrow> \<not> isl reply" "trs_effective_gas_price r = sx_gas_price tx"
proof -
  obtain w1 estimate where estimate: "nd_estimate_gas N (call_request_of tx) n w = (w1, estimate)"
    by fastforce
  obtain w2 reply where call: "run_call N config (call_request_of tx) n os w1 = (w2, reply)"
    by fastforce
  show thesis
    using assms estimate call that [of w1 estimate reply]
    unfolding simulate_transaction_with_overrides_def Let_def run_call_def [symmetric]
    by (cases reply) (auto simp: run_bind_Ret_iff)
qed

lemma run_call_keeps:
  assumes "calls_keep_world N" and "run_call N config c n os w = (w', r)"
  shows "w' = w"
proof -
  have "fst (run_call N config c n os w) = w"
    using assms(1)
    by (auto simp: run_call_def simulate_with_state_overrides_def call_with_state_overrides_rpc_def calls_keep_world_def
        split: prod.splits sum.splits option.splits) (metis fst_conv)+
  with assms(2) show ?thesis
    by simp
qed

lemma transaction_keeps_world:
  assumes "calls_keep_world N" and "simulate_transaction_with_overrides N config tx n os w = Ret (w', r)"
  shows "w' = w"
  using assms(2) keep_world_simps [OF assms(1)] run_call_keeps [OF assms(1)] by (metis transaction_Ret)

lemma each_isolated:
  assumes "calls_keep_world N" and "simulate_each N config n os txs w used cost rs = Ret (w', used', cost', rs')"
  shows "w' = w \<and> (\<exists>new. rs' = rs @ new
    \<and> list_all2 (\<lambda>tx r. simulate_transaction_with_overrides N config tx n os w = Ret (w, r)) txs new)"
  using assms(2)
proof (induction txs arbitrary: w used cost rs)
  case (Cons tx txs)
  then obtain w1 r used1 cost1 where step:
      "simulate_transaction_with_overrides N config tx n os w = Ret (w1, r)"
      "simulate_each N config n os txs w1 used1 cost1 (rs @ [r]) = Ret (w', used', cost', rs')"
    by (auto simp: run_bind_Ret_iff)
  have "w1 = w"
    by (rule transaction_keeps_world [OF assms(1) step(1)])
  with Cons.IH [OF step(2)] step(1) show ?case
    by (auto intro: exI [of _ "r # _"])
qed simp

text \<open>the transactions of a bundle are simulated apart from each other, all of them in the state of the
  block: no transaction sees what the ones before it did.\<close>

theorem bundle_simulated_apart:
  assumes "calls_keep_world N" and "simulate_bundle_internal N config bundle w = Ret (w', Inr res)"
  shows "list_all2
    (\<lambda>tx r. simulate_transaction_with_overrides N config tx (sr_block_number res) (sb_state_overrides bundle) w' = Ret (w', r))
    (sb_transactions bundle) (sr_transaction_results res)"
proof -
  obtain w2 where each: "simulate_each N config (sr_block_number res) (sb_state_overrides bundle)
        (sb_transactions bundle) w2 0 0 [] = Ret (w', sr_gas_used res, sr_gas_cost res, sr_transaction_results res)"
    using assms(2) by (elim internal_Ret) blast
  from each_isolated [OF assms(1) each] show ?thesis
    by auto
qed

subsection \<open>Transactions of the mempool\<close>

text \<open>\<open>U256::from_dec_str\<close> takes digits only.\<close>

definition decimal_only :: "sim_read_env \<Rightarrow> bool" where
  "decimal_only R \<longleftrightarrow> (\<forall>s. starts_with s ''0x'' \<longrightarrow> se_read_dec R s = None)"

lemma transaction_price:
  "simulate_transaction_with_overrides N config tx n os w = Ret (w', r) \<Longrightarrow> trs_effective_gas_price r = sx_gas_price tx"
  by (elim transaction_Ret)

lemma profit_estimate_net:
  "calculate_profit_estimate rs cost = Ret p \<Longrightarrow>
     pe_net_profit_wei p = (if cost < pe_gross_profit_wei p then pe_gross_profit_wei p - cost else 0)"
  unfolding calculate_profit_estimate_def Let_def run_bind_Ret_iff by auto

lemma simulate_each_free:
  assumes "simulate_each N config n os txs w used cost rs = Ret (w', used', cost', rs')"
    and "list_all (\<lambda>tx. sx_gas_price tx = 0) txs"
  shows "cost' = cost"
  using assms
proof (induction txs arbitrary: w used cost rs)
  case (Cons tx txs)
  then obtain w1 r used1 c cost1 where step:
      "simulate_transaction_with_overrides N config tx n os w = Ret (w1, r)"
      "u256_mul (trs_effective_gas_price r) (trs_gas_used r) = Ret c" "u256_add cost c = Ret cost1"
      "simulate_each N config n os txs w1 used1 cost1 (rs @ [r]) = Ret (w', used', cost', rs')"
    by (auto simp: run_bind_Ret_iff)
  from Cons.prems(2) transaction_price [OF step(1)] step(2) have "c = 0"
    by (simp add: u256_mul_Ret)
  with Cons.IH [OF step(4)] Cons.prems(2) step(3) show ?case
    by (simp add: u256_add_Ret)
qed simp

text \<open>a bundle built from transactions the mempool has parsed from a node that writes the gas price in
  hexadecimal, or does not write it, is simulated as if gas were free: it costs nothing, whatever gas it uses.\<close>

theorem parsed_transactions_cost_nothing:
  assumes "decimal_only R"
    and "list_all (\<lambda>p. \<exists>raw d clock. parse_transaction J d clock raw = Ret (Inr p)
           \<and> (js_field_str J ''gasPrice'' raw = None \<or> (\<exists>r. js_field_str J ''gasPrice'' raw = Some (''0x'' @ r)))) ps"
    and "simulate_bundle_internal N config (sim_build now (fold (add_parsed_transaction R) ps (SimBundleBuilder_new i))) w =
           Ret (w', Inr res)"
  shows "sr_gas_cost res = 0
    \<and> pe_net_profit_wei (sr_profit_estimate res) = pe_gross_profit_wei (sr_profit_estimate res)"
proof -
  let ?built = "sim_build now (fold (add_parsed_transaction R) ps (SimBundleBuilder_new i))"
  have built: "bb_transactions (fold (add_parsed_transaction R) ps b) =
      bb_transactions b @ map (SimulationTransaction_from R) ps" for b
    by (induction ps arbitrary: b) (simp_all add: add_parsed_transaction_def)
  have "sx_gas_price (SimulationTransaction_from R p) = 0" if "p \<in> set ps" for p
  proof -
    from that assms(2) obtain raw d clock where parsed: "parse_transaction J d clock raw = Ret (Inr p)"
        "js_field_str J ''gasPrice'' raw = None \<or> (\<exists>r. js_field_str J ''gasPrice'' raw = Some (''0x'' @ r))"
      by (auto simp: list_all_iff)
    then have "starts_with (tx_gas_price (px_transaction p)) ''0x''"
      using parsed_fields [OF parsed(1)] by (auto simp: js_str_or_def starts_with_def)
    with assms(1) show ?thesis
      by (simp add: SimulationTransaction_from_def decimal_only_def unwrap_or_def Let_def)
  qed
  then have free: "list_all (\<lambda>tx. sx_gas_price tx = 0) (sb_transactions ?built)"
    by (auto simp: sim_build_def built SimBundleBuilder_new_def list_all_iff)
  obtain n w2 where each: "simulate_each N config n (sb_state_overrides ?built) (sb_transactions ?built) w2 0 0 [] =
       Ret (w', sr_gas_used res, sr_gas_cost res, sr_transaction_results res)"
    and profit: "calculate_profit_estimate (sr_transaction_results res) (sr_gas_cost res) =
       Ret (sr_profit_estimate res)"
    using assms(3) by (elim internal_Ret) blast
  from simulate_each_free [OF each free] have "sr_gas_cost res = 0" .
  with profit_estimate_net [OF profit] show ?thesis
    by (simp add: word_greater_zero_iff)
qed


subsection \<open>Witnesses\<close>

definition demo_node :: "unit node" where
  "demo_node =
     \<lparr>nd_block_number = (\<lambda>w. (w, Inr 7)), nd_base_fee = (\<lambda>w. (w, Inr None)),
      nd_estimate_gas = (\<lambda>c n w. (w, Inr 21000)),
      nd_call = (\<lambda>c n w. (w, if cr_value c = 0 then Inl ''execution reverted: empty '' else Inr [])),
      nd_deadline = (\<lambda>w. None)\<rparr>"

definition demo_transaction :: "u256 \<Rightarrow> SimulationTransaction" where
  "demo_transaction v =
     \<lparr>sx_from = 1, sx_to = None, sx_value = v, sx_gas_limit = 30000, sx_gas_price = 5, sx_data = [], sx_nonce = None\<rparr>"

definition demo_sim_bundle :: SimulationBundle where
  "demo_sim_bundle =
     sim_build 0 (add_transaction (demo_transaction 0) (add_transaction (demo_transaction 1) (SimBundleBuilder_new ''b'')))"

lemmas demo_sim_simps = demo_node_def demo_transaction_def sim_build_def add_transaction_def SimBundleBuilder_new_def
  simulate_bundle_internal_def simulate_transaction_with_overrides_def call_request_of_def SimulationConfig_default_def
  as_u128_def u256_add_def u256_mul_def calculate_profit_estimate_def Let_def

lemma demo_simulated:
  "\<exists>res. simulate_bundle_internal demo_node SimulationConfig_default demo_sim_bundle () = Ret ((), Inr res)
     \<and> sr_gas_used res = 21000 \<and> sr_block_number res = 7"
  by (simp add: demo_sim_bundle_def demo_sim_simps)

theorem bundle_result_accounts_witness:
  "\<exists>res. simulate_bundle_internal demo_node SimulationConfig_default demo_sim_bundle () = Ret ((), Inr res)
     \<and> sr_gas_used res = 21000 \<and> length (sr_transaction_results res) = 2"
proof -
  obtain res where run: "simulate_bundle_internal demo_node SimulationConfig_default demo_sim_bundle () = Ret ((), Inr res)"
      "sr_gas_used res = 21000"
    using demo_simulated by blast
  with bundle_result_accounts [OF run(1)] show ?thesis
    by (simp add: demo_sim_bundle_def sim_build_def add_transaction_def SimBundleBuilder_new_def)
qed

theorem bundle_simulated_apart_witness:
  "\<exists>res r1 r2. simulate_bundle_internal demo_node SimulationConfig_default demo_sim_bundle () = Ret ((), Inr res)
     \<and> sr_transaction_results res = [r1, r2]
     \<and> simulate_transaction_with_overrides demo_node SimulationConfig_default (demo_transaction 0) 7 None () = Ret ((), r2)"
proof -
  obtain res where run: "simulate_bundle_internal demo_node SimulationConfig_default demo_sim_bundle () = Ret ((), Inr res)"
      "sr_block_number res = 7"
    using demo_simulated by blast
  have "calls_keep_world demo_node"
    by (simp add: calls_keep_world_def demo_node_def)
  from bundle_simulated_apart [OF this run(1)] run show ?thesis
    by (auto simp: demo_sim_bundle_def sim_build_def add_transaction_def SimBundleBuilder_new_def list_all2_Cons1)
qed

definition demo_read_env :: sim_read_env where
  "demo_read_env =
     \<lparr>se_read_address = (\<lambda>s. None),
      se_read_dec = (\<lambda>s. if starts_with s ''0x'' then None else Some (word_of_nat (length s))),
      se_read_bytes = (\<lambda>s. None)\<rparr>"

theorem parsed_transactions_cost_nothing_witness:
  "\<exists>p res. parse_transaction demo_json_ops AbiDecoder_new \<lparr>pc_start = 0, pc_utc = 0, pc_stop = 0\<rparr>
       (DObj [(''hash'', DStr ''0x1''), (''from'', DStr ''0x2''), (''gasPrice'', DStr ''0xff''), (''value'', DStr ''7'')])
         = Ret (Inr p)
     \<and> simulate_bundle_internal demo_node SimulationConfig_default
         (sim_build 0 (fold (add_parsed_transaction demo_read_env) [p] (SimBundleBuilder_new ''b''))) () = Ret ((), Inr res)
     \<and> sr_gas_used res = 21000 \<and> sr_gas_cost res = 0"
proof -
  let ?raw = "DObj [(''hash'', DStr ''0x1''), (''from'', DStr ''0x2''), (''gasPrice'', DStr ''0xff''), (''value'', DStr ''7'')]"
  obtain p where parsed: "parse_transaction demo_json_ops AbiDecoder_new \<lparr>pc_start = 0, pc_utc = 0, pc_stop = 0\<rparr> ?raw
      = Ret (Inr p)" and "tx_gas_price (px_transaction p) = ''0xff''" "tx_value (px_transaction p) = ''7''"
    by (simp add: parse_transaction_def extract_transaction_fields_def js_str_or_def js_field_str_def
        demo_json_ops_def Let_def)
  then obtain res where run: "simulate_bundle_internal demo_node SimulationConfig_default
      (sim_build 0 (fold (add_parsed_transaction demo_read_env) [p] (SimBundleBuilder_new ''b''))) () = Ret ((), Inr res)"
      "sr_gas_used res = 21000"
    by (simp add: demo_sim_simps add_parsed_transaction_def SimulationTransaction_from_def demo_read_env_def unwrap_or_def
        starts_with_def)
  have "decimal_only demo_read_env"
    by (simp add: decimal_only_def demo_read_env_def)
  moreover have "list_all (\<lambda>p. \<exists>raw d clock. parse_transaction demo_json_ops d clock raw = Ret (Inr p)
      \<and> (js_field_str demo_json_ops ''gasPrice'' raw = None
        \<or> (\<exists>r. js_field_str demo_json_ops ''gasPrice'' raw = Some (''0x'' @ r)))) [p]"
  proof -
    have "js_field_str demo_json_ops ''gasPrice'' ?raw = Some (''0x'' @ ''ff'')"
      by (simp add: js_field_str_def demo_json_ops_def)
    with parsed show ?thesis
      by (simp only: list.pred_inject) blast
  qed
  ultimately have "sr_gas_cost res = 0"
    using parsed_transactions_cost_nothing [OF _ _ run(1)] by blast
  with parsed run show ?thesis
    by blast
qed

end
