(* ===== verification/Optimizer_Facts.thy ===== *)
theory Optimizer_Facts
  imports Sim_Optimizer Simulator_Facts "HOL-Library.Sublist"
begin

text \<open>
  The account pool of the simulation optimizer is a round robin, what a batch reports follows from the
  results of its bundles, and the thresholds that come with it leave no bundle without a violation.
\<close>

subsection \<open>The account pool\<close>

text \<open>Requests for an account, one after another.\<close>

fun take_accounts :: "nat \<Rightarrow> AccountPool \<Rightarrow> AccountPool \<times> address option list" where
  "take_accounts 0 p = (p, [])"
| "take_accounts (Suc n) p =
     (case take_accounts n p of (p, as) \<Rightarrow> (case get_account p of (p, a) \<Rightarrow> (p, as @ [a])))"

definition usage_ok :: "AccountPool \<Rightarrow> bool" where
  "usage_ok p \<longleftrightarrow> (\<forall>a. unwrap_or 0 (hm_get (ap_usage_count p) a) \<le> max 1 (ap_max_reuse p))"

lemma get_account_empty: "ap_accounts p = [] \<Longrightarrow> get_account p = (p, None)"
  by (simp add: get_account_def)

lemma get_account_rotates:
  "ap_accounts p \<noteq> [] \<Longrightarrow> get_account p = (p', a) \<Longrightarrow>
     a = Some (hd (ap_accounts p)) \<and> ap_accounts p' = rotate1 (ap_accounts p) \<and> ap_max_reuse p' = ap_max_reuse p"
  by (auto simp: get_account_def Let_def split: list.splits if_splits)

lemma get_account_usage:
  assumes "usage_ok p" and "get_account p = (p', a)"
  shows "usage_ok p'"
proof (cases "ap_accounts p")
  case Nil
  with assms show ?thesis
    by (simp add: get_account_def)
next
  case (Cons x xs)
  have "unwrap_or 0 (hm_get (ap_usage_count p) x) + 1 \<le> max 1 (ap_max_reuse p)"
    if "unwrap_or 0 (hm_get (ap_usage_count p) x) < ap_max_reuse p"
    using inc_le [OF that] by (simp add: max.coboundedI2)
  with Cons assms show ?thesis
    by (auto simp: get_account_def Let_def usage_ok_def unwrap_or_def split: if_splits)
qed

lemma take_accounts_round:
  assumes "ap_accounts p \<noteq> []" and "usage_ok p"
  shows "ap_accounts (fst (take_accounts n p)) = rotate n (ap_accounts p)
    \<and> ap_max_reuse (fst (take_accounts n p)) = ap_max_reuse p \<and> usage_ok (fst (take_accounts n p))
    \<and> snd (take_accounts n p) = map (\<lambda>i. Some (ap_accounts p ! (i mod length (ap_accounts p)))) [0..<n]"
proof (induction n)
  case 0
  with assms show ?case
    by simp
next
  case (Suc n)
  obtain p1 as where run: "take_accounts n p = (p1, as)"
    by fastforce
  obtain p2 a where step: "get_account p1 = (p2, a)"
    by fastforce
  have p1: "ap_accounts p1 = rotate n (ap_accounts p)" "usage_ok p1" "ap_max_reuse p1 = ap_max_reuse p"
      "as = map (\<lambda>i. Some (ap_accounts p ! (i mod length (ap_accounts p)))) [0..<n]"
    using Suc run by auto
  then have "ap_accounts p1 \<noteq> []"
    using assms(1) by simp
  from get_account_rotates [OF this step] get_account_usage [OF p1(2) step] p1 assms(1) run step show ?case
    by (simp add: hd_rotate_conv_nth)
qed

lemma new_pool_ok: "usage_ok (AccountPool_new accounts max_reuse)"
proof -
  have zero: "hm_get (fold (\<lambda>a. hm_insert a 0) accounts m) a \<in> {None, Some 0}"
    if "hm_get m a \<in> {None, Some 0}" for m :: "(address, u32) hash_map" and a
    using that by (induction accounts arbitrary: m) auto
  have "unwrap_or 0 (hm_get (fold (\<lambda>a. hm_insert a 0) accounts hm_empty) a) = (0 :: u32)" for a :: address
    using zero [of hm_empty a] by (auto simp: unwrap_or_def)
  then show ?thesis
    by (simp add: usage_ok_def AccountPool_new_def)
qed

text \<open>the pool hands out its accounts in turn for ever, and the counters of their uses stay within the
  limit (or at one, when the limit is zero): no request is refused.\<close>

theorem account_pool_round_robin:
  assumes "accounts \<noteq> []"
  shows "snd (take_accounts n (AccountPool_new accounts max_reuse)) =
      map (\<lambda>i. Some (accounts ! (i mod length accounts))) [0..<n]
    \<and> (\<forall>a k. hm_get (ap_usage_count (fst (take_accounts n (AccountPool_new accounts max_reuse)))) a = Some k \<longrightarrow>
        k \<le> max 1 max_reuse)"
proof -
  have "ap_accounts (AccountPool_new accounts max_reuse) = accounts" "ap_max_reuse (AccountPool_new accounts max_reuse) = max_reuse"
    by (simp_all add: AccountPool_new_def)
  with take_accounts_round [OF _ new_pool_ok [of accounts max_reuse], of n] assms show ?thesis
    by (auto simp: usage_ok_def unwrap_or_def dest: spec split: option.splits)
qed


subsection \<open>The results of a batch\<close>

lemma run_bundles_frame:
  assumes "run_bundles A time bundles s = Some (s', results)"
  shows "oz_config s' = oz_config s \<and> oz_pnl_tracker s' = oz_pnl_tracker s \<and>
    oz_last_state_update s' = oz_last_state_update s \<and> subseq (map sr_bundle_id results) (map sb_id bundles) \<and>
    (\<forall>r \<in> set results. \<exists>t i gas success. r = optimized_result t i gas success)"
  using assms
proof (induction bundles arbitrary: s results)
  case (Cons b bundles)
  obtain pool account where pool: "get_account (oz_account_pool s) = (pool, account)"
    by fastforce
  obtain c w r where run: "simulate_bundle_optimized A (time b) b account (oz_client s) (oz_world s) = Some (c, w, r)"
    using Cons.prems pool by (auto split: option.splits)
  let ?s = "s\<lparr>oz_account_pool := pool, oz_client := c, oz_world := w\<rparr>"
  obtain rest where rest: "run_bundles A time bundles ?s = Some (s', rest)"
      "results = (case r of Inr result \<Rightarrow> result # rest | Inl _ \<Rightarrow> rest)"
    using Cons.prems pool run by auto
  have result: "\<exists>gas success. x = optimized_result (time b) (sb_id b) gas success" if "r = Inr x" for x
    using run that by (auto simp: simulate_bundle_optimized_def split: option.splits sum.splits) blast+
  from Cons.IH [OF rest(1)] show ?case
  proof (cases r)
    case (Inl e)
    with Cons.IH [OF rest(1)] rest(2) show ?thesis
      by auto
  next
    case (Inr x)
    from result [OF Inr] obtain gas success where x: "x = optimized_result (time b) (sb_id b) gas success"
      by blast
    then have "sr_bundle_id x = sb_id b"
      by (simp add: optimized_result_def)
    with Cons.IH [OF rest(1)] rest(2) Inr x show ?thesis
      by (cases gas) (auto; blast)
  qed
qed simp

subsection \<open>Violations\<close>

lemma optimized_result_safe_iff:
  assumes "oc_min_profit_threshold_wei config = 1000000000000000"
  shows "apply_safety_checks config (optimized_result t i gas success) = [] \<longleftrightarrow> success \<and> snd gas = 0"
proof -
  have "(1000000000000000 - snd gas < 1000000000000000) = (snd gas \<noteq> 0)" if "snd gas < (1000000000000000 :: u256)"
    using that by (cases "snd gas = 0") (auto simp: word_less_nat_alt unat_sub_if' word_le_nat_alt simp flip: unat_eq_0)
  then show ?thesis
    using assms by (auto simp: apply_safety_checks_def optimized_result_def optimized_profit_def Let_def)
qed

text \<open>with the default profit threshold the report of a batch has no violation only when the state was fresh
  and every simulated bundle succeeded with transactions whose gas is free: the profit assumed for a success
  is the threshold itself, so any gas cost falls below it.\<close>

theorem batch_without_violations:
  assumes "oc_min_profit_threshold_wei (oz_config s) = 1000000000000000"
    and "oc_safety_checks_enabled (oz_config s)"
    and "process_single_batch A now time batch_time request s = Some (s', Some report)"
  shows "bs_safety_violations report = [] \<longleftrightarrow>
    (state_age_ms now (oz_last_state_update s) \<le> oc_max_stale_state_ms (oz_config s) \<or> br_bundles request = [])
    \<and> list_all (\<lambda>r. sr_success r \<and> sr_gas_cost r = 0) (bs_results report)"
proof -
  obtain s1 results where run: "run_bundles A time (br_bundles request) s = Some (s1, results)"
    using assms(3) by (auto simp: process_single_batch_def Let_def)
  note frame = run_bundles_frame [OF run]
  have report: "bs_results report = results"
      "bs_safety_violations report = stale_violations (oz_config s) (state_age_ms now (oz_last_state_update s)) (br_bundles request)
        @ concat (map (apply_safety_checks (oz_config s)) results)"
    using assms(2,3) run frame by (auto simp: process_single_batch_def Let_def split: prod.splits if_splits)
  have "apply_safety_checks (oz_config s) r = [] \<longleftrightarrow> sr_success r \<and> sr_gas_cost r = 0" if "r \<in> set results" for r
  proof -
    from frame that obtain t i gas success where "r = optimized_result t i gas success"
      by blast
    with optimized_result_safe_iff [OF assms(1)] show ?thesis
      by (simp add: optimized_result_def)
  qed
  with report assms(2) show ?thesis
    by (auto simp: stale_violations_def list_all_iff not_less)
qed

subsection \<open>The account of profits\<close>

lemma update_pnl_tracking_sums:
  assumes "update_pnl_tracking now rs t = (t', True)"
  shows "unat (pn_total_simulated_profit_wei t') =
      unat (pn_total_simulated_profit_wei t) + (\<Sum>r\<leftarrow>rs. unat (pe_gross_profit_wei (sr_profit_estimate r)))
    \<and> unat (pn_total_gas_costs_wei t') =
      unat (pn_total_gas_costs_wei t) + (\<Sum>r\<leftarrow>rs. unat (pe_gas_cost_wei (sr_profit_estimate r)))
    \<and> pn_successful_simulations t' = pn_successful_simulations t + word_of_nat (length (filter sr_success rs))
    \<and> pn_failed_simulations t' = pn_failed_simulations t + word_of_nat (length (filter (\<lambda>r. \<not> sr_success r) rs))
    \<and> pn_safety_violations t' = pn_safety_violations t"
  using assms
proof (induction rs arbitrary: t)
  case (Cons r rs)
  then obtain profit costs where sums:
      "u256_add (pn_total_simulated_profit_wei t) (pe_gross_profit_wei (sr_profit_estimate r)) = Ret profit"
      "u256_add (pn_total_gas_costs_wei t) (pe_gas_cost_wei (sr_profit_estimate r)) = Ret costs"
    by (auto simp: Let_def split: run.splits)
  let ?t = "t\<lparr>pn_total_simulated_profit_wei := profit, pn_total_gas_costs_wei := costs\<rparr>"
  have "update_pnl_tracking now rs
      (if sr_success r then ?t\<lparr>pn_successful_simulations := pn_successful_simulations t + 1\<rparr>
       else ?t\<lparr>pn_failed_simulations := pn_failed_simulations t + 1\<rparr>) = (t', True)"
    using Cons.prems sums by (cases "sr_success r") (simp_all add: Let_def)
  from Cons.IH [OF this] show ?case
    using u256_add_unat [OF sums(1)] u256_add_unat [OF sums(2)] by (cases "sr_success r") simp_all
qed auto

text \<open>what a batch reports and records: at most one result for each bundle, in their order (a bundle whose
  simulation failed to start is left out without a word); the tracker adds up the profits, the costs, the
  successes and the failures of the results, never a safety violation; the time of the last state update
  stays as it was.\<close>

theorem batch_accounts:
  assumes "oc_pnl_tracking_enabled (oz_config s)"
    and "process_single_batch A now time batch_time request s = Some (s', Some report)"
  shows "subseq (map sr_bundle_id (bs_results report)) (map sb_id (br_bundles request))
    \<and> unat (pn_total_simulated_profit_wei (oz_pnl_tracker s')) = unat (pn_total_simulated_profit_wei (oz_pnl_tracker s))
        + (\<Sum>r\<leftarrow>bs_results report. unat (pe_gross_profit_wei (sr_profit_estimate r)))
    \<and> unat (pn_total_gas_costs_wei (oz_pnl_tracker s')) = unat (pn_total_gas_costs_wei (oz_pnl_tracker s))
        + (\<Sum>r\<leftarrow>bs_results report. unat (pe_gas_cost_wei (sr_profit_estimate r)))
    \<and> pn_successful_simulations (oz_pnl_tracker s') = pn_successful_simulations (oz_pnl_tracker s)
        + word_of_nat (length (filter sr_success (bs_results report)))
    \<and> pn_failed_simulations (oz_pnl_tracker s') = pn_failed_simulations (oz_pnl_tracker s)
        + word_of_nat (length (filter (\<lambda>r. \<not> sr_success r) (bs_results report)))
    \<and> pn_safety_violations (oz_pnl_tracker s') = pn_safety_violations (oz_pnl_tracker s)
    \<and> oz_last_state_update s' = oz_last_state_update s"
proof -
  obtain s1 results where run: "run_bundles A time (br_bundles request) s = Some (s1, results)"
    using assms(2) by (auto simp: process_single_batch_def Let_def)
  note frame = run_bundles_frame [OF run]
  obtain t' where "update_pnl_tracking now results (oz_pnl_tracker s) = (t', True)" "bs_results report = results"
      "oz_pnl_tracker s' = t'" "oz_last_state_update s' = oz_last_state_update s"
    using assms run frame by (auto simp: process_single_batch_def Let_def split: prod.splits if_splits)
  with frame update_pnl_tracking_sums [of now results "oz_pnl_tracker s" t'] show ?thesis
    by simp
qed

subsection \<open>Witnesses\<close>

theorem account_pool_round_robin_witness:
  "snd (take_accounts 3 (AccountPool_new [10, 20] 0)) = [Some 10, Some 20, Some 10]
    \<and> hm_get (ap_usage_count (fst (take_accounts 3 (AccountPool_new [10, 20] 0)))) 10 \<noteq> Some 2"
proof -
  note run = account_pool_round_robin [of "[10, 20]" 3 0, simplified]
  have "k \<le> 1" if "hm_get (ap_usage_count (fst (take_accounts 3 (AccountPool_new [10, 20] 0)))) 10 = Some k" for k
    using run that by blast
  from this [of 2] run show ?thesis
    by (auto simp: upt_rec word_le_nat_alt)
qed

definition demo_client_ops :: "unit client_ops" where
  "demo_client_ops =
     \<lparr>cl_block_number = \<lparr>co_call = (\<lambda>i w. (w, 0, Inr 7)), co_sleep = (\<lambda>d w. w), co_now = (\<lambda>w. 0),
        co_others = (\<lambda>w. (w, []))\<rparr>,
      cl_call = (\<lambda>c n. \<lparr>co_call = (\<lambda>i w. (w, 0, Inr [])), co_sleep = (\<lambda>d w. w), co_now = (\<lambda>w. 0),
        co_others = (\<lambda>w. (w, []))\<rparr>)\<rparr>"

definition demo_optimizer :: "unit SimulationOptimizer" where
  "demo_optimizer = SimulationOptimizer_new SimulationOptimizerConfig_default RpcClientConfig_default 0 0 ()"

definition demo_request :: BatchSimulationRequest where
  "demo_request = \<lparr>br_id = ''b'', br_bundles = [demo_sim_bundle], br_priority = Normal, br_timestamp = 0\<rparr>"

definition demo_ok :: "RpcClient \<Rightarrow> bool" where
  "demo_ok c \<longleftrightarrow> rl_config c = RpcClientConfig_default \<and> (\<exists>h. rl_endpoint_health c = [h] \<and> eh_is_healthy h)"

lemma retry_call_success:
  "0 < n \<Longrightarrow> get_best_provider c = Ret i \<Longrightarrow> co_call A i w = (w', t, Inr x) \<Longrightarrow>
     co_others A w = (w, []) \<Longrightarrow> co_others A w' = (w', []) \<Longrightarrow>
     retry_call A n k c w = Ret (update_health i (eh_record_success (co_now A w') (elapsed_ms t)) c, w', Inr x)"
  by (cases n) (simp_all add: others_record_def)

lemma demo_answer:
  assumes "demo_ok c" and "co_call A 0 () = ((), t, Inr x)" and "co_others A () = ((), [])"
  shows "\<exists>c'. call_with_retry A c () = Some (Ret (c', (), Inr x)) \<and> demo_ok c'"
proof -
  from assms(1) have "get_best_provider c = Ret 0"
    by (auto simp: demo_ok_def get_best_provider_def)
  from retry_call_success [of 3 c 0 A "()" "()" t x, OF _ this assms(2,3,3)] assms(1) show ?thesis
    by (auto simp: call_with_retry_def demo_ok_def RpcClientConfig_default_def update_health_def
        eh_record_success_def Let_def)
qed

lemma demo_batch:
  "\<exists>s report. process_single_batch demo_client_ops 0 (\<lambda>b. 0) 0 demo_request demo_optimizer = Some (s, Some report)
     \<and> map sr_gas_cost (bs_results report) = [300000]"
proof -
  have c0: "demo_ok (oz_client demo_optimizer)"
    by (simp add: demo_optimizer_def SimulationOptimizer_new_def demo_ok_def RpcClient_new_def EndpointHealth_new_def
        RpcClientConfig_default_def)
  obtain c1 where c1: "call_with_retry (cl_block_number demo_client_ops) (oz_client demo_optimizer) () = Some (Ret (c1, (), Inr 7))"
      "demo_ok c1"
    using demo_answer [OF c0, of "cl_block_number demo_client_ops" 0 7] by (auto simp: demo_client_ops_def)
  obtain c2 where c2: "call_with_retry (cl_call demo_client_ops (call_request_of (demo_transaction 1)) 7) c1 () = Some (Ret (c2, (), Inr []))"
      "demo_ok c2"
    using demo_answer [OF c1(2), of "cl_call demo_client_ops (call_request_of (demo_transaction 1)) 7" 0 "[]"]
    by (auto simp: demo_client_ops_def)
  obtain c3 where c3: "call_with_retry (cl_call demo_client_ops (call_request_of (demo_transaction 0)) 7) c2 () = Some (Ret (c3, (), Inr []))"
    using demo_answer [OF c2(2), of "cl_call demo_client_ops (call_request_of (demo_transaction 0)) 7" 0 "[]"]
    by (auto simp: demo_client_ops_def)
  have gas: "add_gas (demo_transaction 1) (0, 0) = Ret (30000, 150000)"
      "add_gas (demo_transaction 0) (30000, 150000) = Ret (60000, 300000)"
    by (simp_all add: add_gas_def demo_transaction_def u256_add_def u256_mul_def)
  have txs: "sb_transactions demo_sim_bundle = [demo_transaction 1, demo_transaction 0]"
    by (simp add: demo_sim_bundle_def sim_build_def add_transaction_def SimBundleBuilder_new_def)
  have sim: "simulate_bundle_optimized demo_client_ops 0 demo_sim_bundle a (oz_client demo_optimizer) () =
      Some (c3, (), Inr (optimized_result 0 (sb_id demo_sim_bundle) (60000, 300000) True))" for a
    by (simp add: simulate_bundle_optimized_def client_result_def c1 c2 c3 txs gas)
  obtain pool account where pool: "get_account (oz_account_pool demo_optimizer) = (pool, account)"
    by fastforce
  have start: "oz_world demo_optimizer = ()" "oz_config demo_optimizer = SimulationOptimizerConfig_default"
      "oz_pnl_tracker demo_optimizer = PnLTracker_default 0"
    by (simp_all add: demo_optimizer_def SimulationOptimizer_new_def)
  define result where "result = optimized_result 0 (sb_id demo_sim_bundle) (60000, 300000) True"
  have result: "pe_gross_profit_wei (sr_profit_estimate result) = 1000000000000000"
      "pe_gas_cost_wei (sr_profit_estimate result) = 300000" "sr_gas_cost result = 300000"
    by (simp_all add: result_def optimized_result_def optimized_profit_def Let_def)
  have run: "run_bundles demo_client_ops (\<lambda>b. 0) (br_bundles demo_request) demo_optimizer =
      Some (demo_optimizer\<lparr>oz_account_pool := pool, oz_client := c3, oz_world := ()\<rparr>, [result])"
    using sim by (simp add: demo_request_def pool start result_def)
  have "\<exists>t. update_pnl_tracking 0 [result] (PnLTracker_default 0) = (t, True)"
    by (cases "sr_success result") (simp_all add: result PnLTracker_default_def u256_add_def)
  with run start result show ?thesis
    by (auto simp: process_single_batch_def Let_def SimulationOptimizerConfig_default_def)
qed

theorem batch_without_violations_witness:
  "\<exists>s report. process_single_batch demo_client_ops 0 (\<lambda>b. 0) 0 demo_request demo_optimizer = Some (s, Some report)
     \<and> bs_safety_violations report \<noteq> []"
proof -
  obtain s report where run: "process_single_batch demo_client_ops 0 (\<lambda>b. 0) 0 demo_request demo_optimizer =
      Some (s, Some report)" "map sr_gas_cost (bs_results report) = [300000]"
    using demo_batch by auto
  have "oc_min_profit_threshold_wei (oz_config demo_optimizer) = 1000000000000000"
      "oc_safety_checks_enabled (oz_config demo_optimizer)"
    by (simp_all add: demo_optimizer_def SimulationOptimizer_new_def SimulationOptimizerConfig_default_def)
  from batch_without_violations [OF this run(1)] run show ?thesis
    by (auto simp: list_all_iff)
qed

theorem batch_accounts_witness:
  "\<exists>s report. process_single_batch demo_client_ops 0 (\<lambda>b. 0) 0 demo_request demo_optimizer = Some (s, Some report)
     \<and> pn_safety_violations (oz_pnl_tracker s) = 0"
proof -
  obtain s report where run: "process_single_batch demo_client_ops 0 (\<lambda>b. 0) 0 demo_request demo_optimizer =
      Some (s, Some report)"
    using demo_batch by auto
  have "oc_pnl_tracking_enabled (oz_config demo_optimizer)" "pn_safety_violations (oz_pnl_tracker demo_optimizer) = 0"
    by (simp_all add: demo_optimizer_def SimulationOptimizer_new_def SimulationOptimizerConfig_default_def
        PnLTracker_default_def)
  with batch_accounts [OF _ run] run show ?thesis
    by auto
qed

end
