(* ===== verification/Latency_Histogram.thy ===== *)
theory Latency_Histogram
  imports F64_Text "HOL-Library.Product_Lexorder" "HOL-Library.Multiset"
begin

text \<open>
  The latency histogram of \<open>crates/mev-core/src/metrics.rs\<close>: the newest samples behind a \<open>Mutex\<close>. A panic
  while it is held poisons it; the poisoned histogram ignores records and reports zeros.
\<close>

subsection \<open>The order of the samples\<close>

text \<open>\<open>partial_cmp\<close> of two values that are numbers is the order of their keys; the sort is stable.\<close>

fun f64_key :: "f64 \<Rightarrow> int \<times> rat" where
  "f64_key (Infinity s) = (if s then - 1 else 1, 0)"
| "f64_key (Finite s q) = (0, signed s q)"
| "f64_key NaN = (2, 0)"

lemma f64_lt_key: "x \<noteq> NaN \<Longrightarrow> y \<noteq> NaN \<Longrightarrow> f64_lt x y \<longleftrightarrow> f64_key x < f64_key y"
  by (cases x; cases y) (auto simp: less_prod_def)

lemma f64_le_key: "x \<noteq> NaN \<Longrightarrow> y \<noteq> NaN \<Longrightarrow> f64_le x y \<longleftrightarrow> f64_key x \<le> f64_key y"
  by (cases x; cases y) (auto simp: f64_le_def less_eq_prod_def)

subsection \<open>The histogram\<close>

record LatencyStats =
  ls_median_ms :: f64
  ls_p95_ms :: f64
  ls_p99_ms :: f64
  ls_mean_ms :: f64
  ls_count :: u64

definition LatencyStats_default :: LatencyStats where
  "LatencyStats_default =
     \<lparr>ls_median_ms = Finite False 0, ls_p95_ms = Finite False 0, ls_p99_ms = Finite False 0,
      ls_mean_ms = Finite False 0, ls_count = 0\<rparr>"

record LatencyHistogram =
  lh_samples :: "f64 list"
  lh_max_samples :: usize
  lh_poisoned :: bool

definition LatencyHistogram_new :: "usize \<Rightarrow> LatencyHistogram" where
  "LatencyHistogram_new max_samples = \<lparr>lh_samples = [], lh_max_samples = max_samples, lh_poisoned = False\<rparr>"

text \<open>\<open>remove(0)\<close> panics without samples, when no sample is to be kept.\<close>

definition hist_record :: "f64 \<Rightarrow> LatencyHistogram \<Rightarrow> LatencyHistogram \<times> unit run" where
  "hist_record latency_ms h =
     (if lh_poisoned h then (h, Ret ())
      else if unat (lh_max_samples h) \<le> length (lh_samples h) then
        (case lh_samples h of
           [] \<Rightarrow> (h\<lparr>lh_poisoned := True\<rparr>, Panic)
         | oldest # rest \<Rightarrow> (h\<lparr>lh_samples := rest @ [latency_ms]\<rparr>, Ret ()))
      else (h\<lparr>lh_samples := lh_samples h @ [latency_ms]\<rparr>, Ret ()))"

text \<open>The position of a percentile in a sorted list of samples.\<close>

definition percentile_index :: "nat \<Rightarrow> f64 \<Rightarrow> nat" where
  "percentile_index n p = min (unat (f64_to_u64 (f64_mul (f64_of_nat n) p))) (n - 1)"

definition sorted_stats :: "f64 list \<Rightarrow> LatencyStats" where
  "sorted_stats samples =
     (let n = length samples
      in \<lparr>ls_median_ms =
            (if even n
             then f64_div (f64_add (samples ! (n div 2 - 1)) (samples ! (n div 2))) (Finite False 2)
             else samples ! (n div 2)),
          ls_p95_ms = samples ! percentile_index n (f64_lit ''0.95''),
          ls_p99_ms = samples ! percentile_index n (f64_lit ''0.99''),
          ls_mean_ms = f64_div (f64_sum samples) (f64_of_nat n),
          ls_count = word_of_nat n\<rparr>)"

text \<open>Sorting is in place, and panics when a sample it compares is no number.\<close>

definition hist_get_stats :: "LatencyHistogram \<Rightarrow> LatencyHistogram \<times> LatencyStats run" where
  "hist_get_stats h =
     (if lh_poisoned h \<or> lh_samples h = [] then (h, Ret LatencyStats_default)
      else if 2 \<le> length (lh_samples h) \<and> NaN \<in> set (lh_samples h) then (h\<lparr>lh_poisoned := True\<rparr>, Panic)
      else (let samples = sort_key f64_key (lh_samples h)
            in (h\<lparr>lh_samples := samples\<rparr>, Ret (sorted_stats samples))))"

subsection \<open>What is evicted\<close>

text \<open>Reading the statistics sorts the samples, so that a full histogram drops its smallest sample next.\<close>

lemma sorted_drop_nth:
  fixes xs ys :: "'a :: linorder list"
  assumes "sorted xs" and "length ys \<le> k" and "k < length xs"
  shows "xs ! k \<le> sort (drop (length ys) xs @ ys) ! k"
proof (rule ccontr)
  let ?m = "length ys" and ?zs = "sort (drop (length ys) xs @ ys)"
  assume less: "\<not> xs ! k \<le> ?zs ! k"
  let ?small = "\<lambda>z. z < xs ! k"
  have len: "length ?zs = length xs"
    using assms(2,3) by simp
  have "\<forall>z \<in> set (take (Suc k) ?zs). ?small z"
  proof
    fix z assume "z \<in> set (take (Suc k) ?zs)"
    then obtain j where "j \<le> k" "z = ?zs ! j"
      using len assms(3) by (auto simp: in_set_conv_nth less_Suc_eq_le)
    moreover from this have "?zs ! j \<le> ?zs ! k"
      using len assms(3) by (intro sorted_nth_mono) simp_all
    ultimately show "?small z"
      using less by simp
  qed
  then have "Suc k \<le> length (filter ?small (take (Suc k) ?zs))"
    using len assms(3) by (simp add: filter_id_conv)
  also have "\<dots> \<le> length (filter ?small ?zs)"
    by (metis append_take_drop_id filter_append le_add1 length_append)
  also have "\<dots> = length (filter ?small (drop ?m xs @ ys))"
    by (simp only: filter_sort length_sort)
  also have "\<dots> \<le> length (filter ?small (drop ?m xs)) + ?m"
    by simp
  also have "filter ?small (drop ?m xs) = filter ?small (drop ?m (take k xs))"
  proof -
    have "filter ?small (drop k xs) = []"
      using assms(1,3) sorted_nth_mono [of xs k] by (auto simp: filter_empty_conv in_set_conv_nth not_less)
    moreover have "drop ?m xs = drop ?m (take k xs) @ drop k xs"
      using assms(2,3) by (metis append_take_drop_id drop_append drop_eq_Nil2 diff_is_0_eq drop0 length_take min.absorb2
          less_imp_le)
    ultimately show ?thesis
      by simp
  qed
  also have "length (filter ?small (drop ?m (take k xs))) + ?m \<le> k"
    using length_filter_le [of ?small "drop ?m (take k xs)"] assms(2,3) by simp
  finally show False
    by simp
qed

lemma map_sort_key: "map f (sort_key f xs) = sort (map f xs)"
  by (rule properties_for_sort [symmetric]) simp_all

lemma hist_records:
  assumes "\<not> lh_poisoned h" and "length (lh_samples h) = unat (lh_max_samples h)" and "length xs \<le> length (lh_samples h)"
    and "lh_samples h \<noteq> []"
  shows "fold (\<lambda>x h. fst (hist_record x h)) xs h = h\<lparr>lh_samples := drop (length xs) (lh_samples h) @ xs\<rparr>"
  using assms(3)
proof (induction xs rule: rev_induct)
  case (snoc x xs)
  then have "drop (length xs) (lh_samples h) = lh_samples h ! length xs # drop (Suc (length xs)) (lh_samples h)"
    by (simp add: Cons_nth_drop_Suc)
  with snoc assms(1,2) show ?case
    by (simp add: hist_record_def)
qed simp

text \<open>C30: the 95th percentile of a full histogram never decreases from one reading to the next as long as no
  more samples are recorded between the two than the position of the percentile (950 of 1000 samples) and all
  samples are numbers, whatever their values: reading sorts the samples in place, and the samples
  that then make room are the smallest, not the oldest.\<close>

theorem percentile_never_decreases:
  assumes "\<not> lh_poisoned h" and "length (lh_samples h) = unat (lh_max_samples h)" and "lh_samples h \<noteq> []"
    and "NaN \<notin> set (lh_samples h @ xs)"
    and "length xs \<le> percentile_index (length (lh_samples h)) (f64_lit ''0.95'')"
    and "hist_get_stats h = (h1, Ret before)"
    and "hist_get_stats (fold (\<lambda>x h. fst (hist_record x h)) xs h1) = (h2, Ret after)"
  shows "f64_le (ls_p95_ms before) (ls_p95_ms after)"
proof -
  let ?s = "lh_samples h"
  let ?i = "percentile_index (length ?s) (f64_lit ''0.95'')"
  have i: "?i < length ?s"
    using assms(3) by (cases ?s) (simp_all add: percentile_index_def less_Suc_eq_le)
  have h1: "h1 = h\<lparr>lh_samples := sort_key f64_key ?s\<rparr>" "ls_p95_ms before = sort_key f64_key ?s ! ?i"
    using assms(1,3,4,6) by (auto simp: hist_get_stats_def sorted_stats_def Let_def)
  let ?t = "drop (length xs) (sort_key f64_key ?s) @ xs"
  have records: "fold (\<lambda>x h. fst (hist_record x h)) xs h1 = h1\<lparr>lh_samples := ?t\<rparr>"
    using hist_records [of h1 xs] assms(1-3,5) i h1(1) by (simp add: length_0_conv [symmetric] del: length_0_conv)
  have len: "length ?t = length ?s"
    using assms(5) i by simp
  have numbers: "NaN \<notin> set ?t"
    using assms(4) set_drop_subset [of "length xs" "sort_key f64_key ?s"] by auto
  have "?t \<noteq> []"
    using len assms(3) by (metis length_0_conv)
  with assms(1,7) records numbers len have after: "ls_p95_ms after = sort_key f64_key ?t ! ?i"
    by (auto simp: hist_get_stats_def sorted_stats_def Let_def h1(1))
  have "map f64_key (sort_key f64_key ?s) ! ?i \<le> sort (drop (length xs) (map f64_key (sort_key f64_key ?s)) @ map f64_key xs) ! ?i"
    using sorted_drop_nth [of "map f64_key (sort_key f64_key ?s)" "map f64_key xs" ?i] assms(5) i by simp
  also have "drop (length xs) (map f64_key (sort_key f64_key ?s)) @ map f64_key xs = map f64_key ?t"
    by (simp add: drop_map)
  finally have "f64_key (sort_key f64_key ?s ! ?i) \<le> f64_key (sort_key f64_key ?t ! ?i)"
    using i len nth_map [of ?i "sort_key f64_key ?t" f64_key] by (simp only: map_sort_key [symmetric] nth_map length_sort)
  moreover have "sort_key f64_key ?s ! ?i \<noteq> NaN" "sort_key f64_key ?t ! ?i \<noteq> NaN"
    using i len assms(4) numbers nth_mem [of ?i "sort_key f64_key ?s"] nth_mem [of ?i "sort_key f64_key ?t"] by auto
  ultimately show ?thesis
    using h1(2) after by (simp add: f64_le_key)
qed

text \<open>The position of the 95th percentile in the histogram of the decision path, and in one of two samples.\<close>

lemma f64_lit_95: "f64_lit ''0.95'' = Finite False (8556839292003942 / 9007199254740992)"
proof -
  have "f64_lit ''0.95'' = f64_round False (95 / 100)"
    by (simp add: f64_lit_simps)
  also have "\<dots> = Finite False (of_int 8556839292003942 * pow2 (- 1 - 52))"
    by (rule f64_round_value) (simp_all add: pow2_def)
  also have "\<dots> = Finite False (8556839292003942 / 9007199254740992)"
    by (simp add: pow2_def)
  finally show ?thesis .
qed

lemma percentile_index_1000: "percentile_index 1000 (f64_lit ''0.95'') = 950"
proof -
  have "f64_of_nat 1000 = Finite False 1000"
    unfolding f64_of_nat_def of_nat_numeral
    by (rule f64_round_exact [where m = 125 and e = 3]) (simp_all add: pow2_def)
  moreover have "f64_round False (1000 * (8556839292003942 / 9007199254740992)) = Finite False (of_int 8356288371097600 * pow2 (9 - 52))"
    by (rule f64_round_value) (simp_all add: pow2_def)
  ultimately have "f64_mul (f64_of_nat 1000) (f64_lit ''0.95'') = Finite False 950"
    by (simp add: f64_lit_95 pow2_def)
  then show ?thesis
    by (simp add: percentile_index_def f64_to_u64_def)
qed

lemma percentile_index_2: "percentile_index 2 (f64_lit ''0.95'') = 1"
proof -
  have "f64_of_nat 2 = Finite False 2"
    unfolding f64_of_nat_def of_nat_numeral
    by (rule f64_round_exact [where m = 1 and e = 1]) (simp_all add: pow2_def)
  moreover have "f64_round False (2 * (8556839292003942 / 9007199254740992)) = Finite False (of_int 8556839292003942 * pow2 (0 - 52))"
    by (rule f64_round_value) (simp_all add: pow2_def)
  ultimately have "f64_mul (f64_of_nat 2) (f64_lit ''0.95'') = Finite False (8556839292003942 / 4503599627370496)"
    by (simp add: f64_lit_95 pow2_def)
  moreover have "\<lfloor>4278419646001971 / 2251799813685248 :: rat\<rfloor> = 1"
    by (simp add: floor_eq_iff)
  ultimately show ?thesis
    by (simp add: percentile_index_def f64_to_u64_def)
qed

theorem percentile_never_decreases_witness:
  "\<exists>h1 before h2 after. hist_get_stats \<lparr>lh_samples = [Finite False 2, Finite False 1], lh_max_samples = 2, lh_poisoned = False\<rparr> = (h1, Ret before)
     \<and> hist_get_stats (fst (hist_record (Finite False 0) h1)) = (h2, Ret after)
     \<and> f64_le (ls_p95_ms before) (ls_p95_ms after)"
proof -
  let ?h = "\<lparr>lh_samples = [Finite False 2, Finite False 1], lh_max_samples = 2, lh_poisoned = False\<rparr>"
  obtain h1 before where run: "hist_get_stats ?h = (h1, Ret before)"
    by (simp add: hist_get_stats_def Let_def)
  then have "h1 = ?h\<lparr>lh_samples := [Finite False 1, Finite False 2]\<rparr>"
    by (simp add: hist_get_stats_def Let_def signed_def less_eq_prod_def)
  then obtain h2 after where run2: "hist_get_stats (fold (\<lambda>x h. fst (hist_record x h)) [Finite False 0] h1) = (h2, Ret after)"
    by (simp add: hist_get_stats_def hist_record_def Let_def)
  have "f64_le (ls_p95_ms before) (ls_p95_ms after)"
    by (rule percentile_never_decreases [OF _ _ _ _ _ run run2]) (simp_all add: percentile_index_2 [simplified numeral_2_eq_2])
  with run run2 show ?thesis
    by auto
qed

subsection \<open>Poisoning\<close>

text \<open>One NaN among two samples ends the task that reads the statistics; from then on they are zeros for ever.\<close>

lemma nan_poisons:
  assumes "\<not> lh_poisoned h" and "2 \<le> length (lh_samples h)" and "NaN \<in> set (lh_samples h)"
  shows "hist_get_stats h = (h\<lparr>lh_poisoned := True\<rparr>, Panic)"
    and "fst (hist_record x (h\<lparr>lh_poisoned := True\<rparr>)) = h\<lparr>lh_poisoned := True\<rparr>"
    and "hist_get_stats (h\<lparr>lh_poisoned := True\<rparr>) = (h\<lparr>lh_poisoned := True\<rparr>, Ret LatencyStats_default)"
  using assms by (auto simp: hist_get_stats_def hist_record_def)

end
