(* ===== verification/Decision_Path.thy ===== *)
theory Decision_Path
  imports Strategy_Types Latency_Histogram
begin

text \<open>
  The decision path of \<open>crates/mev-core/src/decision_path.rs\<close>: four bounded channels, and the workers of three
  stages between them. The channels are \<open>crossbeam\<close>, records of operations the definitions take. What a
  worker does between receiving an element and being done with it is one definition; that workers of the
  same and of other stages interleave is the step relation of \<open>Decision_Facts\<close>. The times a stage measures are
  arguments. The memory pools are filled and never used, and pinning a thread to a core is only logged.
\<close>

subsection \<open>Configuration\<close>

record CoreAssignments =
  ca_filter_core :: "usize option"
  ca_simulation_cores :: "usize list"
  ca_bundle_core :: "usize option"
  ca_metrics_core :: "usize option"

record ChannelBufferSizes =
  cz_filter_input :: usize
  cz_simulation_input :: usize
  cz_bundle_input :: usize
  cz_output :: usize

record MemoryPoolConfig =
  mp_transaction_pool_size :: usize
  mp_opportunity_pool_size :: usize
  mp_bundle_pool_size :: usize
  mp_enable_object_reuse :: bool

record StageTargets =
  sg_total_decision_loop_ms :: u64
  sg_filter_stage_ms :: u64
  sg_simulation_stage_ms :: u64
  sg_bundle_stage_ms :: u64
  sg_timeout_multiplier :: f64

record ThreadPoolSizes =
  tz_filter_workers :: usize
  tz_simulation_workers :: usize
  tz_bundle_workers :: usize

record DecisionPathConfig =
  dc_enable_cpu_pinning :: bool
  dc_core_assignments :: CoreAssignments
  dc_channel_buffer_sizes :: ChannelBufferSizes
  dc_memory_pools :: MemoryPoolConfig
  dc_latency_targets :: StageTargets
  dc_thread_pools :: ThreadPoolSizes

definition DecisionPathConfig_default :: "usize \<Rightarrow> DecisionPathConfig" where
  "DecisionPathConfig_default num_cpus =
     \<lparr>dc_enable_cpu_pinning = True,
      dc_core_assignments =
        \<lparr>ca_filter_core = Some 0, ca_simulation_cores = map word_of_nat [1..<unat (min num_cpus 4)],
         ca_bundle_core = Some (if num_cpus = 0 then 0 else num_cpus - 1), ca_metrics_core = None\<rparr>,
      dc_channel_buffer_sizes =
        \<lparr>cz_filter_input = 1000, cz_simulation_input = 500, cz_bundle_input = 100, cz_output = 50\<rparr>,
      dc_memory_pools =
        \<lparr>mp_transaction_pool_size = 1000, mp_opportunity_pool_size = 500, mp_bundle_pool_size = 100,
         mp_enable_object_reuse = True\<rparr>,
      dc_latency_targets =
        \<lparr>sg_total_decision_loop_ms = 25, sg_filter_stage_ms = 5, sg_simulation_stage_ms = 15,
         sg_bundle_stage_ms = 5, sg_timeout_multiplier = Finite False 2\<rparr>,
      dc_thread_pools =
        \<lparr>tz_filter_workers = 2, tz_simulation_workers = min num_cpus 4, tz_bundle_workers = 1\<rparr>\<rparr>"

subsection \<open>What passes through\<close>

record StageTimings =
  sm_filter_ms :: f64
  sm_simulation_ms :: f64
  sm_bundle_ms :: f64
  sm_total_ms :: f64

record DecisionResult =
  dr_transaction_id :: string
  dr_opportunities :: "Opportunity list"
  dr_processing_time_ms :: f64
  dr_stage_timings :: StageTimings
  dr_success :: bool
  dr_error :: "string option"

record DecisionPathStats =
  dt_transactions_processed :: u64
  dt_opportunities_found :: u64
  dt_bundles_created :: u64
  dt_average_latency_ms :: f64
  dt_p95_latency_ms :: f64
  dt_p99_latency_ms :: f64
  dt_timeout_count :: u64
  dt_error_count :: u64
  dt_throughput_tps :: f64

definition DecisionPathStats_default :: DecisionPathStats where
  "DecisionPathStats_default =
     \<lparr>dt_transactions_processed = 0, dt_opportunities_found = 0, dt_bundles_created = 0,
      dt_average_latency_ms = Finite False 0, dt_p95_latency_ms = Finite False 0, dt_p99_latency_ms = Finite False 0,
      dt_timeout_count = 0, dt_error_count = 0, dt_throughput_tps = Finite False 0\<rparr>"

record FilteredTransaction =
  fx_transaction :: ParsedTransaction
  fx_filter_time_ms :: f64
  fx_priority :: u8

record SimulatedTransaction =
  st_transaction :: ParsedTransaction
  st_opportunities :: "Opportunity list"
  st_simulation_time_ms :: f64
  st_filter_time_ms :: f64

text \<open>\<open>try_send\<close> tells whether there was room; \<open>recv_timeout\<close> gives nothing when its time is over. The path
  keeps both ends of its channels, so that none is ever disconnected.\<close>

record ('c, 'a) bounded_ops =
  bn_new :: "nat \<Rightarrow> 'c"
  bn_try_send :: "'a \<Rightarrow> 'c \<Rightarrow> 'c \<times> bool"
  bn_recv :: "'c \<Rightarrow> 'c \<times> 'a option"

record ('f, 's, 'b, 'o) path_channels =
  pk_filter :: "('f, ParsedTransaction) bounded_ops"
  pk_simulation :: "('s, FilteredTransaction) bounded_ops"
  pk_bundle :: "('b, SimulatedTransaction) bounded_ops"
  pk_output :: "('o, DecisionResult) bounded_ops"

record ('f, 's, 'b, 'o) DecisionPath =
  dp_config :: DecisionPathConfig
  dp_strategy_engine :: MockStrategyEngine
  dp_filter :: 'f
  dp_simulation :: 's
  dp_bundle :: 'b
  dp_output :: 'o
  dp_latency_histogram :: LatencyHistogram
  dp_stats :: DecisionPathStats
  dp_shutdown :: bool
  dp_processed_count :: u64

definition DecisionPath_new ::
    "('f, 's, 'b, 'o) path_channels \<Rightarrow> DecisionPathConfig \<Rightarrow> MockStrategyEngine \<Rightarrow> ('f, 's, 'b, 'o) DecisionPath" where
  "DecisionPath_new K config engine =
     (let sizes = dc_channel_buffer_sizes config
      in \<lparr>dp_config = config, dp_strategy_engine = engine,
          dp_filter = bn_new (pk_filter K) (unat (cz_filter_input sizes)),
          dp_simulation = bn_new (pk_simulation K) (unat (cz_simulation_input sizes)),
          dp_bundle = bn_new (pk_bundle K) (unat (cz_bundle_input sizes)),
          dp_output = bn_new (pk_output K) (unat (cz_output sizes)),
          dp_latency_histogram = LatencyHistogram_new 1000, dp_stats = DecisionPathStats_default,
          dp_shutdown = False, dp_processed_count = 0\<rparr>)"

subsection \<open>Starting\<close>

text \<open>The core of a simulation worker: \<open>worker_id % core_assignments.len()\<close> panics without cores.\<close>

definition worker_core :: "usize list \<Rightarrow> nat \<Rightarrow> usize run" where
  "worker_core cores worker_id = (if cores = [] then Panic else Ret (cores ! (worker_id mod length cores)))"

fun worker_cores :: "usize list \<Rightarrow> nat list \<Rightarrow> usize list run" where
  "worker_cores cores [] = Ret []"
| "worker_cores cores (i # is) =
     run_bind (worker_core cores i) (\<lambda>c. run_bind (worker_cores cores is) (\<lambda>cs. Ret (c # cs)))"

text \<open>The numbers of workers of the three stages that are started.\<close>

definition dp_start :: "('f, 's, 'b, 'o) DecisionPath \<Rightarrow> (nat \<times> nat \<times> nat) run" where
  "dp_start p =
     (let pools = dc_thread_pools (dp_config p)
      in run_bind
           (worker_cores (ca_simulation_cores (dc_core_assignments (dp_config p)))
             [0..<unat (tz_simulation_workers pools)])
           (\<lambda>cores. Ret (unat (tz_filter_workers pools), length cores, unat (tz_bundle_workers pools))))"

subsection \<open>The stages\<close>

text \<open>A full queue drops the transaction, and the call succeeds.\<close>

definition path_process_transaction ::
    "('f, 's, 'b, 'o) path_channels \<Rightarrow> ParsedTransaction \<Rightarrow> ('f, 's, 'b, 'o) DecisionPath \<Rightarrow>
     ('f, 's, 'b, 'o) DecisionPath \<times> bool \<times> (string + unit)" where
  "path_process_transaction K transaction p =
     (case bn_try_send (pk_filter K) transaction (dp_filter p) of
        (c, sent) \<Rightarrow> (p\<lparr>dp_filter := c\<rparr>, sent, Inr ()))"

definition fast_filter :: "ParsedTransaction \<Rightarrow> bool" where
  "fast_filter transaction =
     (case px_target_type transaction of
        UniswapV2 \<Rightarrow> True
      | UniswapV3 \<Rightarrow> True
      | SushiSwap \<Rightarrow> True
      | Curve \<Rightarrow> True
      | Balancer \<Rightarrow> True
      | OrderBook \<Rightarrow>
          (case parse_u128 10 (tx_value (px_transaction transaction)) of
             Some value \<Rightarrow> 1000000000000000000 < value
           | None \<Rightarrow> False)
      | Unknown \<Rightarrow> 10 < length (tx_input (px_transaction transaction)))"

text \<open>
  A worker looks at the flag and then waits up to 100 ms for an element, without looking at the flag again.
  A stage has so many workers; each of them is busy with an element, is waiting for one, or is about to look
  at the flag, in which case it begins to wait if the flag is down.
\<close>

definition worker_may_wait :: "bool \<Rightarrow> usize \<Rightarrow> nat \<Rightarrow> nat \<Rightarrow> bool" where
  "worker_may_wait shutdown workers waiting busy \<longleftrightarrow> \<not> shutdown \<and> waiting + busy < unat workers"

datatype stage_outcome = PassedOn | FilteredOut | Dropped

definition filter_stage ::
    "('f, 's, 'b, 'o) path_channels \<Rightarrow> f64 \<Rightarrow> ParsedTransaction \<Rightarrow> ('f, 's, 'b, 'o) DecisionPath \<Rightarrow>
     ('f, 's, 'b, 'o) DecisionPath \<times> stage_outcome" where
  "filter_stage K filter_time_ms transaction p =
     (if fast_filter transaction then
        (case bn_try_send (pk_simulation K)
                \<lparr>fx_transaction = transaction, fx_filter_time_ms = filter_time_ms, fx_priority = 128\<rparr>
                (dp_simulation p) of
           (c, sent) \<Rightarrow> (p\<lparr>dp_simulation := c\<rparr>, if sent then PassedOn else Dropped))
      else (p, FilteredOut))"

definition simulation_stage ::
    "('f, 's, 'b, 'o) path_channels \<Rightarrow> f64 \<Rightarrow> FilteredTransaction \<Rightarrow> ('f, 's, 'b, 'o) DecisionPath \<Rightarrow>
     ('f, 's, 'b, 'o) DecisionPath \<times> stage_outcome" where
  "simulation_stage K simulation_time_ms filtered_tx p =
     (case bn_try_send (pk_bundle K)
             \<lparr>st_transaction = fx_transaction filtered_tx,
              st_opportunities = evaluate_transaction (dp_strategy_engine p) (fx_transaction filtered_tx),
              st_simulation_time_ms = simulation_time_ms, st_filter_time_ms = fx_filter_time_ms filtered_tx\<rparr>
             (dp_bundle p) of
        (c, sent) \<Rightarrow> (p\<lparr>dp_bundle := c\<rparr>, if sent then PassedOn else Dropped))"

definition total_time_ms :: "f64 \<Rightarrow> SimulatedTransaction \<Rightarrow> f64" where
  "total_time_ms bundle_time_ms r = f64_add (f64_add (st_filter_time_ms r) (st_simulation_time_ms r)) bundle_time_ms"

definition decision_of :: "f64 \<Rightarrow> SimulatedTransaction \<Rightarrow> DecisionResult" where
  "decision_of bundle_time_ms r =
     \<lparr>dr_transaction_id = tx_hash (px_transaction (st_transaction r)), dr_opportunities = st_opportunities r,
      dr_processing_time_ms = total_time_ms bundle_time_ms r,
      dr_stage_timings =
        \<lparr>sm_filter_ms = st_filter_time_ms r, sm_simulation_ms = st_simulation_time_ms r,
         sm_bundle_ms = bundle_time_ms, sm_total_ms = total_time_ms bundle_time_ms r\<rparr>,
      dr_success = True, dr_error = None\<rparr>"

text \<open>The average so far, of a count that includes the new value.\<close>

definition running_average :: "f64 \<Rightarrow> u64 \<Rightarrow> f64 \<Rightarrow> f64" where
  "running_average average n x =
     (let c = f64_of_nat (unat n)
      in f64_div (f64_add (f64_mul average (f64_sub c (Finite False 1))) x) c)"

definition count_decision :: "f64 \<Rightarrow> SimulatedTransaction \<Rightarrow> DecisionPathStats \<Rightarrow> DecisionPathStats" where
  "count_decision time_ms r s =
     (let n = dt_transactions_processed s + 1
      in s\<lparr>dt_transactions_processed := n,
           dt_opportunities_found := dt_opportunities_found s + word_of_nat (length (st_opportunities r)),
           dt_average_latency_ms := running_average (dt_average_latency_ms s) n time_ms\<rparr>)"

text \<open>The histogram keeps a thousand samples, so that recording does not panic.\<close>

definition bundle_stage ::
    "('f, 's, 'b, 'o) path_channels \<Rightarrow> f64 \<Rightarrow> SimulatedTransaction \<Rightarrow> ('f, 's, 'b, 'o) DecisionPath \<Rightarrow>
     ('f, 's, 'b, 'o) DecisionPath \<times> DecisionResult \<times> bool" where
  "bundle_stage K bundle_time_ms r p =
     (let decision = decision_of bundle_time_ms r;
          time_ms = total_time_ms bundle_time_ms r
      in case bn_try_send (pk_output K) decision (dp_output p) of
           (c, sent) \<Rightarrow>
             (p\<lparr>dp_output := c, dp_stats := count_decision time_ms r (dp_stats p),
                dp_latency_histogram := fst (hist_record time_ms (dp_latency_histogram p)),
                dp_processed_count := dp_processed_count p + 1\<rparr>, decision, sent))"

definition path_shutdown :: "('f, 's, 'b, 'o) DecisionPath \<Rightarrow> ('f, 's, 'b, 'o) DecisionPath" where
  "path_shutdown p = p\<lparr>dp_shutdown := True\<rparr>"

subsection \<open>Collecting the metrics\<close>

text \<open>One round of the collector, with the count and the time of its last round. The statistics are read a
  second time for the log, which changes nothing.\<close>

definition metrics_round ::
    "instant \<Rightarrow> u64 \<times> instant \<Rightarrow> ('f, 's, 'b, 'o) DecisionPath \<Rightarrow>
     ('f, 's, 'b, 'o) DecisionPath \<times> (u64 \<times> instant) run" where
  "metrics_round now previous p =
     (let current_count = dp_processed_count p;
          elapsed_secs = as_secs_f64 (elapsed now (snd previous))
      in if f64_lt (Finite False 0) elapsed_secs then
           (let throughput = f64_div (f64_of_nat (unat (current_count - fst previous))) elapsed_secs;
                p = p\<lparr>dp_stats := (dp_stats p)\<lparr>dt_throughput_tps := throughput\<rparr>\<rparr>
            in case hist_get_stats (dp_latency_histogram p) of
                 (h, Panic) \<Rightarrow> (p\<lparr>dp_latency_histogram := h\<rparr>, Panic)
               | (h, Ret s) \<Rightarrow>
                   (p\<lparr>dp_latency_histogram := h,
                      dp_stats := (dp_stats p)\<lparr>dt_p95_latency_ms := ls_p95_ms s, dt_p99_latency_ms := ls_p99_ms s\<rparr>\<rparr>,
                    Ret (current_count, now)))
         else (p, Ret (current_count, now)))"

end
