(* ===== verification/Decision_Facts.thy ===== *)
theory Decision_Facts
  imports Decision_Path Tx_Parser "HOL-Library.Multiset" "HOL-Library.Sublist"
begin

text \<open>
  The workers of the decision path as a step relation, over every channel that keeps its documented promises:
  what becomes of the transactions, what the statistics count, and what a shutdown leaves behind.
\<close>

subsection \<open>The promises of a channel\<close>

definition send_law :: "('c, 'a) bounded_ops \<Rightarrow> ('c \<Rightarrow> 'a list) \<Rightarrow> ('c \<Rightarrow> nat) \<Rightarrow> bool" where
  "send_law B items cap \<longleftrightarrow>
     (\<forall>x c c' sent. bn_try_send B x c = (c', sent) \<longrightarrow>
        cap c' = cap c \<and> sent = (length (items c) < cap c) \<and> items c' = (if sent then items c @ [x] else items c))"

definition recv_law :: "('c, 'a) bounded_ops \<Rightarrow> ('c \<Rightarrow> 'a list) \<Rightarrow> ('c \<Rightarrow> nat) \<Rightarrow> bool" where
  "recv_law B items cap \<longleftrightarrow>
     (\<forall>c c' r. bn_recv B c = (c', r) \<longrightarrow>
        cap c' = cap c \<and> (case items c of [] \<Rightarrow> r = None \<and> items c' = [] | x # xs \<Rightarrow> r = Some x \<and> items c' = xs))"

text \<open>A channel of capacity zero, which only hands over to a waiting receiver, is left out.\<close>

definition bounded_laws :: "('c, 'a) bounded_ops \<Rightarrow> ('c \<Rightarrow> 'a list) \<Rightarrow> ('c \<Rightarrow> nat) \<Rightarrow> bool" where
  "bounded_laws B items cap \<longleftrightarrow>
     (\<forall>n. n \<noteq> 0 \<longrightarrow> items (bn_new B n) = [] \<and> cap (bn_new B n) = n) \<and> send_law B items cap \<and> recv_law B items cap"

lemma bounded_new: "bounded_laws B items cap \<Longrightarrow> n \<noteq> 0 \<Longrightarrow> items (bn_new B n) = []"
  by (simp add: bounded_laws_def)

lemma bounded_send:
  "bounded_laws B items cap \<Longrightarrow> bn_try_send B x c = (c', sent) \<Longrightarrow> items c' = (if sent then items c @ [x] else items c)"
  unfolding bounded_laws_def send_law_def by blast

lemma bounded_recv:
  "bounded_laws B items cap \<Longrightarrow> bn_recv B c = (c', Some x) \<Longrightarrow> items c = x # items c'"
  unfolding bounded_laws_def recv_law_def by (cases "items c") fastforce+

lemma bounded_recv_none:
  "bounded_laws B items cap \<Longrightarrow> bn_recv B c = (c', None) \<Longrightarrow> items c' = items c"
  unfolding bounded_laws_def recv_law_def by (cases "items c") fastforce+

subsection \<open>Steps\<close>

text \<open>What the workers hold between receiving and being done, and how many of a stage wait to receive.\<close>

record ('f, 's, 'b, 'o) pipeline =
  pi_path :: "('f, 's, 'b, 'o) DecisionPath"
  pi_filtering :: "ParsedTransaction list"
  pi_simulating :: "FilteredTransaction list"
  pi_bundling :: "SimulatedTransaction list"
  pi_filter_waiting :: nat
  pi_simulation_waiting :: nat
  pi_bundle_waiting :: nat

abbreviation stage_workers :: "('f, 's, 'b, 'o) pipeline \<Rightarrow> ThreadPoolSizes" where
  "stage_workers s \<equiv> dc_thread_pools (dp_config (pi_path s))"

text \<open>What has happened so far.\<close>

record path_history =
  ph_accepted :: "ParsedTransaction list"
  ph_dropped :: "ParsedTransaction list"
  ph_decided :: "SimulatedTransaction list"
  ph_results :: "DecisionResult list"
  ph_sent :: "DecisionResult list"
  ph_delivered :: "DecisionResult list"

definition empty_history :: path_history where
  "empty_history =
     \<lparr>ph_accepted = [], ph_dropped = [], ph_decided = [], ph_results = [], ph_sent = [], ph_delivered = []\<rparr>"

text \<open>One event of the environment or of one worker. \<open>t\<close> is the time a stage measures. An element is dropped
  by the filter, by a full channel, or not at all. A worker that began to wait before a shutdown still
  receives an element that is there or comes in time.\<close>

inductive path_step ::
    "('f, 's, 'b, 'o) path_channels \<Rightarrow> ('f, 's, 'b, 'o) pipeline \<times> path_history \<Rightarrow>
     ('f, 's, 'b, 'o) pipeline \<times> path_history \<Rightarrow> bool" for K where
  submit:
    "path_process_transaction K tx (pi_path s) = (p, sent, r) \<Longrightarrow>
     path_step K (s, h) (s\<lparr>pi_path := p\<rparr>, if sent then h\<lparr>ph_accepted := ph_accepted h @ [tx]\<rparr> else h)"
| filter_wait:
    "worker_may_wait (dp_shutdown (pi_path s)) (tz_filter_workers (stage_workers s)) (pi_filter_waiting s)
       (length (pi_filtering s)) \<Longrightarrow>
     path_step K (s, h) (s\<lparr>pi_filter_waiting := Suc (pi_filter_waiting s)\<rparr>, h)"
| filter_take:
    "pi_filter_waiting s = Suc n \<Longrightarrow> bn_recv (pk_filter K) (dp_filter (pi_path s)) = (c, Some tx) \<Longrightarrow>
     path_step K (s, h)
       (s\<lparr>pi_path := (pi_path s)\<lparr>dp_filter := c\<rparr>, pi_filtering := pi_filtering s @ [tx], pi_filter_waiting := n\<rparr>, h)"
| filter_timeout:
    "pi_filter_waiting s = Suc n \<Longrightarrow> bn_recv (pk_filter K) (dp_filter (pi_path s)) = (c, None) \<Longrightarrow>
     path_step K (s, h) (s\<lparr>pi_path := (pi_path s)\<lparr>dp_filter := c\<rparr>, pi_filter_waiting := n\<rparr>, h)"
| filter_done:
    "pi_filtering s = us @ tx # vs \<Longrightarrow> filter_stage K t tx (pi_path s) = (p, d) \<Longrightarrow>
     path_step K (s, h)
       (s\<lparr>pi_path := p, pi_filtering := us @ vs\<rparr>, if d = PassedOn then h else h\<lparr>ph_dropped := ph_dropped h @ [tx]\<rparr>)"
| simulation_wait:
    "worker_may_wait (dp_shutdown (pi_path s)) (tz_simulation_workers (stage_workers s)) (pi_simulation_waiting s)
       (length (pi_simulating s)) \<Longrightarrow>
     path_step K (s, h) (s\<lparr>pi_simulation_waiting := Suc (pi_simulation_waiting s)\<rparr>, h)"
| simulation_take:
    "pi_simulation_waiting s = Suc n \<Longrightarrow> bn_recv (pk_simulation K) (dp_simulation (pi_path s)) = (c, Some f) \<Longrightarrow>
     path_step K (s, h)
       (s\<lparr>pi_path := (pi_path s)\<lparr>dp_simulation := c\<rparr>, pi_simulating := pi_simulating s @ [f], pi_simulation_waiting := n\<rparr>, h)"
| simulation_timeout:
    "pi_simulation_waiting s = Suc n \<Longrightarrow> bn_recv (pk_simulation K) (dp_simulation (pi_path s)) = (c, None) \<Longrightarrow>
     path_step K (s, h) (s\<lparr>pi_path := (pi_path s)\<lparr>dp_simulation := c\<rparr>, pi_simulation_waiting := n\<rparr>, h)"
| simulation_done:
    "pi_simulating s = us @ f # vs \<Longrightarrow> simulation_stage K t f (pi_path s) = (p, d) \<Longrightarrow>
     path_step K (s, h)
       (s\<lparr>pi_path := p, pi_simulating := us @ vs\<rparr>,
        if d = PassedOn then h else h\<lparr>ph_dropped := ph_dropped h @ [fx_transaction f]\<rparr>)"
| bundle_wait:
    "worker_may_wait (dp_shutdown (pi_path s)) (tz_bundle_workers (stage_workers s)) (pi_bundle_waiting s)
       (length (pi_bundling s)) \<Longrightarrow>
     path_step K (s, h) (s\<lparr>pi_bundle_waiting := Suc (pi_bundle_waiting s)\<rparr>, h)"
| bundle_take:
    "pi_bundle_waiting s = Suc n \<Longrightarrow> bn_recv (pk_bundle K) (dp_bundle (pi_path s)) = (c, Some b) \<Longrightarrow>
     path_step K (s, h)
       (s\<lparr>pi_path := (pi_path s)\<lparr>dp_bundle := c\<rparr>, pi_bundling := pi_bundling s @ [b], pi_bundle_waiting := n\<rparr>, h)"
| bundle_timeout:
    "pi_bundle_waiting s = Suc n \<Longrightarrow> bn_recv (pk_bundle K) (dp_bundle (pi_path s)) = (c, None) \<Longrightarrow>
     path_step K (s, h) (s\<lparr>pi_path := (pi_path s)\<lparr>dp_bundle := c\<rparr>, pi_bundle_waiting := n\<rparr>, h)"
| bundle_done:
    "pi_bundling s = us @ b # vs \<Longrightarrow> bundle_stage K t b (pi_path s) = (p, r, sent) \<Longrightarrow>
     path_step K (s, h)
       (s\<lparr>pi_path := p, pi_bundling := us @ vs\<rparr>,
        h\<lparr>ph_decided := ph_decided h @ [b], ph_results := ph_results h @ [r],
          ph_sent := (if sent then ph_sent h @ [r] else ph_sent h)\<rparr>)"
| deliver_result:
    "bn_recv (pk_output K) (dp_output (pi_path s)) = (c, Some r) \<Longrightarrow>
     path_step K (s, h) (s\<lparr>pi_path := (pi_path s)\<lparr>dp_output := c\<rparr>\<rparr>, h\<lparr>ph_delivered := ph_delivered h @ [r]\<rparr>)"
| collect:
    "metrics_round now previous (pi_path s) = (p, r) \<Longrightarrow> path_step K (s, h) (s\<lparr>pi_path := p\<rparr>, h)"
| stop:
    "path_step K (s, h) (s\<lparr>pi_path := path_shutdown (pi_path s)\<rparr>, h)"

definition initial_pipeline ::
    "('f, 's, 'b, 'o) path_channels \<Rightarrow> DecisionPathConfig \<Rightarrow> MockStrategyEngine \<Rightarrow>
     ('f, 's, 'b, 'o) pipeline \<times> path_history" where
  "initial_pipeline K config engine =
     (\<lparr>pi_path = DecisionPath_new K config engine, pi_filtering = [], pi_simulating = [], pi_bundling = [],
       pi_filter_waiting = 0, pi_simulation_waiting = 0, pi_bundle_waiting = 0\<rparr>,
      empty_history)"

subsection \<open>Where the transactions are\<close>

text \<open>The contents of the channels, as lists.\<close>

record ('f, 's, 'b, 'o) path_views =
  vw_filter :: "'f \<Rightarrow> ParsedTransaction list"
  vw_simulation :: "'s \<Rightarrow> FilteredTransaction list"
  vw_bundle :: "'b \<Rightarrow> SimulatedTransaction list"
  vw_output :: "'o \<Rightarrow> DecisionResult list"

definition path_laws :: "('f, 's, 'b, 'o) path_channels \<Rightarrow> ('f, 's, 'b, 'o) path_views \<Rightarrow> bool" where
  "path_laws K V \<longleftrightarrow>
     (\<exists>cap. bounded_laws (pk_filter K) (vw_filter V) cap) \<and> (\<exists>cap. bounded_laws (pk_simulation K) (vw_simulation V) cap)
     \<and> (\<exists>cap. bounded_laws (pk_bundle K) (vw_bundle V) cap) \<and> (\<exists>cap. bounded_laws (pk_output K) (vw_output V) cap)"

definition sizes_positive :: "DecisionPathConfig \<Rightarrow> bool" where
  "sizes_positive config \<longleftrightarrow>
     (let z = dc_channel_buffer_sizes config
      in cz_filter_input z \<noteq> 0 \<and> cz_simulation_input z \<noteq> 0 \<and> cz_bundle_input z \<noteq> 0 \<and> cz_output z \<noteq> 0)"

text \<open>The transactions inside: waiting for a stage or in the hands of a worker.\<close>

definition in_flight ::
    "('f, 's, 'b, 'o) path_views \<Rightarrow> ('f, 's, 'b, 'o) pipeline \<Rightarrow> ParsedTransaction list" where
  "in_flight V s =
     vw_filter V (dp_filter (pi_path s)) @ pi_filtering s
     @ map fx_transaction (vw_simulation V (dp_simulation (pi_path s)) @ pi_simulating s)
     @ map st_transaction (vw_bundle V (dp_bundle (pi_path s)) @ pi_bundling s)"

lemma channel_facts:
  assumes "path_laws K V"
  shows "bn_try_send (pk_filter K) x c = (c', sent) \<Longrightarrow> vw_filter V c' = (if sent then vw_filter V c @ [x] else vw_filter V c)"
    and "bn_try_send (pk_simulation K) f d = (d', sent) \<Longrightarrow> vw_simulation V d' = (if sent then vw_simulation V d @ [f] else vw_simulation V d)"
    and "bn_try_send (pk_bundle K) b e = (e', sent) \<Longrightarrow> vw_bundle V e' = (if sent then vw_bundle V e @ [b] else vw_bundle V e)"
    and "bn_try_send (pk_output K) r g = (g', sent) \<Longrightarrow> vw_output V g' = (if sent then vw_output V g @ [r] else vw_output V g)"
    and "bn_recv (pk_filter K) c = (c', Some x) \<Longrightarrow> vw_filter V c = x # vw_filter V c'"
    and "bn_recv (pk_simulation K) d = (d', Some f) \<Longrightarrow> vw_simulation V d = f # vw_simulation V d'"
    and "bn_recv (pk_bundle K) e = (e', Some b) \<Longrightarrow> vw_bundle V e = b # vw_bundle V e'"
    and "bn_recv (pk_output K) g = (g', Some r) \<Longrightarrow> vw_output V g = r # vw_output V g'"
    and "bn_recv (pk_filter K) c = (c', None) \<Longrightarrow> vw_filter V c' = vw_filter V c"
    and "bn_recv (pk_simulation K) d = (d', None) \<Longrightarrow> vw_simulation V d' = vw_simulation V d"
    and "bn_recv (pk_bundle K) e = (e', None) \<Longrightarrow> vw_bundle V e' = vw_bundle V e"
  using assms unfolding path_laws_def by (auto dest: bounded_send bounded_recv bounded_recv_none)


subsection \<open>Invariants\<close>

lemmas stage_simps = path_process_transaction_def filter_stage_def simulation_stage_def bundle_stage_def
  metrics_round_def path_shutdown_def decision_of_def count_decision_def Let_def

definition conserved :: "('f, 's, 'b, 'o) path_views \<Rightarrow> ('f, 's, 'b, 'o) pipeline \<times> path_history \<Rightarrow> bool" where
  "conserved V x \<longleftrightarrow>
     (case x of (s, h) \<Rightarrow>
        mset (ph_accepted h) = mset (in_flight V s) + mset (ph_dropped h) + mset (map st_transaction (ph_decided h)))"

definition results_match :: "('f, 's, 'b, 'o) path_views \<Rightarrow> ('f, 's, 'b, 'o) pipeline \<times> path_history \<Rightarrow> bool" where
  "results_match V x \<longleftrightarrow>
     (case x of (s, h) \<Rightarrow>
        list_all2 (\<lambda>b r. \<exists>t. r = decision_of t b) (ph_decided h) (ph_results h)
        \<and> subseq (ph_sent h) (ph_results h) \<and> ph_sent h = ph_delivered h @ vw_output V (dp_output (pi_path s)))"

definition simulated_ok :: "MockStrategyEngine \<Rightarrow> SimulatedTransaction \<Rightarrow> bool" where
  "simulated_ok engine b \<longleftrightarrow>
     fast_filter (st_transaction b) \<and> st_opportunities b = evaluate_transaction engine (st_transaction b)"

definition stages_ok ::
    "('f, 's, 'b, 'o) path_views \<Rightarrow> MockStrategyEngine \<Rightarrow> ('f, 's, 'b, 'o) pipeline \<times> path_history \<Rightarrow> bool" where
  "stages_ok V engine x \<longleftrightarrow>
     (case x of (s, h) \<Rightarrow>
        dp_strategy_engine (pi_path s) = engine
        \<and> (\<forall>f \<in> set (vw_simulation V (dp_simulation (pi_path s))) \<union> set (pi_simulating s). fast_filter (fx_transaction f))
        \<and> (\<forall>b \<in> set (vw_bundle V (dp_bundle (pi_path s))) \<union> set (pi_bundling s) \<union> set (ph_decided h). simulated_ok engine b))"

definition counts_ok :: "('f, 's, 'b, 'o) pipeline \<times> path_history \<Rightarrow> bool" where
  "counts_ok x \<longleftrightarrow>
     (case x of (s, h) \<Rightarrow>
        dt_transactions_processed (dp_stats (pi_path s)) = word_of_nat (length (ph_decided h))
        \<and> dp_processed_count (pi_path s) = word_of_nat (length (ph_decided h))
        \<and> dt_opportunities_found (dp_stats (pi_path s)) =
            word_of_nat (sum_list (map (\<lambda>b. length (st_opportunities b)) (ph_decided h)))
        \<and> dt_bundles_created (dp_stats (pi_path s)) = 0 \<and> dt_timeout_count (dp_stats (pi_path s)) = 0
        \<and> dt_error_count (dp_stats (pi_path s)) = 0)"

lemma metrics_round_frame:
  assumes "metrics_round now previous q = (p, r)"
  shows "dp_filter p = dp_filter q \<and> dp_simulation p = dp_simulation q \<and> dp_bundle p = dp_bundle q \<and> dp_output p = dp_output q
    \<and> dp_strategy_engine p = dp_strategy_engine q \<and> dp_processed_count p = dp_processed_count q
    \<and> dp_shutdown p = dp_shutdown q
    \<and> dt_transactions_processed (dp_stats p) = dt_transactions_processed (dp_stats q)
    \<and> dt_opportunities_found (dp_stats p) = dt_opportunities_found (dp_stats q)
    \<and> dt_bundles_created (dp_stats p) = dt_bundles_created (dp_stats q)
    \<and> dt_timeout_count (dp_stats p) = dt_timeout_count (dp_stats q)
    \<and> dt_error_count (dp_stats p) = dt_error_count (dp_stats q)"
  using assms by (auto simp: metrics_round_def Let_def split: if_splits prod.splits run.splits)

lemma conserved_step:
  assumes laws: "path_laws K V" and "path_step K x y" and "conserved V x"
  shows "conserved V y"
  using assms(2,3)
proof (cases rule: path_step.cases)
  case (collect now previous s p r h)
  with assms(3) metrics_round_frame [OF collect(3)] show ?thesis
    by (simp add: conserved_def in_flight_def)
qed (auto simp: conserved_def in_flight_def stage_simps channel_facts [OF laws] split: prod.splits if_splits)

lemma results_match_step:
  assumes laws: "path_laws K V" and "path_step K x y" and "results_match V x"
  shows "results_match V y"
  using assms(2,3)
proof (cases rule: path_step.cases)
  case (collect now previous s p r h)
  with assms(3) metrics_round_frame [OF collect(3)] show ?thesis
    by (auto simp: results_match_def)
next
  case (bundle_done s us b vs t p r sent h)
  have r: "r = decision_of t b" "vw_output V (dp_output p) =
      (if sent then vw_output V (dp_output (pi_path s)) @ [r] else vw_output V (dp_output (pi_path s)))"
    using bundle_done(4) channel_facts(4) [OF laws] by (auto simp: bundle_stage_def Let_def split: prod.splits)
  have old: "list_all2 (\<lambda>b r. \<exists>t. r = decision_of t b) (ph_decided h) (ph_results h)"
      "subseq (ph_sent h) (ph_results h)" "ph_sent h = ph_delivered h @ vw_output V (dp_output (pi_path s))"
    using assms(3) bundle_done(1) by (auto simp: results_match_def)
  have "list_all2 (\<lambda>b r. \<exists>t. r = decision_of t b) (ph_decided h @ [b]) (ph_results h @ [r])"
    using old(1) r(1) by (intro list_all2_appendI) auto
  moreover have "subseq (ph_sent h @ [r]) (ph_results h @ [r])" "subseq (ph_sent h) (ph_results h @ [r])"
    using old(2) by (auto intro: list_emb_append_mono subseq_rev_drop_many)
  ultimately show ?thesis
    using bundle_done(2) old(3) r(2) by (cases sent) (simp_all add: results_match_def)
qed (auto simp: results_match_def path_process_transaction_def filter_stage_def simulation_stage_def
    path_shutdown_def Let_def channel_facts [OF laws] split: prod.splits if_splits)

lemma stages_ok_step:
  assumes laws: "path_laws K V" and "path_step K x y" and "stages_ok V engine x"
  shows "stages_ok V engine y"
  using assms(2,3)
proof (cases rule: path_step.cases)
  case (collect now previous s p r h)
  with assms(3) metrics_round_frame [OF collect(3)] show ?thesis
    by (auto simp: stages_ok_def)
qed (auto simp: stages_ok_def simulated_ok_def bundle_stage_def path_process_transaction_def filter_stage_def
    simulation_stage_def path_shutdown_def Let_def channel_facts [OF laws] split: prod.splits if_splits)

lemma counts_ok_step:
  assumes "path_step K x y" and "counts_ok x"
  shows "counts_ok y"
  using assms
proof (cases rule: path_step.cases)
  case (collect now previous s p r h)
  with assms(2) metrics_round_frame [OF collect(3)] show ?thesis
    by (auto simp: counts_ok_def)
qed (auto simp: counts_ok_def stage_simps split: prod.splits if_splits)

definition path_invariant ::
    "('f, 's, 'b, 'o) path_views \<Rightarrow> MockStrategyEngine \<Rightarrow> ('f, 's, 'b, 'o) pipeline \<times> path_history \<Rightarrow> bool" where
  "path_invariant V engine x \<longleftrightarrow> conserved V x \<and> results_match V x \<and> stages_ok V engine x \<and> counts_ok x"

lemma bounded_new_size:
  "bounded_laws B items cap \<Longrightarrow> k \<noteq> 0 \<Longrightarrow> items (bn_new B (unat (k :: usize))) = []"
  by (rule bounded_new) (simp_all add: unat_eq_0)

lemma path_invariant_initial:
  assumes "path_laws K V" and "sizes_positive config"
  shows "path_invariant V engine (initial_pipeline K config engine)"
proof -
  let ?z = "dc_channel_buffer_sizes config"
  have "vw_filter V (bn_new (pk_filter K) (unat (cz_filter_input ?z))) = []"
      "vw_simulation V (bn_new (pk_simulation K) (unat (cz_simulation_input ?z))) = []"
      "vw_bundle V (bn_new (pk_bundle K) (unat (cz_bundle_input ?z))) = []"
      "vw_output V (bn_new (pk_output K) (unat (cz_output ?z))) = []"
    using assms bounded_new_size unfolding path_laws_def sizes_positive_def Let_def by blast+
  then show ?thesis
    by (simp add: path_invariant_def conserved_def results_match_def stages_ok_def counts_ok_def initial_pipeline_def
        empty_history_def DecisionPath_new_def DecisionPathStats_default_def in_flight_def Let_def)
qed

lemma path_invariant_reachable:
  assumes "path_laws K V" and "sizes_positive config" and "(path_step K)\<^sup>*\<^sup>* (initial_pipeline K config engine) x"
  shows "path_invariant V engine x"
  using assms(3)
proof (induction rule: rtranclp_induct)
  case base
  show ?case
    by (rule path_invariant_initial [OF assms(1,2)])
next
  case (step y z)
  then show ?case
    by (auto simp: path_invariant_def intro: conserved_step [OF assms(1)] results_match_step [OF assms(1)]
        stages_ok_step [OF assms(1)] counts_ok_step)
qed

text \<open>C29: however the workers of the decision path interleave, no accepted transaction is lost from sight or
  decided twice: each is waiting or in the hands of a worker, or was dropped, or has been decided. The
  results that are delivered are, in order, those for which the output had room; the others are gone,
  although each was a success.\<close>

theorem decision_path_conserves:
  assumes "path_laws K V" and "sizes_positive config"
    and "(path_step K)\<^sup>*\<^sup>* (initial_pipeline K config engine) (s, h)"
  shows "mset (ph_accepted h) = mset (in_flight V s) + mset (ph_dropped h) + mset (map st_transaction (ph_decided h))
    \<and> list_all2 (\<lambda>b r. \<exists>t. r = decision_of t b) (ph_decided h) (ph_results h)
    \<and> subseq (ph_delivered h @ vw_output V (dp_output (pi_path s))) (ph_results h)"
  using path_invariant_reachable [OF assms] by (auto simp: path_invariant_def conserved_def results_match_def)

text \<open>every decision is about a transaction that the fast filter lets pass, with the opportunities the
  strategies find in it; the statistics count the decisions and their opportunities, whether or not a
  result could be sent, and never a bundle, a timeout or an error.\<close>

theorem decision_path_counts:
  assumes "path_laws K V" and "sizes_positive config"
    and "(path_step K)\<^sup>*\<^sup>* (initial_pipeline K config engine) (s, h)"
  shows "(\<forall>b \<in> set (ph_decided h). fast_filter (st_transaction b)
        \<and> st_opportunities b = evaluate_transaction engine (st_transaction b))
    \<and> dt_transactions_processed (dp_stats (pi_path s)) = word_of_nat (length (ph_decided h))
    \<and> dp_processed_count (pi_path s) = word_of_nat (length (ph_decided h))
    \<and> dt_opportunities_found (dp_stats (pi_path s)) =
        word_of_nat (sum_list (map (\<lambda>b. length (st_opportunities b)) (ph_decided h)))
    \<and> dt_bundles_created (dp_stats (pi_path s)) = 0 \<and> dt_timeout_count (dp_stats (pi_path s)) = 0
    \<and> dt_error_count (dp_stats (pi_path s)) = 0"
  using path_invariant_reachable [OF assms]
  by (auto simp: path_invariant_def stages_ok_def simulated_ok_def counts_ok_def)

subsection \<open>Shutdown\<close>

text \<open>\<open>left_behind n xs n' ys\<close>: of the elements \<open>xs\<close> at most \<open>n - n'\<close> have been taken, the first ones.\<close>

definition left_behind :: "nat \<Rightarrow> 'a list \<Rightarrow> nat \<Rightarrow> 'a list \<Rightarrow> bool" where
  "left_behind n xs n' ys \<longleftrightarrow> (\<exists>k. k + n' \<le> n \<and> prefix (drop k xs) ys)"

lemma left_behind_refl: "left_behind n xs n xs"
  by (auto simp: left_behind_def intro!: exI [of _ 0])

lemma left_behind_send: "left_behind n xs n (xs @ ys)"
  by (auto simp: left_behind_def intro!: exI [of _ 0])

lemma left_behind_take: "left_behind (Suc n) (x # xs) n xs"
  by (auto simp: left_behind_def intro!: exI [of _ 1])

lemma left_behind_timeout: "left_behind (Suc n) xs n xs"
  by (auto simp: left_behind_def intro!: exI [of _ 0])

lemma prefix_drop: "prefix xs ys \<Longrightarrow> prefix (drop k xs) (drop k ys)"
  by (auto simp: prefix_def)

lemma left_behind_trans:
  assumes "left_behind n xs m ys" and "left_behind m ys l zs"
  shows "left_behind n xs l zs"
proof -
  obtain i j where "i + m \<le> n" "prefix (drop i xs) ys" "j + l \<le> m" "prefix (drop j ys) zs"
    using assms by (auto simp: left_behind_def)
  then have "prefix (drop (j + i) xs) zs" "(j + i) + l \<le> n"
    using prefix_drop [of "drop i xs" ys j] by (auto intro: prefix_order.trans)
  then show ?thesis
    unfolding left_behind_def by blast
qed

lemmas left_behind_intros = left_behind_refl left_behind_send left_behind_take left_behind_timeout

definition abandoned ::
    "('f, 's, 'b, 'o) path_views \<Rightarrow> ('f, 's, 'b, 'o) pipeline \<Rightarrow> ('f, 's, 'b, 'o) pipeline \<Rightarrow> bool" where
  "abandoned V s s' \<longleftrightarrow>
     left_behind (pi_filter_waiting s) (vw_filter V (dp_filter (pi_path s)))
       (pi_filter_waiting s') (vw_filter V (dp_filter (pi_path s')))
     \<and> left_behind (pi_simulation_waiting s) (vw_simulation V (dp_simulation (pi_path s)))
       (pi_simulation_waiting s') (vw_simulation V (dp_simulation (pi_path s')))
     \<and> left_behind (pi_bundle_waiting s) (vw_bundle V (dp_bundle (pi_path s)))
       (pi_bundle_waiting s') (vw_bundle V (dp_bundle (pi_path s')))"

definition can_decide :: "('f, 's, 'b, 'o) pipeline \<times> path_history \<Rightarrow> nat" where
  "can_decide x = (case x of (s, h) \<Rightarrow> length (ph_decided h) + length (pi_bundling s) + pi_bundle_waiting s)"

lemma shutdown_step:
  assumes laws: "path_laws K V" and "path_step K (s, h) (s', h')" and "dp_shutdown (pi_path s)"
  shows "dp_shutdown (pi_path s') \<and> abandoned V s s' \<and> can_decide (s', h') \<le> can_decide (s, h)"
  using assms(2,3)
proof (cases rule: path_step.cases)
  case (collect now previous p r)
  with assms(3) metrics_round_frame [OF collect(3)] show ?thesis
    by (simp add: abandoned_def can_decide_def left_behind_refl)
qed (auto simp: bundle_stage_def path_process_transaction_def filter_stage_def simulation_stage_def worker_may_wait_def
    path_shutdown_def abandoned_def can_decide_def Let_def channel_facts [OF laws]
    split: prod.splits if_splits intro: left_behind_intros)

text \<open>After a shutdown each worker that was already waiting for an element takes at most one more. Whatever
  else waits in a channel stays there for ever, though the path goes on accepting transactions; all that is
  still decided was in the hands of the last stage or is taken by such a worker of it.\<close>

theorem shutdown_abandons_waiting:
  assumes laws: "path_laws K V" and "(path_step K)\<^sup>*\<^sup>* (s, h) (s', h')" and "dp_shutdown (pi_path s)"
  shows "abandoned V s s' \<and> can_decide (s', h') \<le> can_decide (s, h)"
proof -
  have "dp_shutdown (pi_path s') \<and> abandoned V s s' \<and> can_decide (s', h') \<le> can_decide (s, h)"
    using assms(2)
  proof (induction "(s', h')" arbitrary: s' h' rule: rtranclp_induct)
    case base
    with assms(3) show ?case
      by (simp add: abandoned_def left_behind_refl)
  next
    case (step y)
    obtain s1 h1 where y: "y = (s1, h1)"
      by (cases y)
    from step.hyps(3) [OF y] shutdown_step [OF laws step.hyps(2) [unfolded y]] show ?case
      unfolding abandoned_def by (blast intro: left_behind_trans order_trans)
  qed
  then show ?thesis
    by blast
qed

subsection \<open>Starting\<close>

lemma worker_cores_Ret: "cores \<noteq> [] \<Longrightarrow> \<exists>cs. worker_cores cores is = Ret cs \<and> length cs = length is"
  by (induction "is") (auto simp: worker_core_def)

lemma worker_cores_empty: "worker_cores [] is = (if is = [] then Ret [] else Panic)"
  by (cases "is") (simp_all add: worker_core_def)

text \<open>with its default configuration the decision path panics when it is started exactly on a machine with
  a single processor: there is a simulation worker then, but no core to assign to it.\<close>

theorem default_start_panics_iff:
  "dp_start (DecisionPath_new K (DecisionPathConfig_default num_cpus) engine) = Panic \<longleftrightarrow> num_cpus = 1"
proof -
  let ?cores = "map word_of_nat [1..<unat (min num_cpus 4)] :: usize list"
  have empty: "?cores = [] \<longleftrightarrow> unat num_cpus \<le> 1"
    by (auto simp: min_def word_le_nat_alt)
  have start: "dp_start (DecisionPath_new K (DecisionPathConfig_default num_cpus) engine) = Panic \<longleftrightarrow>
      worker_cores ?cores [0..<unat (min num_cpus 4)] = Panic"
    by (cases "worker_cores ?cores [0..<unat (min num_cpus 4)]")
      (simp_all add: dp_start_def DecisionPath_new_def DecisionPathConfig_default_def Let_def)
  show ?thesis
  proof (cases "unat num_cpus \<le> 1")
    case True
    then have "num_cpus = 0 \<or> num_cpus = 1"
      by (auto simp: word_unat_eq_iff le_Suc_eq)
    moreover from True empty have "?cores = []"
      by blast
    ultimately show ?thesis
      using start by (auto simp only: worker_cores_empty) (simp_all add: min_def word_le_nat_alt)
  next
    case False
    then have "?cores \<noteq> []" "num_cpus \<noteq> 1"
      using empty by (blast, auto)
    with start worker_cores_Ret [of ?cores "[0..<unat (min num_cpus 4)]"] show ?thesis
      by auto
  qed
qed

text \<open>An order book transaction that the parser has read from a node never passes the fast filter.\<close>

lemma parsed_order_book_filtered:
  assumes "parse_transaction J d clock raw_tx = Ret (Inr tx)" and "px_target_type tx = OrderBook"
    and "js_field_str J ''value'' raw_tx = None \<or> (\<exists>r. js_field_str J ''value'' raw_tx = Some (''0x'' @ r))"
  shows "\<not> fast_filter tx"
proof -
  have "starts_with (tx_value (px_transaction tx)) ''0x''"
    using parsed_fields [OF assms(1)] assms(3) by (auto simp: js_str_or_def starts_with_def)
  with assms(2) show ?thesis
    by (simp add: fast_filter_def parse_u128_hex)
qed


subsection \<open>Witnesses\<close>

text \<open>A channel that is a list and its capacity.\<close>

definition bounded_list :: "('a list \<times> nat, 'a) bounded_ops" where
  "bounded_list =
     \<lparr>bn_new = (\<lambda>n. ([], n)),
      bn_try_send = (\<lambda>x (xs, n). if length xs < n then ((xs @ [x], n), True) else ((xs, n), False)),
      bn_recv = (\<lambda>(xs, n). case xs of [] \<Rightarrow> (([], n), None) | x # ys \<Rightarrow> ((ys, n), Some x))\<rparr>"

lemma bounded_list_laws: "bounded_laws bounded_list fst snd"
  by (auto simp: bounded_laws_def send_law_def recv_law_def bounded_list_def split: list.splits if_splits)

definition demo_channels where
  "demo_channels = \<lparr>pk_filter = bounded_list, pk_simulation = bounded_list, pk_bundle = bounded_list, pk_output = bounded_list\<rparr>"

definition demo_views where
  "demo_views = \<lparr>vw_filter = fst, vw_simulation = fst, vw_bundle = fst, vw_output = fst\<rparr>"

lemma demo_channels_laws: "path_laws demo_channels demo_views"
  unfolding path_laws_def demo_channels_def demo_views_def
  by simp (intro conjI; rule exI; rule bounded_list_laws)

definition demo_tx :: ParsedTransaction where
  "demo_tx =
     \<lparr>px_transaction =
        \<lparr>tx_hash = ''0x1'', tx_from = ''0x2'', tx_to = None, tx_value = ''0'', tx_gas_price = ''0'', tx_gas_limit = ''0'',
         tx_nonce = 0, tx_input = ''0x'', tx_timestamp = 0\<rparr>,
      px_decoded_input = None, px_target_type = UniswapV2, px_processing_time_ms = 0\<rparr>"

abbreviation demo_start where
  "demo_start \<equiv> initial_pipeline demo_channels (DecisionPathConfig_default 4) MockStrategyEngine_new"

lemmas demo_path_simps = initial_pipeline_def empty_history_def DecisionPath_new_def DecisionPathConfig_default_def
  demo_channels_def bounded_list_def path_process_transaction_def worker_may_wait_def filter_stage_def simulation_stage_def
  bundle_stage_def fast_filter_def demo_tx_def Let_def

text \<open>A worker that looks at the flag, waits and receives.\<close>

lemma filter_wait_take:
  assumes "worker_may_wait (dp_shutdown (pi_path s)) (tz_filter_workers (stage_workers s)) (pi_filter_waiting s)
      (length (pi_filtering s))"
    and "bn_recv (pk_filter K) (dp_filter (pi_path s)) = (c, Some tx)"
  shows "(path_step K)\<^sup>*\<^sup>* (s, h)
    (s\<lparr>pi_path := (pi_path s)\<lparr>dp_filter := c\<rparr>, pi_filtering := pi_filtering s @ [tx]\<rparr>, h)"
proof -
  let ?s = "s\<lparr>pi_filter_waiting := Suc (pi_filter_waiting s)\<rparr>"
  have "path_step K (?s, h) (?s\<lparr>pi_path := (pi_path ?s)\<lparr>dp_filter := c\<rparr>, pi_filtering := pi_filtering ?s @ [tx],
      pi_filter_waiting := pi_filter_waiting s\<rparr>, h)"
    by (rule path_step.filter_take) (simp_all add: assms(2))
  with path_step.filter_wait [OF assms(1), of K h] show ?thesis
    by (cases s) (simp add: converse_rtranclp_into_rtranclp r_into_rtranclp)
qed

lemma simulation_wait_take:
  assumes "worker_may_wait (dp_shutdown (pi_path s)) (tz_simulation_workers (stage_workers s)) (pi_simulation_waiting s)
      (length (pi_simulating s))"
    and "bn_recv (pk_simulation K) (dp_simulation (pi_path s)) = (c, Some f)"
  shows "(path_step K)\<^sup>*\<^sup>* (s, h)
    (s\<lparr>pi_path := (pi_path s)\<lparr>dp_simulation := c\<rparr>, pi_simulating := pi_simulating s @ [f]\<rparr>, h)"
proof -
  let ?s = "s\<lparr>pi_simulation_waiting := Suc (pi_simulation_waiting s)\<rparr>"
  have "path_step K (?s, h) (?s\<lparr>pi_path := (pi_path ?s)\<lparr>dp_simulation := c\<rparr>, pi_simulating := pi_simulating ?s @ [f],
      pi_simulation_waiting := pi_simulation_waiting s\<rparr>, h)"
    by (rule path_step.simulation_take) (simp_all add: assms(2))
  with path_step.simulation_wait [OF assms(1), of K h] show ?thesis
    by (cases s) (simp add: converse_rtranclp_into_rtranclp r_into_rtranclp)
qed

lemma bundle_wait_take:
  assumes "worker_may_wait (dp_shutdown (pi_path s)) (tz_bundle_workers (stage_workers s)) (pi_bundle_waiting s)
      (length (pi_bundling s))"
    and "bn_recv (pk_bundle K) (dp_bundle (pi_path s)) = (c, Some b)"
  shows "(path_step K)\<^sup>*\<^sup>* (s, h)
    (s\<lparr>pi_path := (pi_path s)\<lparr>dp_bundle := c\<rparr>, pi_bundling := pi_bundling s @ [b]\<rparr>, h)"
proof -
  let ?s = "s\<lparr>pi_bundle_waiting := Suc (pi_bundle_waiting s)\<rparr>"
  have "path_step K (?s, h) (?s\<lparr>pi_path := (pi_path ?s)\<lparr>dp_bundle := c\<rparr>, pi_bundling := pi_bundling ?s @ [b],
      pi_bundle_waiting := pi_bundle_waiting s\<rparr>, h)"
    by (rule path_step.bundle_take) (simp_all add: assms(2))
  with path_step.bundle_wait [OF assms(1), of K h] show ?thesis
    by (cases s) (simp add: converse_rtranclp_into_rtranclp r_into_rtranclp)
qed

lemma demo_decided:
  "\<exists>s h. (path_step demo_channels)\<^sup>*\<^sup>* demo_start (s, h) \<and> length (ph_decided h) = 1"
proof -
  obtain s0 h0 where x0: "demo_start = (s0, h0)"
    by (cases "demo_start")
  define s1 where "s1 = s0\<lparr>pi_path := (pi_path s0)\<lparr>dp_filter := ([demo_tx], 1000)\<rparr>\<rparr>"
  define h1 where "h1 = h0\<lparr>ph_accepted := [demo_tx]\<rparr>"
  have "path_step demo_channels (s0, h0) (s1, h1)"
    using path_step.submit [of demo_channels demo_tx s0 "pi_path s1" True "Inr ()" h0] x0
    by (auto simp: s1_def h1_def demo_path_simps)
  then have r1: "(path_step demo_channels)\<^sup>*\<^sup>* demo_start (s1, h1)"
    by (simp add: x0)
  define s2 where "s2 = s1\<lparr>pi_path := (pi_path s1)\<lparr>dp_filter := ([], 1000)\<rparr>, pi_filtering := [demo_tx]\<rparr>"
  have "(path_step demo_channels)\<^sup>*\<^sup>* (s1, h1) (s2, h1)"
    using filter_wait_take [of s1 demo_channels "([], 1000)" demo_tx h1] x0
    by (auto simp: s1_def s2_def demo_path_simps)
  with r1 have r2: "(path_step demo_channels)\<^sup>*\<^sup>* demo_start (s2, h1)"
    by (rule rtranclp_trans)
  define f where "f = \<lparr>fx_transaction = demo_tx, fx_filter_time_ms = Finite False 1, fx_priority = 128\<rparr>"
  define s3 where "s3 = s2\<lparr>pi_path := (pi_path s2)\<lparr>dp_simulation := ([f], 500)\<rparr>, pi_filtering := []\<rparr>"
  have "path_step demo_channels (s2, h1) (s3, h1)"
    using path_step.filter_done [of s2 "[]" demo_tx "[]" demo_channels "Finite False 1" "pi_path s3" PassedOn h1] x0
    by (auto simp: s1_def s2_def s3_def f_def demo_path_simps)
  with r2 have r3: "(path_step demo_channels)\<^sup>*\<^sup>* demo_start (s3, h1)"
    by (rule rtranclp.rtrancl_into_rtrancl)
  define s4 where "s4 = s3\<lparr>pi_path := (pi_path s3)\<lparr>dp_simulation := ([], 500)\<rparr>, pi_simulating := [f]\<rparr>"
  have "(path_step demo_channels)\<^sup>*\<^sup>* (s3, h1) (s4, h1)"
    using simulation_wait_take [of s3 demo_channels "([], 500)" f h1] x0
    by (auto simp: s1_def s2_def s3_def s4_def demo_path_simps)
  with r3 have r4: "(path_step demo_channels)\<^sup>*\<^sup>* demo_start (s4, h1)"
    by (rule rtranclp_trans)
  define b where "b = \<lparr>st_transaction = demo_tx, st_opportunities = [], st_simulation_time_ms = Finite False 1,
      st_filter_time_ms = Finite False 1\<rparr>"
  define s5 where "s5 = s4\<lparr>pi_path := (pi_path s4)\<lparr>dp_bundle := ([b], 100)\<rparr>, pi_simulating := []\<rparr>"
  have "path_step demo_channels (s4, h1) (s5, h1)"
    using path_step.simulation_done [of s4 "[]" f "[]" demo_channels "Finite False 1" "pi_path s5" PassedOn h1] x0
    by (auto simp: s1_def s2_def s3_def s4_def s5_def f_def b_def MockStrategyEngine_new_def demo_path_simps)
  with r4 have r5: "(path_step demo_channels)\<^sup>*\<^sup>* demo_start (s5, h1)"
    by (rule rtranclp.rtrancl_into_rtrancl)
  define s6 where "s6 = s5\<lparr>pi_path := (pi_path s5)\<lparr>dp_bundle := ([], 100)\<rparr>, pi_bundling := [b]\<rparr>"
  have "(path_step demo_channels)\<^sup>*\<^sup>* (s5, h1) (s6, h1)"
    using bundle_wait_take [of s5 demo_channels "([], 100)" b h1] x0
    by (auto simp: s1_def s2_def s3_def s4_def s5_def s6_def demo_path_simps)
  with r5 have r6: "(path_step demo_channels)\<^sup>*\<^sup>* demo_start (s6, h1)"
    by (rule rtranclp_trans)
  obtain p r sent where stage: "bundle_stage demo_channels (Finite False 1) b (pi_path s6) = (p, r, sent)"
    by (cases "bundle_stage demo_channels (Finite False 1) b (pi_path s6)")
  have "path_step demo_channels (s6, h1) (s6\<lparr>pi_path := p, pi_bundling := []\<rparr>,
      h1\<lparr>ph_decided := [b], ph_results := ph_results h1 @ [r], ph_sent := (if sent then ph_sent h1 @ [r] else ph_sent h1)\<rparr>)"
    using path_step.bundle_done [of s6 "[]" b "[]", OF _ stage, of h1] x0
    by (auto simp: s6_def h1_def initial_pipeline_def empty_history_def)
  with r6 have "(path_step demo_channels)\<^sup>*\<^sup>* demo_start (s6\<lparr>pi_path := p, pi_bundling := []\<rparr>,
      h1\<lparr>ph_decided := [b], ph_results := ph_results h1 @ [r], ph_sent := (if sent then ph_sent h1 @ [r] else ph_sent h1)\<rparr>)"
    by (rule rtranclp.rtrancl_into_rtrancl)
  then show ?thesis
    by (intro exI conjI) auto
qed

theorem decision_path_conserves_witness:
  "\<exists>s h. (path_step demo_channels)\<^sup>*\<^sup>* demo_start (s, h) \<and> length (ph_results h) = 1
     \<and> mset (ph_accepted h) = mset (in_flight demo_views s) + mset (ph_dropped h) + mset (map st_transaction (ph_decided h))"
proof -
  obtain s h where run: "(path_step demo_channels)\<^sup>*\<^sup>* demo_start (s, h)" "length (ph_decided h) = 1"
    using demo_decided by blast
  have "sizes_positive (DecisionPathConfig_default 4)"
    by (simp add: sizes_positive_def DecisionPathConfig_default_def Let_def)
  from decision_path_conserves [OF demo_channels_laws this run(1)] run show ?thesis
    by (metis list_all2_lengthD)
qed

theorem decision_path_counts_witness:
  "\<exists>s h. (path_step demo_channels)\<^sup>*\<^sup>* demo_start (s, h) \<and> dt_transactions_processed (dp_stats (pi_path s)) = 1"
proof -
  obtain s h where run: "(path_step demo_channels)\<^sup>*\<^sup>* demo_start (s, h)" "length (ph_decided h) = 1"
    using demo_decided by blast
  have "sizes_positive (DecisionPathConfig_default 4)"
    by (simp add: sizes_positive_def DecisionPathConfig_default_def Let_def)
  from decision_path_counts [OF demo_channels_laws this run(1)] run show ?thesis
    by (metis of_nat_1)
qed

theorem shutdown_abandons_waiting_witness:
  "\<exists>s s'. (path_step demo_channels)\<^sup>*\<^sup>* (s, empty_history) (s', empty_history) \<and> dp_shutdown (pi_path s)
     \<and> pi_filter_waiting s = 1 \<and> dp_filter (pi_path s) = ([demo_tx, demo_tx], 1000)
     \<and> pi_filtering s' = [demo_tx] \<and> dp_filter (pi_path s') = ([demo_tx], 1000) \<and> abandoned demo_views s s'"
proof -
  let ?p = "path_shutdown (DecisionPath_new demo_channels (DecisionPathConfig_default 4) [])
      \<lparr>dp_filter := ([demo_tx, demo_tx], 1000)\<rparr>"
  let ?s = "\<lparr>pi_path = ?p, pi_filtering = [], pi_simulating = [], pi_bundling = [],
      pi_filter_waiting = 1, pi_simulation_waiting = 0, pi_bundle_waiting = 0\<rparr>"
  let ?s' = "?s\<lparr>pi_path := ?p\<lparr>dp_filter := ([demo_tx], 1000)\<rparr>, pi_filtering := [demo_tx], pi_filter_waiting := 0\<rparr>"
  have "path_step demo_channels (?s, empty_history) (?s', empty_history)"
    using path_step.filter_take [of ?s 0 demo_channels "([demo_tx], 1000)" demo_tx empty_history]
    by (simp add: demo_channels_def bounded_list_def)
  then have run: "(path_step demo_channels)\<^sup>*\<^sup>* (?s, empty_history) (?s', empty_history)"
    by (rule r_into_rtranclp)
  have down: "dp_shutdown (pi_path ?s)"
    by (simp add: path_shutdown_def)
  have "abandoned demo_views ?s ?s'"
    using shutdown_abandons_waiting [OF demo_channels_laws run down] by blast
  with run down show ?thesis
    by (intro exI conjI) (assumption | simp)+
qed

end
