(* ===== verification/Decision_Manager.thy ===== *)
theory Decision_Manager
  imports Decision_Facts
begin

text \<open>
  The decision path manager of \<open>crates/mev-core/src/decision_path_manager.rs\<close>: counters around a decision path,
  the processor of its results and the periodic report. The bridge to the mempool and the monitoring of
  backpressure only log a line. Clocks are arguments.
\<close>

record DecisionPathManagerConfig =
  mk_decision_path :: DecisionPathConfig
  mk_mempool_endpoint :: string
  mk_enable_backpressure_monitoring :: bool
  mk_stats_reporting_interval_seconds :: u64

definition DecisionPathManagerConfig_default :: "usize \<Rightarrow> DecisionPathManagerConfig" where
  "DecisionPathManagerConfig_default num_cpus =
     \<lparr>mk_decision_path = DecisionPathConfig_default num_cpus, mk_mempool_endpoint = ''wss://api.hyperliquid.xyz/ws'',
      mk_enable_backpressure_monitoring = True, mk_stats_reporting_interval_seconds = 10\<rparr>"

record DecisionPathManagerStats =
  mx_mempool_transactions_received :: u64
  mx_decision_path_transactions_sent :: u64
  mx_decision_results_processed :: u64
  mx_opportunities_found :: u64
  mx_backpressure_events :: u64
  mx_average_end_to_end_latency_ms :: f64
  mx_throughput_tps :: f64
  mx_uptime_seconds :: u64

definition DecisionPathManagerStats_default :: DecisionPathManagerStats where
  "DecisionPathManagerStats_default =
     \<lparr>mx_mempool_transactions_received = 0, mx_decision_path_transactions_sent = 0, mx_decision_results_processed = 0,
      mx_opportunities_found = 0, mx_backpressure_events = 0, mx_average_end_to_end_latency_ms = Finite False 0,
      mx_throughput_tps = Finite False 0, mx_uptime_seconds = 0\<rparr>"

record ('f, 's, 'b, 'o) DecisionPathManager =
  mg_config :: DecisionPathManagerConfig
  mg_decision_path :: "('f, 's, 'b, 'o) DecisionPath"
  mg_stats :: DecisionPathManagerStats
  mg_start_time :: instant
  mg_shutdown :: bool
  mg_mempool_rx_count :: u64
  mg_decision_tx_count :: u64
  mg_results_count :: u64

definition DecisionPathManager_new ::
    "('f, 's, 'b, 'o) path_channels \<Rightarrow> instant \<Rightarrow> DecisionPathManagerConfig \<Rightarrow> ('f, 's, 'b, 'o) DecisionPathManager" where
  "DecisionPathManager_new K now config =
     \<lparr>mg_config = config, mg_decision_path = DecisionPath_new K (mk_decision_path config) MockStrategyEngine_new,
      mg_stats = DecisionPathManagerStats_default, mg_start_time = now, mg_shutdown = False,
      mg_mempool_rx_count = 0, mg_decision_tx_count = 0, mg_results_count = 0\<rparr>"

definition manager_process_transaction ::
    "('f, 's, 'b, 'o) path_channels \<Rightarrow> ParsedTransaction \<Rightarrow> ('f, 's, 'b, 'o) DecisionPathManager \<Rightarrow>
     ('f, 's, 'b, 'o) DecisionPathManager \<times> bool \<times> (string + unit)" where
  "manager_process_transaction K transaction m =
     (let m = m\<lparr>mg_mempool_rx_count := mg_mempool_rx_count m + 1\<rparr>
      in case path_process_transaction K transaction (mg_decision_path m) of
           (p, sent, Inr _) \<Rightarrow>
             (m\<lparr>mg_decision_path := p, mg_decision_tx_count := mg_decision_tx_count m + 1\<rparr>, sent, Inr ())
         | (p, sent, Inl e) \<Rightarrow> (m\<lparr>mg_decision_path := p\<rparr>, sent, Inl e))"

subsection \<open>Results\<close>

definition process_decision_result :: "DecisionResult \<Rightarrow> DecisionPathManagerStats \<Rightarrow> DecisionPathManagerStats" where
  "process_decision_result result s =
     (let n = mx_decision_results_processed s + 1
      in s\<lparr>mx_decision_results_processed := n,
           mx_opportunities_found := mx_opportunities_found s + word_of_nat (length (dr_opportunities result)),
           mx_average_end_to_end_latency_ms :=
             running_average (mx_average_end_to_end_latency_ms s) n (dr_processing_time_ms result)\<rparr>)"

text \<open>The processor of the results: receiving and counting one, then the statistics; the report may run between
  the two. The processor looks at the flag of the shutdown before it waits for a result, so that one may be
  received after a shutdown.\<close>

definition receive_result ::
    "('f, 's, 'b, 'o) path_channels \<Rightarrow> ('f, 's, 'b, 'o) DecisionPathManager \<Rightarrow>
     ('f, 's, 'b, 'o) DecisionPathManager \<times> DecisionResult option" where
  "receive_result K m =
     (case bn_recv (pk_output K) (dp_output (mg_decision_path m)) of
        (c, None) \<Rightarrow> (m\<lparr>mg_decision_path := (mg_decision_path m)\<lparr>dp_output := c\<rparr>\<rparr>, None)
      | (c, Some result) \<Rightarrow>
          (m\<lparr>mg_decision_path := (mg_decision_path m)\<lparr>dp_output := c\<rparr>, mg_results_count := mg_results_count m + 1\<rparr>,
           Some result))"

definition process_result ::
    "DecisionResult \<Rightarrow> ('f, 's, 'b, 'o) DecisionPathManager \<Rightarrow> ('f, 's, 'b, 'o) DecisionPathManager" where
  "process_result result m = m\<lparr>mg_stats := process_decision_result result (mg_stats m)\<rparr>"

subsection \<open>Reports\<close>

definition stats_report ::
    "instant \<Rightarrow> u64 \<times> u64 \<times> instant \<Rightarrow> ('f, 's, 'b, 'o) DecisionPathManager \<Rightarrow>
     ('f, 's, 'b, 'o) DecisionPathManager \<times> (u64 \<times> u64 \<times> instant)" where
  "stats_report now previous m =
     (case previous of
        (previous_mempool, previous_results, previous_time) \<Rightarrow>
          (let elapsed_secs = as_secs_f64 (elapsed now previous_time)
           in (if f64_lt (Finite False 0) elapsed_secs then
                 m\<lparr>mg_stats := (mg_stats m)\<lparr>
                     mx_mempool_transactions_received := mg_mempool_rx_count m,
                     mx_decision_path_transactions_sent := mg_decision_tx_count m,
                     mx_decision_results_processed := mg_results_count m,
                     mx_throughput_tps :=
                       f64_div (f64_of_nat (unat (mg_mempool_rx_count m - previous_mempool))) elapsed_secs,
                     mx_uptime_seconds := word_of_nat (elapsed now (mg_start_time m) div 1000000000)\<rparr>\<rparr>
               else m,
               (mg_mempool_rx_count m, mg_results_count m, now))))"

definition manager_get_stats :: "instant \<Rightarrow> ('f, 's, 'b, 'o) DecisionPathManager \<Rightarrow> DecisionPathManagerStats" where
  "manager_get_stats now m =
     (mg_stats m)\<lparr>mx_mempool_transactions_received := mg_mempool_rx_count m,
       mx_decision_path_transactions_sent := mg_decision_tx_count m,
       mx_decision_results_processed := mg_results_count m,
       mx_uptime_seconds := word_of_nat (elapsed now (mg_start_time m) div 1000000000)\<rparr>"

definition manager_shutdown :: "('f, 's, 'b, 'o) DecisionPathManager \<Rightarrow> ('f, 's, 'b, 'o) DecisionPathManager" where
  "manager_shutdown m = m\<lparr>mg_shutdown := True, mg_decision_path := path_shutdown (mg_decision_path m)\<rparr>"

subsection \<open>What the counters say\<close>

text \<open>Calls of the manager, one after another, with what the channels did with the transactions.\<close>

datatype manager_call = Process ParsedTransaction | Receive | Report instant "u64 \<times> u64 \<times> instant" | Work_on

text \<open>\<open>Work_on\<close> stands for whatever the workers of the path do to it in the meantime.\<close>

fun manager_run ::
    "('f, 's, 'b, 'o) path_channels \<Rightarrow> (('f, 's, 'b, 'o) DecisionPath \<Rightarrow> ('f, 's, 'b, 'o) DecisionPath) \<Rightarrow>
     manager_call list \<Rightarrow> ('f, 's, 'b, 'o) DecisionPathManager \<Rightarrow> ('f, 's, 'b, 'o) DecisionPathManager \<times> nat \<times> nat" where
  "manager_run K work [] m = (m, 0, 0)"
| "manager_run K work (Process tx # calls) m =
     (case manager_process_transaction K tx m of
        (m, sent, _) \<Rightarrow> (case manager_run K work calls m of (m, s, d) \<Rightarrow> if sent then (m, Suc s, d) else (m, s, Suc d)))"
| "manager_run K work (Receive # calls) m =
     (case receive_result K m of
        (m, None) \<Rightarrow> manager_run K work calls m
      | (m, Some result) \<Rightarrow> manager_run K work calls (process_result result m))"
| "manager_run K work (Report now previous # calls) m = manager_run K work calls (fst (stats_report now previous m))"
| "manager_run K work (Work_on # calls) m =
     manager_run K work calls (m\<lparr>mg_decision_path := work (mg_decision_path m)\<rparr>)"

lemma process_counts:
  "manager_process_transaction K tx m = (m', sent, r) \<Longrightarrow>
     r = Inr () \<and> mg_mempool_rx_count m' = mg_mempool_rx_count m + 1 \<and> mg_decision_tx_count m' = mg_decision_tx_count m + 1
     \<and> mg_stats m' = mg_stats m"
  by (auto simp: manager_process_transaction_def path_process_transaction_def Let_def split: prod.splits)

lemma receive_counts:
  "receive_result K m = (m', r) \<Longrightarrow>
     mg_mempool_rx_count m' = mg_mempool_rx_count m \<and> mg_decision_tx_count m' = mg_decision_tx_count m"
  by (auto simp: receive_result_def split: prod.splits option.splits)

lemma report_counts:
  "mg_mempool_rx_count (fst (stats_report now previous m)) = mg_mempool_rx_count m
   \<and> mg_decision_tx_count (fst (stats_report now previous m)) = mg_decision_tx_count m"
  by (auto simp: stats_report_def Let_def split: prod.splits)

text \<open>the number of transactions the manager reports as sent to the decision path is the number it has
  received: those the full channel of the path dropped are counted as sent.\<close>

theorem dropped_counted_as_sent:
  assumes "manager_run K work calls (DecisionPathManager_new K start config) = (m, sent, dropped)"
  shows "mx_decision_path_transactions_sent (manager_get_stats now m) = word_of_nat (sent + dropped)
    \<and> mx_mempool_transactions_received (manager_get_stats now m) = word_of_nat (sent + dropped)"
proof -
  have "manager_run K work calls m0 = (m, sent, dropped) \<Longrightarrow>
      mg_decision_tx_count m = mg_decision_tx_count m0 + word_of_nat (sent + dropped)
      \<and> mg_mempool_rx_count m = mg_mempool_rx_count m0 + word_of_nat (sent + dropped)" for m0
  proof (induction calls arbitrary: m0 m sent dropped)
    case (Cons c calls)
    show ?case
    proof (cases c)
      case (Process tx)
      obtain m1 ok r where step: "manager_process_transaction K tx m0 = (m1, ok, r)"
        by (cases "manager_process_transaction K tx m0")
      obtain m2 s d where rest: "manager_run K work calls m1 = (m2, s, d)"
        by (cases "manager_run K work calls m1")
      from Cons.IH [OF rest] process_counts [OF step] Cons.prems show ?thesis
        by (auto simp: Process step rest split: if_splits)
    next
      case Receive
      obtain m1 r where step: "receive_result K m0 = (m1, r)"
        by fastforce
      from receive_counts [OF step] Cons show ?thesis
        by (cases r) (auto simp: Receive step process_result_def)
    next
      case (Report now previous)
      with Cons report_counts [of now previous m0] show ?thesis
        by auto
    next
      case Work_on
      with Cons show ?thesis
        by auto
    qed
  qed simp
  from this [OF assms] show ?thesis
    by (simp add: manager_get_stats_def DecisionPathManager_new_def)
qed

text \<open>A report between the counting of a result and its statistics makes the average divide by one too many.\<close>

lemma report_between_counts_twice:
  assumes "bn_recv (pk_output K) (dp_output (mg_decision_path m)) = (c, Some result)"
    and "mx_decision_results_processed (mg_stats m) = mg_results_count m"
    and "f64_lt (Finite False 0) (as_secs_f64 (elapsed now t))"
  shows "mx_decision_results_processed
      (mg_stats (process_result result (fst (stats_report now (n, k, t) (fst (receive_result K m)))))) =
    mg_results_count m + 2"
  using assms by (simp add: receive_result_def process_result_def process_decision_result_def stats_report_def Let_def)


definition tiny_config :: DecisionPathManagerConfig where
  "tiny_config = (DecisionPathManagerConfig_default 4)\<lparr>mk_decision_path := (DecisionPathConfig_default 4)\<lparr>
     dc_channel_buffer_sizes :=
       \<lparr>cz_filter_input = 1, cz_simulation_input = 1, cz_bundle_input = 1, cz_output = 1\<rparr>\<rparr>\<rparr>"

theorem dropped_counted_as_sent_witness:
  "\<exists>m. manager_run demo_channels (\<lambda>p. p) [Process demo_tx, Process demo_tx] (DecisionPathManager_new demo_channels 0 tiny_config) = (m, 1, 1)
     \<and> mx_decision_path_transactions_sent (manager_get_stats 0 m) = 2"
proof -
  obtain m where run: "manager_run demo_channels (\<lambda>p. p) [Process demo_tx, Process demo_tx]
      (DecisionPathManager_new demo_channels 0 tiny_config) = (m, 1, 1)"
    by (simp add: manager_process_transaction_def path_process_transaction_def DecisionPathManager_new_def tiny_config_def
        DecisionPath_new_def demo_channels_def bounded_list_def Let_def)
  from dropped_counted_as_sent [OF run, of 0] run show ?thesis
    by (simp add: numeral_2_eq_2)
qed

end
