(* ===== verification/Latency_Monitor.thy ===== *)
theory Latency_Monitor
  imports Latency_Histogram Hash_Map Interfaces
begin

text \<open>
  The latency monitor of \<open>crates/mev-core/src/latency_monitor.rs\<close>: a histogram and a counter of violated
  targets for each category, filled in by a task that the constructor spawns. Clocks are arguments; Prometheus
  metrics and log output are left out.
\<close>

datatype LatencyCategory =
  MempoolDetection | FilterStage | SimulationStage | BundleStage | TotalDecisionLoop | EndToEnd

fun category_as_str :: "LatencyCategory \<Rightarrow> string" where
  "category_as_str MempoolDetection = ''mempool_detection''"
| "category_as_str FilterStage = ''filter_stage''"
| "category_as_str SimulationStage = ''simulation_stage''"
| "category_as_str BundleStage = ''bundle_stage''"
| "category_as_str TotalDecisionLoop = ''total_decision_loop''"
| "category_as_str EndToEnd = ''end_to_end''"

record LatencyMeasurement =
  lm_category :: LatencyCategory
  lm_latency_ms :: f64
  lm_timestamp :: instant
  lm_transaction_id :: string
  lm_metadata :: "(string, string) hash_map"

record CategoryStats =
  cs_category :: LatencyCategory
  cs_count :: u64
  cs_mean_ms :: f64
  cs_median_ms :: f64
  cs_p95_ms :: f64
  cs_p99_ms :: f64
  cs_min_ms :: f64
  cs_max_ms :: f64
  cs_std_dev_ms :: f64
  cs_target_ms :: f64
  cs_target_compliance_rate :: f64

record LatencyTargets =
  lt_mempool_detection_ms :: f64
  lt_filter_stage_ms :: f64
  lt_simulation_stage_ms :: f64
  lt_bundle_stage_ms :: f64
  lt_total_decision_loop_ms :: f64
  lt_end_to_end_ms :: f64

definition LatencyTargets_default :: LatencyTargets where
  "LatencyTargets_default =
     \<lparr>lt_mempool_detection_ms = Finite False 20, lt_filter_stage_ms = Finite False 5,
      lt_simulation_stage_ms = Finite False 15, lt_bundle_stage_ms = Finite False 5,
      lt_total_decision_loop_ms = Finite False 25, lt_end_to_end_ms = Finite False 45\<rparr>"

record LatencyMonitorConfig =
  lc_targets :: LatencyTargets
  lc_histogram_size :: usize
  lc_reporting_interval_seconds :: u64
  lc_enable_detailed_logging :: bool
  lc_alert_threshold_multiplier :: f64

definition LatencyMonitorConfig_default :: LatencyMonitorConfig where
  "LatencyMonitorConfig_default =
     \<lparr>lc_targets = LatencyTargets_default, lc_histogram_size = 10000, lc_reporting_interval_seconds = 30,
      lc_enable_detailed_logging = False, lc_alert_threshold_multiplier = Finite False 2\<rparr>"

record LatencyMonitor =
  ln_config :: LatencyMonitorConfig
  ln_histograms :: "(LatencyCategory, LatencyHistogram) hash_map"
  ln_measurements :: "LatencyMeasurement list"
  ln_total_measurements :: u64
  ln_target_violations :: "(LatencyCategory, u64) hash_map"
  ln_start_time :: instant

definition categories :: "LatencyCategory list" where
  "categories = [MempoolDetection, FilterStage, SimulationStage, BundleStage, TotalDecisionLoop, EndToEnd]"

definition LatencyMonitor_new :: "instant \<Rightarrow> LatencyMonitorConfig \<Rightarrow> LatencyMonitor" where
  "LatencyMonitor_new now config =
     \<lparr>ln_config = config, ln_histograms = hm_empty, ln_measurements = [], ln_total_measurements = 0,
      ln_target_violations = hm_empty, ln_start_time = now\<rparr>"

text \<open>The task the constructor spawns; it may run after the first records.\<close>

definition fill_in :: "LatencyMonitor \<Rightarrow> LatencyMonitor" where
  "fill_in m =
     m\<lparr>ln_histograms :=
          fold (\<lambda>c. hm_insert c (LatencyHistogram_new (lc_histogram_size (ln_config m)))) categories (ln_histograms m),
       ln_target_violations := fold (\<lambda>c. hm_insert c 0) categories (ln_target_violations m)\<rparr>"

fun target_of :: "LatencyCategory \<Rightarrow> LatencyTargets \<Rightarrow> f64" where
  "target_of MempoolDetection t = lt_mempool_detection_ms t"
| "target_of FilterStage t = lt_filter_stage_ms t"
| "target_of SimulationStage t = lt_simulation_stage_ms t"
| "target_of BundleStage t = lt_bundle_stage_ms t"
| "target_of TotalDecisionLoop t = lt_total_decision_loop_ms t"
| "target_of EndToEnd t = lt_end_to_end_ms t"

definition get_target_for_category :: "LatencyMonitor \<Rightarrow> LatencyCategory \<Rightarrow> f64" where
  "get_target_for_category m category = target_of category (lc_targets (ln_config m))"

text \<open>A panic of the histogram ends the call where it is.\<close>

definition record_latency ::
    "instant \<Rightarrow> LatencyCategory \<Rightarrow> f64 \<Rightarrow> string \<Rightarrow> (string, string) hash_map option \<Rightarrow> LatencyMonitor \<Rightarrow>
     LatencyMonitor \<times> unit run" where
  "record_latency now category latency_ms transaction_id metadata m =
     (case (case hm_get (ln_histograms m) category of
              None \<Rightarrow> (m, Ret ())
            | Some histogram \<Rightarrow>
                (case hist_record latency_ms histogram of
                   (histogram, r) \<Rightarrow> (m\<lparr>ln_histograms := hm_insert category histogram (ln_histograms m)\<rparr>, r))) of
        (m, Panic) \<Rightarrow> (m, Panic)
      | (m, Ret _) \<Rightarrow>
          (let m = (if f64_lt (get_target_for_category m category) latency_ms
                    then m\<lparr>ln_target_violations := hm_modify category (\<lambda>n. n + 1) (ln_target_violations m)\<rparr> else m);
               m = (if lc_enable_detailed_logging (ln_config m) then
                      (let measurements = ln_measurements m @
                             [\<lparr>lm_category = category, lm_latency_ms = latency_ms, lm_timestamp = now,
                               lm_transaction_id = transaction_id,
                               lm_metadata = (case metadata of Some d \<Rightarrow> d | None \<Rightarrow> hm_empty)\<rparr>]
                       in m\<lparr>ln_measurements :=
                              (if unat (lc_histogram_size (ln_config m)) < length measurements
                               then tl measurements else measurements)\<rparr>)
                    else m)
           in (m\<lparr>ln_total_measurements := ln_total_measurements m + 1\<rparr>, Ret ())))"

definition category_stats :: "LatencyMonitor \<Rightarrow> LatencyCategory \<Rightarrow> LatencyStats \<Rightarrow> u64 \<Rightarrow> CategoryStats" where
  "category_stats m category s violations =
     \<lparr>cs_category = category, cs_count = ls_count s, cs_mean_ms = ls_mean_ms s, cs_median_ms = ls_median_ms s,
      cs_p95_ms = ls_p95_ms s, cs_p99_ms = ls_p99_ms s, cs_min_ms = Finite False 0, cs_max_ms = Finite False 0,
      cs_std_dev_ms =
        (if 1 < ls_count s then f64_div (f64_sub (ls_p95_ms s) (ls_median_ms s)) (Finite False 2) else Finite False 0),
      cs_target_ms = get_target_for_category m category,
      cs_target_compliance_rate =
        (if 0 < ls_count s
         then f64_sub (Finite False 1)
                (f64_div (f64_of_nat (unat violations)) (f64_of_nat (unat (ls_count s))))
         else Finite False 1)\<rparr>"

definition monitor_get_stats :: "LatencyCategory \<Rightarrow> LatencyMonitor \<Rightarrow> LatencyMonitor \<times> CategoryStats option run" where
  "monitor_get_stats category m =
     (case hm_get (ln_histograms m) category of
        None \<Rightarrow> (m, Ret None)
      | Some histogram \<Rightarrow>
          (case hist_get_stats histogram of
             (histogram, r) \<Rightarrow>
               (let m = m\<lparr>ln_histograms := hm_insert category histogram (ln_histograms m)\<rparr>
                in (m, run_bind r (\<lambda>s.
                     Ret (map_option (category_stats m category s) (hm_get (ln_target_violations m) category)))))))"

record LatencyReport =
  lq_timestamp :: int
  lq_uptime_seconds :: u64
  lq_total_measurements :: u64
  lq_throughput :: f64
  lq_category_stats :: "(LatencyCategory, CategoryStats) hash_map"
  lq_targets :: LatencyTargets

fun report_categories ::
    "LatencyCategory list \<Rightarrow> LatencyMonitor \<Rightarrow> LatencyMonitor \<times> (LatencyCategory, CategoryStats) hash_map run" where
  "report_categories [] m = (m, Ret hm_empty)"
| "report_categories (c # cs) m =
     (case monitor_get_stats c m of
        (m, Panic) \<Rightarrow> (m, Panic)
      | (m, Ret stats) \<Rightarrow>
          (case report_categories cs m of
             (m, r) \<Rightarrow> (m, run_bind r (\<lambda>rest. Ret (case stats of Some s \<Rightarrow> hm_insert c s rest | None \<Rightarrow> rest)))))"

definition get_comprehensive_report :: "int \<Rightarrow> instant \<Rightarrow> LatencyMonitor \<Rightarrow> LatencyMonitor \<times> LatencyReport run" where
  "get_comprehensive_report utc now m =
     (case report_categories categories m of
        (m, r) \<Rightarrow>
          (let uptime = elapsed now (ln_start_time m)
           in (m, run_bind r (\<lambda>stats. Ret
                \<lparr>lq_timestamp = utc, lq_uptime_seconds = word_of_nat (uptime div 1000000000),
                 lq_total_measurements = ln_total_measurements m,
                 lq_throughput = f64_div (f64_of_nat (unat (ln_total_measurements m))) (as_secs_f64 uptime),
                 lq_category_stats = stats, lq_targets = lc_targets (ln_config m)\<rparr>))))"

text \<open>The loop over the histograms does nothing.\<close>

definition reset_stats :: "LatencyMonitor \<Rightarrow> LatencyMonitor" where
  "reset_stats m =
     m\<lparr>ln_target_violations := map (\<lambda>(c, n). (c, 0)) (ln_target_violations m), ln_measurements := [],
       ln_total_measurements := 0\<rparr>"

definition export_measurements :: "LatencyMonitor \<Rightarrow> LatencyMeasurement list" where
  "export_measurements m = ln_measurements m"

subsection \<open>Reading a report\<close>

definition all_targets_met :: "LatencyReport \<Rightarrow> bool" where
  "all_targets_met r = list_all (\<lambda>(c, s). f64_le (cs_median_ms s) (cs_target_ms s)) (lq_category_stats r)"

definition target_ratio :: "CategoryStats \<Rightarrow> f64" where
  "target_ratio s = f64_div (cs_median_ms s) (cs_target_ms s)"

text \<open>\<open>max_by\<close> keeps the last of several maxima; ratios that cannot be compared count as equal.\<close>

fun max_by_ratio :: "LatencyCategory \<times> CategoryStats \<Rightarrow> (LatencyCategory \<times> CategoryStats) list \<Rightarrow> LatencyCategory \<times> CategoryStats" where
  "max_by_ratio best [] = best"
| "max_by_ratio best (e # es) =
     max_by_ratio (if f64_lt (target_ratio (snd e)) (target_ratio (snd best)) then best else e) es"

text \<open>\<open>order\<close> is the order in which the map is iterated.\<close>

definition worst_performing_category ::
    "((LatencyCategory \<times> CategoryStats) list \<Rightarrow> (LatencyCategory \<times> CategoryStats) list) \<Rightarrow> LatencyReport \<Rightarrow>
     (LatencyCategory \<times> CategoryStats) option" where
  "worst_performing_category order r =
     (case order (lq_category_stats r) of [] \<Rightarrow> None | e # es \<Rightarrow> Some (max_by_ratio e es))"

definition performance_grade :: "LatencyReport \<Rightarrow> string" where
  "performance_grade r =
     (case hm_get (lq_category_stats r) TotalDecisionLoop of
        Some s \<Rightarrow>
          (let ratio = target_ratio s
           in if f64_le ratio (f64_lit ''0.8'') then ''A+ (Excellent)''
              else if f64_le ratio (f64_lit ''1.0'') then ''A (Good)''
              else if f64_le ratio (f64_lit ''1.2'') then ''B (Acceptable)''
              else if f64_le ratio (f64_lit ''1.5'') then ''C (Needs Improvement)''
              else ''D (Poor)'')
      | None \<Rightarrow> ''N/A'')"

text \<open>
  What the latency monitor has counted after any sequence of records, and what its compliance rate says.
\<close>

type_synonym latency_event = "instant \<times> LatencyCategory \<times> f64 \<times> string \<times> (string, string) hash_map option"

fun record_event :: "latency_event \<Rightarrow> LatencyMonitor \<Rightarrow> LatencyMonitor" where
  "record_event (now, c, x, i, d) m = fst (record_latency now c x i d m)"

definition latencies :: "LatencyCategory \<Rightarrow> latency_event list \<Rightarrow> f64 list" where
  "latencies c es = map (\<lambda>(now, c, x, i, d). x) (filter (\<lambda>(now, c', x, i, d). c' = c) es)"

definition violated :: "LatencyMonitorConfig \<Rightarrow> LatencyCategory \<Rightarrow> f64 list \<Rightarrow> nat" where
  "violated config c xs = length (filter (f64_lt (target_of c (lc_targets config))) xs)"

lemma latencies_snoc:
  "latencies c (es @ [(now, c', x, i, d)]) = (if c' = c then latencies c es @ [x] else latencies c es)"
  by (simp add: latencies_def)

lemma filled_in:
  "hm_get (ln_histograms (fill_in (LatencyMonitor_new start config))) c = Some (LatencyHistogram_new (lc_histogram_size config))
    \<and> hm_get (ln_target_violations (fill_in (LatencyMonitor_new start config))) c = Some 0
    \<and> ln_config (fill_in (LatencyMonitor_new start config)) = config
    \<and> ln_total_measurements (fill_in (LatencyMonitor_new start config)) = 0"
  by (cases c) (simp_all add: fill_in_def LatencyMonitor_new_def categories_def)

lemma hist_record_last_n:
  assumes "lh_max_samples h = k" and "k \<noteq> 0" and "lh_samples h = last_n (unat k) xs" and "\<not> lh_poisoned h"
  shows "hist_record x h = (h\<lparr>lh_samples := last_n (unat k) (xs @ [x])\<rparr>, Ret ())"
proof -
  have pos: "0 < unat k"
    using assms(2) by (simp add: unat_gt_0)
  show ?thesis
  proof (cases "unat k \<le> length (lh_samples h)")
    case True
    then have full: "unat k \<le> length xs" "lh_samples h = drop (length xs - unat k) xs"
      using assms(3) by (simp_all add: last_n_def)
    then obtain y ys where ys: "lh_samples h = y # ys"
      using pos True by (metis le_zero_eq length_0_conv less_numeral_extra(3) neq_Nil_conv)
    have "ys = drop (Suc (length xs - unat k)) xs"
      using full(2) ys by (metis drop_Suc list.sel(3) tl_drop)
    then have "last_n (unat k) (xs @ [x]) = ys @ [x]"
      using full(1) pos by (simp add: last_n_def Suc_diff_le)
    with True ys assms(1,4) show ?thesis
      by (simp add: hist_record_def)
  next
    case False
    then have "length xs < unat k" "lh_samples h = xs"
      using assms(3) by (simp_all add: last_n_def)
    with assms(1,4) False show ?thesis
      by (simp add: hist_record_def last_n_def)
  qed
qed

text \<open>After any sequence of records the histogram of a category holds its newest latencies in order, the
  counter of violations all the records above the target since the start, and the total every record.\<close>

lemma monitor_counts:
  assumes "lc_histogram_size config \<noteq> 0"
  shows "let m = fold record_event es (fill_in (LatencyMonitor_new start config))
    in hm_get (ln_histograms m) c =
         Some \<lparr>lh_samples = last_n (unat (lc_histogram_size config)) (latencies c es),
               lh_max_samples = lc_histogram_size config, lh_poisoned = False\<rparr>
       \<and> hm_get (ln_target_violations m) c = Some (word_of_nat (violated config c (latencies c es)))
       \<and> ln_total_measurements m = word_of_nat (length es)
       \<and> ln_config m = config"
proof (induction es arbitrary: c rule: rev_induct)
  case Nil
  show ?case
    using filled_in [of start config c] by (simp add: latencies_def violated_def last_n_def LatencyHistogram_new_def)
next
  case (snoc e es)
  obtain now c' x i d where e: "e = (now, c', x, i, d)"
    by (cases e)
  let ?m = "fold record_event es (fill_in (LatencyMonitor_new start config))"
  note IH = snoc [unfolded Let_def]
  have step: "hist_record x \<lparr>lh_samples = last_n (unat (lc_histogram_size config)) (latencies c' es),
        lh_max_samples = lc_histogram_size config, lh_poisoned = False\<rparr> =
      (\<lparr>lh_samples = last_n (unat (lc_histogram_size config)) (latencies c' es @ [x]),
        lh_max_samples = lc_histogram_size config, lh_poisoned = False\<rparr>, Ret ())"
    using hist_record_last_n [of "\<lparr>lh_samples = last_n (unat (lc_histogram_size config)) (latencies c' es),
        lh_max_samples = lc_histogram_size config, lh_poisoned = False\<rparr>" "lc_histogram_size config" "latencies c' es" x] assms
    by simp
  show ?case
    using IH [of c] IH [of c'] step
    by (cases "c' = c") (auto simp: e record_latency_def Let_def latencies_snoc violated_def get_target_for_category_def)
qed

subsection \<open>The compliance rate\<close>

lemma f64_of_nat_zero [simp]: "f64_of_nat 0 = Finite False 0"
  by (simp add: f64_of_nat_def f64_round_def)

lemma one_minus_rounded:
  assumes "2 \<le> q" and "q < 2 ^ 53"
  shows "f64_lt (f64_sub (Finite False 1) (f64_round False q)) (Finite False 0)"
proof -
  have eps: "pow2 (- 53) < 1 / 8"
    by (simp add: pow2_def)
  have range: "pow2 (- 1022) \<le> 1 / 2" "2 * 2 ^ 53 \<le> pow2 1023"
    using pow2_mono_iff [of "- 1022" "- 1"] pow2_mono_iff [of 54 1023] by (simp_all add: pow2_def)
  have "pow2 (- 1022) \<le> q" "q < pow2 1023"
    using range assms by linarith+
  from f64_round_error [OF this, of False] obtain r where
    r: "f64_round False q = Finite False r" "\<bar>r - q\<bar> \<le> q * pow2 (- 53)"
    by blast
  have "q * pow2 (- 53) \<le> q * (1 / 8)"
    using eps assms by (intro mult_left_mono) simp_all
  with r(2) have "\<bar>r - q\<bar> \<le> q * (1 / 8)"
    by (rule order_trans)
  then have "r - q \<le> q * (1 / 8)" "q - r \<le> q * (1 / 8)"
    by (simp_all only: abs_le_iff minus_diff_eq)
  then have lower: "3 / 2 \<le> r" and upper: "r < 2 * 2 ^ 53"
    using assms by linarith+
  have "pow2 (- 1022) \<le> r - 1" "r - 1 < pow2 1023"
    using range lower upper by linarith+
  from f64_round_error [OF this, of True] obtain t where
    t: "f64_round True (r - 1) = Finite True t" "\<bar>t - (r - 1)\<bar> \<le> (r - 1) * pow2 (- 53)"
    by blast
  have "(r - 1) * pow2 (- 53) \<le> (r - 1) * (1 / 8)"
    using eps lower by (intro mult_left_mono) simp_all
  with t(2) have "\<bar>t - (r - 1)\<bar> \<le> (r - 1) * (1 / 8)"
    by (rule order_trans)
  then have "(r - 1) - t \<le> (r - 1) * (1 / 8)"
    by (simp only: abs_le_iff minus_diff_eq)
  then have "(r - 1) * (7 / 8) \<le> t"
    by (simp add: algebra_simps)
  moreover have "0 < (r - 1) * (7 / 8)"
    using lower by simp
  ultimately have "0 < t"
    by linarith
  then show ?thesis
    using r(1) t(1) lower by (simp add: f64_sub_def signed_def Let_def)
qed

text \<open>From twice as many violations as samples on, the rate is negative.\<close>

lemma rate_negative:
  assumes "0 < n" and "2 * n \<le> v" and "v < 2 ^ 53"
  shows "f64_lt (f64_sub (Finite False 1) (f64_div (f64_of_nat v) (f64_of_nat n))) (Finite False 0)"
proof -
  have "of_nat (2 * n) \<le> (of_nat v :: rat)"
    using assms(2) by (simp only: of_nat_le_iff)
  then have two: "2 \<le> of_nat v / (of_nat n :: rat)"
    using assms(1) by (simp add: le_divide_eq)
  have "of_nat v < (of_nat (2 ^ 53) :: rat)"
    using assms(3) by (simp only: of_nat_less_iff)
  then have v: "of_nat v < (2 ^ 53 :: rat)"
    by simp
  have "(1 :: rat) \<le> of_nat n"
    using assms(1) by (simp add: Suc_le_eq)
  then have "of_nat v / of_nat n \<le> (of_nat v :: rat)"
    using mult_left_mono [of 1 "of_nat n" "of_nat v :: rat"] by (simp add: divide_le_eq)
  with v have "of_nat v / (of_nat n :: rat) < 2 ^ 53"
    by linarith
  from one_minus_rounded [OF two this] assms show ?thesis
    by (simp add: f64_of_nat_exact)
qed

lemma stats_of_run:
  assumes "lc_histogram_size config \<noteq> 0" and "latencies c es \<noteq> []"
    and "monitor_get_stats c (fold record_event es (fill_in (LatencyMonitor_new start config))) = (m', Ret (Some s))"
  shows "cs_target_compliance_rate s =
      f64_sub (Finite False 1)
        (f64_div (f64_of_nat (violated config c (latencies c es) mod 2 ^ 64))
          (f64_of_nat (min (unat (lc_histogram_size config)) (length (latencies c es)))))"
proof -
  let ?k = "unat (lc_histogram_size config)" and ?xs = "latencies c es"
  let ?m = "fold record_event es (fill_in (LatencyMonitor_new start config))"
  let ?h = "\<lparr>lh_samples = last_n ?k ?xs, lh_max_samples = lc_histogram_size config, lh_poisoned = False\<rparr>"
  have state: "hm_get (ln_histograms ?m) c = Some ?h"
      "hm_get (ln_target_violations ?m) c = Some (word_of_nat (violated config c ?xs))"
    using monitor_counts [OF assms(1), of es start c] by (simp_all add: Let_def)
  have "0 < ?k"
    using assms(1) by (simp add: unat_gt_0)
  then have ne: "last_n ?k ?xs \<noteq> []"
    using assms(2) length_last_n [of ?k ?xs] by (metis length_0_conv length_greater_0_conv min_less_iff_conj)
  obtain h r where stats: "hist_get_stats ?h = (h, r)"
    by fastforce
  with assms(3) state obtain ls where r: "r = Ret ls"
      "cs_target_compliance_rate s = cs_target_compliance_rate
        (category_stats ?m c ls (word_of_nat (violated config c ?xs)))"
    by (cases r) (auto simp: monitor_get_stats_def Let_def category_stats_def)
  have len: "length (last_n ?k ?xs) = min ?k (length ?xs)"
    by (rule length_last_n)
  have "?k < 2 ^ LENGTH(64)"
    by (rule unsigned_less)
  then have "min ?k (length ?xs) < 2 ^ 64"
    by simp
  then have "unat (word_of_nat (min ?k (length ?xs)) :: u64) = min ?k (length ?xs)"
    by (simp add: unat_of_nat)
  moreover have "ls_count ls = word_of_nat (min ?k (length ?xs))"
    using stats ne len r(1) by (auto simp: hist_get_stats_def Let_def sorted_stats_def split: if_splits)
  moreover have "0 < min ?k (length ?xs)"
    using \<open>0 < ?k\<close> assms(2) by simp
  ultimately show ?thesis
    using r(2) by (simp add: category_stats_def word_less_nat_alt unat_of_nat)
qed


text \<open>the compliance rate divides the violations since the start by the samples that are kept: when there
  have been twice as many violations as the histogram holds, the reported rate is negative, although it
  is meant to be the share of the measurements within the target.\<close>

theorem compliance_rate_negative:
  assumes "lc_histogram_size config \<noteq> 0" and "2 * unat (lc_histogram_size config) \<le> violated config c (latencies c es)"
    and "violated config c (latencies c es) < 2 ^ 53"
    and "monitor_get_stats c (fold record_event es (fill_in (LatencyMonitor_new start config))) = (m', Ret (Some s))"
  shows "f64_lt (cs_target_compliance_rate s) (Finite False 0)"
proof -
  let ?k = "unat (lc_histogram_size config)" and ?v = "violated config c (latencies c es)"
  have k: "0 < ?k"
    using assms(1) by (simp add: unat_gt_0)
  have "?v \<le> length (latencies c es)"
    by (simp add: violated_def)
  with k assms(2) have "latencies c es \<noteq> []" "min ?k (length (latencies c es)) = ?k"
    by auto
  moreover have "?v mod 2 ^ 64 = ?v"
    using assms(3) by simp
  ultimately show ?thesis
    using stats_of_run [OF assms(1) _ assms(4)] rate_negative [OF k assms(2,3)] by simp
qed

text \<open>A reset clears the counters and keeps the samples: the rate is one again, whatever the samples.\<close>

lemma reset_keeps_samples:
  "ln_histograms (reset_stats m) = ln_histograms m"
  "hm_get (ln_target_violations (reset_stats m)) c = map_option (\<lambda>_. 0) (hm_get (ln_target_violations m) c)"
  by (simp_all add: reset_stats_def hm_get_def map_of_map)

definition demo_monitor_config :: LatencyMonitorConfig where
  "demo_monitor_config = LatencyMonitorConfig_default\<lparr>lc_histogram_size := 1\<rparr>"

theorem compliance_rate_negative_witness:
  "\<exists>m' s. monitor_get_stats FilterStage
       (fold record_event [(0, FilterStage, Finite False 6, [], None), (0, FilterStage, Finite False 7, [], None)]
         (fill_in (LatencyMonitor_new 0 demo_monitor_config))) = (m', Ret (Some s))
     \<and> f64_lt (cs_target_compliance_rate s) (Finite False 0)"
proof -
  let ?es = "[(0, FilterStage, Finite False 6, [], None), (0, FilterStage, Finite False 7, [], None)]"
  let ?m = "fold record_event ?es (fill_in (LatencyMonitor_new 0 demo_monitor_config))"
  have n: "lc_histogram_size demo_monitor_config = 1"
    by (simp add: demo_monitor_config_def)
  have "hm_get (ln_histograms ?m) FilterStage =
      Some \<lparr>lh_samples = last_n 1 (latencies FilterStage ?es), lh_max_samples = 1, lh_poisoned = False\<rparr>"
      "hm_get (ln_target_violations ?m) FilterStage =
        Some (word_of_nat (violated demo_monitor_config FilterStage (latencies FilterStage ?es)))"
    using monitor_counts [of demo_monitor_config ?es 0 FilterStage] n by (simp_all add: Let_def)
  then obtain m' s where run: "monitor_get_stats FilterStage ?m = (m', Ret (Some s))"
    by (simp add: monitor_get_stats_def hist_get_stats_def latencies_def last_n_def Let_def)
  have "violated demo_monitor_config FilterStage (latencies FilterStage ?es) = 2"
    by (simp add: violated_def latencies_def demo_monitor_config_def LatencyMonitorConfig_default_def
        LatencyTargets_default_def signed_def)
  then have "f64_lt (cs_target_compliance_rate s) (Finite False 0)"
    using compliance_rate_negative [OF _ _ _ run] n by simp
  with run show ?thesis
    by blast
qed

end
