(* ===== verification/Core_Abi.thy ===== *)
theory Core_Abi
  imports Tx_Types Hex_Text Hash_Map F64_Text
begin

text \<open>
  The decoder of the core, \<open>crates/mev-core/src/abi_decoder.rs\<close>: the tables of selectors, the extraction of
  parameters at fixed byte positions, the statistics, the pool of decoder instances and the batches; and the
  binary RPC client of the same file. The crates \<open>hex\<close> and \<open>ethers\<close> format bytes: their operations are the
  record \<open>hex_ops\<close>. An address is the list of its bytes. The time a call takes is a parameter.
\<close>

record hex_ops =
  hx_encode :: "u8 list \<Rightarrow> string"
  hx_decode :: "string \<Rightarrow> u8 list option"
  hx_debug_address :: "u8 list \<Rightarrow> string"

text \<open>What the crates document: two lower-case digits for a byte.\<close>

definition hex_laws :: "hex_ops \<Rightarrow> bool" where
  "hex_laws X \<longleftrightarrow>
     (\<forall>bs. hx_encode X bs = bytes_hex bs) \<and> (\<forall>bs. hx_debug_address X bs = ''0x'' @ bytes_hex bs)"

subsection \<open>The tables\<close>

datatype Protocol = P_UniswapV2 | P_UniswapV3 | P_ERC20 | P_Curve | P_Balancer | P_Unknown

text \<open>The types of \<open>ethabi\<close> that the tables use.\<close>

datatype ParamType = PT_Address | PT_Uint nat | PT_Array ParamType

record ParamInfo =
  pi_name :: string
  pi_param_type :: ParamType
  pi_indexed :: bool

record FunctionInfo =
  fi_name :: string
  fi_signature :: string
  fi_inputs :: "ParamInfo list"
  fi_protocol :: Protocol

definition UNISWAP_V2_SIGNATURES :: "(string \<times> string) list" where
  "UNISWAP_V2_SIGNATURES =
     [(''swapExactETHForTokens'', ''0x7ff36ab5''), (''swapETHForExactTokens'', ''0xfb3bdb41''),
      (''swapExactTokensForETH'', ''0x18cbafe5''), (''swapTokensForExactETH'', ''0x4a25d94a''),
      (''swapExactTokensForTokens'', ''0x38ed1739''), (''swapTokensForExactTokens'', ''0x8803dbee''),
      (''addLiquidity'', ''0xe8e33700''), (''addLiquidityETH'', ''0xf305d719''),
      (''removeLiquidity'', ''0xbaa2abde''), (''removeLiquidityETH'', ''0x02751cec'')]"

definition UNISWAP_V3_SIGNATURES :: "(string \<times> string) list" where
  "UNISWAP_V3_SIGNATURES =
     [(''exactInputSingle'', ''0x414bf389''), (''exactInput'', ''0xc04b8d59''),
      (''exactOutputSingle'', ''0xdb3e2198''), (''exactOutput'', ''0xf28c0498''),
      (''multicall'', ''0xac9650d8''), (''mint'', ''0x88316456''), (''increaseLiquidity'', ''0x219f5d17''),
      (''decreaseLiquidity'', ''0x0c49ccbe''), (''collect'', ''0x4f1eb3d8''), (''burn'', ''0xa34123a7'')]"

definition ERC20_SIGNATURES :: "(string \<times> string) list" where
  "ERC20_SIGNATURES =
     [(''transfer'', ''0xa9059cbb''), (''transferFrom'', ''0x23b872dd''), (''approve'', ''0x095ea7b3''),
      (''balanceOf'', ''0x70a08231''), (''allowance'', ''0xdd62ed3e''), (''totalSupply'', ''0x18160ddd'')]"

definition CURVE_SIGNATURES :: "(string \<times> string) list" where
  "CURVE_SIGNATURES =
     [(''exchange'', ''0x3df02124''), (''exchange_underlying'', ''0xa6417ed6''),
      (''add_liquidity'', ''0x0b4c7e4d''), (''remove_liquidity'', ''0x5b36389c''),
      (''remove_liquidity_one_coin'', ''0x1a4d01d2''), (''get_dy'', ''0x5e0d443f''),
      (''get_dy_underlying'', ''0x07211ef7'')]"

definition get_function_inputs :: "string \<Rightarrow> Protocol \<Rightarrow> ParamInfo list" where
  "get_function_inputs function_name protocol =
     (if protocol = P_ERC20 \<and> function_name = ''transfer'' then
        [\<lparr>pi_name = ''to'', pi_param_type = PT_Address, pi_indexed = False\<rparr>,
         \<lparr>pi_name = ''amount'', pi_param_type = PT_Uint 256, pi_indexed = False\<rparr>]
      else if protocol = P_UniswapV2 \<and> function_name = ''swapExactETHForTokens'' then
        [\<lparr>pi_name = ''amountOutMin'', pi_param_type = PT_Uint 256, pi_indexed = False\<rparr>,
         \<lparr>pi_name = ''path'', pi_param_type = PT_Array PT_Address, pi_indexed = False\<rparr>,
         \<lparr>pi_name = ''to'', pi_param_type = PT_Address, pi_indexed = False\<rparr>,
         \<lparr>pi_name = ''deadline'', pi_param_type = PT_Uint 256, pi_indexed = False\<rparr>]
      else [])"

definition load_signatures ::
    "Protocol \<Rightarrow> (string \<times> string) list \<Rightarrow> (string, FunctionInfo) hash_map \<Rightarrow> (string, FunctionInfo) hash_map" where
  "load_signatures protocol table m =
     fold (\<lambda>(name, sig). hm_insert sig
        \<lparr>fi_name = name, fi_signature = sig, fi_inputs = get_function_inputs name protocol, fi_protocol = protocol\<rparr>)
       table m"

subsection \<open>The decoder\<close>

text \<open>An instance of the pool, with the tokens of \<open>ethabi\<close> it would hold.\<close>

record 'token DecoderInstance =
  de_id :: usize
  de_in_use :: bool
  de_token_buffer :: "'token list"
  de_param_buffer :: "DecodedParameter list"

record AbiDecoderStats =
  as_total_decodes :: u64
  as_successful_decodes :: u64
  as_cache_hits :: u64
  as_avg_decode_time_ns :: f64
  as_decoder_pool_utilization :: f64

definition AbiDecoderStats_default :: AbiDecoderStats where
  "AbiDecoderStats_default =
     \<lparr>as_total_decodes = 0, as_successful_decodes = 0, as_cache_hits = 0,
      as_avg_decode_time_ns = Finite False 0, as_decoder_pool_utilization = Finite False 0\<rparr>"

record 'token CoreDecoder =
  co_signature_map :: "(string, FunctionInfo) hash_map"
  co_decoder_pool :: "'token DecoderInstance list"
  co_stats :: AbiDecoderStats

definition CoreDecoder_new :: "'token CoreDecoder" where
  "CoreDecoder_new =
     \<lparr>co_signature_map =
        load_signatures P_Curve CURVE_SIGNATURES
          (load_signatures P_ERC20 ERC20_SIGNATURES
            (load_signatures P_UniswapV3 UNISWAP_V3_SIGNATURES
              (load_signatures P_UniswapV2 UNISWAP_V2_SIGNATURES hm_empty))),
      co_decoder_pool =
        map (\<lambda>n. \<lparr>de_id = word_of_nat n, de_in_use = False, de_token_buffer = [], de_param_buffer = []\<rparr>) [0..<10],
      co_stats = AbiDecoderStats_default\<rparr>"

definition uint_parameter :: "string \<Rightarrow> u8 list \<Rightarrow> DecodedParameter" where
  "uint_parameter name bs =
     \<lparr>dp_name = name, dp_param_type = ''uint256'', dp_value = u256_to_string (from_big_endian bs)\<rparr>"

definition address_parameter :: "hex_ops \<Rightarrow> string \<Rightarrow> u8 list \<Rightarrow> DecodedParameter" where
  "address_parameter X name bs =
     \<lparr>dp_name = name, dp_param_type = ''address'', dp_value = hx_debug_address X bs\<rparr>"

text \<open>\<open>&data[a..b]\<close>, which every use guards by the length.\<close>

definition bytes_at :: "nat \<Rightarrow> nat \<Rightarrow> u8 list \<Rightarrow> u8 list" where
  "bytes_at a b data = take (b - a) (drop a data)"

definition decode_function_simple :: "hex_ops \<Rightarrow> FunctionInfo \<Rightarrow> u8 list \<Rightarrow> DecodedInput" where
  "decode_function_simple X info param_data =
     \<lparr>di_function_name = fi_name info, di_function_signature = fi_signature info,
      di_parameters =
        (if fi_name info = ''transfer'' then
           if 64 \<le> length param_data then
             [address_parameter X ''to'' (bytes_at 12 32 param_data), uint_parameter ''amount'' (bytes_at 32 64 param_data)]
           else []
         else if fi_name info = ''swap'' \<or> fi_name info = ''swapExactTokensForTokens'' then
           if 64 \<le> length param_data then
             [uint_parameter ''amountIn'' (bytes_at 0 32 param_data),
              uint_parameter ''amountOutMin'' (bytes_at 32 64 param_data)]
           else []
         else if 32 \<le> length param_data then [uint_parameter ''param0'' (bytes_at 0 32 param_data)]
         else [])\<rparr>"

text \<open>An exponential average whose start is the value zero.\<close>

definition smoothed :: "f64 \<Rightarrow> f64 \<Rightarrow> f64" where
  "smoothed average x =
     (if f64_eq average (Finite False 0) then x
      else f64_add (f64_mul (f64_lit ''0.1'') x)
             (f64_mul (f64_sub (Finite False 1) (f64_lit ''0.1'')) average))"

definition update_avg_decode_time :: "f64 \<Rightarrow> AbiDecoderStats \<Rightarrow> AbiDecoderStats" where
  "update_avg_decode_time new_time_ns s =
     s\<lparr>as_avg_decode_time_ns := smoothed (as_avg_decode_time_ns s) new_time_ns\<rparr>"

definition count_total :: "AbiDecoderStats \<Rightarrow> AbiDecoderStats" where
  "count_total s = s\<lparr>as_total_decodes := as_total_decodes s + 1\<rparr>"

definition count_hit :: "AbiDecoderStats \<Rightarrow> AbiDecoderStats" where
  "count_hit s = s\<lparr>as_cache_hits := as_cache_hits s + 1\<rparr>"

definition count_success :: "AbiDecoderStats \<Rightarrow> AbiDecoderStats" where
  "count_success s = s\<lparr>as_successful_decodes := as_successful_decodes s + 1\<rparr>"

text \<open>The errors that the signature of the function allows never come up.\<close>

definition core_decode_input ::
    "hex_ops \<Rightarrow> duration \<Rightarrow> u8 list \<Rightarrow> 'token CoreDecoder \<Rightarrow> 'token CoreDecoder \<times> DecodedInput option" where
  "core_decode_input X time input_data d =
     (let d = d\<lparr>co_stats := count_total (co_stats d)\<rparr>
      in if length input_data < 4 then (d, None)
         else case hm_get (co_signature_map d) (''0x'' @ hx_encode X (take 4 input_data)) of
                None \<Rightarrow> (d, None)
              | Some info \<Rightarrow>
                  (let stats = count_success (count_hit (co_stats d))
                   in (d\<lparr>co_stats := update_avg_decode_time (f64_of_nat time) stats\<rparr>,
                       Some (decode_function_simple X info (drop 4 input_data)))))"

fun decode_batch ::
    "hex_ops \<Rightarrow> (duration \<times> u8 list) list \<Rightarrow> 'token CoreDecoder \<Rightarrow> 'token CoreDecoder \<times> DecodedInput option list" where
  "decode_batch X [] d = (d, [])"
| "decode_batch X ((time, input) # inputs) d =
     (case core_decode_input X time input d of
        (d, r) \<Rightarrow> (case decode_batch X inputs d of (d, rs) \<Rightarrow> (d, r # rs)))"

definition core_get_stats :: "'token CoreDecoder \<Rightarrow> AbiDecoderStats" where
  "core_get_stats d =
     (co_stats d)\<lparr>as_decoder_pool_utilization :=
        f64_div (f64_of_nat (length (filter de_in_use (co_decoder_pool d)))) (f64_of_nat (length (co_decoder_pool d)))\<rparr>"

text \<open>Warming up decodes two literals and stops at one that is not hexadecimal before any is decoded.\<close>

definition warmup_literals :: "string list" where
  "warmup_literals =
     [''a9059cbb000000000000000000000000742d35cc6634c0532925a3b8d4c9db96c4b5dd36000000000000000000000000000000000000000000000000000000000000000a'',
      ''7ff36ab50000000000000000000000000000000000000000000000000000000000000000000000000000000000000000000000000000000000000000000000000000008000000000000000000000000000000000000000000000000000000000000000000000000000000000000000000000000000000000000000000000000000000000'']"

definition warmup ::
    "hex_ops \<Rightarrow> duration \<Rightarrow> duration \<Rightarrow> 'token CoreDecoder \<Rightarrow> 'token CoreDecoder \<times> (string + unit)" where
  "warmup X time1 time2 d =
     (case those (map (hx_decode X) warmup_literals) of
        None \<Rightarrow> (d, Inl ''hex'')
      | Some inputs \<Rightarrow> (fst (decode_batch X (zip [time1, time2] inputs) d), Inr ()))"

subsection \<open>The pool of instances\<close>

text \<open>The first instance that is free is taken; the result is its position.\<close>

fun take_free :: "'token DecoderInstance list \<Rightarrow> 'token DecoderInstance list \<times> nat option" where
  "take_free [] = ([], None)"
| "take_free (i # is) =
     (if de_in_use i then (case take_free is of (is, n) \<Rightarrow> (i # is, map_option Suc n))
      else (i\<lparr>de_in_use := True, de_token_buffer := [], de_param_buffer := []\<rparr> # is, Some 0))"

definition get_decoder_instance :: "'token CoreDecoder \<Rightarrow> 'token CoreDecoder \<times> (string + nat)" where
  "get_decoder_instance d =
     (case take_free (co_decoder_pool d) of
        (pool, Some n) \<Rightarrow> (d\<lparr>co_decoder_pool := pool\<rparr>, Inr n)
      | (pool, None) \<Rightarrow> (d\<lparr>co_decoder_pool := pool\<rparr>, Inl ''No decoder instances available''))"

definition return_decoder_instance :: "'token DecoderInstance \<Rightarrow> 'token DecoderInstance" where
  "return_decoder_instance i = i\<lparr>de_in_use := False, de_token_buffer := [], de_param_buffer := []\<rparr>"

definition decode_with_instance :: "hex_ops \<Rightarrow> FunctionInfo \<Rightarrow> u8 list \<Rightarrow> DecodedInput" where
  "decode_with_instance X info param_data =
     \<lparr>di_function_name = fi_name info, di_function_signature = fi_signature info,
      di_parameters =
        (if fi_name info = ''transfer'' then
           if 64 \<le> length param_data then
             [address_parameter X ''to'' (bytes_at 12 32 param_data), uint_parameter ''amount'' (bytes_at 32 64 param_data)]
           else []
         else if fi_name info = ''swapExactETHForTokens'' then
           if 96 \<le> length param_data then
             [uint_parameter ''amountOutMin'' (bytes_at 0 32 param_data),
              address_parameter X ''to'' (bytes_at 44 64 param_data),
              uint_parameter ''deadline'' (bytes_at 64 96 param_data)]
           else []
         else [\<lparr>dp_name = ''data'', dp_param_type = ''bytes'', dp_value = hx_encode X param_data\<rparr>])\<rparr>"

subsection \<open>The binary RPC client\<close>

record BinaryRpcStats =
  bn_total_requests :: u64
  bn_successful_requests :: u64
  bn_avg_response_time_ms :: f64
  bn_bytes_sent :: u64
  bn_bytes_received :: u64

definition BinaryRpcStats_default :: BinaryRpcStats where
  "BinaryRpcStats_default =
     \<lparr>bn_total_requests = 0, bn_successful_requests = 0, bn_avg_response_time_ms = Finite False 0,
      bn_bytes_sent = 0, bn_bytes_received = 0\<rparr>"

definition request_text :: "hex_ops \<Rightarrow> string \<Rightarrow> u8 list \<Rightarrow> string" where
  "request_text X method params =
     ''{\"method\":\"'' @ method @ ''\",\"params\":\"'' @ hx_encode X params @ ''\"}''"

text \<open>The answer of the server to the text that was posted: sending can fail, and so can reading the body.\<close>

definition send_binary_request ::
    "hex_ops \<Rightarrow> (string \<Rightarrow> string + (string + u8 list)) \<Rightarrow> duration \<Rightarrow> string \<Rightarrow> u8 list \<Rightarrow> BinaryRpcStats \<Rightarrow>
     BinaryRpcStats \<times> (string + u8 list)" where
  "send_binary_request X post time method params s =
     (let s = s\<lparr>bn_total_requests := bn_total_requests s + 1\<rparr>;
          body = request_text X method params;
          s = s\<lparr>bn_bytes_sent := bn_bytes_sent s + word_of_nat (length body)\<rparr>
      in case post body of
           Inl e \<Rightarrow> (s, Inl e)
         | Inr (Inl e) \<Rightarrow> (s, Inl e)
         | Inr (Inr response) \<Rightarrow>
             (s\<lparr>bn_bytes_received := bn_bytes_received s + word_of_nat (length response),
                bn_avg_response_time_ms := smoothed (bn_avg_response_time_ms s) (elapsed_ms time),
                bn_successful_requests := bn_successful_requests s + 1\<rparr>, Inr response))"

end
