(* ===== verification/Optimized_Decoder.thy ===== *)
theory Optimized_Decoder
  imports Tx_Types Hex_Text Hash_Map F64_Text
begin

text \<open>
  The optimized decoder of the mempool, \<open>crates/mev-mempool/src/optimized_abi_decoder.rs\<close>: the cache of
  signatures keyed by the four bytes of a selector, decoding with the pool of buffers and the statistics, the
  conversion of tokens, and the operations on the cache. The crate \<open>ethabi\<close> decodes the arguments: its
  operations are the record \<open>ethabi_ops\<close>, over the type of its parameter kinds. Each lock is taken for one
  step and released; the time a call takes is a parameter.
\<close>

subsection \<open>The crate \<open>ethabi\<close>\<close>

datatype Token =
  Token_Address "u8 list"
| Token_FixedBytes "u8 list"
| Token_Bytes "u8 list"
| Token_Int u256
| Token_Uint u256
| Token_Bool bool
| Token_String string
| Token_FixedArray "Token list"
| Token_Array "Token list"
| Token_Tuple "Token list"

text \<open>The fields of a function that decoding its input reads: the name and the kind of each parameter.\<close>

record 'kind EthFunction =
  ef_name :: string
  ef_inputs :: "(string \<times> 'kind) list"

record 'kind ethabi_ops =
  ea_decode_input :: "'kind EthFunction \<Rightarrow> u8 list \<Rightarrow> string + Token list"
  ea_debug_kind :: "'kind \<Rightarrow> string"
  ea_debug_token :: "Token \<Rightarrow> string"
  ea_debug_address :: "u8 list \<Rightarrow> string"

text \<open>Decoding yields a token for each parameter of the function.\<close>

definition ethabi_laws :: "'kind ethabi_ops \<Rightarrow> bool" where
  "ethabi_laws A \<longleftrightarrow> (\<forall>f data tokens. ea_decode_input A f data = Inr tokens \<longrightarrow> length tokens = length (ef_inputs f))"

subsection \<open>Data\<close>

record 'kind CachedSignature =
  cs_signature :: string
  cs_selector :: "u8 list"
  cs_function :: "'kind EthFunction"
  cs_target_type :: TargetType
  cs_is_mev_relevant :: bool

datatype ParameterValue =
  PV_Address string
| PV_Uint256 string
| PV_Uint128 string
| PV_Uint64 u64
| PV_Uint32 u32
| PV_Bool bool
| PV_Bytes "u8 list"
| PV_String string
| PV_Array "ParameterValue list"
| PV_Tuple "ParameterValue list"

record OptimizedParameter =
  pm_name :: string
  pm_param_type :: string
  pm_value :: ParameterValue

record OptimizedDecodedCall =
  oc_function_name :: string
  oc_function_signature :: string
  oc_target_type :: TargetType
  oc_parameters :: "OptimizedParameter list"
  oc_is_mev_relevant :: bool
  oc_decode_time_ns :: u64

record FunctionDecoder =
  fd_buffer :: "u8 list"
  fd_token_buffer :: "Token list"

definition FunctionDecoder_new :: FunctionDecoder where
  "FunctionDecoder_new = \<lparr>fd_buffer = [], fd_token_buffer = []\<rparr>"

definition decoder_reset :: "FunctionDecoder \<Rightarrow> FunctionDecoder" where
  "decoder_reset d = d\<lparr>fd_buffer := [], fd_token_buffer := []\<rparr>"

subsection \<open>Statistics\<close>

record DecoderStats =
  ds_total_decodes :: u64
  ds_successful_decodes :: u64
  ds_cache_hits :: u64
  ds_cache_misses :: u64
  ds_total_decode_time_ns :: u64
  ds_avg_decode_time_ns :: f64

definition DecoderStats_default :: DecoderStats where
  "DecoderStats_default =
     \<lparr>ds_total_decodes = 0, ds_successful_decodes = 0, ds_cache_hits = 0, ds_cache_misses = 0,
      ds_total_decode_time_ns = 0, ds_avg_decode_time_ns = Finite False 0\<rparr>"

definition record_decode :: "bool \<Rightarrow> bool \<Rightarrow> u64 \<Rightarrow> DecoderStats \<Rightarrow> DecoderStats" where
  "record_decode success cache_hit decode_time_ns s =
     (let s = s\<lparr>ds_total_decodes := ds_total_decodes s + 1\<rparr>;
          s = (if success then s\<lparr>ds_successful_decodes := ds_successful_decodes s + 1\<rparr> else s);
          s = (if cache_hit then s\<lparr>ds_cache_hits := ds_cache_hits s + 1\<rparr>
               else s\<lparr>ds_cache_misses := ds_cache_misses s + 1\<rparr>);
          s = s\<lparr>ds_total_decode_time_ns := ds_total_decode_time_ns s + decode_time_ns\<rparr>
      in s\<lparr>ds_avg_decode_time_ns :=
             f64_div (f64_of_nat (unat (ds_total_decode_time_ns s))) (f64_of_nat (unat (ds_total_decodes s)))\<rparr>)"

definition rate_of :: "u64 \<Rightarrow> u64 \<Rightarrow> f64" where
  "rate_of part whole =
     (if 0 < whole then f64_div (f64_of_nat (unat part)) (f64_of_nat (unat whole)) else Finite False 0)"

definition get_success_rate :: "DecoderStats \<Rightarrow> f64" where
  "get_success_rate s = rate_of (ds_successful_decodes s) (ds_total_decodes s)"

definition get_cache_hit_rate :: "DecoderStats \<Rightarrow> f64" where
  "get_cache_hit_rate s = rate_of (ds_cache_hits s) (ds_cache_hits s + ds_cache_misses s)"

subsection \<open>The cache of signatures\<close>

record 'kind OptimizedDecoder =
  od_signature_cache :: "(u8 list, 'kind CachedSignature) hash_map"
  od_decoder_pool :: "FunctionDecoder list"
  od_stats :: DecoderStats

text \<open>Functions are entered without their parameters.\<close>

definition minimal_signature :: "string \<Rightarrow> u8 list \<Rightarrow> TargetType \<Rightarrow> bool \<Rightarrow> 'kind CachedSignature" where
  "minimal_signature name selector target_type is_mev_relevant =
     \<lparr>cs_signature = name @ ''(...)'', cs_selector = selector, cs_function = \<lparr>ef_name = name, ef_inputs = []\<rparr>,
      cs_target_type = target_type, cs_is_mev_relevant = is_mev_relevant\<rparr>"

definition mev_signatures :: "(string \<times> u8 list \<times> TargetType \<times> bool) list" where
  "mev_signatures =
     [(''swapExactTokensForTokens'', [0x38, 0xed, 0x17, 0x39], UniswapV2, True),
      (''swapTokensForExactTokens'', [0x88, 0x03, 0xdb, 0xee], UniswapV2, True),
      (''swapExactETHForTokens'', [0x7f, 0xf3, 0x6a, 0xb5], UniswapV2, True),
      (''exactInputSingle'', [0x41, 0x4b, 0xf3, 0x89], UniswapV3, True),
      (''transfer'', [0xa9, 0x05, 0x9c, 0xbb], Unknown, False),
      (''transferFrom'', [0x23, 0xb8, 0x72, 0xdd], Unknown, False),
      (''approve'', [0x09, 0x5e, 0xa7, 0xb3], Unknown, False)]"

definition initialize_mev_signatures :: "'kind OptimizedDecoder \<Rightarrow> 'kind OptimizedDecoder" where
  "initialize_mev_signatures d =
     d\<lparr>od_signature_cache :=
         fold (\<lambda>(name, selector, target_type, relevant).
             hm_insert selector (minimal_signature name selector target_type relevant))
           mev_signatures (od_signature_cache d)\<rparr>"

definition OptimizedDecoder_new :: "'kind OptimizedDecoder" where
  "OptimizedDecoder_new =
     initialize_mev_signatures
       \<lparr>od_signature_cache = hm_empty, od_decoder_pool = [], od_stats = DecoderStats_default\<rparr>"

definition od_add_function_signature ::
    "string \<Rightarrow> u8 list \<Rightarrow> TargetType \<Rightarrow> bool \<Rightarrow> 'kind OptimizedDecoder \<Rightarrow> 'kind OptimizedDecoder" where
  "od_add_function_signature name selector target_type is_mev_relevant d =
     d\<lparr>od_signature_cache :=
         hm_insert selector (minimal_signature name selector target_type is_mev_relevant) (od_signature_cache d)\<rparr>"

definition od_reset_stats :: "'kind OptimizedDecoder \<Rightarrow> 'kind OptimizedDecoder" where
  "od_reset_stats d = d\<lparr>od_stats := DecoderStats_default\<rparr>"

definition get_cache_size :: "'kind OptimizedDecoder \<Rightarrow> nat" where
  "get_cache_size d = hm_len (od_signature_cache d)"

subsection \<open>The pool of buffers\<close>

text \<open>\<open>pop\<close> and \<open>push\<close> work at the end of the vector.\<close>

definition get_decoder_from_pool :: "'kind OptimizedDecoder \<Rightarrow> 'kind OptimizedDecoder \<times> FunctionDecoder" where
  "get_decoder_from_pool d =
     (if od_decoder_pool d = [] then (d, FunctionDecoder_new)
      else (d\<lparr>od_decoder_pool := butlast (od_decoder_pool d)\<rparr>, List.last (od_decoder_pool d)))"

definition return_decoder_to_pool :: "FunctionDecoder \<Rightarrow> 'kind OptimizedDecoder \<Rightarrow> 'kind OptimizedDecoder" where
  "return_decoder_to_pool decoder d =
     (if length (od_decoder_pool d) < 10 then d\<lparr>od_decoder_pool := od_decoder_pool d @ [decoder_reset decoder]\<rparr> else d)"

subsection \<open>Decoding\<close>

text \<open>The conversion returns a \<open>Result\<close> that is always a value.\<close>

fun convert_token_to_value :: "'kind ethabi_ops \<Rightarrow> Token \<Rightarrow> ParameterValue" where
  "convert_token_to_value A (Token_Address a) = PV_Address (ea_debug_address A a)"
| "convert_token_to_value A (Token_Uint n) =
     (if unat n < 2 ^ 64 then
        if unat n < 2 ^ 32 then PV_Uint32 (ucast n) else PV_Uint64 (ucast n)
      else if unat n < 2 ^ 128 then PV_Uint128 (u256_to_string n)
      else PV_Uint256 (u256_to_string n))"
| "convert_token_to_value A (Token_Bool b) = PV_Bool b"
| "convert_token_to_value A (Token_Bytes bs) = PV_Bytes bs"
| "convert_token_to_value A (Token_String s) = PV_String s"
| "convert_token_to_value A (Token_Array ts) = PV_Array (map (convert_token_to_value A) ts)"
| "convert_token_to_value A (Token_Tuple ts) = PV_Tuple (map (convert_token_to_value A) ts)"
| "convert_token_to_value A t = PV_String (ea_debug_token A t)"

definition parameter_of :: "'kind ethabi_ops \<Rightarrow> 'kind EthFunction \<Rightarrow> nat \<Rightarrow> Token \<Rightarrow> OptimizedParameter" where
  "parameter_of A f i t =
     \<lparr>pm_name = (if i < length (ef_inputs f) then fst (ef_inputs f ! i) else ''param_'' @ dec_digits i),
      pm_param_type = (if i < length (ef_inputs f) then ea_debug_kind A (snd (ef_inputs f ! i)) else ''unknown''),
      pm_value = convert_token_to_value A t\<rparr>"

definition od_decode_parameters ::
    "'kind ethabi_ops \<Rightarrow> 'kind EthFunction \<Rightarrow> u8 list \<Rightarrow> FunctionDecoder \<Rightarrow>
     FunctionDecoder \<times> (string + OptimizedParameter list)" where
  "od_decode_parameters A f data decoder =
     (decoder_reset decoder,
      res_bind (ea_decode_input A f data) (\<lambda>tokens.
        Inr (map (\<lambda>(i, t). parameter_of A f i t) (enumerate 0 tokens))))"

definition od_record :: "bool \<Rightarrow> bool \<Rightarrow> u64 \<Rightarrow> 'kind OptimizedDecoder \<Rightarrow> 'kind OptimizedDecoder" where
  "od_record success cache_hit time d = d\<lparr>od_stats := record_decode success cache_hit time (od_stats d)\<rparr>"

text \<open>Neither does decoding a call return an error. The time is measured when the statistics are updated.\<close>

definition decode_function_call ::
    "'kind ethabi_ops \<Rightarrow> duration \<Rightarrow> u8 list \<Rightarrow> 'kind OptimizedDecoder \<Rightarrow>
     'kind OptimizedDecoder \<times> OptimizedDecodedCall option" where
  "decode_function_call A time calldata d =
     (let decode_time_ns = word_of_nat time
      in if length calldata < 4 then (d, None)
         else case hm_get (od_signature_cache d) (take 4 calldata) of
                None \<Rightarrow> (od_record False False decode_time_ns d, None)
              | Some sig_info \<Rightarrow>
                  (case get_decoder_from_pool d of
                     (d, decoder) \<Rightarrow>
                       (case od_decode_parameters A (cs_function sig_info) (drop 4 calldata) decoder of
                          (decoder, decode_result) \<Rightarrow>
                            (let d = return_decoder_to_pool decoder d
                             in case decode_result of
                                  Inr parameters \<Rightarrow>
                                    (od_record True True decode_time_ns d,
                                     Some \<lparr>oc_function_name = ef_name (cs_function sig_info),
                                       oc_function_signature = cs_signature sig_info,
                                       oc_target_type = cs_target_type sig_info, oc_parameters = parameters,
                                       oc_is_mev_relevant = cs_is_mev_relevant sig_info,
                                       oc_decode_time_ns = decode_time_ns\<rparr>)
                                | Inl e \<Rightarrow> (od_record False True decode_time_ns d, None)))))"

fun batch_decode ::
    "'kind ethabi_ops \<Rightarrow> (duration \<times> u8 list) list \<Rightarrow> 'kind OptimizedDecoder \<Rightarrow>
     'kind OptimizedDecoder \<times> OptimizedDecodedCall option list" where
  "batch_decode A [] d = (d, [])"
| "batch_decode A ((time, calldata) # calldatas) d =
     (case decode_function_call A time calldata d of
        (d, r) \<Rightarrow> (case batch_decode A calldatas d of (d, rs) \<Rightarrow> (d, r # rs)))"

end
