(* ===== verification/Decoder_Facts.thy ===== *)
theory Decoder_Facts
  imports Core_Abi Optimized_Decoder Tx_Parser F64_Order
begin

text \<open>
  What the three decoders make of the same calldata, and what their statistics count. The decoder of the
  mempool's parser reads text, the decoder of the core and the optimized decoder read bytes.
\<close>

subsection \<open>The decoder of the core\<close>

lemma core_decode_step:
  assumes "core_decode_input X time input d = (d', r)"
  shows "co_signature_map d' = co_signature_map d \<and> co_decoder_pool d' = co_decoder_pool d
    \<and> as_total_decodes (co_stats d') = as_total_decodes (co_stats d) + 1
    \<and> as_successful_decodes (co_stats d') = as_successful_decodes (co_stats d) + (if r = None then 0 else 1)
    \<and> as_cache_hits (co_stats d') = as_cache_hits (co_stats d) + (if r = None then 0 else 1)"
  using assms
  by (auto simp: core_decode_input_def count_total_def count_hit_def count_success_def
      update_avg_decode_time_def Let_def split: if_splits option.splits)

lemma core_batch_counts:
  "decode_batch X inputs d = (d', rs) \<Longrightarrow>
     co_signature_map d' = co_signature_map d \<and> co_decoder_pool d' = co_decoder_pool d
     \<and> length rs = length inputs
     \<and> as_total_decodes (co_stats d') = as_total_decodes (co_stats d) + word_of_nat (length inputs)
     \<and> as_successful_decodes (co_stats d') =
         as_successful_decodes (co_stats d) + word_of_nat (length (filter (\<lambda>r. r \<noteq> None) rs))
     \<and> as_cache_hits (co_stats d') = as_cache_hits (co_stats d) + word_of_nat (length (filter (\<lambda>r. r \<noteq> None) rs))"
proof (induction X inputs d arbitrary: d' rs rule: decode_batch.induct)
  case (2 X time input inputs d)
  obtain d1 r where 1: "core_decode_input X time input d = (d1, r)"
    by fastforce
  moreover obtain d2 rs' where 2: "decode_batch X inputs d1 = (d2, rs')"
    by fastforce
  ultimately have "d' = d2" "rs = r # rs'"
    using "2.prems" by simp_all
  with "2.IH" [OF 1 [symmetric] 2] core_decode_step [OF 1] show ?case
    by simp
qed simp

lemma core_stats_start [simp]:
  "as_total_decodes (co_stats CoreDecoder_new) = 0" "as_successful_decodes (co_stats CoreDecoder_new) = 0"
  "as_cache_hits (co_stats CoreDecoder_new) = 0"
  by (simp_all add: CoreDecoder_new_def AbiDecoderStats_default_def)

lemma core_pool_idle: "filter de_in_use (co_decoder_pool CoreDecoder_new) = []" "length (co_decoder_pool CoreDecoder_new) = 10"
  by (auto simp: CoreDecoder_new_def filter_empty_conv)

text \<open>a batch gives a result for every input; the statistics count every input as a decode, and as many
  successes as hits, each of them a result; none of the instances of the pool is ever in use.\<close>

theorem core_decoder_counts:
  assumes "decode_batch X inputs CoreDecoder_new = (d, rs)"
  shows "length rs = length inputs
    \<and> as_total_decodes (core_get_stats d) = word_of_nat (length inputs)
    \<and> as_successful_decodes (core_get_stats d) = word_of_nat (length (filter (\<lambda>r. r \<noteq> None) rs))
    \<and> as_cache_hits (core_get_stats d) = as_successful_decodes (core_get_stats d)
    \<and> as_decoder_pool_utilization (core_get_stats d) = Finite False 0"
proof -
  have "f64_div (f64_of_nat 0) (f64_of_nat 10) = Finite False 0"
    using f64_of_nat_exact [of 0] f64_of_nat_exact [of 10] by (simp add: f64_round_def)
  with core_batch_counts [OF assms] show ?thesis
    by (simp add: core_get_stats_def core_pool_idle)
qed

subsection \<open>The optimized decoder\<close>

text \<open>The decoders that the operations reach, with the calls decoded since the statistics were reset.\<close>

inductive od_reachable :: "'kind ethabi_ops \<Rightarrow> nat \<Rightarrow> 'kind OptimizedDecoder \<Rightarrow> bool" for A where
  od_start: "od_reachable A 0 OptimizedDecoder_new"
| od_decoded: "od_reachable A n d \<Longrightarrow> od_reachable A (Suc n) (fst (decode_function_call A time calldata d))"
| od_added: "od_reachable A n d \<Longrightarrow> od_reachable A n (od_add_function_signature name selector target relevant d)"
| od_cleared: "od_reachable A n d \<Longrightarrow> od_reachable A 0 (od_reset_stats d)"

definition bare_cache :: "'kind OptimizedDecoder \<Rightarrow> bool" where
  "bare_cache d \<longleftrightarrow> (\<forall>k s. hm_get (od_signature_cache d) k = Some s \<longrightarrow> ef_inputs (cs_function s) = [] \<and> cs_selector s = k)"

definition pool_clean :: "'kind OptimizedDecoder \<Rightarrow> bool" where
  "pool_clean d \<longleftrightarrow> length (od_decoder_pool d) \<le> 10 \<and> set (od_decoder_pool d) \<subseteq> {FunctionDecoder_new}"

definition stats_balance :: "nat \<Rightarrow> DecoderStats \<Rightarrow> bool" where
  "stats_balance n s \<longleftrightarrow>
     (\<exists>success hits misses. success \<le> hits \<and> hits + misses \<le> n
        \<and> ds_successful_decodes s = word_of_nat success \<and> ds_cache_hits s = word_of_nat hits
        \<and> ds_cache_misses s = word_of_nat misses \<and> ds_total_decodes s = word_of_nat (hits + misses))"

lemma bare_insert:
  "bare_cache d \<Longrightarrow> bare_cache (d\<lparr>od_signature_cache := hm_insert k (minimal_signature name k t m) (od_signature_cache d)\<rparr>)"
  by (auto simp: bare_cache_def minimal_signature_def)

lemma bare_load:
  "bare_cache d \<Longrightarrow> bare_cache (d\<lparr>od_signature_cache :=
     fold (\<lambda>(name, selector, t, m). hm_insert selector (minimal_signature name selector t m)) xs (od_signature_cache d)\<rparr>)"
proof (induction xs arbitrary: d)
  case (Cons x xs)
  obtain name k t m where x: "x = (name, k, t, m)"
    by (cases x) auto
  from Cons.IH [OF bare_insert [OF Cons.prems]] show ?case
    by (simp add: x)
qed (simp add: bare_cache_def)

lemma bare_new: "bare_cache OptimizedDecoder_new"
  unfolding OptimizedDecoder_new_def initialize_mev_signatures_def
  by (rule bare_load) (simp add: bare_cache_def)

lemma optimized_start [simp]:
  "od_decoder_pool OptimizedDecoder_new = []" "od_stats OptimizedDecoder_new = DecoderStats_default"
  by (simp_all add: OptimizedDecoder_new_def initialize_mev_signatures_def)

lemma decoder_reset_new [simp]: "decoder_reset x = FunctionDecoder_new"
  by (cases x) (simp add: decoder_reset_def FunctionDecoder_new_def)

lemma stats_balance_record:
  assumes "stats_balance n s" and "success \<longrightarrow> hit"
  shows "stats_balance (Suc n) (record_decode success hit time s)"
proof -
  from assms(1) obtain a h m where *: "a \<le> h" "h + m \<le> n" "ds_successful_decodes s = word_of_nat a"
      "ds_cache_hits s = word_of_nat h" "ds_cache_misses s = word_of_nat m" "ds_total_decodes s = word_of_nat (h + m)"
    unfolding stats_balance_def by blast
  let ?a = "if success then Suc a else a" and ?h = "if hit then Suc h else h" and ?m = "if hit then m else Suc m"
  have "?a \<le> ?h" "?h + ?m \<le> Suc n"
    using * assms(2) by auto
  moreover have "ds_successful_decodes (record_decode success hit time s) = word_of_nat ?a"
      "ds_cache_hits (record_decode success hit time s) = word_of_nat ?h"
      "ds_cache_misses (record_decode success hit time s) = word_of_nat ?m"
      "ds_total_decodes (record_decode success hit time s) = word_of_nat (?h + ?m)"
    using * by (simp_all add: record_decode_def Let_def algebra_simps)
  ultimately show ?thesis
    unfolding stats_balance_def by blast
qed

lemma decode_call_cases [consumes 1, case_names short unknown failed decoded]:
  assumes "decode_function_call A time calldata d = (d', r)"
  obtains "length calldata < 4" "d' = d" "r = None"
  | "hm_get (od_signature_cache d) (take 4 calldata) = None" "d' = od_record False False (word_of_nat time) d" "r = None"
  | sig e d1 decoder where "hm_get (od_signature_cache d) (take 4 calldata) = Some sig"
      "ea_decode_input A (cs_function sig) (drop 4 calldata) = Inl e" "get_decoder_from_pool d = (d1, decoder)"
      "d' = od_record False True (word_of_nat time) (return_decoder_to_pool FunctionDecoder_new d1)" "r = None"
  | sig tokens d1 decoder call where "hm_get (od_signature_cache d) (take 4 calldata) = Some sig"
      "ea_decode_input A (cs_function sig) (drop 4 calldata) = Inr tokens" "get_decoder_from_pool d = (d1, decoder)"
      "d' = od_record True True (word_of_nat time) (return_decoder_to_pool FunctionDecoder_new d1)" "r = Some call"
      "call = \<lparr>oc_function_name = ef_name (cs_function sig), oc_function_signature = cs_signature sig,
         oc_target_type = cs_target_type sig,
         oc_parameters = map (\<lambda>(i, t). parameter_of A (cs_function sig) i t) (enumerate 0 tokens),
         oc_is_mev_relevant = cs_is_mev_relevant sig, oc_decode_time_ns = word_of_nat time\<rparr>"
proof (cases "length calldata < 4")
  case True
  with assms that(1) show ?thesis
    by (simp add: decode_function_call_def Let_def)
next
  case long: False
  show ?thesis
  proof (cases "hm_get (od_signature_cache d) (take 4 calldata)")
    case None
    with assms long that(2) show ?thesis
      by (simp add: decode_function_call_def Let_def)
  next
    case (Some sig)
    obtain d1 decoder where pool: "get_decoder_from_pool d = (d1, decoder)"
      by fastforce
    show ?thesis
      using assms long Some pool that(3) [OF Some _ pool] that(4) [OF Some _ pool]
      by (cases "ea_decode_input A (cs_function sig) (drop 4 calldata)")
        (simp_all add: decode_function_call_def od_decode_parameters_def Let_def)
  qed
qed

lemma pool_taken:
  assumes "pool_clean d" and "get_decoder_from_pool d = (d1, decoder)"
  shows "pool_clean d1 \<and> od_signature_cache d1 = od_signature_cache d \<and> od_stats d1 = od_stats d"
proof -
  have "set (butlast (od_decoder_pool d)) \<subseteq> set (od_decoder_pool d)"
    by (auto dest: in_set_butlastD)
  with assms show ?thesis
    unfolding get_decoder_from_pool_def pool_clean_def by (auto split: if_splits)
qed

lemma pool_returned:
  "pool_clean d \<Longrightarrow> pool_clean (return_decoder_to_pool x d)"
  "od_signature_cache (return_decoder_to_pool x d) = od_signature_cache d"
  "od_stats (return_decoder_to_pool x d) = od_stats d"
  by (auto simp: return_decoder_to_pool_def pool_clean_def)

lemma od_record_kept:
  "od_signature_cache (od_record s h t d) = od_signature_cache d"
  "od_stats (od_record s h t d) = record_decode s h t (od_stats d)"
  "pool_clean (od_record s h t d) = pool_clean d"
  by (simp_all add: od_record_def pool_clean_def)

lemma decode_call_kept:
  assumes run: "decode_function_call A time calldata d = (d', r)" and "pool_clean d" and "stats_balance n (od_stats d)"
  shows "od_signature_cache d' = od_signature_cache d \<and> pool_clean d' \<and> stats_balance (Suc n) (od_stats d')"
  using run
proof (cases rule: decode_call_cases)
  case short
  have "stats_balance (Suc n) (od_stats d)"
    using assms(3) unfolding stats_balance_def using le_SucI by blast
  with short assms(2) show ?thesis
    by simp
next
  case unknown
  with assms(2,3) show ?thesis
    by (simp add: od_record_kept stats_balance_record)
next
  case (failed sig e d1 decoder)
  with pool_taken [OF assms(2)] assms(3) show ?thesis
    by (simp add: od_record_kept pool_returned stats_balance_record)
next
  case (decoded sig tokens d1 decoder call)
  with pool_taken [OF assms(2)] assms(3) show ?thesis
    by (simp add: od_record_kept pool_returned stats_balance_record)
qed

lemma od_invariant:
  assumes "od_reachable A n d"
  shows "bare_cache d \<and> pool_clean d \<and> stats_balance n (od_stats d)"
  using assms
proof induction
  case od_start
  show ?case
    by (simp add: bare_new pool_clean_def stats_balance_def DecoderStats_default_def)
next
  case (od_decoded n d time calldata)
  then have ih: "bare_cache d" "pool_clean d" "stats_balance n (od_stats d)"
    by simp_all
  obtain d' r where run: "decode_function_call A time calldata d = (d', r)"
    by fastforce
  with decode_call_kept [OF run ih(2,3)] ih(1) show ?case
    by (simp add: bare_cache_def)
next
  case (od_added n d name selector target relevant)
  then show ?case
    by (simp add: od_add_function_signature_def bare_insert) (simp add: pool_clean_def)
next
  case (od_cleared n d)
  then show ?case
    by (simp add: od_reset_stats_def bare_cache_def pool_clean_def stats_balance_def DecoderStats_default_def)
qed

lemma balanced_rates:
  assumes "stats_balance n s" and "n < 2 ^ 64"
  shows "in_unit (get_success_rate s) \<and> in_unit (get_cache_hit_rate s)
    \<and> ds_successful_decodes s \<le> ds_cache_hits s \<and> ds_cache_hits s + ds_cache_misses s = ds_total_decodes s"
proof -
  from assms(1) obtain a h m where *: "a \<le> h" "h + m \<le> n" "ds_successful_decodes s = word_of_nat a"
      "ds_cache_hits s = word_of_nat h" "ds_cache_misses s = word_of_nat m" "ds_total_decodes s = word_of_nat (h + m)"
    unfolding stats_balance_def by blast
  have "a < 2 ^ LENGTH(64)" "h < 2 ^ LENGTH(64)" "h + m < 2 ^ LENGTH(64)"
    using * assms(2) by auto
  then have le: "(word_of_nat a :: u64) \<le> word_of_nat h" "(word_of_nat h :: u64) \<le> word_of_nat (h + m)"
    using *(1) by (simp_all only: word_le_nat_alt unat_word_of_nat)
  have zero: "in_unit (Finite False 0)"
    by (simp add: in_unit_def f64_le_def signed_def)
  have "in_unit (rate_of p w)" if "p \<le> w" for p w
    using word_ratio_in_unit [OF that] zero by (simp add: rate_of_def)
  with le le(1)[THEN order_trans, OF le(2)] * show ?thesis
    by (simp add: get_success_rate_def get_cache_hit_rate_def)
qed

text \<open>whatever signatures were added and calls decoded, a decoded call carries no parameters, whatever its
  calldata: signatures are entered without them. Its name and selector are those of an entry of the cache. The
  pool never holds more than ten buffers, all of them empty, and as long as fewer than \<open>2 ^ 64\<close> calls
  were decoded the hits and misses add up to the total and both rates are between zero and one.\<close>

theorem optimized_calls_bare:
  assumes "ethabi_laws A" and "od_reachable A n d" and "n < 2 ^ 64"
  shows "pred_option (\<lambda>call. oc_parameters call = []
        \<and> (\<exists>sig. hm_get (od_signature_cache d) (take 4 calldata) = Some sig \<and> cs_selector sig = take 4 calldata
              \<and> oc_function_name call = ef_name (cs_function sig) \<and> oc_target_type call = cs_target_type sig))
      (snd (decode_function_call A time calldata d))
    \<and> length (od_decoder_pool d) \<le> 10 \<and> set (od_decoder_pool d) \<subseteq> {FunctionDecoder_new}
    \<and> ds_cache_hits (od_stats d) + ds_cache_misses (od_stats d) = ds_total_decodes (od_stats d)
    \<and> ds_successful_decodes (od_stats d) \<le> ds_cache_hits (od_stats d)
    \<and> in_unit (get_success_rate (od_stats d)) \<and> in_unit (get_cache_hit_rate (od_stats d))"
proof -
  note inv = od_invariant [OF assms(2)]
  obtain d' r where run: "decode_function_call A time calldata d = (d', r)"
    by fastforce
  from run have "pred_option (\<lambda>call. oc_parameters call = []
        \<and> (\<exists>sig. hm_get (od_signature_cache d) (take 4 calldata) = Some sig \<and> cs_selector sig = take 4 calldata
              \<and> oc_function_name call = ef_name (cs_function sig) \<and> oc_target_type call = cs_target_type sig)) r"
  proof (cases rule: decode_call_cases)
    case (decoded sig tokens d1 decoder call)
    with inv have "ef_inputs (cs_function sig) = []" "cs_selector sig = take 4 calldata"
      by (auto simp: bare_cache_def)
    moreover from this(1) decoded(2) assms(1) have "tokens = []"
      unfolding ethabi_laws_def by (metis length_0_conv)
    ultimately show ?thesis
      using decoded by simp
  qed simp_all
  with run inv balanced_rates [OF _ assms(3), of "od_stats d"] show ?thesis
    by (auto simp: pool_clean_def)
qed

text \<open>A number is kept in the smallest of the four forms that holds it.\<close>

lemma uint_conversion:
  "convert_token_to_value A (Token_Uint n) =
     (if unat n < 2 ^ 32 then PV_Uint32 (word_of_nat (unat n))
      else if unat n < 2 ^ 64 then PV_Uint64 (word_of_nat (unat n))
      else if unat n < 2 ^ 128 then PV_Uint128 (dec_digits (unat n)) else PV_Uint256 (dec_digits (unat n)))"
proof -
  have "unat n < 2 ^ 64" if "unat n < 2 ^ 32"
    using that by (rule less_le_trans) simp
  then show ?thesis
    by (auto simp: u256_to_string_def of_nat_unat)
qed

subsection \<open>The same transfer in every decoder\<close>

definition transfer_call :: "u8 list \<Rightarrow> u256 \<Rightarrow> u8 list" where
  "transfer_call to amount = [0xa9, 0x05, 0x9c, 0xbb] @ replicate 12 0 @ to @ be_bytes 32 (unat amount)"

lemma transfer_selector: "bytes_hex [0xa9, 0x05, 0x9c, 0xbb] = ''a9059cbb''"
  by code_simp

lemma transfer_info:
  "hm_get (co_signature_map CoreDecoder_new) ''0xa9059cbb'' =
     Some \<lparr>fi_name = ''transfer'', fi_signature = ''0xa9059cbb'', fi_inputs = get_function_inputs ''transfer'' P_ERC20,
       fi_protocol = P_ERC20\<rparr>"
  by (simp add: CoreDecoder_new_def load_signatures_def UNISWAP_V2_SIGNATURES_def UNISWAP_V3_SIGNATURES_def
      ERC20_SIGNATURES_def CURVE_SIGNATURES_def del: char_of_char list.inject)

lemma transfer_cached:
  "hm_get (od_signature_cache OptimizedDecoder_new) [0xa9, 0x05, 0x9c, 0xbb] =
     Some (minimal_signature ''transfer'' [0xa9, 0x05, 0x9c, 0xbb] Unknown False)"
  by (simp add: OptimizedDecoder_new_def initialize_mev_signatures_def mev_signatures_def)

lemma core_decode_known:
  assumes "4 \<le> length input" and "hm_get (co_signature_map d) (''0x'' @ hx_encode X (take 4 input)) = Some info"
  shows "snd (core_decode_input X time input d) = Some (decode_function_simple X info (drop 4 input))"
  using assms by (simp add: core_decode_input_def Let_def)

lemma bytes_parts:
  assumes "length as = a" and "length bs = b - a" and "a \<le> b"
  shows "bytes_at a b (as @ bs @ cs) = bs"
  using assms by (simp add: bytes_at_def)

lemma transfer_bytes:
  assumes "length to = 20"
  shows "length (transfer_call to amount) = 68"
    and "take 4 (transfer_call to amount @ rest) = [0xa9, 0x05, 0x9c, 0xbb]"
    and "drop 4 (transfer_call to amount @ rest) = replicate 12 0 @ to @ be_bytes 32 (unat amount) @ rest"
  using assms by (simp_all add: transfer_call_def)

text \<open>The words of a transfer, whatever the twelve bytes before the recipient are.\<close>

lemma core_transfer:
  fixes amount :: u256
  assumes "hex_laws X" and "length to = 20" and "length pad = 12"
  shows "di_parameters (decode_function_simple X \<lparr>fi_name = ''transfer'', fi_signature = s, fi_inputs = i, fi_protocol = p\<rparr>
        (pad @ to @ be_bytes 32 (unat amount) @ rest)) =
      [\<lparr>dp_name = ''to'', dp_param_type = ''address'', dp_value = ''0x'' @ bytes_hex to\<rparr>,
       \<lparr>dp_name = ''amount'', dp_param_type = ''uint256'', dp_value = dec_digits (unat amount)\<rparr>]"
proof -
  have "bytes_at 12 32 (pad @ to @ be_bytes 32 (unat amount) @ rest) = to"
    using assms(2,3) by (intro bytes_parts) simp_all
  moreover have "bytes_at 32 64 ((pad @ to) @ be_bytes 32 (unat amount) @ rest) = be_bytes 32 (unat amount)"
    using assms(2,3) by (intro bytes_parts) simp_all
  ultimately show ?thesis
    using assms by (simp add: decode_function_simple_def address_parameter_def uint_parameter_def hex_laws_def
        from_big_endian_bytes u256_to_string_def)
qed

lemma core_decodes_transfer:
  fixes amount :: u256
  assumes "hex_laws X" and "length to = 20" and "length pad = 12"
    and "co_signature_map d = co_signature_map CoreDecoder_new"
  shows "snd (core_decode_input X time ([0xa9, 0x05, 0x9c, 0xbb] @ pad @ to @ be_bytes 32 (unat amount) @ rest) d) =
    Some \<lparr>di_function_name = ''transfer'', di_function_signature = ''0xa9059cbb'',
      di_parameters =
        [\<lparr>dp_name = ''to'', dp_param_type = ''address'', dp_value = ''0x'' @ bytes_hex to\<rparr>,
         \<lparr>dp_name = ''amount'', dp_param_type = ''uint256'', dp_value = dec_digits (unat amount)\<rparr>]\<rparr>"
proof -
  let ?info = "\<lparr>fi_name = ''transfer'', fi_signature = ''0xa9059cbb'',
      fi_inputs = get_function_inputs ''transfer'' P_ERC20, fi_protocol = P_ERC20\<rparr>"
  let ?words = "pad @ to @ be_bytes 32 (unat amount) @ rest"
  let ?data = "[0xa9, 0x05, 0x9c, 0xbb] @ ?words"
  have four: "take 4 ?data = [0xa9, 0x05, 0x9c, 0xbb]" "drop 4 ?data = ?words" "4 \<le> length ?data"
    by simp_all
  have "''0x'' @ hx_encode X (take 4 ?data) = ''0xa9059cbb''"
    using assms(1) unfolding four hex_laws_def by (simp only: transfer_selector append.simps)
  then have "hm_get (co_signature_map d) (''0x'' @ hx_encode X (take 4 ?data)) = Some ?info"
    by (simp only: assms(4) transfer_info)
  then have "snd (core_decode_input X time ?data d) = Some (decode_function_simple X ?info ?words)"
    using core_decode_known [OF four(3), of d X ?info time] by (simp only: four(2))
  moreover have "di_function_name (decode_function_simple X ?info ?words) = ''transfer''"
      "di_function_signature (decode_function_simple X ?info ?words) = ''0xa9059cbb''"
    by (simp_all add: decode_function_simple_def)
  ultimately show ?thesis
    using core_transfer [OF assms(1-3), of "''0xa9059cbb''" "get_function_inputs ''transfer'' P_ERC20" P_ERC20 amount rest]
    by (cases "decode_function_simple X ?info ?words") simp
qed

lemma mempool_transfer:
  assumes "length to = 20"
  shows "decode_input AbiDecoder_new (''0x'' @ bytes_hex (transfer_call to amount @ rest)) =
    Ret (Some \<lparr>di_function_name = ''transfer'', di_function_signature = ''0xa9059cbb'',
      di_parameters =
        [\<lparr>dp_name = ''to'', dp_param_type = ''address'', dp_value = ''0x'' @ bytes_hex to\<rparr>,
         \<lparr>dp_name = ''amount'', dp_param_type = ''uint256'',
          dp_value = ''0x'' @ bytes_hex (be_bytes 32 (unat amount) @ rest)\<rparr>]\<rparr>)"
proof -
  let ?data = "transfer_call to amount @ rest"
  let ?input = "''0x'' @ bytes_hex ?data"
  have len: "length ?input = 138 + 2 * length rest"
    by (simp add: transfer_bytes(1) [OF assms])
  have drops: "drop (2 + 2 * n) ?input = bytes_hex (drop n ?data)" for n
    using drop_bytes_hex [of n ?data] by simp
  have ascii: "is_ascii ?input"
    using is_ascii_bytes_hex [of ?data] by (simp add: is_ascii_def)
  have "take 8 (bytes_hex ?data) = ''a9059cbb''"
    using take_bytes_hex [of 4 ?data] unfolding transfer_bytes(2) [OF assms] transfer_selector by simp
  then have selector: "slice ?input 0 10 = Ret ''0xa9059cbb''"
    using len ascii by (simp add: slice_ascii)
  have "drop 16 ?data = to @ be_bytes 32 (unat amount) @ rest" "drop 36 ?data = be_bytes 32 (unat amount) @ rest"
    using assms by (simp_all add: transfer_call_def)
  then have "drop 34 ?input = bytes_hex to @ bytes_hex (be_bytes 32 (unat amount) @ rest)"
      "drop 74 ?input = bytes_hex (be_bytes 32 (unat amount) @ rest)"
    using drops [of 16] drops [of 36] by (simp_all add: bytes_hex_append)
  then have "slice ?input 34 74 = Ret (bytes_hex to)"
      "slice ?input 74 (length ?input) = Ret (bytes_hex (be_bytes 32 (unat amount) @ rest))"
    using len ascii assms by (simp_all only: slice_ascii) simp_all
  moreover have "hm_get AbiDecoder_new ''0xa9059cbb'' = Some (''transfer'', UniswapV2)"
    by (simp add: decoder_lookup del: char_of_char list.inject)
  ultimately show ?thesis
    using len selector by (simp add: decode_input_def Tx_Parser.decode_parameters_def)
qed

text \<open>C31: the calldata of a transfer, with whatever follows it, is read alike where the decoders read it: the
  core's decoder gives the recipient and the amount in decimal, the mempool's the same recipient and the amount
  as the hexadecimal text of all that is left, and the optimized decoder, when it knows the call, only its
  name.\<close>

theorem transfer_in_three_decoders:
  assumes "hex_laws X" and "ethabi_laws A" and "length to = 20"
    and "co_signature_map d = co_signature_map CoreDecoder_new"
  shows "map_option di_parameters (snd (core_decode_input X time (transfer_call to amount @ rest) d)) =
      Some [\<lparr>dp_name = ''to'', dp_param_type = ''address'', dp_value = ''0x'' @ bytes_hex to\<rparr>,
        \<lparr>dp_name = ''amount'', dp_param_type = ''uint256'', dp_value = dec_digits (unat amount)\<rparr>]
    \<and> run_bind (decode_input AbiDecoder_new (''0x'' @ bytes_hex (transfer_call to amount @ rest)))
        (\<lambda>r. Ret (map_option di_parameters r)) =
      Ret (Some [\<lparr>dp_name = ''to'', dp_param_type = ''address'', dp_value = ''0x'' @ bytes_hex to\<rparr>,
        \<lparr>dp_name = ''amount'', dp_param_type = ''uint256'',
          dp_value = ''0x'' @ bytes_hex (be_bytes 32 (unat amount) @ rest)\<rparr>])
    \<and> pred_option (\<lambda>call. oc_function_name call = ''transfer'' \<and> oc_parameters call = [])
        (snd (decode_function_call A time (transfer_call to amount @ rest) OptimizedDecoder_new))"
proof (intro conjI)
  show "map_option di_parameters (snd (core_decode_input X time (transfer_call to amount @ rest) d)) =
      Some [\<lparr>dp_name = ''to'', dp_param_type = ''address'', dp_value = ''0x'' @ bytes_hex to\<rparr>,
        \<lparr>dp_name = ''amount'', dp_param_type = ''uint256'', dp_value = dec_digits (unat amount)\<rparr>]"
    using core_decodes_transfer [OF assms(1,3) _ assms(4), of "replicate 12 0" time amount rest]
    by (simp add: transfer_call_def)
next
  obtain d' r where run: "decode_function_call A time (transfer_call to amount @ rest) OptimizedDecoder_new = (d', r)"
    by fastforce
  from run show "pred_option (\<lambda>call. oc_function_name call = ''transfer'' \<and> oc_parameters call = [])
      (snd (decode_function_call A time (transfer_call to amount @ rest) OptimizedDecoder_new))"
  proof (cases rule: decode_call_cases)
    case (decoded s tokens d1 decoder call)
    from decoded(1) have s: "s = minimal_signature ''transfer'' [0xa9, 0x05, 0x9c, 0xbb] Unknown False"
      unfolding transfer_bytes(2) [OF assms(3)] transfer_cached by simp
    from decoded(2) assms(2) have "tokens = []"
      unfolding ethabi_laws_def s minimal_signature_def by force
    with decoded s run show ?thesis
      by (simp add: minimal_signature_def)
  qed (simp_all add: run)
qed (simp only: mempool_transfer [OF assms(3)] run_bind.simps option.map DecodedInput.simps)

text \<open>The decoding that the pool of instances was meant for reads the recipient of an exact-ETH swap from the
  word of the path's offset and its deadline from the recipient's word.\<close>

lemma instance_misreads_swap:
  assumes "hex_laws X" and "length to = 20"
  shows "di_parameters (decode_with_instance X
        \<lparr>fi_name = ''swapExactETHForTokens'', fi_signature = s, fi_inputs = i, fi_protocol = p\<rparr>
        (be_bytes 32 amount @ be_bytes 32 offset @ (replicate 12 0 @ to) @ be_bytes 32 deadline @ rest)) =
      [uint_parameter ''amountOutMin'' (be_bytes 32 amount),
       \<lparr>dp_name = ''to'', dp_param_type = ''address'', dp_value = ''0x'' @ bytes_hex (drop 12 (be_bytes 32 offset))\<rparr>,
       uint_parameter ''deadline'' (replicate 12 0 @ to)]"
proof -
  let ?rest = "be_bytes 32 deadline @ rest" and ?to = "replicate 12 0 @ to"
  let ?data = "be_bytes 32 amount @ be_bytes 32 offset @ ?to @ ?rest"
  have "bytes_at 0 32 ([] @ be_bytes 32 amount @ be_bytes 32 offset @ ?to @ ?rest) = be_bytes 32 amount"
    by (intro bytes_parts) simp_all
  moreover have "bytes_at 64 96 ((be_bytes 32 amount @ be_bytes 32 offset) @ ?to @ ?rest) = ?to"
    using assms(2) by (intro bytes_parts) simp_all
  moreover have "bytes_at 44 64 ?data = drop 12 (be_bytes 32 offset)"
    by (simp add: bytes_at_def)
  ultimately show ?thesis
    using assms by (simp add: decode_with_instance_def address_parameter_def hex_laws_def)
qed

subsection \<open>Instances\<close>

definition demo_hex_ops :: hex_ops where
  "demo_hex_ops =
     \<lparr>hx_encode = bytes_hex, hx_decode = hex_bytes, hx_debug_address = (\<lambda>bs. ''0x'' @ bytes_hex bs)\<rparr>"

lemma demo_hex_ops_laws: "hex_laws demo_hex_ops"
  by (simp add: hex_laws_def demo_hex_ops_def)

definition demo_ethabi :: "unit ethabi_ops" where
  "demo_ethabi =
     \<lparr>ea_decode_input = (\<lambda>f data. if length data < 32 * length (ef_inputs f) then Inl ''Invalid data''
        else Inr (map (\<lambda>i. Token_Uint (from_big_endian (take 32 (drop (32 * i) data)))) [0..<length (ef_inputs f)])),
      ea_debug_kind = (\<lambda>k. ''Uint(256)''), ea_debug_token = (\<lambda>t. ''Token''),
      ea_debug_address = (\<lambda>bs. ''0x'' @ bytes_hex bs)\<rparr>"

lemma demo_ethabi_laws: "ethabi_laws demo_ethabi"
  by (auto simp: ethabi_laws_def demo_ethabi_def split: if_splits)

text \<open>A batch of a transfer and of calldata that is too short.\<close>

theorem core_decoder_counts_witness:
  "as_total_decodes (core_get_stats (fst (decode_batch demo_hex_ops [(70, transfer_call (replicate 20 1) 5), (60, [])]
     (CoreDecoder_new :: Token CoreDecoder)))) = 2"
proof -
  obtain d rs where run: "decode_batch demo_hex_ops [(70, transfer_call (replicate 20 1) 5), (60, [])]
      (CoreDecoder_new :: Token CoreDecoder) = (d, rs)"
    by fastforce
  from core_decoder_counts [OF run] have "as_total_decodes (core_get_stats d) = 2"
    by simp
  with run show ?thesis
    by (simp only: fst_conv)
qed

theorem optimized_calls_bare_witness:
  "pred_option (\<lambda>call. oc_parameters call = [])
     (snd (decode_function_call demo_ethabi 80 (transfer_call (replicate 20 1) 5)
       (fst (decode_function_call demo_ethabi 90 [1, 2, 3, 4] OptimizedDecoder_new))))"
proof -
  have "od_reachable demo_ethabi (Suc 0) (fst (decode_function_call demo_ethabi 90 [1, 2, 3, 4] OptimizedDecoder_new))"
    by (intro od_decoded od_start)
  from optimized_calls_bare [OF demo_ethabi_laws this] show ?thesis
    by (auto simp: option.pred_set)
qed

theorem transfer_in_three_decoders_witness:
  "map_option di_parameters (snd (core_decode_input demo_hex_ops 70 (transfer_call (replicate 20 1) 5 @ [9])
       (CoreDecoder_new :: Token CoreDecoder))) =
     Some [\<lparr>dp_name = ''to'', dp_param_type = ''address'', dp_value = ''0x0101010101010101010101010101010101010101''\<rparr>,
       \<lparr>dp_name = ''amount'', dp_param_type = ''uint256'', dp_value = ''5''\<rparr>]"
proof -
  have "''0x'' @ bytes_hex (replicate 20 1) = ''0x0101010101010101010101010101010101010101''" "dec_digits (unat (5 :: u256)) = ''5''"
    by code_simp+
  then show ?thesis
    using transfer_in_three_decoders [OF demo_hex_ops_laws demo_ethabi_laws length_replicate
        refl [of "co_signature_map (CoreDecoder_new :: Token CoreDecoder)"], of 70 1 5 "[9]", THEN conjunct1]
    by (simp only:)
qed

end
