(* ===== verification/Victim_Generator.thy ===== *)
theory Victim_Generator
  imports Bundle_Submitter Tx_Signer Hex_Text
begin

text \<open>
  The generator of victim transactions, \<open>crates/mev-core/src/bundle/victim_generator.rs\<close>: its configuration,
  the dummy tokens, the schedule, the swap it encodes, signs and submits, and the test scenarios. The signer and
  the JSON-RPC environment are those of \<open>Tx_Signer\<close> and \<open>Bundle_Submitter\<close>; the hash of a name
  (\<open>DefaultHasher\<close>) and the time a scenario takes are parameters.
\<close>

subsection \<open>Data\<close>

record VictimGeneratorConfig =
  vc_rpc_endpoint :: string
  vc_victim_private_key :: string
  vc_dummy_tokens :: "(string, address) hash_map"
  vc_dex_routers :: "(string, address) hash_map"
  vc_default_gas_limit :: u256
  vc_default_gas_price :: u256
  vc_chain_id :: u64

definition VictimGeneratorConfig_default :: VictimGeneratorConfig where
  "VictimGeneratorConfig_default =
     \<lparr>vc_rpc_endpoint = ''http://localhost:8545'',
      vc_victim_private_key = ''0x0000000000000000000000000000000000000000000000000000000000000001'',
      vc_dummy_tokens = hm_insert ''DUMMY_B'' 0 (hm_insert ''DUMMY_A'' 0 hm_empty),
      vc_dex_routers = hm_insert ''SushiSwap'' 0 (hm_insert ''UniswapV2'' 0 hm_empty),
      vc_default_gas_limit = 200000, vc_default_gas_price = 50000000000, vc_chain_id = 998\<rparr>"

record VictimTransaction =
  vt_id :: string
  vt_token_in :: string
  vt_token_out :: string
  vt_amount_in :: u256
  vt_min_amount_out :: u256
  vt_dex :: string
  vt_gas_price :: u256
  vt_target_block :: u64
  vt_delay_seconds :: u64

record 'w VictimGenerator =
  vg_config :: VictimGeneratorConfig
  vg_scheduled_victims :: "(string, VictimTransaction) hash_map"
  vg_signer :: "'w TransactionSigner"

record VictimDeployment =
  vd_network :: string
  vd_token_count :: u32
  vd_initial_supply :: u256
  vd_setup_liquidity :: bool
  vd_initial_liquidity :: u256

record ExpectedOpportunity =
  xo_opportunity_type :: string
  xo_target_victim_id :: string
  xo_expected_profit_range :: "u256 \<times> u256"
  xo_expected_gas_cost :: u256
  xo_min_confidence :: f64

record SuccessCriteria =
  su_min_opportunities :: u32
  su_min_total_profit :: u256
  su_max_execution_time :: duration
  su_min_ordering_success_rate :: f64

record TestScenario =
  ts_name :: string
  ts_description :: string
  ts_victim_transactions :: "VictimTransaction list"
  ts_expected_opportunities :: "ExpectedOpportunity list"
  ts_success_criteria :: SuccessCriteria

record TestResults =
  rs_scenario_name :: string
  rs_execution_time :: duration
  rs_opportunities_detected :: u32
  rs_total_profit :: u256
  rs_ordering_success_rate :: f64
  rs_success :: bool

text \<open>The HTTP client is assumed to have been built.\<close>

definition VictimGenerator_new :: "VictimGeneratorConfig \<Rightarrow> 'w KeyManager \<Rightarrow> 'w VictimGenerator" where
  "VictimGenerator_new config km =
     \<lparr>vg_config = config, vg_scheduled_victims = hm_empty, vg_signer = TransactionSigner_new km (vc_chain_id config)\<rparr>"

subsection \<open>Dummy tokens\<close>

text \<open>The eight bytes of the hash are the first of the twenty of the address.\<close>

definition deploy_dummy_token :: "(string \<Rightarrow> u64) \<Rightarrow> string \<Rightarrow> address" where
  "deploy_dummy_token hash name = word_of_nat (be_value (be_bytes 8 (unat (hash name)) @ replicate 12 0))"

text \<open>With the tokens, the time spent on their liquidity: a tenth of a second for each.\<close>

definition setup_initial_liquidity :: "(string, address) hash_map \<Rightarrow> duration" where
  "setup_initial_liquidity tokens = hm_len tokens * millis 100"

definition deploy_victim_infrastructure ::
    "(string \<Rightarrow> u64) \<Rightarrow> VictimDeployment \<Rightarrow> (string, address) hash_map \<times> duration" where
  "deploy_victim_infrastructure hash deployment =
     (let deployed_tokens =
        fold (\<lambda>i. hm_insert (''DUMMY_'' @ dec_digits i) (deploy_dummy_token hash (''DUMMY_'' @ dec_digits i)))
          [0..<unat (vd_token_count deployment)] hm_empty
      in (deployed_tokens, if vd_setup_liquidity deployment then setup_initial_liquidity deployed_tokens else 0))"

subsection \<open>Victim transactions\<close>

definition schedule_victim_transaction :: "VictimTransaction \<Rightarrow> 'w VictimGenerator \<Rightarrow> 'w VictimGenerator" where
  "schedule_victim_transaction victim g =
     g\<lparr>vg_scheduled_victims := hm_insert (vt_id victim) victim (vg_scheduled_victims g)\<rparr>"

definition get_scheduled_victims :: "'w VictimGenerator \<Rightarrow> VictimTransaction list" where
  "get_scheduled_victims g = hm_values (vg_scheduled_victims g)"

datatype victim_error =
    VictimNotFound string
  | UnknownToken string
  | UnknownDex string
  | SignError sign_error
  | SubmitError submit_error

definition encode_swap_transaction :: "VictimGeneratorConfig \<Rightarrow> VictimTransaction \<Rightarrow> victim_error + u8 list" where
  "encode_swap_transaction config victim =
     res_bind (ok_or (UnknownToken (vt_token_in victim)) (hm_get (vc_dummy_tokens config) (vt_token_in victim)))
       (\<lambda>token_in_addr.
         res_bind (ok_or (UnknownToken (vt_token_out victim)) (hm_get (vc_dummy_tokens config) (vt_token_out victim)))
           (\<lambda>token_out_addr.
             Inr ([0xa9, 0x05, 0x9c, 0xbb] @ be_bytes 32 (unat (vt_amount_in victim))
               @ be_bytes 32 (unat (vt_min_amount_out victim))
               @ be_bytes 20 (unat token_in_addr) @ be_bytes 20 (unat token_out_addr))))"

definition submit_transaction ::
    "('x, 'v) submit_env \<Rightarrow> string \<Rightarrow> u8 list \<Rightarrow> 'x \<Rightarrow> 'x \<times> (submit_error + string)" where
  "submit_transaction H endpoint raw_tx w =
     (let rq = raw_request H raw_tx
      in case se_reply H endpoint rq (se_send H endpoint rq w) of (w, reply) \<Rightarrow> (w, rpc_result (se_json H) reply))"

definition victim_template :: "VictimGeneratorConfig \<Rightarrow> address \<Rightarrow> u8 list \<Rightarrow> TransactionTemplate" where
  "victim_template config router swap_data =
     \<lparr>tt_to = Some router, tt_value = 0, tt_gas_limit = vc_default_gas_limit config, tt_data = swap_data,
      tt_transaction_type = 2\<rparr>"

text \<open>The transaction a victim's swap is signed from.\<close>

definition victim_transaction :: "VictimGeneratorConfig \<Rightarrow> VictimTransaction \<Rightarrow> victim_error + TransactionTemplate" where
  "victim_transaction config victim =
     res_bind (encode_swap_transaction config victim) (\<lambda>swap_data.
       res_bind (ok_or (UnknownDex (vt_dex victim)) (hm_get (vc_dex_routers config) (vt_dex victim))) (\<lambda>router_address.
         Inr (victim_template config router_address swap_data)))"

definition execute_victim_transaction ::
    "('w, 'sig) sign_env \<Rightarrow> ('x, 'v) submit_env \<Rightarrow> string \<Rightarrow> 'w VictimGenerator \<Rightarrow> 'x \<Rightarrow>
     ('w VictimGenerator \<times> 'x \<times> (victim_error + string)) run" where
  "execute_victim_transaction E H victim_id g w =
     (case hm_get (vg_scheduled_victims g) victim_id of
        None \<Rightarrow> Ret (g, w, Inl (VictimNotFound victim_id))
      | Some victim \<Rightarrow>
          (case victim_transaction (vg_config g) victim of
             Inl e \<Rightarrow> Ret (g, w, Inl e)
           | Inr template \<Rightarrow>
               run_bind (sign_transaction E template Network (vt_gas_price victim) 2000000000 (vg_signer g))
                 (\<lambda>(signer, signed).
                   let g = g\<lparr>vg_signer := signer\<rparr>
                   in case signed of
                        Inl e \<Rightarrow> Ret (g, w, Inl (SignError e))
                      | Inr signed_tx \<Rightarrow>
                          (case submit_transaction H (vc_rpc_endpoint (vg_config g)) (st_raw_transaction signed_tx) w of
                             (w, Inl e) \<Rightarrow> Ret (g, w, Inl (SubmitError e))
                           | (w, Inr tx_hash) \<Rightarrow>
                               Ret (g\<lparr>vg_scheduled_victims := hm_remove victim_id (vg_scheduled_victims g)\<rparr>,
                                    w, Inr tx_hash)))))"

subsection \<open>Scenarios\<close>

definition create_simple_arbitrage_scenario :: TestScenario where
  "create_simple_arbitrage_scenario =
     \<lparr>ts_name = ''Simple Arbitrage'', ts_description = ''Single large swap creating arbitrage opportunity'',
      ts_victim_transactions =
        [\<lparr>vt_id = ''victim_arb_1'', vt_token_in = ''DUMMY_A'', vt_token_out = ''DUMMY_B'',
          vt_amount_in = 1000000000000000000, vt_min_amount_out = 950000000000000000, vt_dex = ''UniswapV2'',
          vt_gas_price = 50000000000, vt_target_block = 0, vt_delay_seconds = 5\<rparr>],
      ts_expected_opportunities =
        [\<lparr>xo_opportunity_type = ''arbitrage'', xo_target_victim_id = ''victim_arb_1'',
          xo_expected_profit_range = (10000000000000000, 100000000000000000),
          xo_expected_gas_cost = 5000000000000000, xo_min_confidence = f64_lit ''0.7''\<rparr>],
      ts_success_criteria =
        \<lparr>su_min_opportunities = 1, su_min_total_profit = 5000000000000000, su_max_execution_time = secs 30,
         su_min_ordering_success_rate = f64_lit ''0.9''\<rparr>\<rparr>"

definition create_sandwich_scenario :: TestScenario where
  "create_sandwich_scenario =
     \<lparr>ts_name = ''Sandwich Attack'',
      ts_description = ''Large swap with high slippage tolerance for sandwich opportunity'',
      ts_victim_transactions =
        [\<lparr>vt_id = ''victim_sandwich_1'', vt_token_in = ''DUMMY_A'', vt_token_out = ''DUMMY_B'',
          vt_amount_in = 5000000000000000000, vt_min_amount_out = 4500000000000000000, vt_dex = ''UniswapV2'',
          vt_gas_price = 40000000000, vt_target_block = 0, vt_delay_seconds = 3\<rparr>],
      ts_expected_opportunities =
        [\<lparr>xo_opportunity_type = ''sandwich'', xo_target_victim_id = ''victim_sandwich_1'',
          xo_expected_profit_range = (50000000000000000, 200000000000000000),
          xo_expected_gas_cost = 10000000000000000, xo_min_confidence = f64_lit ''0.8''\<rparr>],
      ts_success_criteria =
        \<lparr>su_min_opportunities = 1, su_min_total_profit = 20000000000000000, su_max_execution_time = secs 45,
         su_min_ordering_success_rate = f64_lit ''0.95''\<rparr>\<rparr>"

definition create_multi_dex_scenario :: TestScenario where
  "create_multi_dex_scenario =
     \<lparr>ts_name = ''Multi-DEX Arbitrage'',
      ts_description = ''Multiple swaps across different DEXs creating arbitrage opportunities'',
      ts_victim_transactions =
        [\<lparr>vt_id = ''victim_multi_1'', vt_token_in = ''DUMMY_A'', vt_token_out = ''DUMMY_B'',
          vt_amount_in = 2000000000000000000, vt_min_amount_out = 1900000000000000000, vt_dex = ''UniswapV2'',
          vt_gas_price = 45000000000, vt_target_block = 0, vt_delay_seconds = 2\<rparr>,
         \<lparr>vt_id = ''victim_multi_2'', vt_token_in = ''DUMMY_B'', vt_token_out = ''DUMMY_A'',
          vt_amount_in = 1500000000000000000, vt_min_amount_out = 1400000000000000000, vt_dex = ''SushiSwap'',
          vt_gas_price = 45000000000, vt_target_block = 0, vt_delay_seconds = 8\<rparr>],
      ts_expected_opportunities =
        [\<lparr>xo_opportunity_type = ''arbitrage'', xo_target_victim_id = ''victim_multi_1'',
          xo_expected_profit_range = (30000000000000000, 150000000000000000),
          xo_expected_gas_cost = 8000000000000000, xo_min_confidence = f64_lit ''0.75''\<rparr>],
      ts_success_criteria =
        \<lparr>su_min_opportunities = 1, su_min_total_profit = 15000000000000000, su_max_execution_time = secs 60,
         su_min_ordering_success_rate = f64_lit ''0.85''\<rparr>\<rparr>"

definition create_high_slippage_scenario :: TestScenario where
  "create_high_slippage_scenario =
     \<lparr>ts_name = ''High Slippage'',
      ts_description = ''Very large swap with high slippage tolerance for maximum MEV extraction'',
      ts_victim_transactions =
        [\<lparr>vt_id = ''victim_slippage_1'', vt_token_in = ''DUMMY_A'', vt_token_out = ''DUMMY_B'',
          vt_amount_in = 10000000000000000000, vt_min_amount_out = 8000000000000000000, vt_dex = ''UniswapV2'',
          vt_gas_price = 35000000000, vt_target_block = 0, vt_delay_seconds = 4\<rparr>],
      ts_expected_opportunities =
        [\<lparr>xo_opportunity_type = ''sandwich'', xo_target_victim_id = ''victim_slippage_1'',
          xo_expected_profit_range = (100000000000000000, 500000000000000000),
          xo_expected_gas_cost = 12000000000000000, xo_min_confidence = f64_lit ''0.9''\<rparr>],
      ts_success_criteria =
        \<lparr>su_min_opportunities = 1, su_min_total_profit = 50000000000000000, su_max_execution_time = secs 40,
         su_min_ordering_success_rate = f64_lit ''0.95''\<rparr>\<rparr>"

definition create_default_scenario :: TestScenario where
  "create_default_scenario = create_simple_arbitrage_scenario"

definition create_test_scenario :: "string \<Rightarrow> TestScenario" where
  "create_test_scenario name =
     (if name = ''simple_arbitrage'' then create_simple_arbitrage_scenario
      else if name = ''sandwich_attack'' then create_sandwich_scenario
      else if name = ''multi_dex_arbitrage'' then create_multi_dex_scenario
      else if name = ''high_slippage'' then create_high_slippage_scenario
      else create_default_scenario)"

text \<open>With the results, the time it sleeps; the sum of the longest delay and ten wraps.\<close>

definition execute_test_scenario ::
    "duration \<Rightarrow> TestScenario \<Rightarrow> 'w VictimGenerator \<Rightarrow> 'w VictimGenerator \<times> duration \<times> TestResults" where
  "execute_test_scenario execution_time scenario g =
     (let g = fold schedule_victim_transaction (ts_victim_transactions scenario) g;
          max_delay = fold max (map vt_delay_seconds (ts_victim_transactions scenario)) 0
      in (g, secs (unat (max_delay + 10)),
          \<lparr>rs_scenario_name = ts_name scenario, rs_execution_time = execution_time, rs_opportunities_detected = 1,
           rs_total_profit = 25000000000000000, rs_ordering_success_rate = f64_lit ''0.95'', rs_success = True\<rparr>))"

end
