(* ===== verification/Victim_Facts.thy ===== *)
theory Victim_Facts
  imports Victim_Generator Decoder_Facts Submission_Facts
begin

text \<open>
  What the victims' transactions are to the program's own decoder, what becomes of the schedule and of the
  nonces, and what the result of a scenario says.
\<close>

subsection \<open>The encoded swap\<close>

lemma encode_swap_Inr:
  assumes "encode_swap_transaction config victim = Inr data"
  obtains a b where "data = [0xa9, 0x05, 0x9c, 0xbb] @ be_bytes 12 (unat (vt_amount_in victim) div 2 ^ 160)
      @ be_bytes 20 (unat (vt_amount_in victim)) @ be_bytes 32 (unat (vt_min_amount_out victim))
      @ be_bytes 20 (unat a) @ be_bytes 20 (unat (b :: address))"
    and "hm_get (vc_dummy_tokens config) (vt_token_in victim) = Some a"
    and "hm_get (vc_dummy_tokens config) (vt_token_out victim) = Some b"
proof -
  have "be_bytes 32 v = be_bytes 12 (v div 2 ^ 160) @ be_bytes 20 v" for v
    using be_bytes_append [of 12 20 v] by simp
  with assms that show ?thesis
    by (auto simp: encode_swap_transaction_def)
qed

text \<open>C32: the calldata of every victim's swap carries the selector of a token transfer: the core's decoder
  reads it as a transfer of the victim's minimal output to the address made of the last twenty bytes of the
  amount it puts in, and never as a swap.\<close>

theorem victim_swap_is_transfer:
  assumes "hex_laws X" and "co_signature_map d = co_signature_map CoreDecoder_new"
    and "encode_swap_transaction config victim = Inr data"
  shows "snd (core_decode_input X time data d) =
    Some \<lparr>di_function_name = ''transfer'', di_function_signature = ''0xa9059cbb'',
      di_parameters =
        [\<lparr>dp_name = ''to'', dp_param_type = ''address'',
          dp_value = ''0x'' @ bytes_hex (be_bytes 20 (unat (vt_amount_in victim)))\<rparr>,
         \<lparr>dp_name = ''amount'', dp_param_type = ''uint256'', dp_value = dec_digits (unat (vt_min_amount_out victim))\<rparr>]\<rparr>"
  using assms(3)
proof (rule encode_swap_Inr)
  fix a b :: address
  assume data: "data = [0xa9, 0x05, 0x9c, 0xbb] @ be_bytes 12 (unat (vt_amount_in victim) div 2 ^ 160)
      @ be_bytes 20 (unat (vt_amount_in victim)) @ be_bytes 32 (unat (vt_min_amount_out victim))
      @ be_bytes 20 (unat a) @ be_bytes 20 (unat b)"
  show ?thesis
    unfolding data by (rule core_decodes_transfer [OF assms(1) _ _ assms(2)]) simp_all
qed

subsection \<open>Executing a victim\<close>

lemma execute_victim_cases:
  assumes "execute_victim_transaction E H victim_id g w = Ret (g', w', r)"
  obtains "hm_get (vg_scheduled_victims g) victim_id = None" "g' = g" "w' = w" "r = Inl (VictimNotFound victim_id)"
  | victim e where "hm_get (vg_scheduled_victims g) victim_id = Some victim"
      "victim_transaction (vg_config g) victim = Inl e" "g' = g" "w' = w" "r = Inl e"
  | victim template s e where "hm_get (vg_scheduled_victims g) victim_id = Some victim"
      "victim_transaction (vg_config g) victim = Inr template"
      "sign_transaction E template Network (vt_gas_price victim) 2000000000 (vg_signer g) = Ret (s, Inl e)"
      "g' = g\<lparr>vg_signer := s\<rparr>" "w' = w" "r = Inl (SignError e)"
  | victim template s tx e where "hm_get (vg_scheduled_victims g) victim_id = Some victim"
      "victim_transaction (vg_config g) victim = Inr template"
      "sign_transaction E template Network (vt_gas_price victim) 2000000000 (vg_signer g) = Ret (s, Inr tx)"
      "submit_transaction H (vc_rpc_endpoint (vg_config g)) (st_raw_transaction tx) w = (w', Inl e)"
      "g' = g\<lparr>vg_signer := s\<rparr>" "r = Inl (SubmitError e)"
  | victim template s tx h where "hm_get (vg_scheduled_victims g) victim_id = Some victim"
      "victim_transaction (vg_config g) victim = Inr template"
      "sign_transaction E template Network (vt_gas_price victim) 2000000000 (vg_signer g) = Ret (s, Inr tx)"
      "submit_transaction H (vc_rpc_endpoint (vg_config g)) (st_raw_transaction tx) w = (w', Inr h)"
      "g' = g\<lparr>vg_signer := s, vg_scheduled_victims := hm_remove victim_id (vg_scheduled_victims g)\<rparr>" "r = Inr h"
proof (cases "hm_get (vg_scheduled_victims g) victim_id")
  case None
  with assms show ?thesis
    by (intro that(1)) (auto simp: execute_victim_transaction_def)
next
  case victim: (Some victim)
  show ?thesis
  proof (cases "victim_transaction (vg_config g) victim")
    case (Inl e)
    with assms victim show ?thesis
      by (intro that(2)) (auto simp: execute_victim_transaction_def)
  next
    case template: (Inr template)
    from assms victim template obtain s signed where sign:
        "sign_transaction E template Network (vt_gas_price victim) 2000000000 (vg_signer g) = Ret (s, signed)"
      by (auto simp: execute_victim_transaction_def run_bind_Ret_iff)
    show ?thesis
    proof (cases signed)
      case (Inl e)
      with assms victim template sign show ?thesis
        by (intro that(3)) (auto simp: execute_victim_transaction_def)
    next
      case tx: (Inr tx)
      obtain w1 reply where submit: "submit_transaction H (vc_rpc_endpoint (vg_config g)) (st_raw_transaction tx) w = (w1, reply)"
        by fastforce
      show ?thesis
      proof (cases reply)
        case (Inl e)
        with assms victim template sign tx submit show ?thesis
          by (intro that(4)) (auto simp: execute_victim_transaction_def)
      next
        case (Inr h)
        with assms victim template sign tx submit show ?thesis
          by (intro that(5)) (auto simp: execute_victim_transaction_def)
      qed
    qed
  qed
qed

lemma signed_advances:
  assumes "sign_transaction E t Network f p s = Ret (s', Inr tx)"
  obtains wallet where "get_default_wallet (sg_key_manager s) = Inr wallet"
    and "st_nonce tx = next_tracked (signer_address E wallet) s"
    and "next_tracked (signer_address E wallet) s' = st_nonce tx + 1"
    and "st_data tx = tt_data t" and "st_to tx = tt_to t"
proof (cases "get_default_wallet (sg_key_manager s)")
  case (Inr wallet)
  with assms have "sign_transaction_with_wallet E wallet t Network f p s = Ret (s', Inr tx)"
    by (simp add: sign_transaction_def)
  then show ?thesis
    using that [OF Inr]
    by (auto simp: sign_transaction_with_wallet_def get_nonce_def Let_def run_bind_Ret_iff u256_add_Ret_iff
        signed_transaction_def split: sum.splits)
qed (use assms in \<open>simp add: sign_transaction_def\<close>)

text \<open>a victim leaves the schedule exactly when the node has accepted its transaction, which carries the
  encoded swap to the router of its exchange. When the node does not accept it the victim stays, but the
  nonce is gone: its next attempt is signed with the following one.\<close>

theorem victim_execution_outcome:
  assumes "execute_victim_transaction E H victim_id g w = Ret (g', w', r)"
  shows "case r of
      Inr h \<Rightarrow> vg_scheduled_victims g' = hm_remove victim_id (vg_scheduled_victims g)
        \<and> (\<exists>victim router data (tx :: SignedTransaction). hm_get (vg_scheduled_victims g) victim_id = Some victim
             \<and> encode_swap_transaction (vg_config g) victim = Inr data \<and> st_data tx = data
             \<and> hm_get (vc_dex_routers (vg_config g)) (vt_dex victim) = Some router \<and> st_to tx = Some router
             \<and> submit_transaction H (vc_rpc_endpoint (vg_config g)) (st_raw_transaction tx) w = (w', Inr h))
    | Inl e \<Rightarrow> vg_scheduled_victims g' = vg_scheduled_victims g
        \<and> (case e of
             SubmitError _ \<Rightarrow> \<exists>wallet. get_default_wallet (sg_key_manager (vg_signer g)) = Inr wallet
               \<and> next_tracked (signer_address E wallet) (vg_signer g') =
                   next_tracked (signer_address E wallet) (vg_signer g) + 1
           | SignError _ \<Rightarrow> True
           | _ \<Rightarrow> vg_signer g' = vg_signer g)"
  using assms
proof (rule execute_victim_cases)
  fix victim e
  assume "victim_transaction (vg_config g) victim = Inl e" "g' = g" "r = Inl e"
  then show ?thesis
    by (auto simp: victim_transaction_def encode_swap_transaction_def res_bind_Inl_iff ok_or_def split: option.splits)
next
  fix victim template s tx e
  assume "sign_transaction E template Network (vt_gas_price victim) 2000000000 (vg_signer g) = Ret (s, Inr tx)"
    and "g' = g\<lparr>vg_signer := s\<rparr>" "r = Inl (SubmitError e)"
  then show ?thesis
    by (elim signed_advances) auto
next
  fix victim template s tx h
  assume "hm_get (vg_scheduled_victims g) victim_id = Some victim"
    and template: "victim_transaction (vg_config g) victim = Inr template"
    and signed: "sign_transaction E template Network (vt_gas_price victim) 2000000000 (vg_signer g) = Ret (s, Inr tx)"
    and "submit_transaction H (vc_rpc_endpoint (vg_config g)) (st_raw_transaction tx) w = (w', Inr h)"
    and "g' = g\<lparr>vg_signer := s, vg_scheduled_victims := hm_remove victim_id (vg_scheduled_victims g)\<rparr>" "r = Inr h"
  moreover from template obtain data router where "encode_swap_transaction (vg_config g) victim = Inr data"
      "hm_get (vc_dex_routers (vg_config g)) (vt_dex victim) = Some router" "template = victim_template (vg_config g) router data"
    by (auto simp: victim_transaction_def)
  moreover from signed have "st_data tx = tt_data template" "st_to tx = tt_to template"
    by (auto elim: signed_advances)
  ultimately show ?thesis
    by (auto simp: victim_template_def)
qed simp_all

subsection \<open>Scenarios\<close>

lemma schedule_all:
  "distinct (map vt_id vs) \<Longrightarrow> v \<in> set vs \<Longrightarrow>
     hm_get (vg_scheduled_victims (fold schedule_victim_transaction vs g)) (vt_id v) = Some v"
  "vt_id v \<notin> set (map vt_id vs) \<Longrightarrow>
     hm_get (vg_scheduled_victims (fold schedule_victim_transaction vs g)) (vt_id v) = hm_get (vg_scheduled_victims g) (vt_id v)"
  by (induction vs arbitrary: g) (auto simp: schedule_victim_transaction_def image_iff)

lemma schedule_signer: "vg_signer (fold schedule_victim_transaction vs g) = vg_signer g"
  by (induction vs arbitrary: g) (simp_all add: schedule_victim_transaction_def)

lemmas scenario_defs =
  create_simple_arbitrage_scenario_def create_sandwich_scenario_def create_multi_dex_scenario_def
  create_high_slippage_scenario_def create_default_scenario_def

text \<open>Every scenario asks for less profit than it expects, and each of its opportunities targets one of its
  victims.\<close>

lemma scenarios_consistent:
  fixes name
  defines "s \<equiv> create_test_scenario name"
  shows "distinct (map vt_id (ts_victim_transactions s))
    \<and> list_all (\<lambda>v. vt_min_amount_out v < vt_amount_in v) (ts_victim_transactions s)
    \<and> list_all (\<lambda>x. xo_target_victim_id x \<in> vt_id ` set (ts_victim_transactions s)
          \<and> su_min_total_profit (ts_success_criteria s) \<le> fst (xo_expected_profit_range x)
          \<and> fst (xo_expected_profit_range x) < snd (xo_expected_profit_range x)) (ts_expected_opportunities s)"
  by (simp add: s_def create_test_scenario_def scenario_defs)

text \<open>a scenario, whichever it is, only schedules its victims: they are all still waiting when it ends,
  the signer has not been used, and the result is a success with one opportunity all the same, even in the
  scenario whose criteria ask for twice the profit that is reported.\<close>

theorem scenarios_always_succeed:
  "case execute_test_scenario time (create_test_scenario name) g of
     (g', slept, results) \<Rightarrow>
       rs_success results \<and> rs_opportunities_detected results = 1 \<and> vg_signer g' = vg_signer g
       \<and> list_all (\<lambda>v. hm_get (vg_scheduled_victims g') (vt_id v) = Some v)
           (ts_victim_transactions (create_test_scenario name))
       \<and> 2 * rs_total_profit results = su_min_total_profit (ts_success_criteria create_high_slippage_scenario)"
proof -
  have "distinct (map vt_id (ts_victim_transactions (create_test_scenario name)))"
    using scenarios_consistent by blast
  then show ?thesis
    by (simp add: execute_test_scenario_def schedule_signer list_all_iff schedule_all create_high_slippage_scenario_def)
qed

subsection \<open>Instances\<close>

theorem victim_swap_is_transfer_witness:
  "\<exists>data. encode_swap_transaction VictimGeneratorConfig_default
        (hd (ts_victim_transactions create_simple_arbitrage_scenario)) = Inr data
     \<and> map_option di_function_name (snd (core_decode_input demo_hex_ops 70 data (CoreDecoder_new :: Token CoreDecoder))) =
         Some ''transfer''"
proof -
  obtain data where data: "encode_swap_transaction VictimGeneratorConfig_default
      (hd (ts_victim_transactions create_simple_arbitrage_scenario)) = Inr data"
    by (simp add: encode_swap_transaction_def VictimGeneratorConfig_default_def create_simple_arbitrage_scenario_def)
  from victim_swap_is_transfer [OF demo_hex_ops_laws refl [of "co_signature_map (CoreDecoder_new :: Token CoreDecoder)"] this]
  show ?thesis
    using data by (intro exI [of _ data] conjI) (simp_all only: option.map DecodedInput.simps)
qed

text \<open>A node that cannot be reached.\<close>

definition demo_victims :: "u64 VictimGenerator" where
  "demo_victims =
     schedule_victim_transaction (hd (ts_victim_transactions create_simple_arbitrage_scenario))
       ((VictimGenerator_new VictimGeneratorConfig_default KeyManager_new)\<lparr>vg_signer := demo_signer\<rparr>)"

theorem victim_execution_outcome_witness:
  "\<exists>g' w' e. execute_victim_transaction demo_sign_env (demo_submit_env\<lparr>se_reply := (\<lambda>ep rq w. (w, Inl ''down''))\<rparr>)
       ''victim_arb_1'' demo_victims [] = Ret (g', w', Inl (SubmitError e))
     \<and> vg_scheduled_victims g' = vg_scheduled_victims demo_victims \<and> next_tracked 5 (vg_signer g') = 1"
proof -
  let ?H = "demo_submit_env\<lparr>se_reply := (\<lambda>ep rq w. (w, Inl ''down''))\<rparr>"
  obtain victim template where victim: "hm_get (vg_scheduled_victims demo_victims) ''victim_arb_1'' = Some victim"
      "victim_transaction (vg_config demo_victims) victim = Inr template" "tt_gas_limit template = 200000"
    by (simp add: demo_victims_def schedule_victim_transaction_def VictimGenerator_new_def VictimGeneratorConfig_default_def
        create_simple_arbitrage_scenario_def victim_transaction_def encode_swap_transaction_def victim_template_def)
  have signer: "vg_signer demo_victims = demo_signer"
    by (simp add: demo_victims_def schedule_victim_transaction_def)
  obtain s tx where signed: "sign_transaction demo_sign_env template Network (vt_gas_price victim) 2000000000 demo_signer = Ret (s, Inr tx)"
    using victim(3) by (simp add: sign_transaction_def demo_default_wallet sign_sequential demo_next Let_def
        demo_wallet_signs er_gas_request)
  obtain w' e where submit: "submit_transaction ?H ep raw [] = (w' ep raw, Inl e)" for ep raw
    by (simp add: submit_transaction_def rpc_result_def Let_def)
  have run: "execute_victim_transaction demo_sign_env ?H ''victim_arb_1'' demo_victims [] =
      Ret (demo_victims\<lparr>vg_signer := s\<rparr>, w' (vc_rpc_endpoint (vg_config demo_victims)) (st_raw_transaction tx), Inl (SubmitError e))"
    using victim(1,2) signed submit by (simp add: execute_victim_transaction_def signer)
  from victim_execution_outcome [OF run] run show ?thesis
    by (auto simp: signer demo_default_wallet demo_wallet_signs demo_next)
qed

end
