(* ===== verification/Dry_Run.thy ===== *)
theory Dry_Run
  imports Bundle_Submitter Execution_Tracker F64_Text
begin

text \<open>
  The dry run on the main network, \<open>crates/mev-core/src/bundle/mainnet_dry_run.rs\<close>: dummy bundles are
  submitted or only simulated, handed to the execution tracker, polled for a minute and summed up. The
  submitter and the tracker are those of \<open>Bundle_Submitter\<close> and \<open>Execution_Tracker\<close>; the query for the
  latest block is the tracker's, posted to the main network. While the dry run sleeps the clock moves and a
  task that monitors the tracker, if there is one, may work on it: \<open>dn_idle\<close>. The log is left out.
\<close>

subsection \<open>Data\<close>

record DryRunConfig =
  dc_mainnet_rpc :: string
  dc_live_mempool :: bool
  dc_use_dummy_values :: bool
  dc_max_duration :: duration
  dc_min_bundles :: u32
  dc_verbose_logging :: bool

definition DryRunConfig_default :: DryRunConfig where
  "DryRunConfig_default =
     \<lparr>dc_mainnet_rpc = ''https://rpc.hyperevm.org'', dc_live_mempool = True, dc_use_dummy_values = True,
      dc_max_duration = secs 300, dc_min_bundles = 5, dc_verbose_logging = True\<rparr>"

record DryRunMetrics =
  dm_bundles_submitted :: u32
  dm_bundles_included :: u32
  dm_avg_inclusion_latency :: duration
  dm_total_gas_cost :: u256
  dm_ordering_success_rate :: f64
  dm_mempool_transactions :: u32
  dm_opportunities_detected :: u32

definition DryRunMetrics_default :: DryRunMetrics where
  "DryRunMetrics_default =
     \<lparr>dm_bundles_submitted = 0, dm_bundles_included = 0, dm_avg_inclusion_latency = 0, dm_total_gas_cost = 0,
      dm_ordering_success_rate = Finite False 0, dm_mempool_transactions = 0, dm_opportunities_detected = 0\<rparr>"

record InclusionResult =
  ir_bundle_id :: string
  ir_submitted_at :: instant
  ir_included_at :: "instant option"
  ir_target_block :: u64
  ir_actual_block :: "u64 option"
  ir_relative_position :: "u64 list option"
  ir_gas_used :: u256
  ir_success :: bool

text \<open>The randomness, the two components' environments and the passing of time.\<close>

record ('w, 'v) dry_env =
  dn_rpc :: "('w, 'v) tracker_env"
  dn_submit :: "('w, 'v) submit_env"
  dn_random_hash :: "'w \<Rightarrow> 'w \<times> h256"
  dn_random_address :: "'w \<Rightarrow> 'w \<times> address"
  dn_random_u64 :: "'w \<Rightarrow> 'w \<times> u64"
  dn_idle :: "duration \<Rightarrow> ExecutionTracker \<times> 'w \<Rightarrow> ExecutionTracker \<times> 'w"

record 'w MainnetDryRun =
  dy_config :: DryRunConfig
  dy_submitter :: "'w BundleSubmitter"
  dy_tracker :: ExecutionTracker
  dy_metrics :: DryRunMetrics

datatype dry_error = DryRpc tracker_error | DrySubmit submit_error | DryStatus tracker_error

definition MainnetDryRun_new :: "DryRunConfig \<Rightarrow> 'w BundleSubmitter \<Rightarrow> ExecutionTracker \<Rightarrow> 'w MainnetDryRun" where
  "MainnetDryRun_new config submitter tracker =
     \<lparr>dy_config = config, dy_submitter = submitter, dy_tracker = tracker, dy_metrics = DryRunMetrics_default\<rparr>"

abbreviation dry_world :: "'w MainnetDryRun \<Rightarrow> 'w" where
  "dry_world d \<equiv> bs_world (dy_submitter d)"

definition set_world :: "'w \<Rightarrow> 'w MainnetDryRun \<Rightarrow> 'w MainnetDryRun" where
  "set_world w d = d\<lparr>dy_submitter := (dy_submitter d)\<lparr>bs_world := w\<rparr>\<rparr>"

definition dry_sleep :: "('w, 'v) dry_env \<Rightarrow> duration \<Rightarrow> 'w MainnetDryRun \<Rightarrow> 'w MainnetDryRun" where
  "dry_sleep E time d =
     (case dn_idle E time (dy_tracker d, dry_world d) of (t, w) \<Rightarrow> set_world w (d\<lparr>dy_tracker := t\<rparr>))"

definition latest_block :: "('w, 'v) dry_env \<Rightarrow> 'w MainnetDryRun \<Rightarrow> 'w MainnetDryRun \<times> (dry_error + u64)" where
  "latest_block E d =
     (case get_latest_block_number (dn_rpc E) (dry_world d) of
        (w, Inl e) \<Rightarrow> (set_world w d, Inl (DryRpc e))
      | (w, Inr n) \<Rightarrow> (set_world w d, Inr n))"

subsection \<open>The mempool\<close>

definition simulated_transaction :: "nat \<Rightarrow> DryRunMetrics \<Rightarrow> DryRunMetrics" where
  "simulated_transaction i m =
     (let m = m\<lparr>dm_mempool_transactions := dm_mempool_transactions m + 1\<rparr>
      in if i mod 5 = 0 then m\<lparr>dm_opportunities_detected := dm_opportunities_detected m + 1\<rparr> else m)"

definition simulate_mempool_monitoring :: "('w, 'v) dry_env \<Rightarrow> 'w MainnetDryRun \<Rightarrow> 'w MainnetDryRun" where
  "simulate_mempool_monitoring E d =
     fold (\<lambda>i d. dry_sleep E (millis 500) (d\<lparr>dy_metrics := simulated_transaction i (dy_metrics d)\<rparr>)) [0..<20] d"

definition connect_to_mempool :: "('w, 'v) dry_env \<Rightarrow> 'w MainnetDryRun \<Rightarrow> 'w MainnetDryRun \<times> (dry_error + unit)" where
  "connect_to_mempool E d =
     (case latest_block E d of
        (d, Inl e) \<Rightarrow> (d, Inl e)
      | (d, Inr n) \<Rightarrow> (simulate_mempool_monitoring E d, Inr ()))"

subsection \<open>Dummy bundles\<close>

definition create_dummy_bundle :: "('w, 'v) dry_env \<Rightarrow> nat \<Rightarrow> 'w \<Rightarrow> 'w \<times> Bundle" where
  "create_dummy_bundle E index w =
     (let (w, hash) = dn_random_hash E w;
          (w, from) = dn_random_address E w;
          (w, to) = dn_random_address E w;
          dummy_tx =
            \<lparr>st_hash = hash, st_from = from, st_to = Some to, st_value = 1, st_gas_limit = 21000,
             st_max_fee_per_gas = 1000000000, st_max_priority_fee_per_gas = 1000000000, st_nonce = word_of_nat index,
             st_data = [], st_chain_id = 998, st_raw_transaction = [1, 2, 3], st_transaction_type = 2\<rparr>
      in (w, \<lparr>bu_id = ''dry_run_bundle_'' @ dec_digits index, bu_pre_transactions = [],
              bu_target_transaction = dummy_tx, bu_post_transactions = [dummy_tx], bu_target_block = 0,
              bu_max_gas_price = 1000000000, bu_estimated_profit = 1, bu_created_at = se_utc (dn_submit E) w,
              bu_metadata = hm_insert ''test_index'' (dec_digits index) (hm_insert ''dry_run'' ''true'' hm_empty)\<rparr>))"

fun dummy_bundles :: "('w, 'v) dry_env \<Rightarrow> nat list \<Rightarrow> 'w \<Rightarrow> 'w \<times> Bundle list" where
  "dummy_bundles E [] w = (w, [])"
| "dummy_bundles E (i # is) w =
     (case create_dummy_bundle E i w of (w, b) \<Rightarrow> (case dummy_bundles E is w of (w, bs) \<Rightarrow> (w, b # bs)))"

definition generate_dummy_bundles :: "('w, 'v) dry_env \<Rightarrow> 'w MainnetDryRun \<Rightarrow> 'w MainnetDryRun \<times> Bundle list" where
  "generate_dummy_bundles E d =
     (case dummy_bundles E [0..<unat (dc_min_bundles (dy_config d))] (dry_world d) of
        (w, bundles) \<Rightarrow> (set_world w d, bundles))"

subsection \<open>Submission\<close>

definition simulate_bundle_submission ::
    "('w, 'v) dry_env \<Rightarrow> Bundle \<Rightarrow> 'w MainnetDryRun \<Rightarrow> 'w MainnetDryRun \<times> SubmissionResult" where
  "simulate_bundle_submission E b d =
     (let d = dry_sleep E (millis 100) d;
          (w, n) = dn_random_u64 E (dry_world d)
      in (set_world w d,
          \<lparr>su_bundle_id = bu_id b, su_submission_hash = ''0xdryrun'' @ hex_digits (unat n),
           su_submitted_at = se_utc (dn_submit E) w, su_gas_price = bu_max_gas_price b,
           su_estimated_inclusion_block = bu_target_block b\<rparr>))"

text \<open>The direct path, which is never without a result.\<close>

definition submit_for_real ::
    "('w, 'v) dry_env \<Rightarrow> Bundle \<Rightarrow> 'w MainnetDryRun \<Rightarrow> 'w MainnetDryRun \<times> (dry_error + SubmissionResult)" where
  "submit_for_real E b d =
     (case submit_bundle (dn_submit E) True [] b Direct (dy_submitter d) of
        Some (s, Inr r) \<Rightarrow> (d\<lparr>dy_submitter := s\<rparr>, Inr r)
      | Some (s, Inl e) \<Rightarrow> (d\<lparr>dy_submitter := s\<rparr>, Inl (DrySubmit e))
      | None \<Rightarrow> (d, Inl (DrySubmit EndpointNotConfigured)))"

definition start_tracking ::
    "('w, 'v) dry_env \<Rightarrow> Bundle \<Rightarrow> SubmissionResult \<Rightarrow> 'w MainnetDryRun \<Rightarrow> 'w MainnetDryRun" where
  "start_tracking E b r d =
     d\<lparr>dy_tracker := track_bundle (se_instant (dn_submit E) (dry_world d)) b r (dy_tracker d),
       dy_metrics := (dy_metrics d)\<lparr>dm_bundles_submitted := dm_bundles_submitted (dy_metrics d) + 1\<rparr>\<rparr>"

definition submit_and_track_bundle ::
    "('w, 'v) dry_env \<Rightarrow> Bundle \<Rightarrow> 'w MainnetDryRun \<Rightarrow> 'w MainnetDryRun \<times> (dry_error + InclusionResult)" where
  "submit_and_track_bundle E bundle d =
     (case latest_block E d of
        (d, Inl e) \<Rightarrow> (d, Inl e)
      | (d, Inr current_block) \<Rightarrow>
          (let b = bundle\<lparr>bu_target_block := current_block + 2\<rparr>;
               submitted_at = se_instant (dn_submit E) (dry_world d);
               (d, submission_result) =
                 (if dc_use_dummy_values (dy_config d)
                  then (case simulate_bundle_submission E b d of (d, r) \<Rightarrow> (d, Inr r))
                  else submit_for_real E b d)
           in case submission_result of
                Inl e \<Rightarrow> (d, Inl e)
              | Inr r \<Rightarrow>
                  (start_tracking E b r d,
                   Inr \<lparr>ir_bundle_id = bu_id b, ir_submitted_at = submitted_at, ir_included_at = None,
                     ir_target_block = bu_target_block b, ir_actual_block = None, ir_relative_position = None,
                     ir_gas_used = 42000, ir_success = False\<rparr>)))"

fun submit_all ::
    "('w, 'v) dry_env \<Rightarrow> Bundle list \<Rightarrow> 'w MainnetDryRun \<Rightarrow> 'w MainnetDryRun \<times> (dry_error + InclusionResult list)" where
  "submit_all E [] d = (d, Inr [])"
| "submit_all E (b # bs) d =
     (case submit_and_track_bundle E b d of
        (d, Inl e) \<Rightarrow> (d, Inl e)
      | (d, Inr r) \<Rightarrow>
          (case submit_all E bs (dry_sleep E (millis 500) d) of
             (d, Inl e) \<Rightarrow> (d, Inl e)
           | (d, Inr rs) \<Rightarrow> (d, Inr (r # rs))))"

subsection \<open>Waiting\<close>

text \<open>One pass over the results. A bundle that failed or expired ends the pass.\<close>

fun wait_pass ::
    "('w, 'v) dry_env \<Rightarrow> InclusionResult list \<Rightarrow> 'w MainnetDryRun \<Rightarrow>
     'w MainnetDryRun \<times> (dry_error + InclusionResult list)" where
  "wait_pass E [] d = (d, Inr [])"
| "wait_pass E (r # rs) d =
     (if ir_included_at r \<noteq> None then
        (case wait_pass E rs d of (d, Inl e) \<Rightarrow> (d, Inl e) | (d, Inr rs) \<Rightarrow> (d, Inr (r # rs)))
      else
        case get_execution_status (ir_bundle_id r) (dy_tracker d) of
          Inl e \<Rightarrow> (d, Inl (DryStatus e))
        | Inr (Included block_number _) \<Rightarrow>
            (let r = r\<lparr>ir_included_at := Some (se_instant (dn_submit E) (dry_world d)),
                       ir_actual_block := Some block_number, ir_success := True\<rparr>;
                 d = d\<lparr>dy_metrics := (dy_metrics d)\<lparr>dm_bundles_included := dm_bundles_included (dy_metrics d) + 1\<rparr>\<rparr>
             in case wait_pass E rs d of (d, Inl e) \<Rightarrow> (d, Inl e) | (d, Inr rs) \<Rightarrow> (d, Inr (r # rs)))
        | Inr (Failed _) \<Rightarrow> (d, Inr (r\<lparr>ir_success := False\<rparr> # rs))
        | Inr Expired \<Rightarrow> (d, Inr (r\<lparr>ir_success := False\<rparr> # rs))
        | Inr Pending \<Rightarrow>
            (case wait_pass E rs d of (d, Inl e) \<Rightarrow> (d, Inl e) | (d, Inr rs) \<Rightarrow> (d, Inr (r # rs))))"

text \<open>The loop with its start; \<open>None\<close> when the fuel ends before the minute does.\<close>

fun wait_rounds ::
    "('w, 'v) dry_env \<Rightarrow> nat \<Rightarrow> instant \<Rightarrow> InclusionResult list \<Rightarrow> 'w MainnetDryRun \<Rightarrow>
     ('w MainnetDryRun \<times> (dry_error + InclusionResult list)) option" where
  "wait_rounds E 0 start results d = None"
| "wait_rounds E (Suc n) start results d =
     (if elapsed (se_instant (dn_submit E) (dry_world d)) start < secs 60 then
        (case wait_pass E results d of
           (d, Inl e) \<Rightarrow> Some (d, Inl e)
         | (d, Inr results) \<Rightarrow> wait_rounds E n start results (dry_sleep E (secs 2) d))
      else Some (d, Inr results))"

definition wait_for_inclusions ::
    "('w, 'v) dry_env \<Rightarrow> nat \<Rightarrow> InclusionResult list \<Rightarrow> 'w MainnetDryRun \<Rightarrow>
     ('w MainnetDryRun \<times> (dry_error + InclusionResult list)) option" where
  "wait_for_inclusions E fuel results d =
     wait_rounds E fuel (se_instant (dn_submit E) (dry_world d)) results d"

subsection \<open>The results\<close>

definition latency_of :: "InclusionResult \<Rightarrow> duration option" where
  "latency_of r = map_option (\<lambda>included_at. elapsed included_at (ir_submitted_at r)) (ir_included_at r)"

definition ordered :: "InclusionResult \<Rightarrow> bool" where
  "ordered r \<longleftrightarrow>
     ir_included_at r \<noteq> None \<and>
     (case ir_actual_block r of Some actual_block \<Rightarrow> actual_block \<le> ir_target_block r + 2 | None \<Rightarrow> False)"

definition analyze_results :: "InclusionResult list \<Rightarrow> DryRunMetrics \<Rightarrow> DryRunMetrics run" where
  "analyze_results results m =
     run_bind (u256_sum 0 (map ir_gas_used results)) (\<lambda>total_gas.
       let latencies = List.map_filter latency_of results;
           successful_orderings = length (filter ordered results);
           m = (if latencies = [] then m
                else m\<lparr>dm_avg_inclusion_latency := sum_list latencies div length latencies\<rparr>);
           m = (if 0 < dm_bundles_submitted m then
                  m\<lparr>dm_ordering_success_rate :=
                      f64_div (f64_of_nat successful_orderings) (f64_of_nat (unat (dm_bundles_submitted m)))\<rparr>
                else m)
       in Ret (m\<lparr>dm_total_gas_cost := total_gas\<rparr>))"

definition execute_dry_run ::
    "('w, 'v) dry_env \<Rightarrow> nat \<Rightarrow> 'w MainnetDryRun \<Rightarrow> (('w MainnetDryRun \<times> (dry_error + DryRunMetrics)) run) option" where
  "execute_dry_run E fuel d =
     (case (if dc_live_mempool (dy_config d) then connect_to_mempool E d else (d, Inr ())) of
        (d, Inl e) \<Rightarrow> Some (Ret (d, Inl e))
      | (d, Inr _) \<Rightarrow>
          (case generate_dummy_bundles E d of
             (d, bundles) \<Rightarrow>
               (case submit_all E bundles d of
                  (d, Inl e) \<Rightarrow> Some (Ret (d, Inl e))
                | (d, Inr results) \<Rightarrow>
                    map_option
                      (\<lambda>(d, waited). case waited of
                          Inl e \<Rightarrow> Ret (d, Inl e)
                        | Inr results \<Rightarrow>
                            run_bind (analyze_results results (dy_metrics d)) (\<lambda>m. Ret (d\<lparr>dy_metrics := m\<rparr>, Inr m)))
                      (wait_for_inclusions E fuel results d))))"

end
