(* ===== verification/Dry_Run_Facts.thy ===== *)
theory Dry_Run_Facts
  imports Dry_Run Tracker_Facts Submission_Facts
begin

text \<open>
  What the metrics of a dry run can say, given how the tracker's monitor works, and that it comes to an end.
\<close>

subsection \<open>Between the rounds of the monitor\<close>

definition all_pending :: "ExecutionTracker \<Rightarrow> bool" where
  "all_pending t \<longleftrightarrow> (\<forall>(k, tb) \<in> set (et_tracked_bundles t). tb_status tb = Pending)"

text \<open>While the dry run sleeps, the monitor completes any number of rounds, none if it was not started.\<close>

definition idle_between_rounds :: "('x, 'y) tracker_env \<Rightarrow> ('w, 'v) dry_env \<Rightarrow> bool" where
  "idle_between_rounds T E \<longleftrightarrow>
     (\<forall>time t w. \<exists>n w0 w1. monitoring_rounds T n t w0 = Ret (fst (dn_idle E time (t, w)), w1))"

text \<open>A sleep takes at least its time.\<close>

definition idle_takes_time :: "('w, 'v) dry_env \<Rightarrow> bool" where
  "idle_takes_time E \<longleftrightarrow>
     (\<forall>time t w. se_instant (dn_submit E) w + time \<le> se_instant (dn_submit E) (snd (dn_idle E time (t, w))))"

lemma cleanup_pending: "all_pending (cleanup_expired_bundles now t)"
  by (auto simp: all_pending_def cleanup_expired_bundles_def hm_retain_def split: ExecutionStatus.splits)

lemma rounds_pending:
  "all_pending t \<Longrightarrow> monitoring_rounds T n t w = Ret (t', w') \<Longrightarrow> all_pending t'"
proof (induction n arbitrary: t w)
  case (Suc n)
  then obtain t1 w1 where "monitoring_round T t w = Ret (t1, w1)" "monitoring_rounds T n t1 w1 = Ret (t', w')"
    by (auto simp: run_bind_Ret_iff)
  moreover from this(1) have "all_pending t1"
    by (auto simp: monitoring_round_def Let_def run_bind_Ret_iff cleanup_pending split_beta)
  ultimately show ?case
    using Suc.IH by blast
qed simp

lemma track_pending: "all_pending t \<Longrightarrow> all_pending (track_bundle now b r t)"
  using hm_insert_entries [of "bu_id b" _ "et_tracked_bundles t"]
  by (fastforce simp: all_pending_def track_bundle_def Let_def)

lemma pending_status:
  "all_pending t \<Longrightarrow> get_execution_status i t = (if hm_get (et_tracked_bundles t) i = None then Inl (BundleNotFound i) else Inr Pending)"
  by (auto simp: all_pending_def get_execution_status_def split: option.splits dest: hm_get_in)

subsection \<open>The metrics of a run\<close>

definition dry_ok :: "nat \<Rightarrow> 'w MainnetDryRun \<Rightarrow> bool" where
  "dry_ok n d \<longleftrightarrow> all_pending (dy_tracker d) \<and> dm_bundles_included (dy_metrics d) = 0
     \<and> dm_avg_inclusion_latency (dy_metrics d) = 0 \<and> dm_ordering_success_rate (dy_metrics d) = Finite False 0
     \<and> dm_bundles_submitted (dy_metrics d) = word_of_nat n"

definition not_included :: "InclusionResult \<Rightarrow> bool" where
  "not_included r \<longleftrightarrow> ir_included_at r = None \<and> ir_gas_used r = 42000"

lemma set_world_fields [simp]:
  "dy_tracker (set_world w d) = dy_tracker d" "dy_metrics (set_world w d) = dy_metrics d"
  "dy_config (set_world w d) = dy_config d" "dry_world (set_world w d) = w"
  by (simp_all add: set_world_def)

lemma dry_sleep_fields [simp]:
  "dy_metrics (dry_sleep E time d) = dy_metrics d" "dy_config (dry_sleep E time d) = dy_config d"
  "dy_tracker (dry_sleep E time d) = fst (dn_idle E time (dy_tracker d, dry_world d))"
  "dry_world (dry_sleep E time d) = snd (dn_idle E time (dy_tracker d, dry_world d))"
  by (simp_all add: dry_sleep_def split: prod.split)

lemma dry_ok_sleep:
  assumes "idle_between_rounds T E" and "dry_ok n d"
  shows "dry_ok n (dry_sleep E time d)"
proof -
  obtain k w0 w1 where "monitoring_rounds T k (dy_tracker d) w0 = Ret (fst (dn_idle E time (dy_tracker d, dry_world d)), w1)"
    using assms(1) unfolding idle_between_rounds_def by blast
  with assms(2) show ?thesis
    by (auto simp: dry_ok_def dest: rounds_pending)
qed

lemma dry_ok_latest: "latest_block E d = (d', r) \<Longrightarrow> dry_ok n d \<Longrightarrow> dry_ok n d' \<and> dy_config d' = dy_config d"
  by (auto simp: latest_block_def dry_ok_def split: prod.splits sum.splits)

lemma dry_ok_mempool:
  assumes "idle_between_rounds T E"
  shows "dry_ok n d \<Longrightarrow> dry_ok n (fold (\<lambda>i d. dry_sleep E time (d\<lparr>dy_metrics := simulated_transaction i (dy_metrics d)\<rparr>)) is d)
    \<and> dy_config (fold (\<lambda>i d. dry_sleep E time (d\<lparr>dy_metrics := simulated_transaction i (dy_metrics d)\<rparr>)) is d) = dy_config d"
proof (induction "is" arbitrary: d)
  case (Cons i "is")
  have "dry_ok n (d\<lparr>dy_metrics := simulated_transaction i (dy_metrics d)\<rparr>)"
    using Cons.prems by (simp add: dry_ok_def simulated_transaction_def Let_def)
  with Cons.IH dry_ok_sleep [OF assms] show ?case
    by force
qed simp

lemma dry_ok_connect:
  assumes "idle_between_rounds T E" and "dry_ok n d" and "connect_to_mempool E d = (d', r)"
  shows "dry_ok n d' \<and> dy_config d' = dy_config d"
  using assms dry_ok_latest [of E d _ _ n] dry_ok_mempool [OF assms(1)]
  by (auto simp: connect_to_mempool_def simulate_mempool_monitoring_def split: prod.splits sum.splits)

lemma length_dummy_bundles: "length (snd (dummy_bundles E is w)) = length is"
  by (induction "is" arbitrary: w) (simp_all add: split_beta)

lemma submit_for_real_fields:
  "submit_for_real E b d = (d', r) \<Longrightarrow> dy_tracker d' = dy_tracker d \<and> dy_metrics d' = dy_metrics d \<and> dy_config d' = dy_config d"
  by (auto simp: submit_for_real_def split: option.splits prod.splits sum.splits)

lemma dry_ok_submit:
  assumes idle: "idle_between_rounds T E" and ok: "dry_ok n d" and run: "submit_and_track_bundle E b d = (d', Inr r)"
  shows "dry_ok (Suc n) d' \<and> not_included r \<and> dy_config d' = dy_config d"
proof -
  obtain d1 block where latest: "latest_block E d = (d1, Inr block)"
    using run by (auto simp: submit_and_track_bundle_def split: prod.splits sum.splits)
  note ok1 = dry_ok_latest [OF latest ok]
  define c where "c = b\<lparr>bu_target_block := block + 2\<rparr>"
  obtain d2 s where submitted: "dry_ok n d2" "dy_config d2 = dy_config d1" "d' = start_tracking E c s d2"
    and r: "not_included r"
  proof (cases "dc_use_dummy_values (dy_config d1)")
    case True
    obtain d2 s where sim: "simulate_bundle_submission E c d1 = (d2, s)"
      by fastforce
    have "dry_ok n (dry_sleep E (millis 100) d1)"
      using dry_ok_sleep [OF idle] ok1 by blast
    then have "dry_ok n d2" "dy_config d2 = dy_config d1"
      using sim by (auto simp: simulate_bundle_submission_def Let_def dry_ok_def split_beta)
    with that sim run latest True show ?thesis
      by (auto simp: submit_and_track_bundle_def Let_def c_def not_included_def)
  next
    case False
    obtain d2 t where real: "submit_for_real E c d1 = (d2, t)"
      by fastforce
    with submit_for_real_fields [OF this] ok1 have "dry_ok n d2" "dy_config d2 = dy_config d1"
      by (simp_all add: dry_ok_def)
    with that real run latest False show ?thesis
      by (cases t) (auto simp: submit_and_track_bundle_def Let_def c_def not_included_def)
  qed
  moreover have "dry_ok (Suc n) (start_tracking E c s d2)"
    using submitted(1) by (simp add: dry_ok_def start_tracking_def track_pending)
  ultimately show ?thesis
    using ok1 by (simp add: start_tracking_def)
qed

lemma dry_ok_submit_all:
  assumes idle: "idle_between_rounds T E"
  shows "dry_ok n d \<Longrightarrow> submit_all E bs d = (d', Inr rs) \<Longrightarrow>
    dry_ok (n + length bs) d' \<and> length rs = length bs \<and> list_all not_included rs"
proof (induction bs arbitrary: d n rs)
  case (Cons b bs)
  obtain d1 r rs' where 1: "submit_and_track_bundle E b d = (d1, Inr r)"
      and 2: "submit_all E bs (dry_sleep E (millis 500) d1) = (d', Inr rs')" and rs: "rs = r # rs'"
    using Cons.prems(2) by (auto split: prod.splits sum.splits)
  have "dry_ok (Suc n) (dry_sleep E (millis 500) d1)"
    using dry_ok_sleep [OF idle] dry_ok_submit [OF idle Cons.prems(1) 1] by blast
  from Cons.IH [OF this 2] dry_ok_submit [OF idle Cons.prems(1) 1] rs show ?case
    by simp
qed simp

text \<open>A pass over results that are not included changes nothing, or stops at a bundle that is gone.\<close>

lemma wait_pass_pending:
  "all_pending (dy_tracker d) \<Longrightarrow> list_all not_included rs \<Longrightarrow> wait_pass E rs d = (d', r) \<Longrightarrow>
     d' = d \<and> (r = Inr rs \<and> list_all (\<lambda>r. hm_get (et_tracked_bundles (dy_tracker d)) (ir_bundle_id r) \<noteq> None) rs
       \<or> (\<exists>x \<in> set rs. hm_get (et_tracked_bundles (dy_tracker d)) (ir_bundle_id x) = None
            \<and> r = Inl (DryStatus (BundleNotFound (ir_bundle_id x)))))"
proof (induction rs arbitrary: d' r)
  case (Cons x xs)
  obtain d1 s where s: "wait_pass E xs d = (d1, s)"
    by fastforce
  with Cons show ?case
    by (cases "hm_get (et_tracked_bundles (dy_tracker d)) (ir_bundle_id x) = None")
      (auto simp: pending_status not_included_def split: sum.splits)
qed simp

text \<open>A bundle that failed or expired keeps every later one from being looked at.\<close>

lemma failure_hides_later:
  assumes "ir_included_at r = None"
    and "get_execution_status (ir_bundle_id r) (dy_tracker d) \<in> {Inr (Failed reason), Inr Expired}"
  shows "wait_pass E (as @ r # bs) d = (d', Inr rs) \<Longrightarrow> drop (Suc (length as)) rs = bs \<and> length rs = length as + Suc (length bs)"
  using assms(2)
proof (induction as arbitrary: d d' rs)
  case Nil
  with assms(1) show ?case
    by auto
next
  case (Cons a as)
  show ?case
  proof (cases "ir_included_at a = None \<and>
      (\<exists>reason. get_execution_status (ir_bundle_id a) (dy_tracker d) \<in> {Inr (Failed reason), Inr Expired})")
    case True
    with Cons.prems show ?thesis
      by auto
  next
    case False
    define d1 where "d1 = (if ir_included_at a = None \<and> get_execution_status (ir_bundle_id a) (dy_tracker d) \<noteq> Inr Pending
      then d\<lparr>dy_metrics := (dy_metrics d)\<lparr>dm_bundles_included := dm_bundles_included (dy_metrics d) + 1\<rparr>\<rparr> else d)"
    obtain d2 s where pass: "wait_pass E (as @ r # bs) d1 = (d2, s)"
      by fastforce
    have "\<exists>a' rs1. s = Inr rs1 \<and> rs = a' # rs1"
      using False Cons.prems pass
      by (auto simp: d1_def Let_def split: if_splits sum.splits ExecutionStatus.splits)
    with Cons.IH [of d1 d2] pass Cons.prems(2) show ?thesis
      by (auto simp: d1_def split: if_splits)
  qed
qed

lemma wait_pass_world: "wait_pass E rs d = (d', r) \<Longrightarrow> dry_world d' = dry_world d"
  by (induction rs arbitrary: d d' r)
    (auto simp: Let_def split: if_splits sum.splits prod.splits ExecutionStatus.splits)

lemma wait_rounds_pending:
  assumes idle: "idle_between_rounds T E" and "list_all not_included rs"
  shows "dry_ok n d \<Longrightarrow> wait_rounds E fuel start rs d = Some (d', Inr rs') \<Longrightarrow> rs' = rs \<and> dry_ok n d'"
proof (induction fuel arbitrary: d)
  case (Suc fuel)
  obtain d1 s where s: "wait_pass E rs d = (d1, s)"
    by fastforce
  have "all_pending (dy_tracker d)"
    using Suc.prems(1) by (simp add: dry_ok_def)
  from wait_pass_pending [OF this assms(2) s] Suc.prems s Suc.IH [OF dry_ok_sleep [OF idle Suc.prems(1)]] show ?case
    by (auto split: if_splits)
qed simp

lemma dry_run_gas:
  assumes "list_all not_included rs" and "length rs < 2 ^ 32"
  shows "u256_sum 0 (map ir_gas_used rs) = Ret (word_of_nat (42000 * length rs))"
proof -
  have "map ir_gas_used rs = replicate (length rs) 42000"
    using assms(1) by (induction rs) (simp_all add: not_included_def)
  then show ?thesis
    using assms(2) by (simp add: u256_sum_eq sum_list_replicate)
qed

text \<open>C33: whether a monitor works on the tracker or not, a dry run that looks at it between the monitor's
  rounds either ends with an error or reports that none of its bundles was included, with no latency and
  an ordering rate of zero: the monitor drops a bundle in the round that finds it included. The gas it
  reports is the estimate for all of them all the same.\<close>

theorem dry_run_reports_no_inclusion:
  assumes "idle_between_rounds T E"
    and "execute_dry_run E fuel (MainnetDryRun_new config submitter (ExecutionTracker_new tracker_config)) = Some (Ret (d, Inr m))"
  shows "dm_bundles_submitted m = dc_min_bundles config \<and> dm_bundles_included m = 0
    \<and> dm_avg_inclusion_latency m = 0 \<and> dm_ordering_success_rate m = Finite False 0
    \<and> dm_total_gas_cost m = word_of_nat (42000 * unat (dc_min_bundles config))"
proof -
  let ?d0 = "MainnetDryRun_new config submitter (ExecutionTracker_new tracker_config)"
  let ?n = "unat (dc_min_bundles config)"
  have ok0: "dry_ok 0 ?d0"
    by (simp add: dry_ok_def MainnetDryRun_new_def DryRunMetrics_default_def all_pending_def ExecutionTracker_new_def hm_empty_def)
  obtain d1 where d1: "(if dc_live_mempool (dy_config ?d0) then connect_to_mempool E ?d0 else (?d0, Inr ())) = (d1, Inr ())"
    using assms(2) by (auto simp: execute_dry_run_def split: prod.splits sum.splits)
  have ok1: "dry_ok 0 d1 \<and> dy_config d1 = config"
    using d1 ok0 dry_ok_connect [OF assms(1) ok0] by (auto simp: MainnetDryRun_new_def split: if_splits)
  obtain d2 bundles where d2: "generate_dummy_bundles E d1 = (d2, bundles)"
    by fastforce
  then have ok2: "dry_ok 0 d2" and len: "length bundles = ?n"
    using ok1 length_dummy_bundles [of E "[0..<?n]" "dry_world d1"]
    by (auto simp: generate_dummy_bundles_def dry_ok_def split: prod.splits)
  obtain d3 rs where d3: "submit_all E bundles d2 = (d3, Inr rs)"
    using assms(2) d1 d2 by (auto simp: execute_dry_run_def split: prod.splits sum.splits)
  have ok3: "dry_ok ?n d3" "length rs = ?n" "list_all not_included rs"
    using dry_ok_submit_all [OF assms(1) ok2 d3] len by simp_all
  obtain d4 waited where w4: "wait_for_inclusions E fuel rs d3 = Some (d4, waited)"
    using assms(2) d1 d2 d3 by (auto simp: execute_dry_run_def)
  then obtain rs' where d4: "wait_for_inclusions E fuel rs d3 = Some (d4, Inr rs')"
      and m: "analyze_results rs' (dy_metrics d4) = Ret m"
    using assms(2) d1 d2 d3 by (cases waited) (auto simp: execute_dry_run_def run_bind_Ret_iff)
  have ok4: "rs' = rs" "dry_ok ?n d4"
    using wait_rounds_pending [OF assms(1) ok3(3,1)] d4 by (simp_all add: wait_for_inclusions_def)
  have none: "List.map_filter latency_of rs = []" "filter ordered rs = []"
    using ok3(3) by (induction rs) (simp_all add: not_included_def latency_of_def ordered_def)
  have "?n < 2 ^ LENGTH(32)"
    by (rule unsigned_less)
  then have "length rs < 2 ^ 32"
    using ok3(2) by simp
  note gas = dry_run_gas [OF ok3(3) this]
  have rate: "f64_div (f64_of_nat 0) (f64_of_nat k) = Finite False 0" if "0 < k" "k < 2 ^ 32" for k
    using that f64_of_nat_exact [of 0] f64_of_nat_exact [of k] by (simp add: f64_round_def)
  have "unat (dm_bundles_submitted (dy_metrics d4)) < 2 ^ LENGTH(32)"
    by (rule unsigned_less)
  with m gas none ok4 ok3(2) rate [of "unat (dm_bundles_submitted (dy_metrics d4))"] show ?thesis
    by (auto simp: analyze_results_def dry_ok_def Let_def word_less_nat_alt split: if_splits)
qed

subsection \<open>The end of a run\<close>

lemma wait_rounds_end:
  assumes "idle_takes_time E"
  shows "start + secs 60 \<le> se_instant (dn_submit E) (dry_world d) + n * secs 2 \<Longrightarrow> \<exists>r. wait_rounds E (Suc n) start rs d = Some r"
proof (induction n arbitrary: rs d)
  case 0
  then have "\<not> elapsed (se_instant (dn_submit E) (dry_world d)) start < secs 60"
    by (simp add: elapsed_def)
  then show ?case
    by simp
next
  case (Suc n)
  show ?case
  proof (cases "elapsed (se_instant (dn_submit E) (dry_world d)) start < secs 60")
    case False
    then show ?thesis
      by (subst wait_rounds.simps) simp
  next
    case True
    obtain d1 s where pass: "wait_pass E rs d = (d1, s)"
      by fastforce
    show ?thesis
    proof (cases s)
      case (Inl e)
      with True pass show ?thesis
        by (subst wait_rounds.simps) simp
    next
      case (Inr rs1)
      have "dry_world d1 = dry_world d"
        using wait_pass_world [OF pass] .
      then have "se_instant (dn_submit E) (dry_world d) + secs 2 \<le> se_instant (dn_submit E) (dry_world (dry_sleep E (secs 2) d1))"
        using assms unfolding idle_takes_time_def by simp
      with Suc.prems have "start + secs 60 \<le> se_instant (dn_submit E) (dry_world (dry_sleep E (secs 2) d1)) + n * secs 2"
        by simp
      from Suc.IH [OF this] True pass Inr show ?thesis
        by (subst wait_rounds.simps) simp
    qed
  qed
qed

text \<open>a dry run comes to an end, whatever the components answer: the wait is over after at most thirty
  sleeps of two seconds, even when every bundle was seen at once.\<close>

theorem dry_run_ends:
  assumes "idle_takes_time E"
  shows "\<exists>r. execute_dry_run E 31 d = Some r"
proof -
  have "\<exists>r. wait_for_inclusions E (Suc 30) rs d = Some r" for rs d
    unfolding wait_for_inclusions_def by (rule wait_rounds_end [OF assms]) (simp add: secs_def)
  then have "\<exists>r. wait_for_inclusions E 31 rs d = Some r" for rs d
    by simp
  then show ?thesis
    by (auto simp: execute_dry_run_def split_beta split: sum.split)
qed

subsection \<open>A run\<close>

text \<open>Without a monitor the bundles stay pending until the minute is over.\<close>

lemma unmonitored_wait:
  assumes "\<forall>time t w. fst (dn_idle E time (t, w)) = t" and "list_all not_included rs"
  shows "all_pending (dy_tracker d) \<Longrightarrow>
    list_all (\<lambda>r. hm_get (et_tracked_bundles (dy_tracker d)) (ir_bundle_id r) \<noteq> None) rs \<Longrightarrow>
    wait_rounds E n start rs d = Some (d', r) \<Longrightarrow> r = Inr rs"
proof (induction n arbitrary: d)
  case (Suc n)
  obtain d1 s where s: "wait_pass E rs d = (d1, s)"
    by fastforce
  have "d1 = d \<and> s = Inr rs"
    using wait_pass_pending [OF Suc.prems(1) assms(2) s] Suc.prems(2) by (auto simp: list_all_iff)
  with s Suc.prems Suc.IH [of "dry_sleep E (secs 2) d"] assms(1) show ?case
    by (auto split: if_splits)
qed simp

definition demo_dry_env :: "(nat, demo_json) dry_env" where
  "demo_dry_env =
     \<lparr>dn_rpc = demo_tracker_env,
      dn_submit =
        \<lparr>se_json = demo_json_ops, se_hex = bytes_hex, se_send = (\<lambda>ep rq w. w),
         se_reply = (\<lambda>ep rq w. (w, Inr (DObj [(''result'', DStr ''hash'')]))), se_instant = (\<lambda>w. w), se_utc = (\<lambda>w. 0),
         se_uuid = (\<lambda>w. (w, ''1'')), se_sleep = (\<lambda>d w. w + d)\<rparr>,
      dn_random_hash = (\<lambda>w. (w, 1)), dn_random_address = (\<lambda>w. (w, 2)), dn_random_u64 = (\<lambda>w. (w, 3)),
      dn_idle = (\<lambda>time (t, w). (t, w + time))\<rparr>"

definition demo_dry_run :: "nat MainnetDryRun" where
  "demo_dry_run =
     MainnetDryRun_new (DryRunConfig_default\<lparr>dc_live_mempool := False, dc_min_bundles := 1\<rparr>)
       (BundleSubmitter_new 0 SubmissionConfig_default) (ExecutionTracker_new TrackerConfig_default)"

lemma demo_dry_laws: "idle_between_rounds demo_tracker_env demo_dry_env" "idle_takes_time demo_dry_env"
proof -
  have "monitoring_rounds demo_tracker_env 0 t w = Ret (t, w)" for t w
    by simp
  then show "idle_between_rounds demo_tracker_env demo_dry_env"
    unfolding idle_between_rounds_def demo_dry_env_def by (metis dry_env.select_convs(6) case_prod_conv fst_conv)
qed (simp add: idle_takes_time_def demo_dry_env_def)

theorem dry_run_ends_witness: "\<exists>r. execute_dry_run demo_dry_env 31 demo_dry_run = Some r"
  by (rule dry_run_ends [OF demo_dry_laws(2)])

lemma demo_block: "get_latest_block_number demo_tracker_env w = (w, Inr 7)"
proof -
  have "parse_u64 16 (trim_start_matches ''0x'' ''0x7'') = Some 7"
    using parse_format_hex [of 7] by (simp add: format_hex_def demo_hex)
  then show ?thesis
    by (simp add: get_latest_block_number_def rpc_call_def demo_tracker_env_def demo_post_def demo_json_ops_def js_field_str_def)
qed

lemma demo_submitted:
  "\<exists>d b w r d'. generate_dummy_bundles demo_dry_env demo_dry_run = (d, [b]) \<and> d = set_world w demo_dry_run
     \<and> submit_all demo_dry_env [b] d = (d', Inr [r]) \<and> hm_get (et_tracked_bundles (dy_tracker d')) (ir_bundle_id r) \<noteq> None"
proof -
  obtain w b where "create_dummy_bundle demo_dry_env 0 0 = (w, b)"
    by fastforce
  then have b: "dummy_bundles demo_dry_env [0] 0 = (w, [b])"
    by simp
  have "generate_dummy_bundles demo_dry_env demo_dry_run = (set_world w demo_dry_run, [b])"
    using b by (simp add: generate_dummy_bundles_def demo_dry_run_def MainnetDryRun_new_def BundleSubmitter_new_def)
  moreover have "\<exists>r d'. submit_all demo_dry_env [b] (set_world w demo_dry_run) = (d', Inr [r])
      \<and> hm_get (et_tracked_bundles (dy_tracker d')) (ir_bundle_id r) \<noteq> None"
    by (simp add: submit_and_track_bundle_def latest_block_def demo_dry_env_def demo_block demo_dry_run_def
        MainnetDryRun_new_def DryRunConfig_default_def simulate_bundle_submission_def dry_sleep_def set_world_def
        start_tracking_def track_bundle_def Let_def)
  ultimately show ?thesis
    by blast
qed

theorem dry_run_reports_no_inclusion_witness:
  "\<exists>d m. execute_dry_run demo_dry_env 31 demo_dry_run = Some (Ret (d, Inr m)) \<and> dm_bundles_submitted m = 1
     \<and> dm_bundles_included m = 0"
proof -
  obtain d1 b w r d2 where gen: "generate_dummy_bundles demo_dry_env demo_dry_run = (d1, [b])" "d1 = set_world w demo_dry_run"
      and sub: "submit_all demo_dry_env [b] d1 = (d2, Inr [r])"
      and tracked: "hm_get (et_tracked_bundles (dy_tracker d2)) (ir_bundle_id r) \<noteq> None"
    using demo_submitted by blast
  have start: "\<not> dc_live_mempool (dy_config demo_dry_run)"
    by (simp add: demo_dry_run_def MainnetDryRun_new_def)
  have "dry_ok 0 d1"
    unfolding gen(2) by (simp add: dry_ok_def demo_dry_run_def MainnetDryRun_new_def DryRunMetrics_default_def all_pending_def
        ExecutionTracker_new_def hm_empty_def)
  from dry_ok_submit_all [OF demo_dry_laws(1) this sub] have ok: "dry_ok 1 d2" "list_all not_included [r]"
    by simp_all
  have "\<exists>x. wait_for_inclusions demo_dry_env (Suc 30) [r] d2 = Some x"
    unfolding wait_for_inclusions_def by (rule wait_rounds_end [OF demo_dry_laws(2)]) (simp add: secs_def)
  then obtain d3 s where wait: "wait_for_inclusions demo_dry_env 31 [r] d2 = Some (d3, s)"
    by auto
  have "s = Inr [r]"
    using unmonitored_wait [of demo_dry_env "[r]" d2 31 _ d3 s] wait ok tracked
    by (simp add: wait_for_inclusions_def dry_ok_def demo_dry_env_def)
  moreover obtain m where "analyze_results [r] (dy_metrics d3) = Ret m"
    using dry_run_gas [OF ok(2)] by (simp add: analyze_results_def Let_def)
  ultimately have run: "execute_dry_run demo_dry_env 31 demo_dry_run = Some (Ret (d3\<lparr>dy_metrics := m\<rparr>, Inr m))"
    using start gen sub wait by (simp add: execute_dry_run_def)
  from dry_run_reports_no_inclusion [OF demo_dry_laws(1) run [unfolded demo_dry_run_def]] run show ?thesis
    by auto
qed

end
