(* ===== verification/Tx_Filters.thy ===== *)
theory Tx_Filters
  imports Tx_Types Hash_Map F64_Text
begin

text \<open>
  \<open>crates/mev-mempool/src/filters.rs\<close>: the rule engine of the mempool, its rate limiters and its
  predefined rules. The clock readings of one call are the fields of \<open>filter_call\<close>; the rules of one
  call see the same hour and the limiters the same instant.
\<close>

subsection \<open>Data\<close>

datatype FilterCondition =
    ValueRange "string option" "string option"
  | GasPriceRange "u64 option" "u64 option"
  | TargetTypeIn "string list"
  | FunctionSignature "string list"
  | ContractAddress "string list" bool
  | SenderAddress "string list" bool
  | DataSize "usize option" "usize option"
  | TimeOfDay u8 u8
  | DataPattern string bool

datatype FilterAction =
  Accept | Reject | Tag "string list" | SetPriority u8 | RateLimit u32

record FilterRule =
  fr_name :: string
  fr_enabled :: bool
  fr_priority :: "32 word"
  fr_conditions :: "FilterCondition list"
  fr_action :: FilterAction
  fr_description :: string

record FilteredTransaction =
  ft_transaction :: ParsedTransaction
  ft_priority :: u8
  ft_tags :: "string list"
  ft_matched_rules :: "string list"
  ft_filter_time_ms :: f64

record RateLimiter =
  rl_max_per_second :: u32
  rl_tokens :: u32
  rl_last_refill :: instant

record FilterStats =
  fs_total_processed :: u64
  fs_accepted :: u64
  fs_rejected :: u64
  fs_rate_limited :: u64
  fs_total_filter_time_ms :: f64
  fs_average_filter_time_ms :: f64
  fs_acceptance_rate :: f64
  fs_rejection_rate :: f64

record FilterEngine =
  fe_rules :: "FilterRule list"
  fe_rate_limiters :: "(string, RateLimiter) hash_map"
  fe_stats :: FilterStats

record filter_call =
  fc_start :: instant
  fc_now :: instant
  fc_stop :: instant
  fc_hour :: u8

subsection \<open>Filtered transactions\<close>

definition FilteredTransaction_new :: "ParsedTransaction \<Rightarrow> FilteredTransaction" where
  "FilteredTransaction_new t =
     \<lparr>ft_transaction = t, ft_priority = 128, ft_tags = [], ft_matched_rules = [], ft_filter_time_ms = Finite False 0\<rparr>"

definition add_tag :: "string \<Rightarrow> FilteredTransaction \<Rightarrow> FilteredTransaction" where
  "add_tag tag f = (if tag \<in> set (ft_tags f) then f else f\<lparr>ft_tags := ft_tags f @ [tag]\<rparr>)"

definition set_priority :: "u8 \<Rightarrow> FilteredTransaction \<Rightarrow> FilteredTransaction" where
  "set_priority p f = f\<lparr>ft_priority := p\<rparr>"

definition add_matched_rule :: "string \<Rightarrow> FilteredTransaction \<Rightarrow> FilteredTransaction" where
  "add_matched_rule n f =
     (if n \<in> set (ft_matched_rules f) then f else f\<lparr>ft_matched_rules := ft_matched_rules f @ [n]\<rparr>)"

subsection \<open>The rate limiter\<close>

definition RateLimiter_new :: "instant \<Rightarrow> u32 \<Rightarrow> RateLimiter" where
  "RateLimiter_new now m = \<lparr>rl_max_per_second = m, rl_tokens = m, rl_last_refill = now\<rparr>"

definition refill_tokens :: "instant \<Rightarrow> RateLimiter \<Rightarrow> RateLimiter" where
  "refill_tokens now l =
     (if secs 1 \<le> elapsed now (rl_last_refill l)
      then l\<lparr>rl_tokens := rl_max_per_second l, rl_last_refill := now\<rparr> else l)"

definition allow :: "instant \<Rightarrow> RateLimiter \<Rightarrow> RateLimiter \<times> bool" where
  "allow now l =
     (let l = refill_tokens now l
      in if 0 < rl_tokens l then (l\<lparr>rl_tokens := rl_tokens l - 1\<rparr>, True) else (l, False))"

subsection \<open>Conditions\<close>

definition in_range :: "'a::linorder option \<Rightarrow> 'a option \<Rightarrow> 'a \<Rightarrow> bool" where
  "in_range lo hi v =
     (if (case lo of Some m \<Rightarrow> v < m | None \<Rightarrow> False) then False
      else if (case hi of Some m \<Rightarrow> m < v | None \<Rightarrow> False) then False
      else True)"

definition parse_or :: "'a \<Rightarrow> 'a option \<Rightarrow> 'a" where
  "parse_or d r = (case r of Some v \<Rightarrow> v | None \<Rightarrow> d)"

text \<open>The subtraction in \<open>DataSize\<close> wraps for inputs of fewer than two bytes.\<close>

definition evaluate_condition :: "u8 \<Rightarrow> FilterCondition \<Rightarrow> ParsedTransaction \<Rightarrow> bool" where
  "evaluate_condition hour condition p =
     (case condition of
        ValueRange min_wei max_wei \<Rightarrow>
          in_range (map_option (\<lambda>m. parse_or 0 (parse_u128 10 m)) min_wei)
            (map_option (\<lambda>m. parse_or (- 1) (parse_u128 10 m)) max_wei)
            (parse_or 0 (parse_u128 10 (tx_value (px_transaction p))))
      | GasPriceRange min_gwei max_gwei \<Rightarrow>
          in_range min_gwei max_gwei (parse_or 0 (parse_u64 10 (tx_gas_price (px_transaction p))) div 1000000000)
      | TargetTypeIn types \<Rightarrow> debug_target_type (px_target_type p) \<in> set types
      | FunctionSignature signatures \<Rightarrow>
          (case px_decoded_input p of
             Some decoded \<Rightarrow> di_function_signature decoded \<in> set signatures
           | None \<Rightarrow> False)
      | ContractAddress addresses whitelist \<Rightarrow>
          (case tx_to (px_transaction p) of
             Some to_address \<Rightarrow>
               (let matches = list_ex (\<lambda>a. to_lowercase a = to_lowercase to_address) addresses
                in if whitelist then matches else \<not> matches)
           | None \<Rightarrow> \<not> whitelist)
      | SenderAddress addresses whitelist \<Rightarrow>
          (let matches = list_ex (\<lambda>a. to_lowercase a = to_lowercase (tx_from (px_transaction p))) addresses
           in if whitelist then matches else \<not> matches)
      | DataSize min_bytes max_bytes \<Rightarrow>
          in_range min_bytes max_bytes (of_nat (length (tx_input (px_transaction p)) div 2) - 1)
      | TimeOfDay start_hour end_hour \<Rightarrow>
          (if start_hour \<le> end_hour then start_hour \<le> hour \<and> hour \<le> end_hour
           else start_hour \<le> hour \<or> hour \<le> end_hour)
      | DataPattern pattern case_sensitive \<Rightarrow>
          (if case_sensitive then contains_str (tx_input (px_transaction p)) pattern
           else contains_str (to_lowercase (tx_input (px_transaction p))) (to_lowercase pattern)))"

fun evaluate_conditions :: "u8 \<Rightarrow> FilterCondition list \<Rightarrow> ParsedTransaction \<Rightarrow> bool" where
  "evaluate_conditions hour [] p = True"
| "evaluate_conditions hour (c # cs) p =
     (if \<not> evaluate_condition hour c p then False else evaluate_conditions hour cs p)"

definition evaluate_rule :: "u8 \<Rightarrow> FilterRule \<Rightarrow> ParsedTransaction \<Rightarrow> bool" where
  "evaluate_rule hour rule p = evaluate_conditions hour (fr_conditions rule) p"

subsection \<open>The engine\<close>

definition FilterStats_default :: FilterStats where
  "FilterStats_default = \<lparr>fs_total_processed = 0, fs_accepted = 0, fs_rejected = 0,
     fs_rate_limited = 0, fs_total_filter_time_ms = Finite False 0, fs_average_filter_time_ms = Finite False 0,
     fs_acceptance_rate = Finite False 0, fs_rejection_rate = Finite False 0\<rparr>"

definition FilterEngine_new :: FilterEngine where
  "FilterEngine_new = \<lparr>fe_rules = [], fe_rate_limiters = hm_empty, fe_stats = FilterStats_default\<rparr>"

text \<open>\<open>sort_by\<close> is stable; the limiters are made in the order of the sorted rules.\<close>

fun make_limiters ::
  "instant \<Rightarrow> FilterRule list \<Rightarrow> (string, RateLimiter) hash_map \<Rightarrow> (string, RateLimiter) hash_map"
where
  "make_limiters now [] m = m"
| "make_limiters now (r # rs) m =
     make_limiters now rs
       (case fr_action r of
          RateLimit max_per_second \<Rightarrow> hm_insert (fr_name r) (RateLimiter_new now max_per_second) m
        | _ \<Rightarrow> m)"

definition load_rules :: "instant \<Rightarrow> FilterRule list \<Rightarrow> FilterEngine \<Rightarrow> FilterEngine" where
  "load_rules now rules e =
     (let sorted_rules = sort_key (\<lambda>r. - sint (fr_priority r)) rules
      in e\<lparr>fe_rules := sorted_rules,
           fe_rate_limiters := make_limiters now sorted_rules (fe_rate_limiters e)\<rparr>)"

datatype filter_verdict = Passed FilteredTransaction | Rejected | RateLimited

text \<open>The loop over the rules, with the limiters as they are left.\<close>

fun apply_rules ::
  "filter_call \<Rightarrow> FilterRule list \<Rightarrow> (string, RateLimiter) hash_map \<Rightarrow> FilteredTransaction \<Rightarrow>
   (string, RateLimiter) hash_map \<times> filter_verdict"
where
  "apply_rules c [] m f = (m, Passed f)"
| "apply_rules c (rule # rest) m f =
     (if \<not> fr_enabled rule then apply_rules c rest m f
      else if evaluate_rule (fc_hour c) rule (ft_transaction f)
      then
        let f = add_matched_rule (fr_name rule) f
        in case fr_action rule of
             Accept \<Rightarrow> apply_rules c rest m (set_priority 255 f)
           | Reject \<Rightarrow> (m, Rejected)
           | Tag tags \<Rightarrow> apply_rules c rest m (fold add_tag tags f)
           | SetPriority level \<Rightarrow> apply_rules c rest m (set_priority level f)
           | RateLimit _ \<Rightarrow>
               (case hm_get m (fr_name rule) of
                  Some limiter \<Rightarrow>
                    (let (limiter, allowed) = allow (fc_now c) limiter;
                         m = hm_insert (fr_name rule) limiter m
                     in if \<not> allowed then (m, RateLimited) else apply_rules c rest m f)
                | None \<Rightarrow> apply_rules c rest m f)
      else apply_rules c rest m f)"

definition filter_transaction ::
  "filter_call \<Rightarrow> ParsedTransaction \<Rightarrow> FilterEngine \<Rightarrow> FilterEngine \<times> FilteredTransaction option"
where
  "filter_transaction c transaction e =
     (let stats = fe_stats e;
          stats = stats\<lparr>fs_total_processed := fs_total_processed stats + 1\<rparr>;
          (m, verdict) = apply_rules c (fe_rules e) (fe_rate_limiters e) (FilteredTransaction_new transaction)
      in case verdict of
           Rejected \<Rightarrow>
             (e\<lparr>fe_rate_limiters := m, fe_stats := stats\<lparr>fs_rejected := fs_rejected stats + 1\<rparr>\<rparr>, None)
         | RateLimited \<Rightarrow>
             (e\<lparr>fe_rate_limiters := m, fe_stats := stats\<lparr>fs_rate_limited := fs_rate_limited stats + 1\<rparr>\<rparr>, None)
         | Passed f \<Rightarrow>
             (let f = f\<lparr>ft_filter_time_ms := elapsed_ms (elapsed (fc_stop c) (fc_start c))\<rparr>
              in (e\<lparr>fe_rate_limiters := m,
                    fe_stats := stats\<lparr>fs_accepted := fs_accepted stats + 1,
                      fs_total_filter_time_ms := f64_add (fs_total_filter_time_ms stats) (ft_filter_time_ms f)\<rparr>\<rparr>,
                  Some f)))"

definition reset_stats :: "FilterEngine \<Rightarrow> FilterEngine" where
  "reset_stats e = e\<lparr>fe_stats := FilterStats_default\<rparr>"

text \<open>The averages and rates are derived in the copy that is returned; the engine keeps the counts.\<close>

definition filter_get_stats :: "FilterEngine \<Rightarrow> FilterStats" where
  "filter_get_stats e =
     (let stats = fe_stats e; processed = f64_of_nat (unat (fs_total_processed stats))
      in if 0 < fs_total_processed stats then
           stats\<lparr>fs_average_filter_time_ms := f64_div (fs_total_filter_time_ms stats) processed,
             fs_acceptance_rate := f64_div (f64_of_nat (unat (fs_accepted stats))) processed,
             fs_rejection_rate := f64_div (f64_of_nat (unat (fs_rejected stats))) processed\<rparr>
         else stats)"

definition get_active_rules :: "FilterEngine \<Rightarrow> FilterRule list" where
  "get_active_rules e = filter fr_enabled (fe_rules e)"

fun enable_first :: "string \<Rightarrow> bool \<Rightarrow> FilterRule list \<Rightarrow> FilterRule list option" where
  "enable_first n b [] = None"
| "enable_first n b (r # rs) =
     (if fr_name r = n then Some (r\<lparr>fr_enabled := b\<rparr> # rs)
      else map_option ((#) r) (enable_first n b rs))"

definition set_rule_enabled :: "string \<Rightarrow> bool \<Rightarrow> FilterEngine \<Rightarrow> FilterEngine \<times> (string + unit)" where
  "set_rule_enabled rule_name b e =
     (case enable_first rule_name b (fe_rules e) of
        Some rules \<Rightarrow> (e\<lparr>fe_rules := rules\<rparr>, Inr ())
      | None \<Rightarrow> (e, Inl rule_name))"

subsection \<open>Predefined rules\<close>

definition high_value_transactions :: FilterRule where
  "high_value_transactions =
     \<lparr>fr_name = ''high_value_transactions'', fr_enabled = True, fr_priority = 100,
      fr_conditions = [ValueRange (Some ''1000000000000000000'') None],
      fr_action = Tag [''high_value''],
      fr_description = ''Tag transactions with value >= 1 ETH''\<rparr>"

definition dex_transactions :: FilterRule where
  "dex_transactions =
     \<lparr>fr_name = ''dex_transactions'', fr_enabled = True, fr_priority = 90,
      fr_conditions = [TargetTypeIn [''UniswapV2'', ''UniswapV3'', ''SushiSwap'', ''Curve'']],
      fr_action = Accept, fr_description = ''Accept all DEX transactions''\<rparr>"

definition high_gas_price :: FilterRule where
  "high_gas_price =
     \<lparr>fr_name = ''high_gas_price'', fr_enabled = True, fr_priority = 80,
      fr_conditions = [GasPriceRange (Some 100) None], fr_action = Tag [''high_gas''],
      fr_description = ''Tag transactions with gas price >= 100 gwei''\<rparr>"

definition spam_filter :: FilterRule where
  "spam_filter =
     \<lparr>fr_name = ''spam_filter'', fr_enabled = True, fr_priority = 200,
      fr_conditions = [ValueRange None (Some ''1000000000000000''), GasPriceRange None (Some 10)],
      fr_action = Reject,
      fr_description = ''Reject low-value, low-gas transactions (likely spam)''\<rparr>"

definition rate_limit_per_address :: FilterRule where
  "rate_limit_per_address =
     \<lparr>fr_name = ''rate_limit_per_address'', fr_enabled = True, fr_priority = 150, fr_conditions = [],
      fr_action = RateLimit 10, fr_description = ''Rate limit transactions to 10 per second''\<rparr>"

definition get_default_rules :: "FilterRule list" where
  "get_default_rules =
     [spam_filter, dex_transactions, high_value_transactions, high_gas_price, rate_limit_per_address]"

end
