(* ===== verification/Mempool_Facts.thy ===== *)
theory Mempool_Facts
  imports Tx_Parser Tx_Filters F64_Order "HOL-Library.Multiset"
begin

text \<open>
  Properties of the mempool pipeline: what the rule engine does to a transaction, its statistics, the
  order of its rules, the rate a limiter lets through, and the filter applied to what the parser makes.
\<close>

subsection \<open>What the rules do to a transaction\<close>

definition matching :: "u8 \<Rightarrow> FilterRule list \<Rightarrow> ParsedTransaction \<Rightarrow> FilterRule list" where
  "matching hour rules p = filter (\<lambda>r. fr_enabled r \<and> evaluate_rule hour r p) rules"

definition action_priority :: "FilterRule \<Rightarrow> u8 \<Rightarrow> u8" where
  "action_priority r p = (case fr_action r of Accept \<Rightarrow> 255 | SetPriority level \<Rightarrow> level | _ \<Rightarrow> p)"

definition action_tags :: "FilterRule \<Rightarrow> string set" where
  "action_tags r = (case fr_action r of Tag tags \<Rightarrow> set tags | _ \<Rightarrow> {})"

lemma add_matched_rule_simps [simp]:
  "ft_transaction (add_matched_rule n f) = ft_transaction f"
  "ft_priority (add_matched_rule n f) = ft_priority f"
  "ft_tags (add_matched_rule n f) = ft_tags f"
  "set (ft_matched_rules (add_matched_rule n f)) = insert n (set (ft_matched_rules f))"
  by (auto simp: add_matched_rule_def)

lemma fold_add_tag_simps [simp]:
  "ft_transaction (fold add_tag ts f) = ft_transaction f"
  "ft_priority (fold add_tag ts f) = ft_priority f"
  "ft_matched_rules (fold add_tag ts f) = ft_matched_rules f"
  "set (ft_tags (fold add_tag ts f)) = set (ft_tags f) \<union> set ts"
  by (induction ts arbitrary: f) (auto simp: add_tag_def)

lemma distinct_add_matched [simp]:
  "distinct (ft_matched_rules (add_matched_rule n f)) \<longleftrightarrow> distinct (ft_matched_rules f)"
  by (simp add: add_matched_rule_def)

lemma distinct_add_tags [simp]:
  "distinct (ft_tags (fold add_tag ts f)) \<longleftrightarrow> distinct (ft_tags f)"
  by (induction ts arbitrary: f) (auto simp: add_tag_def)

lemma set_priority_simps [simp]:
  "ft_transaction (set_priority p f) = ft_transaction f"
  "ft_priority (set_priority p f) = p"
  "ft_tags (set_priority p f) = ft_tags f"
  "ft_matched_rules (set_priority p f) = ft_matched_rules f"
  by (simp_all add: set_priority_def)

lemma matching_Cons:
  "matching h (r # rs) p = (if fr_enabled r \<and> evaluate_rule h r p then r # matching h rs p else matching h rs p)"
  by (simp add: matching_def)

definition passes :: "FilterRule list \<Rightarrow> FilteredTransaction \<Rightarrow> FilteredTransaction \<Rightarrow> bool" where
  "passes ms f f' \<longleftrightarrow>
     (\<forall>r \<in> set ms. fr_action r \<noteq> Reject) \<and>
     ft_transaction f' = ft_transaction f \<and>
     ft_priority f' = fold action_priority ms (ft_priority f) \<and>
     set (ft_matched_rules f') = set (ft_matched_rules f) \<union> fr_name ` set ms \<and>
     set (ft_tags f') = set (ft_tags f) \<union> \<Union> (action_tags ` set ms) \<and>
     distinct (ft_matched_rules f') = distinct (ft_matched_rules f) \<and>
     distinct (ft_tags f') = distinct (ft_tags f)"

lemma apply_rules_passes:
  "apply_rules c rules m f = (m', Passed f') \<Longrightarrow>
     passes (matching (fc_hour c) rules (ft_transaction f)) f f'"
proof (induction rules arbitrary: m f)
  case Nil
  then show ?case by (simp add: passes_def matching_def)
next
  case (Cons r rules)
  show ?case
  proof (cases "fr_enabled r \<and> evaluate_rule (fc_hour c) r (ft_transaction f)")
    case False
    with Cons.prems have "apply_rules c rules m f = (m', Passed f')"
      by (cases "fr_enabled r") simp_all
    from Cons.IH [OF this] False show ?thesis
      by (auto simp: matching_Cons)
  next
    case True
    let ?f = "add_matched_rule (fr_name r) f"
    have next_step: "\<exists>m1 g. apply_rules c rules m1 g = (m', Passed f') \<and> ft_transaction g = ft_transaction f \<and>
        ft_priority g = action_priority r (ft_priority f) \<and>
        set (ft_matched_rules g) = insert (fr_name r) (set (ft_matched_rules f)) \<and>
        set (ft_tags g) = set (ft_tags f) \<union> action_tags r \<and>
        distinct (ft_matched_rules g) = distinct (ft_matched_rules f) \<and>
        distinct (ft_tags g) = distinct (ft_tags f)"
      using Cons.prems True
      by (cases "fr_action r")
        (fastforce simp: action_priority_def action_tags_def Let_def split: option.splits prod.splits if_splits)+
    have no_reject: "fr_action r \<noteq> Reject"
      using Cons.prems True by auto
    from next_step obtain m1 g where g: "apply_rules c rules m1 g = (m', Passed f')"
      "ft_transaction g = ft_transaction f" "ft_priority g = action_priority r (ft_priority f)"
      "set (ft_matched_rules g) = insert (fr_name r) (set (ft_matched_rules f))"
      "set (ft_tags g) = set (ft_tags f) \<union> action_tags r"
      "distinct (ft_matched_rules g) = distinct (ft_matched_rules f)"
      "distinct (ft_tags g) = distinct (ft_tags f)"
      by blast
    from Cons.IH [OF g(1)] g(2-) no_reject True show ?thesis
      by (auto simp: passes_def matching_Cons)
  qed
qed

text \<open>a transaction that the engine lets through was matched by no enabled rejecting rule; it
  carries, without duplicates, the names of exactly the enabled rules that match it and exactly their
  tags, and its priority is the default overridden by the matching rules in order, so that the last of
  them, the one of lowest rank, decides.\<close>

theorem filter_transaction_passed:
  assumes "filter_transaction c t e = (e', Some f)"
  shows "ft_transaction f = t \<and>
    (let ms = matching (fc_hour c) (fe_rules e) t in
     (\<forall>r \<in> set ms. fr_action r \<noteq> Reject) \<and>
     set (ft_matched_rules f) = fr_name ` set ms \<and> distinct (ft_matched_rules f) \<and>
     set (ft_tags f) = \<Union> (action_tags ` set ms) \<and> distinct (ft_tags f) \<and>
     ft_priority f = fold action_priority ms 128)"
proof -
  obtain m g where run: "apply_rules c (fe_rules e) (fe_rate_limiters e) (FilteredTransaction_new t) = (m, Passed g)"
    and f: "f = g\<lparr>ft_filter_time_ms := elapsed_ms (elapsed (fc_stop c) (fc_start c))\<rparr>"
    using assms by (auto simp: filter_transaction_def Let_def split: prod.splits filter_verdict.splits)
  from apply_rules_passes [OF run] f show ?thesis
    by (simp add: passes_def FilteredTransaction_new_def Let_def)
qed

definition demo_call :: filter_call where
  "demo_call = \<lparr>fc_start = 0, fc_now = 0, fc_stop = 5, fc_hour = 12\<rparr>"

definition demo_tx :: "string \<Rightarrow> string \<Rightarrow> ParsedTransaction" where
  "demo_tx val gas =
     \<lparr>px_transaction = \<lparr>tx_hash = ''0x1'', tx_from = ''0x2'', tx_to = Some ''0x3'', tx_value = val,
        tx_gas_price = gas, tx_gas_limit = ''21000'', tx_nonce = 0, tx_input = ''0x'', tx_timestamp = 0\<rparr>,
      px_decoded_input = None, px_target_type = SushiSwap, px_processing_time_ms = 0\<rparr>"

theorem filter_transaction_passed_witness:
  "let e = load_rules 0 [dex_transactions, rate_limit_per_address] FilterEngine_new in
   \<exists>e' f. filter_transaction demo_call (demo_tx ''1'' ''1'') e = (e', Some f) \<and>
     set (ft_matched_rules f) = {''rate_limit_per_address'', ''dex_transactions''} \<and> ft_priority f = 255"
proof -
  let ?e = "load_rules 0 [dex_transactions, rate_limit_per_address] FilterEngine_new"
  let ?t = "demo_tx ''1'' ''1''"
  have rules: "fe_rules ?e = [rate_limit_per_address, dex_transactions]"
    by (simp add: load_rules_def Let_def dex_transactions_def rate_limit_per_address_def)
  have match: "evaluate_rule h rate_limit_per_address ?t" "evaluate_rule h dex_transactions ?t" for h
    by (simp_all add: evaluate_rule_def rate_limit_per_address_def dex_transactions_def
        evaluate_condition_def debug_target_type_def demo_tx_def)
  have limiter: "hm_get (fe_rate_limiters ?e) ''rate_limit_per_address'' = Some (RateLimiter_new 0 10)"
    by (simp add: load_rules_def Let_def dex_transactions_def rate_limit_per_address_def FilterEngine_new_def)
  have names: "fr_name rate_limit_per_address = ''rate_limit_per_address''"
    "fr_enabled rate_limit_per_address" "fr_action rate_limit_per_address = RateLimit 10"
    "fr_enabled dex_transactions" "fr_action dex_transactions = Accept"
    "fr_name dex_transactions = ''dex_transactions''"
    by (simp_all add: rate_limit_per_address_def dex_transactions_def)
  obtain m g where "apply_rules demo_call (fe_rules ?e) (fe_rate_limiters ?e) (FilteredTransaction_new ?t) = (m, Passed g)"
    using match limiter names
    by (simp add: rules FilteredTransaction_new_def add_matched_rule_def set_priority_def allow_def
        refill_tokens_def RateLimiter_new_def demo_call_def secs_def)
  then obtain e' f where run: "filter_transaction demo_call ?t ?e = (e', Some f)"
    by (simp add: filter_transaction_def Let_def)
  from filter_transaction_passed [OF run] match names run show ?thesis
    by (auto simp: rules matching_def action_priority_def Let_def)
qed

subsection \<open>Statistics\<close>

definition stats_balance :: "FilterStats \<Rightarrow> bool" where
  "stats_balance s \<longleftrightarrow> fs_total_processed s = fs_accepted s + fs_rejected s + fs_rate_limited s"

definition limiter_ok :: "RateLimiter \<Rightarrow> bool" where
  "limiter_ok l \<longleftrightarrow> rl_tokens l \<le> rl_max_per_second l"

definition by_priority :: "FilterRule list \<Rightarrow> bool" where
  "by_priority rules \<longleftrightarrow> sorted_wrt (\<lambda>a b. sint (fr_priority b) \<le> sint (fr_priority a)) rules"

definition engine_ok :: "FilterEngine \<Rightarrow> bool" where
  "engine_ok e \<longleftrightarrow> stats_balance (fe_stats e) \<and> by_priority (fe_rules e) \<and>
     hm.all_entries (\<lambda>_. limiter_ok) (fe_rate_limiters e)"

lemma limiter_ok_new: "limiter_ok (RateLimiter_new now m)"
  by (simp add: limiter_ok_def RateLimiter_new_def)

lemma refill_max [simp]: "rl_max_per_second (refill_tokens t l) = rl_max_per_second l"
  by (simp add: refill_tokens_def)

lemma allow_max [simp]: "rl_max_per_second (fst (allow t l)) = rl_max_per_second l"
  by (simp add: allow_def Let_def)

lemma limiter_ok_allow: "limiter_ok l \<Longrightarrow> limiter_ok (fst (allow t l))"
proof -
  assume "limiter_ok l"
  then have "limiter_ok (refill_tokens t l)"
    by (simp add: limiter_ok_def refill_tokens_def)
  then show ?thesis
    by (auto simp: allow_def Let_def limiter_ok_def word_le_nat_alt unat_pred)
qed

lemma all_limiters_make:
  "hm.all_entries (\<lambda>_. limiter_ok) m \<Longrightarrow> hm.all_entries (\<lambda>_. limiter_ok) (make_limiters now rs m)"
  by (induction rs arbitrary: m)
    (auto intro!: hm.all_entries_put limiter_ok_new split: FilterAction.split)

lemma apply_rules_limiters:
  "hm.all_entries (\<lambda>_. limiter_ok) m \<Longrightarrow> hm.all_entries (\<lambda>_. limiter_ok) (fst (apply_rules c rules m f))"
proof (induction rules arbitrary: m f)
  case (Cons r rules)
  have put: "hm.all_entries (\<lambda>_. limiter_ok) (hm_insert (fr_name r) l' m)"
    if "hm_get m (fr_name r) = Some l" "allow (fc_now c) l = (l', b)" for l l' b
    using that Cons.prems limiter_ok_allow [of l "fc_now c"]
    by (intro hm.all_entries_put) (auto simp: hm.all_entries_def)
  show ?case
    using Cons put by (auto simp: Let_def split: FilterAction.split option.split prod.split)
qed simp

lemma engine_ok_filter: "engine_ok e \<Longrightarrow> engine_ok (fst (filter_transaction c t e))"
proof -
  assume ok: "engine_ok e"
  obtain m v where run: "apply_rules c (fe_rules e) (fe_rate_limiters e) (FilteredTransaction_new t) = (m, v)"
    by fastforce
  have "hm.all_entries (\<lambda>_. limiter_ok) m"
    using ok run apply_rules_limiters [of "fe_rate_limiters e" c "fe_rules e" "FilteredTransaction_new t"]
    by (simp add: engine_ok_def)
  with ok run show ?thesis
    by (cases v) (simp_all add: filter_transaction_def Let_def engine_ok_def stats_balance_def)
qed

lemma by_priority_sort: "by_priority (sort_key (\<lambda>r. - sint (fr_priority r)) rules)"
proof -
  have "sorted (map (\<lambda>r. - sint (fr_priority r)) (sort_key (\<lambda>r. - sint (fr_priority r)) rules))"
    by (rule sorted_sort_key)
  then show ?thesis
    by (simp add: by_priority_def sorted_wrt_map)
qed

lemma enable_first_priorities:
  "enable_first n b rs = Some rs' \<Longrightarrow> map fr_priority rs' = map fr_priority rs"
  by (induction rs arbitrary: rs') (auto split: if_splits)

lemma by_priority_cong: "map fr_priority rs' = map fr_priority rs \<Longrightarrow> by_priority rs' \<longleftrightarrow> by_priority rs"
proof -
  have "by_priority rs \<longleftrightarrow> sorted_wrt (\<lambda>a b. sint b \<le> sint a) (map fr_priority rs)" for rs
    by (simp add: by_priority_def sorted_wrt_map)
  then show "map fr_priority rs' = map fr_priority rs \<Longrightarrow> ?thesis"
    by simp
qed

inductive engine_step :: "FilterEngine \<Rightarrow> FilterEngine \<Rightarrow> bool" where
  filtered: "engine_step e (fst (filter_transaction c t e))"
| loaded: "engine_step e (load_rules now rules e)"
| toggled: "engine_step e (fst (set_rule_enabled n b e))"
| cleared: "engine_step e (reset_stats e)"

lemma engine_ok_step: "engine_step e e' \<Longrightarrow> engine_ok e \<Longrightarrow> engine_ok e'"
proof (induction rule: engine_step.induct)
  case (filtered e c t)
  then show ?case by (rule engine_ok_filter)
next
  case (loaded e now rules)
  then show ?case
    by (simp add: load_rules_def Let_def engine_ok_def by_priority_sort all_limiters_make)
next
  case (toggled e n b)
  then show ?case
    using by_priority_cong [OF enable_first_priorities]
    by (auto simp: set_rule_enabled_def engine_ok_def split: option.split)
next
  case (cleared e)
  then show ?case
    by (simp add: reset_stats_def engine_ok_def stats_balance_def FilterStats_default_def)
qed

text \<open>in every reachable state of the engine each processed transaction is counted as exactly one
  of accepted, rejected and rate limited, the rules are in descending order of priority, and no rate
  limiter holds more tokens than its limit.\<close>

theorem reachable_engine_ok:
  assumes "engine_step\<^sup>*\<^sup>* FilterEngine_new e"
  shows "stats_balance (fe_stats e) \<and> by_priority (fe_rules e) \<and>
    hm.all_entries (\<lambda>_. limiter_ok) (fe_rate_limiters e)"
proof -
  have "engine_ok FilterEngine_new"
    by (simp add: engine_ok_def FilterEngine_new_def stats_balance_def FilterStats_default_def
        by_priority_def hm.all_entries_empty)
  with assms have "engine_ok e"
    by (induction rule: rtranclp_induct) (auto intro: engine_ok_step)
  then show ?thesis
    by (simp add: engine_ok_def)
qed

theorem reachable_engine_ok_witness:
  "stats_balance (fe_stats (fst (filter_transaction demo_call (demo_tx ''5'' ''7'')
     (load_rules 0 get_default_rules FilterEngine_new))))"
proof -
  let ?e = "load_rules 0 get_default_rules FilterEngine_new"
  have "engine_step\<^sup>*\<^sup>* FilterEngine_new (fst (filter_transaction demo_call (demo_tx ''5'' ''7'') ?e))"
    by (auto intro: rtranclp.intros engine_step.intros)
  from reachable_engine_ok [OF this] show ?thesis
    by simp
qed

text \<open>Until a counter wraps, the reported rates are between zero and one.\<close>

lemma filter_rates_in_unit:
  assumes "stats_balance (fe_stats e)" and "0 < fs_total_processed (fe_stats e)"
    and "unat (fs_accepted (fe_stats e)) + unat (fs_rejected (fe_stats e)) + unat (fs_rate_limited (fe_stats e)) < 2 ^ 64"
  shows "in_unit (fs_acceptance_rate (filter_get_stats e)) \<and> in_unit (fs_rejection_rate (filter_get_stats e))"
proof -
  have "unat (fs_total_processed (fe_stats e)) =
      unat (fs_accepted (fe_stats e)) + unat (fs_rejected (fe_stats e)) + unat (fs_rate_limited (fe_stats e))"
    using assms(1,3) by (simp add: stats_balance_def unat_word_ariths)
  then have "fs_accepted (fe_stats e) \<le> fs_total_processed (fe_stats e)"
    "fs_rejected (fe_stats e) \<le> fs_total_processed (fe_stats e)"
    by (simp_all add: word_le_nat_alt)
  with assms(2) show ?thesis
    by (simp add: filter_get_stats_def Let_def word_ratio_in_unit)
qed

text \<open>The time of a transaction that is not let through is not added, but it counts in the average.\<close>

lemma dropped_time_not_counted:
  assumes "filter_transaction c t e = (e', None)"
  shows "fs_total_filter_time_ms (fe_stats e') = fs_total_filter_time_ms (fe_stats e) \<and>
    fs_total_processed (fe_stats e') = fs_total_processed (fe_stats e) + 1"
  using assms by (auto simp: filter_transaction_def Let_def split: prod.splits filter_verdict.splits)

text \<open>loading rules keeps them all, sorts them by descending priority, and leaves rules of equal
  priority in the order given.\<close>

theorem load_rules_stable_order:
  "mset (fe_rules (load_rules now rules e)) = mset rules \<and>
   by_priority (fe_rules (load_rules now rules e)) \<and>
   filter (\<lambda>r. fr_priority r = k) (fe_rules (load_rules now rules e)) = filter (\<lambda>r. fr_priority r = k) rules"
proof -
  have eq: "(\<lambda>r. fr_priority r = k) = (\<lambda>r. - sint (fr_priority r) = - sint k)"
    by (auto simp: fun_eq_iff intro: signed_word_eqI)
  have "filter (\<lambda>r. fr_priority r = k) (sort_key (\<lambda>r. - sint (fr_priority r)) rules) =
      filter (\<lambda>r. fr_priority r = k) rules"
    unfolding eq by (rule sort_key_stable)
  then show ?thesis
    by (simp add: load_rules_def Let_def by_priority_sort)
qed

subsection \<open>The rate a limiter lets through\<close>

fun granted :: "instant list \<Rightarrow> RateLimiter \<Rightarrow> nat" where
  "granted [] l = 0"
| "granted (t # ts) l = (let (l, ok) = allow t l in (if ok then 1 else 0) + granted ts l)"

lemma granted_Cons:
  "granted (t # ts) l = (if snd (allow t l) then 1 else 0) + granted ts (fst (allow t l))"
  by (simp split: prod.split)

lemma granted_without_refill:
  "\<forall>t \<in> set ts. elapsed t (rl_last_refill l) < secs 1 \<Longrightarrow> granted ts l \<le> unat (rl_tokens l)"
proof (induction ts arbitrary: l)
  case (Cons t ts)
  then have refill: "refill_tokens t l = l"
    by (simp add: refill_tokens_def)
  show ?case
  proof (cases "0 < rl_tokens l")
    case True
    let ?l = "l\<lparr>rl_tokens := rl_tokens l - 1\<rparr>"
    have "granted ts ?l \<le> unat (rl_tokens ?l)"
      using Cons by (intro Cons.IH) simp
    with True refill show ?thesis
      by (simp add: allow_def unat_pred word_less_nat_alt)
  next
    case False
    with Cons refill show ?thesis
      by (auto simp: allow_def dest: Cons.IH)
  qed
qed simp

lemma granted_window:
  assumes "sorted ts" and "\<forall>t \<in> set ts. s \<le> t \<and> t < s + secs 1" and "limiter_ok l"
  shows "granted ts l \<le> unat (rl_tokens l) + unat (rl_max_per_second l)"
  using assms
proof (induction ts arbitrary: l)
  case (Cons t ts)
  show ?case
  proof (cases "secs 1 \<le> elapsed t (rl_last_refill l)")
    case True
    let ?l = "l\<lparr>rl_tokens := rl_max_per_second l, rl_last_refill := t\<rparr>"
    have "\<forall>u \<in> set (t # ts). elapsed u (rl_last_refill ?l) < secs 1"
      using Cons.prems by (auto simp: elapsed_def)
    from granted_without_refill [OF this] have "granted (t # ts) ?l \<le> unat (rl_max_per_second l)"
      by simp
    moreover have "refill_tokens t l = ?l" "refill_tokens t ?l = ?l"
      using True by (simp_all add: refill_tokens_def)
    then have "granted (t # ts) l = granted (t # ts) ?l"
      by (simp add: granted_Cons allow_def del: granted.simps)
    ultimately show ?thesis
      by linarith
  next
    case False
    then have refill: "refill_tokens t l = l"
      by (simp add: refill_tokens_def)
    show ?thesis
    proof (cases "0 < rl_tokens l")
      case True
      let ?l = "l\<lparr>rl_tokens := rl_tokens l - 1\<rparr>"
      have "limiter_ok ?l"
        using limiter_ok_allow [OF Cons.prems(3), of t] True refill by (simp add: allow_def Let_def)
      with Cons have "granted ts ?l \<le> unat (rl_tokens ?l) + unat (rl_max_per_second ?l)"
        by (intro Cons.IH) auto
      with True refill show ?thesis
        by (simp add: allow_def unat_pred word_less_nat_alt)
    next
      case False
      with Cons refill show ?thesis
        by (auto simp: allow_def dest!: Cons.IH)
    qed
  qed
qed simp

lemma limiter_run:
  "limiter_ok l \<Longrightarrow> limiter_ok (fold (\<lambda>t l. fst (allow t l)) ts l) \<and>
     rl_max_per_second (fold (\<lambda>t l. fst (allow t l)) ts l) = rl_max_per_second l"
  by (induction ts arbitrary: l) (simp_all add: limiter_ok_allow)

text \<open>C20: whatever was asked of a rate limiter before, of the requests within any one second it grants
  at most twice its limit.\<close>

theorem limiter_grants_at_most_twice:
  assumes "sorted ts" and "\<forall>t \<in> set ts. s \<le> t \<and> t < s + secs 1"
  shows "granted ts (fold (\<lambda>t l. fst (allow t l)) before (RateLimiter_new t0 n)) \<le> 2 * unat n"
proof -
  let ?l = "fold (\<lambda>t l. fst (allow t l)) before (RateLimiter_new t0 n)"
  have l: "limiter_ok ?l" "rl_max_per_second ?l = n"
    using limiter_run [OF limiter_ok_new, of before t0 n] by (simp_all add: RateLimiter_new_def)
  from granted_window [OF assms l(1)] l show ?thesis
    by (simp add: limiter_ok_def word_le_nat_alt)
qed

text \<open>The bound is met: a limit of two grants four requests within a millisecond, two before and two
  after the refill.\<close>

theorem limiter_grants_at_most_twice_witness:
  "granted [999999998, 999999999, 1000000000, 1000000001] (RateLimiter_new 0 2) = 4 \<and>
   granted [999999998, 999999999, 1000000000, 1000000001] (RateLimiter_new 0 2) \<le> 2 * 2"
proof -
  have "granted [999999998, 999999999, 1000000000, 1000000001] (RateLimiter_new 0 2) = 4"
    by (simp add: allow_def refill_tokens_def RateLimiter_new_def elapsed_def secs_def)
  moreover have "granted [999999998, 999999999, 1000000000, 1000000001] (RateLimiter_new 0 2) \<le> 2 * 2"
    using limiter_grants_at_most_twice [of "[999999998, 999999999, 1000000000, 1000000001]" 999999998 "[]" 0 2]
    by (simp add: secs_def del: granted.simps)
  ultimately show ?thesis
    by blast
qed

subsection \<open>The default rules on parsed transactions\<close>

lemma spam_matches_zero:
  assumes "starts_with (tx_value (px_transaction p)) ''0x''"
    and "starts_with (tx_gas_price (px_transaction p)) ''0x''"
  shows "evaluate_rule h spam_filter p"
  using parse_u128_hex [OF assms(1)] parse_u64_hex [OF assms(2)]
  by (simp add: evaluate_rule_def spam_filter_def evaluate_condition_def in_range_def parse_or_def)

lemma default_rules_head:
  "\<exists>rest. fe_rules (load_rules now get_default_rules FilterEngine_new) = spam_filter # rest"
  by (simp add: load_rules_def Let_def get_default_rules_def spam_filter_def dex_transactions_def
      high_value_transactions_def high_gas_price_def rate_limit_per_address_def)

text \<open>C21: the parser keeps numbers as the hexadecimal text of the node, and the filters read them as
  decimal: every transaction parsed from a node that writes quantities with the prefix 0x, whatever its
  value and gas price, is dropped by the spam rule of the default rules.\<close>

theorem default_rules_reject_rpc_transactions:
  assumes "parse_transaction J d clock raw = Ret (Inr p)"
    and "pred_option (\<lambda>s. starts_with s ''0x'') (js_field_str J ''value'' raw)"
    and "pred_option (\<lambda>s. starts_with s ''0x'') (js_field_str J ''gasPrice'' raw)"
  shows "snd (filter_transaction c p (load_rules now get_default_rules FilterEngine_new)) = None"
proof -
  have "starts_with (js_str_or J k raw ''0x0'') ''0x''"
    if "pred_option (\<lambda>s. starts_with s ''0x'') (js_field_str J k raw)" for k
    using that by (auto simp: js_str_or_def starts_with_def split: option.split)
  with assms parsed_fields [OF assms(1)] have "evaluate_rule h spam_filter p" for h
    by (intro spam_matches_zero) simp_all
  moreover obtain rest where "fe_rules (load_rules now get_default_rules FilterEngine_new) = spam_filter # rest"
    using default_rules_head by blast
  moreover have "fr_enabled spam_filter" "fr_action spam_filter = Reject"
    by (simp_all add: spam_filter_def)
  ultimately show ?thesis
    by (simp add: filter_transaction_def Let_def FilteredTransaction_new_def)
qed

definition demo_raw :: demo_json where
  "demo_raw = DObj [(''hash'', DStr ''0xh''), (''from'', DStr ''0xf''), (''to'', DStr ''0xt''),
     (''value'', DStr ''0xde0b6b3a7640000''), (''gasPrice'', DStr ''0x174876e800'')]"

text \<open>One ether at 100 gwei.\<close>

theorem default_rules_reject_rpc_transactions_witness:
  "\<exists>p. parse_transaction demo_json_ops AbiDecoder_new \<lparr>pc_start = 0, pc_utc = 0, pc_stop = 0\<rparr> demo_raw = Ret (Inr p) \<and>
     snd (filter_transaction demo_call p (load_rules 0 get_default_rules FilterEngine_new)) = None"
proof -
  have fields: "js_field_str demo_json_ops ''value'' demo_raw = Some ''0xde0b6b3a7640000''"
    "js_field_str demo_json_ops ''gasPrice'' demo_raw = Some ''0x174876e800''"
    by (simp_all add: js_field_str_def demo_json_ops_def demo_raw_def)
  obtain p where run: "parse_transaction demo_json_ops AbiDecoder_new \<lparr>pc_start = 0, pc_utc = 0, pc_stop = 0\<rparr>
      demo_raw = Ret (Inr p)"
    by (simp add: parse_transaction_def extract_transaction_fields_def js_str_or_def js_field_str_def
        demo_json_ops_def demo_raw_def Let_def)
  from default_rules_reject_rpc_transactions [OF run, of demo_call 0] fields run show ?thesis
    by (simp add: starts_with_def)
qed

end
