(* ===== verification/Ring_Buffer.thy ===== *)
theory Ring_Buffer
  imports Tx_Types F64
begin

text \<open>
  The buffers between the mempool and its consumers: \<open>crates/mev-mempool/src/ring_buffer.rs\<close> over the
  bounded queue of \<open>crossbeam\<close>, and \<open>backpressure.rs\<close> over the bounded channel of \<open>tokio\<close>. The queue and
  the channel are third-party code: records of operations the definitions take. \<open>queue_laws\<close> and
  \<open>channel_laws\<close> are what their documentation promises, stated with the list of the elements inside.
\<close>

subsection \<open>The ring buffer\<close>

text \<open>\<open>ArrayQueue::new\<close> panics for a capacity of zero; \<open>push\<close> gives the element back when it is full.\<close>

record ('q, 'a) queue_ops =
  q_new :: "nat \<Rightarrow> 'q run"
  q_push :: "'a \<Rightarrow> 'q \<Rightarrow> 'q \<times> bool"
  q_pop :: "'q \<Rightarrow> 'q \<times> 'a option"
  q_len :: "'q \<Rightarrow> nat"

record 'q TransactionRingBuffer =
  rb_queue :: 'q
  rb_capacity :: usize
  rb_dropped_count :: u64

definition TransactionRingBuffer_new ::
    "('q, ParsedTransaction) queue_ops \<Rightarrow> usize \<Rightarrow> 'q TransactionRingBuffer run" where
  "TransactionRingBuffer_new Q capacity =
     run_bind (q_new Q (unat capacity)) (\<lambda>q.
       Ret \<lparr>rb_queue = q, rb_capacity = capacity, rb_dropped_count = 0\<rparr>)"

definition rb_push ::
    "('q, ParsedTransaction) queue_ops \<Rightarrow> ParsedTransaction \<Rightarrow> 'q TransactionRingBuffer \<Rightarrow>
     'q TransactionRingBuffer \<times> bool" where
  "rb_push Q tx b =
     (case q_push Q tx (rb_queue b) of
        (q, True) \<Rightarrow> (b\<lparr>rb_queue := q\<rparr>, True)
      | (q, False) \<Rightarrow> (b\<lparr>rb_queue := q, rb_dropped_count := rb_dropped_count b + 1\<rparr>, False))"

definition rb_pop ::
    "('q, ParsedTransaction) queue_ops \<Rightarrow> 'q TransactionRingBuffer \<Rightarrow>
     'q TransactionRingBuffer \<times> ParsedTransaction option" where
  "rb_pop Q b = (case q_pop Q (rb_queue b) of (q, r) \<Rightarrow> (b\<lparr>rb_queue := q\<rparr>, r))"

definition rb_len :: "('q, ParsedTransaction) queue_ops \<Rightarrow> 'q TransactionRingBuffer \<Rightarrow> nat" where
  "rb_len Q b = q_len Q (rb_queue b)"

definition rb_utilization :: "('q, ParsedTransaction) queue_ops \<Rightarrow> 'q TransactionRingBuffer \<Rightarrow> f64" where
  "rb_utilization Q b =
     f64_mul (f64_div (f64_of_nat (rb_len Q b)) (f64_of_nat (unat (rb_capacity b)))) (Finite False 100)"

text \<open>A consumer shares the queue.\<close>

fun consume_batch ::
    "('q, ParsedTransaction) queue_ops \<Rightarrow> nat \<Rightarrow> 'q TransactionRingBuffer \<Rightarrow>
     'q TransactionRingBuffer \<times> ParsedTransaction list" where
  "consume_batch Q 0 b = (b, [])"
| "consume_batch Q (Suc n) b =
     (case rb_pop Q b of
        (b, None) \<Rightarrow> (b, [])
      | (b, Some tx) \<Rightarrow> (case consume_batch Q n b of (b, txs) \<Rightarrow> (b, tx # txs)))"

subsection \<open>Backpressure\<close>

datatype DropPolicy = Oldest | Newest | Random

definition DropPolicy_from :: "string \<Rightarrow> DropPolicy" where
  "DropPolicy_from s =
     (let l = to_lowercase s
      in if l = ''oldest'' then Oldest else if l = ''newest'' then Newest
         else if l = ''random'' then Random else Oldest)"

record BackpressureConfig =
  bc_enabled :: bool
  bc_drop_policy :: DropPolicy
  bc_high_watermark :: f64
  bc_low_watermark :: f64
  bc_buffer_size :: usize

definition BackpressureConfig_default :: BackpressureConfig where
  "BackpressureConfig_default =
     \<lparr>bc_enabled = True, bc_drop_policy = Oldest,
      bc_high_watermark = f64_round False (8 / 10), bc_low_watermark = f64_round False (6 / 10),
      bc_buffer_size = 10000\<rparr>"

datatype send_result = SendOk | SendFull | SendClosed

record ('c, 'a) channel_ops =
  ch_new :: "nat \<Rightarrow> 'c run"
  ch_try_send :: "'a \<Rightarrow> 'c \<Rightarrow> 'c \<times> send_result"
  ch_try_recv :: "'c \<Rightarrow> 'c \<times> 'a option"
  ch_capacity :: "'c \<Rightarrow> nat"
  ch_max_capacity :: "'c \<Rightarrow> nat"

record 'c BackpressureBuffer =
  bp_channel :: 'c
  bp_config :: BackpressureConfig
  bp_total_received :: u64
  bp_total_dropped :: u64
  bp_total_processed :: u64
  bp_active :: bool

record BackpressureStats =
  bq_total_received :: u64
  bq_total_dropped :: u64
  bq_total_processed :: u64
  bq_current_size :: usize
  bq_buffer_capacity :: usize
  bq_utilization :: f64
  bq_backpressure_active :: bool
  bq_drop_rate :: f64

definition BackpressureBuffer_new ::
    "('c, ParsedTransaction) channel_ops \<Rightarrow> BackpressureConfig \<Rightarrow> 'c BackpressureBuffer run" where
  "BackpressureBuffer_new C config =
     run_bind (ch_new C (unat (bc_buffer_size config))) (\<lambda>c.
       Ret \<lparr>bp_channel = c, bp_config = config, bp_total_received = 0, bp_total_dropped = 0,
            bp_total_processed = 0, bp_active = False\<rparr>)"

text \<open>The subtraction of two \<open>usize\<close> values, \<open>capacity() - max_capacity()\<close>, wraps.\<close>

definition current_size :: "('c, ParsedTransaction) channel_ops \<Rightarrow> 'c BackpressureBuffer \<Rightarrow> usize" where
  "current_size C b =
     word_of_nat (ch_capacity C (bp_channel b)) - word_of_nat (ch_max_capacity C (bp_channel b))"

definition bp_utilization :: "('c, ParsedTransaction) channel_ops \<Rightarrow> 'c BackpressureBuffer \<Rightarrow> f64" where
  "bp_utilization C b =
     f64_div (f64_of_nat (unat (current_size C b))) (f64_of_nat (unat (bc_buffer_size (bp_config b))))"

text \<open>Sending and dropping, as every branch of \<open>push\<close> does them; \<open>Inl\<close> is the error of a closed channel.\<close>

definition bp_drop :: "'c BackpressureBuffer \<Rightarrow> 'c BackpressureBuffer \<times> (unit + bool)" where
  "bp_drop b = (b\<lparr>bp_total_dropped := bp_total_dropped b + 1\<rparr>, Inr False)"

definition bp_send ::
    "('c, ParsedTransaction) channel_ops \<Rightarrow> ParsedTransaction \<Rightarrow> 'c BackpressureBuffer \<Rightarrow>
     'c BackpressureBuffer \<times> (unit + bool)" where
  "bp_send C tx b =
     (case ch_try_send C tx (bp_channel b) of
        (c, r) \<Rightarrow>
          (let b = b\<lparr>bp_channel := c\<rparr>
           in case r of
                SendOk \<Rightarrow> (b\<lparr>bp_total_processed := bp_total_processed b + 1\<rparr>, Inr True)
              | SendFull \<Rightarrow> bp_drop b
              | SendClosed \<Rightarrow> (b, Inl ())))"

text \<open>\<open>random\<close> is what the random number generator gives when it is asked.\<close>

definition bp_push ::
    "('c, ParsedTransaction) channel_ops \<Rightarrow> f64 \<Rightarrow> ParsedTransaction \<Rightarrow> 'c BackpressureBuffer \<Rightarrow>
     'c BackpressureBuffer \<times> (unit + bool)" where
  "bp_push C random tx b =
     (let b = b\<lparr>bp_total_received := bp_total_received b + 1\<rparr>
      in if \<not> bc_enabled (bp_config b) then bp_send C tx b
         else
           let utilization = bp_utilization C b
           in if f64_le (bc_high_watermark (bp_config b)) utilization then
                let b = b\<lparr>bp_active := True\<rparr>
                in case bc_drop_policy (bp_config b) of
                     Oldest \<Rightarrow> bp_send C tx b
                   | Newest \<Rightarrow> bp_drop b
                   | Random \<Rightarrow> if f64_lt random (f64_round False (1 / 2)) then bp_drop b else bp_send C tx b
              else
                let b = (if bp_active b \<and> f64_le utilization (bc_low_watermark (bp_config b))
                         then b\<lparr>bp_active := False\<rparr> else b)
                in bp_send C tx b)"

fun receive_batch ::
    "('c, ParsedTransaction) channel_ops \<Rightarrow> nat \<Rightarrow> 'c BackpressureBuffer \<Rightarrow>
     'c BackpressureBuffer \<times> ParsedTransaction list" where
  "receive_batch C 0 b = (b, [])"
| "receive_batch C (Suc n) b =
     (case ch_try_recv C (bp_channel b) of
        (c, None) \<Rightarrow> (b\<lparr>bp_channel := c\<rparr>, [])
      | (c, Some tx) \<Rightarrow>
          (case receive_batch C n (b\<lparr>bp_channel := c\<rparr>) of (b, txs) \<Rightarrow> (b, tx # txs)))"

text \<open>\<open>None\<close>: the caller is still waiting; the buffer keeps a sender, so the channel never ends.\<close>

definition receive_one ::
    "('c, ParsedTransaction) channel_ops \<Rightarrow> 'c BackpressureBuffer \<Rightarrow>
     'c BackpressureBuffer \<times> ParsedTransaction option" where
  "receive_one C b = (case ch_try_recv C (bp_channel b) of (c, r) \<Rightarrow> (b\<lparr>bp_channel := c\<rparr>, r))"

definition bp_get_stats :: "('c, ParsedTransaction) channel_ops \<Rightarrow> 'c BackpressureBuffer \<Rightarrow> BackpressureStats" where
  "bp_get_stats C b =
     \<lparr>bq_total_received = bp_total_received b,
      bq_total_dropped = bp_total_dropped b,
      bq_total_processed = bp_total_processed b,
      bq_current_size = current_size C b,
      bq_buffer_capacity = bc_buffer_size (bp_config b),
      bq_utilization = bp_utilization C b,
      bq_backpressure_active = bp_active b,
      bq_drop_rate =
        (if 0 < bp_total_received b then
           f64_div (f64_of_nat (unat (bp_total_dropped b))) (f64_of_nat (unat (bp_total_received b)))
         else Finite False 0)\<rparr>"

end
