(* ===== verification/Buffer_Facts.thy ===== *)
theory Buffer_Facts
  imports Ring_Buffer
begin

text \<open>
  What the buffers guarantee over every queue and channel that keeps its documented promises: the order
  and the accounting of the ring buffer, and what the utilization that backpressure is based on says.
\<close>

subsection \<open>The promises of the queue\<close>

definition new_law :: "('q, 'a) queue_ops \<Rightarrow> ('q \<Rightarrow> 'a list) \<Rightarrow> ('q \<Rightarrow> nat) \<Rightarrow> bool" where
  "new_law Q items cap \<longleftrightarrow>
     (\<forall>n. case q_new Q n of Panic \<Rightarrow> n = 0 | Ret q \<Rightarrow> n \<noteq> 0 \<and> items q = [] \<and> cap q = n)"

definition push_law :: "('q, 'a) queue_ops \<Rightarrow> ('q \<Rightarrow> 'a list) \<Rightarrow> ('q \<Rightarrow> nat) \<Rightarrow> bool" where
  "push_law Q items cap \<longleftrightarrow>
     (\<forall>x q q' ok. q_push Q x q = (q', ok) \<longrightarrow>
        cap q' = cap q \<and> ok = (length (items q) < cap q) \<and> items q' = (if ok then items q @ [x] else items q))"

definition pop_law :: "('q, 'a) queue_ops \<Rightarrow> ('q \<Rightarrow> 'a list) \<Rightarrow> ('q \<Rightarrow> nat) \<Rightarrow> bool" where
  "pop_law Q items cap \<longleftrightarrow>
     (\<forall>q q' r. q_pop Q q = (q', r) \<longrightarrow>
        cap q' = cap q
        \<and> (case items q of [] \<Rightarrow> r = None \<and> items q' = [] | x # xs \<Rightarrow> r = Some x \<and> items q' = xs))"

definition queue_laws :: "('q, 'a) queue_ops \<Rightarrow> ('q \<Rightarrow> 'a list) \<Rightarrow> ('q \<Rightarrow> nat) \<Rightarrow> bool" where
  "queue_laws Q items cap \<longleftrightarrow>
     new_law Q items cap \<and> push_law Q items cap \<and> pop_law Q items cap \<and> (\<forall>q. q_len Q q = length (items q))"

lemma queue_new:
  "queue_laws Q items cap \<Longrightarrow> q_new Q n = Ret q \<Longrightarrow> items q = [] \<and> cap q = n"
  unfolding queue_laws_def new_law_def by (elim conjE, drule spec [of _ n]) simp

lemma queue_push:
  "queue_laws Q items cap \<Longrightarrow> q_push Q x q = (q', ok) \<Longrightarrow>
     cap q' = cap q \<and> ok = (length (items q) < cap q) \<and> items q' = (if ok then items q @ [x] else items q)"
  unfolding queue_laws_def push_law_def by blast

lemma queue_pop:
  "queue_laws Q items cap \<Longrightarrow> q_pop Q q = (q', r) \<Longrightarrow>
     cap q' = cap q \<and> (case items q of [] \<Rightarrow> r = None \<and> items q' = [] | x # xs \<Rightarrow> r = Some x \<and> items q' = xs)"
  unfolding queue_laws_def pop_law_def by blast

subsection \<open>Producers and consumers\<close>

text \<open>One call of a producer or of a consumer; calls of several threads interleave in some order.\<close>

datatype ring_call = PushCall ParsedTransaction | PopCall

text \<open>What the calls so far have accepted, refused and delivered.\<close>

record ring_history =
  rh_accepted :: "ParsedTransaction list"
  rh_refused :: nat
  rh_delivered :: "ParsedTransaction list"

fun ring_run ::
    "('q, ParsedTransaction) queue_ops \<Rightarrow> ring_call list \<Rightarrow> 'q TransactionRingBuffer \<times> ring_history \<Rightarrow>
     'q TransactionRingBuffer \<times> ring_history" where
  "ring_run Q [] s = s"
| "ring_run Q (PushCall tx # calls) (b, h) =
     (case rb_push Q tx b of
        (b, ok) \<Rightarrow> ring_run Q calls (b, if ok then h\<lparr>rh_accepted := rh_accepted h @ [tx]\<rparr>
                                        else h\<lparr>rh_refused := rh_refused h + 1\<rparr>))"
| "ring_run Q (PopCall # calls) (b, h) =
     (case rb_pop Q b of
        (b, r) \<Rightarrow> ring_run Q calls (b, case r of None \<Rightarrow> h
                                       | Some tx \<Rightarrow> h\<lparr>rh_delivered := rh_delivered h @ [tx]\<rparr>))"

definition ring_ok :: "('q \<Rightarrow> ParsedTransaction list) \<Rightarrow> ('q \<Rightarrow> nat) \<Rightarrow> 'q TransactionRingBuffer \<times> ring_history \<Rightarrow> bool" where
  "ring_ok items cap s \<longleftrightarrow>
     (case s of (b, h) \<Rightarrow>
        rh_delivered h @ items (rb_queue b) = rh_accepted h
        \<and> length (items (rb_queue b)) \<le> unat (rb_capacity b)
        \<and> cap (rb_queue b) = unat (rb_capacity b)
        \<and> rb_dropped_count b = word_of_nat (rh_refused h))"

lemma ring_push_ok:
  assumes "queue_laws Q items cap" and "ring_ok items cap (b, h)" and "rb_push Q tx b = (b', ok)"
  shows "ring_ok items cap (b', if ok then h\<lparr>rh_accepted := rh_accepted h @ [tx]\<rparr>
                                 else h\<lparr>rh_refused := rh_refused h + 1\<rparr>)
    \<and> rb_capacity b' = rb_capacity b"
proof -
  obtain q k where p: "q_push Q tx (rb_queue b) = (q, k)"
    by fastforce
  with queue_push [OF assms(1) p] assms(2,3) show ?thesis
    by (cases k) (auto simp: ring_ok_def rb_push_def)
qed

lemma ring_pop_ok:
  assumes "queue_laws Q items cap" and "ring_ok items cap (b, h)" and "rb_pop Q b = (b', r)"
  shows "ring_ok items cap (b', case r of None \<Rightarrow> h | Some tx \<Rightarrow> h\<lparr>rh_delivered := rh_delivered h @ [tx]\<rparr>)
    \<and> rb_capacity b' = rb_capacity b"
proof -
  obtain q k where p: "q_pop Q (rb_queue b) = (q, k)"
    by fastforce
  with queue_pop [OF assms(1) p] assms(2,3) show ?thesis
    by (cases "items (rb_queue b)") (auto simp: ring_ok_def rb_pop_def)
qed

lemma ring_run_ok:
  assumes "queue_laws Q items cap" and "ring_ok items cap (b, h)"
  shows "ring_ok items cap (ring_run Q calls (b, h)) \<and> rb_capacity (fst (ring_run Q calls (b, h))) = rb_capacity b"
  using assms(2)
proof (induction calls arbitrary: b h)
  case (Cons c calls)
  show ?case
  proof (cases c)
    case (PushCall tx)
    obtain b' ok where p: "rb_push Q tx b = (b', ok)"
      by fastforce
    from ring_push_ok [OF assms(1) Cons.prems p] Cons.IH show ?thesis
      by (simp add: PushCall p)
  next
    case PopCall
    obtain b' r where p: "rb_pop Q b = (b', r)"
      by fastforce
    from ring_pop_ok [OF assms(1) Cons.prems p] Cons.IH show ?thesis
      by (simp add: PopCall p)
  qed
qed simp

text \<open>C23: whatever producers and consumers do, in any order of their calls, transactions leave the ring
  buffer in the order in which they were accepted, each once; it never holds more than its capacity and
  counts every refused transaction.\<close>

theorem ring_buffer_fifo:
  assumes "queue_laws Q items cap" and "TransactionRingBuffer_new Q capacity = Ret b0"
    and "ring_run Q calls (b0, \<lparr>rh_accepted = [], rh_refused = 0, rh_delivered = []\<rparr>) = (b, h)"
  shows "rh_delivered h @ items (rb_queue b) = rh_accepted h
    \<and> length (items (rb_queue b)) \<le> unat capacity
    \<and> rb_dropped_count b = word_of_nat (rh_refused h)"
proof -
  obtain q where q: "q_new Q (unat capacity) = Ret q" "b0 = \<lparr>rb_queue = q, rb_capacity = capacity, rb_dropped_count = 0\<rparr>"
    using assms(2) by (auto simp: TransactionRingBuffer_new_def run_bind_Ret_iff)
  then have "items q = [] \<and> cap q = unat capacity"
    using queue_new [OF assms(1)] by blast
  then have "ring_ok items cap (b0, \<lparr>rh_accepted = [], rh_refused = 0, rh_delivered = []\<rparr>)"
    by (simp add: ring_ok_def q(2))
  from ring_run_ok [OF assms(1) this, of calls] assms(3) q(2) show ?thesis
    by (auto simp: ring_ok_def)
qed

subsection \<open>The promises of the channel\<close>

text \<open>The buffer keeps the receiver, so its channel is never closed.\<close>

definition send_law :: "('c, 'a) channel_ops \<Rightarrow> ('c \<Rightarrow> 'a list) \<Rightarrow> bool" where
  "send_law C items \<longleftrightarrow>
     (\<forall>x c c' r. ch_try_send C x c = (c', r) \<longrightarrow>
        ch_max_capacity C c' = ch_max_capacity C c
        \<and> r = (if length (items c) < ch_max_capacity C c then SendOk else SendFull)
        \<and> items c' = (if r = SendOk then items c @ [x] else items c))"

definition recv_law :: "('c, 'a) channel_ops \<Rightarrow> ('c \<Rightarrow> 'a list) \<Rightarrow> bool" where
  "recv_law C items \<longleftrightarrow>
     (\<forall>c c' r. ch_try_recv C c = (c', r) \<longrightarrow>
        ch_max_capacity C c' = ch_max_capacity C c
        \<and> (case items c of [] \<Rightarrow> r = None \<and> items c' = [] | x # xs \<Rightarrow> r = Some x \<and> items c' = xs))"

definition channel_laws :: "('c, 'a) channel_ops \<Rightarrow> ('c \<Rightarrow> 'a list) \<Rightarrow> bool" where
  "channel_laws C items \<longleftrightarrow>
     (\<forall>n. case ch_new C n of Panic \<Rightarrow> n = 0 | Ret c \<Rightarrow> n \<noteq> 0 \<and> items c = [] \<and> ch_max_capacity C c = n)
     \<and> send_law C items \<and> recv_law C items
     \<and> (\<forall>c. ch_capacity C c = ch_max_capacity C c - length (items c))"

lemma channel_new:
  "channel_laws C items \<Longrightarrow> ch_new C n = Ret c \<Longrightarrow> items c = [] \<and> ch_max_capacity C c = n"
  unfolding channel_laws_def by (elim conjE, drule spec [of _ n]) simp

lemma channel_send:
  "channel_laws C items \<Longrightarrow> ch_try_send C x c = (c', r) \<Longrightarrow>
     ch_max_capacity C c' = ch_max_capacity C c
     \<and> r = (if length (items c) < ch_max_capacity C c then SendOk else SendFull)
     \<and> items c' = (if r = SendOk then items c @ [x] else items c)"
  unfolding channel_laws_def send_law_def by blast

lemma channel_recv:
  "channel_laws C items \<Longrightarrow> ch_try_recv C c = (c', r) \<Longrightarrow>
     ch_max_capacity C c' = ch_max_capacity C c
     \<and> (case items c of [] \<Rightarrow> r = None \<and> items c' = [] | x # xs \<Rightarrow> r = Some x \<and> items c' = xs)"
  unfolding channel_laws_def recv_law_def by blast

lemma channel_capacity:
  "channel_laws C items \<Longrightarrow> ch_capacity C c = ch_max_capacity C c - length (items c)"
  unfolding channel_laws_def by blast

subsection \<open>The utilization\<close>

text \<open>
  The computed size is the complement of the number of elements: two to the 64th minus that number, zero
  only for the empty buffer.
\<close>

definition bp_ok :: "('c, ParsedTransaction) channel_ops \<Rightarrow> ('c \<Rightarrow> ParsedTransaction list) \<Rightarrow> 'c BackpressureBuffer \<Rightarrow> bool" where
  "bp_ok C items b \<longleftrightarrow>
     ch_max_capacity C (bp_channel b) = unat (bc_buffer_size (bp_config b))
     \<and> length (items (bp_channel b)) \<le> unat (bc_buffer_size (bp_config b))"

lemma current_size_complement:
  assumes "channel_laws C items" and "bp_ok C items b"
  shows "current_size C b = - word_of_nat (length (items (bp_channel b)))"
proof -
  have "ch_capacity C (bp_channel b) + length (items (bp_channel b)) = ch_max_capacity C (bp_channel b)"
    using channel_capacity [OF assms(1), of "bp_channel b"] assms(2) by (simp add: bp_ok_def)
  then have "(word_of_nat (ch_max_capacity C (bp_channel b)) :: usize)
      = word_of_nat (ch_capacity C (bp_channel b)) + word_of_nat (length (items (bp_channel b)))"
    by (metis of_nat_add)
  then show ?thesis
    by (simp add: current_size_def)
qed

lemma f64_le_one: "f64_le x (Finite False 1) \<Longrightarrow> 1 \<le> r \<Longrightarrow> f64_le x (Finite False r)"
  by (cases x) (auto simp: f64_le_def signed_def)

lemma utilization_above_one:
  assumes "channel_laws C items" and "bp_ok C items b" and "items (bp_channel b) \<noteq> []"
    and "unat (bc_buffer_size (bp_config b)) < 2 ^ 53"
  shows "\<exists>r. bp_utilization C b = Finite False r \<and> 1 \<le> r"
proof -
  let ?len = "length (items (bp_channel b))"
  let ?size = "unat (bc_buffer_size (bp_config b))"
  have len: "0 < ?len" "?len \<le> ?size"
    using assms(2,3) by (simp_all add: bp_ok_def)
  have word: "unat (word_of_nat ?len :: usize) = ?len"
    using len assms(4) by (intro unat_word_of_nat) simp
  then have "(word_of_nat ?len :: usize) \<noteq> 0"
    using len(1) by (metis unat_0 less_irrefl)
  then have n: "unat (current_size C b) = 2 ^ 64 - ?len"
    using current_size_complement [OF assms(1,2)] word assms(3)
      unat_sub_if' [of 0 "word_of_nat ?len :: usize"] by simp
  have large: "2 ^ 63 \<le> unat (current_size C b)" "unat (current_size C b) < 2 ^ 64"
    using len assms(4) by (simp_all add: n)
  then have "0 < unat (current_size C b)" "unat (current_size C b) < 2 ^ 1023"
    using less_trans [of "unat (current_size C b)" "2 ^ 64" "2 ^ 1023"] by simp_all
  from f64_of_nat_half [OF this] obtain r where r: "f64_of_nat (unat (current_size C b)) = Finite False r"
      "of_nat (unat (current_size C b)) / 2 \<le> r" "r \<le> 2 * of_nat (unat (current_size C b))"
    by blast
  have "of_nat (2 ^ 63) \<le> (of_nat (unat (current_size C b)) :: rat)"
      "of_nat (unat (current_size C b)) < (of_nat (2 ^ 64) :: rat)"
    using large by (simp_all only: of_nat_le_iff of_nat_less_iff)
  with r have bounds: "2 ^ 62 \<le> r" "r \<le> 2 ^ 65"
    by simp_all
  have size: "(1 :: rat) \<le> of_nat ?size" "of_nat ?size \<le> (2 ^ 53 :: rat)"
  proof -
    have "1 \<le> ?size"
      using len by linarith
    then have "(of_nat 1 :: rat) \<le> of_nat ?size"
      by (simp only: of_nat_le_iff)
    then show "(1 :: rat) \<le> of_nat ?size"
      by (simp only: of_nat_1)
    have "of_nat ?size \<le> (of_nat (2 ^ 53) :: rat)"
      using assms(4) by (simp only: of_nat_le_iff)
    then show "of_nat ?size \<le> (2 ^ 53 :: rat)"
      by simp
  qed
  have "2 * of_nat ?size \<le> r"
    using bounds(1) size(2) by simp
  then have q: "2 \<le> r / of_nat ?size"
    using size(1) by (simp add: pos_le_divide_eq)
  have "r / of_nat ?size \<le> r / 1"
    using size(1) bounds(1) by (intro divide_left_mono) simp_all
  also have "\<dots> < pow2 1023"
    using bounds(2) pow2_int [of 1023] by simp
  finally have "\<exists>x. f64_round False (r / of_nat ?size) = Finite False x
      \<and> r / of_nat ?size / 2 \<le> x \<and> x \<le> 2 * (r / of_nat ?size)"
    using q by (intro f64_round_half) simp_all
  then obtain x where x: "f64_round False (r / of_nat ?size) = Finite False x" "1 \<le> x"
    using q by force
  have "bp_utilization C b = f64_round False (r / of_nat ?size)"
    using size(1) by (simp add: bp_utilization_def r(1) f64_of_nat_exact [OF assms(4)])
  from trans [OF this x(1)] x(2) show ?thesis
    by blast
qed


subsection \<open>Pushing\<close>

lemma bp_send_ok:
  assumes "channel_laws C items" and "bp_ok C items b" and "bp_send C tx b = (b', r)"
  shows "bp_ok C items b' \<and> bp_config b' = bp_config b
    \<and> r = Inr (length (items (bp_channel b)) < unat (bc_buffer_size (bp_config b)))
    \<and> items (bp_channel b') = (if r = Inr True then items (bp_channel b) @ [tx] else items (bp_channel b))
    \<and> bp_total_received b' = bp_total_received b
    \<and> bp_total_processed b' + bp_total_dropped b' = bp_total_processed b + bp_total_dropped b + 1"
proof -
  obtain c q where c: "ch_try_send C tx (bp_channel b) = (c, q)"
    by fastforce
  from channel_send [OF assms(1) this] c assms(2,3) show ?thesis
    by (auto simp: bp_ok_def bp_send_def bp_drop_def Let_def split: if_splits)
qed

text \<open>with the policy that drops the newest transaction, backpressure leaves room for one: as soon as a
  single transaction is in the buffer, whatever its size, every further one is dropped, until the
  receiver has emptied it.\<close>

theorem newest_policy_holds_one:
  assumes "channel_laws C items" and "bp_ok C items b"
    and "bc_enabled (bp_config b)" and "bc_drop_policy (bp_config b) = Newest"
    and "f64_le (bc_high_watermark (bp_config b)) (Finite False 1)"
    and "unat (bc_buffer_size (bp_config b)) < 2 ^ 53"
    and "items (bp_channel b) \<noteq> []"
    and "bp_push C random tx b = (b', r)"
  shows "r = Inr False \<and> items (bp_channel b') = items (bp_channel b)
    \<and> bp_total_dropped b' = bp_total_dropped b + 1 \<and> bp_active b'"
proof -
  let ?b = "b\<lparr>bp_total_received := bp_total_received b + 1\<rparr>"
  have "bp_ok C items ?b"
    using assms(2) by (simp add: bp_ok_def)
  then obtain q where "bp_utilization C ?b = Finite False q" "1 \<le> q"
    using utilization_above_one [OF assms(1), of ?b] assms(6,7) by auto
  with f64_le_one [OF assms(5)] have "f64_le (bc_high_watermark (bp_config b)) (bp_utilization C ?b)"
    by simp
  with assms(3,4,8) show ?thesis
    by (auto simp: bp_push_def bp_drop_def Let_def)
qed

lemma bp_push_cases:
  obtains (send) a where "bp_push C random tx b
      = bp_send C tx (b\<lparr>bp_total_received := bp_total_received b + 1, bp_active := a\<rparr>)"
  | (drop) a where "bc_drop_policy (bp_config b) \<noteq> Oldest" and "bp_push C random tx b
      = bp_drop (b\<lparr>bp_total_received := bp_total_received b + 1, bp_active := a\<rparr>)"
proof -
  let ?b = "b\<lparr>bp_total_received := bp_total_received b + 1\<rparr>"
  have same: "?b = b\<lparr>bp_total_received := bp_total_received b + 1, bp_active := bp_active b\<rparr>"
    by simp
  have "(\<exists>a. bp_push C random tx b = bp_send C tx (?b\<lparr>bp_active := a\<rparr>))
      \<or> bp_push C random tx b = bp_send C tx ?b
      \<or> bc_drop_policy (bp_config b) \<noteq> Oldest \<and> (\<exists>a. bp_push C random tx b = bp_drop (?b\<lparr>bp_active := a\<rparr>))"
    by (cases "bc_drop_policy (bp_config b)") (auto simp: bp_push_def Let_def)
  then show ?thesis
    using send drop same by metis
qed

text \<open>The policy that should drop the oldest transaction drops the new one when the channel is full.\<close>

lemma oldest_policy_drops_new:
  assumes "channel_laws C items" and "bp_ok C items b" and "bc_drop_policy (bp_config b) = Oldest"
    and "length (items (bp_channel b)) = unat (bc_buffer_size (bp_config b))"
    and "bp_push C random tx b = (b', r)"
  shows "r = Inr False \<and> items (bp_channel b') = items (bp_channel b)"
proof (rule bp_push_cases [of C random tx b])
  fix a
  let ?b = "b\<lparr>bp_total_received := bp_total_received b + 1, bp_active := a\<rparr>"
  assume "bp_push C random tx b = bp_send C tx ?b"
  then have "bp_ok C items ?b" "bp_send C tx ?b = (b', r)"
    using assms(2,5) by (simp_all add: bp_ok_def)
  from bp_send_ok [OF assms(1) this] assms(4) show ?thesis
    by simp
qed (use assms(3) in simp)

text \<open>The states of a buffer with what was accepted and what was received so far.\<close>

inductive bp_reachable ::
    "('c, ParsedTransaction) channel_ops \<Rightarrow> BackpressureConfig \<Rightarrow> 'c BackpressureBuffer \<Rightarrow>
     ParsedTransaction list \<Rightarrow> ParsedTransaction list \<Rightarrow> bool" for C config where
  bp_start: "BackpressureBuffer_new C config = Ret b \<Longrightarrow> bp_reachable C config b [] []"
| bp_pushed: "bp_reachable C config b sent got \<Longrightarrow> bp_push C random tx b = (b', r) \<Longrightarrow>
     bp_reachable C config b' (if r = Inr True then sent @ [tx] else sent) got"
| bp_received: "bp_reachable C config b sent got \<Longrightarrow> receive_one C b = (b', r) \<Longrightarrow>
     bp_reachable C config b' sent (case r of None \<Rightarrow> got | Some tx \<Rightarrow> got @ [tx])"

lemma bp_push_ok:
  assumes "channel_laws C items" and "bp_ok C items b" and "bp_push C random tx b = (b', r)"
  shows "bp_ok C items b'
    \<and> items (bp_channel b') = (if r = Inr True then items (bp_channel b) @ [tx] else items (bp_channel b))
    \<and> bp_total_received b' = bp_total_received b + 1
    \<and> bp_total_processed b' + bp_total_dropped b' = bp_total_processed b + bp_total_dropped b + 1"
proof (rule bp_push_cases [of C random tx b])
  fix a
  let ?b = "b\<lparr>bp_total_received := bp_total_received b + 1, bp_active := a\<rparr>"
  assume "bp_push C random tx b = bp_send C tx ?b"
  then have "bp_ok C items ?b" "bp_send C tx ?b = (b', r)"
    using assms(2,3) by (simp_all add: bp_ok_def)
  from bp_send_ok [OF assms(1) this] show ?thesis
    by simp
next
  fix a
  assume "bp_push C random tx b = bp_drop (b\<lparr>bp_total_received := bp_total_received b + 1, bp_active := a\<rparr>)"
  with assms(2,3) show ?thesis
    by (auto simp: bp_drop_def bp_ok_def)
qed

lemma bp_reachable_ok:
  assumes "channel_laws C items" and "bp_reachable C config b sent got"
  shows "bp_ok C items b \<and> got @ items (bp_channel b) = sent
    \<and> bp_total_received b = bp_total_processed b + bp_total_dropped b"
  using assms(2)
proof induction
  case (bp_start b)
  then show ?case
    using channel_new [OF assms(1)] by (auto simp: BackpressureBuffer_new_def run_bind_Ret_iff bp_ok_def)
next
  case (bp_pushed b sent got random tx b' r)
  with bp_push_ok [OF assms(1), of b random tx b' r] show ?case
    by (auto simp: add_ac)
next
  case (bp_received b sent got b' r)
  obtain c q where "ch_try_recv C (bp_channel b) = (c, q)"
    by fastforce
  with channel_recv [OF assms(1) this] bp_received show ?case
    by (auto simp: receive_one_def bp_ok_def split: list.splits)
qed

text \<open>C24: every transaction given to the buffer is counted exactly once, as processed or as dropped; what the
  receiver gets, followed by what is still inside, is what was accepted, in order, and fits the buffer.\<close>

theorem backpressure_accounts:
  assumes "channel_laws C items" and "bp_reachable C config b sent got"
  shows "got @ items (bp_channel b) = sent
    \<and> length (items (bp_channel b)) \<le> unat (bc_buffer_size (bp_config b))
    \<and> bp_total_received b = bp_total_processed b + bp_total_dropped b"
  using bp_reachable_ok [OF assms] by (simp add: bp_ok_def)

subsection \<open>Concrete runs\<close>

text \<open>A list with its capacity keeps the promises of both.\<close>

definition list_queue :: "(nat \<times> 'a list, 'a) queue_ops" where
  "list_queue =
     \<lparr>q_new = (\<lambda>n. if n = 0 then Panic else Ret (n, [])),
      q_push = (\<lambda>x (n, xs). if length xs < n then ((n, xs @ [x]), True) else ((n, xs), False)),
      q_pop = (\<lambda>(n, xs). case xs of [] \<Rightarrow> ((n, []), None) | x # ys \<Rightarrow> ((n, ys), Some x)),
      q_len = (\<lambda>(n, xs). length xs)\<rparr>"

lemma list_queue_laws: "queue_laws list_queue snd fst"
  by (auto simp: queue_laws_def new_law_def push_law_def pop_law_def list_queue_def split: list.splits if_splits)

definition list_channel :: "(nat \<times> 'a list, 'a) channel_ops" where
  "list_channel =
     \<lparr>ch_new = (\<lambda>n. if n = 0 then Panic else Ret (n, [])),
      ch_try_send = (\<lambda>x (n, xs). if length xs < n then ((n, xs @ [x]), SendOk) else ((n, xs), SendFull)),
      ch_try_recv = (\<lambda>(n, xs). case xs of [] \<Rightarrow> ((n, []), None) | x # ys \<Rightarrow> ((n, ys), Some x)),
      ch_capacity = (\<lambda>(n, xs). n - length xs),
      ch_max_capacity = fst\<rparr>"

lemma list_channel_laws: "channel_laws list_channel snd"
  by (auto simp: channel_laws_def send_law_def recv_law_def list_channel_def split: list.splits if_splits)

definition demo_tx :: "string \<Rightarrow> ParsedTransaction" where
  "demo_tx h =
     \<lparr>px_transaction =
        \<lparr>tx_hash = h, tx_from = '''', tx_to = None, tx_value = '''', tx_gas_price = '''', tx_gas_limit = '''',
         tx_nonce = 0, tx_input = '''', tx_timestamp = 0\<rparr>,
      px_decoded_input = None, px_target_type = Unknown, px_processing_time_ms = 0\<rparr>"

theorem ring_buffer_fifo_witness:
  "\<exists>b h. ring_run list_queue [PushCall (demo_tx ''a''), PushCall (demo_tx ''b''), PopCall]
       (\<lparr>rb_queue = (1, []), rb_capacity = 1, rb_dropped_count = 0\<rparr>,
        \<lparr>rh_accepted = [], rh_refused = 0, rh_delivered = []\<rparr>) = (b, h)
     \<and> rh_delivered h = [demo_tx ''a''] \<and> rh_accepted h = [demo_tx ''a''] \<and> rb_dropped_count b = 1"
proof -
  let ?b0 = "\<lparr>rb_queue = (1 :: nat, [] :: ParsedTransaction list), rb_capacity = 1, rb_dropped_count = 0\<rparr>"
  obtain b h where run: "ring_run list_queue [PushCall (demo_tx ''a''), PushCall (demo_tx ''b''), PopCall]
      (?b0, \<lparr>rh_accepted = [], rh_refused = 0, rh_delivered = []\<rparr>) = (b, h)"
    by fastforce
  have "TransactionRingBuffer_new list_queue 1 = Ret ?b0"
    by (simp add: TransactionRingBuffer_new_def list_queue_def)
  from ring_buffer_fifo [OF list_queue_laws this run] have "rb_dropped_count b = word_of_nat (rh_refused h)"
    by blast
  with run show ?thesis
    by (auto simp: rb_push_def rb_pop_def list_queue_def)
qed

definition demo_buffer :: "(nat \<times> ParsedTransaction list) BackpressureBuffer" where
  "demo_buffer =
     \<lparr>bp_channel = (10000, [demo_tx ''a'']),
      bp_config = BackpressureConfig_default\<lparr>bc_drop_policy := Newest, bc_high_watermark := Finite False 1\<rparr>,
      bp_total_received = 1, bp_total_dropped = 0, bp_total_processed = 1, bp_active = False\<rparr>"

theorem newest_policy_holds_one_witness:
  "\<exists>b. bp_push list_channel NaN (demo_tx ''b'') demo_buffer = (b, Inr False)
     \<and> bp_channel b = (10000, [demo_tx ''a'']) \<and> bp_active b"
proof -
  obtain b r where run: "bp_push list_channel NaN (demo_tx ''b'') demo_buffer = (b, r)"
    by fastforce
  have "bp_ok list_channel snd demo_buffer"
    by (simp add: bp_ok_def demo_buffer_def list_channel_def BackpressureConfig_default_def)
  moreover have "f64_le (bc_high_watermark (bp_config demo_buffer)) (Finite False 1)"
    by (simp add: demo_buffer_def f64_le_def)
  ultimately have "r = Inr False" "bp_active b"
    using newest_policy_holds_one [OF list_channel_laws _ _ _ _ _ _ run]
    by (simp_all add: demo_buffer_def BackpressureConfig_default_def)
  moreover have "bp_channel b = (10000, [demo_tx ''a''])"
    using run \<open>r = Inr False\<close>
    by - (rule bp_push_cases [of list_channel NaN "demo_tx ''b''" demo_buffer],
        auto simp: bp_send_def bp_drop_def list_channel_def demo_buffer_def Let_def)
  ultimately show ?thesis
    using run by blast
qed

theorem backpressure_accounts_witness:
  "\<exists>b. bp_reachable list_channel BackpressureConfig_default b [demo_tx ''a''] []
     \<and> bp_total_received b = 1 \<and> bp_total_processed b + bp_total_dropped b = 1"
proof -
  let ?b0 = "\<lparr>bp_channel = (10000 :: nat, [] :: ParsedTransaction list), bp_config = BackpressureConfig_default,
      bp_total_received = 0, bp_total_dropped = 0, bp_total_processed = 0, bp_active = False\<rparr>"
  have "BackpressureBuffer_new list_channel BackpressureConfig_default = Ret ?b0"
    by (simp add: BackpressureBuffer_new_def list_channel_def BackpressureConfig_default_def)
  then have 0: "bp_reachable list_channel BackpressureConfig_default ?b0 [] []"
    by (rule bp_start)
  have ok: "bp_ok list_channel snd ?b0"
    by (simp add: bp_ok_def list_channel_def BackpressureConfig_default_def)
  obtain b r where run: "bp_push list_channel NaN (demo_tx ''a'') ?b0 = (b, r)"
    by fastforce
  note props = bp_push_ok [OF list_channel_laws ok run]
  have "r = Inr True"
    using run
    by - (rule bp_push_cases [of list_channel NaN "demo_tx ''a''" ?b0],
        auto simp: bp_send_def bp_drop_def list_channel_def BackpressureConfig_default_def Let_def)
  with bp_pushed [OF 0 run] have "bp_reachable list_channel BackpressureConfig_default b [demo_tx ''a''] []"
    by simp
  with backpressure_accounts [OF list_channel_laws this] props show ?thesis
    by (intro exI [of _ b]) simp
qed

end
