(* ===== verification/Filter_Config.thy ===== *)
theory Filter_Config
  imports Tx_Filters
begin

text \<open>
  The rule files of \<open>crates/mev-mempool/src/filter_config.rs\<close>: the configuration data, its validation,
  the manager that edits it, and its conversion to the rules of the filter engine. The YAML parser and
  printer and the file system are the fields of \<open>yaml_env\<close>.
\<close>

datatype FilterConditionConfig =
    ValueRange "string option" "string option"
  | GasPriceRange "u64 option" "u64 option"
  | TargetTypeIn "string list"
  | FunctionSignature "string list"
  | ContractAddress "string list" bool
  | SenderAddress "string list" bool
  | DataSize "usize option" "usize option"
  | TimeOfDay u8 u8
  | DataPattern string bool

datatype FilterActionConfig =
  Accept | Reject | Tag "string list" | SetPriority u8 | RateLimit u32

record FilterRuleConfig =
  rc_name :: string
  rc_enabled :: bool
  rc_priority :: "32 word"
  rc_description :: string
  rc_conditions :: "FilterConditionConfig list"
  rc_action :: FilterActionConfig

record FilterSettings =
  fg_max_rules_per_transaction :: usize
  fg_detailed_logging :: bool
  fg_default_priority :: u8
  fg_enable_metrics :: bool
  fg_filter_timeout_ms :: u64

record FilterConfig =
  fc_rules :: "FilterRuleConfig list"
  fc_settings :: FilterSettings

record FilterConfigManager =
  cm_config_path :: string
  cm_current_config :: "FilterConfig option"

record 'f yaml_env =
  ye_read :: "string \<Rightarrow> 'f \<Rightarrow> string option"
  ye_write :: "string \<Rightarrow> string \<Rightarrow> 'f \<Rightarrow> 'f \<times> bool"
  ye_from_str :: "string \<Rightarrow> FilterConfig option"
  ye_to_string :: "FilterConfig \<Rightarrow> string option"

datatype config_error =
    ConfigFileError
  | InvalidYaml
  | DuplicateRuleName string
  | InvalidTimeRange string
  | ZeroMaxRules
  | ZeroTimeout
  | RuleNotFound string
  | RuleAlreadyExists string
  | NoConfigurationLoaded

definition FilterSettings_default :: FilterSettings where
  "FilterSettings_default =
     \<lparr>fg_max_rules_per_transaction = 20, fg_detailed_logging = False, fg_default_priority = 128,
      fg_enable_metrics = True, fg_filter_timeout_ms = 10\<rparr>"

definition FilterConfigManager_new :: "string \<Rightarrow> FilterConfigManager" where
  "FilterConfigManager_new path = \<lparr>cm_config_path = path, cm_current_config = None\<rparr>"

subsection \<open>Conversion\<close>

fun convert_condition_config :: "FilterConditionConfig \<Rightarrow> FilterCondition" where
  "convert_condition_config (ValueRange min_wei max_wei) = FilterCondition.ValueRange min_wei max_wei"
| "convert_condition_config (GasPriceRange min_gwei max_gwei) = FilterCondition.GasPriceRange min_gwei max_gwei"
| "convert_condition_config (TargetTypeIn types) = FilterCondition.TargetTypeIn types"
| "convert_condition_config (FunctionSignature signatures) = FilterCondition.FunctionSignature signatures"
| "convert_condition_config (ContractAddress addresses whitelist) = FilterCondition.ContractAddress addresses whitelist"
| "convert_condition_config (SenderAddress addresses whitelist) = FilterCondition.SenderAddress addresses whitelist"
| "convert_condition_config (DataSize min_bytes max_bytes) = FilterCondition.DataSize min_bytes max_bytes"
| "convert_condition_config (TimeOfDay start_hour end_hour) = FilterCondition.TimeOfDay start_hour end_hour"
| "convert_condition_config (DataPattern pattern case_sensitive) = FilterCondition.DataPattern pattern case_sensitive"

fun convert_action_config :: "FilterActionConfig \<Rightarrow> FilterAction" where
  "convert_action_config Accept = FilterAction.Accept"
| "convert_action_config Reject = FilterAction.Reject"
| "convert_action_config (Tag tags) = FilterAction.Tag tags"
| "convert_action_config (SetPriority level) = FilterAction.SetPriority level"
| "convert_action_config (RateLimit max_per_second) = FilterAction.RateLimit max_per_second"

definition convert_rule_config :: "FilterRuleConfig \<Rightarrow> FilterRule" where
  "convert_rule_config c =
     \<lparr>fr_name = rc_name c, fr_enabled = rc_enabled c, fr_priority = rc_priority c,
      fr_conditions = map convert_condition_config (rc_conditions c),
      fr_action = convert_action_config (rc_action c), fr_description = rc_description c\<rparr>"

text \<open>No conversion can fail.\<close>

definition to_filter_rules :: "FilterConfig \<Rightarrow> config_error + FilterRule list" where
  "to_filter_rules config = Inr (map convert_rule_config (fc_rules config))"

subsection \<open>Validation\<close>

fun check_names :: "string list \<Rightarrow> FilterRuleConfig list \<Rightarrow> config_error + unit" where
  "check_names seen [] = Inr ()"
| "check_names seen (rule # rest) =
     (if rc_name rule \<in> set seen then Inl (DuplicateRuleName (rc_name rule))
      else check_names (rc_name rule # seen) rest)"

definition bad_hours :: "FilterConditionConfig \<Rightarrow> bool" where
  "bad_hours condition =
     (case condition of TimeOfDay start_hour end_hour \<Rightarrow> 23 < start_hour \<or> 23 < end_hour | _ \<Rightarrow> False)"

fun check_hours :: "FilterRuleConfig list \<Rightarrow> config_error + unit" where
  "check_hours [] = Inr ()"
| "check_hours (rule # rest) =
     (if list_ex bad_hours (rc_conditions rule) then Inl (InvalidTimeRange (rc_name rule))
      else check_hours rest)"

text \<open>Priorities outside of 0 to 1000 are only logged.\<close>

definition validate_config :: "FilterConfig \<Rightarrow> config_error + unit" where
  "validate_config config =
     res_bind (check_names [] (fc_rules config)) (\<lambda>_.
     res_bind (check_hours (fc_rules config)) (\<lambda>_.
       if fg_max_rules_per_transaction (fc_settings config) = 0 then Inl ZeroMaxRules
       else if fg_filter_timeout_ms (fc_settings config) = 0 then Inl ZeroTimeout
       else Inr ()))"

subsection \<open>The manager\<close>

definition load_config ::
    "'f yaml_env \<Rightarrow> 'f \<Rightarrow> FilterConfigManager \<Rightarrow> FilterConfigManager \<times> (config_error + FilterConfig)" where
  "load_config Y fs m =
     (case res_bind (ok_or ConfigFileError (ye_read Y (cm_config_path m) fs)) (\<lambda>content.
             res_bind (ok_or InvalidYaml (ye_from_str Y content)) (\<lambda>config.
               res_bind (validate_config config) (\<lambda>_. Inr config))) of
        Inl e \<Rightarrow> (m, Inl e)
      | Inr config \<Rightarrow> (m\<lparr>cm_current_config := Some config\<rparr>, Inr config))"

definition save_config ::
    "'f yaml_env \<Rightarrow> FilterConfig \<Rightarrow> FilterConfigManager \<Rightarrow> 'f \<Rightarrow> 'f \<times> (config_error + unit)" where
  "save_config Y config m fs =
     (case ye_to_string Y config of
        None \<Rightarrow> (fs, Inl InvalidYaml)
      | Some yaml \<Rightarrow>
          (case ye_write Y (cm_config_path m) yaml fs of
             (fs, written) \<Rightarrow> (fs, if written then Inr () else Inl ConfigFileError)))"

fun enable_rule :: "string \<Rightarrow> bool \<Rightarrow> FilterRuleConfig list \<Rightarrow> FilterRuleConfig list option" where
  "enable_rule n b [] = None"
| "enable_rule n b (r # rs) =
     (if rc_name r = n then Some (r\<lparr>rc_enabled := b\<rparr> # rs) else map_option ((#) r) (enable_rule n b rs))"

definition set_rules :: "FilterConfig \<Rightarrow> FilterRuleConfig list \<Rightarrow> FilterConfigManager \<Rightarrow> FilterConfigManager" where
  "set_rules config rules m = m\<lparr>cm_current_config := Some (config\<lparr>fc_rules := rules\<rparr>)\<rparr>"

definition update_rule ::
    "string \<Rightarrow> bool \<Rightarrow> FilterConfigManager \<Rightarrow> FilterConfigManager \<times> (config_error + unit)" where
  "update_rule rule_name b m =
     (case cm_current_config m of
        None \<Rightarrow> (m, Inl (RuleNotFound rule_name))
      | Some config \<Rightarrow>
          (case enable_rule rule_name b (fc_rules config) of
             None \<Rightarrow> (m, Inl (RuleNotFound rule_name))
           | Some rules \<Rightarrow> (set_rules config rules m, Inr ())))"

definition add_rule ::
    "FilterRuleConfig \<Rightarrow> FilterConfigManager \<Rightarrow> FilterConfigManager \<times> (config_error + unit)" where
  "add_rule rule m =
     (case cm_current_config m of
        None \<Rightarrow> (m, Inl NoConfigurationLoaded)
      | Some config \<Rightarrow>
          if list_ex (\<lambda>r. rc_name r = rc_name rule) (fc_rules config) then
            (m, Inl (RuleAlreadyExists (rc_name rule)))
          else (set_rules config (fc_rules config @ [rule]) m, Inr ()))"

definition remove_rule :: "string \<Rightarrow> FilterConfigManager \<Rightarrow> FilterConfigManager \<times> (config_error + unit)" where
  "remove_rule rule_name m =
     (case cm_current_config m of
        None \<Rightarrow> (m, Inl (RuleNotFound rule_name))
      | Some config \<Rightarrow>
          (let rules = filter (\<lambda>r. rc_name r \<noteq> rule_name) (fc_rules config)
           in (set_rules config rules m,
               if length rules < length (fc_rules config) then Inr () else Inl (RuleNotFound rule_name))))"

subsection \<open>Statistics\<close>

record FilterRuleStats =
  rt_total_rules :: nat
  rt_enabled_rules :: nat
  rt_disabled_rules :: nat
  rt_priority_distribution :: "(string, nat) hash_map"

definition priority_range :: "32 word \<Rightarrow> string" where
  "priority_range p =
     (let v = sint p
      in if 0 \<le> v \<and> v \<le> 50 then ''Low (0-50)''
         else if 51 \<le> v \<and> v \<le> 100 then ''Medium (51-100)''
         else if 101 \<le> v \<and> v \<le> 200 then ''High (101-200)''
         else ''Very High (200+)'')"

definition count_range :: "FilterRuleConfig \<Rightarrow> (string, nat) hash_map \<Rightarrow> (string, nat) hash_map" where
  "count_range rule d =
     (let k = priority_range (rc_priority rule)
      in hm_insert k ((case hm_get d k of Some n \<Rightarrow> n | None \<Rightarrow> 0) + 1) d)"

definition get_rule_stats :: "FilterConfigManager \<Rightarrow> FilterRuleStats option" where
  "get_rule_stats m =
     map_option (\<lambda>config.
       let total = length (fc_rules config); on = length (filter rc_enabled (fc_rules config))
       in \<lparr>rt_total_rules = total, rt_enabled_rules = on, rt_disabled_rules = total - on,
           rt_priority_distribution = fold count_range (fc_rules config) hm_empty\<rparr>)
       (cm_current_config m)"

subsection \<open>What the validation accepts\<close>

lemma check_names_iff:
  "check_names seen rules = Inr () \<longleftrightarrow> distinct (map rc_name rules) \<and> set seen \<inter> set (map rc_name rules) = {}"
  by (induction seen rules rule: check_names.induct) auto

lemma check_hours_iff: "check_hours rules = Inr () \<longleftrightarrow> list_all (\<lambda>r. \<not> list_ex bad_hours (rc_conditions r)) rules"
  by (induction rules) auto

lemma validate_config_iff:
  "validate_config config = Inr () \<longleftrightarrow>
     distinct (map rc_name (fc_rules config))
     \<and> list_all (\<lambda>r. \<not> list_ex bad_hours (rc_conditions r)) (fc_rules config)
     \<and> fg_max_rules_per_transaction (fc_settings config) \<noteq> 0
     \<and> fg_filter_timeout_ms (fc_settings config) \<noteq> 0"
  by (auto simp: validate_config_def check_names_iff check_hours_iff)

lemma enable_rule_names: "enable_rule n b rules = Some rules' \<Longrightarrow> map rc_name rules' = map rc_name rules"
  by (induction rules arbitrary: rules') (auto split: if_splits)

subsection \<open>Edited configurations\<close>

inductive config_reachable :: "'f yaml_env \<Rightarrow> FilterConfigManager \<Rightarrow> bool" for Y where
  cr_new: "config_reachable Y (FilterConfigManager_new path)"
| cr_load: "config_reachable Y m \<Longrightarrow> config_reachable Y (fst (load_config Y fs m))"
| cr_update: "config_reachable Y m \<Longrightarrow> config_reachable Y (fst (update_rule n b m))"
| cr_add: "config_reachable Y m \<Longrightarrow> config_reachable Y (fst (add_rule rule m))"
| cr_remove: "config_reachable Y m \<Longrightarrow> config_reachable Y (fst (remove_rule n m))"

definition manager_ok :: "FilterConfigManager \<Rightarrow> bool" where
  "manager_ok m =
     (case cm_current_config m of
        None \<Rightarrow> True
      | Some config \<Rightarrow> distinct (map rc_name (fc_rules config))
          \<and> fg_max_rules_per_transaction (fc_settings config) \<noteq> 0
          \<and> fg_filter_timeout_ms (fc_settings config) \<noteq> 0)"

lemma config_reachable_ok: "config_reachable Y m \<Longrightarrow> manager_ok m"
proof (induction rule: config_reachable.induct)
  case (cr_load m fs)
  then show ?case
    by (auto simp: load_config_def manager_ok_def validate_config_iff split: sum.split)
next
  case (cr_update m n b)
  then show ?case
    by (auto simp: update_rule_def manager_ok_def set_rules_def dest: enable_rule_names split: option.splits)
next
  case (cr_add m rule)
  then show ?case
    by (auto simp: add_rule_def manager_ok_def set_rules_def list_ex_iff split: option.splits)
next
  case (cr_remove m n)
  then show ?case
    by (auto simp: remove_rule_def manager_ok_def set_rules_def Let_def split: option.splits)
       (simp add: distinct_map_filter)
qed (simp add: FilterConfigManager_new_def manager_ok_def)

text \<open>however a loaded configuration is edited, its rules keep distinct names, so each rule of the
  engine that is made from it has a rate limiter of its own; the only thing that an edit can break is the
  hours of a rule that was added: exactly then a saved configuration is refused when it is read again.\<close>

theorem edited_config_valid_iff:
  assumes "config_reachable Y m" and "cm_current_config m = Some config"
  shows "to_filter_rules config = Inr (map convert_rule_config (fc_rules config))
    \<and> distinct (map (fr_name \<circ> convert_rule_config) (fc_rules config))
    \<and> (validate_config config = Inr ()
       \<longleftrightarrow> list_all (\<lambda>r. \<not> list_ex bad_hours (rc_conditions r)) (fc_rules config))"
  using config_reachable_ok [OF assms(1)] assms(2)
  by (simp add: manager_ok_def validate_config_iff to_filter_rules_def convert_rule_config_def comp_def)

text \<open>A rule with the hour 99 can be added, and the configuration is then refused.\<close>

definition demo_yaml_env :: "unit yaml_env" where
  "demo_yaml_env =
     \<lparr>ye_read = (\<lambda>p fs. Some ''''), ye_write = (\<lambda>p t fs. (fs, True)),
      ye_from_str = (\<lambda>t. Some \<lparr>fc_rules = [], fc_settings = FilterSettings_default\<rparr>),
      ye_to_string = (\<lambda>c. Some '''')\<rparr>"

definition demo_rule :: FilterRuleConfig where
  "demo_rule =
     \<lparr>rc_name = ''night'', rc_enabled = True, rc_priority = 1, rc_description = '''',
      rc_conditions = [TimeOfDay 99 5], rc_action = Accept\<rparr>"

theorem edited_config_valid_iff_witness:
  "\<exists>m config. config_reachable demo_yaml_env m \<and> cm_current_config m = Some config
     \<and> fc_rules config = [demo_rule] \<and> validate_config config \<noteq> Inr ()"
proof -
  let ?loaded = "fst (load_config demo_yaml_env () (FilterConfigManager_new ''p''))"
  let ?m = "fst (add_rule demo_rule ?loaded)"
  let ?config = "\<lparr>fc_rules = [demo_rule], fc_settings = FilterSettings_default\<rparr>"
  have reachable: "config_reachable demo_yaml_env ?m"
    by (intro config_reachable.intros)
  have current: "cm_current_config ?m = Some ?config"
    by (simp add: load_config_def demo_yaml_env_def validate_config_def FilterSettings_default_def
        FilterConfigManager_new_def add_rule_def set_rules_def)
  have "list_ex bad_hours (rc_conditions demo_rule)"
    by (simp add: demo_rule_def bad_hours_def)
  with edited_config_valid_iff [OF reachable current] reachable current show ?thesis
    by (intro exI [of _ ?m] exI [of _ ?config]) simp
qed

end
