(* ===== verification/Mempool_Service.thy ===== *)
theory Mempool_Service
  imports Tx_Parser Ring_Buffer
begin

text \<open>
  The mempool service of \<open>crates/mev-mempool/src/lib.rs\<close> and its WebSocket client (\<open>websocket.rs\<close>): polling,
  the subscription, and what happens to each transaction. The endpoints and the clocks are a world of
  type \<open>'w\<close>; JSON values and the ring buffer's queue are records of operations. The hashes already seen
  are a \<open>HashSet\<close>, a list without repetitions here; the order in which the set is walked is unspecified
  and an operation of the environment, \<open>me_order\<close>. Metrics and log output are left out.
\<close>

datatype MempoolMode = Auto | WebSocket | Polling

datatype ws_event = TextMessage string | CloseMessage | PingMessage string | WsError string | OtherMessage

datatype ws_frame = SubscribeRequest u64 | PongFrame string

datatype timed = InTime "ws_event option" | TimedOut

record ('w, 'v) mempool_env =
  me_json :: "'v json_ops"
  me_decoder :: AbiDecoder
  me_post :: "string \<Rightarrow> u64 \<Rightarrow> 'w \<Rightarrow> 'w \<times> (string + string)"
  me_connect :: "string \<Rightarrow> 'w \<Rightarrow> 'w \<times> bool"
  me_ws_send :: "ws_frame \<Rightarrow> 'w \<Rightarrow> 'w \<times> bool"
  me_ws_next :: "'w \<Rightarrow> 'w \<times> ws_event option"
  me_ws_next_timeout :: "u64 \<Rightarrow> 'w \<Rightarrow> 'w \<times> timed"
  me_clock :: "'w \<Rightarrow> parse_clock"
  me_sleep :: "duration \<Rightarrow> 'w \<Rightarrow> 'w"
  me_order :: "string list \<Rightarrow> string list"

record ('w, 'q) MempoolService =
  ms_world :: 'w
  ms_endpoint :: string
  ms_rpc_url :: string
  ms_mode :: MempoolMode
  ms_polling_interval_ms :: u64
  ms_websocket_timeout_secs :: u64
  ms_ring_buffer :: "'q TransactionRingBuffer"
  ms_seen_txs :: "string list"

datatype mempool_error =
    HttpFailed string
  | EmptyResponse
  | BadResponse
  | RpcErrorResponse
  | NoResult
  | NullBlock
  | NoTransactions
  | ConnectFailed
  | SubscribeSendFailed
  | InvalidSubscriptionId
  | SubscriptionError
  | ClosedDuringSubscription
  | SubscriptionWsError string
  | StreamEnded
  | SubscriptionTimeout
  | NoSubscriptionResponse

definition MempoolService_new ::
    "('q, ParsedTransaction) queue_ops \<Rightarrow> string \<Rightarrow> string \<Rightarrow> 'w \<Rightarrow> ('w, 'q) MempoolService run" where
  "MempoolService_new Q endpoint rpc_url w =
     run_bind (TransactionRingBuffer_new Q 10000) (\<lambda>b.
       Ret \<lparr>ms_world = w, ms_endpoint = endpoint, ms_rpc_url = rpc_url, ms_mode = Auto,
            ms_polling_interval_ms = 300, ms_websocket_timeout_secs = 3, ms_ring_buffer = b,
            ms_seen_txs = []\<rparr>)"

definition with_mode :: "MempoolMode \<Rightarrow> ('w, 'q) MempoolService \<Rightarrow> ('w, 'q) MempoolService" where
  "with_mode mode s = s\<lparr>ms_mode := mode\<rparr>"

definition with_polling_interval :: "u64 \<Rightarrow> ('w, 'q) MempoolService \<Rightarrow> ('w, 'q) MempoolService" where
  "with_polling_interval ms s = s\<lparr>ms_polling_interval_ms := ms\<rparr>"

definition with_websocket_timeout :: "u64 \<Rightarrow> ('w, 'q) MempoolService \<Rightarrow> ('w, 'q) MempoolService" where
  "with_websocket_timeout n s = s\<lparr>ms_websocket_timeout_secs := n\<rparr>"

subsection \<open>One transaction\<close>

definition process_transaction ::
    "('w, 'v) mempool_env \<Rightarrow> ('q, ParsedTransaction) queue_ops \<Rightarrow> 'v \<Rightarrow> ('w, 'q) MempoolService \<Rightarrow>
     ('w, 'q) MempoolService run" where
  "process_transaction E Q tx_data s =
     run_bind (parse_transaction (me_json E) (me_decoder E) (me_clock E (ms_world s)) tx_data) (\<lambda>r.
       case r of
         Inr parsed_tx \<Rightarrow> Ret (s\<lparr>ms_ring_buffer := fst (rb_push Q parsed_tx (ms_ring_buffer s))\<rparr>)
       | Inl e \<Rightarrow> Ret s)"

subsection \<open>Polling\<close>

fun poll_each ::
    "('w, 'v) mempool_env \<Rightarrow> ('q, ParsedTransaction) queue_ops \<Rightarrow> 'v list \<Rightarrow> nat \<Rightarrow>
     ('w, 'q) MempoolService \<Rightarrow> (('w, 'q) MempoolService \<times> nat) run" where
  "poll_each E Q [] new_tx_count s = Ret (s, new_tx_count)"
| "poll_each E Q (tx # rest) new_tx_count s =
     (case js_field_str (me_json E) ''hash'' tx of
        None \<Rightarrow> poll_each E Q rest new_tx_count s
      | Some hash \<Rightarrow>
          if hash \<in> set (ms_seen_txs s) then poll_each E Q rest new_tx_count s
          else run_bind (process_transaction E Q tx (s\<lparr>ms_seen_txs := ms_seen_txs s @ [hash]\<rparr>))
                 (\<lambda>s. poll_each E Q rest (new_tx_count + 1) s))"

text \<open>\<open>seen_txs.iter().take(len - 10000)\<close> are the first entries in the order of the set.\<close>

definition forget_seen :: "('w, 'v) mempool_env \<Rightarrow> ('w, 'q) MempoolService \<Rightarrow> ('w, 'q) MempoolService" where
  "forget_seen E s =
     (let seen = ms_seen_txs s
      in if 10000 < length seen then
           let to_remove = take (length seen - 10000) (me_order E seen)
           in s\<lparr>ms_seen_txs := filter (\<lambda>h. h \<notin> set to_remove) seen\<rparr>
         else s)"

text \<open>The list of pending transactions in a response.\<close>

definition pending_block :: "'v json_ops \<Rightarrow> string \<Rightarrow> mempool_error + 'v list" where
  "pending_block J response_text =
     (if response_text = '''' then Inl EmptyResponse
      else
        res_bind (ok_or BadResponse (js_from_str J response_text)) (\<lambda>response_json.
          if js_get J ''error'' response_json \<noteq> None then Inl RpcErrorResponse
          else
            res_bind (ok_or NoResult (js_get J ''result'' response_json)) (\<lambda>block.
              if js_is_null J block then Inl NullBlock
              else ok_or NoTransactions (Option.bind (js_get J ''transactions'' block) (js_array J)))))"

definition poll_pending_transactions ::
    "('w, 'v) mempool_env \<Rightarrow> ('q, ParsedTransaction) queue_ops \<Rightarrow> u64 \<Rightarrow> ('w, 'q) MempoolService \<Rightarrow>
     (('w, 'q) MempoolService \<times> (mempool_error + nat)) run" where
  "poll_pending_transactions E Q request_id s =
     (case me_post E (ms_rpc_url s) request_id (ms_world s) of
        (w, reply) \<Rightarrow>
          (let s = s\<lparr>ms_world := w\<rparr>
           in case reply of
                Inl e \<Rightarrow> Ret (s, Inl (HttpFailed e))
              | Inr response_text \<Rightarrow>
                  (case pending_block (me_json E) response_text of
                     Inl e \<Rightarrow> Ret (s, Inl e)
                   | Inr transactions \<Rightarrow>
                       run_bind (poll_each E Q transactions 0 s) (\<lambda>(s, n). Ret (forget_seen E s, Inr n)))))"

text \<open>The polling loop for a number of rounds; an error of one round is only logged.\<close>

fun polling_mode ::
    "('w, 'v) mempool_env \<Rightarrow> ('q, ParsedTransaction) queue_ops \<Rightarrow> nat \<Rightarrow> u64 \<Rightarrow> ('w, 'q) MempoolService \<Rightarrow>
     ('w, 'q) MempoolService run" where
  "polling_mode E Q 0 request_id s = Ret s"
| "polling_mode E Q (Suc n) request_id s =
     run_bind (poll_pending_transactions E Q request_id s) (\<lambda>(s, _).
       polling_mode E Q n (request_id + 1)
         (s\<lparr>ms_world := me_sleep E (millis (unat (ms_polling_interval_ms s))) (ms_world s)\<rparr>))"

definition start_polling_mode ::
    "('w, 'v) mempool_env \<Rightarrow> ('q, ParsedTransaction) queue_ops \<Rightarrow> nat \<Rightarrow> ('w, 'q) MempoolService \<Rightarrow>
     ('w, 'q) MempoolService run" where
  "start_polling_mode E Q rounds s = polling_mode E Q rounds 1 s"

subsection \<open>The subscription\<close>

text \<open>The identifiers of requests are counted by the client that the caller makes.\<close>

definition send_subscribe_request ::
    "('w, 'v) mempool_env \<Rightarrow> u64 \<Rightarrow> ('w, 'q) MempoolService \<Rightarrow>
     ('w, 'q) MempoolService \<times> (mempool_error + string)" where
  "send_subscribe_request E request_id s =
     (case me_ws_send E (SubscribeRequest request_id) (ms_world s) of
        (w, False) \<Rightarrow> (s\<lparr>ms_world := w\<rparr>, Inl SubscribeSendFailed)
      | (w, True) \<Rightarrow>
          (case me_ws_next_timeout E (ms_websocket_timeout_secs s) w of
             (w, r) \<Rightarrow>
               (s\<lparr>ms_world := w\<rparr>,
                case r of
                  TimedOut \<Rightarrow> Inl SubscriptionTimeout
                | InTime None \<Rightarrow> Inl StreamEnded
                | InTime (Some (TextMessage text)) \<Rightarrow>
                    res_bind (ok_or BadResponse (js_from_str (me_json E) text)) (\<lambda>response.
                      case js_get (me_json E) ''result'' response of
                        Some result \<Rightarrow> ok_or InvalidSubscriptionId (js_str (me_json E) result)
                      | None \<Rightarrow>
                          if js_get (me_json E) ''error'' response \<noteq> None then Inl SubscriptionError
                          else Inl NoSubscriptionResponse)
                | InTime (Some CloseMessage) \<Rightarrow> Inl ClosedDuringSubscription
                | InTime (Some (WsError e)) \<Rightarrow> Inl (SubscriptionWsError e)
                | InTime (Some _) \<Rightarrow> Inl NoSubscriptionResponse)))"

definition parse_transaction_notification :: "'v json_ops \<Rightarrow> string \<Rightarrow> mempool_error + 'v option" where
  "parse_transaction_notification J message =
     res_bind (ok_or BadResponse (js_from_str J message)) (\<lambda>notification.
       Inr (if js_field_str J ''method'' notification = Some ''eth_subscription'' then
              Option.bind (js_get J ''params'' notification) (js_get J ''result'')
            else None))"

text \<open>The loop over the messages of the stream; \<open>None\<close>: still running after that many messages.\<close>

fun monitor_loop ::
    "('w, 'v) mempool_env \<Rightarrow> ('q, ParsedTransaction) queue_ops \<Rightarrow> nat \<Rightarrow> ('w, 'q) MempoolService \<Rightarrow>
     (('w, 'q) MempoolService \<times> (mempool_error + unit) option) run" where
  "monitor_loop E Q 0 s = Ret (s, None)"
| "monitor_loop E Q (Suc n) s =
     (case me_ws_next E (ms_world s) of
        (w, message) \<Rightarrow>
          (let s = s\<lparr>ms_world := w\<rparr>
           in case message of
                None \<Rightarrow> Ret (s, Some (Inl StreamEnded))
              | Some (TextMessage text) \<Rightarrow>
                  (case parse_transaction_notification (me_json E) text of
                     Inr (Some tx_data) \<Rightarrow>
                       run_bind (process_transaction E Q tx_data s) (\<lambda>s. monitor_loop E Q n s)
                   | _ \<Rightarrow> monitor_loop E Q n s)
              | Some CloseMessage \<Rightarrow> Ret (s, Some (Inl StreamEnded))
              | Some (PingMessage p) \<Rightarrow>
                  monitor_loop E Q n (s\<lparr>ms_world := fst (me_ws_send E (PongFrame p) w)\<rparr>)
              | Some (WsError e) \<Rightarrow> Ret (s, Some (Inl StreamEnded))
              | Some OtherMessage \<Rightarrow> monitor_loop E Q n s))"

definition run_mempool_monitor ::
    "('w, 'v) mempool_env \<Rightarrow> ('q, ParsedTransaction) queue_ops \<Rightarrow> nat \<Rightarrow> u64 \<Rightarrow> ('w, 'q) MempoolService \<Rightarrow>
     (('w, 'q) MempoolService \<times> (mempool_error + unit) option) run" where
  "run_mempool_monitor E Q n request_id s =
     (case me_connect E (ms_endpoint s) (ms_world s) of
        (w, False) \<Rightarrow> Ret (s\<lparr>ms_world := w\<rparr>, Some (Inl ConnectFailed))
      | (w, True) \<Rightarrow>
          (case send_subscribe_request E request_id (s\<lparr>ms_world := w\<rparr>) of
             (s, Inl e) \<Rightarrow> Ret (s, Some (Inl e))
           | (s, Inr subscription_id) \<Rightarrow> monitor_loop E Q n s))"

text \<open>The loop of the WebSocket mode for a number of connections; connecting takes no request identifier.\<close>

fun websocket_mode ::
    "('w, 'v) mempool_env \<Rightarrow> ('q, ParsedTransaction) queue_ops \<Rightarrow> nat \<Rightarrow> nat \<Rightarrow> u64 \<Rightarrow> ('w, 'q) MempoolService \<Rightarrow>
     ('w, 'q) MempoolService run" where
  "websocket_mode E Q n 0 request_id s = Ret s"
| "websocket_mode E Q n (Suc k) request_id s =
     run_bind (run_mempool_monitor E Q n request_id s) (\<lambda>(s, r).
       case r of
         None \<Rightarrow> Ret s
       | Some (Inr _) \<Rightarrow> websocket_mode E Q n k (request_id + 1) s
       | Some (Inl e) \<Rightarrow>
           websocket_mode E Q n k (if e = ConnectFailed then request_id else request_id + 1)
             (s\<lparr>ms_world := me_sleep E (secs 5) (ms_world s)\<rparr>))"

text \<open>
  \<open>start\<close> for at most \<open>n\<close> messages on a connection and \<open>rounds\<close> rounds of the loop that never ends: the
  state reached and whether \<open>start\<close> has returned.
\<close>

definition start ::
    "('w, 'v) mempool_env \<Rightarrow> ('q, ParsedTransaction) queue_ops \<Rightarrow> nat \<Rightarrow> nat \<Rightarrow> ('w, 'q) MempoolService \<Rightarrow>
     (('w, 'q) MempoolService \<times> bool) run" where
  "start E Q n rounds s =
     (case ms_mode s of
        Auto \<Rightarrow>
          run_bind (run_mempool_monitor E Q n 1 s) (\<lambda>(s, r).
            case r of
              None \<Rightarrow> Ret (s, False)
            | Some (Inr _) \<Rightarrow> Ret (s, True)
            | Some (Inl e) \<Rightarrow> run_bind (start_polling_mode E Q rounds s) (\<lambda>s. Ret (s, False)))
      | WebSocket \<Rightarrow> run_bind (websocket_mode E Q n rounds 1 s) (\<lambda>s. Ret (s, False))
      | Polling \<Rightarrow> run_bind (start_polling_mode E Q rounds s) (\<lambda>s. Ret (s, False)))"

end
