(* ===== verification/Service_Facts.thy ===== *)
theory Service_Facts
  imports Mempool_Service Buffer_Facts
begin

text \<open>
  What the mempool service does with a block of pending transactions, how long it remembers them, and
  when it returns.
\<close>

subsection \<open>Polling as a reference\<close>

text \<open>The transactions of a block whose hash is new, each hash once, in order.\<close>

fun fresh_transactions :: "'v json_ops \<Rightarrow> string list \<Rightarrow> 'v list \<Rightarrow> (string \<times> 'v) list" where
  "fresh_transactions J seen [] = []"
| "fresh_transactions J seen (tx # rest) =
     (case js_field_str J ''hash'' tx of
        None \<Rightarrow> fresh_transactions J seen rest
      | Some h \<Rightarrow> if h \<in> set seen then fresh_transactions J seen rest
                  else (h, tx) # fresh_transactions J (seen @ [h]) rest)"

fun process_all ::
    "('w, 'v) mempool_env \<Rightarrow> ('q, ParsedTransaction) queue_ops \<Rightarrow> 'v list \<Rightarrow> ('w, 'q) MempoolService \<Rightarrow>
     ('w, 'q) MempoolService run" where
  "process_all E Q [] s = Ret s"
| "process_all E Q (tx # rest) s = run_bind (process_transaction E Q tx s) (process_all E Q rest)"

text \<open>Processing touches the ring buffer only and reads nothing of the hashes.\<close>

lemma process_transaction_seen:
  "process_transaction E Q tx (s\<lparr>ms_seen_txs := seen\<rparr>) =
     run_bind (process_transaction E Q tx s) (\<lambda>s'. Ret (s'\<lparr>ms_seen_txs := seen\<rparr>))"
proof (cases "parse_transaction (me_json E) (me_decoder E) (me_clock E (ms_world s)) tx")
  case (Ret r)
  then show ?thesis
    by (cases r) (simp_all add: process_transaction_def)
qed (simp add: process_transaction_def)

lemma process_transaction_keeps:
  "process_transaction E Q tx s = Ret s' \<Longrightarrow> ms_seen_txs s' = ms_seen_txs s \<and> ms_world s' = ms_world s \<and> ms_mode s' = ms_mode s"
proof -
  assume run: "process_transaction E Q tx s = Ret s'"
  then obtain r where "parse_transaction (me_json E) (me_decoder E) (me_clock E (ms_world s)) tx = Ret r"
    by (auto simp: process_transaction_def run_bind_Ret_iff)
  with run show ?thesis
    by (cases r) (auto simp: process_transaction_def)
qed

lemma process_all_seen:
  "process_all E Q txs (s\<lparr>ms_seen_txs := seen\<rparr>) =
     run_bind (process_all E Q txs s) (\<lambda>s'. Ret (s'\<lparr>ms_seen_txs := seen\<rparr>))"
proof (induction txs arbitrary: s)
  case (Cons tx txs)
  then show ?case
    by (cases "process_transaction E Q tx s") (simp_all add: process_transaction_seen)
qed simp

lemma poll_each_eq:
  "poll_each E Q txs n s =
     (let fresh = fresh_transactions (me_json E) (ms_seen_txs s) txs
      in run_bind (process_all E Q (map snd fresh) s) (\<lambda>s'.
           Ret (s'\<lparr>ms_seen_txs := ms_seen_txs s @ map fst fresh\<rparr>, n + length fresh)))"
proof (induction txs arbitrary: n s)
  case (Cons tx txs)
  show ?case
  proof (cases "js_field_str (me_json E) ''hash'' tx")
    case None
    with Cons show ?thesis
      by simp
  next
    case (Some h)
    show ?thesis
    proof (cases "h \<in> set (ms_seen_txs s)")
      case True
      with Cons Some show ?thesis
        by simp
    next
      case False
      let ?seen = "ms_seen_txs s @ [h]"
      let ?fresh = "fresh_transactions (me_json E) ?seen txs"
      show ?thesis
      proof (cases "process_transaction E Q tx s")
        case Panic
        with Some False show ?thesis
          by (simp add: process_transaction_seen)
      next
        case (Ret s1)
        have "poll_each E Q txs (n + 1) (s1\<lparr>ms_seen_txs := ?seen\<rparr>)
            = run_bind (process_all E Q (map snd ?fresh) s1) (\<lambda>s'.
                Ret (s'\<lparr>ms_seen_txs := ?seen @ map fst ?fresh\<rparr>, n + 1 + length ?fresh))"
          by (subst Cons.IH) (cases "process_all E Q (map snd ?fresh) s1", simp_all add: process_all_seen Let_def)
        with Some False Ret show ?thesis
          by (simp add: process_transaction_seen)
      qed
    qed
  qed
qed simp

text \<open>The hashes of a block.\<close>

definition block_hashes :: "'v json_ops \<Rightarrow> 'v list \<Rightarrow> string set" where
  "block_hashes J txs = {h. \<exists>tx \<in> set txs. js_field_str J ''hash'' tx = Some h}"

lemma fresh_set: "set (map fst (fresh_transactions J seen txs)) = block_hashes J txs - set seen"
  by (induction J seen txs rule: fresh_transactions.induct)
     (auto simp: block_hashes_def split: option.splits)

lemma fresh_distinct: "distinct (map fst (fresh_transactions J seen txs))"
proof (induction J seen txs rule: fresh_transactions.induct)
  case (2 J seen tx rest)
  have "h \<notin> set (map fst (fresh_transactions J (seen @ [h]) rest))" for h
    by (simp only: fresh_set) simp
  with 2 show ?case
    by (auto split: option.split)
qed simp

lemma fresh_count: "length (fresh_transactions J seen txs) = card (block_hashes J txs - set seen)"
  using distinct_card [OF fresh_distinct [of J seen txs]] by (simp only: fresh_set length_map)

text \<open>C22: polling a block is the same as processing, in order, its transactions with hashes that are not
  remembered, each hash once, and nothing else: the reported number is the number of those hashes.\<close>

theorem poll_processes_fresh:
  "poll_each E Q txs 0 s =
     run_bind (process_all E Q (map snd (fresh_transactions (me_json E) (ms_seen_txs s) txs)) s) (\<lambda>s'.
       Ret (s'\<lparr>ms_seen_txs := ms_seen_txs s @ map fst (fresh_transactions (me_json E) (ms_seen_txs s) txs)\<rparr>,
            card (block_hashes (me_json E) txs - set (ms_seen_txs s))))"
  by (simp only: poll_each_eq Let_def fresh_count add_0)

subsection \<open>Forgetting\<close>

text \<open>Walking a set lists its elements, each once.\<close>

definition order_law :: "('w, 'v) mempool_env \<Rightarrow> bool" where
  "order_law E \<longleftrightarrow> (\<forall>xs. distinct xs \<longrightarrow> distinct (me_order E xs) \<and> set (me_order E xs) = set xs)"

lemma forget_seen_size:
  assumes "order_law E" and "distinct (ms_seen_txs s)"
  shows "distinct (ms_seen_txs (forget_seen E s)) \<and> set (ms_seen_txs (forget_seen E s)) \<subseteq> set (ms_seen_txs s)
    \<and> length (ms_seen_txs (forget_seen E s)) = min 10000 (length (ms_seen_txs s))"
proof (cases "10000 < length (ms_seen_txs s)")
  case True
  let ?seen = "ms_seen_txs s"
  let ?out = "take (length ?seen - 10000) (me_order E ?seen)"
  have order: "distinct (me_order E ?seen)" "set (me_order E ?seen) = set ?seen"
    using assms by (simp_all add: order_law_def)
  then have "length (me_order E ?seen) = length ?seen"
    using assms(2) by (metis distinct_card)
  then have out: "card (set ?out) = length ?seen - 10000" "set ?out \<subseteq> set ?seen"
    using order set_take_subset [of "length ?seen - 10000" "me_order E ?seen"]
    by (simp_all add: distinct_card)
  have "set (filter (\<lambda>h. h \<notin> set ?out) ?seen) = set ?seen - set ?out"
    by auto
  then have "length (filter (\<lambda>h. h \<notin> set ?out) ?seen) = card (set ?seen - set ?out)"
    using assms(2) by (metis distinct_card distinct_filter)
  also have "\<dots> = 10000"
    using out True assms(2) by (simp add: card_Diff_subset distinct_card)
  finally have "length (filter (\<lambda>h. h \<notin> set ?out) ?seen) = 10000" .
  moreover have "ms_seen_txs (forget_seen E s) = filter (\<lambda>h. h \<notin> set ?out) ?seen"
    using True by (simp add: forget_seen_def Let_def)
  ultimately show ?thesis
    using True assms(2) by auto
qed (use assms in \<open>simp add: forget_seen_def Let_def\<close>)

lemma process_all_keeps:
  "process_all E Q txs s = Ret s' \<Longrightarrow> ms_world s' = ms_world s \<and> ms_mode s' = ms_mode s"
proof (induction txs arbitrary: s)
  case (Cons tx txs)
  then show ?case
    using process_transaction_keeps by (fastforce simp: run_bind_Ret_iff)
qed simp

text \<open>A poll that gets a block, in terms of what is remembered.\<close>

lemma poll_block:
  assumes "me_post E (ms_rpc_url s) i (ms_world s) = (w, Inr text)"
    and "pending_block (me_json E) text = Inr txs"
    and "poll_pending_transactions E Q i s = Ret (s', r)"
    and "order_law E" and "distinct (ms_seen_txs s)"
  shows "r = Inr (card (block_hashes (me_json E) txs - set (ms_seen_txs s)))
    \<and> distinct (ms_seen_txs s')
    \<and> set (ms_seen_txs s') \<subseteq> set (ms_seen_txs s) \<union> block_hashes (me_json E) txs
    \<and> length (ms_seen_txs s') = min 10000 (card (set (ms_seen_txs s) \<union> block_hashes (me_json E) txs))"
proof -
  let ?s = "s\<lparr>ms_world := w\<rparr>"
  let ?fresh = "fresh_transactions (me_json E) (ms_seen_txs s) txs"
  let ?seen = "ms_seen_txs s @ map fst ?fresh"
  obtain s1 where s1: "process_all E Q (map snd ?fresh) ?s = Ret s1"
      "s' = forget_seen E (s1\<lparr>ms_seen_txs := ?seen\<rparr>)" "r = Inr (length ?fresh)"
    using assms(1-3) by (auto simp: poll_pending_transactions_def poll_each_eq Let_def run_bind_Ret_iff)
  have distinct: "distinct ?seen"
    using assms(5) fresh_distinct [of "me_json E" "ms_seen_txs s" txs]
    by (simp only: distinct_append fresh_set) blast
  have set: "set ?seen = set (ms_seen_txs s) \<union> block_hashes (me_json E) txs"
    by (simp only: set_append fresh_set) blast
  have "length ?seen = card (set (ms_seen_txs s) \<union> block_hashes (me_json E) txs)"
    using distinct_card [OF distinct] by (simp only: set)
  with forget_seen_size [OF assms(4), of "s1\<lparr>ms_seen_txs := ?seen\<rparr>"] distinct set s1(2,3) show ?thesis
    by (simp add: fresh_count)
qed

text \<open>a service that sees the same block of more than ten thousand pending transactions twice processes all
  of them, and then all but ten thousand once more, which ones depending on the walk of the set: the
  clean-up keeps that many hashes, not the latest ones.\<close>

theorem large_block_processed_again:
  assumes "order_law E" and "ms_seen_txs s = []"
    and "me_post E (ms_rpc_url s) i (ms_world s) = (w, Inr text)"
    and "pending_block (me_json E) text = Inr txs" and "10000 < card (block_hashes (me_json E) txs)"
    and "poll_pending_transactions E Q i s = Ret (s1, r1)"
    and "me_post E (ms_rpc_url s1) j (ms_world s1) = (w', Inr text)"
    and "poll_pending_transactions E Q j s1 = Ret (s2, r2)"
  shows "r1 = Inr (card (block_hashes (me_json E) txs))
    \<and> r2 = Inr (card (block_hashes (me_json E) txs) - 10000)"
proof -
  let ?H = "block_hashes (me_json E) txs"
  have 1: "r1 = Inr (card ?H)" "distinct (ms_seen_txs s1)" "set (ms_seen_txs s1) \<subseteq> ?H"
      "length (ms_seen_txs s1) = 10000"
    using poll_block [OF assms(3,4,6,1)] assms(2,5) by simp_all
  then have "card (?H - set (ms_seen_txs s1)) = card ?H - 10000"
    by (simp add: card_Diff_subset distinct_card)
  with 1 poll_block [OF assms(7,4,8,1)] show ?thesis
    by simp
qed

subsection \<open>Returning\<close>

lemma monitor_loop_never_ok: "monitor_loop E Q n s = Ret (s', r) \<Longrightarrow> r = None \<or> r = Some (Inl StreamEnded)"
proof (induction n arbitrary: s)
  case (Suc n)
  obtain w message where m: "me_ws_next E (ms_world s) = (w, message)"
    by fastforce
  with Suc show ?case
    by (auto simp: Let_def run_bind_Ret_iff split: option.splits ws_event.splits sum.splits)
qed simp

text \<open>\<open>start\<close> never returns, in any mode: the monitor ends with an error only, so the automatic mode never
  restarts it; after the first problem with the WebSocket, its loss after hours included, the service
  polls for ever.\<close>

theorem start_never_returns:
  assumes "start E Q n rounds s = Ret (s', returned)"
  shows "\<not> returned
    \<and> (ms_mode s = Auto \<longrightarrow>
        (\<exists>s1 r. run_mempool_monitor E Q n 1 s = Ret (s1, r)
           \<and> (case r of None \<Rightarrow> s' = s1
              | Some q \<Rightarrow> (\<exists>e. q = Inl e) \<and> start_polling_mode E Q rounds s1 = Ret s')))"
proof -
  have never: "r = None \<or> (\<exists>e. r = Some (Inl e))" if "run_mempool_monitor E Q n i s = Ret (s1, r)" for i s1 r
    using that monitor_loop_never_ok
    by (fastforce simp: run_mempool_monitor_def split: prod.splits bool.splits sum.splits)
  show ?thesis
  proof (cases "ms_mode s")
    case Auto
    with assms obtain s1 r where run: "run_mempool_monitor E Q n 1 s = Ret (s1, r)"
      by (auto simp: start_def run_bind_Ret_iff)
    from never [OF this] assms Auto run show ?thesis
      by (auto simp: start_def run_bind_Ret_iff)
  qed (use assms in \<open>auto simp: start_def run_bind_Ret_iff\<close>)
qed

subsection \<open>An instance\<close>

text \<open>A node that always answers with the same block; its transactions name no sender, so none is parsed.\<close>

definition hash_only :: "nat \<Rightarrow> demo_json" where
  "hash_only i = DObj [(''hash'', DStr (replicate i CHR ''a''))]"

definition block_txs :: "demo_json list" where
  "block_txs = map hash_only [0..<10001]"

definition block_json :: "demo_json json_ops" where
  "block_json = demo_json_ops\<lparr>js_from_str :=
     (\<lambda>_. Some (DObj [(''result'', DObj [(''transactions'', DArr block_txs)])]))\<rparr>"

definition block_env :: "(unit, demo_json) mempool_env" where
  "block_env =
     \<lparr>me_json = block_json, me_decoder = AbiDecoder_new,
      me_post = (\<lambda>url i w. (w, Inr ''{}'')),
      me_connect = (\<lambda>url w. (w, False)),
      me_ws_send = (\<lambda>f w. (w, False)),
      me_ws_next = (\<lambda>w. (w, None)),
      me_ws_next_timeout = (\<lambda>n w. (w, TimedOut)),
      me_clock = (\<lambda>w. \<lparr>pc_start = 0, pc_utc = 0, pc_stop = 0\<rparr>),
      me_sleep = (\<lambda>d w. w),
      me_order = (\<lambda>xs. xs)\<rparr>"

definition block_service :: "(unit, nat \<times> ParsedTransaction list) MempoolService" where
  "block_service =
     \<lparr>ms_world = (), ms_endpoint = [], ms_rpc_url = [], ms_mode = Auto, ms_polling_interval_ms = 300,
      ms_websocket_timeout_secs = 3,
      ms_ring_buffer = \<lparr>rb_queue = (10000, []), rb_capacity = 10000, rb_dropped_count = 0\<rparr>, ms_seen_txs = []\<rparr>"

lemma hash_only_not_processed: "process_transaction block_env Q (hash_only i) s = Ret s"
  by (simp add: process_transaction_def parse_transaction_def extract_transaction_fields_def block_env_def
      block_json_def js_field_str_def demo_json_ops_def hash_only_def)

lemma hash_only_none_processed: "set txs \<subseteq> range hash_only \<Longrightarrow> process_all block_env Q txs s = Ret s"
  by (induction txs) (auto simp: hash_only_not_processed)

lemma fresh_subset: "(h, tx) \<in> set (fresh_transactions J seen txs) \<Longrightarrow> tx \<in> set txs"
  by (induction J seen txs rule: fresh_transactions.induct) (auto split: option.splits if_splits)

lemma block_pending: "pending_block block_json ''{}'' = Inr block_txs"
  by (simp add: pending_block_def block_json_def demo_json_ops_def)

lemma block_size: "card (block_hashes block_json block_txs) = 10001"
proof -
  have "js_field_str block_json ''hash'' (hash_only i) = Some (replicate i CHR ''a'')" for i
    by (simp add: block_json_def js_field_str_def demo_json_ops_def hash_only_def)
  then have "block_hashes block_json block_txs = (\<lambda>i. replicate i CHR ''a'') ` {0..<10001}"
    by (auto simp: block_hashes_def block_txs_def simp del: upt_rec_numeral)
  moreover have "inj_on (\<lambda>i. replicate i CHR ''a'') {0..<10001::nat}"
    by (rule inj_onI) (metis length_replicate)
  ultimately show ?thesis
    by (simp add: card_image)
qed

lemma block_env_simps:
  "me_json block_env = block_json" "me_post block_env u i w = (w, Inr ''{}'')"
  by (simp_all add: block_env_def)

lemma block_poll: "\<exists>s' r. poll_pending_transactions block_env Q i s = Ret (s', r)"
proof -
  have "set (map snd (fresh_transactions block_json (ms_seen_txs s) block_txs)) \<subseteq> set block_txs"
    by (auto dest: fresh_subset)
  also have "\<dots> \<subseteq> range hash_only"
    by (auto simp: block_txs_def simp del: upt_rec_numeral)
  finally show ?thesis
    by (simp add: poll_pending_transactions_def block_env_simps block_pending poll_each_eq Let_def
        hash_only_none_processed del: set_map)
qed

theorem large_block_processed_again_witness:
  "\<exists>s1 s2. poll_pending_transactions block_env list_queue 1 block_service = Ret (s1, Inr 10001)
     \<and> poll_pending_transactions block_env list_queue 2 s1 = Ret (s2, Inr 1)"
proof -
  obtain s1 r1 where 1: "poll_pending_transactions block_env list_queue 1 block_service = Ret (s1, r1)"
    using block_poll by blast
  obtain s2 r2 where 2: "poll_pending_transactions block_env list_queue 2 s1 = Ret (s2, r2)"
    using block_poll by blast
  have "r1 = Inr (card (block_hashes (me_json block_env) block_txs))
      \<and> r2 = Inr (card (block_hashes (me_json block_env) block_txs) - 10000)"
    by (rule large_block_processed_again [OF _ _ _ _ _ 1 _ 2])
      (simp_all add: block_env_simps block_pending block_size order_law_def block_service_def,
        simp add: block_env_def)
  with 1 2 show ?thesis
    by (simp add: block_env_simps block_size)
qed

theorem start_never_returns_witness:
  "\<exists>s. start block_env list_queue 5 0 block_service = Ret (s, False)"
proof -
  have "start block_env list_queue 5 0 block_service \<noteq> Panic"
    by (simp add: start_def block_service_def run_mempool_monitor_def start_polling_mode_def
        block_env_def)
  then obtain s returned where run: "start block_env list_queue 5 0 block_service = Ret (s, returned)"
    by (cases "start block_env list_queue 5 0 block_service") auto
  with start_never_returns [OF run] show ?thesis
    by (cases returned) auto
qed

end
