(* ===== verification/Opportunity_Detector.thy ===== *)
theory Opportunity_Detector
  imports Rpc_Service
begin

text \<open>
  The opportunity detector of \<open>crates/mev-hyperliquid/src/opportunity_detector.rs\<close>. The wall clock in
  milliseconds is a call of the world, read once by the check, once by \<open>Opportunity::new\<close> and once by
  \<open>is_expired\<close>. The node is the \<open>provider\<close> of \<open>Rpc_Service\<close>, the service that the detector shares with
  the poller is passed along, and the opportunities sent to the outgoing channel are a list, the
  oldest first; a send to a closed channel is only logged.
\<close>

record OpportunityDetectorConfig =
  min_arbitrage_spread_bps :: u64
  max_market_data_age_ms :: u64
  verify_via_rpc :: bool

definition OpportunityDetectorConfig_default :: OpportunityDetectorConfig where
  "OpportunityDetectorConfig_default =
     \<lparr>min_arbitrage_spread_bps = 30, max_market_data_age_ms = 5000, verify_via_rpc = True\<rparr>"

record OpportunityDetector =
  od_config :: OpportunityDetectorConfig
  od_current_state :: BlockchainState
  od_market_prices :: "(string, f64) hash_map"
  od_order_books :: "(string, OrderBookData) hash_map"
  od_opportunity_tx :: "Opportunity list"

definition OpportunityDetector_new :: "OpportunityDetectorConfig \<Rightarrow> OpportunityDetector" where
  "OpportunityDetector_new config =
     \<lparr>od_config = config, od_current_state = BlockchainState_new 0 0, od_market_prices = hm_empty,
      od_order_books = hm_empty, od_opportunity_tx = []\<rparr>"

record ('w, 'p, 'raw) detector_env =
  de_provider :: "('w, 'p, 'raw) provider"
  de_now_ms :: "'w \<Rightarrow> 'w \<times> u64"

subsection \<open>Verification\<close>

text \<open>The opportunity is checked against the state that is polled now.\<close>

definition verify_arbitrage :: "address \<Rightarrow> BlockchainState \<Rightarrow> BlockchainState \<Rightarrow> bool" where
  "verify_arbitrage token seen current =
     (let block_diff = (if block_number current < block_number seen then 0
                        else block_number current - block_number seen)
      in if 5 < block_diff then False
         else case hm_get (token_prices current) token of
                Some on_chain_price \<Rightarrow> on_chain_price \<noteq> 0
              | None \<Rightarrow> True)"

definition verify_opportunity_via_rpc ::
  "('w, 'p, 'raw) detector_env \<Rightarrow> Opportunity \<Rightarrow> 'w HyperLiquidRpcService \<Rightarrow> 'w \<Rightarrow>
   ('w \<times> 'w HyperLiquidRpcService \<times> (rpc_error + bool)) run"
where
  "verify_opportunity_via_rpc D opp svc w =
     (let (w, now) = de_now_ms D w
      in if is_expired now opp then Ret (w, svc, Inr False)
         else case opportunity_type opp of
                Arbitrage buy_venue sell_venue token spread_bps \<Rightarrow>
                  run_bind (poll_blockchain_state (de_provider D) svc w) (\<lambda>(w, svc, r).
                    case r of
                      Inl e \<Rightarrow> Ret (w, svc, Inl e)
                    | Inr current \<Rightarrow>
                        Ret (w, svc, Inr (verify_arbitrage token (blockchain_state opp) current)))
              | Liquidation _ _ _ _ \<Rightarrow> Ret (w, svc, Inr False)
              | FrontRun _ _ _ \<Rightarrow> Ret (w, svc, Inr False))"

subsection \<open>Arbitrage\<close>

fun hl_price :: "MarketDataEvent \<Rightarrow> f64 option" where
  "hl_price (TradeEvent t) = Some (td_price t)"
| "hl_price (OrderBookEvent b) =
     (case (best_bid b, best_ask b) of
        (Some bid, Some ask) \<Rightarrow> Some (f64_div (f64_add bid ask) (Finite False 2))
      | _ \<Rightarrow> None)"

definition f64_is_zero :: "f64 \<Rightarrow> bool" where
  "f64_is_zero x \<longleftrightarrow> f64_eq x (Finite False 0)"

text \<open>\<open>((hl_price - prev_price).abs() / prev_price * 10000.0) as u64\<close>\<close>

definition spread_in_bps :: "f64 \<Rightarrow> f64 \<Rightarrow> u64" where
  "spread_in_bps price prev =
     f64_to_u64 (f64_mul (f64_div (f64_abs (f64_sub price prev)) prev) (Finite False 10000))"

definition profit_in_wei :: "u64 \<Rightarrow> u256" where
  "profit_in_wei bps = ucast (f64_to_u64 (f64_mul (f64_of_nat (unat bps)) (Finite False 1000)))"

definition venues :: "f64 \<Rightarrow> f64 \<Rightarrow> string \<times> string" where
  "venues price prev =
     (if f64_lt price prev then (''HyperLiquid'', ''External'') else (''External'', ''HyperLiquid''))"

definition arbitrage_opportunity ::
  "OpportunityDetector \<Rightarrow> MarketDataEvent \<Rightarrow> f64 \<Rightarrow> f64 \<Rightarrow> u64 \<Rightarrow> u64 \<Rightarrow> Opportunity"
where
  "arbitrage_opportunity d md price prev now detected =
     (let bps = spread_in_bps price prev;
          (buy_venue, sell_venue) = venues price prev
      in set_expiration (now + 10000)
           (Opportunity_new detected (Arbitrage buy_venue sell_venue 0 bps) (profit_in_wei bps) md
              (od_current_state d)))"

definition send_opportunity :: "Opportunity \<Rightarrow> OpportunityDetector \<Rightarrow> OpportunityDetector" where
  "send_opportunity opp d = d\<lparr>od_opportunity_tx := od_opportunity_tx d @ [opp]\<rparr>"

text \<open>
  What \<open>check_arbitrage_opportunity\<close> finds for an event: nothing, or the spread to the last traded price.
\<close>

definition arbitrage_found ::
  "OpportunityDetector \<Rightarrow> MarketDataEvent \<Rightarrow> u64 \<Rightarrow> (f64 \<times> f64) option"
where
  "arbitrage_found d md now =
     (let data_age = (if now < event_timestamp md then 0 else now - event_timestamp md)
      in if max_market_data_age_ms (od_config d) < data_age then None
         else case hl_price md of
                None \<Rightarrow> None
              | Some price \<Rightarrow>
                  (case hm_get (od_market_prices d) (event_coin md) of
                     None \<Rightarrow> None
                   | Some prev \<Rightarrow>
                       (if f64_is_zero prev \<or> f64_is_zero price then None
                        else if min_arbitrage_spread_bps (od_config d) \<le> spread_in_bps price prev
                             then Some (price, prev)
                             else None)))"

definition check_arbitrage_opportunity ::
  "('w, 'p, 'raw) detector_env \<Rightarrow> MarketDataEvent \<Rightarrow> OpportunityDetector \<Rightarrow>
   'w HyperLiquidRpcService \<Rightarrow> 'w \<Rightarrow> ('w \<times> 'w HyperLiquidRpcService \<times> OpportunityDetector) run"
where
  "check_arbitrage_opportunity D md d svc w =
     (let (w, now) = de_now_ms D w
      in case arbitrage_found d md now of
           None \<Rightarrow> Ret (w, svc, d)
         | Some (price, prev) \<Rightarrow>
             (let (w, detected) = de_now_ms D w;
                  opp = arbitrage_opportunity d md price prev now detected
              in if verify_via_rpc (od_config d)
                 then run_bind (verify_opportunity_via_rpc D opp svc w) (\<lambda>(w, svc, r).
                        case r of
                          Inr True \<Rightarrow> Ret (w, svc, send_opportunity (mark_verified opp) d)
                        | Inr False \<Rightarrow> Ret (w, svc, d)
                        | Inl e \<Rightarrow> Ret (w, svc, d))
                 else Ret (w, svc, send_opportunity opp d)))"

subsection \<open>Events\<close>

definition process_trade ::
  "('w, 'p, 'raw) detector_env \<Rightarrow> TradeData \<Rightarrow> OpportunityDetector \<Rightarrow>
   'w HyperLiquidRpcService \<Rightarrow> 'w \<Rightarrow> ('w \<times> 'w HyperLiquidRpcService \<times> OpportunityDetector) run"
where
  "process_trade D t d svc w =
     run_bind (check_arbitrage_opportunity D (TradeEvent t) d svc w) (\<lambda>(w, svc, d).
       Ret (w, svc, d\<lparr>od_market_prices := hm_insert (td_coin t) (td_price t) (od_market_prices d)\<rparr>))"

definition process_orderbook ::
  "('w, 'p, 'raw) detector_env \<Rightarrow> OrderBookData \<Rightarrow> OpportunityDetector \<Rightarrow>
   'w HyperLiquidRpcService \<Rightarrow> 'w \<Rightarrow> ('w \<times> 'w HyperLiquidRpcService \<times> OpportunityDetector) run"
where
  "process_orderbook D b d svc w =
     check_arbitrage_opportunity D (OrderBookEvent b)
       (d\<lparr>od_order_books := hm_insert (ob_coin b) b (od_order_books d)\<rparr>) svc w"

definition process_market_data ::
  "('w, 'p, 'raw) detector_env \<Rightarrow> MarketDataEvent \<Rightarrow> OpportunityDetector \<Rightarrow>
   'w HyperLiquidRpcService \<Rightarrow> 'w \<Rightarrow> ('w \<times> 'w HyperLiquidRpcService \<times> OpportunityDetector) run"
where
  "process_market_data D md d svc w =
     (case md of
        TradeEvent t \<Rightarrow> process_trade D t d svc w
      | OrderBookEvent b \<Rightarrow> process_orderbook D b d svc w)"

definition process_state_update :: "StateUpdateEvent \<Rightarrow> OpportunityDetector \<Rightarrow> OpportunityDetector" where
  "process_state_update update d =
     (let s = od_current_state d in
      case update of
        BlockNumber n \<Rightarrow> d\<lparr>od_current_state := s\<lparr>block_number := n\<rparr>\<rparr>
      | TokenPrice token price \<Rightarrow>
          d\<lparr>od_current_state := s\<lparr>token_prices := hm_insert token price (token_prices s)\<rparr>\<rparr>
      | ContractState a bytes \<Rightarrow>
          d\<lparr>od_current_state := s\<lparr>contract_states := hm_insert a bytes (contract_states s)\<rparr>\<rparr>
      | Balance _ _ \<Rightarrow> d
      | StateSnapshot state \<Rightarrow> d\<lparr>od_current_state := state\<rparr>
      | TransactionConfirmed _ _ _ _ \<Rightarrow> d
      | TransactionFailed _ _ \<Rightarrow> d)"

text \<open>
  The loop of \<open>start\<close> on the events of the two channels in the order \<open>select!\<close> takes them; it ends when
  both channels are closed.
\<close>

datatype detector_event = MarketData MarketDataEvent | StateUpdate StateUpdateEvent

fun detector_start ::
  "('w, 'p, 'raw) detector_env \<Rightarrow> detector_event list \<Rightarrow> OpportunityDetector \<Rightarrow>
   'w HyperLiquidRpcService \<Rightarrow> 'w \<Rightarrow> ('w \<times> 'w HyperLiquidRpcService \<times> OpportunityDetector) run"
where
  "detector_start D [] d svc w = Ret (w, svc, d)"
| "detector_start D (MarketData md # evs) d svc w =
     run_bind (process_market_data D md d svc w) (\<lambda>(w, svc, d). detector_start D evs d svc w)"
| "detector_start D (StateUpdate u # evs) d svc w =
     detector_start D evs (process_state_update u d) svc w"

end
