(* ===== verification/Detector_Facts.thy ===== *)
theory Detector_Facts
  imports Opportunity_Detector Hl_Parser Rpc_Facts
begin

text \<open>
  Properties of the opportunity detector: what a reported opportunity satisfies, when nothing is
  reported, what the verification looks at, and how far the computed spread is from the exact one.
\<close>

subsection \<open>One check\<close>

lemma arbitrage_found_Some:
  "arbitrage_found d md now = Some (price, prev) \<longleftrightarrow>
     (if now < event_timestamp md then 0 else now - event_timestamp md) \<le> max_market_data_age_ms (od_config d) \<and>
     hl_price md = Some price \<and> hm_get (od_market_prices d) (event_coin md) = Some prev \<and>
     \<not> f64_is_zero prev \<and> \<not> f64_is_zero price \<and>
     min_arbitrage_spread_bps (od_config d) \<le> spread_in_bps price prev"
  by (auto simp: arbitrage_found_def Let_def not_less split: option.split)

text \<open>
  \<open>opportunity_of D cfg md known state svc w opp\<close>: \<open>opp\<close> is the opportunity of the event \<open>md\<close> when the last trade of its coin
  had the price \<open>known\<close>, the cached state is \<open>state\<close> and the clock is read in the world \<open>w\<close>: the event
  is no older than the configured age, neither price is zero, the spread between the two prices is at least
  the configured minimum, the coin is bought where it is cheaper, the opportunity expires ten seconds after
  the reading, and where verification is configured the node has just confirmed it.
\<close>

definition opportunity_of ::
  "('w, 'p, 'raw) detector_env \<Rightarrow> OpportunityDetectorConfig \<Rightarrow> MarketDataEvent \<Rightarrow> f64 option \<Rightarrow> BlockchainState \<Rightarrow>
   'w HyperLiquidRpcService \<Rightarrow> 'w \<Rightarrow> Opportunity \<Rightarrow> bool" where
  "opportunity_of D cfg md known state svc w opp \<longleftrightarrow>
     (\<exists>w1 now w2 detected price prev bps.
        de_now_ms D w = (w1, now) \<and> de_now_ms D w1 = (w2, detected) \<and>
        hl_price md = Some price \<and> known = Some prev \<and>
        \<not> f64_eq price (Finite False 0) \<and> \<not> f64_eq prev (Finite False 0) \<and>
        (event_timestamp md \<le> now \<longrightarrow> now - event_timestamp md \<le> max_market_data_age_ms cfg) \<and>
        bps = f64_to_u64 (f64_mul (f64_div (f64_abs (f64_sub price prev)) prev) (Finite False 10000)) \<and>
        min_arbitrage_spread_bps cfg \<le> bps \<and>
        opp = \<lparr>opportunity_type =
                 (if f64_lt price prev
                  then Arbitrage ''HyperLiquid'' ''External'' 0 bps
                  else Arbitrage ''External'' ''HyperLiquid'' 0 bps),
               expected_profit = ucast (f64_to_u64 (f64_mul (f64_of_nat (unat bps)) (Finite False 1000))),
               market_data = md, blockchain_state = state,
               verified = verify_via_rpc cfg, detected_at = detected, expires_at = Some (now + 10000)\<rparr> \<and>
        (verify_via_rpc cfg \<longrightarrow>
           (\<exists>w3 svc3. verify_opportunity_via_rpc D (opp\<lparr>verified := False\<rparr>) svc w2 = Ret (w3, svc3, Inr True))))"

text \<open>A check changes nothing of the detector but the outgoing channel, and sends at most one opportunity.\<close>

lemma check_arbitrage_sends:
  assumes "check_arbitrage_opportunity D md d svc w = Ret (w', svc', d')"
  shows "\<exists>sent. d' = d\<lparr>od_opportunity_tx := od_opportunity_tx d @ sent\<rparr> \<and>
    (sent = [] \<or> (\<exists>opp. sent = [opp] \<and>
       opportunity_of D (od_config d) md (hm_get (od_market_prices d) (event_coin md)) (od_current_state d) svc w opp))"
proof -
  obtain w1 now where now: "de_now_ms D w = (w1, now)" by fastforce
  show ?thesis
  proof (cases "arbitrage_found d md now")
    case None
    with assms now show ?thesis
      by (auto simp: check_arbitrage_opportunity_def intro!: exI [of _ "[]"])
  next
    case (Some pp)
    then obtain price prev where found: "arbitrage_found d md now = Some (price, prev)"
      by (cases pp) simp
    note facts = found [unfolded arbitrage_found_Some]
    obtain w2 detected where detected: "de_now_ms D w1 = (w2, detected)" by fastforce
    let ?opp = "arbitrage_opportunity d md price prev now detected"
    have fresh: "event_timestamp md \<le> now \<longrightarrow> now - event_timestamp md \<le> max_market_data_age_ms (od_config d)"
      using facts by (auto simp: not_less split: if_splits)
    have sound: "opportunity_of D (od_config d) md (hm_get (od_market_prices d) (event_coin md)) (od_current_state d) svc w
        (?opp\<lparr>verified := verify_via_rpc (od_config d)\<rparr>)"
      if "verify_via_rpc (od_config d) \<longrightarrow> (\<exists>w3 svc3. verify_opportunity_via_rpc D ?opp svc w2 = Ret (w3, svc3, Inr True))"
      unfolding opportunity_of_def using facts fresh that now detected
      by (rule_tac exI [of _ w1], rule_tac exI [of _ now], rule_tac exI [of _ w2], rule_tac exI [of _ detected],
          rule_tac exI [of _ price], rule_tac exI [of _ prev],
          rule_tac exI [of _ "spread_in_bps price prev"])
        (cases "f64_lt price prev"; simp add: spread_in_bps_def profit_in_wei_def f64_is_zero_def arbitrage_opportunity_def Opportunity_new_def
          set_expiration_def venues_def Let_def)
    show ?thesis
    proof (cases "verify_via_rpc (od_config d)")
      case True
      with assms found obtain w3 svc3 r where verify: "verify_opportunity_via_rpc D ?opp svc w2 = Ret (w3, svc3, r)"
        by (cases "verify_opportunity_via_rpc D ?opp svc w2")
          (auto simp: check_arbitrage_opportunity_def now detected)
      with assms found True have "d' = (if r = Inr True then send_opportunity (mark_verified ?opp) d else d)"
        by (cases r) (auto simp: check_arbitrage_opportunity_def now detected split: bool.splits)
      with sound verify True show ?thesis
        by (cases "r = Inr True")
          (auto simp: send_opportunity_def mark_verified_def intro: exI [of _ "[]"])
    next
      case False
      have "?opp = ?opp\<lparr>verified := False\<rparr>"
        by (simp add: arbitrage_opportunity_def Opportunity_new_def set_expiration_def venues_def Let_def)
      with assms found sound False show ?thesis
        by (auto simp: check_arbitrage_opportunity_def now detected send_opportunity_def)
    qed
  qed
qed

subsection \<open>All events\<close>

text \<open>The price of the last trade of a coin among the events, or the price known before.\<close>

definition last_price :: "(string, f64) hash_map \<Rightarrow> detector_event list \<Rightarrow> string \<Rightarrow> f64 option" where
  "last_price prices evs coin =
     fold (\<lambda>ev p. case ev of MarketData (TradeEvent t) \<Rightarrow> if td_coin t = coin then Some (td_price t) else p | _ \<Rightarrow> p)
       evs (hm_get prices coin)"

lemma process_market_data_sends:
  assumes "process_market_data D md d svc w = Ret (w', svc', d')"
  shows "(\<exists>sent. od_opportunity_tx d' = od_opportunity_tx d @ sent \<and>
      (sent = [] \<or> (\<exists>opp. sent = [opp] \<and>
         opportunity_of D (od_config d) md (hm_get (od_market_prices d) (event_coin md)) (od_current_state d) svc w opp))) \<and>
    od_config d' = od_config d \<and>
    (\<forall>coin. hm_get (od_market_prices d') coin = last_price (od_market_prices d) [MarketData md] coin)"
proof (cases md)
  case (TradeEvent t)
  with assms obtain d1 where "check_arbitrage_opportunity D md d svc w = Ret (w', svc', d1)"
    and "d' = d1\<lparr>od_market_prices := hm_insert (td_coin t) (td_price t) (od_market_prices d1)\<rparr>"
    by (auto simp: process_market_data_def process_trade_def run_bind_Ret_iff)
  with check_arbitrage_sends [OF this(1)] TradeEvent show ?thesis
    by (auto simp: last_price_def)
next
  case (OrderBookEvent b)
  with assms have "check_arbitrage_opportunity D md
      (d\<lparr>od_order_books := hm_insert (ob_coin b) b (od_order_books d)\<rparr>) svc w = Ret (w', svc', d')"
    by (simp add: process_market_data_def process_orderbook_def)
  with check_arbitrage_sends [OF this] OrderBookEvent show ?thesis
    by (auto simp: last_price_def)
qed

lemma process_state_update_keeps [simp]:
  "od_opportunity_tx (process_state_update u d) = od_opportunity_tx d"
  "od_config (process_state_update u d) = od_config d"
  "od_market_prices (process_state_update u d) = od_market_prices d"
  by (auto simp: process_state_update_def Let_def split: StateUpdateEvent.split)

text \<open>The opportunity of the event at position \<open>i\<close>, which the detector reaches by the events before it.\<close>

definition reported_at ::
  "('w, 'p, 'raw) detector_env \<Rightarrow> detector_event list \<Rightarrow> OpportunityDetector \<Rightarrow> 'w HyperLiquidRpcService \<Rightarrow> 'w \<Rightarrow>
   nat \<Rightarrow> Opportunity \<Rightarrow> bool" where
  "reported_at D evs d svc w i opp \<longleftrightarrow> i < length evs \<and>
     (\<exists>md wi svci di. evs ! i = MarketData md \<and> detector_start D (take i evs) d svc w = Ret (wi, svci, di) \<and>
        opportunity_of D (od_config d) md (last_price (od_market_prices d) (take i evs) (event_coin md))
          (od_current_state di) svci wi opp)"

lemma reported_at_Cons:
  assumes "reported_at D evs d1 svc1 w1 i opp" and "od_config d1 = od_config d"
    and "\<And>coin. hm_get (od_market_prices d1) coin = last_price (od_market_prices d) [ev] coin"
    and "\<And>evs. detector_start D (ev # evs) d svc w = detector_start D evs d1 svc1 w1"
  shows "reported_at D (ev # evs) d svc w (Suc i) opp"
proof -
  have "last_price (od_market_prices d1) evs' coin = last_price (od_market_prices d) (ev # evs') coin" for evs' coin
    using assms(3) [of coin] by (simp add: last_price_def)
  with assms(1,2,4) show ?thesis
    by (simp add: reported_at_def)
qed

text \<open>What is reported of the remaining events is reported of all of them, one position later; the event that is
  processed first is reported at position zero.\<close>

lemma reported_after_event:
  assumes one: "process_market_data D md d svc w = Ret (w1, svc1, d1)"
    and sent: "sorted_wrt (<) positions" "list_all2 (reported_at D evs d1 svc1 w1) positions sent"
  shows "\<exists>sent1 positions. od_opportunity_tx d1 = od_opportunity_tx d @ sent1 \<and> sorted_wrt (<) positions \<and>
    list_all2 (reported_at D (MarketData md # evs) d svc w) positions (sent1 @ sent)"
proof -
  note first = process_market_data_sends [OF one]
  have later: "sorted_wrt (<) (map Suc positions)" "sorted_wrt (<) (0 # map Suc positions)"
    using sent(1) by (simp_all add: sorted_wrt_map)
  have "list_all2 (reported_at D (MarketData md # evs) d svc w) (map Suc positions) sent"
    using sent(2) first one by (auto simp: list_all2_map1 intro!: reported_at_Cons elim!: list_all2_mono)
  moreover have "reported_at D (MarketData md # evs) d svc w 0 opp"
    if "opportunity_of D (od_config d) md (hm_get (od_market_prices d) (event_coin md)) (od_current_state d) svc w opp" for opp
    using that by (simp add: reported_at_def last_price_def)
  moreover from first obtain sent1 where s1: "od_opportunity_tx d1 = od_opportunity_tx d @ sent1"
    "sent1 = [] \<or> (\<exists>opp. sent1 = [opp] \<and> opportunity_of D (od_config d) md
       (hm_get (od_market_prices d) (event_coin md)) (od_current_state d) svc w opp)"
    by blast
  ultimately have "\<exists>positions. sorted_wrt (<) positions \<and>
      list_all2 (reported_at D (MarketData md # evs) d svc w) positions (sent1 @ sent)"
    using later by (cases sent1) (auto intro: exI [of _ "map Suc positions"] exI [of _ "0 # map Suc positions"])
  with s1(1) show ?thesis
    by blast
qed

lemma reported_after_update:
  assumes "sorted_wrt (<) positions" and "list_all2 (reported_at D evs (process_state_update u d) svc w) positions sent"
  shows "sorted_wrt (<) (map Suc positions) \<and>
    list_all2 (reported_at D (StateUpdate u # evs) d svc w) (map Suc positions) sent"
proof
  show "sorted_wrt (<) (map Suc positions)"
    using assms(1) by (simp add: sorted_wrt_map)
  show "list_all2 (reported_at D (StateUpdate u # evs) d svc w) (map Suc positions) sent"
    using assms(2) by (auto simp: list_all2_map1 last_price_def intro!: reported_at_Cons elim!: list_all2_mono)
qed

text \<open>C16: whatever events the detector receives, what it sends are opportunities of market events, in the order of
  the events and at most one for each. An opportunity carries its event and the cached state, names as spread the one
  between the price of the event and the price of the last trade of the same coin before it, at least
  the configured minimum, buys at HyperLiquid exactly when the event's price is the lower, and expires ten seconds after a
  reading of the clock at which the event was no older than configured; it is marked verified exactly when verification is
  configured, and then the verification of this opportunity has returned true.\<close>

theorem reported_opportunities_sound:
  assumes "detector_start D evs d svc w = Ret (w', svc', d')"
  shows "\<exists>sent positions. od_opportunity_tx d' = od_opportunity_tx d @ sent \<and>
    sorted_wrt (<) positions \<and> list_all2 (reported_at D evs d svc w) positions sent"
  using assms
proof (induction evs arbitrary: d svc w)
  case Nil
  then show ?case by auto
next
  case (Cons ev evs)
  show ?case
  proof (cases ev)
    case (MarketData md)
    with Cons.prems obtain w1 svc1 d1 where one: "process_market_data D md d svc w = Ret (w1, svc1, d1)"
      and rest: "detector_start D evs d1 svc1 w1 = Ret (w', svc', d')"
      by (auto simp: run_bind_Ret_iff)
    from Cons.IH [OF rest] obtain sent positions where
      s: "od_opportunity_tx d' = od_opportunity_tx d1 @ sent" "sorted_wrt (<) positions"
        "list_all2 (reported_at D evs d1 svc1 w1) positions sent"
      by blast
    from reported_after_event [OF one s(2,3)] s(1) show ?thesis
      unfolding MarketData by (metis append.assoc)
  next
    case (StateUpdate u)
    with Cons.prems have "detector_start D evs (process_state_update u d) svc w = Ret (w', svc', d')"
      by simp
    from Cons.IH [OF this] obtain sent positions where
      s: "od_opportunity_tx d' = od_opportunity_tx d @ sent" "sorted_wrt (<) positions"
        "list_all2 (reported_at D evs (process_state_update u d) svc w) positions sent"
      by auto
    from s(1) reported_after_update [OF s(2,3)] show ?thesis
      unfolding StateUpdate by blast
  qed
qed

subsection \<open>When nothing is reported\<close>

lemma spread_same_price: "spread_in_bps x x = 0"
proof -
  have "f64_to_u64 (f64_mul (f64_div (f64_abs (f64_sub x x)) x) (Finite False 10000)) = 0"
    using f64_sub_self [of x]
    by (cases x) (auto simp: f64_to_u64_def f64_round_def)
  then show ?thesis
    by (simp add: spread_in_bps_def)
qed

text \<open>a trade at the last traded price, whatever the price is, is not reported and the node is not
  asked, provided the configured minimum is not zero.\<close>

theorem same_price_not_reported:
  assumes "hm_get (od_market_prices d) (td_coin t) = Some (td_price t)"
    and "0 < min_arbitrage_spread_bps (od_config d)"
  shows "process_market_data D (TradeEvent t) d svc w =
    Ret (fst (de_now_ms D w), svc,
         d\<lparr>od_market_prices := hm_insert (td_coin t) (td_price t) (od_market_prices d)\<rparr>)"
proof -
  obtain w1 now where now: "de_now_ms D w = (w1, now)" by fastforce
  have "arbitrage_found d (TradeEvent t) now = None"
    using assms by (auto simp: arbitrage_found_def spread_same_price Let_def)
  then show ?thesis
    by (simp add: process_market_data_def process_trade_def check_arbitrage_opportunity_def now)
qed

definition is_trade_event :: "detector_event \<Rightarrow> bool" where
  "is_trade_event ev = (case ev of MarketData (TradeEvent _) \<Rightarrow> True | _ \<Rightarrow> False)"

lemma no_baseline_not_found: "od_market_prices d = hm_empty \<Longrightarrow> arbitrage_found d md now = None"
  by (simp add: arbitrage_found_def hm_get_def hm_empty_def Let_def split: option.split)

text \<open>order books alone never make an opportunity: only trades set the price that a later price is
  compared with, so a detector that has seen no trade reports nothing and never asks the node, however far the
  books move.\<close>

theorem order_books_alone_report_nothing:
  assumes "od_market_prices d = hm_empty" and "filter is_trade_event evs = []"
    and "detector_start D evs d svc w = Ret (w', svc', d')"
  shows "od_opportunity_tx d' = od_opportunity_tx d \<and> svc' = svc"
  using assms
proof (induction evs arbitrary: d w)
  case (Cons ev evs)
  show ?case
  proof (cases ev)
    case (MarketData md)
    with Cons.prems(2) obtain b where md: "md = OrderBookEvent b"
      by (cases md) (auto simp: is_trade_event_def)
    let ?d = "d\<lparr>od_order_books := hm_insert (ob_coin b) b (od_order_books d)\<rparr>"
    obtain w1 now where now: "de_now_ms D w = (w1, now)" by fastforce
    have "process_market_data D md d svc w = Ret (w1, svc, ?d)"
      using no_baseline_not_found [of ?d] Cons.prems(1)
      by (simp add: md process_market_data_def process_orderbook_def check_arbitrage_opportunity_def now)
    with Cons.IH [of ?d w1] Cons.prems MarketData show ?thesis
      by (simp add: is_trade_event_def md)
  next
    case (StateUpdate u)
    with Cons.IH [of "process_state_update u d" w] Cons.prems show ?thesis
      by (simp add: is_trade_event_def)
  qed
qed simp

subsection \<open>Verification\<close>

lemma retry_loop_Reply:
  "retry_loop P timeout operation k backoff prior cb w = Ret (w', cb', Inr v) \<Longrightarrow>
     \<exists>w1. operation w1 = Ret (w', Reply v)"
proof (induction k arbitrary: backoff prior w)
  case (Suc k)
  from Suc.prems show ?case
    by (auto simp: run_bind_Ret_iff run_case_reply_Ret split: if_splits dest!: Suc.IH)
qed simp

lemma poll_state_prices:
  assumes "poll_blockchain_state P svc w = Ret (w', svc', Inr state)"
  shows "token_prices state = hm_empty"
proof -
  from assms obtain cb where "execute_with_retry P (timeout_secs svc) (poll_operation P svc) (circuit_breaker svc) w =
      Ret (w', cb, Inr state)"
    by (auto simp: poll_blockchain_state_def run_bind_Ret_iff)
  then obtain w1 where "poll_operation P svc w1 = Ret (w', Reply state)"
    by (auto simp: execute_with_retry_cases split: if_splits dest: retry_loop_Reply)
  from poll_operation_Reply [OF this] obtain n where "state = BlockchainState_new n (timestamp state)"
    by blast
  then have "token_prices state = token_prices (BlockchainState_new n (timestamp state))"
    by (rule arg_cong)
  then show ?thesis
    by (simp add: BlockchainState_new_def)
qed

text \<open>the verification never looks at a price: a poll returns a state without token prices, so an
  arbitrage that has not expired is verified exactly when the polled block is at most five ahead of the one seen
  at detection; with an error of the poll it is not verified.\<close>

theorem verification_checks_only_blocks:
  assumes "opportunity_type opp = Arbitrage buy sell token bps"
    and "\<not> is_expired (snd (de_now_ms D w)) opp"
    and "verify_opportunity_via_rpc D opp svc w = Ret (w', svc', r)"
  shows "\<exists>res. poll_blockchain_state (de_provider D) svc (fst (de_now_ms D w)) = Ret (w', svc', res) \<and>
    r = (case res of Inl e \<Rightarrow> Inl e
         | Inr current \<Rightarrow> Inr (unat (block_number current) \<le> unat (block_number (blockchain_state opp)) + 5))"
proof -
  obtain w1 now where now: "de_now_ms D w = (w1, now)" by fastforce
  have blocks: "verify_arbitrage token seen current \<longleftrightarrow> unat (block_number current) \<le> unat (block_number seen) + 5"
    if "token_prices current = hm_empty" for seen current
  proof (cases "block_number current < block_number seen")
    case True
    with that show ?thesis
      by (simp add: verify_arbitrage_def hm_get_def hm_empty_def word_less_nat_alt)
  next
    case False
    then have "unat (block_number current - block_number seen) = unat (block_number current) - unat (block_number seen)"
      by (simp add: unat_diff_le)
    with that False show ?thesis
      by (auto simp: verify_arbitrage_def hm_get_def hm_empty_def word_less_nat_alt)
  qed
  from assms now obtain w2 svc2 res where step: "poll_blockchain_state (de_provider D) svc w1 = Ret (w2, svc2, res)"
    by (cases "poll_blockchain_state (de_provider D) svc w1") (auto simp: verify_opportunity_via_rpc_def)
  with assms now have "w2 = w'" "svc2 = svc'" "r = (case res of Inl e \<Rightarrow> Inl e
      | Inr current \<Rightarrow> Inr (verify_arbitrage token (blockchain_state opp) current))"
    by (cases res; simp add: verify_opportunity_via_rpc_def)+
  with step poll_state_prices [of "de_provider D" svc w1] blocks now show ?thesis
    by (cases res) auto
qed

subsection \<open>The accuracy of the spread\<close>

text \<open>
  Three operations round: the difference, the quotient and the product. For prices of a sane magnitude
  each is wrong by at most one part in \<open>2 ^ 53\<close>.
\<close>

definition exact_spread :: "rat \<Rightarrow> rat \<Rightarrow> rat" where
  "exact_spread p q = \<bar>p - q\<bar> / q * 10000"

lemma close_bounds:
  assumes "\<bar>r - x\<bar> \<le> x * pow2 (- 53)" and "0 < x"
  shows "x / 2 \<le> r" and "r \<le> 2 * x"
proof -
  have "x * pow2 (- 53) \<le> x * (1 / 2)"
    using assms(2) by (intro mult_left_mono) (simp_all add: pow2_def)
  with assms show "x / 2 \<le> r" "r \<le> 2 * x"
    by linarith+
qed

text \<open>The relative errors of the three roundings add up.\<close>

lemma three_roundings:
  fixes u x r1 r2 r3 q :: rat
  assumes u: "0 \<le> u" "u \<le> 1 / 100" and x: "0 < x" and q: "0 < q"
    and 1: "\<bar>r1 - x * q / 10000\<bar> \<le> x * q / 10000 * u" and 2: "\<bar>r2 - r1 / q\<bar> \<le> r1 / q * u"
    and 3: "\<bar>r3 - r2 * 10000\<bar> \<le> r2 * 10000 * u"
  shows "\<bar>r3 - x\<bar> \<le> x * (4 * u)"
proof -
  let ?y = "r1 / q * 10000" and ?z = "r2 * 10000"
  have "\<bar>r1 - x * q / 10000\<bar> / q * 10000 \<le> x * q / 10000 * u / q * 10000"
    using 1 q by (intro mult_right_mono divide_right_mono) auto
  moreover have "\<bar>?y - x\<bar> = \<bar>r1 - x * q / 10000\<bar> / q * 10000"
  proof -
    have "?y - x = (r1 - x * q / 10000) / q * 10000"
      using q by (simp add: field_simps)
    then show ?thesis
      using q by (simp only: abs_mult abs_divide abs_of_pos [OF q] abs_numeral)
  qed
  ultimately have y: "\<bar>?y - x\<bar> \<le> x * u"
    using q by simp
  have "?z - ?y = (r2 - r1 / q) * 10000"
    by (simp add: left_diff_distrib)
  then have "\<bar>?z - ?y\<bar> = \<bar>r2 - r1 / q\<bar> * 10000"
    by (simp only: abs_mult abs_numeral)
  also have "\<dots> \<le> r1 / q * u * 10000"
    using 2 by (rule mult_right_mono) simp
  finally have z: "\<bar>?z - ?y\<bar> \<le> ?y * u"
    by (simp only: mult_ac)
  have yx: "?y \<le> x * (1 + u)"
    using y by (simp add: abs_le_iff distrib_left)
  then have "?y * u \<le> x * (1 + u) * u"
    using u(1) by (rule mult_right_mono)
  with z have z': "\<bar>?z - ?y\<bar> \<le> x * (1 + u) * u"
    by linarith
  then have zx: "?z \<le> x * (1 + u) * (1 + u)"
    using yx by (simp add: abs_le_iff distrib_left)
  then have "?z * u \<le> x * (1 + u) * (1 + u) * u"
    using u(1) by (rule mult_right_mono)
  with 3 have r: "\<bar>r3 - ?z\<bar> \<le> x * (1 + u) * (1 + u) * u"
    by linarith
  have "\<bar>r3 - x\<bar> \<le> x * (1 + u) * (1 + u) * u + x * (1 + u) * u + x * u"
    using r z' y by linarith
  also have "\<dots> = x * (u * (3 + 3 * u + u * u))"
    by (simp add: algebra_simps)
  also have "\<dots> \<le> x * (4 * u)"
  proof -
    have "u * u \<le> 1 / 100 * (1 / 100)"
      using u by (intro mult_mono) auto
    then have "3 + 3 * u + u * u \<le> 4"
      using u(2) by simp
    then have "u * (3 + 3 * u + u * u) \<le> u * 4"
      using u(1) by (rule mult_left_mono)
    then show ?thesis
      using x by (simp add: mult.commute)
  qed
  finally show ?thesis .
qed

lemma spread_rounding:
  assumes p: "pow2 (- 400) \<le> p" "p \<le> pow2 400" and q: "pow2 (- 400) \<le> q" "q \<le> pow2 400"
    and x: "1 / 2 \<le> exact_spread p q"
  shows "\<exists>y. spread_in_bps (Finite False p) (Finite False q) = f64_to_u64 (Finite False y) \<and>
    \<bar>y - exact_spread p q\<bar> \<le> exact_spread p q * pow2 (- 51)"
proof -
  let ?x = "exact_spread p q" and ?d = "\<bar>p - q\<bar>"
  have pos: "0 < p" "0 < q"
    using p q pow2_pos [of "- 400"] by linarith+
  have dx: "?d = ?x * q / 10000"
    using pos by (simp add: exact_spread_def)
  have "1 / 2 * pow2 (- 400) / 10000 \<le> ?x * q / 10000"
    using x q(1) by (intro divide_right_mono mult_mono) (auto simp: order_less_imp_le)
  moreover have "pow2 (- 415) \<le> 1 / 2 * pow2 (- 400) / 10000"
    by (simp add: pow2_def)
  ultimately have d_low: "pow2 (- 415) \<le> ?d"
    unfolding dx by linarith
  have d_high: "?d \<le> pow2 400"
    using p q pos by (simp add: abs_le_iff)
  have d_pos: "0 < ?d"
    using d_low pow2_pos [of "- 415"] by linarith
  have "pow2 (- 1022) \<le> pow2 (- 415)" "pow2 400 < pow2 1023"
    by (simp_all add: pow2_mono_iff pow2_strict_iff)
  then obtain r1 where r1: "f64_round (p < q) ?d = Finite (p < q) r1" "\<bar>r1 - ?d\<bar> \<le> ?d * pow2 (- 53)"
    using f64_round_error [of ?d "p < q"] d_low d_high by auto
  note b1 = close_bounds [OF r1(2) d_pos]
  let ?e = "r1 / q"
  have "?x / 20000 \<le> ?e"
    using b1(1) pos(2) by (simp add: dx field_simps)
  then have e_low: "pow2 (- 20) \<le> ?e"
    using x by (simp add: pow2_def)
  have "?e \<le> 2 * pow2 400 / pow2 (- 400)"
    using b1(2) d_high q(1) d_pos b1(1) by (intro frac_le) auto
  then have e_high: "?e \<le> pow2 801"
    by (simp add: pow2_def)
  have e_pos: "0 < ?e"
    using e_low pow2_pos [of "- 20"] by linarith
  have "pow2 (- 1022) \<le> pow2 (- 20)" "pow2 801 < pow2 1023"
    by (simp_all add: pow2_mono_iff pow2_strict_iff)
  then obtain r2 where r2: "f64_round False ?e = Finite False r2" "\<bar>r2 - ?e\<bar> \<le> ?e * pow2 (- 53)"
    using f64_round_error [of ?e False] e_low e_high by auto
  note b2 = close_bounds [OF r2(2) e_pos]
  let ?f = "r2 * 10000"
  have "pow2 (- 21) \<le> r2" "r2 \<le> pow2 802"
  proof -
    have "pow2 (- 21) = pow2 (- 20) / 2" "pow2 802 = 2 * pow2 801"
      by (simp_all add: pow2_def)
    moreover have "e / 2 \<le> r2 \<Longrightarrow> r2 \<le> 2 * e \<Longrightarrow> a \<le> e \<Longrightarrow> e \<le> b \<Longrightarrow> a / 2 \<le> r2 \<and> r2 \<le> 2 * b" for e a b :: rat
      by linarith
    ultimately show "pow2 (- 21) \<le> r2" "r2 \<le> pow2 802"
      using b2 e_low e_high by metis+
  qed
  then have "pow2 (- 1022) \<le> ?f" "?f < pow2 1023"
    by (simp_all add: pow2_def)
  then obtain r3 where r3: "f64_round False ?f = Finite False r3" "\<bar>r3 - ?f\<bar> \<le> ?f * pow2 (- 53)"
    using f64_round_error by blast
  have "signed False p + signed True q = p - q"
    by (simp add: signed_def)
  with d_pos have "f64_abs (f64_sub (Finite False p) (Finite False q)) = Finite False r1"
    using r1(1) by (simp add: f64_sub_def)
  with pos r2(1) r3(1) have "spread_in_bps (Finite False p) (Finite False q) = f64_to_u64 (Finite False r3)"
    by (simp add: spread_in_bps_def)
  moreover have "\<bar>r3 - ?x\<bar> \<le> ?x * (4 * pow2 (- 53))"
  proof (rule three_roundings [OF _ _ _ pos(2)])
    show "\<bar>r1 - ?x * q / 10000\<bar> \<le> ?x * q / 10000 * pow2 (- 53)"
      using r1(2) by (simp only: dx)
    show "\<bar>r2 - r1 / q\<bar> \<le> r1 / q * pow2 (- 53)" "\<bar>r3 - r2 * 10000\<bar> \<le> r2 * 10000 * pow2 (- 53)"
      by (fact r2(2) r3(2))+
  qed (use x in \<open>simp_all add: pow2_def\<close>)
  moreover have "4 * pow2 (- 53) = pow2 (- 51)"
    by (simp add: pow2_def)
  ultimately show ?thesis
    by auto
qed

text \<open>C17: for prices between \<open>2 ^ -400\<close> and \<open>2 ^ 400\<close> and a spread of at least half a basis point, the whole
  number of basis points the detector computes is right up to one part in \<open>2 ^ 51\<close> of the exact spread: it
  reaches \<open>b\<close> when the exact spread exceeds \<open>b\<close> by that margin, and only when the exact spread comes within
  that margin of \<open>b\<close>.\<close>

theorem spread_in_bps_accurate:
  assumes "pow2 (- 400) \<le> p \<and> p \<le> pow2 400" and "pow2 (- 400) \<le> q \<and> q \<le> pow2 400"
    and "1 / 2 \<le> exact_spread p q" and "0 < b" and "b < 2 ^ 64"
  shows "(of_nat b \<le> exact_spread p q * (1 - pow2 (- 51)) \<longrightarrow>
      b \<le> unat (spread_in_bps (Finite False p) (Finite False q))) \<and>
    (b \<le> unat (spread_in_bps (Finite False p) (Finite False q)) \<longrightarrow>
      of_nat b \<le> exact_spread p q * (1 + pow2 (- 51)))"
proof -
  from assms spread_rounding obtain y where
    bps: "spread_in_bps (Finite False p) (Finite False q) = f64_to_u64 (Finite False y)" and
    close: "\<bar>y - exact_spread p q\<bar> \<le> exact_spread p q * pow2 (- 51)"
    by blast
  have "unat (f64_to_u64 (Finite False y)) = min (nat \<lfloor>y\<rfloor>) (2 ^ 64 - 1)"
    by (simp add: f64_to_u64_def unat_word_of_nat)
  then have "b \<le> unat (f64_to_u64 (Finite False y)) \<longleftrightarrow> int b \<le> \<lfloor>y\<rfloor>"
    using assms(4,5) by linarith
  then have "b \<le> unat (f64_to_u64 (Finite False y)) \<longleftrightarrow> of_nat b \<le> y"
    by (simp add: le_floor_iff)
  moreover have "of_nat b \<le> exact_spread p q * (1 - pow2 (- 51)) \<Longrightarrow> of_nat b \<le> y"
    using close by (simp add: abs_le_iff right_diff_distrib)
  moreover have "of_nat b \<le> y \<Longrightarrow> of_nat b \<le> exact_spread p q * (1 + pow2 (- 51))"
    using close by (simp add: abs_le_iff distrib_left)
  ultimately show ?thesis
    by (auto simp: bps)
qed

subsection \<open>An infinite price\<close>

lemma spread_infinite:
  assumes "0 < q"
  shows "spread_in_bps (Infinity False) (Finite False q) = - 1"
proof -
  have "spread_in_bps (Infinity False) (Finite False q) = word_of_nat (2 ^ 64 - 1)"
    using assms by (simp add: spread_in_bps_def f64_sub_def f64_to_u64_def)
  then show ?thesis
    by simp
qed

lemma f64_round_max_u64: "f64_round False 18446744073709551615 = Finite False (2 ^ 64)"
proof -
  let ?q = "18446744073709551615 :: rat"
  have "floor_log2 ?q = 63"
    by (rule floor_log2_unique) (simp_all add: pow2_def)
  then have u: "pow2 (ulp_exponent ?q) = 2048"
    by (simp add: ulp_exponent_def pow2_def)
  have "\<lfloor>?q / 2048\<rfloor> = 2 ^ 53 - 1"
    by (rule floor_unique) simp_all
  then have "round_half_even (?q / 2048) = 2 ^ 53"
    by (simp add: round_half_even_def Let_def)
  then show ?thesis
    by (simp add: f64_round_def Let_def u)
qed

lemma profit_max: "profit_in_wei (- 1) = 2 ^ 64 - 1"
proof -
  have max: "unat (- 1 :: u64) = 2 ^ 64 - 1"
    by (simp add: unsigned_minus_1_eq_mask mask_eq_exp_minus_1)
  have "f64_round False (2 ^ 64 * 1000) = Finite False (2 ^ 64 * 1000)"
  proof (rule f64_round_exact [where m = 1000 and e = 64])
    show "(2 ^ 64 * 1000 :: rat) < 2 ^ 1024"
      by simp
  qed (simp_all add: pow2_def)
  then have "f64_mul (f64_of_nat (2 ^ 64 - 1)) (Finite False 1000) = Finite False (2 ^ 64 * 1000)"
    using f64_round_max_u64 by (simp add: f64_of_nat_def)
  then show ?thesis
    by (simp add: profit_in_wei_def max f64_to_u64_def)
qed

text \<open>after one trade at a positive finite price, a fresh trade at an infinite price, which the parser
  accepts, is reported, with the largest spread and a profit of \<open>2 ^ 64 - 1\<close> wei, whatever the
  configured minimum is.\<close>

theorem infinite_price_reported:
  assumes "hm_get (od_market_prices d) (td_coin t) = Some (Finite False q)" and "0 < q"
    and "td_price t = Infinity False" and "\<not> verify_via_rpc (od_config d)"
    and "snd (de_now_ms D w) = td_timestamp t"
  shows "\<exists>w' opp d'. process_market_data D (TradeEvent t) d svc w = Ret (w', svc, d') \<and>
    od_opportunity_tx d' = od_opportunity_tx d @ [opp] \<and>
    opportunity_type opp = Arbitrage ''External'' ''HyperLiquid'' 0 (- 1) \<and> expected_profit opp = 2 ^ 64 - 1"
proof -
  obtain w1 now where now: "de_now_ms D w = (w1, now)" by fastforce
  obtain w2 detected where detected: "de_now_ms D w1 = (w2, detected)" by fastforce
  let ?opp = "arbitrage_opportunity d (TradeEvent t) (Infinity False) (Finite False q) now detected"
  have "arbitrage_found d (TradeEvent t) now = Some (Infinity False, Finite False q)"
    using assms now by (auto simp: arbitrage_found_Some f64_is_zero_def signed_def spread_infinite)
  then have "process_market_data D (TradeEvent t) d svc w =
      Ret (w2, svc, (send_opportunity ?opp d)\<lparr>od_market_prices :=
        hm_insert (td_coin t) (td_price t) (od_market_prices (send_opportunity ?opp d))\<rparr>)"
    using assms(4) by (simp add: process_market_data_def process_trade_def check_arbitrage_opportunity_def
        now detected Let_def)
  then show ?thesis
    using assms(2)
    by (auto simp: send_opportunity_def arbitrage_opportunity_def venues_def spread_infinite profit_max
        Opportunity_new_def set_expiration_def Let_def)
qed

subsection \<open>Witnesses\<close>

text \<open>A clock that stands still at the time of the trades of \<open>json_trade\<close>, and a node that answers.\<close>

definition demo_detector_env :: "(Rpc_Facts.demo_world, unit, u256) detector_env" where
  "demo_detector_env = \<lparr>de_provider = lossy_node, de_now_ms = (\<lambda>w. (w, 1696348800000))\<rparr>"

definition unverified :: OpportunityDetectorConfig where
  "unverified = OpportunityDetectorConfig_default\<lparr>verify_via_rpc := False\<rparr>"

definition demo_trade :: "f64 \<Rightarrow> TradeData" where
  "demo_trade price =
     \<lparr>td_coin = ''BTC'', td_side = Buy, td_price = price, td_size = Finite False 1,
      td_timestamp = 1696348800000, td_trade_id = ''7''\<rparr>"

text \<open>A detector whose last traded price of the coin is one.\<close>

definition demo_detector :: OpportunityDetector where
  "demo_detector = (OpportunityDetector_new unverified)\<lparr>od_market_prices := [(''BTC'', Finite False 1)]\<rparr>"

lemmas demo_detector_defs =
  demo_detector_def OpportunityDetector_new_def unverified_def OpportunityDetectorConfig_default_def

lemma demo_infinite:
  "\<exists>w' opp d'. process_market_data demo_detector_env (TradeEvent (demo_trade (Infinity False))) demo_detector
      demo_service demo_start = Ret (w', demo_service, d') \<and>
    od_opportunity_tx d' = [opp] \<and> opportunity_type opp = Arbitrage ''External'' ''HyperLiquid'' 0 (- 1)"
proof -
  let ?md = "TradeEvent (demo_trade (Infinity False))"
  let ?opp = "arbitrage_opportunity demo_detector ?md (Infinity False) (Finite False 1) 1696348800000 1696348800000"
  have "arbitrage_found demo_detector ?md 1696348800000 = Some (Infinity False, Finite False 1)"
    by (simp add: arbitrage_found_Some demo_trade_def demo_detector_defs hm_get_def f64_is_zero_def signed_def
        spread_infinite)
  then have "process_market_data demo_detector_env ?md demo_detector demo_service demo_start =
      Ret (demo_start, demo_service, (send_opportunity ?opp demo_detector)\<lparr>od_market_prices :=
        hm_insert ''BTC'' (Infinity False) (od_market_prices (send_opportunity ?opp demo_detector))\<rparr>)"
    by (simp add: process_market_data_def process_trade_def check_arbitrage_opportunity_def Let_def
        demo_detector_env_def demo_trade_def demo_detector_defs)
  then show ?thesis
    by (simp add: send_opportunity_def arbitrage_opportunity_def venues_def spread_infinite
        Opportunity_new_def set_expiration_def Let_def demo_detector_defs)
qed

theorem reported_opportunities_sound_witness:
  "let evs = [StateUpdate (BlockNumber 7), MarketData (TradeEvent (demo_trade (Infinity False)))] in
   \<exists>w' d' i opp. detector_start demo_detector_env evs demo_detector demo_service demo_start = Ret (w', demo_service, d') \<and>
     od_opportunity_tx d' = [opp] \<and> reported_at demo_detector_env evs demo_detector demo_service demo_start i opp \<and>
     opportunity_type opp = Arbitrage ''External'' ''HyperLiquid'' 0 (- 1)"
proof -
  let ?md = "TradeEvent (demo_trade (Infinity False))"
  let ?evs = "[StateUpdate (BlockNumber 7), MarketData ?md]"
  let ?d = "process_state_update (BlockNumber 7) demo_detector"
  let ?opp = "arbitrage_opportunity ?d ?md (Infinity False) (Finite False 1) 1696348800000 1696348800000"
  have "arbitrage_found ?d ?md 1696348800000 = Some (Infinity False, Finite False 1)"
    by (simp add: arbitrage_found_Some demo_trade_def hm_get_def f64_is_zero_def signed_def spread_infinite)
      (simp add: demo_detector_defs)
  moreover have "od_opportunity_tx demo_detector = []" "\<not> verify_via_rpc (od_config demo_detector)"
    by (simp_all add: demo_detector_defs)
  ultimately obtain d' where run: "detector_start demo_detector_env ?evs demo_detector demo_service demo_start =
      Ret (demo_start, demo_service, d')" and sent: "od_opportunity_tx d' = [?opp]"
    by (simp add: process_market_data_def process_trade_def check_arbitrage_opportunity_def Let_def
        demo_detector_env_def demo_trade_def send_opportunity_def)
  have "opportunity_type ?opp = Arbitrage ''External'' ''HyperLiquid'' 0 (- 1)"
    by (simp add: arbitrage_opportunity_def venues_def spread_infinite Opportunity_new_def set_expiration_def Let_def)
  moreover from reported_opportunities_sound [OF run] sent obtain i where
    "reported_at demo_detector_env ?evs demo_detector demo_service demo_start i ?opp"
    by (auto simp: demo_detector_defs list_all2_Cons2)
  ultimately show ?thesis
    using run sent by (auto simp: Let_def)
qed

theorem same_price_not_reported_witness:
  "process_market_data demo_detector_env (TradeEvent (demo_trade (Finite False 1))) demo_detector demo_service demo_start =
     Ret (demo_start, demo_service, demo_detector)"
  using same_price_not_reported [of demo_detector "demo_trade (Finite False 1)" demo_detector_env demo_service demo_start]
  by (simp add: demo_detector_defs demo_trade_def demo_detector_env_def hm_get_def hm_insert_def)

theorem infinite_price_reported_witness:
  "\<exists>w' opp d'. process_market_data demo_detector_env (TradeEvent (demo_trade (Infinity False))) demo_detector
      demo_service demo_start = Ret (w', demo_service, d') \<and>
    od_opportunity_tx d' = [opp] \<and> expected_profit opp = 2 ^ 64 - 1"
  using infinite_price_reported [of demo_detector "demo_trade (Infinity False)" 1 demo_detector_env demo_start demo_service]
  by (auto simp: demo_detector_defs demo_trade_def demo_detector_env_def hm_get_def)

definition demo_book :: OrderBookData where
  "demo_book = \<lparr>ob_coin = ''BTC'', ob_bids = [\<lparr>lv_price = Finite False 1, lv_size = Finite False 1\<rparr>],
     ob_asks = [\<lparr>lv_price = Infinity False, lv_size = Finite False 1\<rparr>], ob_timestamp = 1696348800000\<rparr>"

theorem order_books_alone_report_nothing_witness:
  "\<exists>w' d'. detector_start demo_detector_env
       [MarketData (OrderBookEvent demo_book), StateUpdate (BlockNumber 7), MarketData (OrderBookEvent demo_book)]
       (OpportunityDetector_new unverified) demo_service demo_start = Ret (w', demo_service, d') \<and>
     od_opportunity_tx d' = []"
proof -
  let ?evs = "[MarketData (OrderBookEvent demo_book), StateUpdate (BlockNumber 7), MarketData (OrderBookEvent demo_book)]"
  let ?d = "OpportunityDetector_new unverified"
  have empty: "od_market_prices ?d = hm_empty" "filter is_trade_event ?evs = []"
    by (simp_all add: OpportunityDetector_new_def is_trade_event_def)
  have "\<exists>w' svc' d'. detector_start demo_detector_env ?evs ?d demo_service demo_start = Ret (w', svc', d')"
    by (simp add: process_market_data_def process_orderbook_def check_arbitrage_opportunity_def
        no_baseline_not_found demo_detector_env_def OpportunityDetector_new_def)
  then obtain w' svc' d' where run: "detector_start demo_detector_env ?evs ?d demo_service demo_start = Ret (w', svc', d')"
    by blast
  from order_books_alone_report_nothing [OF empty run] run show ?thesis
    by (simp add: OpportunityDetector_new_def)
qed

lemma demo_poll_operation:
  "poll_operation lossy_node demo_service demo_start =
     Ret (demo_start\<lparr>dw_events := [BlockNumber 7, StateSnapshot (BlockchainState_new 7 1700000000)]\<rparr>,
          Reply (BlockchainState_new 7 1700000000))"
  by (simp add: poll_operation_def lossy_node_def as_u64_def send_event_def demo_service_def demo_start_def Let_def)

lemma demo_poll:
  "\<exists>w' svc'. poll_blockchain_state lossy_node demo_service demo_start =
     Ret (w', svc', Inr (BlockchainState_new 7 1700000000))"
proof -
  have "execute_with_retry lossy_node 10 (poll_operation lossy_node demo_service) cb_new demo_start =
      retry_loop lossy_node 10 (poll_operation lossy_node demo_service) 3 100 None cb_new demo_start"
    by (rule execute_closed [OF demo_closed])
  also have "\<dots> = Ret (demo_start\<lparr>dw_events := [BlockNumber 7, StateSnapshot (BlockchainState_new 7 1700000000)]\<rparr>,
      record_success cb_new, Inr (BlockchainState_new 7 1700000000))"
    by (simp add: numeral_3_eq_3 demo_poll_operation)
  finally show ?thesis
    by (simp add: poll_blockchain_state_def demo_service_def)
qed

text \<open>An opportunity of block 1: the node is six blocks further.\<close>

definition demo_opportunity :: Opportunity where
  "demo_opportunity = Opportunity_new 0 (Arbitrage ''External'' ''HyperLiquid'' 0 50) 50000
     (TradeEvent (demo_trade (Finite False 1))) (BlockchainState_new 1 0)"

theorem verification_checks_only_blocks_witness:
  "\<exists>w' svc'. verify_opportunity_via_rpc demo_detector_env demo_opportunity demo_service demo_start =
     Ret (w', svc', Inr False)"
proof -
  from demo_poll obtain w1 svc1 where poll: "poll_blockchain_state lossy_node demo_service demo_start =
      Ret (w1, svc1, Inr (BlockchainState_new 7 1700000000))"
    by blast
  have "\<exists>r. verify_opportunity_via_rpc demo_detector_env demo_opportunity demo_service demo_start = Ret (w1, svc1, r)"
    using poll by (simp add: verify_opportunity_via_rpc_def demo_detector_env_def demo_opportunity_def
        Opportunity_new_def is_expired_def)
  then obtain r where run: "verify_opportunity_via_rpc demo_detector_env demo_opportunity demo_service demo_start =
      Ret (w1, svc1, r)"
    by blast
  have "opportunity_type demo_opportunity = Arbitrage ''External'' ''HyperLiquid'' 0 50"
    "\<not> is_expired (snd (de_now_ms demo_detector_env demo_start)) demo_opportunity"
    by (simp_all add: demo_opportunity_def Opportunity_new_def is_expired_def)
  from verification_checks_only_blocks [OF this run] poll have "r = Inr False"
    by (auto simp: demo_detector_env_def demo_opportunity_def Opportunity_new_def BlockchainState_new_def)
  with run show ?thesis
    by blast
qed

theorem spread_in_bps_accurate_witness:
  "100 \<le> unat (spread_in_bps (Finite False 103) (Finite False 100))"
proof -
  have "pow2 (- 400) \<le> 100" "103 \<le> pow2 400" "100 \<le> pow2 400" "pow2 (- 400) \<le> 103"
    by (simp_all add: pow2_def)
  with spread_in_bps_accurate [of 103 100 100] show ?thesis
    by (simp add: exact_spread_def pow2_def)
qed

end
