(* ===== verification/Trade_Adapter.thy ===== *)
theory Trade_Adapter
  imports Hl_Types
begin

text \<open>
  The adapter of \<open>crates/mev-hyperliquid/src/adapter.rs\<close>, from trades of the exchange to the events of the
  strategy engine. \<open>Address::from_str\<close> of the \<open>ethers\<close> crate is an argument. The metrics are left out.
\<close>

record SwapData =
  sd_dex :: string
  sd_token_in :: address
  sd_token_out :: address
  sd_amount_in :: u256
  sd_amount_out :: u256
  sd_price :: f64

record AdaptedTradeEvent =
  at_hash :: string
  at_from :: address
  at_to :: address
  at_value :: u256
  at_gas_price :: u256
  at_timestamp :: u64
  at_swap_data :: "SwapData option"

record TradeDataAdapter =
  ta_chain_id :: u64
  ta_token_mapping :: "(string, address) hash_map"
  ta_token_decimals :: "(string, u8) hash_map"

datatype adapter_error =
    InvalidAddress string
  | UnknownCoin string
  | UsdcNotConfigured
  | NegativeValue
  | ValueTooLarge

fun parse_mapping ::
  "(string \<Rightarrow> address option) \<Rightarrow> (string \<times> string) list \<Rightarrow> (string, address) hash_map \<Rightarrow>
   adapter_error + (string, address) hash_map"
where
  "parse_mapping from_str [] parsed = Inr parsed"
| "parse_mapping from_str ((coin, addr_str) # rest) parsed =
     res_bind (ok_or (InvalidAddress coin) (from_str addr_str)) (\<lambda>a.
       parse_mapping from_str rest (hm_insert coin a parsed))"

definition TradeDataAdapter_new ::
  "(string \<Rightarrow> address option) \<Rightarrow> u64 \<Rightarrow> (string, string) hash_map \<Rightarrow> adapter_error + TradeDataAdapter"
where
  "TradeDataAdapter_new from_str chain_id token_mapping =
     res_bind (parse_mapping from_str token_mapping hm_empty) (\<lambda>parsed.
       Inr \<lparr>ta_chain_id = chain_id, ta_token_mapping = parsed,
            ta_token_decimals = hm_insert ''USDT'' 6 (hm_insert ''USDC'' 6 hm_empty)\<rparr>)"

definition map_coin_to_address :: "TradeDataAdapter \<Rightarrow> string \<Rightarrow> address option" where
  "map_coin_to_address a c = hm_get (ta_token_mapping a) c"

definition get_token_decimals :: "TradeDataAdapter \<Rightarrow> string \<Rightarrow> u8" where
  "get_token_decimals a c = (case hm_get (ta_token_decimals a) c of Some n \<Rightarrow> n | None \<Rightarrow> 18)"

text \<open>\<open>10_f64.powi(n)\<close> as repeated multiplication; it is exact up to \<open>n = 22\<close>, and \<open>n\<close> is 6 or 18 here.\<close>

fun f64_powi10 :: "nat \<Rightarrow> f64" where
  "f64_powi10 0 = Finite False 1"
| "f64_powi10 (Suc n) = f64_mul (f64_powi10 n) (Finite False 10)"

text \<open>\<open>u128::MAX as f64\<close> rounds up to \<open>2 ^ 128\<close>.\<close>

definition u128_max_f64 :: f64 where
  "u128_max_f64 = f64_of_nat (2 ^ 128 - 1)"

definition float_to_u256 :: "f64 \<Rightarrow> u8 \<Rightarrow> adapter_error + u256" where
  "float_to_u256 value decimals =
     (if f64_lt value (Finite False 0) then Inl NegativeValue
      else let scaled_value = f64_mul value (f64_powi10 (unat decimals))
           in if f64_lt u128_max_f64 scaled_value then Inl ValueTooLarge
              else Inr (ucast (f64_to_u128 scaled_value)))"

definition calculate_swap_amounts :: "TradeDataAdapter \<Rightarrow> TradeData \<Rightarrow> adapter_error + (u256 \<times> u256)" where
  "calculate_swap_amounts a t =
     (let coin_decimals = get_token_decimals a (td_coin t);
          usdc_decimals = get_token_decimals a ''USDC'';
          usdc_value = f64_mul (td_price t) (td_size t)
      in case td_side t of
           Buy \<Rightarrow>
             res_bind (float_to_u256 usdc_value usdc_decimals) (\<lambda>amount_in.
             res_bind (float_to_u256 (td_size t) coin_decimals) (\<lambda>amount_out. Inr (amount_in, amount_out)))
         | Sell \<Rightarrow>
             res_bind (float_to_u256 (td_size t) coin_decimals) (\<lambda>amount_in.
             res_bind (float_to_u256 usdc_value usdc_decimals) (\<lambda>amount_out. Inr (amount_in, amount_out))))"

definition create_swap_data :: "TradeDataAdapter \<Rightarrow> TradeData \<Rightarrow> adapter_error + SwapData" where
  "create_swap_data a t =
     res_bind (ok_or (UnknownCoin (td_coin t)) (map_coin_to_address a (td_coin t))) (\<lambda>coin_address.
     res_bind (ok_or UsdcNotConfigured (map_coin_to_address a ''USDC'')) (\<lambda>usdc_address.
       let (token_in, token_out) = (case td_side t of
              Buy \<Rightarrow> (usdc_address, coin_address)
            | Sell \<Rightarrow> (coin_address, usdc_address))
       in res_bind (calculate_swap_amounts a t) (\<lambda>(amount_in, amount_out).
            Inr \<lparr>sd_dex = ''HyperLiquid'', sd_token_in = token_in, sd_token_out = token_out,
                 sd_amount_in = amount_in, sd_amount_out = amount_out, sd_price = td_price t\<rparr>)))"

definition adapt_trade ::
  "(string \<Rightarrow> address option) \<Rightarrow> TradeDataAdapter \<Rightarrow> TradeData \<Rightarrow> (adapter_error + AdaptedTradeEvent) run"
where
  "adapt_trade from_str a t =
     (case (from_str ''0x0000000000000000000000000000000000000001'',
            from_str ''0x0000000000000000000000000000000000000002'') of
        (Some exchange, Some counterparty) \<Rightarrow>
          Ret (res_bind (create_swap_data a t) (\<lambda>swap.
            Inr \<lparr>at_hash = ''hl_trade_'' @ td_trade_id t, at_from = exchange, at_to = counterparty,
                 at_value = 0, at_gas_price = 0, at_timestamp = td_timestamp t div 1000,
                 at_swap_data = Some swap\<rparr>))
      | _ \<Rightarrow> Panic)"

subsection \<open>Exact conversions\<close>

lemma f64_mul_exact:
  assumes "p * q = of_nat m * pow2 e" and "m < 2 ^ 53" and "0 \<le> e" and "p * q < 2 ^ 1024"
  shows "f64_mul (Finite False p) (Finite False q) = Finite False (p * q)"
  using f64_round_exact [OF assms(1,2) _ assms(4)] assms(3) by simp

text \<open>Powers of ten up to the largest token decimals in use are exact: \<open>10 ^ n\<close> is \<open>5 ^ n * 2 ^ n\<close>.\<close>

lemma f64_powi10_exact: "n \<le> 22 \<Longrightarrow> f64_powi10 n = Finite False (10 ^ n)"
proof (induction n)
  case (Suc n)
  have ten: "(10 ^ n * 10 :: rat) = of_nat (5 ^ Suc n) * pow2 (int (Suc n))"
  proof -
    have "(10 :: rat) ^ Suc n = (5 * 2) ^ Suc n"
      by simp
    also have "\<dots> = 5 ^ Suc n * 2 ^ Suc n"
      by (rule power_mult_distrib)
    finally show ?thesis
      by (simp only: pow2_int of_nat_power of_nat_numeral power_Suc2 [of 10 n, symmetric])
  qed
  have "(5 :: nat) ^ Suc n \<le> 5 ^ 22"
    using Suc.prems by (intro power_increasing) auto
  also have "\<dots> < 2 ^ 53"
    by simp
  finally have five: "(5 :: nat) ^ Suc n < 2 ^ 53" .
  have "(10 :: rat) ^ Suc n \<le> 10 ^ 22"
    using Suc.prems by (intro power_increasing) auto
  then have "(10 ^ n * 10 :: rat) < 2 ^ 1024"
    by (simp add: mult.commute)
  with ten five have "f64_mul (Finite False (10 ^ n)) (Finite False 10) = Finite False (10 ^ n * 10)"
    by (intro f64_mul_exact) auto
  with Suc show ?case
    by (simp add: mult.commute)
qed simp

lemma u128_max_f64_eq: "u128_max_f64 = Finite False (2 ^ 128)"
proof -
  have "floor_log2 (of_nat (2 ^ 128 - 1)) = 127"
    by (rule floor_log2_unique) (simp_all add: pow2_def)
  moreover have "\<lfloor>(of_nat (2 ^ 128 - 1) :: rat) / 2 ^ 75\<rfloor> = 2 ^ 53 - 1"
    by (rule floor_unique) simp_all
  ultimately show ?thesis
    by (simp add: u128_max_f64_def f64_of_nat_def f64_round_def ulp_exponent_def pow2_def
        round_half_even_def Let_def)
qed

text \<open>
  An amount that is a whole number of the smallest units of the token, with at most 53 significant bits, is
  converted exactly.
\<close>

lemma float_to_u256_exact:
  assumes amount: "q * 10 ^ unat d = of_nat n" and bits: "n = m * 2 ^ e" "m < 2 ^ 53"
    and n: "n < 2 ^ 128" and q: "0 \<le> q" and d: "unat d \<le> 22"
  shows "float_to_u256 (Finite False q) d = Inr (of_nat n)"
proof -
  have less: "(of_nat n :: rat) < of_nat (2 ^ 128)"
    using n by (simp only: of_nat_less_iff)
  have "f64_mul (Finite False q) (Finite False (10 ^ unat d)) = Finite False (q * 10 ^ unat d)"
  proof (rule f64_mul_exact)
    show "q * 10 ^ unat d = of_nat m * pow2 (int e)"
      using amount bits(1) by (simp add: pow2_int)
    have "(2 :: rat) ^ 128 < 2 ^ 1024"
      by simp
    then show "q * 10 ^ unat d < 2 ^ 1024"
      using less amount by simp
  qed (use bits(2) in simp_all)
  then have scaled: "f64_mul (Finite False q) (f64_powi10 (unat d)) = Finite False (of_nat n)"
    using d amount by (simp add: f64_powi10_exact)
  have max: "\<not> f64_lt u128_max_f64 (Finite False (of_nat n))"
    using less by (simp add: u128_max_f64_eq signed_def)
  have "unat (f64_to_u128 (Finite False (of_nat n))) = n"
    using n by (simp add: f64_to_u128_def unat_word_of_nat)
  then have "ucast (f64_to_u128 (Finite False (of_nat n))) = (of_nat n :: u256)"
    by (metis of_nat_unat)
  with scaled max q show ?thesis
    by (simp add: float_to_u256_def signed_def Let_def)
qed

text \<open>\<open>whole_units q d n\<close>: the amount \<open>q\<close> is \<open>n\<close> smallest units of a token with \<open>d\<close> decimals, and \<open>n\<close> has
  at most 53 significant bits.\<close>

definition whole_units :: "rat \<Rightarrow> u8 \<Rightarrow> nat \<Rightarrow> bool" where
  "whole_units q d n \<longleftrightarrow> 0 \<le> q \<and> unat d \<le> 22 \<and> q * 10 ^ unat d = of_nat n \<and> n < 2 ^ 128 \<and>
     (\<exists>m e. n = m * 2 ^ e \<and> m < 2 ^ 53)"

lemma whole_units_convert: "whole_units q d n \<Longrightarrow> float_to_u256 (Finite False q) d = Inr (of_nat n)"
  unfolding whole_units_def using float_to_u256_exact by blast

text \<open>a trade of whole units, whose value in USDC is exact, is adapted without loss: a buy gives USDC for
  the coin and a sell the coin for USDC, in the same amounts.\<close>

theorem swap_amounts_exact:
  assumes "map_coin_to_address a (td_coin t) = Some c" and "map_coin_to_address a ''USDC'' = Some u"
    and "td_price t = Finite False p" and "td_size t = Finite False s"
    and "f64_mul (Finite False p) (Finite False s) = Finite False (p * s)"
    and "whole_units (p * s) (get_token_decimals a ''USDC'') n"
    and "whole_units s (get_token_decimals a (td_coin t)) k"
  shows "\<exists>swap. create_swap_data a t = Inr swap \<and> sd_price swap = Finite False p \<and>
    (case td_side t of
       Buy \<Rightarrow> (sd_token_in swap, sd_amount_in swap, sd_token_out swap, sd_amount_out swap) = (u, of_nat n, c, of_nat k)
     | Sell \<Rightarrow> (sd_token_in swap, sd_amount_in swap, sd_token_out swap, sd_amount_out swap) = (c, of_nat k, u, of_nat n))"
  using assms
  by (cases "td_side t") (simp_all add: create_swap_data_def calculate_swap_amounts_def whole_units_convert)

text \<open>NaN, which the parser lets through, is adapted to swaps of nothing.\<close>

lemma nan_trade_swaps_nothing:
  assumes "td_price t = NaN" and "td_size t = NaN"
    and "map_coin_to_address a (td_coin t) = Some c" and "map_coin_to_address a ''USDC'' = Some u"
  shows "\<exists>swap. create_swap_data a t = Inr swap \<and> sd_amount_in swap = 0 \<and> sd_amount_out swap = 0"
  using assms
  by (cases "td_side t")
    (simp_all add: create_swap_data_def calculate_swap_amounts_def float_to_u256_def f64_to_u128_def
      u128_max_f64_eq Let_def)

text \<open>The bound of the conversion is the rounded \<open>u128::MAX\<close>: \<open>2 ^ 128\<close> itself is let through and becomes
  \<open>2 ^ 128 - 1\<close>.\<close>

lemma conversion_bound_saturates: "float_to_u256 (Finite False (2 ^ 128)) 0 = Inr (2 ^ 128 - 1)"
proof -
  have "f64_mul (Finite False (2 ^ 128)) (Finite False 1) = Finite False (2 ^ 128 * 1)"
    by (rule f64_mul_exact [where m = 1 and e = 128]) (simp_all add: pow2_def)
  then show ?thesis
    by (simp add: float_to_u256_def f64_to_u128_def u128_max_f64_eq signed_def Let_def)
qed

definition demo_adapter :: TradeDataAdapter where
  "demo_adapter = \<lparr>ta_chain_id = 1, ta_token_mapping = [(''BTC'', 11), (''USDC'', 12)],
     ta_token_decimals = [(''USDT'', 6), (''USDC'', 6)]\<rparr>"

definition demo_sell :: TradeData where
  "demo_sell = \<lparr>td_coin = ''BTC'', td_side = Sell, td_price = Finite False 45000, td_size = Finite False (1 / 2),
     td_timestamp = 1696348800000, td_trade_id = ''7''\<rparr>"

theorem swap_amounts_exact_witness:
  "\<exists>swap. create_swap_data demo_adapter demo_sell = Inr swap \<and> sd_amount_in swap = 500000000000000000 \<and>
     sd_amount_out swap = 22500000000 \<and> sd_token_in swap = 11"
proof -
  have product: "f64_mul (Finite False 45000) (Finite False (1 / 2)) = Finite False (45000 * (1 / 2))"
    by (rule f64_mul_exact [where m = 22500 and e = 0]) (simp_all add: pow2_def)
  have n: "whole_units (45000 * (1 / 2)) 6 22500000000"
  proof -
    have "(22500000000 :: nat) = 22500000000 * 2 ^ 0 \<and> (22500000000 :: nat) < 2 ^ 53"
      by simp
    then have "\<exists>m e. (22500000000 :: nat) = m * 2 ^ e \<and> m < 2 ^ 53"
      by (intro exI)
    then show ?thesis
      by (simp add: whole_units_def)
  qed
  have k: "whole_units (1 / 2) 18 500000000000000000"
  proof -
    have "(500000000000000000 :: nat) = 3814697265625 * 2 ^ 17 \<and> (3814697265625 :: nat) < 2 ^ 53"
      by simp
    then have "\<exists>m e. (500000000000000000 :: nat) = m * 2 ^ e \<and> m < 2 ^ 53"
      by (intro exI)
    then show ?thesis
      by (simp add: whole_units_def)
  qed
  from swap_amounts_exact [of demo_adapter demo_sell 11 12 45000 "1 / 2" 22500000000 500000000000000000]
    product n k
  show ?thesis
    by (auto simp: demo_adapter_def demo_sell_def map_coin_to_address_def get_token_decimals_def hm_get_def)
qed

end
