(* ===== verification/Service_Manager.thy ===== *)
theory Service_Manager
  imports Ws_Config Rpc_Service
begin

text \<open>
  The service manager of \<open>crates/mev-hyperliquid/src/service_manager.rs\<close>, with the construction of the RPC
  service (\<open>src/rpc_service.rs\<close>) it uses: building the two services, forwarding messages, and the life
  cycle of the two background tasks. The tasks run beside the caller of \<open>stop\<close>; the whole is a step
  relation in which each step is one turn of one of them. The shutdown flag of the WebSocket service is
  part of the world, as in \<open>Ws_Service\<close>.
\<close>

subsection \<open>The RPC service is built\<close>

record RpcConfig =
  rpc_config_url :: string
  rpc_config_polling_ms :: u64
  rpc_config_timeout :: u64
  rpc_config_private_key :: "string option"

definition RpcConfig_new :: "string \<Rightarrow> u64 \<Rightarrow> RpcConfig" where
  "RpcConfig_new url polling =
     \<lparr>rpc_config_url = url, rpc_config_polling_ms = polling, rpc_config_timeout = 10, rpc_config_private_key = None\<rparr>"

definition with_timeout :: "u64 \<Rightarrow> RpcConfig \<Rightarrow> RpcConfig" where
  "with_timeout t c = c\<lparr>rpc_config_timeout := t\<rparr>"

definition with_private_key :: "string \<Rightarrow> RpcConfig \<Rightarrow> RpcConfig" where
  "with_private_key k c = c\<lparr>rpc_config_private_key := Some k\<rparr>"

text \<open>
  \<open>Provider::try_from\<close> and the parser of private keys belong to \<open>ethers\<close>: whether they accept their argument
  is a parameter. A rejected URL panics (\<open>expect\<close>), a rejected key leaves the service without a wallet.
\<close>

record ethers_parsers =
  url_ok :: "string \<Rightarrow> bool"
  key_ok :: "string \<Rightarrow> bool"

definition HyperLiquidRpcService_new ::
  "ethers_parsers \<Rightarrow> RpcConfig \<Rightarrow> (StateUpdateEvent \<Rightarrow> 'w \<Rightarrow> 'w) option \<Rightarrow> 'w HyperLiquidRpcService run"
where
  "HyperLiquidRpcService_new X c tx =
     (if \<not> url_ok X (rpc_config_url c) then Panic
      else Ret \<lparr>timeout_secs = rpc_config_timeout c, connected = False, state_tx = tx,
                has_wallet = (case rpc_config_private_key c of Some k \<Rightarrow> key_ok X k | None \<Rightarrow> False),
                circuit_breaker = cb_new\<rparr>)"

subsection \<open>The manager\<close>

datatype task = Running | Finished | Panicked

record 'w HyperLiquidServiceManager =
  sm_ws_service :: HyperLiquidWsService
  sm_rpc_service :: "'w HyperLiquidRpcService"
  sm_config :: HyperLiquidConfig
  sm_shutdown :: bool
  sm_ws_task :: "task option"
  sm_rpc_task :: "task option"
  sm_market_data_rx :: bool
  sm_state_update_rx :: bool

definition HyperLiquidServiceManager_new ::
  "ethers_parsers \<Rightarrow> (StateUpdateEvent \<Rightarrow> 'w \<Rightarrow> 'w) \<Rightarrow> instant \<Rightarrow> HyperLiquidConfig \<Rightarrow>
   (config_error + 'w HyperLiquidServiceManager) run"
where
  "HyperLiquidServiceManager_new X tx now c =
     (case validate c of
        Inl e \<Rightarrow> Ret (Inl e)
      | Inr _ \<Rightarrow>
          (case HyperLiquidWsService_new now c of
             Inl e \<Rightarrow> Ret (Inl e)
           | Inr ws \<Rightarrow>
               (let rpc_config = with_private_key (case private_key c of Some k \<Rightarrow> k | None \<Rightarrow> [])
                      (with_timeout 10 (RpcConfig_new (case rpc_url c of Some u \<Rightarrow> u | None \<Rightarrow> [])
                         (case polling_interval_ms c of Some p \<Rightarrow> p | None \<Rightarrow> 1000)))
                in run_bind (HyperLiquidRpcService_new X rpc_config (Some tx)) (\<lambda>rpc.
                     Ret (Inr \<lparr>sm_ws_service = ws, sm_rpc_service = rpc, sm_config = c, sm_shutdown = False,
                               sm_ws_task = None, sm_rpc_task = None, sm_market_data_rx = True,
                               sm_state_update_rx = True\<rparr>)))))"

text \<open>The task that turns messages of the WebSocket service into market data; it ends when a send fails.\<close>

definition market_event :: "HyperLiquidMessage \<Rightarrow> MarketDataEvent option" where
  "market_event m =
     (case msg_data m of
        Trade t \<Rightarrow> Some (TradeEvent t)
      | OrderBook b \<Rightarrow> Some (OrderBookEvent b)
      | SubscriptionResponseData _ \<Rightarrow> None
      | Error _ \<Rightarrow> None)"

fun process_ws_messages ::
  "(MarketDataEvent \<Rightarrow> 'w \<Rightarrow> 'w option) \<Rightarrow> HyperLiquidMessage list \<Rightarrow> 'w \<Rightarrow> 'w"
where
  "process_ws_messages market_data_tx [] w = w"
| "process_ws_messages market_data_tx (m # ms) w =
     (case market_event m of
        None \<Rightarrow> process_ws_messages market_data_tx ms w
      | Some ev \<Rightarrow>
          (case market_data_tx ev w of
             Some w' \<Rightarrow> process_ws_messages market_data_tx ms w'
           | None \<Rightarrow> w))"

definition manager_start ::
  "'w HyperLiquidServiceManager \<Rightarrow> 'w HyperLiquidServiceManager option"
where
  "manager_start m =
     (if sm_ws_task m \<noteq> None \<or> sm_rpc_task m \<noteq> None then None
      else Some (m\<lparr>sm_ws_task := Some Running, sm_rpc_task := Some Running\<rparr>))"

definition is_running :: "'w HyperLiquidServiceManager \<Rightarrow> bool" where
  "is_running m \<longleftrightarrow> sm_ws_task m \<noteq> None \<and> sm_rpc_task m \<noteq> None"

definition get_market_data_receiver ::
  "'w HyperLiquidServiceManager \<Rightarrow> 'w HyperLiquidServiceManager \<times> bool"
where
  "get_market_data_receiver m = (m\<lparr>sm_market_data_rx := False\<rparr>, sm_market_data_rx m)"

definition get_state_update_receiver ::
  "'w HyperLiquidServiceManager \<Rightarrow> 'w HyperLiquidServiceManager \<times> bool"
where
  "get_state_update_receiver m = (m\<lparr>sm_state_update_rx := False\<rparr>, sm_state_update_rx m)"

text \<open>One round of \<open>run_rpc_polling\<close>: the flag, the tick, the poll; errors are only counted.\<close>

definition rpc_polling_round ::
  "('w, 'p, 'raw) provider \<Rightarrow> 'w HyperLiquidServiceManager \<Rightarrow> 'w \<Rightarrow> 'w HyperLiquidServiceManager \<times> 'w"
where
  "rpc_polling_round P m w =
     (if sm_shutdown m then (m\<lparr>sm_rpc_task := Some Finished\<rparr>, w)
      else case poll_blockchain_state P (sm_rpc_service m) (interval_tick P w) of
             Ret (w, svc, _) \<Rightarrow> (m\<lparr>sm_rpc_service := svc\<rparr>, w)
           | Panic \<Rightarrow> (m\<lparr>sm_rpc_task := Some Panicked\<rparr>, w))"

subsection \<open>The running system\<close>

text \<open>
  Where a call of \<open>stop\<close> is: it sets the flag, waits for the polling task, then for the WebSocket task, and
  returns. The WebSocket task is \<open>ws_start\<close> of \<open>Ws_Service\<close>; a turn of it is any number of rounds and
  events.
\<close>

datatype stop_phase = NotStopping | WaitingForRpc | WaitingForWs | Stopped

type_synonym 'w system = "'w HyperLiquidServiceManager \<times> stop_phase \<times> 'w"

inductive manager_step ::
  "('w, 'v) ws_env \<Rightarrow> ('w, 'p, 'raw) provider \<Rightarrow> 'w system \<Rightarrow> 'w system \<Rightarrow> bool"
  for E :: "('w, 'v) ws_env" and P :: "('w, 'p, 'raw) provider"
where
  start_tasks: "manager_start m = Some m' \<Longrightarrow>
     manager_step E P (m, NotStopping, w) (m', NotStopping, w)"
| ws_turn: "sm_ws_task m = Some Running \<Longrightarrow> ws_start E fuel n (sm_ws_service m) w = (svc, w', returned) \<Longrightarrow>
     manager_step E P (m, ph, w)
       (m\<lparr>sm_ws_service := svc, sm_ws_task := Some (if returned then Finished else Running)\<rparr>, ph, w')"
| rpc_turn: "sm_rpc_task m = Some Running \<Longrightarrow> rpc_polling_round P m w = (m', w') \<Longrightarrow>
     manager_step E P (m, ph, w) (m', ph, w')"
| stop_called: "manager_step E P (m, NotStopping, w) (m\<lparr>sm_shutdown := True\<rparr>, WaitingForRpc, w)"
| rpc_joined: "sm_rpc_task m \<noteq> Some Running \<Longrightarrow>
     manager_step E P (m, WaitingForRpc, w) (m\<lparr>sm_rpc_task := None\<rparr>, WaitingForWs, w)"
| ws_joined: "sm_ws_task m \<noteq> Some Running \<Longrightarrow>
     manager_step E P (m, WaitingForWs, w) (m\<lparr>sm_ws_task := None\<rparr>, Stopped, w)"

inductive_cases manager_stepE: "manager_step E P s s'"

definition manager_reaches ::
  "('w, 'v) ws_env \<Rightarrow> ('w, 'p, 'raw) provider \<Rightarrow> 'w system \<Rightarrow> 'w system \<Rightarrow> bool"
where
  "manager_reaches E P = (manager_step E P)\<^sup>*\<^sup>*"

end
