(* ===== verification/Manager_Facts.thy ===== *)
theory Manager_Facts
  imports Service_Manager Ws_Facts Rpc_Facts
begin

text \<open>
  Properties of the service manager: how it is built, what its two tasks do, and that \<open>stop\<close> waits for a
  task nobody tells to end.
\<close>

subsection \<open>Construction\<close>

lemma ws_service_new_Inl: "HyperLiquidWsService_new now c = Inl e \<longleftrightarrow> validate c = Inl e"
  by (auto simp: HyperLiquidWsService_new_def Let_def split: sum.split)

definition manager_url :: "HyperLiquidConfig \<Rightarrow> string" where
  "manager_url c = (case rpc_url c of Some u \<Rightarrow> u | None \<Rightarrow> [])"

lemma manager_new_valid:
  assumes "validate c = Inr ()"
  shows "\<exists>ws. HyperLiquidWsService_new now c = Inr ws \<and>
    HyperLiquidServiceManager_new X tx now c =
      (if \<not> url_ok X (manager_url c) then Panic
       else Ret (Inr \<lparr>sm_ws_service = ws,
         sm_rpc_service = \<lparr>timeout_secs = 10, connected = False, state_tx = Some tx,
           has_wallet = key_ok X (case private_key c of Some k \<Rightarrow> k | None \<Rightarrow> []), circuit_breaker = cb_new\<rparr>,
         sm_config = c, sm_shutdown = False, sm_ws_task = None, sm_rpc_task = None, sm_market_data_rx = True,
         sm_state_update_rx = True\<rparr>))"
proof -
  obtain ws where "HyperLiquidWsService_new now c = Inr ws"
    using assms by (cases "HyperLiquidWsService_new now c") (auto simp: ws_service_new_Inl)
  with assms show ?thesis
    by (simp add: HyperLiquidServiceManager_new_def HyperLiquidRpcService_new_def RpcConfig_new_def
        with_timeout_def with_private_key_def manager_url_def Let_def)
qed

text \<open>building the manager reports exactly the errors of the validation, and panics exactly when a
  configuration that passes it has an RPC URL the provider rejects; a configuration without an RPC URL
  passes, and its URL is then the empty text.\<close>

theorem manager_new_outcome:
  "(HyperLiquidServiceManager_new X tx now c = Ret (Inl e) \<longleftrightarrow> validate c = Inl e) \<and>
   (HyperLiquidServiceManager_new X tx now c = Panic \<longleftrightarrow> validate c = Inr () \<and> \<not> url_ok X (manager_url c))"
proof (cases "validate c")
  case (Inl e')
  then show ?thesis
    by (simp add: HyperLiquidServiceManager_new_def)
next
  case (Inr u)
  with manager_new_valid [of c now X tx] show ?thesis
    by (auto split: if_splits)
qed

subsection \<open>Forwarding\<close>

definition market_events :: "HyperLiquidMessage list \<Rightarrow> MarketDataEvent list" where
  "market_events ms = concat (map (\<lambda>m. case market_event m of Some ev \<Rightarrow> [ev] | None \<Rightarrow> []) ms)"

text \<open>While the channel is open the trades and order books are forwarded in order, each once.\<close>

lemma forwarded_in_order:
  assumes "\<And>ev w. tx ev w = Some (push ev w)"
  shows "process_ws_messages tx ms w = fold push (market_events ms) w"
proof (induction ms arbitrary: w)
  case (Cons m ms)
  then show ?case
    by (cases "market_event m") (simp_all add: market_events_def assms)
qed (simp add: market_events_def)

text \<open>A message whose send fails ends the task: the later ones are not looked at.\<close>

lemma forwarding_stops:
  assumes "market_event m = Some ev" and "tx ev w = None"
  shows "process_ws_messages tx (m # ms) w = w"
  using assms by simp

subsection \<open>Stopping\<close>

text \<open>\<open>quiet_rpc P tx Q\<close>: every call of the polling task keeps \<open>Q\<close>.\<close>

definition quiet_rpc ::
  "('w, 'p, 'raw) provider \<Rightarrow> (StateUpdateEvent \<Rightarrow> 'w \<Rightarrow> 'w) \<Rightarrow> ('w \<Rightarrow> bool) \<Rightarrow> bool"
where
  "quiet_rpc P tx Q \<longleftrightarrow>
     (\<forall>w. Q w \<longrightarrow>
        (\<forall>d. Q (arm_timeout P d w) \<and> Q (sleep_for P d w)) \<and> Q (interval_tick P w) \<and>
        Q (fst (get_block_number P w)) \<and> (\<forall>n. Q (fst (get_block_timestamp P n w))) \<and>
        (\<forall>ev. Q (tx ev w)))"

lemma stays_poll_operation:
  assumes "quiet_rpc P tx Q" and "state_tx svc = Some tx" and "Q w"
  shows "stays Q (poll_operation P svc w)"
  unfolding poll_operation_def
  using assms
  by (auto intro!: stays_await stays_bind stays_Ret simp: quiet_rpc_def send_event_def Let_def split: option.split)

lemma poll_quiet:
  assumes Q: "quiet_rpc P tx Q" and tx: "state_tx svc = Some tx" and w: "Q w"
    and run: "poll_blockchain_state P svc w = Ret (w', svc', r)"
  shows "Q w' \<and> state_tx svc' = Some tx"
proof -
  have "stays Q (execute_with_retry P (timeout_secs svc) (poll_operation P svc) (circuit_breaker svc) w)"
    using Q w by (intro stays_execute_with_retry stays_poll_operation [OF Q tx]) (auto simp: quiet_rpc_def)
  with run tx show ?thesis
    by (auto simp: poll_blockchain_state_def run_bind_Ret_iff stays_def)
qed

lemma rpc_turn_quiet:
  assumes Q: "quiet_rpc P tx Q" and tx: "state_tx (sm_rpc_service m) = Some tx" and w: "Q w"
    and run: "rpc_polling_round P m w = (m', w')"
  shows "Q w' \<and> state_tx (sm_rpc_service m') = Some tx \<and> sm_ws_task m' = sm_ws_task m"
proof -
  have tick: "Q (interval_tick P w)"
    using Q w by (simp add: quiet_rpc_def)
  show ?thesis
    using run w tx poll_quiet [OF Q tx tick]
    by (auto simp: rpc_polling_round_def split: if_splits run.splits)
qed

text \<open>The state of a manager whose WebSocket task runs and is never told to end.\<close>

definition ws_running ::
  "('w, 'v) ws_env \<Rightarrow> (StateUpdateEvent \<Rightarrow> 'w \<Rightarrow> 'w) \<Rightarrow> 'w system \<Rightarrow> bool"
where
  "ws_running E tx = (\<lambda>(m, ph, w). sm_ws_task m = Some Running \<and> ph \<noteq> Stopped \<and>
     \<not> shutdown_requested E w \<and> state_tx (sm_rpc_service m) = Some tx)"

lemma ws_running_step:
  assumes ws: "quiet_ws E (\<lambda>w. \<not> shutdown_requested E w)" and rpc: "quiet_rpc P tx (\<lambda>w. \<not> shutdown_requested E w)"
    and step: "manager_step E P s s'" and inv: "ws_running E tx s"
  shows "ws_running E tx s'"
  using step inv
proof (cases rule: manager_step.cases)
  case (ws_turn m fuel n w svc w' returned ph)
  with inv have "\<not> shutdown_requested E w'"
    by (intro ws_start_quiet [OF ws _ ws_turn(4)]) (simp add: ws_running_def)
  moreover from this ws_turn(4) have "\<not> returned"
    using ws_start_returns [of E fuel n "sm_ws_service m" w svc w'] by auto
  ultimately show ?thesis
    using ws_turn inv by (simp add: ws_running_def)
next
  case (rpc_turn m w m' w' ph)
  with inv rpc_turn_quiet [OF rpc _ _ rpc_turn(4)] show ?thesis
    by (simp add: ws_running_def)
qed (auto simp: ws_running_def manager_start_def split: if_splits)

lemma ws_running_reaches:
  assumes "quiet_ws E (\<lambda>w. \<not> shutdown_requested E w)" and "quiet_rpc P tx (\<lambda>w. \<not> shutdown_requested E w)"
    and "ws_running E tx s" and "manager_reaches E P s s'"
  shows "ws_running E tx s'"
  using assms(4) [unfolded manager_reaches_def] assms(3)
  by (induction rule: rtranclp_induct) (auto dest: ws_running_step [OF assms(1,2)])

text \<open>C10: \<open>stop\<close> never returns unless somebody else stops the WebSocket service: it sets its own flag, which
  only the polling task reads, and then waits for the WebSocket task. In every system that started with both
  tasks and whose calls do not set the flag of the WebSocket service, that task is still running, whatever
  the exchange, the node and the tasks do.\<close>

theorem stop_never_returns:
  assumes "quiet_ws E (\<lambda>w. \<not> shutdown_requested E w)" and "quiet_rpc P tx (\<lambda>w. \<not> shutdown_requested E w)"
    and "manager_start m0 = Some m" and "state_tx (sm_rpc_service m0) = Some tx" and "\<not> shutdown_requested E w"
    and "manager_reaches E P (m, NotStopping, w) (m', ph, w')"
  shows "ph \<noteq> Stopped \<and> sm_ws_task m' = Some Running"
proof -
  have "ws_running E tx (m, NotStopping, w)"
    using assms(3-5) by (auto simp: ws_running_def manager_start_def split: if_splits)
  from ws_running_reaches [OF assms(1,2) this assms(6)] show ?thesis
    by (simp add: ws_running_def)
qed

text \<open>When the flag of the WebSocket service is set, \<open>stop\<close> can return.\<close>

lemma stop_returns_when_told:
  assumes "sm_ws_task m = Some Running" and "shutdown_requested E w"
  shows "\<exists>m'. manager_reaches E P (m, WaitingForWs, w) (m', Stopped, w)"
proof -
  let ?m1 = "m\<lparr>sm_ws_service := sm_ws_service m, sm_ws_task := Some Finished\<rparr>"
  have "ws_start E 0 0 (sm_ws_service m) w = (sm_ws_service m, w, True)"
    using assms(2) by simp
  from ws_turn [OF assms(1) this, of P WaitingForWs] have "manager_step E P (m, WaitingForWs, w) (?m1, WaitingForWs, w)"
    by simp
  moreover have "manager_step E P (?m1, WaitingForWs, w) (?m1\<lparr>sm_ws_task := None\<rparr>, Stopped, w)"
    by (rule ws_joined) simp
  ultimately show ?thesis
    unfolding manager_reaches_def by (meson converse_rtranclp_into_rtranclp r_into_rtranclp)
qed

subsection \<open>Polling\<close>

text \<open>unlike \<open>start_polling\<close>, the polling task of the manager asks the breaker in every round: an open
  breaker whose cooldown has passed is closed again by the first poll that the node answers.\<close>

theorem manager_polling_recovers:
  assumes "\<not> sm_shutdown m" and "get_state (circuit_breaker (sm_rpc_service m)) = Open"
    and "snd (should_allow_request (sys_secs P (interval_tick P w)) (circuit_breaker (sm_rpc_service m)))"
    and "\<And>v. \<exists>v' s. poll_operation P (sm_rpc_service m) v = Ret (v', Reply s)"
  shows "\<exists>m' w'. rpc_polling_round P m w = (m', w') \<and>
    get_state (circuit_breaker (sm_rpc_service m')) = Closed \<and> sm_rpc_task m' = sm_rpc_task m"
proof -
  let ?svc = "sm_rpc_service m" and ?w = "interval_tick P w"
  let ?cb = "fst (should_allow_request (sys_secs P ?w) (circuit_breaker ?svc))"
  from assms(4) obtain v' s where
    "poll_operation P ?svc (arm_timeout P (secs (unat (timeout_secs ?svc))) ?w) = Ret (v', Reply s)"
    by blast
  then have "retry_loop P (timeout_secs ?svc) (poll_operation P ?svc) 3 100 None ?cb ?w =
      Ret (v', record_success ?cb, Inr s)"
    by (simp add: numeral_3_eq_3)
  with assms(1,3) have "rpc_polling_round P m w =
      (m\<lparr>sm_rpc_service := ?svc\<lparr>circuit_breaker := record_success ?cb\<rparr>\<rparr>, v')"
    by (simp add: rpc_polling_round_def poll_blockchain_state_def execute_with_retry_cases)
  moreover have "get_state (record_success ?cb) = Closed"
  proof -
    have "get_state (cb\<lparr>cb_consecutive_failures := 0\<rparr>) = get_state cb" for cb
      by (simp add: get_state_def)
    moreover have "get_state (set_state Closed cb) = Closed" for cb
      by (simp add: get_state_def set_state_def)
    ultimately show ?thesis
      by (simp add: record_success_def split: CircuitBreakerState.split)
  qed
  ultimately show ?thesis
    by simp
qed

subsection \<open>Witnesses\<close>

text \<open>
  A system that stays connected: the exchange is silent, the node answers, and the flag of the WebSocket
  service, the world itself, is clear.
\<close>

definition silent_env :: "(bool, demo_json) ws_env" where
  "silent_env =
     \<lparr>channel_send = (\<lambda>m w. Some w), socket_connect = (\<lambda>w. (w, True)), socket_subscribe = (\<lambda>ty c w. (w, True)),
      socket_ping = (\<lambda>w. (w, True)), socket_close = (\<lambda>w. w), next_event = (\<lambda>w. (w, ShutdownTick)),
      read_clock = (\<lambda>w. (w, 0)), wait = (\<lambda>d w. w), shutdown_requested = (\<lambda>w. w), ws_json = demo_json_ops\<rparr>"

definition answering_node :: "(bool, unit, unit) provider" where
  "answering_node = \<lparr>
     sys_secs = (\<lambda>w. 1000), mono_now = (\<lambda>w. 0), sleep_for = (\<lambda>d w. w), arm_timeout = (\<lambda>d w. w),
     interval_tick = (\<lambda>w. w), get_chainid = (\<lambda>w. (w, Reply 998)), get_block_number = (\<lambda>w. (w, Reply 7)),
     get_block_timestamp = (\<lambda>n w. (w, Reply (Some 1700000000))), get_transaction_count = (\<lambda>w. (w, Reply 0)),
     estimate_gas = (\<lambda>tx w. (w, Reply 21000)), get_gas_price = (\<lambda>w. (w, Reply 5)),
     sign_transaction = (\<lambda>c tx. Inr ()), send_raw_transaction = (\<lambda>raw w. (w, Failed ''down'')),
     get_transaction_receipt = (\<lambda>h w. (w, Inr None))\<rparr>"

definition quiet_tx :: "StateUpdateEvent \<Rightarrow> bool \<Rightarrow> bool" where
  "quiet_tx ev w = w"

definition demo_manager :: "bool HyperLiquidServiceManager" where
  "demo_manager = \<lparr>sm_ws_service = demo_ws,
     sm_rpc_service = \<lparr>timeout_secs = 10, connected = False, state_tx = Some quiet_tx, has_wallet = False,
       circuit_breaker = set_state Open cb_new\<rparr>,
     sm_config = HyperLiquidConfig_default, sm_shutdown = False, sm_ws_task = None, sm_rpc_task = None,
     sm_market_data_rx = True, sm_state_update_rx = True\<rparr>"

lemma demo_quiet:
  "quiet_ws silent_env (\<lambda>w. \<not> shutdown_requested silent_env w)"
  "quiet_rpc answering_node quiet_tx (\<lambda>w. \<not> shutdown_requested silent_env w)"
  by (auto simp: quiet_ws_def only_sends_def silent_env_def quiet_rpc_def answering_node_def quiet_tx_def)

text \<open>The whole call of \<open>stop\<close>: the polling task ends and is joined, and the call waits for the other one.\<close>

theorem stop_never_returns_witness:
  "\<exists>m m'. manager_start demo_manager = Some m \<and>
     manager_reaches silent_env answering_node (m, NotStopping, False) (m', WaitingForWs, False) \<and>
     sm_rpc_task m' = None \<and> sm_ws_task m' = Some Running"
proof -
  let ?m = "demo_manager\<lparr>sm_ws_task := Some Running, sm_rpc_task := Some Running\<rparr>"
  let ?m1 = "?m\<lparr>sm_shutdown := True\<rparr>"
  let ?m2 = "?m1\<lparr>sm_rpc_task := Some Finished\<rparr>"
  let ?step = "manager_step silent_env answering_node"
  have start: "manager_start demo_manager = Some ?m"
    by (simp add: manager_start_def demo_manager_def)
  have "?step (?m, NotStopping, False) (?m1, WaitingForRpc, False)"
    by (rule stop_called)
  moreover have "?step (?m1, WaitingForRpc, False) (?m2, WaitingForRpc, False)"
    by (rule rpc_turn) (simp_all add: rpc_polling_round_def)
  moreover have "?step (?m2, WaitingForRpc, False) (?m2\<lparr>sm_rpc_task := None\<rparr>, WaitingForWs, False)"
    by (rule rpc_joined) simp
  ultimately have reach: "manager_reaches silent_env answering_node (?m, NotStopping, False)
      (?m2\<lparr>sm_rpc_task := None\<rparr>, WaitingForWs, False)"
    unfolding manager_reaches_def by (meson r_into_rtranclp rtranclp_trans)
  have "state_tx (sm_rpc_service demo_manager) = Some quiet_tx" "\<not> shutdown_requested silent_env False"
    by (simp_all add: demo_manager_def silent_env_def)
  from stop_never_returns [OF demo_quiet start this reach] start reach show ?thesis
    by (intro exI conjI) (assumption | simp)+
qed

theorem manager_polling_recovers_witness:
  "\<exists>m' w'. rpc_polling_round answering_node demo_manager False = (m', w') \<and>
     get_state (circuit_breaker (sm_rpc_service demo_manager)) = Open \<and>
     get_state (circuit_breaker (sm_rpc_service m')) = Closed"
proof -
  have open': "get_state (circuit_breaker (sm_rpc_service demo_manager)) = Open"
    by (simp add: demo_manager_def get_state_def set_state_def)
  have allowed: "snd (should_allow_request (sys_secs answering_node (interval_tick answering_node False))
      (circuit_breaker (sm_rpc_service demo_manager)))"
    by (simp add: should_allow_request_def demo_manager_def get_state_def set_state_def answering_node_def
        cb_new_def CIRCUIT_BREAKER_COOLDOWN_SECS_def)
  have "\<exists>v' s. poll_operation answering_node (sm_rpc_service demo_manager) v = Ret (v', Reply s)" for v
    by (simp add: poll_operation_def answering_node_def as_u64_def Let_def)
  with manager_polling_recovers [OF _ open' allowed] open' show ?thesis
    by (auto simp: demo_manager_def)
qed

end
