(* ===== verification/Health_Check.thy ===== *)
theory Health_Check
  imports Interfaces Hash_Map
begin

text \<open>
  The health checker of \<open>crates/mev-core/src/monitoring/health.rs\<close> with its four checks, and the
  endpoints of \<open>monitoring/mod.rs\<close> that report it. A check is a value of type \<open>'c\<close> with the methods
  of the trait in \<open>health_ops\<close>; what it meets is the world \<open>'w\<close>. One run of a check takes a time
  and gives its result, or \<open>None\<close> when the deadline of \<open>tokio::time::timeout\<close> comes first (a check that
  blocks its thread may answer after the deadline). Errors are their texts.
\<close>

datatype CheckStatus = CS_Healthy | CS_Warning | CS_Critical | CS_Unknown

record CheckResult =
  kr_status :: CheckStatus
  kr_message :: string
  kr_duration_ms :: u64
  kr_last_success :: "int option"
  kr_failure_count :: u32

record HealthStatus =
  hs_is_healthy :: bool
  hs_timestamp :: int
  hs_checks :: "(string, CheckResult) hash_map"
  hs_uptime_seconds :: u64
  hs_version :: string

record HealthConfig =
  hg_check_interval :: duration
  hg_timeout :: duration
  hg_max_failures :: u32
  hg_warning_threshold :: duration
  hg_critical_threshold :: duration

definition HealthConfig_default :: HealthConfig where
  "HealthConfig_default =
     \<lparr>hg_check_interval = secs 30, hg_timeout = secs 5, hg_max_failures = 3,
      hg_warning_threshold = secs 1, hg_critical_threshold = secs 5\<rparr>"

record ('c, 'w) health_ops =
  ho_check :: "'c \<Rightarrow> 'w \<Rightarrow> 'w \<times> duration \<times> (string + string) option"
  ho_name :: "'c \<Rightarrow> string"
  ho_is_critical :: "'c \<Rightarrow> bool"
  ho_utc_now :: "'w \<Rightarrow> int"

record 'c HealthChecker =
  hk_config :: HealthConfig
  hk_checks :: "(string, 'c) hash_map"
  hk_results :: "(string, CheckResult) hash_map"
  hk_start_time :: instant

definition HealthChecker_new :: "instant \<Rightarrow> HealthConfig \<Rightarrow> 'c HealthChecker" where
  "HealthChecker_new now config =
     \<lparr>hk_config = config, hk_checks = hm_empty, hk_results = hm_empty, hk_start_time = now\<rparr>"

definition not_yet_checked :: CheckResult where
  "not_yet_checked =
     \<lparr>kr_status = CS_Unknown, kr_message = ''Not yet checked'', kr_duration_ms = 0, kr_last_success = None,
      kr_failure_count = 0\<rparr>"

definition register_check :: "('c, 'w) health_ops \<Rightarrow> 'c \<Rightarrow> 'c HealthChecker \<Rightarrow> 'c HealthChecker" where
  "register_check V check h =
     (let name = ho_name V check
      in h\<lparr>hk_checks := hm_insert name check (hk_checks h),
           hk_results := hm_insert name not_yet_checked (hk_results h)\<rparr>)"

subsection \<open>Running the checks\<close>

definition as_millis :: "duration \<Rightarrow> u64" where
  "as_millis d = word_of_nat (d div 1000000)"

definition check_outcome ::
    "HealthConfig \<Rightarrow> bool \<Rightarrow> int \<Rightarrow> duration \<Rightarrow> (string + string) option \<Rightarrow> CheckResult \<Rightarrow> CheckResult" where
  "check_outcome config critical now duration result r =
     (case result of
        Some (Inr message) \<Rightarrow>
          r\<lparr>kr_status :=
              (if hg_critical_threshold config < duration then CS_Critical
               else if hg_warning_threshold config < duration then CS_Warning else CS_Healthy),
            kr_message := message, kr_duration_ms := as_millis duration, kr_last_success := Some now,
            kr_failure_count := 0\<rparr>
      | Some (Inl e) \<Rightarrow>
          r\<lparr>kr_status := (if critical then CS_Critical else CS_Warning),
            kr_message := ''Check failed: '' @ e, kr_duration_ms := as_millis duration,
            kr_failure_count := kr_failure_count r + 1\<rparr>
      | None \<Rightarrow>
          r\<lparr>kr_status := CS_Critical, kr_message := ''Check timed out'',
            kr_duration_ms := as_millis (hg_timeout config),
            kr_failure_count := kr_failure_count r + 1\<rparr>)"

definition run_single_check ::
    "('c, 'w) health_ops \<Rightarrow> string \<Rightarrow> 'c \<Rightarrow> 'c HealthChecker \<Rightarrow> 'w \<Rightarrow> ('c HealthChecker \<times> 'w) run" where
  "run_single_check V name check h w =
     (let (w, duration, result) = ho_check V check w
      in case hm_get (hk_results h) name of
           None \<Rightarrow> Panic
         | Some r \<Rightarrow>
             Ret (h\<lparr>hk_results :=
                      hm_insert name
                        (check_outcome (hk_config h) (ho_is_critical V check) (ho_utc_now V w) duration result r)
                        (hk_results h)\<rparr>, w))"

definition run_named_check ::
    "('c, 'w) health_ops \<Rightarrow> string \<Rightarrow> 'c HealthChecker \<Rightarrow> 'w \<Rightarrow> ('c HealthChecker \<times> 'w) run" where
  "run_named_check V name h w =
     (case hm_get (hk_checks h) name of
        Some check \<Rightarrow> run_single_check V name check h w
      | None \<Rightarrow> Ret (h, w))"

fun run_checks ::
    "('c, 'w) health_ops \<Rightarrow> string list \<Rightarrow> 'c HealthChecker \<Rightarrow> 'w \<Rightarrow> ('c HealthChecker \<times> 'w) run" where
  "run_checks V [] h w = Ret (h, w)"
| "run_checks V (name # names) h w =
     run_bind (run_named_check V name h w) (\<lambda>(h, w). run_checks V names h w)"

definition run_all_checks ::
    "('c, 'w) health_ops \<Rightarrow> 'c HealthChecker \<Rightarrow> 'w \<Rightarrow> ('c HealthChecker \<times> 'w) run" where
  "run_all_checks V h w = run_checks V (hm_keys (hk_checks h)) h w"

subsection \<open>The reports\<close>

definition all_healthy :: "'c HealthChecker \<Rightarrow> bool" where
  "all_healthy h =
     list_all (\<lambda>r. kr_status r = CS_Healthy \<or> kr_status r = CS_Warning) (hm_values (hk_results h))"

definition get_health_status :: "string \<Rightarrow> int \<Rightarrow> instant \<Rightarrow> 'c HealthChecker \<Rightarrow> HealthStatus" where
  "get_health_status version utc now h =
     \<lparr>hs_is_healthy = all_healthy h, hs_timestamp = utc, hs_checks = hk_results h,
      hs_uptime_seconds = word_of_nat (elapsed now (hk_start_time h) div 1000000000), hs_version = version\<rparr>"

definition is_ready :: "('c, 'w) health_ops \<Rightarrow> 'c HealthChecker \<Rightarrow> bool" where
  "is_ready V h =
     list_all
       (\<lambda>(name, check).
          ho_is_critical V check \<longrightarrow>
          (case hm_get (hk_results h) name of
             Some result \<Rightarrow> kr_status result \<noteq> CS_Critical
           | None \<Rightarrow> True))
       (hk_checks h)"

text \<open>The status codes of the endpoints \<open>/health\<close>, \<open>/ready\<close> and \<open>/live\<close>.\<close>

definition health_handler :: "string \<Rightarrow> int \<Rightarrow> instant \<Rightarrow> 'c HealthChecker \<Rightarrow> nat \<times> HealthStatus" where
  "health_handler version utc now h =
     (let health_status = get_health_status version utc now h
      in (if hs_is_healthy health_status then 200 else 503, health_status))"

definition readiness_handler :: "('c, 'w) health_ops \<Rightarrow> 'c HealthChecker \<Rightarrow> nat \<times> string" where
  "readiness_handler V h = (if is_ready V h then (200, ''ready'') else (503, ''not ready''))"

definition liveness_handler :: "nat \<times> string" where
  "liveness_handler = (200, ''alive'')"

subsection \<open>The checker at work\<close>

text \<open>
  Registrations, rounds and reports interleave: a round collects the names and gives the lock back
  before each check. The last component is what is left of the round.
\<close>

type_synonym ('c, 'w) health_system = "'c HealthChecker \<times> 'w \<times> string list"

inductive health_step ::
    "('c, 'w) health_ops \<Rightarrow> ('c, 'w) health_system \<Rightarrow> ('c, 'w) health_system \<Rightarrow> bool"
  for V :: "('c, 'w) health_ops"
where
  hs_register: "health_step V (h, w, names) (register_check V check h, w, names)"
| hs_tick: "health_step V (h, w, []) (h, w, hm_keys (hk_checks h))"
| hs_check: "run_named_check V name h w = Ret (h', w') \<Longrightarrow>
     health_step V (h, w, name # names) (h', w', names)"

inductive_cases health_stepE: "health_step V s s'"

definition health_reaches ::
    "('c, 'w) health_ops \<Rightarrow> ('c, 'w) health_system \<Rightarrow> ('c, 'w) health_system \<Rightarrow> bool" where
  "health_reaches V = (health_step V)\<^sup>*\<^sup>*"

subsection \<open>The four checks\<close>

datatype BuiltinCheck =
    RpcHealthCheck string string
  | DatabaseHealthCheck string string
  | MemoryHealthCheck string u64 u64
  | BundleSystemHealthCheck string

text \<open>
  What a node answers: no reply, or a status with its text and the body read as JSON. The query of
  the database gives an error or a number. Both are outside: they take the world, and a time.
\<close>

datatype 'v rpc_reply = SendFailed string | Reply bool string "string + 'v"

record ('w, 'v) health_env =
  hv_json :: "'v json_ops"
  hv_show :: "'v \<Rightarrow> string"
  hv_post :: "string \<Rightarrow> 'w \<Rightarrow> 'w \<times> duration \<times> 'v rpc_reply option"
  hv_select_one :: "string \<Rightarrow> 'w \<Rightarrow> 'w \<times> duration \<times> (string + int) option"
  hv_elapse :: "'w \<Rightarrow> 'w \<times> duration"
  hv_now :: "'w \<Rightarrow> int"

definition rpc_check :: "('w, 'v) health_env \<Rightarrow> 'v rpc_reply \<Rightarrow> string + string" where
  "rpc_check E reply =
     (case reply of
        SendFailed e \<Rightarrow> Inl e
      | Reply success status body \<Rightarrow>
          if success then
            res_bind body (\<lambda>json.
              case js_get (hv_json E) ''result'' json of
                Some result \<Rightarrow> Inr (''RPC responsive, latest block: '' @ hv_show E result)
              | None \<Rightarrow> Inl ''Invalid RPC response format'')
          else Inl (''RPC returned status: '' @ status))"

definition database_check :: "string + int \<Rightarrow> string + string" where
  "database_check answer =
     res_bind answer (\<lambda>n.
       if n = 1 then Inr ''Database connection successful'' else Inl ''Unexpected database response'')"

definition get_memory_usage :: u64 where
  "get_memory_usage = 512"

definition memory_check :: "u64 \<Rightarrow> u64 \<Rightarrow> string + string" where
  "memory_check warning_threshold_mb critical_threshold_mb =
     (let memory_mb = get_memory_usage
      in if critical_threshold_mb < memory_mb
         then Inl (''Memory usage critical: '' @ u64_to_string memory_mb @ '' MB'')
         else if warning_threshold_mb < memory_mb
         then Inr (''Memory usage warning: '' @ u64_to_string memory_mb @ '' MB'')
         else Inr (''Memory usage normal: '' @ u64_to_string memory_mb @ '' MB''))"

fun builtin_name :: "BuiltinCheck \<Rightarrow> string" where
  "builtin_name (RpcHealthCheck name rpc_url) = name"
| "builtin_name (DatabaseHealthCheck name db_path) = name"
| "builtin_name (MemoryHealthCheck name warning_mb critical_mb) = name"
| "builtin_name (BundleSystemHealthCheck name) = name"

fun builtin_is_critical :: "BuiltinCheck \<Rightarrow> bool" where
  "builtin_is_critical (RpcHealthCheck name rpc_url) = True"
| "builtin_is_critical (DatabaseHealthCheck name db_path) = False"
| "builtin_is_critical (MemoryHealthCheck name warning_mb critical_mb) = False"
| "builtin_is_critical (BundleSystemHealthCheck name) = True"

fun builtin_check ::
    "('w, 'v) health_env \<Rightarrow> BuiltinCheck \<Rightarrow> 'w \<Rightarrow> 'w \<times> duration \<times> (string + string) option" where
  "builtin_check E (RpcHealthCheck name rpc_url) w =
     (let (w, duration, reply) = hv_post E rpc_url w in (w, duration, map_option (rpc_check E) reply))"
| "builtin_check E (DatabaseHealthCheck name db_path) w =
     (let (w, duration, answer) = hv_select_one E db_path w in (w, duration, map_option database_check answer))"
| "builtin_check E (MemoryHealthCheck name warning_mb critical_mb) w =
     (let (w, duration) = hv_elapse E w in (w, duration, Some (memory_check warning_mb critical_mb)))"
| "builtin_check E (BundleSystemHealthCheck name) w =
     (let (w, duration) = hv_elapse E w in (w, duration, Some (Inr ''Bundle system operational'')))"

definition builtin_ops :: "('w, 'v) health_env \<Rightarrow> (BuiltinCheck, 'w) health_ops" where
  "builtin_ops E =
     \<lparr>ho_check = builtin_check E, ho_name = builtin_name, ho_is_critical = builtin_is_critical,
      ho_utc_now = hv_now E\<rparr>"

end
