(* ===== verification/Health_Facts.thy ===== *)
theory Health_Facts
  imports Health_Check
begin

text \<open>
  What the health checker reports: the invariant that registrations and rounds keep, the reports before
  the first round, and what a complete round decides.
\<close>

subsection \<open>The invariant\<close>

text \<open>
  Checks and results have the same names; an unknown result is the one of the registration, and a healthy
  one has just succeeded.
\<close>

definition result_ok :: "CheckResult \<Rightarrow> bool" where
  "result_ok r \<longleftrightarrow>
     (kr_status r = CS_Unknown \<longrightarrow> r = not_yet_checked) \<and>
     (kr_status r = CS_Healthy \<longrightarrow> kr_failure_count r = 0 \<and> kr_last_success r \<noteq> None)"

definition health_inv :: "'c HealthChecker \<Rightarrow> bool" where
  "health_inv h \<longleftrightarrow>
     hm_wf (hk_checks h) \<and> hm_wf (hk_results h) \<and>
     set (hm_keys (hk_checks h)) = set (hm_keys (hk_results h)) \<and>
     hm.all_entries (\<lambda>_. result_ok) (hk_results h)"

lemma health_inv_new: "health_inv (HealthChecker_new now config)"
  by (simp add: health_inv_def HealthChecker_new_def hm_keys_def hm_empty_def hm.all_entries_empty [unfolded hm_empty_def]
      hm_wf_empty [unfolded hm_empty_def])

lemma result_ok_new: "result_ok not_yet_checked"
  by (simp add: result_ok_def not_yet_checked_def)

lemma result_ok_outcome: "result_ok (check_outcome config critical now duration result r)"
  by (auto simp: result_ok_def check_outcome_def split: option.splits sum.splits)

lemma health_inv_register: "health_inv h \<Longrightarrow> health_inv (register_check V check h)"
  by (simp add: health_inv_def register_check_def Let_def hm_keys_insert hm.all_entries_put result_ok_new)

lemma result_of_check:
  assumes "health_inv h" and "hm_get (hk_checks h) name = Some check"
  obtains r where "hm_get (hk_results h) name = Some r"
  using assms hm_get_Some_keys [of "hk_checks h" name check] hm_get_None_iff [of "hk_results h" name]
  by (auto simp: health_inv_def)

lemma run_single_check_Ret:
  assumes "health_inv h" and "hm_get (hk_checks h) name = Some check"
    and "ho_check V check w = (w', duration, result)"
  obtains r where "hm_get (hk_results h) name = Some r"
    and "run_single_check V name check h w =
      Ret (h\<lparr>hk_results := hm_insert name
               (check_outcome (hk_config h) (ho_is_critical V check) (ho_utc_now V w') duration result r)
               (hk_results h)\<rparr>, w')"
  using result_of_check [OF assms(1,2)] assms(3) by (auto simp: run_single_check_def)

lemma health_inv_result:
  assumes "health_inv h" and "name \<in> set (hm_keys (hk_results h))" and "result_ok r"
  shows "health_inv (h\<lparr>hk_results := hm_insert name r (hk_results h)\<rparr>)"
  using assms by (auto simp: health_inv_def hm_keys_insert hm.all_entries_put)

lemma run_named_check_Ret:
  assumes "health_inv h"
  obtains h' w' where "run_named_check V name h w = Ret (h', w')" and "health_inv h'"
    and "hk_checks h' = hk_checks h" and "hk_config h' = hk_config h"
proof (cases "hm_get (hk_checks h) name")
  case None
  then show ?thesis
    using that [of h w] assms by (simp add: run_named_check_def)
next
  case (Some check)
  obtain w' duration result where "ho_check V check w = (w', duration, result)"
    by (cases "ho_check V check w")
  from run_single_check_Ret [OF assms Some this] obtain r where
    r: "hm_get (hk_results h) name = Some r" and
    run: "run_single_check V name check h w =
      Ret (h\<lparr>hk_results := hm_insert name
               (check_outcome (hk_config h) (ho_is_critical V check) (ho_utc_now V w') duration result r)
               (hk_results h)\<rparr>, w')" .
  show ?thesis
    by (rule that [OF _ health_inv_result [OF assms hm_get_Some_keys [OF r] result_ok_outcome]])
      (simp_all add: run_named_check_def Some run)
qed

lemma run_named_check_inv: "run_named_check V name h w = Ret (h', w') \<Longrightarrow> health_inv h \<Longrightarrow> health_inv h'"
  by (erule run_named_check_Ret [of h V name w]) simp

lemma health_step_inv: "health_step V (h, w, names) (h', w', names') \<Longrightarrow> health_inv h \<Longrightarrow> health_inv h'"
  by (erule health_stepE) (auto simp: health_inv_register intro: run_named_check_inv)

lemma health_reaches_inv:
  assumes "health_reaches V (h, w, names) (h', w', names')" and "health_inv h"
  shows "health_inv h'"
  using assms unfolding health_reaches_def
  by (induction "(h', w', names')" arbitrary: h' w' names' rule: rtranclp_induct)
    (auto dest: health_step_inv)

subsection \<open>The reports, by name\<close>

definition status_ok :: "CheckResult \<Rightarrow> bool" where
  "status_ok r \<longleftrightarrow> kr_status r = CS_Healthy \<or> kr_status r = CS_Warning"

lemma not_ok_new: "\<not> status_ok not_yet_checked"
  by (simp add: status_ok_def not_yet_checked_def)

lemma all_healthy_iff:
  assumes "health_inv h"
  shows "all_healthy h \<longleftrightarrow> (\<forall>name r. hm_get (hk_results h) name = Some r \<longrightarrow> status_ok r)"
proof -
  have wf: "hm_wf (hk_results h)"
    using assms by (simp add: health_inv_def)
  show ?thesis
    by (auto simp: all_healthy_def list_all_iff in_hm_values [OF wf] status_ok_def [symmetric])
qed

lemma is_ready_iff:
  assumes "health_inv h"
  shows "is_ready V h \<longleftrightarrow>
    (\<forall>name check r. hm_get (hk_checks h) name = Some check \<longrightarrow> hm_get (hk_results h) name = Some r \<longrightarrow>
       ho_is_critical V check \<longrightarrow> kr_status r \<noteq> CS_Critical)"
proof -
  have wf: "hm_wf (hk_checks h)"
    using assms by (simp add: health_inv_def)
  show ?thesis
    by (auto simp: is_ready_def list_all_iff hm_get_Some_iff [OF wf] split: option.splits)
qed

lemma healthy_ready: "health_inv h \<Longrightarrow> all_healthy h \<Longrightarrow> is_ready V h"
  by (fastforce simp: all_healthy_iff is_ready_iff status_ok_def)

subsection \<open>Reachable checkers\<close>

text \<open>A system with an unreachable node.\<close>

definition demo_health_env :: "(unit, demo_json) health_env" where
  "demo_health_env =
     \<lparr>hv_json = demo_json_ops, hv_show = (\<lambda>_. ''value''),
      hv_post = (\<lambda>url w. (w, 0, Some (SendFailed ''connection refused''))),
      hv_select_one = (\<lambda>path w. (w, 0, Some (Inr 1))), hv_elapse = (\<lambda>w. (w, 0)), hv_now = (\<lambda>w. 0)\<rparr>"

definition demo_health_checks :: "BuiltinCheck list" where
  "demo_health_checks = [RpcHealthCheck ''rpc'' ''http://localhost'', DatabaseHealthCheck ''db'' ''mev.db'']"

definition demo_checker :: "BuiltinCheck HealthChecker" where
  "demo_checker =
     fold (register_check (builtin_ops demo_health_env)) demo_health_checks (HealthChecker_new 0 HealthConfig_default)"

lemma demo_checker_reached:
  "health_reaches (builtin_ops demo_health_env) (HealthChecker_new 0 HealthConfig_default, (), []) (demo_checker, (), [])"
  unfolding health_reaches_def demo_checker_def demo_health_checks_def fold_simps comp_def id_def
  by (rule rtranclp.rtrancl_into_rtrancl [OF r_into_rtranclp [of "health_step _", OF hs_register] hs_register])

text \<open>However registrations and rounds interleave, the checks and the results have the same names, an
  unknown result is that of a fresh registration and a healthy one has just succeeded; so no run of a
  check panics on a missing result, and a checker that reports to be healthy is ready.
\<close>

theorem reachable_checkers:
  assumes "health_reaches V (HealthChecker_new now config, w0, []) (h, w, names)"
  shows "health_inv h" and "run_named_check V name h w \<noteq> Panic" and "all_healthy h \<longrightarrow> is_ready V h"
proof -
  show inv: "health_inv h"
    using health_reaches_inv [OF assms health_inv_new] .
  show "run_named_check V name h w \<noteq> Panic"
    by (rule run_named_check_Ret [OF inv, of V name w]) simp
  show "all_healthy h \<longrightarrow> is_ready V h"
    by (intro impI healthy_ready [OF inv])
qed

lemma reachable_checkers_witness:
  "health_inv demo_checker \<and> run_named_check (builtin_ops demo_health_env) ''rpc'' demo_checker () \<noteq> Panic \<and>
   (all_healthy demo_checker \<longrightarrow> is_ready (builtin_ops demo_health_env) demo_checker)"
  using reachable_checkers [OF demo_checker_reached] by blast

subsection \<open>Before the first round\<close>

lemma fold_register_inv: "health_inv h \<Longrightarrow> health_inv (fold (register_check V) checks h)"
  by (induction checks arbitrary: h) (auto simp: health_inv_register)

lemma fold_register_config: "hk_config (fold (register_check V) checks h) = hk_config h"
  by (induction checks arbitrary: h) (simp_all add: register_check_def Let_def)

lemma fold_register_unknown:
  "hm.all_entries (\<lambda>_ r. r = not_yet_checked) (hk_results h) \<Longrightarrow>
   hm.all_entries (\<lambda>_ r. r = not_yet_checked) (hk_results (fold (register_check V) checks h))"
  by (induction checks arbitrary: h) (auto simp: register_check_def Let_def hm.all_entries_put)

lemma fold_register_names:
  "set (hm_keys (hk_results (fold (register_check V) checks h))) =
   set (hm_keys (hk_results h)) \<union> ho_name V ` set checks"
  by (induction checks arbitrary: h) (auto simp: register_check_def Let_def hm_keys_insert)

text \<open>Before the first round a checker is ready whatever is registered, critical checks included, as an
  unknown result is not a critical one; it is healthy only if nothing is registered.
\<close>

theorem before_first_round:
  "fst (readiness_handler V (fold (register_check V) checks (HealthChecker_new now config))) = 200 \<and>
   fst (health_handler version utc now' (fold (register_check V) checks (HealthChecker_new now config))) =
     (if checks = [] then 200 else 503)"
proof -
  let ?h = "fold (register_check V) checks (HealthChecker_new now config)"
  have inv: "health_inv ?h"
    by (rule fold_register_inv [OF health_inv_new])
  have unknown: "r = not_yet_checked" if "hm_get (hk_results ?h) name = Some r" for name r
    using fold_register_unknown [of "HealthChecker_new now config" V checks] that
    by (simp add: HealthChecker_new_def hm.all_entries_def)
  have names: "set (hm_keys (hk_results ?h)) = ho_name V ` set checks"
    unfolding fold_register_names by (simp add: HealthChecker_new_def hm_keys_def hm_empty_def)
  have "is_ready V ?h"
    by (auto simp: is_ready_iff [OF inv] not_yet_checked_def dest!: unknown)
  moreover have "all_healthy ?h \<longleftrightarrow> checks = []"
  proof
    assume "all_healthy ?h"
    then have none: "hm_get (hk_results ?h) name = None" for name
    proof (cases "hm_get (hk_results ?h) name")
      case (Some r)
      then have "status_ok r"
        using \<open>all_healthy ?h\<close> unfolding all_healthy_iff [OF inv] by blast
      then show ?thesis
        unfolding unknown [OF Some] using not_ok_new by contradiction
    qed
    show "checks = []"
    proof (cases checks)
      case (Cons check rest)
      then have "ho_name V check \<in> set (hm_keys (hk_results ?h))"
        unfolding names by simp
      with none [of "ho_name V check"] show ?thesis
        by (simp only: hm_get_None_iff not_True_eq_False)
    qed
  qed (simp add: all_healthy_def HealthChecker_new_def hm_values_def hm_empty_def)
  ultimately show ?thesis
    by (simp add: readiness_handler_def health_handler_def get_health_status_def Let_def)
qed

subsection \<open>A complete round\<close>

text \<open>
  The outcomes of a check that leave it healthy or with a warning: an answer within the critical threshold, and the
  failure of a check that is not critical. A failure of a critical check, a slow answer and a timeout are critical.
\<close>

fun accepted :: "HealthConfig \<Rightarrow> bool \<Rightarrow> duration \<Rightarrow> (string + string) option \<Rightarrow> bool" where
  "accepted config critical duration (Some (Inr message)) \<longleftrightarrow> duration \<le> hg_critical_threshold config"
| "accepted config critical duration (Some (Inl e)) \<longleftrightarrow> \<not> critical"
| "accepted config critical duration None \<longleftrightarrow> False"

text \<open>Each check always has an accepted outcome, or never: \<open>p\<close> tells which ones do, in every world.\<close>

definition steady :: "('c, 'w) health_ops \<Rightarrow> ('c \<Rightarrow> bool) \<Rightarrow> 'c HealthChecker \<Rightarrow> bool" where
  "steady V p h \<longleftrightarrow>
     (\<forall>check \<in> set (hm_values (hk_checks h)). \<forall>w.
        case ho_check V check w of
          (_, duration, result) \<Rightarrow> accepted (hk_config h) (ho_is_critical V check) duration result = p check)"

lemma outcome_status:
  "status_ok (check_outcome config critical now duration result r) \<longleftrightarrow> accepted config critical duration result"
  "kr_status (check_outcome config critical now duration result r) = CS_Critical \<longleftrightarrow>
     \<not> accepted config critical duration result"
  by (cases "(config, critical, duration, result)" rule: accepted.cases; simp add: status_ok_def check_outcome_def)+

text \<open>What the names of a list get when their checks have run.\<close>

definition decided :: "('c \<Rightarrow> bool) \<Rightarrow> string set \<Rightarrow> 'c HealthChecker \<Rightarrow> bool" where
  "decided p names h \<longleftrightarrow>
     (\<forall>name check r. name \<in> names \<longrightarrow> hm_get (hk_checks h) name = Some check \<longrightarrow>
        hm_get (hk_results h) name = Some r \<longrightarrow>
        status_ok r = p check \<and> (kr_status r = CS_Critical) = (\<not> p check))"

lemma run_named_check_decides:
  assumes inv: "health_inv h" and steady: "steady V p h" and ds: "decided p names h"
  obtains h' w' where "run_named_check V name h w = Ret (h', w')" and "health_inv h'" and "steady V p h'"
    and "hk_checks h' = hk_checks h" and "decided p (insert name names) h'"
proof (cases "hm_get (hk_checks h) name")
  case None
  then show ?thesis
    using that [of h w] assms by (simp add: run_named_check_def decided_def)
next
  case (Some check)
  obtain w' duration result where c: "ho_check V check w = (w', duration, result)"
    by (cases "ho_check V check w")
  from run_single_check_Ret [OF inv Some c] obtain r where
    r: "hm_get (hk_results h) name = Some r" and
    run: "run_single_check V name check h w =
      Ret (h\<lparr>hk_results := hm_insert name
               (check_outcome (hk_config h) (ho_is_critical V check) (ho_utc_now V w') duration result r)
               (hk_results h)\<rparr>, w')" .
  have "check \<in> set (hm_values (hk_checks h))"
    using hm_get_value [OF Some] .
  then have "accepted (hk_config h) (ho_is_critical V check) duration result = p check"
    using steady c by (auto simp: steady_def dest!: bspec spec [of _ w])
  then show ?thesis
    using ds steady
    by (intro that [OF _ health_inv_result [OF inv hm_get_Some_keys [OF r] result_ok_outcome]])
      (auto simp: run_named_check_def Some run decided_def outcome_status steady_def)
qed

lemma run_checks_decides:
  assumes "health_inv h" and "steady V p h" and "decided p before h"
  shows "\<exists>h' w'. run_checks V names h w = Ret (h', w') \<and> health_inv h' \<and> hk_checks h' = hk_checks h \<and>
    decided p (before \<union> set names) h'"
  using assms
proof (induction names arbitrary: h w before)
  case (Cons name names)
  obtain h1 w1 where h1: "run_named_check V name h w = Ret (h1, w1)" "health_inv h1" "steady V p h1"
    "hk_checks h1 = hk_checks h" "decided p (insert name before) h1"
    by (rule run_named_check_decides [OF Cons.prems])
  then show ?case
    using Cons.IH [OF h1(2,3,5), of w1] by (simp add: Un_left_commute)
qed simp

lemma complete_round:
  assumes inv: "health_inv h" and steady: "steady V p h"
  shows "\<exists>h' w'. run_all_checks V h w = Ret (h', w') \<and>
    (all_healthy h' \<longleftrightarrow> list_all p (hm_values (hk_checks h))) \<and>
    (is_ready V h' \<longleftrightarrow> list_all p (filter (ho_is_critical V) (hm_values (hk_checks h))))"
proof -
  have "decided p {} h"
    by (simp add: decided_def)
  from run_checks_decides [OF inv steady this, of "hm_keys (hk_checks h)" w] obtain h' w' where
    run: "run_all_checks V h w = Ret (h', w')" and inv': "health_inv h'" and
    same: "hk_checks h' = hk_checks h" and ds: "decided p (set (hm_keys (hk_checks h))) h'"
    by (auto simp: run_all_checks_def)
  have wf: "hm_wf (hk_checks h)"
    using inv by (simp add: health_inv_def)
  have pair: "\<exists>check r. hm_get (hk_checks h) name = Some check \<and> hm_get (hk_results h') name = Some r \<and>
      status_ok r = p check \<and> (kr_status r = CS_Critical) = (\<not> p check)"
    if "name \<in> set (hm_keys (hk_checks h))" for name
    using that ds inv' unfolding decided_def health_inv_def same
    by (metis hm_get_None_iff not_None_eq)
  have vals: "check \<in> set (hm_values (hk_checks h)) \<longleftrightarrow> (\<exists>name. hm_get (hk_checks h) name = Some check)" for check
    by (rule in_hm_values [OF wf])
  have keys: "name \<in> set (hm_keys (hk_checks h))" if "hm_get (hk_results h') name = Some r" for name r
    using hm_get_Some_keys [OF that] inv' by (simp add: health_inv_def same)
  have "all_healthy h' \<longleftrightarrow> list_all p (hm_values (hk_checks h))"
  proof
    assume healthy: "all_healthy h'"
    have "p check" if "hm_get (hk_checks h) name = Some check" for name check
      using pair [OF hm_get_Some_keys [OF that]] healthy that by (auto simp: all_healthy_iff [OF inv'])
    then show "list_all p (hm_values (hk_checks h))"
      by (auto simp: list_all_iff vals)
  next
    assume passing: "list_all p (hm_values (hk_checks h))"
    have "status_ok r" if "hm_get (hk_results h') name = Some r" for name r
      using pair [OF keys [OF that]] passing that by (auto simp: list_all_iff vals)
    then show "all_healthy h'"
      by (simp add: all_healthy_iff [OF inv'])
  qed
  moreover have "is_ready V h' \<longleftrightarrow> list_all p (filter (ho_is_critical V) (hm_values (hk_checks h)))"
  proof
    assume ready: "is_ready V h'"
    have "p check" if "hm_get (hk_checks h) name = Some check" "ho_is_critical V check" for name check
      using pair [OF hm_get_Some_keys [OF that(1)]] ready that by (auto simp: is_ready_iff [OF inv'] same)
    then show "list_all p (filter (ho_is_critical V) (hm_values (hk_checks h)))"
      by (auto simp: list_all_iff vals)
  next
    assume passing: "list_all p (filter (ho_is_critical V) (hm_values (hk_checks h)))"
    have "kr_status r \<noteq> CS_Critical"
      if "hm_get (hk_checks h) name = Some check" "hm_get (hk_results h') name = Some r" "ho_is_critical V check"
      for name check r
      using pair [OF keys [OF that(2)]] passing that by (auto simp: list_all_iff vals)
    then show "is_ready V h'"
      by (auto simp: is_ready_iff [OF inv'] same)
  qed
  ultimately show ?thesis
    using run by blast
qed

text \<open>C36: From any reachable checker a complete round that no registration interrupts runs to its end. When the outcome
  of each check is steadily accepted (it answers within the critical threshold, or it fails without being critical,
  which is only a warning) or steadily not (it fails and is critical, is slower than that, or times out), the
  round decides the endpoints: \<open>/health\<close> answers 200 if and only if every check is accepted, and
  \<open>/ready\<close> if and only if every critical check is. One failure of a critical check is enough, whatever
  the configured maximum of failures is, and a check that is not critical can fail for ever.
\<close>

theorem round_decides:
  assumes "health_reaches V (HealthChecker_new now config, w0, []) (h, w, names)"
    and "steady V p h"
  shows "\<exists>h' w'. run_all_checks V h w = Ret (h', w') \<and>
    fst (health_handler version utc now' h') = (if list_all p (hm_values (hk_checks h)) then 200 else 503) \<and>
    fst (readiness_handler V h') =
      (if list_all p (filter (ho_is_critical V) (hm_values (hk_checks h))) then 200 else 503)"
  using complete_round [OF health_reaches_inv [OF assms(1) health_inv_new] assms(2), of w]
  by (auto simp: health_handler_def get_health_status_def readiness_handler_def Let_def)

lemma round_decides_witness:
  "\<exists>h' w'. run_all_checks (builtin_ops demo_health_env) demo_checker () = Ret (h', w') \<and>
     fst (health_handler ''0.1.0'' 0 0 h') = 503 \<and> fst (readiness_handler (builtin_ops demo_health_env) h') = 503"
proof -
  have checks: "hm_values (hk_checks demo_checker) = demo_health_checks"
    by (simp add: demo_checker_def demo_health_checks_def HealthChecker_new_def register_check_def builtin_ops_def
        hm_values_def hm_insert_def hm_empty_def Let_def)
  have config: "hk_config demo_checker = HealthConfig_default"
    by (simp add: demo_checker_def fold_register_config HealthChecker_new_def)
  have steady: "steady (builtin_ops demo_health_env) (\<lambda>c. \<not> builtin_is_critical c) demo_checker"
    by (simp add: steady_def checks demo_health_checks_def builtin_ops_def demo_health_env_def rpc_check_def
        database_check_def config HealthConfig_default_def)
  show ?thesis
    using round_decides [OF demo_checker_reached steady, where version = "''0.1.0''" and utc = 0 and now' = 0]
    by (simp add: checks demo_health_checks_def builtin_ops_def)
qed

subsection \<open>The built-in checks\<close>

fun local_check :: "BuiltinCheck \<Rightarrow> bool" where
  "local_check (MemoryHealthCheck name warning_mb critical_mb) \<longleftrightarrow> True"
| "local_check (BundleSystemHealthCheck name) \<longleftrightarrow> True"
| "local_check _ \<longleftrightarrow> False"

lemma fold_register_values:
  "set (hm_values (hk_checks (fold (register_check V) checks h))) \<subseteq> set (hm_values (hk_checks h)) \<union> set checks"
proof (induction checks arbitrary: h)
  case (Cons check checks)
  show ?case
    using Cons [of "register_check V check h"] hm_values_insert
    by (fastforce simp: register_check_def Let_def)
qed simp

text \<open>The checks of the memory and of the bundle system never make the system unhealthy: with any
  thresholds, memory above the critical one included, \<open>/health\<close> answers 200 after a round in which they
  are not slow.
\<close>

theorem local_checks_always_pass:
  assumes "list_all local_check checks"
    and "\<forall>w. snd (hv_elapse E w) \<le> hg_critical_threshold config"
  shows "\<exists>h' w'. run_all_checks (builtin_ops E)
      (fold (register_check (builtin_ops E)) checks (HealthChecker_new now config)) w = Ret (h', w') \<and>
    fst (health_handler version utc now' h') = 200"
proof -
  let ?h = "fold (register_check (builtin_ops E)) checks (HealthChecker_new now config)"
  have passing: "case builtin_check E check w of
      (_, duration, result) \<Rightarrow> accepted config (builtin_is_critical check) duration result"
    if "local_check check" for check w
    using that assms(2)
    by (cases check) (auto simp: memory_check_def Let_def split: prod.splits dest!: spec [of _ w])
  have "local_check check" if "check \<in> set (hm_values (hk_checks ?h))" for check
    using that fold_register_values [of "builtin_ops E" checks "HealthChecker_new now config"] assms(1)
    by (auto simp: HealthChecker_new_def hm_values_def hm_empty_def list_all_iff)
  then have "steady (builtin_ops E) (\<lambda>_. True) ?h"
    using passing by (fastforce simp: steady_def fold_register_config HealthChecker_new_def builtin_ops_def)
  from complete_round [OF fold_register_inv [OF health_inv_new] this, of w] show ?thesis
    by (auto simp: health_handler_def get_health_status_def Let_def list_all_iff)
qed

lemma local_checks_always_pass_witness:
  "\<exists>h' w'. run_all_checks (builtin_ops demo_health_env)
      (fold (register_check (builtin_ops demo_health_env))
         [MemoryHealthCheck ''memory'' 100 200, BundleSystemHealthCheck ''bundles'']
         (HealthChecker_new 0 HealthConfig_default)) () = Ret (h', w') \<and>
    fst (health_handler ''0.1.0'' 0 0 h') = 200"
  by (rule local_checks_always_pass) (simp_all add: demo_health_env_def)

end
