(* ===== verification/Bot_Config.thy ===== *)
theory Bot_Config
  imports Sim_Types F64
begin

text \<open>
  The configuration of the bot (\<open>crates/mev-config/src/lib.rs\<close>). The file system, the YAML parser and the
  environment are arguments: \<open>env name\<close> is what \<open>std::env::var\<close> gives, after \<open>dotenv\<close> has run. This
  crate has its own HyperLiquid section; the one of \<open>mev-hyperliquid\<close> is in \<open>Ws_Config\<close>.
\<close>

record BotHyperLiquid =
  bh_enabled :: bool
  bh_ws_url :: string
  bh_trading_pairs :: "string list"
  bh_subscribe_orderbook :: bool
  bh_rpc_url :: string
  bh_polling_interval_ms :: u64
  bh_private_key :: string
  bh_reconnect_min_backoff_secs :: u64
  bh_reconnect_max_backoff_secs :: u64
  bh_max_consecutive_failures :: u32
  bh_token_mapping :: "(string, string) hash_map"

record NetworkConfig =
  nw_rpc_url :: string
  nw_ws_url :: string
  nw_chain_id :: u64
  nw_private_key :: string
  nw_mempool_mode :: "string option"
  nw_polling_interval_ms :: "u64 option"
  nw_websocket_timeout_secs :: "u64 option"

record BotConfig =
  bc_max_gas_price :: u64
  bc_min_profit_threshold :: f64
  bc_strategies :: "string list"

record BackpressureSection =
  bk_enabled :: bool
  bk_drop_policy :: string
  bk_high_watermark :: f64
  bk_low_watermark :: f64

record PerformanceConfig =
  pc_worker_threads :: usize
  pc_ring_buffer_size :: usize
  pc_simulation_timeout_ms :: u64
  pc_max_concurrent_simulations :: usize
  pc_cpu_core_pinning :: bool
  pc_core_ids :: "usize list"
  pc_backpressure :: BackpressureSection

record MonitoringConfig =
  mo_prometheus_port :: "16 word"
  mo_log_level :: string

record Config =
  cf_network :: "NetworkConfig option"
  cf_bot :: BotConfig
  cf_performance :: "PerformanceConfig option"
  cf_monitoring :: MonitoringConfig
  cf_hyperliquid :: "BotHyperLiquid option"

subsection \<open>Validation\<close>

datatype section_error = NoWsUrl | WsScheme string | NoRpcUrl | RpcScheme string | NoPolling | NoPairs

text \<open>A polling interval below 100 only prints a warning.\<close>

definition validate_section :: "BotHyperLiquid \<Rightarrow> section_error + unit" where
  "validate_section c =
     (if \<not> bh_enabled c then Inr ()
      else if bh_ws_url c = [] then Inl NoWsUrl
      else if \<not> starts_with (bh_ws_url c) ''ws://'' \<and> \<not> starts_with (bh_ws_url c) ''wss://''
      then Inl (WsScheme (bh_ws_url c))
      else if bh_rpc_url c = [] then Inl NoRpcUrl
      else if \<not> starts_with (bh_rpc_url c) ''http://'' \<and> \<not> starts_with (bh_rpc_url c) ''https://''
      then Inl (RpcScheme (bh_rpc_url c))
      else if bh_polling_interval_ms c = 0 then Inl NoPolling
      else if bh_trading_pairs c = [] then Inl NoPairs
      else Inr ())"

subsection \<open>Loading\<close>

datatype load_error = Unreadable string | NotYaml string | BadSection section_error

definition load_from_file ::
    "('p \<Rightarrow> string + string) \<Rightarrow> (string \<Rightarrow> string + Config) \<Rightarrow> 'p \<Rightarrow> load_error + Config" where
  "load_from_file read_to_string from_str path =
     (case read_to_string path of
        Inl e \<Rightarrow> Inl (Unreadable e)
      | Inr content \<Rightarrow>
          (case from_str content of
             Inl e \<Rightarrow> Inl (NotYaml e)
           | Inr config \<Rightarrow>
               (case cf_hyperliquid config of
                  Some hyperliquid \<Rightarrow>
                    (case validate_section hyperliquid of
                       Inl e \<Rightarrow> Inl (BadSection e)
                     | Inr _ \<Rightarrow> Inr config)
                | None \<Rightarrow> Inr config)))"

definition parse_bool :: "string \<Rightarrow> bool option" where
  "parse_bool s = (if s = ''true'' then Some True else if s = ''false'' then Some False else None)"

definition parse_u16 :: "nat \<Rightarrow> string \<Rightarrow> 16 word option" where
  "parse_u16 radix s = map_option of_nat (parse_unsigned (2 ^ 16) radix s)"

text \<open>\<open>env::var(name).unwrap_or_else(|_| text).parse().unwrap_or(d)\<close>\<close>

definition env_parse ::
    "(string \<Rightarrow> string option) \<Rightarrow> (string \<Rightarrow> 'a option) \<Rightarrow> string \<Rightarrow> string \<Rightarrow> 'a \<Rightarrow> 'a" where
  "env_parse env parse name text d = unwrap_or d (parse (unwrap_or text (env name)))"

definition load_from_env :: "(string \<Rightarrow> string option) \<Rightarrow> load_error + Config" where
  "load_from_env env =
     Inr \<lparr>cf_network = None,
       cf_bot =
         \<lparr>bc_max_gas_price = env_parse env (parse_u64 10) ''MAX_GAS_PRICE'' ''100000000000'' 100000000000,
          bc_min_profit_threshold = env_parse env parse_f64 ''MIN_PROFIT_THRESHOLD'' ''0.01'' (f64_lit ''0.01''),
          bc_strategies = [''arbitrage'', ''sandwich'']\<rparr>,
       cf_performance = Some
         \<lparr>pc_worker_threads = env_parse env (parse_u64 10) ''WORKER_THREADS'' ''4'' 4,
          pc_ring_buffer_size = env_parse env (parse_u64 10) ''RING_BUFFER_SIZE'' ''10000'' 10000,
          pc_simulation_timeout_ms = env_parse env (parse_u64 10) ''SIMULATION_TIMEOUT_MS'' ''100'' 100,
          pc_max_concurrent_simulations = env_parse env (parse_u64 10) ''MAX_CONCURRENT_SIMULATIONS'' ''50'' 50,
          pc_cpu_core_pinning = env_parse env parse_bool ''CPU_CORE_PINNING'' ''false'' False,
          pc_core_ids = [0, 1, 2, 3],
          pc_backpressure =
            \<lparr>bk_enabled = env_parse env parse_bool ''BACKPRESSURE_ENABLED'' ''true'' True,
             bk_drop_policy = unwrap_or ''oldest'' (env ''DROP_POLICY''),
             bk_high_watermark = env_parse env parse_f64 ''HIGH_WATERMARK'' ''0.8'' (f64_lit ''0.8''),
             bk_low_watermark = env_parse env parse_f64 ''LOW_WATERMARK'' ''0.6'' (f64_lit ''0.6'')\<rparr>\<rparr>,
       cf_monitoring =
         \<lparr>mo_prometheus_port = env_parse env (parse_u16 10) ''PROMETHEUS_PORT'' ''9090'' 9090,
          mo_log_level = unwrap_or ''info'' (env ''LOG_LEVEL'')\<rparr>,
       cf_hyperliquid = None\<rparr>"

subsection \<open>What the environment decides\<close>

text \<open>A number that can be read is used; a text that is no number is replaced without a word.\<close>

lemma env_parse_set: "env name = Some s \<Longrightarrow> parse s = Some v \<Longrightarrow> env_parse env parse name text d = v"
  by (simp add: env_parse_def unwrap_or_def)

lemma env_parse_garbled: "env name = Some s \<Longrightarrow> parse s = None \<Longrightarrow> env_parse env parse name text d = d"
  by (simp add: env_parse_def unwrap_or_def)

end
