(* ===== verification/Mev_Bot.thy ===== *)
theory Mev_Bot
  imports Bot_Config Service_Manager Trade_Adapter Strategy_Engine Swap_Strategies Hex_Text
begin

text \<open>
  The bot (\<open>crates/mev-bot/src/main.rs\<close>): its start, the task that evaluates market data, the one that
  reads state updates, and its end. The log and the server of the metrics are left out; the two gauges
  that the processor sets are kept.
\<close>

text \<open>
  What the bot gets from outside: the environment, the parsers of \<open>ethers\<close> and its \<open>Debug\<close> form of an
  address, \<open>chrono::DateTime::from_timestamp\<close>, whether the metrics can be registered (\<open>prometheus\<close>), and the
  JSON numbers of the strategy's parameters.
\<close>

record 'v bot_env =
  be_var :: "string \<Rightarrow> string option"
  be_parsers :: ethers_parsers
  be_from_str :: "string \<Rightarrow> address option"
  be_debug :: "address \<Rightarrow> string"
  be_from_timestamp :: "int \<Rightarrow> int option"
  be_metrics_ok :: bool
  be_hl_metrics_ok :: bool
  be_json :: "'v json_ops"
  be_lits :: "'v json_lits"

subsection \<open>Start\<close>

definition bot_private_key :: "'v bot_env \<Rightarrow> BotHyperLiquid \<Rightarrow> string" where
  "bot_private_key X hl =
     (if bh_private_key hl = [] then unwrap_or [] (be_var X ''PRIVATE_KEY'') else bh_private_key hl)"

definition hl_config_typed :: "string \<Rightarrow> BotHyperLiquid \<Rightarrow> HyperLiquidConfig" where
  "hl_config_typed key hl =
     \<lparr>enabled = bh_enabled hl, ws_url = bh_ws_url hl, rpc_url = Some (bh_rpc_url hl),
      polling_interval_ms = Some (bh_polling_interval_ms hl), private_key = Some key,
      trading_pairs = bh_trading_pairs hl, subscribe_orderbook_too = bh_subscribe_orderbook hl,
      reconnect_min_backoff_secs = bh_reconnect_min_backoff_secs hl,
      reconnect_max_backoff_secs = bh_reconnect_max_backoff_secs hl,
      config_max_failures = bh_max_consecutive_failures hl, token_mapping = bh_token_mapping hl\<rparr>"

datatype bot_error =
    MetricsRefused
  | HlMetricsRefused
  | ManagerRefused Ws_Config.config_error
  | AlreadyRunning
  | AdapterRefused adapter_error

record ('w, 'v) MevBot =
  mb_engine :: "'v SwapStrategy StrategyEngine"
  mb_hyperliquid :: "('w HyperLiquidServiceManager \<times> TradeDataAdapter) option"

text \<open>
  A start that fails carries the manager, if one had been started: it is dropped when \<open>main\<close> returns.
\<close>

datatype ('w, 'v) startup =
    StartupFailed bot_error "'w HyperLiquidServiceManager option"
  | BotStarted "('w, 'v) MevBot"

definition bot_engine :: "'v bot_env \<Rightarrow> 'v SwapStrategy StrategyEngine" where
  "bot_engine X =
     engine_register (swap_ops (be_json X)) (ArbitrageStrategy (ArbitrageStrategy_new (be_lits X)))
       (StrategyEngine_new StrategyEngineConfig_default)"

text \<open>\<open>expect\<close> panics when a receiver has been taken before.\<close>

definition take_receivers :: "'w HyperLiquidServiceManager \<Rightarrow> 'w HyperLiquidServiceManager run" where
  "take_receivers m =
     (let (m, market) = get_market_data_receiver m
      in if \<not> market then Panic
         else let (m, state) = get_state_update_receiver m
              in if \<not> state then Panic else Ret m)"

definition start_hyperliquid ::
    "'v bot_env \<Rightarrow> (StateUpdateEvent \<Rightarrow> 'w \<Rightarrow> 'w) \<Rightarrow> instant \<Rightarrow> BotHyperLiquid \<Rightarrow> ('w, 'v) startup run" where
  "start_hyperliquid X tx now hl =
     (if \<not> be_hl_metrics_ok X then Ret (StartupFailed HlMetricsRefused None)
      else
        run_bind (HyperLiquidServiceManager_new (be_parsers X) tx now (hl_config_typed (bot_private_key X hl) hl))
          (\<lambda>built.
             case built of
               Inl e \<Rightarrow> Ret (StartupFailed (ManagerRefused e) None)
             | Inr m \<Rightarrow>
                 run_bind (take_receivers m) (\<lambda>m.
                   case manager_start m of
                     None \<Rightarrow> Ret (StartupFailed AlreadyRunning None)
                   | Some m \<Rightarrow>
                       (case TradeDataAdapter_new (be_from_str X) 998 (bh_token_mapping hl) of
                          Inl e \<Rightarrow> Ret (StartupFailed (AdapterRefused e) (Some m))
                        | Inr adapter \<Rightarrow>
                            Ret (BotStarted \<lparr>mb_engine = bot_engine X, mb_hyperliquid = Some (m, adapter)\<rparr>)))))"

definition bot_start ::
    "'v bot_env \<Rightarrow> (StateUpdateEvent \<Rightarrow> 'w \<Rightarrow> 'w) \<Rightarrow> instant \<Rightarrow> Config \<Rightarrow> ('w, 'v) startup run" where
  "bot_start X tx now config =
     (if \<not> be_metrics_ok X then Ret (StartupFailed MetricsRefused None)
      else case cf_hyperliquid config of
             Some hl \<Rightarrow>
               if bh_enabled hl then start_hyperliquid X tx now hl
               else Ret (BotStarted \<lparr>mb_engine = bot_engine X, mb_hyperliquid = None\<rparr>)
           | None \<Rightarrow> Ret (BotStarted \<lparr>mb_engine = bot_engine X, mb_hyperliquid = None\<rparr>))"

subsection \<open>The processor of market data\<close>

text \<open>
  One event with what the clocks say while it is processed, and what the engine's evaluation meets.
\<close>

record event_env =
  ee_utc_now :: int
  ee_eval :: eval_env
  ee_order :: "string list \<Rightarrow> string list"
  ee_current_time :: u64
  ee_evaluation_time :: duration

record 'v MarketProcessor =
  mp_processed_count :: u64
  mp_engine :: "'v SwapStrategy StrategyEngine"
  mp_transactions_processed :: u64
  mp_buffer_utilization :: "u64 option"

definition MarketProcessor_new :: "'v SwapStrategy StrategyEngine \<Rightarrow> 'v MarketProcessor" where
  "MarketProcessor_new e =
     \<lparr>mp_processed_count = 0, mp_engine = e, mp_transactions_processed = 0, mp_buffer_utilization = None\<rparr>"

definition trade_transaction :: "'v bot_env \<Rightarrow> int \<Rightarrow> AdaptedTradeEvent \<Rightarrow> ParsedTransaction" where
  "trade_transaction X utc_now event =
     \<lparr>px_transaction =
        \<lparr>tx_hash = at_hash event, tx_from = be_debug X (at_from event), tx_to = Some (be_debug X (at_to event)),
         tx_value = u256_to_string (at_value event), tx_gas_price = u256_to_string (at_gas_price event),
         tx_gas_limit = ''0'', tx_nonce = 0, tx_input = ''0x'',
         tx_timestamp = unwrap_or utc_now (be_from_timestamp X (sint (at_timestamp event)))\<rparr>,
      px_decoded_input = None, px_target_type = TargetType.OrderBook, px_processing_time_ms = 0\<rparr>"

definition report_progress :: "'v MarketProcessor \<Rightarrow> 'v MarketProcessor" where
  "report_progress p =
     (if mp_processed_count p mod 100 = 0
      then p\<lparr>mp_buffer_utilization := Some (if 1000 < mp_processed_count p then 75 else 25)\<rparr>
      else p)"

text \<open>A panic ends the task; \<open>None\<close> is an evaluation that never ends.\<close>

definition process_market_event ::
    "'v bot_env \<Rightarrow> TradeDataAdapter \<Rightarrow> event_env \<Rightarrow> MarketDataEvent \<Rightarrow> 'v MarketProcessor \<Rightarrow>
     'v MarketProcessor run option"
where
  "process_market_event X adapter E event p =
     (case event of
        TradeEvent trade \<Rightarrow>
          (let p = p\<lparr>mp_processed_count := mp_processed_count p + 1\<rparr>
           in case adapt_trade (be_from_str X) adapter trade of
                Panic \<Rightarrow> Some Panic
              | Ret (Inl e) \<Rightarrow> Some (Ret (report_progress p))
              | Ret (Inr adapted) \<Rightarrow>
                  (let parsed = trade_transaction X (ee_utc_now E) adapted;
                       p = p\<lparr>mp_transactions_processed := mp_transactions_processed p + 1\<rparr>
                   in map_option (\<lambda>r. run_bind r (\<lambda>(engine, opportunities).
                          Ret (report_progress (p\<lparr>mp_engine := engine\<rparr>))))
                        (engine_evaluate (swap_ops (be_json X)) (ee_eval E) (ee_order E) (ee_current_time E)
                           (ee_evaluation_time E) parsed (mp_engine p))))
      | OrderBookEvent book \<Rightarrow> Some (Ret p))"

fun market_processor ::
    "'v bot_env \<Rightarrow> TradeDataAdapter \<Rightarrow> (event_env \<times> MarketDataEvent) list \<Rightarrow> 'v MarketProcessor \<Rightarrow>
     'v MarketProcessor run option"
where
  "market_processor X adapter [] p = Some (Ret p)"
| "market_processor X adapter ((E, event) # events) p =
     (case process_market_event X adapter E event p of
        Some (Ret p) \<Rightarrow> market_processor X adapter events p
      | r \<Rightarrow> r)"

text \<open>The state updates are counted; every arm of the match only writes to the log.\<close>

fun state_update_processor :: "StateUpdateEvent list \<Rightarrow> u64 \<Rightarrow> u64" where
  "state_update_processor [] processed_count = processed_count"
| "state_update_processor (event # events) processed_count = state_update_processor events (processed_count + 1)"

subsection \<open>End\<close>

text \<open>
  After the shutdown signal the bot calls \<open>stop\<close> of its manager, if it has one, and \<open>main\<close> returns when
  that call has.
\<close>

inductive bot_exits ::
    "('w, 'v) ws_env \<Rightarrow> ('w, 'p, 'raw) provider \<Rightarrow> ('w, 'j) MevBot \<Rightarrow> 'w \<Rightarrow> bool"
  for E :: "('w, 'v) ws_env" and P :: "('w, 'p, 'raw) provider"
where
  without_manager: "mb_hyperliquid b = None \<Longrightarrow> bot_exits E P b w"
| manager_stopped: "mb_hyperliquid b = Some (m, adapter) \<Longrightarrow>
     manager_reaches E P (m, NotStopping, w) (m', Stopped, w') \<Longrightarrow> bot_exits E P b w"

end
