(* ===== verification/Bot_Facts.thy ===== *)
theory Bot_Facts
  imports Mev_Bot Manager_Facts Engine_Facts
begin

text \<open>
  What the bot does: which configurations it starts with, that its trades never lead to an opportunity,
  and that it does not come to an end once its HyperLiquid services run.
\<close>

subsection \<open>Two validations\<close>

text \<open>The bot checks its HyperLiquid section twice, with different rules. Of the enabled sections, the
  second validation accepts exactly those that the first accepts and whose polling interval is at
  least 100 ms (which the first only warns about), whose pairs, backoffs, failure limit and token
  addresses are in order; so a file can be loaded and then refused at the start, never the other way round.
\<close>

theorem typed_config_validates:
  assumes "bh_enabled hl"
  shows "validate (hl_config_typed key hl) = Inr () \<longleftrightarrow>
    validate_section hl = Inr () \<and> 100 \<le> bh_polling_interval_ms hl \<and>
    list_all pair_ok (bh_trading_pairs hl) \<and> bh_reconnect_min_backoff_secs hl \<noteq> 0 \<and>
    bh_reconnect_min_backoff_secs hl \<le> bh_reconnect_max_backoff_secs hl \<and>
    bh_max_consecutive_failures hl \<noteq> 0 \<and>
    list_all (\<lambda>(coin, a). coin \<noteq> [] \<and> address_ok a) (bh_token_mapping hl)"
proof -
  have accepted: "validate_section hl = Inr () \<longleftrightarrow>
      (starts_with (bh_ws_url hl) ''ws://'' \<or> starts_with (bh_ws_url hl) ''wss://'') \<and>
      (starts_with (bh_rpc_url hl) ''http://'' \<or> starts_with (bh_rpc_url hl) ''https://'') \<and>
      bh_polling_interval_ms hl \<noteq> 0 \<and> bh_trading_pairs hl \<noteq> []"
    using assms by (auto simp: validate_section_def)
  have "100 \<le> bh_polling_interval_ms hl \<Longrightarrow> bh_polling_interval_ms hl \<noteq> 0"
    by (auto simp: word_le_nat_alt)
  with assms show ?thesis
    unfolding validate_accepts_iff accepted by (auto simp: hl_config_typed_def)
qed

subsection \<open>The start\<close>

text \<open>What \<open>ethers\<close> documents of \<open>Address::from_str\<close>: 40 hexadecimal digits after \<open>0x\<close> are an address.\<close>

definition parses_addresses :: "'v bot_env \<Rightarrow> bool" where
  "parses_addresses X \<longleftrightarrow> (\<forall>a. address_ok a \<longrightarrow> be_from_str X a \<noteq> None)"

lemma parse_mapping_ok:
  assumes "parses_addresses X" and "list_all (\<lambda>(coin, a). coin \<noteq> [] \<and> address_ok a) m"
  shows "\<exists>r. parse_mapping (be_from_str X) m parsed = Inr r"
  using assms(2)
proof (induction m arbitrary: parsed)
  case (Cons entry m)
  obtain coin a where entry: "entry = (coin, a)"
    by (cases entry)
  with Cons.prems assms(1) obtain w where "be_from_str X a = Some w"
    unfolding parses_addresses_def by auto
  with Cons entry show ?case
    by (simp add: ok_or_def)
qed simp

lemma adapter_of_valid_config:
  assumes "parses_addresses X" and "validate (hl_config_typed key hl) = Inr ()"
  shows "\<exists>adapter. TradeDataAdapter_new (be_from_str X) 998 (bh_token_mapping hl) = Inr adapter"
proof -
  have "list_all (\<lambda>(coin, a). coin \<noteq> [] \<and> address_ok a) (bh_token_mapping hl)"
    using assms(2) by (simp add: validate_accepts_iff hl_config_typed_def)
  from parse_mapping_ok [OF assms(1) this, of hm_empty] show ?thesis
    by (auto simp: TradeDataAdapter_new_def)
qed

text \<open>A started bot with the manager it has just started.\<close>

definition freshly_started ::
    "'v bot_env \<Rightarrow> (StateUpdateEvent \<Rightarrow> 'w \<Rightarrow> 'w) \<Rightarrow> ('w, 'v) MevBot \<Rightarrow> bool" where
  "freshly_started X tx b \<longleftrightarrow> mb_engine b = bot_engine X \<and>
     (case mb_hyperliquid b of
        Some (m, _) \<Rightarrow>
          sm_ws_task m = Some Running \<and> sm_rpc_task m = Some Running \<and> \<not> sm_shutdown m \<and>
          state_tx (sm_rpc_service m) = Some tx
      | None \<Rightarrow> False)"

lemma start_hyperliquid_outcome:
  assumes "be_hl_metrics_ok X" and "parses_addresses X"
  shows "case validate (hl_config_typed (bot_private_key X hl) hl) of
      Inl e \<Rightarrow> start_hyperliquid X tx now hl = Ret (StartupFailed (ManagerRefused e) None)
    | Inr _ \<Rightarrow>
        if url_ok (be_parsers X) (bh_rpc_url hl)
        then \<exists>b. start_hyperliquid X tx now hl = Ret (BotStarted b) \<and> freshly_started X tx b
        else start_hyperliquid X tx now hl = Panic"
proof (cases "validate (hl_config_typed (bot_private_key X hl) hl)")
  case (Inl e)
  then show ?thesis
    using assms(1) by (simp add: start_hyperliquid_def HyperLiquidServiceManager_new_def)
next
  case (Inr u)
  then have valid: "validate (hl_config_typed (bot_private_key X hl) hl) = Inr ()"
    by simp
  have url: "manager_url (hl_config_typed key hl) = bh_rpc_url hl" for key
    by (simp add: manager_url_def hl_config_typed_def)
  obtain adapter where "TradeDataAdapter_new (be_from_str X) 998 (bh_token_mapping hl) = Inr adapter"
    using adapter_of_valid_config [OF assms(2) valid] by blast
  with assms(1) valid manager_new_valid [OF valid, of now "be_parsers X" tx] show ?thesis
    by (auto simp: start_hyperliquid_def url take_receivers_def get_market_data_receiver_def
        get_state_update_receiver_def manager_start_def freshly_started_def)
qed

lemma bot_start_enabled:
  "be_metrics_ok X \<Longrightarrow> cf_hyperliquid config = Some hl \<Longrightarrow> bh_enabled hl \<Longrightarrow>
     bot_start X tx now config = start_hyperliquid X tx now hl"
  by (simp add: bot_start_def)

lemma started_bot_fresh:
  assumes "start_hyperliquid X tx now hl = Ret (BotStarted b)"
  shows "freshly_started X tx b"
proof (cases "validate (hl_config_typed (bot_private_key X hl) hl)")
  case (Inl e)
  with assms show ?thesis
    by (simp add: start_hyperliquid_def HyperLiquidServiceManager_new_def split: if_splits)
next
  case (Inr u)
  then have "validate (hl_config_typed (bot_private_key X hl) hl) = Inr ()"
    by simp
  from manager_new_valid [OF this, of now "be_parsers X" tx] assms show ?thesis
    by (auto simp: start_hyperliquid_def take_receivers_def get_market_data_receiver_def
        get_state_update_receiver_def manager_start_def freshly_started_def split: if_splits sum.splits)
qed

text \<open>C34: When its metrics register, a bot with an enabled HyperLiquid section has three ways to start: the
  error of the second validation, before any service runs; a panic for an RPC URL that the provider
  rejects; or a running system with both tasks started. Nothing fails after the services have been
  started: a mapping that passed the validation always gives an adapter.
\<close>

theorem bot_startup_outcome:
  assumes "be_metrics_ok X" and "be_hl_metrics_ok X" and "parses_addresses X"
    and "cf_hyperliquid config = Some hl" and "bh_enabled hl"
  shows "case validate (hl_config_typed (bot_private_key X hl) hl) of
      Inl e \<Rightarrow> bot_start X tx now config = Ret (StartupFailed (ManagerRefused e) None)
    | Inr _ \<Rightarrow>
        if url_ok (be_parsers X) (bh_rpc_url hl)
        then \<exists>b. bot_start X tx now config = Ret (BotStarted b) \<and> freshly_started X tx b
        else bot_start X tx now config = Panic"
  unfolding bot_start_enabled [OF assms(1,4,5)] by (rule start_hyperliquid_outcome [OF assms(2,3)])

subsection \<open>Trades lead to nothing\<close>

lemma constant_addresses:
  "address_ok ''0x0000000000000000000000000000000000000001''"
  "address_ok ''0x0000000000000000000000000000000000000002''"
  by code_simp+

lemma adapt_trade_Ret:
  assumes "parses_addresses X"
  shows "\<exists>r. adapt_trade (be_from_str X) adapter trade = Ret r"
  using assms constant_addresses unfolding parses_addresses_def adapt_trade_def
  by (fastforce split: option.split)

lemma order_book_not_candidate: "\<not> is_arbitrage_candidate (trade_transaction X now event)"
  by (simp add: is_arbitrage_candidate_def trade_transaction_def)

lemma arbitrage_finds_nothing:
  "so_evaluate_transaction (swap_ops J) clock (trade_transaction X now event) (ArbitrageStrategy s)
     = Ret (Inr NoOpportunity)"
  by (simp add: swap_ops_def swap_evaluate_def arbitrage_evaluate_def order_book_not_candidate)

text \<open>The engine of the bot, with any configuration, while nothing has been found.\<close>

definition idle_engine :: "'v bot_env \<Rightarrow> StrategyEngineConfig \<Rightarrow> u64 \<Rightarrow> 'v SwapStrategy StrategyEngine \<Rightarrow> bool" where
  "idle_engine X config n e \<longleftrightarrow>
     en_config e = config \<and>
     en_strategies e = [(''arbitrage'', ArbitrageStrategy (ArbitrageStrategy_new (be_lits X)))] \<and>
     en_opportunities e = [] \<and> en_bundle_plans e = [] \<and>
     es_opportunities_found (en_stats e) = 0 \<and> es_transactions_evaluated (en_stats e) = n"

definition arbitrage_engine :: "'v bot_env \<Rightarrow> StrategyEngineConfig \<Rightarrow> 'v SwapStrategy StrategyEngine" where
  "arbitrage_engine X config =
     engine_register (swap_ops (be_json X)) (ArbitrageStrategy (ArbitrageStrategy_new (be_lits X)))
       (StrategyEngine_new config)"

lemma idle_engine_new: "idle_engine X config 0 (arbitrage_engine X config)"
  by (simp add: idle_engine_def arbitrage_engine_def engine_register_def StrategyEngine_new_def swap_ops_def
      ArbitrageStrategy_new_def hm_insert_def hm_empty_def StrategyEngineStats_default_def)

lemma idle_engine_evaluates:
  assumes "ec_max_concurrent_evaluations config \<noteq> 0" and "idle_engine X config n e"
  shows "\<exists>e'. engine_evaluate (swap_ops (be_json X)) env order current_time time (trade_transaction X now event) e
      = Some (Ret (e', [])) \<and> idle_engine X config (n + 1) e'"
  using assms arbitrage_finds_nothing [of "be_json X" _ X now event]
  by (auto simp: idle_engine_def engine_evaluate_def hm_values_def evaluate_strategies_parallel_def
      count_evaluation_def count_found_def cache_opportunities_def insert_opportunities_def limit_cache_def
      hm_retain_def hm_len_def Let_def)

text \<open>The trades of a list of events, and those that the adapter can turn into a transaction.\<close>

fun is_trade :: "event_env \<times> MarketDataEvent \<Rightarrow> bool" where
  "is_trade (E, TradeEvent trade) \<longleftrightarrow> True"
| "is_trade (E, OrderBookEvent book) \<longleftrightarrow> False"

fun is_adapted :: "'v bot_env \<Rightarrow> TradeDataAdapter \<Rightarrow> event_env \<times> MarketDataEvent \<Rightarrow> bool" where
  "is_adapted X adapter (E, TradeEvent trade) \<longleftrightarrow>
     (case adapt_trade (be_from_str X) adapter trade of Ret (Inr event) \<Rightarrow> True | _ \<Rightarrow> False)"
| "is_adapted X adapter (E, OrderBookEvent book) \<longleftrightarrow> False"

lemma report_progress_keeps [simp]:
  "mp_engine (report_progress p) = mp_engine p"
  "mp_processed_count (report_progress p) = mp_processed_count p"
  "mp_transactions_processed (report_progress p) = mp_transactions_processed p"
  by (simp_all add: report_progress_def)

lemma market_event_idle:
  assumes X: "parses_addresses X" and config: "ec_max_concurrent_evaluations config \<noteq> 0"
    and idle: "idle_engine X config (mp_transactions_processed p) (mp_engine p)"
  shows "\<exists>p'. process_market_event X adapter E event p = Some (Ret p') \<and>
    idle_engine X config (mp_transactions_processed p') (mp_engine p') \<and>
    mp_processed_count p' = mp_processed_count p + of_bool (is_trade (E, event)) \<and>
    mp_transactions_processed p' = mp_transactions_processed p + of_bool (is_adapted X adapter (E, event))"
proof (cases event)
  case (TradeEvent trade)
  obtain r where r: "adapt_trade (be_from_str X) adapter trade = Ret r"
    using adapt_trade_Ret [OF X] by blast
  show ?thesis
  proof (cases r)
    case (Inl e)
    with TradeEvent r idle show ?thesis
      by (simp add: process_market_event_def Let_def)
  next
    case (Inr adapted)
    obtain e' where "engine_evaluate (swap_ops (be_json X)) (ee_eval E) (ee_order E) (ee_current_time E)
        (ee_evaluation_time E) (trade_transaction X (ee_utc_now E) adapted) (mp_engine p) = Some (Ret (e', []))"
      and "idle_engine X config (mp_transactions_processed p + 1) e'"
      using idle_engine_evaluates [OF config idle] by blast
    with TradeEvent r Inr show ?thesis
      by (simp add: process_market_event_def Let_def)
  qed
qed (use idle in \<open>simp add: process_market_event_def\<close>)

lemma market_processor_idle:
  assumes "parses_addresses X" and "ec_max_concurrent_evaluations config \<noteq> 0"
    and "idle_engine X config (mp_transactions_processed p) (mp_engine p)"
  shows "\<exists>p'. market_processor X adapter events p = Some (Ret p') \<and>
    idle_engine X config (mp_transactions_processed p') (mp_engine p') \<and>
    mp_processed_count p' = mp_processed_count p + of_nat (length (filter is_trade events)) \<and>
    mp_transactions_processed p' =
      mp_transactions_processed p + of_nat (length (filter (is_adapted X adapter) events))"
  using assms(3)
proof (induction events arbitrary: p)
  case (Cons x events)
  obtain E event where x: "x = (E, event)"
    by (cases x)
  obtain p1 where p1: "process_market_event X adapter E event p = Some (Ret p1)"
    "idle_engine X config (mp_transactions_processed p1) (mp_engine p1)"
    "mp_processed_count p1 = mp_processed_count p + of_bool (is_trade (E, event))"
    "mp_transactions_processed p1 = mp_transactions_processed p + of_bool (is_adapted X adapter (E, event))"
    using market_event_idle [OF assms(1,2) Cons.prems] by blast
  from Cons.IH [OF p1(2)] p1(1,3,4) show ?case
    by (auto simp: x)
qed simp


subsection \<open>Without a file\<close>

text \<open>Without a configuration file the bot cannot do anything, whatever the environment says: the
  configuration made from the environment has no HyperLiquid section, so the bot starts without services
  and can only be ended.
\<close>

theorem environment_bot_idle:
  "\<exists>config b. load_from_env env = Inr config \<and>
     bot_start X tx now config =
       Ret (if be_metrics_ok X then BotStarted b else StartupFailed MetricsRefused None) \<and>
     mb_hyperliquid b = None \<and> bot_exits E P b w"
  by (auto simp: load_from_env_def bot_start_def intro!: without_manager exI [of _ "\<lparr>mb_engine = _, mb_hyperliquid = None\<rparr>"])

subsection \<open>The end\<close>

text \<open>A bot that has started its HyperLiquid services does not end: after the shutdown signal it waits for
  \<open>stop\<close> of the manager, which waits for the WebSocket task that nothing tells to end. Only a world that
  sets the flag of the WebSocket service by itself could end it.
\<close>

theorem started_bot_never_exits:
  assumes "cf_hyperliquid config = Some hl" and "bh_enabled hl"
    and "bot_start X tx now config = Ret (BotStarted b)"
    and "quiet_ws E (\<lambda>w. \<not> shutdown_requested E w)" and "quiet_rpc P tx (\<lambda>w. \<not> shutdown_requested E w)"
    and "\<not> shutdown_requested E w"
  shows "\<not> bot_exits E P b w"
proof
  assume "bot_exits E P b w"
  have "freshly_started X tx b"
    using assms(1-3) by (auto simp: bot_start_def intro: started_bot_fresh split: if_splits)
  then obtain m adapter where b: "mb_hyperliquid b = Some (m, adapter)" and m: "sm_ws_task m = Some Running"
    "state_tx (sm_rpc_service m) = Some tx"
    by (auto simp: freshly_started_def split: option.splits)
  from m assms(6) have "ws_running E tx (m, NotStopping, w)"
    by (simp add: ws_running_def)
  note running = ws_running_reaches [OF assms(4,5) this]
  from \<open>bot_exits E P b w\<close> show False
  proof cases
    case (manager_stopped m1 adapter1 m' w')
    with b running show False
      by (auto simp: ws_running_def)
  qed (simp add: b)
qed

subsection \<open>Instances\<close>

definition demo_section :: "u64 \<Rightarrow> BotHyperLiquid" where
  "demo_section polling =
     \<lparr>bh_enabled = True, bh_ws_url = ''wss://api.hyperliquid.xyz/ws'', bh_trading_pairs = [''BTC''],
      bh_subscribe_orderbook = False, bh_rpc_url = ''https://rpc'', bh_polling_interval_ms = polling,
      bh_private_key = [], bh_reconnect_min_backoff_secs = 1, bh_reconnect_max_backoff_secs = 60,
      bh_max_consecutive_failures = 10, bh_token_mapping = []\<rparr>"

definition demo_bot_env :: "f64 bot_env" where
  "demo_bot_env =
     \<lparr>be_var = (\<lambda>_. None), be_parsers = \<lparr>url_ok = (\<lambda>_. True), key_ok = (\<lambda>_. False)\<rparr>,
      be_from_str = (\<lambda>a. if address_ok a then Some 1 else None), be_debug = (\<lambda>_. ''0x''),
      be_from_timestamp = Some, be_metrics_ok = True, be_hl_metrics_ok = True,
      be_json = float_json, be_lits = float_lits\<rparr>"

definition demo_bot_config :: Config where
  "demo_bot_config =
     \<lparr>cf_network = None,
      cf_bot = \<lparr>bc_max_gas_price = 100, bc_min_profit_threshold = Finite False 1, bc_strategies = []\<rparr>,
      cf_performance = None, cf_monitoring = \<lparr>mo_prometheus_port = 9090, mo_log_level = ''info''\<rparr>,
      cf_hyperliquid = Some (demo_section 1000)\<rparr>"

lemma demo_bot_parses: "parses_addresses demo_bot_env"
  by (simp add: parses_addresses_def demo_bot_env_def)

lemma demo_section_accepted: "p \<noteq> 0 \<Longrightarrow> validate_section (demo_section p) = Inr ()"
  by (simp add: validate_section_def demo_section_def starts_with_def)

theorem typed_config_validates_witness:
  "validate_section (demo_section 50) = Inr () \<and> validate (hl_config_typed [] (demo_section 50)) \<noteq> Inr () \<and>
   validate (hl_config_typed [] (demo_section 1000)) = Inr ()"
proof -
  have enabled: "bh_enabled (demo_section p)" for p
    by (simp add: demo_section_def)
  show ?thesis
    using typed_config_validates [OF enabled, of "[]" 50] typed_config_validates [OF enabled, of "[]" 1000]
      demo_section_accepted [of 50] demo_section_accepted [of 1000]
    by (simp add: demo_section_def pair_ok_def)
qed

lemma demo_section_valid: "validate (hl_config_typed key (demo_section 1000)) = Inr ()"
  by (simp add: validate_accepts_iff hl_config_typed_def demo_section_def starts_with_def pair_ok_def)

theorem bot_startup_outcome_witness:
  "\<exists>b. bot_start demo_bot_env quiet_tx 0 demo_bot_config = Ret (BotStarted b) \<and>
     freshly_started demo_bot_env quiet_tx b"
proof -
  have "be_metrics_ok demo_bot_env" "be_hl_metrics_ok demo_bot_env"
    "cf_hyperliquid demo_bot_config = Some (demo_section 1000)" "bh_enabled (demo_section 1000)"
    "url_ok (be_parsers demo_bot_env) url" for url
    by (simp_all add: demo_bot_env_def demo_bot_config_def demo_section_def)
  with bot_startup_outcome [OF this(1,2) demo_bot_parses this(3,4), of quiet_tx 0] show ?thesis
    by (simp add: demo_section_valid)
qed

definition demo_event_env :: event_env where
  "demo_event_env =
     \<lparr>ee_utc_now = 0, ee_eval = demo_env, ee_order = (\<lambda>ks. ks), ee_current_time = 0, ee_evaluation_time = 0\<rparr>"


theorem started_bot_never_exits_witness:
  "\<exists>b. bot_start demo_bot_env quiet_tx 0 demo_bot_config = Ret (BotStarted b) \<and>
     \<not> bot_exits silent_env answering_node b False"
proof -
  have section_of: "cf_hyperliquid demo_bot_config = Some (demo_section 1000)" "bh_enabled (demo_section 1000)"
    by (simp_all add: demo_bot_config_def demo_section_def)
  have "start_hyperliquid demo_bot_env quiet_tx 0 (demo_section 1000) =
      bot_start demo_bot_env quiet_tx 0 demo_bot_config"
    by (rule bot_start_enabled [symmetric]) (simp_all add: section_of, simp add: demo_bot_env_def)
  moreover have "be_hl_metrics_ok demo_bot_env" "url_ok (be_parsers demo_bot_env) url" for url
    by (simp_all add: demo_bot_env_def)
  ultimately obtain b where b: "bot_start demo_bot_env quiet_tx 0 demo_bot_config = Ret (BotStarted b)"
    using start_hyperliquid_outcome [where X = demo_bot_env and hl = "demo_section 1000" and tx = quiet_tx and now = 0]
    by (auto simp: demo_bot_parses demo_section_valid)
  moreover have "\<not> shutdown_requested silent_env False"
    by (simp add: silent_env_def)
  ultimately show ?thesis
    using started_bot_never_exits [OF section_of b demo_quiet] by blast
qed

end
