(* ===== verification/Persistence.thy ===== *)
theory Persistence
  imports State_Manager "HOL-Library.List_Lexorder" "HOL-Library.Char_ord"
begin

text \<open>
  The SQLite store of \<open>crates/mev-core/src/persistence.rs\<close>. A table is its rows under their primary key,
  \<open>INSERT OR REPLACE\<close> is \<open>hm_insert\<close>, a query without \<open>ORDER BY\<close> gives the rows in any order. An INTEGER is a
  signed 64-bit number: binding a larger \<open>u64\<close> and reading a negative one as \<open>u64\<close> are errors of
  \<open>rusqlite\<close>. Text is compared byte by byte. Failures of the database itself are left out, and so is the
  schema, which the records state. Clocks, the texts of times and JSON come from \<open>sql_env\<close>, and so does the
  order in which the database comes across the rows of a table (\<open>sq_scan_headers\<close> and the like), which SQL
  leaves open: the code may rely on it being some arrangement of the rows and on nothing else.
\<close>

subsection \<open>Tables\<close>

record header_row =
  hr_number :: int
  hr_hash :: string
  hr_parent_hash :: string
  hr_timestamp :: int
  hr_gas_limit :: int
  hr_gas_used :: int
  hr_difficulty :: string
  hr_nonce :: string
  hr_created_at :: string

record tx_row =
  tr_hash :: string
  tr_from_address :: string
  tr_to_address :: "string option"
  tr_nonce :: int
  tr_gas_price :: int
  tr_gas_limit :: int
  tr_value :: string
  tr_data :: string
  tr_first_seen :: string
  tr_last_seen :: string
  tr_seen_count :: int
  tr_block_number :: "int option"
  tr_block_hash :: "string option"
  tr_status :: string
  tr_created_at :: string

record reorg_row =
  rr_old_chain :: string
  rr_new_chain :: string
  rr_common_ancestor :: string
  rr_depth :: int
  rr_detected_at :: string
  rr_affected_transactions :: string
  rr_created_at :: string

record sql_env =
  sq_rfc3339 :: "int \<Rightarrow> string"
  sq_parse_rfc3339 :: "string \<Rightarrow> int option"
  sq_current_timestamp :: "int \<Rightarrow> string"
  sq_sub_days :: "int \<Rightarrow> u32 \<Rightarrow> int option"
  sq_headers_json :: "BlockHeader list \<Rightarrow> string"
  sq_headers_of_json :: "string \<Rightarrow> BlockHeader list option"
  sq_header_json :: "BlockHeader \<Rightarrow> string"
  sq_header_of_json :: "string \<Rightarrow> BlockHeader option"
  sq_texts_json :: "string list \<Rightarrow> string"
  sq_texts_of_json :: "string \<Rightarrow> string list option"
  sq_scan_headers :: "header_row list \<Rightarrow> header_row list"
  sq_scan_transactions :: "tx_row list \<Rightarrow> tx_row list"
  sq_scan_reorgs :: "reorg_row list \<Rightarrow> reorg_row list"

record Database =
  db_block_headers :: "(int, header_row) hash_map"
  db_pending_transactions :: "(string, tx_row) hash_map"
  db_reorg_events :: "reorg_row list"
  db_nonce_tracker :: "(string, int) hash_map"

definition Database_new :: Database where
  "Database_new =
     \<lparr>db_block_headers = hm_empty, db_pending_transactions = hm_empty, db_reorg_events = [],
      db_nonce_tracker = hm_empty\<rparr>"

datatype sql_error = ToSqlConversion | IntegralValueOutOfRange int | InvalidColumnType nat string

definition u64_to_sql :: "u64 \<Rightarrow> sql_error + int" where
  "u64_to_sql n = (if unat n < 2 ^ 63 then Inr (uint n) else Inl ToSqlConversion)"

definition u64_of_sql :: "int \<Rightarrow> sql_error + u64" where
  "u64_of_sql i = (if 0 \<le> i then Inr (word_of_int i) else Inl (IntegralValueOutOfRange i))"

definition u32_of_sql :: "int \<Rightarrow> sql_error + u32" where
  "u32_of_sql i = (if 0 \<le> i \<and> i < 2 ^ 32 then Inr (word_of_int i) else Inl (IntegralValueOutOfRange i))"

text \<open>\<open>query_map\<close> with the loop that collects: the first row that cannot be read ends it.\<close>

fun collect_rows :: "('r \<Rightarrow> sql_error + 'a) \<Rightarrow> 'r list \<Rightarrow> sql_error + 'a list" where
  "collect_rows read_row [] = Inr []"
| "collect_rows read_row (r # rs) =
     res_bind (read_row r) (\<lambda>x. res_bind (collect_rows read_row rs) (\<lambda>xs. Inr (x # xs)))"

text \<open>
  \<open>ORDER BY key DESC LIMIT limit\<close>. Rows with equal keys stay in the order in which they were come across;
  as that order is open, so is theirs, and every descending arrangement of the rows is one of the results.
\<close>

definition latest :: "('r \<Rightarrow> 'k::linorder) \<Rightarrow> usize \<Rightarrow> 'r list \<Rightarrow> 'r list" where
  "latest key limit rows = take (unat limit) (rev (sort_key key (rev rows)))"

subsection \<open>Block headers\<close>

definition save_block_header :: "sql_env \<Rightarrow> int \<Rightarrow> BlockHeader \<Rightarrow> Database \<Rightarrow> sql_error + Database" where
  "save_block_header S now header db =
     res_bind (u64_to_sql (bh_number header)) (\<lambda>number.
     res_bind (u64_to_sql (bh_timestamp header)) (\<lambda>timestamp.
     res_bind (u64_to_sql (bh_gas_limit header)) (\<lambda>gas_limit.
     res_bind (u64_to_sql (bh_gas_used header)) (\<lambda>gas_used.
       Inr (db\<lparr>db_block_headers :=
         hm_insert number
           \<lparr>hr_number = number, hr_hash = bh_hash header, hr_parent_hash = bh_parent_hash header,
            hr_timestamp = timestamp, hr_gas_limit = gas_limit, hr_gas_used = gas_used,
            hr_difficulty = bh_difficulty header, hr_nonce = bh_nonce header,
            hr_created_at = sq_current_timestamp S now\<rparr>
           (db_block_headers db)\<rparr>)))))"

definition header_of_row :: "header_row \<Rightarrow> sql_error + BlockHeader" where
  "header_of_row r =
     res_bind (u64_of_sql (hr_number r)) (\<lambda>number.
     res_bind (u64_of_sql (hr_timestamp r)) (\<lambda>timestamp.
     res_bind (u64_of_sql (hr_gas_limit r)) (\<lambda>gas_limit.
     res_bind (u64_of_sql (hr_gas_used r)) (\<lambda>gas_used.
       Inr \<lparr>bh_number = number, bh_hash = hr_hash r, bh_parent_hash = hr_parent_hash r,
            bh_timestamp = timestamp, bh_gas_limit = gas_limit, bh_gas_used = gas_used,
            bh_difficulty = hr_difficulty r, bh_nonce = hr_nonce r\<rparr>))))"

definition load_recent_block_headers :: "sql_env \<Rightarrow> usize \<Rightarrow> Database \<Rightarrow> sql_error + BlockHeader list" where
  "load_recent_block_headers S limit db =
     res_bind (u64_to_sql limit) (\<lambda>_.
       collect_rows header_of_row
         (latest hr_number limit (sq_scan_headers S (hm_values (db_block_headers db)))))"

subsection \<open>Pending transactions\<close>

fun status_text :: "TransactionStatus \<Rightarrow> string" where
  "status_text Pending = ''Pending''"
| "status_text Included = ''Included''"
| "status_text Dropped = ''Dropped''"
| "status_text Replaced = ''Replaced''"

definition status_of_text :: "string \<Rightarrow> TransactionStatus" where
  "status_of_text s =
     (if s = ''Pending'' then Pending
      else if s = ''Included'' then Included
      else if s = ''Dropped'' then Dropped
      else if s = ''Replaced'' then Replaced
      else Pending)"

fun option_to_sql :: "u64 option \<Rightarrow> sql_error + int option" where
  "option_to_sql None = Inr None"
| "option_to_sql (Some n) = res_bind (u64_to_sql n) (\<lambda>i. Inr (Some i))"

fun option_of_sql :: "int option \<Rightarrow> sql_error + u64 option" where
  "option_of_sql None = Inr None"
| "option_of_sql (Some i) = res_bind (u64_of_sql i) (\<lambda>n. Inr (Some n))"

definition save_pending_transaction ::
    "sql_env \<Rightarrow> int \<Rightarrow> PendingTransactionState \<Rightarrow> Database \<Rightarrow> sql_error + Database" where
  "save_pending_transaction S now tx db =
     res_bind (u64_to_sql (pt_nonce tx)) (\<lambda>nonce.
     res_bind (u64_to_sql (pt_gas_price tx)) (\<lambda>gas_price.
     res_bind (u64_to_sql (pt_gas_limit tx)) (\<lambda>gas_limit.
     res_bind (option_to_sql (pt_block_number tx)) (\<lambda>block_number.
       Inr (db\<lparr>db_pending_transactions :=
         hm_insert (pt_hash tx)
           \<lparr>tr_hash = pt_hash tx, tr_from_address = pt_from tx, tr_to_address = pt_to tx, tr_nonce = nonce,
            tr_gas_price = gas_price, tr_gas_limit = gas_limit, tr_value = pt_value tx, tr_data = pt_data tx,
            tr_first_seen = sq_rfc3339 S (pt_first_seen tx), tr_last_seen = sq_rfc3339 S (pt_last_seen tx),
            tr_seen_count = uint (pt_seen_count tx), tr_block_number = block_number,
            tr_block_hash = pt_block_hash tx, tr_status = status_text (pt_status tx),
            tr_created_at = sq_current_timestamp S now\<rparr>
           (db_pending_transactions db)\<rparr>)))))"

text \<open>The times are parsed with \<open>unwrap\<close>; the fields are read in the order of the code.\<close>

definition transaction_of_row :: "sql_env \<Rightarrow> tx_row \<Rightarrow> (sql_error + PendingTransactionState) run" where
  "transaction_of_row S r =
     (case res_bind (u64_of_sql (tr_nonce r)) (\<lambda>nonce.
           res_bind (u64_of_sql (tr_gas_price r)) (\<lambda>gas_price.
           res_bind (u64_of_sql (tr_gas_limit r)) (\<lambda>gas_limit. Inr (nonce, gas_price, gas_limit)))) of
        Inl e \<Rightarrow> Ret (Inl e)
      | Inr (nonce, gas_price, gas_limit) \<Rightarrow>
          (case sq_parse_rfc3339 S (tr_first_seen r) of
             None \<Rightarrow> Panic
           | Some first_seen \<Rightarrow>
               (case sq_parse_rfc3339 S (tr_last_seen r) of
                  None \<Rightarrow> Panic
                | Some last_seen \<Rightarrow>
                    Ret (res_bind (u32_of_sql (tr_seen_count r)) (\<lambda>seen_count.
                         res_bind (option_of_sql (tr_block_number r)) (\<lambda>block_number.
                           Inr \<lparr>pt_hash = tr_hash r, pt_from = tr_from_address r, pt_to = tr_to_address r,
                                pt_nonce = nonce, pt_gas_price = gas_price, pt_gas_limit = gas_limit,
                                pt_value = tr_value r, pt_data = tr_data r, pt_first_seen = first_seen,
                                pt_last_seen = last_seen, pt_seen_count = seen_count,
                                pt_block_number = block_number, pt_block_hash = tr_block_hash r,
                                pt_status = status_of_text (tr_status r)\<rparr>))))))"

fun collect_runs :: "('r \<Rightarrow> (sql_error + 'a) run) \<Rightarrow> 'r list \<Rightarrow> (sql_error + 'a list) run" where
  "collect_runs read_row [] = Ret (Inr [])"
| "collect_runs read_row (r # rs) =
     run_bind (read_row r) (\<lambda>x.
       case x of
         Inl e \<Rightarrow> Ret (Inl e)
       | Inr x \<Rightarrow> run_bind (collect_runs read_row rs) (\<lambda>xs. Ret (res_bind xs (\<lambda>xs. Inr (x # xs)))))"

definition load_pending_transactions ::
    "sql_env \<Rightarrow> usize \<Rightarrow> Database \<Rightarrow> (sql_error + PendingTransactionState list) run" where
  "load_pending_transactions S limit db =
     (case u64_to_sql limit of
        Inl e \<Rightarrow> Ret (Inl e)
      | Inr _ \<Rightarrow>
          collect_runs (transaction_of_row S)
            (latest tr_first_seen limit
               (filter (\<lambda>r. tr_status r = ''Pending'')
                 (sq_scan_transactions S (hm_values (db_pending_transactions db))))))"

subsection \<open>Reorganizations\<close>

definition save_reorg_event :: "sql_env \<Rightarrow> int \<Rightarrow> ReorgEvent \<Rightarrow> Database \<Rightarrow> sql_error + Database" where
  "save_reorg_event S now event db =
     res_bind (u64_to_sql (re_depth event)) (\<lambda>depth.
       Inr (db\<lparr>db_reorg_events := db_reorg_events db @
         [\<lparr>rr_old_chain = sq_headers_json S (re_old_chain event),
           rr_new_chain = sq_headers_json S (re_new_chain event),
           rr_common_ancestor = sq_header_json S (re_common_ancestor event), rr_depth = depth,
           rr_detected_at = sq_rfc3339 S (re_detected_at event),
           rr_affected_transactions = sq_texts_json S (re_affected_transactions event),
           rr_created_at = sq_current_timestamp S now\<rparr>]\<rparr>))"

definition reorg_of_row :: "sql_env \<Rightarrow> reorg_row \<Rightarrow> (sql_error + ReorgEvent) run" where
  "reorg_of_row S r =
     (case res_bind (ok_or (InvalidColumnType 0 ''old_chain'') (sq_headers_of_json S (rr_old_chain r))) (\<lambda>old_chain.
           res_bind (ok_or (InvalidColumnType 1 ''new_chain'') (sq_headers_of_json S (rr_new_chain r))) (\<lambda>new_chain.
           res_bind (ok_or (InvalidColumnType 2 ''common_ancestor'') (sq_header_of_json S (rr_common_ancestor r)))
             (\<lambda>common_ancestor.
           res_bind (ok_or (InvalidColumnType 5 ''affected_transactions'')
               (sq_texts_of_json S (rr_affected_transactions r))) (\<lambda>affected.
           res_bind (u64_of_sql (rr_depth r)) (\<lambda>depth.
             Inr (old_chain, new_chain, common_ancestor, affected, depth)))))) of
        Inl e \<Rightarrow> Ret (Inl e)
      | Inr (old_chain, new_chain, common_ancestor, affected, depth) \<Rightarrow>
          (case sq_parse_rfc3339 S (rr_detected_at r) of
             None \<Rightarrow> Panic
           | Some detected_at \<Rightarrow>
               Ret (Inr \<lparr>re_old_chain = old_chain, re_new_chain = new_chain,
                         re_common_ancestor = common_ancestor, re_depth = depth, re_detected_at = detected_at,
                         re_affected_transactions = affected\<rparr>)))"

definition load_reorg_events :: "sql_env \<Rightarrow> usize \<Rightarrow> Database \<Rightarrow> (sql_error + ReorgEvent list) run" where
  "load_reorg_events S limit db =
     (case u64_to_sql limit of
        Inl e \<Rightarrow> Ret (Inl e)
      | Inr _ \<Rightarrow> collect_runs (reorg_of_row S)
                     (latest rr_detected_at limit (sq_scan_reorgs S (db_reorg_events db))))"

subsection \<open>Nonces\<close>

definition save_nonce_tracker :: "string \<Rightarrow> u64 \<Rightarrow> Database \<Rightarrow> sql_error + Database" where
  "save_nonce_tracker address nonce db =
     res_bind (u64_to_sql nonce) (\<lambda>n.
       Inr (db\<lparr>db_nonce_tracker := hm_insert address n (db_nonce_tracker db)\<rparr>))"

definition load_nonce_tracker :: "Database \<Rightarrow> sql_error + (string, u64) hash_map" where
  "load_nonce_tracker db =
     res_bind (collect_rows (\<lambda>(address, i). res_bind (u64_of_sql i) (\<lambda>n. Inr (address, n))) (db_nonce_tracker db))
       (\<lambda>entries. Inr (fold (\<lambda>(address, nonce). hm_insert address nonce) entries hm_empty))"

subsection \<open>Clean-up and statistics\<close>

text \<open>
  \<open>created_at\<close> is compared with the cutoff as text. \<open>MAX\<close> of no rows is NULL, and nothing is less than
  NULL. Subtracting the days panics when the date is out of range.
\<close>

definition delete_old_blocks :: "(int, header_row) hash_map \<Rightarrow> (int, header_row) hash_map" where
  "delete_old_blocks m =
     (if m = [] then m
      else let cutoff = Max (set (map hr_number (hm_values m))) - 10000
           in hm_retain (\<lambda>_ r. \<not> hr_number r < cutoff) m)"

definition cleanup_old_data :: "sql_env \<Rightarrow> int \<Rightarrow> u32 \<Rightarrow> Database \<Rightarrow> Database run" where
  "cleanup_old_data S now days_to_keep db =
     (case sq_sub_days S now days_to_keep of
        None \<Rightarrow> Panic
      | Some cutoff_date \<Rightarrow>
          (let cutoff = sq_rfc3339 S cutoff_date
           in Ret \<lparr>db_block_headers = delete_old_blocks (db_block_headers db),
                   db_pending_transactions =
                     hm_retain (\<lambda>_ r. \<not> tr_created_at r < cutoff) (db_pending_transactions db),
                   db_reorg_events = filter (\<lambda>r. \<not> rr_created_at r < cutoff) (db_reorg_events db),
                   db_nonce_tracker = db_nonce_tracker db\<rparr>))"

record PersistenceStats =
  ps_block_headers :: usize
  ps_pending_transactions :: usize
  ps_reorg_events :: usize
  ps_tracked_addresses :: usize

definition persistence_get_stats :: "Database \<Rightarrow> PersistenceStats" where
  "persistence_get_stats db =
     \<lparr>ps_block_headers = of_nat (hm_len (db_block_headers db)),
      ps_pending_transactions =
        of_nat (length (filter (\<lambda>r. tr_status r = ''Pending'') (hm_values (db_pending_transactions db)))),
      ps_reorg_events = of_nat (length (db_reorg_events db)),
      ps_tracked_addresses = of_nat (hm_len (db_nonce_tracker db))\<rparr>"

end
