(* ===== verification/Persistence_Facts.thy ===== *)
theory Persistence_Facts
  imports Persistence Rust_Std "HOL-Library.Multiset"
begin

text \<open>
  What is read back from the store: headers, pending transactions and nonces that were saved, in which
  order, and what the clean-up leaves.
\<close>

subsection \<open>Numbers and order\<close>

lemma u64_sql_roundtrip: "u64_of_sql (uint n) = Inr n"
  by (simp add: u64_of_sql_def)

lemma u32_sql_roundtrip: "u32_of_sql (uint n) = Inr n"
  using uint_lt2p [of n] by (simp add: u32_of_sql_def)

lemma u64_to_sql_Inr: "unat n < 2 ^ 63 \<Longrightarrow> u64_to_sql n = Inr (uint n)"
  by (simp add: u64_to_sql_def)

lemma option_sql_roundtrip:
  "option_to_sql n = Inr i \<Longrightarrow> option_of_sql i = Inr n"
  by (cases n) (auto simp: res_bind_Inr_iff u64_to_sql_def u64_sql_roundtrip split: if_splits)

lemma insort_key_map: "insort_key f (g x) (map g xs) = map g (insort_key (\<lambda>x. f (g x)) x xs)"
  by (induction xs) simp_all

lemma sort_key_map: "sort_key f (map g xs) = map g (sort_key (\<lambda>x. f (g x)) xs)"
  by (induction xs) (simp_all add: insort_key_map)

lemma latest_map: "latest f limit (map g xs) = map g (latest (\<lambda>x. f (g x)) limit xs)"
  by (simp add: latest_def sort_key_map rev_map take_map)

lemma insort_key_uint: "insort_key (\<lambda>x. uint (f x)) x xs = insort_key f x xs"
  by (induction xs) (simp_all add: word_le_def)

lemma sort_key_uint: "sort_key (\<lambda>x. uint (f x)) xs = sort_key f xs"
  by (induction xs) (simp_all add: insort_key_uint)

lemma latest_uint: "latest (\<lambda>x. uint (f x)) limit xs = latest f limit xs"
  by (simp add: latest_def sort_key_uint)

text \<open>
  What \<open>ORDER BY key DESC LIMIT limit\<close> promises: the rows come in descending order, as many as the limit
  allows, and no row that is left out has a larger key than one that is returned.
\<close>

definition most_recent :: "('r \<Rightarrow> 'k::linorder) \<Rightarrow> usize \<Rightarrow> 'r list \<Rightarrow> 'r list \<Rightarrow> bool" where
  "most_recent key limit rows loaded \<longleftrightarrow>
     sorted_wrt (\<lambda>x y. key y \<le> key x) loaded \<and> length loaded = min (unat limit) (length rows) \<and>
     (\<exists>others. mset rows = mset loaded + mset others \<and> (\<forall>x\<in>set loaded. \<forall>y\<in>set others. key y \<le> key x))"

lemma descending_rows: "sorted_wrt (\<lambda>x y. key y \<le> key x) (rev (sort_key key rows))"
  using sorted_sort_key [of key rows] by (simp add: sorted_wrt_rev sorted_map)

lemma latest_most_recent:
  assumes "mset scanned = mset rows"
  shows "most_recent key limit rows (latest key limit scanned)"
proof -
  let ?desc = "rev (sort_key key (rev scanned))"
  have "sorted_wrt (\<lambda>x y. key y \<le> key x) (take (unat limit) ?desc @ drop (unat limit) ?desc)"
    using descending_rows by simp
  then have "sorted_wrt (\<lambda>x y. key y \<le> key x) (take (unat limit) ?desc)"
    "\<forall>x\<in>set (take (unat limit) ?desc). \<forall>y\<in>set (drop (unat limit) ?desc). key y \<le> key x"
    unfolding sorted_wrt_append by simp_all
  moreover have "mset rows = mset (take (unat limit) ?desc) + mset (drop (unat limit) ?desc)"
    using assms by (simp flip: mset_append)
  moreover have "length (take (unat limit) ?desc) = min (unat limit) (length rows)"
    using mset_eq_length [OF assms] by (simp add: min.commute)
  ultimately show ?thesis
    unfolding most_recent_def latest_def by blast
qed

lemma latest_distinct:
  assumes "mset scanned = mset rows" and "distinct (map key rows)"
  shows "latest key limit scanned = take (unat limit) (rev (sort_key key rows))"
proof -
  have "sort_key key (rev scanned) = sort_key key rows"
    using assms by (intro sort_key_inj_key_eq) (auto simp: distinct_map dest: mset_eq_setD)
  then show ?thesis
    by (simp add: latest_def)
qed

lemma arranged_map:
  "mset ys = mset (map f xs) \<Longrightarrow> \<exists>xs'. ys = map f xs' \<and> mset xs' = mset xs"
proof (induction ys arbitrary: xs)
  case (Cons y ys)
  have "y \<in> set (map f xs)"
    using mset_eq_setD [OF Cons.prems] by auto
  then obtain x where x: "x \<in> set xs" "y = f x"
    by auto
  have "mset xs = add_mset x (mset (remove1 x xs))"
    using x(1) by simp
  then have "mset ys = mset (map f (remove1 x xs))"
    using Cons.prems x(2) by (metis add_mset_add_single add_right_cancel image_mset_add_mset mset.simps(2) mset_map)
  from Cons.IH [OF this] obtain xs' where "ys = map f xs'" "mset xs' = mset (remove1 x xs)"
    by blast
  with x show ?case
    by (intro exI [of _ "x # xs'"]) simp
qed simp

text \<open>What the database documents: it comes across every row of a table once.\<close>

definition scans_rows :: "sql_env \<Rightarrow> bool" where
  "scans_rows S \<longleftrightarrow>
     (\<forall>rows. mset (sq_scan_headers S rows) = mset rows) \<and> (\<forall>rows. mset (sq_scan_transactions S rows) = mset rows) \<and>
     (\<forall>rows. mset (sq_scan_reorgs S rows) = mset rows)"

lemma collect_rows_map:
  "(\<And>x. x \<in> set xs \<Longrightarrow> read_row (g x) = Inr (f x)) \<Longrightarrow> collect_rows read_row (map g xs) = Inr (map f xs)"
  by (induction xs) simp_all

lemma collect_runs_map:
  "(\<And>x. x \<in> set xs \<Longrightarrow> read_row (g x) = Ret (Inr (f x))) \<Longrightarrow>
     collect_runs read_row (map g xs) = Ret (Inr (map f xs))"
  by (induction xs) simp_all

subsection \<open>Headers\<close>

definition header_fits :: "BlockHeader \<Rightarrow> bool" where
  "header_fits h \<longleftrightarrow> unat (bh_number h) < 2 ^ 63 \<and> unat (bh_timestamp h) < 2 ^ 63 \<and>
     unat (bh_gas_limit h) < 2 ^ 63 \<and> unat (bh_gas_used h) < 2 ^ 63"

definition row_of_header :: "sql_env \<Rightarrow> int \<times> BlockHeader \<Rightarrow> header_row" where
  "row_of_header S x =
     (let (now, h) = x in
      \<lparr>hr_number = uint (bh_number h), hr_hash = bh_hash h, hr_parent_hash = bh_parent_hash h,
       hr_timestamp = uint (bh_timestamp h), hr_gas_limit = uint (bh_gas_limit h),
       hr_gas_used = uint (bh_gas_used h), hr_difficulty = bh_difficulty h, hr_nonce = bh_nonce h,
       hr_created_at = sq_current_timestamp S now\<rparr>)"

fun save_headers :: "sql_env \<Rightarrow> (int \<times> BlockHeader) list \<Rightarrow> Database \<Rightarrow> sql_error + Database" where
  "save_headers S [] db = Inr db"
| "save_headers S ((now, h) # hs) db = res_bind (save_block_header S now h db) (save_headers S hs)"

lemma save_block_header_Inr:
  "header_fits h \<Longrightarrow> save_block_header S now h db =
     Inr (db\<lparr>db_block_headers := hm_insert (uint (bh_number h)) (row_of_header S (now, h)) (db_block_headers db)\<rparr>)"
  by (simp add: header_fits_def save_block_header_def u64_to_sql_Inr row_of_header_def)

lemma header_row_roundtrip: "header_of_row (row_of_header S x) = Inr (snd x)"
  by (simp add: header_of_row_def row_of_header_def u64_sql_roundtrip split: prod.split)

lemma save_headers_rows:
  assumes "list_all (\<lambda>x. header_fits (snd x)) hs" and "distinct (map (\<lambda>x. bh_number (snd x)) hs)"
    and "(\<lambda>x. uint (bh_number (snd x))) ` set hs \<inter> fst ` set (db_block_headers db) = {}"
  shows "save_headers S hs db =
    Inr (db\<lparr>db_block_headers := db_block_headers db @
      map (\<lambda>x. (uint (bh_number (snd x)), row_of_header S x)) hs\<rparr>)"
  using assms
proof (induction hs arbitrary: db)
  case (Cons x hs)
  obtain now h where x: "x = (now, h)"
    by (cases x)
  have "uint (bh_number h) \<notin> (\<lambda>x. uint (bh_number (snd x))) ` set hs"
    using Cons.prems(2) by (force simp: x simp flip: word_uint_eq_iff)
  with Cons.prems Cons.IH show ?case
    by (auto simp: x save_block_header_Inr hm_insert_new)
qed simp

text \<open>Headers that were saved are read back unchanged, those with the highest numbers first, as long as
  their numbers are distinct and fit the signed integers of the database.
\<close>

theorem headers_roundtrip:
  assumes "scans_rows S" and "list_all (\<lambda>x. header_fits (snd x)) hs"
    and "distinct (map (\<lambda>x. bh_number (snd x)) hs)" and "unat limit < 2 ^ 63"
  shows "res_bind (save_headers S hs Database_new) (load_recent_block_headers S limit) =
    Inr (take (unat limit) (rev (sort_key bh_number (map snd hs))))"
proof -
  have rows: "hm_values (map (\<lambda>x. (uint (bh_number (snd x)), row_of_header S x)) hs) = map (row_of_header S) hs"
    by (simp add: hm_values_def)
  have number: "hr_number (row_of_header S x) = uint (bh_number (snd x))" for x
    by (simp add: row_of_header_def split: prod.split)
  have "mset (sq_scan_headers S (map (row_of_header S) hs)) = mset (map (row_of_header S) hs)"
    using assms(1) by (simp add: scans_rows_def)
  then obtain hs' where hs': "sq_scan_headers S (map (row_of_header S) hs) = map (row_of_header S) hs'"
    "mset hs' = mset hs"
    using arranged_map by blast
  have "latest bh_number limit (map snd hs') = take (unat limit) (rev (sort_key bh_number (map snd hs)))"
    using assms(3) hs'(2) by (intro latest_distinct) (simp_all add: comp_def)
  then show ?thesis
    using save_headers_rows [OF assms(2,3), of Database_new S] assms(4)
    by (simp add: Database_new_def hm_empty_def load_recent_block_headers_def u64_to_sql_Inr rows hs'(1) latest_map
        number latest_uint collect_rows_map [where f = snd] header_row_roundtrip)
qed

subsection \<open>Pending transactions\<close>

definition tx_fits :: "PendingTransactionState \<Rightarrow> bool" where
  "tx_fits tx \<longleftrightarrow> unat (pt_nonce tx) < 2 ^ 63 \<and> unat (pt_gas_price tx) < 2 ^ 63 \<and>
     unat (pt_gas_limit tx) < 2 ^ 63 \<and> pred_option (\<lambda>n. unat n < 2 ^ 63) (pt_block_number tx)"

text \<open>What \<open>chrono\<close> documents: the RFC 3339 text of a time is parsed to the time.\<close>

definition times_roundtrip :: "sql_env \<Rightarrow> bool" where
  "times_roundtrip S \<longleftrightarrow> (\<forall>t. sq_parse_rfc3339 S (sq_rfc3339 S t) = Some t)"

definition row_of_tx :: "sql_env \<Rightarrow> int \<times> PendingTransactionState \<Rightarrow> tx_row" where
  "row_of_tx S x =
     (let (now, tx) = x in
      \<lparr>tr_hash = pt_hash tx, tr_from_address = pt_from tx, tr_to_address = pt_to tx, tr_nonce = uint (pt_nonce tx),
       tr_gas_price = uint (pt_gas_price tx), tr_gas_limit = uint (pt_gas_limit tx), tr_value = pt_value tx,
       tr_data = pt_data tx, tr_first_seen = sq_rfc3339 S (pt_first_seen tx),
       tr_last_seen = sq_rfc3339 S (pt_last_seen tx), tr_seen_count = uint (pt_seen_count tx),
       tr_block_number = map_option uint (pt_block_number tx), tr_block_hash = pt_block_hash tx,
       tr_status = status_text (pt_status tx), tr_created_at = sq_current_timestamp S now\<rparr>)"

fun save_transactions ::
    "sql_env \<Rightarrow> (int \<times> PendingTransactionState) list \<Rightarrow> Database \<Rightarrow> sql_error + Database" where
  "save_transactions S [] db = Inr db"
| "save_transactions S ((now, tx) # txs) db =
     res_bind (save_pending_transaction S now tx db) (save_transactions S txs)"

lemma option_to_sql_Inr: "pred_option (\<lambda>n. unat n < 2 ^ 63) n \<Longrightarrow> option_to_sql n = Inr (map_option uint n)"
  by (cases n) (simp_all add: u64_to_sql_Inr)

lemma save_pending_Inr:
  "tx_fits tx \<Longrightarrow> save_pending_transaction S now tx db =
     Inr (db\<lparr>db_pending_transactions := hm_insert (pt_hash tx) (row_of_tx S (now, tx)) (db_pending_transactions db)\<rparr>)"
  by (simp add: tx_fits_def save_pending_transaction_def u64_to_sql_Inr option_to_sql_Inr row_of_tx_def)

lemma status_roundtrip: "status_of_text (status_text s) = s"
  by (cases s) (simp_all add: status_of_text_def)

lemma option_of_sql_uint: "option_of_sql (map_option uint n) = Inr n"
  by (cases n) (simp_all add: u64_sql_roundtrip)

lemma tx_row_roundtrip: "times_roundtrip S \<Longrightarrow> transaction_of_row S (row_of_tx S x) = Ret (Inr (snd x))"
  by (simp add: transaction_of_row_def row_of_tx_def u64_sql_roundtrip u32_sql_roundtrip option_of_sql_uint
      status_roundtrip times_roundtrip_def split: prod.split)

lemma row_of_tx_status:
  "(tr_status (row_of_tx S x) = ''Pending'') = (pt_status (snd x) = Pending)"
  "tr_first_seen (row_of_tx S x) = sq_rfc3339 S (pt_first_seen (snd x))"
proof -
  have "(status_text s = ''Pending'') = (s = Pending)" for s
    by (cases s) simp_all
  then show "(tr_status (row_of_tx S x) = ''Pending'') = (pt_status (snd x) = Pending)"
    "tr_first_seen (row_of_tx S x) = sq_rfc3339 S (pt_first_seen (snd x))"
    by (simp_all add: row_of_tx_def split: prod.split)
qed

lemma save_transactions_rows:
  assumes "list_all (\<lambda>x. tx_fits (snd x)) txs" and "distinct (map (\<lambda>x. pt_hash (snd x)) txs)"
    and "(\<lambda>x. pt_hash (snd x)) ` set txs \<inter> fst ` set (db_pending_transactions db) = {}"
  shows "save_transactions S txs db =
    Inr (db\<lparr>db_pending_transactions := db_pending_transactions db @
      map (\<lambda>x. (pt_hash (snd x), row_of_tx S x)) txs\<rparr>)"
  using assms
proof (induction txs arbitrary: db)
  case (Cons x txs)
  obtain now tx where "x = (now, tx)"
    by (cases x)
  with Cons.prems Cons.IH show ?case
    by (auto simp: save_pending_Inr hm_insert_new)
qed simp

text \<open>C37: Of the transactions that were saved, in whatever order the database comes across them, as many
  pending ones as the limit allows are read back unchanged, in descending order of the text of the time they
  were first seen, and none that is left out has a later text than one that is returned; the others are never
  returned. Which of several with the same text come first or are cut off by the limit is left open; when the
  texts differ the list is determined. The hashes are distinct and the numbers fit the signed integers of the
  database.
\<close>

theorem pending_roundtrip:
  fixes S :: sql_env and txs :: "(int \<times> PendingTransactionState) list"
  defines "pending \<equiv> filter (\<lambda>tx. pt_status tx = Pending) (map snd txs)"
    and "first_seen \<equiv> \<lambda>tx. sq_rfc3339 S (pt_first_seen tx)"
  assumes "times_roundtrip S" and "scans_rows S" and "list_all (\<lambda>x. tx_fits (snd x)) txs"
    and "distinct (map (\<lambda>x. pt_hash (snd x)) txs)" and "unat limit < 2 ^ 63"
  shows "\<exists>db loaded. save_transactions S txs Database_new = Inr db \<and>
    load_pending_transactions S limit db = Ret (Inr loaded) \<and> most_recent first_seen limit pending loaded \<and>
    (distinct (map first_seen pending) \<longrightarrow> loaded = take (unat limit) (rev (sort_key first_seen pending)))"
proof -
  let ?db = "Database_new\<lparr>db_pending_transactions := map (\<lambda>x. (pt_hash (snd x), row_of_tx S x)) txs\<rparr>"
  have saved: "save_transactions S txs Database_new = Inr ?db"
    using save_transactions_rows [OF assms(5,6), of Database_new S] by (simp add: Database_new_def hm_empty_def)
  have rows: "hm_values (db_pending_transactions ?db) = map (row_of_tx S) txs"
    by (simp add: hm_values_def)
  have "mset (sq_scan_transactions S (map (row_of_tx S) txs)) = mset (map (row_of_tx S) txs)"
    using assms(4) by (simp add: scans_rows_def)
  then obtain txs' where txs': "sq_scan_transactions S (map (row_of_tx S) txs) = map (row_of_tx S) txs'"
    "mset txs' = mset txs"
    using arranged_map by blast
  let ?scanned = "filter (\<lambda>tx. pt_status tx = Pending) (map snd txs')"
  have scanned: "mset ?scanned = mset pending"
    using txs'(2) by (simp add: pending_def)
  have "load_pending_transactions S limit ?db =
      collect_runs (transaction_of_row S) (map (row_of_tx S)
        (latest (\<lambda>x. first_seen (snd x)) limit (filter (\<lambda>x. pt_status (snd x) = Pending) txs')))"
    using assms(7) unfolding load_pending_transactions_def rows txs'(1)
    by (simp add: u64_to_sql_Inr filter_map comp_def row_of_tx_status latest_map first_seen_def)
  also have "\<dots> = Ret (Inr (map snd
        (latest (\<lambda>x. first_seen (snd x)) limit (filter (\<lambda>x. pt_status (snd x) = Pending) txs'))))"
    by (rule collect_runs_map) (rule tx_row_roundtrip [OF assms(3)])
  also have "\<dots> = Ret (Inr (latest first_seen limit ?scanned))"
    by (simp add: filter_map comp_def latest_map)
  finally show ?thesis
    using saved latest_most_recent [OF scanned] latest_distinct [OF scanned] by blast
qed

subsection \<open>Nonces\<close>

fun save_nonces :: "(string \<times> u64) list \<Rightarrow> Database \<Rightarrow> sql_error + Database" where
  "save_nonces [] db = Inr db"
| "save_nonces ((address, nonce) # es) db = res_bind (save_nonce_tracker address nonce db) (save_nonces es)"

lemma collect_nonces:
  "collect_rows (\<lambda>(address, i). res_bind (u64_of_sql i) (\<lambda>n. Inr (address, n))) (map (\<lambda>(a, n). (a, uint n)) es) = Inr es"
  using collect_rows_map [where f = "\<lambda>x. x" and xs = es and g = "\<lambda>(a, n). (a, uint n)"]
  by (simp add: u64_sql_roundtrip split: prod.split)

lemma fold_insert_get:
  "hm_get (fold (\<lambda>(a, n). hm_insert a n) es m) k = (case map_of (rev es) k of Some n \<Rightarrow> Some n | None \<Rightarrow> hm_get m k)"
  by (induction es arbitrary: m) (auto simp: map_add_def split: option.splits)

lemma fold_insert_wf: "hm_wf m \<Longrightarrow> hm_wf (fold (\<lambda>(a, n). hm_insert a n) es m)"
  by (induction es arbitrary: m) auto

lemma distinct_map_of_rev: "distinct (map fst m) \<Longrightarrow> map_of (rev m) k = map_of m k"
proof (induction m)
  case (Cons e m)
  then have "map_of m (fst e) = None"
    by (simp add: map_of_eq_None_iff)
  with Cons show ?case
    by (cases e) (auto simp: map_add_def split: option.split)
qed simp

lemma hm_insert_map: "hm_insert k (f v) (map (\<lambda>(a, n). (a, f n)) m) = map (\<lambda>(a, n). (a, f n)) (hm_insert k v m)"
  unfolding hm_insert_def by (induction m) auto

lemma save_nonces_rows:
  "list_all (\<lambda>e. unat (snd e) < 2 ^ 63) es \<Longrightarrow>
   db_nonce_tracker db = map (\<lambda>(a, n). (a, uint n)) m \<Longrightarrow>
   save_nonces es db =
     Inr (db\<lparr>db_nonce_tracker := map (\<lambda>(a, n). (a, uint n)) (fold (\<lambda>(a, n). hm_insert a n) es m)\<rparr>)"
  by (induction es arbitrary: db m)
    (auto simp: save_nonce_tracker_def u64_to_sql_Inr hm_insert_map [where f = uint])

text \<open>The last nonce saved for an address is the one that is loaded.\<close>

theorem nonces_roundtrip:
  assumes "list_all (\<lambda>e. unat (snd e) < 2 ^ 63) es"
  shows "\<exists>db m. save_nonces es Database_new = Inr db \<and> load_nonce_tracker db = Inr m \<and>
    (\<forall>a. hm_get m a = map_of (rev es) a)"
proof -
  let ?m = "fold (\<lambda>(a, n). hm_insert a n) es hm_empty"
  have "save_nonces es Database_new = Inr (Database_new\<lparr>db_nonce_tracker := map (\<lambda>(a, n). (a, uint n)) ?m\<rparr>)"
    by (rule save_nonces_rows [OF assms]) (simp add: Database_new_def hm_empty_def)
  moreover have "hm_wf ?m"
    by (rule fold_insert_wf) simp
  then have "map_of (rev ?m) = hm_get ?m"
    by (auto simp: hm_wf_def hm_get_def distinct_map_of_rev)
  ultimately show ?thesis
    by (auto simp: load_nonce_tracker_def collect_nonces fold_insert_get split: option.split)
qed

subsection \<open>The clean-up\<close>

text \<open>Rows are stored under their own number; every operation keeps that.\<close>

definition headers_ok :: "Database \<Rightarrow> bool" where
  "headers_ok db \<longleftrightarrow> hm_wf (db_block_headers db) \<and>
     (\<forall>n r. hm_get (db_block_headers db) n = Some r \<longrightarrow> hr_number r = n)"

lemma headers_ok_new: "headers_ok Database_new"
  by (simp add: headers_ok_def Database_new_def)

lemma headers_ok_save: "save_block_header S now h db = Inr db' \<Longrightarrow> headers_ok db \<Longrightarrow> headers_ok db'"
  by (auto simp: save_block_header_def res_bind_Inr_iff headers_ok_def split: if_splits)

lemma headers_ok_others:
  "save_pending_transaction S now tx db = Inr db' \<Longrightarrow> headers_ok db \<Longrightarrow> headers_ok db'"
  "save_reorg_event S now event db = Inr db' \<Longrightarrow> headers_ok db \<Longrightarrow> headers_ok db'"
  "save_nonce_tracker a n db = Inr db' \<Longrightarrow> headers_ok db \<Longrightarrow> headers_ok db'"
  by (auto simp: save_pending_transaction_def save_reorg_event_def save_nonce_tracker_def res_bind_Inr_iff headers_ok_def)

lemma headers_ok_cleanup: "cleanup_old_data S now days db = Ret db' \<Longrightarrow> headers_ok db \<Longrightarrow> headers_ok db'"
  by (auto simp: cleanup_old_data_def delete_old_blocks_def headers_ok_def hm_get_retain Let_def
      split: option.splits if_splits)

inductive persistence_step :: "sql_env \<Rightarrow> Database \<Rightarrow> Database \<Rightarrow> bool" for S :: sql_env where
  ps_header: "save_block_header S now h db = Inr db' \<Longrightarrow> persistence_step S db db'"
| ps_pending: "save_pending_transaction S now tx db = Inr db' \<Longrightarrow> persistence_step S db db'"
| ps_reorg: "save_reorg_event S now event db = Inr db' \<Longrightarrow> persistence_step S db db'"
| ps_nonce: "save_nonce_tracker a n db = Inr db' \<Longrightarrow> persistence_step S db db'"
| ps_cleanup: "cleanup_old_data S now days db = Ret db' \<Longrightarrow> persistence_step S db db'"

lemma headers_ok_reachable: "(persistence_step S)\<^sup>*\<^sup>* Database_new db \<Longrightarrow> headers_ok db"
proof (induction rule: rtranclp_induct)
  case (step db db')
  from step(2,3) show ?case
    by cases (auto intro: headers_ok_save headers_ok_others headers_ok_cleanup)
qed (rule headers_ok_new)

lemma header_numbers: "headers_ok db \<Longrightarrow> set (map hr_number (hm_values (db_block_headers db))) = set (hm_keys (db_block_headers db))"
  by (force simp: headers_ok_def hm_values_def hm_keys_def hm_get_Some_iff)

lemma delete_old_blocks_get:
  assumes "headers_ok db" and "db_block_headers db \<noteq> []"
  shows "hm_get (delete_old_blocks (db_block_headers db)) n =
    (if Max (set (hm_keys (db_block_headers db))) - 10000 \<le> n then hm_get (db_block_headers db) n else None)"
proof (cases "hm_get (db_block_headers db) n")
  case (Some r)
  then have "hr_number r = n"
    using assms(1) by (simp add: headers_ok_def)
  with assms Some header_numbers [OF assms(1)] show ?thesis
    by (simp add: delete_old_blocks_def hm_get_retain headers_ok_def Let_def)
qed (use assms in \<open>simp add: delete_old_blocks_def hm_get_retain headers_ok_def Let_def\<close>)

lemma cleanup_headers:
  assumes "(persistence_step S)\<^sup>*\<^sup>* Database_new db" and "cleanup_old_data S now days db = Ret db'"
  defines "highest \<equiv> Max (set (hm_keys (db_block_headers db)))"
  shows "hm_get (db_block_headers db') n = (if highest - 10000 \<le> n then hm_get (db_block_headers db) n else None)"
    and "hm_len (db_block_headers db') \<le> 10001"
    and "db_nonce_tracker db' = db_nonce_tracker db"
proof -
  have ok: "headers_ok db"
    using headers_ok_reachable [OF assms(1)] .
  have headers: "db_block_headers db' = delete_old_blocks (db_block_headers db)"
    and nonces: "db_nonce_tracker db' = db_nonce_tracker db"
    using assms(2) by (auto simp: cleanup_old_data_def Let_def split: option.splits)
  show get: "hm_get (db_block_headers db') n = (if highest - 10000 \<le> n then hm_get (db_block_headers db) n else None)" for n
    using delete_old_blocks_get [OF ok, of n]
    by (cases "db_block_headers db = []") (simp_all add: headers highest_def delete_old_blocks_def hm_get_def)
  have "set (hm_keys (db_block_headers db')) \<subseteq> {highest - 10000..highest}"
  proof
    fix k
    assume "k \<in> set (hm_keys (db_block_headers db'))"
    then have "hm_get (db_block_headers db') k \<noteq> None"
      by (simp add: hm_get_None_iff)
    then have "highest - 10000 \<le> k" "k \<in> set (hm_keys (db_block_headers db))"
      using get [of k] hm_get_None_iff [of "db_block_headers db" k] by (auto split: if_splits)
    then show "k \<in> {highest - 10000..highest}"
      by (simp add: highest_def)
  qed
  then have "card (set (hm_keys (db_block_headers db'))) \<le> card {highest - 10000..highest}"
    by (intro card_mono) simp_all
  moreover have "distinct (hm_keys (db_block_headers db'))"
    using headers_ok_cleanup [OF assms(2) ok] by (simp add: headers_ok_def hm_wf_def hm_keys_def)
  ultimately show "hm_len (db_block_headers db') \<le> 10001"
    using distinct_card [of "hm_keys (db_block_headers db')"] by (simp add: hm_len_def) (simp add: hm_keys_def)
  show "db_nonce_tracker db' = db_nonce_tracker db"
    using nonces .
qed

text \<open>C38: A clean-up of any store that the operations can reach keeps exactly the headers whose number is at
  most 10000 below the highest: at most 10001 of them, one more than the comment says, and all of them
  when there are 10001 in a row. The nonces stay as they are.
\<close>

theorem cleanup_keeps_recent_headers:
  assumes "(persistence_step S)\<^sup>*\<^sup>* Database_new db" and "cleanup_old_data S now days db = Ret db'"
  shows "hm_get (db_block_headers db') n =
      (if Max (set (hm_keys (db_block_headers db))) - 10000 \<le> n then hm_get (db_block_headers db) n else None) \<and>
    hm_len (db_block_headers db') \<le> 10001 \<and>
    db_nonce_tracker db' = db_nonce_tracker db"
  by (intro conjI cleanup_headers [OF assms])

subsection \<open>Times compared as text\<close>

text \<open>
  SQLite documents \<open>CURRENT_TIMESTAMP\<close> as the date, a blank and the time; RFC 3339 has a \<open>T\<close> between them.
  \<open>date\<close> is the text of the day.
\<close>

definition time_texts :: "sql_env \<Rightarrow> (int \<Rightarrow> string) \<Rightarrow> bool" where
  "time_texts S date \<longleftrightarrow>
     (\<forall>t. \<exists>clock clock'. sq_current_timestamp S t = date t @ '' '' @ clock \<and> sq_rfc3339 S t = date t @ ''T'' @ clock')"

lemma blank_before_T: "(d @ '' '' @ x :: string) < d @ ''T'' @ y"
  by (simp add: list_less_def lexord_append_leftI)

text \<open>The clean-up compares the text SQLite wrote with the one \<open>chrono\<close> writes. A transaction that was
  saved on the day of the cutoff is deleted whatever the time of the day was, although it may be newer
  than the cutoff by hours.
\<close>

theorem cutoff_day_deleted:
  assumes "time_texts S date" and "save_pending_transaction S created tx db = Inr db1"
    and "hm_wf (db_pending_transactions db)"
    and "sq_sub_days S now days = Some cutoff" and "date created = date cutoff"
  shows "\<exists>db2. cleanup_old_data S now days db1 = Ret db2 \<and> hm_get (db_pending_transactions db2) (pt_hash tx) = None"
proof -
  obtain r where saved: "db_pending_transactions db1 = hm_insert (pt_hash tx) r (db_pending_transactions db)"
    and r: "tr_created_at r = sq_current_timestamp S created"
    using assms(2) by (auto simp: save_pending_transaction_def res_bind_Inr_iff)
  obtain x y where "sq_current_timestamp S created = date created @ '' '' @ x" "sq_rfc3339 S cutoff = date cutoff @ ''T'' @ y"
    using assms(1) unfolding time_texts_def by blast
  then have "tr_created_at r < sq_rfc3339 S cutoff"
    by (simp only: r assms(5) blank_before_T)
  with assms(3,4) saved show ?thesis
    by (simp add: cleanup_old_data_def Let_def hm_get_retain)
qed

subsection \<open>Instances\<close>

text \<open>Days and seconds in decimal; and, for reading times back, a sign with as many marks as the number.\<close>

definition demo_day :: "int \<Rightarrow> string" where
  "demo_day t = dec_digits (nat (t div 86400))"

definition demo_clock_text :: "int \<Rightarrow> string" where
  "demo_clock_text t = dec_digits (nat (t mod 86400))"

definition mark_text :: "int \<Rightarrow> string" where
  "mark_text t = (if 0 \<le> t then CHR ''+'' else CHR ''-'') # replicate (nat \<bar>t\<bar>) CHR ''I''"

fun text_marks :: "string \<Rightarrow> int option" where
  "text_marks [] = None"
| "text_marks (c # cs) = Some (if c = CHR ''+'' then int (length cs) else - int (length cs))"

definition demo_sql :: sql_env where
  "demo_sql =
     \<lparr>sq_rfc3339 = (\<lambda>t. demo_day t @ ''T'' @ demo_clock_text t), sq_parse_rfc3339 = (\<lambda>_. None),
      sq_current_timestamp = (\<lambda>t. demo_day t @ '' '' @ demo_clock_text t),
      sq_sub_days = (\<lambda>t d. Some (t - 86400 * uint d)), sq_headers_json = (\<lambda>_. ''[]''),
      sq_headers_of_json = (\<lambda>_. Some []), sq_header_json = (\<lambda>_. ''{}''), sq_header_of_json = (\<lambda>_. None),
      sq_texts_json = (\<lambda>_. ''[]''), sq_texts_of_json = (\<lambda>_. Some []), sq_scan_headers = (\<lambda>rows. rows),
      sq_scan_transactions = rev, sq_scan_reorgs = (\<lambda>rows. rows)\<rparr>"

definition mark_sql :: sql_env where
  "mark_sql = demo_sql\<lparr>sq_rfc3339 := mark_text, sq_parse_rfc3339 := text_marks\<rparr>"

lemma mark_times: "times_roundtrip mark_sql"
  by (auto simp: times_roundtrip_def mark_sql_def mark_text_def)

lemma demo_scans: "scans_rows demo_sql" "scans_rows mark_sql"
  by (simp_all add: scans_rows_def mark_sql_def demo_sql_def)

lemma demo_time_texts: "time_texts demo_sql demo_day"
  by (auto simp: time_texts_def demo_sql_def)

definition demo_header :: "u64 \<Rightarrow> BlockHeader" where
  "demo_header n = BlockHeader_new 0 n ''hash'' ''parent''"

definition demo_pending :: "string \<Rightarrow> TransactionStatus \<Rightarrow> PendingTransactionState" where
  "demo_pending h status =
     \<lparr>pt_hash = h, pt_from = ''from'', pt_to = None, pt_nonce = 1, pt_gas_price = 2, pt_gas_limit = 3,
      pt_value = ''0'', pt_data = ''0x'', pt_first_seen = 4, pt_last_seen = 5, pt_seen_count = 1,
      pt_block_number = None, pt_block_hash = None, pt_status = status\<rparr>"

lemma demo_header_fits: "unat n < 2 ^ 63 \<Longrightarrow> header_fits (demo_header n)"
  by (simp add: header_fits_def demo_header_def BlockHeader_new_def)

theorem headers_roundtrip_witness:
  "res_bind (save_headers demo_sql [(0, demo_header 1), (0, demo_header 2)] Database_new)
     (load_recent_block_headers demo_sql 1) = Inr [demo_header 2]"
proof -
  have "res_bind (save_headers demo_sql [(0, demo_header 1), (0, demo_header 2)] Database_new)
      (load_recent_block_headers demo_sql 1) =
      Inr (take (unat (1 :: usize)) (rev (sort_key bh_number (map snd [(0 :: int, demo_header 1), (0, demo_header 2)]))))"
    by (rule headers_roundtrip [OF demo_scans(1)])
      (simp_all add: demo_header_fits, simp add: demo_header_def BlockHeader_new_def)
  then show ?thesis
    by (simp add: demo_header_def BlockHeader_new_def)
qed

text \<open>Three transactions, one of them dropped, and a limit of one: the later of the two pending ones.\<close>

theorem pending_roundtrip_witness:
  "\<exists>db. save_transactions mark_sql
       [(0, demo_pending ''a'' Pending), (0, demo_pending ''b'' Dropped),
        (0, demo_pending ''c'' Pending\<lparr>pt_first_seen := 5\<rparr>)] Database_new = Inr db \<and>
     load_pending_transactions mark_sql 1 db = Ret (Inr [demo_pending ''c'' Pending\<lparr>pt_first_seen := 5\<rparr>])"
proof -
  have "sq_rfc3339 mark_sql 4 < sq_rfc3339 mark_sql 5"
    by (simp add: mark_sql_def mark_text_def numeral_eq_Suc)
  then show ?thesis
    using pending_roundtrip [OF mark_times demo_scans(2),
        of "[(0, demo_pending ''a'' Pending), (0, demo_pending ''b'' Dropped),
             (0, demo_pending ''c'' Pending\<lparr>pt_first_seen := 5\<rparr>)]" 1]
    by (auto simp: demo_pending_def tx_fits_def)
qed

theorem cleanup_keeps_recent_headers_witness:
  "\<exists>db db'. save_headers demo_sql [(0, demo_header 1), (0, demo_header 20001)] Database_new = Inr db \<and>
     cleanup_old_data demo_sql 0 7 db = Ret db' \<and>
     hm_get (db_block_headers db') 1 = None \<and> hm_get (db_block_headers db') 20001 \<noteq> None"
proof -
  let ?row = "\<lambda>n. row_of_header demo_sql (0, demo_header n)"
  have number: "bh_number (demo_header n) = n" for n
    by (simp add: demo_header_def BlockHeader_new_def)
  define db1 where "db1 = Database_new\<lparr>db_block_headers := [(1, ?row 1)]\<rparr>"
  define db2 where "db2 = Database_new\<lparr>db_block_headers := [(1, ?row 1), (20001, ?row 20001)]\<rparr>"
  have s1: "save_block_header demo_sql 0 (demo_header 1) Database_new = Inr db1"
    by (simp add: save_block_header_Inr demo_header_fits number db1_def Database_new_def hm_insert_def hm_empty_def)
  have s2: "save_block_header demo_sql 0 (demo_header 20001) db1 = Inr db2"
    by (simp add: save_block_header_Inr demo_header_fits number db1_def db2_def Database_new_def hm_insert_def)
  have reached: "(persistence_step demo_sql)\<^sup>*\<^sup>* Database_new db2"
    using ps_header [OF s1] ps_header [OF s2] by (meson converse_rtranclp_into_rtranclp r_into_rtranclp)
  obtain db' where clean: "cleanup_old_data demo_sql 0 7 db2 = Ret db'"
    by (simp add: cleanup_old_data_def demo_sql_def Let_def)
  have keys: "set (hm_keys (db_block_headers db2)) = {1, 20001}"
    by (simp add: db2_def hm_keys_def)
  have "save_headers demo_sql [(0, demo_header 1), (0, demo_header 20001)] Database_new = Inr db2"
    by (simp add: s1 s2)
  moreover have "hm_get (db_block_headers db2) 20001 \<noteq> None"
    by (simp add: db2_def hm_get_def)
  ultimately show ?thesis
    using clean cleanup_keeps_recent_headers [OF reached clean] by (auto simp: keys)
qed

text \<open>A transaction saved at the end of day 10, and a clean-up that keeps what is newer than its first second.\<close>

theorem cutoff_day_deleted_witness:
  "\<exists>db1 db2. save_pending_transaction demo_sql (86400 * 10 + 86399) (demo_pending ''a'' Pending) Database_new = Inr db1 \<and>
     sq_sub_days demo_sql (86400 * 11) 1 = Some (86400 * 10) \<and>
     cleanup_old_data demo_sql (86400 * 11) 1 db1 = Ret db2 \<and> hm_get (db_pending_transactions db2) ''a'' = None"
proof -
  have "tx_fits (demo_pending ''a'' Pending)"
    by (simp add: tx_fits_def demo_pending_def)
  note saved = save_pending_Inr [OF this, of demo_sql "86400 * 10 + 86399" Database_new]
  have "hm_wf (db_pending_transactions Database_new)" "sq_sub_days demo_sql (86400 * 11) 1 = Some (86400 * 10)"
    "demo_day (86400 * 10 + 86399) = demo_day (86400 * 10)" "pt_hash (demo_pending ''a'' Pending) = ''a''"
    by (simp_all add: Database_new_def demo_sql_def demo_day_def demo_pending_def)
  with cutoff_day_deleted [OF demo_time_texts saved this(1-3)] saved show ?thesis
    by auto
qed

end
