(* ===== verification/Cpu_Pinning.thy ===== *)
theory Cpu_Pinning
  imports F64_Text
begin

text \<open>
  Core assignment (\<open>crates/mev-core/src/cpu_pinning.rs\<close>). The number of processors and the clock are
  arguments. On every platform setting an affinity only writes to the log and succeeds; the runtime
  builder and the recommendations are left out.
\<close>

record CorePinningConfig =
  cn_enabled :: bool
  cn_core_ids :: "usize list"
  cn_worker_threads :: usize

definition CorePinningConfig_default :: "usize \<Rightarrow> CorePinningConfig" where
  "CorePinningConfig_default num_cpus =
     \<lparr>cn_enabled = False, cn_core_ids = map word_of_nat [0..<unat num_cpus], cn_worker_threads = num_cpus\<rparr>"

definition set_affinity :: "string + unit" where
  "set_affinity = Inr ()"

definition affinity_initialize :: "CorePinningConfig \<Rightarrow> string + unit" where
  "affinity_initialize c = (if \<not> cn_enabled c then Inr () else res_bind set_affinity (\<lambda>_. Inr ()))"

definition pin_current_thread :: "usize \<Rightarrow> CorePinningConfig \<Rightarrow> string + unit" where
  "pin_current_thread core_id c =
     (if \<not> cn_enabled c then Inr ()
      else if core_id \<notin> set (cn_core_ids c) then Inl (''Core ID '' @ u64_to_string core_id @ '' not in allowed cores'')
      else res_bind set_affinity (\<lambda>_. Inr ()))"

definition get_core_assignment :: "CorePinningConfig \<Rightarrow> usize list" where
  "get_core_assignment c =
     (if \<not> cn_enabled c \<or> cn_core_ids c = [] then []
      else map (\<lambda>i. cn_core_ids c ! (i mod length (cn_core_ids c))) [0..<unat (cn_worker_threads c)])"

subsection \<open>The thread pool\<close>

text \<open>A handle is the core its thread was given, if any; the thread does not use it.\<close>

record AffinityThreadPool =
  ap_handles :: "usize option list"
  ap_core_assignments :: "usize list"

definition AffinityThreadPool_new :: "CorePinningConfig \<Rightarrow> AffinityThreadPool" where
  "AffinityThreadPool_new c =
     \<lparr>ap_handles = [], ap_core_assignments = (if cn_enabled c then get_core_assignment c else [])\<rparr>"

definition pool_spawn :: "usize \<Rightarrow> AffinityThreadPool \<Rightarrow> AffinityThreadPool" where
  "pool_spawn thread_id p =
     (let core_id =
            (if unat thread_id < length (ap_core_assignments p)
             then Some (ap_core_assignments p ! unat thread_id) else None)
      in p\<lparr>ap_handles := ap_handles p @ [core_id]\<rparr>)"

subsection \<open>The monitor of CPU usage\<close>

record CpuPerformanceMonitor =
  cm_start_time :: instant
  cm_last_check :: instant

record CpuStats =
  cq_total_runtime_seconds :: f64
  cq_interval_seconds :: f64
  cq_cpu_usage_percent :: f64
  cq_num_cores :: usize
  cq_pinned_cores :: "usize list"

definition CpuPerformanceMonitor_new :: "instant \<Rightarrow> CpuPerformanceMonitor" where
  "CpuPerformanceMonitor_new now = \<lparr>cm_start_time = now, cm_last_check = now\<rparr>"

definition get_cpu_stats :: "instant \<Rightarrow> usize \<Rightarrow> CpuPerformanceMonitor \<Rightarrow> CpuPerformanceMonitor \<times> CpuStats" where
  "get_cpu_stats now num_cpus m =
     (m\<lparr>cm_last_check := now\<rparr>,
      \<lparr>cq_total_runtime_seconds = as_secs_f64 (elapsed now (cm_start_time m)),
       cq_interval_seconds = as_secs_f64 (elapsed now (cm_last_check m)),
       cq_cpu_usage_percent = Finite False 0, cq_num_cores = num_cpus, cq_pinned_cores = []\<rparr>)"

subsection \<open>Round robin\<close>

lemma assignment_length:
  "length (get_core_assignment c) =
     (if cn_enabled c \<and> cn_core_ids c \<noteq> [] then unat (cn_worker_threads c) else 0)"
  by (simp add: get_core_assignment_def)

lemma assignment_nth:
  assumes "i < length (get_core_assignment c)"
  shows "get_core_assignment c ! i = cn_core_ids c ! (i mod length (cn_core_ids c))"
  using assms by (auto simp: get_core_assignment_def split: if_splits)

lemma assigned_core_allowed: "core \<in> set (get_core_assignment c) \<Longrightarrow> core \<in> set (cn_core_ids c)"
  by (auto simp: get_core_assignment_def split: if_splits)

text \<open>
  The cores are dealt out in turn: worker \<open>i\<close> of the configured number gets the core at \<open>i\<close> modulo their
  count, and pinning a thread to any core that was dealt out succeeds.
\<close>

theorem cores_dealt_in_turn:
  "list_all (\<lambda>core. pin_current_thread core c = Inr ()) (get_core_assignment c) \<and>
   (cn_enabled c \<and> cn_core_ids c \<noteq> [] \<longrightarrow>
      get_core_assignment c =
        map (\<lambda>i. cn_core_ids c ! (i mod length (cn_core_ids c))) [0..<unat (cn_worker_threads c)])"
  by (auto simp: list_all_iff pin_current_thread_def set_affinity_def get_core_assignment_def
      dest: assigned_core_allowed [unfolded get_core_assignment_def] split: if_splits)

lemma pool_core:
  "ap_handles (pool_spawn thread_id (AffinityThreadPool_new c)) =
     [if cn_enabled c \<and> cn_core_ids c \<noteq> [] \<and> thread_id < cn_worker_threads c
      then Some (cn_core_ids c ! (unat thread_id mod length (cn_core_ids c))) else None]"
  by (auto simp: pool_spawn_def AffinityThreadPool_new_def Let_def assignment_length assignment_nth word_less_nat_alt)

end
