(* ===== verification/Sim_Service.thy ===== *)
theory Sim_Service
  imports Simulator Hex_Text
begin

text \<open>
  The services in front of the simulation engine: the gRPC service (\<open>crates/mev-core/src/grpc_service.rs\<close>)
  with the messages of \<open>proto/simulation.proto\<close>, from which its types are generated, and the HTTP handlers
  of \<open>simulation.rs\<close>. A map of a message is walked in any order. Reading text is \<open>ethers\<close>, writing bytes is
  the crate \<open>hex\<close>: the fields of \<open>service_env\<close>, with the text of an error. The futures of a batch run one
  after another here, as in \<open>Simulator\<close>.
\<close>

record service_env =
  ge_address :: "string \<Rightarrow> string + address"
  ge_dec :: "string \<Rightarrow> string + u256"
  ge_bytes :: "string \<Rightarrow> string + u8 list"
  ge_h256 :: "string \<Rightarrow> string + h256"
  ge_hex :: "u8 list \<Rightarrow> string"

subsection \<open>Messages\<close>

record ProtoTransaction =
  gt_from :: string
  gt_to :: "string option"
  gt_value :: string
  gt_gas_limit :: string
  gt_gas_price :: string
  gt_data :: string
  gt_nonce :: "string option"

record ProtoOverride =
  go_balance :: "string option"
  go_nonce :: "string option"
  go_code :: "string option"
  go_state :: "(string, string) hash_map"
  go_state_diff :: "(string, string) hash_map"

record ProtoBundle =
  gb_id :: string
  gb_transactions :: "ProtoTransaction list"
  gb_block_number :: "u64 option"
  gb_timestamp :: "u64 option"
  gb_base_fee :: "string option"
  gb_state_overrides :: "(string, ProtoOverride) hash_map"

record ProtoLog =
  gl_address :: string
  gl_topics :: "string list"
  gl_data :: string

record ProtoTxResult =
  gx_success :: bool
  gx_gas_used :: string
  gx_gas_estimate :: string
  gx_return_data :: "string option"
  gx_logs :: "ProtoLog list"
  gx_error :: "string option"
  gx_revert_reason :: "string option"
  gx_effective_gas_price :: string

record ProtoProfit =
  gp_gross_profit_wei :: string
  gp_gas_cost_wei :: string
  gp_net_profit_wei :: string
  gp_profit_margin :: f64
  gp_confidence :: f64

record ProtoResult =
  gr_bundle_id :: string
  gr_success :: bool
  gr_gas_used :: string
  gr_gas_cost :: string
  gr_profit_estimate :: "ProtoProfit option"
  gr_transaction_results :: "ProtoTxResult list"
  gr_simulation_time_ms :: f64
  gr_error_message :: "string option"
  gr_block_number :: u64
  gr_effective_gas_price :: string
  gr_revert_reason :: "string option"

record ProtoStats =
  gs_active_simulations :: u32
  gs_max_concurrent :: u32
  gs_timeout_ms :: u64
  gs_rpc_url :: string
  gs_total_simulations :: u64
  gs_successful_simulations :: u64
  gs_failed_simulations :: u64
  gs_average_simulation_time_ms :: f64

datatype grpc_status = InvalidArgument string | Internal string

subsection \<open>From a message to the engine\<close>

definition invalid :: "string \<Rightarrow> string + 'a \<Rightarrow> grpc_status + 'a" where
  "invalid what r = (case r of Inl e \<Rightarrow> Inl (InvalidArgument (what @ e)) | Inr x \<Rightarrow> Inr x)"

fun read_option :: "('a \<Rightarrow> grpc_status + 'b) \<Rightarrow> 'a option \<Rightarrow> grpc_status + 'b option" where
  "read_option f None = Inr None"
| "read_option f (Some x) = res_bind (f x) (\<lambda>y. Inr (Some y))"

definition convert_proto_to_core_transaction ::
    "service_env \<Rightarrow> ProtoTransaction \<Rightarrow> grpc_status + SimulationTransaction" where
  "convert_proto_to_core_transaction X t =
     res_bind (invalid ''Invalid from address: '' (ge_address X (gt_from t))) (\<lambda>from.
     res_bind (read_option (\<lambda>s. invalid ''Invalid to address: '' (ge_address X s)) (gt_to t)) (\<lambda>to.
     res_bind (invalid ''Invalid value: '' (ge_dec X (gt_value t))) (\<lambda>value.
     res_bind (invalid ''Invalid gas_limit: '' (ge_dec X (gt_gas_limit t))) (\<lambda>gas_limit.
     res_bind (invalid ''Invalid gas_price: '' (ge_dec X (gt_gas_price t))) (\<lambda>gas_price.
     res_bind (invalid ''Invalid data: '' (ge_bytes X (gt_data t))) (\<lambda>data.
     res_bind (read_option (\<lambda>s. invalid ''Invalid nonce: '' (ge_dec X s)) (gt_nonce t)) (\<lambda>nonce.
       Inr \<lparr>sx_from = from, sx_to = to, sx_value = value, sx_gas_limit = gas_limit, sx_gas_price = gas_price,
            sx_data = data, sx_nonce = nonce\<rparr>)))))))"

text \<open>A loop that reads the entries of a map into a new map.\<close>

fun read_entries ::
    "('k \<Rightarrow> grpc_status + 'a) \<Rightarrow> ('v \<Rightarrow> grpc_status + 'b) \<Rightarrow> ('k \<times> 'v) list \<Rightarrow> ('a, 'b) hash_map \<Rightarrow>
     grpc_status + ('a, 'b) hash_map" where
  "read_entries f g [] m = Inr m"
| "read_entries f g ((k, v) # rest) m =
     res_bind (f k) (\<lambda>a. res_bind (g v) (\<lambda>b. read_entries f g rest (hm_insert a b m)))"

definition read_map ::
    "('k \<Rightarrow> grpc_status + 'a) \<Rightarrow> ('v \<Rightarrow> grpc_status + 'b) \<Rightarrow> ('k, 'v) hash_map \<Rightarrow>
     grpc_status + ('a, 'b) hash_map option" where
  "read_map f g m =
     (if m = [] then Inr None else res_bind (read_entries f g m hm_empty) (\<lambda>r. Inr (Some r)))"

definition convert_proto_to_core_state_override :: "service_env \<Rightarrow> ProtoOverride \<Rightarrow> grpc_status + StateOverride" where
  "convert_proto_to_core_state_override X p =
     res_bind (read_option (\<lambda>s. invalid ''Invalid balance: '' (ge_dec X s)) (go_balance p)) (\<lambda>balance.
     res_bind (read_option (\<lambda>s. invalid ''Invalid nonce: '' (ge_dec X s)) (go_nonce p)) (\<lambda>nonce.
     res_bind (read_option (\<lambda>s. invalid ''Invalid code: '' (ge_bytes X s)) (go_code p)) (\<lambda>code.
     res_bind
       (read_map (\<lambda>s. invalid ''Invalid state key: '' (ge_h256 X s))
          (\<lambda>s. invalid ''Invalid state value: '' (ge_h256 X s)) (go_state p)) (\<lambda>state.
     res_bind
       (read_map (\<lambda>s. invalid ''Invalid state_diff key: '' (ge_h256 X s))
          (\<lambda>s. invalid ''Invalid state_diff value: '' (ge_h256 X s)) (go_state_diff p)) (\<lambda>state_diff.
       Inr \<lparr>sv_balance = balance, sv_nonce = nonce, sv_code = code, sv_state = state,
            sv_state_diff = state_diff\<rparr>)))))"

fun convert_each :: "('a \<Rightarrow> grpc_status + 'b) \<Rightarrow> 'a list \<Rightarrow> grpc_status + 'b list" where
  "convert_each f [] = Inr []"
| "convert_each f (x # xs) = res_bind (f x) (\<lambda>y. res_bind (convert_each f xs) (\<lambda>ys. Inr (y # ys)))"

text \<open>A base fee that cannot be read is left out; every other field is an error.\<close>

definition convert_proto_to_core_bundle :: "service_env \<Rightarrow> ProtoBundle \<Rightarrow> grpc_status + SimulationBundle" where
  "convert_proto_to_core_bundle X b =
     res_bind (convert_each (convert_proto_to_core_transaction X) (gb_transactions b)) (\<lambda>transactions.
     res_bind
       (read_map (\<lambda>s. invalid ''Invalid address: '' (ge_address X s)) (convert_proto_to_core_state_override X)
          (gb_state_overrides b)) (\<lambda>state_overrides.
       Inr \<lparr>sb_id = gb_id b, sb_transactions = transactions, sb_block_number = gb_block_number b,
            sb_timestamp = gb_timestamp b,
            sb_base_fee =
              Option.bind (gb_base_fee b) (\<lambda>s. case ge_dec X s of Inr n \<Rightarrow> Some n | Inl _ \<Rightarrow> None),
            sb_state_overrides = state_overrides\<rparr>))"

subsection \<open>From the engine to a message\<close>

definition hex_0x :: "service_env \<Rightarrow> u8 list \<Rightarrow> string" where
  "hex_0x X bs = ''0x'' @ ge_hex X bs"

definition convert_core_to_proto_log :: "service_env \<Rightarrow> SimulationLog \<Rightarrow> ProtoLog" where
  "convert_core_to_proto_log X l =
     \<lparr>gl_address = hex_0x X (be_bytes 20 (unat (slg_address l))),
      gl_topics = map (\<lambda>topic. hex_0x X (be_bytes 32 (unat topic))) (slg_topics l),
      gl_data = hex_0x X (slg_data l)\<rparr>"

definition convert_core_to_proto_tx_result :: "service_env \<Rightarrow> TransactionResult \<Rightarrow> ProtoTxResult" where
  "convert_core_to_proto_tx_result X r =
     \<lparr>gx_success = trs_success r, gx_gas_used = u256_to_string (trs_gas_used r),
      gx_gas_estimate = u256_to_string (trs_gas_estimate r),
      gx_return_data = map_option (hex_0x X) (trs_return_data r),
      gx_logs = map (convert_core_to_proto_log X) (trs_logs r), gx_error = trs_error r,
      gx_revert_reason = trs_revert_reason r, gx_effective_gas_price = u256_to_string (trs_effective_gas_price r)\<rparr>"

definition convert_core_to_proto_profit :: "ProfitEstimate \<Rightarrow> ProtoProfit" where
  "convert_core_to_proto_profit p =
     \<lparr>gp_gross_profit_wei = u256_to_string (pe_gross_profit_wei p), gp_gas_cost_wei = u256_to_string (pe_gas_cost_wei p),
      gp_net_profit_wei = u256_to_string (pe_net_profit_wei p), gp_profit_margin = pe_profit_margin p,
      gp_confidence = pe_confidence p\<rparr>"

definition convert_core_to_proto_result :: "service_env \<Rightarrow> SimulationResult \<Rightarrow> ProtoResult" where
  "convert_core_to_proto_result X r =
     \<lparr>gr_bundle_id = sr_bundle_id r, gr_success = sr_success r, gr_gas_used = u256_to_string (sr_gas_used r),
      gr_gas_cost = u256_to_string (sr_gas_cost r),
      gr_profit_estimate = Some (convert_core_to_proto_profit (sr_profit_estimate r)),
      gr_transaction_results = map (convert_core_to_proto_tx_result X) (sr_transaction_results r),
      gr_simulation_time_ms = sr_simulation_time_ms r, gr_error_message = sr_error_message r,
      gr_block_number = sr_block_number r, gr_effective_gas_price = u256_to_string (sr_effective_gas_price r),
      gr_revert_reason = sr_revert_reason r\<rparr>"

subsection \<open>The gRPC methods\<close>

definition grpc_simulate_bundle ::
    "service_env \<Rightarrow> 'w node \<Rightarrow> SimulationConfig \<Rightarrow> duration \<Rightarrow> ProtoBundle option \<Rightarrow> 'w \<Rightarrow>
     ('w \<times> (grpc_status + ProtoResult)) run option" where
  "grpc_simulate_bundle X N config time request w =
     (case request of
        None \<Rightarrow> Some (Ret (w, Inl (InvalidArgument ''Bundle is required'')))
      | Some proto \<Rightarrow>
          (case convert_proto_to_core_bundle X proto of
             Inl e \<Rightarrow> Some (Ret (w, Inl e))
           | Inr bundle \<Rightarrow>
               map_option (\<lambda>m. run_bind m (\<lambda>(w, result). Ret (w, Inr (convert_core_to_proto_result X result))))
                 (simulate_bundle N config time bundle w)))"

text \<open>A bundle that cannot be converted is logged and left out of the results.\<close>

fun grpc_simulate_bundles ::
    "service_env \<Rightarrow> 'w node \<Rightarrow> SimulationConfig \<Rightarrow> (duration \<times> ProtoBundle) list \<Rightarrow> 'w \<Rightarrow>
     ('w \<times> ProtoResult list) run option" where
  "grpc_simulate_bundles X N config [] w = Some (Ret (w, []))"
| "grpc_simulate_bundles X N config ((time, proto) # rest) w =
     (case convert_proto_to_core_bundle X proto of
        Inl e \<Rightarrow> grpc_simulate_bundles X N config rest w
      | Inr bundle \<Rightarrow>
          (case simulate_bundle N config time bundle w of
             None \<Rightarrow> None
           | Some Panic \<Rightarrow> Some Panic
           | Some (Ret (w, result)) \<Rightarrow>
               map_option
                 (\<lambda>m. run_bind m (\<lambda>(w, results). Ret (w, convert_core_to_proto_result X result # results)))
                 (grpc_simulate_bundles X N config rest w)))"

definition grpc_get_stats :: "SimulationConfig \<Rightarrow> usize \<Rightarrow> ProtoStats" where
  "grpc_get_stats config available_permits =
     (let stats = simulator_get_stats config available_permits
      in \<lparr>gs_active_simulations = ucast (mt_active_simulations stats),
          gs_max_concurrent = ucast (mt_max_concurrent stats), gs_timeout_ms = mt_timeout_ms stats,
          gs_rpc_url = mt_rpc_url stats, gs_total_simulations = 0, gs_successful_simulations = 0,
          gs_failed_simulations = 0, gs_average_simulation_time_ms = Finite False 0\<rparr>)"

definition grpc_get_health :: "SimulationConfig \<Rightarrow> usize \<Rightarrow> bool \<times> string \<times> ProtoStats option" where
  "grpc_get_health config available_permits =
     (True, ''healthy'', Some (grpc_get_stats config available_permits))"

subsection \<open>The HTTP handlers\<close>

text \<open>The status code with the body. The engine reports its errors inside a result.\<close>

definition http_health_check :: "SimulationConfig \<Rightarrow> usize \<Rightarrow> nat \<times> string \<times> SimulationStats" where
  "http_health_check config available_permits =
     (200, ''healthy'', simulator_get_stats config available_permits)"

definition http_simulate_bundle ::
    "'w node \<Rightarrow> SimulationConfig \<Rightarrow> duration \<Rightarrow> SimulationBundle \<Rightarrow> 'w \<Rightarrow>
     ('w \<times> nat \<times> SimulationResult) run option" where
  "http_simulate_bundle N config time bundle w =
     map_option (\<lambda>m. run_bind m (\<lambda>(w, result). Ret (w, 200, result))) (simulate_bundle N config time bundle w)"

definition http_simulate_bundles_batch ::
    "'w node \<Rightarrow> SimulationConfig \<Rightarrow> (duration \<times> SimulationBundle) list \<Rightarrow> 'w \<Rightarrow>
     ('w \<times> nat \<times> SimulationResult list) run option" where
  "http_simulate_bundles_batch N config bundles w =
     map_option (\<lambda>m. run_bind m (\<lambda>(w, results). Ret (w, 200, results))) (simulate_bundles_batch N config bundles w)"

subsection \<open>What a batch answers\<close>

lemma internal_id:
  assumes "simulate_bundle_internal N config bundle w = Ret (w', Inr result)"
  shows "sr_bundle_id result = sb_id bundle"
proof -
  obtain w0 r0 where block: "(case sb_block_number bundle of Some b \<Rightarrow> (w, Inr b) | None \<Rightarrow> nd_block_number N w) = (w0, r0)"
    by fastforce
  obtain w1 r1 where fee: "nd_base_fee N w0 = (w1, r1)"
    by fastforce
  show ?thesis
    using assms unfolding simulate_bundle_internal_def block
    by (auto simp: fee run_bind_Ret_iff Let_def split: sum.splits)
qed

lemma simulated_id:
  assumes "simulate_bundle N config time bundle w = Some (Ret (w', result))"
  shows "sr_bundle_id result = sb_id bundle"
  using assms
  by (cases rule: run_result_cases [of "simulate_bundle_internal N config bundle w"])
    (auto simp: simulate_bundle_def failed_simulation_def dest: internal_id split: if_splits option.splits)

lemma converted_id: "convert_proto_to_core_bundle X b = Inr c \<Longrightarrow> sb_id c = gb_id b"
  by (auto simp: convert_proto_to_core_bundle_def res_bind_Inr_iff)

text \<open>The bundles of a request that can be converted, in the order of the request.\<close>

fun readable :: "service_env \<Rightarrow> (duration \<times> ProtoBundle) list \<Rightarrow> (duration \<times> SimulationBundle) list" where
  "readable X [] = []"
| "readable X ((time, proto) # rest) =
     (case convert_proto_to_core_bundle X proto of
        Inl e \<Rightarrow> readable X rest
      | Inr bundle \<Rightarrow> (time, bundle) # readable X rest)"

lemma readable_ids:
  "map (\<lambda>(time, bundle). sb_id bundle) (readable X requests) =
   map (\<lambda>(time, proto). gb_id proto)
     (filter (\<lambda>(time, proto). \<exists>bundle. convert_proto_to_core_bundle X proto = Inr bundle) requests)"
  by (induction X requests rule: readable.induct) (auto simp: converted_id split: sum.splits)

lemma batch_ids:
  "simulate_bundles_batch N config bundles w = Some (Ret (w', results)) \<Longrightarrow>
   map sr_bundle_id results = map (\<lambda>(time, bundle). sb_id bundle) bundles"
  by (induction N config bundles w arbitrary: results rule: simulate_bundles_batch.induct)
    (auto simp: run_bind_Ret_iff simulated_id split: option.splits run.splits)

lemma answered_id [simp]: "gr_bundle_id (convert_core_to_proto_result X result) = sr_bundle_id result"
  by (simp add: convert_core_to_proto_result_def)

lemma option_run_cases:
  obtains "m = None" | "m = Some Panic" | a b where "m = Some (Ret (a, b))"
  by (metis option.exhaust run.exhaust surj_pair)

text \<open>A batch over gRPC is the batch of the engine on the bundles that can be converted, without a word about the others.\<close>

theorem grpc_batch_equivalent:
  "grpc_simulate_bundles X N config requests w =
   map_option (\<lambda>m. run_bind m (\<lambda>(w, results). Ret (w, map (convert_core_to_proto_result X) results)))
     (simulate_bundles_batch N config (readable X requests) w)"
proof (induction X N config requests w rule: grpc_simulate_bundles.induct)
  case (2 X N config time proto rest w)
  show ?case
  proof (cases "convert_proto_to_core_bundle X proto")
    case (Inr core)
    note IH = 2(2) [OF Inr]
    show ?thesis
    proof (cases "simulate_bundle N config time core w")
      case (Some m)
      show ?thesis
      proof (cases m)
        case (Ret r)
        obtain w1 result where r: "r = (w1, result)"
          by fastforce
        with Some Ret have sim: "simulate_bundle N config time core w = Some (Ret (w1, result))"
          by simp
        show ?thesis
          using IH [OF sim refl refl]
          by (cases rule: option_run_cases [of "simulate_bundles_batch N config (readable X rest) w1"])
            (simp_all add: Inr sim)
      qed (simp add: Inr Some)
    qed (simp add: Inr)
  qed (simp add: 2(1))
qed simp

lemma grpc_batch_answers:
  assumes "grpc_simulate_bundles X N config requests w = Some (Ret (w', results))"
  shows "map gr_bundle_id results = map (\<lambda>(time, proto). gb_id proto)
    (filter (\<lambda>(time, proto). \<exists>bundle. convert_proto_to_core_bundle X proto = Inr bundle) requests)"
proof -
  obtain rs where "simulate_bundles_batch N config (readable X requests) w = Some (Ret (w', rs))"
    and results: "results = map (convert_core_to_proto_result X) rs"
    using assms by (auto simp: grpc_batch_equivalent run_bind_Ret_iff)
  then have "map sr_bundle_id rs = map (\<lambda>(time, bundle). sb_id bundle) (readable X requests)"
    by (simp add: batch_ids)
  then show ?thesis
    by (simp add: results readable_ids comp_def)
qed

subsection \<open>Writing a request\<close>

text \<open>
  What the libraries promise: text of an address, of a hash and of bytes is \<open>0x\<close> with the hexadecimal
  digits, a number is its decimal digits, and reading takes back what was written.
\<close>

definition service_laws :: "service_env \<Rightarrow> bool" where
  "service_laws X \<longleftrightarrow>
     (\<forall>a. ge_address X (hex_0x X (be_bytes 20 (unat a))) = Inr a) \<and>
     (\<forall>h. ge_h256 X (hex_0x X (be_bytes 32 (unat h))) = Inr h) \<and>
     (\<forall>bs. ge_bytes X (hex_0x X bs) = Inr bs) \<and>
     (\<forall>n. ge_dec X (u256_to_string n) = Inr n)"

definition address_text :: "service_env \<Rightarrow> address \<Rightarrow> string" where
  "address_text X a = hex_0x X (be_bytes 20 (unat a))"

definition hash_text :: "service_env \<Rightarrow> h256 \<Rightarrow> string" where
  "hash_text X h = hex_0x X (be_bytes 32 (unat h))"

definition message_of_transaction :: "service_env \<Rightarrow> SimulationTransaction \<Rightarrow> ProtoTransaction" where
  "message_of_transaction X t =
     \<lparr>gt_from = address_text X (sx_from t), gt_to = map_option (address_text X) (sx_to t),
      gt_value = u256_to_string (sx_value t), gt_gas_limit = u256_to_string (sx_gas_limit t),
      gt_gas_price = u256_to_string (sx_gas_price t), gt_data = hex_0x X (sx_data t),
      gt_nonce = map_option u256_to_string (sx_nonce t)\<rparr>"

definition message_of_map :: "('a \<Rightarrow> 'k) \<Rightarrow> ('b \<Rightarrow> 'v) \<Rightarrow> ('a, 'b) hash_map option \<Rightarrow> ('k, 'v) hash_map" where
  "message_of_map f g m = (case m of None \<Rightarrow> hm_empty | Some es \<Rightarrow> map (\<lambda>(k, v). (f k, g v)) es)"

definition message_of_override :: "service_env \<Rightarrow> StateOverride \<Rightarrow> ProtoOverride" where
  "message_of_override X s =
     \<lparr>go_balance = map_option u256_to_string (sv_balance s), go_nonce = map_option u256_to_string (sv_nonce s),
      go_code = map_option (hex_0x X) (sv_code s),
      go_state = message_of_map (hash_text X) (hash_text X) (sv_state s),
      go_state_diff = message_of_map (hash_text X) (hash_text X) (sv_state_diff s)\<rparr>"

definition message_of_bundle :: "service_env \<Rightarrow> SimulationBundle \<Rightarrow> ProtoBundle" where
  "message_of_bundle X b =
     \<lparr>gb_id = sb_id b, gb_transactions = map (message_of_transaction X) (sb_transactions b),
      gb_block_number = sb_block_number b, gb_timestamp = sb_timestamp b,
      gb_base_fee = map_option u256_to_string (sb_base_fee b),
      gb_state_overrides = message_of_map (address_text X) (message_of_override X) (sb_state_overrides b)\<rparr>"

text \<open>A message has no form for a map that is there and empty.\<close>

definition map_writable :: "('a, 'b) hash_map option \<Rightarrow> bool" where
  "map_writable m \<longleftrightarrow> (case m of None \<Rightarrow> True | Some es \<Rightarrow> hm_wf es \<and> es \<noteq> [])"

definition override_writable :: "StateOverride \<Rightarrow> bool" where
  "override_writable s \<longleftrightarrow> map_writable (sv_state s) \<and> map_writable (sv_state_diff s)"

definition bundle_writable :: "SimulationBundle \<Rightarrow> bool" where
  "bundle_writable b \<longleftrightarrow>
     map_writable (sb_state_overrides b) \<and> list_all override_writable (hm_values (unwrap_or [] (sb_state_overrides b)))"

lemma service_lawsD:
  assumes "service_laws X"
  shows "ge_address X (address_text X a) = Inr a" and "ge_h256 X (hash_text X h) = Inr h"
    and "ge_bytes X (hex_0x X bs) = Inr bs" and "ge_dec X (u256_to_string n) = Inr n"
  using assms by (simp_all add: service_laws_def address_text_def hash_text_def)

lemma invalid_Inr [simp]: "invalid what (Inr x) = Inr x"
  by (simp add: invalid_def)

lemma read_option_map: "(\<And>x. f (g x) = Inr x) \<Longrightarrow> read_option f (map_option g m) = Inr m"
  by (cases m) simp_all

lemma convert_each_map: "(\<And>x. x \<in> set xs \<Longrightarrow> f (g x) = Inr x) \<Longrightarrow> convert_each f (map g xs) = Inr xs"
  by (induction xs) simp_all

lemma read_entries_map:
  assumes "\<And>k. f (f' k) = Inr k" and "\<And>v. v \<in> snd ` set es \<Longrightarrow> g (g' v) = Inr v" and "distinct (map fst (m @ es))"
  shows "read_entries f g (map (\<lambda>(k, v). (f' k, g' v)) es) m = Inr (m @ es)"
  using assms(2,3)
proof (induction es arbitrary: m)
  case (Cons e es)
  obtain k v where e: "e = (k, v)"
    by fastforce
  then have "hm_insert k v m = m @ [(k, v)]"
    using Cons.prems(2) by (intro hm_insert_new) auto
  with Cons e show ?case
    by (simp add: assms(1))
qed simp

lemma read_map_message:
  assumes "\<And>k. f (f' k) = Inr k" and "\<And>v. v \<in> set (hm_values (unwrap_or [] m)) \<Longrightarrow> g (g' v) = Inr v" and "map_writable m"
  shows "read_map f g (message_of_map f' g' m) = Inr m"
proof (cases m)
  case (Some es)
  with assms(2,3) have "read_entries f g (map (\<lambda>(k, v). (f' k, g' v)) es) [] = Inr ([] @ es)"
    by (intro read_entries_map assms(1)) (auto simp: map_writable_def hm_wf_def hm_values_def unwrap_or_def)
  with Some assms(3) show ?thesis
    by (simp add: read_map_def message_of_map_def map_writable_def hm_empty_def)
qed (simp add: read_map_def message_of_map_def hm_empty_def)

lemma transaction_roundtrip:
  "service_laws X \<Longrightarrow> convert_proto_to_core_transaction X (message_of_transaction X t) = Inr t"
  by (simp add: convert_proto_to_core_transaction_def message_of_transaction_def service_lawsD read_option_map)

lemma override_roundtrip:
  "service_laws X \<Longrightarrow> override_writable s \<Longrightarrow>
   convert_proto_to_core_state_override X (message_of_override X s) = Inr s"
  by (simp add: convert_proto_to_core_state_override_def message_of_override_def override_writable_def service_lawsD
      read_option_map read_map_message)

text \<open>C39: Every bundle can be requested: the text of a bundle whose maps have an entry and distinct keys is
  converted back to the same bundle, when the libraries read what they write.
\<close>

theorem bundle_message_roundtrip:
  assumes "service_laws X" and "bundle_writable b"
  shows "convert_proto_to_core_bundle X (message_of_bundle X b) = Inr b"
proof -
  have "read_map (\<lambda>s. invalid ''Invalid address: '' (ge_address X s)) (convert_proto_to_core_state_override X)
      (message_of_map (address_text X) (message_of_override X) (sb_state_overrides b)) = Inr (sb_state_overrides b)"
    using assms by (intro read_map_message)
      (auto simp: bundle_writable_def list_all_iff service_lawsD override_roundtrip)
  then show ?thesis
    using assms(1) by (cases "sb_base_fee b")
      (simp_all add: convert_proto_to_core_bundle_def message_of_bundle_def convert_each_map transaction_roundtrip service_lawsD)
qed

text \<open>An instance of the laws, and a bundle that is read back.\<close>

definition demo_bytes :: "string \<Rightarrow> string + u8 list" where
  "demo_bytes s =
     (case hex_bytes (drop 2 s) of
        Some bs \<Rightarrow> if take 2 s = ''0x'' then Inr bs else Inl ''prefix''
      | None \<Rightarrow> Inl ''hex'')"

definition demo_service :: service_env where
  "demo_service =
     \<lparr>ge_address = (\<lambda>s. res_bind (demo_bytes s) (\<lambda>bs. if length bs = 20 then Inr (of_nat (be_value bs)) else Inl ''length'')),
      ge_dec = (\<lambda>s. case parse_unsigned (2 ^ 256) 10 s of Some n \<Rightarrow> Inr (of_nat n) | None \<Rightarrow> Inl ''number''),
      ge_bytes = demo_bytes,
      ge_h256 = (\<lambda>s. res_bind (demo_bytes s) (\<lambda>bs. if length bs = 32 then Inr (of_nat (be_value bs)) else Inl ''length'')),
      ge_hex = bytes_hex\<rparr>"

lemma demo_service_laws: "service_laws demo_service"
proof -
  have bytes: "demo_bytes (CHR ''0'' # CHR ''x'' # bytes_hex bs) = Inr bs" for bs
    by (simp add: demo_bytes_def hex_bytes_hex)
  have "be_value (be_bytes 20 (unat a)) = unat a" for a :: address
    using unsigned_less [of a] by (intro be_value_bytes) simp
  moreover have "be_value (be_bytes 32 (unat h)) = unat h" for h :: h256
    using unsigned_less [of h] by (intro be_value_bytes) simp
  moreover have "parse_unsigned (2 ^ 256) 10 (u256_to_string n) = Some (unat n)" for n
    using unsigned_less [of n] by (simp add: u256_to_string_def parse_unsigned_dec_digits)
  ultimately show ?thesis
    by (simp add: service_laws_def demo_service_def hex_0x_def bytes)
qed

definition demo_request :: SimulationBundle where
  "demo_request =
     \<lparr>sb_id = ''b1'',
      sb_transactions =
        [\<lparr>sx_from = 1, sx_to = Some 2, sx_value = 5, sx_gas_limit = 21000, sx_gas_price = 7, sx_data = [96, 64],
          sx_nonce = Some 3\<rparr>],
      sb_block_number = Some 100, sb_timestamp = None, sb_base_fee = Some 9,
      sb_state_overrides =
        Some [(1, \<lparr>sv_balance = Some 10, sv_nonce = None, sv_code = None, sv_state = Some [(1, 2)], sv_state_diff = None\<rparr>)]\<rparr>"

theorem bundle_message_roundtrip_witness:
  "convert_proto_to_core_bundle demo_service (message_of_bundle demo_service demo_request) = Inr demo_request"
  by (rule bundle_message_roundtrip [OF demo_service_laws])
    (simp add: bundle_writable_def override_writable_def map_writable_def demo_request_def hm_values_def hm_wf_def unwrap_or_def)

text \<open>A bundle that names no sender is left out of a batch, and an error on its own.\<close>

lemma unreadable_bundle_dropped:
  assumes "convert_proto_to_core_bundle X proto = Inl e"
  shows "grpc_simulate_bundle X N config time (Some proto) w = Some (Ret (w, Inl e))"
    and "grpc_simulate_bundles X N config [(time, proto)] w = Some (Ret (w, []))"
  using assms by (simp_all add: grpc_simulate_bundle_def)

end
