(* ===== verification/Sim_Benchmark.thy ===== *)
theory Sim_Benchmark
  imports Sim_Optimizer Latency_Histogram F64_Order
begin

text \<open>
  The throughput benchmark of \<open>crates/mev-core/src/simulation_benchmark.rs\<close> over the simulation optimizer.
  The clock and the scheduler are the record \<open>bench_env\<close>: time passes and the tasks of the optimizer run in
  its actions. The tasks of a pass, which the program spawns together, run one after another here. A loop
  over the clock that never ends is \<open>None\<close>. Printing is left out.
\<close>

record BenchmarkConfig =
  bc_duration_seconds :: u64
  bc_concurrent_batches :: usize
  bc_bundles_per_batch :: usize
  bc_transactions_per_bundle :: usize
  bc_target_throughput_sims_per_sec :: f64
  bc_warmup_duration_seconds :: u64

definition BenchmarkConfig_default :: BenchmarkConfig where
  "BenchmarkConfig_default =
     \<lparr>bc_duration_seconds = 60, bc_concurrent_batches = 10, bc_bundles_per_batch = 5, bc_transactions_per_bundle = 3,
      bc_target_throughput_sims_per_sec = Finite False 200, bc_warmup_duration_seconds = 10\<rparr>"

record BenchmarkResults =
  br_total_simulations :: u64
  br_successful_simulations :: u64
  br_failed_simulations :: u64
  br_duration_seconds :: f64
  br_actual_throughput_sims_per_sec :: f64
  br_target_throughput_sims_per_sec :: f64
  br_throughput_achieved :: bool
  br_avg_latency_ms :: f64
  br_p95_latency_ms :: f64
  br_p99_latency_ms :: f64
  br_error_rate :: f64

text \<open>How the wait for a task ends: with its value, with its panic, or after five seconds without it.\<close>

datatype join_end = Joined | Panicked | Late

record 'w bench_env =
  bv_now :: "'w SimulationOptimizer \<Rightarrow> instant"
  bv_utc :: "'w SimulationOptimizer \<Rightarrow> u64"
  bv_tick :: "'w SimulationOptimizer \<Rightarrow> 'w SimulationOptimizer"
  bv_sleep :: "duration \<Rightarrow> 'w SimulationOptimizer \<Rightarrow> 'w SimulationOptimizer"
  bv_background :: "'w SimulationOptimizer \<Rightarrow> 'w SimulationOptimizer"
  bv_in_time :: "'w SimulationOptimizer \<Rightarrow> bool"
  bv_join :: "'w SimulationOptimizer \<Rightarrow> join_end"

subsection \<open>The bundles\<close>

definition benchmark_transaction :: "nat \<Rightarrow> SimulationTransaction" where
  "benchmark_transaction j =
     \<lparr>sx_from = word_rcat (replicate 20 (1 :: u8)), sx_to = Some (word_rcat (replicate 20 (2 :: u8))),
      sx_value = 1000000000000000, sx_gas_limit = 21000, sx_gas_price = 20000000000,
      sx_data = [0x60, 0x60, 0x60, 0x40], sx_nonce = Some (word_of_nat j)\<rparr>"

definition generate_benchmark_bundles :: "BenchmarkConfig \<Rightarrow> u64 \<Rightarrow> SimulationBundle list" where
  "generate_benchmark_bundles c timestamp =
     map (\<lambda>i. \<lparr>sb_id = ''benchmark_bundle_'' @ dec_digits i,
               sb_transactions = map benchmark_transaction [0..<unat (bc_transactions_per_bundle c)],
               sb_block_number = None, sb_timestamp = Some timestamp, sb_base_fee = None,
               sb_state_overrides = None\<rparr>)
       [0..<unat (bc_bundles_per_batch c)]"

subsection \<open>A batch\<close>

definition simulate_batch ::
    "'w bench_env \<Rightarrow> SimulationBundle list \<Rightarrow> 'w SimulationOptimizer \<Rightarrow>
     'w SimulationOptimizer \<times> (batch_error + BatchSimulationResult)" where
  "simulate_batch B bundles s =
     (let (s, batch_id) = submit_batch (int (bv_now B s)) bundles s; s = bv_background B s
      in finish_batch batch_id (bv_in_time B s) s)"

datatype batch_outcome = Answered BatchSimulationResult duration | BatchFailed batch_error | TaskFailed | TaskLate

definition run_task :: "'w bench_env \<Rightarrow> SimulationBundle list \<Rightarrow> 'w SimulationOptimizer \<Rightarrow> 'w SimulationOptimizer \<times> batch_outcome" where
  "run_task B bundles s =
     (let batch_start = bv_now B s; (s, result) = simulate_batch B bundles s;
          batch_latency = elapsed (bv_now B s) batch_start
      in (s, case bv_join B s of
               Joined \<Rightarrow> (case result of Inr r \<Rightarrow> Answered r batch_latency | Inl e \<Rightarrow> BatchFailed e)
             | Panicked \<Rightarrow> TaskFailed
             | Late \<Rightarrow> TaskLate))"

fun run_tasks ::
    "'w bench_env \<Rightarrow> BenchmarkConfig \<Rightarrow> nat \<Rightarrow> 'w SimulationOptimizer \<Rightarrow> 'w SimulationOptimizer \<times> batch_outcome list" where
  "run_tasks B c 0 s = (s, [])"
| "run_tasks B c (Suc n) s =
     (let (s, outcome) = run_task B (generate_benchmark_bundles c (bv_utc B s)) s;
          (s, outcomes) = run_tasks B c n s
      in (s, outcome # outcomes))"

subsection \<open>Counting\<close>

record bench_counts =
  bt_total :: u64
  bt_successful :: u64
  bt_failed :: u64
  bt_latencies :: "f64 list"

definition no_counts :: bench_counts where
  "no_counts = \<lparr>bt_total = 0, bt_successful = 0, bt_failed = 0, bt_latencies = []\<rparr>"

definition count_lost :: "BenchmarkConfig \<Rightarrow> bench_counts \<Rightarrow> bench_counts" where
  "count_lost c k = k\<lparr>bt_failed := bt_failed k + bc_bundles_per_batch c\<rparr>"

fun count_outcome :: "BenchmarkConfig \<Rightarrow> batch_outcome \<Rightarrow> bench_counts \<Rightarrow> bench_counts" where
  "count_outcome c (Answered r latency) k =
     \<lparr>bt_total = bt_total k + word_of_nat (length (bs_results r)),
      bt_successful = bt_successful k + word_of_nat (length (filter sr_success (bs_results r))),
      bt_failed = bt_failed k + word_of_nat (length (filter (\<lambda>x. \<not> sr_success x) (bs_results r))),
      bt_latencies = bt_latencies k @ [elapsed_ms latency]\<rparr>"
| "count_outcome c (BatchFailed e) k = count_lost c k"
| "count_outcome c TaskFailed k = count_lost c k"
| "count_outcome c TaskLate k = count_lost c k"

subsection \<open>The benchmark\<close>

partial_function (option) warmup_loop ::
    "'w bench_env \<Rightarrow> BenchmarkConfig \<Rightarrow> instant \<Rightarrow> 'w SimulationOptimizer \<Rightarrow> 'w SimulationOptimizer option" where
  "warmup_loop B c start s =
     (if elapsed (bv_now B s) start < secs (unat (bc_warmup_duration_seconds c)) then
        warmup_loop B c start
          (bv_sleep B (millis 100) (fst (simulate_batch B (generate_benchmark_bundles c (bv_utc B s)) s)))
      else Some s)"

definition run_warmup ::
    "'w bench_env \<Rightarrow> BenchmarkConfig \<Rightarrow> 'w SimulationOptimizer \<Rightarrow> 'w SimulationOptimizer option" where
  "run_warmup B c s = warmup_loop B c (bv_now B s) s"

definition bench_pass ::
    "'w bench_env \<Rightarrow> BenchmarkConfig \<Rightarrow> 'w SimulationOptimizer \<Rightarrow> 'w SimulationOptimizer \<times> batch_outcome list" where
  "bench_pass B c s = run_tasks B c (unat (bc_concurrent_batches c)) (bv_tick B s)"

partial_function (option) bench_loop ::
    "'w bench_env \<Rightarrow> BenchmarkConfig \<Rightarrow> instant \<Rightarrow> 'w SimulationOptimizer \<Rightarrow> bench_counts \<Rightarrow>
     ('w SimulationOptimizer \<times> bench_counts) option" where
  "bench_loop B c start s k =
     (if elapsed (bv_now B s) start < secs (unat (bc_duration_seconds c)) then
        bench_loop B c start (fst (bench_pass B c s)) (fold (count_outcome c) (snd (bench_pass B c s)) k)
      else Some (s, k))"

text \<open>The sort panics when it compares a latency that is no number.\<close>

definition benchmark_results :: "BenchmarkConfig \<Rightarrow> duration \<Rightarrow> bench_counts \<Rightarrow> BenchmarkResults run" where
  "benchmark_results c actual k =
     (if 2 \<le> length (bt_latencies k) \<and> NaN \<in> set (bt_latencies k) then Panic
      else
        let actual_throughput = f64_div (f64_of_nat (unat (bt_total k))) (as_secs_f64 actual);
            latencies = sort_key f64_key (bt_latencies k);
            n = length latencies;
            or_zero = (\<lambda>x. if latencies \<noteq> [] then x else Finite False 0)
        in Ret \<lparr>br_total_simulations = bt_total k, br_successful_simulations = bt_successful k,
             br_failed_simulations = bt_failed k, br_duration_seconds = as_secs_f64 actual,
             br_actual_throughput_sims_per_sec = actual_throughput,
             br_target_throughput_sims_per_sec = bc_target_throughput_sims_per_sec c,
             br_throughput_achieved = f64_le (bc_target_throughput_sims_per_sec c) actual_throughput,
             br_avg_latency_ms = or_zero (f64_div (f64_sum latencies) (f64_of_nat n)),
             br_p95_latency_ms = or_zero (latencies ! percentile_index n (f64_lit ''0.95'')),
             br_p99_latency_ms = or_zero (latencies ! percentile_index n (f64_lit ''0.99'')),
             br_error_rate =
               (if 0 < bt_total k
                then f64_div (f64_of_nat (unat (bt_failed k))) (f64_of_nat (unat (bt_total k)))
                else Finite False 0)\<rparr>)"

definition run_benchmark ::
    "'w bench_env \<Rightarrow> BenchmarkConfig \<Rightarrow> 'w SimulationOptimizer \<Rightarrow>
     ('w SimulationOptimizer \<times> BenchmarkResults run) option" where
  "run_benchmark B c s =
     Option.bind (if 0 < bc_warmup_duration_seconds c then run_warmup B c s else Some s) (\<lambda>s.
       let start = bv_now B s
       in map_option (\<lambda>(s, k). (s, benchmark_results c (elapsed (bv_now B s) start) k))
            (bench_loop B c start s no_counts))"

subsection \<open>Variants\<close>

definition stress_levels :: "usize list" where
  "stress_levels = [1, 2, 5, 10, 20, 50]"

text \<open>The levels, until one is more than three times the configured number.\<close>

fun stress_loop ::
    "'w bench_env \<Rightarrow> BenchmarkConfig \<Rightarrow> usize list \<Rightarrow> 'w SimulationOptimizer \<Rightarrow>
     ('w SimulationOptimizer \<times> BenchmarkResults list run) option" where
  "stress_loop B c [] s = Some (s, Ret [])"
| "stress_loop B c (level # levels) s =
     (if bc_concurrent_batches c * 3 < level then Some (s, Ret [])
      else
        case run_benchmark B (c\<lparr>bc_concurrent_batches := level, bc_duration_seconds := 30\<rparr>) s of
          None \<Rightarrow> None
        | Some (s, Panic) \<Rightarrow> Some (s, Panic)
        | Some (s, Ret result) \<Rightarrow>
            map_option (\<lambda>(s, m). (s, run_bind m (\<lambda>results. Ret (result # results))))
              (stress_loop B c levels (bv_sleep B (secs 2) s)))"

definition run_stress_test ::
    "'w bench_env \<Rightarrow> BenchmarkConfig \<Rightarrow> 'w SimulationOptimizer \<Rightarrow>
     ('w SimulationOptimizer \<times> BenchmarkResults list run) option" where
  "run_stress_test B c s = stress_loop B c stress_levels s"

definition run_latency_benchmark ::
    "'w bench_env \<Rightarrow> BenchmarkConfig \<Rightarrow> 'w SimulationOptimizer \<Rightarrow>
     ('w SimulationOptimizer \<times> BenchmarkResults run) option" where
  "run_latency_benchmark B c s =
     run_benchmark B (c\<lparr>bc_concurrent_batches := 1, bc_bundles_per_batch := 1, bc_duration_seconds := 30\<rparr>) s"

text \<open>The whole suite on a new optimizer: throughput, stress and latency.\<close>

definition run_comprehensive_benchmark ::
    "'w bench_env \<Rightarrow> SimulationOptimizerConfig \<Rightarrow> RpcClientConfig \<Rightarrow> instant \<Rightarrow> int \<Rightarrow> 'w \<Rightarrow>
     ('w SimulationOptimizer \<times> unit run) option" where
  "run_comprehensive_benchmark B optimizer_config rpc_config start now w =
     (let c = BenchmarkConfig_default; s = SimulationOptimizer_new optimizer_config rpc_config start now w
      in case run_benchmark B c s of
           None \<Rightarrow> None
         | Some (s, Panic) \<Rightarrow> Some (s, Panic)
         | Some (s, Ret throughput_result) \<Rightarrow>
             (case run_stress_test B c s of
                None \<Rightarrow> None
              | Some (s, Panic) \<Rightarrow> Some (s, Panic)
              | Some (s, Ret stress_results) \<Rightarrow>
                  map_option (\<lambda>(s, m). (s, run_bind m (\<lambda>latency_result. Ret ()))) (run_latency_benchmark B c s)))"

subsection \<open>What the counts mean\<close>

definition lost :: "batch_outcome \<Rightarrow> bool" where
  "lost x \<longleftrightarrow> (\<forall>r d. x \<noteq> Answered r d)"

definition results_of :: "batch_outcome \<Rightarrow> SimulationResult list" where
  "results_of x = (case x of Answered r d \<Rightarrow> bs_results r | _ \<Rightarrow> [])"

lemma count_outcome_lost: "lost x \<Longrightarrow> count_outcome c x k = count_lost c k"
  by (cases x) (auto simp: lost_def)

lemma fold_counts:
  "bt_total (fold (count_outcome c) xs k) = bt_total k + word_of_nat (length (concat (map results_of xs)))"
  "bt_successful (fold (count_outcome c) xs k) =
     bt_successful k + word_of_nat (length (filter sr_success (concat (map results_of xs))))"
  "bt_failed (fold (count_outcome c) xs k) =
     bt_failed k + word_of_nat (length (filter (\<lambda>r. \<not> sr_success r) (concat (map results_of xs)))) +
     word_of_nat (length (filter lost xs)) * bc_bundles_per_batch c"
  by (induction xs arbitrary: k)
    (auto simp: results_of_def lost_def count_lost_def algebra_simps split: batch_outcome.splits)

lemma f64_round_number [simp]: "f64_round neg q \<noteq> NaN" "f64_round False q \<noteq> Infinity True"
  by (simp_all add: f64_round_def Let_def)

lemma f64_lit_1e9: "f64_lit ''1e9'' = Finite False (10 ^ 9)"
proof -
  have "f64_lit ''1e9'' = f64_round False (10 ^ 9)"
    by (simp add: f64_lit_simps)
  also have "\<dots> = Finite False (10 ^ 9)"
    using f64_of_nat_exact [of "10 ^ 9"] by (simp add: f64_of_nat_def)
  finally show ?thesis .
qed

text \<open>A latency is a number, so that the sort does not panic.\<close>

lemma elapsed_ms_not_NaN: "elapsed_ms d \<noteq> NaN"
proof -
  have count: "f64_of_nat n \<noteq> NaN" "f64_of_nat n \<noteq> Infinity True" for n
    by (simp_all add: f64_of_nat_def)
  have "f64_of_nat n = Infinity False \<or> (\<exists>q. f64_of_nat n = Finite False q)" for n
    by (simp add: f64_of_nat_def f64_round_def Let_def)
  then have "f64_div (f64_of_nat n) (Finite False (10 ^ 9)) \<noteq> NaN \<and>
      f64_div (f64_of_nat n) (Finite False (10 ^ 9)) \<noteq> Infinity True" for n
    by (rule disjE [of "f64_of_nat n = Infinity False"]) auto
  then have part: "f64_div (f64_of_nat n) (f64_lit ''1e9'') \<noteq> NaN"
      "f64_div (f64_of_nat n) (f64_lit ''1e9'') \<noteq> Infinity True" for n
    by (simp_all only: f64_lit_1e9 simp_thms)
  have sum: "f64_add x y \<noteq> NaN" if "x \<noteq> NaN" "x \<noteq> Infinity True" "y \<noteq> NaN" "y \<noteq> Infinity True" for x y
    using that by (cases "(x, y)" rule: f64_add.cases) (simp_all add: Let_def)
  have product: "f64_mul x (Finite False 1000) \<noteq> NaN" if "x \<noteq> NaN" for x
    using that by (cases x) simp_all
  show ?thesis
    unfolding elapsed_ms_def as_secs_f64_def by (intro product sum count part)
qed

lemma latencies_numbers:
  "NaN \<notin> set (bt_latencies k) \<Longrightarrow> NaN \<notin> set (bt_latencies (fold (count_outcome c) xs k))"
proof (induction xs arbitrary: k)
  case (Cons x xs)
  have "NaN \<notin> set (bt_latencies (count_outcome c x k))"
    using Cons.prems by (cases x) (simp_all add: count_lost_def not_sym [OF elapsed_ms_not_NaN])
  with Cons.IH show ?case
    by simp
qed simp

lemma benchmark_results_Ret:
  assumes "NaN \<notin> set (bt_latencies k)"
  obtains r where "benchmark_results c d k = Ret r" "br_total_simulations r = bt_total k"
    "br_successful_simulations r = bt_successful k" "br_failed_simulations r = bt_failed k"
    "br_error_rate r = (if 0 < bt_total k then f64_div (f64_of_nat (unat (bt_failed k))) (f64_of_nat (unat (bt_total k)))
       else Finite False 0)"
proof -
  have "\<not> (2 \<le> length (bt_latencies k) \<and> NaN \<in> set (bt_latencies k))"
    using assms by blast
  then show ?thesis
    by (intro that) (simp only: benchmark_results_def if_False Let_def, simp_all only: BenchmarkResults.select_convs)
qed

text \<open>The passes of a benchmark with the outcomes of their batches, in order.\<close>

inductive bench_passes ::
    "'w bench_env \<Rightarrow> BenchmarkConfig \<Rightarrow> 'w SimulationOptimizer \<Rightarrow> batch_outcome list \<Rightarrow> 'w SimulationOptimizer \<Rightarrow> bool"
  for B c where
  passes_end: "bench_passes B c s [] s"
| passes_step: "bench_pass B c s = (s', xs) \<Longrightarrow> bench_passes B c s' ys s'' \<Longrightarrow> bench_passes B c s (xs @ ys) s''"

lemma bench_loop_passes:
  assumes "bench_loop B c start s k = Some x"
  shows "\<exists>xs. bench_passes B c s xs (fst x) \<and> snd x = fold (count_outcome c) xs k"
proof (rule bench_loop.raw_induct
    [where P = "\<lambda>B c start s k x. \<exists>xs. bench_passes B c s xs (fst x) \<and> snd x = fold (count_outcome c) xs k", OF _ assms])
  fix f :: "'w bench_env \<Rightarrow> _" and B c start s k x
  assume IH: "\<And>B c start s k x. f B c start s k = Some x \<Longrightarrow>
      \<exists>xs. bench_passes B c s xs (fst x) \<and> snd x = fold (count_outcome c) xs k"
    and step: "(if elapsed (bv_now B s) start < secs (unat (bc_duration_seconds c))
      then f B c start (fst (bench_pass B c s)) (fold (count_outcome c) (snd (bench_pass B c s)) k) else Some (s, k)) = Some x"
  show "\<exists>xs. bench_passes B c s xs (fst x) \<and> snd x = fold (count_outcome c) xs k"
  proof (cases "elapsed (bv_now B s) start < secs (unat (bc_duration_seconds c))")
    case True
    with step have "f B c start (fst (bench_pass B c s)) (fold (count_outcome c) (snd (bench_pass B c s)) k) = Some x"
      by simp
    from IH [OF this] obtain xs where rest: "bench_passes B c (fst (bench_pass B c s)) xs (fst x)"
      and counts: "snd x = fold (count_outcome c) xs (fold (count_outcome c) (snd (bench_pass B c s)) k)" by blast
    from counts have "snd x = fold (count_outcome c) (snd (bench_pass B c s) @ xs) k"
      by (simp only: fold_append comp_apply)
    with passes_step [OF prod.collapse [symmetric] rest] show ?thesis
      by blast
  next
    case False
    with step have "x = (s, k)"
      by simp
    then show ?thesis
      using passes_end by (intro exI [of _ "[]"]) simp
  qed
qed

lemma run_benchmark_passes:
  assumes "run_benchmark B c s = Some (s', m)"
  obtains s0 xs r where "bench_passes B c s0 xs s'" "m = Ret r"
    "br_total_simulations r = bt_total (fold (count_outcome c) xs no_counts)"
    "br_successful_simulations r = bt_successful (fold (count_outcome c) xs no_counts)"
    "br_failed_simulations r = bt_failed (fold (count_outcome c) xs no_counts)"
    "br_error_rate r =
       (if 0 < br_total_simulations r
        then f64_div (f64_of_nat (unat (br_failed_simulations r))) (f64_of_nat (unat (br_total_simulations r)))
        else Finite False 0)"
proof -
  obtain s0 start k where loop: "bench_loop B c start s0 no_counts = Some (s', k)"
    and m: "m = benchmark_results c (elapsed (bv_now B s') start) k"
    using assms by (auto simp: run_benchmark_def Let_def bind_eq_Some_conv split: if_splits)
  obtain xs where passes: "bench_passes B c s0 xs s'" and k: "k = fold (count_outcome c) xs no_counts"
    using bench_loop_passes [OF loop] by auto
  have "NaN \<notin> set (bt_latencies k)"
    unfolding k by (rule latencies_numbers) (simp add: no_counts_def)
  then obtain r where "m = Ret r" "br_total_simulations r = bt_total k"
      "br_successful_simulations r = bt_successful k" "br_failed_simulations r = bt_failed k"
      "br_error_rate r = (if 0 < bt_total k then f64_div (f64_of_nat (unat (bt_failed k))) (f64_of_nat (unat (bt_total k)))
       else Finite False 0)"
    unfolding m by (rule benchmark_results_Ret)
  with passes show ?thesis
    by (intro that [of s0 xs r]) (simp_all only: k)
qed

text \<open>
  The simulations that were answered make the total; a batch that was not answered adds all its bundles to
  the failures, and nothing to the total.
\<close>

lemma benchmark_counts:
  assumes "run_benchmark B c s = Some (s', m)"
  shows "\<exists>s0 xs r. bench_passes B c s0 xs s' \<and> m = Ret r \<and>
    br_total_simulations r = word_of_nat (length (concat (map results_of xs))) \<and>
    br_successful_simulations r = word_of_nat (length (filter sr_success (concat (map results_of xs)))) \<and>
    br_failed_simulations r =
      word_of_nat (length (filter (\<lambda>x. \<not> sr_success x) (concat (map results_of xs)))) +
      word_of_nat (length (filter lost xs)) * bc_bundles_per_batch c"
  using assms
proof (rule run_benchmark_passes)
  fix s0 xs r
  assume "bench_passes B c s0 xs s'" "m = Ret r"
    "br_total_simulations r = bt_total (fold (count_outcome c) xs no_counts)"
    "br_successful_simulations r = bt_successful (fold (count_outcome c) xs no_counts)"
    "br_failed_simulations r = bt_failed (fold (count_outcome c) xs no_counts)"
  then show ?thesis
    by (intro exI [of _ s0] exI [of _ xs] exI [of _ r]) (simp add: fold_counts no_counts_def)
qed

subsection \<open>A benchmark ends\<close>

text \<open>Time passes at a tick and while the program sleeps, and nothing turns the clock back.\<close>

definition bench_clock :: "'w bench_env \<Rightarrow> bool" where
  "bench_clock B \<longleftrightarrow>
     (\<forall>s. bv_now B s < bv_now B (bv_tick B s)) \<and> (\<forall>d s. 0 < d \<longrightarrow> bv_now B s < bv_now B (bv_sleep B d s)) \<and>
     (\<forall>s. bv_now B s \<le> bv_now B (bv_background B s)) \<and>
     (\<forall>now bundles s. bv_now B s \<le> bv_now B (fst (submit_batch now bundles s))) \<and>
     (\<forall>batch_id in_time s. bv_now B s \<le> bv_now B (fst (finish_batch batch_id in_time s)))"

lemma simulate_batch_clock:
  assumes "bench_clock B"
  shows "bv_now B s \<le> bv_now B (fst (simulate_batch B bundles s))"
proof -
  obtain s1 batch_id where submit: "submit_batch (int (bv_now B s)) bundles s = (s1, batch_id)"
    by fastforce
  have "bv_now B s \<le> bv_now B s1"
    using assms submit by (metis bench_clock_def fst_conv)
  also have "\<dots> \<le> bv_now B (bv_background B s1)"
    using assms by (simp add: bench_clock_def)
  also have "\<dots> \<le> bv_now B (fst (simulate_batch B bundles s))"
    using assms by (simp add: bench_clock_def simulate_batch_def submit Let_def)
  finally show ?thesis .
qed

lemma run_task_fst: "fst (run_task B bundles s) = fst (simulate_batch B bundles s)"
  by (simp add: run_task_def Let_def split_def)

lemma run_tasks_clock:
  assumes "bench_clock B"
  shows "bv_now B s \<le> bv_now B (fst (run_tasks B c n s))"
proof (induction n arbitrary: s)
  case (Suc n)
  let ?s = "fst (run_task B (generate_benchmark_bundles c (bv_utc B s)) s)"
  have "bv_now B s \<le> bv_now B ?s"
    unfolding run_task_fst by (rule simulate_batch_clock [OF assms])
  also have "\<dots> \<le> bv_now B (fst (run_tasks B c n ?s))"
    by (rule Suc.IH)
  finally show ?case
    by (simp add: Let_def split_def)
qed simp

lemma bench_pass_clock:
  assumes "bench_clock B"
  shows "bv_now B s < bv_now B (fst (bench_pass B c s))"
proof -
  have "bv_now B s < bv_now B (bv_tick B s)"
    using assms by (simp add: bench_clock_def)
  also have "\<dots> \<le> bv_now B (fst (bench_pass B c s))"
    unfolding bench_pass_def by (rule run_tasks_clock [OF assms])
  finally show ?thesis .
qed

lemma bench_loop_returns:
  assumes "bench_clock B"
  shows "\<exists>x. bench_loop B c start s k = Some x"
proof (induction "start + secs (unat (bc_duration_seconds c)) - bv_now B s" arbitrary: s k rule: less_induct)
  case less
  show ?case
  proof (cases "elapsed (bv_now B s) start < secs (unat (bc_duration_seconds c))")
    case True
    then have "start + secs (unat (bc_duration_seconds c)) - bv_now B (fst (bench_pass B c s)) <
        start + secs (unat (bc_duration_seconds c)) - bv_now B s"
      using bench_pass_clock [OF assms, of s c] by (simp add: elapsed_def)
    from less [OF this] True show ?thesis
      by (subst bench_loop.simps) simp
  qed (subst bench_loop.simps, simp)
qed

lemma warmup_loop_returns:
  assumes "bench_clock B"
  shows "\<exists>s'. warmup_loop B c start s = Some s'"
proof (induction "start + secs (unat (bc_warmup_duration_seconds c)) - bv_now B s" arbitrary: s rule: less_induct)
  case less
  let ?s = "bv_sleep B (millis 100) (fst (simulate_batch B (generate_benchmark_bundles c (bv_utc B s)) s))"
  have "bv_now B s \<le> bv_now B (fst (simulate_batch B (generate_benchmark_bundles c (bv_utc B s)) s))"
    by (rule simulate_batch_clock [OF assms])
  also have "\<dots> < bv_now B ?s"
    using assms by (simp add: bench_clock_def millis_def)
  finally have "bv_now B s < bv_now B ?s" .
  show ?case
  proof (cases "elapsed (bv_now B s) start < secs (unat (bc_warmup_duration_seconds c))")
    case True
    then have "start + secs (unat (bc_warmup_duration_seconds c)) - bv_now B ?s <
        start + secs (unat (bc_warmup_duration_seconds c)) - bv_now B s"
      using \<open>bv_now B s < bv_now B ?s\<close> by (simp add: elapsed_def)
    from less [OF this] True show ?thesis
      by (subst warmup_loop.simps) simp
  qed (subst warmup_loop.simps, simp)
qed

lemma run_benchmark_returns:
  assumes "bench_clock B"
  obtains s' r where "run_benchmark B c s = Some (s', Ret r)"
proof -
  obtain s0 where "(if 0 < bc_warmup_duration_seconds c then run_warmup B c s else Some s) = Some s0"
    using warmup_loop_returns [OF assms, of c "bv_now B s" s] by (cases "0 < bc_warmup_duration_seconds c") (auto simp: run_warmup_def)
  moreover obtain x where "bench_loop B c (bv_now B s0) s0 no_counts = Some x"
    using bench_loop_returns [OF assms] by blast
  ultimately obtain s' m where run: "run_benchmark B c s = Some (s', m)"
    by (cases x) (simp add: run_benchmark_def)
  then obtain r where "m = Ret r"
    using benchmark_counts by blast
  with run that show ?thesis
    by blast
qed

text \<open>
  When no batch is answered in time, the benchmark ends and reports no simulation, failures for every bundle
  of every batch, and an error rate of zero.
\<close>

lemma finish_batch_late: "\<exists>e. snd (finish_batch batch_id False s) = Inl e"
  by (simp add: finish_batch_def split: option.splits list.splits)

lemma run_task_late:
  assumes "\<And>s. \<not> bv_in_time B s"
  shows "lost (snd (run_task B bundles s))"
proof -
  obtain s1 batch_id where submit: "submit_batch (int (bv_now B s)) bundles s = (s1, batch_id)"
    by fastforce
  obtain e where "snd (simulate_batch B bundles s) = Inl e"
    using finish_batch_late [of batch_id "bv_background B s1"] assms by (auto simp: simulate_batch_def submit Let_def)
  then show ?thesis
    by (auto simp: run_task_def lost_def Let_def split_def split: join_end.splits)
qed

lemma run_tasks_late:
  assumes "\<And>s. \<not> bv_in_time B s"
  shows "list_all lost (snd (run_tasks B c n s)) \<and> length (snd (run_tasks B c n s)) = n"
  by (induction n arbitrary: s) (simp_all add: Let_def split_def run_task_late [OF assms])

lemma bench_passes_late:
  assumes "bench_passes B c s xs s'" and "\<And>s. \<not> bv_in_time B s"
  shows "list_all lost xs"
  using assms(1)
proof induction
  case (passes_step s s' xs ys s'')
  have "list_all lost (snd (bench_pass B c s))"
    unfolding bench_pass_def using run_tasks_late [where B = B and c = c, OF assms(2)] by blast
  with passes_step show ?case
    by simp
qed simp

lemma results_of_lost: "list_all lost xs \<Longrightarrow> concat (map results_of xs) = []"
  by (induction xs) (auto simp: lost_def results_of_def split: batch_outcome.splits)

theorem lost_batches_no_error_rate:
  assumes "bench_clock B" and "\<forall>s. \<not> bv_in_time B s"
  shows "\<exists>s0 xs s' r. bench_passes B c s0 xs s' \<and> run_benchmark B c s = Some (s', Ret r) \<and>
    br_total_simulations r = 0 \<and> br_failed_simulations r = word_of_nat (length xs) * bc_bundles_per_batch c \<and>
    br_error_rate r = Finite False 0"
proof -
  obtain s' r where run: "run_benchmark B c s = Some (s', Ret r)"
    by (rule run_benchmark_returns [OF assms(1)])
  from run obtain s0 xs where passes: "bench_passes B c s0 xs s'"
    and counts: "br_total_simulations r = bt_total (fold (count_outcome c) xs no_counts)"
      "br_failed_simulations r = bt_failed (fold (count_outcome c) xs no_counts)"
      "br_error_rate r =
       (if 0 < br_total_simulations r
        then f64_div (f64_of_nat (unat (br_failed_simulations r))) (f64_of_nat (unat (br_total_simulations r)))
        else Finite False 0)"
    by (rule run_benchmark_passes) simp
  have lost: "list_all lost xs"
    using bench_passes_late [OF passes] assms(2) by blast
  then have "filter lost xs = xs"
    by (simp add: list_all_iff)
  with counts results_of_lost [OF lost] have "br_total_simulations r = 0"
      "br_failed_simulations r = word_of_nat (length xs) * bc_bundles_per_batch c" "br_error_rate r = Finite False 0"
    by (simp_all add: fold_counts no_counts_def)
  with passes run show ?thesis
    by blast
qed

text \<open>A clock that the sleeps and ticks move on, and an optimizer whose processor never runs.\<close>

definition demo_idle_env :: "nat bench_env" where
  "demo_idle_env =
     \<lparr>bv_now = oz_world, bv_utc = (\<lambda>s. 0), bv_tick = (\<lambda>s. s\<lparr>oz_world := oz_world s + 100000000\<rparr>),
      bv_sleep = (\<lambda>d s. s\<lparr>oz_world := oz_world s + d\<rparr>), bv_background = (\<lambda>s. s),
      bv_in_time = (\<lambda>s. False), bv_join = (\<lambda>s. Joined)\<rparr>"

lemma demo_idle_clock: "bench_clock demo_idle_env"
  by (auto simp: bench_clock_def demo_idle_env_def submit_batch_def finish_batch_def Let_def split: option.splits list.splits)

theorem lost_batches_no_error_rate_witness:
  "\<forall>s. \<exists>s' r. run_benchmark demo_idle_env BenchmarkConfig_default s = Some (s', Ret r) \<and>
     br_total_simulations r = 0 \<and> br_error_rate r = Finite False 0"
proof
  fix s
  show "\<exists>s' r. run_benchmark demo_idle_env BenchmarkConfig_default s = Some (s', Ret r) \<and>
     br_total_simulations r = 0 \<and> br_error_rate r = Finite False 0"
    using lost_batches_no_error_rate [OF demo_idle_clock, of BenchmarkConfig_default s] by (auto simp: demo_idle_env_def)
qed

subsection \<open>The stress test\<close>

text \<open>
  A result for each of the first levels, so that the summary finds the level of every result; the levels
  stop at three times the configured number of batches.
\<close>

lemma stress_loop_results:
  assumes "stress_loop B c levels s = Some (s', Ret rs)"
  shows "length rs = length (takeWhile (\<lambda>level. level \<le> bc_concurrent_batches c * 3) levels)"
  using assms
proof (induction levels arbitrary: s s' rs)
  case (Cons level levels)
  show ?case
  proof (cases "bc_concurrent_batches c * 3 < level")
    case False
    with Cons.prems obtain s1 r where "run_benchmark B (c\<lparr>bc_concurrent_batches := level, bc_duration_seconds := 30\<rparr>) s = Some (s1, Ret r)"
      by (auto split: option.splits run.splits)
    with Cons.prems False obtain rest where "stress_loop B c levels (bv_sleep B (secs 2) s1) = Some (s', Ret rest)" "rs = r # rest"
      by (auto simp: run_bind_Ret_iff)
    with Cons.IH False show ?thesis
      by (auto simp: not_less)
  qed (use Cons.prems in auto)
qed simp

lemma default_stress_levels:
  "takeWhile (\<lambda>level. level \<le> bc_concurrent_batches BenchmarkConfig_default * 3) stress_levels = [1, 2, 5, 10, 20]"
  by (simp add: stress_levels_def BenchmarkConfig_default_def)

end
