(* ===== verification/Reorg_Suite.thy ===== *)
theory Reorg_Suite
  imports State_Manager F64_Text
begin

text \<open>
  The reorganization test suite \<open>crates/mev-core/src/bin/reorg-simulation.rs\<close>: a simulator of forked chains
  and five scenarios that feed its blocks to the state manager. Random numbers, clocks, the database that is
  opened and the report that is written are the record \<open>suite_env\<close>. A test is a function on the suite with
  an error as a text; printing is left out.
\<close>

subsection \<open>The simulator\<close>

record BlockchainSimulator =
  cs_current_block_number :: u64
  cs_chains :: "(string, BlockHeader list) hash_map"
  cs_active_chain :: string

definition BlockchainSimulator_new :: BlockchainSimulator where
  "BlockchainSimulator_new = \<lparr>cs_current_block_number = 0, cs_chains = hm_empty, cs_active_chain = ''main''\<rparr>"

text \<open>The state of the suite, and what it takes from outside: the result of a call with the next state of the world.\<close>

record 'w suite =
  su_world :: 'w
  su_simulator :: BlockchainSimulator
  su_manager :: StateManager

record ('w, 'r) suite_env =
  rv_random :: "'w \<Rightarrow> 'w \<times> 16 word"
  rv_utc :: "'w \<Rightarrow> 'w \<times> int"
  rv_now :: "'w \<Rightarrow> 'w \<times> instant"
  rv_sleep :: "duration \<Rightarrow> 'w \<Rightarrow> 'w"
  rv_open_database :: "string \<Rightarrow> 'w \<Rightarrow> 'w \<times> (string + unit)"
  rv_write_report :: "'r list \<Rightarrow> 'w \<Rightarrow> 'w \<times> (string + unit)"

type_synonym ('w, 'a) test = "'w suite \<Rightarrow> ('w suite \<times> (string + 'a)) run"

definition ask :: "('w \<Rightarrow> 'w \<times> 'a) \<Rightarrow> ('w, 'a) test" where
  "ask q s = (let (w, x) = q (su_world s) in Ret (s\<lparr>su_world := w\<rparr>, Inr x))"

definition answer :: "string + 'a \<Rightarrow> ('w, 'a) test" where
  "answer r s = Ret (s, r)"

text \<open>\<open>format!("0x{:016x}", n)\<close> and the like.\<close>

definition padded_hex :: "nat \<Rightarrow> nat \<Rightarrow> string" where
  "padded_hex width n = ''0x'' @ replicate (width - length (hex_digits n)) CHR ''0'' @ hex_digits n"

definition new_header :: "('w, 'r) suite_env \<Rightarrow> u64 \<Rightarrow> string \<Rightarrow> string \<Rightarrow> ('w, BlockHeader) test" where
  "new_header V number hash parent_hash s =
     ok_bind (ask (rv_utc V) s) (\<lambda>s utc. answer (Inr (BlockHeader_new (utc div 1000000000) number hash parent_hash)) s)"

definition initialize_genesis :: "('w, 'r) suite_env \<Rightarrow> ('w, BlockHeader) test" where
  "initialize_genesis V s =
     ok_bind (new_header V 0 ''0x0000000000000000'' ''0x0000000000000000'' s) (\<lambda>s genesis.
       answer (Inr genesis)
         (s\<lparr>su_simulator := su_simulator s
              \<lparr>cs_chains := hm_insert ''main'' [genesis] (cs_chains (su_simulator s)), cs_current_block_number := 0\<rparr>\<rparr>))"

definition mine_block :: "('w, 'r) suite_env \<Rightarrow> ('w, BlockHeader) test" where
  "mine_block V s =
     (case hm_get (cs_chains (su_simulator s)) (cs_active_chain (su_simulator s)) of
        None \<Rightarrow> answer (Inl ''Active chain not found'') s
      | Some [] \<Rightarrow> answer (Inl ''No parent block found'') s
      | Some (b # bs) \<Rightarrow>
          (let parent = List.last (b # bs);
               number = cs_current_block_number (su_simulator s) + 1;
               s = s\<lparr>su_simulator := (su_simulator s)\<lparr>cs_current_block_number := number\<rparr>\<rparr>
           in ok_bind (ask (rv_random V) s) (\<lambda>s r.
              ok_bind (new_header V number (padded_hex 16 (unat (number * 1000 + ucast r))) (bh_hash parent) s) (\<lambda>s block.
                answer (Inr block)
                  (s\<lparr>su_simulator := su_simulator s
                       \<lparr>cs_chains := hm_modify (cs_active_chain (su_simulator s)) (\<lambda>chain. chain @ [block])
                          (cs_chains (su_simulator s))\<rparr>\<rparr>)))))"

definition create_fork :: "string \<Rightarrow> u64 \<Rightarrow> ('w, unit) test" where
  "create_fork fork_name fork_point s =
     (case hm_get (cs_chains (su_simulator s)) ''main'' of
        None \<Rightarrow> answer (Inl ''Main chain not found'') s
      | Some main_chain \<Rightarrow>
          (let fork_blocks = takeWhile (\<lambda>block. bh_number block \<le> fork_point) main_chain
           in if fork_blocks = [] then answer (Inl (''Fork point '' @ u64_to_string fork_point @ '' not found'')) s
              else answer (Inr ())
                (s\<lparr>su_simulator := su_simulator s
                     \<lparr>cs_chains := hm_insert fork_name fork_blocks (cs_chains (su_simulator s))\<rparr>\<rparr>)))"

definition switch_chain :: "string \<Rightarrow> ('w, unit) test" where
  "switch_chain chain_name s =
     (case hm_get (cs_chains (su_simulator s)) chain_name of
        None \<Rightarrow> answer (Inl (''Chain '' @ chain_name @ '' not found'')) s
      | Some chain \<Rightarrow>
          answer (Inr ())
            (s\<lparr>su_simulator := su_simulator s
                 \<lparr>cs_active_chain := chain_name,
                  cs_current_block_number :=
                    (if chain = [] then cs_current_block_number (su_simulator s)
                     else bh_number (List.last chain))\<rparr>\<rparr>))"

definition get_head :: "BlockchainSimulator \<Rightarrow> BlockHeader option" where
  "get_head m =
     Option.bind (hm_get (cs_chains m) (cs_active_chain m)) (\<lambda>chain. if chain = [] then None else Some (List.last chain))"

definition get_chain_info :: "string \<Rightarrow> BlockchainSimulator \<Rightarrow> (nat \<times> BlockHeader option) option" where
  "get_chain_info chain_name m =
     map_option (\<lambda>chain. (length chain, if chain = [] then None else Some (List.last chain)))
       (hm_get (cs_chains m) chain_name)"

fun mine_blocks :: "('w, 'r) suite_env \<Rightarrow> nat \<Rightarrow> ('w, BlockHeader list) test" where
  "mine_blocks V 0 s = answer (Inr []) s"
| "mine_blocks V (Suc n) s =
     ok_bind (mine_block V s) (\<lambda>s block.
     ok_bind (mine_blocks V n s) (\<lambda>s blocks. answer (Inr (block # blocks)) s))"

definition mine_blocks_on_chain :: "('w, 'r) suite_env \<Rightarrow> string \<Rightarrow> nat \<Rightarrow> ('w, BlockHeader list) test" where
  "mine_blocks_on_chain V chain_name count s =
     (let original_chain = cs_active_chain (su_simulator s)
      in ok_bind (switch_chain chain_name s) (\<lambda>s _.
         ok_bind (mine_blocks V count s) (\<lambda>s mined_blocks.
         ok_bind (switch_chain original_chain s) (\<lambda>s _.
           answer (Inr mined_blocks) s))))"

subsection \<open>The suite\<close>

record ReorgSimulationResult =
  rr_simulation_name :: string
  rr_timestamp :: int
  rr_original_chain :: "BlockHeader list"
  rr_reorg_chain :: "BlockHeader list"
  rr_detected_reorgs :: "ReorgEvent list"
  rr_affected_transactions :: nat
  rr_detection_latency_ms :: f64
  rr_recovery_time_ms :: f64
  rr_success :: bool

definition suite_config :: StateManagerConfig where
  "suite_config =
     \<lparr>max_pending_transactions = 10000, max_block_history = 100, transaction_ttl_seconds = 300,
      reorg_detection_depth = 10, checkpoint_interval_seconds = 30, enable_persistence = True,
      database_path = ''reorg_test.db''\<rparr>"

text \<open>The database is opened and not used again.\<close>

definition ReorgSimulationSuite_new :: "('w, 'r) suite_env \<Rightarrow> 'w \<Rightarrow> 'w \<times> (string + 'w suite)" where
  "ReorgSimulationSuite_new V w =
     (let (w, now) = rv_now V w;
          (w, opened) = (if enable_persistence suite_config then rv_open_database V (database_path suite_config) w
                         else (w, Inr ()))
      in (w, res_bind opened (\<lambda>_.
            Inr \<lparr>su_world = w, su_simulator = BlockchainSimulator_new,
                 su_manager = StateManager_new now suite_config\<rparr>)))"

text \<open>\<open>elapsed().as_millis() as f64\<close>\<close>

definition millis_since :: "('w, 'r) suite_env \<Rightarrow> instant \<Rightarrow> ('w, f64) test" where
  "millis_since V start s =
     ok_bind (ask (rv_now V) s) (\<lambda>s now. answer (Inr (f64_of_nat (elapsed now start div 1000000))) s)"

definition update_header :: "('w, 'r) suite_env \<Rightarrow> BlockHeader \<Rightarrow> ('w, ReorgEvent option) test" where
  "update_header V h s =
     ok_bind (ask (rv_utc V) s) (\<lambda>s utc.
       let (m, event) = update_block_header utc h (su_manager s) in answer (Inr event) (s\<lparr>su_manager := m\<rparr>))"

definition start_chain :: "('w, 'r) suite_env \<Rightarrow> ('w, unit) test" where
  "start_chain V s =
     ok_bind (initialize_genesis V s) (\<lambda>s genesis.
       answer (Inr ()) (s\<lparr>su_manager := initialize genesis (su_manager s)\<rparr>))"

text \<open>A block that is mined and given to the state manager.\<close>

definition mine_and_update :: "('w, 'r) suite_env \<Rightarrow> ('w, BlockHeader) test" where
  "mine_and_update V s =
     ok_bind (mine_block V s) (\<lambda>s block. ok_bind (update_header V block s) (\<lambda>s _. answer (Inr block) s))"

fun mine_chain :: "('w, 'r) suite_env \<Rightarrow> nat \<Rightarrow> ('w, BlockHeader list) test" where
  "mine_chain V 0 s = answer (Inr []) s"
| "mine_chain V (Suc n) s =
     ok_bind (mine_and_update V s) (\<lambda>s block.
     ok_bind (mine_chain V n s) (\<lambda>s blocks. answer (Inr (block # blocks)) s))"

text \<open>The loop over the blocks of another chain, with a pause after each; it collects the reorganizations.\<close>

fun feed :: "('w, 'r) suite_env \<Rightarrow> duration \<Rightarrow> BlockHeader list \<Rightarrow> ('w, ReorgEvent list) test" where
  "feed V pause [] s = answer (Inr []) s"
| "feed V pause (h # hs) s =
     ok_bind (update_header V h s) (\<lambda>s event.
     let s = (if pause = 0 then s else s\<lparr>su_world := rv_sleep V pause (su_world s)\<rparr>)
     in ok_bind (feed V pause hs s) (\<lambda>s events.
          answer (Inr (case event of Some e \<Rightarrow> e # events | None \<Rightarrow> events)) s))"

definition test_result ::
    "('w, 'r) suite_env \<Rightarrow> string \<Rightarrow> BlockHeader list \<Rightarrow> BlockHeader list \<Rightarrow> ReorgEvent list \<Rightarrow> nat \<Rightarrow> f64 \<Rightarrow> f64 \<Rightarrow> bool \<Rightarrow>
     ('w, ReorgSimulationResult) test" where
  "test_result V name original_chain reorg_chain detected_reorgs affected detection_latency total_time success s =
     ok_bind (ask (rv_utc V) s) (\<lambda>s utc.
       answer (Inr \<lparr>rr_simulation_name = name, rr_timestamp = utc, rr_original_chain = original_chain,
                    rr_reorg_chain = reorg_chain, rr_detected_reorgs = detected_reorgs,
                    rr_affected_transactions = affected, rr_detection_latency_ms = detection_latency,
                    rr_recovery_time_ms = total_time, rr_success = success\<rparr>) s)"

definition reset_simulator :: "'w suite \<Rightarrow> 'w suite" where
  "reset_simulator s = s\<lparr>su_simulator := BlockchainSimulator_new\<rparr>"

subsection \<open>The tests\<close>

text \<open>\<open>alt_blocks[0]\<close> panics without a block.\<close>

definition test_simple_reorg :: "('w, 'r) suite_env \<Rightarrow> ('w, ReorgSimulationResult) test" where
  "test_simple_reorg V s =
     ok_bind (ask (rv_now V) s) (\<lambda>s start_time.
     ok_bind (start_chain V s) (\<lambda>s _.
     ok_bind (mine_and_update V s) (\<lambda>s block1.
     ok_bind (mine_and_update V s) (\<lambda>s block2.
     ok_bind (create_fork ''alt'' 1 s) (\<lambda>s _.
     ok_bind (mine_blocks_on_chain V ''alt'' 1 s) (\<lambda>s alt_blocks.
       case alt_blocks of
         [] \<Rightarrow> Panic
       | alt_block2 # _ \<Rightarrow>
           ok_bind (ask (rv_now V) s) (\<lambda>s detection_start.
           ok_bind (update_header V alt_block2 s) (\<lambda>s reorg_result.
           ok_bind (millis_since V detection_start s) (\<lambda>s detection_latency.
             let detected_reorgs = get_reorg_events 10 (su_manager s);
                 success = (reorg_result \<noteq> None \<and> detected_reorgs \<noteq> [])
             in ok_bind (millis_since V start_time s) (\<lambda>s total_time.
                  test_result V ''simple_reorg'' [block1, block2] [block1, alt_block2] detected_reorgs 0
                    detection_latency total_time success s))))))))))"

definition test_deep_reorg :: "('w, 'r) suite_env \<Rightarrow> ('w, ReorgSimulationResult) test" where
  "test_deep_reorg V s =
     ok_bind (ask (rv_now V) s) (\<lambda>s start_time.
     ok_bind (start_chain V (reset_simulator s)) (\<lambda>s _.
     ok_bind (mine_chain V 5 s) (\<lambda>s original_chain.
     ok_bind (create_fork ''deep_alt'' 1 s) (\<lambda>s _.
     ok_bind (mine_blocks_on_chain V ''deep_alt'' 6 s) (\<lambda>s alt_blocks.
       case original_chain of
         [] \<Rightarrow> Panic
       | first # _ \<Rightarrow>
           ok_bind (ask (rv_now V) s) (\<lambda>s detection_start.
           ok_bind (feed V 0 alt_blocks s) (\<lambda>s detected_reorgs.
           ok_bind (millis_since V detection_start s) (\<lambda>s detection_latency.
           ok_bind (millis_since V start_time s) (\<lambda>s total_time.
             test_result V ''deep_reorg'' original_chain (first # alt_blocks) detected_reorgs 0
               detection_latency total_time (detected_reorgs \<noteq> []) s)))))))))"

definition test_transaction :: "int \<Rightarrow> int \<Rightarrow> nat \<Rightarrow> PendingTransactionState" where
  "test_transaction first_seen last_seen i =
     \<lparr>pt_hash = padded_hex 64 i, pt_from = padded_hex 40 (i * 100), pt_to = Some (padded_hex 40 (i * 100 + 1)),
      pt_nonce = word_of_nat i, pt_gas_price = 20000000000, pt_gas_limit = 21000, pt_value = ''1000000000000000000'',
      pt_data = ''0x'', pt_first_seen = first_seen, pt_last_seen = last_seen, pt_seen_count = 1,
      pt_block_number = None, pt_block_hash = None, pt_status = Pending\<rparr>"

fun create_test_transactions :: "('w, 'r) suite_env \<Rightarrow> nat list \<Rightarrow> ('w, PendingTransactionState list) test" where
  "create_test_transactions V [] s = answer (Inr []) s"
| "create_test_transactions V (i # is) s =
     ok_bind (ask (rv_utc V) s) (\<lambda>s first_seen.
     ok_bind (ask (rv_utc V) s) (\<lambda>s last_seen.
     ok_bind (create_test_transactions V is s) (\<lambda>s txs. answer (Inr (test_transaction first_seen last_seen i # txs)) s)))"

fun add_pending :: "('w, 'r) suite_env \<Rightarrow> PendingTransactionState list \<Rightarrow> ('w, unit) test" where
  "add_pending V [] s = answer (Inr ()) s"
| "add_pending V (tx # txs) s =
     ok_bind (ask (rv_utc V) s) (\<lambda>s utc.
       run_bind (update_pending_transaction utc (pt_hash tx) tx (su_manager s)) (\<lambda>m.
         add_pending V txs (s\<lparr>su_manager := m\<rparr>)))"

definition test_reorg_with_pending_transactions :: "('w, 'r) suite_env \<Rightarrow> ('w, ReorgSimulationResult) test" where
  "test_reorg_with_pending_transactions V s =
     ok_bind (ask (rv_now V) s) (\<lambda>s start_time.
     ok_bind (start_chain V (reset_simulator s)) (\<lambda>s _.
     ok_bind (mine_and_update V s) (\<lambda>s block1.
     ok_bind (create_test_transactions V [0..<5] s) (\<lambda>s pending_txs.
     ok_bind (add_pending V pending_txs s) (\<lambda>s _.
     ok_bind (mine_and_update V s) (\<lambda>s block2.
     ok_bind (create_fork ''tx_alt'' 1 s) (\<lambda>s _.
     ok_bind (mine_blocks_on_chain V ''tx_alt'' 2 s) (\<lambda>s alt_blocks.
     ok_bind (ask (rv_now V) s) (\<lambda>s detection_start.
     ok_bind (feed V 0 alt_blocks s) (\<lambda>s detected_reorgs.
     ok_bind (millis_since V detection_start s) (\<lambda>s detection_latency.
     ok_bind (millis_since V start_time s) (\<lambda>s total_time.
       test_result V ''reorg_with_transactions'' [block1, block2] (block1 # alt_blocks) detected_reorgs
         (length pending_txs) detection_latency total_time (detected_reorgs \<noteq> []) s))))))))))))"

definition test_multiple_competing_chains :: "('w, 'r) suite_env \<Rightarrow> ('w, ReorgSimulationResult) test" where
  "test_multiple_competing_chains V s =
     ok_bind (ask (rv_now V) s) (\<lambda>s start_time.
     ok_bind (start_chain V (reset_simulator s)) (\<lambda>s _.
     ok_bind (mine_and_update V s) (\<lambda>s block1.
     ok_bind (create_fork ''chain_a'' 1 s) (\<lambda>s _.
     ok_bind (create_fork ''chain_b'' 1 s) (\<lambda>s _.
     ok_bind (create_fork ''chain_c'' 1 s) (\<lambda>s _.
     ok_bind (mine_blocks_on_chain V ''chain_a'' 3 s) (\<lambda>s chain_a_blocks.
     ok_bind (mine_blocks_on_chain V ''chain_b'' 4 s) (\<lambda>s chain_b_blocks.
     ok_bind (mine_blocks_on_chain V ''chain_c'' 2 s) (\<lambda>s chain_c_blocks.
     ok_bind (ask (rv_now V) s) (\<lambda>s detection_start.
     ok_bind (feed V 0 chain_a_blocks s) (\<lambda>s reorgs_a.
     ok_bind (feed V 0 chain_b_blocks s) (\<lambda>s reorgs_b.
     ok_bind (millis_since V detection_start s) (\<lambda>s detection_latency.
     ok_bind (millis_since V start_time s) (\<lambda>s total_time.
       test_result V ''multiple_competing_chains'' [block1] (block1 # chain_b_blocks) (reorgs_a @ reorgs_b) 0
         detection_latency total_time (2 \<le> length (reorgs_a @ reorgs_b)) s))))))))))))))"

text \<open>The rounds of the rapid test: the reorganizations and the blocks of the last round.\<close>

fun rapid_rounds ::
    "('w, 'r) suite_env \<Rightarrow> nat list \<Rightarrow> BlockHeader list \<Rightarrow> BlockHeader list \<Rightarrow> ('w, ReorgEvent list \<times> BlockHeader list) test" where
  "rapid_rounds V [] original_chain final_chain s = answer (Inr ([], final_chain)) s"
| "rapid_rounds V (i # is) original_chain final_chain s =
     (let fork_name = ''rapid_'' @ dec_digits i
      in ok_bind (create_fork fork_name 2 s) (\<lambda>s _.
         ok_bind (mine_blocks_on_chain V fork_name 2 s) (\<lambda>s alt_blocks.
         ok_bind (feed V (millis 10) alt_blocks s) (\<lambda>s events.
           if length original_chain < 2 then Panic
           else
             ok_bind (rapid_rounds V is original_chain (take 2 original_chain @ alt_blocks) s)
               (\<lambda>s (more, final_chain). answer (Inr (events @ more, final_chain)) s)))))"

definition test_rapid_reorg_sequence :: "('w, 'r) suite_env \<Rightarrow> ('w, ReorgSimulationResult) test" where
  "test_rapid_reorg_sequence V s =
     ok_bind (ask (rv_now V) s) (\<lambda>s start_time.
     ok_bind (start_chain V (reset_simulator s)) (\<lambda>s _.
     ok_bind (mine_chain V 3 s) (\<lambda>s original_chain.
     ok_bind (ask (rv_now V) s) (\<lambda>s detection_start.
     ok_bind (rapid_rounds V [0..<5] original_chain original_chain s) (\<lambda>s (detected_reorgs, final_chain).
     ok_bind (millis_since V detection_start s) (\<lambda>s detection_latency.
     ok_bind (millis_since V start_time s) (\<lambda>s total_time.
       test_result V ''rapid_reorg_sequence'' original_chain final_chain detected_reorgs 0
         detection_latency total_time (3 \<le> length detected_reorgs) s)))))))"

definition generate_simulation_report ::
    "('w, ReorgSimulationResult) suite_env \<Rightarrow> ReorgSimulationResult list \<Rightarrow> ('w, unit) test" where
  "generate_simulation_report V results s =
     (let (w, r) = rv_write_report V results (su_world s) in answer r (s\<lparr>su_world := w\<rparr>))"

definition run_comprehensive_tests ::
    "('w, ReorgSimulationResult) suite_env \<Rightarrow> ('w, ReorgSimulationResult list) test" where
  "run_comprehensive_tests V s =
     ok_bind (test_simple_reorg V s) (\<lambda>s simple.
     ok_bind (test_deep_reorg V s) (\<lambda>s deep.
     ok_bind (test_reorg_with_pending_transactions V s) (\<lambda>s pending.
     ok_bind (test_multiple_competing_chains V s) (\<lambda>s competing.
     ok_bind (test_rapid_reorg_sequence V s) (\<lambda>s rapid.
       let results = [simple, deep, pending, competing, rapid]
       in ok_bind (generate_simulation_report V results s) (\<lambda>s _. answer (Inr results) s))))))"

text \<open>The program: the results of the tests that its argument names.\<close>

definition reorg_simulation ::
    "('w, ReorgSimulationResult) suite_env \<Rightarrow> string option \<Rightarrow> 'w \<Rightarrow> (string + ReorgSimulationResult list) run" where
  "reorg_simulation V arg w =
     (let test_type = (case arg of Some t \<Rightarrow> t | None \<Rightarrow> ''comprehensive'');
          one = (\<lambda>test s. run_bind (test s) (\<lambda>(s, r). Ret (res_bind r (\<lambda>x. Inr [x]))))
      in case snd (ReorgSimulationSuite_new V w) of
           Inl e \<Rightarrow> Ret (Inl e)
         | Inr s \<Rightarrow>
             if test_type = ''comprehensive'' then run_bind (run_comprehensive_tests V s) (\<lambda>(s, r). Ret r)
             else if test_type = ''simple'' then one (test_simple_reorg V) s
             else if test_type = ''deep'' then one (test_deep_reorg V) s
             else if test_type = ''transactions'' then one (test_reorg_with_pending_transactions V) s
             else Ret (Inr []))"

end
