(* ===== verification/Reorg_Facts.thy ===== *)
theory Reorg_Facts
  imports Reorg_Suite
begin

text \<open>
  What the reorganization suite reports. The simulator keeps its chains linked, with numbers from the genesis
  block on; the state manager answers the blocks of a chain with one event where they break its chain of
  headers. The five tests are run on these facts, for every clock and every random number.
\<close>

subsection \<open>What the steps do\<close>

text \<open>A step that only asks the world keeps the chains and the state manager.\<close>

lemma ask_returns:
  obtains s' x where "ask q s = Ret (s', Inr x)" "su_simulator s' = su_simulator s" "su_manager s' = su_manager s"
  by (cases "q (su_world s)") (simp add: ask_def)

lemma millis_since_returns:
  obtains s' x where "millis_since V start s = Ret (s', Inr x)" "su_simulator s' = su_simulator s"
    "su_manager s' = su_manager s"
proof -
  obtain s' x where "ask (rv_now V) s = Ret (s', Inr x)" "su_simulator s' = su_simulator s" "su_manager s' = su_manager s"
    by (rule ask_returns)
  then show ?thesis
    using that [of s' "f64_of_nat (elapsed x start div 1000000)"] by (simp add: millis_since_def answer_def)
qed

lemma test_result_returns:
  obtains s' x where "test_result V name chain chain' reorgs n latency time success s = Ret (s', Inr x)"
    "rr_success x = success" "rr_detected_reorgs x = reorgs" "rr_affected_transactions x = n"
    "su_manager s' = su_manager s"
proof -
  obtain s' utc where "ask (rv_utc V) s = Ret (s', Inr utc)" "su_simulator s' = su_simulator s" "su_manager s' = su_manager s"
    by (rule ask_returns)
  then show ?thesis
    using that [of s' "\<lparr>rr_simulation_name = name, rr_timestamp = utc, rr_original_chain = chain,
        rr_reorg_chain = chain', rr_detected_reorgs = reorgs, rr_affected_transactions = n,
        rr_detection_latency_ms = latency, rr_recovery_time_ms = time, rr_success = success\<rparr>"]
    by (simp add: test_result_def answer_def)
qed

text \<open>Blocks that follow each other from a parent on.\<close>

fun linked :: "BlockHeader \<Rightarrow> BlockHeader list \<Rightarrow> bool" where
  "linked p [] = True"
| "linked p (b # bs) = (extends p b \<and> bh_number b = bh_number p + 1 \<and> linked b bs)"

lemma linked_breaks: "linked p bs \<Longrightarrow> breaks p bs = []"
  by (induction p bs rule: linked.induct) simp_all

lemma mine_block_returns:
  assumes "hm_get (cs_chains (su_simulator s)) (cs_active_chain (su_simulator s)) = Some bs" and "bs \<noteq> []"
    and "cs_current_block_number (su_simulator s) = bh_number (List.last bs)"
    and "unat (bh_number (List.last bs)) < 2 ^ 64 - 1"
  obtains s' b where "mine_block V s = Ret (s', Inr b)" "extends (List.last bs) b"
    "bh_number b = bh_number (List.last bs) + 1" "su_manager s' = su_manager s"
    "su_simulator s' = su_simulator s
       \<lparr>cs_current_block_number := bh_number b,
        cs_chains := hm_modify (cs_active_chain (su_simulator s)) (\<lambda>chain. chain @ [b]) (cs_chains (su_simulator s))\<rparr>"
proof -
  obtain c cs where bs: "bs = c # cs"
    using assms(2) by (cases bs) auto
  let ?n = "bh_number (List.last bs) + 1"
  let ?s = "s\<lparr>su_simulator := (su_simulator s)\<lparr>cs_current_block_number := ?n\<rparr>\<rparr>"
  obtain s1 r where s1: "ask (rv_random V) ?s = Ret (s1, Inr r)" "su_simulator s1 = su_simulator ?s" "su_manager s1 = su_manager ?s"
    by (rule ask_returns)
  obtain s2 utc where s2: "ask (rv_utc V) s1 = Ret (s2, Inr utc)" "su_simulator s2 = su_simulator s1" "su_manager s2 = su_manager s1"
    by (rule ask_returns)
  define b where "b = BlockHeader_new (utc div 1000000000) ?n (padded_hex 16 (unat (?n * 1000 + ucast r))) (bh_hash (List.last bs))"
  let ?s' = "s2\<lparr>su_simulator := su_simulator s2
      \<lparr>cs_chains := hm_modify (cs_active_chain (su_simulator s2)) (\<lambda>chain. chain @ [b]) (cs_chains (su_simulator s2))\<rparr>\<rparr>"
  have "mine_block V s = Ret (?s', Inr b)"
    using assms(1,3) s1(1) s2(1) by (simp add: mine_block_def bs new_header_def answer_def Let_def b_def del: List.last.simps)
  moreover have "bh_number (List.last bs) < ?n"
    using assms(4) unat_plus_one_lt [of "bh_number (List.last bs)"] by (simp add: word_less_nat_alt)
  ultimately show ?thesis
    using s1(2,3) s2(2,3) by (intro that [of ?s' b]) (simp_all add: extends_def b_def BlockHeader_new_def)
qed

text \<open>The chain that is mined on: its blocks, the last of which is the current one.\<close>

definition active_is :: "'w suite \<Rightarrow> BlockHeader list \<Rightarrow> bool" where
  "active_is s bs \<longleftrightarrow>
     hm_get (cs_chains (su_simulator s)) (cs_active_chain (su_simulator s)) = Some bs \<and> bs \<noteq> [] \<and>
     cs_current_block_number (su_simulator s) = bh_number (List.last bs)"

definition other_chains_kept :: "string \<Rightarrow> 'w suite \<Rightarrow> 'w suite \<Rightarrow> bool" where
  "other_chains_kept name s s' \<longleftrightarrow>
     (\<forall>k. k \<noteq> name \<longrightarrow> hm_get (cs_chains (su_simulator s')) k = hm_get (cs_chains (su_simulator s)) k)"

lemma mine_block_active:
  assumes "active_is s bs" and "unat (bh_number (List.last bs)) < 2 ^ 64 - 1"
  obtains s' b where "mine_block V s = Ret (s', Inr b)" "linked (List.last bs) [b]" "su_manager s' = su_manager s"
    "active_is s' (bs @ [b])" "cs_active_chain (su_simulator s') = cs_active_chain (su_simulator s)"
    "other_chains_kept (cs_active_chain (su_simulator s)) s s'"
proof -
  obtain s' b where "mine_block V s = Ret (s', Inr b)" "extends (List.last bs) b"
    "bh_number b = bh_number (List.last bs) + 1" "su_manager s' = su_manager s"
    "su_simulator s' = su_simulator s
       \<lparr>cs_current_block_number := bh_number b,
        cs_chains := hm_modify (cs_active_chain (su_simulator s)) (\<lambda>chain. chain @ [b]) (cs_chains (su_simulator s))\<rparr>"
    using assms by (auto simp: active_is_def intro: mine_block_returns [of s bs V])
  with assms(1) show ?thesis
    by (intro that [of s' b]) (simp_all add: active_is_def other_chains_kept_def)
qed

lemma linked_append: "linked p (bs @ cs) \<longleftrightarrow> linked p bs \<and> linked (List.last (p # bs)) cs"
  by (induction p bs rule: linked.induct) auto

lemma mine_blocks_active:
  assumes "active_is s bs" and "unat (bh_number (List.last bs)) + n < 2 ^ 64"
  obtains s' cs where "mine_blocks V n s = Ret (s', Inr cs)" "linked (List.last bs) cs" "length cs = n"
    "su_manager s' = su_manager s" "active_is s' (bs @ cs)"
    "cs_active_chain (su_simulator s') = cs_active_chain (su_simulator s)"
    "other_chains_kept (cs_active_chain (su_simulator s)) s s'"
  using assms
proof (induction n arbitrary: s bs thesis)
  case 0
  then show ?case
    by (simp add: answer_def other_chains_kept_def)
next
  case (Suc n)
  from Suc.prems(3) have "unat (bh_number (List.last bs)) < 2 ^ 64 - 1"
    by simp
  with Suc.prems(2) obtain s1 b where one: "mine_block V s = Ret (s1, Inr b)" "linked (List.last bs) [b]"
      "su_manager s1 = su_manager s" "active_is s1 (bs @ [b])"
      "cs_active_chain (su_simulator s1) = cs_active_chain (su_simulator s)"
      "other_chains_kept (cs_active_chain (su_simulator s)) s s1"
    by (rule mine_block_active [where V = V])
  have "unat (bh_number (List.last bs) + 1) = Suc (unat (bh_number (List.last bs)))"
    using Suc.prems(3) by (intro unat_plus_one_lt) simp
  with one(2) Suc.prems(3) have "unat (bh_number (List.last (bs @ [b]))) + n < 2 ^ 64"
    by simp
  from Suc.IH [OF _ one(4) this] obtain s2 cs where rest: "mine_blocks V n s1 = Ret (s2, Inr cs)"
      "linked (List.last (bs @ [b])) cs" "length cs = n" "su_manager s2 = su_manager s1" "active_is s2 ((bs @ [b]) @ cs)"
      "cs_active_chain (su_simulator s2) = cs_active_chain (su_simulator s1)"
      "other_chains_kept (cs_active_chain (su_simulator s1)) s1 s2"
    by blast
  show ?case
  proof (rule Suc.prems(1))
    show "mine_blocks V (Suc n) s = Ret (s2, Inr (b # cs))"
      by (simp add: one(1) rest(1) answer_def)
  qed (use one rest in \<open>simp_all add: other_chains_kept_def\<close>)
qed

lemma on_chain_returns:
  assumes "active_is s bs" and "hm_get (cs_chains (su_simulator s)) name = Some fs" and "fs \<noteq> []"
    and "name \<noteq> cs_active_chain (su_simulator s)" and "unat (bh_number (List.last fs)) + n < 2 ^ 64"
  obtains s' cs where "mine_blocks_on_chain V name n s = Ret (s', Inr cs)" "linked (List.last fs) cs" "length cs = n"
    "su_manager s' = su_manager s" "active_is s' bs"
    "cs_active_chain (su_simulator s') = cs_active_chain (su_simulator s)"
    "other_chains_kept name s s'"
proof -
  let ?original = "cs_active_chain (su_simulator s)"
  obtain s1 where one: "switch_chain name s = Ret (s1, Inr ())" "active_is s1 fs" "su_manager s1 = su_manager s"
      "cs_active_chain (su_simulator s1) = name" "cs_chains (su_simulator s1) = cs_chains (su_simulator s)"
    using assms(2,3) by (simp add: switch_chain_def answer_def active_is_def)
  from one(2) assms(5) obtain s2 cs where two: "mine_blocks V n s1 = Ret (s2, Inr cs)" "linked (List.last fs) cs"
      "length cs = n" "su_manager s2 = su_manager s1" "active_is s2 (fs @ cs)"
      "cs_active_chain (su_simulator s2) = cs_active_chain (su_simulator s1)"
      "other_chains_kept (cs_active_chain (su_simulator s1)) s1 s2"
    by (rule mine_blocks_active [where V = V])
  have original: "hm_get (cs_chains (su_simulator s2)) ?original = Some bs"
    using assms(1,4) two(7) by (simp add: other_chains_kept_def one(4,5) active_is_def)
  let ?s = "s2\<lparr>su_simulator := su_simulator s2\<lparr>cs_active_chain := ?original, cs_current_block_number := bh_number (List.last bs)\<rparr>\<rparr>"
  have three: "switch_chain ?original s2 = Ret (?s, Inr ())"
    using assms(1) by (simp add: switch_chain_def original answer_def active_is_def)
  show ?thesis
  proof (rule that [of ?s cs])
    show "mine_blocks_on_chain V name n s = Ret (?s, Inr cs)"
      by (simp add: mine_blocks_on_chain_def one(1) two(1) three answer_def Let_def)
    show "other_chains_kept name s ?s"
      using two(7) by (simp add: other_chains_kept_def one(4,5))
  qed (use assms(1) one two original in \<open>simp_all add: active_is_def\<close>)
qed

lemma create_fork_returns:
  assumes "active_is s bs" and "cs_active_chain (su_simulator s) = ''main''" and "name \<noteq> ''main''"
    and "takeWhile (\<lambda>b. bh_number b \<le> point) bs \<noteq> []"
  obtains s' where "create_fork name point s = Ret (s', Inr ())" "su_manager s' = su_manager s" "active_is s' bs"
    "cs_active_chain (su_simulator s') = ''main''" "other_chains_kept name s s'"
    "hm_get (cs_chains (su_simulator s')) name = Some (takeWhile (\<lambda>b. bh_number b \<le> point) bs)"
  using assms by (simp add: create_fork_def answer_def active_is_def other_chains_kept_def Let_def)

subsection \<open>What the state manager reports\<close>

text \<open>An event of the state manager has depth one and no transactions, however deep the fork is.\<close>

definition shallow :: "ReorgEvent \<Rightarrow> bool" where
  "shallow e \<longleftrightarrow> re_depth e = 1 \<and> re_affected_transactions e = []"

lemma shallow_reorg_of [simp]: "shallow (reorg_of t a b)"
  by (simp add: shallow_def reorg_of_def)

lemma update_header_returns:
  assumes "sm_current_head (su_manager s) = Some h0"
  obtains s' utc where
    "update_header V h s = Ret (s', Inr (if extends h0 h then None else Some (reorg_of utc h0 h)))"
    "su_simulator s' = su_simulator s" "sm_current_head (su_manager s') = Some h"
    "sm_pending (su_manager s') = sm_pending (su_manager s)" "sm_config (su_manager s') = sm_config (su_manager s)"
    "sm_reorg_events (su_manager s') = sm_reorg_events (su_manager s) @ (if extends h0 h then [] else [reorg_of utc h0 h])"
proof -
  obtain s1 utc where s1: "ask (rv_utc V) s = Ret (s1, Inr utc)" "su_simulator s1 = su_simulator s" "su_manager s1 = su_manager s"
    by (rule ask_returns)
  let ?u = "update_block_header utc h (su_manager s)"
  have "update_header V h s = Ret (s1\<lparr>su_manager := fst ?u\<rparr>, Inr (snd ?u))"
    by (simp add: update_header_def s1 answer_def split_def Let_def)
  with assms s1 show ?thesis
    by (intro that [of "s1\<lparr>su_manager := fst ?u\<rparr>" utc]) (simp_all add: update_block_header_eq Let_def)
qed

lemma feed_returns:
  assumes "sm_current_head (su_manager s) = Some h0"
  obtains s' events where "feed V pause hs s = Ret (s', Inr events)" "su_simulator s' = su_simulator s"
    "sm_current_head (su_manager s') = Some (List.last (h0 # hs))" "length events = length (breaks h0 hs)"
    "list_all shallow events" "sm_pending (su_manager s') = sm_pending (su_manager s)"
    "sm_config (su_manager s') = sm_config (su_manager s)"
    "sm_reorg_events (su_manager s') = sm_reorg_events (su_manager s) @ events"
  using assms
proof (induction hs arbitrary: s h0 thesis)
  case Nil
  then show ?case
    by (simp add: answer_def)
next
  case (Cons h hs)
  from Cons.prems(2) obtain s1 utc where one:
      "update_header V h s = Ret (s1, Inr (if extends h0 h then None else Some (reorg_of utc h0 h)))"
      "su_simulator s1 = su_simulator s" "sm_current_head (su_manager s1) = Some h"
      "sm_pending (su_manager s1) = sm_pending (su_manager s)" "sm_config (su_manager s1) = sm_config (su_manager s)"
      "sm_reorg_events (su_manager s1) = sm_reorg_events (su_manager s) @ (if extends h0 h then [] else [reorg_of utc h0 h])"
    by (rule update_header_returns [where V = V and h = h])
  let ?s = "if pause = 0 then s1 else s1\<lparr>su_world := rv_sleep V pause (su_world s1)\<rparr>"
  have same: "su_simulator ?s = su_simulator s1" "su_manager ?s = su_manager s1"
    by simp_all
  have "sm_current_head (su_manager ?s) = Some h"
    by (simp add: one(3))
  from Cons.IH [OF _ this] obtain s2 events where two: "feed V pause hs ?s = Ret (s2, Inr events)"
      "su_simulator s2 = su_simulator ?s" "sm_current_head (su_manager s2) = Some (List.last (h # hs))"
      "length events = length (breaks h hs)" "list_all shallow events"
      "sm_pending (su_manager s2) = sm_pending (su_manager ?s)" "sm_config (su_manager s2) = sm_config (su_manager ?s)"
      "sm_reorg_events (su_manager s2) = sm_reorg_events (su_manager ?s) @ events"
    by blast
  let ?events = "(if extends h0 h then [] else [reorg_of utc h0 h]) @ events"
  show ?case
  proof (rule Cons.prems(1) [of s2 ?events])
    show "feed V pause (h # hs) s = Ret (s2, Inr ?events)"
      using two(1) by (simp add: one(1) answer_def Let_def)
  qed (use one two same in simp_all)
qed

text \<open>The blocks of another chain that starts at or below the head give one event, those that follow the head none.\<close>

lemma breaks_fork:
  assumes "linked q cs" and "cs \<noteq> []" and "bh_number (hd cs) \<le> bh_number h"
  shows "length (breaks h cs) = 1"
  using assms by (cases cs) (auto simp: linked_breaks extends_def)


text \<open>The main chain is active, and the state manager has its last block as the head.\<close>

definition tracks :: "'w suite \<Rightarrow> BlockHeader list \<Rightarrow> bool" where
  "tracks s bs \<longleftrightarrow>
     active_is s bs \<and> cs_active_chain (su_simulator s) = ''main'' \<and> sm_current_head (su_manager s) = Some (List.last bs)"

text \<open>What the state manager keeps besides its chain of headers.\<close>

definition same_rest :: "'w suite \<Rightarrow> 'w suite \<Rightarrow> bool" where
  "same_rest s s' \<longleftrightarrow>
     sm_pending (su_manager s') = sm_pending (su_manager s) \<and> sm_config (su_manager s') = sm_config (su_manager s)"

definition same_events :: "'w suite \<Rightarrow> 'w suite \<Rightarrow> bool" where
  "same_events s s' \<longleftrightarrow> sm_reorg_events (su_manager s') = sm_reorg_events (su_manager s)"

lemma same_trans:
  "same_rest s s' \<Longrightarrow> same_rest s' s'' \<Longrightarrow> same_rest s s''" "same_events s s' \<Longrightarrow> same_events s' s'' \<Longrightarrow> same_events s s''"
  by (simp_all add: same_rest_def same_events_def)

lemma start_chain_returns:
  assumes "cs_active_chain (su_simulator s) = ''main''"
  obtains s' g where "start_chain V s = Ret (s', Inr ())" "tracks s' [g]" "bh_number g = 0" "same_rest s s'" "same_events s s'"
proof -
  obtain s1 utc where s1: "ask (rv_utc V) s = Ret (s1, Inr utc)" "su_simulator s1 = su_simulator s" "su_manager s1 = su_manager s"
    by (rule ask_returns)
  define g where "g = BlockHeader_new (utc div 1000000000) 0 ''0x0000000000000000'' ''0x0000000000000000''"
  let ?s = "s1\<lparr>su_simulator := su_simulator s1
      \<lparr>cs_chains := hm_insert ''main'' [g] (cs_chains (su_simulator s1)), cs_current_block_number := 0\<rparr>,
      su_manager := initialize g (su_manager s1)\<rparr>"
  have "start_chain V s = Ret (?s, Inr ())"
    by (simp add: start_chain_def initialize_genesis_def new_header_def s1(1) answer_def g_def)
  moreover have "bh_number g = 0"
    by (simp add: g_def BlockHeader_new_def)
  ultimately show ?thesis
    using assms s1(2,3)
    by (intro that [of ?s g]) (simp_all add: tracks_def active_is_def same_rest_def same_events_def initialize_def)
qed

lemma mine_and_update_returns:
  assumes "tracks s bs" and "unat (bh_number (List.last bs)) < 2 ^ 64 - 1"
  obtains s' b where "mine_and_update V s = Ret (s', Inr b)" "linked (List.last bs) [b]" "tracks s' (bs @ [b])"
    "same_rest s s'" "same_events s s'"
proof -
  have "active_is s bs"
    using assms(1) by (simp add: tracks_def)
  from this assms(2) obtain s1 b where one: "mine_block V s = Ret (s1, Inr b)" "linked (List.last bs) [b]"
      "su_manager s1 = su_manager s" "active_is s1 (bs @ [b])"
      "cs_active_chain (su_simulator s1) = cs_active_chain (su_simulator s)"
      "other_chains_kept (cs_active_chain (su_simulator s)) s s1"
    by (rule mine_block_active [where V = V])
  have "sm_current_head (su_manager s1) = Some (List.last bs)"
    using assms(1) by (simp add: one(3) tracks_def)
  then obtain s2 utc where two:
      "update_header V b s1 = Ret (s2, Inr (if extends (List.last bs) b then None else Some (reorg_of utc (List.last bs) b)))"
      "su_simulator s2 = su_simulator s1" "sm_current_head (su_manager s2) = Some b"
      "sm_pending (su_manager s2) = sm_pending (su_manager s1)" "sm_config (su_manager s2) = sm_config (su_manager s1)"
      "sm_reorg_events (su_manager s2) = sm_reorg_events (su_manager s1) @
         (if extends (List.last bs) b then [] else [reorg_of utc (List.last bs) b])"
    by (rule update_header_returns [where V = V and h = b])
  show ?thesis
  proof (rule that [of s2 b])
    show "mine_and_update V s = Ret (s2, Inr b)"
      by (simp add: mine_and_update_def one(1) two(1) answer_def)
    show "same_events s s2"
      using one(2,3) two(6) by (simp add: same_events_def)
  qed (use assms(1) one two in \<open>simp_all add: tracks_def active_is_def same_rest_def\<close>)
qed

lemma mine_chain_returns:
  assumes "tracks s bs" and "unat (bh_number (List.last bs)) + n < 2 ^ 64"
  obtains s' cs where "mine_chain V n s = Ret (s', Inr cs)" "linked (List.last bs) cs" "length cs = n" "tracks s' (bs @ cs)"
    "same_rest s s'" "same_events s s'"
  using assms
proof (induction n arbitrary: s bs thesis)
  case 0
  then show ?case
    by (simp add: answer_def same_rest_def same_events_def)
next
  case (Suc n)
  from Suc.prems(3) have "unat (bh_number (List.last bs)) < 2 ^ 64 - 1"
    by simp
  with Suc.prems(2) obtain s1 b where one: "mine_and_update V s = Ret (s1, Inr b)" "linked (List.last bs) [b]"
      "tracks s1 (bs @ [b])" "same_rest s s1" "same_events s s1"
    by (rule mine_and_update_returns [where V = V])
  have "unat (bh_number (List.last bs) + 1) = Suc (unat (bh_number (List.last bs)))"
    using Suc.prems(3) by (intro unat_plus_one_lt) simp
  with one(2) Suc.prems(3) have "unat (bh_number (List.last (bs @ [b]))) + n < 2 ^ 64"
    by simp
  from Suc.IH [OF _ one(3) this] obtain s2 cs where rest: "mine_chain V n s1 = Ret (s2, Inr cs)"
      "linked (List.last (bs @ [b])) cs" "length cs = n" "tracks s2 ((bs @ [b]) @ cs)" "same_rest s1 s2" "same_events s1 s2"
    by blast
  show ?case
  proof (rule Suc.prems(1))
    show "mine_chain V (Suc n) s = Ret (s2, Inr (b # cs))"
      by (simp add: one(1) rest(1) answer_def)
  qed (use one rest same_trans in \<open>auto\<close>)
qed

text \<open>A fork of the main chain, the blocks mined on it, and what the state manager says to them.\<close>

lemma fork_returns:
  assumes "active_is s bs" and "cs_active_chain (su_simulator s) = ''main''" and "name \<noteq> ''main''"
    and "takeWhile (\<lambda>b. bh_number b \<le> point) bs = fs" and "fs \<noteq> []" and "unat (bh_number (List.last fs)) + n < 2 ^ 64"
  obtains s1 s2 cs where "create_fork name point s = Ret (s1, Inr ())" "mine_blocks_on_chain V name n s1 = Ret (s2, Inr cs)"
    "linked (List.last fs) cs" "length cs = n" "active_is s2 bs" "cs_active_chain (su_simulator s2) = ''main''"
    "su_manager s2 = su_manager s"
proof -
  obtain s1 where one: "create_fork name point s = Ret (s1, Inr ())" "su_manager s1 = su_manager s" "active_is s1 bs"
      "cs_active_chain (su_simulator s1) = ''main''" "other_chains_kept name s s1"
      "hm_get (cs_chains (su_simulator s1)) name = Some (takeWhile (\<lambda>b. bh_number b \<le> point) bs)"
    using assms(4,5) by (auto intro: create_fork_returns [OF assms(1-3)])
  then have "hm_get (cs_chains (su_simulator s1)) name = Some fs" "name \<noteq> cs_active_chain (su_simulator s1)"
    using assms(3,4) by simp_all
  from one(3) this(1) assms(5) this(2) assms(6) obtain s2 cs where two: "mine_blocks_on_chain V name n s1 = Ret (s2, Inr cs)"
      "linked (List.last fs) cs" "length cs = n" "su_manager s2 = su_manager s1" "active_is s2 bs"
      "cs_active_chain (su_simulator s2) = cs_active_chain (su_simulator s1)" "other_chains_kept name s1 s2"
    by (rule on_chain_returns [where V = V])
  show ?thesis
    by (rule that [OF one(1) two(1,2,3)]) (use one two in simp_all)
qed

text \<open>The blocks of a chain from block zero on have the numbers one, two and so on.\<close>

lemma linked_number: "linked p bs \<Longrightarrow> i < length bs \<Longrightarrow> bh_number (bs ! i) = bh_number p + word_of_nat (Suc i)"
proof (induction p bs arbitrary: i rule: linked.induct)
  case (2 p b bs)
  then show ?case
    by (cases i) (simp_all add: add.assoc)
qed simp

lemma fork_blocks:
  assumes "linked g cs" and "bh_number g = 0" and "length cs < 2 ^ 32" and "unat point \<le> length cs"
  defines "fs \<equiv> take (Suc (unat point)) (g # cs)"
  shows "takeWhile (\<lambda>b. bh_number b \<le> point) (g # cs) = fs" and "bh_number (List.last fs) = point" and "fs \<noteq> []"
proof -
  have number: "unat (bh_number (cs ! i)) = Suc i" if "i < length cs" for i
  proof -
    have "bh_number (cs ! i) = word_of_nat (Suc i)"
      using linked_number [OF assms(1) that] by (simp add: assms(2) del: of_nat_Suc)
    then show ?thesis
      using that assms(3) by (simp add: unat_word_of_nat del: of_nat_Suc)
  qed
  have numbers: "unat (bh_number ((g # cs) ! i)) = i" if "i < Suc (length cs)" for i
    using number [of "i - 1"] that assms(2) by (cases i) simp_all
  show "takeWhile (\<lambda>b. bh_number b \<le> point) (g # cs) = fs"
    unfolding fs_def using numbers [of "Suc (unat point)"]
    by (intro takeWhile_eq_take_P_nth) (simp_all add: word_le_nat_alt numbers)
  show "bh_number (List.last fs) = point"
  proof (cases "unat point")
    case 0
    then show ?thesis
      using assms(2) by (simp add: fs_def unat_eq_0)
  next
    case (Suc k)
    then have "List.last fs = cs ! k"
      using assms(4) by (simp add: fs_def take_Suc_conv_app_nth)
    moreover have "unat (bh_number (cs ! k)) = unat point"
      using number [of k] Suc assms(4) by simp
    ultimately show ?thesis
      by (simp add: word_unat_eq_iff)
  qed
  show "fs \<noteq> []"
    by (simp add: fs_def)
qed

text \<open>A fork that starts below the head gives one event, whatever its depth and its length.\<close>

lemma fork_detected:
  assumes "active_is s (g # cs)" and "cs_active_chain (su_simulator s) = ''main''" and "name \<noteq> ''main''"
    and "linked g cs" and "bh_number g = 0" and "length cs < 2 ^ 32" and "unat point \<le> length cs"
    and "0 < n" and "n < 2 ^ 32"
  obtains s1 s2 alts where "create_fork name point s = Ret (s1, Inr ())" "mine_blocks_on_chain V name n s1 = Ret (s2, Inr alts)"
    "length alts = n" "active_is s2 (g # cs)" "cs_active_chain (su_simulator s2) = ''main''" "su_manager s2 = su_manager s"
    "\<And>h. point < bh_number h \<Longrightarrow> length (breaks h alts) = 1" "point < bh_number (List.last alts)"
    "linked (List.last (take (Suc (unat point)) (g # cs))) alts"
proof -
  note fs = fork_blocks [OF assms(4-7)]
  let ?f = "List.last (take (Suc (unat point)) (g # cs))"
  have small: "unat point < 2 ^ 32"
    using assms(6,7) by simp
  have "unat (bh_number ?f) + n < 2 ^ 64"
    using small assms(9) unfolding fs(2) by simp
  with assms(1-3) fs(1,3) obtain s1 s2 alts where made: "create_fork name point s = Ret (s1, Inr ())"
      "mine_blocks_on_chain V name n s1 = Ret (s2, Inr alts)" "linked ?f alts" "length alts = n"
      "active_is s2 (g # cs)" "cs_active_chain (su_simulator s2) = ''main''" "su_manager s2 = su_manager s"
    by (rule fork_returns [where V = V])
  have first: "bh_number (hd alts) = point + 1" "alts \<noteq> []"
    using linked_number [OF made(3), of 0, unfolded fs(2)] made(4) assms(8) by (auto simp: hd_conv_nth)
  have next_number: "point + 1 \<le> bh_number h" if "point < bh_number h" for h
    using that by (simp add: inc_le)
  have "length (breaks h alts) = 1" if "point < bh_number h" for h
    using made(3) first next_number [OF that] by (intro breaks_fork) simp_all
  moreover have "bh_number (List.last alts) = point + word_of_nat n"
    using linked_number [OF made(3), of "n - 1", unfolded fs(2)] made(4) assms(8) first(2) by (simp add: last_conv_nth)
  then have "point < bh_number (List.last alts)"
    using small assms(8,9) by (simp add: word_less_nat_alt unat_word_ariths unat_word_of_nat)
  ultimately show ?thesis
    using made by (intro that [of s1 s2 alts]) simp_all
qed

subsection \<open>What the tests report\<close>

lemma simple_reorg_detected:
  assumes "cs_active_chain (su_simulator s) = ''main''" and "sm_reorg_events (su_manager s) = []"
  obtains s' r where "test_simple_reorg V s = Ret (s', Inr r)" "rr_success r" "length (rr_detected_reorgs r) = 1"
    "list_all shallow (rr_detected_reorgs r)" "same_rest s s'"
proof -
  obtain s0 t0 where e0: "ask (rv_now V) s = Ret (s0, Inr t0)" "su_simulator s0 = su_simulator s" "su_manager s0 = su_manager s"
    by (rule ask_returns)
  have "cs_active_chain (su_simulator s0) = ''main''"
    using assms(1) by (simp add: e0(2))
  then obtain s1 g where e1: "start_chain V s0 = Ret (s1, Inr ())" "tracks s1 [g]" "bh_number g = 0" "same_rest s0 s1"
      "same_events s0 s1"
    by (rule start_chain_returns [where V = V])
  have "unat (bh_number (List.last [g])) < 2 ^ 64 - 1"
    by (simp add: e1(3))
  with e1(2) obtain s2 b1 where e2: "mine_and_update V s1 = Ret (s2, Inr b1)" "linked (List.last [g]) [b1]"
      "tracks s2 ([g] @ [b1])" "same_rest s1 s2" "same_events s1 s2"
    by (rule mine_and_update_returns [where V = V])
  then have n1: "bh_number b1 = 1"
    by (simp add: e1(3))
  then have "unat (bh_number (List.last ([g] @ [b1]))) < 2 ^ 64 - 1"
    by simp
  with e2(3) obtain s3 b2 where e3: "mine_and_update V s2 = Ret (s3, Inr b2)" "linked (List.last ([g] @ [b1])) [b2]"
      "tracks s3 (([g] @ [b1]) @ [b2])" "same_rest s2 s3" "same_events s2 s3"
    by (rule mine_and_update_returns [where V = V])
  then have n2: "bh_number b2 = 2"
    by (simp add: n1)
  have "active_is s3 [g, b1, b2]" "cs_active_chain (su_simulator s3) = ''main''" "''alt'' \<noteq> ''main''"
      "takeWhile (\<lambda>b. bh_number b \<le> 1) [g, b1, b2] = [g, b1]" "[g, b1] \<noteq> []"
      "unat (bh_number (List.last [g, b1])) + 1 < 2 ^ 64"
    using e3(3) by (simp_all add: tracks_def e1(3) n1 n2 word_le_nat_alt)
  then obtain s4 s5 cs where e4: "create_fork ''alt'' 1 s3 = Ret (s4, Inr ())"
      "mine_blocks_on_chain V ''alt'' 1 s4 = Ret (s5, Inr cs)" "linked (List.last [g, b1]) cs" "length cs = 1"
      "active_is s5 [g, b1, b2]" "cs_active_chain (su_simulator s5) = ''main''" "su_manager s5 = su_manager s3"
    by (rule fork_returns [where V = V])
  then obtain a where cs: "cs = [a]" "bh_number a = 2"
    by (cases cs) (auto simp: n1)
  obtain s6 t6 where e6: "ask (rv_now V) s5 = Ret (s6, Inr t6)" "su_simulator s6 = su_simulator s5" "su_manager s6 = su_manager s5"
    by (rule ask_returns)
  have "sm_current_head (su_manager s6) = Some b2"
    using e3(3) by (simp add: e6(3) e4(7) tracks_def)
  then obtain s7 utc where e7: "update_header V a s6 = Ret (s7, Inr (if extends b2 a then None else Some (reorg_of utc b2 a)))"
      "su_simulator s7 = su_simulator s6" "sm_current_head (su_manager s7) = Some a"
      "sm_pending (su_manager s7) = sm_pending (su_manager s6)" "sm_config (su_manager s7) = sm_config (su_manager s6)"
      "sm_reorg_events (su_manager s7) = sm_reorg_events (su_manager s6) @ (if extends b2 a then [] else [reorg_of utc b2 a])"
    by (rule update_header_returns [where V = V])
  have no: "\<not> extends b2 a"
    by (simp add: extends_def cs(2) n2)
  obtain s8 l8 where e8: "millis_since V t6 s7 = Ret (s8, Inr l8)" "su_simulator s8 = su_simulator s7" "su_manager s8 = su_manager s7"
    by (rule millis_since_returns)
  obtain s9 l9 where e9: "millis_since V t0 s8 = Ret (s9, Inr l9)" "su_simulator s9 = su_simulator s8" "su_manager s9 = su_manager s8"
    by (rule millis_since_returns)
  have "sm_reorg_events (su_manager s6) = []"
    using assms(2) e1(5) e2(5) e3(5) by (simp add: same_events_def e6(3) e4(7) e0(3))
  then have events: "get_reorg_events 10 (su_manager s8) = [reorg_of utc b2 a]"
    using e7(6) no by (simp add: get_reorg_events_def e8(3))
  obtain s10 r where e10: "test_result V ''simple_reorg'' [b1, b2] [b1, a] [reorg_of utc b2 a] 0 l8 l9 True s9 = Ret (s10, Inr r)"
      "rr_success r = True" "rr_detected_reorgs r = [reorg_of utc b2 a]" "rr_affected_transactions r = 0"
      "su_manager s10 = su_manager s9"
    by (rule test_result_returns)
  show ?thesis
  proof (rule that [of s10 r])
    show "test_simple_reorg V s = Ret (s10, Inr r)"
      by (simp add: test_simple_reorg_def e0(1) e1(1) e2(1) e3(1) e4(1,2) cs(1) e6(1) e7(1) no e8(1) e9(1) events e10(1) Let_def
          del: One_nat_def)
    show "same_rest s s10"
      using e1(4) e2(4) e3(4) e4(7) e7(4,5) by (simp add: same_rest_def e0(3) e6(3) e8(3) e9(3) e10(5))
  qed (use e10 in simp_all)
qed

text \<open>The measured part of a test: one event, when the blocks that are fed break the chain once.\<close>

lemma measured_feed:
  assumes "sm_current_head (su_manager s) = Some h" and "length (breaks h alts) = 1"
  obtains s1 t s2 e s3 l s4 l' where "ask (rv_now V) s = Ret (s1, Inr t)" "feed V 0 alts s1 = Ret (s2, Inr [e])" "shallow e"
    "millis_since V t s2 = Ret (s3, Inr l)" "millis_since V t0 s3 = Ret (s4, Inr l')" "same_rest s s4"
proof -
  obtain s1 t where one: "ask (rv_now V) s = Ret (s1, Inr t)" "su_simulator s1 = su_simulator s" "su_manager s1 = su_manager s"
    by (rule ask_returns)
  have "sm_current_head (su_manager s1) = Some h"
    using assms(1) by (simp add: one(3))
  then obtain s2 events where two: "feed V 0 alts s1 = Ret (s2, Inr events)" "su_simulator s2 = su_simulator s1"
      "sm_current_head (su_manager s2) = Some (List.last (h # alts))" "length events = length (breaks h alts)"
      "list_all shallow events" "sm_pending (su_manager s2) = sm_pending (su_manager s1)"
      "sm_config (su_manager s2) = sm_config (su_manager s1)"
      "sm_reorg_events (su_manager s2) = sm_reorg_events (su_manager s1) @ events"
    by (rule feed_returns [where V = V])
  obtain s3 l where three: "millis_since V t s2 = Ret (s3, Inr l)" "su_simulator s3 = su_simulator s2" "su_manager s3 = su_manager s2"
    by (rule millis_since_returns)
  obtain s4 l' where four: "millis_since V t0 s3 = Ret (s4, Inr l')" "su_simulator s4 = su_simulator s3" "su_manager s4 = su_manager s3"
    by (rule millis_since_returns)
  obtain e where events: "events = [e]"
    using two(4) assms(2) by (cases events) auto
  show ?thesis
    by (rule that [OF one(1) two(1) [unfolded events] _ three(1) four(1)])
      (use two(5,6,7) in \<open>simp_all add: events same_rest_def one(3) three(3) four(3)\<close>)
qed

lemma reset_main: "cs_active_chain (su_simulator (reset_simulator s)) = ''main''" "same_rest s (reset_simulator s)"
  by (simp_all add: reset_simulator_def BlockchainSimulator_new_def same_rest_def)

lemma same_rest_manager: "su_manager s' = su_manager s \<Longrightarrow> same_rest s s'"
  by (simp add: same_rest_def)

lemma deep_reorg_detected:
  obtains s' r where "test_deep_reorg V s = Ret (s', Inr r)" "rr_success r" "length (rr_detected_reorgs r) = 1"
    "list_all shallow (rr_detected_reorgs r)" "same_rest s s'"
proof -
  obtain s0 t0 where e0: "ask (rv_now V) s = Ret (s0, Inr t0)" "su_simulator s0 = su_simulator s" "su_manager s0 = su_manager s"
    by (rule ask_returns)
  obtain s1 g where e1: "start_chain V (reset_simulator s0) = Ret (s1, Inr ())" "tracks s1 [g]" "bh_number g = 0"
      "same_rest (reset_simulator s0) s1" "same_events (reset_simulator s0) s1"
    by (rule start_chain_returns [OF reset_main(1), where V = V])
  have "unat (bh_number (List.last [g])) + 5 < 2 ^ 64"
    by (simp add: e1(3))
  with e1(2) obtain s2 cs where e2: "mine_chain V 5 s1 = Ret (s2, Inr cs)" "linked (List.last [g]) cs" "length cs = 5"
      "tracks s2 ([g] @ cs)" "same_rest s1 s2" "same_events s1 s2"
    by (rule mine_chain_returns [where V = V])
  let ?h = "List.last (g # cs)"
  have active: "active_is s2 (g # cs)" "cs_active_chain (su_simulator s2) = ''main''"
    and head: "sm_current_head (su_manager s2) = Some ?h"
    using e2(4) by (simp_all add: tracks_def)
  have "bh_number ?h = 5"
    using linked_number [of g cs 4] e2(2,3) by (cases cs rule: rev_cases) (auto simp: e1(3) nth_append)
  have "linked g cs" "length cs < 2 ^ 32" "unat (1 :: u64) \<le> length cs" "(0 :: nat) < 6" "(6 :: nat) < 2 ^ 32" "''deep_alt'' \<noteq> ''main''"
    using e2(2,3) by simp_all
  from fork_detected [OF active this(6,1) e1(3) this(2-5), where V = V]
  obtain s3 s4 alts where e3: "create_fork ''deep_alt'' 1 s2 = Ret (s3, Inr ())"
      "mine_blocks_on_chain V ''deep_alt'' 6 s3 = Ret (s4, Inr alts)" "su_manager s4 = su_manager s2"
      "\<And>h. 1 < bh_number h \<Longrightarrow> length (breaks h alts) = 1"
    by metis
  have one: "length (breaks ?h alts) = 1"
    by (rule e3(4)) (unfold \<open>bh_number ?h = 5\<close>, simp add: word_less_nat_alt)
  have "sm_current_head (su_manager s4) = Some ?h"
    using head by (simp add: e3(3))
  from this one obtain s5 t5 s6 e s7 l7 s8 l8 where e5: "ask (rv_now V) s4 = Ret (s5, Inr t5)"
      "feed V 0 alts s5 = Ret (s6, Inr [e])" "shallow e" "millis_since V t5 s6 = Ret (s7, Inr l7)"
      "millis_since V t0 s7 = Ret (s8, Inr l8)" "same_rest s4 s8"
    by (rule measured_feed)
  obtain b bs where cs: "cs = b # bs"
    using e2(3) by (cases cs) auto
  obtain s9 r where e9: "test_result V ''deep_reorg'' cs (b # alts) [e] 0 l7 l8 True s8 = Ret (s9, Inr r)"
      "rr_success r = True" "rr_detected_reorgs r = [e]" "rr_affected_transactions r = 0" "su_manager s9 = su_manager s8"
    by (rule test_result_returns)
  show ?thesis
  proof (rule that [of s9 r])
    show "test_deep_reorg V s = Ret (s9, Inr r)"
      using e9(1) by (simp add: test_deep_reorg_def e0(1) e1(1) e2(1) e3(1,2) e5(1,2,4,5) cs)
    show "same_rest s s9"
      using same_rest_manager [OF e0(3)] reset_main(2) [of s0] e1(4) e2(5) same_rest_manager [OF e3(3)] e5(6)
        same_rest_manager [OF e9(5)] by (metis same_trans(1))
  qed (use e5(3) e9 in simp_all)
qed

text \<open>The test transactions find room in the pool, so that recording them does not panic.\<close>

definition room :: "nat \<Rightarrow> 'w suite \<Rightarrow> bool" where
  "room k s \<longleftrightarrow>
     hm_wf (sm_pending (su_manager s)) \<and>
     hm_len (sm_pending (su_manager s)) + k \<le> unat (max_pending_transactions (sm_config (su_manager s)))"

definition same_head :: "'w suite \<Rightarrow> 'w suite \<Rightarrow> bool" where
  "same_head s s' \<longleftrightarrow>
     su_simulator s' = su_simulator s \<and> sm_current_head (su_manager s') = sm_current_head (su_manager s)"

lemma room_same_rest: "same_rest s s' \<Longrightarrow> room k s \<Longrightarrow> room k s'"
  by (simp add: room_def same_rest_def)

lemma update_pending_room:
  assumes "hm_wf (sm_pending m)" and "hm_len (sm_pending m) < unat (max_pending_transactions (sm_config m))"
  obtains m' where "update_pending_transaction utc h tx m = Ret m'" "hm_wf (sm_pending m')"
    "hm_len (sm_pending m') \<le> Suc (hm_len (sm_pending m))" "sm_config m' = sm_config m"
    "sm_current_head m' = sm_current_head m"
  using assms
  by (cases "hm_get (sm_pending m) h")
    (auto simp: update_pending_transaction_def Let_def hm_len_insert_new hm_len_insert_old)

lemma create_test_transactions_returns:
  obtains s' txs where "create_test_transactions V is s = Ret (s', Inr txs)" "length txs = length is"
    "su_simulator s' = su_simulator s" "su_manager s' = su_manager s"
proof (induction "is" arbitrary: s thesis)
  case (Cons i "is")
  obtain s1 t1 where one: "ask (rv_utc V) s = Ret (s1, Inr t1)" "su_simulator s1 = su_simulator s" "su_manager s1 = su_manager s"
    by (rule ask_returns)
  obtain s2 t2 where two: "ask (rv_utc V) s1 = Ret (s2, Inr t2)" "su_simulator s2 = su_simulator s1" "su_manager s2 = su_manager s1"
    by (rule ask_returns)
  from Cons.IH obtain s3 txs where "create_test_transactions V is s2 = Ret (s3, Inr txs)" "length txs = length is"
    "su_simulator s3 = su_simulator s2" "su_manager s3 = su_manager s2" by blast
  with one two show ?case
    by (intro Cons.prems [of s3 "test_transaction t1 t2 i # txs"]) (simp_all add: answer_def)
qed (simp add: answer_def)

lemma add_pending_returns:
  assumes "room (length txs) s"
  obtains s' where "add_pending V txs s = Ret (s', Inr ())" "same_head s s'" "room 0 s'"
  using assms
proof (induction txs arbitrary: s thesis)
  case (Cons tx txs)
  obtain s1 utc where one: "ask (rv_utc V) s = Ret (s1, Inr utc)" "su_simulator s1 = su_simulator s" "su_manager s1 = su_manager s"
    by (rule ask_returns)
  have "hm_wf (sm_pending (su_manager s1))"
      "hm_len (sm_pending (su_manager s1)) < unat (max_pending_transactions (sm_config (su_manager s1)))"
    using Cons.prems(2) by (simp_all add: room_def one(3))
  then obtain m where two: "update_pending_transaction utc (pt_hash tx) tx (su_manager s1) = Ret m" "hm_wf (sm_pending m)"
    "hm_len (sm_pending m) \<le> Suc (hm_len (sm_pending (su_manager s1)))" "sm_config m = sm_config (su_manager s1)"
    "sm_current_head m = sm_current_head (su_manager s1)"
    by (rule update_pending_room)
  then have "room (length txs) (s1\<lparr>su_manager := m\<rparr>)"
    using Cons.prems(2) by (simp add: room_def one(3))
  from Cons.IH [OF _ this] obtain s2 where three: "add_pending V txs (s1\<lparr>su_manager := m\<rparr>) = Ret (s2, Inr ())"
    "same_head (s1\<lparr>su_manager := m\<rparr>) s2" "room 0 s2" by blast
  then show ?case
    using two by (intro Cons.prems(1) [of s2]) (simp_all add: one two same_head_def)
qed (simp add: answer_def same_head_def room_def)

lemma pending_reorg_detected:
  assumes "room 5 s"
  obtains s' r where "test_reorg_with_pending_transactions V s = Ret (s', Inr r)" "rr_success r"
    "length (rr_detected_reorgs r) = 1" "list_all shallow (rr_detected_reorgs r)" "rr_affected_transactions r = 5"
proof -
  obtain s0 t0 where e0: "ask (rv_now V) s = Ret (s0, Inr t0)" "su_simulator s0 = su_simulator s" "su_manager s0 = su_manager s"
    by (rule ask_returns)
  obtain s1 g where e1: "start_chain V (reset_simulator s0) = Ret (s1, Inr ())" "tracks s1 [g]" "bh_number g = 0"
      "same_rest (reset_simulator s0) s1" "same_events (reset_simulator s0) s1"
    by (rule start_chain_returns [OF reset_main(1), where V = V])
  have "unat (bh_number (List.last [g])) < 2 ^ 64 - 1"
    by (simp add: e1(3))
  with e1(2) obtain s2 b1 where e2: "mine_and_update V s1 = Ret (s2, Inr b1)" "linked (List.last [g]) [b1]"
      "tracks s2 ([g] @ [b1])" "same_rest s1 s2" "same_events s1 s2"
    by (rule mine_and_update_returns [where V = V])
  then have n1: "bh_number b1 = 1"
    by (simp add: e1(3))
  obtain s3 txs where e3: "create_test_transactions V [0..<5] s2 = Ret (s3, Inr txs)" "length txs = length [0..<5 :: nat]"
      "su_simulator s3 = su_simulator s2" "su_manager s3 = su_manager s2"
    by (rule create_test_transactions_returns)
  have "same_rest s s3"
    using same_rest_manager [OF e0(3)] reset_main(2) [of s0] e1(4) e2(4) same_rest_manager [OF e3(4)] by (metis same_trans(1))
  then have "room (length txs) s3"
    using room_same_rest assms e3(2) by (metis diff_zero length_upt)
  then obtain s4 where e4: "add_pending V txs s3 = Ret (s4, Inr ())" "same_head s3 s4" "room 0 s4"
    by (rule add_pending_returns [where V = V])
  have "tracks s4 [g, b1]"
    using e2(3) e4(2) by (auto simp: tracks_def active_is_def same_head_def e3(3,4))
  moreover have "unat (bh_number (List.last [g, b1])) < 2 ^ 64 - 1"
    by (simp add: n1)
  ultimately obtain s5 b2 where e5: "mine_and_update V s4 = Ret (s5, Inr b2)" "linked (List.last [g, b1]) [b2]"
      "tracks s5 ([g, b1] @ [b2])" "same_rest s4 s5" "same_events s4 s5"
    by (rule mine_and_update_returns [where V = V])
  then have n2: "bh_number b2 = 2"
    by (simp add: n1)
  have active: "active_is s5 (g # [b1, b2])" "cs_active_chain (su_simulator s5) = ''main''"
    and head: "sm_current_head (su_manager s5) = Some b2"
    using e5(3) by (simp_all add: tracks_def)
  have "linked g [b1, b2]" "length [b1, b2] < 2 ^ 32" "unat (1 :: u64) \<le> length [b1, b2]" "(0 :: nat) < 2" "(2 :: nat) < 2 ^ 32"
      "''tx_alt'' \<noteq> ''main''"
    using e2(2) e5(2) by simp_all
  from fork_detected [OF active this(6,1) e1(3) this(2-5), where V = V]
  obtain s6 s7 alts where e6: "create_fork ''tx_alt'' 1 s5 = Ret (s6, Inr ())"
      "mine_blocks_on_chain V ''tx_alt'' 2 s6 = Ret (s7, Inr alts)" "su_manager s7 = su_manager s5"
      "\<And>h. 1 < bh_number h \<Longrightarrow> length (breaks h alts) = 1"
    by metis
  have one: "length (breaks b2 alts) = 1"
    by (rule e6(4)) (simp add: n2 word_less_nat_alt)
  have "sm_current_head (su_manager s7) = Some b2"
    using head by (simp add: e6(3))
  from this one obtain s8 t8 s9 e s10 l10 s11 l11 where e8: "ask (rv_now V) s7 = Ret (s8, Inr t8)"
      "feed V 0 alts s8 = Ret (s9, Inr [e])" "shallow e" "millis_since V t8 s9 = Ret (s10, Inr l10)"
      "millis_since V t0 s10 = Ret (s11, Inr l11)" "same_rest s7 s11"
    by (rule measured_feed)
  obtain s12 r where e12: "test_result V ''reorg_with_transactions'' [b1, b2] (b1 # alts) [e] (length txs) l10 l11 True s11
        = Ret (s12, Inr r)"
      "rr_success r = True" "rr_detected_reorgs r = [e]" "rr_affected_transactions r = length txs" "su_manager s12 = su_manager s11"
    by (rule test_result_returns)
  show ?thesis
  proof (rule that [of s12 r])
    show "test_reorg_with_pending_transactions V s = Ret (s12, Inr r)"
      using e12(1) by (simp add: test_reorg_with_pending_transactions_def e0(1) e1(1) e2(1) e3(1) e4(1) e5(1) e6(1,2)
          e8(1,2,4,5) del: upt.simps upt_rec_numeral)
  qed (use e3(2) e8(3) e12 in simp_all)
qed

text \<open>Three forks after the first block: the blocks of the first extend the head, so that only the second is an event.\<close>

lemma forks_of_block_one:
  assumes "tracks s [g, b1]" and "bh_number g = 0" and "bh_number b1 = 1"
  obtains s1 s2 s3 s4 s5 s6 as bs cs where
    "create_fork ''chain_a'' 1 s = Ret (s1, Inr ())" "create_fork ''chain_b'' 1 s1 = Ret (s2, Inr ())"
    "create_fork ''chain_c'' 1 s2 = Ret (s3, Inr ())" "mine_blocks_on_chain V ''chain_a'' 3 s3 = Ret (s4, Inr as)"
    "mine_blocks_on_chain V ''chain_b'' 4 s4 = Ret (s5, Inr bs)" "mine_blocks_on_chain V ''chain_c'' 2 s5 = Ret (s6, Inr cs)"
    "linked b1 as" "linked b1 bs" "length as = 3" "length bs = 4" "su_manager s6 = su_manager s"
proof -
  have active: "active_is s [g, b1]" "cs_active_chain (su_simulator s) = ''main''"
    using assms(1) by (simp_all add: tracks_def)
  have forked: "takeWhile (\<lambda>b. bh_number b \<le> 1) [g, b1] = [g, b1]"
    by (simp add: assms(2,3))
  have small: "unat (bh_number (List.last [g, b1])) + n < 2 ^ 64" if "n < 2 ^ 32" for n
    using that by (simp add: assms(3))
  have named: "''chain_a'' \<noteq> ''main''" "''chain_b'' \<noteq> ''main''" "''chain_c'' \<noteq> ''main''" by simp_all
  obtain s1 where e1: "create_fork ''chain_a'' 1 s = Ret (s1, Inr ())" "su_manager s1 = su_manager s" "active_is s1 [g, b1]"
      "cs_active_chain (su_simulator s1) = ''main''" "other_chains_kept ''chain_a'' s s1"
      "hm_get (cs_chains (su_simulator s1)) ''chain_a'' = Some [g, b1]"
    using create_fork_returns [OF active named(1), of 1] unfolding forked by blast
  obtain s2 where e2: "create_fork ''chain_b'' 1 s1 = Ret (s2, Inr ())" "su_manager s2 = su_manager s1" "active_is s2 [g, b1]"
      "cs_active_chain (su_simulator s2) = ''main''" "other_chains_kept ''chain_b'' s1 s2"
      "hm_get (cs_chains (su_simulator s2)) ''chain_b'' = Some [g, b1]"
    using create_fork_returns [OF e1(3,4) named(2), of 1] unfolding forked by blast
  obtain s3 where e3: "create_fork ''chain_c'' 1 s2 = Ret (s3, Inr ())" "su_manager s3 = su_manager s2" "active_is s3 [g, b1]"
      "cs_active_chain (su_simulator s3) = ''main''" "other_chains_kept ''chain_c'' s2 s3"
      "hm_get (cs_chains (su_simulator s3)) ''chain_c'' = Some [g, b1]"
    using create_fork_returns [OF e2(3,4) named(3), of 1] unfolding forked by blast
  have "hm_get (cs_chains (su_simulator s3)) ''chain_a'' = Some [g, b1]" "[g, b1] \<noteq> []"
      "''chain_a'' \<noteq> cs_active_chain (su_simulator s3)" "unat (bh_number (List.last [g, b1])) + 3 < 2 ^ 64"
    using e1(6) e2(5) e3(5) small [of 3] by (simp_all add: other_chains_kept_def e3(4))
  with e3(3) obtain s4 as where e4: "mine_blocks_on_chain V ''chain_a'' 3 s3 = Ret (s4, Inr as)"
      "linked (List.last [g, b1]) as" "length as = 3" "su_manager s4 = su_manager s3" "active_is s4 [g, b1]"
      "cs_active_chain (su_simulator s4) = cs_active_chain (su_simulator s3)" "other_chains_kept ''chain_a'' s3 s4"
    by (rule on_chain_returns [where V = V])
  have "hm_get (cs_chains (su_simulator s4)) ''chain_b'' = Some [g, b1]" "[g, b1] \<noteq> []"
      "''chain_b'' \<noteq> cs_active_chain (su_simulator s4)" "unat (bh_number (List.last [g, b1])) + 4 < 2 ^ 64"
    using e2(6) e3(5) e4(7) small [of 4] by (simp_all add: other_chains_kept_def e3(4) e4(6))
  with e4(5) obtain s5 bs where e5: "mine_blocks_on_chain V ''chain_b'' 4 s4 = Ret (s5, Inr bs)"
      "linked (List.last [g, b1]) bs" "length bs = 4" "su_manager s5 = su_manager s4" "active_is s5 [g, b1]"
      "cs_active_chain (su_simulator s5) = cs_active_chain (su_simulator s4)" "other_chains_kept ''chain_b'' s4 s5"
    by (rule on_chain_returns [where V = V])
  have "hm_get (cs_chains (su_simulator s5)) ''chain_c'' = Some [g, b1]" "[g, b1] \<noteq> []"
      "''chain_c'' \<noteq> cs_active_chain (su_simulator s5)" "unat (bh_number (List.last [g, b1])) + 2 < 2 ^ 64"
    using e3(6) e4(7) e5(7) small [of 2] by (simp_all add: other_chains_kept_def e3(4) e4(6) e5(6))
  with e5(5) obtain s6 cs where e6: "mine_blocks_on_chain V ''chain_c'' 2 s5 = Ret (s6, Inr cs)"
      "linked (List.last [g, b1]) cs" "length cs = 2" "su_manager s6 = su_manager s5" "active_is s6 [g, b1]"
      "cs_active_chain (su_simulator s6) = cs_active_chain (su_simulator s5)" "other_chains_kept ''chain_c'' s5 s6"
    by (rule on_chain_returns [where V = V])
  show ?thesis
    by (rule that [OF e1(1) e2(1) e3(1) e4(1) e5(1) e6(1)])
      (use e4 e5 in \<open>simp_all add: e1(2) e2(2) e3(2) e6(4)\<close>)
qed

lemma competing_chains_missed:
  obtains s' r where "test_multiple_competing_chains V s = Ret (s', Inr r)" "\<not> rr_success r"
    "length (rr_detected_reorgs r) = 1" "list_all shallow (rr_detected_reorgs r)"
proof -
  obtain s0 t0 where e0: "ask (rv_now V) s = Ret (s0, Inr t0)" "su_simulator s0 = su_simulator s" "su_manager s0 = su_manager s"
    by (rule ask_returns)
  obtain s1 g where e1: "start_chain V (reset_simulator s0) = Ret (s1, Inr ())" "tracks s1 [g]" "bh_number g = 0"
      "same_rest (reset_simulator s0) s1" "same_events (reset_simulator s0) s1"
    by (rule start_chain_returns [OF reset_main(1), where V = V])
  have "unat (bh_number (List.last [g])) < 2 ^ 64 - 1"
    by (simp add: e1(3))
  with e1(2) obtain s2 b1 where e2: "mine_and_update V s1 = Ret (s2, Inr b1)" "linked (List.last [g]) [b1]"
      "tracks s2 ([g] @ [b1])" "same_rest s1 s2" "same_events s1 s2"
    by (rule mine_and_update_returns [where V = V])
  then have n1: "bh_number b1 = 1"
    by (simp add: e1(3))
  have "tracks s2 [g, b1]" using e2(3) by simp
  from this e1(3) n1 obtain s3 s4 s5 s6 s7 s8 as bs cs where e3:
    "create_fork ''chain_a'' 1 s2 = Ret (s3, Inr ())" "create_fork ''chain_b'' 1 s3 = Ret (s4, Inr ())"
    "create_fork ''chain_c'' 1 s4 = Ret (s5, Inr ())" "mine_blocks_on_chain V ''chain_a'' 3 s5 = Ret (s6, Inr as)"
    "mine_blocks_on_chain V ''chain_b'' 4 s6 = Ret (s7, Inr bs)" "mine_blocks_on_chain V ''chain_c'' 2 s7 = Ret (s8, Inr cs)"
    "linked b1 as" "linked b1 bs" "length as = 3" "length bs = 4" "su_manager s8 = su_manager s2"
    by (rule forks_of_block_one [where V = V])
  obtain s9 t9 where e9: "ask (rv_now V) s8 = Ret (s9, Inr t9)" "su_simulator s9 = su_simulator s8" "su_manager s9 = su_manager s8"
    by (rule ask_returns)
  have "sm_current_head (su_manager s9) = Some b1"
    using e2(3) by (simp add: e9(3) e3(11) tracks_def)
  then obtain s10 ea where e10: "feed V 0 as s9 = Ret (s10, Inr ea)" "su_simulator s10 = su_simulator s9"
      "sm_current_head (su_manager s10) = Some (List.last (b1 # as))" "length ea = length (breaks b1 as)" "list_all shallow ea"
      "sm_pending (su_manager s10) = sm_pending (su_manager s9)" "sm_config (su_manager s10) = sm_config (su_manager s9)"
      "sm_reorg_events (su_manager s10) = sm_reorg_events (su_manager s9) @ ea"
    by (rule feed_returns [where V = V])
  have none: "ea = []"
    using e10(4) by (simp add: linked_breaks [OF e3(7)])
  have "bh_number (List.last (b1 # as)) = 4"
    using linked_number [OF e3(7), of 2] e3(9) by (cases as rule: rev_cases) (auto simp: n1 nth_append)
  moreover have "bh_number (hd bs) = 2" "bs \<noteq> []"
    using e3(8,10) by (cases bs; simp add: n1)+
  ultimately have one: "length (breaks (List.last (b1 # as)) bs) = 1"
    by (intro breaks_fork [OF e3(8)]) (simp_all add: word_le_nat_alt del: List.last.simps)
  from e10(3) obtain s11 eb where e11: "feed V 0 bs s10 = Ret (s11, Inr eb)" "su_simulator s11 = su_simulator s10"
      "sm_current_head (su_manager s11) = Some (List.last (List.last (b1 # as) # bs))"
      "length eb = length (breaks (List.last (b1 # as)) bs)" "list_all shallow eb"
      "sm_pending (su_manager s11) = sm_pending (su_manager s10)" "sm_config (su_manager s11) = sm_config (su_manager s10)"
      "sm_reorg_events (su_manager s11) = sm_reorg_events (su_manager s10) @ eb"
    by (rule feed_returns [where V = V])
  obtain s12 l12 where e12: "millis_since V t9 s11 = Ret (s12, Inr l12)" "su_simulator s12 = su_simulator s11" "su_manager s12 = su_manager s11"
    by (rule millis_since_returns)
  obtain s13 l13 where e13: "millis_since V t0 s12 = Ret (s13, Inr l13)" "su_simulator s13 = su_simulator s12" "su_manager s13 = su_manager s12"
    by (rule millis_since_returns)
  obtain s14 r where e14: "test_result V ''multiple_competing_chains'' [b1] (b1 # bs) eb 0 l12 l13 (2 \<le> length eb) s13 = Ret (s14, Inr r)"
      "rr_success r = (2 \<le> length eb)" "rr_detected_reorgs r = eb" "rr_affected_transactions r = 0" "su_manager s14 = su_manager s13"
    by (rule test_result_returns)
  show ?thesis
  proof (rule that [of s14 r])
    show "test_multiple_competing_chains V s = Ret (s14, Inr r)"
      using e14(1) by (simp add: test_multiple_competing_chains_def e0(1) e1(1) e2(1) e3(1-6) e9(1) e10(1) e11(1) e12(1) e13(1) none)
  qed (use one e11(4,5) e14(2,3) in simp_all)
qed

lemma rapid_name: "''rapid_'' @ dec_digits i \<noteq> ''main''"
  by simp

text \<open>Every round of forks after the second block is one event.\<close>

lemma rapid_rounds_detected:
  assumes "active_is s (g # cs)" and "cs_active_chain (su_simulator s) = ''main''" and "linked g cs" and "bh_number g = 0"
    and "length cs = 3" and "sm_current_head (su_manager s) = Some h" and "2 < bh_number h" and "2 \<le> length oc"
  obtains s' events final where "rapid_rounds V is oc fc s = Ret (s', Inr (events, final))" "length events = length is"
    "list_all shallow events"
  using assms(1,2,6,7)
proof (induction "is" arbitrary: s h fc thesis)
  case Nil
  then show ?case
    by (simp add: answer_def)
next
  case (Cons i "is")
  have "length cs < 2 ^ 32" "unat (2 :: u64) \<le> length cs" "(0 :: nat) < 2" "(2 :: nat) < 2 ^ 32"
    using assms(5) by simp_all
  from fork_detected [OF Cons.prems(2,3) rapid_name assms(3,4) this, where V = V]
  obtain s1 s2 alts where one: "create_fork (''rapid_'' @ dec_digits i) 2 s = Ret (s1, Inr ())"
      "mine_blocks_on_chain V (''rapid_'' @ dec_digits i) 2 s1 = Ret (s2, Inr alts)" "length alts = 2"
      "active_is s2 (g # cs)" "cs_active_chain (su_simulator s2) = ''main''" "su_manager s2 = su_manager s"
      "\<And>h. 2 < bh_number h \<Longrightarrow> length (breaks h alts) = 1" "2 < bh_number (List.last alts)"
    by metis
  have "sm_current_head (su_manager s2) = Some h"
    using Cons.prems(4) by (simp add: one(6))
  then obtain s3 events where two: "feed V (millis 10) alts s2 = Ret (s3, Inr events)" "su_simulator s3 = su_simulator s2"
      "sm_current_head (su_manager s3) = Some (List.last (h # alts))" "length events = length (breaks h alts)"
      "list_all shallow events" "sm_pending (su_manager s3) = sm_pending (su_manager s2)"
      "sm_config (su_manager s3) = sm_config (su_manager s2)"
      "sm_reorg_events (su_manager s3) = sm_reorg_events (su_manager s2) @ events"
    by (rule feed_returns [where V = V])
  have active: "active_is s3 (g # cs)" "cs_active_chain (su_simulator s3) = ''main''"
    and head: "sm_current_head (su_manager s3) = Some (List.last alts)"
    using one(3-5) two(2,3) by (auto simp: active_is_def)
  obtain s4 more final where three: "rapid_rounds V is oc (take 2 oc @ alts) s3 = Ret (s4, Inr (more, final))"
      "length more = length is" "list_all shallow more"
    using Cons.IH [OF _ active head one(8)] by blast
  show ?case
  proof (rule Cons.prems(1) [of s4 "events @ more" final])
    show "rapid_rounds V (i # is) oc fc s = Ret (s4, Inr (events @ more, final))"
      using one(1,2) assms(8) by (simp add: two(1) three(1) answer_def)
  qed (use one(7) [OF Cons.prems(5)] two(4,5) three(2,3) in simp_all)
qed

lemma rapid_reorgs_detected:
  obtains s' r where "test_rapid_reorg_sequence V s = Ret (s', Inr r)" "rr_success r"
    "length (rr_detected_reorgs r) = 5" "list_all shallow (rr_detected_reorgs r)"
proof -
  obtain s0 t0 where e0: "ask (rv_now V) s = Ret (s0, Inr t0)" "su_simulator s0 = su_simulator s" "su_manager s0 = su_manager s"
    by (rule ask_returns)
  obtain s1 g where e1: "start_chain V (reset_simulator s0) = Ret (s1, Inr ())" "tracks s1 [g]" "bh_number g = 0"
      "same_rest (reset_simulator s0) s1" "same_events (reset_simulator s0) s1"
    by (rule start_chain_returns [OF reset_main(1), where V = V])
  have "unat (bh_number (List.last [g])) + 3 < 2 ^ 64"
    by (simp add: e1(3))
  with e1(2) obtain s2 cs where e2: "mine_chain V 3 s1 = Ret (s2, Inr cs)" "linked (List.last [g]) cs" "length cs = 3"
      "tracks s2 ([g] @ cs)" "same_rest s1 s2" "same_events s1 s2"
    by (rule mine_chain_returns [where V = V])
  obtain s3 t3 where e3: "ask (rv_now V) s2 = Ret (s3, Inr t3)" "su_simulator s3 = su_simulator s2" "su_manager s3 = su_manager s2"
    by (rule ask_returns)
  let ?h = "List.last (g # cs)"
  have active: "active_is s3 (g # cs)" "cs_active_chain (su_simulator s3) = ''main''" "linked g cs"
    and head: "sm_current_head (su_manager s3) = Some ?h"
    using e2(2,4) by (auto simp: tracks_def active_is_def e3(2,3))
  have number: "bh_number ?h = 3"
    using linked_number [of g cs 2] e2(2,3) by (cases cs rule: rev_cases) (auto simp: e1(3) nth_append)
  have "2 < bh_number ?h"
    unfolding number by (simp add: word_less_nat_alt)
  moreover have "2 \<le> length cs"
    by (simp add: e2(3))
  ultimately obtain s4 events final where e4:
      "rapid_rounds V [0..<5] cs cs s3 = Ret (s4, Inr (events, final))" "length events = length [0..<5 :: nat]" "list_all shallow events"
    by (rule rapid_rounds_detected [OF active e1(3) e2(3) head, where V = V])
  obtain s5 l5 where e5: "millis_since V t3 s4 = Ret (s5, Inr l5)" "su_simulator s5 = su_simulator s4" "su_manager s5 = su_manager s4"
    by (rule millis_since_returns)
  obtain s6 l6 where e6: "millis_since V t0 s5 = Ret (s6, Inr l6)" "su_simulator s6 = su_simulator s5" "su_manager s6 = su_manager s5"
    by (rule millis_since_returns)
  obtain s7 r where e7: "test_result V ''rapid_reorg_sequence'' cs final events 0 l5 l6 (3 \<le> length events) s6 = Ret (s7, Inr r)"
      "rr_success r = (3 \<le> length events)" "rr_detected_reorgs r = events" "rr_affected_transactions r = 0" "su_manager s7 = su_manager s6"
    by (rule test_result_returns)
  show ?thesis
  proof (rule that [of s7 r])
    show "test_rapid_reorg_sequence V s = Ret (s7, Inr r)"
      using e7(1) by (simp add: test_rapid_reorg_sequence_def e0(1) e1(1) e2(1) e3(1) e4(1) e5(1) e6(1) del: upt.simps upt_rec_numeral)
  qed (use e4(2,3) e7(2,3) in simp_all)
qed

subsection \<open>The suite\<close>

text \<open>C40: The comprehensive run of a new suite reports, whatever the clocks and the random numbers are, that
  four of the five tests pass: the test of competing chains fails, because the first chain only extends the
  head and the switch to the second is one event where the test wants two. Every event has depth one, also
  that of the test of a deep reorganization, and names no transaction.
\<close>

theorem suite_passes_four_of_five:
  assumes "snd (ReorgSimulationSuite_new V w) = Inr s" and "\<forall>results w. snd (rv_write_report V results w) = Inr ()"
  shows "\<exists>s' results. run_comprehensive_tests V s = Ret (s', Inr results) \<and>
    map rr_success results = [True, True, True, False, True] \<and>
    map (\<lambda>r. length (rr_detected_reorgs r)) results = [1, 1, 1, 1, 5] \<and>
    list_all (\<lambda>r. list_all shallow (rr_detected_reorgs r)) results"
proof -
  have new: "cs_active_chain (su_simulator s) = ''main''" "sm_reorg_events (su_manager s) = []" "room 5 s"
    using assms(1) by (auto simp: ReorgSimulationSuite_new_def BlockchainSimulator_new_def StateManager_new_def room_def
        suite_config_def hm_empty_def hm_wf_def hm_len_def split: prod.splits)
  obtain s1 r1 where t1: "test_simple_reorg V s = Ret (s1, Inr r1)" "rr_success r1" "length (rr_detected_reorgs r1) = 1"
      "list_all shallow (rr_detected_reorgs r1)" "same_rest s s1"
    by (rule simple_reorg_detected [OF new(1,2), where V = V])
  obtain s2 r2 where t2: "test_deep_reorg V s1 = Ret (s2, Inr r2)" "rr_success r2" "length (rr_detected_reorgs r2) = 1"
      "list_all shallow (rr_detected_reorgs r2)" "same_rest s1 s2"
    by (rule deep_reorg_detected [where V = V])
  have "room 5 s2"
    using room_same_rest new(3) t1(5) t2(5) by blast
  then obtain s3 r3 where t3: "test_reorg_with_pending_transactions V s2 = Ret (s3, Inr r3)" "rr_success r3"
      "length (rr_detected_reorgs r3) = 1" "list_all shallow (rr_detected_reorgs r3)" "rr_affected_transactions r3 = 5"
    by (rule pending_reorg_detected [where V = V])
  obtain s4 r4 where t4: "test_multiple_competing_chains V s3 = Ret (s4, Inr r4)" "\<not> rr_success r4"
      "length (rr_detected_reorgs r4) = 1" "list_all shallow (rr_detected_reorgs r4)"
    by (rule competing_chains_missed [where V = V])
  obtain s5 r5 where t5: "test_rapid_reorg_sequence V s4 = Ret (s5, Inr r5)" "rr_success r5"
      "length (rr_detected_reorgs r5) = 5" "list_all shallow (rr_detected_reorgs r5)"
    by (rule rapid_reorgs_detected [where V = V])
  let ?results = "[r1, r2, r3, r4, r5]"
  obtain w' where "rv_write_report V ?results (su_world s5) = (w', Inr ())"
    using assms(2) by (metis prod.collapse)
  then have "run_comprehensive_tests V s = Ret (s5\<lparr>su_world := w'\<rparr>, Inr ?results)"
    by (simp add: run_comprehensive_tests_def t1(1) t2(1) t3(1) t4(1) t5(1) generate_simulation_report_def answer_def)
  then show ?thesis
    using t1(2-4) t2(2-4) t3(2-4) t4(2-4) t5(2-4) by simp
qed

text \<open>A world without clocks and chance.\<close>

definition demo_suite_env :: "(unit, ReorgSimulationResult) suite_env" where
  "demo_suite_env =
     \<lparr>rv_random = (\<lambda>w. (w, 7)), rv_utc = (\<lambda>w. (w, 0)), rv_now = (\<lambda>w. (w, 0)), rv_sleep = (\<lambda>d w. w),
      rv_open_database = (\<lambda>path w. (w, Inr ())), rv_write_report = (\<lambda>results w. (w, Inr ()))\<rparr>"

theorem suite_passes_four_of_five_witness:
  "\<exists>s s' results. snd (ReorgSimulationSuite_new demo_suite_env ()) = Inr s \<and>
     run_comprehensive_tests demo_suite_env s = Ret (s', Inr results) \<and>
     map rr_success results = [True, True, True, False, True]"
proof -
  have "\<exists>s. snd (ReorgSimulationSuite_new demo_suite_env ()) = Inr s"
    by (simp add: ReorgSimulationSuite_new_def demo_suite_env_def)
  then obtain s where "snd (ReorgSimulationSuite_new demo_suite_env ()) = Inr s" ..
  moreover from suite_passes_four_of_five [OF this] show ?thesis
    using calculation by (fastforce simp: demo_suite_env_def)
qed

text \<open>The pending transactions that the report counts as affected are in no event.\<close>

lemma pending_test_counts_unaffected:
  assumes "room 5 s" and "test_reorg_with_pending_transactions V s = Ret (s', Inr r)"
  shows "rr_affected_transactions r = 5 \<and> concat (map re_affected_transactions (rr_detected_reorgs r)) = []"
proof -
  obtain s1 r1 where "test_reorg_with_pending_transactions V s = Ret (s1, Inr r1)" "rr_affected_transactions r1 = 5"
      "list_all shallow (rr_detected_reorgs r1)"
    by (rule pending_reorg_detected [OF assms(1), where V = V])
  with assms(2) show ?thesis
    by (auto simp: list_all_iff shallow_def)
qed

end
