(* ===== verification/Spec2Isabelle.thy ===== *)
theory Spec2Isabelle
  imports
    Submission_Facts Rpc_Facts Ws_Facts Ws_Config
    Failure_Handler State_Manager Tracker_Facts
    Engine_Facts Strategy_Config Optimizer_Facts Rpc_Client
    Decision_Manager Latency_Monitor Decoder_Facts Victim_Facts Dry_Run_Facts
    Mempool_Facts Buffer_Facts Filter_Config Service_Facts
    Detector_Facts Trade_Adapter Manager_Facts
    Health_Facts Bot_Facts Persistence_Facts Cpu_Pinning
    Sim_Service Sim_Benchmark Reorg_Facts
begin

text \<open>
  A verification library for the MEV bot of this repository (a Rust workspace of crates under
  \<open>crates/\<close>).

  \<^bold>\<open>The program.\<close> The bot watches pending Ethereum transactions (\<open>mev-mempool\<close>) and HyperLiquid market
  data (\<open>mev-hyperliquid\<close>), looks for opportunities (\<open>mev-strategies\<close>), and builds, submits and follows
  bundles of transactions (\<open>mev-core\<close>). The library models the parts that carry state and decide what
  happens when something fails; each definition is translated from the source.

  \<^bold>\<open>Foundations.\<close>
  \<^item> \<open>Prelude\<close>: machine integers as words, clock readings, computations that may panic.
  \<^item> \<open>Rust_Std\<close>: number parsing and formatting, prefixes, slices, as the standard library documents them;
    a formatted hexadecimal number is read back unchanged (\<open>parse_format_hex\<close>).
  \<^item> \<open>F64\<close>: \<open>f64\<close> as IEEE 754 binary64 over exact rationals: arithmetic, comparison, casts, \<open>parse::<f64>\<close>;
    when rounding is exact (\<open>f64_round_exact\<close>) and how far it can be off (\<open>f64_round_error\<close>).
    \<open>F64_Text\<close>: the shortest decimal text of a value, as \<open>to_string\<close> and \<open>{:?}\<close> print it. \<open>F64_Order\<close>:
    rounding is monotone, and a ratio of counts is between zero and one. \<open>Hex_Text\<close>: bytes as text and numbers.
  \<^item> \<open>Hash_Map\<close>: \<open>HashMap\<close> as an association list with distinct keys; the locale \<open>key_store\<close> states what
    its clients rely on and is interpreted on it.
  \<^item> \<open>Interfaces\<close>: two locales. A counter that trips at a limit (\<open>trip_counter\<close>) is interpreted by the circuit
    breaker and by the reconnection state; a bounded queue that drops its oldest element (\<open>bounded_fifo\<close>) by
    the message queue. \<open>last_n\<close> is also the header history of the state manager.
    The accessors of \<open>serde_json::Value\<close> are a record there, which the definitions take.

  \<^bold>\<open>HyperLiquid\<close> (\<open>crates/mev-hyperliquid/src\<close>).
  \<^item> \<open>Circuit_Breaker\<close> (\<open>rpc_service.rs\<close>): the three atomics, refined to an abstract breaker.
  \<^item> \<open>Rpc_Service\<close>, \<open>Rpc_Facts\<close> (\<open>rpc_service.rs\<close>): the retry loop, polling, submission, confirmation. The
    node, the clocks and the timers are a world of type \<open>'w\<close> that every awaited call takes and returns.
  \<^item> \<open>Hl_Types\<close> (\<open>types.rs\<close>), \<open>Hl_Parser\<close> (\<open>parser.rs\<close>): the messages of the exchange, from their
    text to validated data.
  \<^item> \<open>Ws_State\<close> (\<open>websocket.rs\<close>, \<open>types.rs\<close>): subscription and reconnection state, backoff, message queue.
  \<^item> \<open>Ws_Service\<close>, \<open>Ws_Facts\<close> (\<open>websocket.rs\<close>): subscribing, message handling, the event loop and the
    reconnection loop. The socket and the channel are arguments.
  \<^item> \<open>Ws_Config\<close> (\<open>config.rs\<close>, \<open>websocket.rs\<close>): validation and construction of the service.
  \<^item> \<open>Opportunity_Detector\<close>, \<open>Detector_Facts\<close> (\<open>opportunity_detector.rs\<close>): market data and state updates to
    opportunities, with the floating-point spread and its accuracy.
  \<^item> \<open>Trade_Adapter\<close> (\<open>adapter.rs\<close>): trades as swaps of token amounts.
  \<^item> \<open>Service_Manager\<close>, \<open>Manager_Facts\<close> (\<open>service_manager.rs\<close>, \<open>rpc_service.rs\<close>): construction, forwarding of
    messages, and the system of the two background tasks and \<open>stop\<close> as a step relation.

  \<^bold>\<open>Core\<close> (\<open>crates/mev-core/src\<close>).
  \<^item> \<open>Failure_Handler\<close> (\<open>bundle/failure_handler.rs\<close>): resolutions, kill switch, rollbacks,
    checklist; the calls in progress as a step relation whose steps are the sections under one lock.
  \<^item> \<open>State_Manager\<close> (\<open>state_manager.rs\<close>): header chain, reorganizations, pending transactions, nonces.
  \<^item> \<open>Bundle_Types\<close> (\<open>bundle/types.rs\<close>, \<open>bundle/mod.rs\<close>): bundles and their totals.
  \<^item> \<open>Execution_Tracker\<close>, \<open>Tracker_Facts\<close> (\<open>bundle/execution_tracker.rs\<close>): inclusion checks, transaction
    order, the monitoring round.
  \<^item> \<open>Sim_Types\<close>, \<open>Simulator\<close>, \<open>Simulator_Facts\<close> (\<open>simulation.rs\<close>): bundles, their simulation on a node that
    is a record of operations, and what the result says of them.
  \<^item> \<open>Rpc_Client\<close> (\<open>rpc_client.rs\<close>): the health of the endpoints, which the health check and other
    clients write too, the choice of one, retries.
  \<^item> \<open>Sim_Optimizer\<close>, \<open>Optimizer_Facts\<close> (\<open>simulation_optimizer.rs\<close>): batches of simulations over the client, the
    account pool, the safety checks and the tracker; tasks that run at the same time run one after another here.
  \<^item> \<open>Sim_Service\<close> (\<open>grpc_service.rs\<close>, \<open>proto/simulation.proto\<close>, the handlers of \<open>simulation.rs\<close>): requests as
    bundles of the engine and results as messages; a bundle that is written and read comes back, and a batch
    is the batch of the engine on the bundles that can be read.
  \<^item> \<open>Sim_Benchmark\<close> (\<open>simulation_benchmark.rs\<close>): the throughput benchmark over the optimizer. Its loops over
    the clock end when time passes (\<open>bench_loop_returns\<close>); batches without an answer are missing in the total.
  \<^item> \<open>Reorg_Suite\<close>, \<open>Reorg_Facts\<close> (\<open>bin/reorg-simulation.rs\<close>): a simulator of forked chains and five tests of the
    state manager; what they report for every clock and every random number.
  \<^item> \<open>Strategy_Types\<close> (\<open>strategy_types.rs\<close>): opportunities and the mock strategy engine.
  \<^item> \<open>Latency_Histogram\<close> (\<open>metrics.rs\<close>), \<open>Latency_Monitor\<close> (\<open>latency_monitor.rs\<close>): the samples, what
    is evicted when they are read, and the rates reported.
  \<^item> \<open>Decision_Path\<close>, \<open>Decision_Facts\<close> (\<open>decision_path.rs\<close>): the stages between four channels; a step relation of
    workers that interleave, over every channel that keeps its documented promises; a worker that waits for an
    element does not see a shutdown. \<open>Decision_Manager\<close>
    (\<open>decision_path_manager.rs\<close>): its counters.
  \<^item> \<open>Core_Abi\<close> (\<open>abi_decoder.rs\<close>): the core's decoder of calldata and the binary client. \<open>Decoder_Facts\<close>
    compares it with the two decoders of the mempool.
  \<^item> \<open>Victim_Generator\<close>, \<open>Victim_Facts\<close> (\<open>bundle/victim_generator.rs\<close>): the victims' swaps, their signing and
    submission, and the scenarios. \<open>Dry_Run\<close>, \<open>Dry_Run_Facts\<close> (\<open>bundle/mainnet_dry_run.rs\<close>): the phases of the
    dry run over the submitter and the tracker, whose monitor works while the dry run sleeps.
  \<^item> \<open>Key_Manager\<close> (\<open>bundle/key_manager.rs\<close>): loaded wallets and encrypted key files; a file that was
    created is read back (\<open>key_file_roundtrip\<close>).
  \<^item> \<open>Tx_Signer\<close> (\<open>bundle/signer.rs\<close>), \<open>Bundle_Builder\<close> (\<open>bundle/builder.rs\<close>), \<open>Bundle_Facts\<close>: nonces,
    signing, the strategy builders and the construction of a bundle.
  \<^item> \<open>Bundle_Submitter\<close> (\<open>bundle/submitter.rs\<close>), \<open>Submission_Facts\<close>: the submission paths, the race of two
    of them under a schedule of responses, resubmission, and what becomes of a bundle of the builder.

  \<^item> \<open>Persistence\<close>, \<open>Persistence_Facts\<close> (\<open>persistence.rs\<close>): the tables of the SQLite store, what is read back
    from them, whatever the order in which the database comes across the rows, and what a clean-up leaves. \<open>Cpu_Pinning\<close> (\<open>cpu_pinning.rs\<close>): the cores dealt out to workers.
  \<^item> \<open>Health_Check\<close>, \<open>Health_Facts\<close> (\<open>monitoring/health.rs\<close>, \<open>monitoring/mod.rs\<close>): registered checks, rounds and
    the endpoints, over any checks and over the four built-in ones.

  \<^bold>\<open>Mempool\<close> (\<open>crates/mev-mempool/src\<close>).
  \<^item> \<open>Tx_Types\<close> (\<open>mev-core/src/types.rs\<close>), \<open>Tx_Parser\<close> (\<open>abi_decoder.rs\<close>, \<open>parser.rs\<close>):
    from JSON to a classified transaction. \<open>Optimized_Decoder\<close> (\<open>optimized_abi_decoder.rs\<close>): the cached
    signatures, the pool of buffers and the statistics of the byte decoder.
  \<^item> \<open>Tx_Filters\<close>, \<open>Mempool_Facts\<close> (\<open>filters.rs\<close>): rules, limiters, statistics, and the default rules applied
    to what the parser makes. \<open>Filter_Config\<close> (\<open>filter_config.rs\<close>): the files the rules come from.
  \<^item> \<open>Ring_Buffer\<close>, \<open>Buffer_Facts\<close> (\<open>ring_buffer.rs\<close>, \<open>backpressure.rs\<close>): the two buffers over a queue and a
    channel that keep their documented promises, in every interleaving of producers and consumers.
  \<^item> \<open>Mempool_Service\<close>, \<open>Service_Facts\<close> (\<open>lib.rs\<close>, \<open>websocket.rs\<close>): polling and subscription, the hashes already
    seen, and the loops of the three modes.

  \<^bold>\<open>Strategies\<close> (\<open>crates/mev-strategies/src\<close>).
  \<^item> \<open>Mev_Strategy\<close> (\<open>strategy_types.rs\<close>): opportunities, plans, configuration, the trait as a record of
    operations over any type of strategies, statistics and scores.
  \<^item> \<open>Swap_Strategies\<close>, \<open>Swap_Facts\<close> (\<open>arbitrage.rs\<close>, \<open>backrun.rs\<close>, \<open>sandwich.rs\<close>, \<open>liquidation.rs\<close>): the
    four strategies with their floating-point estimates, what they report and what their plans pay.
  \<^item> \<open>Strategy_Engine\<close>, \<open>Engine_Facts\<close> (\<open>strategy_engine.rs\<close>): evaluation in parallel and in sequence, the
    caches, and what can be planned, over all reachable engines.
  \<^item> \<open>Strategy_Config\<close> (\<open>config_manager.rs\<close>): configuration files, their warnings and their reloading.

  \<^bold>\<open>The bot\<close> (\<open>crates/mev-bot/src/main.rs\<close>, \<open>crates/mev-config/src/lib.rs\<close>).
  \<^item> \<open>Bot_Config\<close>: loading and validating the configuration. \<open>Mev_Bot\<close>: the start, which builds the service
    manager, the adapter and the engine of the other theories, the two processors, and the end.
    \<open>Bot_Facts\<close>: how a start can fail, and what the composed system does with trades and shutdowns.

  \<^bold>\<open>Conventions.\<close> An operation that holds one lock for its whole work is one step. The calls of the failure
  handler release their locks in between, so a call is a sequence of sections that others may come between;
  the tasks of the service manager, the workers of the decision path and the users of the two buffers are step relations
  or interleavings; and a call of the RPC client takes in, before and after each of its requests, what the health check
  and other clients have recorded. The other theories follow one caller at a time. Reading
  a clock is an argument or an action of the world. Integers keep their width and wrap, as in the release
  profile. \<open>unwrap\<close> and slices that can panic return \<open>Panic\<close>. Log output and Prometheus metrics are left
  out.

  \<^bold>\<open>Loops and fuel.\<close> Loops that may run for ever take a number of rounds (\<open>message_loop\<close>, \<open>ws_start\<close>,
  \<open>confirm_loop\<close>, \<open>polling_rounds\<close>, \<open>monitoring_rounds\<close>, \<open>polling_mode\<close>, \<open>monitor_loop\<close>, \<open>websocket_mode\<close>); \<open>wait_for_confirmation_returns\<close> shows how many
  are enough for the confirmation loop and \<open>dry_run_ends\<close> that 31 are for the wait of a dry run (\<open>wait_rounds\<close>);
  the facts on the others hold for every number. The loops of
  the benchmark over the clock are partial functions that are shown to end when time passes. The remaining
  loops are structural or have a measure.

  \<^bold>\<open>What the properties show.\<close> Refinement of the circuit breaker and its thresholds; attempts, pauses and
  outcome of the retry loop; the limits on subscription attempts; delivery in order; invariants of the
  failure handler, the state manager and the filter engine over all reachable states; soundness of
  inclusion and of the ordering test; and a number of behaviours that differ from what the code documents,
  each as a theorem: polling that never resumes after the breaker opens, failures that are never reset,
  duplicate submissions, a \<open>stop\<close> that never returns, infinite prices reported as opportunities, bundles that
  cannot be submitted as built, resubmissions that send the old bytes, inclusions that clients cannot observe, a buffer
  that holds one transaction, a default strategy engine that never calls its strategies, a panic on expired transactions, a
  spam rule that drops every transaction written in hexadecimal, a failing endpoint that a call stays on,
  transactions abandoned by a shutdown, victims whose swaps are transfers, a dry run that cannot see
  an inclusion, a bot that finds nothing and does not exit, a system that is ready before it has been checked, and
  a test suite of which one test fails on every run.

  \<^bold>\<open>Not modelled.\<close> Prometheus metrics, dashboards and log set-up (export to third-party libraries), the
  cryptography behind wallets and key files (third party, a parameter), the fork simulation (an external
  node), the test programs and examples other than the reorganization suite. \<open>bundle/submission.rs\<close> and \<open>optimization.rs\<close> are not part of the crate.
\<close>

end
